(* ===== verification/Prelude.thy ===== *)
theory Prelude
  imports Main "HOL-Library.Sublist"
begin

text \<open>
  Shared vocabulary of the development: byte strings and the C-locale character classes the
  C++ sources use, unsigned 64-bit arithmetic with its wrap-around written out, decimal
  printing, substring search, and the list lemmas the buffer proofs rest on.

  A \<open>std::string\<close> is a \<^typ>\<open>string\<close>, a list of 8-bit characters. A \<open>std::uint64_t\<close> (or a
  \<open>std::size_t\<close> whose value a client chooses freely) is a natural number below \<open>2 ^ 64\<close>; the
  operations that can wrap around are \<open>u64_add\<close> and \<open>u64_sub\<close>. A \<open>std::size_t\<close> that is the
  size of an object in memory is a plain natural number. A \<open>std::int64_t\<close> timestamp is an
  integer: its overflow is undefined behaviour of the source and no clock reaches it.
\<close>

section \<open>Collections of rewrite rules\<close>

named_theorems u64_simps "exactness of 64-bit arithmetic inside its range"
named_theorems buffer_simps "field equations of the bounded buffers"
named_theorems record_simps "field equations of session records and runtimes"

section \<open>Unsigned 64-bit arithmetic\<close>

type_synonym u64 = nat
type_synonym u16 = nat
type_synonym unix_ms = int

abbreviation (input) u64_modulus :: nat where
  "u64_modulus \<equiv> 18446744073709551616"

definition u64_add :: "u64 \<Rightarrow> u64 \<Rightarrow> u64" where
  "u64_add a b = (a + b) mod u64_modulus"

definition u64_sub :: "u64 \<Rightarrow> u64 \<Rightarrow> u64" where
  "u64_sub a b = (a + (u64_modulus - b mod u64_modulus)) mod u64_modulus"

definition u16_cast :: "nat \<Rightarrow> u16" where
  "u16_cast n = n mod 65536"

definition int64_ok :: "int \<Rightarrow> bool" where
  "int64_ok i \<longleftrightarrow> - (2 ^ 63) \<le> i \<and> i < 2 ^ 63"

lemma u64_add_exact [u64_simps]: "a + b < u64_modulus \<Longrightarrow> u64_add a b = a + b"
  by (simp add: u64_add_def)

lemma u64_sub_exact [u64_simps]:
  assumes "b \<le> a" "a < u64_modulus"
  shows "u64_sub a b = a - b"
proof -
  from assms have "a + (u64_modulus - b) = (a - b) + u64_modulus" by simp
  then have "u64_sub a b = ((a - b) + u64_modulus) mod u64_modulus"
    using assms by (simp only: u64_sub_def mod_less le_less_trans)
  also have "\<dots> = (a - b) mod u64_modulus" by (rule mod_add_self2)
  finally show ?thesis using assms by simp
qed

lemma u64_add_less [simp]: "u64_add a b < u64_modulus"
  by (simp add: u64_add_def)

lemma u64_sub_less [simp]: "u64_sub a b < u64_modulus"
  by (simp add: u64_sub_def)

section \<open>Characters\<close>

definition byte :: "char \<Rightarrow> nat" where
  "byte c = of_char c"

lemma byte_less [simp]: "byte c < 256"
  by (simp add: byte_def)

lemma byte_eq_iff [simp]: "byte c = byte d \<longleftrightarrow> c = d"
  by (simp add: byte_def)

lemma byte_char_of [simp]: "byte (char_of n) = n mod 256"
  by (simp add: byte_def)

text \<open>\<open>std::isdigit\<close>, \<open>std::isalnum\<close>, \<open>std::isspace\<close> and \<open>std::tolower\<close> of the C locale.\<close>

definition is_digit_char :: "char \<Rightarrow> bool" where
  "is_digit_char c \<longleftrightarrow> 48 \<le> byte c \<and> byte c \<le> 57"

definition is_upper_char :: "char \<Rightarrow> bool" where
  "is_upper_char c \<longleftrightarrow> 65 \<le> byte c \<and> byte c \<le> 90"

definition is_lower_char :: "char \<Rightarrow> bool" where
  "is_lower_char c \<longleftrightarrow> 97 \<le> byte c \<and> byte c \<le> 122"

definition is_alnum_char :: "char \<Rightarrow> bool" where
  "is_alnum_char c \<longleftrightarrow> is_digit_char c \<or> is_upper_char c \<or> is_lower_char c"

definition is_space_char :: "char \<Rightarrow> bool" where
  "is_space_char c \<longleftrightarrow> byte c = 32 \<or> (9 \<le> byte c \<and> byte c \<le> 13)"

definition to_lower_char :: "char \<Rightarrow> char" where
  "to_lower_char c = (if is_upper_char c then char_of (byte c + 32) else c)"

lemmas char_class_defs =
  is_digit_char_def is_upper_char_def is_lower_char_def is_alnum_char_def is_space_char_def
  to_lower_char_def

lemma byte_to_lower: "byte (to_lower_char c) = (if is_upper_char c then byte c + 32 else byte c)"
  by (auto simp: to_lower_char_def is_upper_char_def)

lemma to_lower_not_upper [simp]: "\<not> is_upper_char (to_lower_char c)"
  by (auto simp: is_upper_char_def byte_to_lower)

lemma to_lower_idem [simp]: "to_lower_char (to_lower_char c) = to_lower_char c"
  by (subst to_lower_char_def) simp

lemma is_space_to_lower [simp]: "is_space_char (to_lower_char c) = is_space_char c"
  by (auto simp: is_space_char_def byte_to_lower is_upper_char_def)

abbreviation (input) ch_nul :: char where "ch_nul \<equiv> CHR 0x00"
abbreviation (input) ch_bel :: char where "ch_bel \<equiv> CHR 0x07"
abbreviation (input) ch_tab :: char where "ch_tab \<equiv> CHR 0x09"
abbreviation (input) ch_nl :: char where "ch_nl \<equiv> CHR 0x0A"
abbreviation (input) ch_cr :: char where "ch_cr \<equiv> CHR 0x0D"
abbreviation (input) ch_esc :: char where "ch_esc \<equiv> CHR 0x1B"
abbreviation (input) ch_quote :: char where "ch_quote \<equiv> CHR 0x27"
abbreviation (input) ch_dquote :: char where "ch_dquote \<equiv> CHR 0x22"
abbreviation (input) ch_backslash :: char where "ch_backslash \<equiv> CHR 0x5C"

section \<open>Substring search\<close>

text \<open>\<open>std::string::starts_with\<close>, \<open>find\<close> and \<open>find(needle, pos)\<close>; \<open>npos\<close> is \<^const>\<open>None\<close>.\<close>

definition starts_with :: "'a list \<Rightarrow> 'a list \<Rightarrow> bool" where
  "starts_with s p \<longleftrightarrow> take (length p) s = p"

fun find_first :: "'a list \<Rightarrow> 'a list \<Rightarrow> nat option" where
  "find_first needle [] = (if needle = [] then Some 0 else None)"
| "find_first needle (x # xs) =
     (if starts_with (x # xs) needle then Some 0 else map_option Suc (find_first needle xs))"

definition str_find :: "'a list \<Rightarrow> 'a list \<Rightarrow> nat \<Rightarrow> nat option" where
  "str_find s needle pos =
     (if pos \<le> length s then map_option (\<lambda>i. i + pos) (find_first needle (drop pos s)) else None)"

definition str_contains :: "'a list \<Rightarrow> 'a list \<Rightarrow> bool" where
  "str_contains s needle \<longleftrightarrow> find_first needle s \<noteq> None"

lemma starts_with_append [simp]: "starts_with (p @ s) p"
  by (simp add: starts_with_def)

lemma starts_with_prefix: "starts_with s p \<longleftrightarrow> prefix p s"
proof
  assume "starts_with s p"
  then show "prefix p s" unfolding starts_with_def by (metis take_is_prefix)
next
  assume "prefix p s"
  then show "starts_with s p" by (auto simp: prefix_def starts_with_def)
qed

text \<open>The result of a search is an occurrence, and no earlier position is one.\<close>

lemma find_first_Some:
  "find_first needle s = Some i \<Longrightarrow>
     starts_with (drop i s) needle \<and> i + length needle \<le> length s \<and>
     (\<forall>j < i. \<not> starts_with (drop j s) needle)"
proof (induction s arbitrary: i)
  case Nil
  then show ?case by (auto simp: starts_with_def split: if_splits)
next
  case (Cons x xs)
  show ?case
  proof (cases "starts_with (x # xs) needle")
    case True
    then have "length needle \<le> length (x # xs)"
      by (auto simp: starts_with_prefix dest: prefix_length_le)
    with True Cons.prems show ?thesis by simp
  next
    case False
    with Cons.prems obtain k where k: "find_first needle xs = Some k" "i = Suc k"
      by auto
    from Cons.IH [OF k(1)] k(2) False show ?thesis
      by (auto simp: less_Suc_eq_0_disj)
  qed
qed

lemma find_first_None:
  "find_first needle s = None \<longleftrightarrow> (\<forall>j < Suc (length s). \<not> starts_with (drop j s) needle)"
  by (induction s) (auto simp: starts_with_def All_less_Suc2)

lemma str_find_Some:
  assumes "str_find s needle pos = Some i"
  shows "pos \<le> i \<and> i + length needle \<le> length s \<and> starts_with (drop i s) needle
    \<and> (\<forall>j. pos \<le> j \<and> j < i \<longrightarrow> \<not> starts_with (drop j s) needle)"
proof -
  from assms obtain k where k: "find_first needle (drop pos s) = Some k" "i = k + pos" "pos \<le> length s"
    by (auto simp: str_find_def split: if_splits)
  have "\<not> starts_with (drop j s) needle" if "pos \<le> j" "j < i" for j
  proof -
    from find_first_Some [OF k(1)] have "\<forall>m < k. \<not> starts_with (drop m (drop pos s)) needle" by blast
    then have "\<not> starts_with (drop (j - pos) (drop pos s)) needle"
      using that k(2) by (auto simp del: drop_drop)
    with that show ?thesis by simp
  qed
  with find_first_Some [OF k(1)] k(2,3) show ?thesis by (auto simp: add.commute)
qed

lemma str_find_None:
  assumes "str_find s needle pos = None" "pos \<le> j" "j \<le> length s"
  shows "\<not> starts_with (drop j s) needle"
proof -
  from assms have "find_first needle (drop pos s) = None" by (simp add: str_find_def)
  then have "\<forall>m < Suc (length (drop pos s)). \<not> starts_with (drop m (drop pos s)) needle"
    by (simp only: find_first_None)
  then have "\<not> starts_with (drop (j - pos) (drop pos s)) needle"
    using assms by (auto simp del: drop_drop)
  with assms show ?thesis by simp
qed

section \<open>Paths\<close>

text \<open>\<open>operator/\<close> of \<open>std::filesystem::path\<close> on POSIX.\<close>

definition path_is_relative :: "string \<Rightarrow> bool" where
  "path_is_relative p \<longleftrightarrow> \<not> starts_with p ''/''"

definition path_join :: "string \<Rightarrow> string \<Rightarrow> string" where
  "path_join p q =
     (if \<not> path_is_relative q then q
      else if p = [] \<or> last p = CHR ''/'' then p @ q
      else p @ ''/'' @ q)"

section \<open>Decimal printing\<close>

text \<open>\<open>std::to_string\<close> of an unsigned number.\<close>

definition digit_char :: "nat \<Rightarrow> char" where
  "digit_char d = char_of (48 + d)"

fun nat_to_string :: "nat \<Rightarrow> string" where
  "nat_to_string n =
     (if n < 10 then [digit_char n] else nat_to_string (n div 10) @ [digit_char (n mod 10)])"

declare nat_to_string.simps [simp del]

fun string_to_nat :: "nat \<Rightarrow> string \<Rightarrow> nat" where
  "string_to_nat acc [] = acc"
| "string_to_nat acc (c # cs) = string_to_nat (10 * acc + (byte c - 48)) cs"

lemma string_to_nat_append:
  "string_to_nat acc (xs @ ys) = string_to_nat (string_to_nat acc xs) ys"
  by (induction xs arbitrary: acc) auto

lemma byte_digit_char [simp]: "d < 10 \<Longrightarrow> byte (digit_char d) = 48 + d"
  by (simp add: digit_char_def)

lemma string_to_nat_nat_to_string [simp]: "string_to_nat 0 (nat_to_string n) = n"
proof (induction n rule: nat_to_string.induct)
  case (1 n)
  then show ?case
    by (subst nat_to_string.simps) (auto simp: string_to_nat_append)
qed

lemma nat_to_string_inject [simp]: "nat_to_string m = nat_to_string n \<longleftrightarrow> m = n"
  by (metis string_to_nat_nat_to_string)

lemma nat_to_string_nonempty [simp]: "nat_to_string n \<noteq> []"
  by (subst nat_to_string.simps) simp

lemma nat_to_string_digits: "\<forall>c \<in> set (nat_to_string n). is_digit_char c"
proof (induction n rule: nat_to_string.induct)
  case (1 n)
  then show ?case
    by (subst nat_to_string.simps) (auto simp: is_digit_char_def)
qed

section \<open>Lists\<close>

text \<open>The last \<open>n\<close> elements of a list, all of them when there are fewer.\<close>

definition lastn :: "nat \<Rightarrow> 'a list \<Rightarrow> 'a list" where
  "lastn n xs = drop (length xs - n) xs"

lemma length_lastn [simp]: "length (lastn n xs) = min n (length xs)"
  by (simp add: lastn_def)

lemma lastn_0 [simp]: "lastn 0 xs = []"
  by (simp add: lastn_def)

lemma lastn_all [simp]: "length xs \<le> n \<Longrightarrow> lastn n xs = xs"
  by (simp add: lastn_def)

lemma suffix_lastn [simp]: "suffix (lastn n xs) xs"
  by (simp add: lastn_def suffix_drop)

lemma lastn_append_long: "n \<le> length ys \<Longrightarrow> lastn n (xs @ ys) = lastn n ys"
  by (simp add: lastn_def)

lemma suffix_eq_lastn: "suffix ys xs \<Longrightarrow> ys = lastn (length ys) xs"
  by (auto simp: suffix_def lastn_def)

lemma lastn_suffix: "suffix ys xs \<Longrightarrow> n \<le> length ys \<Longrightarrow> lastn n ys = lastn n xs"
  by (auto simp: suffix_def lastn_append_long)

lemma lastn_lastn: "n \<le> m \<Longrightarrow> lastn n (lastn m xs) = lastn n xs"
proof (cases "m \<le> length xs")
  case True
  then show "n \<le> m \<Longrightarrow> ?thesis" by (simp add: lastn_suffix)
next
  case False
  then show ?thesis by simp
qed

lemma sum_list_map_length_concat: "sum_list (map length xss) = length (concat xss)"
  by (simp add: length_concat)

end
