(* ===== verification/Session_Types.thy ===== *)
theory Session_Types
  imports Prelude
begin

text \<open>
  \<open>include/vibe/session/session_types.h\<close> and \<open>src/session/session_types.cpp\<close>: the enumerations
  of a session, the validated session identifier, the metadata record and the normalisation of
  group tags. The lemmas show that the index loops of \<open>NormalizeGroupTag\<close> compute the
  lower-cased trimmed tag and that \<open>NormalizeGroupTags\<close> yields a duplicate-free list of
  normalised tags and is idempotent.
\<close>

section \<open>Enumerations\<close>

datatype ProviderType = Codex | Claude

datatype SessionStatus = Created | Starting | Running | AwaitingInput | Exited | Error

datatype ControllerKind = ControllerNone | ControllerHost | ControllerRemote

fun ToString_ProviderType :: "ProviderType \<Rightarrow> string" where
  "ToString_ProviderType Codex = ''codex''"
| "ToString_ProviderType Claude = ''claude''"

fun ToString_SessionStatus :: "SessionStatus \<Rightarrow> string" where
  "ToString_SessionStatus Created = ''Created''"
| "ToString_SessionStatus Starting = ''Starting''"
| "ToString_SessionStatus Running = ''Running''"
| "ToString_SessionStatus AwaitingInput = ''AwaitingInput''"
| "ToString_SessionStatus Exited = ''Exited''"
| "ToString_SessionStatus Error = ''Error''"

fun ToString_ControllerKind :: "ControllerKind \<Rightarrow> string" where
  "ToString_ControllerKind ControllerNone = ''none''"
| "ToString_ControllerKind ControllerHost = ''host''"
| "ToString_ControllerKind ControllerRemote = ''remote''"

section \<open>Session identifiers\<close>

datatype SessionId = SessionId (sid_value: string)

definition IsValidSessionIdChar :: "char \<Rightarrow> bool" where
  "IsValidSessionIdChar c \<longleftrightarrow> is_alnum_char c \<or> c = CHR ''_'' \<or> c = CHR ''-''"

definition TryCreate :: "string \<Rightarrow> SessionId option" where
  "TryCreate s =
     (if s = [] then None
      else if \<not> list_all IsValidSessionIdChar s then None
      else Some (SessionId s))"

record SessionMetadata =
  md_id :: SessionId
  md_provider :: ProviderType
  md_workspace_root :: string
  md_title :: string
  md_status :: SessionStatus
  md_conversation_id :: "string option"
  md_group_tags :: "string list"

section \<open>Group tags\<close>

text \<open>The two index loops of \<open>NormalizeGroupTag\<close>, then its copying loop.\<close>

function trim_start :: "string \<Rightarrow> nat \<Rightarrow> nat" where
  "trim_start tag start =
     (if start < length tag \<and> is_space_char (tag ! start) then trim_start tag (start + 1)
      else start)"
  by pat_completeness auto
termination
  by (relation "measure (\<lambda>(tag, start). length tag - start)") auto

declare trim_start.simps [simp del]

fun trim_end :: "string \<Rightarrow> nat \<Rightarrow> nat \<Rightarrow> nat" where
  "trim_end tag start e =
     (if e > start \<and> is_space_char (tag ! (e - 1)) then trim_end tag start (e - 1) else e)"

declare trim_end.simps [simp del]

definition NormalizeGroupTag :: "string \<Rightarrow> string" where
  "NormalizeGroupTag tag =
     (let start = trim_start tag 0;
          e = trim_end tag start (length tag)
      in map (\<lambda>index. to_lower_char (tag ! index)) [start ..< e])"

fun NormalizeGroupTags_loop :: "string list \<Rightarrow> string list \<Rightarrow> string list" where
  "NormalizeGroupTags_loop normalized_tags [] = normalized_tags"
| "NormalizeGroupTags_loop normalized_tags (tag # tags) =
     (let normalized = NormalizeGroupTag tag in
      if normalized = [] then NormalizeGroupTags_loop normalized_tags tags
      else if List.member normalized_tags normalized
        then NormalizeGroupTags_loop normalized_tags tags
      else NormalizeGroupTags_loop (normalized_tags @ [normalized]) tags)"

definition NormalizeGroupTags :: "string list \<Rightarrow> string list" where
  "NormalizeGroupTags tags = NormalizeGroupTags_loop [] tags"

section \<open>Reference definitions\<close>

definition trim_spaces :: "string \<Rightarrow> string" where
  "trim_spaces s = rev (dropWhile is_space_char (rev (dropWhile is_space_char s)))"

definition normalized_tag :: "string \<Rightarrow> bool" where
  "normalized_tag s \<longleftrightarrow> s \<noteq> [] \<and> trim_spaces s = s \<and> list_all (\<lambda>c. \<not> is_upper_char c) s"

section \<open>Correctness of the normalisation\<close>

lemma trim_start_eq:
  "i \<le> length s \<Longrightarrow> trim_start s i = i + length (takeWhile is_space_char (drop i s))"
proof (induction s i rule: trim_start.induct)
  case (1 tag start)
  show ?case
  proof (cases "start < length tag \<and> is_space_char (tag ! start)")
    case True
    then have "drop start tag = tag ! start # drop (Suc start) tag"
      by (simp add: Cons_nth_drop_Suc)
    with True 1 show ?thesis by (simp add: trim_start.simps [of tag start])
  next
    case False
    then have "trim_start tag start = start" by (subst trim_start.simps) auto
    moreover have "takeWhile is_space_char (drop start tag) = []"
      using False "1.prems" by (cases "start < length tag")
        (auto simp: Cons_nth_drop_Suc [symmetric])
    ultimately show ?thesis by simp
  qed
qed

lemma drop_trim_start: "drop (trim_start s 0) s = dropWhile is_space_char s"
  by (simp add: trim_start_eq dropWhile_eq_drop)

lemma trim_end_spec:
  "\<lbrakk>start \<le> e; e \<le> length s\<rbrakk> \<Longrightarrow>
     start \<le> trim_end s start e \<and> trim_end s start e \<le> e \<and>
     drop start (take (trim_end s start e) s) =
       rev (dropWhile is_space_char (rev (drop start (take e s))))"
proof (induction s start e rule: trim_end.induct)
  case (1 tag start e)
  show ?case
  proof (cases "start < e")
    case True
    with "1.prems" have snoc: "drop start (take e tag) = drop start (take (e - 1) tag) @ [tag ! (e - 1)]"
      by (cases e) (auto simp: take_Suc_conv_app_nth)
    show ?thesis
    proof (cases "is_space_char (tag ! (e - 1))")
      case True
      with \<open>start < e\<close> have "trim_end tag start e = trim_end tag start (e - 1)"
        by (simp add: trim_end.simps [of tag start e])
      moreover from 1 True \<open>start < e\<close> have
        "start \<le> trim_end tag start (e - 1) \<and> trim_end tag start (e - 1) \<le> e - 1 \<and>
         drop start (take (trim_end tag start (e - 1)) tag) =
           rev (dropWhile is_space_char (rev (drop start (take (e - 1) tag))))" by auto
      ultimately show ?thesis using True snoc by auto
    next
      case False
      with snoc \<open>start < e\<close> show ?thesis by (simp add: trim_end.simps [of tag start e])
    qed
  next
    case False
    then have "trim_end tag start e = e" by (subst trim_end.simps) simp
    with False "1.prems" show ?thesis by simp
  qed
qed

lemma map_nth_upt: "e \<le> length s \<Longrightarrow> map (\<lambda>i. f (s ! i)) [b ..< e] = map f (drop b (take e s))"
  by (rule nth_equalityI) auto

lemma NormalizeGroupTag_eq: "NormalizeGroupTag tag = map to_lower_char (trim_spaces tag)"
proof -
  let ?b = "trim_start tag 0" and ?e = "trim_end tag (trim_start tag 0) (length tag)"
  have "?b \<le> length tag"
    by (simp add: trim_start_eq length_takeWhile_le)
  then have "?e \<le> length tag"
    and "drop ?b (take ?e tag) = rev (dropWhile is_space_char (rev (drop ?b tag)))"
    using trim_end_spec [of ?b "length tag" tag] by auto
  then show ?thesis
    by (simp add: NormalizeGroupTag_def Let_def map_nth_upt trim_spaces_def drop_trim_start)
qed

lemma dropWhile_map_to_lower:
  "dropWhile is_space_char (map to_lower_char s) = map to_lower_char (dropWhile is_space_char s)"
  by (simp add: dropWhile_map comp_def)

lemma dropWhile_trimmed_front:
  assumes "\<not> P x"
  shows "dropWhile P (rev (dropWhile P (rev (x # xs)))) = rev (dropWhile P (rev (x # xs)))"
proof -
  have "dropWhile P (rev xs @ [x]) = dropWhile P (rev xs) @ [x]"
    using assms by (cases "\<forall>y \<in> set xs. P y") (auto simp: dropWhile_append)
  with assms show ?thesis by simp
qed

lemma trim_spaces_idem [simp]: "trim_spaces (trim_spaces s) = trim_spaces s"
proof (cases "dropWhile is_space_char s")
  case Nil
  then show ?thesis by (simp add: trim_spaces_def del: dropWhile_eq_Nil_conv)
next
  case (Cons x xs)
  then have "\<not> is_space_char x" by (metis dropWhile_eq_Cons_conv)
  from dropWhile_trimmed_front [of is_space_char, OF this, of xs] Cons
  show ?thesis by (simp add: trim_spaces_def del: rev.simps)
qed

lemma trim_spaces_map_to_lower:
  "trim_spaces (map to_lower_char s) = map to_lower_char (trim_spaces s)"
  by (simp only: trim_spaces_def dropWhile_map_to_lower rev_map)

lemma NormalizeGroupTag_idem [simp]:
  "NormalizeGroupTag (NormalizeGroupTag tag) = NormalizeGroupTag tag"
  by (simp add: NormalizeGroupTag_eq trim_spaces_map_to_lower)

lemma NormalizeGroupTag_normalized:
  "NormalizeGroupTag tag \<noteq> [] \<Longrightarrow> normalized_tag (NormalizeGroupTag tag)"
  by (auto simp: normalized_tag_def NormalizeGroupTag_eq trim_spaces_map_to_lower list_all_iff)

lemma NormalizeGroupTags_loop_set:
  "set (NormalizeGroupTags_loop acc tags) = set acc \<union> (NormalizeGroupTag ` set tags - {[]})"
  by (induction acc tags rule: NormalizeGroupTags_loop.induct) (auto simp: Let_def)

lemma NormalizeGroupTags_loop_distinct:
  "distinct acc \<Longrightarrow> distinct (NormalizeGroupTags_loop acc tags)"
  by (induction acc tags rule: NormalizeGroupTags_loop.induct) (auto simp: Let_def)

lemma NormalizeGroupTags_loop_id:
  "\<lbrakk>\<forall>t \<in> set tags. t \<noteq> [] \<and> NormalizeGroupTag t = t; distinct (acc @ tags)\<rbrakk>
     \<Longrightarrow> NormalizeGroupTags_loop acc tags = acc @ tags"
  by (induction acc tags rule: NormalizeGroupTags_loop.induct) (auto simp: Let_def)

lemma set_NormalizeGroupTags: "set (NormalizeGroupTags tags) = NormalizeGroupTag ` set tags - {[]}"
  by (simp add: NormalizeGroupTags_def NormalizeGroupTags_loop_set)

lemma distinct_NormalizeGroupTags [simp]: "distinct (NormalizeGroupTags tags)"
  by (simp add: NormalizeGroupTags_def NormalizeGroupTags_loop_distinct)

lemma NormalizeGroupTags_fixpoint:
  "\<lbrakk>\<forall>t \<in> set tags. t \<noteq> [] \<and> NormalizeGroupTag t = t; distinct tags\<rbrakk>
     \<Longrightarrow> NormalizeGroupTags tags = tags"
  by (simp add: NormalizeGroupTags_def NormalizeGroupTags_loop_id)

lemma NormalizeGroupTags_idem [simp]:
  "NormalizeGroupTags (NormalizeGroupTags tags) = NormalizeGroupTags tags"
  by (rule NormalizeGroupTags_fixpoint) (auto simp: set_NormalizeGroupTags)

lemma TryCreate_Some_iff:
  "TryCreate s = Some i \<longleftrightarrow> s \<noteq> [] \<and> list_all IsValidSessionIdChar s \<and> i = SessionId s"
  by (auto simp: TryCreate_def)

lemma ToString_SessionStatus_inject [simp]:
  "ToString_SessionStatus a = ToString_SessionStatus b \<longleftrightarrow> a = b"
  by (cases a; cases b) simp_all

section \<open>Properties\<close>

text \<open>Normalising a list of group tags yields exactly the distinct non-empty normal forms of
  the given tags, where the normal form of a tag is the tag with the blanks at both ends removed
  and letters in lower case; normalising again changes nothing.\<close>

theorem normalize_group_tags_canonical:
  "set (NormalizeGroupTags tags) = (\<lambda>tag. map to_lower_char (trim_spaces tag)) ` set tags - {[]}
   \<and> distinct (NormalizeGroupTags tags) \<and> list_all normalized_tag (NormalizeGroupTags tags)
   \<and> NormalizeGroupTags (NormalizeGroupTags tags) = NormalizeGroupTags tags"
  by (auto simp: set_NormalizeGroupTags list_all_iff NormalizeGroupTag_eq image_iff
      intro: NormalizeGroupTag_normalized [unfolded NormalizeGroupTag_eq])

end
