(* ===== verification/Lifecycle.thy ===== *)
theory Lifecycle
  imports Session_Types
begin

text \<open>
  \<open>include/vibe/session/session_lifecycle.h\<close> and \<open>src/session/session_lifecycle.cpp\<close>: the
  transition table of a session and the guarded state machine \<open>SessionLifecycle\<close>. The table is
  related to an inductive step relation; terminal states are absorbing and the lifecycle only
  moves forward through its phases.
\<close>

section \<open>The transition table and the machine\<close>

fun IsValidTransition :: "SessionStatus \<Rightarrow> SessionStatus \<Rightarrow> bool" where
  "IsValidTransition Created to \<longleftrightarrow> to = Starting"
| "IsValidTransition Starting to \<longleftrightarrow> to = Running \<or> to = Error"
| "IsValidTransition Running to \<longleftrightarrow> to = AwaitingInput \<or> to = Exited \<or> to = Error"
| "IsValidTransition AwaitingInput to \<longleftrightarrow> to = Running \<or> to = Exited \<or> to = Error"
| "IsValidTransition Exited to \<longleftrightarrow> False"
| "IsValidTransition Error to \<longleftrightarrow> False"

record SessionLifecycle =
  lc_state :: SessionStatus

definition SessionLifecycle_init :: SessionLifecycle where
  "SessionLifecycle_init = \<lparr>lc_state = Created\<rparr>"

definition lc_TryTransition :: "SessionStatus \<Rightarrow> SessionLifecycle \<Rightarrow> bool \<times> SessionLifecycle" where
  "lc_TryTransition next_state lc =
     (if \<not> IsValidTransition (lc_state lc) next_state then (False, lc)
      else (True, lc\<lparr>lc_state := next_state\<rparr>))"

definition lc_run :: "SessionStatus list \<Rightarrow> SessionLifecycle \<Rightarrow> SessionLifecycle" where
  "lc_run reqs lc = fold (\<lambda>s l. snd (lc_TryTransition s l)) reqs lc"

section \<open>The lifecycle as a step relation\<close>

inductive lifecycle_step :: "SessionStatus \<Rightarrow> SessionStatus \<Rightarrow> bool" where
  launch: "lifecycle_step Created Starting"
| started: "lifecycle_step Starting Running"
| start_failed: "lifecycle_step Starting Error"
| await: "lifecycle_step Running AwaitingInput"
| resume: "lifecycle_step AwaitingInput Running"
| clean_exit: "s \<in> {Running, AwaitingInput} \<Longrightarrow> lifecycle_step s Exited"
| failure: "s \<in> {Running, AwaitingInput} \<Longrightarrow> lifecycle_step s Error"

inductive_simps lifecycle_step_simps [simp]:
  "lifecycle_step Created t" "lifecycle_step Starting t" "lifecycle_step Running t"
  "lifecycle_step AwaitingInput t" "lifecycle_step Exited t" "lifecycle_step Error t"

definition terminal_status :: "SessionStatus \<Rightarrow> bool" where
  "terminal_status s \<longleftrightarrow> s = Exited \<or> s = Error"

fun phase :: "SessionStatus \<Rightarrow> nat" where
  "phase Created = 0"
| "phase Starting = 1"
| "phase Running = 2"
| "phase AwaitingInput = 2"
| "phase Exited = 3"
| "phase Error = 3"

lemma IsValidTransition_iff_step: "IsValidTransition s t \<longleftrightarrow> lifecycle_step s t"
  by (cases s) auto

lemma lifecycle_step_phase: "lifecycle_step s t \<Longrightarrow> phase s \<le> phase t \<and> s \<noteq> t"
  by (induction rule: lifecycle_step.induct) auto

lemma terminal_no_step: "terminal_status s \<Longrightarrow> \<not> lifecycle_step s t"
  by (auto simp: terminal_status_def)

lemma lc_TryTransition_state:
  "lc_state (snd (lc_TryTransition t lc)) =
     (if IsValidTransition (lc_state lc) t then t else lc_state lc)"
  by (simp add: lc_TryTransition_def)

lemma lc_TryTransition_fst: "fst (lc_TryTransition t lc) = IsValidTransition (lc_state lc) t"
  by (simp add: lc_TryTransition_def)

lemma lc_run_Cons: "lc_run (r # rs) lc = lc_run rs (snd (lc_TryTransition r lc))"
  by (simp add: lc_run_def)

lemma lc_run_steps: "lifecycle_step\<^sup>*\<^sup>* (lc_state lc) (lc_state (lc_run reqs lc))"
proof (induction reqs arbitrary: lc)
  case Nil
  then show ?case by (simp add: lc_run_def)
next
  case (Cons r rs)
  have "lifecycle_step\<^sup>*\<^sup>* (lc_state lc) (lc_state (snd (lc_TryTransition r lc)))"
    by (auto simp: lc_TryTransition_state IsValidTransition_iff_step)
  also note Cons.IH [of "snd (lc_TryTransition r lc)"]
  finally show ?case by (simp add: lc_run_Cons)
qed

lemma steps_phase: "lifecycle_step\<^sup>*\<^sup>* s t \<Longrightarrow> phase s \<le> phase t"
  by (induction rule: rtranclp_induct) (auto dest: lifecycle_step_phase)

lemma steps_terminal: "lifecycle_step\<^sup>*\<^sup>* s t \<Longrightarrow> terminal_status s \<Longrightarrow> t = s"
  by (induction rule: rtranclp_induct) (auto dest: terminal_no_step)

text \<open>Every status is reachable from a fresh lifecycle: the table has no dead entry.\<close>

lemma all_statuses_reachable: "lifecycle_step\<^sup>*\<^sup>* Created s"
proof -
  have 1: "lifecycle_step\<^sup>*\<^sup>* Created Starting"
    by (rule r_into_rtranclp) simp
  then have 2: "lifecycle_step\<^sup>*\<^sup>* Created Running"
    by (rule rtranclp.rtrancl_into_rtrancl) simp
  then have "lifecycle_step\<^sup>*\<^sup>* Created AwaitingInput" "lifecycle_step\<^sup>*\<^sup>* Created Exited"
    "lifecycle_step\<^sup>*\<^sup>* Created Error"
    by (auto intro: rtranclp.rtrancl_into_rtrancl)
  with 1 2 show ?thesis by (cases s) auto
qed

section \<open>Properties\<close>

text \<open>Whatever transitions are requested of a lifecycle, its state moves along the step
  relation only and never back to an earlier phase (created, starting, active, ended); once it is
  Exited or Error it stays there; a request is answered with true exactly when it is performed.\<close>

theorem lifecycle_moves_forward_only:
  "let s = lc_state (lc_run reqs lc); t = lc_state (lc_run (reqs @ later) lc) in
     lifecycle_step\<^sup>*\<^sup>* s t \<and> phase s \<le> phase t
     \<and> (if terminal_status s then t = s else True)
     \<and> (fst (lc_TryTransition request (lc_run reqs lc)) =
          (lc_state (snd (lc_TryTransition request (lc_run reqs lc))) \<noteq> s))"
proof -
  let ?l = "lc_run reqs lc"
  have split: "lc_run (reqs @ later) lc = lc_run later ?l" by (simp add: lc_run_def)
  have steps: "lifecycle_step\<^sup>*\<^sup>* (lc_state ?l) (lc_state (lc_run later ?l))" by (rule lc_run_steps)
  have "\<not> IsValidTransition s s" for s by (cases s) simp_all
  then show ?thesis
    using steps steps_phase [OF steps] steps_terminal [OF steps]
    by (auto simp: Let_def split lc_TryTransition_fst lc_TryTransition_state)
qed

end
