(* ===== verification/Utf8.thy ===== *)
theory Utf8
  imports Prelude "HOL-Library.Word"
begin

text \<open>
  The UTF-8 routines of \<open>src/session/terminal_multiplexer.cpp\<close>: the replacement of invalid
  scalars, the encoder \<open>AppendUtf8\<close> on 32-bit words, the lead-byte classification and
  \<open>ClipUtf8Columns\<close>, which cuts a column range out of a line. \<open>utf8_decode\<close> is a strict decoder
  (RFC 3629: no overlong form, no surrogate, nothing above U+10FFFF) against which the encoder is
  proved; clipping is proved to commute with encoding, so it never splits a character.
\<close>

unbundle bit_operations_syntax

section \<open>The source's routines\<close>

type_synonym u32 = "32 word"

definition NormalizeUnicodeScalar :: "u32 \<Rightarrow> u32" where
  "NormalizeUnicodeScalar codepoint =
     (if codepoint = 0 then 0
      else if codepoint > 0x10FFFF \<or> (codepoint \<ge> 0xD800 \<and> codepoint \<le> 0xDFFF) then 0xFFFD
      else codepoint)"

definition char_of_u32 :: "u32 \<Rightarrow> char" where
  "char_of_u32 w = char_of (unat w)"

definition AppendUtf8 :: "string \<Rightarrow> u32 \<Rightarrow> string" where
  "AppendUtf8 out codepoint =
     (let scalar = NormalizeUnicodeScalar codepoint in
      if scalar = 0 then out
      else if scalar \<le> 0x7F then out @ [char_of_u32 scalar]
      else if scalar \<le> 0x7FF then
        out @ [char_of_u32 (0xC0 OR (drop_bit 6 scalar AND 0x1F)),
               char_of_u32 (0x80 OR (scalar AND 0x3F))]
      else if scalar \<le> 0xFFFF then
        out @ [char_of_u32 (0xE0 OR (drop_bit 12 scalar AND 0x0F)),
               char_of_u32 (0x80 OR (drop_bit 6 scalar AND 0x3F)),
               char_of_u32 (0x80 OR (scalar AND 0x3F))]
      else
        out @ [char_of_u32 (0xF0 OR (drop_bit 18 scalar AND 0x07)),
               char_of_u32 (0x80 OR (drop_bit 12 scalar AND 0x3F)),
               char_of_u32 (0x80 OR (drop_bit 6 scalar AND 0x3F)),
               char_of_u32 (0x80 OR (scalar AND 0x3F))])"

definition NextUtf8CodepointLength :: "string \<Rightarrow> nat \<Rightarrow> nat" where
  "NextUtf8CodepointLength input offset =
     (if offset \<ge> length input then 0
      else
        let lead = byte (input ! offset) in
        if lead AND 0x80 = 0 then 1
        else if lead AND 0xE0 = 0xC0 then 2
        else if lead AND 0xF0 = 0xE0 then 3
        else if lead AND 0xF8 = 0xF0 then 4
        else 1)"

lemma NextUtf8CodepointLength_pos:
  "offset < length input \<Longrightarrow> 1 \<le> NextUtf8CodepointLength input offset"
  by (simp add: NextUtf8CodepointLength_def Let_def)

text \<open>The first loop of \<open>ClipUtf8Columns\<close> skips columns, the second one copies them.\<close>

fun clip_skip :: "string \<Rightarrow> nat \<Rightarrow> nat \<Rightarrow> nat" where
  "clip_skip line byte_offset 0 = byte_offset"
| "clip_skip line byte_offset (Suc columns) =
     (if byte_offset < length line
      then clip_skip line (byte_offset + NextUtf8CodepointLength line byte_offset) columns
      else byte_offset)"

fun clip_copy :: "string \<Rightarrow> nat \<Rightarrow> string \<Rightarrow> nat \<Rightarrow> string" where
  "clip_copy line byte_offset clipped 0 = clipped"
| "clip_copy line byte_offset clipped (Suc columns) =
     (if byte_offset < length line
      then
        let codepoint_bytes = NextUtf8CodepointLength line byte_offset in
        clip_copy line (byte_offset + codepoint_bytes)
          (clipped @ take codepoint_bytes (drop byte_offset line)) columns
      else clipped)"

definition ClipUtf8Columns :: "string \<Rightarrow> nat \<Rightarrow> nat \<Rightarrow> string" where
  "ClipUtf8Columns line start_column max_columns =
     (if max_columns = 0 \<or> line = [] then []
      else clip_copy line (clip_skip line 0 start_column) [] max_columns)"

section \<open>Strict decoding\<close>

definition is_cont :: "nat \<Rightarrow> bool" where
  "is_cont b \<longleftrightarrow> 128 \<le> b \<and> b < 192"

fun utf8_decode :: "nat list \<Rightarrow> nat list option" where
  "utf8_decode [] = Some []"
| "utf8_decode (a # bs) =
     (if a < 128 then map_option (Cons a) (utf8_decode bs)
      else if 194 \<le> a \<and> a < 224 then
        (case bs of b # bs' \<Rightarrow>
           if is_cont b then map_option (Cons ((a - 192) * 64 + (b - 128))) (utf8_decode bs') else None
         | _ \<Rightarrow> None)
      else if 224 \<le> a \<and> a < 240 then
        (case bs of b # c # bs' \<Rightarrow>
           (let v = (a - 224) * 4096 + (b - 128) * 64 + (c - 128) in
            if is_cont b \<and> is_cont c \<and> 2048 \<le> v \<and> \<not> (55296 \<le> v \<and> v \<le> 57343)
            then map_option (Cons v) (utf8_decode bs') else None)
         | _ \<Rightarrow> None)
      else if 240 \<le> a \<and> a < 245 then
        (case bs of b # c # d # bs' \<Rightarrow>
           (let v = (a - 240) * 262144 + (b - 128) * 4096 + (c - 128) * 64 + (d - 128) in
            if is_cont b \<and> is_cont c \<and> is_cont d \<and> 65536 \<le> v \<and> v \<le> 1114111
            then map_option (Cons v) (utf8_decode bs') else None)
         | _ \<Rightarrow> None)
      else None)"

definition valid_utf8 :: "string \<Rightarrow> bool" where
  "valid_utf8 s \<longleftrightarrow> utf8_decode (map byte s) \<noteq> None"

text \<open>The bytes of one scalar, by arithmetic instead of bit operations.\<close>

definition scalar_bytes :: "nat \<Rightarrow> nat list" where
  "scalar_bytes v =
     (if v = 0 then []
      else if v \<le> 127 then [v]
      else if v \<le> 2047 then [192 + v div 64, 128 + v mod 64]
      else if v \<le> 65535 then [224 + v div 4096, 128 + (v div 64) mod 64, 128 + v mod 64]
      else [240 + v div 262144, 128 + (v div 4096) mod 64, 128 + (v div 64) mod 64, 128 + v mod 64])"

definition unicode_scalar :: "nat \<Rightarrow> bool" where
  "unicode_scalar v \<longleftrightarrow> 0 < v \<and> v \<le> 1114111 \<and> \<not> (55296 \<le> v \<and> v \<le> 57343)"

definition utf8_encode :: "u32 list \<Rightarrow> string" where
  "utf8_encode cps = fold (\<lambda>cp out. AppendUtf8 out cp) cps []"

lemma ascii_valid_utf8: "\<forall>c \<in> set s. byte c < 128 \<Longrightarrow> valid_utf8 s"
  by (induction s) (auto simp: valid_utf8_def)

section \<open>The encoder is correct\<close>

lemma or_add_disjoint:
  fixes a b :: "'l::len word"
  assumes "a AND b = 0" "unat a + unat b < 2 ^ LENGTH('l)"
  shows "unat (a OR b) = unat a + unat b"
  using assms word_plus_and_or [of a b] unat_add_lem [of a b] by simp

lemma and_masks:
  fixes x :: u32
  shows "x AND 0x1F = take_bit 5 x" "x AND 0x3F = take_bit 6 x"
    "x AND 0x0F = take_bit 4 x" "x AND 0x07 = take_bit 3 x"
  by (simp_all add: take_bit_eq_mask mask_numeral)

lemma unat_low_bits:
  fixes x :: u32
  shows "unat (take_bit 5 x) = unat x mod 32" "unat (take_bit 6 x) = unat x mod 64"
    "unat (take_bit 4 x) = unat x mod 16" "unat (take_bit 3 x) = unat x mod 8"
  unfolding unsigned_take_bit_eq by (simp_all add: take_bit_eq_mod)

lemma lead_bits_disjoint:
  fixes x :: u32
  shows "0xC0 AND take_bit 5 x = 0" "0x80 AND take_bit 6 x = 0"
    "0xE0 AND take_bit 4 x = 0" "0xF0 AND take_bit 3 x = 0"
  by (simp_all only: and_masks [symmetric]) (simp_all add: and.left_commute)

lemma unat_or_bits:
  fixes x :: u32
  shows "unat (0xC0 OR (x AND 0x1F)) = 192 + unat x mod 32"
    and "unat (0x80 OR (x AND 0x3F)) = 128 + unat x mod 64"
    and "unat (0xE0 OR (x AND 0x0F)) = 224 + unat x mod 16"
    and "unat (0xF0 OR (x AND 0x07)) = 240 + unat x mod 8"
  unfolding and_masks
  by (subst or_add_disjoint, simp_all add: lead_bits_disjoint unat_low_bits)+

lemma byte_char_of_u32: "byte (char_of_u32 w) = unat w mod 256"
  by (simp add: char_of_u32_def)

lemma unat_drop_bit_u32: "unat (drop_bit n (x :: u32)) = unat x div 2 ^ n"
  unfolding unat_drop_bit_eq by (simp add: drop_bit_eq_div)

lemma unat_NormalizeUnicodeScalar:
  "unat (NormalizeUnicodeScalar cp) =
     (if unat cp = 0 then 0
      else if unat cp > 1114111 \<or> (55296 \<le> unat cp \<and> unat cp \<le> 57343) then 65533
      else unat cp)"
  by (auto simp: NormalizeUnicodeScalar_def word_less_nat_alt word_le_nat_alt unat_eq_zero)

lemma NormalizeUnicodeScalar_scalar:
  "cp \<noteq> 0 \<Longrightarrow> unicode_scalar (unat (NormalizeUnicodeScalar cp))"
  by (auto simp: unat_NormalizeUnicodeScalar unicode_scalar_def unat_eq_zero unat_gt_0)

lemma AppendUtf8_bytes:
  "AppendUtf8 out cp =
     out @ map char_of (scalar_bytes (unat (NormalizeUnicodeScalar cp)))"
proof -
  let ?s = "NormalizeUnicodeScalar cp"
  have bound: "unat ?s \<le> 1114111"
    by (auto simp: unat_NormalizeUnicodeScalar)
  have zero: "?s = 0 \<longleftrightarrow> unat ?s = 0" by (simp add: unat_eq_zero)
  have div: "unat ?s div 64 mod 32 = unat ?s div 64" if "unat ?s \<le> 2047"
    using that by (intro mod_less) simp
  have div2: "unat ?s div 4096 mod 16 = unat ?s div 4096" if "unat ?s \<le> 65535"
    using that by (intro mod_less) simp
  have div3: "unat ?s div 262144 mod 8 = unat ?s div 262144"
    using bound by (intro mod_less) simp
  show ?thesis
    using zero div div2 div3
    by (auto simp: AppendUtf8_def Let_def scalar_bytes_def word_le_nat_alt char_of_u32_def
        unat_or_bits unat_drop_bit_u32)
qed

lemma utf8_encode_Cons:
  "utf8_encode (cp # cps) =
     map char_of (scalar_bytes (unat (NormalizeUnicodeScalar cp))) @ utf8_encode cps"
proof -
  have fold: "fold (\<lambda>cp out. AppendUtf8 out cp) cps out =
      out @ fold (\<lambda>cp out. AppendUtf8 out cp) cps []" for out
  proof (induction cps arbitrary: out)
    case (Cons c cs)
    from Cons [of "AppendUtf8 out c"] Cons [of "AppendUtf8 [] c"] show ?case
      by (simp add: AppendUtf8_bytes)
  qed simp
  show ?thesis
    using fold [of "AppendUtf8 [] cp"] by (simp add: utf8_encode_def AppendUtf8_bytes)
qed

lemma utf8_encode_Nil [simp]: "utf8_encode [] = []"
  by (simp add: utf8_encode_def)

lemma utf8_decode_scalar_bytes:
  assumes "unicode_scalar v"
  shows "utf8_decode (scalar_bytes v @ bs) = map_option (Cons v) (utf8_decode bs)"
proof -
  have a: "v div 64 * 64 + v mod 64 = v" by simp
  have b: "v div 4096 * 64 + v div 64 mod 64 = v div 64"
    using div_mult_mod_eq [of "v div 64" 64] by (simp flip: div_mult2_eq)
  have c: "v div 262144 * 64 + v div 4096 mod 64 = v div 4096"
    using div_mult_mod_eq [of "v div 4096" 64] by (simp flip: div_mult2_eq)
  from a b have d: "v div 4096 * 4096 + v div 64 mod 64 * 64 + v mod 64 = v" by linarith
  from c d have e:
    "v div 262144 * 262144 + v div 4096 mod 64 * 4096 + v div 64 mod 64 * 64 + v mod 64 = v"
    by linarith
  note v = a d e
  consider "v \<le> 127" | "127 < v" "v \<le> 2047" | "2047 < v" "v \<le> 65535" | "65535 < v"
    by linarith
  then show ?thesis
  proof cases
    case 1
    with assms show ?thesis by (simp add: scalar_bytes_def unicode_scalar_def)
  next
    case 2
    then have "2 \<le> v div 64" "v div 64 < 32" by (auto simp: less_mult_imp_div_less)
    moreover have "scalar_bytes v = [192 + v div 64, 128 + v mod 64]"
      using 2 by (simp add: scalar_bytes_def)
    ultimately show ?thesis using v(1) by (simp add: is_cont_def)
  next
    case 3
    then have "v div 4096 < 16" by (simp add: less_mult_imp_div_less)
    with 3 v(2) assms show ?thesis
      by (simp add: scalar_bytes_def is_cont_def unicode_scalar_def Let_def)
  next
    case 4
    with assms have "v div 262144 < 5" by (simp add: less_mult_imp_div_less unicode_scalar_def)
    with 4 v(3) assms show ?thesis
      by (simp add: scalar_bytes_def is_cont_def unicode_scalar_def Let_def)
  qed
qed

lemma scalar_bytes_byte:
  assumes "unicode_scalar v"
  shows "map byte (map char_of (scalar_bytes v)) = scalar_bytes v"
proof -
  have "v div 64 < 32" if "v \<le> 2047" using that by (simp add: less_mult_imp_div_less)
  moreover have "v div 4096 < 16" if "v \<le> 65535" using that by (simp add: less_mult_imp_div_less)
  moreover have "v div 262144 < 5" using assms by (simp add: less_mult_imp_div_less unicode_scalar_def)
  ultimately show ?thesis
    by (auto simp: scalar_bytes_def intro!: mod_less)
qed

lemma scalar_bytes_0 [simp]: "scalar_bytes 0 = []"
  by (simp add: scalar_bytes_def)

lemma NormalizeUnicodeScalar_0 [simp]: "NormalizeUnicodeScalar 0 = 0"
  by (simp add: NormalizeUnicodeScalar_def)

lemma utf8_decode_encode:
  "utf8_decode (map byte (utf8_encode cps)) =
     Some (map (\<lambda>cp. unat (NormalizeUnicodeScalar cp)) (filter (\<lambda>cp. cp \<noteq> 0) cps))"
proof (induction cps)
  case Nil
  then show ?case by simp
next
  case (Cons cp cps)
  show ?case
  proof (cases "cp = 0")
    case True
    with Cons show ?thesis by (simp add: utf8_encode_Cons)
  next
    case False
    then have "unicode_scalar (unat (NormalizeUnicodeScalar cp))"
      by (rule NormalizeUnicodeScalar_scalar)
    with Cons False show ?thesis
      by (simp add: utf8_encode_Cons scalar_bytes_byte [simplified] utf8_decode_scalar_bytes)
  qed
qed

section \<open>Clipping respects characters\<close>

lemma and_high_mask:
  fixes a :: nat
  shows "a AND push_bit n (mask m) = 2 ^ n * (a div 2 ^ n mod 2 ^ m)"
proof -
  have "a AND push_bit n (mask m) = push_bit n (take_bit m (drop_bit n a))"
    by (rule bit_eqI) (auto simp: bit_simps)
  then show ?thesis by (simp add: push_bit_eq_mult take_bit_eq_mod drop_bit_eq_div)
qed

lemma lead_masks:
  fixes a :: nat
  shows "a AND 0x80 = 128 * (a div 128 mod 2)" "a AND 0xE0 = 32 * (a div 32 mod 8)"
    "a AND 0xF0 = 16 * (a div 16 mod 16)" "a AND 0xF8 = 8 * (a div 8 mod 32)"
  using and_high_mask [of a 7 1] and_high_mask [of a 5 3] and_high_mask [of a 4 4]
    and_high_mask [of a 3 5]
  by (simp_all add: push_bit_eq_mult mask_eq_exp_minus_1)

lemma nat_div_eq_iff: "0 < n \<Longrightarrow> (a :: nat) div n = q \<longleftrightarrow> n * q \<le> a \<and> a < n * Suc q"
  by (metis div_nat_eqI mult_Suc_right times_div_less_eq_dividend dividend_less_times_div)

lemma lead_bytes:
  fixes a :: nat
  assumes "a < 256"
  shows "a AND 0x80 = 0 \<longleftrightarrow> a < 128"
    and "a AND 0xE0 = 0xC0 \<longleftrightarrow> 192 \<le> a \<and> a < 224"
    and "a AND 0xF0 = 0xE0 \<longleftrightarrow> 224 \<le> a \<and> a < 240"
    and "a AND 0xF8 = 0xF0 \<longleftrightarrow> 240 \<le> a \<and> a < 248"
proof -
  have m: "a div 128 mod 2 = a div 128" "a div 32 mod 8 = a div 32" "a div 16 mod 16 = a div 16"
    "a div 8 mod 32 = a div 8"
    using assms by (simp_all add: less_mult_imp_div_less)
  have q: "128 * n = 0 \<longleftrightarrow> n = 0" "32 * n = 192 \<longleftrightarrow> n = 6" "16 * n = 224 \<longleftrightarrow> n = 14"
    "8 * n = 240 \<longleftrightarrow> n = 30" for n :: nat
    by auto
  show "a AND 0x80 = 0 \<longleftrightarrow> a < 128" "a AND 0xE0 = 0xC0 \<longleftrightarrow> 192 \<le> a \<and> a < 224"
    "a AND 0xF0 = 0xE0 \<longleftrightarrow> 224 \<le> a \<and> a < 240" "a AND 0xF8 = 0xF0 \<longleftrightarrow> 240 \<le> a \<and> a < 248"
    unfolding lead_masks m q by (simp_all only: nat_div_eq_iff [of "128"] nat_div_eq_iff [of "32"]
        nat_div_eq_iff [of "16"] nat_div_eq_iff [of "8"] zero_less_numeral) auto
qed

definition utf8_unit :: "string \<Rightarrow> bool" where
  "utf8_unit u \<longleftrightarrow> (\<exists>v. unicode_scalar v \<and> u = map char_of (scalar_bytes v))"

lemma utf8_unit_length:
  assumes "utf8_unit u"
  shows "u \<noteq> [] \<and> NextUtf8CodepointLength (pre @ u @ post) (length pre) = length u"
proof -
  from assms obtain v where v: "unicode_scalar v" and u: "u = map char_of (scalar_bytes v)"
    by (auto simp: utf8_unit_def)
  then have ne: "u \<noteq> []" by (auto simp: scalar_bytes_def unicode_scalar_def)
  then have hd: "(pre @ u @ post) ! length pre = hd u" by (simp add: nth_append hd_conv_nth)
  have "byte (hd u) = hd (scalar_bytes v)"
    using scalar_bytes_byte [OF v] ne u by (metis list.map_sel(1))
  moreover have "hd (scalar_bytes v) < 256"
    using calculation byte_less by metis
  ultimately have "NextUtf8CodepointLength (pre @ u @ post) (length pre) =
      (if hd (scalar_bytes v) < 128 then 1
       else if 192 \<le> hd (scalar_bytes v) \<and> hd (scalar_bytes v) < 224 then 2
       else if 224 \<le> hd (scalar_bytes v) \<and> hd (scalar_bytes v) < 240 then 3
       else if 240 \<le> hd (scalar_bytes v) \<and> hd (scalar_bytes v) < 248 then 4 else 1)"
    using ne hd by (simp add: NextUtf8CodepointLength_def Let_def lead_bytes)
  also have "\<dots> = length (scalar_bytes v)"
    using v by (auto simp: scalar_bytes_def unicode_scalar_def less_mult_imp_div_less)
  finally show ?thesis using ne u by simp
qed

lemma clip_skip_units:
  "\<forall>u \<in> set (us @ vs). utf8_unit u \<Longrightarrow>
     clip_skip (concat (us @ vs)) (length (concat us)) n = length (concat (us @ take n vs))"
proof (induction n arbitrary: us vs)
  case 0
  then show ?case by simp
next
  case (Suc n)
  show ?case
  proof (cases vs)
    case Nil
    then show ?thesis by simp
  next
    case (Cons v vs')
    with Suc.prems have "utf8_unit v" by simp
    from utf8_unit_length [OF this, of "concat us" "concat vs'"]
    have "v \<noteq> []" "NextUtf8CodepointLength (concat (us @ vs)) (length (concat us)) = length v"
      by (auto simp: Cons)
    moreover from Suc.IH [of "us @ [v]" vs'] Suc.prems
    have "clip_skip (concat (us @ vs)) (length (concat us) + length v) n =
        length (concat (us @ v # take n vs'))"
      by (simp add: Cons)
    ultimately show ?thesis by (simp add: Cons)
  qed
qed

lemma clip_copy_units:
  "\<forall>u \<in> set (us @ vs). utf8_unit u \<Longrightarrow>
     clip_copy (concat (us @ vs)) (length (concat us)) acc n = acc @ concat (take n vs)"
proof (induction n arbitrary: us vs acc)
  case 0
  then show ?case by simp
next
  case (Suc n)
  show ?case
  proof (cases vs)
    case Nil
    then show ?thesis by simp
  next
    case (Cons v vs')
    with Suc.prems have "utf8_unit v" by simp
    from utf8_unit_length [OF this, of "concat us" "concat vs'"]
    have "v \<noteq> []" "NextUtf8CodepointLength (concat (us @ vs)) (length (concat us)) = length v"
      by (auto simp: Cons)
    moreover from Suc.IH [of "us @ [v]" vs' "acc @ v"] Suc.prems
    have "clip_copy (concat (us @ vs)) (length (concat us) + length v) (acc @ v) n =
        acc @ v @ concat (take n vs')"
      by (simp add: Cons)
    ultimately show ?thesis by (simp add: Cons Let_def)
  qed
qed

lemma ClipUtf8Columns_units:
  assumes "\<forall>u \<in> set us. utf8_unit u"
  shows "ClipUtf8Columns (concat us) s m = concat (take m (drop s us))"
proof (cases "m = 0 \<or> concat us = []")
  case True
  then show ?thesis by (auto simp: ClipUtf8Columns_def dest: in_set_takeD in_set_dropD)
next
  case False
  have skip: "clip_skip (concat us) 0 s = length (concat (take s us))"
    using clip_skip_units [of "[]" us s] assms by simp
  have "clip_copy (concat (take s us @ drop s us)) (length (concat (take s us))) [] m =
      concat (take m (drop s us))"
    using clip_copy_units [of "take s us" "drop s us" "[]" m] assms by simp
  with False skip show ?thesis
    by (simp add: ClipUtf8Columns_def del: concat_eq_Nil_conv)
qed

lemma utf8_encode_units:
  "utf8_encode cps = concat (map (\<lambda>cp. utf8_encode [cp]) cps)"
  by (induction cps) (simp_all add: utf8_encode_Cons)

lemma utf8_unit_encode: "cp \<noteq> 0 \<Longrightarrow> utf8_unit (utf8_encode [cp])"
  using NormalizeUnicodeScalar_scalar by (auto simp: utf8_unit_def utf8_encode_Cons)

lemma ClipUtf8Columns_encode:
  assumes "0 \<notin> set cps"
  shows "ClipUtf8Columns (utf8_encode cps) s m = utf8_encode (take m (drop s cps))"
proof -
  have "\<forall>u \<in> set (map (\<lambda>cp. utf8_encode [cp]) cps). utf8_unit u"
    using assms by (auto intro!: utf8_unit_encode)
  from ClipUtf8Columns_units [OF this, of s m] show ?thesis
    by (simp add: utf8_encode_units [of cps] utf8_encode_units [of "take m (drop s cps)"]
        take_map drop_map)
qed

section \<open>Properties\<close>

text \<open>Whatever 32-bit values the terminal emulator reports for its cells, the bytes that
  \<open>AppendUtf8\<close> accumulates are strictly valid UTF-8 (no overlong form, no surrogate, nothing above
  U+10FFFF), and they decode to exactly the reported characters, an invalid value replaced by
  U+FFFD and a zero left out.\<close>

theorem append_utf8_strictly_valid:
  "utf8_decode (map byte (fold (\<lambda>cp out. AppendUtf8 out cp) cps [])) =
     Some (map (\<lambda>cp. unat (NormalizeUnicodeScalar cp)) (filter (\<lambda>cp. cp \<noteq> 0) cps))"
  using utf8_decode_encode [of cps] by (simp add: utf8_encode_def)

text \<open>\<open>ClipUtf8Columns\<close> cuts by characters, never inside one: on the encoding of any
  non-zero characters it returns the encoding of the selected range of them.\<close>

theorem clip_utf8_columns_whole_characters:
  assumes "0 \<notin> set cps"
  shows "ClipUtf8Columns (utf8_encode cps) start_column max_columns =
     utf8_encode (take max_columns (drop start_column cps))"
  using assms by (rule ClipUtf8Columns_encode)

theorem clip_utf8_columns_whole_characters_witness:
  "0 \<notin> set [0x41, 0xE9, 0x20AC, 0x1F600 :: u32]
   \<and> ClipUtf8Columns (utf8_encode [0x41, 0xE9, 0x20AC, 0x1F600]) 1 2 = utf8_encode [0xE9, 0x20AC]"
  using clip_utf8_columns_whole_characters [of "[0x41, 0xE9, 0x20AC, 0x1F600]" 1 2] by simp

end
