(* ===== verification/Terminal_Screen.thy ===== *)
theory Terminal_Screen
  imports Utf8 Session_Types
begin

text \<open>
  The data of \<open>include/vibe/session/terminal_multiplexer.h\<close> (and \<open>TerminalSize\<close> of
  \<open>launch_spec.h\<close>) with the pure helpers of \<open>src/session/terminal_multiplexer.cpp\<close>: escape
  sequence detection, the trace summaries, the rendering of emulator cells to text and to SGR
  sequences, and \<open>ClassifySemanticChange\<close>, which decides whether an append was meaningful output.
  \<open>VTermColor\<close> and \<open>VTermScreenCell\<close> record the fields of libvterm's structures that the sources
  read; libvterm's colour comparison and conversion are parameters.
\<close>

section \<open>Types\<close>

record TerminalSize =
  ts_columns :: u16
  ts_rows :: u16

definition TerminalSize_default :: TerminalSize where
  "TerminalSize_default = \<lparr>ts_columns = 120, ts_rows = 40\<rparr>"

datatype TerminalSemanticChangeKind =
  KindNone | MeaningfulOutput | CosmeticChurn | CursorOnly | AltScreenTransition

fun ToString_TerminalSemanticChangeKind :: "TerminalSemanticChangeKind \<Rightarrow> string" where
  "ToString_TerminalSemanticChangeKind KindNone = ''none''"
| "ToString_TerminalSemanticChangeKind MeaningfulOutput = ''meaningful_output''"
| "ToString_TerminalSemanticChangeKind CosmeticChurn = ''cosmetic_churn''"
| "ToString_TerminalSemanticChangeKind CursorOnly = ''cursor_only''"
| "ToString_TerminalSemanticChangeKind AltScreenTransition = ''alt_screen_transition''"

record TerminalSemanticChange =
  sc_kind :: TerminalSemanticChangeKind
  sc_changed_visible_line_count :: nat
  sc_scrollback_lines_added :: nat
  sc_appended_visible_character_count :: nat
  sc_cursor_moved :: bool
  sc_alt_screen_entered :: bool
  sc_alt_screen_exited :: bool

definition TerminalSemanticChange_default :: TerminalSemanticChange where
  "TerminalSemanticChange_default =
     \<lparr>sc_kind = KindNone, sc_changed_visible_line_count = 0, sc_scrollback_lines_added = 0,
      sc_appended_visible_character_count = 0, sc_cursor_moved = False,
      sc_alt_screen_entered = False, sc_alt_screen_exited = False\<rparr>"

record TerminalScreenSnapshot =
  tss_columns :: u16
  tss_rows :: u16
  tss_render_revision :: u64
  tss_cursor_row :: nat
  tss_cursor_column :: nat
  tss_visible_lines :: "string list"
  tss_scrollback_lines :: "string list"
  tss_bootstrap_ansi :: string

definition TerminalScreenSnapshot_default :: TerminalScreenSnapshot where
  "TerminalScreenSnapshot_default =
     \<lparr>tss_columns = 0, tss_rows = 0, tss_render_revision = 0, tss_cursor_row = 0,
      tss_cursor_column = 0, tss_visible_lines = [], tss_scrollback_lines = [],
      tss_bootstrap_ansi = []\<rparr>"

record TerminalViewportState =
  vs_columns :: u16
  vs_rows :: u16
  vs_horizontal_offset :: nat
  vs_follow_cursor :: bool

definition TerminalViewportState_default :: TerminalViewportState where
  "TerminalViewportState_default =
     \<lparr>vs_columns = 0, vs_rows = 0, vs_horizontal_offset = 0, vs_follow_cursor = False\<rparr>"

record TerminalViewportSnapshot =
  vp_view_id :: string
  vp_columns :: u16
  vp_rows :: u16
  vp_render_revision :: u64
  vp_total_line_count :: nat
  vp_viewport_top_line :: nat
  vp_horizontal_offset :: nat
  vp_cursor_viewport_row :: "nat option"
  vp_cursor_viewport_column :: "nat option"
  vp_visible_lines :: "string list"
  vp_bootstrap_ansi :: string

section \<open>Emulator cells\<close>

record VTermColor =
  col_default_fg :: bool
  col_default_bg :: bool
  col_indexed :: bool
  col_idx :: nat
  col_red :: nat
  col_green :: nat
  col_blue :: nat

datatype VTermUnderline = UnderlineOff | UnderlineSingle | UnderlineDouble | UnderlineCurly

record VTermScreenCell =
  cell_chars :: "u32 list"
  cell_width :: int
  cell_bold :: bool
  cell_underline :: VTermUnderline
  cell_italic :: bool
  cell_blink :: bool
  cell_reverse :: bool
  cell_conceal :: bool
  cell_strike :: bool
  cell_fg :: VTermColor
  cell_bg :: VTermColor

section \<open>Text helpers\<close>

definition TrimRight :: "string \<Rightarrow> string" where
  "TrimRight value = rev (dropWhile (\<lambda>c. c = CHR '' '') (rev value))"

definition ContainsSequence :: "string \<Rightarrow> string \<Rightarrow> bool" where
  "ContainsSequence input needle = str_contains input needle"

abbreviation (input) esc :: "string \<Rightarrow> string" where
  "esc s \<equiv> ch_esc # s"

definition bool_text :: "bool \<Rightarrow> string" where
  "bool_text b = (if b then ''true'' else ''false'')"

definition SummarizeBootstrapColors :: "string \<Rightarrow> string" where
  "SummarizeBootstrapColors bootstrap =
     ''bytes='' @ nat_to_string (length bootstrap)
     @ '' hasIndexedFg='' @ bool_text (ContainsSequence bootstrap '';38;5;'')
     @ '' hasIndexedBg='' @ bool_text (ContainsSequence bootstrap '';48;5;'')
     @ '' hasRgbFg='' @ bool_text (ContainsSequence bootstrap '';38;2;'')
     @ '' hasRgbBg='' @ bool_text (ContainsSequence bootstrap '';48;2;'')
     @ '' hasReset='' @ bool_text (ContainsSequence bootstrap (esc ''[0m''))"

definition DescribeColor :: "VTermColor \<Rightarrow> bool \<Rightarrow> string" where
  "DescribeColor color foreground =
     (if (foreground \<and> col_default_fg color) \<or> (\<not> foreground \<and> col_default_bg color)
      then ''default''
      else if col_indexed color then ''idx:'' @ nat_to_string (col_idx color)
      else ''rgb:'' @ nat_to_string (col_red color) @ '','' @ nat_to_string (col_green color)
        @ '','' @ nat_to_string (col_blue color))"

definition append_trace_tags :: "string \<Rightarrow> string list" where
  "append_trace_tags data =
     (if ContainsSequence data (esc ''[?1049h'') then [''alt-enter-1049''] else [])
     @ (if ContainsSequence data (esc ''[?1049l'') then [''alt-exit-1049''] else [])
     @ (if ContainsSequence data (esc ''[?1047h'') then [''alt-enter-1047''] else [])
     @ (if ContainsSequence data (esc ''[?1047l'') then [''alt-exit-1047''] else [])
     @ (if ContainsSequence data (esc ''[?47h'') then [''alt-enter-47''] else [])
     @ (if ContainsSequence data (esc ''[?47l'') then [''alt-exit-47''] else [])
     @ (if ContainsSequence data (esc ''[2J'') then [''clear-2J''] else [])
     @ (if ContainsSequence data (esc ''[3J'') then [''clear-3J''] else [])
     @ (if ContainsSequence data (esc ''[H'') then [''cursor-home''] else [])"

fun join_with :: "string \<Rightarrow> string list \<Rightarrow> string" where
  "join_with sep [] = []"
| "join_with sep [x] = x"
| "join_with sep (x # y # ys) = x @ sep @ join_with sep (y # ys)"

definition BuildAppendTraceSummary :: "string \<Rightarrow> string option" where
  "BuildAppendTraceSummary data =
     (let tags = append_trace_tags data in
      if tags = [] then None
      else Some (''bytes='' @ nat_to_string (length data) @ '' tags='' @ join_with '','' tags))"

definition HasAltScreenEnter :: "string \<Rightarrow> bool" where
  "HasAltScreenEnter data \<longleftrightarrow>
     ContainsSequence data (esc ''[?1049h'') \<or> ContainsSequence data (esc ''[?1047h'') \<or>
     ContainsSequence data (esc ''[?47h'')"

definition HasAltScreenExit :: "string \<Rightarrow> bool" where
  "HasAltScreenExit data \<longleftrightarrow>
     ContainsSequence data (esc ''[?1049l'') \<or> ContainsSequence data (esc ''[?1047l'') \<or>
     ContainsSequence data (esc ''[?47l'')"

fun HasBareCarriageReturn :: "string \<Rightarrow> bool" where
  "HasBareCarriageReturn [] \<longleftrightarrow> False"
| "HasBareCarriageReturn (c # cs) \<longleftrightarrow>
     (c = ch_cr \<and> (cs = [] \<or> hd cs \<noteq> ch_nl)) \<or> HasBareCarriageReturn cs"

definition HasLineErase :: "string \<Rightarrow> bool" where
  "HasLineErase data \<longleftrightarrow>
     ContainsSequence data (esc ''[2K'') \<or> ContainsSequence data (esc ''[K'')"

definition IsTrivialVisibleCharacter :: "char \<Rightarrow> bool" where
  "IsTrivialVisibleCharacter ch \<longleftrightarrow>
     ch \<in> set ''.,:;`-_=+|/()[]{}<>*#!?'' \<or> ch = ch_quote \<or> ch = ch_dquote \<or> ch = ch_backslash"

definition is_control_byte :: "char \<Rightarrow> bool" where
  "is_control_byte c \<longleftrightarrow> byte c < 0x20 \<or> byte c = 0x7F"

definition CountVisibleTailGrowth :: "string \<Rightarrow> string \<Rightarrow> nat" where
  "CountVisibleTailGrowth before after =
     (if length after \<le> length before \<or> take (length before) after \<noteq> before then 0
      else length (filter (\<lambda>c. \<not> is_control_byte c) (drop (length before) after)))"

text \<open>The loop of \<open>HasOnlyTrivialTailGrowth\<close>, with \<open>saw_visible\<close> as its variable.\<close>

fun trivial_growth_loop :: "bool \<Rightarrow> string \<Rightarrow> bool" where
  "trivial_growth_loop saw_visible [] = saw_visible"
| "trivial_growth_loop saw_visible (c # cs) =
     (if is_control_byte c then trivial_growth_loop saw_visible cs
      else if \<not> IsTrivialVisibleCharacter c then False
      else trivial_growth_loop True cs)"

definition HasOnlyTrivialTailGrowth :: "string \<Rightarrow> string \<Rightarrow> bool" where
  "HasOnlyTrivialTailGrowth before after =
     (if length after \<le> length before \<or> take (length before) after \<noteq> before then False
      else trivial_growth_loop False (drop (length before) after))"

definition IsScreenBlank :: "TerminalScreenSnapshot \<Rightarrow> bool" where
  "IsScreenBlank snapshot \<longleftrightarrow> list_all (\<lambda>line. line = []) (tss_visible_lines snapshot)"

definition line_at :: "string list \<Rightarrow> nat \<Rightarrow> string" where
  "line_at ls index = (if index < length ls then ls ! index else [])"

definition compared_lines ::
    "TerminalScreenSnapshot \<Rightarrow> TerminalScreenSnapshot \<Rightarrow> (string \<times> string) list" where
  "compared_lines before after =
     map (\<lambda>index. (line_at (tss_visible_lines before) index, line_at (tss_visible_lines after) index))
       [0 ..< max (length (tss_visible_lines before)) (length (tss_visible_lines after))]"

fun single_change_loop ::
    "(string \<times> string) option \<Rightarrow> (string \<times> string) list \<Rightarrow> (string \<times> string) option" where
  "single_change_loop changed_line [] = changed_line"
| "single_change_loop changed_line ((b, a) # rest) =
     (if b = a then single_change_loop changed_line rest
      else if changed_line \<noteq> None then None
      else single_change_loop (Some (b, a)) rest)"

definition FindSingleChangedVisibleLine ::
    "TerminalScreenSnapshot \<Rightarrow> TerminalScreenSnapshot \<Rightarrow> (string \<times> string) option" where
  "FindSingleChangedVisibleLine before after = single_change_loop None (compared_lines before after)"

section \<open>Cells to text and SGR sequences\<close>

text \<open>The characters of a cell up to the first zero; a cell that emits none becomes a space.\<close>

definition cell_text :: "VTermScreenCell \<Rightarrow> string" where
  "cell_text cell =
     (let cps = takeWhile (\<lambda>cp. cp \<noteq> 0) (cell_chars cell) in
      if cps = [] then '' '' else fold (\<lambda>cp out. AppendUtf8 out cp) cps [])"

definition CellsToUtf8Line :: "VTermScreenCell list \<Rightarrow> string" where
  "CellsToUtf8Line cells =
     TrimRight (concat (map (\<lambda>cell. if cell_width cell = 0 then [] else cell_text cell) cells))"

definition HasAnyStyle :: "VTermScreenCell \<Rightarrow> bool" where
  "HasAnyStyle cell \<longleftrightarrow>
     cell_bold cell \<or> cell_underline cell \<noteq> UnderlineOff \<or> cell_italic cell \<or> cell_blink cell \<or>
     cell_reverse cell \<or> cell_conceal cell \<or> cell_strike cell \<or>
     \<not> col_default_fg (cell_fg cell) \<or> \<not> col_default_bg (cell_bg cell)"

definition SameStyle ::
    "(VTermColor \<Rightarrow> VTermColor \<Rightarrow> bool) \<Rightarrow> VTermScreenCell \<Rightarrow> VTermScreenCell \<Rightarrow> bool" where
  "SameStyle color_is_equal left right \<longleftrightarrow>
     cell_bold left = cell_bold right \<and> cell_underline left = cell_underline right \<and>
     cell_italic left = cell_italic right \<and> cell_blink left = cell_blink right \<and>
     cell_reverse left = cell_reverse right \<and> cell_conceal left = cell_conceal right \<and>
     cell_strike left = cell_strike right \<and> color_is_equal (cell_fg left) (cell_fg right) \<and>
     color_is_equal (cell_bg left) (cell_bg right)"

definition AppendColorSgr :: "(VTermColor \<Rightarrow> VTermColor) \<Rightarrow> VTermColor \<Rightarrow> bool \<Rightarrow> string" where
  "AppendColorSgr convert_color_to_rgb color foreground =
     (if (foreground \<and> col_default_fg color) \<or> (\<not> foreground \<and> col_default_bg color) then []
      else if col_indexed color then
        (if foreground then '';38;5;'' else '';48;5;'') @ nat_to_string (col_idx color)
      else
        let rgb = convert_color_to_rgb color in
        (if foreground then '';38;2;'' else '';48;2;'') @ nat_to_string (col_red rgb) @ '';''
        @ nat_to_string (col_green rgb) @ '';'' @ nat_to_string (col_blue rgb))"

fun underline_sgr :: "VTermUnderline \<Rightarrow> string" where
  "underline_sgr UnderlineSingle = '';4''"
| "underline_sgr UnderlineDouble = '';21''"
| "underline_sgr UnderlineCurly = '';4:3''"
| "underline_sgr UnderlineOff = []"

definition AppendFullStyleSgr :: "(VTermColor \<Rightarrow> VTermColor) \<Rightarrow> VTermScreenCell \<Rightarrow> string" where
  "AppendFullStyleSgr convert_color_to_rgb cell =
     esc ''[0'' @ (if cell_bold cell then '';1'' else []) @ (if cell_italic cell then '';3'' else [])
     @ underline_sgr (cell_underline cell)
     @ (if cell_blink cell then '';5'' else []) @ (if cell_reverse cell then '';7'' else [])
     @ (if cell_conceal cell then '';8'' else []) @ (if cell_strike cell then '';9'' else [])
     @ AppendColorSgr convert_color_to_rgb (cell_fg cell) True
     @ AppendColorSgr convert_color_to_rgb (cell_bg cell) False @ ''m''"

section \<open>Semantic classification of an append\<close>

definition changed_line_count :: "TerminalScreenSnapshot \<Rightarrow> TerminalScreenSnapshot \<Rightarrow> nat" where
  "changed_line_count before after =
     length (filter (\<lambda>(b, a). b \<noteq> a) (compared_lines before after))"

definition common_lines ::
    "TerminalScreenSnapshot \<Rightarrow> TerminalScreenSnapshot \<Rightarrow> (string \<times> string) list" where
  "common_lines before after = zip (tss_visible_lines before) (tss_visible_lines after)"

definition ClassifySemanticChange ::
    "string \<Rightarrow> TerminalScreenSnapshot \<Rightarrow> TerminalScreenSnapshot \<Rightarrow> TerminalSemanticChange" where
  "ClassifySemanticChange data before after =
     (let saw_carriage_return = HasBareCarriageReturn data;
          saw_line_erase = HasLineErase data;
          before_screen_blank = IsScreenBlank before;
          scrollback_added =
            (if length (tss_scrollback_lines after) > length (tss_scrollback_lines before)
             then length (tss_scrollback_lines after) - length (tss_scrollback_lines before) else 0);
          changed = changed_line_count before after;
          appended = sum_list (map (\<lambda>(b, a). CountVisibleTailGrowth b a) (common_lines before after));
          change =
            \<lparr>sc_kind = KindNone,
             sc_changed_visible_line_count = changed,
             sc_scrollback_lines_added = scrollback_added,
             sc_appended_visible_character_count = appended,
             sc_cursor_moved = (tss_cursor_row before \<noteq> tss_cursor_row after
               \<or> tss_cursor_column before \<noteq> tss_cursor_column after),
             sc_alt_screen_entered = HasAltScreenEnter data,
             sc_alt_screen_exited = HasAltScreenExit data\<rparr>
      in
      if sc_alt_screen_entered change \<or> sc_alt_screen_exited change
        then change\<lparr>sc_kind := AltScreenTransition\<rparr>
      else if tss_render_revision after = tss_render_revision before then change
      else if scrollback_added > 0 then change\<lparr>sc_kind := MeaningfulOutput\<rparr>
      else if changed = 0 \<and> sc_cursor_moved change then change\<lparr>sc_kind := CursorOnly\<rparr>
      else
        let single =
              (if scrollback_added = 0 \<and> changed = 1 \<and> (saw_carriage_return \<or> saw_line_erase) then
                 (case FindSingleChangedVisibleLine before after of
                    None \<Rightarrow> None
                  | Some (before_line, after_line) \<Rightarrow>
                      if saw_line_erase \<and> appended = 0 \<and> before_line \<noteq> [] \<and> after_line = []
                        then Some CursorOnly
                      else if before_screen_blank \<or> before_line \<noteq> [] \<or> after_line \<noteq> []
                        then Some CosmeticChurn
                      else None)
               else None)
        in
        case single of
          Some kind \<Rightarrow> change\<lparr>sc_kind := kind\<rparr>
        | None \<Rightarrow>
            if changed \<le> 1 \<and> appended > 0 \<and> appended \<le> 4 \<and>
               list_ex (\<lambda>(b, a). HasOnlyTrivialTailGrowth b a) (common_lines before after)
              then change\<lparr>sc_kind := CosmeticChurn\<rparr>
            else if changed > 0 then change\<lparr>sc_kind := MeaningfulOutput\<rparr>
            else change)"

section \<open>Facts about the classification\<close>

lemma single_change_loop_Some:
  "single_change_loop (Some x) ps = (if filter (\<lambda>(b, a). b \<noteq> a) ps = [] then Some x else None)"
  by (induction ps) auto

lemma single_change_loop_None:
  "single_change_loop None ps =
     (case filter (\<lambda>(b, a). b \<noteq> a) ps of [p] \<Rightarrow> Some p | _ \<Rightarrow> None)"
  by (induction ps) (auto simp: single_change_loop_Some split: list.splits)

lemma FindSingle_Some:
  assumes "changed_line_count before after = 1"
  obtains b a where "FindSingleChangedVisibleLine before after = Some (b, a)" "b \<noteq> a"
proof -
  from assms obtain p where p: "filter (\<lambda>(b, a). b \<noteq> a) (compared_lines before after) = [p]"
    by (auto simp: changed_line_count_def length_Suc_conv)
  then have "p \<in> {q \<in> set (compared_lines before after). (\<lambda>(b, a). b \<noteq> a) q}"
    by (metis list.set_intros(1) set_filter)
  with p show ?thesis
    by (cases p) (auto simp: FindSingleChangedVisibleLine_def single_change_loop_None intro: that)
qed

lemma TrimRight_append_spaces [simp]: "TrimRight (s @ replicate n CHR '' '') = TrimRight s"
  by (induction n) (simp_all add: TrimRight_def replicate_append_same [symmetric] del: replicate.simps
      flip: append_assoc, simp_all add: TrimRight_def)

text \<open>Text rendered from cells is an encoding of characters, hence strictly valid UTF-8.\<close>

definition cell_codepoints :: "VTermScreenCell \<Rightarrow> u32 list" where
  "cell_codepoints cell =
     (if cell_width cell = 0 then []
      else
        let cps = takeWhile (\<lambda>cp. cp \<noteq> 0) (cell_chars cell) in
        if cps = [] then [0x20] else cps)"

lemma cell_codepoints_nonzero: "0 \<notin> set (cell_codepoints cell)"
  by (auto simp: cell_codepoints_def Let_def dest: set_takeWhileD)

lemma utf8_encode_append: "utf8_encode (xs @ ys) = utf8_encode xs @ utf8_encode ys"
  by (induction xs) (simp_all add: utf8_encode_Cons)

lemma char_of_32 [simp]: "char_of (32 :: nat) = CHR '' ''"
  by (subst byte_eq_iff [symmetric]) (simp add: byte_def)

lemma utf8_encode_space: "utf8_encode [0x20] = '' ''"
  by (simp add: utf8_encode_Cons NormalizeUnicodeScalar_def scalar_bytes_def)

lemma cells_text_encode:
  "concat (map (\<lambda>cell. if cell_width cell = 0 then [] else cell_text cell) cells) =
     utf8_encode (concat (map cell_codepoints cells))"
proof (induction cells)
  case (Cons cell cells)
  have "(if cell_width cell = 0 then [] else cell_text cell) = utf8_encode (cell_codepoints cell)"
    by (simp add: cell_codepoints_def cell_text_def Let_def utf8_encode_space)
      (simp add: utf8_encode_def)
  with Cons show ?case by (simp add: utf8_encode_append)
qed simp

lemma utf8_encode_ends_space:
  assumes "utf8_encode cps = s @ '' ''" "0 \<notin> set cps"
  shows "\<exists>cps'. cps = cps' @ [0x20] \<and> utf8_encode cps' = s"
proof (cases cps rule: rev_cases)
  case Nil
  with assms show ?thesis by simp
next
  case (snoc cps' c)
  let ?v = "unat (NormalizeUnicodeScalar c)"
  from snoc assms have c: "unicode_scalar ?v" by (auto intro: NormalizeUnicodeScalar_scalar)
  from snoc assms(1) have eq: "utf8_encode cps' @ map char_of (scalar_bytes ?v) = s @ '' ''"
    by (simp add: utf8_encode_append utf8_encode_Cons)
  have ne: "scalar_bytes ?v \<noteq> []" using c by (auto simp: scalar_bytes_def unicode_scalar_def)
  then have last: "char_of (last (scalar_bytes ?v)) = CHR '' ''"
    using arg_cong [OF eq, of last] by (simp add: last_map)
  have "byte (char_of (last (scalar_bytes ?v))) = last (scalar_bytes ?v)"
    using scalar_bytes_byte [OF c] ne by (metis last_map map_map comp_apply map_is_Nil_conv)
  with last have "last (scalar_bytes ?v) = 32" by (simp add: byte_def)
  then have v: "?v = 32" using c by (auto simp: scalar_bytes_def unicode_scalar_def split: if_splits)
  then have "unat c = unat (0x20 :: u32)"
    by (auto simp: unat_NormalizeUnicodeScalar split: if_splits)
  then have "c = 0x20" by (simp only: word_unat_eq_iff)
  with v eq snoc show ?thesis by (auto simp: scalar_bytes_def)
qed

lemma TrimRight_encode:
  "0 \<notin> set cps \<Longrightarrow> \<exists>cps'. prefix cps' cps \<and> TrimRight (utf8_encode cps) = utf8_encode cps'"
proof (induction cps rule: rev_induct)
  case Nil
  then show ?case by (simp add: TrimRight_def)
next
  case (snoc c cps)
  show ?case
  proof (cases "\<exists>s. utf8_encode (cps @ [c]) = s @ '' ''")
    case True
    then obtain s where s: "utf8_encode (cps @ [c]) = s @ '' ''" by blast
    from utf8_encode_ends_space [OF this] snoc.prems have "utf8_encode cps = s" by auto
    with s have "TrimRight (utf8_encode (cps @ [c])) = TrimRight (utf8_encode cps)"
      by (simp add: TrimRight_def)
    with snoc show ?thesis by (auto intro: prefix_order.trans)
  next
    case False
    then have "TrimRight (utf8_encode (cps @ [c])) = utf8_encode (cps @ [c])"
      by (cases "utf8_encode (cps @ [c])" rule: rev_cases) (auto simp: TrimRight_def)
    then show ?thesis by blast
  qed
qed

text \<open>A rendered line is the encoding of some non-zero characters.\<close>

definition text_line :: "string \<Rightarrow> bool" where
  "text_line line \<longleftrightarrow> (\<exists>cps. 0 \<notin> set cps \<and> line = utf8_encode cps)"

lemma text_line_CellsToUtf8Line: "text_line (CellsToUtf8Line cells)"
proof -
  let ?cps = "concat (map cell_codepoints cells)"
  have nz: "0 \<notin> set ?cps" using cell_codepoints_nonzero by auto
  from TrimRight_encode [OF this] obtain cps' where
    "prefix cps' ?cps" "TrimRight (utf8_encode ?cps) = utf8_encode cps'" by blast
  moreover have "0 \<notin> set cps'" using nz set_mono_prefix [OF calculation(1)] by blast
  ultimately show ?thesis
    by (auto simp: text_line_def CellsToUtf8Line_def cells_text_encode)
qed

lemma text_line_Clip:
  assumes "text_line line"
  shows "text_line (ClipUtf8Columns line s m)"
proof -
  from assms obtain cps where cps: "0 \<notin> set cps" "line = utf8_encode cps"
    by (auto simp: text_line_def)
  then have "0 \<notin> set (take m (drop s cps))" by (meson in_set_dropD in_set_takeD)
  with cps show ?thesis unfolding text_line_def by (metis ClipUtf8Columns_encode)
qed

lemma no_growth_without_change:
  assumes "changed_line_count before after = 0"
  shows "sum_list (map (\<lambda>(b, a). CountVisibleTailGrowth b a) (common_lines before after)) = 0"
proof -
  have "b = a" if "(b, a) \<in> set (common_lines before after)" for b a
  proof -
    from that obtain i where i: "i < length (tss_visible_lines before)" "i < length (tss_visible_lines after)"
      "b = tss_visible_lines before ! i" "a = tss_visible_lines after ! i"
      by (auto simp: common_lines_def set_zip)
    then have "(b, a) \<in> set (compared_lines before after)"
      by (auto simp: compared_lines_def line_at_def image_iff intro!: bexI [of _ i])
    with assms show ?thesis by (auto simp: changed_line_count_def filter_empty_conv)
  qed
  then have "\<forall>p \<in> set (common_lines before after). (\<lambda>(b, a). CountVisibleTailGrowth b a) p = 0"
    by (fastforce simp: CountVisibleTailGrowth_def)
  then show ?thesis by (simp add: sum_list_nonneg_eq_0_iff)
qed

lemma classify_fields:
  "sc_scrollback_lines_added (ClassifySemanticChange data before after) =
     length (tss_scrollback_lines after) - length (tss_scrollback_lines before)"
  "sc_changed_visible_line_count (ClassifySemanticChange data before after) =
     changed_line_count before after"
  "sc_cursor_moved (ClassifySemanticChange data before after) \<longleftrightarrow>
     tss_cursor_row before \<noteq> tss_cursor_row after
     \<or> tss_cursor_column before \<noteq> tss_cursor_column after"
  by (simp_all add: ClassifySemanticChange_def Let_def split: option.split prod.split)

lemma classify_alt:
  "sc_kind (ClassifySemanticChange data before after) = AltScreenTransition \<longleftrightarrow>
     HasAltScreenEnter data \<or> HasAltScreenExit data"
  by (auto simp: ClassifySemanticChange_def Let_def split: option.split prod.split)

lemma classify_unredrawn:
  "\<not> (HasAltScreenEnter data \<or> HasAltScreenExit data)
     \<and> \<not> tss_render_revision after \<noteq> tss_render_revision before \<longrightarrow>
     sc_kind (ClassifySemanticChange data before after) = KindNone"
  by (simp add: ClassifySemanticChange_def Let_def)

lemma classify_scrollback:
  "\<not> (HasAltScreenEnter data \<or> HasAltScreenExit data)
     \<and> tss_render_revision after \<noteq> tss_render_revision before
     \<and> sc_scrollback_lines_added (ClassifySemanticChange data before after) > 0 \<longrightarrow>
     sc_kind (ClassifySemanticChange data before after) = MeaningfulOutput"
  unfolding classify_fields by (simp add: ClassifySemanticChange_def Let_def)

lemma classify_no_line:
  "\<not> (HasAltScreenEnter data \<or> HasAltScreenExit data)
     \<and> tss_render_revision after \<noteq> tss_render_revision before
     \<and> sc_scrollback_lines_added (ClassifySemanticChange data before after) = 0
     \<and> sc_changed_visible_line_count (ClassifySemanticChange data before after) = 0 \<longrightarrow>
     sc_kind (ClassifySemanticChange data before after) =
       (if sc_cursor_moved (ClassifySemanticChange data before after) then CursorOnly else KindNone)"
  unfolding classify_fields
  by (auto simp: ClassifySemanticChange_def Let_def dest: no_growth_without_change)

lemma classify_one_line:
  "\<not> (HasAltScreenEnter data \<or> HasAltScreenExit data)
     \<and> tss_render_revision after \<noteq> tss_render_revision before
     \<and> sc_scrollback_lines_added (ClassifySemanticChange data before after) = 0
     \<and> sc_changed_visible_line_count (ClassifySemanticChange data before after) = 1
     \<and> (HasBareCarriageReturn data \<or> HasLineErase data) \<longrightarrow>
     sc_kind (ClassifySemanticChange data before after) = CursorOnly
     \<or> sc_kind (ClassifySemanticChange data before after) = CosmeticChurn"
proof (intro impI, elim conjE)
  assume one: "sc_changed_visible_line_count (ClassifySemanticChange data before after) = 1"
    and h: "\<not> (HasAltScreenEnter data \<or> HasAltScreenExit data)"
    "tss_render_revision after \<noteq> tss_render_revision before"
    "sc_scrollback_lines_added (ClassifySemanticChange data before after) = 0"
    "HasBareCarriageReturn data \<or> HasLineErase data"
  from one obtain b a where "FindSingleChangedVisibleLine before after = Some (b, a)" "b \<noteq> a"
    unfolding classify_fields by (rule FindSingle_Some)
  with one h show "sc_kind (ClassifySemanticChange data before after) = CursorOnly
      \<or> sc_kind (ClassifySemanticChange data before after) = CosmeticChurn"
    unfolding classify_fields by (auto simp: ClassifySemanticChange_def Let_def)
qed

lemma classify_many_lines:
  "\<not> (HasAltScreenEnter data \<or> HasAltScreenExit data)
     \<and> tss_render_revision after \<noteq> tss_render_revision before
     \<and> sc_scrollback_lines_added (ClassifySemanticChange data before after) = 0
     \<and> sc_changed_visible_line_count (ClassifySemanticChange data before after) > 1 \<longrightarrow>
     sc_kind (ClassifySemanticChange data before after) = MeaningfulOutput"
  unfolding classify_fields by (auto simp: ClassifySemanticChange_def Let_def)

section \<open>Properties\<close>

text \<open>How an append is classified. An alternate-screen switch decides alone; otherwise an
  append that redraws nothing is no change, new scrollback is meaningful output, a pure cursor
  movement is a cursor change, and a redraw of a single line with a bare carriage return or a
  line erase (a spinner or a progress bar) is never counted as meaningful output.\<close>

theorem classify_semantic_change_decision:
  "let c = ClassifySemanticChange data before after;
       alt = (HasAltScreenEnter data \<or> HasAltScreenExit data);
       redrawn = (tss_render_revision after \<noteq> tss_render_revision before);
       added = sc_scrollback_lines_added c;
       changed = sc_changed_visible_line_count c
   in (sc_kind c = AltScreenTransition \<longleftrightarrow> alt)
      \<and> (\<not> alt \<and> \<not> redrawn \<longrightarrow> sc_kind c = KindNone)
      \<and> (\<not> alt \<and> redrawn \<and> added > 0 \<longrightarrow> sc_kind c = MeaningfulOutput)
      \<and> (\<not> alt \<and> redrawn \<and> added = 0 \<and> changed = 0 \<longrightarrow>
           sc_kind c = (if sc_cursor_moved c then CursorOnly else KindNone))
      \<and> (\<not> alt \<and> redrawn \<and> added = 0 \<and> changed = 1
           \<and> (HasBareCarriageReturn data \<or> HasLineErase data) \<longrightarrow>
           sc_kind c = CursorOnly \<or> sc_kind c = CosmeticChurn)
      \<and> (\<not> alt \<and> redrawn \<and> added = 0 \<and> changed > 1 \<longrightarrow> sc_kind c = MeaningfulOutput)"
  unfolding Let_def
  by (intro conjI classify_alt classify_unredrawn classify_scrollback classify_no_line
      classify_one_line classify_many_lines)

theorem classify_semantic_change_decision_witness:
  "sc_kind (ClassifySemanticChange (''50%'' @ [ch_cr])
     (TerminalScreenSnapshot_default\<lparr>tss_visible_lines := [''49%'']\<rparr>)
     (TerminalScreenSnapshot_default\<lparr>tss_visible_lines := [''50%''], tss_render_revision := 1\<rparr>))
   \<in> {CursorOnly, CosmeticChurn}"
  using classify_semantic_change_decision [of "''50%'' @ [ch_cr]"
      "TerminalScreenSnapshot_default\<lparr>tss_visible_lines := [''49%'']\<rparr>"
      "TerminalScreenSnapshot_default\<lparr>tss_visible_lines := [''50%''], tss_render_revision := 1\<rparr>"]
  by (simp add: Let_def classify_fields TerminalScreenSnapshot_default_def changed_line_count_def
      compared_lines_def line_at_def HasAltScreenEnter_def HasAltScreenExit_def
      ContainsSequence_def str_contains_def starts_with_def)

end
