(* ===== verification/Session_Record.thy ===== *)
theory Session_Record
  imports Lifecycle Terminal_Screen
begin

text \<open>
  \<open>session_snapshot.h\<close>: the data published about a session, and \<open>session_record.h/.cpp\<close>: the record
  that owns a session's metadata and lifecycle. The record keeps the published status equal to the
  lifecycle's state.
\<close>

section \<open>Published state\<close>

datatype SupervisionState = SupActive | SupQuiet | SupStopped

fun ToString_SupervisionState :: "SupervisionState \<Rightarrow> string" where
  "ToString_SupervisionState SupActive = ''active''"
| "ToString_SupervisionState SupQuiet = ''quiet''"
| "ToString_SupervisionState SupStopped = ''stopped''"

datatype AttentionState = AttNone | AttInfo | AttActionRequired | AttIntervention

fun ToString_AttentionState :: "AttentionState \<Rightarrow> string" where
  "ToString_AttentionState AttNone = ''none''"
| "ToString_AttentionState AttInfo = ''info''"
| "ToString_AttentionState AttActionRequired = ''action_required''"
| "ToString_AttentionState AttIntervention = ''intervention''"

datatype AttentionReason =
    ReasonNone
  | ReasonAwaitingInput
  | ReasonSessionError
  | ReasonWorkspaceChanged
  | ReasonGitStateChanged
  | ReasonControllerChanged
  | ReasonSessionExitedCleanly

fun ToString_AttentionReason :: "AttentionReason \<Rightarrow> string" where
  "ToString_AttentionReason ReasonNone = ''none''"
| "ToString_AttentionReason ReasonAwaitingInput = ''awaiting_input''"
| "ToString_AttentionReason ReasonSessionError = ''session_error''"
| "ToString_AttentionReason ReasonWorkspaceChanged = ''workspace_changed''"
| "ToString_AttentionReason ReasonGitStateChanged = ''git_state_changed''"
| "ToString_AttentionReason ReasonControllerChanged = ''controller_changed''"
| "ToString_AttentionReason ReasonSessionExitedCleanly = ''session_exited_cleanly''"

datatype SessionInteractionKind =
    IkUnknown
  | IkCompletedQuickly
  | IkRunningNonInteractive
  | IkInteractiveFullscreen
  | IkInteractiveLineMode

fun ToString_SessionInteractionKind :: "SessionInteractionKind \<Rightarrow> string" where
  "ToString_SessionInteractionKind IkUnknown = ''unknown''"
| "ToString_SessionInteractionKind IkCompletedQuickly = ''completed_quickly''"
| "ToString_SessionInteractionKind IkRunningNonInteractive = ''running_non_interactive''"
| "ToString_SessionInteractionKind IkInteractiveFullscreen = ''interactive_fullscreen''"
| "ToString_SessionInteractionKind IkInteractiveLineMode = ''interactive_line_mode''"

datatype SessionActivityState =
  ActIdle | ActMeaningfulOutput | ActCosmeticOutput | ActExternalChange | ActStopped

fun ToString_SessionActivityState :: "SessionActivityState \<Rightarrow> string" where
  "ToString_SessionActivityState ActIdle = ''idle''"
| "ToString_SessionActivityState ActMeaningfulOutput = ''meaningful_output''"
| "ToString_SessionActivityState ActCosmeticOutput = ''cosmetic_output''"
| "ToString_SessionActivityState ActExternalChange = ''external_change''"
| "ToString_SessionActivityState ActStopped = ''stopped''"

record SessionModeSummary =
  ms_lifecycle_status :: SessionStatus
  ms_interaction_kind :: SessionInteractionKind
  ms_activity_state :: SessionActivityState

record SessionAttentionSummary =
  as_level :: AttentionState
  as_cause :: AttentionReason
  as_since_unix_ms :: "unix_ms option"
  as_summary :: string

record SessionSignals =
  sg_last_raw_output_at_unix_ms :: "unix_ms option"
  sg_last_meaningful_output_at_unix_ms :: "unix_ms option"
  sg_last_output_at_unix_ms :: "unix_ms option"
  sg_last_activity_at_unix_ms :: "unix_ms option"
  sg_last_file_change_at_unix_ms :: "unix_ms option"
  sg_last_git_change_at_unix_ms :: "unix_ms option"
  sg_last_controller_change_at_unix_ms :: "unix_ms option"
  sg_attention_since_unix_ms :: "unix_ms option"
  sg_pty_columns :: "u16 option"
  sg_pty_rows :: "u16 option"
  sg_current_sequence :: u64
  sg_recent_file_change_count :: nat
  sg_supervision_state :: SupervisionState
  sg_attention_state :: AttentionState
  sg_attention_reason :: AttentionReason
  sg_interaction_kind :: SessionInteractionKind
  sg_terminal_semantic_change :: TerminalSemanticChange
  sg_git_dirty :: bool
  sg_git_branch :: string
  sg_git_modified_count :: nat
  sg_git_staged_count :: nat
  sg_git_untracked_count :: nat
  sg_mode :: SessionModeSummary
  sg_attention :: SessionAttentionSummary

record SessionNodeSummary =
  ns_session_id :: string
  ns_lifecycle_status :: SessionStatus
  ns_interaction_kind :: SessionInteractionKind
  ns_attention_state :: AttentionState
  ns_semantic_preview :: string
  ns_recent_file_change_count :: nat
  ns_git_dirty :: bool
  ns_last_activity_at_unix_ms :: "unix_ms option"

record GitSummary =
  gs_branch :: string
  gs_modified_count :: nat
  gs_staged_count :: nat
  gs_untracked_count :: nat
  gs_modified_files :: "string list"
  gs_staged_files :: "string list"
  gs_untracked_files :: "string list"

definition GitSummary_default :: GitSummary where
  "GitSummary_default =
     \<lparr>gs_branch = [], gs_modified_count = 0, gs_staged_count = 0, gs_untracked_count = 0,
      gs_modified_files = [], gs_staged_files = [], gs_untracked_files = []\<rparr>"

record SessionSnapshot =
  sn_metadata :: SessionMetadata
  sn_current_sequence :: u64
  sn_recent_terminal_tail :: string
  sn_terminal_screen :: "TerminalScreenSnapshot option"
  sn_signals :: SessionSignals
  sn_node_summary :: SessionNodeSummary
  sn_recent_file_changes :: "string list"
  sn_git_summary :: GitSummary

definition SessionModeSummary_default :: SessionModeSummary where
  "SessionModeSummary_default =
     \<lparr>ms_lifecycle_status = Created, ms_interaction_kind = IkUnknown, ms_activity_state = ActIdle\<rparr>"

definition SessionAttentionSummary_default :: SessionAttentionSummary where
  "SessionAttentionSummary_default =
     \<lparr>as_level = AttNone, as_cause = ReasonNone, as_since_unix_ms = None, as_summary = []\<rparr>"

section \<open>The session record\<close>

record SessionRecord =
  sr_metadata :: SessionMetadata
  sr_lifecycle :: SessionLifecycle
  sr_current_sequence :: u64
  sr_recent_terminal_tail :: string
  sr_terminal_screen :: "TerminalScreenSnapshot option"
  sr_terminal_semantic_change :: TerminalSemanticChange
  sr_recent_file_changes :: "string list"
  sr_git_summary :: GitSummary

definition SessionRecord_new :: "SessionMetadata \<Rightarrow> SessionRecord" where
  "SessionRecord_new metadata =
     \<lparr>sr_metadata = metadata, sr_lifecycle = SessionLifecycle_init, sr_current_sequence = 0,
      sr_recent_terminal_tail = [], sr_terminal_screen = None,
      sr_terminal_semantic_change = TerminalSemanticChange_default,
      sr_recent_file_changes = [], sr_git_summary = GitSummary_default\<rparr>"

definition sr_TryTransition :: "SessionStatus \<Rightarrow> SessionRecord \<Rightarrow> bool \<times> SessionRecord" where
  "sr_TryTransition next_status r =
     (let (ok, lc) = lc_TryTransition next_status (sr_lifecycle r) in
      if \<not> ok then (False, r\<lparr>sr_lifecycle := lc\<rparr>)
      else (True, r\<lparr>sr_lifecycle := lc, sr_metadata := (sr_metadata r)\<lparr>md_status := lc_state lc\<rparr>\<rparr>))"

definition SetGroupTags :: "string list \<Rightarrow> SessionRecord \<Rightarrow> SessionRecord" where
  "SetGroupTags group_tags r = r\<lparr>sr_metadata := (sr_metadata r)\<lparr>md_group_tags := group_tags\<rparr>\<rparr>"

definition git_summary_dirty :: "GitSummary \<Rightarrow> bool" where
  "git_summary_dirty g \<longleftrightarrow>
     gs_modified_files g \<noteq> [] \<or> gs_staged_files g \<noteq> [] \<or> gs_untracked_files g \<noteq> []"

definition sr_snapshot :: "SessionRecord \<Rightarrow> SessionSnapshot" where
  "sr_snapshot r =
     \<lparr>sn_metadata = sr_metadata r,
      sn_current_sequence = sr_current_sequence r,
      sn_recent_terminal_tail = sr_recent_terminal_tail r,
      sn_terminal_screen = sr_terminal_screen r,
      sn_signals =
        \<lparr>sg_last_raw_output_at_unix_ms = None, sg_last_meaningful_output_at_unix_ms = None,
         sg_last_output_at_unix_ms = None, sg_last_activity_at_unix_ms = None,
         sg_last_file_change_at_unix_ms = None, sg_last_git_change_at_unix_ms = None,
         sg_last_controller_change_at_unix_ms = None, sg_attention_since_unix_ms = None,
         sg_pty_columns = None, sg_pty_rows = None,
         sg_current_sequence = sr_current_sequence r,
         sg_recent_file_change_count = length (sr_recent_file_changes r),
         sg_supervision_state = SupQuiet,
         sg_attention_state = AttNone, sg_attention_reason = ReasonNone,
         sg_interaction_kind = IkUnknown,
         sg_terminal_semantic_change = sr_terminal_semantic_change r,
         sg_git_dirty = git_summary_dirty (sr_git_summary r),
         sg_git_branch = gs_branch (sr_git_summary r),
         sg_git_modified_count = 0, sg_git_staged_count = 0, sg_git_untracked_count = 0,
         sg_mode = SessionModeSummary_default, sg_attention = SessionAttentionSummary_default\<rparr>,
      sn_node_summary =
        \<lparr>ns_session_id = sid_value (md_id (sr_metadata r)),
         ns_lifecycle_status = md_status (sr_metadata r),
         ns_interaction_kind = IkUnknown, ns_attention_state = AttNone, ns_semantic_preview = [],
         ns_recent_file_change_count = length (sr_recent_file_changes r),
         ns_git_dirty = git_summary_dirty (sr_git_summary r),
         ns_last_activity_at_unix_ms = None\<rparr>,
      sn_recent_file_changes = sr_recent_file_changes r,
      sn_git_summary = sr_git_summary r\<rparr>"

section \<open>The published status is the lifecycle's state\<close>

abbreviation sr_status :: "SessionRecord \<Rightarrow> SessionStatus" where
  "sr_status r \<equiv> md_status (sr_metadata r)"

definition sr_inv :: "SessionRecord \<Rightarrow> bool" where
  "sr_inv r \<longleftrightarrow> sr_status r = lc_state (sr_lifecycle r)"

lemma sr_inv_new: "md_status md = Created \<Longrightarrow> sr_inv (SessionRecord_new md)"
  by (simp add: sr_inv_def SessionRecord_new_def SessionLifecycle_init_def)

lemma sr_TryTransition_fst: "sr_inv r \<Longrightarrow> fst (sr_TryTransition s r) = IsValidTransition (sr_status r) s"
  by (simp add: sr_inv_def sr_TryTransition_def lc_TryTransition_def)

lemma sr_TryTransition_snd:
  "sr_inv r \<Longrightarrow> snd (sr_TryTransition s r) =
     (if IsValidTransition (sr_status r) s
      then r\<lparr>sr_lifecycle := \<lparr>lc_state = s\<rparr>, sr_metadata := (sr_metadata r)\<lparr>md_status := s\<rparr>\<rparr>
      else r)"
  by (simp add: sr_inv_def sr_TryTransition_def lc_TryTransition_def)

lemma sr_TryTransition_eq:
  assumes "sr_inv r"
  shows "sr_TryTransition s r =
     (if IsValidTransition (sr_status r) s
      then (True, r\<lparr>sr_lifecycle := \<lparr>lc_state = s\<rparr>, sr_metadata := (sr_metadata r)\<lparr>md_status := s\<rparr>\<rparr>)
      else (False, r))"
  using sr_TryTransition_fst [OF assms, of s] sr_TryTransition_snd [OF assms, of s]
  by (cases "sr_TryTransition s r") (simp split: if_splits)

lemma sr_inv_simps [simp]:
  "sr_inv (r\<lparr>sr_current_sequence := n\<rparr>) = sr_inv r"
  "sr_inv (r\<lparr>sr_recent_terminal_tail := t\<rparr>) = sr_inv r"
  "sr_inv (r\<lparr>sr_terminal_screen := sc\<rparr>) = sr_inv r"
  "sr_inv (r\<lparr>sr_terminal_semantic_change := ch\<rparr>) = sr_inv r"
  "sr_inv (r\<lparr>sr_recent_file_changes := fs\<rparr>) = sr_inv r"
  "sr_inv (r\<lparr>sr_git_summary := g\<rparr>) = sr_inv r"
  "sr_inv (SetGroupTags tags r) = sr_inv r"
  "sr_inv (r\<lparr>sr_lifecycle := \<lparr>lc_state = s\<rparr>, sr_metadata := (sr_metadata r)\<lparr>md_status := s\<rparr>\<rparr>)"
  by (simp_all add: sr_inv_def SetGroupTags_def)

end
