(* ===== verification/Evicting_Queues.thy ===== *)
theory Evicting_Queues
  imports Prelude
begin

text \<open>
  The contract that the bounded buffers of the system share: a buffer retains a list of items,
  one operation adds an item at the back, and items leave at the front only. The locale
  \<open>evicting_queue\<close> states the contract of one push; inside it, what a buffer retains is proved
  to be a suffix of everything ever pushed. \<open>numbered_queue\<close> adds consecutive numbering and
  proves that a number addresses an item by its distance from the oldest one, the arithmetic
  that the readers of the buffers use. The scrollback, the PTY output buffer, the log buffer and
  the observation store interpret them in their own theories.
\<close>

section \<open>Everything ever pushed\<close>

fun push_history :: "('x \<Rightarrow> 'q \<Rightarrow> 'q) \<Rightarrow> ('x \<Rightarrow> 'q \<Rightarrow> 'a) \<Rightarrow> 'x list \<Rightarrow> 'q \<Rightarrow> 'a list" where
  "push_history push item [] q = []"
| "push_history push item (x # xs) q = item x q # push_history push item xs (push x q)"

fun push_ok :: "('x \<Rightarrow> 'q \<Rightarrow> 'q) \<Rightarrow> ('x \<Rightarrow> 'q \<Rightarrow> bool) \<Rightarrow> 'x list \<Rightarrow> 'q \<Rightarrow> bool" where
  "push_ok push ok [] q \<longleftrightarrow> True"
| "push_ok push ok (x # xs) q \<longleftrightarrow> ok x q \<and> push_ok push ok xs (push x q)"

lemma length_push_history [simp]: "length (push_history push item xs q) = length xs"
  by (induction xs arbitrary: q) auto

lemma suffix_extend: "suffix a b \<Longrightarrow> suffix b c \<Longrightarrow> suffix a (pre @ c)"
  by (auto simp: suffix_def)

lemma map_eq_upt_Cons:
  assumes "map f (x # xs) = [b ..< b + length (x # xs)]"
  shows "f x = b \<and> map f xs = [Suc b ..< Suc b + length xs]"
proof -
  have "[b ..< b + length (x # xs)] = b # [Suc b ..< Suc b + length xs]"
    by (simp add: upt_rec)
  with assms show ?thesis by simp
qed

lemma filter_ge_numbered:
  "map f xs = [b ..< b + length xs] \<Longrightarrow> filter (\<lambda>x. k \<le> f x) xs = drop (k - b) xs"
proof (induction xs arbitrary: b)
  case Nil
  then show ?case by simp
next
  case (Cons x xs)
  from map_eq_upt_Cons [OF Cons.prems] have fx: "f x = b"
    and eq: "map f xs = [Suc b ..< Suc b + length xs]" by auto
  from Cons.IH [OF eq] have IH: "filter (\<lambda>x. k \<le> f x) xs = drop (k - Suc b) xs" .
  show ?case
  proof (cases "k \<le> b")
    case True
    with fx IH show ?thesis by simp
  next
    case False
    then have "k - b = Suc (k - Suc b)" by simp
    with False fx IH show ?thesis by simp
  qed
qed

lemma filter_le_numbered:
  "map f xs = [b ..< b + length xs] \<Longrightarrow> filter (\<lambda>x. f x \<le> k) xs = take (Suc k - b) xs"
proof (induction xs arbitrary: b)
  case Nil
  then show ?case by simp
next
  case (Cons x xs)
  from map_eq_upt_Cons [OF Cons.prems] have fx: "f x = b"
    and eq: "map f xs = [Suc b ..< Suc b + length xs]" by auto
  from Cons.IH [OF eq] have IH: "filter (\<lambda>x. f x \<le> k) xs = take (k - b) xs" by simp
  show ?case
  proof (cases "b \<le> k")
    case True
    with fx IH show ?thesis by (simp add: Suc_diff_le)
  next
    case False
    with fx IH show ?thesis by simp
  qed
qed

section \<open>Queues that evict at the front\<close>

locale evicting_queue =
  fixes items :: "'q \<Rightarrow> 'a list"
    and push :: "'x \<Rightarrow> 'q \<Rightarrow> 'q"
    and item :: "'x \<Rightarrow> 'q \<Rightarrow> 'a"
    and ok :: "'x \<Rightarrow> 'q \<Rightarrow> bool"
    and invar :: "'q \<Rightarrow> bool"
  assumes invar_push: "\<lbrakk>invar q; ok x q\<rbrakk> \<Longrightarrow> invar (push x q)"
    and push_suffix: "\<lbrakk>invar q; ok x q\<rbrakk> \<Longrightarrow> suffix (items (push x q)) (items q @ [item x q])"
begin

lemma invar_pushes: "\<lbrakk>invar q; push_ok push ok xs q\<rbrakk> \<Longrightarrow> invar (fold push xs q)"
  by (induction xs arbitrary: q) (auto intro: invar_push)

lemma pushes_suffix:
  "\<lbrakk>invar q; push_ok push ok xs q\<rbrakk> \<Longrightarrow>
     suffix (items (fold push xs q)) (items q @ push_history push item xs q)"
proof (induction xs arbitrary: q)
  case Nil
  then show ?case by simp
next
  case (Cons x xs)
  then have "suffix (items (fold push xs (push x q)))
      (items (push x q) @ push_history push item xs (push x q))"
    by (auto intro: invar_push)
  moreover from Cons.prems have
    "suffix (items (push x q) @ push_history push item xs (push x q))
       ((items q @ [item x q]) @ push_history push item xs (push x q))"
    using push_suffix by (auto simp: suffix_def)
  ultimately show ?case
    by (auto intro: suffix_order.trans)
qed

end

section \<open>Queues numbered consecutively\<close>

locale numbered_queue = evicting_queue items push item ok invar
  for items :: "'q \<Rightarrow> 'a list"
    and push :: "'x \<Rightarrow> 'q \<Rightarrow> 'q"
    and item :: "'x \<Rightarrow> 'q \<Rightarrow> 'a"
    and ok :: "'x \<Rightarrow> 'q \<Rightarrow> bool"
    and invar :: "'q \<Rightarrow> bool" +
  fixes number :: "'a \<Rightarrow> nat"
    and next_number :: "'q \<Rightarrow> nat"
  assumes numbered: "invar q \<Longrightarrow>
      map number (items q) = [next_number q - length (items q) ..< next_number q]"
    and room: "invar q \<Longrightarrow> length (items q) < next_number q"
begin

lemma number_nth:
  assumes "invar q" "i < length (items q)"
  shows "number (items q ! i) = next_number q - length (items q) + i"
proof -
  have "number (items q ! i) = map number (items q) ! i"
    using assms by simp
  also have "\<dots> = next_number q - length (items q) + i"
    using assms room [OF assms(1)] by (simp add: numbered)
  finally show ?thesis .
qed

lemma number_hd: "\<lbrakk>invar q; items q \<noteq> []\<rbrakk> \<Longrightarrow> number (hd (items q)) = next_number q - length (items q)"
  using number_nth [of q 0] by (simp add: hd_conv_nth)

lemma number_last: "\<lbrakk>invar q; items q \<noteq> []\<rbrakk> \<Longrightarrow> number (last (items q)) = next_number q - 1"
  using number_nth [of q "length (items q) - 1"] room [of q]
  by (cases "items q") (auto simp: last_conv_nth)

lemma numbers_positive: "\<lbrakk>invar q; x \<in> set (items q)\<rbrakk> \<Longrightarrow> 1 \<le> number x \<and> number x < next_number q"
  using room [of q] by (auto simp: in_set_conv_nth number_nth)

lemma distinct_numbers: "invar q \<Longrightarrow> distinct (map number (items q))"
  by (simp add: numbered)

text \<open>The distance from the oldest number is the index.\<close>

lemma nth_by_number:
  assumes "invar q" "items q \<noteq> []" "number (hd (items q)) \<le> k" "k \<le> number (last (items q))"
  shows "k - number (hd (items q)) < length (items q)
     \<and> number (items q ! (k - number (hd (items q)))) = k"
proof -
  have "k - number (hd (items q)) < length (items q)"
    using assms room [OF assms(1)] by (auto simp: number_hd number_last)
  with assms show ?thesis by (simp add: number_nth number_hd)
qed

lemma filter_from_number:
  assumes "invar q"
  shows "filter (\<lambda>x. k \<le> number x) (items q) =
           drop (k - (next_number q - length (items q))) (items q)"
  using numbered [OF assms] room [OF assms] by (intro filter_ge_numbered) simp

lemma filter_to_number:
  assumes "invar q"
  shows "filter (\<lambda>x. number x \<le> k) (items q) =
           take (Suc k - (next_number q - length (items q))) (items q)"
  using numbered [OF assms] room [OF assms] by (intro filter_le_numbered) simp

end

end
