(* ===== verification/Output_Buffer.thy ===== *)
theory Output_Buffer
  imports Evicting_Queues
begin

text \<open>
  \<open>include/vibe/session/session_output_buffer.h\<close> and \<open>src/session/session_output_buffer.cpp\<close>:
  the ring of sequence-numbered PTY output chunks. The invariant \<open>ob_inv\<close> ties the byte counter
  to the chunks, bounds it by the capacity and numbers the chunks consecutively; the buffer is
  interpreted as a \<open>numbered_queue\<close>. \<open>Tail\<close> is related to the last bytes of the retained stream
  and \<open>SliceFromSequence\<close> to the chunks from a sequence number on.
\<close>

section \<open>Data\<close>

record OutputChunk =
  oc_seq :: u64
  oc_data :: string

record OutputSlice =
  os_seq_start :: u64
  os_seq_end :: u64
  os_data :: string

definition OutputSlice_empty :: OutputSlice where
  "OutputSlice_empty = \<lparr>os_seq_start = 0, os_seq_end = 0, os_data = []\<rparr>"

record SessionOutputBuffer =
  ob_capacity_bytes :: nat
  ob_size_bytes :: nat
  ob_next_sequence :: u64
  ob_chunks :: "OutputChunk list"

section \<open>Operations\<close>

definition SessionOutputBuffer_new :: "nat \<Rightarrow> SessionOutputBuffer" where
  "SessionOutputBuffer_new capacity =
     \<lparr>ob_capacity_bytes = capacity, ob_size_bytes = 0, ob_next_sequence = 1, ob_chunks = []\<rparr>"

fun ob_evict_loop :: "nat \<Rightarrow> nat \<Rightarrow> OutputChunk list \<Rightarrow> nat \<times> OutputChunk list" where
  "ob_evict_loop capacity sz [] = (sz, [])"
| "ob_evict_loop capacity sz (c # cs) =
     (if sz > capacity then ob_evict_loop capacity (u64_sub sz (length (oc_data c))) cs
      else (sz, c # cs))"

definition ob_EvictIfNeeded :: "SessionOutputBuffer \<Rightarrow> SessionOutputBuffer" where
  "ob_EvictIfNeeded b =
     (case ob_evict_loop (ob_capacity_bytes b) (ob_size_bytes b) (ob_chunks b) of
        (sz, cs) \<Rightarrow> b\<lparr>ob_size_bytes := sz, ob_chunks := cs\<rparr>)"

definition ob_clip :: "string \<Rightarrow> SessionOutputBuffer \<Rightarrow> string" where
  "ob_clip data b =
     (if length data > ob_capacity_bytes b then drop (length data - ob_capacity_bytes b) data
      else data)"

definition ob_Append :: "string \<Rightarrow> SessionOutputBuffer \<Rightarrow> SessionOutputBuffer" where
  "ob_Append data b =
     (if data = [] then b
      else
        let clipped = ob_clip data b in
        ob_EvictIfNeeded
          (b\<lparr>ob_size_bytes := u64_add (ob_size_bytes b) (length clipped),
             ob_chunks := ob_chunks b @ [\<lparr>oc_seq = ob_next_sequence b, oc_data = clipped\<rparr>],
             ob_next_sequence := u64_add (ob_next_sequence b) 1\<rparr>))"

definition ob_latest_sequence :: "SessionOutputBuffer \<Rightarrow> u64 option" where
  "ob_latest_sequence b =
     (if ob_chunks b = [] then None else Some (oc_seq (last (ob_chunks b))))"

definition chunks_data :: "OutputChunk list \<Rightarrow> string" where
  "chunks_data cs = concat (map oc_data cs)"

text \<open>The backward scan of \<open>Tail\<close>: \<open>index\<close> counts down, \<open>bytes_collected\<close> and \<open>first_index\<close> are
  the loop variables.\<close>

fun ob_tail_scan :: "OutputChunk list \<Rightarrow> nat \<Rightarrow> nat \<Rightarrow> nat \<Rightarrow> nat \<Rightarrow> nat" where
  "ob_tail_scan chunks max_bytes bytes_collected first_index 0 = first_index"
| "ob_tail_scan chunks max_bytes bytes_collected first_index (Suc index) =
     (if bytes_collected \<ge> max_bytes then first_index
      else
        let bytes' = bytes_collected + min (length (oc_data (chunks ! index))) max_bytes in
        if bytes' \<ge> max_bytes then index
        else ob_tail_scan chunks max_bytes bytes' index index)"

definition ob_Tail :: "nat \<Rightarrow> SessionOutputBuffer \<Rightarrow> OutputSlice" where
  "ob_Tail max_bytes b =
     (let chunks = ob_chunks b in
      if chunks = [] \<or> max_bytes = 0 then OutputSlice_empty
      else
        let first_index = ob_tail_scan chunks max_bytes 0 (length chunks) (length chunks);
            data = chunks_data (drop first_index chunks)
        in \<lparr>os_seq_start = oc_seq (chunks ! first_index),
            os_seq_end = oc_seq (last chunks),
            os_data = (if length data > max_bytes then drop (length data - max_bytes) data
                       else data)\<rparr>)"

fun ob_find_from :: "u64 \<Rightarrow> OutputChunk list \<Rightarrow> nat" where
  "ob_find_from first_sequence [] = 0"
| "ob_find_from first_sequence (c # cs) =
     (if oc_seq c \<ge> first_sequence then 0 else Suc (ob_find_from first_sequence cs))"

definition ob_SliceFromSequence :: "u64 \<Rightarrow> SessionOutputBuffer \<Rightarrow> OutputSlice" where
  "ob_SliceFromSequence first_sequence b =
     (let chunks = ob_chunks b in
      if chunks = [] then OutputSlice_empty
      else
        let first_index = ob_find_from first_sequence chunks in
        if first_index = length chunks then OutputSlice_empty
        else \<lparr>os_seq_start = oc_seq (chunks ! first_index),
              os_seq_end = oc_seq (last chunks),
              os_data = chunks_data (drop first_index chunks)\<rparr>)"

section \<open>The invariant\<close>

definition ob_inv :: "SessionOutputBuffer \<Rightarrow> bool" where
  "ob_inv b \<longleftrightarrow>
     2 * ob_capacity_bytes b < u64_modulus \<and>
     ob_size_bytes b = length (chunks_data (ob_chunks b)) \<and>
     ob_size_bytes b \<le> ob_capacity_bytes b \<and>
     length (ob_chunks b) < ob_next_sequence b \<and>
     map oc_seq (ob_chunks b) = [ob_next_sequence b - length (ob_chunks b) ..< ob_next_sequence b]"

text \<open>The sequence counter has room for one more chunk.\<close>

definition ob_room :: "string \<Rightarrow> SessionOutputBuffer \<Rightarrow> bool" where
  "ob_room data b \<longleftrightarrow> data \<noteq> [] \<and> ob_next_sequence b + 1 < u64_modulus"

definition ob_new_chunk :: "string \<Rightarrow> SessionOutputBuffer \<Rightarrow> OutputChunk" where
  "ob_new_chunk data b = \<lparr>oc_seq = ob_next_sequence b, oc_data = ob_clip data b\<rparr>"

lemma oc_seq_new_chunk [simp]: "oc_seq (ob_new_chunk data b) = ob_next_sequence b"
  by (simp add: ob_new_chunk_def)

lemma chunks_data_simps [simp]:
  "chunks_data [] = []"
  "chunks_data (c # cs) = oc_data c @ chunks_data cs"
  "chunks_data (cs @ ds) = chunks_data cs @ chunks_data ds"
  by (simp_all add: chunks_data_def)

lemma ob_clip_lastn: "ob_clip data b = lastn (ob_capacity_bytes b) data"
  by (auto simp: ob_clip_def lastn_def)

lemma ob_inv_new: "2 * capacity < u64_modulus \<Longrightarrow> ob_inv (SessionOutputBuffer_new capacity)"
  by (simp add: ob_inv_def SessionOutputBuffer_new_def)

text \<open>Eviction drops chunks from the front until the counter fits; it never underflows.\<close>

lemma ob_evict_loop_spec:
  "\<lbrakk>sz = length (chunks_data cs); sz < u64_modulus;
    ob_evict_loop capacity sz cs = (sz', cs')\<rbrakk> \<Longrightarrow>
     suffix cs' cs \<and> sz' = length (chunks_data cs') \<and> sz' \<le> capacity"
proof (induction capacity sz cs rule: ob_evict_loop.induct)
  case (1 capacity sz)
  then show ?case by simp
next
  case (2 capacity sz c cs)
  show ?case
  proof (cases "sz > capacity")
    case True
    from 2(2,3) have "u64_sub sz (length (oc_data c)) = length (chunks_data cs)"
      by (simp add: u64_sub_exact)
    with 2 True have "suffix cs' cs \<and> sz' = length (chunks_data cs') \<and> sz' \<le> capacity"
      by auto
    then show ?thesis by (auto simp: suffix_def)
  next
    case False
    with 2 show ?thesis by auto
  qed
qed

lemma upt_drop_numbered:
  assumes "suffix ys xs" "map f xs = [n - length xs ..< n]" "length xs \<le> n"
  shows "map f ys = [n - length ys ..< n]"
proof -
  from assms(1) obtain zs where xs: "xs = zs @ ys" by (auto simp: suffix_def)
  have "map f ys = drop (length zs) (map f xs)" by (simp add: xs)
  also have "\<dots> = [n - length xs + length zs ..< n]" by (simp add: assms(2))
  finally show ?thesis using assms(3) by (simp add: xs)
qed

lemma ob_Append_steps:
  assumes "ob_inv b" "ob_room data b"
  obtains sz cs where
    "ob_Append data b = b\<lparr>ob_size_bytes := sz, ob_chunks := cs,
                          ob_next_sequence := ob_next_sequence b + 1\<rparr>"
    "suffix cs (ob_chunks b @ [ob_new_chunk data b])"
    "sz = length (chunks_data cs)" "sz \<le> ob_capacity_bytes b"
proof -
  let ?cs = "ob_chunks b @ [ob_new_chunk data b]"
  let ?sz = "ob_size_bytes b + length (ob_clip data b)"
  have len: "length (ob_clip data b) \<le> ob_capacity_bytes b"
    by (simp add: ob_clip_lastn)
  then have sz: "u64_add (ob_size_bytes b) (length (ob_clip data b)) = ?sz"
    using assms(1) by (intro u64_add_exact) (auto simp: ob_inv_def)
  obtain s cs where ev: "ob_evict_loop (ob_capacity_bytes b) ?sz ?cs = (s, cs)"
    by fastforce
  have eq: "?sz = length (chunks_data ?cs)" "?sz < u64_modulus"
    using assms(1) len by (auto simp: ob_inv_def ob_new_chunk_def)
  from ob_evict_loop_spec [OF eq ev]
  have spec: "suffix cs ?cs" "s = length (chunks_data cs)" "s \<le> ob_capacity_bytes b"
    by auto
  have "ob_Append data b = b\<lparr>ob_size_bytes := s, ob_chunks := cs,
                             ob_next_sequence := ob_next_sequence b + 1\<rparr>"
    using assms(2) sz ev
    by (simp add: ob_Append_def ob_EvictIfNeeded_def ob_new_chunk_def ob_room_def u64_add_exact)
  with spec show ?thesis by (auto intro: that)
qed

lemma ob_inv_Append:
  assumes "ob_inv b" "ob_room data b"
  shows "ob_inv (ob_Append data b)"
proof -
  from assms obtain sz cs where app: "ob_Append data b =
      b\<lparr>ob_size_bytes := sz, ob_chunks := cs, ob_next_sequence := ob_next_sequence b + 1\<rparr>"
    and suf: "suffix cs (ob_chunks b @ [ob_new_chunk data b])"
    and sz: "sz = length (chunks_data cs)" "sz \<le> ob_capacity_bytes b"
    by (rule ob_Append_steps)
  have num: "map oc_seq (ob_chunks b @ [ob_new_chunk data b]) =
      [ob_next_sequence b + 1 - length (ob_chunks b @ [ob_new_chunk data b]) ..<
       ob_next_sequence b + 1]"
    using assms(1) by (auto simp: ob_inv_def ob_new_chunk_def)
  have "length cs < ob_next_sequence b + 1"
    using suf assms(1) by (auto simp: ob_inv_def dest: suffix_length_le)
  moreover have "map oc_seq cs = [ob_next_sequence b + 1 - length cs ..< ob_next_sequence b + 1]"
    using assms(1) by (intro upt_drop_numbered [OF suf num]) (auto simp: ob_inv_def)
  ultimately show ?thesis
    using assms(1) sz by (simp add: app ob_inv_def)
qed

interpretation outq: numbered_queue ob_chunks ob_Append ob_new_chunk ob_room ob_inv
  oc_seq ob_next_sequence
proof unfold_locales
  fix q x
  assume inv: "ob_inv q" and room: "ob_room x q"
  then show "ob_inv (ob_Append x q)" by (rule ob_inv_Append)
  from inv room show "suffix (ob_chunks (ob_Append x q)) (ob_chunks q @ [ob_new_chunk x q])"
    by (rule ob_Append_steps) simp
qed (simp_all add: ob_inv_def)

lemma ob_Append_fields [buffer_simps]:
  assumes "ob_inv b" "ob_room data b"
  shows "ob_next_sequence (ob_Append data b) = ob_next_sequence b + 1"
    and "ob_capacity_bytes (ob_Append data b) = ob_capacity_bytes b"
  using assms by (rule ob_Append_steps, simp)+

lemma ob_Append_empty [simp]: "ob_Append [] b = b"
  by (simp add: ob_Append_def)

section \<open>The retained bytes are the end of the stream\<close>

lemma ob_Append_data_suffix:
  assumes "ob_inv b" "ob_room data b"
  shows "suffix (chunks_data (ob_chunks (ob_Append data b))) (chunks_data (ob_chunks b) @ data)"
proof -
  from assms have "suffix (ob_chunks (ob_Append data b)) (ob_chunks b @ [ob_new_chunk data b])"
    by (rule outq.push_suffix)
  then obtain zs where zs: "ob_chunks b @ [ob_new_chunk data b] = zs @ ob_chunks (ob_Append data b)"
    by (auto simp: suffix_def)
  then have eq: "chunks_data (ob_chunks b) @ lastn (ob_capacity_bytes b) data =
      chunks_data zs @ chunks_data (ob_chunks (ob_Append data b))"
    by (metis chunks_data_simps append.right_neutral ob_new_chunk_def OutputChunk.select_convs(2)
        ob_clip_lastn)
  show ?thesis
  proof (cases "length data \<le> ob_capacity_bytes b")
    case True
    with eq show ?thesis by (auto simp: suffix_def)
  next
    case False
    have "length (chunks_data (ob_chunks (ob_Append data b))) \<le> ob_capacity_bytes b"
      using ob_inv_Append [OF assms] by (simp add: ob_inv_def ob_Append_fields [OF assms])
    then have "length (chunks_data (ob_chunks (ob_Append data b))) \<le>
        length (lastn (ob_capacity_bytes b) data)"
      using False by simp
    with eq have "suffix (chunks_data (ob_chunks (ob_Append data b))) (lastn (ob_capacity_bytes b) data)"
      by (metis suffix_length_suffix suffixI)
    then have "suffix (chunks_data (ob_chunks (ob_Append data b))) data"
      using suffix_lastn suffix_order.trans by blast
    then show ?thesis by (rule suffix_appendI)
  qed
qed

text \<open>Nothing is dropped while the stream fits the capacity.\<close>

lemma ob_evict_loop_fits: "sz \<le> capacity \<Longrightarrow> ob_evict_loop capacity sz cs = (sz, cs)"
  by (cases cs) auto

lemma ob_Append_fits:
  assumes "ob_inv b" "ob_room data b" "ob_size_bytes b + length data \<le> ob_capacity_bytes b"
  shows "chunks_data (ob_chunks (ob_Append data b)) = chunks_data (ob_chunks b) @ data"
proof -
  have "u64_add (ob_size_bytes b) (length data) = ob_size_bytes b + length data"
    using assms(1,3) by (intro u64_add_exact) (auto simp: ob_inv_def)
  moreover have "ob_clip data b = data" using assms(3) by (simp add: ob_clip_def)
  ultimately show ?thesis
    using assms by (simp add: ob_Append_def ob_EvictIfNeeded_def ob_evict_loop_fits ob_room_def)
qed

section \<open>Tail\<close>

lemma ob_tail_scan_spec:
  "\<lbrakk>index \<le> first_index; first_index \<le> length chunks; 0 < max_bytes;
    first_index = length chunks \<or> first_index = index;
    first_index = length chunks \<Longrightarrow> index = length chunks;
    bytes \<le> length (chunks_data (drop index chunks)); bytes < max_bytes;
    f = ob_tail_scan chunks max_bytes bytes first_index index\<rbrakk> \<Longrightarrow>
     f \<le> length chunks \<and> (0 < length chunks \<longrightarrow> f < length chunks) \<and>
     (f = 0 \<or> max_bytes \<le> length (chunks_data (drop f chunks)))"
proof (induction chunks max_bytes bytes first_index index
    rule: ob_tail_scan.induct)
  case (1 chunks max_bytes bytes first_index)
  then show ?case by auto
next
  case (2 chunks max_bytes bytes first_index index)
  let ?bytes' = "bytes + min (length (oc_data (chunks ! index))) max_bytes"
  have idx: "index < length chunks" using 2 by simp
  then have drop: "drop index chunks = chunks ! index # drop (Suc index) chunks"
    by (simp add: Cons_nth_drop_Suc)
  have b': "?bytes' \<le> length (chunks_data (drop index chunks))"
    using 2 by (simp add: drop)
  show ?case
  proof (cases "max_bytes \<le> ?bytes'")
    case True
    with 2 b' idx show ?thesis by (auto simp: Let_def)
  next
    case False
    with 2 b' idx show ?thesis by (auto simp: Let_def)
  qed
qed

lemma ob_tail_scan_first:
  assumes "chunks \<noteq> []" "0 < max_bytes"
  shows "ob_tail_scan chunks max_bytes 0 (length chunks) (length chunks) < length chunks \<and>
     (ob_tail_scan chunks max_bytes 0 (length chunks) (length chunks) = 0 \<or>
      max_bytes \<le> length (chunks_data (drop
        (ob_tail_scan chunks max_bytes 0 (length chunks) (length chunks)) chunks)))"
  using ob_tail_scan_spec [of "length chunks" "length chunks" chunks max_bytes 0 _] assms by auto

lemma suffix_chunks_data: "suffix cs ds \<Longrightarrow> suffix (chunks_data cs) (chunks_data ds)"
  by (auto simp: suffix_def)

lemma ob_Tail_data: "os_data (ob_Tail max_bytes b) = lastn max_bytes (chunks_data (ob_chunks b))"
proof (cases "ob_chunks b = [] \<or> max_bytes = 0")
  case True
  then show ?thesis by (auto simp: ob_Tail_def OutputSlice_empty_def)
next
  case nonempty: False
  let ?f = "ob_tail_scan (ob_chunks b) max_bytes 0 (length (ob_chunks b)) (length (ob_chunks b))"
  let ?data = "chunks_data (drop ?f (ob_chunks b))"
  have "os_data (ob_Tail max_bytes b) = lastn max_bytes ?data"
    using nonempty by (auto simp: ob_Tail_def Let_def lastn_def)
  also have "\<dots> = lastn max_bytes (chunks_data (ob_chunks b))"
  proof (cases "?f = 0")
    case False
    with nonempty have "max_bytes \<le> length ?data"
      using ob_tail_scan_first [of "ob_chunks b" max_bytes] by auto
    then show ?thesis
      by (intro lastn_suffix suffix_chunks_data suffix_drop)
  qed simp
  finally show ?thesis .
qed

lemma ob_Tail_bounds:
  assumes "ob_inv b" "ob_chunks b \<noteq> []" "0 < max_bytes"
  shows "os_seq_end (ob_Tail max_bytes b) = ob_next_sequence b - 1"
    and "1 \<le> os_seq_start (ob_Tail max_bytes b)"
    and "os_seq_start (ob_Tail max_bytes b) \<le> os_seq_end (ob_Tail max_bytes b)"
proof -
  let ?f = "ob_tail_scan (ob_chunks b) max_bytes 0 (length (ob_chunks b)) (length (ob_chunks b))"
  have f: "?f < length (ob_chunks b)" using ob_tail_scan_first [of "ob_chunks b"] assms by auto
  have s: "os_seq_start (ob_Tail max_bytes b) = oc_seq (ob_chunks b ! ?f)"
    and e: "os_seq_end (ob_Tail max_bytes b) = oc_seq (last (ob_chunks b))"
    using assms by (simp_all add: ob_Tail_def Let_def)
  show "os_seq_end (ob_Tail max_bytes b) = ob_next_sequence b - 1"
    using e assms by (simp add: outq.number_last)
  show "1 \<le> os_seq_start (ob_Tail max_bytes b)"
    using s f assms(1) outq.numbers_positive by auto
  show "os_seq_start (ob_Tail max_bytes b) \<le> os_seq_end (ob_Tail max_bytes b)"
    using s e f assms outq.room [OF assms(1)] by (simp add: outq.number_last outq.number_nth)
qed

section \<open>Slices by sequence number\<close>

lemma ob_find_from_le: "ob_find_from k cs \<le> length cs"
  by (induction cs) auto

lemma ob_find_from_numbered:
  "map oc_seq cs = [n ..< n + length cs] \<Longrightarrow> ob_find_from k cs = min (k - n) (length cs)"
proof (induction cs arbitrary: n)
  case Nil
  then show ?case by simp
next
  case (Cons c cs)
  from map_eq_upt_Cons [OF Cons.prems] Cons.IH [of "Suc n"] show ?case
    by (cases "k \<le> n") (auto simp: Suc_diff_le min_def)
qed

lemma ob_SliceFromSequence_data:
  assumes "ob_inv b"
  shows "os_data (ob_SliceFromSequence k b) = chunks_data (filter (\<lambda>c. k \<le> oc_seq c) (ob_chunks b))"
proof -
  let ?n = "ob_next_sequence b - length (ob_chunks b)"
  have num: "map oc_seq (ob_chunks b) = [?n ..< ?n + length (ob_chunks b)]"
    using assms by (simp add: ob_inv_def)
  have "ob_find_from k (ob_chunks b) = min (k - ?n) (length (ob_chunks b))"
    by (rule ob_find_from_numbered [OF num])
  then show ?thesis
    using outq.filter_from_number [OF assms, of k]
    by (auto simp: ob_SliceFromSequence_def Let_def OutputSlice_empty_def min_def)
qed

section \<open>Runs of appends\<close>

lemma ob_push_ok:
  "\<lbrakk>ob_inv b; [] \<notin> set datas; ob_next_sequence b + length datas < u64_modulus\<rbrakk>
     \<Longrightarrow> push_ok ob_Append ob_room datas b"
proof (induction datas arbitrary: b)
  case Nil
  then show ?case by simp
next
  case (Cons d ds)
  then have room: "ob_room d b" by (auto simp: ob_room_def)
  with Cons.prems have "ob_inv (ob_Append d b)"
    and "ob_next_sequence (ob_Append d b) + length ds < u64_modulus"
    by (simp_all add: ob_inv_Append ob_Append_fields)
  with Cons.IH Cons.prems room show ?case by simp
qed

lemma ob_run_data_suffix:
  "\<lbrakk>ob_inv b; push_ok ob_Append ob_room datas b\<rbrakk> \<Longrightarrow>
     suffix (chunks_data (ob_chunks (fold ob_Append datas b)))
       (chunks_data (ob_chunks b) @ concat datas)"
proof (induction datas arbitrary: b)
  case Nil
  then show ?case by simp
next
  case (Cons d ds)
  then have "suffix (chunks_data (ob_chunks (fold ob_Append ds (ob_Append d b))))
      (chunks_data (ob_chunks (ob_Append d b)) @ concat ds)"
    by (simp add: ob_inv_Append)
  moreover have "suffix (chunks_data (ob_chunks (ob_Append d b)) @ concat ds)
      ((chunks_data (ob_chunks b) @ d) @ concat ds)"
    using Cons.prems ob_Append_data_suffix [of b d] by (auto simp: suffix_def)
  ultimately show ?case by (auto intro: suffix_order.trans)
qed

lemma ob_run_fits:
  "\<lbrakk>ob_inv b; push_ok ob_Append ob_room datas b;
    ob_size_bytes b + length (concat datas) \<le> ob_capacity_bytes b\<rbrakk> \<Longrightarrow>
     chunks_data (ob_chunks (fold ob_Append datas b)) = chunks_data (ob_chunks b) @ concat datas"
proof (induction datas arbitrary: b)
  case Nil
  then show ?case by simp
next
  case (Cons d ds)
  then have fits: "chunks_data (ob_chunks (ob_Append d b)) = chunks_data (ob_chunks b) @ d"
    by (intro ob_Append_fits) auto
  then have "ob_size_bytes (ob_Append d b) = ob_size_bytes b + length d"
    using Cons.prems ob_inv_Append [of b d] by (simp add: ob_inv_def)
  with Cons.prems Cons.IH [of "ob_Append d b"] fits show ?case
    by (simp add: ob_inv_Append ob_Append_fields)
qed

lemma ob_run_fields:
  "\<lbrakk>ob_inv b; push_ok ob_Append ob_room datas b\<rbrakk> \<Longrightarrow>
     ob_next_sequence (fold ob_Append datas b) = ob_next_sequence b + length datas \<and>
     ob_capacity_bytes (fold ob_Append datas b) = ob_capacity_bytes b"
  by (induction datas arbitrary: b) (auto simp: ob_inv_Append ob_Append_fields)

lemma ob_history_new:
  "\<lbrakk>ob_inv b; push_ok ob_Append ob_room datas b\<rbrakk> \<Longrightarrow>
     filter (\<lambda>c. ob_next_sequence b \<le> oc_seq c) (push_history ob_Append ob_new_chunk datas b) =
       push_history ob_Append ob_new_chunk datas b"
proof (induction datas arbitrary: b)
  case Nil
  then show ?case by simp
next
  case (Cons d ds)
  let ?b = "ob_Append d b"
  from Cons.prems have nx: "ob_next_sequence ?b = ob_next_sequence b + 1"
    by (simp add: ob_Append_fields)
  from Cons have "\<forall>c \<in> set (push_history ob_Append ob_new_chunk ds ?b). ob_next_sequence ?b \<le> oc_seq c"
    by (simp add: ob_inv_Append filter_id_conv)
  with nx show ?case by (fastforce simp: filter_id_conv)
qed

text \<open>What a reader that has seen every sequence number below \<open>ob_next_sequence b\<close> gets next.\<close>

lemma ob_new_chunks_filter:
  assumes "ob_inv b" "push_ok ob_Append ob_room datas b"
  shows "suffix (filter (\<lambda>c. ob_next_sequence b \<le> oc_seq c) (ob_chunks (fold ob_Append datas b)))
     (push_history ob_Append ob_new_chunk datas b)"
proof -
  let ?new = "push_history ob_Append ob_new_chunk datas b"
  from outq.pushes_suffix [OF assms] obtain zs where
    zs: "ob_chunks b @ ?new = zs @ ob_chunks (fold ob_Append datas b)"
    by (auto simp: suffix_def)
  have "filter (\<lambda>c. ob_next_sequence b \<le> oc_seq c) (ob_chunks b) = []"
    using outq.numbers_positive [OF assms(1)] by (fastforce simp: filter_empty_conv)
  with arg_cong [OF zs, of "filter (\<lambda>c. ob_next_sequence b \<le> oc_seq c)"]
  have "suffix (filter (\<lambda>c. ob_next_sequence b \<le> oc_seq c) (ob_chunks (fold ob_Append datas b)))
      (filter (\<lambda>c. ob_next_sequence b \<le> oc_seq c) ?new)"
    by (auto simp: suffix_def)
  then show ?thesis by (simp add: ob_history_new [OF assms])
qed

lemma ob_run_chunks_fits:
  "\<lbrakk>ob_inv b; push_ok ob_Append ob_room datas b;
    ob_size_bytes b + length (concat datas) \<le> ob_capacity_bytes b\<rbrakk> \<Longrightarrow>
     ob_chunks (fold ob_Append datas b) = ob_chunks b @ push_history ob_Append ob_new_chunk datas b"
proof (induction datas arbitrary: b)
  case Nil
  then show ?case by simp
next
  case (Cons d ds)
  have "u64_add (ob_size_bytes b) (length d) = ob_size_bytes b + length d"
    using Cons.prems by (intro u64_add_exact) (auto simp: ob_inv_def)
  moreover have "ob_clip d b = d" using Cons.prems by (simp add: ob_clip_def)
  ultimately have step: "ob_chunks (ob_Append d b) = ob_chunks b @ [ob_new_chunk d b]"
    "ob_size_bytes (ob_Append d b) = ob_size_bytes b + length d"
    using Cons.prems by (simp_all add: ob_Append_def ob_EvictIfNeeded_def ob_evict_loop_fits
        ob_room_def ob_new_chunk_def)
  with Cons.prems Cons.IH [of "ob_Append d b"] show ?case
    by (simp add: ob_inv_Append ob_Append_fields)
qed

lemma chunks_data_history:
  "\<lbrakk>ob_inv b; push_ok ob_Append ob_room datas b; \<forall>d \<in> set datas. length d \<le> ob_capacity_bytes b\<rbrakk>
     \<Longrightarrow> chunks_data (push_history ob_Append ob_new_chunk datas b) = concat datas"
proof (induction datas arbitrary: b)
  case Nil
  then show ?case by simp
next
  case (Cons d ds)
  then have "oc_data (ob_new_chunk d b) = d" by (simp add: ob_new_chunk_def ob_clip_def)
  with Cons.IH [of "ob_Append d b"] Cons.prems show ?case
    by (simp add: ob_inv_Append ob_Append_fields)
qed

section \<open>Properties\<close>

text \<open>Claim C21: whatever is appended, in however many chunks, the buffer retains the end of the
  byte stream: its counter is exact and within the capacity, what it holds is a suffix of the
  stream, and as long as the stream fits the capacity nothing of it is lost.\<close>

theorem output_buffer_retains_stream_end:
  assumes "2 * capacity < 18446744073709551616"
    and "length datas + 1 < 18446744073709551616"
    and "[] \<notin> set datas"
    and "b = fold ob_Append datas (SessionOutputBuffer_new capacity)"
  shows "suffix (chunks_data (ob_chunks b)) (concat datas)
     \<and> ob_size_bytes b = length (chunks_data (ob_chunks b))
     \<and> ob_size_bytes b \<le> capacity
     \<and> (length (concat datas) \<le> capacity \<longrightarrow> chunks_data (ob_chunks b) = concat datas)
     \<and> map oc_seq (ob_chunks b) = [ob_next_sequence b - length (ob_chunks b) ..< ob_next_sequence b]
     \<and> ob_next_sequence b = length datas + 1"
proof -
  let ?b0 = "SessionOutputBuffer_new capacity"
  have inv0: "ob_inv ?b0" using assms(1) by (rule ob_inv_new)
  have ok: "push_ok ob_Append ob_room datas ?b0"
    using inv0 assms(2,3) by (intro ob_push_ok) (auto simp: SessionOutputBuffer_new_def)
  have inv: "ob_inv b" using outq.invar_pushes [OF inv0 ok] assms(4) by simp
  have cap: "ob_capacity_bytes b = capacity" "ob_next_sequence b = length datas + 1"
    using ob_run_fields [OF inv0 ok] assms(4) by (simp_all add: SessionOutputBuffer_new_def)
  have "suffix (chunks_data (ob_chunks b)) (concat datas)"
    using ob_run_data_suffix [OF inv0 ok] assms(4) by (simp add: SessionOutputBuffer_new_def)
  moreover have "length (concat datas) \<le> capacity \<longrightarrow> chunks_data (ob_chunks b) = concat datas"
    using ob_run_fits [OF inv0 ok] assms(4) by (auto simp: SessionOutputBuffer_new_def)
  ultimately show ?thesis using inv cap by (simp add: ob_inv_def)
qed

theorem output_buffer_retains_stream_end_witness:
  "suffix (chunks_data (ob_chunks (fold ob_Append [''abc'', ''de'', ''f''] (SessionOutputBuffer_new 4))))
     (concat [''abc'', ''de'', ''f''])
   \<and> ob_size_bytes (fold ob_Append [''abc'', ''de'', ''f''] (SessionOutputBuffer_new 4)) = 3"
  using output_buffer_retains_stream_end
    [of 4 "[''abc'', ''de'', ''f'']" "fold ob_Append [''abc'', ''de'', ''f''] (SessionOutputBuffer_new 4)"]
  by (simp, simp add: ob_Append_def ob_EvictIfNeeded_def ob_clip_def SessionOutputBuffer_new_def
      u64_add_def u64_sub_def)

text \<open>\<open>Tail\<close>, which scans chunks backwards and cuts the collected bytes, returns exactly
  the last \<open>max_bytes\<close> bytes of what the buffer holds (all of it when there is less), for every
  buffer and every limit.\<close>

theorem output_buffer_tail_is_last_bytes:
  "os_data (ob_Tail max_bytes b) = lastn max_bytes (chunks_data (ob_chunks b))
   \<and> length (os_data (ob_Tail max_bytes b)) = min max_bytes (length (chunks_data (ob_chunks b)))"
  by (simp add: ob_Tail_data)

text \<open>A reader that has seen every chunk below the next sequence number and asks for the
  slice from there gets only bytes appended since, in order and ending with the newest, and all
  of them when they fit the capacity beside what was held before.\<close>

theorem output_buffer_slice_catches_up:
  assumes "ob_inv b"
    and "[] \<notin> set datas"
    and "ob_next_sequence b + length datas < 18446744073709551616"
    and "\<forall>d \<in> set datas. length d \<le> ob_capacity_bytes b"
    and "s = ob_SliceFromSequence (ob_next_sequence b) (fold ob_Append datas b)"
  shows "suffix (os_data s) (concat datas)
     \<and> (ob_size_bytes b + length (concat datas) \<le> ob_capacity_bytes b \<longrightarrow> os_data s = concat datas)"
proof -
  have ok: "push_ok ob_Append ob_room datas b" using assms(1-3) by (intro ob_push_ok)
  let ?b = "fold ob_Append datas b"
  let ?new = "filter (\<lambda>c. ob_next_sequence b \<le> oc_seq c) (ob_chunks ?b)"
  have inv: "ob_inv ?b" by (rule outq.invar_pushes [OF assms(1) ok])
  have s: "os_data s = chunks_data ?new" using assms(5) by (simp add: ob_SliceFromSequence_data [OF inv])
  have suf: "suffix (os_data s) (concat datas)"
    using suffix_chunks_data [OF ob_new_chunks_filter [OF assms(1) ok]]
    by (simp add: s chunks_data_history [OF assms(1) ok assms(4)])
  moreover have "os_data s = concat datas"
    if "ob_size_bytes b + length (concat datas) \<le> ob_capacity_bytes b"
  proof -
    have "ob_chunks ?b = ob_chunks b @ push_history ob_Append ob_new_chunk datas b"
      by (rule ob_run_chunks_fits [OF assms(1) ok that])
    moreover have "filter (\<lambda>c. ob_next_sequence b \<le> oc_seq c) (ob_chunks b) = []"
      using outq.numbers_positive [OF assms(1)] by (fastforce simp: filter_empty_conv)
    ultimately have "?new = push_history ob_Append ob_new_chunk datas b"
      by (simp add: ob_history_new [OF assms(1) ok])
    with s show ?thesis by (simp add: chunks_data_history [OF assms(1) ok assms(4)])
  qed
  ultimately show ?thesis by blast
qed

theorem output_buffer_slice_catches_up_witness:
  "os_data (ob_SliceFromSequence 1 (fold ob_Append [''cd'', ''e''] (SessionOutputBuffer_new 16))) = ''cde''"
proof -
  have "ob_inv (SessionOutputBuffer_new 16)" by (simp add: ob_inv_new)
  from output_buffer_slice_catches_up [OF this, of "[''cd'', ''e'']" "ob_SliceFromSequence 1
      (fold ob_Append [''cd'', ''e''] (SessionOutputBuffer_new 16))"]
  show ?thesis by (simp add: SessionOutputBuffer_new_def)
qed

end
