(* ===== verification/Terminal_Multiplexer.thy ===== *)
theory Terminal_Multiplexer
  imports Terminal_Screen Evicting_Queues
begin

text \<open>
  \<open>TerminalMultiplexer::Impl\<close> of \<open>src/session/terminal_multiplexer.cpp\<close>: the screen snapshot, the
  bounded scrollback and the per-observer viewports around a libvterm emulator.

  libvterm is not part of the sources. Its state is a type variable and its entry points are the
  fields of the record \<open>VTermApi\<close>, an argument of every operation that calls them. A call into
  libvterm may call back: it is an interaction tree \<open>vterm_io\<close> whose nodes are the callbacks that
  \<open>Impl\<close> registers, and \<open>run_vt\<close> runs the tree over the \<open>Impl\<close> state with the source's callback
  bodies (a scrollback pop feeds its answer back). The debug traces are left out: they write to a
  log only.
\<close>

section \<open>The emulator interface\<close>

datatype (dead 'vt) vterm_io =
    VtDone 'vt
  | VtDamage "'vt vterm_io"
  | VtMoveCursor "'vt vterm_io"
  | VtResize int int "'vt vterm_io"
  | VtPushLine "VTermScreenCell list" "'vt vterm_io"
  | VtPopLine int "VTermScreenCell list option \<Rightarrow> 'vt vterm_io"
  | VtClearScrollback "'vt vterm_io"

record 'vt VTermApi =
  vterm_open :: "int \<Rightarrow> int \<Rightarrow> 'vt vterm_io"
  vterm_set_size :: "int \<Rightarrow> int \<Rightarrow> 'vt \<Rightarrow> 'vt vterm_io"
  vterm_input_write :: "string \<Rightarrow> 'vt \<Rightarrow> 'vt vterm_io"
  vterm_flush_damage :: "'vt \<Rightarrow> 'vt vterm_io"
  vterm_get_cell :: "'vt \<Rightarrow> int \<Rightarrow> int \<Rightarrow> VTermScreenCell"
  vterm_get_cursorpos :: "'vt \<Rightarrow> int \<times> int"
  vterm_color_is_equal :: "VTermColor \<Rightarrow> VTermColor \<Rightarrow> bool"
  vterm_convert_color_to_rgb :: "'vt \<Rightarrow> VTermColor \<Rightarrow> VTermColor"

record 'vt MuxImpl =
  im_terminal_size :: TerminalSize
  im_max_scrollback_lines :: nat
  im_vt :: "'vt option"
  im_scrollback_lines :: "string list"
  im_viewports :: "string \<rightharpoonup> TerminalViewportState"
  im_snapshot :: TerminalScreenSnapshot
  im_last_semantic_change :: TerminalSemanticChange
  im_render_revision :: u64
  im_dirty :: bool

section \<open>Callbacks\<close>

definition NormalizeSize :: "TerminalSize \<Rightarrow> TerminalSize" where
  "NormalizeSize sz = \<lparr>ts_columns = max 1 (ts_columns sz), ts_rows = max 1 (ts_rows sz)\<rparr>"

fun pop_front_while_longer :: "nat \<Rightarrow> 'a list \<Rightarrow> 'a list" where
  "pop_front_while_longer n [] = []"
| "pop_front_while_longer n (x # xs) =
     (if length (x # xs) > n then pop_front_while_longer n xs else x # xs)"

definition PushScrollbackLine :: "string \<Rightarrow> 'vt MuxImpl \<Rightarrow> 'vt MuxImpl" where
  "PushScrollbackLine line im =
     im\<lparr>im_scrollback_lines :=
          pop_front_while_longer (im_max_scrollback_lines im) (im_scrollback_lines im @ [line])\<rparr>"

definition OnDamage :: "'vt MuxImpl \<Rightarrow> 'vt MuxImpl" where
  "OnDamage im = im\<lparr>im_dirty := True\<rparr>"

definition OnMoveCursor :: "'vt MuxImpl \<Rightarrow> 'vt MuxImpl" where
  "OnMoveCursor im = im\<lparr>im_dirty := True\<rparr>"

definition OnResize :: "int \<Rightarrow> int \<Rightarrow> 'vt MuxImpl \<Rightarrow> 'vt MuxImpl" where
  "OnResize rows cols im =
     im\<lparr>im_terminal_size := NormalizeSize \<lparr>ts_columns = u16_cast (nat (max cols 1)),
                                           ts_rows = u16_cast (nat (max rows 1))\<rparr>,
        im_dirty := True\<rparr>"

definition OnScrollbackPush :: "VTermScreenCell list \<Rightarrow> 'vt MuxImpl \<Rightarrow> 'vt MuxImpl" where
  "OnScrollbackPush cells im = (PushScrollbackLine (CellsToUtf8Line cells) im)\<lparr>im_dirty := True\<rparr>"

text \<open>A cell cleared by \<open>memset\<close>: no attribute, and a colour that is neither default nor indexed.\<close>

definition zero_color :: VTermColor where
  "zero_color = \<lparr>col_default_fg = False, col_default_bg = False, col_indexed = False,
                 col_idx = 0, col_red = 0, col_green = 0, col_blue = 0\<rparr>"

definition popped_cell :: "u32 \<Rightarrow> VTermScreenCell" where
  "popped_cell cp =
     \<lparr>cell_chars = [cp], cell_width = 1, cell_bold = False, cell_underline = UnderlineOff,
      cell_italic = False, cell_blink = False, cell_reverse = False, cell_conceal = False,
      cell_strike = False, cell_fg = zero_color, cell_bg = zero_color\<rparr>"

definition popped_cells :: "int \<Rightarrow> string \<Rightarrow> VTermScreenCell list" where
  "popped_cells cols line =
     map (\<lambda>col. popped_cell (if col < length line then of_nat (byte (line ! col)) else 0x20))
       [0 ..< nat cols]"

definition OnScrollbackPop ::
    "int \<Rightarrow> 'vt MuxImpl \<Rightarrow> VTermScreenCell list option \<times> 'vt MuxImpl" where
  "OnScrollbackPop cols im =
     (if im_scrollback_lines im = [] then (None, im)
      else
        let line = last (im_scrollback_lines im) in
        (Some (popped_cells cols line),
         im\<lparr>im_scrollback_lines := butlast (im_scrollback_lines im), im_dirty := True\<rparr>))"

definition OnScrollbackClear :: "'vt MuxImpl \<Rightarrow> 'vt MuxImpl" where
  "OnScrollbackClear im = im\<lparr>im_scrollback_lines := [], im_dirty := True\<rparr>"

primrec run_vt :: "'vt vterm_io \<Rightarrow> 'vt MuxImpl \<Rightarrow> 'vt MuxImpl" where
  "run_vt (VtDone vt) im = im\<lparr>im_vt := Some vt\<rparr>"
| "run_vt (VtDamage k) im = run_vt k (OnDamage im)"
| "run_vt (VtMoveCursor k) im = run_vt k (OnMoveCursor im)"
| "run_vt (VtResize rows cols k) im = run_vt k (OnResize rows cols im)"
| "run_vt (VtPushLine cells k) im = run_vt k (OnScrollbackPush cells im)"
| "run_vt (VtPopLine cols k) im =
     run_vt (k (fst (OnScrollbackPop cols im))) (snd (OnScrollbackPop cols im))"
| "run_vt (VtClearScrollback k) im = run_vt k (OnScrollbackClear im)"

section \<open>Rendering\<close>

definition the_vt :: "'vt MuxImpl \<Rightarrow> 'vt" where
  "the_vt im = the (im_vt im)"

definition mux_cell :: "'vt VTermApi \<Rightarrow> 'vt MuxImpl \<Rightarrow> nat \<Rightarrow> nat \<Rightarrow> VTermScreenCell" where
  "mux_cell api im row col = vterm_get_cell api (the_vt im) (int row) (int col)"

text \<open>One column of \<open>BuildStyledVisibleRow\<close>; the active style is \<^const>\<open>None\<close> until the first cell.\<close>

definition styled_column ::
    "'vt VTermApi \<Rightarrow> 'vt MuxImpl \<Rightarrow> nat \<Rightarrow> nat \<Rightarrow> string \<times> VTermScreenCell option
       \<Rightarrow> string \<times> VTermScreenCell option" where
  "styled_column api im row column st =
     (let (out, active) = st;
          cell = mux_cell api im row column
      in
      if cell_width cell = 0 then st
      else
        let (out', active') =
              (if active = None \<or> \<not> SameStyle (vterm_color_is_equal api) (the active) cell then
                 ((if HasAnyStyle cell
                   then out @ AppendFullStyleSgr (vterm_convert_color_to_rgb api (the_vt im)) cell
                   else if active \<noteq> None then out @ esc ''[0m'' else out),
                  Some cell)
               else (out, active))
        in (out' @ cell_text cell, active'))"

definition BuildStyledVisibleRow ::
    "'vt VTermApi \<Rightarrow> 'vt MuxImpl \<Rightarrow> nat \<Rightarrow> nat \<Rightarrow> nat \<Rightarrow> string" where
  "BuildStyledVisibleRow api im row_index start_column max_columns =
     (if row_index \<ge> ts_rows (im_terminal_size im) \<or> max_columns = 0 then []
      else
        let end_column = min (ts_columns (im_terminal_size im)) (start_column + max_columns);
            (out, active) = fold (styled_column api im row_index) [start_column ..< end_column] ([], None)
        in if active \<noteq> None then out @ esc ''[0m'' else out)"

definition cursor_sequence :: "nat \<Rightarrow> nat \<Rightarrow> string" where
  "cursor_sequence row column =
     esc ''['' @ nat_to_string (row + 1) @ '';'' @ nat_to_string (column + 1) @ ''H''"

definition crlf :: string where
  "crlf = [ch_cr, ch_nl]"

definition clear_screen_sequence :: string where
  "clear_screen_sequence = esc ''[0m'' @ esc ''[2J'' @ esc ''[H''"

definition BuildScreenBootstrapAnsi :: "'vt VTermApi \<Rightarrow> 'vt MuxImpl \<Rightarrow> string" where
  "BuildScreenBootstrapAnsi api im =
     (let snap = im_snapshot im;
          rows = ts_rows (im_terminal_size im);
          columns = ts_columns (im_terminal_size im)
      in
      (if tss_scrollback_lines snap = [] then []
       else join_with crlf (tss_scrollback_lines snap) @ crlf)
      @ clear_screen_sequence
      @ join_with (esc ''[E'') (map (\<lambda>row. BuildStyledVisibleRow api im row 0 columns) [0 ..< rows])
      @ cursor_sequence (tss_cursor_row snap) (tss_cursor_column snap))"

definition RefreshSnapshot :: "'vt VTermApi \<Rightarrow> 'vt MuxImpl \<Rightarrow> 'vt MuxImpl" where
  "RefreshSnapshot api im =
     (let columns = ts_columns (im_terminal_size im);
          rows = ts_rows (im_terminal_size im);
          visible = map (\<lambda>row. CellsToUtf8Line (map (mux_cell api im row) [0 ..< columns])) [0 ..< rows];
          (cursor_row, cursor_col) = vterm_get_cursorpos api (the_vt im);
          im1 = im\<lparr>im_snapshot := (im_snapshot im)
                    \<lparr>tss_columns := columns, tss_rows := rows,
                     tss_render_revision := im_render_revision im,
                     tss_visible_lines := visible,
                     tss_scrollback_lines := im_scrollback_lines im,
                     tss_cursor_row := (if cursor_row \<ge> 0 then nat cursor_row else 0),
                     tss_cursor_column := (if cursor_col \<ge> 0 then nat cursor_col else 0)\<rparr>\<rparr>
      in im1\<lparr>im_snapshot := (im_snapshot im1)\<lparr>tss_bootstrap_ansi := BuildScreenBootstrapAnsi api im1\<rparr>\<rparr>)"

section \<open>Operations\<close>

definition bump_revision :: "'vt MuxImpl \<Rightarrow> 'vt MuxImpl" where
  "bump_revision im =
     (if im_dirty im then
        let revision = u64_add (im_render_revision im) 1 in
        im\<lparr>im_render_revision := revision,
           im_snapshot := (im_snapshot im)\<lparr>tss_render_revision := revision\<rparr>,
           im_dirty := False\<rparr>
      else im)"

definition mux_new :: "'vt VTermApi \<Rightarrow> TerminalSize \<Rightarrow> nat \<Rightarrow> 'vt MuxImpl" where
  "mux_new api terminal_size max_scrollback_lines =
     (let sz = NormalizeSize terminal_size;
          im0 = \<lparr>im_terminal_size = sz, im_max_scrollback_lines = max_scrollback_lines,
                 im_vt = None, im_scrollback_lines = [], im_viewports = Map.empty,
                 im_snapshot = TerminalScreenSnapshot_default,
                 im_last_semantic_change = TerminalSemanticChange_default,
                 im_render_revision = 0, im_dirty = False\<rparr>
      in (RefreshSnapshot api
           (run_vt (vterm_open api (int (ts_rows sz)) (int (ts_columns sz))) im0))\<lparr>im_dirty := False\<rparr>)"

definition mux_Resize :: "'vt VTermApi \<Rightarrow> TerminalSize \<Rightarrow> 'vt MuxImpl \<Rightarrow> 'vt MuxImpl" where
  "mux_Resize api terminal_size im =
     (let sz = NormalizeSize terminal_size;
          im1 = im\<lparr>im_terminal_size := sz, im_dirty := False\<rparr>;
          im2 = run_vt (vterm_set_size api (int (ts_rows sz)) (int (ts_columns sz)) (the_vt im1)) im1;
          im3 = run_vt (vterm_flush_damage api (the_vt im2)) im2
      in bump_revision (RefreshSnapshot api im3))"

definition mux_Append :: "'vt VTermApi \<Rightarrow> string \<Rightarrow> 'vt MuxImpl \<Rightarrow> 'vt MuxImpl" where
  "mux_Append api data im =
     (if data = [] then im
      else
        let snapshot_before = im_snapshot im;
            im1 = im\<lparr>im_dirty := False\<rparr>;
            im2 = run_vt (vterm_input_write api data (the_vt im1)) im1;
            im3 = run_vt (vterm_flush_damage api (the_vt im2)) im2;
            im4 = bump_revision (RefreshSnapshot api im3)
        in im4\<lparr>im_last_semantic_change :=
                 ClassifySemanticChange data snapshot_before (im_snapshot im4)\<rparr>)"

definition mux_UpdateViewport :: "string \<Rightarrow> TerminalSize \<Rightarrow> 'vt MuxImpl \<Rightarrow> 'vt MuxImpl" where
  "mux_UpdateViewport view_id viewport_size im =
     (if view_id = [] then im
      else
        let state = (case im_viewports im view_id of
                       Some st \<Rightarrow> st | None \<Rightarrow> TerminalViewportState_default)
        in im\<lparr>im_viewports := (im_viewports im)(view_id \<mapsto>
                state\<lparr>vs_columns := ts_columns (NormalizeSize viewport_size),
                       vs_rows := ts_rows (NormalizeSize viewport_size)\<rparr>)\<rparr>)"

definition mux_RemoveViewport :: "string \<Rightarrow> 'vt MuxImpl \<Rightarrow> 'vt MuxImpl" where
  "mux_RemoveViewport view_id im =
     (if view_id = [] then im else im\<lparr>im_viewports := (im_viewports im)(view_id := None)\<rparr>)"

section \<open>Viewports\<close>

definition BuildViewportBootstrapAnsi ::
    "'vt VTermApi \<Rightarrow> 'vt MuxImpl \<Rightarrow> nat \<Rightarrow> nat \<Rightarrow> nat \<Rightarrow> nat \<Rightarrow> nat \<Rightarrow> nat
       \<Rightarrow> nat option \<Rightarrow> nat option \<Rightarrow> string" where
  "BuildViewportBootstrapAnsi api im top_line offset columns rows scrollback_count total_lines
       cursor_row cursor_column =
     (let scrollback = tss_scrollback_lines (im_snapshot im);
          history = map (\<lambda>index.
              if index < length scrollback then ClipUtf8Columns (scrollback ! index) offset columns
              else BuildStyledVisibleRow api im (index - scrollback_count) offset columns)
            [0 ..< min top_line total_lines];
          body = map (\<lambda>row.
              let line_index = top_line + row in
              if line_index < scrollback_count
                then ClipUtf8Columns (scrollback ! line_index) offset columns
              else if line_index < total_lines
                then BuildStyledVisibleRow api im (line_index - scrollback_count) offset columns
              else [])
            [0 ..< rows]
      in (if top_line > 0 then join_with crlf history @ crlf else [])
         @ clear_screen_sequence
         @ join_with (esc ''[E'') body
         @ (case (cursor_row, cursor_column) of
              (Some r, Some c) \<Rightarrow> cursor_sequence r c | _ \<Rightarrow> []))"

definition ViewportSnapshot ::
    "'vt VTermApi \<Rightarrow> string \<Rightarrow> 'vt MuxImpl \<Rightarrow> TerminalViewportSnapshot option" where
  "ViewportSnapshot api view_id im =
     (case im_viewports im view_id of
        None \<Rightarrow> None
      | Some state \<Rightarrow>
          let snap = im_snapshot im;
              rows = max 1 (vs_rows state);
              columns = max 1 (vs_columns state);
              scrollback_count = length (tss_scrollback_lines snap);
              total_lines = scrollback_count + length (tss_visible_lines snap);
              cursor_absolute_row = scrollback_count + tss_cursor_row snap;
              top_line = (if total_lines > rows then total_lines - rows else 0);
              offset =
                (if vs_follow_cursor state then
                   if tss_cursor_column snap < vs_horizontal_offset state then tss_cursor_column snap
                   else if tss_cursor_column snap \<ge> vs_horizontal_offset state + columns
                     then tss_cursor_column snap + 1 - columns
                   else vs_horizontal_offset state
                 else vs_horizontal_offset state);
              all_lines = tss_scrollback_lines snap @ tss_visible_lines snap;
              lines = map (\<lambda>index.
                  let line_index = top_line + index in
                  if line_index \<ge> length all_lines then []
                  else ClipUtf8Columns (all_lines ! line_index) offset columns) [0 ..< rows];
              row_visible = (cursor_absolute_row \<ge> top_line \<and> cursor_absolute_row < top_line + rows);
              cursor_row = (if row_visible then Some (cursor_absolute_row - top_line) else None);
              cursor_col =
                (if row_visible \<and> tss_cursor_column snap \<ge> offset
                    \<and> tss_cursor_column snap < offset + columns
                 then Some (tss_cursor_column snap - offset) else None)
          in Some
            \<lparr>vp_view_id = view_id, vp_columns = u16_cast columns, vp_rows = u16_cast rows,
             vp_render_revision = tss_render_revision snap,
             vp_total_line_count = total_lines, vp_viewport_top_line = top_line,
             vp_horizontal_offset = offset,
             vp_cursor_viewport_row = cursor_row, vp_cursor_viewport_column = cursor_col,
             vp_visible_lines = lines,
             vp_bootstrap_ansi =
               BuildViewportBootstrapAnsi api im top_line offset columns rows scrollback_count total_lines
                 cursor_row cursor_col\<rparr>)"

section \<open>The scrollback is bounded\<close>

lemma pop_front_while_longer_lastn: "pop_front_while_longer n xs = lastn n xs"
  by (induction n xs rule: pop_front_while_longer.induct) (auto simp: lastn_def Suc_diff_le)

definition scrollback_bounded :: "'vt MuxImpl \<Rightarrow> bool" where
  "scrollback_bounded im \<longleftrightarrow> length (im_scrollback_lines im) \<le> im_max_scrollback_lines im"

interpretation scrollback: evicting_queue im_scrollback_lines PushScrollbackLine
  "\<lambda>line im. line" "\<lambda>line im. True" scrollback_bounded
proof unfold_locales
  fix im :: "'vt MuxImpl" and line :: string
  assume "scrollback_bounded im"
  then show "scrollback_bounded (PushScrollbackLine line im)"
    by (simp add: PushScrollbackLine_def scrollback_bounded_def pop_front_while_longer_lastn)
  have "im_scrollback_lines (PushScrollbackLine line im) =
      lastn (im_max_scrollback_lines im) (im_scrollback_lines im @ [line])"
    by (simp add: PushScrollbackLine_def pop_front_while_longer_lastn)
  then show "suffix (im_scrollback_lines (PushScrollbackLine line im))
      (im_scrollback_lines im @ [line])"
    by (simp only: suffix_lastn)
qed

section \<open>Invariants of the multiplexer\<close>

definition mux_core :: "'vt MuxImpl \<Rightarrow> bool" where
  "mux_core im \<longleftrightarrow>
     scrollback_bounded im \<and> list_all text_line (im_scrollback_lines im)
     \<and> 1 \<le> ts_rows (im_terminal_size im) \<and> 1 \<le> ts_columns (im_terminal_size im)"

definition mux_inv :: "'vt MuxImpl \<Rightarrow> bool" where
  "mux_inv im \<longleftrightarrow>
     mux_core im \<and> im_vt im \<noteq> None
     \<and> tss_rows (im_snapshot im) = ts_rows (im_terminal_size im)
     \<and> tss_columns (im_snapshot im) = ts_columns (im_terminal_size im)
     \<and> tss_render_revision (im_snapshot im) = im_render_revision im
     \<and> tss_scrollback_lines (im_snapshot im) = im_scrollback_lines im
     \<and> length (tss_visible_lines (im_snapshot im)) = tss_rows (im_snapshot im)
     \<and> list_all text_line (tss_visible_lines (im_snapshot im))"

lemma NormalizeSize_pos [simp]:
  "1 \<le> ts_rows (NormalizeSize sz)" "1 \<le> ts_columns (NormalizeSize sz)"
  by (simp_all add: NormalizeSize_def)

lemma list_all_lastn: "list_all P xs \<Longrightarrow> list_all P (lastn n xs)"
  by (auto simp: lastn_def list_all_iff dest: in_set_dropD)

lemma mux_core_callbacks:
  assumes "mux_core im"
  shows "mux_core (OnDamage im)" "mux_core (OnMoveCursor im)" "mux_core (OnResize rows cols im)"
    "mux_core (OnScrollbackPush cells im)" "mux_core (snd (OnScrollbackPop cols im))"
    "mux_core (OnScrollbackClear im)"
proof -
  show "mux_core (OnDamage im)" "mux_core (OnMoveCursor im)" "mux_core (OnResize rows cols im)"
    "mux_core (OnScrollbackClear im)"
    using assms NormalizeSize_pos
    by (auto simp: mux_core_def scrollback_bounded_def OnDamage_def OnMoveCursor_def OnResize_def
        OnScrollbackClear_def)
  show "mux_core (snd (OnScrollbackPop cols im))"
    using assms by (auto simp: mux_core_def scrollback_bounded_def OnScrollbackPop_def Let_def
        list_all_iff dest: in_set_butlastD)
  show "mux_core (OnScrollbackPush cells im)"
    using assms
    by (simp add: mux_core_def scrollback_bounded_def OnScrollbackPush_def PushScrollbackLine_def
        pop_front_while_longer_lastn list_all_lastn text_line_CellsToUtf8Line)
qed

lemma run_vt_core: "mux_core im \<Longrightarrow> mux_core (run_vt t im) \<and> im_vt (run_vt t im) \<noteq> None"
proof (induction t arbitrary: im)
  case (VtDone vt)
  then show ?case by (simp add: mux_core_def scrollback_bounded_def)
qed (simp_all add: mux_core_callbacks)

lemma run_vt_frame:
  "im_max_scrollback_lines (run_vt t im) = im_max_scrollback_lines im \<and>
   im_viewports (run_vt t im) = im_viewports im \<and>
   im_snapshot (run_vt t im) = im_snapshot im \<and>
   im_render_revision (run_vt t im) = im_render_revision im \<and>
   im_last_semantic_change (run_vt t im) = im_last_semantic_change im"
  by (induction t arbitrary: im)
    (simp_all add: OnDamage_def OnMoveCursor_def OnResize_def OnScrollbackPush_def
      PushScrollbackLine_def OnScrollbackPop_def OnScrollbackClear_def Let_def)

lemmas run_vt_frames [simp] =
  run_vt_frame [THEN conjunct1] run_vt_frame [THEN conjunct2, THEN conjunct1]
  run_vt_frame [THEN conjunct2, THEN conjunct2, THEN conjunct1]
  run_vt_frame [THEN conjunct2, THEN conjunct2, THEN conjunct2, THEN conjunct1]
  run_vt_frame [THEN conjunct2, THEN conjunct2, THEN conjunct2, THEN conjunct2]

lemma RefreshSnapshot_fields [simp]:
  "im_terminal_size (RefreshSnapshot api im) = im_terminal_size im"
  "im_max_scrollback_lines (RefreshSnapshot api im) = im_max_scrollback_lines im"
  "im_scrollback_lines (RefreshSnapshot api im) = im_scrollback_lines im"
  "im_viewports (RefreshSnapshot api im) = im_viewports im"
  "im_render_revision (RefreshSnapshot api im) = im_render_revision im"
  "im_dirty (RefreshSnapshot api im) = im_dirty im"
  "im_vt (RefreshSnapshot api im) = im_vt im"
  by (simp_all add: RefreshSnapshot_def Let_def split: prod.split)

lemma mux_inv_RefreshSnapshot:
  assumes "mux_core im" "im_vt im \<noteq> None"
  shows "mux_inv (RefreshSnapshot api im)"
  using assms unfolding mux_inv_def mux_core_def scrollback_bounded_def
  by (simp add: RefreshSnapshot_def Let_def list_all_iff text_line_CellsToUtf8Line split: prod.split)

lemma mux_inv_bump: "mux_inv im \<Longrightarrow> mux_inv (bump_revision im)"
  by (simp add: mux_inv_def mux_core_def scrollback_bounded_def bump_revision_def Let_def)

lemma mux_core_size [simp]:
  "mux_core im \<Longrightarrow> mux_core (im\<lparr>im_terminal_size := NormalizeSize sz, im_dirty := d\<rparr>)"
  "mux_core im \<Longrightarrow> mux_core (im\<lparr>im_dirty := d\<rparr>)"
  using NormalizeSize_pos by (auto simp: mux_core_def scrollback_bounded_def)

lemma mux_inv_new: "mux_inv (mux_new api sz max_lines)"
proof -
  let ?fresh = "\<lparr>im_terminal_size = NormalizeSize sz, im_max_scrollback_lines = max_lines,
      im_vt = None, im_scrollback_lines = [], im_viewports = Map.empty,
      im_snapshot = TerminalScreenSnapshot_default,
      im_last_semantic_change = TerminalSemanticChange_default,
      im_render_revision = 0, im_dirty = False\<rparr>"
  let ?opened = "run_vt (vterm_open api (int (ts_rows (NormalizeSize sz)))
      (int (ts_columns (NormalizeSize sz)))) ?fresh"
  have "mux_core ?opened \<and> im_vt ?opened \<noteq> None"
    using NormalizeSize_pos [of sz]
    by (intro run_vt_core) (simp add: mux_core_def scrollback_bounded_def)
  then have "mux_inv (RefreshSnapshot api ?opened)"
    by (intro mux_inv_RefreshSnapshot) simp_all
  then have "mux_inv ((RefreshSnapshot api ?opened)\<lparr>im_dirty := False\<rparr>)"
    unfolding mux_inv_def mux_core_def scrollback_bounded_def by simp
  then show ?thesis unfolding mux_new_def Let_def .
qed

lemma mux_inv_Resize:
  assumes "mux_inv im"
  shows "mux_inv (mux_Resize api sz im)"
proof -
  have "mux_core (im\<lparr>im_terminal_size := NormalizeSize sz, im_dirty := False\<rparr>)"
    using assms by (simp add: mux_inv_def)
  then show ?thesis
    unfolding mux_Resize_def Let_def
    by (intro mux_inv_bump mux_inv_RefreshSnapshot) (simp_all add: run_vt_core)
qed

lemma mux_inv_Append:
  assumes "mux_inv im"
  shows "mux_inv (mux_Append api data im)"
proof (cases "data = []")
  case True
  with assms show ?thesis by (simp add: mux_Append_def)
next
  case False
  let ?im1 = "im\<lparr>im_dirty := False\<rparr>"
  let ?im2 = "run_vt (vterm_input_write api data (the_vt ?im1)) ?im1"
  let ?im3 = "run_vt (vterm_flush_damage api (the_vt ?im2)) ?im2"
  have "mux_core ?im1" using assms by (simp add: mux_inv_def)
  then have "mux_inv (bump_revision (RefreshSnapshot api ?im3))"
    by (intro mux_inv_bump mux_inv_RefreshSnapshot) (simp_all add: run_vt_core)
  with False show ?thesis
    by (simp add: mux_Append_def Let_def mux_inv_def mux_core_def scrollback_bounded_def)
qed

lemma mux_inv_viewports:
  "mux_inv im \<Longrightarrow> mux_inv (mux_UpdateViewport view_id sz im)"
  "mux_inv im \<Longrightarrow> mux_inv (mux_RemoveViewport view_id im)"
  by (simp_all add: mux_inv_def mux_core_def scrollback_bounded_def mux_UpdateViewport_def
      mux_RemoveViewport_def Let_def)

lemmas mux_inv_ops = mux_inv_Resize mux_inv_Append mux_inv_viewports

section \<open>Sequences of operations\<close>

datatype mux_op =
    MuxResize TerminalSize
  | MuxAppend string
  | MuxUpdateViewport string TerminalSize
  | MuxRemoveViewport string

primrec mux_exec :: "'vt VTermApi \<Rightarrow> mux_op \<Rightarrow> 'vt MuxImpl \<Rightarrow> 'vt MuxImpl" where
  "mux_exec api (MuxResize sz) im = mux_Resize api sz im"
| "mux_exec api (MuxAppend data) im = mux_Append api data im"
| "mux_exec api (MuxUpdateViewport view_id sz) im = mux_UpdateViewport view_id sz im"
| "mux_exec api (MuxRemoveViewport view_id) im = mux_RemoveViewport view_id im"

definition mux_after ::
    "'vt VTermApi \<Rightarrow> TerminalSize \<Rightarrow> nat \<Rightarrow> mux_op list \<Rightarrow> 'vt MuxImpl" where
  "mux_after api sz max_lines ops = fold (mux_exec api) ops (mux_new api sz max_lines)"

lemma mux_inv_exec: "mux_inv im \<Longrightarrow> mux_inv (mux_exec api op im)"
  by (cases op) (simp_all add: mux_inv_ops)

lemma mux_after_induct [consumes 0, case_names new op]:
  assumes "P (mux_new api sz max_lines)" "\<And>op im. P im \<Longrightarrow> P (mux_exec api op im)"
  shows "P (mux_after api sz max_lines ops)"
proof -
  have "P im \<Longrightarrow> P (fold (mux_exec api) ops im)" for im
    by (induction ops arbitrary: im) (simp_all add: assms(2))
  with assms(1) show ?thesis by (simp add: mux_after_def)
qed

lemma mux_inv_after: "mux_inv (mux_after api sz max_lines ops)"
  by (induction rule: mux_after_induct) (simp_all add: mux_inv_new mux_inv_exec)

lemma max_lines_after [simp]:
  "im_max_scrollback_lines (mux_after api sz max_lines ops) = max_lines"
proof (induction rule: mux_after_induct)
  case (op op im)
  then show ?case
    by (cases op) (simp_all add: mux_Resize_def mux_Append_def bump_revision_def Let_def
        mux_UpdateViewport_def mux_RemoveViewport_def)
qed (simp add: mux_new_def Let_def)

text \<open>No operation sets a horizontal offset or turns on cursor following.\<close>

definition viewports_anchored :: "'vt MuxImpl \<Rightarrow> bool" where
  "viewports_anchored im \<longleftrightarrow>
     (\<forall>st \<in> ran (im_viewports im). vs_horizontal_offset st = 0 \<and> \<not> vs_follow_cursor st
        \<and> 1 \<le> vs_rows st \<and> 1 \<le> vs_columns st)"

lemma viewports_anchored_UpdateViewport:
  assumes "viewports_anchored im"
  shows "viewports_anchored (mux_UpdateViewport view_id sz im)"
  using assms NormalizeSize_pos
  by (auto simp: viewports_anchored_def mux_UpdateViewport_def Let_def ran_def
      TerminalViewportState_default_def split: option.splits if_splits)

lemma viewports_anchored_after: "viewports_anchored (mux_after api sz max_lines ops)"
proof (induction rule: mux_after_induct)
  case (op op im)
  then show ?case
  proof (cases op)
    case (MuxUpdateViewport view_id sz)
    with op show ?thesis by (simp add: viewports_anchored_UpdateViewport)
  next
    case (MuxRemoveViewport view_id)
    with op show ?thesis
      by (auto simp: viewports_anchored_def mux_RemoveViewport_def ran_def)
  qed (simp_all add: viewports_anchored_def mux_Resize_def mux_Append_def bump_revision_def Let_def)
qed (simp add: mux_new_def Let_def viewports_anchored_def)

section \<open>Viewports show the tail of the terminal\<close>

lemma tail_window:
  "map (\<lambda>index. if length xs - n + index \<ge> length xs then [] else f (xs ! (length xs - n + index)))
     [0 ..< n] = map f (lastn n xs) @ replicate (n - length xs) []"
  by (rule nth_equalityI) (auto simp: nth_append lastn_def)

lemma ViewportSnapshot_anchored:
  assumes "im_viewports im view_id = Some st" "viewports_anchored im"
  shows "\<exists>vp. ViewportSnapshot api view_id im = Some vp
    \<and> vp_view_id vp = view_id \<and> vp_horizontal_offset vp = 0
    \<and> vp_viewport_top_line vp =
        length (tss_scrollback_lines (im_snapshot im) @ tss_visible_lines (im_snapshot im)) - vs_rows st
    \<and> vp_visible_lines vp =
        map (\<lambda>line. ClipUtf8Columns line 0 (vs_columns st))
          (lastn (vs_rows st) (tss_scrollback_lines (im_snapshot im) @ tss_visible_lines (im_snapshot im)))
        @ replicate (vs_rows st - length (tss_scrollback_lines (im_snapshot im)
                                          @ tss_visible_lines (im_snapshot im))) []"
proof -
  from assms have st: "vs_horizontal_offset st = 0" "vs_follow_cursor st = False"
    "max 1 (vs_rows st) = vs_rows st" "max 1 (vs_columns st) = vs_columns st"
    by (auto simp: viewports_anchored_def ran_def)
  let ?all = "tss_scrollback_lines (im_snapshot im) @ tss_visible_lines (im_snapshot im)"
  have top: "(if length xs + length ys > n then length xs + length ys - n else 0) = length (xs @ ys) - n"
    for xs ys :: "string list" and n by simp
  show ?thesis
    unfolding ViewportSnapshot_def assms(1) option.case Let_def st if_False top
      tail_window [where f = "\<lambda>line. ClipUtf8Columns line 0 (vs_columns st)"]
    by (intro exI conjI, rule refl) simp_all
qed

section \<open>Lines popped from the scrollback\<close>

lemma unat_of_byte [simp]: "unat (of_nat (byte c) :: u32) = byte c"
proof -
  have "byte c < 4294967296" using byte_less [of c] by linarith
  then show ?thesis by (simp add: unat_of_nat)
qed

lemma of_byte_eq_0 [simp]: "(of_nat (byte c) :: u32) = 0 \<longleftrightarrow> byte c = 0"
  by (metis unat_of_byte unat_eq_zero)

lemma scalar_bytes_of_byte:
  assumes "byte c \<noteq> 0"
  shows "map char_of (scalar_bytes (unat (NormalizeUnicodeScalar (of_nat (byte c))))) =
    (if byte c < 128 then [c] else [char_of (192 + byte c div 64), char_of (128 + byte c mod 64)])"
proof -
  have "byte c < 256" by simp
  then have div: "byte c div 64 < 32" by (intro less_mult_imp_div_less) linarith
  have n: "unat (NormalizeUnicodeScalar (of_nat (byte c))) = byte c"
    using assms \<open>byte c < 256\<close> by (auto simp: unat_NormalizeUnicodeScalar simp del: byte_less)
  have c: "char_of (byte c) = c" by (simp add: byte_def)
  show ?thesis unfolding n using assms \<open>byte c < 256\<close> div c by (auto simp: scalar_bytes_def simp del: byte_less)
qed

definition line_codepoints :: "string \<Rightarrow> u32 list" where
  "line_codepoints line = map (\<lambda>c. of_nat (byte c)) line"

lemma length_encode_line_codepoints:
  "\<forall>c \<in> set line. byte c \<noteq> 0 \<Longrightarrow> length (utf8_encode (line_codepoints line)) =
     length line + length (filter (\<lambda>c. 128 \<le> byte c) line)"
  by (induction line) (auto simp: line_codepoints_def utf8_encode_Cons scalar_bytes_of_byte
      simp del: map_map)

lemma encode_line_codepoints_ascii:
  "\<forall>c \<in> set line. byte c \<noteq> 0 \<and> byte c < 128 \<Longrightarrow> utf8_encode (line_codepoints line) = line"
  by (induction line) (auto simp: line_codepoints_def utf8_encode_Cons scalar_bytes_of_byte
      simp del: map_map)

lemma line_codepoints_nonzero: "\<forall>c \<in> set line. byte c \<noteq> 0 \<Longrightarrow> 0 \<notin> set (line_codepoints line)"
  by (auto simp: line_codepoints_def image_iff)

lemma cell_codepoints_popped: "cell_codepoints (popped_cell cp) = [if cp = 0 then 0x20 else cp]"
  by (simp add: cell_codepoints_def popped_cell_def)

lemma popped_cells_text:
  assumes "\<forall>c \<in> set line. byte c \<noteq> 0" "length line \<le> nat cols"
  shows "CellsToUtf8Line (popped_cells cols line) = TrimRight (utf8_encode (line_codepoints line))"
proof -
  let ?pad = "replicate (nat cols - length line) (0x20 :: u32)"
  have "concat (map cell_codepoints (popped_cells cols line)) =
      map (\<lambda>cp. if cp = 0 then 0x20 else cp) (line_codepoints line @ ?pad)"
    unfolding popped_cells_def map_map comp_def cell_codepoints_popped concat_map_singleton
    using assms(2) by (intro nth_equalityI) (auto simp: line_codepoints_def nth_append)
  also have "\<dots> = line_codepoints line @ ?pad"
    using line_codepoints_nonzero [OF assms(1)] by (auto intro!: map_idI)
  finally have cps: "concat (map cell_codepoints (popped_cells cols line)) = line_codepoints line @ ?pad" .
  have "utf8_encode (replicate n (0x20 :: u32)) = replicate n CHR '' ''" for n
    by (induction n) (simp_all add: utf8_encode_Cons utf8_encode_space [unfolded utf8_encode_Cons, simplified])
  with cps show ?thesis
    by (simp add: CellsToUtf8Line_def cells_text_encode utf8_encode_append)
qed

lemma TrimRight_id: "TrimRight s = s \<longleftrightarrow> s = [] \<or> last s \<noteq> CHR '' ''"
proof (cases s rule: rev_cases)
  case (snoc s' c)
  have "length (TrimRight s') \<le> length s'"
    by (simp add: TrimRight_def length_dropWhile_le [of _ "rev s'", simplified])
  then have "TrimRight s' \<noteq> s' @ '' ''" by auto
  with snoc show ?thesis by (auto simp: TrimRight_def)
qed (simp add: TrimRight_def)

lemma popped_line_roundtrip:
  assumes nz: "\<forall>c \<in> set line. byte c \<noteq> 0" and fits: "length line \<le> nat cols"
    and trimmed: "TrimRight line = line"
  shows "CellsToUtf8Line (popped_cells cols line) = line \<longleftrightarrow> (\<forall>c \<in> set line. byte c < 128)"
proof (cases "\<forall>c \<in> set line. byte c < 128")
  case True
  with nz trimmed show ?thesis
    by (simp add: popped_cells_text [OF nz fits] encode_line_codepoints_ascii)
next
  case False
  let ?enc = "utf8_encode (line_codepoints line)"
  have ne: "filter (\<lambda>c. 128 \<le> byte c) line \<noteq> []" using False by (auto simp: filter_empty_conv not_less)
  then have "length ?enc \<noteq> length line"
    by (simp add: length_encode_line_codepoints [OF nz])
  moreover have "TrimRight ?enc = ?enc"
  proof (rule ccontr)
    assume "TrimRight ?enc \<noteq> ?enc"
    then have "?enc = butlast ?enc @ '' ''"
      by (metis TrimRight_id append_butlast_last_id)
    from utf8_encode_ends_space [OF this line_codepoints_nonzero [OF nz]] obtain cps where
      "line_codepoints line = cps @ [0x20]" by blast
    then have "of_nat (byte (last line)) = (0x20 :: u32)" and l: "line \<noteq> []"
      by (metis line_codepoints_def last_map last_snoc map_is_Nil_conv snoc_eq_iff_butlast)
        (use \<open>line_codepoints line = cps @ [0x20]\<close> in \<open>auto simp: line_codepoints_def\<close>)
    then have "unat (of_nat (byte (last line)) :: u32) = unat (0x20 :: u32)" by simp
    then have "byte (last line) = 32" by (simp only: unat_of_byte) simp
    then have "last line = CHR '' ''" by (subst byte_eq_iff [symmetric]) (simp add: byte_def)
    with l trimmed show False by (simp add: TrimRight_id)
  qed
  ultimately show ?thesis using False by (auto simp: popped_cells_text [OF nz fits])
qed

section \<open>Properties\<close>

text \<open>Whatever libvterm does and whatever sequence of appends, resizes and viewport
  updates runs on a new multiplexer, the scrollback never exceeds the configured number of lines,
  the published snapshot carries exactly the scrollback, has one visible line per terminal row (at
  least one), the current revision, and every line of it is strictly valid UTF-8 text.\<close>

theorem multiplexer_snapshot_consistent:
  "let im = mux_after api sz max_lines ops; snap = im_snapshot im in
     length (im_scrollback_lines im) \<le> max_lines
     \<and> tss_scrollback_lines snap = im_scrollback_lines im
     \<and> length (tss_visible_lines snap) = tss_rows snap
     \<and> tss_rows snap = ts_rows (im_terminal_size im) \<and> 1 \<le> tss_rows snap
     \<and> tss_render_revision snap = im_render_revision im
     \<and> list_all text_line (tss_scrollback_lines snap @ tss_visible_lines snap)"
proof -
  have "mux_inv (mux_after api sz max_lines ops)" by (rule mux_inv_after)
  then show ?thesis
    by (simp add: Let_def mux_inv_def mux_core_def scrollback_bounded_def)
qed

text \<open>An observer's viewport always shows the end of the terminal: a snapshot exists
  exactly for the registered viewports; its lines are the last \<open>rows\<close> lines of scrollback and
  screen, each cut to the viewport's width from column 0, padded at the bottom with empty lines
  when there are fewer, so exactly \<open>rows\<close> lines; the horizontal offset is always 0.\<close>

theorem viewport_shows_terminal_tail:
  "let im = mux_after api sz max_lines ops; snap = im_snapshot im;
       all_lines = tss_scrollback_lines snap @ tss_visible_lines snap in
   case ViewportSnapshot api view_id im of
     None \<Rightarrow> im_viewports im view_id = None
   | Some vp \<Rightarrow>
       (\<exists>st. im_viewports im view_id = Some st
          \<and> vp_horizontal_offset vp = 0
          \<and> length (vp_visible_lines vp) = vs_rows st
          \<and> vp_visible_lines vp =
              map (\<lambda>line. ClipUtf8Columns line 0 (vs_columns st)) (lastn (vs_rows st) all_lines)
              @ replicate (vs_rows st - length all_lines) [])"
proof (cases "im_viewports (mux_after api sz max_lines ops) view_id")
  case None
  then show ?thesis by (simp add: ViewportSnapshot_def)
next
  case (Some st)
  from ViewportSnapshot_anchored [OF this viewports_anchored_after, of api] Some show ?thesis
    by (auto simp: Let_def)
qed

text \<open>A scrollback line handed back to libvterm on a resize (\<open>OnScrollbackPop\<close>) renders
  to the same text again exactly when all its bytes are ASCII; the source writes one cell per
  byte, so every multi-byte UTF-8 character comes back as several wrong characters.\<close>

theorem scrollback_pop_faithful_iff_ascii:
  assumes "\<forall>c \<in> set line. byte c \<noteq> 0" "TrimRight line = line" "length line \<le> nat cols"
    and "im_scrollback_lines im = older @ [line]"
  shows "\<exists>cells. fst (OnScrollbackPop cols im) = Some cells
    \<and> (CellsToUtf8Line cells = line \<longleftrightarrow> (\<forall>c \<in> set line. byte c < 128))"
  using popped_line_roundtrip [OF assms(1,3,2)] assms(4) by (simp add: OnScrollbackPop_def Let_def)

text \<open>The line is the UTF-8 encoding of a single e with acute accent, on an 80-column screen.\<close>

theorem scrollback_pop_faithful_iff_ascii_witness:
  "\<exists>cells. fst (OnScrollbackPop 80 (PushScrollbackLine [CHR 0xC3, CHR 0xA9]
       \<lparr>im_terminal_size = TerminalSize_default, im_max_scrollback_lines = 10, im_vt = None,
        im_scrollback_lines = [], im_viewports = Map.empty,
        im_snapshot = TerminalScreenSnapshot_default,
        im_last_semantic_change = TerminalSemanticChange_default,
        im_render_revision = 0, im_dirty = False\<rparr> :: unit MuxImpl)) = Some cells
    \<and> CellsToUtf8Line cells \<noteq> [CHR 0xC3, CHR 0xA9]"
proof -
  let ?im = "PushScrollbackLine [CHR 0xC3, CHR 0xA9]
       \<lparr>im_terminal_size = TerminalSize_default, im_max_scrollback_lines = 10, im_vt = None,
        im_scrollback_lines = [], im_viewports = Map.empty,
        im_snapshot = TerminalScreenSnapshot_default,
        im_last_semantic_change = TerminalSemanticChange_default,
        im_render_revision = 0, im_dirty = False\<rparr> :: unit MuxImpl"
  have "im_scrollback_lines ?im = [] @ [[CHR 0xC3, CHR 0xA9]]" by (simp add: PushScrollbackLine_def)
  from scrollback_pop_faithful_iff_ascii [OF _ _ _ this, of 80] show ?thesis
    by (simp add: byte_def TrimRight_def)
qed

end
