(* ===== verification/Env_File.thy ===== *)
theory Env_File
  imports Prelude
begin

text \<open>
  \<open>src/session/env_file_parser.cpp\<close>: the parser of \<open>.env\<close> files, with its quoting rules, inline
  comments and variable expansion. Environments are maps from names to values. A file printed with
  single-quoted values parses back to exactly the pairs it was printed from.
\<close>

section \<open>Trimming and comments\<close>

definition is_blank_char :: "char \<Rightarrow> bool" where
  "is_blank_char c \<longleftrightarrow> c = CHR '' '' \<or> c = ch_tab"

definition TrimLeft_env :: "string \<Rightarrow> string" where
  "TrimLeft_env s = dropWhile is_blank_char s"

definition TrimRight_env :: "string \<Rightarrow> string" where
  "TrimRight_env s = rev (dropWhile is_blank_char (rev s))"

definition Trim_env :: "string \<Rightarrow> string" where
  "Trim_env s = TrimRight_env (TrimLeft_env s)"

text \<open>The scan of \<open>StripInlineComment\<close>: the position of an unquoted hash sign after a blank.\<close>

fun comment_start :: "bool \<Rightarrow> bool \<Rightarrow> char option \<Rightarrow> string \<Rightarrow> nat option" where
  "comment_start in_single in_double prev [] = None"
| "comment_start in_single in_double prev (ch # rest) =
     (if ch = ch_quote \<and> \<not> in_double
        then map_option Suc (comment_start (\<not> in_single) in_double (Some ch) rest)
      else if ch = ch_dquote \<and> \<not> in_single
        then map_option Suc (comment_start in_single (\<not> in_double) (Some ch) rest)
      else if ch = CHR ''#'' \<and> \<not> in_single \<and> \<not> in_double
              \<and> (case prev of None \<Rightarrow> False | Some p \<Rightarrow> is_blank_char p)
        then Some 0
      else map_option Suc (comment_start in_single in_double (Some ch) rest))"

definition StripInlineComment :: "string \<Rightarrow> string" where
  "StripInlineComment s =
     (case comment_start False False None s of
        Some i \<Rightarrow> TrimRight_env (take i s) | None \<Rightarrow> s)"

section \<open>Variable expansion\<close>

definition is_name_start :: "char \<Rightarrow> bool" where
  "is_name_start c \<longleftrightarrow> is_upper_char c \<or> is_lower_char c \<or> c = CHR ''_''"

definition is_name_char :: "char \<Rightarrow> bool" where
  "is_name_char c \<longleftrightarrow> is_upper_char c \<or> is_lower_char c \<or> is_digit_char c \<or> c = CHR ''_''"

definition env_text :: "(string \<rightharpoonup> string) \<Rightarrow> string \<Rightarrow> string" where
  "env_text env name = (case env name of Some v \<Rightarrow> v | None \<Rightarrow> [])"

function ExpandVars :: "(string \<rightharpoonup> string) \<Rightarrow> string \<Rightarrow> string" where
  "ExpandVars env [] = []"
| "ExpandVars env (c # cs) =
     (if c \<noteq> CHR ''$'' then c # ExpandVars env cs
      else case cs of
          [] \<Rightarrow> ''$''
        | d # ds \<Rightarrow>
            if d = CHR ''{'' then
              env_text env (takeWhile (\<lambda>x. x \<noteq> CHR ''}'') ds)
              @ ExpandVars env (drop 1 (dropWhile (\<lambda>x. x \<noteq> CHR ''}'') ds))
            else if is_name_start d then
              env_text env (takeWhile is_name_char cs) @ ExpandVars env (dropWhile is_name_char cs)
            else CHR ''$'' # ExpandVars env cs)"
  by pat_completeness auto
termination
proof (relation "measure (length \<circ> snd)")
  show "((env, drop 1 (dropWhile (\<lambda>x. x \<noteq> CHR ''}'') ds)), env, c # cs) \<in> measure (length \<circ> snd)"
    if "cs = d # ds" for env :: "string \<rightharpoonup> string" and c cs d ds
    using that length_dropWhile_le [of "\<lambda>x. x \<noteq> CHR ''}''" ds] by simp
  show "((env, dropWhile is_name_char cs), env, c # cs) \<in> measure (length \<circ> snd)"
    for env :: "string \<rightharpoonup> string" and c cs
    using length_dropWhile_le [of is_name_char cs] by simp
qed auto

section \<open>Values\<close>

fun unescape_dquotes :: "string \<Rightarrow> string" where
  "unescape_dquotes [] = []"
| "unescape_dquotes [c] = [c]"
| "unescape_dquotes (c # d # rest) =
     (if c = ch_backslash \<and> d = ch_dquote then ch_dquote # unescape_dquotes rest
      else c # unescape_dquotes (d # rest))"

definition UnquoteValue :: "string \<Rightarrow> (string \<rightharpoonup> string) \<Rightarrow> string" where
  "UnquoteValue raw env =
     (if raw = [] then []
      else if hd raw = ch_quote \<and> last raw = ch_quote \<and> length raw \<ge> 2 then butlast (tl raw)
      else if hd raw = ch_dquote \<and> last raw = ch_dquote \<and> length raw \<ge> 2
        then ExpandVars env (unescape_dquotes (butlast (tl raw)))
      else ExpandVars env (TrimRight_env (StripInlineComment raw)))"

section \<open>Files\<close>

fun content_lines :: "string \<Rightarrow> string list" where
  "content_lines [] = [[]]"
| "content_lines (c # cs) =
     (if c = ch_nl then [] # content_lines cs
      else case content_lines cs of [] \<Rightarrow> [[c]] | l # ls \<Rightarrow> (c # l) # ls)"

text \<open>One iteration of the loop of \<open>ParseEnvFile\<close>: the pair a line defines, if any.\<close>

definition parse_env_line :: "(string \<rightharpoonup> string) \<Rightarrow> string \<Rightarrow> (string \<times> string) option" where
  "parse_env_line accumulated raw_line =
     (let line = Trim_env (if raw_line \<noteq> [] \<and> last raw_line = ch_cr then butlast raw_line else raw_line)
      in
      if line = [] \<or> hd line = CHR ''#'' then None
      else
        let line = (if take 7 line = ''export '' then TrimLeft_env (drop 7 line) else line) in
        case find_first ''='' line of
          None \<Rightarrow> None
        | Some eq \<Rightarrow>
            let key = TrimRight_env (take eq line);
                raw_value = drop (eq + 1) line
            in
            if key = [] then None
            else if \<not> list_all is_name_char key then None
            else Some (key, UnquoteValue raw_value accumulated))"

fun ParseEnvFile_loop :: "(string \<rightharpoonup> string) \<Rightarrow> string list \<Rightarrow> (string \<times> string) list" where
  "ParseEnvFile_loop accumulated [] = []"
| "ParseEnvFile_loop accumulated (line # rest) =
     (case parse_env_line accumulated line of
        None \<Rightarrow> ParseEnvFile_loop accumulated rest
      | Some (key, value) \<Rightarrow> (key, value) # ParseEnvFile_loop (accumulated(key \<mapsto> value)) rest)"

definition ParseEnvFile :: "string \<Rightarrow> (string \<rightharpoonup> string) \<Rightarrow> (string \<times> string) list" where
  "ParseEnvFile content current_env = ParseEnvFile_loop current_env (content_lines content)"

section \<open>Printed files parse back\<close>

definition print_env_line :: "string \<times> string \<Rightarrow> string" where
  "print_env_line kv = fst kv @ ''='' @ [ch_quote] @ snd kv @ [ch_quote]"

definition print_env_file :: "(string \<times> string) list \<Rightarrow> string" where
  "print_env_file kvs = concat (map (\<lambda>kv. print_env_line kv @ [ch_nl]) kvs)"

definition env_key :: "string \<Rightarrow> bool" where
  "env_key k \<longleftrightarrow> k \<noteq> [] \<and> list_all is_name_char k"

lemma content_lines_not_Nil [simp]: "content_lines s \<noteq> []"
  by (induction s) (auto split: list.splits)

lemma content_lines_append:
  "ch_nl \<notin> set l \<Longrightarrow> content_lines (l @ ch_nl # rest) = l # content_lines rest"
  by (induction l) auto

lemma name_char_not:
  "is_name_char c \<Longrightarrow> c \<noteq> CHR ''='' \<and> c \<noteq> CHR ''#'' \<and> \<not> is_blank_char c \<and> c \<noteq> ch_nl"
  by (auto simp: is_name_char_def is_blank_char_def char_class_defs byte_def)

lemma find_first_eq_key: "list_all is_name_char k \<Longrightarrow> find_first ''='' (k @ CHR ''='' # s) = Some (length k)"
  by (induction k) (auto simp: starts_with_def dest: name_char_not)

lemma TrimRight_env_not_blank: "s \<noteq> [] \<Longrightarrow> \<not> is_blank_char (last s) \<Longrightarrow> TrimRight_env s = s"
  by (cases s rule: rev_cases) (simp_all add: TrimRight_env_def)

lemma TrimLeft_env_not_blank: "s \<noteq> [] \<Longrightarrow> \<not> is_blank_char (hd s) \<Longrightarrow> TrimLeft_env s = s"
  by (cases s) (simp_all add: TrimLeft_env_def)

lemma key_line_not_export:
  assumes "list_all is_name_char k"
  shows "take 7 (k @ CHR ''='' # s) \<noteq> ''export ''"
proof
  assume eq: "take 7 (k @ CHR ''='' # s) = ''export ''"
  have "CHR '' '' \<notin> set k" "CHR ''='' \<notin> set ''export ''"
    using assms name_char_not by (auto simp: list_all_iff is_blank_char_def)
  moreover have "length k \<le> 6 \<or> 7 \<le> length k" by linarith
  ultimately show False
  proof (elim disjE)
    assume "length k \<le> 6"
    then have "CHR ''='' \<in> set (take 7 (k @ CHR ''='' # s))" by (simp add: take_Cons')
    with eq show False by simp
  next
    assume "7 \<le> length k"
    then have "set (take 7 (k @ CHR ''='' # s)) \<subseteq> set k" by (simp add: set_take_subset)
    with eq \<open>CHR '' '' \<notin> set k\<close> show False by auto
  qed
qed

lemma parse_print_env_line:
  assumes "env_key k"
  shows "parse_env_line acc (print_env_line (k, v)) = Some (k, v)"
proof -
  from assms have k: "k \<noteq> []" "list_all is_name_char k" by (simp_all add: env_key_def)
  let ?line = "k @ CHR ''='' # ch_quote # v @ [ch_quote]"
  have hd: "is_name_char (hd k)" "is_name_char (last k)"
    using k by (simp_all add: list_all_iff)
  then have nb: "\<not> is_blank_char (hd k)" "\<not> is_blank_char (last k)" "hd k \<noteq> CHR ''#''"
    by (auto dest: name_char_not)
  have "Trim_env ?line = ?line"
    unfolding Trim_env_def using k nb
    by (subst TrimLeft_env_not_blank) (auto intro!: TrimRight_env_not_blank simp: is_blank_char_def)
  moreover have "TrimRight_env k = k" using k nb by (simp add: TrimRight_env_not_blank)
  moreover have "UnquoteValue (ch_quote # v @ [ch_quote]) acc = v" by (simp add: UnquoteValue_def)
  ultimately show ?thesis
    using k nb key_line_not_export [OF k(2)] find_first_eq_key [OF k(2)]
    by (simp add: parse_env_line_def print_env_line_def Let_def del: find_first.simps)
qed

lemma ParseEnvFile_loop_print:
  "\<forall>kv \<in> set kvs. env_key (fst kv) \<Longrightarrow>
     ParseEnvFile_loop acc (map print_env_line kvs @ [[]]) = kvs"
proof (induction kvs arbitrary: acc)
  case Nil
  then show ?case by (simp add: parse_env_line_def Trim_env_def TrimLeft_env_def TrimRight_env_def)
next
  case (Cons kv kvs)
  then show ?case by (cases kv) (simp add: parse_print_env_line)
qed

lemma content_lines_print:
  "\<forall>kv \<in> set kvs. env_key (fst kv) \<and> ch_nl \<notin> set (snd kv) \<Longrightarrow>
     content_lines (print_env_file kvs) = map print_env_line kvs @ [[]]"
proof (induction kvs)
  case (Cons kv kvs)
  then have "ch_nl \<notin> set (print_env_line kv)"
    by (auto simp: print_env_line_def env_key_def list_all_iff dest: name_char_not)
  with Cons show ?case by (simp add: print_env_file_def content_lines_append)
qed (simp add: print_env_file_def)

lemma ExpandVars_no_dollar: "CHR ''$'' \<notin> set s \<Longrightarrow> ExpandVars env s = s"
  by (induction s) auto

section \<open>Properties\<close>

text \<open>A \<open>.env\<close> file written with one \<open>KEY='value'\<close> line per pair parses back to exactly these
  pairs, in order, whatever the surrounding environment is: single-quoted values are literal, with
  any character but a newline (quotes, dollar signs and hash signs included), and keys are the
  non-empty words of letters, digits and underscores.\<close>

theorem env_file_print_parse_roundtrip:
  assumes "\<forall>kv \<in> set kvs. env_key (fst kv) \<and> ch_nl \<notin> set (snd kv)"
  shows "ParseEnvFile (print_env_file kvs) current_env = kvs"
  using assms ParseEnvFile_loop_print [of kvs current_env] content_lines_print [OF assms]
  by (simp add: ParseEnvFile_def)

theorem env_file_print_parse_roundtrip_witness:
  "ParseEnvFile (print_env_file [(''PATH'', ''/bin:$HOME # x''), (''A_1'', ''it's'')]) Map.empty
     = [(''PATH'', ''/bin:$HOME # x''), (''A_1'', ''it's'')]"
  by (rule env_file_print_parse_roundtrip)
    (simp add: env_key_def is_name_char_def char_class_defs byte_def)

end
