(* ===== verification/Host_Config.thy ===== *)
theory Host_Config
  imports Session_Types
begin

text \<open>
  \<open>include/vibe/store/host_config_store.h\<close> and \<open>src/store/host_config_store.cpp\<close>: the host
  identity record with its defaults and \<open>EnsureHostIdentity\<close>. The abstract \<open>HostConfigStore\<close> is a
  pair of functions on a store state; the 16 random bytes of a new host id are an argument.
\<close>

section \<open>Records\<close>

record ProviderCommandOverride =
  pco_executable :: string
  pco_args :: "string list"

definition ProviderCommandOverride_default :: ProviderCommandOverride where
  "ProviderCommandOverride_default = \<lparr>pco_executable = [], pco_args = []\<rparr>"

record LaunchRecord =
  lr_record_id :: string
  lr_provider :: ProviderType
  lr_workspace_root :: string
  lr_title :: string
  lr_launched_at_unix_ms :: unix_ms
  lr_conversation_id :: "string option"
  lr_group_tags :: "string list"
  lr_command_argv :: "string list option"
  lr_command_shell :: "string option"

record HostIdentity =
  hi_host_id :: string
  hi_display_name :: string
  hi_certificate_pem_path :: string
  hi_private_key_pem_path :: string
  hi_admin_host :: string
  hi_admin_port :: u16
  hi_remote_host :: string
  hi_remote_port :: u16
  hi_codex_command :: ProviderCommandOverride
  hi_claude_command :: ProviderCommandOverride
  hi_launch_records :: "LaunchRecord list"
  hi_max_launch_records :: nat
  hi_bootstrap_shell_path :: "string option"
  hi_import_service_manager_environment :: bool
  hi_service_manager_environment_allowlist :: "string list"
  hi_hub_url :: "string option"
  hi_hub_token :: "string option"

definition kDefaultDisplayName :: string where
  "kDefaultDisplayName = ''Sentrits Host''"

definition MakeDefaultHostIdentity :: HostIdentity where
  "MakeDefaultHostIdentity =
     \<lparr>hi_host_id = [], hi_display_name = kDefaultDisplayName, hi_certificate_pem_path = [],
      hi_private_key_pem_path = [], hi_admin_host = ''127.0.0.1'', hi_admin_port = 18085,
      hi_remote_host = ''0.0.0.0'', hi_remote_port = 18086,
      hi_codex_command = ProviderCommandOverride_default,
      hi_claude_command = ProviderCommandOverride_default,
      hi_launch_records = [], hi_max_launch_records = 50, hi_bootstrap_shell_path = None,
      hi_import_service_manager_environment = False, hi_service_manager_environment_allowlist = [],
      hi_hub_url = None, hi_hub_token = None\<rparr>"

section \<open>Host ids\<close>

definition kHexDigits :: string where
  "kHexDigits = ''0123456789abcdef''"

fun RandomHexToken :: "nat list \<Rightarrow> string" where
  "RandomHexToken [] = []"
| "RandomHexToken (v # vs) =
     kHexDigits ! ((v div 16) mod 16) # kHexDigits ! (v mod 16) # RandomHexToken vs"

definition GenerateHostId :: "nat list \<Rightarrow> string" where
  "GenerateHostId random_bytes = ''h_'' @ RandomHexToken random_bytes"

section \<open>Ensuring an identity\<close>

record 'st HostConfigStore =
  LoadHostIdentity :: "'st \<Rightarrow> HostIdentity option"
  SaveHostIdentity :: "HostIdentity \<Rightarrow> 'st \<Rightarrow> bool \<times> 'st"

definition EnsureHostIdentity ::
    "'st HostConfigStore \<Rightarrow> nat list \<Rightarrow> 'st \<Rightarrow> HostIdentity option \<times> 'st" where
  "EnsureHostIdentity store random_bytes st =
     (let identity = (case LoadHostIdentity store st of
                        Some hi \<Rightarrow> hi | None \<Rightarrow> MakeDefaultHostIdentity)
      in
      if hi_host_id identity \<noteq> [] then (Some identity, st)
      else
        let identity1 = (if hi_display_name identity = []
                         then identity\<lparr>hi_display_name := kDefaultDisplayName\<rparr> else identity);
            identity2 = identity1\<lparr>hi_host_id := GenerateHostId random_bytes\<rparr>;
            (saved, st') = SaveHostIdentity store identity2 st
        in if \<not> saved then (None, st') else (Some identity2, st'))"

lemma length_RandomHexToken [simp]: "length (RandomHexToken bs) = 2 * length bs"
  by (induction bs rule: RandomHexToken.induct) simp_all

lemma kHexDigits_inject: "i < 16 \<Longrightarrow> j < 16 \<Longrightarrow> kHexDigits ! i = kHexDigits ! j \<Longrightarrow> i = j"
proof -
  have "distinct kHexDigits" by (simp add: kHexDigits_def)
  moreover have "length kHexDigits = 16" by (simp add: kHexDigits_def)
  ultimately show "i < 16 \<Longrightarrow> j < 16 \<Longrightarrow> kHexDigits ! i = kHexDigits ! j \<Longrightarrow> i = j"
    by (simp add: nth_eq_iff_index_eq)
qed

text \<open>Different random bytes give different tokens: no entropy is lost in the printing.\<close>

lemma RandomHexToken_inject:
  "\<lbrakk>\<forall>b \<in> set xs. b < 256; \<forall>b \<in> set ys. b < 256; RandomHexToken xs = RandomHexToken ys\<rbrakk> \<Longrightarrow> xs = ys"
proof (induction xs arbitrary: ys rule: RandomHexToken.induct)
  case 1
  then show ?case by (cases ys) simp_all
next
  case (2 v vs)
  then obtain w ws where ys: "ys = w # ws" by (cases ys) simp_all
  have "v div 16 mod 16 = w div 16 mod 16" "v mod 16 = w mod 16"
    using "2.prems" ys by (auto intro!: kHexDigits_inject)
  moreover have "v div 16 < 16" "w div 16 < 16"
    using "2.prems" ys by (simp_all add: less_mult_imp_div_less)
  ultimately have "v = w" by (metis div_mult_mod_eq mod_less)
  moreover have "vs = ws" using 2 ys by simp
  ultimately show ?case using ys by simp
qed

text \<open>An identity that is already saved is returned unchanged and nothing is written; a new one has a
  34-character id, is stored before it is returned, and is the one a second call returns.\<close>

lemma EnsureHostIdentity_stable:
  assumes "EnsureHostIdentity store bs st = (Some identity, st')"
    and saved: "SaveHostIdentity store identity st = (True, st') \<Longrightarrow> LoadHostIdentity store st' = Some identity"
  shows "hi_host_id identity \<noteq> [] \<and> EnsureHostIdentity store bs' st' = (Some identity, st')"
proof -
  let ?old = "case LoadHostIdentity store st of Some hi \<Rightarrow> hi | None \<Rightarrow> MakeDefaultHostIdentity"
  show ?thesis
  proof (cases "hi_host_id ?old = []")
    case True
    with assms(1) have "\<exists>hi. SaveHostIdentity store hi st = (True, st') \<and> identity = hi
        \<and> hi_host_id hi = GenerateHostId bs"
      by (auto simp: EnsureHostIdentity_def Let_def split: prod.splits if_splits option.splits)
    then show ?thesis
      using saved by (auto simp: EnsureHostIdentity_def GenerateHostId_def)
  next
    case False
    then have "LoadHostIdentity store st = Some ?old"
      by (cases "LoadHostIdentity store st") (auto simp: MakeDefaultHostIdentity_def)
    with False assms(1) show ?thesis by (auto simp: EnsureHostIdentity_def)
  qed
qed

end
