(* ===== verification/Environment.thy ===== *)
theory Environment
  imports Env_File Host_Config Terminal_Screen
begin

text \<open>
  The environment of a session: \<open>env_config\<close>, \<open>provider_config\<close>, \<open>launch_spec\<close>,
  \<open>bootstrapped_env_cache\<close> and \<open>env_resolver\<close> of \<open>src/session\<close>. The process environment of the
  daemon is an argument \<open>getenv\<close>, the files are an argument \<open>read_file\<close> (\<^const>\<open>None\<close> for a path that
  does not exist), and what a login shell prints is the argument \<open>run_shell\<close>. An
  \<open>unordered_map\<close> that is iterated over is the list of its pairs in iteration order.
\<close>

section \<open>Modes and sources\<close>

datatype EnvMode = Clean | Shell | BootstrapFromShell

fun ToString_EnvMode :: "EnvMode \<Rightarrow> string" where
  "ToString_EnvMode Clean = ''clean''"
| "ToString_EnvMode Shell = ''shell''"
| "ToString_EnvMode BootstrapFromShell = ''bootstrap_from_shell''"

definition ParseEnvMode :: "string \<Rightarrow> EnvMode option" where
  "ParseEnvMode s =
     (if s = ''clean'' then Some Clean
      else if s = ''shell'' \<or> s = ''login_shell'' \<or> s = ''login-shell'' then Some Shell
      else if s = ''bootstrap_from_shell'' \<or> s = ''bootstrap'' \<or> s = ''bootstrap-from-shell''
        then Some BootstrapFromShell
      else None)"

datatype EnvSource =
  DaemonInherited | ServiceManager | BootstrapShell | EnvFile | FromProviderConfig | SessionOverride

fun ToString_EnvSource :: "EnvSource \<Rightarrow> string" where
  "ToString_EnvSource DaemonInherited = ''daemon_inherited''"
| "ToString_EnvSource ServiceManager = ''service_manager''"
| "ToString_EnvSource BootstrapShell = ''bootstrap_shell''"
| "ToString_EnvSource EnvFile = ''env_file''"
| "ToString_EnvSource FromProviderConfig = ''provider_config''"
| "ToString_EnvSource SessionOverride = ''session_override''"

record EnvConfig =
  ec_mode :: EnvMode
  ec_overrides :: "(string \<times> string) list"
  ec_env_file_path :: "string option"

record EnvEntry =
  ee_key :: string
  ee_value :: string
  ee_source :: EnvSource

record EffectiveEnvironment =
  ef_entries :: "EnvEntry list"
  ef_mode :: EnvMode
  ef_bootstrap_shell_path :: "string option"
  ef_env_file_path :: "string option"
  ef_bootstrap_warning :: "string option"

definition EffectiveEnvironment_default :: EffectiveEnvironment where
  "EffectiveEnvironment_default =
     \<lparr>ef_entries = [], ef_mode = Shell, ef_bootstrap_shell_path = None, ef_env_file_path = None,
      ef_bootstrap_warning = None\<rparr>"

section \<open>Providers and launch specifications\<close>

record ProviderConfig =
  pc_type :: ProviderType
  pc_executable :: string
  pc_default_args :: "string list"
  pc_environment_overrides :: "(string \<times> string) list"

fun DefaultProviderConfig :: "ProviderType \<Rightarrow> ProviderConfig" where
  "DefaultProviderConfig Codex =
     \<lparr>pc_type = Codex, pc_executable = ''codex'', pc_default_args = [], pc_environment_overrides = []\<rparr>"
| "DefaultProviderConfig Claude =
     \<lparr>pc_type = Claude, pc_executable = ''claude'', pc_default_args = [], pc_environment_overrides = []\<rparr>"

record LaunchSpec =
  ls_provider :: ProviderType
  ls_executable :: string
  ls_arguments :: "string list"
  ls_effective_environment :: EffectiveEnvironment
  ls_working_directory :: string
  ls_terminal_size :: TerminalSize

definition BuildLaunchSpec ::
    "SessionMetadata \<Rightarrow> ProviderConfig \<Rightarrow> string list \<Rightarrow> TerminalSize \<Rightarrow> EffectiveEnvironment
       \<Rightarrow> LaunchSpec" where
  "BuildLaunchSpec metadata provider_config extra_arguments terminal_size effective_environment =
     \<lparr>ls_provider = md_provider metadata,
      ls_executable = pc_executable provider_config,
      ls_arguments = pc_default_args provider_config @ extra_arguments,
      ls_effective_environment = effective_environment,
      ls_working_directory = md_workspace_root metadata,
      ls_terminal_size = terminal_size\<rparr>"

section \<open>The cache of bootstrapped environments\<close>

definition ShouldStrip :: "string \<Rightarrow> bool" where
  "ShouldStrip key \<longleftrightarrow> key \<in> set [''SHLVL'', ''_'', ''PWD'', ''OLDPWD'']"

text \<open>An \<open>unordered_map\<close> as the list of its pairs: one pair per key.\<close>

fun map_insert :: "'k \<Rightarrow> 'v \<Rightarrow> ('k \<times> 'v) list \<Rightarrow> ('k \<times> 'v) list" where
  "map_insert k v [] = [(k, v)]"
| "map_insert k v ((k', v') # kvs) =
     (if k' = k then (k, v) # kvs else (k', v') # map_insert k v kvs)"

function ParseEnvZero_loop :: "string \<Rightarrow> (string \<times> string) list \<Rightarrow> (string \<times> string) list" where
  "ParseEnvZero_loop rest result =
     (if rest = [] then result
      else
        let token = takeWhile (\<lambda>c. c \<noteq> ch_nul) rest;
            result' =
              (if token = [] then result
               else case find_first ''='' token of
                   None \<Rightarrow> result
                 | Some eq \<Rightarrow>
                     if eq > 0 \<and> \<not> ShouldStrip (take eq token)
                     then map_insert (take eq token) (drop (eq + 1) token) result
                     else result)
        in
        if length token = length rest then result'
        else ParseEnvZero_loop (drop (length token + 1) rest) result')"
  by pat_completeness auto
termination
  by (relation "measure (\<lambda>(rest, result). length rest)") auto

declare ParseEnvZero_loop.simps [simp del]

definition ParseEnvZero :: "string \<Rightarrow> (string \<times> string) list" where
  "ParseEnvZero output = ParseEnvZero_loop output []"

datatype shell_outcome =
    ShellPipeFailed string
  | ShellForkFailed string
  | ShellTimedOut
  | ShellFinished (sh_stdout: string) (sh_stderr: string) (sh_exit_code: int)

text \<open>Times are nanoseconds of the steady clock, the time to live is in seconds.\<close>

record EnvCacheEntry =
  ce_env :: "(string \<times> string) list"
  ce_captured_at :: nat

record BootstrappedEnvCache =
  bc_cache :: "string \<rightharpoonup> EnvCacheEntry"
  bc_ttl :: nat
  bc_last_warning :: "string option"

definition BootstrappedEnvCache_init :: BootstrappedEnvCache where
  "BootstrappedEnvCache_init = \<lparr>bc_cache = Map.empty, bc_ttl = 300, bc_last_warning = None\<rparr>"

definition int_to_string :: "int \<Rightarrow> string" where
  "int_to_string i = (if i < 0 then ''-'' @ nat_to_string (nat (- i)) else nat_to_string (nat i))"

definition truncated_to :: "nat \<Rightarrow> string \<Rightarrow> string" where
  "truncated_to n s = (if length s > n then take n s @ ''...'' else s)"

definition RunBootstrap ::
    "(string \<Rightarrow> shell_outcome) \<Rightarrow> string \<Rightarrow> BootstrappedEnvCache
       \<Rightarrow> (string + (string \<times> string) list) \<times> BootstrappedEnvCache" where
  "RunBootstrap run_shell shell_path cache =
     (let cache = cache\<lparr>bc_last_warning := None\<rparr> in
      case run_shell shell_path of
        ShellPipeFailed msg \<Rightarrow> (Inl (''pipe() failed: '' @ msg), cache)
      | ShellForkFailed msg \<Rightarrow> (Inl (''fork() failed: '' @ msg), cache)
      | ShellTimedOut \<Rightarrow> (Inl (''bootstrap timed out after 5s via '' @ shell_path), cache)
      | ShellFinished stdout stderr exit_code \<Rightarrow>
          if exit_code \<noteq> 0 then
            (Inl (''failed to bootstrap login-shell environment via '' @ shell_path
                  @ '': exited with code '' @ int_to_string exit_code
                  @ (if stderr \<noteq> [] then [ch_nl] @ ''stderr: '' @ truncated_to 256 stderr else [])),
             cache)
          else
            (Inr (ParseEnvZero stdout),
             if stderr \<noteq> [] then cache\<lparr>bc_last_warning := Some (truncated_to 512 stderr)\<rparr> else cache))"

text \<open>The end of \<open>Get\<close>: run the shell and remember a successful capture.\<close>

definition capture_env ::
    "(string \<Rightarrow> shell_outcome) \<Rightarrow> nat \<Rightarrow> string \<Rightarrow> BootstrappedEnvCache
       \<Rightarrow> (string + (string \<times> string) list) \<times> BootstrappedEnvCache" where
  "capture_env run_shell now shell_path cache =
     (case RunBootstrap run_shell shell_path cache of
        (Inl err, cache') \<Rightarrow> (Inl err, cache')
      | (Inr env, cache') \<Rightarrow>
          (Inr env, cache'\<lparr>bc_cache := (bc_cache cache')(shell_path \<mapsto>
                      \<lparr>ce_env = env, ce_captured_at = now\<rparr>)\<rparr>))"

definition cache_Get ::
    "(string \<Rightarrow> shell_outcome) \<Rightarrow> nat \<Rightarrow> string \<Rightarrow> BootstrappedEnvCache
       \<Rightarrow> (string + (string \<times> string) list) \<times> BootstrappedEnvCache" where
  "cache_Get run_shell now shell_path cache =
     (case bc_cache cache shell_path of
        Some entry \<Rightarrow>
          if now - ce_captured_at entry < bc_ttl cache * 1000000000 then (Inr (ce_env entry), cache)
          else capture_env run_shell now shell_path
                 (cache\<lparr>bc_cache := (bc_cache cache)(shell_path := None)\<rparr>)
      | None \<Rightarrow> capture_env run_shell now shell_path cache)"

definition cache_Invalidate :: "BootstrappedEnvCache \<Rightarrow> BootstrappedEnvCache" where
  "cache_Invalidate cache = cache\<lparr>bc_cache := Map.empty\<rparr>"

definition TakeLastWarning :: "BootstrappedEnvCache \<Rightarrow> string option \<times> BootstrappedEnvCache" where
  "TakeLastWarning cache = (bc_last_warning cache, cache\<lparr>bc_last_warning := None\<rparr>)"

section \<open>The resolver\<close>

definition kMinimalPath :: string where
  "kMinimalPath = ''/usr/bin:/bin:/usr/sbin:/sbin''"

definition Getenv :: "(string \<rightharpoonup> string) \<Rightarrow> string \<Rightarrow> string" where
  "Getenv getenv name = (case getenv name of Some v \<Rightarrow> v | None \<Rightarrow> [])"

definition LoadEnvFile ::
    "(string \<rightharpoonup> string) \<Rightarrow> string \<Rightarrow> (string \<rightharpoonup> string) \<Rightarrow> (string \<times> string) list" where
  "LoadEnvFile read_file path current_env =
     (case read_file path of None \<Rightarrow> [] | Some content \<Rightarrow> ParseEnvFile content current_env)"

definition ResolveEnvFilePaths ::
    "(string \<rightharpoonup> string) \<Rightarrow> string option \<Rightarrow> string \<Rightarrow> string list" where
  "ResolveEnvFilePaths read_file explicit_path workspace_root =
     (case explicit_path of
        Some p \<Rightarrow> [if path_is_relative p then path_join workspace_root p else p]
      | None \<Rightarrow>
          let env_in = path_join workspace_root ''.env.in'';
              env_file = path_join workspace_root ''.env''
          in (if read_file env_in \<noteq> None then [env_in] else [])
             @ (if read_file env_file \<noteq> None then [env_file] else []))"

definition build_key_index :: "EnvEntry list \<Rightarrow> (string \<rightharpoonup> nat)" where
  "build_key_index entries = fold (\<lambda>i m. m(ee_key (entries ! i) \<mapsto> i)) [0 ..< length entries] Map.empty"

fun apply_override ::
    "EnvSource \<Rightarrow> string \<times> string \<Rightarrow> EnvEntry list \<times> (string \<rightharpoonup> nat)
       \<Rightarrow> EnvEntry list \<times> (string \<rightharpoonup> nat)" where
  "apply_override source (key, value) (entries, key_index) =
     (case key_index key of
        Some i \<Rightarrow> (entries[i := (entries ! i)\<lparr>ee_value := value, ee_source := source\<rparr>], key_index)
      | None \<Rightarrow>
          (entries @ [\<lparr>ee_key = key, ee_value = value, ee_source = source\<rparr>],
           key_index(key \<mapsto> length entries)))"

definition ApplyOverrides ::
    "EnvEntry list \<Rightarrow> (string \<times> string) list \<Rightarrow> EnvSource \<Rightarrow> EnvEntry list" where
  "ApplyOverrides entries overrides source =
     fst (fold (apply_override source) overrides (entries, build_key_index entries))"

definition EntriesToMap :: "EnvEntry list \<Rightarrow> (string \<rightharpoonup> string)" where
  "EntriesToMap entries = fold (\<lambda>e m. m(ee_key e \<mapsto> ee_value e)) entries Map.empty"

definition ResolveBootstrapShell :: "(string \<rightharpoonup> string) \<Rightarrow> HostIdentity \<Rightarrow> string" where
  "ResolveBootstrapShell getenv host_config =
     (case hi_bootstrap_shell_path host_config of
        Some p \<Rightarrow> if p \<noteq> [] then p
                  else if Getenv getenv ''SHELL'' \<noteq> [] then Getenv getenv ''SHELL'' else ''/bin/bash''
      | None \<Rightarrow> if Getenv getenv ''SHELL'' \<noteq> [] then Getenv getenv ''SHELL'' else ''/bin/bash'')"

text \<open>The inner loop that the \<open>.env\<close> and service-manager layers share: the first entry with the
  key is overwritten, or a new entry is appended.\<close>

fun set_entry :: "EnvSource \<Rightarrow> string \<Rightarrow> string \<Rightarrow> EnvEntry list \<Rightarrow> EnvEntry list" where
  "set_entry source k v [] = [\<lparr>ee_key = k, ee_value = v, ee_source = source\<rparr>]"
| "set_entry source k v (e # es) =
     (if ee_key e = k then e\<lparr>ee_value := v, ee_source := source\<rparr> # es
      else e # set_entry source k v es)"

definition apply_env_file ::
    "(string \<rightharpoonup> string) \<Rightarrow> string \<Rightarrow> EnvEntry list \<Rightarrow> EnvEntry list" where
  "apply_env_file read_file path entries =
     fold (\<lambda>(k, v). set_entry EnvFile k v) (LoadEnvFile read_file path (EntriesToMap entries)) entries"

definition apply_env_files ::
    "(string \<rightharpoonup> string) \<Rightarrow> string list \<Rightarrow> EffectiveEnvironment \<Rightarrow> EffectiveEnvironment" where
  "apply_env_files read_file paths result =
     (let result = result\<lparr>ef_entries := fold (apply_env_file read_file) paths (ef_entries result)\<rparr>
      in if paths \<noteq> [] then result\<lparr>ef_env_file_path := Some (last paths)\<rparr> else result)"

definition base_entries :: "(string \<rightharpoonup> string) \<Rightarrow> EnvEntry list" where
  "base_entries getenv =
     \<lparr>ee_key = ''PATH'', ee_value = kMinimalPath, ee_source = DaemonInherited\<rparr>
     # map (\<lambda>k. \<lparr>ee_key = k, ee_value = Getenv getenv k, ee_source = DaemonInherited\<rparr>)
         (filter (\<lambda>k. Getenv getenv k \<noteq> []) [''HOME'', ''USER'', ''TMPDIR''])"

definition service_manager_layer ::
    "(string \<rightharpoonup> string) \<Rightarrow> HostIdentity \<Rightarrow> EnvEntry list \<Rightarrow> EnvEntry list" where
  "service_manager_layer getenv host_config entries =
     (if hi_import_service_manager_environment host_config
         \<and> hi_service_manager_environment_allowlist host_config \<noteq> []
      then fold (\<lambda>key es. case getenv key of
                             None \<Rightarrow> es | Some value \<Rightarrow> set_entry ServiceManager key value es)
             (hi_service_manager_environment_allowlist host_config) entries
      else entries)"

definition apply_override_layers ::
    "EnvConfig \<Rightarrow> (string \<times> string) list \<Rightarrow> EffectiveEnvironment \<Rightarrow> EffectiveEnvironment" where
  "apply_override_layers config provider_overrides result =
     result\<lparr>ef_entries :=
              ApplyOverrides (ApplyOverrides (ef_entries result) provider_overrides FromProviderConfig)
                (ec_overrides config) SessionOverride\<rparr>"

definition ResolveEnvironment ::
    "(string \<rightharpoonup> string) \<Rightarrow> (string \<rightharpoonup> string) \<Rightarrow> (string \<Rightarrow> shell_outcome) \<Rightarrow> nat \<Rightarrow> EnvConfig
       \<Rightarrow> string \<Rightarrow> HostIdentity \<Rightarrow> (string \<times> string) list \<Rightarrow> BootstrappedEnvCache
       \<Rightarrow> (string + EffectiveEnvironment) \<times> BootstrappedEnvCache" where
  "ResolveEnvironment getenv read_file run_shell now config workspace_root host_config
       provider_overrides cache =
     (let result = EffectiveEnvironment_default\<lparr>ef_mode := ec_mode config\<rparr>;
          paths = ResolveEnvFilePaths read_file (ec_env_file_path config) workspace_root;
          finish = (\<lambda>r. apply_override_layers config provider_overrides (apply_env_files read_file paths r))
      in
      case ec_mode config of
        Shell \<Rightarrow>
          (Inr (finish (result\<lparr>ef_bootstrap_shell_path := Some (ResolveBootstrapShell getenv host_config)\<rparr>)),
           cache)
      | Clean \<Rightarrow> (Inr (finish (result\<lparr>ef_entries := base_entries getenv\<rparr>)), cache)
      | BootstrapFromShell \<Rightarrow>
          let shell_path = ResolveBootstrapShell getenv host_config in
          (case cache_Get run_shell now shell_path cache of
             (Inl err, cache1) \<Rightarrow> (Inl err, cache1)
           | (Inr env, cache1) \<Rightarrow>
               let (warning, cache2) = TakeLastWarning cache1;
                   entries = map (\<lambda>(k, v). \<lparr>ee_key = k, ee_value = v, ee_source = BootstrapShell\<rparr>) env
               in (Inr (finish (result\<lparr>ef_bootstrap_shell_path := Some shell_path,
                                        ef_bootstrap_warning := warning,
                                        ef_entries := service_manager_layer getenv host_config entries\<rparr>)),
                   cache2)))"

section \<open>The specification: layers of maps\<close>

type_synonym env_map = "string \<rightharpoonup> string \<times> EnvSource"

definition env_lookup :: "EnvEntry list \<Rightarrow> env_map" where
  "env_lookup entries = map_of (map (\<lambda>e. (ee_key e, (ee_value e, ee_source e))) entries)"

definition layer :: "EnvSource \<Rightarrow> (string \<times> string) list \<Rightarrow> env_map \<Rightarrow> env_map" where
  "layer source kvs below =
     (\<lambda>k. case map_of (rev kvs) k of Some v \<Rightarrow> Some (v, source) | None \<Rightarrow> below k)"

definition values_of :: "env_map \<Rightarrow> (string \<rightharpoonup> string)" where
  "values_of m = (\<lambda>k. map_option fst (m k))"

definition env_files_layer :: "(string \<rightharpoonup> string) \<Rightarrow> string list \<Rightarrow> env_map \<Rightarrow> env_map" where
  "env_files_layer read_file paths below =
     fold (\<lambda>path m. layer EnvFile (LoadEnvFile read_file path (values_of m)) m) paths below"

definition base_layer :: "(string \<rightharpoonup> string) \<Rightarrow> env_map" where
  "base_layer getenv =
     (\<lambda>k. if k = ''PATH'' then Some (kMinimalPath, DaemonInherited)
          else if k \<in> {''HOME'', ''USER'', ''TMPDIR''} \<and> Getenv getenv k \<noteq> []
            then Some (Getenv getenv k, DaemonInherited)
          else None)"

definition service_layer :: "(string \<rightharpoonup> string) \<Rightarrow> HostIdentity \<Rightarrow> env_map \<Rightarrow> env_map" where
  "service_layer getenv host below =
     (\<lambda>k. if hi_import_service_manager_environment host
             \<and> k \<in> set (hi_service_manager_environment_allowlist host) \<and> getenv k \<noteq> None
          then Some (the (getenv k), ServiceManager) else below k)"

definition keys_distinct :: "EnvEntry list \<Rightarrow> bool" where
  "keys_distinct entries \<longleftrightarrow> distinct (map ee_key entries)"

definition cache_wf :: "BootstrappedEnvCache \<Rightarrow> bool" where
  "cache_wf cache \<longleftrightarrow> (\<forall>entry \<in> ran (bc_cache cache). distinct (map fst (ce_env entry)))"

section \<open>Operations on entries refine operations on maps\<close>

lemma env_lookup_simps [simp]:
  "env_lookup [] = Map.empty"
  "env_lookup (e # es) = (env_lookup es)(ee_key e \<mapsto> (ee_value e, ee_source e))"
  by (simp_all add: env_lookup_def)

lemma env_lookup_None: "env_lookup es k = None \<longleftrightarrow> k \<notin> ee_key ` set es"
  by (induction es) auto

lemma set_entry_lookup: "env_lookup (set_entry s k v es) = (env_lookup es)(k \<mapsto> (v, s))"
  by (induction es) (auto simp: fun_eq_iff)

lemma set_entry_keys:
  "map ee_key (set_entry s k v es) =
     (if k \<in> ee_key ` set es then map ee_key es else map ee_key es @ [k])"
  by (induction es) auto

lemma set_entry_distinct: "keys_distinct es \<Longrightarrow> keys_distinct (set_entry s k v es)"
  by (auto simp: keys_distinct_def set_entry_keys)

lemma layer_Nil [simp]: "layer s [] m = m"
  by (simp add: layer_def)

lemma layer_snoc: "layer s (kvs @ [(k, v)]) m = (layer s kvs m)(k \<mapsto> (v, s))"
  by (auto simp: layer_def fun_eq_iff)

lemma layer_Cons: "layer s ((k, v) # kvs) m = layer s kvs (m(k \<mapsto> (v, s)))"
  by (auto simp: layer_def fun_eq_iff map_add_def map_of_append split: option.splits)

lemma fold_set_entry:
  "env_lookup (fold (\<lambda>(k, v). set_entry s k v) kvs es) = layer s kvs (env_lookup es)"
  by (induction kvs arbitrary: es) (auto simp: layer_Cons set_entry_lookup)

lemma fold_set_entry_distinct:
  "keys_distinct es \<Longrightarrow> keys_distinct (fold (\<lambda>(k, v). set_entry s k v) kvs es)"
  by (induction kvs arbitrary: es) (auto simp: set_entry_distinct)

lemma EntriesToMap_fold:
  "keys_distinct es \<Longrightarrow> fold (\<lambda>e m. m(ee_key e \<mapsto> ee_value e)) es m = m ++ values_of (env_lookup es)"
proof (induction es arbitrary: m)
  case (Cons e es)
  then have d: "env_lookup es (ee_key e) = None" "keys_distinct es"
    by (auto simp: keys_distinct_def env_lookup_None)
  show ?case
    unfolding fold.simps comp_def Cons.IH [OF d(2)]
    using d(1) by (auto simp: fun_eq_iff map_add_def values_of_def split: option.splits)
qed (auto simp: values_of_def map_add_def)

lemma EntriesToMap_eq: "keys_distinct es \<Longrightarrow> EntriesToMap es = values_of (env_lookup es)"
  by (simp add: EntriesToMap_def EntriesToMap_fold)

lemma fold_apply_env_file:
  "keys_distinct es \<Longrightarrow>
     keys_distinct (fold (apply_env_file read_file) paths es)
     \<and> env_lookup (fold (apply_env_file read_file) paths es) = env_files_layer read_file paths (env_lookup es)"
proof (induction paths arbitrary: es)
  case (Cons p ps)
  have "keys_distinct (apply_env_file read_file p es)"
    using Cons.prems by (simp add: apply_env_file_def fold_set_entry_distinct)
  moreover have "env_lookup (apply_env_file read_file p es) =
      layer EnvFile (LoadEnvFile read_file p (values_of (env_lookup es))) (env_lookup es)"
    using Cons.prems by (simp add: apply_env_file_def fold_set_entry EntriesToMap_eq)
  ultimately show ?case using Cons.IH by (simp add: env_files_layer_def)
qed (simp add: env_files_layer_def)

section \<open>Overrides by index\<close>

definition index_exact :: "EnvEntry list \<Rightarrow> (string \<rightharpoonup> nat) \<Rightarrow> bool" where
  "index_exact es idx \<longleftrightarrow> (\<forall>k i. idx k = Some i \<longleftrightarrow> i < length es \<and> ee_key (es ! i) = k)"

lemma build_key_index_exact:
  assumes "keys_distinct es"
  shows "index_exact es (build_key_index es)"
proof -
  have "n \<le> length es \<Longrightarrow>
      \<forall>k i. fold (\<lambda>i m. m(ee_key (es ! i) \<mapsto> i)) [0 ..< n] Map.empty k = Some i
        \<longleftrightarrow> i < n \<and> ee_key (es ! i) = k" for n
  proof (induction n)
    case (Suc n)
    have "ee_key (es ! i) \<noteq> ee_key (es ! n)" if "i < n" for i
      using assms Suc.prems that by (auto simp: keys_distinct_def distinct_conv_nth)
    with Suc show ?case by (auto simp: less_Suc_eq)
  qed simp
  from this [of "length es"] show ?thesis by (simp add: index_exact_def build_key_index_def)
qed

lemma env_lookup_update:
  assumes "keys_distinct es" "i < length es"
  shows "env_lookup (es[i := (es ! i)\<lparr>ee_value := v, ee_source := s\<rparr>]) =
    (env_lookup es)(ee_key (es ! i) \<mapsto> (v, s))"
  using assms
proof (induction es arbitrary: i)
  case (Cons e es)
  show ?case
  proof (cases i)
    case (Suc j)
    with Cons have "j < length es" by simp
    moreover from this Cons.prems have "ee_key (es ! j) \<noteq> ee_key e"
      by (auto simp: keys_distinct_def) (metis image_eqI nth_mem)
    ultimately show ?thesis
      using Cons Suc by (auto simp: keys_distinct_def fun_eq_iff)
  qed (auto simp: fun_eq_iff)
qed simp

lemma env_lookup_snoc:
  "k \<notin> ee_key ` set es \<Longrightarrow>
     env_lookup (es @ [\<lparr>ee_key = k, ee_value = v, ee_source = s\<rparr>]) = (env_lookup es)(k \<mapsto> (v, s))"
  by (induction es) (auto simp: fun_eq_iff)

lemma map_key_update [simp]:
  "map ee_key (es[i := (es ! i)\<lparr>ee_value := v, ee_source := s\<rparr>]) = map ee_key es"
  by (simp add: map_update) (metis list_update_id map_update nth_map list_update_beyond not_le)

lemma apply_override_step:
  assumes "keys_distinct es" "index_exact es idx"
  obtains es' idx' where "apply_override s (k, v) (es, idx) = (es', idx')"
    and "keys_distinct es'" "index_exact es' idx'"
    and "env_lookup es' = (env_lookup es)(k \<mapsto> (v, s))"
proof (cases "idx k")
  case (Some i)
  with assms have i: "i < length es" "ee_key (es ! i) = k" by (auto simp: index_exact_def)
  let ?es = "es[i := (es ! i)\<lparr>ee_value := v, ee_source := s\<rparr>]"
  have "keys_distinct ?es" using assms(1) by (simp add: keys_distinct_def)
  moreover have "ee_key (?es ! j) = ee_key (es ! j)" if "j < length es" for j
    using that by (cases "i = j") simp_all
  then have "index_exact ?es idx" using assms(2) by (auto simp: index_exact_def)
  ultimately show ?thesis
    using that [of ?es idx] Some i assms(1) env_lookup_update [OF assms(1) i(1), where v = v and s = s] by simp
next
  case None
  then have new: "k \<notin> ee_key ` set es"
    using assms(2) by (auto simp: index_exact_def in_set_conv_nth) (metis option.distinct(1))
  let ?es = "es @ [\<lparr>ee_key = k, ee_value = v, ee_source = s\<rparr>]"
  have "keys_distinct ?es" using assms(1) new by (simp add: keys_distinct_def)
  moreover have "index_exact ?es (idx(k \<mapsto> length es))"
    using assms(2) new by (auto simp: index_exact_def nth_append less_Suc_eq)
  ultimately show ?thesis
    using that [of ?es "idx(k \<mapsto> length es)"] None env_lookup_snoc [OF new] by simp
qed

lemma fold_apply_override:
  assumes "keys_distinct es" "index_exact es idx"
  shows "keys_distinct (fst (fold (apply_override s) kvs (es, idx)))
    \<and> env_lookup (fst (fold (apply_override s) kvs (es, idx))) = layer s kvs (env_lookup es)"
  using assms
proof (induction kvs arbitrary: es idx)
  case (Cons kv kvs)
  obtain k v where kv: "kv = (k, v)" by (cases kv)
  from apply_override_step [OF Cons.prems, of s k v] obtain es' idx' where
    "apply_override s kv (es, idx) = (es', idx')" "keys_distinct es'" "index_exact es' idx'"
    "env_lookup es' = (env_lookup es)(k \<mapsto> (v, s))" unfolding kv by blast
  note step = this
  have "fold (apply_override s) (kv # kvs) (es, idx) = fold (apply_override s) kvs (es', idx')"
    by (simp only: fold.simps comp_apply step(1))
  with Cons.IH [OF step(2,3)] show ?case by (simp only: kv layer_Cons step(4))
qed simp

lemma ApplyOverrides_refines:
  assumes "keys_distinct es"
  shows "keys_distinct (ApplyOverrides es kvs s)"
    "env_lookup (ApplyOverrides es kvs s) = layer s kvs (env_lookup es)"
  using fold_apply_override [OF assms build_key_index_exact [OF assms], of s kvs]
  by (simp_all add: ApplyOverrides_def)

section \<open>Captured environments\<close>

lemma map_insert_keys:
  "map fst (map_insert k v kvs) = (if k \<in> fst ` set kvs then map fst kvs else map fst kvs @ [k])"
  by (induction k v kvs rule: map_insert.induct) auto

lemma map_insert_distinct: "distinct (map fst kvs) \<Longrightarrow> distinct (map fst (map_insert k v kvs))"
  by (auto simp: map_insert_keys)

lemma ParseEnvZero_loop_distinct:
  "distinct (map fst result) \<Longrightarrow> distinct (map fst (ParseEnvZero_loop rest result))"
proof (induction rest result rule: ParseEnvZero_loop.induct)
  case (1 rest result)
  then show ?case
    by (subst ParseEnvZero_loop.simps)
      (auto simp: Let_def map_insert_distinct split: option.split)
qed

lemma ParseEnvZero_distinct: "distinct (map fst (ParseEnvZero output))"
  by (simp add: ParseEnvZero_def ParseEnvZero_loop_distinct)

lemma RunBootstrap_facts:
  assumes "RunBootstrap run shell cache = (r, cache')"
  shows "bc_cache cache' = bc_cache cache" "bc_ttl cache' = bc_ttl cache"
    "r = Inr env \<Longrightarrow> distinct (map fst env)"
  using assms
  by (auto simp: RunBootstrap_def Let_def ParseEnvZero_distinct split: shell_outcome.splits if_splits)

lemma cache_wf_upd:
  assumes "cache_wf c" "bc_cache c' = (bc_cache c)(shell := e)"
    "case e of None \<Rightarrow> True | Some entry \<Rightarrow> distinct (map fst (ce_env entry))"
  shows "cache_wf c'"
proof -
  have "ran (bc_cache c') \<subseteq> ran (bc_cache c) \<union> set_option e"
    using assms(2) by (auto simp: ran_def)
  with assms(1,3) show ?thesis unfolding cache_wf_def by (cases e) auto
qed

lemma capture_env_wf:
  assumes "cache_wf cache" "capture_env run now shell cache = (r, cache')"
  shows "cache_wf cache' \<and> (case r of Inl _ \<Rightarrow> True | Inr env \<Rightarrow> distinct (map fst env))"
proof (cases "RunBootstrap run shell cache")
  case (Pair res c)
  note facts = RunBootstrap_facts [OF Pair]
  show ?thesis
  proof (cases res)
    case (Inl err)
    with assms Pair facts(1) show ?thesis by (auto simp: capture_env_def cache_wf_def)
  next
    case (Inr env)
    with assms Pair have r: "r = Inr env" and
      c: "bc_cache cache' = (bc_cache cache)(shell \<mapsto> \<lparr>ce_env = env, ce_captured_at = now\<rparr>)"
      using facts(1) by (auto simp: capture_env_def)
    from cache_wf_upd [OF assms(1) c] r facts(3) [OF Inr] show ?thesis by simp
  qed
qed

lemma cache_Get_wf:
  assumes "cache_wf cache" "cache_Get run now shell cache = (r, cache')"
  shows "cache_wf cache' \<and> (case r of Inl _ \<Rightarrow> True | Inr env \<Rightarrow> distinct (map fst env))"
proof (cases "bc_cache cache shell")
  case None
  with assms show ?thesis by (auto simp: cache_Get_def dest: capture_env_wf)
next
  case (Some entry)
  then have "distinct (map fst (ce_env entry))" using assms(1) by (auto simp: cache_wf_def ran_def)
  moreover have "cache_wf (cache\<lparr>bc_cache := (bc_cache cache)(shell := None)\<rparr>)"
    using cache_wf_upd [OF assms(1), of _ shell None] by simp
  ultimately show ?thesis
    using assms Some capture_env_wf by (fastforce simp: cache_Get_def split: if_splits)
qed

lemma map_of_tagged:
  "env_lookup (map (\<lambda>(k, v). \<lparr>ee_key = k, ee_value = v, ee_source = s\<rparr>) env) k =
     map_option (\<lambda>v. (v, s)) (map_of env k)"
  by (induction env) auto

lemma keys_tagged: "map ee_key (map (\<lambda>(k, v). \<lparr>ee_key = k, ee_value = v, ee_source = s\<rparr>) env) = map fst env"
  by (induction env) auto

lemma base_entries_refines:
  "keys_distinct (base_entries getenv)" "env_lookup (base_entries getenv) = base_layer getenv"
  by (auto simp: base_entries_def keys_distinct_def base_layer_def fun_eq_iff)

lemma service_manager_layer_fold:
  "keys_distinct es \<Longrightarrow>
     keys_distinct (fold (\<lambda>key es. case getenv key of None \<Rightarrow> es
        | Some value \<Rightarrow> set_entry ServiceManager key value es) keys es)
     \<and> env_lookup (fold (\<lambda>key es. case getenv key of None \<Rightarrow> es
        | Some value \<Rightarrow> set_entry ServiceManager key value es) keys es) =
       (\<lambda>k. if k \<in> set keys \<and> getenv k \<noteq> None then Some (the (getenv k), ServiceManager)
            else env_lookup es k)"
proof (induction keys arbitrary: es)
  case (Cons key keys)
  then show ?case
    by (cases "getenv key") (auto simp: set_entry_distinct set_entry_lookup fun_eq_iff)
qed simp

lemma service_manager_layer_refines:
  assumes "keys_distinct es"
  shows "keys_distinct (service_manager_layer getenv host es)"
    "env_lookup (service_manager_layer getenv host es) = service_layer getenv host (env_lookup es)"
  using service_manager_layer_fold [OF assms, of getenv "hi_service_manager_environment_allowlist host"] assms
  by (auto simp: service_manager_layer_def service_layer_def fun_eq_iff)

definition final_layers ::
    "(string \<rightharpoonup> string) \<Rightarrow> EnvConfig \<Rightarrow> string \<Rightarrow> (string \<times> string) list \<Rightarrow> env_map \<Rightarrow> env_map" where
  "final_layers read_file config workspace_root provider_overrides below =
     layer SessionOverride (ec_overrides config)
       (layer FromProviderConfig provider_overrides
         (env_files_layer read_file
            (ResolveEnvFilePaths read_file (ec_env_file_path config) workspace_root) below))"

lemma final_layers_refine:
  fixes r :: EffectiveEnvironment and config :: EnvConfig and workspace_root :: string
    and provider_overrides :: "(string \<times> string) list" and read_file :: "string \<rightharpoonup> string"
  assumes "keys_distinct (ef_entries r)"
  defines "r' \<equiv> apply_override_layers config provider_overrides (apply_env_files read_file
      (ResolveEnvFilePaths read_file (ec_env_file_path config) workspace_root) r)"
  shows "keys_distinct (ef_entries r')"
    "env_lookup (ef_entries r') = final_layers read_file config workspace_root provider_overrides
       (env_lookup (ef_entries r))"
proof -
  let ?files = "fold (apply_env_file read_file)
      (ResolveEnvFilePaths read_file (ec_env_file_path config) workspace_root) (ef_entries r)"
  have e: "ef_entries r' = ApplyOverrides (ApplyOverrides ?files provider_overrides FromProviderConfig)
      (ec_overrides config) SessionOverride"
    by (simp add: r'_def apply_override_layers_def apply_env_files_def Let_def)
  note f = fold_apply_env_file [OF assms(1), of read_file]
  show "keys_distinct (ef_entries r')" unfolding e using f by (simp add: ApplyOverrides_refines)
  show "env_lookup (ef_entries r') = final_layers read_file config workspace_root provider_overrides
       (env_lookup (ef_entries r))"
    unfolding e final_layers_def using f by (simp add: ApplyOverrides_refines)
qed

section \<open>Properties\<close>

text \<open>The layer below the files and overrides, by mode.\<close>

definition mode_layer ::
    "(string \<rightharpoonup> string) \<Rightarrow> HostIdentity \<Rightarrow> EnvMode \<Rightarrow> (string \<times> string) list \<Rightarrow> env_map" where
  "mode_layer getenv host mode captured =
     (case mode of
        Shell \<Rightarrow> Map.empty
      | Clean \<Rightarrow> base_layer getenv
      | BootstrapFromShell \<Rightarrow>
          service_layer getenv host (\<lambda>k. map_option (\<lambda>v. (v, BootstrapShell)) (map_of captured k)))"

lemma resolve_bootstrap:
  assumes "cache_wf cache" "ec_mode config = BootstrapFromShell"
    and "ResolveEnvironment getenv read_file run_shell now config workspace_root host
           provider_overrides cache = (Inr eff, cache')"
  obtains env where
    "fst (cache_Get run_shell now (ResolveBootstrapShell getenv host) cache) = Inr env"
    "keys_distinct (ef_entries eff)" "cache_wf cache'"
    "env_lookup (ef_entries eff) = final_layers read_file config workspace_root provider_overrides
       (mode_layer getenv host BootstrapFromShell env)"
proof -
  let ?shell = "ResolveBootstrapShell getenv host"
  obtain res cache1 where get: "cache_Get run_shell now ?shell cache = (res, cache1)"
    by (cases "cache_Get run_shell now ?shell cache")
  from assms(2,3) get obtain env where res: "res = Inr env"
    by (cases res) (simp_all add: ResolveEnvironment_def Let_def)
  from cache_Get_wf [OF assms(1) get] res have wf: "cache_wf cache1" "distinct (map fst env)" by simp_all
  let ?tagged = "map (\<lambda>(k, v). \<lparr>ee_key = k, ee_value = v, ee_source = BootstrapShell\<rparr>) env"
  have kd: "keys_distinct ?tagged" using wf(2) by (simp only: keys_distinct_def keys_tagged)
  have "env_lookup ?tagged = (\<lambda>k. map_option (\<lambda>v. (v, BootstrapShell)) (map_of env k))"
    by (rule ext) (rule map_of_tagged)
  with service_manager_layer_refines [OF kd, of getenv host]
  have s: "keys_distinct (service_manager_layer getenv host ?tagged)"
    "env_lookup (service_manager_layer getenv host ?tagged) =
       mode_layer getenv host BootstrapFromShell env"
    by (simp_all add: mode_layer_def)
  let ?r = "EffectiveEnvironment_default\<lparr>ef_mode := ec_mode config,
      ef_bootstrap_shell_path := Some ?shell, ef_bootstrap_warning := fst (TakeLastWarning cache1),
      ef_entries := service_manager_layer getenv host ?tagged\<rparr>"
  have eff: "eff = apply_override_layers config provider_overrides (apply_env_files read_file
      (ResolveEnvFilePaths read_file (ec_env_file_path config) workspace_root) ?r)"
    and cache': "cache' = snd (TakeLastWarning cache1)"
    using assms(2,3) get res by (auto simp: ResolveEnvironment_def Let_def split: prod.splits)
  have "keys_distinct (ef_entries ?r)" using s(1) by simp
  from final_layers_refine [OF this, of config provider_overrides read_file workspace_root, folded eff] s
  have "keys_distinct (ef_entries eff)" "env_lookup (ef_entries eff) =
      final_layers read_file config workspace_root provider_overrides
        (mode_layer getenv host BootstrapFromShell env)" by simp_all
  moreover have "cache_wf cache'"
    using wf(1) cache' by (simp add: TakeLastWarning_def cache_wf_def)
  ultimately show ?thesis using that get res by simp
qed

text \<open>Claim C24: the resolved environment of a session has one entry per variable, and the value and the
  recorded source of every variable are those of the highest layer that defines it: session
  overrides over provider overrides over the \<open>.env\<close> files over what the mode provides (nothing, the
  minimal base variables, or the captured login-shell environment under the service-manager
  allowlist); each \<open>.env\<close> file is expanded against the layers below it.\<close>

theorem resolve_environment_layers:
  assumes "cache_wf cache"
    and "ResolveEnvironment getenv read_file run_shell now config workspace_root host
           provider_overrides cache = (Inr eff, cache')"
  shows "keys_distinct (ef_entries eff) \<and> cache_wf cache'
    \<and> env_lookup (ef_entries eff) = final_layers read_file config workspace_root provider_overrides
        (mode_layer getenv host (ec_mode config)
          (case cache_Get run_shell now (ResolveBootstrapShell getenv host) cache of
             (Inr env, _) \<Rightarrow> env | (Inl _, _) \<Rightarrow> []))"
proof (cases "ec_mode config")
  case Clean
  let ?r = "EffectiveEnvironment_default\<lparr>ef_mode := Clean, ef_entries := base_entries getenv\<rparr>"
  have "keys_distinct (ef_entries ?r)" by (simp add: base_entries_refines)
  from final_layers_refine [OF this] assms Clean show ?thesis
    by (auto simp: ResolveEnvironment_def Let_def mode_layer_def base_entries_refines)
next
  case Shell
  let ?r = "EffectiveEnvironment_default\<lparr>ef_mode := Shell,
      ef_bootstrap_shell_path := Some (ResolveBootstrapShell getenv host)\<rparr>"
  have "keys_distinct (ef_entries ?r)" by (simp add: EffectiveEnvironment_default_def keys_distinct_def)
  from final_layers_refine [OF this] assms Shell show ?thesis
    by (auto simp: ResolveEnvironment_def Let_def mode_layer_def EffectiveEnvironment_default_def)
next
  case BootstrapFromShell
  obtain env where env:
    "fst (cache_Get run_shell now (ResolveBootstrapShell getenv host) cache) = Inr env"
    and facts: "keys_distinct (ef_entries eff)" "cache_wf cache'"
    "env_lookup (ef_entries eff) = final_layers read_file config workspace_root provider_overrides
       (mode_layer getenv host BootstrapFromShell env)"
    by (rule resolve_bootstrap [OF assms(1) BootstrapFromShell assms(2)])
  from env have "(case cache_Get run_shell now (ResolveBootstrapShell getenv host) cache of
      (Inr env, _) \<Rightarrow> env | (Inl _, _) \<Rightarrow> []) = env"
    by (cases "cache_Get run_shell now (ResolveBootstrapShell getenv host) cache") simp
  with facts show ?thesis by (simp only: BootstrapFromShell simp_thms)
qed

theorem resolve_environment_layers_witness:
  "\<exists>eff. ResolveEnvironment [''HOME'' \<mapsto> ''/root''] [''/w/.env'' \<mapsto> ''B=$HOME/bin''] (\<lambda>s. ShellTimedOut) 0
        \<lparr>ec_mode = Clean, ec_overrides = [(''A'', ''1'')], ec_env_file_path = None\<rparr> ''/w''
        MakeDefaultHostIdentity [(''A'', ''2''), (''C'', ''3'')] BootstrappedEnvCache_init
      = (Inr eff, BootstrappedEnvCache_init)
    \<and> env_lookup (ef_entries eff) ''A'' = Some (''1'', SessionOverride)
    \<and> env_lookup (ef_entries eff) ''C'' = Some (''3'', FromProviderConfig)"
proof -
  let ?config = "\<lparr>ec_mode = Clean, ec_overrides = [(''A'', ''1'')], ec_env_file_path = None\<rparr>"
  let ?resolve = "ResolveEnvironment [''HOME'' \<mapsto> ''/root''] [''/w/.env'' \<mapsto> ''B=$HOME/bin'']
        (\<lambda>s. ShellTimedOut) 0 ?config ''/w'' MakeDefaultHostIdentity [(''A'', ''2''), (''C'', ''3'')]
        BootstrappedEnvCache_init"
  have "cache_wf BootstrappedEnvCache_init" by (simp add: cache_wf_def BootstrappedEnvCache_init_def)
  moreover obtain eff where r: "?resolve = (Inr eff, BootstrappedEnvCache_init)"
    by (simp only: ResolveEnvironment_def Let_def EnvMode.case EnvConfig.select_convs
        prod.inject sum.inject simp_thms)
  ultimately have "env_lookup (ef_entries eff) =
      final_layers [''/w/.env'' \<mapsto> ''B=$HOME/bin''] ?config ''/w'' [(''A'', ''2''), (''C'', ''3'')]
        (mode_layer [''HOME'' \<mapsto> ''/root''] MakeDefaultHostIdentity (ec_mode ?config)
          (case cache_Get (\<lambda>s. ShellTimedOut) 0
             (ResolveBootstrapShell [''HOME'' \<mapsto> ''/root''] MakeDefaultHostIdentity)
             BootstrappedEnvCache_init of (Inr env, _) \<Rightarrow> env | (Inl _, _) \<Rightarrow> []))"
    using resolve_environment_layers by blast
  then show ?thesis using r by (simp add: final_layers_def layer_def)
qed

text \<open>Resolution fails exactly when the mode is \<open>bootstrap_from_shell\<close> and the login shell's
  environment cannot be obtained, with the cache's error: there is no silent fallback.\<close>

theorem resolve_environment_error_iff:
  "fst (ResolveEnvironment getenv read_file run_shell now config workspace_root host
          provider_overrides cache) = Inl err
   \<longleftrightarrow> ec_mode config = BootstrapFromShell
       \<and> fst (cache_Get run_shell now (ResolveBootstrapShell getenv host) cache) = Inl err"
  by (auto simp: ResolveEnvironment_def Let_def split: EnvMode.splits prod.splits sum.splits)

text \<open>After the cache is invalidated, a capture that fails leaves no entry; a capture that
  succeeds is served again without running the shell for the next 300 seconds (the configured time
  to live), unchanged, and from then on the shell is run again.\<close>

theorem bootstrap_cache_ttl:
  "case cache_Get run_shell t0 shell (cache_Invalidate cache) of
     (Inl err, cache') \<Rightarrow> bc_cache cache' shell = None
   | (Inr env, cache') \<Rightarrow>
       cache_Get later_shell (t0 + dt) shell cache' =
         (if dt < bc_ttl cache * 1000000000 then (Inr env, cache')
          else capture_env later_shell (t0 + dt) shell
                 (cache'\<lparr>bc_cache := (bc_cache cache')(shell := None)\<rparr>))"
proof -
  obtain res c where run: "RunBootstrap run_shell shell (cache_Invalidate cache) = (res, c)"
    by (cases "RunBootstrap run_shell shell (cache_Invalidate cache)")
  from RunBootstrap_facts(1,2) [OF run] run show ?thesis
    by (cases res) (simp_all add: cache_Get_def capture_env_def cache_Invalidate_def)
qed

end
