(* ===== verification/Session_Runtime.thy ===== *)
theory Session_Runtime
  imports Session_Record Output_Buffer Terminal_Multiplexer Environment
begin

text \<open>
  \<open>session_runtime.h/.cpp\<close>: a running session, which drives a PTY process and feeds its output to
  the output buffer and the terminal multiplexer. The process behind \<open>IPtyProcess\<close> is a state of
  arbitrary type with the functions of the record \<open>PtyApi\<close>, libvterm is the \<open>VTermApi\<close> of the
  multiplexer. The reading loop of \<open>PollOnce\<close> has no bound of its own: it is a partial function,
  proved to return exactly when the process stops delivering data. The debug recorder writes
  artifacts only and is left out.
\<close>

section \<open>State\<close>

type_synonym ProcessId = int

record StartResult =
  st_started :: bool
  st_pid :: ProcessId
  st_error_message :: string

record ReadResult =
  rr_data :: string
  rr_closed :: bool

record 'p PtyApi =
  pty_Start :: "LaunchSpec \<Rightarrow> 'p \<Rightarrow> StartResult \<times> 'p"
  pty_Write :: "string \<Rightarrow> 'p \<Rightarrow> bool \<times> 'p"
  pty_Read :: "int \<Rightarrow> 'p \<Rightarrow> ReadResult \<times> 'p"
  pty_Resize :: "TerminalSize \<Rightarrow> 'p \<Rightarrow> bool \<times> 'p"
  pty_PollExit :: "'p \<Rightarrow> int option \<times> 'p"
  pty_Terminate :: "'p \<Rightarrow> bool \<times> 'p"

record ('p, 'vt) SessionRuntime =
  rt_record :: SessionRecord
  rt_launch_spec :: LaunchSpec
  rt_pty :: 'p
  rt_pid :: "ProcessId option"
  rt_start_error :: "string option"
  rt_output_buffer :: SessionOutputBuffer
  rt_multiplexer :: "'vt MuxImpl"

section \<open>Operations\<close>

definition kDefaultScrollbackLines :: nat where
  "kDefaultScrollbackLines = 2000"

definition SessionRuntime_new ::
    "'vt VTermApi \<Rightarrow> SessionRecord \<Rightarrow> LaunchSpec \<Rightarrow> 'p \<Rightarrow> nat \<Rightarrow> ('p, 'vt) SessionRuntime" where
  "SessionRuntime_new api record0 launch_spec pty output_buffer_capacity_bytes =
     (let mux = mux_new api (ls_terminal_size launch_spec) kDefaultScrollbackLines in
      \<lparr>rt_record = record0\<lparr>sr_terminal_screen := Some (im_snapshot mux)\<rparr>,
       rt_launch_spec = launch_spec, rt_pty = pty, rt_pid = None, rt_start_error = None,
       rt_output_buffer = SessionOutputBuffer_new output_buffer_capacity_bytes,
       rt_multiplexer = mux\<rparr>)"

definition rt_transition ::
    "SessionStatus \<Rightarrow> ('p, 'vt) SessionRuntime \<Rightarrow> bool \<times> ('p, 'vt) SessionRuntime" where
  "rt_transition s rt =
     (let (ok, r) = sr_TryTransition s (rt_record rt) in (ok, rt\<lparr>rt_record := r\<rparr>))"

definition IsInteractiveState :: "('p, 'vt) SessionRuntime \<Rightarrow> bool" where
  "IsInteractiveState rt \<longleftrightarrow> sr_status (rt_record rt) = Running \<or> sr_status (rt_record rt) = AwaitingInput"

definition rt_Start ::
    "'p PtyApi \<Rightarrow> ('p, 'vt) SessionRuntime \<Rightarrow> bool \<times> ('p, 'vt) SessionRuntime" where
  "rt_Start pty rt =
     (let (ok, rt1) = rt_transition Starting rt in
      if \<not> ok then (False, rt1)
      else
        let (res, p) = pty_Start pty (rt_launch_spec rt1) (rt_pty rt1);
            rt2 = rt1\<lparr>rt_start_error := None, rt_pty := p\<rparr>
        in
        if \<not> st_started res then
          let rt3 = (if st_error_message res \<noteq> []
                     then rt2\<lparr>rt_start_error := Some (st_error_message res)\<rparr> else rt2)
          in (False, snd (rt_transition Error rt3))
        else rt_transition Running (rt2\<lparr>rt_pid := Some (st_pid res)\<rparr>))"

definition rt_WriteInput ::
    "'p PtyApi \<Rightarrow> string \<Rightarrow> ('p, 'vt) SessionRuntime \<Rightarrow> bool \<times> ('p, 'vt) SessionRuntime" where
  "rt_WriteInput pty input rt =
     (if \<not> IsInteractiveState rt then (False, rt)
      else let (ok, p) = pty_Write pty input (rt_pty rt) in (ok, rt\<lparr>rt_pty := p\<rparr>))"

definition rt_ResizeTerminal ::
    "'vt VTermApi \<Rightarrow> 'p PtyApi \<Rightarrow> TerminalSize \<Rightarrow> ('p, 'vt) SessionRuntime
       \<Rightarrow> bool \<times> ('p, 'vt) SessionRuntime" where
  "rt_ResizeTerminal api pty terminal_size rt =
     (if \<not> IsInteractiveState rt then (False, rt)
      else
        let rt1 = rt\<lparr>rt_launch_spec := (rt_launch_spec rt)\<lparr>ls_terminal_size := terminal_size\<rparr>\<rparr>;
            (ok, p) = pty_Resize pty terminal_size (rt_pty rt1);
            rt2 = rt1\<lparr>rt_pty := p\<rparr>
        in
        if \<not> ok then (False, rt2)
        else
          let mux = mux_Resize api terminal_size (rt_multiplexer rt2) in
          (True, rt2\<lparr>rt_multiplexer := mux,
                     rt_record := (rt_record rt2)\<lparr>sr_terminal_screen := Some (im_snapshot mux)\<rparr>\<rparr>))"

definition rt_UpdateViewport ::
    "string \<Rightarrow> TerminalSize \<Rightarrow> ('p, 'vt) SessionRuntime \<Rightarrow> ('p, 'vt) SessionRuntime" where
  "rt_UpdateViewport view_id viewport_size rt =
     rt\<lparr>rt_multiplexer := mux_UpdateViewport view_id viewport_size (rt_multiplexer rt)\<rparr>"

definition rt_RemoveViewport :: "string \<Rightarrow> ('p, 'vt) SessionRuntime \<Rightarrow> ('p, 'vt) SessionRuntime" where
  "rt_RemoveViewport view_id rt =
     rt\<lparr>rt_multiplexer := mux_RemoveViewport view_id (rt_multiplexer rt)\<rparr>"

definition rt_Terminate ::
    "'p PtyApi \<Rightarrow> ('p, 'vt) SessionRuntime \<Rightarrow> bool \<times> ('p, 'vt) SessionRuntime" where
  "rt_Terminate pty rt =
     (if rt_pid rt = None then (False, rt)
      else let (ok, p) = pty_Terminate pty (rt_pty rt) in (ok, rt\<lparr>rt_pty := p\<rparr>))"

definition rt_TerminateAndMarkExited ::
    "'p PtyApi \<Rightarrow> ('p, 'vt) SessionRuntime \<Rightarrow> bool \<times> ('p, 'vt) SessionRuntime" where
  "rt_TerminateAndMarkExited pty rt =
     (if rt_pid rt = None then (False, rt)
      else
        let (ok, p) = pty_Terminate pty (rt_pty rt);
            rt1 = rt\<lparr>rt_pty := p\<rparr>
        in if \<not> ok then (False, rt1) else rt_transition Exited (rt1\<lparr>rt_pid := None\<rparr>))"

definition rt_Shutdown ::
    "'p PtyApi \<Rightarrow> ('p, 'vt) SessionRuntime \<Rightarrow> bool \<times> ('p, 'vt) SessionRuntime" where
  "rt_Shutdown pty rt =
     (let status = sr_status (rt_record rt) in
      if status = Exited \<or> status = Error then (True, rt\<lparr>rt_pid := None\<rparr>)
      else
        let (terminated, rt1) =
              (if rt_pid rt \<noteq> None then
                 let (ok, p) = pty_Terminate pty (rt_pty rt);
                     rt' = rt\<lparr>rt_pty := p\<rparr>
                 in if \<not> ok then (False, rt') else (True, rt'\<lparr>rt_pid := None\<rparr>)
               else (True, rt))
        in
        if \<not> terminated then (False, rt1)
        else if status = Running \<or> status = AwaitingInput then rt_transition Exited rt1
        else if status = Starting then rt_transition Error rt1
        else (status = Created, rt1))"

definition rt_MarkAwaitingInput ::
    "('p, 'vt) SessionRuntime \<Rightarrow> bool \<times> ('p, 'vt) SessionRuntime" where
  "rt_MarkAwaitingInput rt = rt_transition AwaitingInput rt"

definition rt_MarkRunning :: "('p, 'vt) SessionRuntime \<Rightarrow> bool \<times> ('p, 'vt) SessionRuntime" where
  "rt_MarkRunning rt = rt_transition Running rt"

definition rt_HandleExit ::
    "bool \<Rightarrow> ('p, 'vt) SessionRuntime \<Rightarrow> bool \<times> ('p, 'vt) SessionRuntime" where
  "rt_HandleExit clean_exit rt =
     (let (transitioned, rt1) = rt_transition (if clean_exit then Exited else Error) rt in
      if \<not> transitioned then (False, rt1) else (True, rt1\<lparr>rt_pid := None\<rparr>))"

definition rt_UpdateGitSummary :: "GitSummary \<Rightarrow> ('p, 'vt) SessionRuntime \<Rightarrow> ('p, 'vt) SessionRuntime" where
  "rt_UpdateGitSummary git_summary rt = rt\<lparr>rt_record := (rt_record rt)\<lparr>sr_git_summary := git_summary\<rparr>\<rparr>"

definition rt_UpdateGroupTags :: "string list \<Rightarrow> ('p, 'vt) SessionRuntime \<Rightarrow> ('p, 'vt) SessionRuntime" where
  "rt_UpdateGroupTags group_tags rt = rt\<lparr>rt_record := SetGroupTags group_tags (rt_record rt)\<rparr>"

definition rt_UpdateRecentFileChanges ::
    "string list \<Rightarrow> ('p, 'vt) SessionRuntime \<Rightarrow> ('p, 'vt) SessionRuntime" where
  "rt_UpdateRecentFileChanges changes rt =
     rt\<lparr>rt_record := (rt_record rt)\<lparr>sr_recent_file_changes := changes\<rparr>\<rparr>"

section \<open>Polling\<close>

text \<open>What \<open>PollOnce\<close> does with the data of one read.\<close>

definition rt_absorb ::
    "'vt VTermApi \<Rightarrow> string \<Rightarrow> ('p, 'vt) SessionRuntime \<Rightarrow> ('p, 'vt) SessionRuntime" where
  "rt_absorb api data rt =
     (if data = [] then rt
      else
        let buffer = ob_Append data (rt_output_buffer rt);
            mux = mux_Append api data (rt_multiplexer rt)
        in rt\<lparr>rt_output_buffer := buffer, rt_multiplexer := mux,
              rt_record := (rt_record rt)
                \<lparr>sr_current_sequence := u64_sub (ob_next_sequence buffer) 1,
                 sr_recent_terminal_tail := os_data (ob_Tail 65536 buffer),
                 sr_terminal_screen := Some (im_snapshot mux),
                 sr_terminal_semantic_change := im_last_semantic_change mux\<rparr>\<rparr>)"

definition rt_poll_exit :: "'p PtyApi \<Rightarrow> ('p, 'vt) SessionRuntime \<Rightarrow> ('p, 'vt) SessionRuntime" where
  "rt_poll_exit pty rt =
     (let (exit_code, p) = pty_PollExit pty (rt_pty rt);
          rt1 = rt\<lparr>rt_pty := p\<rparr>
      in case exit_code of
           None \<Rightarrow> rt1
         | Some code \<Rightarrow> snd (rt_HandleExit (code = 0) rt1))"

partial_function (option) PollOnce_loop ::
    "'vt VTermApi \<Rightarrow> 'p PtyApi \<Rightarrow> int \<Rightarrow> ('p, 'vt) SessionRuntime \<Rightarrow> ('p, 'vt) SessionRuntime option" where
  "PollOnce_loop api pty timeout_ms rt =
     (let (res, p) = pty_Read pty timeout_ms (rt_pty rt);
          rt1 = rt_absorb api (rr_data res) (rt\<lparr>rt_pty := p\<rparr>)
      in
      if rr_closed res then Some (rt_poll_exit pty rt1)
      else if rr_data res = [] then Some (rt_poll_exit pty rt1)
      else PollOnce_loop api pty 0 rt1)"

definition rt_PollOnce ::
    "'vt VTermApi \<Rightarrow> 'p PtyApi \<Rightarrow> int \<Rightarrow> ('p, 'vt) SessionRuntime \<Rightarrow> ('p, 'vt) SessionRuntime option" where
  "rt_PollOnce api pty read_timeout_ms rt =
     (if rt_pid rt = None then Some rt else PollOnce_loop api pty read_timeout_ms rt)"

section \<open>The steps of a runtime\<close>

inductive rt_step ::
    "'vt VTermApi \<Rightarrow> 'p PtyApi \<Rightarrow> ('p, 'vt) SessionRuntime \<Rightarrow> ('p, 'vt) SessionRuntime \<Rightarrow> bool"
  for api pty where
  start: "rt_step api pty rt (snd (rt_Start pty rt))"
| write_input: "rt_step api pty rt (snd (rt_WriteInput pty input rt))"
| resize: "rt_step api pty rt (snd (rt_ResizeTerminal api pty sz rt))"
| update_viewport: "rt_step api pty rt (rt_UpdateViewport view_id sz rt)"
| remove_viewport: "rt_step api pty rt (rt_RemoveViewport view_id rt)"
| terminate: "rt_step api pty rt (snd (rt_Terminate pty rt))"
| terminate_and_mark: "rt_step api pty rt (snd (rt_TerminateAndMarkExited pty rt))"
| shutdown: "rt_step api pty rt (snd (rt_Shutdown pty rt))"
| awaiting: "rt_step api pty rt (snd (rt_MarkAwaitingInput rt))"
| running: "rt_step api pty rt (snd (rt_MarkRunning rt))"
| exited: "rt_step api pty rt (snd (rt_HandleExit clean rt))"
| git: "rt_step api pty rt (rt_UpdateGitSummary g rt)"
| tags: "rt_step api pty rt (rt_UpdateGroupTags group_tags rt)"
| files: "rt_step api pty rt (rt_UpdateRecentFileChanges changes rt)"
| poll: "rt_PollOnce api pty timeout_ms rt = Some rt' \<Longrightarrow> rt_step api pty rt rt'"

definition rt_published :: "('p, 'vt) SessionRuntime \<Rightarrow> bool" where
  "rt_published rt \<longleftrightarrow>
     sr_terminal_screen (rt_record rt) = Some (im_snapshot (rt_multiplexer rt))
     \<and> sr_recent_terminal_tail (rt_record rt) = lastn 65536 (chunks_data (ob_chunks (rt_output_buffer rt)))
     \<and> sr_current_sequence (rt_record rt) = u64_sub (ob_next_sequence (rt_output_buffer rt)) 1"

definition rt_live :: "('p, 'vt) SessionRuntime \<Rightarrow> bool" where
  "rt_live rt \<longleftrightarrow>
     sr_inv (rt_record rt) \<and> sr_status (rt_record rt) \<noteq> Starting
     \<and> (rt_pid rt \<noteq> None) = IsInteractiveState rt"

definition rt_inv :: "('p, 'vt) SessionRuntime \<Rightarrow> bool" where
  "rt_inv rt \<longleftrightarrow> rt_live rt \<and> rt_published rt \<and> mux_inv (rt_multiplexer rt)"

lemma rt_transition_eq:
  assumes "sr_inv (rt_record rt)"
  shows "rt_transition s rt =
    (if IsValidTransition (sr_status (rt_record rt)) s
     then (True, rt\<lparr>rt_record := (rt_record rt)\<lparr>sr_lifecycle := \<lparr>lc_state = s\<rparr>,
             sr_metadata := (sr_metadata (rt_record rt))\<lparr>md_status := s\<rparr>\<rparr>\<rparr>)
     else (False, rt))"
  using sr_TryTransition_eq [OF assms, of s] by (simp add: rt_transition_def)

lemmas rt_ops_defs =
  rt_Start_def rt_WriteInput_def rt_ResizeTerminal_def rt_UpdateViewport_def rt_RemoveViewport_def
  rt_Terminate_def rt_TerminateAndMarkExited_def rt_Shutdown_def rt_MarkAwaitingInput_def
  rt_MarkRunning_def rt_HandleExit_def rt_UpdateGitSummary_def rt_UpdateGroupTags_def
  rt_UpdateRecentFileChanges_def

lemma rt_inv_new:
  assumes "md_status md = Created"
  shows "rt_inv (SessionRuntime_new api (SessionRecord_new md) spec p capacity)"
  using assms sr_inv_new [OF assms]
  by (simp add: rt_inv_def rt_live_def rt_published_def SessionRuntime_new_def Let_def mux_inv_new
      IsInteractiveState_def SessionRecord_new_def SessionOutputBuffer_new_def u64_sub_exact
      sr_inv_def SessionLifecycle_init_def)

lemma mux_snapshot_viewports [simp]:
  "im_snapshot (mux_UpdateViewport v sz im) = im_snapshot im"
  "im_snapshot (mux_RemoveViewport v im) = im_snapshot im"
  by (simp_all add: mux_UpdateViewport_def mux_RemoveViewport_def Let_def)

text \<open>Operations that change neither the output nor the screen.\<close>

lemma rt_published_frame:
  "rt_published (rt\<lparr>rt_pid := x\<rparr>) = rt_published rt" "rt_published (rt\<lparr>rt_pty := p\<rparr>) = rt_published rt"
  "rt_published (rt\<lparr>rt_start_error := e\<rparr>) = rt_published rt"
  "rt_published (rt\<lparr>rt_launch_spec := l\<rparr>) = rt_published rt"
  "rt_published (rt\<lparr>rt_record := SetGroupTags t (rt_record rt)\<rparr>) = rt_published rt"
  "rt_published (snd (rt_transition s rt)) = rt_published rt"
  "rt_multiplexer (snd (rt_transition s rt)) = rt_multiplexer rt"
  by (simp_all add: rt_published_def rt_transition_def sr_TryTransition_def SetGroupTags_def
      split: prod.split)

lemma IsInteractive_simp: "IsInteractiveState rt \<longleftrightarrow> sr_status (rt_record rt) \<in> {Running, AwaitingInput}"
  by (simp add: IsInteractiveState_def)

lemma rt_live_transition:
  assumes "rt_live rt" "s \<in> {Running, AwaitingInput}"
  shows "rt_live (snd (rt_transition s rt))"
proof -
  have inv: "sr_inv (rt_record rt)" using assms(1) by (simp add: rt_live_def)
  show ?thesis
    using assms by (cases "sr_status (rt_record rt)")
      (auto simp: rt_transition_eq [OF inv] rt_live_def IsInteractive_simp)
qed

lemma rt_live_frame [simp]:
  "rt_live (rt\<lparr>rt_pty := p\<rparr>) = rt_live rt" "rt_live (rt\<lparr>rt_start_error := e\<rparr>) = rt_live rt"
  "rt_live (rt\<lparr>rt_launch_spec := l\<rparr>) = rt_live rt" "rt_live (rt\<lparr>rt_multiplexer := m\<rparr>) = rt_live rt"
  "rt_live (rt\<lparr>rt_output_buffer := b\<rparr>) = rt_live rt"
  by (simp_all add: rt_live_def IsInteractiveState_def)

lemma rt_inv_Start: "rt_inv rt \<Longrightarrow> rt_inv (snd (rt_Start pty rt))"
proof -
  assume a: "rt_inv rt"
  then have inv: "sr_inv (rt_record rt)" by (simp add: rt_inv_def rt_live_def)
  have inv2: "sr_inv (rt_record (rt\<lparr>rt_record := (rt_record rt)\<lparr>sr_lifecycle := \<lparr>lc_state = Starting\<rparr>,
             sr_metadata := (sr_metadata (rt_record rt))\<lparr>md_status := Starting\<rparr>\<rparr>,
        rt_start_error := e, rt_pty := p, rt_pid := i\<rparr>))" for e p i
    by simp
  show ?thesis
  proof (cases "sr_status (rt_record rt) = Created")
    case True
    obtain res p where st: "pty_Start pty (rt_launch_spec rt) (rt_pty rt) = (res, p)"
      by (cases "pty_Start pty (rt_launch_spec rt) (rt_pty rt)")
    have "rt_pid rt = None" using a True by (simp add: rt_inv_def rt_live_def IsInteractive_simp)
    with a True st show ?thesis
      by (auto simp: rt_Start_def Let_def rt_transition_eq [OF inv] rt_transition_def
          sr_TryTransition_def lc_TryTransition_def rt_inv_def rt_live_def rt_published_def
          IsInteractive_simp sr_inv_def)
  next
    case False
    with a show ?thesis
      by (cases "sr_status (rt_record rt)") (simp_all add: rt_Start_def rt_transition_eq [OF inv])
  qed
qed

lemma rt_inv_WriteInput: "rt_inv rt \<Longrightarrow> rt_inv (snd (rt_WriteInput pty input rt))"
  by (simp add: rt_WriteInput_def rt_inv_def rt_published_frame split: prod.split)

lemma rt_inv_Resize:
  assumes "rt_inv rt"
  shows "rt_inv (snd (rt_ResizeTerminal api pty sz rt))"
proof -
  have "mux_inv (mux_Resize api sz (rt_multiplexer rt))"
    using assms by (simp add: rt_inv_def mux_inv_Resize)
  with assms show ?thesis
    by (auto simp: rt_ResizeTerminal_def Let_def rt_inv_def rt_live_def rt_published_def
        IsInteractive_simp split: prod.split)
qed

lemma rt_inv_viewports:
  "rt_inv rt \<Longrightarrow> rt_inv (rt_UpdateViewport v sz rt)" "rt_inv rt \<Longrightarrow> rt_inv (rt_RemoveViewport v rt)"
  by (simp_all add: rt_inv_def rt_UpdateViewport_def rt_RemoveViewport_def rt_published_def
      mux_inv_viewports)

lemma rt_inv_Terminate: "rt_inv rt \<Longrightarrow> rt_inv (snd (rt_Terminate pty rt))"
  by (simp add: rt_Terminate_def rt_inv_def rt_published_frame split: prod.split)

text \<open>Ending a session: the process id is dropped together with the move to a terminal state.\<close>

lemma rt_inv_end:
  assumes "rt_inv rt" "s \<in> {Exited, Error}"
  shows "IsInteractiveState rt \<Longrightarrow> rt_inv (snd (rt_transition s (rt\<lparr>rt_pty := p, rt_pid := None\<rparr>)))"
    "IsInteractiveState rt \<Longrightarrow> rt_inv ((snd (rt_transition s (rt\<lparr>rt_pty := p\<rparr>)))\<lparr>rt_pid := None\<rparr>)"
    "\<not> IsInteractiveState rt \<Longrightarrow> rt_transition s (rt\<lparr>rt_pty := p\<rparr>) = (False, rt\<lparr>rt_pty := p\<rparr>)"
proof -
  have inv: "sr_inv (rt_record rt)" and ns: "sr_status (rt_record rt) \<noteq> Starting"
    using assms(1) by (simp_all add: rt_inv_def rt_live_def)
  note eq = rt_transition_eq [of "rt\<lparr>rt_pty := p, rt_pid := None\<rparr>"] rt_transition_eq [of "rt\<lparr>rt_pty := p\<rparr>"]
  show "IsInteractiveState rt \<Longrightarrow> rt_inv (snd (rt_transition s (rt\<lparr>rt_pty := p, rt_pid := None\<rparr>)))"
    "IsInteractiveState rt \<Longrightarrow> rt_inv ((snd (rt_transition s (rt\<lparr>rt_pty := p\<rparr>)))\<lparr>rt_pid := None\<rparr>)"
    using assms inv
    by (auto simp: eq IsInteractive_simp rt_inv_def rt_live_def rt_published_def)
  show "\<not> IsInteractiveState rt \<Longrightarrow> rt_transition s (rt\<lparr>rt_pty := p\<rparr>) = (False, rt\<lparr>rt_pty := p\<rparr>)"
    using assms(2) inv ns by (cases "sr_status (rt_record rt)") (auto simp: eq IsInteractive_simp)
qed

lemma rt_transition_interactive:
  assumes "sr_inv (rt_record rt)" "IsInteractiveState rt" "s \<in> {Exited, Error}"
  shows "fst (rt_transition s rt)"
  using assms(2,3) by (auto simp: rt_transition_eq [OF assms(1)] IsInteractive_simp)

lemma rt_pid_interactive: "rt_inv rt \<Longrightarrow> rt_pid rt \<noteq> None \<longleftrightarrow> IsInteractiveState rt"
  by (simp add: rt_inv_def rt_live_def)

lemma rt_inv_pty [simp]: "rt_inv (rt\<lparr>rt_pty := p\<rparr>) = rt_inv rt"
  by (simp add: rt_inv_def rt_published_frame)

lemma rt_pty_self [simp]: "rt\<lparr>rt_pty := rt_pty rt\<rparr> = rt"
  by simp

lemma rt_inv_TerminateAndMarkExited:
  "rt_inv rt \<Longrightarrow> rt_inv (snd (rt_TerminateAndMarkExited pty rt))"
  using rt_inv_end(1) [of rt Exited] rt_pid_interactive [of rt]
  by (auto simp: rt_TerminateAndMarkExited_def Let_def split: prod.split)

lemma rt_inv_HandleExit:
  assumes "rt_inv rt"
  shows "rt_inv (snd (rt_HandleExit clean rt))"
proof -
  let ?s = "if clean then Exited else Error"
  have inv: "sr_inv (rt_record rt)" using assms by (simp add: rt_inv_def rt_live_def)
  show ?thesis
  proof (cases "IsInteractiveState rt")
    case True
    from rt_inv_end(2) [OF assms _ True, of ?s "rt_pty rt"]
      rt_transition_interactive [OF inv True, of ?s]
    show ?thesis by (auto simp: rt_HandleExit_def split: prod.splits)
  next
    case False
    from rt_inv_end(3) [OF assms _ False, of ?s "rt_pty rt"] assms
    show ?thesis by (auto simp: rt_HandleExit_def)
  qed
qed

lemma rt_Shutdown_cases [consumes 1, case_names ended created stopped stuck]:
  assumes "rt_inv rt"
  obtains
    (ended) "terminal_status (sr_status (rt_record rt))" "rt_Shutdown pty rt = (True, rt)"
  | (created) "sr_status (rt_record rt) = Created" "rt_Shutdown pty rt = (True, rt)"
  | (stopped) p where "IsInteractiveState rt" "pty_Terminate pty (rt_pty rt) = (True, p)"
      "rt_Shutdown pty rt = rt_transition Exited (rt\<lparr>rt_pty := p, rt_pid := None\<rparr>)"
  | (stuck) p where "IsInteractiveState rt" "pty_Terminate pty (rt_pty rt) = (False, p)"
      "rt_Shutdown pty rt = (False, rt\<lparr>rt_pty := p\<rparr>)"
proof -
  note live = rt_pid_interactive [OF assms] IsInteractive_simp [of rt]
  have ns: "sr_status (rt_record rt) \<noteq> Starting" using assms by (simp add: rt_inv_def rt_live_def)
  obtain ok p where t: "pty_Terminate pty (rt_pty rt) = (ok, p)"
    by (cases "pty_Terminate pty (rt_pty rt)")
  consider "sr_status (rt_record rt) \<in> {Exited, Error}" | "sr_status (rt_record rt) = Created"
    | "sr_status (rt_record rt) \<in> {Running, AwaitingInput}"
    using ns by (cases "sr_status (rt_record rt)") auto
  then show thesis
  proof cases
    case 1
    then have "rt_pid rt = None" using live by auto
    with 1 show ?thesis by (intro ended) (auto simp: rt_Shutdown_def terminal_status_def)
  next
    case 2
    with live show ?thesis by (intro created) (auto simp: rt_Shutdown_def Let_def)
  next
    case 3
    then have "IsInteractiveState rt" "rt_pid rt \<noteq> None" using live by auto
    with 3 t show ?thesis
      by (cases ok) (auto simp: rt_Shutdown_def Let_def intro: stopped stuck)
  qed
qed

lemma rt_inv_Shutdown:
  assumes "rt_inv rt"
  shows "rt_inv (snd (rt_Shutdown pty rt))"
  using assms rt_inv_end(1) [OF assms, of Exited]
  by (cases rule: rt_Shutdown_cases [OF assms, of pty]) auto

lemma rt_inv_mark:
  assumes "rt_inv rt" "s \<in> {Running, AwaitingInput}"
  shows "rt_inv (snd (rt_transition s rt))"
  using assms rt_live_transition [of rt s] by (simp add: rt_inv_def rt_published_frame)

lemma rt_inv_updates:
  "rt_inv rt \<Longrightarrow> rt_inv (rt_UpdateGitSummary g rt)" "rt_inv rt \<Longrightarrow> rt_inv (rt_UpdateGroupTags t rt)"
  "rt_inv rt \<Longrightarrow> rt_inv (rt_UpdateRecentFileChanges f rt)"
  by (auto simp: rt_inv_def rt_live_def rt_published_def IsInteractiveState_def rt_ops_defs
      SetGroupTags_def sr_inv_def)

lemma rt_inv_absorb: "rt_inv rt \<Longrightarrow> rt_inv (rt_absorb api data rt)"
  by (auto simp: rt_absorb_def Let_def rt_inv_def rt_live_def rt_published_def IsInteractiveState_def
      mux_inv_Append ob_Tail_data sr_inv_def)

lemma rt_inv_poll_exit: "rt_inv rt \<Longrightarrow> rt_inv (rt_poll_exit pty rt)"
  by (simp add: rt_poll_exit_def Let_def rt_inv_HandleExit split: prod.split option.split)

lemmas PollOnce_loop_induct = PollOnce_loop.raw_induct [rotated 1, consumes 1, case_names read]

lemma rt_inv_PollOnce_loop: "PollOnce_loop api pty t rt = Some rt' \<Longrightarrow> rt_inv rt \<Longrightarrow> rt_inv rt'"
proof (induction rule: PollOnce_loop_induct)
  case (read f api pty t rt rt')
  obtain res p where rd: "pty_Read pty t (rt_pty rt) = (res, p)" by (cases "pty_Read pty t (rt_pty rt)")
  have "rt_inv (rt_absorb api (rr_data res) (rt\<lparr>rt_pty := p\<rparr>))" using read by (simp add: rt_inv_absorb)
  with read rd show ?case by (auto simp: Let_def rt_inv_poll_exit split: if_splits)
qed

lemma rt_inv_step: "rt_step api pty rt rt' \<Longrightarrow> rt_inv rt \<Longrightarrow> rt_inv rt'"
proof (induction rule: rt_step.induct)
  case (poll timeout_ms rt rt')
  then show ?case by (auto simp: rt_PollOnce_def dest: rt_inv_PollOnce_loop split: if_splits)
qed (auto simp: rt_inv_Start rt_inv_WriteInput rt_inv_Resize rt_inv_viewports rt_inv_Terminate
    rt_inv_TerminateAndMarkExited rt_inv_Shutdown rt_inv_HandleExit rt_inv_updates
    rt_MarkAwaitingInput_def rt_MarkRunning_def rt_inv_mark)

lemma rt_inv_steps: "(rt_step api pty)\<^sup>*\<^sup>* rt rt' \<Longrightarrow> rt_inv rt \<Longrightarrow> rt_inv rt'"
  by (induction rule: rtranclp_induct) (auto intro: rt_inv_step)

section \<open>Polling returns exactly when the process pauses\<close>

inductive pty_burst :: "'p PtyApi \<Rightarrow> int \<Rightarrow> 'p \<Rightarrow> string list \<Rightarrow> 'p \<Rightarrow> bool" for pty where
  last_read: "\<lbrakk>pty_Read pty t p = (res, p'); rr_closed res \<or> rr_data res = []\<rbrakk>
     \<Longrightarrow> pty_burst pty t p [rr_data res] p'"
| more_data: "\<lbrakk>pty_Read pty t p = (res, p1); \<not> rr_closed res; rr_data res \<noteq> []; pty_burst pty 0 p1 datas p'\<rbrakk>
     \<Longrightarrow> pty_burst pty t p (rr_data res # datas) p'"

lemma rt_absorb_pty: "rt_absorb api d (rt\<lparr>rt_pty := p\<rparr>) = (rt_absorb api d rt)\<lparr>rt_pty := p\<rparr>"
  by (simp add: rt_absorb_def Let_def)

lemma fold_absorb_pty:
  "fold (rt_absorb api) datas (rt\<lparr>rt_pty := p\<rparr>) = (fold (rt_absorb api) datas rt)\<lparr>rt_pty := p\<rparr>"
  by (induction datas arbitrary: rt) (simp_all add: rt_absorb_pty)

lemma PollOnce_loop_burst:
  "pty_burst pty t p datas p' \<Longrightarrow> rt_pty rt = p \<Longrightarrow>
     PollOnce_loop api pty t rt = Some (rt_poll_exit pty ((fold (rt_absorb api) datas rt)\<lparr>rt_pty := p'\<rparr>))"
proof (induction arbitrary: rt rule: pty_burst.induct)
  case (last_read t p res p')
  then show ?case by (subst PollOnce_loop.simps) (auto simp: rt_absorb_pty Let_def)
next
  case (more_data t p res p1 datas p')
  have "PollOnce_loop api pty t rt = PollOnce_loop api pty 0 (rt_absorb api (rr_data res) (rt\<lparr>rt_pty := p1\<rparr>))"
    using more_data.hyps more_data.prems by (subst PollOnce_loop.simps) simp
  also have "\<dots> = Some (rt_poll_exit pty ((fold (rt_absorb api) datas
      (rt_absorb api (rr_data res) (rt\<lparr>rt_pty := p1\<rparr>)))\<lparr>rt_pty := p'\<rparr>))"
    by (rule more_data.IH) (simp add: rt_absorb_pty)
  finally show ?case by (simp add: rt_absorb_pty fold_absorb_pty)
qed

lemma PollOnce_loop_returns:
  "PollOnce_loop api pty t rt = Some rt' \<Longrightarrow> \<exists>datas p'. pty_burst pty t (rt_pty rt) datas p'"
proof (induction rule: PollOnce_loop_induct)
  case (read f api pty t rt rt')
  obtain res p where rd: "pty_Read pty t (rt_pty rt) = (res, p)" by (cases "pty_Read pty t (rt_pty rt)")
  show ?case
  proof (cases "rr_closed res \<or> rr_data res = []")
    case True
    with rd show ?thesis by (blast intro: pty_burst.last_read)
  next
    case False
    with read.prems read.hyps rd have "f api pty 0 (rt_absorb api (rr_data res) (rt\<lparr>rt_pty := p\<rparr>)) = Some rt'"
      by (simp add: Let_def)
    from read.IH [OF this] obtain datas p' where
      "pty_burst pty 0 (rt_pty (rt_absorb api (rr_data res) (rt\<lparr>rt_pty := p\<rparr>))) datas p'"
      by blast
    with False rd show ?thesis by (auto simp: rt_absorb_pty intro: pty_burst.more_data)
  qed
qed

lemma fold_absorb_buffer:
  "rt_output_buffer (fold (rt_absorb api) datas rt) = fold ob_Append datas (rt_output_buffer rt)"
proof (induction datas arbitrary: rt)
  case (Cons d ds)
  have "rt_output_buffer (rt_absorb api d rt) = ob_Append d (rt_output_buffer rt)"
    by (simp add: rt_absorb_def Let_def)
  with Cons show ?case by simp
qed simp

lemma fold_absorb_multiplexer:
  "rt_multiplexer (fold (rt_absorb api) datas rt) = fold (mux_Append api) datas (rt_multiplexer rt)"
proof (induction datas arbitrary: rt)
  case (Cons d ds)
  have "rt_multiplexer (rt_absorb api d rt) = mux_Append api d (rt_multiplexer rt)"
    by (simp add: rt_absorb_def Let_def mux_Append_def)
  with Cons show ?case by simp
qed simp

lemma rt_transition_frame [simp]:
  "rt_output_buffer (snd (rt_transition s rt)) = rt_output_buffer rt"
  "rt_multiplexer (snd (rt_transition s rt)) = rt_multiplexer rt"
  by (simp_all add: rt_transition_def split: prod.split)

lemma rt_poll_exit_frame [simp]:
  "rt_output_buffer (rt_poll_exit pty rt) = rt_output_buffer rt"
  "rt_multiplexer (rt_poll_exit pty rt) = rt_multiplexer rt"
proof -
  have "rt_output_buffer (snd (rt_HandleExit b r)) = rt_output_buffer r \<and>
      rt_multiplexer (snd (rt_HandleExit b r)) = rt_multiplexer r" for b and r :: "('a, 'b) SessionRuntime"
  proof (cases "rt_transition (if b then Exited else Error) r")
    case (Pair ok r')
    with rt_transition_frame [of "if b then Exited else Error" r] show ?thesis
      by (simp add: rt_HandleExit_def)
  qed
  then show "rt_output_buffer (rt_poll_exit pty rt) = rt_output_buffer rt"
    "rt_multiplexer (rt_poll_exit pty rt) = rt_multiplexer rt"
    by (simp_all add: rt_poll_exit_def Let_def split: prod.split option.split)
qed

lemma polled_frame:
  "rt_output_buffer (rt_poll_exit pty ((fold (rt_absorb api) datas rt)\<lparr>rt_pty := p\<rparr>)) =
     fold ob_Append datas (rt_output_buffer rt)"
  "rt_multiplexer (rt_poll_exit pty ((fold (rt_absorb api) datas rt)\<lparr>rt_pty := p\<rparr>)) =
     fold (mux_Append api) datas (rt_multiplexer rt)"
  by (simp_all add: fold_absorb_buffer fold_absorb_multiplexer)

section \<open>Properties\<close>

text \<open>Claim C3: in every state a session runtime can reach from its construction, whatever the process
  and libvterm do: a process id is held exactly while the session is Running or AwaitingInput, the
  published status is the lifecycle's state, the published screen is the multiplexer's snapshot,
  the published tail is the last 64 KiB of the retained output, and the published sequence number is
  that of the last chunk.\<close>

theorem runtime_reachable_consistent:
  assumes "md_status md = Created"
    and "(rt_step api pty)\<^sup>*\<^sup>* (SessionRuntime_new api (SessionRecord_new md) spec p capacity) rt"
  shows "(rt_pid rt \<noteq> None \<longleftrightarrow> sr_status (rt_record rt) \<in> {Running, AwaitingInput})
    \<and> sr_status (rt_record rt) = lc_state (sr_lifecycle (rt_record rt))
    \<and> sr_terminal_screen (rt_record rt) = Some (im_snapshot (rt_multiplexer rt))
    \<and> sr_recent_terminal_tail (rt_record rt) =
        lastn 65536 (chunks_data (ob_chunks (rt_output_buffer rt)))
    \<and> sr_current_sequence (rt_record rt) = u64_sub (ob_next_sequence (rt_output_buffer rt)) 1"
  using rt_inv_steps [OF assms(2) rt_inv_new [OF assms(1)]]
  by (auto simp: rt_inv_def rt_live_def rt_published_def sr_inv_def IsInteractive_simp)

text \<open>A process that starts, delivers two chunks and then stays silent; a terminal that never calls back.\<close>

definition demo_pty :: "string list PtyApi" where
  "demo_pty =
     \<lparr>pty_Start = (\<lambda>spec p. (\<lparr>st_started = True, st_pid = 7, st_error_message = []\<rparr>, [''ab'', ''c''])),
      pty_Write = (\<lambda>input p. (True, p)),
      pty_Read = (\<lambda>t p. case p of [] \<Rightarrow> (\<lparr>rr_data = [], rr_closed = False\<rparr>, [])
                               | d # ds \<Rightarrow> (\<lparr>rr_data = d, rr_closed = False\<rparr>, ds)),
      pty_Resize = (\<lambda>sz p. (True, p)), pty_PollExit = (\<lambda>p. (None, p)),
      pty_Terminate = (\<lambda>p. (True, p))\<rparr>"

definition demo_vterm :: "unit VTermApi" where
  "demo_vterm =
     \<lparr>vterm_open = (\<lambda>r c. VtDone ()), vterm_set_size = (\<lambda>r c v. VtDone ()),
      vterm_input_write = (\<lambda>d v. VtDone ()), vterm_flush_damage = (\<lambda>v. VtDone ()),
      vterm_get_cell = (\<lambda>v r c. popped_cell 0x20), vterm_get_cursorpos = (\<lambda>v. (0, 0)),
      vterm_color_is_equal = (=), vterm_convert_color_to_rgb = (\<lambda>v c. c)\<rparr>"

definition demo_metadata :: SessionMetadata where
  "demo_metadata =
     \<lparr>md_id = SessionId ''s_1'', md_provider = Codex, md_workspace_root = ''/w'', md_title = ''t'',
      md_status = Created, md_conversation_id = None, md_group_tags = []\<rparr>"

definition demo_runtime :: "(string list, unit) SessionRuntime" where
  "demo_runtime = SessionRuntime_new demo_vterm (SessionRecord_new demo_metadata)
     (BuildLaunchSpec demo_metadata (DefaultProviderConfig Codex) [] TerminalSize_default
        EffectiveEnvironment_default) [] 1024"

lemma demo_started:
  "rt_pid (snd (rt_Start demo_pty demo_runtime)) = Some 7"
  "rt_pty (snd (rt_Start demo_pty demo_runtime)) = [''ab'', ''c'']"
  "fst (rt_Start demo_pty demo_runtime)"
  "sr_status (rt_record (snd (rt_Start demo_pty demo_runtime))) = Running"
  "rt_output_buffer (snd (rt_Start demo_pty demo_runtime)) = SessionOutputBuffer_new 1024"
  by (simp_all add: demo_runtime_def demo_metadata_def SessionRuntime_new_def SessionRecord_new_def
      SessionLifecycle_init_def Let_def rt_Start_def rt_transition_def sr_TryTransition_def
      lc_TryTransition_def demo_pty_def)

theorem runtime_reachable_consistent_witness:
  "(rt_step demo_vterm demo_pty)\<^sup>*\<^sup>* demo_runtime (snd (rt_Start demo_pty demo_runtime))
   \<and> (rt_pid (snd (rt_Start demo_pty demo_runtime)) \<noteq> None \<longleftrightarrow>
        sr_status (rt_record (snd (rt_Start demo_pty demo_runtime))) \<in> {Running, AwaitingInput})"
proof -
  have r: "(rt_step demo_vterm demo_pty)\<^sup>*\<^sup>* demo_runtime (snd (rt_Start demo_pty demo_runtime))"
    by (rule r_into_rtranclp) (rule rt_step.start)
  have "md_status demo_metadata = Created" by (simp add: demo_metadata_def)
  from runtime_reachable_consistent [OF this r [unfolded demo_runtime_def], folded demo_runtime_def] r
  show ?thesis by blast
qed

text \<open>Claim C23: \<open>PollOnce\<close> on a live session returns exactly when the process eventually pauses: a read
  without data or with end of file ends the burst. The result is then determined: every chunk of
  the burst, in order, has been appended to the output buffer and to the multiplexer, and the exit
  status was polled once, after the last read.\<close>

theorem poll_once_returns_iff_burst_ends:
  assumes "rt_pid rt \<noteq> None"
  shows "rt_PollOnce api pty timeout_ms rt = Some rt' \<longleftrightarrow>
    (\<exists>datas p'. pty_burst pty timeout_ms (rt_pty rt) datas p'
       \<and> rt' = rt_poll_exit pty ((fold (rt_absorb api) datas rt)\<lparr>rt_pty := p'\<rparr>)
       \<and> rt_output_buffer rt' = fold ob_Append datas (rt_output_buffer rt)
       \<and> rt_multiplexer rt' = fold (mux_Append api) datas (rt_multiplexer rt))"
proof
  assume "rt_PollOnce api pty timeout_ms rt = Some rt'"
  with assms have loop: "PollOnce_loop api pty timeout_ms rt = Some rt'"
    by (auto simp: rt_PollOnce_def)
  from PollOnce_loop_returns [OF this] obtain datas p' where
    b: "pty_burst pty timeout_ms (rt_pty rt) datas p'" by blast
  from PollOnce_loop_burst [OF b refl, of api] loop
  have "rt' = rt_poll_exit pty ((fold (rt_absorb api) datas rt)\<lparr>rt_pty := p'\<rparr>)" by simp
  with b show "\<exists>datas p'. pty_burst pty timeout_ms (rt_pty rt) datas p'
       \<and> rt' = rt_poll_exit pty ((fold (rt_absorb api) datas rt)\<lparr>rt_pty := p'\<rparr>)
       \<and> rt_output_buffer rt' = fold ob_Append datas (rt_output_buffer rt)
       \<and> rt_multiplexer rt' = fold (mux_Append api) datas (rt_multiplexer rt)"
    by (auto simp: fold_absorb_buffer fold_absorb_multiplexer)
next
  assume "\<exists>datas p'. pty_burst pty timeout_ms (rt_pty rt) datas p'
       \<and> rt' = rt_poll_exit pty ((fold (rt_absorb api) datas rt)\<lparr>rt_pty := p'\<rparr>)
       \<and> rt_output_buffer rt' = fold ob_Append datas (rt_output_buffer rt)
       \<and> rt_multiplexer rt' = fold (mux_Append api) datas (rt_multiplexer rt)"
  with PollOnce_loop_burst [of pty timeout_ms "rt_pty rt" _ _ rt api] assms
  show "rt_PollOnce api pty timeout_ms rt = Some rt'" by (auto simp: rt_PollOnce_def)
qed

theorem poll_once_returns_iff_burst_ends_witness:
  "\<exists>rt'. rt_PollOnce demo_vterm demo_pty 100 (snd (rt_Start demo_pty demo_runtime)) = Some rt'
     \<and> rt_output_buffer rt' = fold ob_Append [''ab'', ''c'', []] (SessionOutputBuffer_new 1024)"
proof -
  let ?rt = "snd (rt_Start demo_pty demo_runtime)"
  have "pty_burst demo_pty 0 [] [[]] []"
    using pty_burst.last_read [of demo_pty 0 "[]" "\<lparr>rr_data = [], rr_closed = False\<rparr>" "[]"]
    by (simp add: demo_pty_def)
  then have "pty_burst demo_pty 0 [''c''] [''c'', []] []"
    using pty_burst.more_data [of demo_pty 0 "[''c'']" "\<lparr>rr_data = ''c'', rr_closed = False\<rparr>" "[]"]
    by (simp add: demo_pty_def)
  then have b: "pty_burst demo_pty 100 (rt_pty ?rt) [''ab'', ''c'', []] []"
    using pty_burst.more_data [of demo_pty 100 "[''ab'', ''c'']" "\<lparr>rr_data = ''ab'', rr_closed = False\<rparr>" "[''c'']"]
    unfolding demo_started by (simp add: demo_pty_def)
  have "rt_pid ?rt \<noteq> None" by (simp add: demo_started)
  from poll_once_returns_iff_burst_ends [OF this, of demo_vterm demo_pty 100] b
  have "rt_PollOnce demo_vterm demo_pty 100 ?rt = Some (rt_poll_exit demo_pty
      ((fold (rt_absorb demo_vterm) [''ab'', ''c'', []] ?rt)\<lparr>rt_pty := []\<rparr>))"
    by (simp only: polled_frame) (intro exI conjI, assumption, (rule refl)+)
  then show ?thesis
    by (intro exI conjI, assumption) (simp only: polled_frame demo_started(5))
qed

text \<open>\<open>Shutdown\<close> of a consistent runtime fails only when a live process could not be
  terminated; when it succeeds no process id is left and the session is either ended or was never
  started.\<close>

theorem runtime_shutdown_complete:
  assumes "rt_inv rt"
  shows "if fst (rt_Shutdown pty rt)
    then rt_pid (snd (rt_Shutdown pty rt)) = None
       \<and> sr_status (rt_record (snd (rt_Shutdown pty rt))) \<in> {Created, Exited, Error}
    else IsInteractiveState rt \<and> \<not> fst (pty_Terminate pty (rt_pty rt))
       \<and> rt_pid (snd (rt_Shutdown pty rt)) = rt_pid rt"
  using assms
proof (cases rule: rt_Shutdown_cases [where pty = pty])
  case (stopped p)
  have inv: "sr_inv (rt_record (rt\<lparr>rt_pty := p, rt_pid := None\<rparr>))"
    using assms by (simp add: rt_inv_def rt_live_def)
  with stopped show ?thesis
    by (auto simp: rt_transition_eq [OF inv] IsInteractive_simp)
next
  case ended
  with rt_pid_interactive [OF assms] show ?thesis
    by (auto simp: terminal_status_def IsInteractive_simp)
next
  case created
  with rt_pid_interactive [OF assms] show ?thesis by (auto simp: IsInteractive_simp)
next
  case (stuck p)
  then show ?thesis by simp
qed

theorem runtime_shutdown_complete_witness:
  "rt_inv demo_runtime
   \<and> (if fst (rt_Shutdown demo_pty demo_runtime)
      then rt_pid (snd (rt_Shutdown demo_pty demo_runtime)) = None
        \<and> sr_status (rt_record (snd (rt_Shutdown demo_pty demo_runtime))) \<in> {Created, Exited, Error}
      else IsInteractiveState demo_runtime \<and> \<not> fst (pty_Terminate demo_pty (rt_pty demo_runtime))
        \<and> rt_pid (snd (rt_Shutdown demo_pty demo_runtime)) = rt_pid demo_runtime)"
proof -
  have "rt_inv demo_runtime"
    unfolding demo_runtime_def by (rule rt_inv_new) (simp add: demo_metadata_def)
  with runtime_shutdown_complete [OF this, of demo_pty] show ?thesis by blast
qed

end
