(* ===== verification/Evidence.thy ===== *)
theory Evidence
  imports Session_Types
begin

text \<open>
  \<open>include/vibe/service/evidence.h\<close>: log entries, search highlights, evidence results and
  observation events shared by the log buffer, the observation store and the response assembler.
\<close>

datatype EvidenceSourceKind = ManagedLogSession

fun ToString_EvidenceSourceKind :: "EvidenceSourceKind \<Rightarrow> string" where
  "ToString_EvidenceSourceKind ManagedLogSession = ''managed_log_session''"

record EvidenceSourceRef =
  es_kind :: EvidenceSourceKind
  es_session_id :: SessionId

datatype LogStream = Stdout | Stderr

fun ToString_LogStream :: "LogStream \<Rightarrow> string" where
  "ToString_LogStream Stdout = ''stdout''"
| "ToString_LogStream Stderr = ''stderr''"

datatype EvidenceHighlightKind = HlMatch | HlWarning | HlError | HlPreset

fun ToString_EvidenceHighlightKind :: "EvidenceHighlightKind \<Rightarrow> string" where
  "ToString_EvidenceHighlightKind HlMatch = ''match''"
| "ToString_EvidenceHighlightKind HlWarning = ''warning''"
| "ToString_EvidenceHighlightKind HlError = ''error''"
| "ToString_EvidenceHighlightKind HlPreset = ''preset''"

datatype EvidenceOperation = OpTail | OpSearch | OpContext | OpRange

fun ToString_EvidenceOperation :: "EvidenceOperation \<Rightarrow> string" where
  "ToString_EvidenceOperation OpTail = ''tail''"
| "ToString_EvidenceOperation OpSearch = ''search''"
| "ToString_EvidenceOperation OpContext = ''context''"
| "ToString_EvidenceOperation OpRange = ''range''"

record EvidenceEntry =
  en_entry_id :: string
  en_source :: EvidenceSourceRef
  en_revision :: u64
  en_byte_start :: u64
  en_byte_end :: u64
  en_timestamp_unix_ms :: unix_ms
  en_stream :: LogStream
  en_text :: string
  en_partial :: bool

record EvidenceHighlight =
  hl_entry_id :: string
  hl_start :: nat
  hl_length :: nat
  hl_kind :: EvidenceHighlightKind

record EvidenceResult =
  er_source :: EvidenceSourceRef
  er_operation :: EvidenceOperation
  er_query :: string
  er_revision_start :: u64
  er_revision_end :: u64
  er_oldest_revision :: u64
  er_latest_revision :: u64
  er_entries :: "EvidenceEntry list"
  er_highlights :: "EvidenceHighlight list"
  er_truncated :: bool
  er_buffer_exhausted :: bool
  er_dropped_entries :: u64
  er_dropped_bytes :: u64
  er_error_code :: string
  er_replay_token :: string

record ObservationEvent =
  ov_id :: string
  ov_timestamp_unix_ms :: unix_ms
  ov_actor_session_id :: string
  ov_actor_title :: string
  ov_actor_id :: string
  ov_pid :: int
  ov_uid :: nat
  ov_gid :: nat
  ov_operation :: EvidenceOperation
  ov_source :: EvidenceSourceRef
  ov_source_title :: string
  ov_query :: string
  ov_revision_start :: u64
  ov_revision_end :: u64
  ov_result_count :: nat
  ov_truncated :: bool
  ov_summary :: string
  ov_replay_token :: string

end
