(* ===== verification/Log_Buffer.thy ===== *)
theory Log_Buffer
  imports Evidence Evicting_Queues
begin

text \<open>
  \<open>src/service/log_buffer.cpp\<close>: the line buffer of a managed log session. Two byte streams are cut
  into lines (a carriage return overwrites the current line, a carriage return before a newline
  belongs to the terminator, also across two reads), completed lines are numbered by revision and
  evicted from the front by count and by bytes. Revisions, offsets and drop counters are unsigned
  64-bit; an exception of the standard library is the value \<^const>\<open>None\<close>.
\<close>

section \<open>State\<close>

record LogBufferLimits =
  li_max_bytes :: nat
  li_max_entries :: nat

record LogBufferStats =
  bs_oldest_revision :: u64
  bs_latest_revision :: u64
  bs_next_revision :: u64
  bs_retained_entries :: nat
  bs_retained_bytes :: nat
  bs_dropped_entries :: u64
  bs_dropped_bytes :: u64

record LogBufferSearchResult =
  sr_entries :: "EvidenceEntry list"
  sr_highlights :: "EvidenceHighlight list"
  sr_truncated :: bool

text \<open>The partial line, its timestamp and the pending carriage return of one stream.\<close>

record StreamState =
  ss_partial :: string
  ss_timestamp :: unix_ms
  ss_pending_cr :: bool

record LogBuffer =
  lb_source :: EvidenceSourceRef
  lb_limits :: LogBufferLimits
  lb_entries :: "EvidenceEntry list"
  lb_retained_bytes :: nat
  lb_next_revision :: u64
  lb_dropped_entries :: u64
  lb_dropped_bytes :: u64
  lb_next_byte_offset :: u64
  lb_stdout :: StreamState
  lb_stderr :: StreamState

definition LogBuffer_new :: "EvidenceSourceRef \<Rightarrow> LogBufferLimits \<Rightarrow> LogBuffer" where
  "LogBuffer_new source limits =
     \<lparr>lb_source = source, lb_limits = limits, lb_entries = [], lb_retained_bytes = 0,
      lb_next_revision = 1, lb_dropped_entries = 0, lb_dropped_bytes = 0, lb_next_byte_offset = 0,
      lb_stdout = \<lparr>ss_partial = [], ss_timestamp = 0, ss_pending_cr = False\<rparr>,
      lb_stderr = \<lparr>ss_partial = [], ss_timestamp = 0, ss_pending_cr = False\<rparr>\<rparr>"

fun lb_stream :: "LogStream \<Rightarrow> LogBuffer \<Rightarrow> StreamState" where
  "lb_stream Stdout b = lb_stdout b"
| "lb_stream Stderr b = lb_stderr b"

fun lb_set_stream :: "LogStream \<Rightarrow> StreamState \<Rightarrow> LogBuffer \<Rightarrow> LogBuffer" where
  "lb_set_stream Stdout st b = b\<lparr>lb_stdout := st\<rparr>"
| "lb_set_stream Stderr st b = b\<lparr>lb_stderr := st\<rparr>"

section \<open>Appending\<close>

definition MakeEntryId :: "EvidenceSourceRef \<Rightarrow> u64 \<Rightarrow> string" where
  "MakeEntryId source revision =
     ''log:'' @ sid_value (es_session_id source) @ '':rev:'' @ nat_to_string revision"

fun lb_evict_loop :: "LogBufferLimits \<Rightarrow> LogBuffer \<Rightarrow> EvidenceEntry list \<Rightarrow> LogBuffer" where
  "lb_evict_loop limits b [] = b\<lparr>lb_entries := []\<rparr>"
| "lb_evict_loop limits b (e # es) =
     (if (li_max_entries limits > 0 \<and> length (e # es) > li_max_entries limits)
         \<or> (li_max_bytes limits > 0 \<and> lb_retained_bytes b > li_max_bytes limits)
      then lb_evict_loop limits
             (b\<lparr>lb_retained_bytes := lb_retained_bytes b - length (en_text e),
                lb_dropped_bytes := u64_add (lb_dropped_bytes b) (length (en_text e)),
                lb_dropped_entries := u64_add (lb_dropped_entries b) 1\<rparr>) es
      else b\<lparr>lb_entries := e # es\<rparr>)"

definition lb_EvictIfNeeded :: "LogBuffer \<Rightarrow> LogBuffer" where
  "lb_EvictIfNeeded b = lb_evict_loop (lb_limits b) b (lb_entries b)"

definition byte_start_of :: "u64 \<Rightarrow> string \<Rightarrow> u64" where
  "byte_start_of byte_end text = (if byte_end \<ge> length text then byte_end - length text else 0)"

definition completed_entry :: "LogStream \<times> string \<times> unix_ms \<Rightarrow> LogBuffer \<Rightarrow> EvidenceEntry" where
  "completed_entry line b =
     (case line of (stream, text, timestamp_unix_ms) \<Rightarrow>
        \<lparr>en_entry_id = MakeEntryId (lb_source b) (lb_next_revision b), en_source = lb_source b,
         en_revision = lb_next_revision b,
         en_byte_start = byte_start_of (lb_next_byte_offset b) text,
         en_byte_end = lb_next_byte_offset b, en_timestamp_unix_ms = timestamp_unix_ms,
         en_stream = stream, en_text = text, en_partial = False\<rparr>)"

definition CompleteLine :: "LogStream \<times> string \<times> unix_ms \<Rightarrow> LogBuffer \<Rightarrow> LogBuffer" where
  "CompleteLine line b =
     lb_EvictIfNeeded
       (b\<lparr>lb_next_revision := u64_add (lb_next_revision b) 1,
          lb_retained_bytes := lb_retained_bytes b + length (fst (snd line)),
          lb_entries := lb_entries b @ [completed_entry line b]\<rparr>)"

text \<open>The loop of \<open>Append\<close> over the characters of a read; \<open>rest\<close> is what follows in the same read.\<close>

definition lb_complete :: "LogStream \<Rightarrow> unix_ms \<Rightarrow> LogBuffer \<Rightarrow> LogBuffer" where
  "lb_complete stream ts b =
     (let text = ss_partial (lb_stream stream b) in
      CompleteLine (stream, text, ts)
        (lb_set_stream stream ((lb_stream stream b)\<lparr>ss_partial := [], ss_timestamp := 0\<rparr>) b))"

definition lb_clear_partial :: "LogStream \<Rightarrow> unix_ms \<Rightarrow> LogBuffer \<Rightarrow> LogBuffer" where
  "lb_clear_partial stream ts b =
     lb_set_stream stream ((lb_stream stream b)\<lparr>ss_partial := [], ss_timestamp := ts\<rparr>) b"

definition strip_cr :: "string \<Rightarrow> string" where
  "strip_cr s = (if s \<noteq> [] \<and> last s = ch_cr then butlast s else s)"

definition lb_char :: "LogStream \<Rightarrow> unix_ms \<Rightarrow> char \<Rightarrow> string \<Rightarrow> LogBuffer \<Rightarrow> LogBuffer" where
  "lb_char stream ts ch rest b =
     (if ch = ch_cr \<and> rest \<noteq> [] \<and> hd rest = ch_nl then b
      else if ch = ch_nl then
        lb_complete stream ts
          (lb_set_stream stream
             ((lb_stream stream b)\<lparr>ss_partial := strip_cr (ss_partial (lb_stream stream b))\<rparr>) b)
      else if ch = ch_cr then
        if rest = [] then lb_set_stream stream ((lb_stream stream b)\<lparr>ss_pending_cr := True\<rparr>) b
        else lb_clear_partial stream ts b
      else
        lb_set_stream stream
          ((lb_stream stream b)\<lparr>ss_partial := ss_partial (lb_stream stream b) @ [ch]\<rparr>) b)"

fun lb_append_loop :: "LogStream \<Rightarrow> unix_ms \<Rightarrow> string \<Rightarrow> LogBuffer \<Rightarrow> LogBuffer" where
  "lb_append_loop stream ts [] b = b"
| "lb_append_loop stream ts (ch # rest) b =
     (let b1 = b\<lparr>lb_next_byte_offset := u64_add (lb_next_byte_offset b) 1\<rparr>;
          st = lb_stream stream b1
      in
      if ss_pending_cr st then
        let b2 = lb_set_stream stream (st\<lparr>ss_pending_cr := False\<rparr>) b1 in
        if ch = ch_nl then lb_append_loop stream ts rest (lb_complete stream ts b2)
        else lb_append_loop stream ts rest (lb_char stream ts ch rest (lb_clear_partial stream ts b2))
      else lb_append_loop stream ts rest (lb_char stream ts ch rest b1))"

definition lb_Append :: "LogStream \<Rightarrow> string \<Rightarrow> unix_ms \<Rightarrow> LogBuffer \<Rightarrow> LogBuffer" where
  "lb_Append stream data ts b =
     (if data = [] then b
      else
        let st = lb_stream stream b;
            b1 = (if ss_partial st = [] then lb_set_stream stream (st\<lparr>ss_timestamp := ts\<rparr>) b else b)
        in lb_append_loop stream ts data b1)"

definition AppendStdout :: "string \<Rightarrow> unix_ms \<Rightarrow> LogBuffer \<Rightarrow> LogBuffer" where
  "AppendStdout data ts b = lb_Append Stdout data ts b"

definition AppendStderr :: "string \<Rightarrow> unix_ms \<Rightarrow> LogBuffer \<Rightarrow> LogBuffer" where
  "AppendStderr data ts b = lb_Append Stderr data ts b"

section \<open>Reading\<close>

definition MakePartialEntry :: "LogStream \<Rightarrow> LogBuffer \<Rightarrow> EvidenceEntry" where
  "MakePartialEntry stream b =
     (let st = lb_stream stream b in
      \<lparr>en_entry_id = MakeEntryId (lb_source b) (lb_next_revision b), en_source = lb_source b,
       en_revision = lb_next_revision b,
       en_byte_start = byte_start_of (lb_next_byte_offset b) (ss_partial st),
       en_byte_end = lb_next_byte_offset b, en_timestamp_unix_ms = ss_timestamp st,
       en_stream = stream, en_text = ss_partial st, en_partial = True\<rparr>)"

definition lb_Tail :: "nat \<Rightarrow> bool \<Rightarrow> LogBuffer \<Rightarrow> EvidenceEntry list" where
  "lb_Tail limit include_partial b =
     (if limit = 0 then []
      else
        let partial_count =
              (if include_partial
               then (if ss_partial (lb_stdout b) \<noteq> [] then 1 else 0)
                    + (if ss_partial (lb_stderr b) \<noteq> [] then 1 else 0)
               else 0);
            completed_limit = (if limit > partial_count then limit - partial_count else 0);
            start = (if length (lb_entries b) > completed_limit
                     then length (lb_entries b) - completed_limit else 0);
            tail0 = drop start (lb_entries b);
            tail1 = (if include_partial \<and> ss_partial (lb_stdout b) \<noteq> [] \<and> length tail0 < limit
                     then tail0 @ [MakePartialEntry Stdout b] else tail0)
        in if include_partial \<and> ss_partial (lb_stderr b) \<noteq> [] \<and> length tail1 < limit
           then tail1 @ [MakePartialEntry Stderr b] else tail1)"

definition lb_Range :: "u64 \<Rightarrow> u64 \<Rightarrow> nat \<Rightarrow> LogBuffer \<Rightarrow> EvidenceEntry list" where
  "lb_Range revision_start revision_end limit b =
     (if limit = 0 \<or> lb_entries b = [] \<or> revision_start > revision_end then []
      else
        let oldest = en_revision (hd (lb_entries b));
            latest = en_revision (last (lb_entries b))
        in
        if revision_end < oldest \<or> revision_start > latest then []
        else
          let start_index = u64_sub (max revision_start oldest) oldest;
              end_index = u64_sub (min revision_end latest) oldest;
              count = min limit (u64_add (u64_sub end_index start_index) 1)
          in map (\<lambda>offset. lb_entries b ! (start_index + offset)) [0 ..< count])"

function match_offsets :: "string \<Rightarrow> string \<Rightarrow> nat \<Rightarrow> nat list" where
  "match_offsets query text pos =
     (if query = [] then []
      else case str_find text query pos of
          None \<Rightarrow> []
        | Some offset \<Rightarrow> offset # match_offsets query text (offset + length query))"
  by pat_completeness auto
termination
proof (relation "measure (\<lambda>(q, t, p). Suc (length t) - p)")
  show "((q, t, i + length q), q, t, p) \<in> measure (\<lambda>(q, t, p). Suc (length t) - p)"
    if "q \<noteq> []" "str_find t q p = Some i" for q t :: string and p i
    using str_find_Some [OF that(2)] that(1) by (cases q) auto
qed simp

declare match_offsets.simps [simp del]

definition entry_highlights :: "string \<Rightarrow> EvidenceEntry \<Rightarrow> EvidenceHighlight list" where
  "entry_highlights query entry =
     map (\<lambda>offset. \<lparr>hl_entry_id = en_entry_id entry, hl_start = offset, hl_length = length query,
                   hl_kind = HlMatch\<rparr>) (match_offsets query (en_text entry) 0)"

fun lb_search_loop ::
    "string \<Rightarrow> nat \<Rightarrow> EvidenceEntry list \<Rightarrow> LogBufferSearchResult \<Rightarrow> LogBufferSearchResult" where
  "lb_search_loop query limit [] result = result"
| "lb_search_loop query limit (entry # rest) result =
     (if str_find (en_text entry) query 0 = None then lb_search_loop query limit rest result
      else if length (sr_entries result) \<ge> limit then result\<lparr>sr_truncated := True\<rparr>
      else lb_search_loop query limit rest
             (result\<lparr>sr_entries := sr_entries result @ [entry],
                     sr_highlights := sr_highlights result @ entry_highlights query entry\<rparr>))"

definition lb_Search :: "string \<Rightarrow> nat \<Rightarrow> LogBuffer \<Rightarrow> LogBufferSearchResult" where
  "lb_Search query limit b =
     (let result = \<lparr>sr_entries = [], sr_highlights = [], sr_truncated = False\<rparr> in
      if query = [] \<or> limit = 0 then result else lb_search_loop query limit (lb_entries b) result)"

definition ContainsRevision :: "u64 \<Rightarrow> LogBuffer \<Rightarrow> bool" where
  "ContainsRevision revision b \<longleftrightarrow>
     lb_entries b \<noteq> [] \<and> revision \<ge> en_revision (hd (lb_entries b))
     \<and> revision \<le> en_revision (last (lb_entries b))"

text \<open>\<open>vector::reserve\<close> throws \<open>length_error\<close> for a size that no vector can have.\<close>

definition lb_Context :: "u64 \<Rightarrow> nat \<Rightarrow> nat \<Rightarrow> LogBuffer \<Rightarrow> EvidenceEntry list option" where
  "lb_Context revision before after b =
     (if \<not> ContainsRevision revision b \<or> lb_entries b = [] then Some []
      else
        let anchor_index = u64_sub revision (en_revision (hd (lb_entries b)));
            start = (if anchor_index > before then anchor_index - before else 0);
            end_index = min (length (lb_entries b)) (u64_add (u64_add anchor_index after) 1)
        in
        if end_index < start then None
        else Some (map (\<lambda>index. lb_entries b ! index) [start ..< end_index]))"

definition lb_stats :: "LogBuffer \<Rightarrow> LogBufferStats" where
  "lb_stats b =
     \<lparr>bs_oldest_revision =
        (if lb_entries b = [] then lb_next_revision b else en_revision (hd (lb_entries b))),
      bs_latest_revision =
        (if lb_entries b = [] then u64_sub (lb_next_revision b) 1
         else en_revision (last (lb_entries b))),
      bs_next_revision = lb_next_revision b,
      bs_retained_entries = length (lb_entries b), bs_retained_bytes = lb_retained_bytes b,
      bs_dropped_entries = lb_dropped_entries b, bs_dropped_bytes = lb_dropped_bytes b\<rparr>"

section \<open>The invariant\<close>

definition text_bytes :: "EvidenceEntry list \<Rightarrow> nat" where
  "text_bytes es = sum_list (map (\<lambda>e. length (en_text e)) es)"

definition within_limits :: "LogBufferLimits \<Rightarrow> EvidenceEntry list \<Rightarrow> bool" where
  "within_limits limits es \<longleftrightarrow>
     (li_max_entries limits > 0 \<longrightarrow> length es \<le> li_max_entries limits)
     \<and> (li_max_bytes limits > 0 \<longrightarrow> text_bytes es \<le> li_max_bytes limits)"

definition lb_inv :: "LogBuffer \<Rightarrow> bool" where
  "lb_inv b \<longleftrightarrow>
     lb_retained_bytes b = text_bytes (lb_entries b)
     \<and> within_limits (lb_limits b) (lb_entries b)
     \<and> lb_next_revision b < u64_modulus
     \<and> length (lb_entries b) < lb_next_revision b
     \<and> map en_revision (lb_entries b) = [lb_next_revision b - length (lb_entries b) ..< lb_next_revision b]
     \<and> lb_dropped_entries b + length (lb_entries b) + 1 = lb_next_revision b"

definition lb_room :: "LogStream \<times> string \<times> unix_ms \<Rightarrow> LogBuffer \<Rightarrow> bool" where
  "lb_room line b \<longleftrightarrow> lb_next_revision b + 1 < u64_modulus"

lemma text_bytes_simps [simp]:
  "text_bytes [] = 0" "text_bytes (e # es) = length (en_text e) + text_bytes es"
  "text_bytes (es @ fs) = text_bytes es + text_bytes fs"
  by (simp_all add: text_bytes_def)

lemma lb_evict_loop_spec:
  assumes "lb_retained_bytes b = text_bytes es"
    and "lb_dropped_entries b + length es < u64_modulus"
  shows "\<exists>n \<le> length es. lb_entries (lb_evict_loop limits b es) = drop n es
     \<and> within_limits limits (drop n es)
     \<and> lb_retained_bytes (lb_evict_loop limits b es) = text_bytes (drop n es)
     \<and> lb_dropped_entries (lb_evict_loop limits b es) = lb_dropped_entries b + n"
  using assms
proof (induction es arbitrary: b)
  case Nil
  then show ?case by (simp add: within_limits_def)
next
  case (Cons e es)
  let ?evict = "(li_max_entries limits > 0 \<and> length (e # es) > li_max_entries limits)
         \<or> (li_max_bytes limits > 0 \<and> lb_retained_bytes b > li_max_bytes limits)"
  let ?b = "b\<lparr>lb_retained_bytes := lb_retained_bytes b - length (en_text e),
                lb_dropped_bytes := u64_add (lb_dropped_bytes b) (length (en_text e)),
                lb_dropped_entries := u64_add (lb_dropped_entries b) 1\<rparr>"
  show ?case
  proof (cases ?evict)
    case True
    have d: "u64_add (lb_dropped_entries b) 1 = lb_dropped_entries b + 1"
      using Cons.prems by (intro u64_add_exact) simp
    have "lb_retained_bytes ?b = text_bytes es" "lb_dropped_entries ?b + length es < u64_modulus"
      using Cons.prems d by simp_all
    from Cons.IH [OF this] obtain n where n: "n \<le> length es"
      "lb_entries (lb_evict_loop limits ?b es) = drop n es" "within_limits limits (drop n es)"
      "lb_retained_bytes (lb_evict_loop limits ?b es) = text_bytes (drop n es)"
      "lb_dropped_entries (lb_evict_loop limits ?b es) = lb_dropped_entries b + 1 + n"
      using d by auto
    with True show ?thesis by (intro exI [of _ "Suc n"]) simp
  next
    case False
    with Cons.prems show ?thesis by (intro exI [of _ 0]) (auto simp: within_limits_def)
  qed
qed

lemma lb_evict_loop_frame [simp]:
  "lb_next_revision (lb_evict_loop limits b es) = lb_next_revision b"
  "lb_limits (lb_evict_loop limits b es) = lb_limits b"
  "lb_source (lb_evict_loop limits b es) = lb_source b"
  "lb_next_byte_offset (lb_evict_loop limits b es) = lb_next_byte_offset b"
  "lb_stdout (lb_evict_loop limits b es) = lb_stdout b"
  "lb_stderr (lb_evict_loop limits b es) = lb_stderr b"
  by (induction limits b es rule: lb_evict_loop.induct) simp_all

lemma CompleteLine_spec:
  assumes "lb_inv b" "lb_room line b"
  obtains n where "n \<le> Suc (length (lb_entries b))"
    "lb_entries (CompleteLine line b) = drop n (lb_entries b @ [completed_entry line b])"
    "lb_next_revision (CompleteLine line b) = lb_next_revision b + 1"
    "lb_dropped_entries (CompleteLine line b) = lb_dropped_entries b + n"
    "lb_retained_bytes (CompleteLine line b) =
       text_bytes (drop n (lb_entries b @ [completed_entry line b]))"
    "within_limits (lb_limits b) (drop n (lb_entries b @ [completed_entry line b]))"
    "lb_limits (CompleteLine line b) = lb_limits b"
proof -
  let ?es = "lb_entries b @ [completed_entry line b]"
  let ?b = "b\<lparr>lb_next_revision := u64_add (lb_next_revision b) 1,
          lb_retained_bytes := lb_retained_bytes b + length (fst (snd line)), lb_entries := ?es\<rparr>"
  have nr: "u64_add (lb_next_revision b) 1 = lb_next_revision b + 1"
    using assms by (intro u64_add_exact) (simp add: lb_room_def)
  have txt_len: "length (fst (snd line)) = length (en_text (completed_entry line b))"
    by (simp add: completed_entry_def split: prod.split)
  have "lb_retained_bytes ?b = text_bytes ?es" using assms(1) txt_len by (simp add: lb_inv_def)
  moreover have "lb_dropped_entries ?b + length ?es < u64_modulus"
    using assms by (simp add: lb_inv_def lb_room_def)
  ultimately obtain n where "n \<le> length ?es" "lb_entries (lb_evict_loop (lb_limits b) ?b ?es) = drop n ?es"
    "within_limits (lb_limits b) (drop n ?es)"
    "lb_retained_bytes (lb_evict_loop (lb_limits b) ?b ?es) = text_bytes (drop n ?es)"
    "lb_dropped_entries (lb_evict_loop (lb_limits b) ?b ?es) = lb_dropped_entries b + n"
    using lb_evict_loop_spec [of ?b ?es "lb_limits b"] by auto
  with that [of n] nr show thesis
    by (simp add: CompleteLine_def lb_EvictIfNeeded_def)
qed

lemma en_revision_completed [simp]: "en_revision (completed_entry line b) = lb_next_revision b"
  by (simp add: completed_entry_def split: prod.split)

lemma lb_inv_CompleteLine:
  assumes "lb_inv b" "lb_room line b"
  shows "lb_inv (CompleteLine line b)"
proof -
  let ?es = "lb_entries b @ [completed_entry line b]" and ?N = "lb_next_revision b"
  obtain n where n: "n \<le> Suc (length (lb_entries b))"
    "lb_entries (CompleteLine line b) = drop n ?es" "lb_next_revision (CompleteLine line b) = ?N + 1"
    "lb_dropped_entries (CompleteLine line b) = lb_dropped_entries b + n"
    "lb_retained_bytes (CompleteLine line b) = text_bytes (drop n ?es)"
    "within_limits (lb_limits b) (drop n ?es)" "lb_limits (CompleteLine line b) = lb_limits b"
    using assms by (rule CompleteLine_spec)
  have inv: "length (lb_entries b) < ?N"
    "map en_revision (lb_entries b) = [?N - length (lb_entries b) ..< ?N]"
    "lb_dropped_entries b + length (lb_entries b) + 1 = ?N" "?N + 1 < u64_modulus"
    using assms by (simp_all add: lb_inv_def lb_room_def)
  have all: "map en_revision ?es = [?N - length (lb_entries b) ..< ?N + 1]"
    using inv by (simp add: inv(2))
  have "map en_revision (drop n ?es) = drop n [?N - length (lb_entries b) ..< ?N + 1]"
    by (simp only: drop_map [symmetric] all)
  also have "\<dots> = [?N + 1 - length (drop n ?es) ..< ?N + 1]"
    using n(1) inv(1) by (simp add: Suc_diff_le)
  finally have m: "map en_revision (drop n ?es) = [?N + 1 - length (drop n ?es) ..< ?N + 1]" .
  show ?thesis
    unfolding lb_inv_def n(2,3,4,5,7) using m n(1,6) inv by auto
qed

lemma CompleteLine_suffix:
  assumes "lb_inv b" "lb_room line b"
  shows "suffix (lb_entries (CompleteLine line b)) (lb_entries b @ [completed_entry line b])"
  by (rule CompleteLine_spec [OF assms]) (simp only: suffix_drop)

interpretation logq: numbered_queue lb_entries CompleteLine completed_entry lb_room lb_inv
  en_revision lb_next_revision
proof unfold_locales
  fix b line
  assume "lb_inv b" "lb_room line b"
  then show "lb_inv (CompleteLine line b)" by (rule lb_inv_CompleteLine)
  from \<open>lb_inv b\<close> \<open>lb_room line b\<close>
  show "suffix (lb_entries (CompleteLine line b)) (lb_entries b @ [completed_entry line b])"
    by (rule CompleteLine_suffix)
qed (simp_all add: lb_inv_def)

lemma lb_inv_new: "lb_inv (LogBuffer_new source limits)"
  by (simp add: lb_inv_def LogBuffer_new_def within_limits_def)

lemma lb_inv_set_stream [simp]: "lb_inv (lb_set_stream stream st b) = lb_inv b"
  by (cases stream) (simp_all add: lb_inv_def)

lemma lb_inv_offset [simp]: "lb_inv (b\<lparr>lb_next_byte_offset := n\<rparr>) = lb_inv b"
  by (simp add: lb_inv_def)

lemma lb_next_revision_set_stream [simp]: "lb_next_revision (lb_set_stream stream st b) = lb_next_revision b"
  by (cases stream) simp_all

text \<open>A step of the loop completes at most one line, so a read of \<open>n\<close> bytes uses at most \<open>n\<close> revisions.\<close>

definition lb_advances :: "nat \<Rightarrow> LogBuffer \<Rightarrow> LogBuffer \<Rightarrow> bool" where
  "lb_advances n b b' \<longleftrightarrow>
     lb_inv b' \<and> lb_next_revision b' \<le> lb_next_revision b + n \<and> lb_limits b' = lb_limits b"

lemma CompleteLine_advances:
  assumes "lb_inv b" "lb_next_revision b + 1 < u64_modulus"
  shows "lb_advances 1 b (CompleteLine line b)"
proof -
  have room: "lb_room line b" using assms(2) by (simp add: lb_room_def)
  have "lb_next_revision (CompleteLine line b) = lb_next_revision b + 1 \<and>
      lb_limits (CompleteLine line b) = lb_limits b"
    by (rule CompleteLine_spec [OF assms(1) room]) simp
  with lb_inv_CompleteLine [OF assms(1) room] show ?thesis by (simp add: lb_advances_def)
qed

lemma lb_limits_set_stream [simp]: "lb_limits (lb_set_stream stream st b) = lb_limits b"
  by (cases stream) simp_all

lemma lb_complete_advances:
  assumes "lb_inv b" "lb_next_revision b + 1 < u64_modulus"
  shows "lb_advances 1 b (lb_complete stream ts b)"
  using CompleteLine_advances [of "lb_set_stream stream st b" for st] assms
  by (simp add: lb_complete_def Let_def lb_advances_def)

lemma lb_char_advances:
  assumes "lb_inv b" "lb_next_revision b + 1 < u64_modulus"
  shows "lb_advances 1 b (lb_char stream ts ch rest b)"
  using lb_complete_advances [of "lb_set_stream stream st b" for st] assms
  by (simp add: lb_char_def lb_clear_partial_def lb_advances_def)

lemma lb_append_loop_advances:
  "\<lbrakk>lb_inv b; lb_next_revision b + length data < u64_modulus\<rbrakk>
     \<Longrightarrow> lb_advances (length data) b (lb_append_loop stream ts data b)"
proof (induction data arbitrary: b)
  case Nil
  then show ?case by (simp add: lb_advances_def)
next
  case (Cons ch rest)
  let ?b1 = "b\<lparr>lb_next_byte_offset := u64_add (lb_next_byte_offset b) 1\<rparr>"
  let ?b2 = "lb_set_stream stream ((lb_stream stream ?b1)\<lparr>ss_pending_cr := False\<rparr>) ?b1"
  have step: "lb_advances (Suc (length rest)) b (lb_append_loop stream ts rest b')"
    if "lb_advances 1 b b'" for b'
  proof -
    from that Cons.prems have "lb_inv b'" "lb_next_revision b' + length rest < u64_modulus"
      by (auto simp: lb_advances_def)
    from Cons.IH [OF this] that show ?thesis by (auto simp: lb_advances_def)
  qed
  have "lb_advances 1 b (lb_complete stream ts ?b2)"
    using lb_complete_advances [of ?b2 stream ts] Cons.prems by (simp add: lb_advances_def)
  moreover have "lb_advances 1 b (lb_char stream ts ch rest (lb_clear_partial stream ts ?b2))"
    using lb_char_advances [of "lb_clear_partial stream ts ?b2" stream ts ch rest] Cons.prems
    by (simp add: lb_advances_def lb_clear_partial_def)
  moreover have "lb_advances 1 b (lb_char stream ts ch rest ?b1)"
    using lb_char_advances [of ?b1 stream ts ch rest] Cons.prems by (simp add: lb_advances_def)
  ultimately show ?case using step by (simp add: Let_def)
qed

lemma lb_Append_advances:
  "\<lbrakk>lb_inv b; lb_next_revision b + length data < u64_modulus\<rbrakk>
     \<Longrightarrow> lb_advances (length data) b (lb_Append stream data ts b)"
  using lb_append_loop_advances [of "lb_set_stream stream st b" data stream ts for st]
    lb_append_loop_advances [of b data stream ts]
  by (auto simp: lb_Append_def Let_def lb_advances_def)

section \<open>Sequences of reads\<close>

type_synonym log_read = "LogStream \<times> string \<times> unix_ms"

definition lb_read :: "log_read \<Rightarrow> LogBuffer \<Rightarrow> LogBuffer" where
  "lb_read r b = lb_Append (fst r) (fst (snd r)) (snd (snd r)) b"

definition lb_run :: "log_read list \<Rightarrow> LogBuffer \<Rightarrow> LogBuffer" where
  "lb_run reads b = fold lb_read reads b"

definition read_bytes :: "log_read list \<Rightarrow> nat" where
  "read_bytes reads = sum_list (map (\<lambda>r. length (fst (snd r))) reads)"

lemma lb_run_advances:
  "\<lbrakk>lb_inv b; lb_next_revision b + read_bytes reads < u64_modulus\<rbrakk>
     \<Longrightarrow> lb_advances (read_bytes reads) b (lb_run reads b)"
proof (induction reads arbitrary: b)
  case Nil
  then show ?case by (simp add: lb_run_def lb_advances_def read_bytes_def)
next
  case (Cons r rs)
  let ?b = "lb_read r b"
  have b: "read_bytes (r # rs) = length (fst (snd r)) + read_bytes rs" by (simp add: read_bytes_def)
  have adv: "lb_advances (length (fst (snd r))) b ?b"
    unfolding lb_read_def using Cons.prems b by (intro lb_Append_advances) auto
  with Cons.prems b have "lb_inv ?b" "lb_next_revision ?b + read_bytes rs < u64_modulus"
    by (auto simp: lb_advances_def)
  from Cons.IH [OF this] adv b show ?case by (auto simp: lb_advances_def lb_run_def)
qed

section \<open>Lines do not depend on how the stream was cut into reads\<close>

definition erase_stream :: "StreamState \<Rightarrow> StreamState" where
  "erase_stream st = st\<lparr>ss_timestamp := 0\<rparr>"

definition erase_entry :: "EvidenceEntry \<Rightarrow> EvidenceEntry" where
  "erase_entry e = e\<lparr>en_timestamp_unix_ms := 0\<rparr>"

definition lb_erase :: "LogBuffer \<Rightarrow> LogBuffer" where
  "lb_erase b = b\<lparr>lb_entries := map erase_entry (lb_entries b),
     lb_stdout := erase_stream (lb_stdout b), lb_stderr := erase_stream (lb_stderr b)\<rparr>"

lemma erase_fields [simp]:
  "en_text (erase_entry e) = en_text e" "ss_partial (erase_stream st) = ss_partial st"
  "ss_pending_cr (erase_stream st) = ss_pending_cr st" "ss_timestamp (erase_stream st) = 0"
  "erase_stream (erase_stream st) = erase_stream st" "erase_entry (erase_entry e) = erase_entry e"
  by (simp_all add: erase_entry_def erase_stream_def)

lemma erase_stream_upd [simp]:
  "erase_stream (st\<lparr>ss_partial := p\<rparr>) = (erase_stream st)\<lparr>ss_partial := p\<rparr>"
  "erase_stream (st\<lparr>ss_pending_cr := c\<rparr>) = (erase_stream st)\<lparr>ss_pending_cr := c\<rparr>"
  "erase_stream (st\<lparr>ss_timestamp := t\<rparr>) = erase_stream st"
  "(erase_stream st)\<lparr>ss_timestamp := 0\<rparr> = erase_stream st"
  "(erase_stream st)\<lparr>ss_partial := p, ss_timestamp := 0\<rparr> = (erase_stream st)\<lparr>ss_partial := p\<rparr>"
  "(erase_stream st)\<lparr>ss_pending_cr := c, ss_partial := p, ss_timestamp := 0\<rparr> =
     (erase_stream st)\<lparr>ss_pending_cr := c, ss_partial := p\<rparr>"
  by (cases st, simp add: erase_stream_def)+

lemma lb_erase_stream [simp]: "lb_stream s (lb_erase b) = erase_stream (lb_stream s b)"
  by (cases s) (simp_all add: lb_erase_def)

lemma lb_erase_set_stream: "lb_erase (lb_set_stream s st b) = lb_set_stream s (erase_stream st) (lb_erase b)"
  by (cases s) (simp_all add: lb_erase_def)

lemma lb_erase_offset:
  "lb_erase (b\<lparr>lb_next_byte_offset := n\<rparr>) = (lb_erase b)\<lparr>lb_next_byte_offset := n\<rparr>"
  "lb_next_byte_offset (lb_erase b) = lb_next_byte_offset b"
  by (simp_all add: lb_erase_def)

lemma lb_stream_simps [simp]:
  "lb_stream s (b\<lparr>lb_next_byte_offset := n\<rparr>) = lb_stream s b"
  "lb_stream s (lb_set_stream s st b) = st"
  "lb_set_stream s st (lb_set_stream s st' b) = lb_set_stream s st b"
  by (cases s; simp)+

lemma lb_erase_updates:
  "lb_erase (b\<lparr>lb_retained_bytes := n\<rparr>) = (lb_erase b)\<lparr>lb_retained_bytes := n\<rparr>"
  "lb_erase (b\<lparr>lb_dropped_bytes := n\<rparr>) = (lb_erase b)\<lparr>lb_dropped_bytes := n\<rparr>"
  "lb_erase (b\<lparr>lb_dropped_entries := n\<rparr>) = (lb_erase b)\<lparr>lb_dropped_entries := n\<rparr>"
  "lb_erase (b\<lparr>lb_next_revision := n\<rparr>) = (lb_erase b)\<lparr>lb_next_revision := n\<rparr>"
  "lb_erase (b\<lparr>lb_entries := es\<rparr>) = (lb_erase b)\<lparr>lb_entries := map erase_entry es\<rparr>"
  by (cases b, simp add: lb_erase_def)+

lemma lb_erase_selectors [simp]:
  "lb_retained_bytes (lb_erase b) = lb_retained_bytes b"
  "lb_dropped_bytes (lb_erase b) = lb_dropped_bytes b"
  "lb_dropped_entries (lb_erase b) = lb_dropped_entries b"
  "lb_next_revision (lb_erase b) = lb_next_revision b"
  "lb_entries (lb_erase b) = map erase_entry (lb_entries b)" "lb_limits (lb_erase b) = lb_limits b"
  "lb_source (lb_erase b) = lb_source b"
  by (simp_all add: lb_erase_def)

lemma lb_erase_evict_loop:
  "lb_erase (lb_evict_loop limits b es) = lb_evict_loop limits (lb_erase b) (map erase_entry es)"
  by (induction limits b es rule: lb_evict_loop.induct) (simp_all add: lb_erase_updates)

lemma lb_erase_CompleteLine: "lb_erase (CompleteLine (s, t, ts) b) = CompleteLine (s, t, 0) (lb_erase b)"
proof -
  have "erase_entry (completed_entry (s, t, ts) b) = completed_entry (s, t, 0) (lb_erase b)"
    by (simp add: completed_entry_def erase_entry_def lb_erase_def)
  then show ?thesis
    unfolding CompleteLine_def lb_EvictIfNeeded_def lb_erase_evict_loop
    by (simp add: lb_erase_updates)
qed

lemma lb_erase_ops:
  "lb_erase (lb_complete s ts b) = lb_complete s 0 (lb_erase b)"
  "lb_erase (lb_clear_partial s ts b) = lb_clear_partial s 0 (lb_erase b)"
  by (simp_all add: lb_complete_def lb_clear_partial_def Let_def lb_erase_CompleteLine lb_erase_set_stream)

lemma lb_erase_char: "lb_erase (lb_char s ts ch rest b) = lb_char s 0 ch rest (lb_erase b)"
  by (simp add: lb_char_def lb_erase_ops lb_erase_set_stream)

lemma lb_erase_append_loop: "lb_erase (lb_append_loop s ts data b) = lb_append_loop s 0 data (lb_erase b)"
proof (induction data arbitrary: b)
  case (Cons ch rest)
  show ?case
    by (simp add: Let_def Cons.IH lb_erase_ops lb_erase_char lb_erase_set_stream lb_erase_offset)
qed simp

definition no_cr :: "LogStream \<Rightarrow> LogBuffer \<Rightarrow> bool" where
  "no_cr s b \<longleftrightarrow> ch_cr \<notin> set (ss_partial (lb_stream s b))"

lemma CompleteLine_stream [simp]: "lb_stream s (CompleteLine line b) = lb_stream s b"
  by (cases s) (simp_all add: CompleteLine_def lb_EvictIfNeeded_def)

lemma lb_set_stream_other: "s \<noteq> s' \<Longrightarrow> lb_stream s (lb_set_stream s' st b) = lb_stream s b"
  by (cases s; cases s') simp_all

lemma strip_cr_id: "ch_cr \<notin> set p \<Longrightarrow> strip_cr p = p"
  by (simp add: strip_cr_def) (metis last_in_set)

lemma no_cr_set_stream:
  "no_cr s b \<Longrightarrow> s = s' \<longrightarrow> ch_cr \<notin> set (ss_partial st) \<Longrightarrow> no_cr s (lb_set_stream s' st b)"
  by (cases "s = s'") (simp_all add: no_cr_def lb_set_stream_other)

lemma no_cr_stream: "no_cr s b \<Longrightarrow> ch_cr \<notin> set (ss_partial (lb_stream s b))"
  by (simp add: no_cr_def)

lemma no_cr_offset [simp]: "no_cr s (b\<lparr>lb_next_byte_offset := n\<rparr>) = no_cr s b"
  by (simp add: no_cr_def)

lemma no_cr_CompleteLine [simp]: "no_cr s (CompleteLine line b) = no_cr s b"
  by (simp add: no_cr_def)

lemma no_cr_ops:
  assumes "no_cr s b"
  shows "no_cr s (lb_complete s' ts b)" "no_cr s (lb_clear_partial s' ts b)"
  using assms by (simp_all add: lb_complete_def lb_clear_partial_def Let_def no_cr_set_stream)

lemma no_cr_char:
  assumes "no_cr s b"
  shows "no_cr s (lb_char s' ts ch rest b)"
proof -
  have "ch_cr \<notin> set (strip_cr p)" if "ch_cr \<notin> set p" for p
    using that by (simp add: strip_cr_id)
  with assms show ?thesis
    by (auto simp: lb_char_def no_cr_ops intro!: no_cr_ops no_cr_set_stream dest: no_cr_stream)
qed

lemma no_cr_append_loop: "no_cr s b \<Longrightarrow> no_cr s (lb_append_loop s' ts data b)"
proof (induction data arbitrary: b)
  case (Cons ch rest)
  have "no_cr s (lb_set_stream s' ((lb_stream s' b)\<lparr>ss_pending_cr := False\<rparr>)
      (b\<lparr>lb_next_byte_offset := u64_add (lb_next_byte_offset b) 1\<rparr>))"
    using Cons.prems by (intro no_cr_set_stream) (auto dest: no_cr_stream)
  with Cons show ?case by (simp add: Let_def no_cr_ops no_cr_char)
qed simp

lemma no_cr_Append: "no_cr s b \<Longrightarrow> no_cr s (lb_Append s' data ts b)"
  by (auto simp: lb_Append_def Let_def intro!: no_cr_append_loop no_cr_set_stream dest: no_cr_stream)

lemma no_cr_run: "no_cr s b \<Longrightarrow> no_cr s (lb_run reads b)"
  by (induction reads arbitrary: b) (simp_all add: lb_run_def lb_read_def no_cr_Append)

lemma lb_char_rest:
  "ch \<noteq> ch_cr \<or> rest \<noteq> [] \<Longrightarrow> lb_char s ts ch (rest @ following) b = lb_char s ts ch rest b"
  by (auto simp: lb_char_def)

text \<open>A carriage return at the end of a read is decided by the next read.\<close>

lemma pending_cr_defers:
  assumes "no_cr s b" "\<not> ss_pending_cr (lb_stream s b)" "data \<noteq> []"
  shows "lb_append_loop s ts data (lb_char s ts ch_cr data b) =
    lb_append_loop s ts data (lb_char s ts ch_cr [] b)"
proof -
  obtain x rest where data: "data = x # rest" using assms(3) by (cases data) auto
  have strip: "strip_cr (ss_partial (lb_stream s b)) = ss_partial (lb_stream s b)"
    using assms(1) by (simp add: no_cr_def strip_cr_id)
  have set_offset: "(lb_set_stream s st b)\<lparr>lb_next_byte_offset := n\<rparr> =
      lb_set_stream s st (b\<lparr>lb_next_byte_offset := n\<rparr>)" for st n
    by (cases s) simp_all
  have off: "lb_next_byte_offset (lb_set_stream s st b) = lb_next_byte_offset b" for st
    by (cases s) simp_all
  have same: "(lb_stream s b)\<lparr>ss_pending_cr := True, ss_pending_cr := False\<rparr> = lb_stream s b"
    "(lb_stream s b)\<lparr>ss_pending_cr := False\<rparr> = lb_stream s b"
    using assms(2) by simp_all
  have self: "lb_set_stream s (lb_stream s b) (b\<lparr>lb_next_byte_offset := n\<rparr>) =
      b\<lparr>lb_next_byte_offset := n\<rparr>" for n
    by (cases s) simp_all
  have pself: "(lb_stream s b)\<lparr>ss_partial := ss_partial (lb_stream s b)\<rparr> = lb_stream s b" by simp
  show ?thesis
  proof (cases "x = ch_nl")
    case True
    with data assms(2) show ?thesis
      by (simp add: lb_char_def Let_def set_offset off strip same self pself)
  next
    case False
    with data assms(2) show ?thesis
      by (simp add: lb_char_def [of s ts ch_cr] Let_def set_offset off same self lb_clear_partial_def)
  qed
qed

lemma lb_append_loop_append:
  "no_cr s b \<Longrightarrow> lb_append_loop s 0 (d1 @ d2) b = lb_append_loop s 0 d2 (lb_append_loop s 0 d1 b)"
proof (induction d1 arbitrary: b)
  case (Cons ch rest)
  have char: "lb_append_loop s 0 (rest @ d2) (lb_char s 0 ch (rest @ d2) b') =
      lb_append_loop s 0 d2 (lb_append_loop s 0 rest (lb_char s 0 ch rest b'))"
    if "no_cr s b'" "\<not> ss_pending_cr (lb_stream s b')" for b'
  proof (cases "ch = ch_cr \<and> rest = [] \<and> d2 \<noteq> []")
    case True
    with pending_cr_defers [OF that, of d2 0] show ?thesis by simp
  next
    case False
    then have "lb_char s 0 ch (rest @ d2) b' = lb_char s 0 ch rest b'"
      using lb_char_rest [of ch rest s 0 d2 b'] by (cases "d2 = []") auto
    with Cons.IH [of "lb_char s 0 ch rest b'"] that show ?thesis by (simp add: no_cr_char)
  qed
  let ?b1 = "b\<lparr>lb_next_byte_offset := u64_add (lb_next_byte_offset b) 1\<rparr>"
  let ?b2 = "lb_set_stream s ((lb_stream s b)\<lparr>ss_pending_cr := False\<rparr>) ?b1"
  have b2: "no_cr s ?b2" using Cons.prems by (intro no_cr_set_stream) (auto dest: no_cr_stream)
  have "\<not> ss_pending_cr (lb_stream s (lb_clear_partial s 0 ?b2))" by (simp add: lb_clear_partial_def)
  note clear = char [OF no_cr_ops(2) [OF b2] this]
  show ?case
    using char [of ?b1] clear Cons.IH [of "lb_complete s 0 ?b2"] Cons.prems b2
    by (simp add: Let_def no_cr_ops)
qed simp

lemma lb_erase_Append:
  "lb_erase (lb_Append s data ts b) = (if data = [] then lb_erase b else lb_append_loop s 0 data (lb_erase b))"
proof -
  have "lb_erase (lb_set_stream s ((lb_stream s b)\<lparr>ss_timestamp := ts\<rparr>) b) = lb_erase b"
    by (cases s) (simp_all add: lb_erase_def)
  then show ?thesis by (simp add: lb_Append_def Let_def lb_erase_append_loop)
qed

lemma no_cr_erase [simp]: "no_cr s (lb_erase b) = no_cr s b"
  by (simp add: no_cr_def)

lemma lb_erase_run:
  "no_cr s b \<Longrightarrow> lb_erase (lb_run (map (Pair s) chunks) b) =
     lb_append_loop s 0 (concat (map fst chunks)) (lb_erase b)"
proof (induction chunks arbitrary: b)
  case Nil
  then show ?case by (simp add: lb_run_def)
next
  case (Cons c cs)
  obtain d t where c: "c = (d, t)" by (cases c)
  have "lb_erase (lb_run (map (Pair s) (c # cs)) b) =
      lb_erase (lb_run (map (Pair s) cs) (lb_Append s d t b))"
    by (simp add: c lb_run_def lb_read_def)
  also have "\<dots> = lb_append_loop s 0 (concat (map fst cs)) (lb_erase (lb_Append s d t b))"
    using Cons by (simp add: no_cr_Append)
  also have "\<dots> = lb_append_loop s 0 (d @ concat (map fst cs)) (lb_erase b)"
    using Cons.prems by (simp add: lb_erase_Append lb_append_loop_append)
  finally show ?case by (simp add: c)
qed

lemma no_cr_new: "no_cr s (LogBuffer_new source limits)"
  by (cases s) (simp_all add: no_cr_def LogBuffer_new_def)

section \<open>Queries\<close>

lemma take_drop_map: "map (\<lambda>offset. xs ! (i + offset)) [0 ..< n] = take n (drop i xs)" if "i + n \<le> length xs"
  using that by (intro nth_equalityI) auto

lemma map_nth_slice: "j \<le> length xs \<Longrightarrow> map (\<lambda>index. xs ! index) [i ..< j] = drop i (take j xs)"
  by (rule nth_equalityI) auto

lemma lb_between:
  assumes "lb_inv b"
  shows "filter (\<lambda>e. lo \<le> en_revision e \<and> en_revision e \<le> hi) (lb_entries b) =
    drop (lo - (lb_next_revision b - length (lb_entries b)))
      (take (Suc hi - (lb_next_revision b - length (lb_entries b))) (lb_entries b))"
proof -
  let ?N = "lb_next_revision b" and ?n = "length (lb_entries b)"
  let ?es = "take (Suc hi - (?N - ?n)) (lb_entries b)"
  have "filter (\<lambda>e. lo \<le> en_revision e \<and> en_revision e \<le> hi) (lb_entries b) =
      filter (\<lambda>e. lo \<le> en_revision e) (filter (\<lambda>e. en_revision e \<le> hi) (lb_entries b))"
    by (simp add: conj_commute)
  also have "\<dots> = filter (\<lambda>e. lo \<le> en_revision e) ?es"
    by (simp only: logq.filter_to_number [OF assms])
  also have "\<dots> = drop (lo - (?N - ?n)) ?es"
  proof (rule filter_ge_numbered)
    have "map en_revision ?es = take (Suc hi - (?N - ?n)) [?N - ?n ..< ?N]"
      using logq.numbered [OF assms] by (simp add: take_map [symmetric])
    also have "\<dots> = [?N - ?n ..< ?N - ?n + length ?es]"
      using logq.room [OF assms] by (simp add: take_upt min_def)
    finally show "map en_revision ?es = [?N - ?n ..< ?N - ?n + length ?es]" .
  qed
  finally show ?thesis .
qed

lemma lb_Range_eq:
  assumes "lb_inv b"
  shows "lb_Range lo hi limit b =
    take limit (filter (\<lambda>e. lo \<le> en_revision e \<and> en_revision e \<le> hi) (lb_entries b))"
proof (cases "limit = 0 \<or> lb_entries b = [] \<or> lo > hi
    \<or> hi < en_revision (hd (lb_entries b)) \<or> lo > en_revision (last (lb_entries b))")
  case True
  then have "limit = 0 \<or> filter (\<lambda>e. lo \<le> en_revision e \<and> en_revision e \<le> hi) (lb_entries b) = []"
    using logq.number_hd [OF assms] logq.number_last [OF assms] logq.room [OF assms]
    by (cases "lb_entries b = []") (auto simp: lb_between [OF assms] filter_empty_conv)
  with True show ?thesis by (auto simp: lb_Range_def Let_def)
next
  case False
  let ?N = "lb_next_revision b" and ?n = "length (lb_entries b)"
  have hd: "en_revision (hd (lb_entries b)) = ?N - ?n" and last: "en_revision (last (lb_entries b)) = ?N - 1"
    using False by (simp_all add: logq.number_hd [OF assms] logq.number_last [OF assms])
  have N: "?n < ?N" "?N < u64_modulus" "0 < ?n" using assms False by (auto simp: lb_inv_def)
  define i where "i = max lo (?N - ?n) - (?N - ?n)"
  define j where "j = min hi (?N - 1) - (?N - ?n)"
  have lohi: "lo \<le> hi" "?N - ?n \<le> hi" "lo \<le> ?N - 1" using False hd last by simp_all
  then have ij: "i \<le> j" "j < ?n" using N by (auto simp: i_def j_def min_def max_def)
  have "?N - ?n \<le> ?N - 1" using N(3) by linarith
  then have "?N - ?n \<le> min hi (?N - 1)" "min hi (?N - 1) < u64_modulus" "max lo (?N - ?n) < u64_modulus"
    using N(1,2) lohi by auto
  then have "u64_sub (max lo (?N - ?n)) (?N - ?n) = i" "u64_sub (min hi (?N - 1)) (?N - ?n) = j"
    unfolding i_def j_def by (simp_all only: u64_sub_exact max.cobounded2)
  moreover have "u64_add (u64_sub j i) 1 = j - i + 1"
    using N ij by (simp add: u64_sub_exact u64_add_exact)
  ultimately have "lb_Range lo hi limit b = take (min limit (j - i + 1)) (drop i (lb_entries b))"
    using False ij by (simp add: lb_Range_def Let_def hd last take_drop_map del: One_nat_def)
  also have "\<dots> = take limit (drop i (take (Suc j) (lb_entries b)))"
    using ij by (simp add: drop_take Suc_diff_le)
  also have "drop i (take (Suc j) (lb_entries b)) =
      drop (lo - (?N - ?n)) (take (Suc hi - (?N - ?n)) (lb_entries b))"
  proof -
    have "i = lo - (?N - ?n)" by (simp add: i_def)
    moreover have "take (Suc j) (lb_entries b) = take (Suc hi - (?N - ?n)) (lb_entries b)"
      using lohi N by (cases "hi \<le> ?N - 1") (auto simp: j_def Suc_diff_le)
    ultimately show ?thesis by simp
  qed
  finally show ?thesis by (simp add: lb_between [OF assms])
qed

lemma lb_Context_eq:
  assumes "lb_inv b" "ContainsRevision revision b" "length (lb_entries b) + after < u64_modulus"
  shows "lb_Context revision before after b =
    Some (filter (\<lambda>e. revision - before \<le> en_revision e \<and> en_revision e \<le> revision + after) (lb_entries b))"
proof -
  let ?N = "lb_next_revision b" and ?n = "length (lb_entries b)"
  have ne: "lb_entries b \<noteq> []" using assms(2) by (simp add: ContainsRevision_def)
  have hd: "en_revision (hd (lb_entries b)) = ?N - ?n" and last: "en_revision (last (lb_entries b)) = ?N - 1"
    using ne by (simp_all add: logq.number_hd [OF assms(1)] logq.number_last [OF assms(1)])
  have N: "?n < ?N" "?N < u64_modulus" "0 < ?n" using assms(1) ne by (auto simp: lb_inv_def)
  have rev: "?N - ?n \<le> revision" "revision \<le> ?N - 1"
    using assms(2) hd last by (simp_all add: ContainsRevision_def)
  define a where "a = revision - (?N - ?n)"
  have a: "a < ?n" and ra: "revision = ?N - ?n + a" using rev N by (auto simp: a_def)
  have sub: "u64_sub revision (?N - ?n) = a" "u64_add (u64_add a after) 1 = a + after + 1"
    using N rev a assms(3) by (simp_all add: u64_sub_exact u64_add_exact a_def [symmetric])
  have "\<not> min ?n (a + after + 1) < a - before" using a by auto
  then have "lb_Context revision before after b =
      Some (drop (a - before) (take (min ?n (a + after + 1)) (lb_entries b)))"
    using assms(2) ne a
    by (simp add: lb_Context_def Let_def hd sub map_nth_slice del: One_nat_def)
  also have "drop (a - before) (take (min ?n (a + after + 1)) (lb_entries b)) =
      drop (revision - before - (?N - ?n)) (take (Suc (revision + after) - (?N - ?n)) (lb_entries b))"
  proof -
    have "a - before = revision - before - (?N - ?n)" using ra by simp
    moreover have "Suc (revision + after) - (?N - ?n) = a + after + 1" using ra by simp
    ultimately show ?thesis by (simp add: min_def)
  qed
  finally show ?thesis by (simp add: lb_between [OF assms(1)])
qed

lemma match_offsets_spec:
  "sorted (match_offsets query t p) \<and> (\<forall>i \<in> set (match_offsets query t p).
      p \<le> i \<and> i + length query \<le> length t \<and> starts_with (drop i t) query)
   \<and> (query \<noteq> [] \<longrightarrow> (\<forall>j. p \<le> j \<and> j \<le> length t \<and> starts_with (drop j t) query \<longrightarrow>
        (\<exists>i \<in> set (match_offsets query t p). i \<le> j \<and> j < i + length query)))"
proof (induction query t p rule: match_offsets.induct)
  case (1 query t p)
  show ?case
  proof (cases "query = [] \<or> str_find t query p = None")
    case True
    then have "match_offsets query t p = []" by (subst match_offsets.simps) auto
    with True show ?thesis using str_find_None [of t query p] by auto
  next
    case False
    then obtain i where i: "str_find t query p = Some i" "query \<noteq> []" by auto
    note f = str_find_Some [OF i(1)]
    from i have eq: "match_offsets query t p = i # match_offsets query t (i + length query)"
      by (subst match_offsets.simps) simp
    from 1 i have IH: "sorted (match_offsets query t (i + length query))"
      "\<forall>k \<in> set (match_offsets query t (i + length query)).
        i + length query \<le> k \<and> k + length query \<le> length t \<and> starts_with (drop k t) query"
      "\<forall>j. i + length query \<le> j \<and> j \<le> length t \<and> starts_with (drop j t) query \<longrightarrow>
        (\<exists>k \<in> set (match_offsets query t (i + length query)). k \<le> j \<and> j < k + length query)"
      by auto
    have "\<exists>k \<in> set (match_offsets query t p). k \<le> j \<and> j < k + length query"
      if "p \<le> j" "j \<le> length t" "starts_with (drop j t) query" for j
    proof (cases "j < i + length query")
      case True
      with that f have "i \<le> j" by (meson not_less)
      with True eq show ?thesis by auto
    next
      case False
      with IH(3) that eq show ?thesis by auto
    qed
    moreover have "sorted (match_offsets query t p)" using IH(1,2) eq by fastforce
    moreover have "\<forall>k \<in> set (match_offsets query t p).
        p \<le> k \<and> k + length query \<le> length t \<and> starts_with (drop k t) query"
      using IH(2) f eq by fastforce
    ultimately show ?thesis by blast
  qed
qed

definition search_hits :: "string \<Rightarrow> EvidenceEntry list \<Rightarrow> EvidenceEntry list" where
  "search_hits query es = filter (\<lambda>e. str_contains (en_text e) query) es"

lemma str_find_0 [simp]: "str_find s q 0 = None \<longleftrightarrow> \<not> str_contains s q"
  by (simp add: str_find_def str_contains_def)

lemma lb_search_loop_eq:
  assumes "limit > 0" "length (sr_entries r) \<le> limit"
  shows "lb_search_loop query limit es r =
    r\<lparr>sr_entries := sr_entries r @ take (limit - length (sr_entries r)) (search_hits query es),
      sr_highlights := sr_highlights r @
        concat (map (entry_highlights query) (take (limit - length (sr_entries r)) (search_hits query es))),
      sr_truncated := (sr_truncated r \<or> limit < length (sr_entries r) + length (search_hits query es))\<rparr>"
  using assms(2)
proof (induction es arbitrary: r)
  case Nil
  then show ?case by (simp add: search_hits_def)
next
  case (Cons e es)
  show ?case
  proof (cases "\<not> str_contains (en_text e) query")
    case True
    with Cons show ?thesis by (simp add: search_hits_def)
  next
    case False
    show ?thesis
    proof (cases "length (sr_entries r) = limit")
      case True
      with False show ?thesis by (simp add: search_hits_def)
    next
      case less: False
      then have "limit - length (sr_entries r) = Suc (limit - Suc (length (sr_entries r)))"
        using Cons.prems by simp
      with False less Cons show ?thesis by (simp add: search_hits_def)
    qed
  qed
qed

section \<open>Properties\<close>

text \<open>Claim C1: how a log stream is cut into reads does not matter: after any history of reads on both
  streams, feeding a stream in pieces leaves the same buffer, timestamps aside, as feeding it in one
  read: the same lines with the same revisions, byte ranges and evictions, the same partial line and
  the same pending carriage return, also when a CR LF pair is split between two reads.\<close>

theorem log_buffer_chunking_independent:
  "let b = lb_run history (LogBuffer_new source limits) in
   lb_erase (lb_run (map (Pair stream) chunks) b) =
   lb_erase (lb_Append stream (concat (map fst chunks)) ts b)"
proof -
  let ?b = "lb_run history (LogBuffer_new source limits)"
  have "no_cr stream ?b" by (intro no_cr_run no_cr_new)
  then show ?thesis
    by (cases "concat (map fst chunks) = []") (simp_all only: Let_def lb_erase_run lb_erase_Append
        simp_thms if_True if_False lb_append_loop.simps)
qed

text \<open>For any sequence of reads on both streams, as long as fewer than 2^64 - 1 bytes were
  read, the buffer is within both of its limits, its byte count is exact, the revisions of the
  retained lines are consecutive and end just below the next revision, and every line ever completed
  is either retained or counted as dropped.\<close>

theorem log_buffer_bounded_and_numbered:
  assumes "read_bytes reads + 1 < u64_modulus"
  shows "let b = lb_run reads (LogBuffer_new source limits) in
    (li_max_entries limits > 0 \<longrightarrow> length (lb_entries b) \<le> li_max_entries limits)
    \<and> (li_max_bytes limits > 0 \<longrightarrow> text_bytes (lb_entries b) \<le> li_max_bytes limits)
    \<and> lb_retained_bytes b = text_bytes (lb_entries b)
    \<and> map en_revision (lb_entries b) = [lb_next_revision b - length (lb_entries b) ..< lb_next_revision b]
    \<and> lb_dropped_entries b + length (lb_entries b) = lb_next_revision b - 1"
proof -
  let ?b = "lb_run reads (LogBuffer_new source limits)"
  have "lb_advances (read_bytes reads) (LogBuffer_new source limits) ?b"
    using assms by (intro lb_run_advances lb_inv_new) (simp add: LogBuffer_new_def)
  then have "lb_inv ?b" "lb_limits ?b = limits" by (simp_all add: lb_advances_def LogBuffer_new_def)
  then show ?thesis by (auto simp: Let_def lb_inv_def within_limits_def)
qed

text \<open>Two lines on stdout, one on stderr, with room for two lines: the first line is dropped.\<close>

definition demo_source :: EvidenceSourceRef where
  "demo_source = \<lparr>es_kind = ManagedLogSession, es_session_id = SessionId ''s_1''\<rparr>"

definition demo_log :: LogBuffer where
  "demo_log = lb_run [(Stdout, ''ab'' @ [ch_nl] @ ''c'', 5), (Stderr, ''x'' @ [ch_cr, ch_nl], 6), (Stdout, [ch_nl], 7)]
     (LogBuffer_new demo_source \<lparr>li_max_bytes = 100, li_max_entries = 2\<rparr>)"

lemma demo_log_inv: "lb_inv demo_log"
proof -
  have "lb_advances (read_bytes [(Stdout, ''ab'' @ [ch_nl] @ ''c'', 5), (Stderr, ''x'' @ [ch_cr, ch_nl], 6),
      (Stdout, [ch_nl], 7)]) (LogBuffer_new demo_source \<lparr>li_max_bytes = 100, li_max_entries = 2\<rparr>) demo_log"
    unfolding demo_log_def
    by (intro lb_run_advances lb_inv_new) (simp add: LogBuffer_new_def read_bytes_def)
  then show ?thesis by (simp add: lb_advances_def)
qed

lemma demo_log_entries:
  "map en_revision (lb_entries demo_log) = [2, 3]" "map en_text (lb_entries demo_log) = [''x'', ''c'']"
  "lb_next_revision demo_log = 4"
  by (simp_all add: demo_log_def lb_run_def lb_read_def lb_Append_def LogBuffer_new_def lb_char_def
      lb_complete_def CompleteLine_def lb_EvictIfNeeded_def strip_cr_def completed_entry_def
      lb_clear_partial_def u64_add_def Let_def)

lemma demo_log_revisions: "hd (map en_revision (lb_entries demo_log)) = 2"
  "last (map en_revision (lb_entries demo_log)) = 3" "length (lb_entries demo_log) = 2"
proof -
  have "length (lb_entries demo_log) = length (map en_revision (lb_entries demo_log))" by simp
  then show "length (lb_entries demo_log) = 2" by (simp only: demo_log_entries) simp
qed (simp_all only: demo_log_entries, simp_all)

lemma demo_log_contains: "ContainsRevision 3 demo_log"
proof -
  have "lb_entries demo_log \<noteq> []" using demo_log_revisions(3) by auto
  with demo_log_revisions show ?thesis by (simp add: ContainsRevision_def hd_map last_map)
qed

theorem log_buffer_bounded_and_numbered_witness:
  "map en_text (lb_entries demo_log) = [''x'', ''c''] \<and> lb_next_revision demo_log = 4
   \<and> lb_dropped_entries demo_log + length (lb_entries demo_log) = lb_next_revision demo_log - 1"
proof -
  have "read_bytes [(Stdout, ''ab'' @ [ch_nl] @ ''c'', 5), (Stderr, ''x'' @ [ch_cr, ch_nl], 6), (Stdout, [ch_nl], 7)]
      + 1 < u64_modulus" by (simp add: read_bytes_def)
  note bounds = log_buffer_bounded_and_numbered [OF this, of demo_source "\<lparr>li_max_bytes = 100, li_max_entries = 2\<rparr>",
      folded demo_log_def]
  have "map en_text (lb_entries demo_log) = [''x'', ''c'']" "lb_next_revision demo_log = 4"
    by (simp_all add: demo_log_def lb_run_def lb_read_def lb_Append_def LogBuffer_new_def lb_char_def
        lb_complete_def CompleteLine_def lb_EvictIfNeeded_def strip_cr_def completed_entry_def
        lb_clear_partial_def u64_add_def Let_def)
  with bounds show ?thesis by (simp add: Let_def)
qed

text \<open>A revision range returns, oldest first and cut to the limit, exactly the retained lines
  whose revision lies in the range, whatever the bounds are.\<close>

theorem log_buffer_range_exact:
  assumes "lb_inv b"
  shows "lb_Range revision_start revision_end limit b =
    take limit (filter (\<lambda>e. revision_start \<le> en_revision e \<and> en_revision e \<le> revision_end) (lb_entries b))"
  using assms by (rule lb_Range_eq)

theorem log_buffer_range_exact_witness:
  "lb_Range 0 2 10 demo_log =
     take 10 (filter (\<lambda>e. 0 \<le> en_revision e \<and> en_revision e \<le> 2) (lb_entries demo_log))"
  by (rule log_buffer_range_exact) (rule demo_log_inv)

text \<open>A context query for a retained revision returns the lines at most \<open>before\<close> below and
  \<open>after\<close> above it, the anchor included, provided \<open>after\<close> plus the number of lines stays below 2^64.\<close>

theorem log_buffer_context_exact:
  assumes "lb_inv b" "ContainsRevision revision b" "length (lb_entries b) + after < u64_modulus"
  shows "lb_Context revision before after b =
    Some (filter (\<lambda>e. revision - before \<le> en_revision e \<and> en_revision e \<le> revision + after) (lb_entries b))"
  using assms by (rule lb_Context_eq)

theorem log_buffer_context_exact_witness:
  "lb_Context 3 1 5 demo_log =
     Some (filter (\<lambda>e. 3 - 1 \<le> en_revision e \<and> en_revision e \<le> 3 + 5) (lb_entries demo_log))"
  by (rule log_buffer_context_exact) (simp_all add: demo_log_inv demo_log_contains demo_log_revisions)

text \<open>With \<open>after\<close> at the top of its range the sum that bounds a context query wraps around: for
  the last of two retained lines, without lines before, \<open>after = 2^64 - 1\<close> loses the anchor line itself
  (nothing is returned), and \<open>after = 2^64 - 2\<close> reserves a negative size, an exception.\<close>

theorem log_buffer_context_wraps:
  "lb_Context 3 0 (u64_modulus - 1) demo_log = Some []
   \<and> lb_Context 3 0 (u64_modulus - 2) demo_log = None"
proof -
  have ne: "lb_entries demo_log \<noteq> []" using demo_log_revisions(3) by auto
  then have "en_revision (hd (lb_entries demo_log)) = 2" using demo_log_revisions(1) by (simp add: hd_map)
  with ne demo_log_contains show ?thesis
    by (simp add: lb_Context_def Let_def demo_log_revisions(3) u64_add_def u64_sub_def)
qed

text \<open>A search returns the first \<open>limit\<close> retained lines that contain the query, in order, says
  it was truncated exactly when more lines match, and highlights in every returned line positions
  where the query occurs, such that every occurrence starts inside a highlighted one.\<close>

theorem log_buffer_search_complete:
  assumes "query \<noteq> []" "limit > 0"
  shows "sr_entries (lb_Search query limit b) =
      take limit (filter (\<lambda>e. str_contains (en_text e) query) (lb_entries b))
    \<and> sr_truncated (lb_Search query limit b) =
      (limit < length (filter (\<lambda>e. str_contains (en_text e) query) (lb_entries b)))
    \<and> sr_highlights (lb_Search query limit b) =
      concat (map (entry_highlights query) (sr_entries (lb_Search query limit b)))
    \<and> (\<forall>t i. i \<in> set (match_offsets query t 0) \<longrightarrow> starts_with (drop i t) query)
    \<and> (\<forall>t j. j \<le> length t \<and> starts_with (drop j t) query \<longrightarrow>
        (\<exists>i \<in> set (match_offsets query t 0). i \<le> j \<and> j < i + length query))"
  using lb_search_loop_eq [of limit "\<lparr>sr_entries = [], sr_highlights = [], sr_truncated = False\<rparr>" query]
    match_offsets_spec [of query _ 0] assms
  by (auto simp: lb_Search_def Let_def search_hits_def)

theorem log_buffer_search_complete_witness:
  "map en_text (sr_entries (lb_Search ''c'' 5 demo_log)) = [''c'']
   \<and> \<not> sr_truncated (lb_Search ''c'' 5 demo_log)"
proof -
  have "''c'' \<noteq> []" "(5 :: nat) > 0" by simp_all
  note facts = log_buffer_search_complete [OF this, of demo_log]
  have "map en_text (filter (\<lambda>e. str_contains (en_text e) ''c'') (lb_entries demo_log)) =
      filter (\<lambda>t. str_contains t ''c'') (map en_text (lb_entries demo_log))"
    by (simp add: filter_map comp_def)
  also have "\<dots> = [''c'']" by (simp add: demo_log_entries str_contains_def starts_with_def)
  finally have hits: "map en_text (filter (\<lambda>e. str_contains (en_text e) ''c'') (lb_entries demo_log)) = [''c'']" .
  then have "length (filter (\<lambda>e. str_contains (en_text e) ''c'') (lb_entries demo_log)) = 1"
    by (metis length_map One_nat_def list.size(3,4) add_0 plus_1_eq_Suc)
  with facts hits show ?thesis by (simp add: take_map [symmetric])
qed

end
