(* ===== verification/Json_Value.thy ===== *)
theory Json_Value
  imports Utf8
begin

text \<open>
  The JSON documents of the store files, as \<open>boost::json\<close> represents them: the kind of a number
  matters, since the source asks for \<open>is_int64\<close> or \<open>is_uint64\<close>; a double stands for itself by its
  printed form. \<open>boost::json\<close> is not part of the sources: \<open>JsonLib\<close> holds its \<open>parse\<close> and
  \<open>serialize\<close>, and the locale \<open>json_lib\<close> is what the stores rely on. Parsing a serialised document
  gives the document back, except that an unsigned number that fits into a signed 64-bit one comes
  back as a signed one; this holds of the documents that the parser accepts at all (UTF-8 strings,
  numbers in range, distinct keys, at most 32 levels). The parser returns only such documents.
  \<open>unary_json\<close> is an executable instance, on which the locale is interpreted.
\<close>

datatype json =
    JNull
  | JBool bool
  | JInt64 int
  | JUint64 nat
  | JDouble string
  | JString string
  | JArray "json list"
  | JObject "(string \<times> json) list"

fun json_reparse :: "json \<Rightarrow> json" where
  "json_reparse (JUint64 n) = (if int n < 2 ^ 63 then JInt64 (int n) else JUint64 n)"
| "json_reparse (JArray xs) = JArray (map json_reparse xs)"
| "json_reparse (JObject kvs) = JObject (map (\<lambda>(k, v). (k, json_reparse v)) kvs)"
| "json_reparse v = v"

fun json_ok :: "nat \<Rightarrow> json \<Rightarrow> bool" where
  "json_ok d JNull = True"
| "json_ok d (JBool b) = True"
| "json_ok d (JInt64 i) = int64_ok i"
| "json_ok d (JUint64 n) = (int n < 2 ^ 64)"
| "json_ok d (JDouble x) = (x \<noteq> ''nan'')"
| "json_ok d (JString s) = valid_utf8 s"
| "json_ok d (JArray xs) = (0 < d \<and> list_all (json_ok (d - 1)) xs)"
| "json_ok d (JObject kvs) =
     (0 < d \<and> distinct (map fst kvs) \<and> list_all (\<lambda>kv. valid_utf8 (fst kv) \<and> json_ok (d - 1) (snd kv)) kvs)"

definition max_depth :: nat where
  "max_depth = 32"

record JsonLib =
  jl_parse :: "string \<Rightarrow> json option"
  jl_serialize :: "json \<Rightarrow> string"

definition json_lib_roundtrip :: "JsonLib \<Rightarrow> bool" where
  "json_lib_roundtrip lib \<longleftrightarrow>
     (\<forall>v. json_ok max_depth v \<longrightarrow> jl_parse lib (jl_serialize lib v) = Some (json_reparse v))"

definition json_lib_accepts_ok :: "JsonLib \<Rightarrow> bool" where
  "json_lib_accepts_ok lib \<longleftrightarrow> (\<forall>c v. jl_parse lib c = Some v \<longrightarrow> json_ok max_depth v)"

locale json_lib =
  fixes lib :: JsonLib
  assumes roundtrip: "json_lib_roundtrip lib"
    and accepts_ok: "json_lib_accepts_ok lib"
begin

lemma parse_serialize: "json_ok max_depth v \<Longrightarrow> jl_parse lib (jl_serialize lib v) = Some (json_reparse v)"
  using roundtrip by (simp add: json_lib_roundtrip_def)

lemma parse_ok: "jl_parse lib c = Some v \<Longrightarrow> json_ok max_depth v"
  using accepts_ok by (auto simp: json_lib_accepts_ok_def)

end

section \<open>Access\<close>

fun if_contains :: "json \<Rightarrow> string \<Rightarrow> json option" where
  "if_contains (JObject kvs) k = map_of kvs k"
| "if_contains v k = None"

fun is_object :: "json \<Rightarrow> bool" where
  "is_object (JObject kvs) = True"
| "is_object v = False"

fun as_string :: "json \<Rightarrow> string option" where
  "as_string (JString s) = Some s"
| "as_string v = None"

fun as_int64 :: "json \<Rightarrow> int option" where
  "as_int64 (JInt64 i) = Some i"
| "as_int64 v = None"

fun as_bool :: "json \<Rightarrow> bool option" where
  "as_bool (JBool b) = Some b"
| "as_bool v = None"

fun as_array :: "json \<Rightarrow> json list option" where
  "as_array (JArray xs) = Some xs"
| "as_array v = None"

text \<open>\<open>is_uint64\<close>, or \<open>is_int64\<close> and not negative, as a \<open>uint64_t\<close>.\<close>

fun as_unsigned :: "json \<Rightarrow> nat option" where
  "as_unsigned (JUint64 n) = Some n"
| "as_unsigned (JInt64 i) = (if i \<ge> 0 then Some (nat i) else None)"
| "as_unsigned v = None"

text \<open>A member that must be present and have the right kind.\<close>

definition required :: "(json \<Rightarrow> 'a option) \<Rightarrow> json \<Rightarrow> string \<Rightarrow> 'a option" where
  "required kind v k = Option.bind (if_contains v k) kind"

text \<open>A member that may be absent; \<^const>\<open>None\<close> when it is present with the wrong kind.\<close>

definition optional :: "(json \<Rightarrow> 'a option) \<Rightarrow> json \<Rightarrow> string \<Rightarrow> 'a option option" where
  "optional kind v k =
     (case if_contains v k of None \<Rightarrow> Some None | Some m \<Rightarrow> map_option Some (kind m))"

text \<open>All elements or nothing: the loops that return on the first element that does not parse.\<close>

fun map_all :: "('a \<Rightarrow> 'b option) \<Rightarrow> 'a list \<Rightarrow> 'b list option" where
  "map_all f [] = Some []"
| "map_all f (x # xs) =
     (case f x of None \<Rightarrow> None | Some y \<Rightarrow> map_option ((#) y) (map_all f xs))"

lemma map_all_map: "(\<And>x. x \<in> set xs \<Longrightarrow> f (g x) = Some (h x)) \<Longrightarrow> map_all f (map g xs) = Some (map h xs)"
  by (induction xs) auto

lemma json_reparse_JString [simp]: "json_reparse \<circ> JString = JString"
  by auto

lemma map_all_as_string [simp]: "map_all as_string (map JString xs) = Some xs"
  using map_all_map [of xs as_string JString "\<lambda>x. x"] by simp

lemma is_object_reparse [simp]: "is_object (json_reparse v) = is_object v"
  by (cases v) simp_all

lemma if_contains_reparse [simp]: "if_contains (json_reparse v) k = map_option json_reparse (if_contains v k)"
proof (cases v)
  case (JObject kvs)
  have "map_of (map (\<lambda>(k, v). (k, json_reparse v)) kvs) k = map_option json_reparse (map_of kvs k)"
    by (induction kvs) auto
  with JObject show ?thesis by simp
qed simp_all

section \<open>What an accepted document holds\<close>

lemma json_ok_member: "json_ok d v \<Longrightarrow> if_contains v k = Some m \<Longrightarrow> json_ok (d - 1) m"
  by (cases v) (auto simp: list_all_iff dest: map_of_SomeD)

lemma json_ok_required_string: "json_ok d v \<Longrightarrow> required as_string v k = Some s \<Longrightarrow> valid_utf8 s"
  by (auto simp: required_def Option.bind_eq_Some_conv elim!: as_string.elims dest: json_ok_member)

lemma json_ok_required_int64: "json_ok d v \<Longrightarrow> required as_int64 v k = Some i \<Longrightarrow> int64_ok i"
  by (auto simp: required_def Option.bind_eq_Some_conv elim!: as_int64.elims dest: json_ok_member)

lemma json_ok_as_array: "json_ok d v \<Longrightarrow> as_array v = Some xs \<Longrightarrow> list_all (json_ok (d - 1)) xs"
  by (cases v) simp_all

lemma json_ok_required_array:
  "json_ok d v \<Longrightarrow> required as_array v k = Some xs \<Longrightarrow> list_all (json_ok (d - 2)) xs"
proof -
  assume v: "json_ok d v" and "required as_array v k = Some xs"
  then obtain m where m: "if_contains v k = Some m" "as_array m = Some xs"
    by (auto simp: required_def Option.bind_eq_Some_conv)
  have "list_all (json_ok (d - 1 - 1)) xs"
    using json_ok_as_array [OF json_ok_member [OF v m(1)] m(2)] .
  then show ?thesis by (simp add: numeral_2_eq_2)
qed

lemma map_all_Some: "map_all f xs = Some ys \<Longrightarrow> y \<in> set ys \<Longrightarrow> \<exists>x \<in> set xs. f x = Some y"
  by (induction xs arbitrary: ys) (auto split: option.splits)

section \<open>An executable library\<close>

text \<open>Tagged, length-prefixed documents with unary numbers.\<close>

definition enc_nat :: "nat \<Rightarrow> string" where
  "enc_nat n = replicate n CHR ''1'' @ ''.''"

fun dec_nat :: "string \<Rightarrow> (nat \<times> string) option" where
  "dec_nat [] = None"
| "dec_nat (c # cs) =
     (if c = CHR ''1'' then map_option (\<lambda>(n, r). (Suc n, r)) (dec_nat cs)
      else if c = CHR ''.'' then Some (0, cs) else None)"

definition enc_str :: "string \<Rightarrow> string" where
  "enc_str s = enc_nat (length s) @ s"

definition dec_str :: "string \<Rightarrow> (string \<times> string) option" where
  "dec_str cs =
     (case dec_nat cs of None \<Rightarrow> None
      | Some (n, r) \<Rightarrow> if length r < n then None else Some (take n r, drop n r))"

fun json_enc :: "json \<Rightarrow> string" where
  "json_enc JNull = ''n''"
| "json_enc (JBool b) = (if b then ''t'' else ''f'')"
| "json_enc (JInt64 i) = (if i < 0 then ''-'' @ enc_nat (nat (- i)) else ''+'' @ enc_nat (nat i))"
| "json_enc (JUint64 n) = (if int n < 2 ^ 63 then ''+'' else ''u'') @ enc_nat n"
| "json_enc (JDouble x) = ''d'' @ enc_str x"
| "json_enc (JString s) = ''s'' @ enc_str s"
| "json_enc (JArray xs) = ''['' @ enc_nat (length xs) @ concat (map json_enc xs)"
| "json_enc (JObject kvs) =
     ''{'' @ enc_nat (length kvs) @ concat (map (\<lambda>kv. enc_str (fst kv) @ json_enc (snd kv)) kvs)"

fun dec_list :: "(string \<Rightarrow> ('a \<times> string) option) \<Rightarrow> nat \<Rightarrow> string \<Rightarrow> ('a list \<times> string) option" where
  "dec_list f 0 cs = Some ([], cs)"
| "dec_list f (Suc n) cs =
     (case f cs of None \<Rightarrow> None
      | Some (x, r) \<Rightarrow> map_option (\<lambda>(xs, r'). (x # xs, r')) (dec_list f n r))"

definition dec_counted :: "(string \<Rightarrow> ('a \<times> string) option) \<Rightarrow> string \<Rightarrow> ('a list \<times> string) option" where
  "dec_counted f cs = (case dec_nat cs of None \<Rightarrow> None | Some (n, r) \<Rightarrow> dec_list f n r)"

definition dec_pair :: "(string \<Rightarrow> (json \<times> string) option) \<Rightarrow> string \<Rightarrow> ((string \<times> json) \<times> string) option" where
  "dec_pair f cs =
     (case dec_str cs of None \<Rightarrow> None
      | Some (k, r) \<Rightarrow> map_option (\<lambda>(v, r'). ((k, v), r')) (f r))"

fun json_dec :: "nat \<Rightarrow> string \<Rightarrow> (json \<times> string) option" where
  "json_dec 0 cs = None"
| "json_dec (Suc d) [] = None"
| "json_dec (Suc d) (c # cs) =
     (if c = CHR ''n'' then Some (JNull, cs)
      else if c = CHR ''t'' then Some (JBool True, cs)
      else if c = CHR ''f'' then Some (JBool False, cs)
      else if c = CHR ''-'' then map_option (\<lambda>(n, r). (JInt64 (- int n), r)) (dec_nat cs)
      else if c = CHR ''+'' then map_option (\<lambda>(n, r). (JInt64 (int n), r)) (dec_nat cs)
      else if c = CHR ''u'' then map_option (\<lambda>(n, r). (JUint64 n, r)) (dec_nat cs)
      else if c = CHR ''d'' then map_option (\<lambda>(s, r). (JDouble s, r)) (dec_str cs)
      else if c = CHR ''s'' then map_option (\<lambda>(s, r). (JString s, r)) (dec_str cs)
      else if c = CHR ''['' then map_option (\<lambda>(xs, r). (JArray xs, r)) (dec_counted (json_dec d) cs)
      else if c = CHR ''{'' then map_option (\<lambda>(kvs, r). (JObject kvs, r)) (dec_counted (dec_pair (json_dec d)) cs)
      else None)"

definition unary_json :: JsonLib where
  "unary_json =
     \<lparr>jl_parse = (\<lambda>cs. case json_dec (Suc max_depth) cs of
                    Some (v, []) \<Rightarrow> if json_ok max_depth v then Some v else None
                  | _ \<Rightarrow> None),
      jl_serialize = json_enc\<rparr>"

lemma dec_nat_enc [simp]: "dec_nat (enc_nat n @ r) = Some (n, r)"
  by (induction n) (simp_all add: enc_nat_def)

lemma dec_str_enc [simp]: "dec_str (enc_str s @ r) = Some (s, r)"
  by (simp add: dec_str_def enc_str_def)

lemma dec_list_concat:
  "(\<And>x r. x \<in> set xs \<Longrightarrow> f (g x @ r) = Some (h x, r)) \<Longrightarrow>
   dec_list f (length xs) (concat (map g xs) @ r) = Some (map h xs, r)"
  by (induction xs) simp_all

lemma json_dec_enc: "json_ok d v \<Longrightarrow> json_dec (Suc d) (json_enc v @ r) = Some (json_reparse v, r)"
proof (induction v arbitrary: d r)
  case (JArray xs)
  then obtain e where d: "d = Suc e" by (cases d) auto
  have "dec_list (json_dec d) (length xs) (concat (map json_enc xs) @ r) = Some (map json_reparse xs, r)"
    using JArray d by (intro dec_list_concat) (auto simp: list_all_iff simp del: json_dec.simps)
  then show ?case by (simp add: dec_counted_def)
next
  case (JObject kvs)
  then obtain e where d: "d = Suc e" by (cases d) auto
  have "dec_list (dec_pair (json_dec d)) (length kvs)
      (concat (map (\<lambda>kv. enc_str (fst kv) @ json_enc (snd kv)) kvs) @ r) =
      Some (map (\<lambda>(k, v). (k, json_reparse v)) kvs, r)"
    using JObject d
    by (intro dec_list_concat)
      (auto simp: list_all_iff dec_pair_def snds.simps simp del: json_dec.simps split: prod.splits)
  then show ?case by (simp add: dec_counted_def)
qed simp_all

lemma json_ok_reparse: "json_ok d v \<Longrightarrow> json_ok d (json_reparse v)"
proof (induction v arbitrary: d)
  case (JObject kvs)
  have keys: "fst \<circ> (\<lambda>(k, v). (k, json_reparse v)) = fst" by auto
  have "json_ok e (json_reparse (snd kv))" if "kv \<in> set kvs" "json_ok e (snd kv)" for kv e
    using JObject.IH [of kv "snd kv" e] that by (cases kv) simp
  then show ?case using JObject.prems by (auto simp: list_all_iff keys)
qed (auto simp: list_all_iff int64_ok_def)

interpretation unary_lib: json_lib unary_json
proof unfold_locales
  show "json_lib_roundtrip unary_json"
    using json_dec_enc [of max_depth _ "[]"] json_ok_reparse
    by (simp add: json_lib_roundtrip_def unary_json_def del: json_dec.simps)
  show "json_lib_accepts_ok unary_json"
    by (auto simp: json_lib_accepts_ok_def unary_json_def split: option.splits list.splits if_splits)
qed

end
