(* ===== verification/Pairing.thy ===== *)
theory Pairing
  imports Session_Types Host_Config Utf8
begin

text \<open>
  Device pairing and authorisation: \<open>include/vibe/auth/pairing.h\<close>, \<open>authorizer.h\<close>,
  \<open>src/auth/default_authorizer.cpp\<close>, \<open>src/auth/default_pairing_service.cpp\<close> and the interface
  \<open>include/vibe/store/pairing_store.h\<close>. The abstract class \<open>PairingStore\<close> is the record
  \<open>PairingStore\<close> of its methods on a store state; its contract is the locale \<open>pairing_store\<close>, in
  which the service is verified. Clock readings and generated identifiers, codes and tokens are
  arguments of the operations that read them.
\<close>

section \<open>Data\<close>

datatype DeviceType = DevUnknown | DevMobile | DevDesktop | DevBrowser

record PairingRequest =
  prq_pairing_id :: string
  prq_device_name :: string
  prq_device_type :: DeviceType
  prq_code :: string
  prq_requested_at_unix_ms :: unix_ms

record PairingRecord =
  prc_device_id :: string
  prc_device_name :: string
  prc_device_type :: DeviceType
  prc_bearer_token :: string
  prc_approved_at_unix_ms :: unix_ms

datatype PairingClaimStatus = ClaimPending | ClaimApproved | ClaimRejected | ClaimExpired

record 's PairingStore =
  LoadPendingPairings :: "'s \<Rightarrow> PairingRequest list"
  LoadApprovedPairings :: "'s \<Rightarrow> PairingRecord list"
  UpsertPendingPairing :: "PairingRequest \<Rightarrow> 's \<Rightarrow> bool \<times> 's"
  UpsertApprovedPairing :: "PairingRecord \<Rightarrow> 's \<Rightarrow> bool \<times> 's"
  RemovePendingPairing :: "string \<Rightarrow> 's \<Rightarrow> bool \<times> 's"
  RemoveApprovedPairing :: "string \<Rightarrow> 's \<Rightarrow> bool \<times> 's"

text \<open>\<open>UpsertBy\<close> and \<open>RemoveBy\<close> of \<open>file_stores.cpp\<close>.\<close>

fun UpsertBy :: "('a \<Rightarrow> bool) \<Rightarrow> 'a \<Rightarrow> 'a list \<Rightarrow> 'a list" where
  "UpsertBy P v [] = [v]"
| "UpsertBy P v (x # xs) = (if P x then v # xs else x # UpsertBy P v xs)"

definition RemoveBy :: "('a \<Rightarrow> bool) \<Rightarrow> 'a list \<Rightarrow> bool \<times> 'a list" where
  "RemoveBy P xs =
     (let ys = filter (\<lambda>x. \<not> P x) xs in (length ys \<noteq> length xs, ys))"

section \<open>Authorisation\<close>

datatype AuthorizationAction =
  ObserveSessions | ControlSession | ApprovePairingAction | ConfigureHost | ManageHostSetups

record RequestContext =
  rc_bearer_token :: string
  rc_client_address :: string
  rc_target :: string
  rc_is_websocket :: bool
  rc_is_local_request :: bool

record AuthResult =
  au_authenticated :: bool
  au_authorized :: bool
  au_device_id :: "string option"
  au_reason :: string

fun find_token :: "string \<Rightarrow> PairingRecord list \<Rightarrow> AuthResult" where
  "find_token bearer_token [] =
     \<lparr>au_authenticated = False, au_authorized = False, au_device_id = None,
      au_reason = ''invalid bearer token''\<rparr>"
| "find_token bearer_token (r # rs) =
     (if prc_bearer_token r = bearer_token
      then \<lparr>au_authenticated = True, au_authorized = True, au_device_id = Some (prc_device_id r),
            au_reason = []\<rparr>
      else find_token bearer_token rs)"

definition AuthenticateBearerToken :: "'s PairingStore \<Rightarrow> string \<Rightarrow> 's \<Rightarrow> AuthResult" where
  "AuthenticateBearerToken store bearer_token st =
     (if bearer_token = []
      then \<lparr>au_authenticated = False, au_authorized = False, au_device_id = None,
            au_reason = ''missing bearer token''\<rparr>
      else find_token bearer_token (LoadApprovedPairings store st))"

definition Authorize :: "'s PairingStore \<Rightarrow> RequestContext \<Rightarrow> AuthorizationAction \<Rightarrow> 's \<Rightarrow> AuthResult" where
  "Authorize store request_context action st =
     (if action = ApprovePairingAction \<or> action = ConfigureHost then
        if \<not> rc_is_local_request request_context then
          let auth_result = AuthenticateBearerToken store (rc_bearer_token request_context) st in
          \<lparr>au_authenticated = au_authenticated auth_result, au_authorized = False,
           au_device_id = au_device_id auth_result, au_reason = ''local request required''\<rparr>
        else
          \<lparr>au_authenticated = True, au_authorized = True, au_device_id = None, au_reason = []\<rparr>
      else AuthenticateBearerToken store (rc_bearer_token request_context) st)"

section \<open>The pairing service\<close>

record ApprovedClaim =
  cl_code :: string
  cl_record :: PairingRecord

record 's PairingService =
  ps_store :: 's
  ps_ttl_ms :: int
  ps_approved_claims :: "string \<rightharpoonup> ApprovedClaim"
  ps_rejected_claims :: "string \<rightharpoonup> unix_ms"

definition IsExpired :: "PairingRequest \<Rightarrow> unix_ms \<Rightarrow> int \<Rightarrow> bool" where
  "IsExpired request now_ms ttl_ms \<longleftrightarrow>
     (if ttl_ms \<le> 0 then False else prq_requested_at_unix_ms request + ttl_ms < now_ms)"

definition MakePairingCode :: "nat \<Rightarrow> string" where
  "MakePairingCode code_value =
     (let code = nat_to_string code_value in
      if length code < 6 then replicate (6 - length code) CHR ''0'' @ code else code)"

definition MakeRandomIdentifier :: "string \<Rightarrow> nat list \<Rightarrow> string" where
  "MakeRandomIdentifier id_prefix random_bytes = id_prefix @ RandomHexToken random_bytes"

text \<open>The loop that removes the expired requests of a list; a removal that fails is ignored.\<close>

fun drop_expired :: "'s PairingStore \<Rightarrow> unix_ms \<Rightarrow> int \<Rightarrow> PairingRequest list \<Rightarrow> 's \<Rightarrow> 's" where
  "drop_expired store now_ms ttl_ms [] st = st"
| "drop_expired store now_ms ttl_ms (pending # rest) st =
     drop_expired store now_ms ttl_ms rest
       (if IsExpired pending now_ms ttl_ms
        then snd (RemovePendingPairing store (prq_pairing_id pending) st) else st)"

definition StartPairing ::
    "'s PairingStore \<Rightarrow> unix_ms \<Rightarrow> string \<Rightarrow> string \<Rightarrow> string \<Rightarrow> DeviceType \<Rightarrow> 's PairingService
       \<Rightarrow> PairingRequest option \<times> 's PairingService" where
  "StartPairing store now_ms new_id new_code device_name device_type svc =
     (if device_name = [] then (None, svc)
      else
        let st1 = drop_expired store now_ms (ps_ttl_ms svc) (LoadPendingPairings store (ps_store svc))
                    (ps_store svc);
            request = \<lparr>prq_pairing_id = new_id, prq_device_name = device_name,
                       prq_device_type = device_type, prq_code = new_code,
                       prq_requested_at_unix_ms = now_ms\<rparr>;
            svc1 = svc\<lparr>ps_store := st1\<rparr>
        in
        if new_id = [] \<or> length new_code \<noteq> 6 then (None, svc1)
        else
          let (ok, st2) = UpsertPendingPairing store request st1;
              svc2 = svc1\<lparr>ps_store := st2\<rparr>
          in if \<not> ok then (None, svc2) else (Some request, svc2))"

definition before_in_list :: "PairingRequest \<Rightarrow> PairingRequest \<Rightarrow> bool" where
  "before_in_list l r \<longleftrightarrow>
     prq_requested_at_unix_ms l < prq_requested_at_unix_ms r
     \<or> prq_requested_at_unix_ms l = prq_requested_at_unix_ms r
       \<and> ord.lexordp (<) (map byte (prq_pairing_id l)) (map byte (prq_pairing_id r))"

fun sort_insert :: "PairingRequest \<Rightarrow> PairingRequest list \<Rightarrow> PairingRequest list" where
  "sort_insert x [] = [x]"
| "sort_insert x (y # ys) = (if before_in_list y x then y # sort_insert x ys else x # y # ys)"

definition ListPendingPairings :: "'s PairingStore \<Rightarrow> unix_ms \<Rightarrow> 's PairingService \<Rightarrow> PairingRequest list" where
  "ListPendingPairings store now_ms svc =
     foldr sort_insert
       (filter (\<lambda>request. \<not> IsExpired request now_ms (ps_ttl_ms svc))
          (LoadPendingPairings store (ps_store svc))) []"

definition ApprovePairing ::
    "'s PairingStore \<Rightarrow> unix_ms \<Rightarrow> string \<Rightarrow> string \<Rightarrow> unix_ms \<Rightarrow> string \<Rightarrow> string \<Rightarrow> 's PairingService
       \<Rightarrow> PairingRecord option \<times> 's PairingService" where
  "ApprovePairing store now_ms new_device_id new_token approved_at pairing_id code svc =
     (let pending_pairings = LoadPendingPairings store (ps_store svc);
          st1 = drop_expired store now_ms (ps_ttl_ms svc) pending_pairings (ps_store svc);
          svc1 = svc\<lparr>ps_store := st1\<rparr>
      in
      case find (\<lambda>pending. prq_pairing_id pending = pairing_id) pending_pairings of
        None \<Rightarrow> (None, svc1)
      | Some pending \<Rightarrow>
          if IsExpired pending now_ms (ps_ttl_ms svc) \<or> prq_code pending \<noteq> code then (None, svc1)
          else
            let record0 = \<lparr>prc_device_id = new_device_id, prc_device_name = prq_device_name pending,
                           prc_device_type = prq_device_type pending, prc_bearer_token = new_token,
                           prc_approved_at_unix_ms = approved_at\<rparr>
            in
            if new_device_id = [] \<or> new_token = [] then (None, svc1)
            else
              let (upserted, st2) = UpsertApprovedPairing store record0 st1 in
              if \<not> upserted then (None, svc1\<lparr>ps_store := st2\<rparr>)
              else
                let (removed, st3) = RemovePendingPairing store pairing_id st2 in
                if \<not> removed then
                  (None, svc1\<lparr>ps_store := snd (RemoveApprovedPairing store new_device_id st3)\<rparr>)
                else
                  (Some record0,
                   svc1\<lparr>ps_store := st3,
                        ps_approved_claims := (ps_approved_claims svc1)(pairing_id \<mapsto>
                          \<lparr>cl_code = code, cl_record = record0\<rparr>),
                        ps_rejected_claims := (ps_rejected_claims svc1)(pairing_id := None)\<rparr>))"

definition ClaimApprovedPairing :: "string \<Rightarrow> string \<Rightarrow> 's PairingService \<Rightarrow> PairingRecord option" where
  "ClaimApprovedPairing pairing_id code svc =
     (case ps_approved_claims svc pairing_id of
        None \<Rightarrow> None
      | Some claim \<Rightarrow> if cl_code claim \<noteq> code then None else Some (cl_record claim))"

definition GetPairingClaimStatus ::
    "'s PairingStore \<Rightarrow> unix_ms \<Rightarrow> string \<Rightarrow> string \<Rightarrow> 's PairingService \<Rightarrow> PairingClaimStatus" where
  "GetPairingClaimStatus store now_ms pairing_id code svc =
     (case ps_approved_claims svc pairing_id of
        Some claim \<Rightarrow> if cl_code claim = code then ClaimApproved else ClaimRejected
      | None \<Rightarrow>
          if ps_rejected_claims svc pairing_id \<noteq> None then ClaimRejected
          else
            case find (\<lambda>pending. prq_pairing_id pending = pairing_id)
                   (LoadPendingPairings store (ps_store svc)) of
              None \<Rightarrow> ClaimRejected
            | Some pending \<Rightarrow>
                if IsExpired pending now_ms (ps_ttl_ms svc) then ClaimExpired
                else if prq_code pending = code then ClaimPending else ClaimRejected)"

definition RejectPairing ::
    "'s PairingStore \<Rightarrow> unix_ms \<Rightarrow> string \<Rightarrow> 's PairingService \<Rightarrow> bool \<times> 's PairingService" where
  "RejectPairing store now_ms pairing_id svc =
     (let (removed, st) = RemovePendingPairing store pairing_id (ps_store svc) in
      (removed,
       svc\<lparr>ps_store := st,
           ps_approved_claims := (ps_approved_claims svc)(pairing_id := None),
           ps_rejected_claims := (ps_rejected_claims svc)(pairing_id \<mapsto> now_ms)\<rparr>))"

text \<open>The request that an approval needs, and the record it creates.\<close>

definition approvable :: "'s PairingStore \<Rightarrow> unix_ms \<Rightarrow> string \<Rightarrow> string \<Rightarrow> 's PairingService \<Rightarrow> PairingRequest \<Rightarrow> bool" where
  "approvable store now pairing_id code svc r \<longleftrightarrow>
     find (\<lambda>p. prq_pairing_id p = pairing_id) (LoadPendingPairings store (ps_store svc)) = Some r
     \<and> \<not> IsExpired r now (ps_ttl_ms svc) \<and> prq_code r = code"

definition device_record :: "string \<Rightarrow> string \<Rightarrow> unix_ms \<Rightarrow> PairingRequest \<Rightarrow> PairingRecord" where
  "device_record device_id token approved_at r =
     \<lparr>prc_device_id = device_id, prc_device_name = prq_device_name r,
      prc_device_type = prq_device_type r, prc_bearer_token = token,
      prc_approved_at_unix_ms = approved_at\<rparr>"

definition started_request :: "unix_ms \<Rightarrow> string \<Rightarrow> string \<Rightarrow> string \<Rightarrow> DeviceType \<Rightarrow> PairingRequest" where
  "started_request now_ms new_id new_code device_name device_type =
     \<lparr>prq_pairing_id = new_id, prq_device_name = device_name, prq_device_type = device_type,
      prq_code = new_code, prq_requested_at_unix_ms = now_ms\<rparr>"

text \<open>A history of calls of the service, each with the clock readings and the identifiers it used.\<close>

datatype pairing_op =
    PStart unix_ms string string string DeviceType
  | PApprove unix_ms string string unix_ms string string
  | PReject unix_ms string

fun pairing_exec :: "'s PairingStore \<Rightarrow> pairing_op \<Rightarrow> 's PairingService \<Rightarrow> 's PairingService" where
  "pairing_exec store (PStart now new_id new_code name kind) svc =
     snd (StartPairing store now new_id new_code name kind svc)"
| "pairing_exec store (PApprove now dev tok approved_at pairing_id code) svc =
     snd (ApprovePairing store now dev tok approved_at pairing_id code svc)"
| "pairing_exec store (PReject now pairing_id) svc = snd (RejectPairing store now pairing_id svc)"

definition pairing_run :: "'s PairingStore \<Rightarrow> pairing_op list \<Rightarrow> 's PairingService \<Rightarrow> 's PairingService" where
  "pairing_run store ops svc = fold (pairing_exec store) ops svc"

fun pairing_op_ok :: "pairing_op \<Rightarrow> bool" where
  "pairing_op_ok (PStart now new_id new_code name kind) \<longleftrightarrow>
     int64_ok now \<and> valid_utf8 new_id \<and> valid_utf8 new_code \<and> valid_utf8 name"
| "pairing_op_ok (PApprove now dev tok approved_at pairing_id code) \<longleftrightarrow>
     valid_utf8 dev \<and> valid_utf8 tok \<and> int64_ok approved_at"
| "pairing_op_ok (PReject now pairing_id) \<longleftrightarrow> True"

lemma pairing_run_simps [simp]:
  "pairing_run store [] svc = svc"
  "pairing_run store (ops @ [op]) svc = pairing_exec store op (pairing_run store ops svc)"
  by (simp_all add: pairing_run_def)

lemma ps_ttl_ms_run [simp]: "ps_ttl_ms (pairing_run store ops svc) = ps_ttl_ms svc"
proof (induction ops rule: rev_induct)
  case (snoc op ops)
  then show ?case
    by (cases op) (auto simp: StartPairing_def ApprovePairing_def RejectPairing_def Let_def
        split: prod.splits option.splits)
qed simp

lemma UpsertBy_subset: "set (UpsertBy P v xs) \<subseteq> insert v (set xs)"
  by (induction P v xs rule: UpsertBy.induct) auto

lemma UpsertBy_in: "v \<in> set (UpsertBy P v xs)"
  by (induction P v xs rule: UpsertBy.induct) auto

section \<open>The contract of a pairing store\<close>

text \<open>What an operation that reports failure may leave behind: everything as it was, or, when the file
  was lost while it was replaced, nothing.\<close>

definition store_kept :: "'s PairingStore \<Rightarrow> 's \<Rightarrow> 's \<Rightarrow> bool" where
  "store_kept store s s' \<longleftrightarrow>
     (LoadPendingPairings store s' = LoadPendingPairings store s
        \<and> LoadApprovedPairings store s' = LoadApprovedPairings store s)
     \<or> (LoadPendingPairings store s' = [] \<and> LoadApprovedPairings store s' = [])"

text \<open>What a record must satisfy to survive being stored: its texts are UTF-8 (the JSON parser rejects
  anything else) and its time is a 64-bit number.\<close>

definition PairingRequest_ok :: "PairingRequest \<Rightarrow> bool" where
  "PairingRequest_ok r \<longleftrightarrow>
     valid_utf8 (prq_pairing_id r) \<and> valid_utf8 (prq_device_name r) \<and> valid_utf8 (prq_code r)
     \<and> int64_ok (prq_requested_at_unix_ms r)"

definition PairingRecord_ok :: "PairingRecord \<Rightarrow> bool" where
  "PairingRecord_ok d \<longleftrightarrow>
     valid_utf8 (prc_device_id d) \<and> valid_utf8 (prc_device_name d) \<and> valid_utf8 (prc_bearer_token d)
     \<and> int64_ok (prc_approved_at_unix_ms d)"

locale pairing_store =
  fixes store :: "'s PairingStore" and invar :: "'s \<Rightarrow> bool"
  assumes loaded_pending_ok: "r \<in> set (LoadPendingPairings store s) \<Longrightarrow> PairingRequest_ok r"
    and upsert_pending: "\<lbrakk>invar s; PairingRequest_ok r; UpsertPendingPairing store r s = (True, s')\<rbrakk> \<Longrightarrow>
      LoadPendingPairings store s' =
        UpsertBy (\<lambda>x. prq_pairing_id x = prq_pairing_id r) r (LoadPendingPairings store s)
      \<and> LoadApprovedPairings store s' = LoadApprovedPairings store s"
    and upsert_approved: "\<lbrakk>invar s; PairingRecord_ok d; UpsertApprovedPairing store d s = (True, s')\<rbrakk> \<Longrightarrow>
      LoadApprovedPairings store s' =
        UpsertBy (\<lambda>x. prc_device_id x = prc_device_id d) d (LoadApprovedPairings store s)
      \<and> LoadPendingPairings store s' = LoadPendingPairings store s"
    and remove_pending: "\<lbrakk>invar s; RemovePendingPairing store i s = (True, s')\<rbrakk> \<Longrightarrow>
      LoadPendingPairings store s' = filter (\<lambda>x. prq_pairing_id x \<noteq> i) (LoadPendingPairings store s)
      \<and> LoadApprovedPairings store s' = LoadApprovedPairings store s"
    and remove_approved: "\<lbrakk>invar s; RemoveApprovedPairing store j s = (True, s')\<rbrakk> \<Longrightarrow>
      LoadApprovedPairings store s' = filter (\<lambda>x. prc_device_id x \<noteq> j) (LoadApprovedPairings store s)
      \<and> LoadPendingPairings store s' = LoadPendingPairings store s"
    and upsert_pending_fails: "\<lbrakk>invar s; UpsertPendingPairing store r s = (False, s')\<rbrakk> \<Longrightarrow> store_kept store s s'"
    and upsert_approved_fails: "\<lbrakk>invar s; UpsertApprovedPairing store d s = (False, s')\<rbrakk> \<Longrightarrow> store_kept store s s'"
    and remove_pending_fails: "\<lbrakk>invar s; RemovePendingPairing store i s = (False, s')\<rbrakk> \<Longrightarrow> store_kept store s s'"
    and remove_approved_fails: "\<lbrakk>invar s; RemoveApprovedPairing store j s = (False, s')\<rbrakk> \<Longrightarrow> store_kept store s s'"
    and upsert_pending_invar: "invar s \<Longrightarrow> invar (snd (UpsertPendingPairing store r s))"
    and upsert_approved_invar: "invar s \<Longrightarrow> invar (snd (UpsertApprovedPairing store d s))"
    and remove_pending_invar: "invar s \<Longrightarrow> invar (snd (RemovePendingPairing store i s))"
    and remove_approved_invar: "invar s \<Longrightarrow> invar (snd (RemoveApprovedPairing store j s))"
begin

abbreviation approved :: "'s \<Rightarrow> PairingRecord set" where
  "approved s \<equiv> set (LoadApprovedPairings store s)"

abbreviation pending :: "'s \<Rightarrow> PairingRequest set" where
  "pending s \<equiv> set (LoadPendingPairings store s)"

text \<open>A step of the store that adds at most the given requests and records.\<close>

definition adds :: "PairingRequest set \<Rightarrow> PairingRecord set \<Rightarrow> 's \<Rightarrow> 's \<Rightarrow> bool" where
  "adds R D s s' \<longleftrightarrow> invar s' \<and> approved s' \<subseteq> D \<union> approved s \<and> pending s' \<subseteq> R \<union> pending s"

lemma adds_refl: "invar s \<Longrightarrow> adds R D s s"
  by (auto simp: adds_def)

lemma adds_trans: "adds R D s s' \<Longrightarrow> adds R' D' s' s'' \<Longrightarrow> adds (R \<union> R') (D \<union> D') s s''"
  by (auto simp: adds_def)

lemma adds_kept: "store_kept store s s' \<Longrightarrow> invar s' \<Longrightarrow> adds R D s s'"
  by (auto simp: store_kept_def adds_def)

lemma remove_pending_adds:
  assumes "invar s"
  shows "adds {} {} s (snd (RemovePendingPairing store i s))"
proof (cases "RemovePendingPairing store i s")
  case (Pair ok s')
  then show ?thesis
    using remove_pending [OF assms, of i s'] remove_pending_fails [OF assms, of i s']
      remove_pending_invar [OF assms, of i] adds_kept [of s s']
    by (cases ok) (auto simp: adds_def)
qed

lemma remove_approved_adds:
  assumes "invar s"
  shows "adds {} {} s (snd (RemoveApprovedPairing store j s))"
proof (cases "RemoveApprovedPairing store j s")
  case (Pair ok s')
  then show ?thesis
    using remove_approved [OF assms, of j s'] remove_approved_fails [OF assms, of j s']
      remove_approved_invar [OF assms, of j] adds_kept [of s s']
    by (cases ok) (auto simp: adds_def)
qed

lemma upsert_pending_adds:
  assumes "invar s" "PairingRequest_ok r"
  shows "adds {r} {} s (snd (UpsertPendingPairing store r s))"
proof (cases "UpsertPendingPairing store r s")
  case (Pair ok s')
  then show ?thesis
    using upsert_pending [OF assms, of s'] upsert_pending_fails [OF assms(1), of r s']
      upsert_pending_invar [OF assms(1), of r] adds_kept [of s s']
      UpsertBy_subset [of "\<lambda>x. prq_pairing_id x = prq_pairing_id r" r "LoadPendingPairings store s"]
    by (cases ok) (auto simp: adds_def)
qed

lemma upsert_approved_adds:
  assumes "invar s" "PairingRecord_ok d"
  shows "adds {} {d} s (snd (UpsertApprovedPairing store d s))"
proof (cases "UpsertApprovedPairing store d s")
  case (Pair ok s')
  then show ?thesis
    using upsert_approved [OF assms, of s'] upsert_approved_fails [OF assms(1), of d s']
      upsert_approved_invar [OF assms(1), of d] adds_kept [of s s']
      UpsertBy_subset [of "\<lambda>x. prc_device_id x = prc_device_id d" d "LoadApprovedPairings store s"]
    by (cases ok) (auto simp: adds_def)
qed

lemma drop_expired_adds: "invar s \<Longrightarrow> adds {} {} s (drop_expired store now ttl ps s)"
proof (induction ps arbitrary: s)
  case (Cons r rs)
  let ?s = "if IsExpired r now ttl then snd (RemovePendingPairing store (prq_pairing_id r) s) else s"
  have s: "adds {} {} s ?s" using remove_pending_adds adds_refl Cons.prems by simp
  then have "adds {} {} ?s (drop_expired store now ttl rs ?s)"
    using Cons.IH by (simp add: adds_def)
  with s show ?case using adds_trans [of "{}" "{}" s ?s "{}" "{}"] by simp
qed (simp add: adds_refl)

lemma StartPairing_adds:
  assumes "invar (ps_store svc)" "valid_utf8 new_id" "valid_utf8 new_code" "valid_utf8 name" "int64_ok now"
  shows "adds {started_request now new_id new_code name kind} {} (ps_store svc)
    (ps_store (snd (StartPairing store now new_id new_code name kind svc)))"
proof -
  let ?st = "drop_expired store now (ps_ttl_ms svc) (LoadPendingPairings store (ps_store svc)) (ps_store svc)"
  let ?r = "started_request now new_id new_code name kind"
  have st: "adds {} {} (ps_store svc) ?st" using drop_expired_adds assms(1) by simp
  then have inv: "invar ?st" by (simp add: adds_def)
  have "PairingRequest_ok ?r" using assms by (simp add: PairingRequest_ok_def started_request_def)
  then have up: "adds {?r} {} ?st (snd (UpsertPendingPairing store ?r ?st))"
    by (rule upsert_pending_adds [OF inv])
  have "ps_store (snd (StartPairing store now new_id new_code name kind svc)) =
      (if name = [] then ps_store svc else if new_id = [] \<or> length new_code \<noteq> 6 then ?st
       else snd (UpsertPendingPairing store ?r ?st))"
    by (simp add: StartPairing_def Let_def started_request_def split: prod.splits)
  then show ?thesis
    using adds_trans [OF st up] adds_trans [OF st adds_refl [OF inv, of "{?r}" "{}"]] adds_refl [OF assms(1)]
    by simp
qed

lemma RejectPairing_adds:
  "invar (ps_store svc) \<Longrightarrow> adds {} {} (ps_store svc) (ps_store (snd (RejectPairing store now i svc)))"
  using remove_pending_adds [of "ps_store svc" i]
  by (auto simp: RejectPairing_def split: prod.splits)

lemma approvable_record_ok:
  assumes "approvable store now pairing_id code svc r"
    and "valid_utf8 dev" "valid_utf8 tok" "int64_ok approved_at"
  shows "PairingRecord_ok (device_record dev tok approved_at r)"
proof -
  have "r \<in> pending (ps_store svc)"
    using assms(1) by (auto simp: approvable_def find_Some_iff)
  then show ?thesis
    using loaded_pending_ok [of r] assms by (simp add: PairingRecord_ok_def PairingRequest_ok_def device_record_def)
qed

lemma ApprovePairing_adds:
  fixes now dev tok approved_at pairing_id code svc
  assumes inv: "invar (ps_store svc)" and valid: "valid_utf8 dev" "valid_utf8 tok" "int64_ok approved_at"
  defines "svc' \<equiv> snd (ApprovePairing store now dev tok approved_at pairing_id code svc)"
  defines "D \<equiv> {device_record dev tok approved_at r | r. approvable store now pairing_id code svc r \<and> tok \<noteq> []}"
  shows "adds {} D (ps_store svc) (ps_store svc')"
proof -
  let ?ps = "LoadPendingPairings store (ps_store svc)"
  let ?st = "drop_expired store now (ps_ttl_ms svc) ?ps (ps_store svc)"
  have st: "adds {} {} (ps_store svc) ?st" using drop_expired_adds [OF inv] .
  then have inv1: "invar ?st" by (simp add: adds_def)
  show ?thesis
  proof (cases "\<exists>r. approvable store now pairing_id code svc r \<and> dev \<noteq> [] \<and> tok \<noteq> []")
    case False
    then have "ps_store svc' = ?st"
      by (auto simp: svc'_def ApprovePairing_def Let_def approvable_def split: option.splits)
    with st show ?thesis by (auto simp: adds_def)
  next
    case True
    then obtain r where r: "approvable store now pairing_id code svc r" "dev \<noteq> []" "tok \<noteq> []" by blast
    let ?rec = "device_record dev tok approved_at r"
    obtain up st2 where up: "UpsertApprovedPairing store ?rec ?st = (up, st2)"
      by (cases "UpsertApprovedPairing store ?rec ?st")
    obtain rm st3 where rm: "RemovePendingPairing store pairing_id st2 = (rm, st3)"
      by (cases "RemovePendingPairing store pairing_id st2")
    have eq: "ps_store svc' =
        (if \<not> up then st2 else if \<not> rm then snd (RemoveApprovedPairing store dev st3) else st3)"
      using r up rm by (simp add: svc'_def ApprovePairing_def Let_def approvable_def device_record_def)
    have st2: "adds {} {?rec} ?st st2"
      using upsert_approved_adds [OF inv1 approvable_record_ok [OF r(1) valid]] up by simp
    then have "adds {} {} st2 st3" using remove_pending_adds [of st2 pairing_id] rm by (simp add: adds_def)
    then have st3: "adds {} {?rec} ?st st3" and inv3: "invar st3"
      using adds_trans [OF st2, of "{}" "{}" st3] by (auto simp: adds_def)
    have "adds {} {?rec} ?st (snd (RemoveApprovedPairing store dev st3))"
      using adds_trans [OF st3 remove_approved_adds [OF inv3, of dev]] by simp
    then have "adds {} {?rec} ?st (ps_store svc')" using st2 st3 eq by simp
    then have "adds {} {?rec} (ps_store svc) (ps_store svc')"
      using adds_trans [OF st, of "{}" "{?rec}"] by simp
    moreover have "?rec \<in> D" using r by (auto simp: D_def)
    ultimately show ?thesis by (auto simp: adds_def)
  qed
qed

lemma ApprovePairing_succeeds:
  assumes inv: "invar (ps_store svc)" and valid: "valid_utf8 dev" "valid_utf8 tok" "int64_ok approved_at"
    and ap: "ApprovePairing store now dev tok approved_at pairing_id code svc = (Some rec, svc')"
  obtains r where "approvable store now pairing_id code svc r" "rec = device_record dev tok approved_at r"
    "tok \<noteq> []" "rec \<in> approved (ps_store svc')"
    "\<forall>p \<in> pending (ps_store svc'). prq_pairing_id p \<noteq> pairing_id"
    "ClaimApprovedPairing pairing_id code svc' = Some rec"
    "ps_approved_claims svc' = (ps_approved_claims svc)(pairing_id \<mapsto> \<lparr>cl_code = code, cl_record = rec\<rparr>)"
proof -
  let ?ps = "LoadPendingPairings store (ps_store svc)"
  let ?st = "drop_expired store now (ps_ttl_ms svc) ?ps (ps_store svc)"
  have inv1: "invar ?st" using drop_expired_adds [OF inv, of now "ps_ttl_ms svc" ?ps] by (simp add: adds_def)
  from ap obtain r where r: "approvable store now pairing_id code svc r" "dev \<noteq> []" "tok \<noteq> []"
    by (auto simp: ApprovePairing_def Let_def approvable_def split: option.splits if_splits prod.splits)
  let ?rec = "device_record dev tok approved_at r"
  obtain up st2 where up: "UpsertApprovedPairing store ?rec ?st = (up, st2)"
    by (cases "UpsertApprovedPairing store ?rec ?st")
  obtain rm st3 where rm: "RemovePendingPairing store pairing_id st2 = (rm, st3)"
    by (cases "RemovePendingPairing store pairing_id st2")
  from ap r up rm have ok: "up" "rm" "rec = ?rec" and svc': "svc' = svc\<lparr>ps_store := st3,
      ps_approved_claims := (ps_approved_claims svc)(pairing_id \<mapsto> \<lparr>cl_code = code, cl_record = ?rec\<rparr>),
      ps_rejected_claims := (ps_rejected_claims svc)(pairing_id := None)\<rparr>"
    by (auto simp: ApprovePairing_def Let_def approvable_def device_record_def split: if_splits)
  have "invar st2" using upsert_approved_invar [OF inv1, of ?rec] up by simp
  have "?rec \<in> approved st2"
    using upsert_approved [OF inv1 approvable_record_ok [OF r(1) valid], of st2] up ok by (simp add: UpsertBy_in)
  then have "?rec \<in> approved st3" "\<forall>p \<in> pending st3. prq_pairing_id p \<noteq> pairing_id"
    using remove_pending [OF \<open>invar st2\<close>, of pairing_id st3] rm ok by auto
  with that [of r] r ok svc' show thesis by (simp add: ClaimApprovedPairing_def)
qed

lemma pairing_run_invar:
  assumes "list_all pairing_op_ok ops" "invar (ps_store svc)"
  shows "invar (ps_store (pairing_run store ops svc))"
  using assms
proof (induction ops rule: rev_induct)
  case (snoc op ops)
  then show ?case
    using StartPairing_adds [of "pairing_run store ops svc"] ApprovePairing_adds [of "pairing_run store ops svc"]
      RejectPairing_adds [of "pairing_run store ops svc"]
    by (cases op) (auto simp: adds_def)
qed simp

text \<open>Every pending request of a run was started in it, and every approved device was approved in it
  while a request with the given id and code was pending and had not expired.\<close>

lemma pending_started:
  assumes "list_all pairing_op_ok ops" "invar (ps_store svc)" "LoadPendingPairings store (ps_store svc) = []"
    and "r \<in> pending (ps_store (pairing_run store ops svc))"
  shows "\<exists>now new_id new_code name kind. PStart now new_id new_code name kind \<in> set ops
    \<and> r = started_request now new_id new_code name kind"
  using assms
proof (induction ops rule: rev_induct)
  case (snoc op ops)
  let ?svc = "pairing_run store ops svc"
  have inv: "invar (ps_store ?svc)" using pairing_run_invar snoc.prems by simp
  have "r \<in> pending (ps_store ?svc)
      \<or> (\<exists>now new_id new_code name kind. op = PStart now new_id new_code name kind
           \<and> r = started_request now new_id new_code name kind)"
  proof (cases op)
    case (PStart now new_id new_code name kind)
    then show ?thesis using snoc.prems StartPairing_adds [OF inv, of new_id new_code name now kind] by (auto simp: adds_def)
  next
    case (PApprove now dev tok approved_at pairing_id code)
    then show ?thesis using snoc.prems ApprovePairing_adds [OF inv, of dev tok approved_at now pairing_id code] by (auto simp: adds_def)
  next
    case (PReject now pairing_id)
    then show ?thesis using snoc.prems RejectPairing_adds [OF inv, of now pairing_id] by (auto simp: adds_def)
  qed
  then show ?case
  proof
    assume "r \<in> pending (ps_store ?svc)"
    then have "\<exists>now new_id new_code name kind. PStart now new_id new_code name kind \<in> set ops
        \<and> r = started_request now new_id new_code name kind"
      using snoc.IH snoc.prems(1,2,3) by simp
    then show ?thesis by (metis UnCI set_append)
  next
    assume "\<exists>now new_id new_code name kind. op = PStart now new_id new_code name kind
        \<and> r = started_request now new_id new_code name kind"
    then show ?thesis by (metis in_set_conv_decomp)
  qed
qed simp

lemma approved_provenance:
  assumes "list_all pairing_op_ok ops" "invar (ps_store svc)" "LoadApprovedPairings store (ps_store svc) = []"
    and "d \<in> approved (ps_store (pairing_run store ops svc))"
  shows "\<exists>before after now dev tok approved_at pairing_id code r.
    ops = before @ PApprove now dev tok approved_at pairing_id code # after
    \<and> approvable store now pairing_id code (pairing_run store before svc) r
    \<and> d = device_record dev tok approved_at r"
  using assms
proof (induction ops rule: rev_induct)
  case (snoc op ops)
  let ?svc = "pairing_run store ops svc"
  have inv: "invar (ps_store ?svc)" using pairing_run_invar snoc.prems by simp
  have "d \<in> approved (ps_store ?svc)
      \<or> (\<exists>now dev tok approved_at pairing_id code r. op = PApprove now dev tok approved_at pairing_id code
           \<and> approvable store now pairing_id code ?svc r \<and> d = device_record dev tok approved_at r)"
  proof (cases op)
    case (PStart now new_id new_code name kind)
    then show ?thesis using snoc.prems StartPairing_adds [OF inv, of new_id new_code name now kind] by (auto simp: adds_def)
  next
    case (PApprove now dev tok approved_at pairing_id code)
    then show ?thesis using snoc.prems ApprovePairing_adds [OF inv, of dev tok approved_at now pairing_id code] by (auto simp: adds_def)
  next
    case (PReject now pairing_id)
    then show ?thesis using snoc.prems RejectPairing_adds [OF inv, of now pairing_id] by (auto simp: adds_def)
  qed
  then show ?case
  proof
    assume "d \<in> approved (ps_store ?svc)"
    then obtain before after now dev tok approved_at pairing_id code r where
      "ops = before @ PApprove now dev tok approved_at pairing_id code # after"
      "approvable store now pairing_id code (pairing_run store before svc) r"
      "d = device_record dev tok approved_at r"
      using snoc.IH snoc.prems by fastforce
    moreover from this have "ops @ [op] = before @ PApprove now dev tok approved_at pairing_id code # (after @ [op])"
      by simp
    ultimately show ?thesis by blast
  qed blast
qed simp

lemma device_history:
  assumes ok: "list_all pairing_op_ok ops" and inv: "invar (ps_store svc)"
    and fresh: "LoadPendingPairings store (ps_store svc) = []" "LoadApprovedPairings store (ps_store svc) = []"
    and d: "d \<in> approved (ps_store (pairing_run store ops svc))"
  shows "\<exists>before after requested name kind now dev tok approved_at pairing_id code.
    ops = before @ PApprove now dev tok approved_at pairing_id code # after
    \<and> PStart requested pairing_id code name kind \<in> set before
    \<and> (ps_ttl_ms svc \<le> 0 \<or> now \<le> requested + ps_ttl_ms svc)
    \<and> prc_device_id d = dev \<and> prc_bearer_token d = tok \<and> prc_device_name d = name"
proof -
  obtain before after now dev tok approved_at pairing_id code r where
    ops: "ops = before @ PApprove now dev tok approved_at pairing_id code # after"
    and r: "approvable store now pairing_id code (pairing_run store before svc) r"
    and d: "d = device_record dev tok approved_at r"
    using approved_provenance [OF ok inv fresh(2) d] by blast
  have "r \<in> pending (ps_store (pairing_run store before svc))" "prq_pairing_id r = pairing_id"
    using r by (auto simp: approvable_def find_Some_iff)
  moreover have "list_all pairing_op_ok before" using ok ops by simp
  ultimately obtain requested new_code name kind where
    "PStart requested pairing_id new_code name kind \<in> set before"
    "r = started_request requested pairing_id new_code name kind"
    using pending_started [OF _ inv fresh(1)] by (fastforce simp: started_request_def)
  moreover from this have "new_code = code" "ps_ttl_ms svc \<le> 0 \<or> now \<le> requested + ps_ttl_ms svc"
    using r by (auto simp: approvable_def IsExpired_def started_request_def split: if_splits)
  moreover have "prc_device_id d = dev \<and> prc_bearer_token d = tok \<and> prc_device_name d = prq_device_name r"
    using d by (simp add: device_record_def)
  ultimately have "ops = before @ PApprove now dev tok approved_at pairing_id code # after
    \<and> PStart requested pairing_id code name kind \<in> set before
    \<and> (ps_ttl_ms svc \<le> 0 \<or> now \<le> requested + ps_ttl_ms svc)
    \<and> prc_device_id d = dev \<and> prc_bearer_token d = tok \<and> prc_device_name d = name"
    using ops by (simp add: started_request_def)
  then show ?thesis by blast
qed

end

lemma find_token_authorized:
  "au_authorized (find_token t rs) \<longleftrightarrow> (\<exists>r \<in> set rs. prc_bearer_token r = t)"
  by (induction t rs rule: find_token.induct) auto

text \<open>A request is authorised exactly when it may be: approving a pairing and configuring the host need a
  request from the local machine (a token never helps), everything else needs a non-empty bearer token of an
  approved device (being local never helps).\<close>

theorem authorize_decision:
  "au_authorized (Authorize store ctx action st) \<longleftrightarrow>
     (if action = ApprovePairingAction \<or> action = ConfigureHost then rc_is_local_request ctx
      else rc_bearer_token ctx \<noteq> []
        \<and> (\<exists>r \<in> set (LoadApprovedPairings store st). prc_bearer_token r = rc_bearer_token ctx))"
  by (simp add: Authorize_def AuthenticateBearerToken_def Let_def find_token_authorized)

end
