(* ===== verification/Base64.thy ===== *)
theory Base64
  imports Prelude
begin

text \<open>
  Base64 as the program uses it twice: \<open>Base64Encode\<close>, \<open>Base64Value\<close> and \<open>Base64Decode\<close> of
  \<open>src/store/file_stores.cpp\<close> for stored terminal output, and \<open>Base64UrlEncode\<close> of
  \<open>src/service/evidence_response_assembler.cpp\<close> for replay tokens. The six-bit groups are written
  with div and mod; the source's shifts and masks select the same bits.
\<close>

section \<open>Six-bit groups\<close>

definition sextet1 :: "nat \<Rightarrow> nat" where "sextet1 a = (a div 4) mod 64"
definition sextet2 :: "nat \<Rightarrow> nat \<Rightarrow> nat" where "sextet2 a b = (a mod 4) * 16 + (b div 16) mod 16"
definition sextet3 :: "nat \<Rightarrow> nat \<Rightarrow> nat" where "sextet3 b c = (b mod 16) * 4 + (c div 64) mod 4"
definition sextet4 :: "nat \<Rightarrow> nat" where "sextet4 c = c mod 64"

definition octet1 :: "nat \<Rightarrow> nat \<Rightarrow> nat" where "octet1 v w = (v * 4 + w div 16) mod 256"
definition octet2 :: "nat \<Rightarrow> nat \<Rightarrow> nat" where "octet2 w x = ((w mod 16) * 16 + x div 4) mod 256"
definition octet3 :: "nat \<Rightarrow> nat \<Rightarrow> nat" where "octet3 x y = ((x mod 4) * 64 + y) mod 256"

lemma sextet_bounds [simp]:
  "sextet1 a < 64" "sextet2 a b < 64" "sextet3 b c < 64" "sextet4 c < 64"
proof -
  have "a mod 4 < 4" "(b div 16) mod 16 < 16" "b mod 16 < 16" "(c div 64) mod 4 < 4" by simp_all
  then have "(a mod 4) * 16 + (b div 16) mod 16 < 64" "(b mod 16) * 4 + (c div 64) mod 4 < 64"
    by linarith+
  then show "sextet1 a < 64" "sextet2 a b < 64" "sextet3 b c < 64" "sextet4 c < 64"
    by (simp_all add: sextet1_def sextet2_def sextet3_def sextet4_def)
qed

lemma octet1_sextets [simp]:
  assumes "a < 256"
  shows "octet1 (sextet1 a) (sextet2 a b) = a"
proof -
  have "((a mod 4) * 16 + (b div 16) mod 16) div 16 = a mod 4" by simp
  moreover have "a div 4 < 64" using assms by (simp add: less_mult_imp_div_less)
  ultimately show ?thesis using assms by (simp add: octet1_def sextet1_def sextet2_def)
qed

lemma octet2_sextets [simp]:
  assumes "b < 256"
  shows "octet2 (sextet2 a b) (sextet3 b c) = b"
proof -
  have "((b mod 16) * 4 + (c div 64) mod 4) div 4 = b mod 16" by simp
  moreover have "((a mod 4) * 16 + (b div 16) mod 16) mod 16 = b div 16 mod 16" by simp
  moreover have "b div 16 < 16" using assms by (simp add: less_mult_imp_div_less)
  ultimately show ?thesis using assms by (simp add: octet2_def sextet2_def sextet3_def)
qed

lemma octet3_sextets [simp]:
  assumes "c < 256"
  shows "octet3 (sextet3 b c) (sextet4 c) = c"
proof -
  have "((b mod 16) * 4 + (c div 64) mod 4) mod 4 = c div 64 mod 4" by simp
  moreover have "c div 64 < 4" using assms by (simp add: less_mult_imp_div_less)
  ultimately show ?thesis using assms by (simp add: octet3_def sextet3_def sextet4_def)
qed

section \<open>The standard alphabet with padding\<close>

definition kBase64Alphabet :: string where
  "kBase64Alphabet = ''ABCDEFGHIJKLMNOPQRSTUVWXYZabcdefghijklmnopqrstuvwxyz0123456789+/''"

fun Base64Encode :: "string \<Rightarrow> string" where
  "Base64Encode (x # y # z # rest) =
     [kBase64Alphabet ! sextet1 (byte x), kBase64Alphabet ! sextet2 (byte x) (byte y),
      kBase64Alphabet ! sextet3 (byte y) (byte z), kBase64Alphabet ! sextet4 (byte z)]
     @ Base64Encode rest"
| "Base64Encode [x] =
     [kBase64Alphabet ! sextet1 (byte x), kBase64Alphabet ! sextet2 (byte x) 0] @ ''==''"
| "Base64Encode [x, y] =
     [kBase64Alphabet ! sextet1 (byte x), kBase64Alphabet ! sextet2 (byte x) (byte y),
      kBase64Alphabet ! sextet3 (byte y) 0] @ ''=''"
| "Base64Encode [] = []"

definition Base64Value :: "char \<Rightarrow> nat option" where
  "Base64Value ch =
     (if is_upper_char ch then Some (byte ch - byte (CHR ''A''))
      else if is_lower_char ch then Some (byte ch - byte (CHR ''a'') + 26)
      else if is_digit_char ch then Some (byte ch - byte (CHR ''0'') + 52)
      else if ch = CHR ''+'' then Some 62
      else if ch = CHR ''/'' then Some 63
      else None)"

text \<open>One pass of the decoder per group of four; a short last group only at the end.\<close>

fun Base64Decode_loop :: "string \<Rightarrow> string option" where
  "Base64Decode_loop (a # b # c # d # rest) =
     (case (Base64Value a, Base64Value b) of
        (Some va, Some vb) \<Rightarrow>
          let first = char_of (octet1 va vb) in
          if c \<noteq> CHR ''='' then
            (case Base64Value c of
               None \<Rightarrow> None
             | Some vc \<Rightarrow>
                 let second = char_of (octet2 vb vc) in
                 if d \<noteq> CHR ''='' then
                   (case Base64Value d of
                      None \<Rightarrow> None
                    | Some vd \<Rightarrow>
                        map_option (\<lambda>decoded. first # second # char_of (octet3 vc vd) # decoded)
                          (Base64Decode_loop rest))
                 else if rest \<noteq> [] then None
                 else map_option (\<lambda>decoded. first # second # decoded) (Base64Decode_loop rest))
          else if d \<noteq> CHR ''='' \<or> rest \<noteq> [] then None
          else map_option (\<lambda>decoded. first # decoded) (Base64Decode_loop rest)
      | _ \<Rightarrow> None)"
| "Base64Decode_loop [] = Some []"
| "Base64Decode_loop _ = None"

definition Base64Decode :: "string \<Rightarrow> string option" where
  "Base64Decode input = (if length input mod 4 \<noteq> 0 then None else Base64Decode_loop input)"

lemma Base64Value_alphabet_all:
  "list_all (\<lambda>v. Base64Value (kBase64Alphabet ! v) = Some v \<and> kBase64Alphabet ! v \<noteq> CHR ''='') [0 ..< 64]"
  by (simp add: upt_conv_Cons kBase64Alphabet_def Base64Value_def is_upper_char_def is_lower_char_def is_digit_char_def byte_def)

lemma Base64Value_alphabet [simp]:
  assumes "v < 64"
  shows "Base64Value (kBase64Alphabet ! v) = Some v" "kBase64Alphabet ! v \<noteq> CHR ''=''"
  using Base64Value_alphabet_all assms by (auto simp: list_all_iff)

lemma char_of_byte [simp]: "char_of (byte c) = c"
  by (simp add: byte_def)

lemma Base64Decode_loop_Encode: "Base64Decode_loop (Base64Encode s) = Some s"
  by (induction s rule: Base64Encode.induct) simp_all

lemma length_Base64Encode: "length (Base64Encode s) mod 4 = 0"
  by (induction s rule: Base64Encode.induct) simp_all

section \<open>The URL alphabet without padding\<close>

definition kBase64UrlAlphabet :: string where
  "kBase64UrlAlphabet = ''ABCDEFGHIJKLMNOPQRSTUVWXYZabcdefghijklmnopqrstuvwxyz0123456789-_''"

fun Base64UrlEncode :: "string \<Rightarrow> string" where
  "Base64UrlEncode (x # y # z # rest) =
     [kBase64UrlAlphabet ! sextet1 (byte x), kBase64UrlAlphabet ! sextet2 (byte x) (byte y),
      kBase64UrlAlphabet ! sextet3 (byte y) (byte z), kBase64UrlAlphabet ! sextet4 (byte z)]
     @ Base64UrlEncode rest"
| "Base64UrlEncode [x] =
     [kBase64UrlAlphabet ! sextet1 (byte x), kBase64UrlAlphabet ! sextet2 (byte x) 0]"
| "Base64UrlEncode [x, y] =
     [kBase64UrlAlphabet ! sextet1 (byte x), kBase64UrlAlphabet ! sextet2 (byte x) (byte y),
      kBase64UrlAlphabet ! sextet3 (byte y) 0]"
| "Base64UrlEncode [] = []"

text \<open>The URL encoding is the standard one with two letters exchanged and the padding dropped.\<close>

definition url_letter :: "char \<Rightarrow> char" where
  "url_letter c = (if c = CHR ''+'' then CHR ''-'' else if c = CHR ''/'' then CHR ''_'' else c)"

lemma url_letter_alphabet_all:
  "list_all (\<lambda>v. url_letter (kBase64Alphabet ! v) = kBase64UrlAlphabet ! v) [0 ..< 64]"
  by code_simp

lemma url_letter_alphabet [simp]: "v < 64 \<Longrightarrow> url_letter (kBase64Alphabet ! v) = kBase64UrlAlphabet ! v"
  using url_letter_alphabet_all by (auto simp: list_all_iff)

lemma Base64UrlEncode_eq:
  "Base64UrlEncode s = map url_letter (filter (\<lambda>c. c \<noteq> CHR ''='') (Base64Encode s))"
  by (induction s rule: Base64UrlEncode.induct) simp_all

text \<open>The decoder of RFC 4648, section 5: exchange the letters back, restore the padding, decode.\<close>

definition std_letter :: "char \<Rightarrow> char" where
  "std_letter c = (if c = CHR ''-'' then CHR ''+'' else if c = CHR ''_'' then CHR ''/'' else c)"

definition restore_padding :: "string \<Rightarrow> string" where
  "restore_padding t = t @ replicate ((4 - length t mod 4) mod 4) CHR ''=''"

definition base64url_decode :: "string \<Rightarrow> string option" where
  "base64url_decode t = Base64Decode (restore_padding (map std_letter t))"

lemma std_letter_alphabet_all:
  "list_all (\<lambda>v. std_letter (kBase64UrlAlphabet ! v) = kBase64Alphabet ! v) [0 ..< 64]"
  by code_simp

lemma std_letter_alphabet [simp]: "v < 64 \<Longrightarrow> std_letter (kBase64UrlAlphabet ! v) = kBase64Alphabet ! v"
  using std_letter_alphabet_all by (auto simp: list_all_iff)

lemma restore_padding_group: "restore_padding (a # b # c # d # t) = a # b # c # d # restore_padding t"
  by (simp add: restore_padding_def)

lemma restore_padding_short:
  "restore_padding [a, b] = [a, b, CHR ''='', CHR ''='']" "restore_padding [a, b, c] = [a, b, c, CHR ''='']"
  "restore_padding [] = []"
  by (simp_all add: restore_padding_def numeral_2_eq_2)

lemma restore_padding_UrlEncode:
  "restore_padding (map std_letter (Base64UrlEncode s)) = Base64Encode s"
  by (induction s rule: Base64UrlEncode.induct)
    (simp_all add: restore_padding_group restore_padding_short)

section \<open>Properties\<close>

text \<open>Decoding what \<open>Base64Encode\<close> wrote gives back the same bytes, for every byte string.\<close>

theorem base64_decode_encode: "Base64Decode (Base64Encode data) = Some data"
  by (simp add: Base64Decode_def length_Base64Encode Base64Decode_loop_Encode)

text \<open>A replay token in the URL alphabet loses nothing: a decoder of RFC 4648, section 5, gives back
  exactly the encoded bytes.\<close>

theorem base64url_decode_encode: "base64url_decode (Base64UrlEncode data) = Some data"
  unfolding base64url_decode_def restore_padding_UrlEncode
  by (simp add: Base64Decode_def length_Base64Encode Base64Decode_loop_Encode)

end
