(* ===== verification/Store_Json.thy ===== *)
theory Store_Json
  imports Json_Value Host_Config Pairing Base64 "HOL-Library.Monad_Syntax"
begin

text \<open>
  The JSON forms of \<open>src/store/file_stores.cpp\<close>: what each stored record is written as and how it is
  read back, with every check of the readers. Each reader is proved to undo its writer after a pass
  through the JSON library, under the exact conditions the readers impose.
\<close>

section \<open>Enumerations\<close>

definition ParseDeviceType :: "string \<Rightarrow> DeviceType option" where
  "ParseDeviceType value =
     (if value = ''unknown'' then Some DevUnknown
      else if value = ''mobile'' then Some DevMobile
      else if value = ''desktop'' then Some DevDesktop
      else if value = ''browser'' then Some DevBrowser
      else None)"

fun ToString_DeviceType :: "DeviceType \<Rightarrow> string" where
  "ToString_DeviceType DevUnknown = ''unknown''"
| "ToString_DeviceType DevMobile = ''mobile''"
| "ToString_DeviceType DevDesktop = ''desktop''"
| "ToString_DeviceType DevBrowser = ''browser''"

definition ParseProviderType :: "string \<Rightarrow> ProviderType option" where
  "ParseProviderType value =
     (if value = ''codex'' then Some Codex
      else if value = ''claude'' then Some Claude
      else None)"

definition ParseSessionStatus :: "string \<Rightarrow> SessionStatus option" where
  "ParseSessionStatus value =
     (if value = ''Created'' then Some Created
      else if value = ''Starting'' then Some Starting
      else if value = ''Running'' then Some Running
      else if value = ''AwaitingInput'' then Some AwaitingInput
      else if value = ''Exited'' then Some Exited
      else if value = ''Error'' then Some Error
      else None)"

section \<open>Stored evidence\<close>

record StoredEvidenceSummary =
  se_evidence_id :: string
  se_session_id :: string
  se_kind :: string
  se_title :: string
  se_content_type :: string
  se_created_at_unix_ms :: unix_ms
  se_size_bytes :: nat

text \<open>A time above the signed range wraps around when it is cast.\<close>

definition int64_cast :: "nat \<Rightarrow> int" where
  "int64_cast n = (let i = int n mod 2 ^ 64 in if i < 2 ^ 63 then i else i - 2 ^ 64)"

definition StoredEvidenceSummaryFromJson :: "json \<Rightarrow> StoredEvidenceSummary option" where
  "StoredEvidenceSummaryFromJson value =
     (if \<not> is_object value then None
      else do {
        evidence_id \<leftarrow> required as_string value ''evidenceId'';
        session_id \<leftarrow> required as_string value ''sessionId'';
        kind \<leftarrow> required as_string value ''kind'';
        title \<leftarrow> required as_string value ''title'';
        content_type \<leftarrow> required as_string value ''contentType'';
        created_at \<leftarrow> required as_unsigned value ''createdAtUnixMs'';
        size_bytes \<leftarrow> required as_unsigned value ''sizeBytes'';
        Some \<lparr>se_evidence_id = evidence_id, se_session_id = session_id, se_kind = kind,
              se_title = title, se_content_type = content_type,
              se_created_at_unix_ms = int64_cast created_at, se_size_bytes = size_bytes\<rparr>
      })"

definition StoredEvidenceSummaryToJson :: "StoredEvidenceSummary \<Rightarrow> json" where
  "StoredEvidenceSummaryToJson summary =
     JObject
       [(''evidenceId'', JString (se_evidence_id summary)),
        (''sessionId'', JString (se_session_id summary)),
        (''kind'', JString (se_kind summary)),
        (''title'', JString (se_title summary)),
        (''contentType'', JString (se_content_type summary)),
        (''createdAtUnixMs'', JInt64 (se_created_at_unix_ms summary)),
        (''sizeBytes'', JUint64 (se_size_bytes summary))]"

section \<open>Host identity\<close>

definition HostIdentityFromJson :: "json \<Rightarrow> HostIdentity option" where
  "HostIdentityFromJson value =
     (if \<not> is_object value then None
      else do {
        host_id \<leftarrow> required as_string value ''hostId'';
        display_name \<leftarrow> required as_string value ''displayName'';
        certificate_pem_path \<leftarrow> required as_string value ''certificatePemPath'';
        private_key_pem_path \<leftarrow> required as_string value ''privateKeyPemPath'';
        Some (MakeDefaultHostIdentity
                \<lparr>hi_host_id := host_id, hi_display_name := display_name,
                 hi_certificate_pem_path := certificate_pem_path,
                 hi_private_key_pem_path := private_key_pem_path\<rparr>)
      })"

definition ParseProviderCommandOverride :: "json option \<Rightarrow> ProviderCommandOverride option" where
  "ParseProviderCommandOverride value =
     (case value of
        None \<Rightarrow> Some ProviderCommandOverride_default
      | Some v \<Rightarrow>
          (case as_array v of
             None \<Rightarrow> None
           | Some [] \<Rightarrow> Some ProviderCommandOverride_default
           | Some (first # rest) \<Rightarrow> do {
               executable \<leftarrow> as_string first;
               if executable = [] then None
               else do {
                 args \<leftarrow> map_all as_string rest;
                 Some \<lparr>pco_executable = executable, pco_args = args\<rparr>
               }
             }))"

definition parse_group_tags :: "json \<Rightarrow> string list option" where
  "parse_group_tags v =
     (case as_array v of
        None \<Rightarrow> None
      | Some items \<Rightarrow> map_option NormalizeGroupTags (map_all as_string items))"

definition nonempty_string :: "json \<Rightarrow> string option" where
  "nonempty_string v = (case as_string v of Some s \<Rightarrow> if s = [] then None else Some s | None \<Rightarrow> None)"

definition ParseLaunchRecord :: "json \<Rightarrow> LaunchRecord option" where
  "ParseLaunchRecord value =
     (if \<not> is_object value then None
      else do {
        record_id \<leftarrow> required as_string value ''recordId'';
        provider \<leftarrow> required as_string value ''provider'';
        workspace_root \<leftarrow> required as_string value ''workspaceRoot'';
        title \<leftarrow> required as_string value ''title'';
        conversation_id \<leftarrow> optional as_string value ''conversationId'';
        parsed_provider \<leftarrow> ParseProviderType provider;
        launched_at \<leftarrow> optional as_int64 value ''launchedAtUnixMs'';
        if record_id = [] \<or> workspace_root = [] \<or> title = [] then None
        else do {
          group_tags \<leftarrow> optional parse_group_tags value ''groupTags'';
          argv \<leftarrow> ParseProviderCommandOverride (if_contains value ''commandArgv'');
          shell \<leftarrow> optional nonempty_string value ''commandShell'';
          let command_argv = (if pco_executable argv \<noteq> [] then Some (pco_executable argv # pco_args argv)
                              else None);
          if command_argv \<noteq> None \<and> shell \<noteq> None then None
          else Some
            \<lparr>lr_record_id = record_id, lr_provider = parsed_provider,
             lr_workspace_root = workspace_root, lr_title = title,
             lr_launched_at_unix_ms = (case launched_at of Some t \<Rightarrow> t | None \<Rightarrow> 0),
             lr_conversation_id = conversation_id,
             lr_group_tags = (case group_tags of Some tags \<Rightarrow> tags | None \<Rightarrow> []),
             lr_command_argv = command_argv, lr_command_shell = shell\<rparr>
        }
      })"

definition string_member :: "string \<Rightarrow> string option \<Rightarrow> (string \<times> json) list" where
  "string_member key value = (case value of None \<Rightarrow> [] | Some s \<Rightarrow> [(key, JString s)])"

definition LaunchRecordToJson :: "LaunchRecord \<Rightarrow> json" where
  "LaunchRecordToJson r =
     JObject
       ([(''recordId'', JString (lr_record_id r)),
         (''provider'', JString (ToString_ProviderType (lr_provider r))),
         (''workspaceRoot'', JString (lr_workspace_root r)),
         (''title'', JString (lr_title r)),
         (''launchedAtUnixMs'', JInt64 (lr_launched_at_unix_ms r))]
        @ string_member ''conversationId'' (lr_conversation_id r)
        @ [(''groupTags'', JArray (map JString (lr_group_tags r)))]
        @ (case lr_command_argv r of
             None \<Rightarrow> [] | Some argv \<Rightarrow> [(''commandArgv'', JArray (map JString argv))])
        @ string_member ''commandShell'' (lr_command_shell r))"

definition parse_port :: "json \<Rightarrow> u16 option" where
  "parse_port v =
     (case as_int64 v of
        None \<Rightarrow> None
      | Some port \<Rightarrow> if port \<le> 0 \<or> port > 65535 then None else Some (nat port))"

definition parse_provider_commands ::
    "json \<Rightarrow> (ProviderCommandOverride \<times> ProviderCommandOverride) option" where
  "parse_provider_commands v =
     (if \<not> is_object v then None
      else do {
        codex \<leftarrow> ParseProviderCommandOverride (if_contains v ''codex'');
        claude \<leftarrow> ParseProviderCommandOverride (if_contains v ''claude'');
        Some (codex, claude)
      })"

definition parse_launch_records :: "json \<Rightarrow> LaunchRecord list option" where
  "parse_launch_records v = Option.bind (as_array v) (map_all ParseLaunchRecord)"

definition parse_max_launch_records :: "json \<Rightarrow> nat option" where
  "parse_max_launch_records v =
     (case as_int64 v of None \<Rightarrow> None | Some n \<Rightarrow> if n < 1 then None else Some (nat n))"

definition parse_allowlist :: "json \<Rightarrow> string list option" where
  "parse_allowlist v =
     map_option (filter (\<lambda>key. key \<noteq> [])) (Option.bind (as_array v) (map_all as_string))"

text \<open>Each optional member overrides a default; an empty optional string leaves the default.\<close>

definition or_default :: "'a \<Rightarrow> 'a option \<Rightarrow> 'a" where
  "or_default d m = (case m of None \<Rightarrow> d | Some x \<Rightarrow> x)"

definition keep_nonempty :: "string option \<Rightarrow> string option" where
  "keep_nonempty m = (case m of Some s \<Rightarrow> if s = [] then None else Some s | None \<Rightarrow> None)"

definition HostIdentityFromJsonWithDefaults :: "json \<Rightarrow> HostIdentity option" where
  "HostIdentityFromJsonWithDefaults value = do {
     identity \<leftarrow> HostIdentityFromJson value;
     admin_host \<leftarrow> optional nonempty_string value ''adminHost'';
     admin_port \<leftarrow> optional parse_port value ''adminPort'';
     remote_host \<leftarrow> optional nonempty_string value ''remoteHost'';
     remote_port \<leftarrow> optional parse_port value ''remotePort'';
     commands \<leftarrow> optional parse_provider_commands value ''providerCommands'';
     launch_records \<leftarrow> optional parse_launch_records value ''launchRecords'';
     max_records \<leftarrow> optional parse_max_launch_records value ''maxLaunchRecords'';
     bootstrap_shell \<leftarrow> optional as_string value ''bootstrapShellPath'';
     import_svc \<leftarrow> optional as_bool value ''importServiceManagerEnvironment'';
     allowlist \<leftarrow> optional parse_allowlist value ''serviceManagerEnvironmentAllowlist'';
     hub_url \<leftarrow> optional as_string value ''hubUrl'';
     hub_token \<leftarrow> optional as_string value ''hubToken'';
     Some (identity
       \<lparr>hi_admin_host := or_default (hi_admin_host identity) admin_host,
        hi_admin_port := or_default (hi_admin_port identity) admin_port,
        hi_remote_host := or_default (hi_remote_host identity) remote_host,
        hi_remote_port := or_default (hi_remote_port identity) remote_port,
        hi_codex_command := or_default (hi_codex_command identity) (map_option fst commands),
        hi_claude_command := or_default (hi_claude_command identity) (map_option snd commands),
        hi_launch_records := or_default (hi_launch_records identity) launch_records,
        hi_max_launch_records := or_default (hi_max_launch_records identity) max_records,
        hi_bootstrap_shell_path := keep_nonempty bootstrap_shell,
        hi_import_service_manager_environment :=
          or_default (hi_import_service_manager_environment identity) import_svc,
        hi_service_manager_environment_allowlist :=
          or_default (hi_service_manager_environment_allowlist identity) allowlist,
        hi_hub_url := keep_nonempty hub_url,
        hi_hub_token := keep_nonempty hub_token\<rparr>)
   }"

definition command_json :: "ProviderCommandOverride \<Rightarrow> json" where
  "command_json command =
     JArray (if pco_executable command \<noteq> [] then map JString (pco_executable command # pco_args command)
             else [])"

definition HostIdentityToJson :: "HostIdentity \<Rightarrow> json" where
  "HostIdentityToJson identity =
     JObject
       ([(''hostId'', JString (hi_host_id identity)),
         (''displayName'', JString (hi_display_name identity)),
         (''certificatePemPath'', JString (hi_certificate_pem_path identity)),
         (''privateKeyPemPath'', JString (hi_private_key_pem_path identity)),
         (''adminHost'', JString (hi_admin_host identity)),
         (''adminPort'', JUint64 (hi_admin_port identity)),
         (''remoteHost'', JString (hi_remote_host identity)),
         (''remotePort'', JUint64 (hi_remote_port identity)),
         (''providerCommands'',
            JObject [(''codex'', command_json (hi_codex_command identity)),
                     (''claude'', command_json (hi_claude_command identity))]),
         (''launchRecords'', JArray (map LaunchRecordToJson (hi_launch_records identity))),
         (''maxLaunchRecords'', JInt64 (int64_cast (hi_max_launch_records identity)))]
        @ string_member ''bootstrapShellPath'' (hi_bootstrap_shell_path identity)
        @ [(''importServiceManagerEnvironment'', JBool (hi_import_service_manager_environment identity)),
           (''serviceManagerEnvironmentAllowlist'',
              JArray (map JString (hi_service_manager_environment_allowlist identity)))]
        @ string_member ''hubUrl'' (hi_hub_url identity)
        @ string_member ''hubToken'' (hi_hub_token identity))"

section \<open>Pairings\<close>

definition PairingRequestFromJson :: "json \<Rightarrow> PairingRequest option" where
  "PairingRequestFromJson value =
     (if \<not> is_object value then None
      else do {
        pairing_id \<leftarrow> required as_string value ''pairingId'';
        device_name \<leftarrow> required as_string value ''deviceName'';
        device_type \<leftarrow> required as_string value ''deviceType'';
        code \<leftarrow> required as_string value ''code'';
        requested_at \<leftarrow> required as_int64 value ''requestedAtUnixMs'';
        parsed_device_type \<leftarrow> ParseDeviceType device_type;
        Some \<lparr>prq_pairing_id = pairing_id, prq_device_name = device_name,
              prq_device_type = parsed_device_type, prq_code = code,
              prq_requested_at_unix_ms = requested_at\<rparr>
      })"

definition PairingRequestToJson :: "PairingRequest \<Rightarrow> json" where
  "PairingRequestToJson r =
     JObject
       [(''pairingId'', JString (prq_pairing_id r)),
        (''deviceName'', JString (prq_device_name r)),
        (''deviceType'', JString (ToString_DeviceType (prq_device_type r))),
        (''code'', JString (prq_code r)),
        (''requestedAtUnixMs'', JInt64 (prq_requested_at_unix_ms r))]"

definition PairingRecordFromJson :: "json \<Rightarrow> PairingRecord option" where
  "PairingRecordFromJson value =
     (if \<not> is_object value then None
      else do {
        device_id \<leftarrow> required as_string value ''deviceId'';
        device_name \<leftarrow> required as_string value ''deviceName'';
        device_type \<leftarrow> required as_string value ''deviceType'';
        bearer_token \<leftarrow> required as_string value ''bearerToken'';
        approved_at \<leftarrow> required as_int64 value ''approvedAtUnixMs'';
        parsed_device_type \<leftarrow> ParseDeviceType device_type;
        Some \<lparr>prc_device_id = device_id, prc_device_name = device_name,
              prc_device_type = parsed_device_type, prc_bearer_token = bearer_token,
              prc_approved_at_unix_ms = approved_at\<rparr>
      })"

definition PairingRecordToJson :: "PairingRecord \<Rightarrow> json" where
  "PairingRecordToJson r =
     JObject
       [(''deviceId'', JString (prc_device_id r)),
        (''deviceName'', JString (prc_device_name r)),
        (''deviceType'', JString (ToString_DeviceType (prc_device_type r))),
        (''bearerToken'', JString (prc_bearer_token r)),
        (''approvedAtUnixMs'', JInt64 (prc_approved_at_unix_ms r))]"

record PairingSnapshot =
  pn_pending :: "PairingRequest list"
  pn_approved :: "PairingRecord list"

definition PairingSnapshotFromJson :: "json \<Rightarrow> PairingSnapshot option" where
  "PairingSnapshotFromJson value =
     (if \<not> is_object value then None
      else do {
        pending \<leftarrow> required as_array value ''pending'';
        approved \<leftarrow> required as_array value ''approved'';
        parsed_pending \<leftarrow> map_all PairingRequestFromJson pending;
        parsed_approved \<leftarrow> map_all PairingRecordFromJson approved;
        Some \<lparr>pn_pending = parsed_pending, pn_approved = parsed_approved\<rparr>
      })"

definition PairingSnapshotToJson :: "PairingSnapshot \<Rightarrow> json" where
  "PairingSnapshotToJson snapshot =
     JObject
       [(''pending'', JArray (map PairingRequestToJson (pn_pending snapshot))),
        (''approved'', JArray (map PairingRecordToJson (pn_approved snapshot)))]"

section \<open>Sessions\<close>

record PersistedSessionRecord =
  pr_session_id :: string
  pr_provider :: ProviderType
  pr_workspace_root :: string
  pr_title :: string
  pr_status :: SessionStatus
  pr_conversation_id :: "string option"
  pr_group_tags :: "string list"
  pr_current_sequence :: u64
  pr_recent_terminal_tail :: string

definition PersistedSessionRecordFromJson :: "json \<Rightarrow> PersistedSessionRecord option" where
  "PersistedSessionRecordFromJson value =
     (if \<not> is_object value then None
      else do {
        session_id \<leftarrow> required as_string value ''sessionId'';
        provider \<leftarrow> required as_string value ''provider'';
        workspace_root \<leftarrow> required as_string value ''workspaceRoot'';
        title \<leftarrow> required as_string value ''title'';
        status \<leftarrow> required as_string value ''status'';
        conversation_id \<leftarrow> optional as_string value ''conversationId'';
        group_tags \<leftarrow> optional parse_group_tags value ''groupTags'';
        tail \<leftarrow> required as_string value ''recentTerminalTailBase64'';
        parsed_provider \<leftarrow> ParseProviderType provider;
        parsed_status \<leftarrow> ParseSessionStatus status;
        decoded_tail \<leftarrow> Base64Decode tail;
        parsed_sequence \<leftarrow> required as_unsigned value ''currentSequence'';
        Some \<lparr>pr_session_id = session_id, pr_provider = parsed_provider,
              pr_workspace_root = workspace_root, pr_title = title, pr_status = parsed_status,
              pr_conversation_id = conversation_id, pr_group_tags = or_default [] group_tags,
              pr_current_sequence = parsed_sequence, pr_recent_terminal_tail = decoded_tail\<rparr>
      })"

definition PersistedSessionRecordToJson :: "PersistedSessionRecord \<Rightarrow> json" where
  "PersistedSessionRecordToJson r =
     JObject
       ([(''sessionId'', JString (pr_session_id r)),
         (''provider'', JString (ToString_ProviderType (pr_provider r))),
         (''workspaceRoot'', JString (pr_workspace_root r)),
         (''title'', JString (pr_title r)),
         (''status'', JString (ToString_SessionStatus (pr_status r)))]
        @ string_member ''conversationId'' (pr_conversation_id r)
        @ [(''groupTags'', JArray (map JString (pr_group_tags r))),
           (''currentSequence'', JUint64 (pr_current_sequence r)),
           (''recentTerminalTailBase64'', JString (Base64Encode (pr_recent_terminal_tail r)))])"

definition SessionRecordsFromJson :: "json \<Rightarrow> PersistedSessionRecord list option" where
  "SessionRecordsFromJson value = Option.bind (as_array value) (map_all PersistedSessionRecordFromJson)"

definition SessionRecordsToJson :: "PersistedSessionRecord list \<Rightarrow> json" where
  "SessionRecordsToJson records = JArray (map PersistedSessionRecordToJson records)"

section \<open>Readers undo writers\<close>

lemma ParseDeviceType_ToString [simp]: "ParseDeviceType (ToString_DeviceType d) = Some d"
  by (cases d) (simp_all add: ParseDeviceType_def)

lemma ParseProviderType_ToString [simp]: "ParseProviderType (ToString_ProviderType p) = Some p"
  by (cases p) (simp_all add: ParseProviderType_def)

lemma ParseSessionStatus_ToString [simp]: "ParseSessionStatus (ToString_SessionStatus s) = Some s"
  by (cases s) (simp_all add: ParseSessionStatus_def)

lemmas json_read_defs = required_def optional_def string_member_def or_default_def keep_nonempty_def

lemma PairingRequest_roundtrip [simp]: "PairingRequestFromJson (json_reparse (PairingRequestToJson r)) = Some r"
  by (simp add: PairingRequestFromJson_def PairingRequestToJson_def json_read_defs)

lemma PairingRecord_roundtrip [simp]: "PairingRecordFromJson (json_reparse (PairingRecordToJson r)) = Some r"
  by (simp add: PairingRecordFromJson_def PairingRecordToJson_def json_read_defs)

lemma map_all_reparse:
  assumes "\<And>x. x \<in> set xs \<Longrightarrow> f (json_reparse (g x)) = Some (h x)"
  shows "map_all f (map json_reparse (map g xs)) = Some (map h xs)"
  using map_all_map [of xs f "json_reparse \<circ> g" h] assms by simp

lemma PairingSnapshot_roundtrip: "PairingSnapshotFromJson (json_reparse (PairingSnapshotToJson s)) = Some s"
proof -
  have "map_all PairingRequestFromJson (map json_reparse (map PairingRequestToJson (pn_pending s))) =
      Some (pn_pending s)"
    using map_all_reparse [of "pn_pending s" PairingRequestFromJson PairingRequestToJson id] by simp
  moreover have "map_all PairingRecordFromJson (map json_reparse (map PairingRecordToJson (pn_approved s))) =
      Some (pn_approved s)"
    using map_all_reparse [of "pn_approved s" PairingRecordFromJson PairingRecordToJson id] by simp
  ultimately show ?thesis
    by (simp add: PairingSnapshotFromJson_def PairingSnapshotToJson_def json_read_defs del: map_map)
qed

text \<open>A session record survives when its tags are normalised, as those of every session are.\<close>

definition SessionRecord_storable :: "PersistedSessionRecord \<Rightarrow> bool" where
  "SessionRecord_storable r \<longleftrightarrow>
     NormalizeGroupTags (pr_group_tags r) = pr_group_tags r
     \<and> json_ok (max_depth - 1) (PersistedSessionRecordToJson r)"

lemma parse_group_tags_reparse [simp]:
  "parse_group_tags (JArray (map JString tags)) = Some (NormalizeGroupTags tags)"
  by (simp add: parse_group_tags_def)

lemma reparse_u64 [simp]: "as_unsigned (json_reparse (JUint64 n)) = Some n"
  by simp

lemma PersistedSessionRecord_roundtrip:
  assumes "NormalizeGroupTags (pr_group_tags r) = pr_group_tags r"
  shows "PersistedSessionRecordFromJson (json_reparse (PersistedSessionRecordToJson r)) = Some r"
  using assms
  by (cases "pr_conversation_id r")
    (simp_all add: PersistedSessionRecordFromJson_def PersistedSessionRecordToJson_def json_read_defs
      Base64Decode_def length_Base64Encode Base64Decode_loop_Encode)

lemma SessionRecords_roundtrip:
  assumes "list_all SessionRecord_storable rs"
  shows "SessionRecordsFromJson (json_reparse (SessionRecordsToJson rs)) = Some rs"
  using map_all_reparse [of rs PersistedSessionRecordFromJson PersistedSessionRecordToJson "\<lambda>r. r"]
    PersistedSessionRecord_roundtrip assms
  by (simp add: SessionRecordsFromJson_def SessionRecordsToJson_def SessionRecord_storable_def list_all_iff
      del: map_map)

text \<open>What the reader of \<open>host_identity.json\<close> accepts of what the writer may be given.\<close>

definition LaunchRecord_storable :: "LaunchRecord \<Rightarrow> bool" where
  "LaunchRecord_storable r \<longleftrightarrow>
     lr_record_id r \<noteq> [] \<and> lr_workspace_root r \<noteq> [] \<and> lr_title r \<noteq> []
     \<and> NormalizeGroupTags (lr_group_tags r) = lr_group_tags r
     \<and> (case lr_command_argv r of None \<Rightarrow> True | Some argv \<Rightarrow> argv \<noteq> [] \<and> hd argv \<noteq> [])
     \<and> (case lr_command_shell r of None \<Rightarrow> True | Some cmd \<Rightarrow> cmd \<noteq> [] \<and> lr_command_argv r = None)"

definition command_storable :: "ProviderCommandOverride \<Rightarrow> bool" where
  "command_storable command \<longleftrightarrow> (pco_executable command = [] \<longrightarrow> pco_args command = [])"

definition HostIdentity_storable :: "HostIdentity \<Rightarrow> bool" where
  "HostIdentity_storable identity \<longleftrightarrow>
     hi_admin_host identity \<noteq> [] \<and> hi_remote_host identity \<noteq> []
     \<and> 0 < hi_admin_port identity \<and> hi_admin_port identity \<le> 65535
     \<and> 0 < hi_remote_port identity \<and> hi_remote_port identity \<le> 65535
     \<and> command_storable (hi_codex_command identity) \<and> command_storable (hi_claude_command identity)
     \<and> list_all LaunchRecord_storable (hi_launch_records identity)
     \<and> 0 < hi_max_launch_records identity \<and> int (hi_max_launch_records identity) < 2 ^ 63
     \<and> hi_bootstrap_shell_path identity \<noteq> Some [] \<and> hi_hub_url identity \<noteq> Some []
     \<and> hi_hub_token identity \<noteq> Some []
     \<and> [] \<notin> set (hi_service_manager_environment_allowlist identity)
     \<and> json_ok max_depth (HostIdentityToJson identity)"

lemma ParseProviderCommandOverride_strings:
  "ParseProviderCommandOverride (Some (JArray (map JString argv))) =
     (case argv of [] \<Rightarrow> Some ProviderCommandOverride_default
      | executable # args \<Rightarrow>
          if executable = [] then None else Some \<lparr>pco_executable = executable, pco_args = args\<rparr>)"
  by (cases argv) (simp_all add: ParseProviderCommandOverride_def)

lemma command_roundtrip:
  "command_storable command \<Longrightarrow>
   ParseProviderCommandOverride (Some (json_reparse (command_json command))) = Some command"
proof -
  assume "command_storable command"
  moreover have "json_reparse (command_json command) = command_json command"
    by (simp add: command_json_def)
  ultimately show ?thesis
    using ParseProviderCommandOverride_strings [of "[]"]
      ParseProviderCommandOverride_strings [of "pco_executable command # pco_args command"]
    by (cases command) (auto simp: command_json_def command_storable_def ProviderCommandOverride_default_def)
qed

lemma LaunchRecord_roundtrip:
  assumes "LaunchRecord_storable r"
  shows "ParseLaunchRecord (json_reparse (LaunchRecordToJson r)) = Some r"
  using assms
  by (cases "lr_conversation_id r"; cases "lr_command_argv r"; cases "lr_command_shell r")
    (auto simp: ParseLaunchRecord_def LaunchRecordToJson_def LaunchRecord_storable_def json_read_defs
      nonempty_string_def ParseProviderCommandOverride_strings ParseProviderCommandOverride_def [of None]
      ProviderCommandOverride_default_def neq_Nil_conv split: list.splits)

lemma launch_records_roundtrip:
  "list_all LaunchRecord_storable rs \<Longrightarrow>
   map_all ParseLaunchRecord (map (json_reparse \<circ> LaunchRecordToJson) rs) = Some rs"
  using map_all_reparse [of rs ParseLaunchRecord LaunchRecordToJson "\<lambda>r. r"]
  by (simp add: list_all_iff LaunchRecord_roundtrip)

lemma parse_port_reparse [simp]:
  "0 < n \<Longrightarrow> n \<le> 65535 \<Longrightarrow> parse_port (json_reparse (JUint64 n)) = Some n"
  by (simp add: parse_port_def)

text \<open>An optional text member, looked up and read.\<close>

lemma string_member_reparse: "map (\<lambda>(k, v). (k, json_reparse v)) (string_member key v) = string_member key v"
  by (cases v) (simp_all add: string_member_def)

lemma map_of_string_member:
  "map_of (string_member key v @ rest) k =
     (if k = key then (case v of None \<Rightarrow> map_of rest k | Some s \<Rightarrow> Some (JString s)) else map_of rest k)"
  "map_of (string_member key v) k = (if k = key then map_option JString v else None)"
  by (cases v, simp_all add: string_member_def)+

lemma keep_nonempty_stored: "v \<noteq> Some [] \<Longrightarrow> keep_nonempty v = v"
  by (auto simp: keep_nonempty_def split: option.split)

lemma HostIdentity_texts:
  "optional as_string (json_reparse (HostIdentityToJson h)) ''bootstrapShellPath'' = Some (hi_bootstrap_shell_path h)"
  "optional as_string (json_reparse (HostIdentityToJson h)) ''hubUrl'' = Some (hi_hub_url h)"
  "optional as_string (json_reparse (HostIdentityToJson h)) ''hubToken'' = Some (hi_hub_token h)"
  by (simp_all add: optional_def HostIdentityToJson_def string_member_reparse map_of_string_member del: map_of_append split: option.split)

lemma HostIdentity_roundtrip:
  assumes "HostIdentity_storable h"
  shows "HostIdentityFromJsonWithDefaults (json_reparse (HostIdentityToJson h)) = Some h"
proof -
  let ?o = "json_reparse (HostIdentityToJson h)"
  have keys: "filter (\<lambda>key. key \<noteq> []) xs = xs" if "[] \<notin> set xs" for xs :: "string list"
    using that by (induction xs) auto
  have "HostIdentityFromJson ?o = Some (MakeDefaultHostIdentity
      \<lparr>hi_host_id := hi_host_id h, hi_display_name := hi_display_name h,
       hi_certificate_pem_path := hi_certificate_pem_path h, hi_private_key_pem_path := hi_private_key_pem_path h\<rparr>)"
    by (simp add: HostIdentityFromJson_def required_def HostIdentityToJson_def)
  moreover have "optional nonempty_string ?o ''adminHost'' = Some (Some (hi_admin_host h))"
    "optional parse_port ?o ''adminPort'' = Some (Some (hi_admin_port h))"
    "optional nonempty_string ?o ''remoteHost'' = Some (Some (hi_remote_host h))"
    "optional parse_port ?o ''remotePort'' = Some (Some (hi_remote_port h))"
    "optional parse_max_launch_records ?o ''maxLaunchRecords'' = Some (Some (hi_max_launch_records h))"
    "optional as_bool ?o ''importServiceManagerEnvironment'' = Some (Some (hi_import_service_manager_environment h))"
    "optional parse_allowlist ?o ''serviceManagerEnvironmentAllowlist'' = Some (Some (hi_service_manager_environment_allowlist h))"
    using assms keys
    by (simp_all add: HostIdentity_storable_def optional_def HostIdentityToJson_def string_member_reparse map_of_string_member
        nonempty_string_def parse_max_launch_records_def parse_allowlist_def int64_cast_def
        del: json_reparse.simps(1) map_of_append)
  moreover have "optional parse_launch_records ?o ''launchRecords'' = Some (Some (hi_launch_records h))"
    using assms
    by (simp add: HostIdentity_storable_def optional_def HostIdentityToJson_def parse_launch_records_def launch_records_roundtrip)
  moreover have "optional parse_provider_commands ?o ''providerCommands'' = Some (Some (hi_codex_command h, hi_claude_command h))"
    using assms command_roundtrip [of "hi_codex_command h"] command_roundtrip [of "hi_claude_command h"]
    by (simp add: HostIdentity_storable_def optional_def HostIdentityToJson_def parse_provider_commands_def)
  moreover have "hi_bootstrap_shell_path h \<noteq> Some []" "hi_hub_url h \<noteq> Some []" "hi_hub_token h \<noteq> Some []"
    using assms by (simp_all add: HostIdentity_storable_def)
  ultimately show ?thesis
    by (simp add: HostIdentityFromJsonWithDefaults_def HostIdentity_texts or_default_def keep_nonempty_stored
        MakeDefaultHostIdentity_def)
qed

section \<open>Documents that the parser accepts\<close>

definition PairingSnapshot_ok :: "PairingSnapshot \<Rightarrow> bool" where
  "PairingSnapshot_ok s \<longleftrightarrow>
     list_all PairingRequest_ok (pn_pending s) \<and> list_all PairingRecord_ok (pn_approved s)"

lemma literal_key_valid [simp]:
  "valid_utf8 ''pairingId''" "valid_utf8 ''deviceName''" "valid_utf8 ''deviceType''" "valid_utf8 ''code''"
  "valid_utf8 ''requestedAtUnixMs''" "valid_utf8 ''deviceId''" "valid_utf8 ''bearerToken''"
  "valid_utf8 ''approvedAtUnixMs''" "valid_utf8 ''pending''" "valid_utf8 ''approved''"
  by (rule ascii_valid_utf8, simp add: byte_def)+

lemma ToString_DeviceType_valid [simp]: "valid_utf8 (ToString_DeviceType k)"
  by (cases k) (auto intro!: ascii_valid_utf8 simp: byte_def)

lemma PairingRequest_json_ok: "PairingRequest_ok r \<Longrightarrow> 0 < d \<Longrightarrow> json_ok d (PairingRequestToJson r)"
  by (simp add: PairingRequestToJson_def PairingRequest_ok_def)

lemma PairingRecord_json_ok: "PairingRecord_ok r \<Longrightarrow> 0 < d \<Longrightarrow> json_ok d (PairingRecordToJson r)"
  by (simp add: PairingRecordToJson_def PairingRecord_ok_def)

lemma PairingSnapshot_json_ok: "PairingSnapshot_ok s \<Longrightarrow> json_ok max_depth (PairingSnapshotToJson s)"
  by (auto simp: PairingSnapshotToJson_def PairingSnapshot_ok_def list_all_iff max_depth_def
      PairingRequest_json_ok PairingRecord_json_ok)

lemma PairingRequestFromJson_ok: "json_ok d v \<Longrightarrow> PairingRequestFromJson v = Some r \<Longrightarrow> PairingRequest_ok r"
  by (auto simp: PairingRequestFromJson_def PairingRequest_ok_def Option.bind_eq_Some_conv
      intro: json_ok_required_string json_ok_required_int64 split: if_splits)

lemma PairingRecordFromJson_ok: "json_ok d v \<Longrightarrow> PairingRecordFromJson v = Some r \<Longrightarrow> PairingRecord_ok r"
  by (auto simp: PairingRecordFromJson_def PairingRecord_ok_def Option.bind_eq_Some_conv
      intro: json_ok_required_string json_ok_required_int64 split: if_splits)

lemma map_all_ok:
  assumes "map_all f xs = Some ys" "list_all P xs" "\<And>x y. P x \<Longrightarrow> f x = Some y \<Longrightarrow> Q y"
  shows "list_all Q ys"
  using assms map_all_Some [OF assms(1)] unfolding list_all_iff by metis

lemma PairingSnapshotFromJson_ok:
  assumes "json_ok d v" "PairingSnapshotFromJson v = Some s"
  shows "PairingSnapshot_ok s"
proof -
  from assms(2) obtain pending approved where
    "required as_array v ''pending'' = Some pending" "map_all PairingRequestFromJson pending = Some (pn_pending s)"
    "required as_array v ''approved'' = Some approved" "map_all PairingRecordFromJson approved = Some (pn_approved s)"
    by (auto simp: PairingSnapshotFromJson_def Option.bind_eq_Some_conv split: if_splits)
  then show ?thesis
    unfolding PairingSnapshot_ok_def
    using json_ok_required_array [OF assms(1)] map_all_ok PairingRequestFromJson_ok PairingRecordFromJson_ok
    by metis
qed

end
