(* ===== verification/File_System.thy ===== *)
theory File_System
  imports Prelude "HOL-Library.AList"
begin

text \<open>
  The part of \<open>std::filesystem\<close> and of the file streams that \<open>src/store/file_stores.cpp\<close> uses, and
  its \<open>ReadFile\<close> and \<open>WriteFileAtomically\<close>. A path is the list of its components. A file system holds
  the nodes at its paths and two scripts of faults, consumed by one call each: a fault of
  \<open>fs_faults\<close> makes a call fail and report it (the number says how much was done before it failed), a
  fault of \<open>fs_close_faults\<close> makes the flush at the end of a stream's life fail, which nothing reports.
  An exhausted script means no more faults, so a theorem over all scripts covers every sequence of
  failures.
\<close>

section \<open>Nodes\<close>

type_synonym path = "string list"

datatype fs_node = Dir | File string

record FileSystem =
  fs_nodes :: "(path \<times> fs_node) list"
  fs_faults :: "nat option list"
  fs_close_faults :: "nat option list"

definition node_at :: "path \<Rightarrow> FileSystem \<Rightarrow> fs_node option" where
  "node_at p fs = map_of (fs_nodes fs) p"

definition set_node :: "path \<Rightarrow> fs_node \<Rightarrow> FileSystem \<Rightarrow> FileSystem" where
  "set_node p n fs = fs\<lparr>fs_nodes := AList.update p n (fs_nodes fs)\<rparr>"

definition del_node :: "path \<Rightarrow> FileSystem \<Rightarrow> FileSystem" where
  "del_node p fs = fs\<lparr>fs_nodes := AList.delete p (fs_nodes fs)\<rparr>"

definition next_fault :: "FileSystem \<Rightarrow> nat option \<times> FileSystem" where
  "next_fault fs =
     (case fs_faults fs of [] \<Rightarrow> (None, fs) | f # rest \<Rightarrow> (f, fs\<lparr>fs_faults := rest\<rparr>))"

definition next_close_fault :: "FileSystem \<Rightarrow> nat option \<times> FileSystem" where
  "next_close_fault fs =
     (case fs_close_faults fs of [] \<Rightarrow> (None, fs) | f # rest \<Rightarrow> (f, fs\<lparr>fs_close_faults := rest\<rparr>))"

text \<open>The regular file at a path.\<close>

definition file_at :: "path \<Rightarrow> FileSystem \<Rightarrow> string option" where
  "file_at p fs = (case node_at p fs of Some (File d) \<Rightarrow> Some d | _ \<Rightarrow> None)"

section \<open>Calls\<close>

text \<open>\<open>create_directories\<close> fails when something on the way is a regular file.\<close>

definition create_directories :: "path \<Rightarrow> FileSystem \<Rightarrow> bool \<times> FileSystem" where
  "create_directories p fs =
     (let (fault, fs1) = next_fault fs in
      if fault \<noteq> None \<or> list_ex (\<lambda>q. file_at q fs1 \<noteq> None) (prefixes p) then (True, fs1)
      else (False, fold (\<lambda>q. set_node q Dir) (prefixes p) fs1))"

definition open_truncate :: "path \<Rightarrow> FileSystem \<Rightarrow> bool \<times> FileSystem" where
  "open_truncate p fs =
     (let (fault, fs1) = next_fault fs in
      if fault \<noteq> None \<or> node_at p fs1 = Some Dir \<or> node_at (butlast p) fs1 \<noteq> Some Dir then (False, fs1)
      else (True, set_node p (File []) fs1))"

text \<open>\<open>write\<close> and the test of \<open>good()\<close>, then the end of the stream's scope.\<close>

definition write_data :: "path \<Rightarrow> string \<Rightarrow> FileSystem \<Rightarrow> bool \<times> FileSystem" where
  "write_data p data fs =
     (case next_fault fs of
        (Some n, fs1) \<Rightarrow> (False, set_node p (File (take n data)) fs1)
      | (None, fs1) \<Rightarrow> (True, set_node p (File data) fs1))"

definition close_stream :: "path \<Rightarrow> string \<Rightarrow> FileSystem \<Rightarrow> FileSystem" where
  "close_stream p data fs =
     (case next_close_fault fs of
        (Some n, fs1) \<Rightarrow> set_node p (File (take n data)) fs1
      | (None, fs1) \<Rightarrow> fs1)"

definition rename_file :: "path \<Rightarrow> path \<Rightarrow> FileSystem \<Rightarrow> bool \<times> FileSystem" where
  "rename_file p q fs =
     (let (fault, fs1) = next_fault fs in
      case node_at p fs1 of
        None \<Rightarrow> (True, fs1)
      | Some n \<Rightarrow>
          if fault \<noteq> None \<or> node_at q fs1 = Some Dir then (True, fs1)
          else (False, set_node q n (del_node p fs1)))"

definition below :: "path \<Rightarrow> FileSystem \<Rightarrow> path list" where
  "below p fs = map fst (filter (\<lambda>(q, n). strict_prefix p q) (fs_nodes fs))"

text \<open>\<open>remove\<close>: whether something was removed, and whether there was an error.\<close>

definition remove_path :: "path \<Rightarrow> FileSystem \<Rightarrow> (bool \<times> bool) \<times> FileSystem" where
  "remove_path p fs =
     (let (fault, fs1) = next_fault fs in
      if fault \<noteq> None then ((False, True), fs1)
      else
        case node_at p fs1 of
          None \<Rightarrow> ((False, False), fs1)
        | Some Dir \<Rightarrow> if below p fs1 \<noteq> [] then ((False, True), fs1) else ((True, False), del_node p fs1)
        | Some (File d) \<Rightarrow> ((True, False), del_node p fs1))"

text \<open>\<open>remove_all\<close>: how many nodes were removed, or an error after some of them.\<close>

definition remove_all :: "path \<Rightarrow> FileSystem \<Rightarrow> (nat \<times> bool) \<times> FileSystem" where
  "remove_all p fs =
     (let (fault, fs1) = next_fault fs;
          doomed = map fst (filter (\<lambda>(q, n). prefix p q) (fs_nodes fs1))
      in
      case fault of
        None \<Rightarrow> ((length doomed, False), fold del_node doomed fs1)
      | Some n \<Rightarrow> ((0, True), fold del_node (take n doomed) fs1))"

definition dir_exists :: "path \<Rightarrow> FileSystem \<Rightarrow> bool" where
  "dir_exists p fs \<longleftrightarrow> node_at p fs \<noteq> None"

definition directory_entries :: "path \<Rightarrow> FileSystem \<Rightarrow> (path \<times> fs_node) list" where
  "directory_entries p fs = filter (\<lambda>(q, n). q \<noteq> [] \<and> butlast q = p) (fs_nodes fs)"

section \<open>Reading and writing\<close>

definition ReadFile :: "path \<Rightarrow> FileSystem \<Rightarrow> string option" where
  "ReadFile p fs = file_at p fs"

definition temp_path :: "path \<Rightarrow> path" where
  "temp_path p = butlast p @ [last p @ ''.tmp'']"

definition WriteFileAtomically :: "path \<Rightarrow> string \<Rightarrow> FileSystem \<Rightarrow> bool \<times> FileSystem" where
  "WriteFileAtomically p data fs =
     (let (error, fs1) = create_directories (butlast p) fs in
      if error then (False, fs1)
      else
        let (is_open, fs2) = open_truncate (temp_path p) fs1 in
        if \<not> is_open then (False, fs2)
        else
          let (good, fs3) = write_data (temp_path p) data fs2 in
          if \<not> good then (False, fs3)
          else
            let fs4 = close_stream (temp_path p) data fs3;
                (error, fs5) = rename_file (temp_path p) p fs4
            in
            if \<not> error then (True, fs5)
            else
              let fs6 = snd (remove_path p fs5);
                  (error, fs7) = rename_file (temp_path p) p fs6
              in
              if error then (False, snd (remove_path (temp_path p) fs7)) else (True, fs7))"

section \<open>What the calls do to files\<close>

lemma node_at_set [simp]: "node_at q (set_node p n fs) = (if q = p then Some n else node_at q fs)"
  by (simp add: node_at_def set_node_def update_conv')

lemma node_at_del [simp]: "node_at q (del_node p fs) = (if q = p then None else node_at q fs)"
  by (simp add: node_at_def del_node_def delete_conv')

lemma file_at_set [simp]:
  "file_at q (set_node p n fs) = (if q = p then (case n of File d \<Rightarrow> Some d | Dir \<Rightarrow> None) else file_at q fs)"
  by (simp add: file_at_def split: fs_node.splits)

lemma file_at_del [simp]: "file_at q (del_node p fs) = (if q = p then None else file_at q fs)"
  by (simp add: file_at_def)

lemma fault_free_parts [simp]:
  "fs_close_faults (set_node p n fs) = fs_close_faults fs"
  "fs_close_faults (del_node p fs) = fs_close_faults fs"
  by (simp_all add: set_node_def del_node_def)

lemma next_fault_parts [simp]:
  assumes "next_fault fs = (f, fs1)"
  shows "node_at q fs1 = node_at q fs" "file_at q fs1 = file_at q fs"
    "fs_close_faults fs1 = fs_close_faults fs"
  using assms by (auto simp: next_fault_def node_at_def file_at_def split: list.splits)

lemma next_close_fault_parts [simp]:
  assumes "next_close_fault fs = (f, fs1)"
  shows "node_at q fs1 = node_at q fs" "file_at q fs1 = file_at q fs"
    "fs_close_faults fs = [] \<Longrightarrow> f = None \<and> fs_close_faults fs1 = []"
  using assms by (auto simp: next_close_fault_def node_at_def file_at_def split: list.splits)

lemma fold_set_dirs:
  assumes "\<forall>q \<in> set qs. file_at q fs = None"
  shows "file_at q (fold (\<lambda>q. set_node q Dir) qs fs) = file_at q fs
    \<and> fs_close_faults (fold (\<lambda>q. set_node q Dir) qs fs) = fs_close_faults fs"
  using assms by (induction qs arbitrary: fs) auto

text \<open>Each call leaves the files alone that it does not name.\<close>

lemma create_directories_files:
  assumes "create_directories p fs = (error, fs')"
  shows "file_at q fs' = file_at q fs" "fs_close_faults fs' = fs_close_faults fs"
  using assms fold_set_dirs [of "prefixes p" "snd (next_fault fs)"]
  by (auto simp: create_directories_def list_ex_iff split: prod.splits if_splits)

lemma open_truncate_files:
  assumes "open_truncate p fs = (ok, fs')"
  shows "q \<noteq> p \<Longrightarrow> file_at q fs' = file_at q fs" "fs_close_faults fs' = fs_close_faults fs"
  using assms by (auto simp: open_truncate_def split: prod.splits if_splits)

lemma write_data_files:
  assumes "write_data p data fs = (ok, fs')"
  shows "q \<noteq> p \<Longrightarrow> file_at q fs' = file_at q fs" "fs_close_faults fs' = fs_close_faults fs"
    "ok \<Longrightarrow> node_at p fs' = Some (File data)"
  using assms by (auto simp: write_data_def split: prod.splits option.splits)

lemma node_at_close_faults [simp]: "node_at p (fs\<lparr>fs_close_faults := x\<rparr>) = node_at p fs"
  by (simp add: node_at_def)

lemma file_at_close_faults [simp]: "file_at p (fs\<lparr>fs_close_faults := x\<rparr>) = file_at p fs"
  by (simp add: file_at_def)

text \<open>The operating system keeps what is flushed when the next stream is closed.\<close>

definition next_flush_kept :: "FileSystem \<Rightarrow> bool" where
  "next_flush_kept fs \<longleftrightarrow> (case fs_close_faults fs of [] \<Rightarrow> True | fault # _ \<Rightarrow> fault = None)"

lemma close_stream_kept: "next_flush_kept fs \<Longrightarrow> node_at p (close_stream p data fs) = node_at p fs"
  by (cases "fs_close_faults fs") (simp_all add: close_stream_def next_close_fault_def next_flush_kept_def)

lemma close_stream_files:
  assumes "node_at p fs = Some (File data)"
  shows "q \<noteq> p \<Longrightarrow> file_at q (close_stream p data fs) = file_at q fs"
    "\<exists>n. node_at p (close_stream p data fs) = Some (File (take n data))"
    "fs_close_faults fs = [] \<Longrightarrow>
       node_at p (close_stream p data fs) = Some (File data) \<and> fs_close_faults (close_stream p data fs) = []"
  using assms take_all [of data "length data"]
  by (cases "fs_close_faults fs"; cases "hd (fs_close_faults fs)";
      simp add: close_stream_def next_close_fault_def; metis order.refl)+

lemma rename_file_files:
  assumes "rename_file p q fs = (error, fs')" "node_at p fs = Some (File d)" "p \<noteq> q"
  shows "r \<noteq> p \<Longrightarrow> r \<noteq> q \<Longrightarrow> file_at r fs' = file_at r fs" "fs_close_faults fs' = fs_close_faults fs"
    "\<not> error \<Longrightarrow> file_at q fs' = Some d" "error \<Longrightarrow> node_at r fs' = node_at r fs"
    "error \<Longrightarrow> file_at r fs' = file_at r fs"
  using assms by (auto simp: rename_file_def file_at_def split: prod.splits option.splits if_splits)

lemma remove_path_files:
  shows "r \<noteq> p \<Longrightarrow> node_at r (snd (remove_path p fs)) = node_at r fs"
    "r \<noteq> p \<Longrightarrow> file_at r (snd (remove_path p fs)) = file_at r fs"
    "fs_close_faults (snd (remove_path p fs)) = fs_close_faults fs"
    "file_at p (snd (remove_path p fs)) = file_at p fs \<or> file_at p (snd (remove_path p fs)) = None"
  by (auto simp: remove_path_def split: prod.splits option.splits if_splits fs_node.splits)

lemma temp_path_neq [simp]: "p \<noteq> [] \<Longrightarrow> temp_path p \<noteq> p"
  by (cases p rule: rev_cases) (auto simp: temp_path_def)

text \<open>Nothing but the file itself and its temporary companion changes; the file holds the new data,
  or a beginning of it when the flush was lost, or what it held before, or nothing.\<close>

lemma WriteFileAtomically_files:
  assumes p: "p \<noteq> []" and w: "WriteFileAtomically p data fs = (ok, fs')"
  shows "q \<noteq> p \<Longrightarrow> q \<noteq> temp_path p \<Longrightarrow> file_at q fs' = file_at q fs"
    and "ok \<Longrightarrow> \<exists>n. file_at p fs' = Some (take n data)"
    and "\<not> ok \<Longrightarrow> file_at p fs' = file_at p fs \<or> file_at p fs' = None"
    and "fs_close_faults fs = [] \<Longrightarrow> fs_close_faults fs' = [] \<and> (ok \<longrightarrow> file_at p fs' = Some data)"
    and "next_flush_kept fs \<Longrightarrow> ok \<Longrightarrow> file_at p fs' = Some data"
proof -
  let ?t = "temp_path p"
  have t: "?t \<noteq> p" using p by simp
  obtain e1 fs1 where c: "create_directories (butlast p) fs = (e1, fs1)" by fastforce
  obtain o2 fs2 where o: "open_truncate ?t fs1 = (o2, fs2)" by fastforce
  obtain g3 fs3 where d: "write_data ?t data fs2 = (g3, fs3)" by fastforce
  define fs4 where "fs4 = close_stream ?t data fs3"
  obtain e5 fs5 where r5: "rename_file ?t p fs4 = (e5, fs5)" by fastforce
  define fs6 where "fs6 = snd (remove_path p fs5)"
  obtain e7 fs7 where r7: "rename_file ?t p fs6 = (e7, fs7)" by fastforce
  have W: "WriteFileAtomically p data fs =
      (if e1 then (False, fs1) else if \<not> o2 then (False, fs2) else if \<not> g3 then (False, fs3)
       else if \<not> e5 then (True, fs5) else if e7 then (False, snd (remove_path ?t fs7)) else (True, fs7))"
    using c o d r5 r7 by (simp add: WriteFileAtomically_def fs4_def fs6_def Let_def)
  note c = create_directories_files [OF c] and o = open_truncate_files [OF o] and d = write_data_files [OF d]
  have early: "file_at q fs1 = file_at q fs" "q \<noteq> ?t \<Longrightarrow> file_at q fs2 = file_at q fs"
    "q \<noteq> ?t \<Longrightarrow> file_at q fs3 = file_at q fs" for q
    using c o d by simp_all
  have faults: "fs_close_faults fs3 = fs_close_faults fs" "fs_close_faults fs2 = fs_close_faults fs"
    "fs_close_faults fs1 = fs_close_faults fs"
    using c o d by simp_all
  have late: "(q \<noteq> p \<longrightarrow> q \<noteq> ?t \<longrightarrow> file_at q fs' = file_at q fs)
      \<and> (ok \<longrightarrow> (\<exists>n. file_at p fs' = Some (take n data)))
      \<and> (\<not> ok \<longrightarrow> file_at p fs' = file_at p fs \<or> file_at p fs' = None)
      \<and> (fs_close_faults fs = [] \<longrightarrow> fs_close_faults fs' = [])
      \<and> (next_flush_kept fs \<longrightarrow> ok \<longrightarrow> file_at p fs' = Some data)"
    if g3: "g3" and r: "(ok, fs') = (if \<not> e5 then (True, fs5)
        else if e7 then (False, snd (remove_path ?t fs7)) else (True, fs7))" for q
  proof -
    note n3 = d(3) [OF g3]
    note cl = close_stream_files [OF n3, folded fs4_def]
    obtain n where n4: "node_at ?t fs4 = Some (File (take n data))" using cl(2) by blast
    have whole: "take n data = data" if "next_flush_kept fs"
      using close_stream_kept [of fs3 ?t data, folded fs4_def] n3 n4 faults that by (simp add: next_flush_kept_def)
    note r5 = rename_file_files [OF r5 n4 t]
    show ?thesis
    proof (cases e5)
      case False
      with r r5 cl n4 early faults t whole show ?thesis by (auto intro: exI [of _ n])
    next
      case True
      have n6: "node_at ?t fs6 = Some (File (take n data))"
        using remove_path_files(1) [of ?t p fs5] r5(4) [OF True, of ?t] n4 t by (simp add: fs6_def)
      note r7 = rename_file_files [OF r7 n6 t]
      note rp = remove_path_files(2) [of _ p fs5, folded fs6_def] remove_path_files(2) [of _ ?t fs7]
        remove_path_files(3,4) [of p fs5, folded fs6_def] remove_path_files(3,4) [of ?t fs7]
      have f5: "file_at q fs5 = file_at q fs4" "file_at p fs5 = file_at p fs4" for q using r5(5) [OF True] by simp_all
      have f4: "q \<noteq> ?t \<Longrightarrow> file_at q fs4 = file_at q fs" for q using cl(1) early by simp
      have "fs_close_faults fs7 = []" if "fs_close_faults fs = []"
        using cl(3) faults that rp r5(2) r7(2) by simp
      with True r r7 rp f5 f4 t whole show ?thesis by (cases e7) (auto intro: exI [of _ n])
    qed
  qed
  show "q \<noteq> p \<Longrightarrow> q \<noteq> ?t \<Longrightarrow> file_at q fs' = file_at q fs"
    using late W w early by (auto split: if_splits)
  show "ok \<Longrightarrow> \<exists>n. file_at p fs' = Some (take n data)"
    using late W w by (auto split: if_splits)
  show "\<not> ok \<Longrightarrow> file_at p fs' = file_at p fs \<or> file_at p fs' = None"
    using late W w early t by (auto split: if_splits)
  show kept: "next_flush_kept fs \<Longrightarrow> ok \<Longrightarrow> file_at p fs' = Some data"
    using late W w by (auto split: if_splits)
  show "fs_close_faults fs = [] \<Longrightarrow> fs_close_faults fs' = [] \<and> (ok \<longrightarrow> file_at p fs' = Some data)"
    using late W w faults kept by (auto simp: next_flush_kept_def split: if_splits)
qed

text \<open>Without faults and obstacles the write succeeds.\<close>

lemma next_fault_none: "fs_faults fs = [] \<Longrightarrow> next_fault fs = (None, fs)"
  by (simp add: next_fault_def)

lemma fs_faults_parts [simp]:
  "fs_faults (set_node p n fs) = fs_faults fs" "fs_faults (del_node p fs) = fs_faults fs"
  "fs_faults (fold (\<lambda>q. set_node q Dir) qs fs) = fs_faults fs"
  "fs_faults (close_stream p data fs) = fs_faults fs"
proof -
  show "fs_faults (set_node p n fs) = fs_faults fs" "fs_faults (del_node p fs) = fs_faults fs" for p n fs
    by (simp_all add: set_node_def del_node_def)
  then show "fs_faults (fold (\<lambda>q. set_node q Dir) qs fs) = fs_faults fs"
    by (induction qs arbitrary: fs) simp_all
  show "fs_faults (close_stream p data fs) = fs_faults fs"
    by (cases "fs_close_faults fs"; cases "hd (fs_close_faults fs)")
      (simp_all add: close_stream_def next_close_fault_def set_node_def)
qed

lemma node_at_fold_dirs:
  "node_at p (fold (\<lambda>q. set_node q Dir) qs fs) = (if p \<in> set qs then Some Dir else node_at p fs)"
  by (induction qs arbitrary: fs) auto

lemma WriteFileAtomically_succeeds:
  assumes "fs_faults fs = []" "p \<noteq> []" "\<forall>q \<in> set (prefixes (butlast p)). file_at q fs = None"
    and "node_at p fs \<noteq> Some Dir" "node_at (temp_path p) fs \<noteq> Some Dir"
  shows "fst (WriteFileAtomically p data fs) \<and> fs_faults (snd (WriteFileAtomically p data fs)) = []"
proof -
  let ?fs1 = "fold (\<lambda>q. set_node q Dir) (prefixes (butlast p)) fs" and ?t = "temp_path p"
  have t: "?t \<noteq> p" "butlast ?t = butlast p" using assms(2) by (simp, simp add: temp_path_def)
  have long: "p \<notin> set (prefixes (butlast p))" "?t \<notin> set (prefixes (butlast p))"
    using assms(2) by (cases p rule: rev_cases; auto simp: temp_path_def dest: prefix_length_le)+
  have c: "create_directories (butlast p) fs = (False, ?fs1)"
    using assms(1,3) by (auto simp: create_directories_def next_fault_none list_ex_iff)
  have o: "open_truncate ?t ?fs1 = (True, set_node ?t (File []) ?fs1)"
    using assms(1,5) long t by (simp add: open_truncate_def next_fault_none node_at_fold_dirs)
  let ?fs3 = "set_node ?t (File data) (set_node ?t (File []) ?fs1)"
  have w: "write_data ?t data (set_node ?t (File []) ?fs1) = (True, ?fs3)"
    using assms(1) by (simp add: write_data_def next_fault_none)
  obtain n where n: "node_at ?t (close_stream ?t data ?fs3) = Some (File (take n data))"
    using close_stream_files(2) [of ?t ?fs3 data] by auto
  have "node_at p (close_stream ?t data ?fs3) = node_at p fs"
    using long t by (simp add: close_stream_def node_at_fold_dirs split: option.splits prod.splits)
  then show ?thesis
    using c o w n assms(1,4) by (simp add: WriteFileAtomically_def Let_def rename_file_def next_fault_none)
qed

text \<open>Claim C40: what a write of a file can do to the disk, whichever of its calls fail. Every other file is left alone
  except the temporary companion. A write that reports failure leaves the old content or no file. A write that reports
  success leaves the new data, all of it when the flush at the end of the stream's life is kept; otherwise, since
  nothing looks at that flush, a beginning of the new data.\<close>

theorem write_file_atomically_whole:
  assumes "p \<noteq> []" "WriteFileAtomically p data fs = (ok, fs')"
  shows "(\<forall>q. q \<noteq> p \<longrightarrow> q \<noteq> temp_path p \<longrightarrow> file_at q fs' = file_at q fs)
    \<and> (if \<not> ok then file_at p fs' \<in> {file_at p fs, None}
       else if next_flush_kept fs then file_at p fs' = Some data
       else \<exists>n. file_at p fs' = Some (take n data))"
  using WriteFileAtomically_files [OF assms] by auto

definition demo_disk :: FileSystem where
  "demo_disk = \<lparr>fs_nodes = [([], Dir), ([''a''], File ''old'')],
     fs_faults = [None, None, None, Some 0, None, Some 0], fs_close_faults = []\<rparr>"

theorem write_file_atomically_whole_witness:
  "WriteFileAtomically [''a''] ''new'' demo_disk = (False, snd (WriteFileAtomically [''a''] ''new'' demo_disk))
   \<and> file_at [''a''] (snd (WriteFileAtomically [''a''] ''new'' demo_disk)) \<in> {Some ''old'', None}"
proof -
  have "fst (WriteFileAtomically [''a''] ''new'' demo_disk) = False" by code_simp
  then have w: "WriteFileAtomically [''a''] ''new'' demo_disk = (False, snd (WriteFileAtomically [''a''] ''new'' demo_disk))"
    by (simp add: prod_eq_iff)
  have "file_at [''a''] demo_disk = Some ''old''" by (simp add: demo_disk_def file_at_def node_at_def)
  with w write_file_atomically_whole [OF _ w] show ?thesis by simp
qed

text \<open>The last case of the property is real: a flush that fails when the stream is closed goes unnoticed, the write
  reports success and the good old file has been replaced by the part of the new data that reached the disk.\<close>

theorem write_file_atomically_lost_flush:
  "\<exists>fs'. WriteFileAtomically [''a''] data
      \<lparr>fs_nodes = [([], Dir), ([''a''], File old_data)], fs_faults = [], fs_close_faults = [Some n]\<rparr> = (True, fs')
    \<and> file_at [''a''] fs' = Some (take n data)"
  by (simp add: WriteFileAtomically_def create_directories_def open_truncate_def write_data_def close_stream_def
      rename_file_def next_fault_def next_close_fault_def temp_path_def file_at_def node_at_def set_node_def
      del_node_def)

end
