(* ===== verification/File_Stores.thy ===== *)
theory File_Stores
  imports Store_Json File_System
begin

text \<open>
  The stores of \<open>src/store/file_stores.cpp\<close> on the file system model: host identity, pairings and
  sessions (templates and evidence are in \<open>Document_Stores\<close>). Every operation threads the file system; the JSON
  library is an argument. \<open>FilePairingStore\<close> is proved to be a \<open>pairing_store\<close>, the contract under
  which the pairing service is verified.
\<close>

section \<open>Paths\<close>

definition HostIdentityPath :: "path \<Rightarrow> path" where
  "HostIdentityPath storage_root = storage_root @ [''host_identity.json'']"

definition PairingsPath :: "path \<Rightarrow> path" where
  "PairingsPath storage_root = storage_root @ [''pairings.json'']"

definition SessionsPath :: "path \<Rightarrow> path" where
  "SessionsPath storage_root = storage_root @ [''sessions.json'']"

section \<open>JSON files\<close>

definition LoadFromJsonFile :: "JsonLib \<Rightarrow> path \<Rightarrow> 'a \<Rightarrow> (json \<Rightarrow> 'a option) \<Rightarrow> FileSystem \<Rightarrow> 'a" where
  "LoadFromJsonFile lib p fallback loader fs =
     (case ReadFile p fs of
        None \<Rightarrow> fallback
      | Some content \<Rightarrow>
          (case jl_parse lib content of
             None \<Rightarrow> fallback
           | Some value \<Rightarrow> (case loader value of None \<Rightarrow> fallback | Some x \<Rightarrow> x)))"

definition LoadOptionalFromJsonFile :: "JsonLib \<Rightarrow> path \<Rightarrow> (json \<Rightarrow> 'a option) \<Rightarrow> FileSystem \<Rightarrow> 'a option" where
  "LoadOptionalFromJsonFile lib p loader fs =
     (case ReadFile p fs of
        None \<Rightarrow> None
      | Some content \<Rightarrow> (case jl_parse lib content of None \<Rightarrow> None | Some value \<Rightarrow> loader value))"

section \<open>Host identity\<close>

definition FileHostConfigStore :: "JsonLib \<Rightarrow> path \<Rightarrow> FileSystem HostConfigStore" where
  "FileHostConfigStore lib storage_root =
     \<lparr>LoadHostIdentity =
        LoadOptionalFromJsonFile lib (HostIdentityPath storage_root) HostIdentityFromJsonWithDefaults,
      SaveHostIdentity = (\<lambda>identity.
        WriteFileAtomically (HostIdentityPath storage_root) (jl_serialize lib (HostIdentityToJson identity)))\<rparr>"

section \<open>Pairings\<close>

definition PairingSnapshot_empty :: PairingSnapshot where
  "PairingSnapshot_empty = \<lparr>pn_pending = [], pn_approved = []\<rparr>"

definition LoadPairingSnapshot :: "JsonLib \<Rightarrow> path \<Rightarrow> FileSystem \<Rightarrow> PairingSnapshot" where
  "LoadPairingSnapshot lib p = LoadFromJsonFile lib p PairingSnapshot_empty PairingSnapshotFromJson"

definition SavePairingSnapshot :: "JsonLib \<Rightarrow> path \<Rightarrow> PairingSnapshot \<Rightarrow> FileSystem \<Rightarrow> bool \<times> FileSystem" where
  "SavePairingSnapshot lib p snapshot =
     WriteFileAtomically p (jl_serialize lib (PairingSnapshotToJson snapshot))"

definition fp_UpsertPending :: "JsonLib \<Rightarrow> path \<Rightarrow> PairingRequest \<Rightarrow> FileSystem \<Rightarrow> bool \<times> FileSystem" where
  "fp_UpsertPending lib storage_root request fs =
     (let snapshot = LoadPairingSnapshot lib (PairingsPath storage_root) fs in
      SavePairingSnapshot lib (PairingsPath storage_root)
        (snapshot\<lparr>pn_pending := UpsertBy (\<lambda>existing. prq_pairing_id existing = prq_pairing_id request)
                                 request (pn_pending snapshot)\<rparr>) fs)"

definition fp_UpsertApproved :: "JsonLib \<Rightarrow> path \<Rightarrow> PairingRecord \<Rightarrow> FileSystem \<Rightarrow> bool \<times> FileSystem" where
  "fp_UpsertApproved lib storage_root r fs =
     (let snapshot = LoadPairingSnapshot lib (PairingsPath storage_root) fs in
      SavePairingSnapshot lib (PairingsPath storage_root)
        (snapshot\<lparr>pn_approved := UpsertBy (\<lambda>existing. prc_device_id existing = prc_device_id r)
                                  r (pn_approved snapshot)\<rparr>) fs)"

definition fp_RemovePending :: "JsonLib \<Rightarrow> path \<Rightarrow> string \<Rightarrow> FileSystem \<Rightarrow> bool \<times> FileSystem" where
  "fp_RemovePending lib storage_root pairing_id fs =
     (let snapshot = LoadPairingSnapshot lib (PairingsPath storage_root) fs;
          (removed, pending) = RemoveBy (\<lambda>r. prq_pairing_id r = pairing_id) (pn_pending snapshot)
      in
      if \<not> removed then (False, fs)
      else SavePairingSnapshot lib (PairingsPath storage_root) (snapshot\<lparr>pn_pending := pending\<rparr>) fs)"

definition fp_RemoveApproved :: "JsonLib \<Rightarrow> path \<Rightarrow> string \<Rightarrow> FileSystem \<Rightarrow> bool \<times> FileSystem" where
  "fp_RemoveApproved lib storage_root device_id fs =
     (let snapshot = LoadPairingSnapshot lib (PairingsPath storage_root) fs;
          (removed, approved) = RemoveBy (\<lambda>r. prc_device_id r = device_id) (pn_approved snapshot)
      in
      if \<not> removed then (False, fs)
      else SavePairingSnapshot lib (PairingsPath storage_root) (snapshot\<lparr>pn_approved := approved\<rparr>) fs)"

definition FilePairingStore :: "JsonLib \<Rightarrow> path \<Rightarrow> FileSystem PairingStore" where
  "FilePairingStore lib storage_root =
     \<lparr>LoadPendingPairings = (\<lambda>fs. pn_pending (LoadPairingSnapshot lib (PairingsPath storage_root) fs)),
      LoadApprovedPairings = (\<lambda>fs. pn_approved (LoadPairingSnapshot lib (PairingsPath storage_root) fs)),
      UpsertPendingPairing = fp_UpsertPending lib storage_root,
      UpsertApprovedPairing = fp_UpsertApproved lib storage_root,
      RemovePendingPairing = fp_RemovePending lib storage_root,
      RemoveApprovedPairing = fp_RemoveApproved lib storage_root\<rparr>"

section \<open>Sessions\<close>

definition LoadSessions :: "JsonLib \<Rightarrow> path \<Rightarrow> FileSystem \<Rightarrow> PersistedSessionRecord list" where
  "LoadSessions lib storage_root =
     LoadFromJsonFile lib (SessionsPath storage_root) [] SessionRecordsFromJson"

definition save_sessions :: "JsonLib \<Rightarrow> path \<Rightarrow> PersistedSessionRecord list \<Rightarrow> FileSystem \<Rightarrow> bool \<times> FileSystem" where
  "save_sessions lib storage_root records =
     WriteFileAtomically (SessionsPath storage_root) (jl_serialize lib (SessionRecordsToJson records))"

definition UpsertSessionRecord ::
    "JsonLib \<Rightarrow> path \<Rightarrow> PersistedSessionRecord \<Rightarrow> FileSystem \<Rightarrow> bool \<times> FileSystem" where
  "UpsertSessionRecord lib storage_root r fs =
     save_sessions lib storage_root
       (UpsertBy (\<lambda>existing. pr_session_id existing = pr_session_id r) r (LoadSessions lib storage_root fs)) fs"

definition RemoveSessionRecord :: "JsonLib \<Rightarrow> path \<Rightarrow> string \<Rightarrow> FileSystem \<Rightarrow> bool \<times> FileSystem" where
  "RemoveSessionRecord lib storage_root session_id fs =
     (let (removed, records) =
            RemoveBy (\<lambda>r. pr_session_id r = session_id) (LoadSessions lib storage_root fs)
      in if \<not> removed then (False, fs) else save_sessions lib storage_root records fs)"

section \<open>The pairing store keeps its contract\<close>

definition reliable :: "FileSystem \<Rightarrow> bool" where
  "reliable fs \<longleftrightarrow> fs_close_faults fs = []"

lemma PairingsPath_nonempty [simp]: "PairingsPath root \<noteq> []"
  by (simp add: PairingsPath_def)

context json_lib
begin

lemma LoadFromJsonFile_written:
  assumes p: "p \<noteq> []" and rel: "reliable fs" and ok: "json_ok max_depth v"
    and l: "loader (json_reparse v) = Some x"
    and w: "WriteFileAtomically p (jl_serialize lib v) fs = (True, fs')"
  shows "LoadFromJsonFile lib p d loader fs' = x" "LoadOptionalFromJsonFile lib p loader fs' = Some x" "reliable fs'"
  using WriteFileAtomically_files(4) [OF p w] rel l parse_serialize [OF ok]
  by (simp_all add: LoadFromJsonFile_def LoadOptionalFromJsonFile_def ReadFile_def reliable_def)

lemma LoadFromJsonFile_not_written:
  assumes p: "p \<noteq> []" and rel: "reliable fs" and w: "WriteFileAtomically p data fs = (False, fs')"
  shows "LoadFromJsonFile lib p d loader fs' = LoadFromJsonFile lib p d loader fs
      \<or> LoadFromJsonFile lib p d loader fs' = d" "reliable fs'"
  using WriteFileAtomically_files(3,4) [OF p w] rel
  by (auto simp: LoadFromJsonFile_def ReadFile_def reliable_def)

lemma LoadPairingSnapshot_ok: "PairingSnapshot_ok (LoadPairingSnapshot lib p fs)"
  using PairingSnapshotFromJson_ok [OF parse_ok]
  by (auto simp: LoadPairingSnapshot_def LoadFromJsonFile_def PairingSnapshot_empty_def PairingSnapshot_ok_def
      split: option.splits)

lemma SavePairingSnapshot_ok:
  assumes "reliable fs" "PairingSnapshot_ok s" "SavePairingSnapshot lib (PairingsPath root) s fs = (True, fs')"
  shows "LoadPairingSnapshot lib (PairingsPath root) fs' = s \<and> reliable fs'"
  using LoadFromJsonFile_written(1,3) [OF PairingsPath_nonempty assms(1) PairingSnapshot_json_ok [OF assms(2)],
      where loader = PairingSnapshotFromJson, OF PairingSnapshot_roundtrip] assms(3)
  by (simp add: SavePairingSnapshot_def LoadPairingSnapshot_def)

lemma SavePairingSnapshot_fails:
  assumes "reliable fs" "SavePairingSnapshot lib (PairingsPath root) s fs = (False, fs')"
  shows "store_kept (FilePairingStore lib root) fs fs' \<and> reliable fs'"
proof -
  have w: "WriteFileAtomically (PairingsPath root) (jl_serialize lib (PairingSnapshotToJson s)) fs = (False, fs')"
    using assms(2) by (simp add: SavePairingSnapshot_def)
  have "LoadPairingSnapshot lib (PairingsPath root) fs' = LoadPairingSnapshot lib (PairingsPath root) fs
      \<or> LoadPairingSnapshot lib (PairingsPath root) fs' = PairingSnapshot_empty"
    unfolding LoadPairingSnapshot_def
    by (rule LoadFromJsonFile_not_written(1) [OF PairingsPath_nonempty assms(1) w])
  then show ?thesis
    using LoadFromJsonFile_not_written(2) [OF PairingsPath_nonempty assms(1) w]
    by (auto simp: store_kept_def FilePairingStore_def PairingSnapshot_empty_def)
qed

lemma SavePairingSnapshot_reliable:
  "reliable fs \<Longrightarrow> reliable (snd (SavePairingSnapshot lib (PairingsPath root) s fs))"
  using WriteFileAtomically_files(4) [of "PairingsPath root"]
  by (cases "SavePairingSnapshot lib (PairingsPath root) s fs") (auto simp: reliable_def SavePairingSnapshot_def)

end

lemma UpsertBy_list_all: "list_all P xs \<Longrightarrow> P v \<Longrightarrow> list_all P (UpsertBy Q v xs)"
  by (induction xs) auto

lemma length_filter_eq: "length (filter Q xs) = length xs \<longleftrightarrow> (\<forall>x \<in> set xs. Q x)"
proof (induction xs)
  case (Cons x xs)
  have "length (filter Q xs) \<noteq> Suc (length xs)" by (metis length_filter_le not_less_eq_eq order.refl)
  with Cons show ?case by auto
qed simp

lemma RemoveBy_eq: "RemoveBy P xs = (\<exists>x \<in> set xs. P x, filter (\<lambda>x. \<not> P x) xs)"
  by (auto simp: RemoveBy_def Let_def length_filter_eq)

lemma FilePairingStore_sel [simp]:
  "LoadPendingPairings (FilePairingStore lib root) fs = pn_pending (LoadPairingSnapshot lib (PairingsPath root) fs)"
  "LoadApprovedPairings (FilePairingStore lib root) fs = pn_approved (LoadPairingSnapshot lib (PairingsPath root) fs)"
  "UpsertPendingPairing (FilePairingStore lib root) = fp_UpsertPending lib root"
  "UpsertApprovedPairing (FilePairingStore lib root) = fp_UpsertApproved lib root"
  "RemovePendingPairing (FilePairingStore lib root) = fp_RemovePending lib root"
  "RemoveApprovedPairing (FilePairingStore lib root) = fp_RemoveApproved lib root"
  by (simp_all add: FilePairingStore_def)

lemma pairing_store_file:
  assumes "json_lib lib"
  shows "pairing_store (FilePairingStore lib root) reliable"
proof -
  note save_ok = json_lib.SavePairingSnapshot_ok [OF assms]
    and save_fails = json_lib.SavePairingSnapshot_fails [OF assms]
    and save_reliable = json_lib.SavePairingSnapshot_reliable [OF assms]
    and load_ok = json_lib.LoadPairingSnapshot_ok [OF assms]
  note ops = fp_UpsertPending_def fp_UpsertApproved_def fp_RemovePending_def
    fp_RemoveApproved_def RemoveBy_eq Let_def
  have kept: "store_kept (FilePairingStore lib root) s s" for s by (simp add: store_kept_def)
  show ?thesis
  proof
    fix r s
    assume "r \<in> set (LoadPendingPairings (FilePairingStore lib root) s)"
    then show "PairingRequest_ok r"
      using load_ok [of "PairingsPath root" s] by (auto simp: ops PairingSnapshot_ok_def list_all_iff)
  next
    fix r s s'
    let ?snap = "LoadPairingSnapshot lib (PairingsPath root) s"
    assume "reliable s" "PairingRequest_ok r" "UpsertPendingPairing (FilePairingStore lib root) r s = (True, s')"
    then show "LoadPendingPairings (FilePairingStore lib root) s' =
        UpsertBy (\<lambda>x. prq_pairing_id x = prq_pairing_id r) r (LoadPendingPairings (FilePairingStore lib root) s)
      \<and> LoadApprovedPairings (FilePairingStore lib root) s' = LoadApprovedPairings (FilePairingStore lib root) s"
      using save_ok [of s "?snap\<lparr>pn_pending := UpsertBy (\<lambda>x. prq_pairing_id x = prq_pairing_id r) r (pn_pending ?snap)\<rparr>" root s'] load_ok [of "PairingsPath root" s]
      by (auto simp: ops PairingSnapshot_ok_def UpsertBy_list_all)
  next
    fix d s s'
    let ?snap = "LoadPairingSnapshot lib (PairingsPath root) s"
    assume "reliable s" "PairingRecord_ok d" "UpsertApprovedPairing (FilePairingStore lib root) d s = (True, s')"
    then show "LoadApprovedPairings (FilePairingStore lib root) s' =
        UpsertBy (\<lambda>x. prc_device_id x = prc_device_id d) d (LoadApprovedPairings (FilePairingStore lib root) s)
      \<and> LoadPendingPairings (FilePairingStore lib root) s' = LoadPendingPairings (FilePairingStore lib root) s"
      using save_ok [of s "?snap\<lparr>pn_approved := UpsertBy (\<lambda>x. prc_device_id x = prc_device_id d) d (pn_approved ?snap)\<rparr>" root s'] load_ok [of "PairingsPath root" s]
      by (auto simp: ops PairingSnapshot_ok_def UpsertBy_list_all)
  next
    fix i s s'
    let ?snap = "LoadPairingSnapshot lib (PairingsPath root) s"
    assume "reliable s" "RemovePendingPairing (FilePairingStore lib root) i s = (True, s')"
    then show "LoadPendingPairings (FilePairingStore lib root) s' =
        filter (\<lambda>x. prq_pairing_id x \<noteq> i) (LoadPendingPairings (FilePairingStore lib root) s)
      \<and> LoadApprovedPairings (FilePairingStore lib root) s' = LoadApprovedPairings (FilePairingStore lib root) s"
      using save_ok [of s "?snap\<lparr>pn_pending := filter (\<lambda>x. prq_pairing_id x \<noteq> i) (pn_pending ?snap)\<rparr>" root s'] load_ok [of "PairingsPath root" s]
      by (auto simp: ops PairingSnapshot_ok_def list_all_iff split: if_splits)
  next
    fix j s s'
    let ?snap = "LoadPairingSnapshot lib (PairingsPath root) s"
    assume "reliable s" "RemoveApprovedPairing (FilePairingStore lib root) j s = (True, s')"
    then show "LoadApprovedPairings (FilePairingStore lib root) s' =
        filter (\<lambda>x. prc_device_id x \<noteq> j) (LoadApprovedPairings (FilePairingStore lib root) s)
      \<and> LoadPendingPairings (FilePairingStore lib root) s' = LoadPendingPairings (FilePairingStore lib root) s"
      using save_ok [of s "?snap\<lparr>pn_approved := filter (\<lambda>x. prc_device_id x \<noteq> j) (pn_approved ?snap)\<rparr>" root s'] load_ok [of "PairingsPath root" s]
      by (auto simp: ops PairingSnapshot_ok_def list_all_iff split: if_splits)
  qed (auto simp: ops kept dest: save_fails intro: save_reliable split: if_splits)
qed

interpretation file_pairings: pairing_store "FilePairingStore unary_json root" reliable for root
  by (rule pairing_store_file) unfold_locales

section \<open>The pairing service on files\<close>

definition new_pairing_service :: "FileSystem \<Rightarrow> int \<Rightarrow> FileSystem PairingService" where
  "new_pairing_service fs ttl =
     \<lparr>ps_store = fs, ps_ttl_ms = ttl, ps_approved_claims = Map.empty, ps_rejected_claims = Map.empty\<rparr>"

lemma LoadPairingSnapshot_absent:
  "file_at (PairingsPath root) fs = None \<Longrightarrow> LoadPairingSnapshot lib (PairingsPath root) fs = PairingSnapshot_empty"
  by (simp add: LoadPairingSnapshot_def LoadFromJsonFile_def ReadFile_def)


definition demo_fs :: FileSystem where
  "demo_fs = \<lparr>fs_nodes = [], fs_faults = [], fs_close_faults = []\<rparr>"

definition demo_ops :: "pairing_op list" where
  "demo_ops = [PStart 5 ''p'' ''123456'' ''d'' DevMobile, PApprove 7 ''v'' ''t'' 8 ''p'' ''123456'']"

definition demo_context :: RequestContext where
  "demo_context = \<lparr>rc_bearer_token = ''t'', rc_client_address = [], rc_target = [], rc_is_websocket = False,
                   rc_is_local_request = False\<rparr>"

lemma demo_authorized:
  "au_authorized (Authorize (FilePairingStore unary_json [''r'']) demo_context ObserveSessions
     (ps_store (pairing_run (FilePairingStore unary_json [''r'']) demo_ops (new_pairing_service demo_fs 10))))"
  by code_simp

lemma demo_start:
  "reliable demo_fs" "file_at (PairingsPath [''r'']) demo_fs = None" "list_all pairing_op_ok demo_ops"
  by (simp_all add: reliable_def demo_fs_def file_at_def node_at_def demo_ops_def int64_ok_def
      ascii_valid_utf8 byte_def)

lemmas demo_lib = unary_lib.roundtrip unary_lib.accepts_ok


text \<open>An approval that reports success has done its work and only once: the new device's token is accepted
  for every device action, the device can fetch its record with the code, and the request is gone, so the same id
  and code cannot be approved again.\<close>

theorem approve_pairing_success:
  assumes "json_lib_roundtrip lib" "json_lib_accepts_ok lib" "reliable (ps_store svc)"
    and "valid_utf8 dev" "valid_utf8 tok" "int64_ok approved_at"
    and "ApprovePairing (FilePairingStore lib root) now dev tok approved_at pairing_id code svc = (Some rec, svc')"
  shows "au_authorized (AuthenticateBearerToken (FilePairingStore lib root) tok (ps_store svc'))
    \<and> prc_device_id rec = dev \<and> prc_bearer_token rec = tok
    \<and> ClaimApprovedPairing pairing_id code svc' = Some rec
    \<and> GetPairingClaimStatus (FilePairingStore lib root) later pairing_id code svc' = ClaimApproved
    \<and> fst (ApprovePairing (FilePairingStore lib root) later dev2 tok2 at2 pairing_id code2 svc') = None"
proof -
  let ?store = "FilePairingStore lib root"
  have ps: "pairing_store ?store reliable"
    using assms(1,2) by (intro pairing_store_file json_lib.intro)
  obtain r where r: "rec = device_record dev tok approved_at r" "tok \<noteq> []"
      "rec \<in> set (LoadApprovedPairings ?store (ps_store svc'))"
      "\<forall>p \<in> set (LoadPendingPairings ?store (ps_store svc')). prq_pairing_id p \<noteq> pairing_id"
      "ClaimApprovedPairing pairing_id code svc' = Some rec"
      "ps_approved_claims svc' = (ps_approved_claims svc)(pairing_id \<mapsto> \<lparr>cl_code = code, cl_record = rec\<rparr>)"
    using pairing_store.ApprovePairing_succeeds [OF ps assms(3-7)] by blast
  have ids: "prc_device_id rec = dev" "prc_bearer_token rec = tok" using r(1) by (simp_all add: device_record_def)
  then have "au_authorized (AuthenticateBearerToken ?store tok (ps_store svc'))"
    using r(2,3) by (auto simp: AuthenticateBearerToken_def find_token_authorized)
  moreover have "GetPairingClaimStatus ?store later pairing_id code svc' = ClaimApproved"
    using r(6) by (simp add: GetPairingClaimStatus_def)
  moreover have "find (\<lambda>p. prq_pairing_id p = pairing_id) (LoadPendingPairings ?store (ps_store svc')) = None"
    using r(4) by (simp add: find_None_iff)
  then have "fst (ApprovePairing ?store later dev2 tok2 at2 pairing_id code2 svc') = None"
    by (simp add: ApprovePairing_def Let_def)
  ultimately show ?thesis using ids r(5) by simp
qed

section \<open>The session store is a map\<close>

definition sessions_map :: "JsonLib \<Rightarrow> path \<Rightarrow> FileSystem \<Rightarrow> (string \<rightharpoonup> PersistedSessionRecord)" where
  "sessions_map lib root fs = map_of (map (\<lambda>r. (pr_session_id r, r)) (LoadSessions lib root fs))"

definition sessions_ok :: "JsonLib \<Rightarrow> path \<Rightarrow> FileSystem \<Rightarrow> bool" where
  "sessions_ok lib root fs \<longleftrightarrow>
     reliable fs \<and> distinct (map pr_session_id (LoadSessions lib root fs))
     \<and> list_all SessionRecord_storable (LoadSessions lib root fs)"

lemma map_of_filter_key:
  "map_of (map (\<lambda>r. (key r, r)) (filter (\<lambda>r. key r \<noteq> k) rs)) = (map_of (map (\<lambda>r. (key r, r)) rs))(k := None)"
  by (induction rs) auto

lemma map_of_UpsertBy:
  "distinct (map key rs) \<Longrightarrow>
   map_of (map (\<lambda>r. (key r, r)) (UpsertBy (\<lambda>r. key r = key x) x rs)) =
     (map_of (map (\<lambda>r. (key r, r)) rs))(key x \<mapsto> x)"
  by (induction rs) (auto simp: fun_upd_twist)

lemma key_UpsertBy:
  "key ` set (UpsertBy (\<lambda>r. key r = key x) x rs) = insert (key x) (key ` set rs)"
  by (induction rs) auto

lemma distinct_UpsertBy:
  "distinct (map key rs) \<Longrightarrow> distinct (map key (UpsertBy (\<lambda>r. key r = key x) x rs))"
  by (induction rs) (auto simp: key_UpsertBy simp del: image_insert)

lemma SessionsPath_nonempty [simp]: "SessionsPath root \<noteq> []"
  by (simp add: SessionsPath_def)

lemma SessionRecords_json_ok: "list_all SessionRecord_storable rs \<Longrightarrow> json_ok max_depth (SessionRecordsToJson rs)"
  by (auto simp: SessionRecordsToJson_def SessionRecord_storable_def list_all_iff max_depth_def)

context json_lib
begin

lemma save_sessions_ok:
  assumes "reliable fs" "list_all SessionRecord_storable rs" "save_sessions lib root rs fs = (True, fs')"
  shows "LoadSessions lib root fs' = rs \<and> reliable fs'"
  using LoadFromJsonFile_written(1,3) [OF SessionsPath_nonempty assms(1) SessionRecords_json_ok [OF assms(2)],
      where loader = SessionRecordsFromJson, OF SessionRecords_roundtrip [OF assms(2)]] assms(3)
  by (simp add: save_sessions_def LoadSessions_def)

lemma save_sessions_fails:
  assumes ok: "sessions_ok lib root fs" and save: "save_sessions lib root rs fs = (False, fs')"
  shows "sessions_ok lib root fs'
    \<and> (sessions_map lib root fs' = sessions_map lib root fs \<or> sessions_map lib root fs' = Map.empty)"
proof -
  have w: "WriteFileAtomically (SessionsPath root) (jl_serialize lib (SessionRecordsToJson rs)) fs = (False, fs')"
    using save by (simp add: save_sessions_def)
  have rel: "reliable fs" using ok by (simp add: sessions_ok_def)
  have "LoadSessions lib root fs' = LoadSessions lib root fs \<or> LoadSessions lib root fs' = []"
    unfolding LoadSessions_def by (rule LoadFromJsonFile_not_written(1) [OF SessionsPath_nonempty rel w])
  then show ?thesis
    using ok LoadFromJsonFile_not_written(2) [OF SessionsPath_nonempty rel w]
    by (auto simp: sessions_ok_def sessions_map_def)
qed

lemma UpsertSessionRecord_map:
  assumes ok: "sessions_ok lib root fs" and r: "SessionRecord_storable r"
    and up: "UpsertSessionRecord lib root r fs = (saved, fs')"
  shows "sessions_ok lib root fs'
    \<and> (saved \<longrightarrow> sessions_map lib root fs' = (sessions_map lib root fs)(pr_session_id r \<mapsto> r))
    \<and> (\<not> saved \<longrightarrow> sessions_map lib root fs' = sessions_map lib root fs \<or> sessions_map lib root fs' = Map.empty)"
proof (cases saved)
  case True
  let ?rs = "UpsertBy (\<lambda>x. pr_session_id x = pr_session_id r) r (LoadSessions lib root fs)"
  have "LoadSessions lib root fs' = ?rs \<and> reliable fs'"
    using ok r up True by (intro save_sessions_ok) (auto simp: sessions_ok_def UpsertSessionRecord_def UpsertBy_list_all)
  then show ?thesis
    using ok r True
    by (simp add: sessions_ok_def sessions_map_def map_of_UpsertBy distinct_UpsertBy UpsertBy_list_all)
next
  case False
  then show ?thesis
    using up save_sessions_fails [OF ok] by (auto simp: UpsertSessionRecord_def)
qed

lemma RemoveSessionRecord_map:
  assumes ok: "sessions_ok lib root fs" and rm: "RemoveSessionRecord lib root i fs = (removed, fs')"
  shows "sessions_ok lib root fs'
    \<and> (removed \<longrightarrow> sessions_map lib root fs i \<noteq> None \<and> sessions_map lib root fs' = (sessions_map lib root fs)(i := None))
    \<and> (\<not> removed \<longrightarrow> sessions_map lib root fs' = sessions_map lib root fs \<or> sessions_map lib root fs' = Map.empty)"
proof (cases "\<exists>r \<in> set (LoadSessions lib root fs). pr_session_id r = i")
  case False
  with rm have "\<not> removed \<and> fs' = fs" by (auto simp: RemoveSessionRecord_def RemoveBy_eq)
  with ok show ?thesis by simp
next
  case True
  let ?rs = "filter (\<lambda>r. pr_session_id r \<noteq> i) (LoadSessions lib root fs)"
  have save: "save_sessions lib root ?rs fs = (removed, fs')"
    using rm True by (auto simp: RemoveSessionRecord_def RemoveBy_eq)
  have here: "sessions_map lib root fs i \<noteq> None"
    using True by (auto simp: sessions_map_def map_of_eq_None_iff image_image)
  show ?thesis
  proof (cases removed)
    case removed: True
    have "list_all SessionRecord_storable ?rs" using ok by (auto simp: sessions_ok_def list_all_iff)
    then have "LoadSessions lib root fs' = ?rs \<and> reliable fs'"
      using ok save removed by (intro save_sessions_ok) (auto simp: sessions_ok_def)
    then show ?thesis
      using ok removed here \<open>list_all SessionRecord_storable ?rs\<close>
      by (simp add: sessions_ok_def sessions_map_def map_of_filter_key distinct_map_filter)
  next
    case False
    then show ?thesis
      using save save_sessions_fails [OF ok, of ?rs] by auto
  qed
qed

end

text \<open>Claim C32: the file of sessions behaves as a map from session ids to records: a save that reports success updates
  exactly the given id, a removal that reports success removes an id that was there and nothing else, and an operation
  that reports failure leaves the map as it was or, when the old file was deleted to make room for the new one, empty.
  Ids stay unique. This is for records that the file can hold, a file with unique ids that can be read
  (\<open>sessions_ok\<close>), and whatever calls of the write fail and report it; it also needs a disk that loses no flush when a
  file is closed (\<open>reliable\<close>, a part of \<open>sessions_ok\<close>), since a save reports success over such a loss.\<close>

theorem session_store_refines_map:
  assumes "json_lib_roundtrip lib" "json_lib_accepts_ok lib" "sessions_ok lib root fs" "SessionRecord_storable r"
    and "UpsertSessionRecord lib root r fs = (saved, fs1)" "RemoveSessionRecord lib root i fs = (removed, fs2)"
  shows "sessions_ok lib root fs1 \<and> sessions_ok lib root fs2
    \<and> sessions_map lib root fs1 \<in>
        (if saved then {(sessions_map lib root fs)(pr_session_id r \<mapsto> r)} else {sessions_map lib root fs, Map.empty})
    \<and> sessions_map lib root fs2 \<in>
        (if removed then {(sessions_map lib root fs)(i := None)} else {sessions_map lib root fs, Map.empty})
    \<and> (removed \<longrightarrow> sessions_map lib root fs i \<noteq> None)"
  using json_lib.UpsertSessionRecord_map [OF json_lib.intro [OF assms(1,2)] assms(3-5)]
    json_lib.RemoveSessionRecord_map [OF json_lib.intro [OF assms(1,2)] assms(3,6)] by auto

definition demo_record :: PersistedSessionRecord where
  "demo_record = \<lparr>pr_session_id = ''s'', pr_provider = Codex, pr_workspace_root = ''w'', pr_title = ''t'',
     pr_status = Running, pr_conversation_id = None, pr_group_tags = [], pr_current_sequence = 3,
     pr_recent_terminal_tail = []\<rparr>"

theorem session_store_refines_map_witness:
  "sessions_map unary_json [''r''] (snd (UpsertSessionRecord unary_json [''r''] demo_record demo_fs)) ''s'' = Some demo_record"
proof -
  have ok: "sessions_ok unary_json [''r''] demo_fs" "SessionRecord_storable demo_record"
    by code_simp+
  have "fst (UpsertSessionRecord unary_json [''r''] demo_record demo_fs)" by code_simp
  then have up: "UpsertSessionRecord unary_json [''r''] demo_record demo_fs =
      (True, snd (UpsertSessionRecord unary_json [''r''] demo_record demo_fs))"
    by (simp add: prod_eq_iff)
  have rm: "RemoveSessionRecord unary_json [''r''] [] demo_fs = (False, demo_fs)" by code_simp
  show ?thesis
    using session_store_refines_map [OF demo_lib ok up rm] by (simp add: demo_record_def)
qed

section \<open>The host identity\<close>

lemma host_identity_saved:
  assumes "json_lib lib" "reliable fs" "json_ok max_depth (HostIdentityToJson identity)"
    and "SaveHostIdentity (FileHostConfigStore lib root) identity fs = (True, fs')"
  shows "LoadHostIdentity (FileHostConfigStore lib root) fs' =
    HostIdentityFromJsonWithDefaults (json_reparse (HostIdentityToJson identity))"
proof -
  have "file_at (HostIdentityPath root) fs' = Some (jl_serialize lib (HostIdentityToJson identity))"
    using WriteFileAtomically_files(4) [of "HostIdentityPath root" _ fs True fs'] assms(2,4)
    by (simp add: FileHostConfigStore_def HostIdentityPath_def reliable_def)
  then show ?thesis
    using json_lib.parse_serialize [OF assms(1,3)]
    by (simp add: FileHostConfigStore_def LoadOptionalFromJsonFile_def ReadFile_def)
qed

text \<open>A host identity that the reader accepts survives on disk: after a save that reports success it is loaded
  unchanged, and ensuring an identity returns it and writes nothing, so the host keeps its id across restarts.\<close>

theorem host_identity_persists:
  assumes "json_lib_roundtrip lib" "json_lib_accepts_ok lib" "reliable fs" "HostIdentity_storable identity"
    and "SaveHostIdentity (FileHostConfigStore lib root) identity fs = (True, fs')"
  shows "LoadHostIdentity (FileHostConfigStore lib root) fs' = Some identity
    \<and> (hi_host_id identity \<noteq> [] \<longrightarrow>
        EnsureHostIdentity (FileHostConfigStore lib root) random_bytes fs' = (Some identity, fs'))"
proof -
  have "LoadHostIdentity (FileHostConfigStore lib root) fs' = Some identity"
    using host_identity_saved [OF json_lib.intro [OF assms(1,2)] assms(3) _ assms(5)]
      HostIdentity_roundtrip [OF assms(4)] assms(4) by (simp add: HostIdentity_storable_def)
  then show ?thesis by (simp add: EnsureHostIdentity_def)
qed

theorem host_identity_persists_witness:
  "LoadHostIdentity (FileHostConfigStore unary_json [''r''])
     (snd (SaveHostIdentity (FileHostConfigStore unary_json [''r'']) (MakeDefaultHostIdentity\<lparr>hi_admin_port := 2, hi_remote_port := 3\<rparr>) demo_fs))
   = Some (MakeDefaultHostIdentity\<lparr>hi_admin_port := 2, hi_remote_port := 3\<rparr>)"
proof -
  let ?h = "MakeDefaultHostIdentity\<lparr>hi_admin_port := 2, hi_remote_port := 3\<rparr>"
  have ok: "HostIdentity_storable ?h"
    by (simp add: HostIdentity_storable_def MakeDefaultHostIdentity_def ProviderCommandOverride_default_def
        kDefaultDisplayName_def command_storable_def HostIdentityToJson_def command_json_def string_member_def
        max_depth_def int64_cast_def int64_ok_def ascii_valid_utf8 byte_def)
  have "fst (SaveHostIdentity (FileHostConfigStore unary_json [''r'']) ?h demo_fs)" by code_simp
  then have "SaveHostIdentity (FileHostConfigStore unary_json [''r'']) ?h demo_fs =
      (True, snd (SaveHostIdentity (FileHostConfigStore unary_json [''r'']) ?h demo_fs))"
    by (simp add: prod_eq_iff)
  from host_identity_persists [OF demo_lib demo_start(1) ok this] show ?thesis by blast
qed

end
