(* ===== verification/Requests.thy ===== *)
theory Requests
  imports File_Stores Environment
begin

text \<open>
  The bodies of requests and how a request to create a session is resolved: the parsers of
  \<open>src/net/request_parsing.cpp\<close>, and \<open>ResolveCreateSessionRequest\<close>, \<open>ApplyConfiguredProviderOverride\<close>
  and \<open>AutoSaveLaunchRecord\<close> of \<open>src/net/http_shared.cpp\<close>, with the request types of
  \<open>include/vibe/service/session_manager.h\<close>. Every parser returns \<^const>\<open>None\<close> for a body it refuses. The
  clock and the random bytes of a new record id are arguments.
\<close>

section \<open>Data\<close>

datatype SessionGroupTagsUpdateMode = TagsAdd | TagsRemove | TagsSet

record CreateSessionRequest =
  cs_provider :: ProviderType
  cs_workspace_root :: string
  cs_title :: string
  cs_conversation_id :: "string option"
  cs_command_argv :: "string list option"
  cs_command_shell :: "string option"
  cs_group_tags :: "string list"
  cs_env_mode :: "EnvMode option"
  cs_environment_overrides :: "(string \<times> string) list"
  cs_env_file_path :: "string option"

record CreateSessionRequestPayload =
  cp_provider :: "ProviderType option"
  cp_workspace_root :: "string option"
  cp_title :: "string option"
  cp_conversation_id :: "string option"
  cp_command_argv :: "string list option"
  cp_command_shell :: "string option"
  cp_group_tags :: "string list option"
  cp_record_id :: "string option"
  cp_env_mode :: "EnvMode option"
  cp_environment_overrides :: "(string \<times> string) list"
  cp_env_file_path :: "string option"

record HostConfigPayload =
  hp_display_name :: string
  hp_admin_host :: string
  hp_admin_port :: u16
  hp_remote_host :: string
  hp_remote_port :: u16
  hp_codex_command :: "string list option"
  hp_claude_command :: "string list option"

record MessageRequestPayload =
  mp_kind :: string
  mp_text :: string
  mp_source_session_id :: "string option"
  mp_evidence_id :: "string option"
  mp_strip_trailing_newline :: bool
  mp_submit :: bool

datatype WebSocketCommand =
    InputCommand string
  | ResizeCommand TerminalSize
  | StopCommand
  | RequestControlCommand ControllerKind
  | ReleaseControlCommand

section \<open>Values\<close>

definition parse_object :: "JsonLib \<Rightarrow> string \<Rightarrow> json option" where
  "parse_object lib body =
     (case jl_parse lib body of None \<Rightarrow> None | Some v \<Rightarrow> if is_object v then Some v else None)"

definition normalized_item :: "json \<Rightarrow> string option" where
  "normalized_item item = do {
     tag \<leftarrow> as_string item;
     let normalized = NormalizeGroupTag tag;
     if normalized = [] then None else Some normalized
   }"

definition ParseNormalizedTagsArray :: "json option \<Rightarrow> string list option" where
  "ParseNormalizedTagsArray value =
     (case value of
        None \<Rightarrow> Some []
      | Some v \<Rightarrow> map_option NormalizeGroupTags (Option.bind (as_array v) (map_all normalized_item)))"

definition ParseProviderValue :: "json \<Rightarrow> ProviderType option" where
  "ParseProviderValue v = Option.bind (as_string v) ParseProviderType"

definition nonempty_list :: "'a list \<Rightarrow> 'a list option" where
  "nonempty_list xs = (if xs = [] then None else Some xs)"

definition ParseCommandArgvValue :: "json \<Rightarrow> string list option" where
  "ParseCommandArgvValue v =
     Option.bind (Option.bind (as_array v) (map_all nonempty_string)) nonempty_list"

definition is_crlf :: "char \<Rightarrow> bool" where
  "is_crlf c \<longleftrightarrow> c = ch_cr \<or> c = ch_nl"

definition StripTrailingCrLf :: "string \<Rightarrow> string" where
  "StripTrailingCrLf s = rev (dropWhile is_crlf (rev s))"

section \<open>Request bodies\<close>

fun parse_overrides :: "(string \<times> json) list \<Rightarrow> (string \<times> string) list \<Rightarrow> (string \<times> string) list option" where
  "parse_overrides [] result = Some result"
| "parse_overrides ((k, v) # kvs) result =
     (case as_string v of None \<Rightarrow> None | Some s \<Rightarrow> parse_overrides kvs (map_insert k s result))"

definition parse_override_object :: "json \<Rightarrow> (string \<times> string) list option" where
  "parse_override_object v = (case v of JObject kvs \<Rightarrow> parse_overrides kvs [] | _ \<Rightarrow> None)"

definition ParseCreateSessionRequest :: "JsonLib \<Rightarrow> string \<Rightarrow> CreateSessionRequestPayload option" where
  "ParseCreateSessionRequest lib body = do {
     object \<leftarrow> parse_object lib body;
     provider \<leftarrow> optional ParseProviderValue object ''provider'';
     workspace_root \<leftarrow> optional nonempty_string object ''workspaceRoot'';
     title \<leftarrow> optional nonempty_string object ''title'';
     conversation_id \<leftarrow> optional nonempty_string object ''conversationId'';
     record_id \<leftarrow> optional nonempty_string object ''recordId'';
     command \<leftarrow> optional ParseCommandArgvValue object ''command'';
     command_argv \<leftarrow> optional ParseCommandArgvValue object ''commandArgv'';
     command_shell \<leftarrow> optional nonempty_string object ''commandShell'';
     if command \<noteq> None \<and> command_argv \<noteq> None then None
     else if (command \<noteq> None \<or> command_argv \<noteq> None) \<and> command_shell \<noteq> None then None
     else do {
       group_tags \<leftarrow> ParseNormalizedTagsArray (if_contains object ''groupTags'');
       env_mode \<leftarrow> optional (\<lambda>v. Option.bind (as_string v) ParseEnvMode) object ''envMode'';
       overrides \<leftarrow> optional parse_override_object object ''environmentOverrides'';
       env_file_path \<leftarrow> optional as_string object ''envFilePath'';
       Some \<lparr>cp_provider = provider, cp_workspace_root = workspace_root, cp_title = title,
             cp_conversation_id = conversation_id,
             cp_command_argv = (if command_argv \<noteq> None then command_argv else command),
             cp_command_shell = command_shell, cp_group_tags = Some group_tags,
             cp_record_id = record_id, cp_env_mode = env_mode,
             cp_environment_overrides = or_default [] overrides,
             cp_env_file_path = keep_nonempty env_file_path\<rparr>
     }
   }"

definition ParseInputRequest :: "JsonLib \<Rightarrow> string \<Rightarrow> string option" where
  "ParseInputRequest lib body = Option.bind (parse_object lib body) (\<lambda>object. required as_string object ''data'')"

definition ParseMessageRequest :: "JsonLib \<Rightarrow> string \<Rightarrow> MessageRequestPayload option" where
  "ParseMessageRequest lib body = do {
     object \<leftarrow> parse_object lib body;
     kind \<leftarrow> optional as_string object ''kind'';
     payload_kind \<leftarrow> optional as_string object ''payloadKind'';
     parsed_kind \<leftarrow> (case kind of Some k \<Rightarrow> Some k | None \<Rightarrow> payload_kind);
     if payload_kind \<noteq> None \<and> kind \<noteq> None \<and> Some parsed_kind \<noteq> payload_kind then None
     else if parsed_kind \<noteq> ''text'' then None
     else do {
       msg \<leftarrow> required as_string object ''text'';
       strip \<leftarrow> optional as_bool object ''stripTrailingNewline'';
       submit \<leftarrow> optional as_bool object ''submit'';
       source_session_id \<leftarrow> optional nonempty_string object ''sourceSessionId'';
       evidence_id \<leftarrow> optional nonempty_string object ''evidenceId'';
       let parsed_text = (if or_default True strip then StripTrailingCrLf msg else msg);
       if parsed_text = [] then None
       else Some \<lparr>mp_kind = parsed_kind, mp_text = parsed_text,
                  mp_source_session_id = source_session_id, mp_evidence_id = evidence_id,
                  mp_strip_trailing_newline = or_default True strip, mp_submit = or_default True submit\<rparr>
     }
   }"

definition ParsePairingRequest :: "JsonLib \<Rightarrow> string \<Rightarrow> (string \<times> DeviceType) option" where
  "ParsePairingRequest lib body = do {
     object \<leftarrow> parse_object lib body;
     device_name \<leftarrow> required as_string object ''deviceName'';
     device_type \<leftarrow> required as_string object ''deviceType'';
     Some (device_name,
           if device_type = ''mobile'' then DevMobile
           else if device_type = ''desktop'' then DevDesktop
           else if device_type = ''browser'' then DevBrowser else DevUnknown)
   }"

definition ParsePairingApprovalRequest :: "JsonLib \<Rightarrow> string \<Rightarrow> (string \<times> string) option" where
  "ParsePairingApprovalRequest lib body = do {
     object \<leftarrow> parse_object lib body;
     pairing_id \<leftarrow> required as_string object ''pairingId'';
     code \<leftarrow> required as_string object ''code'';
     Some (pairing_id, code)
   }"

definition ParsePairingClaimRequest :: "JsonLib \<Rightarrow> string \<Rightarrow> (string \<times> string) option" where
  "ParsePairingClaimRequest lib body = ParsePairingApprovalRequest lib body"

definition parse_command_member :: "json \<Rightarrow> string \<Rightarrow> string list option option" where
  "parse_command_member object key = optional ParseCommandArgvValue object key"

definition ParseHostConfigRequest :: "JsonLib \<Rightarrow> string \<Rightarrow> HostConfigPayload option" where
  "ParseHostConfigRequest lib body = do {
     object \<leftarrow> parse_object lib body;
     display_name \<leftarrow> required as_string object ''displayName'';
     admin_host \<leftarrow> required nonempty_string object ''adminHost'';
     admin_port \<leftarrow> required parse_port object ''adminPort'';
     remote_host \<leftarrow> required nonempty_string object ''remoteHost'';
     remote_port \<leftarrow> required parse_port object ''remotePort'';
     commands \<leftarrow> optional
       (\<lambda>v. if \<not> is_object v then None
            else do {
              codex \<leftarrow> parse_command_member v ''codex'';
              claude \<leftarrow> parse_command_member v ''claude'';
              Some (codex, claude)
            }) object ''providerCommands'';
     Some \<lparr>hp_display_name = display_name, hp_admin_host = admin_host, hp_admin_port = admin_port,
           hp_remote_host = remote_host, hp_remote_port = remote_port,
           hp_codex_command = Option.bind commands fst, hp_claude_command = Option.bind commands snd\<rparr>
   }"

definition ParseSessionGroupTagsUpdateRequest ::
    "JsonLib \<Rightarrow> string \<Rightarrow> (SessionGroupTagsUpdateMode \<times> string list) option" where
  "ParseSessionGroupTagsUpdateRequest lib body = do {
     object \<leftarrow> parse_object lib body;
     mode \<leftarrow> required as_string object ''mode'';
     tags \<leftarrow> ParseNormalizedTagsArray (if_contains object ''tags'');
     if mode = ''add'' then Some (TagsAdd, tags)
     else if mode = ''remove'' then Some (TagsRemove, tags)
     else if mode = ''set'' then Some (TagsSet, tags)
     else None
   }"

definition parse_dimension :: "json \<Rightarrow> u16 option" where
  "parse_dimension v =
     (case as_int64 v of None \<Rightarrow> None | Some n \<Rightarrow> if n \<le> 0 \<or> n > 65535 then None else Some (nat n))"

definition ParseWebSocketCommand :: "JsonLib \<Rightarrow> string \<Rightarrow> WebSocketCommand option" where
  "ParseWebSocketCommand lib body = do {
     object \<leftarrow> parse_object lib body;
     command_type \<leftarrow> required as_string object ''type'';
     if command_type = ''terminal.input'' then
       map_option InputCommand (required as_string object ''data'')
     else if command_type = ''terminal.resize'' then do {
       cols \<leftarrow> required parse_dimension object ''cols'';
       rows \<leftarrow> required parse_dimension object ''rows'';
       Some (ResizeCommand \<lparr>ts_columns = cols, ts_rows = rows\<rparr>)
     }
     else if command_type = ''session.stop'' then Some StopCommand
     else if command_type = ''session.control.request'' then do {
       kind \<leftarrow> optional as_string object ''kind'';
       (case kind of
          None \<Rightarrow> Some (RequestControlCommand ControllerRemote)
        | Some k \<Rightarrow>
            if k = ''host'' then Some (RequestControlCommand ControllerHost)
            else if k = ''remote'' then Some (RequestControlCommand ControllerRemote)
            else None)
     }
     else if command_type = ''session.control.release'' then Some ReleaseControlCommand
     else None
   }"

section \<open>Launch records\<close>

definition ApplyConfiguredProviderOverride ::
    "CreateSessionRequest \<Rightarrow> HostIdentity option \<Rightarrow> CreateSessionRequest" where
  "ApplyConfiguredProviderOverride request host_identity =
     (case host_identity of
        None \<Rightarrow> request
      | Some identity \<Rightarrow>
          if cs_command_argv request \<noteq> None \<or> cs_command_shell request \<noteq> None then request
          else
            let command_override = (case cs_provider request of
                                      Codex \<Rightarrow> hi_codex_command identity
                                    | Claude \<Rightarrow> hi_claude_command identity)
            in
            if pco_executable command_override = [] then request
            else request\<lparr>cs_command_argv := Some (pco_executable command_override # pco_args command_override)\<rparr>)"

definition FindLaunchRecord :: "HostIdentity \<Rightarrow> string \<Rightarrow> LaunchRecord option" where
  "FindLaunchRecord identity record_id = find (\<lambda>r. lr_record_id r = record_id) (hi_launch_records identity)"

text \<open>The member of the payload, or the one of the launch record if there is one.\<close>

definition or_record :: "'a option \<Rightarrow> (LaunchRecord \<Rightarrow> 'a option) \<Rightarrow> LaunchRecord option \<Rightarrow> 'a option" where
  "or_record member of_record r = (if member \<noteq> None then member else Option.bind r of_record)"

definition ResolveCreateSessionRequest ::
    "CreateSessionRequestPayload \<Rightarrow> HostIdentity option \<Rightarrow> string + CreateSessionRequest" where
  "ResolveCreateSessionRequest payload host_identity =
     (let r = (case (cp_record_id payload, host_identity) of
                 (Some i, Some identity) \<Rightarrow> FindLaunchRecord identity i
               | _ \<Rightarrow> None)
      in
      if cp_record_id payload \<noteq> None \<and> host_identity = None
      then Inl ''launch record requires host identity''
      else if cp_record_id payload \<noteq> None \<and> r = None then Inl ''launch record not found''
      else
        case (or_record (cp_provider payload) (Some \<circ> lr_provider) r,
              or_record (cp_workspace_root payload) (Some \<circ> lr_workspace_root) r,
              or_record (cp_title payload) (Some \<circ> lr_title) r) of
          (None, _, _) \<Rightarrow> Inl ''provider is required unless --record is used''
        | (Some _, None, _) \<Rightarrow> Inl ''workspace root is required unless --record is used''
        | (Some _, Some _, None) \<Rightarrow> Inl ''title is required unless --record is used''
        | (Some provider, Some workspace_root, Some title) \<Rightarrow>
            Inr (ApplyConfiguredProviderOverride
              \<lparr>cs_provider = provider, cs_workspace_root = workspace_root, cs_title = title,
               cs_conversation_id = or_record (cp_conversation_id payload) lr_conversation_id r,
               cs_command_argv = or_record (cp_command_argv payload) lr_command_argv r,
               cs_command_shell = or_record (cp_command_shell payload) lr_command_shell r,
               cs_group_tags =
                 (case cp_group_tags payload of
                    Some tags \<Rightarrow> tags
                  | None \<Rightarrow> (case r of Some x \<Rightarrow> lr_group_tags x | None \<Rightarrow> [])),
               cs_env_mode = cp_env_mode payload,
               cs_environment_overrides = cp_environment_overrides payload,
               cs_env_file_path = cp_env_file_path payload\<rparr> host_identity))"

definition saved_launch_record :: "nat list \<Rightarrow> unix_ms \<Rightarrow> CreateSessionRequest \<Rightarrow> LaunchRecord" where
  "saved_launch_record random_bytes now request =
     \<lparr>lr_record_id = ''rec_'' @ RandomHexToken random_bytes, lr_provider = cs_provider request,
      lr_workspace_root = cs_workspace_root request, lr_title = cs_title request,
      lr_launched_at_unix_ms = now, lr_conversation_id = cs_conversation_id request,
      lr_group_tags = cs_group_tags request, lr_command_argv = cs_command_argv request,
      lr_command_shell = cs_command_shell request\<rparr>"

definition AutoSaveLaunchRecord ::
    "'st HostConfigStore \<Rightarrow> nat list \<Rightarrow> unix_ms \<Rightarrow> CreateSessionRequest \<Rightarrow> 'st \<Rightarrow> 'st" where
  "AutoSaveLaunchRecord store random_bytes now request st =
     (let identity = (case LoadHostIdentity store st of Some h \<Rightarrow> h | None \<Rightarrow> MakeDefaultHostIdentity);
          records = saved_launch_record random_bytes now request # hi_launch_records identity
      in snd (SaveHostIdentity store
           (identity\<lparr>hi_launch_records := take (hi_max_launch_records identity) records\<rparr>) st))"

section \<open>What a parsed request can hold\<close>

lemma optional_Some: "optional f v k = Some (Some x) \<Longrightarrow> \<exists>m. if_contains v k = Some m \<and> f m = Some x"
  by (auto simp: optional_def split: option.splits)

lemma nonempty_string_Some: "nonempty_string v = Some s \<Longrightarrow> s \<noteq> []"
  by (auto simp: nonempty_string_def split: option.splits if_splits)

lemma ParseCommandArgvValue_Some: "ParseCommandArgvValue v = Some argv \<Longrightarrow> argv \<noteq> [] \<and> hd argv \<noteq> []"
  by (cases argv)
    (auto simp: ParseCommandArgvValue_def nonempty_list_def Option.bind_eq_Some_conv
      dest!: map_all_Some [where y = "hd argv"] nonempty_string_Some split: if_splits)

definition payload_ok :: "CreateSessionRequestPayload \<Rightarrow> bool" where
  "payload_ok p \<longleftrightarrow>
     cp_workspace_root p \<noteq> Some [] \<and> cp_title p \<noteq> Some [] \<and> cp_command_shell p \<noteq> Some []
     \<and> (\<forall>argv. cp_command_argv p = Some argv \<longrightarrow> argv \<noteq> [] \<and> hd argv \<noteq> [])
     \<and> (cp_command_argv p = None \<or> cp_command_shell p = None)
     \<and> (\<exists>tags. cp_group_tags p = Some tags \<and> NormalizeGroupTags tags = tags)"

lemma ParseNormalizedTagsArray_normalized:
  "ParseNormalizedTagsArray v = Some tags \<Longrightarrow> NormalizeGroupTags tags = tags"
  by (auto simp: ParseNormalizedTagsArray_def NormalizeGroupTags_def split: option.splits)
    (metis NormalizeGroupTags_def NormalizeGroupTags_idem)

lemma parsed_payload_ok:
  assumes "ParseCreateSessionRequest lib body = Some p"
  shows "payload_ok p"
proof -
  from assms obtain object workspace_root title shell command command_argv tags where
    "optional nonempty_string object ''workspaceRoot'' = Some workspace_root"
    "optional nonempty_string object ''title'' = Some title"
    "optional nonempty_string object ''commandShell'' = Some shell"
    "optional ParseCommandArgvValue object ''command'' = Some command"
    "optional ParseCommandArgvValue object ''commandArgv'' = Some command_argv"
    "\<not> ((command \<noteq> None \<or> command_argv \<noteq> None) \<and> shell \<noteq> None)"
    "ParseNormalizedTagsArray (if_contains object ''groupTags'') = Some tags"
    "cp_workspace_root p = workspace_root" "cp_title p = title" "cp_command_shell p = shell"
    "cp_command_argv p = (if command_argv \<noteq> None then command_argv else command)" "cp_group_tags p = Some tags"
    by (auto simp: ParseCreateSessionRequest_def Option.bind_eq_Some_conv split: if_splits)
  then show ?thesis
    unfolding payload_ok_def
    by (auto dest!: optional_Some nonempty_string_Some ParseCommandArgvValue_Some
        ParseNormalizedTagsArray_normalized)
qed

section \<open>What is saved can be read again, or not\<close>

definition request_ok :: "CreateSessionRequest \<Rightarrow> bool" where
  "request_ok request \<longleftrightarrow>
     cs_workspace_root request \<noteq> [] \<and> cs_title request \<noteq> [] \<and> cs_command_shell request \<noteq> Some []
     \<and> (\<forall>argv. cs_command_argv request = Some argv \<longrightarrow> argv \<noteq> [] \<and> hd argv \<noteq> [])
     \<and> NormalizeGroupTags (cs_group_tags request) = cs_group_tags request"

lemma ApplyConfiguredProviderOverride_ok:
  "request_ok request \<Longrightarrow> request_ok (ApplyConfiguredProviderOverride request identity)"
  by (auto simp: ApplyConfiguredProviderOverride_def request_ok_def Let_def split: option.splits)

lemma ApplyConfiguredProviderOverride_shell [simp]:
  "cs_command_shell (ApplyConfiguredProviderOverride request identity) = cs_command_shell request"
  "cs_group_tags (ApplyConfiguredProviderOverride request identity) = cs_group_tags request"
  by (auto simp: ApplyConfiguredProviderOverride_def Let_def split: option.splits)

lemma ApplyConfiguredProviderOverride_argv:
  "cs_command_shell request \<noteq> None \<Longrightarrow>
   cs_command_argv (ApplyConfiguredProviderOverride request identity) = cs_command_argv request"
  by (auto simp: ApplyConfiguredProviderOverride_def Let_def split: option.splits)

lemma FindLaunchRecord_storable:
  "FindLaunchRecord identity i = Some r \<Longrightarrow> list_all LaunchRecord_storable (hi_launch_records identity)
   \<Longrightarrow> LaunchRecord_storable r"
  by (auto simp: FindLaunchRecord_def find_Some_iff list_all_iff)

lemma resolved_request:
  assumes p: "payload_ok p" and "list_all LaunchRecord_storable (hi_launch_records identity)"
    and "ResolveCreateSessionRequest p (Some identity) = Inr request"
  shows "request_ok request \<and> cp_group_tags p = Some (cs_group_tags request)
    \<and> (cs_command_argv request \<noteq> None \<and> cs_command_shell request \<noteq> None \<longleftrightarrow>
        (\<exists>i r. cp_record_id p = Some i \<and> FindLaunchRecord identity i = Some r
           \<and> (cp_command_shell p \<noteq> None \<and> lr_command_argv r \<noteq> None
              \<or> cp_command_argv p \<noteq> None \<and> lr_command_shell r \<noteq> None)))"
proof -
  define r where "r = (case cp_record_id p of Some i \<Rightarrow> FindLaunchRecord identity i | None \<Rightarrow> None)"
  from p obtain tags where tags: "cp_group_tags p = Some tags" "NormalizeGroupTags tags = tags"
    by (auto simp: payload_ok_def)
  obtain provider workspace_root title where
    roots: "or_record (cp_workspace_root p) (Some \<circ> lr_workspace_root) r = Some workspace_root"
      "or_record (cp_title p) (Some \<circ> lr_title) r = Some title"
    and request: "request = ApplyConfiguredProviderOverride
      \<lparr>cs_provider = provider, cs_workspace_root = workspace_root, cs_title = title,
       cs_conversation_id = or_record (cp_conversation_id p) lr_conversation_id r,
       cs_command_argv = or_record (cp_command_argv p) lr_command_argv r,
       cs_command_shell = or_record (cp_command_shell p) lr_command_shell r,
       cs_group_tags = tags, cs_env_mode = cp_env_mode p,
       cs_environment_overrides = cp_environment_overrides p,
       cs_env_file_path = cp_env_file_path p\<rparr> (Some identity)" (is "_ = ApplyConfiguredProviderOverride ?raw _")
    using assms(3) tags
    by (cases "cp_record_id p")
      (auto simp: ResolveCreateSessionRequest_def Let_def r_def split: option.splits if_splits)
  have r: "LaunchRecord_storable x" if "r = Some x" for x
    using that assms(2) FindLaunchRecord_storable by (auto simp: r_def split: option.splits)
  have raw: "request_ok ?raw"
    using p roots r tags
    by (cases r) (auto simp: request_ok_def payload_ok_def or_record_def LaunchRecord_storable_def
        split: if_splits option.splits)
  have both: "cs_command_argv ?raw \<noteq> None \<and> cs_command_shell ?raw \<noteq> None \<longleftrightarrow>
      (\<exists>x. r = Some x \<and> (cp_command_shell p \<noteq> None \<and> lr_command_argv x \<noteq> None
              \<or> cp_command_argv p \<noteq> None \<and> lr_command_shell x \<noteq> None))"
    using p r by (cases r) (auto simp: or_record_def payload_ok_def LaunchRecord_storable_def split: option.splits)
  have "cs_command_argv request \<noteq> None \<and> cs_command_shell request \<noteq> None \<longleftrightarrow>
      cs_command_argv ?raw \<noteq> None \<and> cs_command_shell ?raw \<noteq> None"
    using ApplyConfiguredProviderOverride_argv [of ?raw "Some identity"] request by auto
  then show ?thesis
    using raw both request tags ApplyConfiguredProviderOverride_ok [OF raw]
    by (auto simp: r_def split: option.splits)
qed

lemma LaunchRecord_conflict:
  assumes "lr_command_argv r = Some argv" "argv \<noteq> []" "hd argv \<noteq> []" "lr_command_shell r = Some cmd"
  shows "ParseLaunchRecord (json_reparse (LaunchRecordToJson r)) = None"
  using assms
  by (cases "lr_conversation_id r")
    (auto simp: ParseLaunchRecord_def LaunchRecordToJson_def json_read_defs nonempty_string_def
      ParseProviderCommandOverride_strings neq_Nil_conv Option.bind_eq_None_conv split: option.splits)

lemma HostIdentity_unreadable:
  assumes "hi_launch_records h = r # rs" "ParseLaunchRecord (json_reparse (LaunchRecordToJson r)) = None"
  shows "HostIdentityFromJsonWithDefaults (json_reparse (HostIdentityToJson h)) = None"
proof (rule ccontr)
  assume "\<not> ?thesis"
  then have "optional parse_launch_records (json_reparse (HostIdentityToJson h)) ''launchRecords'' \<noteq> None"
    by (auto simp: HostIdentityFromJsonWithDefaults_def Option.bind_eq_Some_conv)
  moreover have "if_contains (HostIdentityToJson h) ''launchRecords'' =
      Some (JArray (map LaunchRecordToJson (hi_launch_records h)))"
    by (cases "hi_bootstrap_shell_path h"; cases "hi_hub_url h"; cases "hi_hub_token h")
      (simp_all add: HostIdentityToJson_def string_member_def)
  ultimately show False
    using assms by (simp add: optional_def parse_launch_records_def)
qed

text \<open>The combination that no body may have by itself arises from a body and the launch record it refers to.\<close>

definition command_conflict :: "CreateSessionRequestPayload \<Rightarrow> HostIdentity \<Rightarrow> bool" where
  "command_conflict p identity \<longleftrightarrow>
     (case Option.bind (cp_record_id p) (FindLaunchRecord identity) of
        None \<Rightarrow> False
      | Some r \<Rightarrow> cp_command_shell p \<noteq> None \<and> lr_command_argv r \<noteq> None
                  \<or> cp_command_argv p \<noteq> None \<and> lr_command_shell r \<noteq> None)"

text \<open>After a session has been created, the host identity on disk, now with the new launch record in front and
  the oldest ones trimmed, is loaded as it was saved, unless the request gave a shell command and named a launch record
  with an argument vector (or the other way round): then the saved file is one that the reader refuses, and the host's
  identity, ports, commands and launch records are lost.\<close>

theorem autosave_readable_unless_conflict:
  fixes lib root random_bytes now request identity
  defines "S \<equiv> FileHostConfigStore lib root"
  defines "identity' \<equiv> identity\<lparr>hi_launch_records := take (hi_max_launch_records identity)
             (saved_launch_record random_bytes now request # hi_launch_records identity)\<rparr>"
  assumes "json_lib_roundtrip lib" "json_lib_accepts_ok lib" "reliable fs"
    and "LoadHostIdentity S fs = Some identity" "HostIdentity_storable identity"
    and "ParseCreateSessionRequest lib body = Some payload"
    and "ResolveCreateSessionRequest payload (Some identity) = Inr request"
    and "json_ok max_depth (HostIdentityToJson identity')" "SaveHostIdentity S identity' fs = (True, fs')"
  shows "AutoSaveLaunchRecord S random_bytes now request fs = fs'
    \<and> LoadHostIdentity S fs' = (if command_conflict payload identity then None else Some identity')"
proof -
  let ?r = "saved_launch_record random_bytes now request"
  have ident: "list_all LaunchRecord_storable (hi_launch_records identity)" "0 < hi_max_launch_records identity"
    using assms(7) by (auto simp: HostIdentity_storable_def)
  note res = resolved_request [OF parsed_payload_ok [OF assms(8)] ident(1) assms(9)]
  have conflict: "command_conflict payload identity \<longleftrightarrow>
      cs_command_argv request \<noteq> None \<and> cs_command_shell request \<noteq> None"
    using res by (auto simp: command_conflict_def split: option.splits bind_splits)
  have load: "LoadHostIdentity S fs' = HostIdentityFromJsonWithDefaults (json_reparse (HostIdentityToJson identity'))"
    using host_identity_saved [OF json_lib.intro [OF assms(3,4)] assms(5)] assms(10,11) by (simp add: S_def)
  have "LoadHostIdentity S fs' = (if command_conflict payload identity then None else Some identity')"
  proof (cases "command_conflict payload identity")
    case True
    then have "ParseLaunchRecord (json_reparse (LaunchRecordToJson ?r)) = None"
      using conflict res by (auto simp: request_ok_def saved_launch_record_def intro!: LaunchRecord_conflict)
    moreover have "\<exists>rs. hi_launch_records identity' = ?r # rs"
      using ident(2) by (cases "hi_max_launch_records identity") (auto simp: identity'_def)
    ultimately show ?thesis using HostIdentity_unreadable load True by auto
  next
    case False
    then have "LaunchRecord_storable ?r"
      using conflict res
      by (auto simp: LaunchRecord_storable_def request_ok_def saved_launch_record_def split: option.splits)
    then have "list_all LaunchRecord_storable (hi_launch_records identity')"
      using ident(1) by (auto simp: identity'_def list_all_iff dest!: in_set_takeD)
    then have "HostIdentity_storable identity'"
      using assms(7,10) by (simp add: HostIdentity_storable_def identity'_def)
    then show ?thesis using HostIdentity_roundtrip load False by simp
  qed
  moreover have "AutoSaveLaunchRecord S random_bytes now request fs = fs'"
    using assms(6,11) by (simp add: AutoSaveLaunchRecord_def identity'_def)
  ultimately show ?thesis by simp
qed

definition demo_launch :: LaunchRecord where
  "demo_launch = \<lparr>lr_record_id = ''x'', lr_provider = Codex, lr_workspace_root = ''w'', lr_title = ''t'',
     lr_launched_at_unix_ms = 1, lr_conversation_id = None, lr_group_tags = [],
     lr_command_argv = Some [''ls''], lr_command_shell = None\<rparr>"

definition demo_identity :: HostIdentity where
  "demo_identity = MakeDefaultHostIdentity\<lparr>hi_admin_port := 2, hi_remote_port := 3, hi_max_launch_records := 4,
     hi_launch_records := [demo_launch]\<rparr>"

definition demo_body :: string where
  "demo_body = json_enc (JObject [(''recordId'', JString ''x''), (''commandShell'', JString ''ls'')])"

definition demo_payload :: CreateSessionRequestPayload where
  "demo_payload = \<lparr>cp_provider = None, cp_workspace_root = None, cp_title = None, cp_conversation_id = None,
     cp_command_argv = None, cp_command_shell = Some ''ls'', cp_group_tags = Some [], cp_record_id = Some ''x'',
     cp_env_mode = None, cp_environment_overrides = [], cp_env_file_path = None\<rparr>"

definition demo_request :: CreateSessionRequest where
  "demo_request = \<lparr>cs_provider = Codex, cs_workspace_root = ''w'', cs_title = ''t'', cs_conversation_id = None,
     cs_command_argv = Some [''ls''], cs_command_shell = Some ''ls'', cs_group_tags = [],
     cs_env_mode = None, cs_environment_overrides = [], cs_env_file_path = None\<rparr>"

definition demo_saved_identity :: HostIdentity where
  "demo_saved_identity = demo_identity\<lparr>hi_launch_records := take (hi_max_launch_records demo_identity)
     (saved_launch_record [1] 2 demo_request # hi_launch_records demo_identity)\<rparr>"

definition demo_store :: "FileSystem HostConfigStore" where
  "demo_store = FileHostConfigStore unary_json [''r'']"

definition demo_home :: FileSystem where
  "demo_home = snd (SaveHostIdentity demo_store demo_identity demo_fs)"

lemma demo_parse: "ParseCreateSessionRequest unary_json demo_body = Some demo_payload"
  by code_simp

lemma demo_resolve: "ResolveCreateSessionRequest demo_payload (Some demo_identity) = Inr demo_request"
  by code_simp

lemmas demo_identity_defs = demo_identity_def demo_launch_def MakeDefaultHostIdentity_def
  ProviderCommandOverride_default_def kDefaultDisplayName_def command_storable_def HostIdentityToJson_def
  LaunchRecordToJson_def command_json_def string_member_def max_depth_def int64_cast_def int64_ok_def

lemma demo_identity_storable: "HostIdentity_storable demo_identity"
  by (simp add: HostIdentity_storable_def LaunchRecord_storable_def demo_identity_defs NormalizeGroupTags_def
      ascii_valid_utf8 byte_def)

lemma demo_saved_ok: "json_ok max_depth (HostIdentityToJson demo_saved_identity)"
  by (simp add: demo_saved_identity_def saved_launch_record_def demo_request_def demo_identity_defs
      kHexDigits_def ascii_valid_utf8 byte_def)

lemma demo_write_nodes:
  defines "p \<equiv> HostIdentityPath [''r'']"
  shows "node_at p (snd (WriteFileAtomically p data demo_fs)) = Some (File data)"
    and "node_at (temp_path p) (snd (WriteFileAtomically p data demo_fs)) = None"
  by (simp_all add: p_def WriteFileAtomically_def Let_def demo_fs_def HostIdentityPath_def temp_path_def
      create_directories_def open_truncate_def write_data_def close_stream_def rename_file_def next_fault_def
      next_close_fault_def prefixes_def node_at_def set_node_def del_node_def file_at_def)

lemma demo_saves:
  "fst (SaveHostIdentity demo_store demo_identity demo_fs)"
  "fst (SaveHostIdentity demo_store demo_saved_identity demo_home)"
proof -
  let ?p = "HostIdentityPath [''r'']"
  let ?w = "WriteFileAtomically ?p (jl_serialize unary_json (HostIdentityToJson demo_identity)) demo_fs"
  have first: "fst ?w \<and> fs_faults (snd ?w) = []"
    by (rule WriteFileAtomically_succeeds)
      (auto simp: demo_fs_def HostIdentityPath_def file_at_def node_at_def)
  then show "fst (SaveHostIdentity demo_store demo_identity demo_fs)"
    by (simp add: demo_store_def FileHostConfigStore_def)
  have home: "demo_home = snd ?w" by (simp add: demo_home_def demo_store_def FileHostConfigStore_def)
  have w: "?w = (True, demo_home)" using first home by (simp add: prod_eq_iff)
  note frame = WriteFileAtomically_files [OF _ w]
  have "file_at q demo_home = None" if "q \<in> set (prefixes (butlast ?p))" for q
    using frame(1) [of q] that
    by (auto simp: HostIdentityPath_def temp_path_def demo_fs_def file_at_def node_at_def)
  moreover have "node_at ?p demo_home \<noteq> Some Dir" "node_at (temp_path ?p) demo_home \<noteq> Some Dir"
    unfolding home by (simp_all add: demo_write_nodes)
  ultimately have "fst (WriteFileAtomically ?p (jl_serialize unary_json (HostIdentityToJson demo_saved_identity)) demo_home)"
    using first home by (intro WriteFileAtomically_succeeds [THEN conjunct1]) (auto simp: HostIdentityPath_def)
  then show "fst (SaveHostIdentity demo_store demo_saved_identity demo_home)"
    by (simp add: demo_store_def FileHostConfigStore_def)
qed

theorem autosave_readable_unless_conflict_witness:
  "LoadHostIdentity demo_store demo_home = Some demo_identity
   \<and> LoadHostIdentity demo_store (AutoSaveLaunchRecord demo_store [1] 2 demo_request demo_home) = None"
proof -
  have home: "SaveHostIdentity demo_store demo_identity demo_fs = (True, demo_home)"
    and saved: "SaveHostIdentity demo_store demo_saved_identity demo_home =
      (True, snd (SaveHostIdentity demo_store demo_saved_identity demo_home))"
    using demo_saves by (simp_all add: demo_home_def prod_eq_iff)
  have lib: "json_lib unary_json" by unfold_locales
  have load: "LoadHostIdentity demo_store demo_home = Some demo_identity"
    using host_identity_saved [OF lib demo_start(1) _ home [unfolded demo_store_def]]
      HostIdentity_roundtrip [OF demo_identity_storable] demo_identity_storable
    by (simp add: demo_store_def HostIdentity_storable_def)
  have rel: "reliable demo_home"
    using WriteFileAtomically_files(4) [of "HostIdentityPath [''r'']" _ demo_fs True demo_home] home demo_start(1)
    by (simp add: demo_store_def FileHostConfigStore_def HostIdentityPath_def reliable_def)
  have conflict: "command_conflict demo_payload demo_identity" by code_simp
  show ?thesis
    using autosave_readable_unless_conflict [OF demo_lib rel load [unfolded demo_store_def] demo_identity_storable
        demo_parse demo_resolve demo_saved_ok [unfolded demo_saved_identity_def]
        saved [unfolded demo_saved_identity_def demo_store_def]] load conflict
    by (simp add: demo_store_def)
qed

end
