(* ===== verification/Session_Assessment.thy ===== *)
theory Session_Assessment
  imports Session_Runtime Log_Buffer Requests
begin

text \<open>
  The pure part of \<open>src/service/session_manager.cpp\<close>: reading terminal output and input, quoting
  shell commands, building evidence results, and assessing what a session is doing and whether it
  needs attention. The debug printer \<open>SummarizeEscapedInput\<close> is left out.
\<close>

section \<open>Terminal output and input\<close>

record CosmeticScan =
  ct_saw_newline :: bool
  ct_saw_escape :: bool
  ct_visible_count :: nat
  ct_alnum_count :: nat
  ct_only_trivial_marks :: bool

definition is_trivial_mark :: "char \<Rightarrow> bool" where
  "is_trivial_mark ch \<longleftrightarrow> ch \<in> set (''.,:;`-_=+|/()[]{}<>*#'' @ [ch_quote, ch_dquote, ch_backslash])"

fun skip_csi :: "string \<Rightarrow> string" where
  "skip_csi [] = []"
| "skip_csi (c # cs) = (if 64 \<le> byte c \<and> byte c \<le> 126 then cs else skip_csi cs)"

fun skip_osc :: "string \<Rightarrow> string" where
  "skip_osc [] = []"
| "skip_osc (c # cs) =
     (if c = ch_bel then cs
      else if c = ch_esc \<and> cs \<noteq> [] \<and> hd cs = ch_backslash then tl cs
      else skip_osc cs)"

lemma length_skip_csi: "length (skip_csi s) \<le> length s"
  by (induction s) auto

lemma length_skip_osc: "length (skip_osc s) \<le> length s"
  by (induction s) auto

definition count_visible :: "char \<Rightarrow> CosmeticScan \<Rightarrow> CosmeticScan" where
  "count_visible ch st =
     st\<lparr>ct_visible_count := ct_visible_count st + 1,
        ct_alnum_count := (if is_alnum_char ch then ct_alnum_count st + 1 else ct_alnum_count st),
        ct_only_trivial_marks := (ct_only_trivial_marks st \<and> \<not> is_alnum_char ch \<and> is_trivial_mark ch)\<rparr>"

function cosmetic_scan :: "string \<Rightarrow> CosmeticScan \<Rightarrow> CosmeticScan" where
  "cosmetic_scan [] st = st"
| "cosmetic_scan (ch # cs) st =
     (if ch = ch_esc then
        let st1 = st\<lparr>ct_saw_escape := True\<rparr> in
        case cs of
          [] \<Rightarrow> st1
        | next_ch # rest \<Rightarrow>
            if next_ch = CHR ''['' then cosmetic_scan (skip_csi rest) st1
            else if next_ch = CHR '']'' then cosmetic_scan (skip_osc rest) st1
            else cosmetic_scan rest st1
      else if ch = ch_nl then cosmetic_scan cs (st\<lparr>ct_saw_newline := True\<rparr>)
      else if byte ch < 32 \<or> byte ch = 127 then cosmetic_scan cs st
      else cosmetic_scan cs (count_visible ch st))"
  by pat_completeness auto
termination
  by (relation "measure (\<lambda>(s, st). length s)")
    (auto simp: less_Suc_eq_le intro: le_SucI length_skip_csi length_skip_osc)

definition IsCosmeticTerminalOutput :: "string \<Rightarrow> bool" where
  "IsCosmeticTerminalOutput data =
     (let st = cosmetic_scan data
            \<lparr>ct_saw_newline = False, ct_saw_escape = False, ct_visible_count = 0, ct_alnum_count = 0,
             ct_only_trivial_marks = True\<rparr>
      in
      if ct_saw_newline st then False
      else if \<not> ct_saw_escape st \<and> ct_visible_count st = 0 then True
      else if ct_alnum_count st \<ge> 4 \<or> ct_visible_count st \<ge> 16 then False
      else if ct_only_trivial_marks st \<and> ct_visible_count st \<le> 6 then True
      else ct_visible_count st = 0)"

text \<open>A reply of a terminal to a query of its foreground or background colour: the rest of the
  input behind the sequence when the input begins with one.\<close>

fun color_report_rest :: "string \<Rightarrow> string option" where
  "color_report_rest [] = None"
| "color_report_rest (c # cs) =
     (if c = ch_bel then Some cs
      else if c = ch_esc \<and> cs \<noteq> [] \<and> hd cs = ch_backslash then Some (tl cs)
      else color_report_rest cs)"

definition IsColorReportSequence :: "string \<Rightarrow> string option" where
  "IsColorReportSequence data =
     (if length data < 5 then None
      else if data ! 0 \<noteq> ch_esc \<or> data ! 1 \<noteq> CHR '']'' then None
      else if data ! 2 \<noteq> CHR ''1'' \<or> (data ! 3 \<noteq> CHR ''0'' \<and> data ! 3 \<noteq> CHR ''1'') \<or> data ! 4 \<noteq> CHR '';'' then None
      else color_report_rest (drop 5 data))"

lemma length_color_report_rest: "color_report_rest s = Some r \<Longrightarrow> length r < length s"
  by (induction s) (auto split: if_splits simp: less_SucI)

lemma length_color_report: "IsColorReportSequence s = Some r \<Longrightarrow> length r < length s"
  by (auto simp: IsColorReportSequence_def split: if_splits dest!: length_color_report_rest)

function FilterTerminalColorReports :: "string \<Rightarrow> string \<times> bool" where
  "FilterTerminalColorReports input =
     (case input of
        [] \<Rightarrow> ([], False)
      | c # cs \<Rightarrow>
          (case IsColorReportSequence input of
             Some rest \<Rightarrow> (fst (FilterTerminalColorReports rest), True)
           | None \<Rightarrow> (let (filtered, removed) = FilterTerminalColorReports cs in (c # filtered, removed))))"
  by pat_completeness auto
termination
  by (relation "measure length") (auto dest: length_color_report)

declare FilterTerminalColorReports.simps [simp del]

section \<open>Shell commands\<close>

definition ShellQuote :: "string \<Rightarrow> string" where
  "ShellQuote value =
     [ch_quote]
     @ concat (map (\<lambda>ch. if ch = ch_quote then [ch_quote, ch_dquote, ch_quote, ch_dquote, ch_quote] else [ch]) value)
     @ [ch_quote]"

definition BuildShellExecCommand :: "string \<Rightarrow> string list \<Rightarrow> string" where
  "BuildShellExecCommand executable arguments =
     ''exec '' @ ShellQuote executable @ concat (map (\<lambda>argument. '' '' @ ShellQuote argument) arguments)"

definition BuildShellModeCommand :: "EffectiveEnvironment \<Rightarrow> string option \<Rightarrow> string \<Rightarrow> string list \<Rightarrow> string" where
  "BuildShellModeCommand effective_env raw_shell_command executable arguments =
     concat (map (\<lambda>entry. ''export '' @ ee_key entry @ ''='' @ ShellQuote (ee_value entry) @ [ch_nl])
       (ef_entries effective_env))
     @ (case raw_shell_command of Some command \<Rightarrow> command | None \<Rightarrow> BuildShellExecCommand executable arguments)"

section \<open>Evidence results\<close>

definition MakeEvidenceResultFromEntries ::
    "EvidenceSourceRef \<Rightarrow> EvidenceOperation \<Rightarrow> string \<Rightarrow> EvidenceEntry list \<Rightarrow> LogBufferStats \<Rightarrow> EvidenceResult" where
  "MakeEvidenceResultFromEntries source operation query entries stats =
     \<lparr>er_source = source, er_operation = operation, er_query = query,
      er_revision_start = (if entries = [] then 0 else en_revision (hd entries)),
      er_revision_end = (if entries = [] then 0 else en_revision (last entries)),
      er_oldest_revision = bs_oldest_revision stats, er_latest_revision = bs_latest_revision stats,
      er_entries = entries, er_highlights = [], er_truncated = False, er_buffer_exhausted = False,
      er_dropped_entries = bs_dropped_entries stats, er_dropped_bytes = bs_dropped_bytes stats,
      er_error_code = [], er_replay_token = []\<rparr>"

definition MakeBufferExhaustedEvidenceResult ::
    "EvidenceSourceRef \<Rightarrow> EvidenceOperation \<Rightarrow> LogBufferStats \<Rightarrow> EvidenceResult" where
  "MakeBufferExhaustedEvidenceResult source operation stats =
     \<lparr>er_source = source, er_operation = operation, er_query = [], er_revision_start = 0, er_revision_end = 0,
      er_oldest_revision = bs_oldest_revision stats, er_latest_revision = bs_latest_revision stats,
      er_entries = [], er_highlights = [], er_truncated = True, er_buffer_exhausted = True,
      er_dropped_entries = bs_dropped_entries stats, er_dropped_bytes = bs_dropped_bytes stats,
      er_error_code = ''buffer_exhausted'', er_replay_token = []\<rparr>"

section \<open>Statuses, sizes and recovered output\<close>

definition kPrivilegedLocalControllerPrefix :: string where
  "kPrivilegedLocalControllerPrefix = ''local-controller-''"

definition kPrivilegedRemoteControllerPrefix :: string where
  "kPrivilegedRemoteControllerPrefix = ''remote-controller-''"

definition IsPrivilegedControllerClientId :: "string option \<Rightarrow> bool" where
  "IsPrivilegedControllerClientId controller_client_id \<longleftrightarrow>
     (case controller_client_id of
        None \<Rightarrow> False
      | Some i \<Rightarrow> starts_with i kPrivilegedLocalControllerPrefix
                \<or> starts_with i kPrivilegedRemoteControllerPrefix)"

definition IsInteractiveStatus :: "SessionStatus \<Rightarrow> bool" where
  "IsInteractiveStatus status \<longleftrightarrow> status = Running \<or> status = AwaitingInput"

definition DefaultTerminalSizeForMetadata :: "SessionMetadata \<Rightarrow> TerminalSize" where
  "DefaultTerminalSizeForMetadata metadata =
     ls_terminal_size (BuildLaunchSpec metadata (DefaultProviderConfig (md_provider metadata)) []
       TerminalSize_default EffectiveEnvironment_default)"

definition kRecentOutputWindowMs :: int where "kRecentOutputWindowMs = 5000"
definition kWorkspaceChangedAttentionMs :: int where "kWorkspaceChangedAttentionMs = 30000"
definition kGitChangedAttentionMs :: int where "kGitChangedAttentionMs = 30000"
definition kControllerChangedAttentionMs :: int where "kControllerChangedAttentionMs = 20000"
definition kExitedAttentionMs :: int where "kExitedAttentionMs = 120000"

definition BuildCreateFailureLog :: "SessionMetadata \<Rightarrow> EffectiveEnvironment option \<Rightarrow> string \<Rightarrow> string" where
  "BuildCreateFailureLog metadata effective_environment error_message =
     ''session start failed'' @ [ch_nl]
     @ ''provider: '' @ ToString_ProviderType (md_provider metadata) @ [ch_nl]
     @ ''workspace: '' @ md_workspace_root metadata @ [ch_nl]
     @ (case effective_environment of
          None \<Rightarrow> []
        | Some env \<Rightarrow>
            ''env mode: '' @ ToString_EnvMode (ef_mode env) @ [ch_nl]
            @ (case ef_bootstrap_shell_path env of None \<Rightarrow> [] | Some p \<Rightarrow> ''shell: '' @ p @ [ch_nl])
            @ (case ef_env_file_path env of None \<Rightarrow> [] | Some p \<Rightarrow> ''env file: '' @ p @ [ch_nl]))
     @ ''detail: '' @ error_message @ [ch_nl]"

definition NormalizeRecoveredStatus :: "SessionStatus \<Rightarrow> SessionStatus" where
  "NormalizeRecoveredStatus status = (if status = Exited \<or> status = Error then status else Exited)"

definition GitModifiedCount :: "GitSummary \<Rightarrow> nat" where
  "GitModifiedCount summary = max (gs_modified_count summary) (length (gs_modified_files summary))"

definition GitStagedCount :: "GitSummary \<Rightarrow> nat" where
  "GitStagedCount summary = max (gs_staged_count summary) (length (gs_staged_files summary))"

definition GitUntrackedCount :: "GitSummary \<Rightarrow> nat" where
  "GitUntrackedCount summary = max (gs_untracked_count summary) (length (gs_untracked_files summary))"

definition IsGitDirty :: "GitSummary \<Rightarrow> bool" where
  "IsGitDirty summary \<longleftrightarrow>
     max (gs_modified_count summary) (length (gs_modified_files summary)) > 0
     \<or> max (gs_staged_count summary) (length (gs_staged_files summary)) > 0
     \<or> max (gs_untracked_count summary) (length (gs_untracked_files summary)) > 0"

definition MakeRecoveredTailSlice :: "SessionSnapshot \<Rightarrow> nat \<Rightarrow> OutputSlice" where
  "MakeRecoveredTailSlice snapshot max_bytes =
     (let whole = sn_recent_terminal_tail snapshot in
      if max_bytes = 0 \<or> whole = [] then OutputSlice_empty
      else
        let tail = (if length whole > max_bytes then drop (length whole - max_bytes) whole else whole);
            seq = (if sn_current_sequence snapshot = 0 then 1 else sn_current_sequence snapshot)
        in \<lparr>os_seq_start = seq, os_seq_end = seq, os_data = tail\<rparr>)"

definition MakeRecoveredOutputSlice :: "SessionSnapshot \<Rightarrow> u64 \<Rightarrow> OutputSlice" where
  "MakeRecoveredOutputSlice snapshot seq =
     (if sn_recent_terminal_tail snapshot = [] \<or> sn_current_sequence snapshot = 0
        \<or> seq > sn_current_sequence snapshot
      then OutputSlice_empty
      else \<lparr>os_seq_start = sn_current_sequence snapshot, os_seq_end = sn_current_sequence snapshot,
            os_data = sn_recent_terminal_tail snapshot\<rparr>)"

text \<open>Paths as the lists of components that \<open>std::filesystem::path\<close> iterates over.\<close>

fun IsPathWithinRoot :: "path \<Rightarrow> path \<Rightarrow> bool" where
  "IsPathWithinRoot [] candidate = True"
| "IsPathWithinRoot (r # root) [] = False"
| "IsPathWithinRoot (r # root) (c # candidate) = (r = c \<and> IsPathWithinRoot root candidate)"

definition ContainsParentTraversal :: "path \<Rightarrow> bool" where
  "ContainsParentTraversal p \<longleftrightarrow> list_ex (\<lambda>component. component = ''..'') p"

definition ApplyGroupTagMutation :: "string list \<Rightarrow> SessionGroupTagsUpdateMode \<Rightarrow> string list \<Rightarrow> string list" where
  "ApplyGroupTagMutation existing_tags mode tags =
     (let normalized_existing = NormalizeGroupTags existing_tags;
          normalized_input = NormalizeGroupTags tags
      in
      case mode of
        TagsSet \<Rightarrow> normalized_input
      | TagsAdd \<Rightarrow>
          fold (\<lambda>tag result. if tag \<in> set result then result else result @ [tag]) normalized_input normalized_existing
      | TagsRemove \<Rightarrow> filter (\<lambda>tag. tag \<notin> set normalized_input) normalized_existing)"

section \<open>Attention\<close>

record AttentionInference =
  ai_state :: AttentionState
  ai_reason :: AttentionReason
  ai_since_unix_ms :: "unix_ms option"

definition IsWithinWindow :: "unix_ms option \<Rightarrow> unix_ms \<Rightarrow> int \<Rightarrow> bool" where
  "IsWithinWindow timestamp_unix_ms now_unix_ms window_ms \<longleftrightarrow>
     (case timestamp_unix_ms of
        None \<Rightarrow> False
      | Some t \<Rightarrow> now_unix_ms \<ge> t \<and> now_unix_ms - t \<le> window_ms)"

definition InferAttention ::
    "SessionStatus \<Rightarrow> unix_ms option \<Rightarrow> unix_ms option \<Rightarrow> unix_ms option \<Rightarrow> unix_ms option \<Rightarrow> unix_ms
       \<Rightarrow> AttentionInference" where
  "InferAttention status last_status last_file_change last_git_change last_controller_change now_ms =
     (if status = Error then
        \<lparr>ai_state = AttIntervention, ai_reason = ReasonSessionError, ai_since_unix_ms = last_status\<rparr>
      else if status = AwaitingInput then
        \<lparr>ai_state = AttActionRequired, ai_reason = ReasonAwaitingInput, ai_since_unix_ms = last_status\<rparr>
      else if IsWithinWindow last_file_change now_ms kWorkspaceChangedAttentionMs then
        \<lparr>ai_state = AttInfo, ai_reason = ReasonWorkspaceChanged, ai_since_unix_ms = last_file_change\<rparr>
      else if IsWithinWindow last_git_change now_ms kGitChangedAttentionMs then
        \<lparr>ai_state = AttInfo, ai_reason = ReasonGitStateChanged, ai_since_unix_ms = last_git_change\<rparr>
      else if IsWithinWindow last_controller_change now_ms kControllerChangedAttentionMs then
        \<lparr>ai_state = AttInfo, ai_reason = ReasonControllerChanged, ai_since_unix_ms = last_controller_change\<rparr>
      else if status = Exited \<and> IsWithinWindow last_status now_ms kExitedAttentionMs then
        \<lparr>ai_state = AttInfo, ai_reason = ReasonSessionExitedCleanly, ai_since_unix_ms = last_status\<rparr>
      else \<lparr>ai_state = AttNone, ai_reason = ReasonNone, ai_since_unix_ms = None\<rparr>)"

definition InferInteractionKind :: "SessionStatus \<Rightarrow> ControllerKind \<Rightarrow> u64 \<Rightarrow> SessionInteractionKind" where
  "InferInteractionKind status controller_kind current_sequence =
     (if status = AwaitingInput then IkInteractiveLineMode
      else if status = Running \<and> controller_kind \<noteq> ControllerNone then IkInteractiveLineMode
      else if status = Running \<and> current_sequence > 0 then IkRunningNonInteractive
      else if (status = Exited \<or> status = Error) \<and> current_sequence > 0 then IkCompletedQuickly
      else IkUnknown)"

definition BuildSemanticPreview :: "SessionStatus \<Rightarrow> AttentionReason \<Rightarrow> bool \<Rightarrow> string" where
  "BuildSemanticPreview status attention_reason git_dirty =
     (case attention_reason of
        ReasonAwaitingInput \<Rightarrow> ''Awaiting input''
      | ReasonSessionError \<Rightarrow> ''Session error''
      | ReasonWorkspaceChanged \<Rightarrow> ''Workspace changed''
      | ReasonGitStateChanged \<Rightarrow> ''Git state changed''
      | ReasonControllerChanged \<Rightarrow> ''Controller changed''
      | ReasonSessionExitedCleanly \<Rightarrow> ''Session exited cleanly''
      | ReasonNone \<Rightarrow> if status = Running \<and> git_dirty then ''Workspace dirty'' else [])"

definition BuildNodeSummary :: "SessionSnapshot \<Rightarrow> SessionSignals \<Rightarrow> string \<Rightarrow> SessionNodeSummary" where
  "BuildNodeSummary snapshot signals summary_text =
     \<lparr>ns_session_id = sid_value (md_id (sn_metadata snapshot)),
      ns_lifecycle_status = md_status (sn_metadata snapshot),
      ns_interaction_kind = sg_interaction_kind signals,
      ns_attention_state = sg_attention_state signals,
      ns_semantic_preview = summary_text,
      ns_recent_file_change_count = length (sn_recent_file_changes snapshot),
      ns_git_dirty = sg_git_dirty signals,
      ns_last_activity_at_unix_ms = sg_last_activity_at_unix_ms signals\<rparr>"

datatype AssessmentActivityClass =
  ClassIdle | ClassMeaningfulOutput | ClassCosmeticOutput | ClassExternalChange | ClassStopped

record AttentionAssessment =
  aa_state :: AttentionState
  aa_reason :: AttentionReason
  aa_since_unix_ms :: "unix_ms option"
  aa_summary :: string

record SessionAssessment =
  sa_supervision_state :: SupervisionState
  sa_interaction_kind :: SessionInteractionKind
  sa_activity_class :: AssessmentActivityClass
  sa_attention :: AttentionAssessment

fun ToPublicActivityState :: "AssessmentActivityClass \<Rightarrow> SessionActivityState" where
  "ToPublicActivityState ClassIdle = ActIdle"
| "ToPublicActivityState ClassMeaningfulOutput = ActMeaningfulOutput"
| "ToPublicActivityState ClassCosmeticOutput = ActCosmeticOutput"
| "ToPublicActivityState ClassExternalChange = ActExternalChange"
| "ToPublicActivityState ClassStopped = ActStopped"

definition BuildModeSummary :: "SessionStatus \<Rightarrow> SessionAssessment \<Rightarrow> SessionModeSummary" where
  "BuildModeSummary status assessment =
     \<lparr>ms_lifecycle_status = status, ms_interaction_kind = sa_interaction_kind assessment,
      ms_activity_state = ToPublicActivityState (sa_activity_class assessment)\<rparr>"

definition BuildAttentionSummary :: "AttentionAssessment \<Rightarrow> SessionAttentionSummary" where
  "BuildAttentionSummary attention =
     \<lparr>as_level = aa_state attention, as_cause = aa_reason attention,
      as_since_unix_ms = aa_since_unix_ms attention, as_summary = aa_summary attention\<rparr>"

definition recent :: "unix_ms option \<Rightarrow> unix_ms \<Rightarrow> bool" where
  "recent timestamp now_ms \<longleftrightarrow>
     (case timestamp of None \<Rightarrow> False | Some t \<Rightarrow> now_ms - t \<le> kRecentOutputWindowMs)"

definition InferActivityClass ::
    "SessionStatus \<Rightarrow> unix_ms option \<Rightarrow> unix_ms option \<Rightarrow> TerminalSemanticChange \<Rightarrow> unix_ms
       \<Rightarrow> AssessmentActivityClass" where
  "InferActivityClass status last_output last_activity change now_ms =
     (let by_output = (if recent last_output now_ms then ClassMeaningfulOutput else ClassIdle) in
      if status = Exited \<or> status = Error then ClassStopped
      else if recent last_activity now_ms then
        (case sc_kind change of
           CosmeticChurn \<Rightarrow> ClassCosmeticOutput
         | CursorOnly \<Rightarrow> ClassCosmeticOutput
         | AltScreenTransition \<Rightarrow> ClassExternalChange
         | MeaningfulOutput \<Rightarrow> ClassMeaningfulOutput
         | KindNone \<Rightarrow> by_output)
      else by_output)"

definition InferSupervisionState :: "SessionStatus \<Rightarrow> unix_ms option \<Rightarrow> unix_ms \<Rightarrow> SupervisionState" where
  "InferSupervisionState status last_output now_ms =
     (if status = Exited \<or> status = Error then SupStopped
      else if IsInteractiveStatus status \<and> recent last_output now_ms then SupActive
      else SupQuiet)"

definition BuildAssessment ::
    "SessionStatus \<Rightarrow> ControllerKind \<Rightarrow> u64 \<Rightarrow> unix_ms option \<Rightarrow> unix_ms option \<Rightarrow> unix_ms option
       \<Rightarrow> unix_ms option \<Rightarrow> unix_ms option \<Rightarrow> unix_ms option \<Rightarrow> TerminalSemanticChange \<Rightarrow> bool \<Rightarrow> unix_ms
       \<Rightarrow> SessionAssessment" where
  "BuildAssessment status controller_kind current_sequence last_status last_meaningful_output last_activity
       last_file_change last_git_change last_controller_change change git_dirty now_ms =
     (let attention = InferAttention status last_status last_file_change last_git_change
            last_controller_change now_ms
      in
      \<lparr>sa_supervision_state = InferSupervisionState status last_meaningful_output now_ms,
       sa_interaction_kind = InferInteractionKind status controller_kind current_sequence,
       sa_activity_class = InferActivityClass status last_meaningful_output last_activity change now_ms,
       sa_attention =
         \<lparr>aa_state = ai_state attention, aa_reason = ai_reason attention,
          aa_since_unix_ms = ai_since_unix_ms attention,
          aa_summary = BuildSemanticPreview status (ai_reason attention) git_dirty\<rparr>\<rparr>)"


section \<open>What the shell reads\<close>

text \<open>How a POSIX shell splits a script of simple commands: blanks separate words, newlines separate
  commands, quotes group. Every character that could start an expansion, a redirection or another
  operator outside single quotes makes the answer \<open>None\<close>.\<close>

datatype shell_quoting = Unquoted | SingleQuoted | DoubleQuoted

definition shell_special :: "char \<Rightarrow> bool" where
  "shell_special c \<longleftrightarrow> c \<in> set (''$`;&|()<>*?[]#~!{}^%'' @ [ch_backslash, ch_tab, ch_cr])"

definition open_word :: "string option \<Rightarrow> string" where
  "open_word w = (case w of None \<Rightarrow> [] | Some s \<Rightarrow> s)"

definition end_word :: "string option \<Rightarrow> string list \<Rightarrow> string list" where
  "end_word w ws = (case w of None \<Rightarrow> ws | Some s \<Rightarrow> ws @ [s])"

fun shell_commands :: "shell_quoting \<Rightarrow> string option \<Rightarrow> string list \<Rightarrow> string \<Rightarrow> string list list option" where
  "shell_commands Unquoted w ws [] = Some [end_word w ws]"
| "shell_commands SingleQuoted w ws [] = None"
| "shell_commands DoubleQuoted w ws [] = None"
| "shell_commands Unquoted w ws (c # cs) =
     (if c = CHR '' '' then shell_commands Unquoted None (end_word w ws) cs
      else if c = ch_nl then map_option ((#) (end_word w ws)) (shell_commands Unquoted None [] cs)
      else if c = ch_quote then shell_commands SingleQuoted (Some (open_word w)) ws cs
      else if c = ch_dquote then shell_commands DoubleQuoted (Some (open_word w)) ws cs
      else if shell_special c then None
      else shell_commands Unquoted (Some (open_word w @ [c])) ws cs)"
| "shell_commands SingleQuoted w ws (c # cs) =
     (if c = ch_quote then shell_commands Unquoted w ws cs
      else shell_commands SingleQuoted (Some (open_word w @ [c])) ws cs)"
| "shell_commands DoubleQuoted w ws (c # cs) =
     (if c = ch_dquote then shell_commands Unquoted w ws cs
      else if c \<in> set (''$`!'' @ [ch_backslash]) then None
      else shell_commands DoubleQuoted (Some (open_word w @ [c])) ws cs)"

lemma open_word_simps [simp]: "open_word None = []" "open_word (Some s) = s"
  by (simp_all add: open_word_def)

lemma end_word_simps [simp]: "end_word None ws = ws" "end_word (Some s) ws = ws @ [s]"
  by (simp_all add: end_word_def)

lemma shell_commands_escaped:
  "shell_commands SingleQuoted (Some u) ws
     (concat (map (\<lambda>ch. if ch = ch_quote then [ch_quote, ch_dquote, ch_quote, ch_dquote, ch_quote] else [ch]) v)
      @ ch_quote # r) = shell_commands Unquoted (Some (u @ v)) ws r"
  by (induction v arbitrary: u) auto

lemma shell_commands_ShellQuote [simp]:
  "shell_commands Unquoted w ws (ShellQuote v @ r) = shell_commands Unquoted (Some (open_word w @ v)) ws r"
  using shell_commands_escaped [of "open_word w"] by (simp add: ShellQuote_def)

lemma name_char_plain:
  "is_name_char c \<Longrightarrow> c \<noteq> CHR '' '' \<and> c \<noteq> ch_nl \<and> c \<noteq> ch_quote \<and> c \<noteq> ch_dquote \<and> \<not> shell_special c"
  by (auto simp: is_name_char_def char_class_defs byte_def shell_special_def)

lemma shell_commands_name:
  "list_all is_name_char k \<Longrightarrow>
   shell_commands Unquoted (Some u) ws (k @ r) = shell_commands Unquoted (Some (u @ k)) ws r"
  by (induction k arbitrary: u) (auto dest: name_char_plain)

lemma shell_commands_key:
  "env_key k \<Longrightarrow> shell_commands Unquoted None ws (k @ r) = shell_commands Unquoted (Some k) ws r"
  by (cases k) (auto simp: env_key_def shell_commands_name dest: name_char_plain)

lemma shell_commands_arguments:
  "shell_commands Unquoted (Some w) ws (concat (map (\<lambda>argument. CHR '' '' # ShellQuote argument) arguments)) =
     Some [ws @ w # arguments]"
  by (induction arguments arbitrary: w ws) auto

lemma shell_commands_exec:
  "shell_commands Unquoted None [] (BuildShellExecCommand executable arguments) =
     Some [''exec'' # executable # arguments]"
  by (simp add: BuildShellExecCommand_def shell_special_def shell_commands_arguments)

lemma shell_commands_export:
  "env_key (ee_key e) \<Longrightarrow>
   shell_commands Unquoted None [] (''export '' @ ee_key e @ ''='' @ ShellQuote (ee_value e) @ ch_nl # r) =
     map_option ((#) [''export'', ee_key e @ ''='' @ ee_value e]) (shell_commands Unquoted None [] r)"
  by (simp add: shell_special_def shell_commands_key)

text \<open>A session in shell mode is launched by a script. When the names of its variables are names, the shell
  reads from the script one export per variable, with exactly the value the environment was resolved to, and then
  the execution of exactly the configured program with its arguments, whatever characters values and arguments
  contain: nothing is expanded and no other command can be slipped in.\<close>

theorem shell_mode_command_exact:
  assumes "list_all (\<lambda>e. env_key (ee_key e)) (ef_entries effective_env)"
  shows "shell_commands Unquoted None [] (BuildShellModeCommand effective_env None executable arguments) =
    Some (map (\<lambda>e. [''export'', ee_key e @ ''='' @ ee_value e]) (ef_entries effective_env)
          @ [''exec'' # executable # arguments])"
proof -
  have "shell_commands Unquoted None []
      (concat (map (\<lambda>e. ''export '' @ ee_key e @ ''='' @ ShellQuote (ee_value e) @ [ch_nl]) es)
       @ BuildShellExecCommand executable arguments) =
    Some (map (\<lambda>e. [''export'', ee_key e @ ''='' @ ee_value e]) es @ [''exec'' # executable # arguments])"
    if "list_all (\<lambda>e. env_key (ee_key e)) es" for es
    using that
  proof (induction es)
    case (Cons e es)
    let ?script = "concat (map (\<lambda>e. ''export '' @ ee_key e @ ''='' @ ShellQuote (ee_value e) @ [ch_nl]) es)
       @ BuildShellExecCommand executable arguments"
    from Cons show ?case
      using shell_commands_export [of e ?script] by (simp del: shell_commands.simps)
  qed (simp add: shell_commands_exec del: shell_commands.simps)
  with assms show ?thesis by (simp add: BuildShellModeCommand_def)
qed

definition demo_shell_env :: EffectiveEnvironment where
  "demo_shell_env = EffectiveEnvironment_default\<lparr>ef_entries :=
     [\<lparr>ee_key = ''A'', ee_value = ''x; rm $HOME'' @ [ch_quote, ch_nl], ee_source = SessionOverride\<rparr>]\<rparr>"

theorem shell_mode_command_exact_witness:
  "shell_commands Unquoted None [] (BuildShellModeCommand demo_shell_env None ''codex'' [''a b'']) =
     Some [[''export'', ''A=x; rm $HOME'' @ [ch_quote, ch_nl]], [''exec'', ''codex'', ''a b'']]"
proof -
  have "list_all (\<lambda>e. env_key (ee_key e)) (ef_entries demo_shell_env)" by code_simp
  from shell_mode_command_exact [OF this] show ?thesis by (simp add: demo_shell_env_def)
qed

section \<open>What the colour filter removes\<close>

text \<open>Input as a terminal sends it: what the user typed, in which no operating system command begins,
  and colour reports ended by \<open>BEL\<close> or \<open>ST\<close>.\<close>

datatype input_part = Typed string | ColorReport bool string bool

fun plain_input :: "string \<Rightarrow> bool" where
  "plain_input [] = True"
| "plain_input (c # cs) = ((c = ch_esc \<longrightarrow> cs \<noteq> [] \<and> hd cs \<noteq> CHR '']'') \<and> plain_input cs)"

fun part_ok :: "input_part \<Rightarrow> bool" where
  "part_ok (Typed t) = plain_input t"
| "part_ok (ColorReport foreground body bel) = list_all (\<lambda>c. c \<noteq> ch_bel \<and> c \<noteq> ch_esc) body"

fun part_bytes :: "input_part \<Rightarrow> string" where
  "part_bytes (Typed t) = t"
| "part_bytes (ColorReport foreground body bel) =
     [ch_esc] @ (if foreground then '']10;'' else '']11;'') @ body @ (if bel then [ch_bel] else [ch_esc, ch_backslash])"

fun typed_part :: "input_part \<Rightarrow> string" where
  "typed_part (Typed t) = t"
| "typed_part (ColorReport foreground body bel) = []"

lemma color_report_rest_body:
  "list_all (\<lambda>c. c \<noteq> ch_bel \<and> c \<noteq> ch_esc) body \<Longrightarrow>
   color_report_rest (body @ (if bel then [ch_bel] else [ch_esc, ch_backslash]) @ r) = Some r"
  by (induction body) auto

lemma IsColorReportSequence_report:
  "part_ok (ColorReport foreground body bel) \<Longrightarrow>
   IsColorReportSequence (part_bytes (ColorReport foreground body bel) @ r) = Some r"
  using color_report_rest_body [of body bel r] by (auto simp: IsColorReportSequence_def)

lemma IsColorReportSequence_plain:
  "c = ch_esc \<longrightarrow> s \<noteq> [] \<and> hd s \<noteq> CHR '']'' \<Longrightarrow> IsColorReportSequence (c # s) = None"
  by (cases s) (auto simp: IsColorReportSequence_def)

lemma FilterTerminalColorReports_Nil [simp]: "FilterTerminalColorReports [] = ([], False)"
  by (simp add: FilterTerminalColorReports.simps)

lemma FilterTerminalColorReports_typed:
  "plain_input t \<Longrightarrow>
   FilterTerminalColorReports (t @ r) =
     (t @ fst (FilterTerminalColorReports r), snd (FilterTerminalColorReports r))"
proof (induction t)
  case (Cons c t)
  then have "IsColorReportSequence (c # t @ r) = None"
    by (intro IsColorReportSequence_plain) (cases t; auto)
  with Cons show ?case
    by (subst FilterTerminalColorReports.simps) (simp add: case_prod_beta)
qed simp

lemma FilterTerminalColorReports_report:
  assumes "part_ok (ColorReport foreground body bel)"
  shows "FilterTerminalColorReports (part_bytes (ColorReport foreground body bel) @ r) =
    (fst (FilterTerminalColorReports r), True)"
  using IsColorReportSequence_report [OF assms, of r]
  by (subst FilterTerminalColorReports.simps) (auto split: list.splits)

text \<open>From input in which the user's typing is interleaved with the terminal's own colour reports, exactly the
  reports are removed and every typed byte reaches the program in its order.\<close>

theorem color_reports_filtered:
  assumes "list_all part_ok parts"
  shows "FilterTerminalColorReports (concat (map part_bytes parts)) =
    (concat (map typed_part parts), list_ex (\<lambda>p. \<forall>t. p \<noteq> Typed t) parts)"
  using assms
proof (induction parts)
  case (Cons p parts)
  then show ?case
    by (cases p)
      (simp_all add: FilterTerminalColorReports_typed FilterTerminalColorReports_report del: part_bytes.simps(2))
qed simp

theorem color_reports_filtered_witness:
  "FilterTerminalColorReports (''ls'' @ [ch_esc] @ '']11;rgb:0/0/0'' @ [ch_bel] @ [ch_esc] @ ''[A'') =
     (''ls'' @ [ch_esc] @ ''[A'', True)"
  using color_reports_filtered [of "[Typed ''ls'', ColorReport False ''rgb:0/0/0'' True, Typed ([ch_esc] @ ''[A'')]"]
  by simp

text \<open>Removing a report can join the bytes around it to a new report, which then goes through.\<close>

lemma color_report_survives:
  "FilterTerminalColorReports ([ch_esc] @ '']'' @ [ch_esc] @ '']10;x'' @ [ch_bel] @ ''10;y'' @ [ch_bel]) =
     ([ch_esc] @ '']10;y'' @ [ch_bel], True)"
  by code_simp

section \<open>Group tags\<close>

lemma fold_add_tags:
  "set (fold (\<lambda>tag result. if tag \<in> set result then result else result @ [tag]) tags acc) = set acc \<union> set tags"
  "distinct acc \<Longrightarrow> distinct (fold (\<lambda>tag result. if tag \<in> set result then result else result @ [tag]) tags acc)"
  by (induction tags arbitrary: acc) auto

lemma distinct_group_tag_mutation: "distinct (ApplyGroupTagMutation existing mode tags)"
  by (cases mode) (auto simp: ApplyGroupTagMutation_def fold_add_tags)

lemma set_group_tag_mutation:
  "set (ApplyGroupTagMutation existing mode tags) =
     (case mode of
        TagsAdd \<Rightarrow> set (NormalizeGroupTags existing) \<union> set (NormalizeGroupTags tags)
      | TagsRemove \<Rightarrow> set (NormalizeGroupTags existing) - set (NormalizeGroupTags tags)
      | TagsSet \<Rightarrow> set (NormalizeGroupTags tags))"
  by (cases mode) (auto simp: ApplyGroupTagMutation_def fold_add_tags)

lemma group_tag_mutation_normalized:
  "NormalizeGroupTags (ApplyGroupTagMutation existing mode tags) = ApplyGroupTagMutation existing mode tags"
proof -
  have "set (ApplyGroupTagMutation existing mode tags) \<subseteq> set (NormalizeGroupTags existing) \<union> set (NormalizeGroupTags tags)"
    by (cases mode) (auto simp: set_group_tag_mutation)
  then show ?thesis
    by (intro NormalizeGroupTags_fixpoint distinct_group_tag_mutation) (auto simp: set_NormalizeGroupTags)
qed

text \<open>Changing the group tags of a session is a set operation on normalised tags: the outcome has no duplicates
  and only normalised tags, and it is the union, the difference or the replacement the mode names.\<close>

theorem group_tag_mutation_sets:
  "distinct (ApplyGroupTagMutation existing mode tags)
   \<and> NormalizeGroupTags (ApplyGroupTagMutation existing mode tags) = ApplyGroupTagMutation existing mode tags
   \<and> set (ApplyGroupTagMutation existing mode tags) =
       (case mode of
          TagsAdd \<Rightarrow> set (NormalizeGroupTags existing) \<union> set (NormalizeGroupTags tags)
        | TagsRemove \<Rightarrow> set (NormalizeGroupTags existing) - set (NormalizeGroupTags tags)
        | TagsSet \<Rightarrow> set (NormalizeGroupTags tags))"
  by (intro conjI distinct_group_tag_mutation group_tag_mutation_normalized set_group_tag_mutation)


end
