(* ===== verification/Session_Manager.thy ===== *)
theory Session_Manager
  imports Session_Assessment
begin

text \<open>
  \<open>session_manager.h/.cpp\<close>: the registry of all sessions. It creates sessions on PTYs and managed
  log sessions, arbitrates which client controls a session, polls them, publishes summaries and
  snapshots, and persists every change through the session store, from which a restarted daemon
  recovers the ended sessions.

  What the code calls and does not own is an argument: the terminal and PTY interfaces, the managed
  log process, the session store, the environment of the process. A \<open>clock\<close> gives the successive
  readings of the system clock during one operation. An optional that the source dereferences
  without a test is read with \<^const>\<open>the\<close>: the invariant of \<open>Manager_Invariant\<close> shows that it
  is never empty there. Trace output is left out, but the trace key that an entry keeps is modelled.
\<close>

section \<open>Data\<close>

datatype SessionCategory = CategoryPty | CategoryManagedLog

fun ToString_SessionCategory :: "SessionCategory \<Rightarrow> string" where
  "ToString_SessionCategory CategoryPty = ''pty''"
| "ToString_SessionCategory CategoryManagedLog = ''managed_log''"

record LogSessionCreateRequest =
  lc_workspace_root :: string
  lc_title :: string
  lc_command_argv :: "string list option"
  lc_command_shell :: "string option"
  lc_group_tags :: "string list"
  lc_env_mode :: "EnvMode option"
  lc_environment_overrides :: "(string \<times> string) list"
  lc_env_file_path :: "string option"
  lc_buffer_limits :: LogBufferLimits

record SessionSummary =
  su_id :: SessionId
  su_category :: SessionCategory
  su_provider :: ProviderType
  su_workspace_root :: string
  su_title :: string
  su_status :: SessionStatus
  su_conversation_id :: "string option"
  su_group_tags :: "string list"
  su_controller_client_id :: "string option"
  su_controller_kind :: ControllerKind
  su_is_recovered :: bool
  su_is_active :: bool
  su_supervision_state :: SupervisionState
  su_attention_state :: AttentionState
  su_attention_reason :: AttentionReason
  su_created_at_unix_ms :: "unix_ms option"
  su_last_status_at_unix_ms :: "unix_ms option"
  su_last_output_at_unix_ms :: "unix_ms option"
  su_last_activity_at_unix_ms :: "unix_ms option"
  su_last_file_change_at_unix_ms :: "unix_ms option"
  su_last_git_change_at_unix_ms :: "unix_ms option"
  su_last_controller_change_at_unix_ms :: "unix_ms option"
  su_attention_since_unix_ms :: "unix_ms option"
  su_pty_columns :: "u16 option"
  su_pty_rows :: "u16 option"
  su_current_sequence :: u64
  su_attached_client_count :: nat
  su_recent_file_change_count :: nat
  su_interaction_kind :: SessionInteractionKind
  su_semantic_preview :: string
  su_node_summary :: SessionNodeSummary
  su_git_dirty :: bool
  su_git_branch :: string
  su_git_modified_count :: nat
  su_git_staged_count :: nat
  su_git_untracked_count :: nat
  su_mode :: SessionModeSummary
  su_attention :: SessionAttentionSummary

datatype FileReadStatus =
  ReadOk | ReadSessionNotFound | ReadInvalidPath | ReadWorkspaceUnavailable | ReadNotFound | ReadNotRegularFile
  | ReadIoError

record SessionFileReadResult =
  fr_status :: FileReadStatus
  fr_workspace_path :: string
  fr_content :: string
  fr_size_bytes :: nat
  fr_truncated :: bool

text \<open>The interface \<open>SessionStore\<close> and the part of \<open>ManagedLogProcess\<close> the manager calls.\<close>

record 's SessionStore =
  ss_LoadSessions :: "'s \<Rightarrow> PersistedSessionRecord list"
  ss_UpsertSessionRecord :: "PersistedSessionRecord \<Rightarrow> 's \<Rightarrow> bool \<times> 's"
  ss_RemoveSessionRecord :: "string \<Rightarrow> 's \<Rightarrow> bool \<times> 's"

record 'l LogProcessApi =
  lp_Start :: "LaunchSpec \<Rightarrow> StartResult \<times> 'l"
  lp_PollExit :: "'l \<Rightarrow> int option \<times> 'l"
  lp_Terminate :: "'l \<Rightarrow> bool \<times> 'l"

record ('p, 'vt, 'l) SessionEntry =
  me_id :: SessionId
  me_category :: SessionCategory
  me_runtime :: "('p, 'vt) SessionRuntime option"
  me_log_process :: "'l option"
  me_log_buffer :: "LogBuffer option"
  me_git_inspector :: bool
  me_file_watcher :: bool
  me_recovered_snapshot :: "SessionSnapshot option"
  me_controller_client_id :: "string option"
  me_controller_kind :: ControllerKind
  me_is_recovered :: bool
  me_created_at :: "unix_ms option"
  me_last_status_at :: "unix_ms option"
  me_last_raw_output_at :: "unix_ms option"
  me_last_meaningful_output_at :: "unix_ms option"
  me_last_output_at :: "unix_ms option"
  me_last_activity_at :: "unix_ms option"
  me_last_file_change_at :: "unix_ms option"
  me_last_git_change_at :: "unix_ms option"
  me_last_controller_change_at :: "unix_ms option"
  me_current_terminal_size :: TerminalSize
  me_last_observed_status :: SessionStatus
  me_last_observed_sequence :: u64
  me_last_traced_key :: "string option"
  me_effective_environment :: "EffectiveEnvironment option"

record ('p, 'vt, 'l, 's) SessionManager =
  sm_store :: 's
  sm_env_cache :: BootstrappedEnvCache
  sm_sessions :: "('p, 'vt, 'l) SessionEntry list"
  sm_poll_count :: int
  sm_last_create_error_message :: string
  sm_last_create_error_session_id :: "string option"
  sm_git_poll_interval :: int
  sm_file_poll_interval :: int
  sm_last_git_poll_at :: int
  sm_last_file_poll_at :: int

record ('p, 'vt, 'l, 's) ManagerDeps =
  dp_vterm :: "'vt VTermApi"
  dp_pty :: "'p PtyApi"
  dp_log :: "'l LogProcessApi"
  dp_store :: "'s SessionStore option"

text \<open>What the creation of a session reads from outside: the random draws for the id, the stored host
  identity, the environment and files of the daemon, the login shell, the steady clock of the cache,
  the process the factory makes, and the state in which \<open>std::move\<close> leaves an environment.\<close>

record 'p CreateInputs =
  ci_draws :: "nat \<Rightarrow> unix_ms \<times> u64"
  ci_host_identity :: "HostIdentity option"
  ci_getenv :: "string \<rightharpoonup> string"
  ci_read_file :: "string \<rightharpoonup> string"
  ci_run_shell :: "string \<Rightarrow> shell_outcome"
  ci_steady_now :: nat
  ci_process :: "'p option"
  ci_moved_from :: "EffectiveEnvironment \<Rightarrow> EffectiveEnvironment"

definition SessionManager_new :: "'s \<Rightarrow> int \<Rightarrow> int \<Rightarrow> ('p, 'vt, 'l, 's) SessionManager" where
  "SessionManager_new session_store git_poll_interval file_poll_interval =
     \<lparr>sm_store = session_store, sm_env_cache = BootstrappedEnvCache_init, sm_sessions = [], sm_poll_count = 0,
      sm_last_create_error_message = [], sm_last_create_error_session_id = None,
      sm_git_poll_interval = git_poll_interval, sm_file_poll_interval = file_poll_interval,
      sm_last_git_poll_at = 0, sm_last_file_poll_at = 0\<rparr>"

section \<open>Entries\<close>

definition entry_id :: "('p, 'vt, 'l) SessionEntry \<Rightarrow> string" where
  "entry_id e = sid_value (me_id e)"

definition FindEntry ::
    "string \<Rightarrow> ('p, 'vt, 'l, 's) SessionManager \<Rightarrow> ('p, 'vt, 'l) SessionEntry option" where
  "FindEntry session_id m = find (\<lambda>e. entry_id e = session_id) (sm_sessions m)"

text \<open>The operations change an entry through the pointer that \<open>FindEntry\<close> gave: the first one with the id.\<close>

fun replace_entry :: "('p, 'vt, 'l) SessionEntry \<Rightarrow> ('p, 'vt, 'l) SessionEntry list \<Rightarrow> ('p, 'vt, 'l) SessionEntry list" where
  "replace_entry e [] = []"
| "replace_entry e (x # xs) = (if entry_id x = entry_id e then e # xs else x # replace_entry e xs)"

definition set_entry_state ::
    "('p, 'vt, 'l) SessionEntry \<Rightarrow> ('p, 'vt, 'l, 's) SessionManager \<Rightarrow> ('p, 'vt, 'l, 's) SessionManager" where
  "set_entry_state e m = m\<lparr>sm_sessions := replace_entry e (sm_sessions m)\<rparr>"

definition entry_snapshot :: "('p, 'vt, 'l) SessionEntry \<Rightarrow> SessionSnapshot option" where
  "entry_snapshot e =
     (case me_runtime e of Some rt \<Rightarrow> Some (sr_snapshot (rt_record rt)) | None \<Rightarrow> me_recovered_snapshot e)"

definition entry_assessment :: "unix_ms \<Rightarrow> SessionSnapshot \<Rightarrow> ('p, 'vt, 'l) SessionEntry \<Rightarrow> SessionAssessment" where
  "entry_assessment now_ms snapshot e =
     BuildAssessment (md_status (sn_metadata snapshot)) (me_controller_kind e) (sn_current_sequence snapshot)
       (me_last_status_at e) (me_last_meaningful_output_at e) (me_last_activity_at e) (me_last_file_change_at e)
       (me_last_git_change_at e) (me_last_controller_change_at e)
       (sg_terminal_semantic_change (sn_signals snapshot)) (IsGitDirty (sn_git_summary snapshot)) now_ms"

definition BuildSummary :: "unix_ms \<Rightarrow> ('p, 'vt, 'l) SessionEntry \<Rightarrow> SessionSummary" where
  "BuildSummary now_ms e =
     (let snapshot = the (entry_snapshot e);
          metadata = sn_metadata snapshot;
          assessment = entry_assessment now_ms snapshot e;
          attention = sa_attention assessment
      in
      \<lparr>su_id = md_id metadata, su_category = me_category e, su_provider = md_provider metadata,
       su_workspace_root = md_workspace_root metadata, su_title = md_title metadata,
       su_status = md_status metadata, su_conversation_id = md_conversation_id metadata,
       su_group_tags = md_group_tags metadata, su_controller_client_id = me_controller_client_id e,
       su_controller_kind = me_controller_kind e, su_is_recovered = me_is_recovered e,
       su_is_active = IsInteractiveStatus (md_status metadata),
       su_supervision_state = sa_supervision_state assessment,
       su_attention_state = aa_state attention, su_attention_reason = aa_reason attention,
       su_created_at_unix_ms = me_created_at e, su_last_status_at_unix_ms = me_last_status_at e,
       su_last_output_at_unix_ms = me_last_output_at e, su_last_activity_at_unix_ms = me_last_activity_at e,
       su_last_file_change_at_unix_ms = me_last_file_change_at e,
       su_last_git_change_at_unix_ms = me_last_git_change_at e,
       su_last_controller_change_at_unix_ms = me_last_controller_change_at e,
       su_attention_since_unix_ms = aa_since_unix_ms attention,
       su_pty_columns = Some (ts_columns (me_current_terminal_size e)),
       su_pty_rows = Some (ts_rows (me_current_terminal_size e)),
       su_current_sequence = sn_current_sequence snapshot, su_attached_client_count = 0,
       su_recent_file_change_count = length (sn_recent_file_changes snapshot),
       su_interaction_kind = sa_interaction_kind assessment,
       su_semantic_preview = aa_summary attention,
       su_node_summary =
         \<lparr>ns_session_id = sid_value (md_id metadata), ns_lifecycle_status = md_status metadata,
          ns_interaction_kind = sa_interaction_kind assessment, ns_attention_state = aa_state attention,
          ns_semantic_preview = aa_summary attention,
          ns_recent_file_change_count = length (sn_recent_file_changes snapshot),
          ns_git_dirty = IsGitDirty (sn_git_summary snapshot),
          ns_last_activity_at_unix_ms = me_last_activity_at e\<rparr>,
       su_git_dirty = IsGitDirty (sn_git_summary snapshot), su_git_branch = gs_branch (sn_git_summary snapshot),
       su_git_modified_count = GitModifiedCount (sn_git_summary snapshot),
       su_git_staged_count = GitStagedCount (sn_git_summary snapshot),
       su_git_untracked_count = GitUntrackedCount (sn_git_summary snapshot),
       su_mode = BuildModeSummary (md_status metadata) assessment,
       su_attention = BuildAttentionSummary attention\<rparr>)"

definition quoted :: "string \<Rightarrow> string" where
  "quoted s =
     [ch_dquote] @ concat (map (\<lambda>c. if c = ch_dquote \<or> c = ch_backslash then [ch_backslash, c] else [c]) s) @ [ch_dquote]"

definition BuildNodeSummaryTraceKey :: "SessionSummary \<Rightarrow> string" where
  "BuildNodeSummaryTraceKey summary =
     ''session='' @ sid_value (su_id summary) @ '' status='' @ ToString_SessionStatus (su_status summary)
     @ '' controller='' @ ToString_ControllerKind (su_controller_kind summary)
     @ '' interaction='' @ ToString_SessionInteractionKind (su_interaction_kind summary)
     @ '' attention='' @ ToString_AttentionState (su_attention_state summary)
     @ '' preview='' @ quoted (su_semantic_preview summary)
     @ '' files='' @ nat_to_string (su_recent_file_change_count summary)
     @ '' gitDirty='' @ (if su_git_dirty summary then ''true'' else ''false'')
     @ '' seq='' @ nat_to_string (su_current_sequence summary)
     @ (case su_last_activity_at_unix_ms summary of
          None \<Rightarrow> [] | Some t \<Rightarrow> '' lastActivityAt='' @ int_to_string t)"

definition MaybeTraceNodeSummaryTransition ::
    "unix_ms \<Rightarrow> ('p, 'vt, 'l) SessionEntry \<Rightarrow> ('p, 'vt, 'l) SessionEntry" where
  "MaybeTraceNodeSummaryTransition now_ms e =
     (let trace_key = BuildNodeSummaryTraceKey (BuildSummary now_ms e) in
      if me_last_traced_key e = Some trace_key then e else e\<lparr>me_last_traced_key := Some trace_key\<rparr>)"

definition ResetControllerState :: "('p, 'vt, 'l) SessionEntry \<Rightarrow> ('p, 'vt, 'l) SessionEntry" where
  "ResetControllerState e = e\<lparr>me_controller_client_id := None, me_controller_kind := ControllerHost\<rparr>"

definition persisted_record :: "SessionSnapshot \<Rightarrow> PersistedSessionRecord" where
  "persisted_record snapshot =
     \<lparr>pr_session_id = sid_value (md_id (sn_metadata snapshot)), pr_provider = md_provider (sn_metadata snapshot),
      pr_workspace_root = md_workspace_root (sn_metadata snapshot), pr_title = md_title (sn_metadata snapshot),
      pr_status = md_status (sn_metadata snapshot), pr_conversation_id = md_conversation_id (sn_metadata snapshot),
      pr_group_tags = md_group_tags (sn_metadata snapshot), pr_current_sequence = sn_current_sequence snapshot,
      pr_recent_terminal_tail = sn_recent_terminal_tail snapshot\<rparr>"

definition persist_store :: "('p, 'vt, 'l, 's) ManagerDeps \<Rightarrow> ('p, 'vt, 'l) SessionEntry \<Rightarrow> 's \<Rightarrow> 's" where
  "persist_store deps e st =
     (case dp_store deps of
        None \<Rightarrow> st
      | Some store \<Rightarrow> snd (ss_UpsertSessionRecord store (persisted_record (the (entry_snapshot e))) st))"

definition PersistEntry ::
    "('p, 'vt, 'l, 's) ManagerDeps \<Rightarrow> ('p, 'vt, 'l) SessionEntry \<Rightarrow> ('p, 'vt, 'l, 's) SessionManager
       \<Rightarrow> ('p, 'vt, 'l, 's) SessionManager" where
  "PersistEntry deps e m = m\<lparr>sm_store := persist_store deps e (sm_store m)\<rparr>"

section \<open>Creating sessions\<close>

definition hex_digit :: "nat \<Rightarrow> char" where
  "hex_digit n = ''0123456789abcdef'' ! (n mod 16)"

fun hex_padded :: "nat \<Rightarrow> nat \<Rightarrow> string" where
  "hex_padded 0 n = []"
| "hex_padded (Suc k) n = hex_padded k (n div 16) @ [hex_digit n]"

definition session_id_text :: "unix_ms \<times> u64 \<Rightarrow> string" where
  "session_id_text draw = ''s_'' @ int_to_string (fst draw) @ ''_'' @ hex_padded 16 (snd draw)"

fun make_id_loop ::
    "(nat \<Rightarrow> unix_ms \<times> u64) \<Rightarrow> nat \<Rightarrow> nat \<Rightarrow> ('p, 'vt, 'l, 's) SessionManager \<Rightarrow> SessionId option" where
  "make_id_loop draws attempt 0 m = None"
| "make_id_loop draws attempt (Suc left) m =
     (let next_value = session_id_text (draws attempt) in
      if FindEntry next_value m \<noteq> None then make_id_loop draws (attempt + 1) left m
      else TryCreate next_value)"

definition MakeSessionId :: "(nat \<Rightarrow> unix_ms \<times> u64) \<Rightarrow> ('p, 'vt, 'l, 's) SessionManager \<Rightarrow> SessionId option" where
  "MakeSessionId draws m = make_id_loop draws 0 32 m"

text \<open>An entry with the initial values of its members.\<close>

definition SessionEntry_default :: "SessionId \<Rightarrow> ('p, 'vt, 'l) SessionEntry" where
  "SessionEntry_default session_id =
     \<lparr>me_id = session_id, me_category = CategoryPty, me_runtime = None, me_log_process = None,
      me_log_buffer = None, me_git_inspector = False, me_file_watcher = False, me_recovered_snapshot = None,
      me_controller_client_id = None, me_controller_kind = ControllerNone, me_is_recovered = False,
      me_created_at = None, me_last_status_at = None, me_last_raw_output_at = None,
      me_last_meaningful_output_at = None, me_last_output_at = None, me_last_activity_at = None,
      me_last_file_change_at = None, me_last_git_change_at = None, me_last_controller_change_at = None,
      me_current_terminal_size = TerminalSize_default, me_last_observed_status = Created,
      me_last_observed_sequence = 0, me_last_traced_key = None, me_effective_environment = None\<rparr>"

definition SessionSignals_default :: SessionSignals where
  "SessionSignals_default =
     \<lparr>sg_last_raw_output_at_unix_ms = None, sg_last_meaningful_output_at_unix_ms = None,
      sg_last_output_at_unix_ms = None, sg_last_activity_at_unix_ms = None,
      sg_last_file_change_at_unix_ms = None, sg_last_git_change_at_unix_ms = None,
      sg_last_controller_change_at_unix_ms = None, sg_attention_since_unix_ms = None,
      sg_pty_columns = None, sg_pty_rows = None, sg_current_sequence = 0, sg_recent_file_change_count = 0,
      sg_supervision_state = SupQuiet, sg_attention_state = AttNone, sg_attention_reason = ReasonNone,
      sg_interaction_kind = IkUnknown, sg_terminal_semantic_change = TerminalSemanticChange_default,
      sg_git_dirty = False, sg_git_branch = [], sg_git_modified_count = 0, sg_git_staged_count = 0,
      sg_git_untracked_count = 0, sg_mode = SessionModeSummary_default,
      sg_attention = SessionAttentionSummary_default\<rparr>"

definition SessionNodeSummary_default :: SessionNodeSummary where
  "SessionNodeSummary_default =
     \<lparr>ns_session_id = [], ns_lifecycle_status = Created, ns_interaction_kind = IkUnknown,
      ns_attention_state = AttNone, ns_semantic_preview = [], ns_recent_file_change_count = 0,
      ns_git_dirty = False, ns_last_activity_at_unix_ms = None\<rparr>"

definition failure_snapshot :: "unix_ms \<Rightarrow> SessionMetadata \<Rightarrow> string \<Rightarrow> SessionSnapshot" where
  "failure_snapshot now_ms failed_metadata failure_log =
     (let output_at = (if failure_log = [] then None else Some now_ms);
          current_sequence = (if failure_log = [] then 0 else 1)
      in
      \<lparr>sn_metadata = failed_metadata, sn_current_sequence = current_sequence,
       sn_recent_terminal_tail = failure_log, sn_terminal_screen = None,
       sn_signals = SessionSignals_default
         \<lparr>sg_last_raw_output_at_unix_ms := output_at, sg_last_meaningful_output_at_unix_ms := output_at,
          sg_last_output_at_unix_ms := output_at, sg_last_activity_at_unix_ms := Some now_ms,
          sg_attention_since_unix_ms := Some now_ms, sg_current_sequence := current_sequence,
          sg_supervision_state := SupStopped, sg_attention_state := AttActionRequired,
          sg_attention_reason := ReasonSessionError, sg_interaction_kind := IkCompletedQuickly,
          sg_mode := \<lparr>ms_lifecycle_status = md_status failed_metadata, ms_interaction_kind = IkCompletedQuickly,
                      ms_activity_state = ActStopped\<rparr>,
          sg_attention := \<lparr>as_level = AttActionRequired, as_cause = ReasonSessionError,
                           as_since_unix_ms = Some now_ms, as_summary = []\<rparr>\<rparr>,
       sn_node_summary =
         \<lparr>ns_session_id = sid_value (md_id failed_metadata), ns_lifecycle_status = md_status failed_metadata,
          ns_interaction_kind = IkCompletedQuickly, ns_attention_state = AttActionRequired,
          ns_semantic_preview = [], ns_recent_file_change_count = 0, ns_git_dirty = False,
          ns_last_activity_at_unix_ms = Some now_ms\<rparr>,
       sn_recent_file_changes = [], sn_git_summary = GitSummary_default\<rparr>)"

definition RecordCreateFailureSession ::
    "('p, 'vt, 'l, 's) ManagerDeps \<Rightarrow> (nat \<Rightarrow> unix_ms) \<Rightarrow> SessionMetadata \<Rightarrow> EffectiveEnvironment option \<Rightarrow> string
       \<Rightarrow> ('p, 'vt, 'l, 's) SessionManager \<Rightarrow> ('p, 'vt, 'l, 's) SessionManager" where
  "RecordCreateFailureSession deps clock metadata effective_environment error_message m =
     (let failed_metadata = metadata\<lparr>md_status := Error\<rparr>;
          failure_log = BuildCreateFailureLog failed_metadata effective_environment error_message;
          now_ms = clock 0;
          output_at = (if failure_log = [] then None else Some now_ms);
          snapshot = failure_snapshot now_ms failed_metadata failure_log;
          entry = (SessionEntry_default (md_id failed_metadata))
            \<lparr>me_recovered_snapshot := Some snapshot, me_created_at := Some now_ms,
             me_last_status_at := Some now_ms, me_last_raw_output_at := output_at,
             me_last_meaningful_output_at := output_at, me_last_output_at := output_at,
             me_last_activity_at := Some now_ms,
             me_current_terminal_size := DefaultTerminalSizeForMetadata failed_metadata,
             me_last_observed_status := Error, me_last_observed_sequence := sn_current_sequence snapshot,
             me_effective_environment := effective_environment\<rparr>;
          m1 = m\<lparr>sm_last_create_error_session_id := Some (sid_value (md_id metadata))\<rparr>;
          m2 = PersistEntry deps entry m1
      in m2\<lparr>sm_sessions := sm_sessions m2 @ [MaybeTraceNodeSummaryTransition (clock 1) entry]\<rparr>)"

text \<open>The program and arguments a request asks for, or the message that rejects them.\<close>

definition launch_command :: "CreateSessionRequest \<Rightarrow> ProviderConfig \<Rightarrow> string + ProviderConfig" where
  "launch_command request provider_config =
     (case cs_command_shell request of
        Some command \<Rightarrow>
          if command = [] then Inl ''shell command must not be empty''
          else Inr (provider_config\<lparr>pc_executable := ''/bin/sh'', pc_default_args := [''-lc'', command]\<rparr>)
      | None \<Rightarrow>
          (case cs_command_argv request of
             Some argv \<Rightarrow>
               if argv = [] \<or> hd argv = [] then Inl ''command argv must not be empty''
               else Inr (provider_config\<lparr>pc_executable := hd argv, pc_default_args := tl argv\<rparr>)
           | None \<Rightarrow> Inr provider_config))"

definition shell_mode_launch ::
    "(string \<rightharpoonup> string) \<Rightarrow> HostIdentity \<Rightarrow> string option \<Rightarrow> EffectiveEnvironment \<Rightarrow> ProviderConfig
       \<Rightarrow> EffectiveEnvironment \<times> ProviderConfig" where
  "shell_mode_launch getenv host_identity command_shell effective_env launch_config =
     (let shell_path = (case ef_bootstrap_shell_path effective_env of
                          Some p \<Rightarrow> p | None \<Rightarrow> ResolveBootstrapShell getenv host_identity);
          shell_command = BuildShellModeCommand effective_env command_shell (pc_executable launch_config)
            (pc_default_args launch_config)
      in (effective_env\<lparr>ef_bootstrap_shell_path := Some shell_path\<rparr>,
          launch_config\<lparr>pc_executable := shell_path, pc_default_args := [''-il'', ''-c'', shell_command]\<rparr>))"

definition kOutputBufferCapacityBytes :: nat where
  "kOutputBufferCapacityBytes = 8388608"

definition new_pty_entry ::
    "SessionId \<Rightarrow> ('p, 'vt) SessionRuntime \<Rightarrow> unix_ms \<Rightarrow> EffectiveEnvironment \<Rightarrow> ('p, 'vt, 'l) SessionEntry" where
  "new_pty_entry session_id runtime now_ms effective_env =
     (SessionEntry_default session_id)
       \<lparr>me_runtime := Some runtime, me_git_inspector := True, me_file_watcher := True,
        me_controller_kind := ControllerHost, me_created_at := Some now_ms, me_last_status_at := Some now_ms,
        me_last_activity_at := Some now_ms,
        me_current_terminal_size := ls_terminal_size (rt_launch_spec runtime),
        me_effective_environment := Some effective_env\<rparr>"

definition start_pty_session ::
    "('p, 'vt, 'l, 's) ManagerDeps \<Rightarrow> 'p CreateInputs \<Rightarrow> (nat \<Rightarrow> unix_ms) \<Rightarrow> SessionMetadata \<Rightarrow> LaunchSpec
       \<Rightarrow> EffectiveEnvironment \<Rightarrow> 'p \<Rightarrow> ('p, 'vt, 'l, 's) SessionManager
       \<Rightarrow> SessionSummary option \<times> ('p, 'vt, 'l, 's) SessionManager" where
  "start_pty_session deps inputs clock metadata launch_spec effective_env process m =
     (let runtime = SessionRuntime_new (dp_vterm deps) (SessionRecord_new metadata) launch_spec process
            kOutputBufferCapacityBytes;
          (started, runtime1) = rt_Start (dp_pty deps) runtime
      in
      if \<not> started then
        let message = (case rt_start_error runtime1 of
                         Some err \<Rightarrow> err | None \<Rightarrow> ''failed to start session process'')
        in (None, RecordCreateFailureSession deps (\<lambda>i. clock (i + 1)) metadata
                    (Some (ci_moved_from inputs effective_env)) message
                    (m\<lparr>sm_last_create_error_message := message\<rparr>))
      else
        let entry = (new_pty_entry (md_id metadata) runtime (clock 0) effective_env)
              \<lparr>me_runtime := Some runtime1,
               me_last_observed_status := sr_status (rt_record runtime1),
               me_last_observed_sequence := sn_current_sequence (sr_snapshot (rt_record runtime1))\<rparr>;
            m1 = PersistEntry deps entry m;
            entry1 = MaybeTraceNodeSummaryTransition (clock 1) entry
        in (Some (BuildSummary (clock 2) entry1), m1\<lparr>sm_sessions := sm_sessions m1 @ [entry1]\<rparr>))"

definition CreateSession ::
    "('p, 'vt, 'l, 's) ManagerDeps \<Rightarrow> 'p CreateInputs \<Rightarrow> (nat \<Rightarrow> unix_ms) \<Rightarrow> CreateSessionRequest
       \<Rightarrow> ('p, 'vt, 'l, 's) SessionManager \<Rightarrow> SessionSummary option \<times> ('p, 'vt, 'l, 's) SessionManager" where
  "CreateSession deps inputs clock request m =
     (let m0 = m\<lparr>sm_last_create_error_message := [], sm_last_create_error_session_id := None\<rparr>;
          failed = (\<lambda>metadata env message m'.
            (None, RecordCreateFailureSession deps clock metadata env message
                     (m'\<lparr>sm_last_create_error_message := message\<rparr>)))
      in
      case MakeSessionId (ci_draws inputs) m0 of
        None \<Rightarrow> (None, m0\<lparr>sm_last_create_error_message := ''failed to allocate session id''\<rparr>)
      | Some session_id \<Rightarrow>
          let metadata =
                \<lparr>md_id = session_id, md_provider = cs_provider request,
                 md_workspace_root = cs_workspace_root request, md_title = cs_title request,
                 md_status = Created, md_conversation_id = cs_conversation_id request,
                 md_group_tags = NormalizeGroupTags (cs_group_tags request)\<rparr>;
              host_identity = (case ci_host_identity inputs of Some h \<Rightarrow> h | None \<Rightarrow> MakeDefaultHostIdentity);
              provider_config = DefaultProviderConfig (cs_provider request)
          in
          (case launch_command request provider_config of
             Inl message \<Rightarrow> failed metadata None message m0
           | Inr launch_config \<Rightarrow>
               let mode = (case cs_env_mode request of Some md \<Rightarrow> md | None \<Rightarrow> Shell);
                   env_config = \<lparr>ec_mode = mode, ec_overrides = cs_environment_overrides request,
                                 ec_env_file_path = cs_env_file_path request\<rparr>;
                   (env_result, cache1) =
                     ResolveEnvironment (ci_getenv inputs) (ci_read_file inputs) (ci_run_shell inputs)
                       (ci_steady_now inputs) env_config (cs_workspace_root request) host_identity
                       (pc_environment_overrides provider_config) (sm_env_cache m0);
                   m1 = m0\<lparr>sm_env_cache := cache1\<rparr>
               in
               (case env_result of
                  Inl err \<Rightarrow>
                    failed metadata
                      (Some \<lparr>ef_entries = [], ef_mode = mode,
                             ef_bootstrap_shell_path =
                               (if mode = Clean then None
                                else Some (ResolveBootstrapShell (ci_getenv inputs) host_identity)),
                             ef_env_file_path = cs_env_file_path request, ef_bootstrap_warning = None\<rparr>)
                      (''environment resolution failed: '' @ err) m1
                | Inr env \<Rightarrow>
                    let (effective_env, launch_config1) =
                          (if mode = Shell
                           then shell_mode_launch (ci_getenv inputs) host_identity (cs_command_shell request) env launch_config
                           else (env, launch_config));
                        launch_spec = BuildLaunchSpec metadata launch_config1 [] TerminalSize_default effective_env
                    in
                    (case ci_process inputs of
                       None \<Rightarrow> failed metadata (Some effective_env) ''pty process unavailable'' m1
                     | Some process \<Rightarrow>
                         start_pty_session deps inputs clock metadata launch_spec effective_env process m1))))"


section \<open>Log sessions\<close>

definition log_snapshot :: "SessionMetadata \<Rightarrow> SessionSnapshot" where
  "log_snapshot metadata =
     \<lparr>sn_metadata = metadata, sn_current_sequence = 0, sn_recent_terminal_tail = [], sn_terminal_screen = None,
      sn_signals = SessionSignals_default, sn_node_summary = SessionNodeSummary_default,
      sn_recent_file_changes = [], sn_git_summary = GitSummary_default\<rparr>"

definition new_log_entry ::
    "SessionMetadata \<Rightarrow> LogBufferLimits \<Rightarrow> unix_ms \<Rightarrow> EffectiveEnvironment option \<Rightarrow> ('p, 'vt, 'l) SessionEntry" where
  "new_log_entry metadata limits now_ms effective_environment =
     (SessionEntry_default (md_id metadata))
       \<lparr>me_category := CategoryManagedLog,
        me_log_buffer := Some (LogBuffer_new \<lparr>es_kind = ManagedLogSession, es_session_id = md_id metadata\<rparr> limits),
        me_recovered_snapshot := Some (log_snapshot metadata), me_controller_kind := ControllerHost,
        me_created_at := Some now_ms, me_last_status_at := Some now_ms, me_last_activity_at := Some now_ms,
        me_last_observed_status := Running, me_effective_environment := effective_environment\<rparr>"

text \<open>What \<open>CreateLogSession\<close> launches: nothing without a command.\<close>

definition log_launch ::
    "'p CreateInputs \<Rightarrow> LogSessionCreateRequest \<Rightarrow> BootstrappedEnvCache
       \<Rightarrow> (string + (LaunchSpec \<times> EffectiveEnvironment) option) \<times> BootstrappedEnvCache" where
  "log_launch inputs request cache =
     (if lc_command_shell request = None \<and> lc_command_argv request = None then (Inr None, cache)
      else if lc_command_shell request = Some [] then (Inl ''shell command must not be empty'', cache)
      else if (case lc_command_argv request of None \<Rightarrow> False | Some argv \<Rightarrow> argv = [] \<or> hd argv = []) then
        (Inl ''command argv must not be empty'', cache)
      else
        let host_identity = (case ci_host_identity inputs of Some h \<Rightarrow> h | None \<Rightarrow> MakeDefaultHostIdentity);
            mode = (case lc_env_mode request of Some md \<Rightarrow> md | None \<Rightarrow> Shell);
            (env_result, cache1) =
              ResolveEnvironment (ci_getenv inputs) (ci_read_file inputs) (ci_run_shell inputs)
                (ci_steady_now inputs)
                \<lparr>ec_mode = mode, ec_overrides = lc_environment_overrides request,
                 ec_env_file_path = lc_env_file_path request\<rparr>
                (lc_workspace_root request) host_identity
                (pc_environment_overrides (DefaultProviderConfig Codex)) cache
        in
        (case env_result of
           Inl err \<Rightarrow> (Inl (''environment resolution failed: '' @ err), cache1)
         | Inr env \<Rightarrow>
             let (executable, arguments) =
                   (case lc_command_shell request of
                      Some command \<Rightarrow> (''/bin/sh'', [''-c'', command])
                    | None \<Rightarrow> (hd (the (lc_command_argv request)), tl (the (lc_command_argv request))))
             in (Inr (Some (\<lparr>ls_provider = Codex, ls_executable = executable, ls_arguments = arguments,
                             ls_effective_environment = env, ls_working_directory = lc_workspace_root request,
                             ls_terminal_size = TerminalSize_default\<rparr>, env)), cache1)))"

text \<open>The output of the process arrives later, through \<open>AppendLogStdout\<close> and \<open>AppendLogStderr\<close>.\<close>

definition CreateLogSession ::
    "('p, 'vt, 'l, 's) ManagerDeps \<Rightarrow> 'p CreateInputs \<Rightarrow> (nat \<Rightarrow> unix_ms) \<Rightarrow> LogSessionCreateRequest
       \<Rightarrow> ('p, 'vt, 'l, 's) SessionManager \<Rightarrow> SessionSummary option \<times> ('p, 'vt, 'l, 's) SessionManager" where
  "CreateLogSession deps inputs clock request m =
     (let m0 = m\<lparr>sm_last_create_error_message := [], sm_last_create_error_session_id := None\<rparr> in
      case MakeSessionId (ci_draws inputs) m0 of
        None \<Rightarrow> (None, m0\<lparr>sm_last_create_error_message := ''failed to allocate session id''\<rparr>)
      | Some session_id \<Rightarrow>
          let metadata =
                \<lparr>md_id = session_id, md_provider = Codex, md_workspace_root = lc_workspace_root request,
                 md_title = lc_title request, md_status = Running, md_conversation_id = None,
                 md_group_tags = NormalizeGroupTags (lc_group_tags request)\<rparr>;
              (launch, cache1) = log_launch inputs request (sm_env_cache m0);
              m1 = m0\<lparr>sm_env_cache := cache1\<rparr>
          in
          (case launch of
             Inl message \<Rightarrow> (None, m1\<lparr>sm_last_create_error_message := message\<rparr>)
           | Inr None \<Rightarrow>
               let entry = MaybeTraceNodeSummaryTransition (clock 1)
                     (new_log_entry metadata (lc_buffer_limits request) (clock 0) None)
               in (Some (BuildSummary (clock 2) entry), m1\<lparr>sm_sessions := sm_sessions m1 @ [entry]\<rparr>)
           | Inr (Some (launch_spec, env)) \<Rightarrow>
               let (result, process) = lp_Start (dp_log deps) launch_spec in
               if \<not> st_started result then
                 (None, m1\<lparr>sm_last_create_error_message :=
                             (if st_error_message result = [] then ''failed to start log process''
                              else st_error_message result)\<rparr>)
               else
                 let entry = MaybeTraceNodeSummaryTransition (clock 1)
                       ((new_log_entry metadata (lc_buffer_limits request) (clock 0) (Some env))
                          \<lparr>me_log_process := Some process\<rparr>)
                 in (Some (BuildSummary (clock 2) entry), m1\<lparr>sm_sessions := sm_sessions m1 @ [entry]\<rparr>)))"

definition append_log ::
    "LogStream \<Rightarrow> string \<Rightarrow> string \<Rightarrow> unix_ms \<Rightarrow> ('p, 'vt, 'l, 's) SessionManager
       \<Rightarrow> bool \<times> ('p, 'vt, 'l, 's) SessionManager" where
  "append_log stream session_id data timestamp m =
     (case FindEntry session_id m of
        None \<Rightarrow> (False, m)
      | Some e \<Rightarrow>
          (case me_log_buffer e of
             None \<Rightarrow> (False, m)
           | Some buffer \<Rightarrow>
               let buffer1 = lb_Append stream data timestamp buffer
               in (True, set_entry_state
                     (e\<lparr>me_log_buffer := Some buffer1,
                        me_recovered_snapshot :=
                          map_option (\<lambda>s. s\<lparr>sn_current_sequence := bs_latest_revision (lb_stats buffer1)\<rparr>)
                            (me_recovered_snapshot e),
                        me_last_raw_output_at := Some timestamp,
                        me_last_meaningful_output_at := Some timestamp,
                        me_last_output_at := Some timestamp, me_last_activity_at := Some timestamp\<rparr>) m)))"

definition AppendLogStdout ::
    "string \<Rightarrow> string \<Rightarrow> unix_ms \<Rightarrow> ('p, 'vt, 'l, 's) SessionManager \<Rightarrow> bool \<times> ('p, 'vt, 'l, 's) SessionManager" where
  "AppendLogStdout = append_log Stdout"

definition AppendLogStderr ::
    "string \<Rightarrow> string \<Rightarrow> unix_ms \<Rightarrow> ('p, 'vt, 'l, 's) SessionManager \<Rightarrow> bool \<times> ('p, 'vt, 'l, 's) SessionManager" where
  "AppendLogStderr = append_log Stderr"

section \<open>Recovery\<close>

definition recovered_snapshot_of :: "SessionId \<Rightarrow> PersistedSessionRecord \<Rightarrow> SessionSnapshot" where
  "recovered_snapshot_of session_id persisted =
     \<lparr>sn_metadata =
        \<lparr>md_id = session_id, md_provider = pr_provider persisted,
         md_workspace_root = pr_workspace_root persisted, md_title = pr_title persisted,
         md_status = NormalizeRecoveredStatus (pr_status persisted),
         md_conversation_id = pr_conversation_id persisted,
         md_group_tags = NormalizeGroupTags (pr_group_tags persisted)\<rparr>,
      sn_current_sequence = pr_current_sequence persisted,
      sn_recent_terminal_tail = pr_recent_terminal_tail persisted, sn_terminal_screen = None,
      sn_signals = SessionSignals_default\<lparr>sg_current_sequence := pr_current_sequence persisted\<rparr>,
      sn_node_summary = SessionNodeSummary_default
        \<lparr>ns_session_id := pr_session_id persisted,
         ns_lifecycle_status := NormalizeRecoveredStatus (pr_status persisted)\<rparr>,
      sn_recent_file_changes = [], sn_git_summary = GitSummary_default\<rparr>"

definition recovered_entry :: "SessionId \<Rightarrow> PersistedSessionRecord \<Rightarrow> ('p, 'vt, 'l) SessionEntry" where
  "recovered_entry session_id persisted =
     (let snapshot = recovered_snapshot_of session_id persisted in
      (SessionEntry_default session_id)
        \<lparr>me_recovered_snapshot := Some snapshot, me_controller_kind := ControllerHost, me_is_recovered := True,
         me_current_terminal_size := DefaultTerminalSizeForMetadata (sn_metadata snapshot),
         me_last_observed_status := md_status (sn_metadata snapshot),
         me_last_observed_sequence := pr_current_sequence persisted\<rparr>)"

fun load_persisted_loop ::
    "(nat \<Rightarrow> unix_ms) \<Rightarrow> nat \<Rightarrow> PersistedSessionRecord list \<Rightarrow> ('p, 'vt, 'l, 's) SessionManager
       \<Rightarrow> nat \<times> ('p, 'vt, 'l, 's) SessionManager" where
  "load_persisted_loop clock loaded_count [] m = (loaded_count, m)"
| "load_persisted_loop clock loaded_count (persisted # rest) m =
     (if FindEntry (pr_session_id persisted) m \<noteq> None then load_persisted_loop clock loaded_count rest m
      else
        case TryCreate (pr_session_id persisted) of
          None \<Rightarrow> load_persisted_loop clock loaded_count rest m
        | Some session_id \<Rightarrow>
            load_persisted_loop clock (loaded_count + 1) rest
              (m\<lparr>sm_sessions := sm_sessions m
                   @ [MaybeTraceNodeSummaryTransition (clock loaded_count) (recovered_entry session_id persisted)]\<rparr>))"

definition LoadPersistedSessions ::
    "('p, 'vt, 'l, 's) ManagerDeps \<Rightarrow> (nat \<Rightarrow> unix_ms) \<Rightarrow> ('p, 'vt, 'l, 's) SessionManager
       \<Rightarrow> nat \<times> ('p, 'vt, 'l, 's) SessionManager" where
  "LoadPersistedSessions deps clock m =
     (case dp_store deps of
        None \<Rightarrow> (0, m)
      | Some store \<Rightarrow> load_persisted_loop clock 0 (ss_LoadSessions store (sm_store m)) m)"

section \<open>Queries\<close>

definition ListSessions :: "unix_ms \<Rightarrow> ('p, 'vt, 'l, 's) SessionManager \<Rightarrow> SessionSummary list" where
  "ListSessions now_ms m = map (BuildSummary now_ms) (sm_sessions m)"

definition GetSession :: "unix_ms \<Rightarrow> string \<Rightarrow> ('p, 'vt, 'l, 's) SessionManager \<Rightarrow> SessionSummary option" where
  "GetSession now_ms session_id m = map_option (BuildSummary now_ms) (FindEntry session_id m)"

definition published_snapshot :: "unix_ms \<Rightarrow> ('p, 'vt, 'l) SessionEntry \<Rightarrow> SessionSnapshot" where
  "published_snapshot now_ms e =
     (let snapshot = the (entry_snapshot e);
          assessment = entry_assessment now_ms snapshot e;
          signals =
            \<lparr>sg_last_raw_output_at_unix_ms = me_last_raw_output_at e,
             sg_last_meaningful_output_at_unix_ms = me_last_meaningful_output_at e,
             sg_last_output_at_unix_ms = me_last_output_at e, sg_last_activity_at_unix_ms = me_last_activity_at e,
             sg_last_file_change_at_unix_ms = me_last_file_change_at e,
             sg_last_git_change_at_unix_ms = me_last_git_change_at e,
             sg_last_controller_change_at_unix_ms = me_last_controller_change_at e,
             sg_attention_since_unix_ms = aa_since_unix_ms (sa_attention assessment),
             sg_pty_columns = Some (ts_columns (me_current_terminal_size e)),
             sg_pty_rows = Some (ts_rows (me_current_terminal_size e)),
             sg_current_sequence = sn_current_sequence snapshot,
             sg_recent_file_change_count = length (sn_recent_file_changes snapshot),
             sg_supervision_state = sa_supervision_state assessment,
             sg_attention_state = aa_state (sa_attention assessment),
             sg_attention_reason = aa_reason (sa_attention assessment),
             sg_interaction_kind = sa_interaction_kind assessment,
             sg_terminal_semantic_change = sg_terminal_semantic_change (sn_signals snapshot),
             sg_git_dirty = IsGitDirty (sn_git_summary snapshot),
             sg_git_branch = gs_branch (sn_git_summary snapshot),
             sg_git_modified_count = GitModifiedCount (sn_git_summary snapshot),
             sg_git_staged_count = GitStagedCount (sn_git_summary snapshot),
             sg_git_untracked_count = GitUntrackedCount (sn_git_summary snapshot),
             sg_mode = BuildModeSummary (md_status (sn_metadata snapshot)) assessment,
             sg_attention = BuildAttentionSummary (sa_attention assessment)\<rparr>
      in snapshot\<lparr>sn_signals := signals,
                  sn_node_summary := BuildNodeSummary snapshot signals (aa_summary (sa_attention assessment))\<rparr>)"

definition GetSnapshot :: "unix_ms \<Rightarrow> string \<Rightarrow> ('p, 'vt, 'l, 's) SessionManager \<Rightarrow> SessionSnapshot option" where
  "GetSnapshot now_ms session_id m = map_option (published_snapshot now_ms) (FindEntry session_id m)"

definition entry_slice ::
    "(SessionOutputBuffer \<Rightarrow> OutputSlice) \<Rightarrow> (SessionSnapshot \<Rightarrow> OutputSlice) \<Rightarrow> string
       \<Rightarrow> ('p, 'vt, 'l, 's) SessionManager \<Rightarrow> OutputSlice option" where
  "entry_slice of_buffer of_snapshot session_id m =
     (case FindEntry session_id m of
        None \<Rightarrow> None
      | Some e \<Rightarrow>
          (case me_runtime e of
             Some rt \<Rightarrow> Some (of_buffer (rt_output_buffer rt))
           | None \<Rightarrow> map_option of_snapshot (me_recovered_snapshot e)))"

definition GetTail :: "string \<Rightarrow> nat \<Rightarrow> ('p, 'vt, 'l, 's) SessionManager \<Rightarrow> OutputSlice option" where
  "GetTail session_id bytes = entry_slice (ob_Tail bytes) (\<lambda>s. MakeRecoveredTailSlice s bytes) session_id"

definition GetOutputSince :: "string \<Rightarrow> u64 \<Rightarrow> ('p, 'vt, 'l, 's) SessionManager \<Rightarrow> OutputSlice option" where
  "GetOutputSince session_id seq =
     entry_slice (ob_SliceFromSequence seq) (\<lambda>s. MakeRecoveredOutputSlice s seq) session_id"

definition GetSessionEnv :: "string \<Rightarrow> ('p, 'vt, 'l, 's) SessionManager \<Rightarrow> EffectiveEnvironment option" where
  "GetSessionEnv session_id m = Option.bind (FindEntry session_id m) me_effective_environment"

definition GetViewportSnapshot ::
    "('p, 'vt, 'l, 's) ManagerDeps \<Rightarrow> string \<Rightarrow> string \<Rightarrow> ('p, 'vt, 'l, 's) SessionManager
       \<Rightarrow> TerminalViewportSnapshot option" where
  "GetViewportSnapshot deps session_id view_id m =
     (case FindEntry session_id m of
        None \<Rightarrow> None
      | Some e \<Rightarrow>
          if view_id = [] then None
          else Option.bind (me_runtime e) (\<lambda>rt. ViewportSnapshot (dp_vterm deps) view_id (rt_multiplexer rt)))"


section \<open>Evidence\<close>

definition log_source :: "('p, 'vt, 'l) SessionEntry \<Rightarrow> EvidenceSourceRef" where
  "log_source e = \<lparr>es_kind = ManagedLogSession, es_session_id = me_id e\<rparr>"

definition find_log ::
    "string \<Rightarrow> ('p, 'vt, 'l, 's) SessionManager \<Rightarrow> (('p, 'vt, 'l) SessionEntry \<times> LogBuffer) option" where
  "find_log session_id m =
     (case FindEntry session_id m of
        None \<Rightarrow> None | Some e \<Rightarrow> map_option (\<lambda>buffer. (e, buffer)) (me_log_buffer e))"

definition TailEvidence :: "string \<Rightarrow> nat \<Rightarrow> ('p, 'vt, 'l, 's) SessionManager \<Rightarrow> EvidenceResult option" where
  "TailEvidence session_id lines m =
     map_option (\<lambda>(e, buffer).
       MakeEvidenceResultFromEntries (log_source e) OpTail [] (lb_Tail lines True buffer) (lb_stats buffer))
     (find_log session_id m)"

definition RangeEvidence ::
    "string \<Rightarrow> u64 \<Rightarrow> u64 \<Rightarrow> nat \<Rightarrow> ('p, 'vt, 'l, 's) SessionManager \<Rightarrow> EvidenceResult option" where
  "RangeEvidence session_id revision_start revision_end limit m =
     map_option (\<lambda>(e, buffer).
       let stats = lb_stats buffer in
       (MakeEvidenceResultFromEntries (log_source e) OpRange []
          (lb_Range revision_start revision_end limit buffer) stats)
         \<lparr>er_truncated := revision_start < bs_oldest_revision stats \<and> bs_dropped_entries stats > 0\<rparr>)
     (find_log session_id m)"

definition SearchEvidence :: "string \<Rightarrow> string \<Rightarrow> nat \<Rightarrow> ('p, 'vt, 'l, 's) SessionManager \<Rightarrow> EvidenceResult option" where
  "SearchEvidence session_id query limit m =
     map_option (\<lambda>(e, buffer).
       let search = lb_Search query limit buffer in
       (MakeEvidenceResultFromEntries (log_source e) OpSearch query (sr_entries search) (lb_stats buffer))
         \<lparr>er_highlights := sr_highlights search, er_truncated := sr_truncated search\<rparr>)
     (find_log session_id m)"

text \<open>The inner \<open>None\<close> is the exception that \<open>Context\<close> throws on a wrapped range.\<close>

definition ContextEvidence ::
    "string \<Rightarrow> u64 \<Rightarrow> nat \<Rightarrow> nat \<Rightarrow> ('p, 'vt, 'l, 's) SessionManager \<Rightarrow> EvidenceResult option option" where
  "ContextEvidence session_id revision before after m =
     map_option (\<lambda>(e, buffer).
       if \<not> ContainsRevision revision buffer
       then Some (MakeBufferExhaustedEvidenceResult (log_source e) OpContext (lb_stats buffer))
       else map_option (\<lambda>entries. MakeEvidenceResultFromEntries (log_source e) OpContext [] entries (lb_stats buffer))
              (lb_Context revision before after buffer))
     (find_log session_id m)"

section \<open>Reading workspace files\<close>

text \<open>The calls of \<open>std::filesystem\<close> and of the input stream: \<open>None\<close> is an error. Opening a file gives
  the function that reads a number of bytes from its beginning.\<close>

record FileView =
  fv_absolute :: "string \<Rightarrow> path"
  fv_weakly_canonical :: "path \<Rightarrow> path option"
  fv_exists :: "path \<Rightarrow> bool"
  fv_is_directory :: "path \<Rightarrow> bool"
  fv_is_regular_file :: "path \<Rightarrow> bool"
  fv_file_size :: "path \<Rightarrow> nat option"
  fv_open :: "path \<Rightarrow> (nat \<Rightarrow> string option) option"

text \<open>The components of a relative path: repeated separators count once, a final one leaves an empty component.\<close>

fun split_slash :: "string \<Rightarrow> path" where
  "split_slash [] = [[]]"
| "split_slash (c # cs) =
     (if c = CHR ''/'' then [] # split_slash cs
      else case split_slash cs of [] \<Rightarrow> [[c]] | w # ws \<Rightarrow> (c # w) # ws)"

definition path_components :: "string \<Rightarrow> path" where
  "path_components s = filter (\<lambda>w. w \<noteq> []) (butlast (split_slash s)) @ [last (split_slash s)]"

definition read_failure :: "FileReadStatus \<Rightarrow> SessionFileReadResult" where
  "read_failure status =
     \<lparr>fr_status = status, fr_workspace_path = [], fr_content = [], fr_size_bytes = 0, fr_truncated = False\<rparr>"

definition read_resolved :: "FileView \<Rightarrow> string \<Rightarrow> path \<Rightarrow> nat \<Rightarrow> SessionFileReadResult" where
  "read_resolved fv workspace_path resolved max_bytes =
     (if \<not> fv_exists fv resolved then read_failure ReadNotFound
      else if \<not> fv_is_regular_file fv resolved then read_failure ReadNotRegularFile
      else
        case fv_file_size fv resolved of
          None \<Rightarrow> read_failure ReadIoError
        | Some file_size \<Rightarrow>
            (case fv_open fv resolved of
               None \<Rightarrow> read_failure ReadIoError
             | Some reader \<Rightarrow>
                 let bytes_to_read = min file_size max_bytes in
                 (case (if bytes_to_read > 0 then reader bytes_to_read else Some []) of
                    None \<Rightarrow> read_failure ReadIoError
                  | Some content \<Rightarrow>
                      \<lparr>fr_status = ReadOk, fr_workspace_path = workspace_path, fr_content = content,
                       fr_size_bytes = file_size, fr_truncated = (file_size > max_bytes)\<rparr>)))"

definition ReadSessionFile ::
    "FileView \<Rightarrow> string \<Rightarrow> string \<Rightarrow> nat \<Rightarrow> ('p, 'vt, 'l, 's) SessionManager \<Rightarrow> SessionFileReadResult" where
  "ReadSessionFile fv session_id workspace_path max_bytes m =
     (case FindEntry session_id m of
        None \<Rightarrow> read_failure ReadSessionNotFound
      | Some e \<Rightarrow>
          let components = path_components workspace_path in
          if workspace_path = [] \<or> hd workspace_path = CHR ''/'' \<or> ContainsParentTraversal components
          then read_failure ReadInvalidPath
          else
            (case fv_weakly_canonical fv
                    (fv_absolute fv (md_workspace_root (sn_metadata (the (entry_snapshot e))))) of
               None \<Rightarrow> read_failure ReadWorkspaceUnavailable
             | Some workspace_root \<Rightarrow>
                 if workspace_root = [] \<or> \<not> fv_exists fv workspace_root \<or> \<not> fv_is_directory fv workspace_root
                 then read_failure ReadWorkspaceUnavailable
                 else
                   (case fv_weakly_canonical fv (workspace_root @ components) of
                      None \<Rightarrow> read_failure ReadNotFound
                    | Some resolved \<Rightarrow>
                        if \<not> IsPathWithinRoot workspace_root resolved then read_failure ReadInvalidPath
                        else read_resolved fv workspace_path resolved max_bytes)))"

section \<open>Input, size and tags\<close>

definition SendInput ::
    "('p, 'vt, 'l, 's) ManagerDeps \<Rightarrow> string \<Rightarrow> string \<Rightarrow> ('p, 'vt, 'l, 's) SessionManager
       \<Rightarrow> bool \<times> ('p, 'vt, 'l, 's) SessionManager" where
  "SendInput deps session_id input m =
     (case FindEntry session_id m of
        None \<Rightarrow> (False, m)
      | Some e \<Rightarrow>
          (case me_runtime e of
             None \<Rightarrow> (False, m)
           | Some rt \<Rightarrow>
               let filtered_input = fst (FilterTerminalColorReports input) in
               if filtered_input = [] then (True, m)
               else
                 let (wrote, rt1) = rt_WriteInput (dp_pty deps) filtered_input rt
                 in (wrote, set_entry_state (e\<lparr>me_runtime := Some rt1\<rparr>) m)))"

definition UpdateSessionGroupTags ::
    "('p, 'vt, 'l, 's) ManagerDeps \<Rightarrow> (nat \<Rightarrow> unix_ms) \<Rightarrow> string \<Rightarrow> SessionGroupTagsUpdateMode \<Rightarrow> string list
       \<Rightarrow> ('p, 'vt, 'l, 's) SessionManager \<Rightarrow> SessionSummary option \<times> ('p, 'vt, 'l, 's) SessionManager" where
  "UpdateSessionGroupTags deps clock session_id mode tags m =
     (case FindEntry session_id m of
        None \<Rightarrow> (None, m)
      | Some e \<Rightarrow>
          let e1 = (case me_runtime e of
                Some rt \<Rightarrow>
                  e\<lparr>me_runtime := Some (rt_UpdateGroupTags
                      (ApplyGroupTagMutation (md_group_tags (sn_metadata (sr_snapshot (rt_record rt)))) mode tags) rt)\<rparr>
              | None \<Rightarrow>
                  e\<lparr>me_recovered_snapshot := map_option (\<lambda>s. s\<lparr>sn_metadata := (sn_metadata s)
                      \<lparr>md_group_tags := ApplyGroupTagMutation (md_group_tags (sn_metadata s)) mode tags\<rparr>\<rparr>)
                    (me_recovered_snapshot e)\<rparr>);
              e2 = MaybeTraceNodeSummaryTransition (clock 0) e1
          in (Some (BuildSummary (clock 1) e2), set_entry_state e2 (PersistEntry deps e1 m)))"

definition ResizeSession ::
    "('p, 'vt, 'l, 's) ManagerDeps \<Rightarrow> string \<Rightarrow> TerminalSize \<Rightarrow> ('p, 'vt, 'l, 's) SessionManager
       \<Rightarrow> bool \<times> ('p, 'vt, 'l, 's) SessionManager" where
  "ResizeSession deps session_id terminal_size m =
     (case FindEntry session_id m of
        None \<Rightarrow> (False, m)
      | Some e \<Rightarrow>
          (case me_runtime e of
             None \<Rightarrow> (False, m)
           | Some rt \<Rightarrow>
               let (resized, rt1) = rt_ResizeTerminal (dp_vterm deps) (dp_pty deps) terminal_size rt;
                   e1 = e\<lparr>me_runtime := Some rt1\<rparr>
               in (resized, set_entry_state
                     (if resized then e1\<lparr>me_current_terminal_size := terminal_size\<rparr> else e1) m)))"

definition UpdateViewport ::
    "string \<Rightarrow> string \<Rightarrow> TerminalSize \<Rightarrow> ('p, 'vt, 'l, 's) SessionManager \<Rightarrow> bool \<times> ('p, 'vt, 'l, 's) SessionManager" where
  "UpdateViewport session_id view_id viewport_size m =
     (case FindEntry session_id m of
        None \<Rightarrow> (False, m)
      | Some e \<Rightarrow>
          (case me_runtime e of
             None \<Rightarrow> (False, m)
           | Some rt \<Rightarrow>
               if view_id = [] then (False, m)
               else (True, set_entry_state (e\<lparr>me_runtime := Some (rt_UpdateViewport view_id viewport_size rt)\<rparr>) m)))"

definition RemoveViewport ::
    "string \<Rightarrow> string \<Rightarrow> ('p, 'vt, 'l, 's) SessionManager \<Rightarrow> ('p, 'vt, 'l, 's) SessionManager" where
  "RemoveViewport session_id view_id m =
     (case FindEntry session_id m of
        None \<Rightarrow> m
      | Some e \<Rightarrow>
          (case me_runtime e of
             None \<Rightarrow> m
           | Some rt \<Rightarrow>
               if view_id = [] then m
               else set_entry_state (e\<lparr>me_runtime := Some (rt_RemoveViewport view_id rt)\<rparr>) m))"

section \<open>Control\<close>

definition take_control ::
    "(nat \<Rightarrow> unix_ms) \<Rightarrow> string \<Rightarrow> ControllerKind \<Rightarrow> ('p, 'vt, 'l) SessionEntry \<Rightarrow> ('p, 'vt, 'l) SessionEntry" where
  "take_control clock client_id kind e =
     MaybeTraceNodeSummaryTransition (clock 1)
       (e\<lparr>me_controller_client_id := Some client_id, me_controller_kind := kind,
          me_last_activity_at := Some (clock 0), me_last_controller_change_at := Some (clock 0)\<rparr>)"

definition RequestControl ::
    "(nat \<Rightarrow> unix_ms) \<Rightarrow> string \<Rightarrow> string \<Rightarrow> ControllerKind \<Rightarrow> ('p, 'vt, 'l, 's) SessionManager
       \<Rightarrow> bool \<times> ('p, 'vt, 'l, 's) SessionManager" where
  "RequestControl clock session_id client_id kind m =
     (case FindEntry session_id m of
        None \<Rightarrow> (False, m)
      | Some e \<Rightarrow>
          if \<not> IsInteractiveStatus (su_status (BuildSummary (clock 0) e)) \<or> kind = ControllerNone then (False, m)
          else if me_controller_kind e = ControllerHost \<or> me_controller_kind e = ControllerNone then
            (True, set_entry_state (take_control (\<lambda>i. clock (i + 1)) client_id kind e) m)
          else if me_controller_kind e = ControllerRemote \<and> kind = ControllerHost then
            (True, set_entry_state (take_control (\<lambda>i. clock (i + 1)) client_id kind e) m)
          else (the (me_controller_client_id e) = client_id, m))"

definition ReleaseControl ::
    "(nat \<Rightarrow> unix_ms) \<Rightarrow> string \<Rightarrow> string \<Rightarrow> ('p, 'vt, 'l, 's) SessionManager
       \<Rightarrow> bool \<times> ('p, 'vt, 'l, 's) SessionManager" where
  "ReleaseControl clock session_id client_id m =
     (case FindEntry session_id m of
        None \<Rightarrow> (False, m)
      | Some e \<Rightarrow>
          if me_controller_kind e = ControllerNone then (True, m)
          else
            (case me_controller_client_id e of
               None \<Rightarrow> (me_controller_kind e = ControllerHost, m)
             | Some i \<Rightarrow>
                 if i \<noteq> client_id then (False, m)
                 else (True, set_entry_state (MaybeTraceNodeSummaryTransition (clock 1)
                        (e\<lparr>me_controller_client_id := None, me_controller_kind := ControllerHost,
                           me_last_activity_at := Some (clock 0),
                           me_last_controller_change_at := Some (clock 0)\<rparr>)) m)))"

definition HasControl :: "string \<Rightarrow> string \<Rightarrow> ('p, 'vt, 'l, 's) SessionManager \<Rightarrow> bool" where
  "HasControl session_id client_id m =
     (case FindEntry session_id m of
        None \<Rightarrow> False
      | Some e \<Rightarrow> me_controller_client_id e = Some client_id \<and> me_controller_kind e \<noteq> ControllerNone)"

definition HasPrivilegedController :: "string \<Rightarrow> ('p, 'vt, 'l, 's) SessionManager \<Rightarrow> bool" where
  "HasPrivilegedController session_id m =
     (case FindEntry session_id m of
        None \<Rightarrow> False
      | Some e \<Rightarrow> me_controller_kind e \<noteq> ControllerNone
                  \<and> IsPrivilegedControllerClientId (me_controller_client_id e))"


section \<open>Stopping\<close>

definition end_log_session ::
    "unix_ms \<Rightarrow> SessionStatus \<Rightarrow> ('p, 'vt, 'l) SessionEntry \<Rightarrow> ('p, 'vt, 'l) SessionEntry" where
  "end_log_session now_ms status e =
     e\<lparr>me_recovered_snapshot :=
         map_option (\<lambda>s. s\<lparr>sn_metadata := (sn_metadata s)\<lparr>md_status := status\<rparr>\<rparr>) (me_recovered_snapshot e),
       me_last_status_at := Some now_ms, me_last_activity_at := Some now_ms, me_last_observed_status := status\<rparr>"

definition observe_status ::
    "unix_ms \<Rightarrow> ('p, 'vt) SessionRuntime \<Rightarrow> ('p, 'vt, 'l) SessionEntry \<Rightarrow> ('p, 'vt, 'l) SessionEntry" where
  "observe_status now_ms rt e =
     (if sr_status (rt_record rt) \<noteq> me_last_observed_status e then
        e\<lparr>me_last_status_at := Some now_ms, me_last_activity_at := Some now_ms,
          me_last_observed_status := sr_status (rt_record rt)\<rparr>
      else e)"

definition StopSession ::
    "('p, 'vt, 'l, 's) ManagerDeps \<Rightarrow> (nat \<Rightarrow> unix_ms) \<Rightarrow> string \<Rightarrow> ('p, 'vt, 'l, 's) SessionManager
       \<Rightarrow> bool \<times> ('p, 'vt, 'l, 's) SessionManager" where
  "StopSession deps clock session_id m =
     (case FindEntry session_id m of
        None \<Rightarrow> (False, m)
      | Some e \<Rightarrow>
          let status = su_status (BuildSummary (clock 0) e) in
          if status = Exited \<or> status = Error then
            let e1 = ResetControllerState e in (True, set_entry_state e1 (PersistEntry deps e1 m))
          else
            (case me_log_process e of
               Some process \<Rightarrow>
                 let (stopped, process1) = lp_Terminate (dp_log deps) process;
                     e1 = e\<lparr>me_log_process := Some process1\<rparr>
                 in
                 if stopped \<and> me_recovered_snapshot e \<noteq> None then
                   let e2 = ResetControllerState (end_log_session (clock 1) Exited e1) in
                   (stopped, set_entry_state (MaybeTraceNodeSummaryTransition (clock 2) e2) (PersistEntry deps e2 m))
                 else (stopped, set_entry_state e1 m)
             | None \<Rightarrow>
                 (case me_runtime e of
                    None \<Rightarrow> (False, m)
                  | Some rt \<Rightarrow>
                      let (stopped, rt1) = rt_Shutdown (dp_pty deps) rt;
                          e1 = e\<lparr>me_runtime := Some rt1\<rparr>
                      in
                      if stopped then
                        let e2 = ResetControllerState (observe_status (clock 1) rt1 e1) in
                        (stopped, set_entry_state (MaybeTraceNodeSummaryTransition (clock 2) e2) (PersistEntry deps e2 m))
                      else (stopped, set_entry_state e1 m))))"

fun clear_loop ::
    "('p, 'vt, 'l, 's) ManagerDeps \<Rightarrow> (nat \<Rightarrow> unix_ms) \<Rightarrow> nat \<Rightarrow> ('p, 'vt, 'l) SessionEntry list \<Rightarrow> 's
       \<Rightarrow> nat \<times> ('p, 'vt, 'l) SessionEntry list \<times> 's" where
  "clear_loop deps clock i [] st = (0, [], st)"
| "clear_loop deps clock i (e # es) st =
     (let summary = BuildSummary (clock i) e in
      if su_is_active summary then
        let (removed_count, kept, st1) = clear_loop deps clock (i + 1) es st in (removed_count, e # kept, st1)
      else
        let st1 = (case dp_store deps of
                     None \<Rightarrow> st | Some store \<Rightarrow> snd (ss_RemoveSessionRecord store (sid_value (su_id summary)) st));
            (removed_count, kept, st2) = clear_loop deps clock (i + 1) es st1
        in (removed_count + 1, kept, st2))"

definition ClearInactiveSessions ::
    "('p, 'vt, 'l, 's) ManagerDeps \<Rightarrow> (nat \<Rightarrow> unix_ms) \<Rightarrow> ('p, 'vt, 'l, 's) SessionManager
       \<Rightarrow> nat \<times> ('p, 'vt, 'l, 's) SessionManager" where
  "ClearInactiveSessions deps clock m =
     (let (removed_count, kept, st) = clear_loop deps clock 0 (sm_sessions m) (sm_store m)
      in (removed_count, m\<lparr>sm_sessions := kept, sm_store := st\<rparr>))"

text \<open>One round of the loop of \<open>Shutdown\<close>: the runtime, then the log process, then the controller. The
  components of the result are the number of sessions ended, whether the entry has to be persisted,
  and the entry.\<close>

definition shutdown_log_process ::
    "('p, 'vt, 'l, 's) ManagerDeps \<Rightarrow> unix_ms \<Rightarrow> ('p, 'vt, 'l) SessionEntry
       \<Rightarrow> nat \<times> bool \<times> ('p, 'vt, 'l) SessionEntry" where
  "shutdown_log_process deps now_ms e =
     (case (me_log_process e, me_recovered_snapshot e) of
        (Some process, Some snapshot) \<Rightarrow>
          let (shutdown, process1) = lp_Terminate (dp_log deps) process;
              e1 = e\<lparr>me_log_process := Some process1\<rparr>
          in
          if shutdown \<and> md_status (sn_metadata snapshot) \<in> {Running, AwaitingInput, Starting, Created}
          then (1, True, end_log_session now_ms Exited e1)
          else (0, False, e1)
      | _ \<Rightarrow> (0, False, e))"

definition shutdown_controller :: "('p, 'vt, 'l) SessionEntry \<Rightarrow> bool \<times> ('p, 'vt, 'l) SessionEntry" where
  "shutdown_controller e =
     (if me_controller_client_id e \<noteq> None \<or> me_controller_kind e \<noteq> ControllerHost
      then (True, ResetControllerState e) else (False, e))"

definition shutdown_rest ::
    "('p, 'vt, 'l, 's) ManagerDeps \<Rightarrow> unix_ms \<Rightarrow> nat \<Rightarrow> bool \<Rightarrow> ('p, 'vt, 'l) SessionEntry \<Rightarrow> 's
       \<Rightarrow> nat \<times> ('p, 'vt, 'l) SessionEntry \<times> 's" where
  "shutdown_rest deps now_ms ended changed e st =
     (let (ended1, changed1, e1) = shutdown_log_process deps now_ms e;
          (changed2, e2) = shutdown_controller e1
      in (ended + ended1, e2, if changed \<or> changed1 \<or> changed2 then persist_store deps e2 st else st))"

definition shutdown_entry ::
    "('p, 'vt, 'l, 's) ManagerDeps \<Rightarrow> (nat \<Rightarrow> unix_ms) \<Rightarrow> ('p, 'vt, 'l) SessionEntry \<Rightarrow> 's
       \<Rightarrow> nat \<times> ('p, 'vt, 'l) SessionEntry \<times> 's" where
  "shutdown_entry deps clock e st =
     (case me_runtime e of
        None \<Rightarrow> shutdown_rest deps (clock 1) 0 False e st
      | Some rt \<Rightarrow>
          let previous_status = sr_status (rt_record rt);
              (shutdown, rt1) = rt_Shutdown (dp_pty deps) rt;
              e1 = e\<lparr>me_runtime := Some rt1\<rparr>
          in
          if \<not> shutdown then (0, e1, st)
          else if previous_status \<noteq> sr_status (rt_record rt1) \<or> previous_status = Running
            \<or> previous_status = AwaitingInput then
            shutdown_rest deps (clock 1) 1 True
              (e1\<lparr>me_last_status_at := Some (clock 0), me_last_activity_at := Some (clock 0)\<rparr>) st
          else shutdown_rest deps (clock 1) 0 True e1 st)"

fun shutdown_loop ::
    "('p, 'vt, 'l, 's) ManagerDeps \<Rightarrow> (nat \<Rightarrow> nat \<Rightarrow> unix_ms) \<Rightarrow> nat \<Rightarrow> ('p, 'vt, 'l) SessionEntry list \<Rightarrow> 's
       \<Rightarrow> nat \<times> ('p, 'vt, 'l) SessionEntry list \<times> 's" where
  "shutdown_loop deps clock i [] st = (0, [], st)"
| "shutdown_loop deps clock i (e # es) st =
     (let (ended, e1, st1) = shutdown_entry deps (clock i) e st;
          (rest_ended, es1, st2) = shutdown_loop deps clock (i + 1) es st1
      in (ended + rest_ended, e1 # es1, st2))"

definition ShutdownManager ::
    "('p, 'vt, 'l, 's) ManagerDeps \<Rightarrow> (nat \<Rightarrow> nat \<Rightarrow> unix_ms) \<Rightarrow> ('p, 'vt, 'l, 's) SessionManager
       \<Rightarrow> nat \<times> ('p, 'vt, 'l, 's) SessionManager" where
  "ShutdownManager deps clock m =
     (let (shutdown_count, es, st) = shutdown_loop deps clock 0 (sm_sessions m) (sm_store m)
      in (shutdown_count, m\<lparr>sm_sessions := es, sm_store := st\<rparr>))"

section \<open>Polling\<close>

definition observe_output ::
    "unix_ms \<Rightarrow> ('p, 'vt) SessionRuntime \<Rightarrow> ('p, 'vt, 'l) SessionEntry \<Rightarrow> ('p, 'vt, 'l) SessionEntry" where
  "observe_output now_ms rt e =
     (let snapshot = sr_snapshot (rt_record rt);
          previous_sequence = me_last_observed_sequence e;
          kind = sc_kind (sg_terminal_semantic_change (sn_signals snapshot))
      in
      if sn_current_sequence snapshot = previous_sequence then e
      else
        let output_since = ob_SliceFromSequence (if previous_sequence > 0 then u64_add previous_sequence 1 else 1)
              (rt_output_buffer rt);
            e1 = e\<lparr>me_last_observed_sequence := sn_current_sequence snapshot,
                   me_last_activity_at := Some now_ms, me_last_raw_output_at := Some now_ms\<rparr>;
            semantic_meaningful = (kind = MeaningfulOutput \<or> kind = AltScreenTransition);
            fallback_meaningful =
              (\<not> IsCosmeticTerminalOutput (os_data output_since) \<and> kind \<noteq> CosmeticChurn \<and> kind \<noteq> CursorOnly)
        in
        if semantic_meaningful \<or> fallback_meaningful
        then e1\<lparr>me_last_meaningful_output_at := Some now_ms, me_last_output_at := Some now_ms\<rparr>
        else e1)"

text \<open>\<open>None\<close>: the poll of the runtime does not return.\<close>

definition PollSession ::
    "('p, 'vt, 'l, 's) ManagerDeps \<Rightarrow> (nat \<Rightarrow> unix_ms) \<Rightarrow> string \<Rightarrow> int \<Rightarrow> ('p, 'vt, 'l, 's) SessionManager
       \<Rightarrow> (bool \<times> ('p, 'vt, 'l, 's) SessionManager) option" where
  "PollSession deps clock session_id read_timeout_ms m =
     (case FindEntry session_id m of
        None \<Rightarrow> Some (False, m)
      | Some e \<Rightarrow>
          (case me_log_process e of
             Some process \<Rightarrow>
               let (exit_code, process1) = lp_PollExit (dp_log deps) process;
                   e1 = e\<lparr>me_log_process := Some process1\<rparr>
               in
               (case (exit_code, me_recovered_snapshot e) of
                  (Some code, Some snapshot) \<Rightarrow>
                    let e2 = end_log_session (clock 0) (if code = 0 then Exited else Error) e1 in
                    Some (True, set_entry_state (MaybeTraceNodeSummaryTransition (clock 1) e2) (PersistEntry deps e2 m))
                | _ \<Rightarrow> Some (True, set_entry_state e1 m))
           | None \<Rightarrow>
               (case me_runtime e of
                  None \<Rightarrow> Some (False, m)
                | Some rt \<Rightarrow>
                    map_option (\<lambda>rt1.
                      let e1 = observe_status (clock 1) rt1 (observe_output (clock 0) rt1 (e\<lparr>me_runtime := Some rt1\<rparr>))
                      in (True, set_entry_state (MaybeTraceNodeSummaryTransition (clock 2) e1) (PersistEntry deps e1 m)))
                    (rt_PollOnce (dp_vterm deps) (dp_pty deps) read_timeout_ms rt))))"

definition observe_git ::
    "('p, 'vt, 'l, 's) ManagerDeps \<Rightarrow> unix_ms \<Rightarrow> unix_ms \<Rightarrow> GitSummary \<Rightarrow> ('p, 'vt) SessionRuntime
       \<Rightarrow> ('p, 'vt, 'l) SessionEntry \<Rightarrow> 's \<Rightarrow> ('p, 'vt, 'l) SessionEntry \<times> 's" where
  "observe_git deps now_ms trace_ms git_summary rt e st =
     (if git_summary \<noteq> sn_git_summary (sr_snapshot (rt_record rt)) then
        let e1 = e\<lparr>me_runtime := Some (rt_UpdateGitSummary git_summary rt), me_last_activity_at := Some now_ms,
                   me_last_git_change_at := Some now_ms\<rparr>
        in (MaybeTraceNodeSummaryTransition trace_ms e1, persist_store deps e1 st)
      else (e, st))"

definition observe_files ::
    "('p, 'vt, 'l, 's) ManagerDeps \<Rightarrow> unix_ms \<Rightarrow> unix_ms \<Rightarrow> string list \<Rightarrow> ('p, 'vt) SessionRuntime
       \<Rightarrow> ('p, 'vt, 'l) SessionEntry \<Rightarrow> 's \<Rightarrow> ('p, 'vt, 'l) SessionEntry \<times> 's" where
  "observe_files deps now_ms trace_ms changed_files rt e st =
     (if changed_files \<noteq> [] then
        let e1 = e\<lparr>me_runtime := Some (rt_UpdateRecentFileChanges changed_files rt),
                   me_last_activity_at := Some now_ms, me_last_file_change_at := Some now_ms\<rparr>
        in (MaybeTraceNodeSummaryTransition trace_ms e1, persist_store deps e1 st)
      else (e, st))"

text \<open>What follows the poll of an entry: \<open>observed\<close> holds what the git inspector and the file watcher of
  the session report.\<close>

definition observe_workspace ::
    "('p, 'vt, 'l, 's) ManagerDeps \<Rightarrow> (nat \<Rightarrow> unix_ms) \<Rightarrow> bool \<Rightarrow> bool \<Rightarrow> GitSummary \<times> string list
       \<Rightarrow> ('p, 'vt, 'l) SessionEntry \<Rightarrow> 's \<Rightarrow> ('p, 'vt, 'l) SessionEntry \<times> 's" where
  "observe_workspace deps clock poll_git poll_files observed e st =
     (case me_runtime e of
        None \<Rightarrow> (e, st)
      | Some rt \<Rightarrow>
          let (e1, st1) = (if poll_git \<and> me_git_inspector e
                           then observe_git deps (clock 3) (clock 4) (fst observed) rt e st else (e, st))
          in if poll_files \<and> me_file_watcher e1
             then observe_files deps (clock 5) (clock 6) (snd observed) (the (me_runtime e1)) e1 st1
             else (e1, st1))"

definition skips_poll :: "('p, 'vt, 'l) SessionEntry \<Rightarrow> bool" where
  "skips_poll e \<longleftrightarrow>
     me_runtime e = None \<and> me_log_process e = None
     \<or> me_controller_kind e \<noteq> ControllerNone \<and> IsPrivilegedControllerClientId (me_controller_client_id e)"

fun poll_all_loop ::
    "('p, 'vt, 'l, 's) ManagerDeps \<Rightarrow> (nat \<Rightarrow> nat \<Rightarrow> unix_ms) \<Rightarrow> bool \<Rightarrow> bool \<Rightarrow> (string \<Rightarrow> GitSummary \<times> string list)
       \<Rightarrow> int \<Rightarrow> nat \<Rightarrow> nat \<Rightarrow> ('p, 'vt, 'l, 's) SessionManager \<Rightarrow> ('p, 'vt, 'l, 's) SessionManager option" where
  "poll_all_loop deps clock poll_git poll_files observe timeout_ms i 0 m = Some m"
| "poll_all_loop deps clock poll_git poll_files observe timeout_ms i (Suc left) m =
     (let e = sm_sessions m ! i in
      if skips_poll e then poll_all_loop deps clock poll_git poll_files observe timeout_ms (i + 1) left m
      else
        case PollSession deps (clock i) (entry_id e) timeout_ms m of
          None \<Rightarrow> None
        | Some (polled, m1) \<Rightarrow>
            let (e1, st1) = observe_workspace deps (clock i) poll_git poll_files (observe (entry_id e))
                  (sm_sessions m1 ! i) (sm_store m1)
            in poll_all_loop deps clock poll_git poll_files observe timeout_ms (i + 1) left
                 (m1\<lparr>sm_sessions := (sm_sessions m1)[i := e1], sm_store := st1\<rparr>))"

definition PollAll ::
    "('p, 'vt, 'l, 's) ManagerDeps \<Rightarrow> (nat \<Rightarrow> nat \<Rightarrow> unix_ms) \<Rightarrow> int \<Rightarrow> (string \<Rightarrow> GitSummary \<times> string list) \<Rightarrow> int
       \<Rightarrow> ('p, 'vt, 'l, 's) SessionManager \<Rightarrow> ('p, 'vt, 'l, 's) SessionManager option" where
  "PollAll deps clock steady_now observe read_timeout_ms m =
     (let poll_git = (sm_git_poll_interval m \<le> 0 \<or> sm_last_git_poll_at m = 0
            \<or> steady_now - sm_last_git_poll_at m \<ge> sm_git_poll_interval m);
          poll_files = (sm_file_poll_interval m \<le> 0 \<or> sm_last_file_poll_at m = 0
            \<or> steady_now - sm_last_file_poll_at m \<ge> sm_file_poll_interval m);
          m1 = m\<lparr>sm_poll_count := sm_poll_count m + 1,
                 sm_last_git_poll_at := (if poll_git then steady_now else sm_last_git_poll_at m),
                 sm_last_file_poll_at := (if poll_files then steady_now else sm_last_file_poll_at m)\<rparr>
      in poll_all_loop deps clock poll_git poll_files observe read_timeout_ms 0 (length (sm_sessions m1)) m1)"


end
