(* ===== verification/Targets.thy ===== *)
theory Targets
  imports Host_Config Env_File
begin

text \<open>
  Request targets and small pure services: the query and percent decoding of
  \<open>src/net/request_parsing.cpp\<close>, the WebSocket targets and the sequence window of
  \<open>src/net/websocket_shared.cpp\<close>, \<open>src/net/discovery.cpp\<close>, and the quoting and status parsing of
  \<open>src/service/git_inspector.cpp\<close> (the output of the git command is an argument).
\<close>

section \<open>Query strings\<close>

function query_scan :: "string \<Rightarrow> string \<Rightarrow> string" where
  "query_scan key rest =
     (if rest = [] then []
      else
        let item = takeWhile (\<lambda>c. c \<noteq> CHR ''&'') rest;
            current_key = takeWhile (\<lambda>c. c \<noteq> CHR ''='') item
        in
        if current_key = key then drop (length current_key + 1) item
        else if length item = length rest then []
        else query_scan key (drop (length item + 1) rest))"
  by pat_completeness auto
termination
  by (relation "measure (\<lambda>(key, rest). length rest)") auto

declare query_scan.simps [simp del]

definition ParseQueryValue :: "string \<Rightarrow> string \<Rightarrow> string" where
  "ParseQueryValue target key =
     (case find_first ''?'' target of
        None \<Rightarrow> []
      | Some query_start \<Rightarrow> query_scan key (drop (query_start + 1) target))"

definition url_hex_value :: "char \<Rightarrow> nat option" where
  "url_hex_value ch =
     (if is_digit_char ch then Some (byte ch - 48)
      else if 97 \<le> byte ch \<and> byte ch \<le> 102 then Some (10 + (byte ch - 97))
      else if 65 \<le> byte ch \<and> byte ch \<le> 70 then Some (10 + (byte ch - 65))
      else None)"

fun UrlDecode :: "string \<Rightarrow> string option" where
  "UrlDecode [] = Some []"
| "UrlDecode (ch # rest) =
     (if ch = CHR ''%'' then
        (case rest of
           h # l # rest' \<Rightarrow>
             (case (url_hex_value h, url_hex_value l) of
                (Some high, Some low) \<Rightarrow> map_option (\<lambda>s. char_of (high * 16 + low) # s) (UrlDecode rest')
              | _ \<Rightarrow> None)
         | _ \<Rightarrow> None)
      else map_option (\<lambda>s. (if ch = CHR ''+'' then CHR '' '' else ch) # s) (UrlDecode rest))"

text \<open>\<open>from_chars\<close> for a \<open>size_t\<close>: digits only, and an error when the number does not fit.\<close>

definition from_chars :: "string \<Rightarrow> nat option" where
  "from_chars value =
     (if value = [] \<or> \<not> list_all is_digit_char value then None
      else if string_to_nat 0 value < u64_modulus then Some (string_to_nat 0 value) else None)"

definition ParseByteLimit :: "string \<Rightarrow> nat \<Rightarrow> nat option \<Rightarrow> nat option" where
  "ParseByteLimit target default_bytes max_bytes =
     (let value = ParseQueryValue target ''bytes'' in
      if value = [] then Some default_bytes
      else
        case from_chars value of
          None \<Rightarrow> None
        | Some parsed \<Rightarrow> Some (case max_bytes of None \<Rightarrow> parsed | Some m \<Rightarrow> min parsed m))"

definition ParseTailBytes :: "string \<Rightarrow> nat option" where
  "ParseTailBytes target = ParseByteLimit target 65536 None"

definition ParseFileBytes :: "string \<Rightarrow> nat option" where
  "ParseFileBytes target = ParseByteLimit target 65536 (Some (1024 * 1024))"

section \<open>WebSocket targets\<close>

record StreamSequenceWindow =
  sw_delivered_next :: u64
  sw_reserved_next :: u64

definition StreamSequenceWindow_init :: StreamSequenceWindow where
  "StreamSequenceWindow_init = \<lparr>sw_delivered_next = 1, sw_reserved_next = 1\<rparr>"

definition ReserveThrough :: "u64 \<Rightarrow> StreamSequenceWindow \<Rightarrow> StreamSequenceWindow" where
  "ReserveThrough next_sequence w = w\<lparr>sw_reserved_next := max (sw_reserved_next w) next_sequence\<rparr>"

definition MarkDelivered :: "u64 \<Rightarrow> StreamSequenceWindow \<Rightarrow> StreamSequenceWindow" where
  "MarkDelivered next_sequence w =
     w\<lparr>sw_delivered_next := next_sequence, sw_reserved_next := max (sw_reserved_next w) next_sequence\<rparr>"

definition StripQueryString :: "string \<Rightarrow> string" where
  "StripQueryString target =
     (case find_first ''?'' target of None \<Rightarrow> target | Some i \<Rightarrow> take i target)"

definition IsSessionWebSocketTarget :: "string \<Rightarrow> bool" where
  "IsSessionWebSocketTarget target \<longleftrightarrow>
     (let p = StripQueryString target in
      if \<not> starts_with p ''/ws/sessions/'' \<or> length p \<le> length ''/ws/sessions/'' then False
      else \<not> suffix ''/controller'' p)"

definition IsControllerWebSocketTarget :: "string \<Rightarrow> bool" where
  "IsControllerWebSocketTarget target \<longleftrightarrow>
     (let p = StripQueryString target in
      starts_with p ''/ws/sessions/'' \<and> suffix ''/controller'' p
      \<and> length p > length ''/ws/sessions//controller'')"

definition IsOverviewWebSocketTarget :: "string \<Rightarrow> bool" where
  "IsOverviewWebSocketTarget target \<longleftrightarrow> StripQueryString target = ''/ws/overview''"

definition ExtractSessionIdFromWebSocketTarget :: "string \<Rightarrow> string" where
  "ExtractSessionIdFromWebSocketTarget target =
     (if \<not> IsSessionWebSocketTarget target \<and> \<not> IsControllerWebSocketTarget target then []
      else
        let session_part = drop (length ''/ws/sessions/'') (StripQueryString target) in
        if suffix ''/controller'' session_part
        then take (length session_part - length ''/controller'') session_part
        else session_part)"

definition ExtractAccessTokenFromWebSocketTarget :: "string \<Rightarrow> string" where
  "ExtractAccessTokenFromWebSocketTarget target =
     (if \<not> IsSessionWebSocketTarget target \<and> \<not> IsControllerWebSocketTarget target
         \<and> \<not> IsOverviewWebSocketTarget target then []
      else ParseQueryValue target ''access_token'')"

definition IsRawTerminalStreamRequested :: "string \<Rightarrow> bool" where
  "IsRawTerminalStreamRequested target \<longleftrightarrow>
     (IsSessionWebSocketTarget target \<or> IsControllerWebSocketTarget target)
     \<and> ParseQueryValue target ''stream'' = ''raw''"

section \<open>Discovery\<close>

record DiscoveryInfo =
  di_host_id :: string
  di_display_name :: string
  di_remote_host :: string
  di_remote_port :: u16
  di_protocol_version :: string
  di_tls :: bool

definition ResolveDiscoveryInfo :: "HostIdentity option \<Rightarrow> string \<Rightarrow> u16 \<Rightarrow> bool \<Rightarrow> DiscoveryInfo" where
  "ResolveDiscoveryInfo host_identity remote_host remote_port tls_enabled =
     (let resolved_identity = (case host_identity of Some h \<Rightarrow> h | None \<Rightarrow> MakeDefaultHostIdentity) in
      \<lparr>di_host_id = hi_host_id resolved_identity, di_display_name = hi_display_name resolved_identity,
       di_remote_host = (if remote_host = [] then hi_remote_host resolved_identity else remote_host),
       di_remote_port = (if remote_port = 0 then hi_remote_port resolved_identity else remote_port),
       di_protocol_version = ''1'', di_tls = tls_enabled\<rparr>)"

section \<open>The git inspector\<close>

definition is_trim_char :: "char \<Rightarrow> bool" where
  "is_trim_char c \<longleftrightarrow> c = CHR '' '' \<or> c = ch_tab \<or> c = ch_nl \<or> c = ch_cr"

definition Trim_git :: "string \<Rightarrow> string" where
  "Trim_git input = rev (dropWhile is_trim_char (rev (dropWhile is_trim_char input)))"

definition ShellEscapeSingleQuoted :: "string \<Rightarrow> string" where
  "ShellEscapeSingleQuoted input =
     [ch_quote]
     @ concat (map (\<lambda>ch. if ch = ch_quote then [ch_quote, ch_backslash, ch_quote, ch_quote] else [ch]) input)
     @ [ch_quote]"

definition git_command :: "string \<Rightarrow> string \<Rightarrow> string" where
  "git_command workspace_root command =
     ''git -C '' @ ShellEscapeSingleQuoted workspace_root @ '' '' @ command @ '' 2>/dev/null''"

record GitInspection =
  gi_branch :: string
  gi_staged_files :: "string list"
  gi_modified_files :: "string list"
  gi_untracked_files :: "string list"

text \<open>One line of \<open>git status --porcelain\<close>.\<close>

definition inspect_line :: "string \<Rightarrow> GitInspection \<Rightarrow> GitInspection" where
  "inspect_line line summary =
     (if length line < 4 then summary
      else
        let x = line ! 0; y = line ! 1; file = drop 3 line in
        if x = CHR ''!'' \<and> y = CHR ''!'' then summary
        else summary
          \<lparr>gi_staged_files := gi_staged_files summary
             @ (if x \<noteq> CHR '' '' \<and> x \<noteq> CHR ''?'' then [file] else []),
           gi_modified_files := gi_modified_files summary
             @ (if y \<noteq> CHR '' '' \<and> y \<noteq> CHR ''?'' then [file] else []),
           gi_untracked_files := gi_untracked_files summary
             @ (if x = CHR ''?'' \<and> y = CHR ''?'' then [file] else [])\<rparr>)"

text \<open>The counts of the summary are the lengths of the three lists.\<close>

definition Inspect :: "(string \<Rightarrow> string) \<Rightarrow> string \<Rightarrow> GitInspection" where
  "Inspect popen workspace_root =
     fold inspect_line (content_lines (popen (git_command workspace_root ''status --porcelain'')))
       \<lparr>gi_branch = Trim_git (popen (git_command workspace_root ''branch --show-current'')),
        gi_staged_files = [], gi_modified_files = [], gi_untracked_files = []\<rparr>"

section \<open>Decoding undoes encoding\<close>

text \<open>The encoder of a client: letters and digits stand for themselves, every other byte is escaped.\<close>

definition url_encode_char :: "char \<Rightarrow> string" where
  "url_encode_char c =
     (if is_alnum_char c then [c]
      else [CHR ''%'', kHexDigits ! (byte c div 16), kHexDigits ! (byte c mod 16)])"

definition url_encode :: "string \<Rightarrow> string" where
  "url_encode s = concat (map url_encode_char s)"

lemma url_hex_value_all: "list_all (\<lambda>v. url_hex_value (kHexDigits ! v) = Some v) [0..<16]"
  by code_simp

lemma url_hex_value_digit [simp]: "v < 16 \<Longrightarrow> url_hex_value (kHexDigits ! v) = Some v"
  using url_hex_value_all by (simp add: list_all_iff)

lemma alnum_plain: "is_alnum_char c \<Longrightarrow> c \<noteq> CHR ''%'' \<and> c \<noteq> CHR ''+'' \<and> c \<noteq> CHR ''&'' \<and> c \<noteq> CHR ''=''"
  by (auto simp: char_class_defs byte_def)

lemma UrlDecode_encode_char: "UrlDecode (url_encode_char c @ s) = map_option (Cons c) (UrlDecode s)"
proof (cases "is_alnum_char c")
  case True
  then show ?thesis using alnum_plain by (simp add: url_encode_char_def)
next
  case False
  have "byte c div 16 < 16" "byte c mod 16 < 16" using byte_less [of c] by linarith+
  moreover have "char_of (byte c div 16 * 16 + byte c mod 16) = c" by (simp add: byte_def)
  ultimately show ?thesis using False by (simp add: url_encode_char_def)
qed

lemma UrlDecode_encode: "UrlDecode (url_encode s) = Some s"
  by (induction s) (simp_all add: url_encode_def UrlDecode_encode_char)

definition query_string :: "(string \<times> string) list \<Rightarrow> string" where
  "query_string params =
     concat (map (\<lambda>(k, v). url_encode k @ ''='' @ url_encode v @ ''&'') params)"

lemma url_encode_chars: "c \<in> set (url_encode s) \<Longrightarrow> c \<noteq> CHR ''&'' \<and> c \<noteq> CHR ''='' \<and> c \<noteq> CHR ''?''"
proof -
  assume "c \<in> set (url_encode s)"
  then obtain d where "c \<in> set (url_encode_char d)" by (auto simp: url_encode_def)
  moreover have "list_all (\<lambda>v. kHexDigits ! v \<noteq> CHR ''&'' \<and> kHexDigits ! v \<noteq> CHR ''='' \<and> kHexDigits ! v \<noteq> CHR ''?'') [0..<16]"
    by code_simp
  moreover have "byte d div 16 < 16" "byte d mod 16 < 16" using byte_less [of d] by linarith+
  ultimately show ?thesis
    by (auto simp: url_encode_char_def list_all_iff char_class_defs byte_def split: if_splits)
qed

lemma takeWhile_stop: "(\<And>c. c \<in> set s \<Longrightarrow> P c) \<Longrightarrow> \<not> P d \<Longrightarrow> takeWhile P (s @ d # t) = s"
  by (induction s) auto

lemma url_encode_inject: "url_encode a = url_encode b \<longleftrightarrow> a = b"
  by (metis UrlDecode_encode option.inject)

lemma query_scan_item:
  "query_scan (url_encode key) (url_encode k @ ''='' @ url_encode v @ ''&'' @ rest) =
     (if k = key then url_encode v else query_scan (url_encode key) rest)"
proof -
  let ?item = "url_encode k @ ''='' @ url_encode v"
  have item: "takeWhile (\<lambda>c. c \<noteq> CHR ''&'') (?item @ CHR ''&'' # rest) = ?item"
    using url_encode_chars by (intro takeWhile_stop) auto
  have key: "takeWhile (\<lambda>c. c \<noteq> CHR ''='') (url_encode k @ CHR ''='' # url_encode v) = url_encode k" for k
    using url_encode_chars by (intro takeWhile_stop) auto
  show ?thesis
    using item key by (subst query_scan.simps) (simp add: Let_def url_encode_inject)
qed

lemma query_scan_params:
  "query_scan (url_encode key) (query_string params) =
     (case map_of params key of None \<Rightarrow> [] | Some v \<Rightarrow> url_encode v)"
proof (induction params)
  case Nil
  then show ?case by (simp add: query_string_def query_scan.simps)
next
  case (Cons kv params)
  then show ?case
    using query_scan_item [of key "fst kv" "snd kv" "query_string params"]
    by (cases kv) (auto simp: query_string_def)
qed

lemma find_first_question:
  "CHR ''?'' \<notin> set p \<Longrightarrow> find_first ''?'' (p @ CHR ''?'' # q) = Some (length p)"
  by (induction p) (auto simp: starts_with_def)

text \<open>Percent decoding undoes percent encoding, and looking a key up in the query of a request target gives
  the value the client attached to it: the first one when the key is repeated, the empty text when it is missing,
  and never a part of another key or value.\<close>

theorem query_lookup_decodes:
  assumes "CHR ''?'' \<notin> set p"
  shows "UrlDecode (ParseQueryValue (p @ ''?'' @ query_string params) (url_encode key)) =
    Some (case map_of params key of None \<Rightarrow> [] | Some v \<Rightarrow> v)"
  using find_first_question [OF assms, of "query_string params"]
  by (simp add: ParseQueryValue_def query_scan_params UrlDecode_encode split: option.splits)

theorem query_lookup_decodes_witness:
  "UrlDecode (ParseQueryValue (''/x'' @ ''?'' @ query_string [(''view'', ''a&b''), (''view'', ''c'')]) (url_encode ''view''))
     = Some ''a&b''"
  using query_lookup_decodes [of "''/x''"] by simp

section \<open>Shell quoting\<close>

text \<open>How a POSIX shell reads one word made of single-quoted parts and backslash-escaped characters: the word, and
  the rest of the command line.\<close>

fun shell_word :: "bool \<Rightarrow> string \<Rightarrow> (string \<times> string) option" where
  "shell_word True [] = None"
| "shell_word True (c # cs) =
     (if c = ch_quote then shell_word False cs
      else map_option (\<lambda>(w, r). (c # w, r)) (shell_word True cs))"
| "shell_word False [] = Some ([], [])"
| "shell_word False (c # cs) =
     (if c = ch_quote then shell_word True cs
      else if c = ch_backslash then
        (case cs of [] \<Rightarrow> None | d # ds \<Rightarrow> map_option (\<lambda>(w, r). (d # w, r)) (shell_word False ds))
      else if c = CHR '' '' then Some ([], c # cs)
      else None)"

lemma shell_word_quoted:
  "shell_word True (concat (map (\<lambda>ch. if ch = ch_quote then [ch_quote, ch_backslash, ch_quote, ch_quote] else [ch]) s)
     @ ch_quote # CHR '' '' # r) = Some (s, CHR '' '' # r)"
  by (induction s) auto

text \<open>Whatever characters the workspace path contains, the shell reads the quoted path of the git command as
  one word that is exactly the path, and goes on after it: a path cannot add to the command.\<close>

theorem git_command_quotes_path:
  "\<exists>quoted. git_command workspace_root command = ''git -C '' @ quoted
    \<and> shell_word False quoted = Some (workspace_root, '' '' @ command @ '' 2>/dev/null'')"
proof -
  let ?q = "ShellEscapeSingleQuoted workspace_root @ '' '' @ command @ '' 2>/dev/null''"
  have "shell_word False ?q = Some (workspace_root, '' '' @ command @ '' 2>/dev/null'')"
    using shell_word_quoted [of workspace_root] by (simp add: ShellEscapeSingleQuoted_def)
  then show ?thesis by (intro exI [of _ ?q]) (simp add: git_command_def)
qed

end
