(* ===== verification/Json_Output.thy ===== *)
theory Json_Output
  imports Session_Manager Store_Json Targets
begin

text \<open>
  \<open>src/net/json.cpp\<close>: the JSON documents that the HTTP and WebSocket interfaces send. An object is
  written as the list of its assignments in the order of the code; an assignment under \<open>if\<close> is a
  member that may be absent. \<open>boost::json\<close> is the parameter \<open>lib\<close>; the list forms parse each element
  back before they serialise the list, so they fail with an element that the parser refuses.
\<close>

section \<open>Objects\<close>

fun present_members :: "(string \<times> json option) list \<Rightarrow> (string \<times> json) list" where
  "present_members [] = []"
| "present_members ((k, None) # members) = present_members members"
| "present_members ((k, Some v) # members) = (k, v) # present_members members"

definition json_object :: "(string \<times> json option) list \<Rightarrow> json" where
  "json_object members = JObject (present_members members)"

definition json_strings :: "string list \<Rightarrow> json" where
  "json_strings xs = JArray (map JString xs)"

abbreviation size_member :: "string \<Rightarrow> nat \<Rightarrow> string \<times> json option" where
  "size_member k n \<equiv> (k, Some (JUint64 n))"

abbreviation text_member :: "string \<Rightarrow> string \<Rightarrow> string \<times> json option" where
  "text_member k s \<equiv> (k, Some (JString s))"

abbreviation bool_member :: "string \<Rightarrow> bool \<Rightarrow> string \<times> json option" where
  "bool_member k b \<equiv> (k, Some (JBool b))"

abbreviation time_member :: "string \<Rightarrow> unix_ms option \<Rightarrow> string \<times> json option" where
  "time_member k t \<equiv> (k, map_option JInt64 t)"

section \<open>Parts of a session\<close>

definition MakeTerminalSemanticChangeJson :: "TerminalSemanticChange \<Rightarrow> json" where
  "MakeTerminalSemanticChangeJson change = json_object
     [text_member ''kind'' (ToString_TerminalSemanticChangeKind (sc_kind change)),
      size_member ''changedVisibleLineCount'' (sc_changed_visible_line_count change),
      size_member ''scrollbackLinesAdded'' (sc_scrollback_lines_added change),
      size_member ''appendedVisibleCharacterCount'' (sc_appended_visible_character_count change),
      bool_member ''cursorMoved'' (sc_cursor_moved change),
      bool_member ''altScreenEntered'' (sc_alt_screen_entered change),
      bool_member ''altScreenExited'' (sc_alt_screen_exited change)]"

definition MakeSessionModeJson :: "SessionModeSummary \<Rightarrow> json" where
  "MakeSessionModeJson mode = json_object
     [text_member ''lifecycle'' (ToString_SessionStatus (ms_lifecycle_status mode)),
      text_member ''interaction'' (ToString_SessionInteractionKind (ms_interaction_kind mode)),
      text_member ''activity'' (ToString_SessionActivityState (ms_activity_state mode))]"

definition MakeSessionAttentionJson :: "SessionAttentionSummary \<Rightarrow> json" where
  "MakeSessionAttentionJson attention = json_object
     [text_member ''level'' (ToString_AttentionState (as_level attention)),
      text_member ''cause'' (ToString_AttentionReason (as_cause attention)),
      time_member ''sinceUnixMs'' (as_since_unix_ms attention),
      text_member ''summary'' (as_summary attention)]"

definition ToInventoryState :: "SessionSummary \<Rightarrow> string" where
  "ToInventoryState summary =
     (if su_is_active summary then ''live'' else if su_is_recovered summary then ''archived'' else ''ended'')"

definition MakeNodeSummaryJson :: "SessionNodeSummary \<Rightarrow> json" where
  "MakeNodeSummaryJson summary = json_object
     [text_member ''sessionId'' (ns_session_id summary),
      text_member ''lifecycleStatus'' (ToString_SessionStatus (ns_lifecycle_status summary)),
      text_member ''interactionKind'' (ToString_SessionInteractionKind (ns_interaction_kind summary)),
      text_member ''attentionState'' (ToString_AttentionState (ns_attention_state summary)),
      text_member ''semanticPreview'' (ns_semantic_preview summary),
      size_member ''recentFileChangeCount'' (ns_recent_file_change_count summary),
      bool_member ''gitDirty'' (ns_git_dirty summary),
      time_member ''lastActivityAtUnixMs'' (ns_last_activity_at_unix_ms summary)]"

section \<open>Evidence\<close>

definition MakeEvidenceSourceRefJson :: "EvidenceSourceRef \<Rightarrow> json" where
  "MakeEvidenceSourceRefJson src = json_object
     [text_member ''kind'' (ToString_EvidenceSourceKind (es_kind src)),
      text_member ''sessionId'' (sid_value (es_session_id src))]"

definition MakeEvidenceEntryJson :: "EvidenceEntry \<Rightarrow> json" where
  "MakeEvidenceEntryJson entry = json_object
     [text_member ''entryId'' (en_entry_id entry),
      (''source'', Some (MakeEvidenceSourceRefJson (en_source entry))),
      size_member ''revision'' (en_revision entry),
      size_member ''byteStart'' (en_byte_start entry),
      size_member ''byteEnd'' (en_byte_end entry),
      (''timestampUnixMs'', Some (JInt64 (en_timestamp_unix_ms entry))),
      text_member ''stream'' (ToString_LogStream (en_stream entry)),
      text_member ''text'' (en_text entry),
      bool_member ''partial'' (en_partial entry)]"

definition MakeEvidenceHighlightJson :: "EvidenceHighlight \<Rightarrow> json" where
  "MakeEvidenceHighlightJson highlight = json_object
     [text_member ''entryId'' (hl_entry_id highlight),
      size_member ''start'' (hl_start highlight),
      size_member ''length'' (hl_length highlight),
      text_member ''kind'' (ToString_EvidenceHighlightKind (hl_kind highlight))]"

definition MakeEvidenceResultJson :: "EvidenceResult \<Rightarrow> json" where
  "MakeEvidenceResultJson result = json_object
     [(''source'', Some (MakeEvidenceSourceRefJson (er_source result))),
      text_member ''operation'' (ToString_EvidenceOperation (er_operation result)),
      text_member ''query'' (er_query result),
      size_member ''revisionStart'' (er_revision_start result),
      size_member ''revisionEnd'' (er_revision_end result),
      size_member ''oldestRevision'' (er_oldest_revision result),
      size_member ''latestRevision'' (er_latest_revision result),
      (''entries'', Some (JArray (map MakeEvidenceEntryJson (er_entries result)))),
      (''highlights'', Some (JArray (map MakeEvidenceHighlightJson (er_highlights result)))),
      bool_member ''truncated'' (er_truncated result),
      bool_member ''bufferExhausted'' (er_buffer_exhausted result),
      size_member ''droppedEntries'' (er_dropped_entries result),
      size_member ''droppedBytes'' (er_dropped_bytes result),
      (''errorCode'', if er_error_code result = [] then None else Some (JString (er_error_code result))),
      text_member ''replayToken'' (er_replay_token result)]"

definition MakeObservationEventJson :: "ObservationEvent \<Rightarrow> json" where
  "MakeObservationEventJson event = json_object
     [text_member ''id'' (ov_id event),
      (''timestampUnixMs'', Some (JInt64 (ov_timestamp_unix_ms event))),
      text_member ''actorSessionId'' (ov_actor_session_id event),
      text_member ''actorTitle'' (ov_actor_title event),
      text_member ''actorId'' (ov_actor_id event),
      (''pid'', if ov_pid event \<noteq> 0 then Some (JInt64 (ov_pid event)) else None),
      (''uid'', if ov_uid event \<noteq> 0 then Some (JUint64 (ov_uid event)) else None),
      (''gid'', if ov_gid event \<noteq> 0 then Some (JUint64 (ov_gid event)) else None),
      text_member ''operation'' (ToString_EvidenceOperation (ov_operation event)),
      (''source'', Some (MakeEvidenceSourceRefJson (ov_source event))),
      text_member ''sourceTitle'' (ov_source_title event),
      text_member ''query'' (ov_query event),
      size_member ''revisionStart'' (ov_revision_start event),
      size_member ''revisionEnd'' (ov_revision_end event),
      size_member ''resultCount'' (ov_result_count event),
      bool_member ''truncated'' (ov_truncated event),
      text_member ''summary'' (ov_summary event),
      text_member ''replayToken'' (ov_replay_token event)]"

section \<open>Base64\<close>

text \<open>This file has its own encoder, written with bit operations.\<close>

unbundle bit_operations_syntax

definition sextets :: "nat \<Rightarrow> nat \<Rightarrow> nat \<Rightarrow> nat list" where
  "sextets a b c =
     [drop_bit 2 a AND 63, push_bit 4 (a AND 3) OR (drop_bit 4 b AND 15),
      push_bit 2 (b AND 15) OR (drop_bit 6 c AND 3), c AND 63]"

fun Base64Encode_api :: "string \<Rightarrow> string" where
  "Base64Encode_api (x # y # z # rest) =
     map ((!) kBase64Alphabet) (sextets (byte x) (byte y) (byte z)) @ Base64Encode_api rest"
| "Base64Encode_api [x] =
     map ((!) kBase64Alphabet) [drop_bit 2 (byte x) AND 63, push_bit 4 (byte x AND 3)] @ ''==''"
| "Base64Encode_api [x, y] =
     map ((!) kBase64Alphabet)
       [drop_bit 2 (byte x) AND 63, push_bit 4 (byte x AND 3) OR (drop_bit 4 (byte y) AND 15),
        push_bit 2 (byte y AND 15)] @ ''=''"
| "Base64Encode_api [] = []"

lemma mask_nat:
  "n AND 63 = n mod 64" "n AND 15 = n mod 16" "n AND 3 = n mod 4" for n :: nat
  using take_bit_eq_mask [of 6 n] take_bit_eq_mask [of 4 n] take_bit_eq_mask [of 2 n]
  by (simp_all add: take_bit_eq_mod mask_eq_exp_minus_1)

lemma or_disjoint_nat: "b < 2 ^ n \<Longrightarrow> a * 2 ^ n OR b = a * 2 ^ n + b" for a b :: nat
proof -
  assume "b < 2 ^ n"
  then have "take_bit n b = b" by (simp add: take_bit_nat_eq_self)
  then have "push_bit n a AND b = push_bit n a AND take_bit n b" by simp
  also have "\<dots> = 0" by (rule bit_eqI) (auto simp: bit_simps)
  finally show ?thesis
    by (simp add: disjunctive_add_eq_or [symmetric] push_bit_eq_mult)
qed

lemmas or_disjoint_sextet = or_disjoint_nat [of _ 4, simplified] or_disjoint_nat [of _ 2, simplified]

lemma Base64Encode_api_eq: "Base64Encode_api s = Base64Encode s"
  by (induction s rule: Base64Encode_api.induct)
    (simp_all add: sextets_def mask_nat or_disjoint_sextet drop_bit_eq_div push_bit_eq_mult
      sextet1_def sextet2_def sextet3_def sextet4_def)

definition JsonEscape_api :: "JsonLib \<Rightarrow> string \<Rightarrow> string" where
  "JsonEscape_api lib input = butlast (drop 1 (jl_serialize lib (JString input)))"


section \<open>Sessions\<close>

text \<open>\<open>ToActivityState\<close>, \<open>ToAttentionState\<close> and \<open>ToAttentionReason\<close> print one member each.\<close>

definition ToActivityState :: "SessionSummary \<Rightarrow> string" where
  "ToActivityState summary = ToString_SupervisionState (su_supervision_state summary)"

definition ToAttentionState :: "SessionSummary \<Rightarrow> string" where
  "ToAttentionState summary = ToString_AttentionState (su_attention_state summary)"

definition ToAttentionReason :: "SessionSummary \<Rightarrow> string" where
  "ToAttentionReason summary = ToString_AttentionReason (su_attention_reason summary)"

definition summary_members :: "SessionSummary \<Rightarrow> (string \<times> json option) list" where
  "summary_members summary =
     [text_member ''sessionId'' (sid_value (su_id summary)),
      text_member ''sessionCategory'' (ToString_SessionCategory (su_category summary)),
      text_member ''provider'' (ToString_ProviderType (su_provider summary)),
      text_member ''workspaceRoot'' (su_workspace_root summary),
      text_member ''title'' (su_title summary),
      text_member ''status'' (ToString_SessionStatus (su_status summary)),
      (''conversationId'', map_option JString (su_conversation_id summary)),
      (''groupTags'', Some (json_strings (su_group_tags summary))),
      (''controllerClientId'', map_option JString (su_controller_client_id summary)),
      text_member ''controllerKind'' (ToString_ControllerKind (su_controller_kind summary)),
      bool_member ''isRecovered'' (su_is_recovered summary),
      bool_member ''archivedRecord'' (su_is_recovered summary),
      bool_member ''isActive'' (su_is_active summary),
      text_member ''inventoryState'' (ToInventoryState summary),
      text_member ''activityState'' (ToActivityState summary),
      text_member ''supervisionState'' (ToString_SupervisionState (su_supervision_state summary)),
      text_member ''attentionState'' (ToAttentionState summary),
      text_member ''attentionReason'' (ToAttentionReason summary),
      time_member ''createdAtUnixMs'' (su_created_at_unix_ms summary),
      time_member ''lastStatusAtUnixMs'' (su_last_status_at_unix_ms summary),
      time_member ''lastOutputAtUnixMs'' (su_last_output_at_unix_ms summary),
      time_member ''lastActivityAtUnixMs'' (su_last_activity_at_unix_ms summary),
      time_member ''lastFileChangeAtUnixMs'' (su_last_file_change_at_unix_ms summary),
      time_member ''lastGitChangeAtUnixMs'' (su_last_git_change_at_unix_ms summary),
      time_member ''lastControllerChangeAtUnixMs'' (su_last_controller_change_at_unix_ms summary),
      time_member ''attentionSinceUnixMs'' (su_attention_since_unix_ms summary),
      (''ptyCols'', map_option JUint64 (su_pty_columns summary)),
      (''ptyRows'', map_option JUint64 (su_pty_rows summary)),
      size_member ''currentSequence'' (su_current_sequence summary),
      size_member ''attachedClientCount'' (su_attached_client_count summary),
      size_member ''recentFileChangeCount'' (su_recent_file_change_count summary),
      text_member ''interactionKind'' (ToString_SessionInteractionKind (su_interaction_kind summary)),
      text_member ''semanticPreview'' (su_semantic_preview summary),
      (''mode'', Some (MakeSessionModeJson (su_mode summary))),
      (''attention'', Some (MakeSessionAttentionJson (su_attention summary))),
      bool_member ''gitDirty'' (su_git_dirty summary),
      text_member ''gitBranch'' (su_git_branch summary),
      size_member ''gitModifiedCount'' (su_git_modified_count summary),
      size_member ''gitStagedCount'' (su_git_staged_count summary),
      size_member ''gitUntrackedCount'' (su_git_untracked_count summary),
      (''nodeSummary'', Some (MakeNodeSummaryJson (su_node_summary summary)))]"

definition summary_json :: "SessionSummary \<Rightarrow> json" where
  "summary_json summary = json_object (summary_members summary)"

definition ToJson_SessionSummary :: "JsonLib \<Rightarrow> SessionSummary \<Rightarrow> string" where
  "ToJson_SessionSummary lib summary = jl_serialize lib (summary_json summary)"

text \<open>The list forms: each element is serialised, parsed and put into the array. A parse error leaves the
  function as an exception.\<close>

definition reparsed_array :: "JsonLib \<Rightarrow> ('a \<Rightarrow> string) \<Rightarrow> 'a list \<Rightarrow> json option" where
  "reparsed_array lib to_json xs = map_option JArray (map_all (\<lambda>x. jl_parse lib (to_json x)) xs)"

definition ToJson_SessionSummaries :: "JsonLib \<Rightarrow> SessionSummary list \<Rightarrow> string option" where
  "ToJson_SessionSummaries lib summaries =
     map_option (jl_serialize lib) (reparsed_array lib (ToJson_SessionSummary lib) summaries)"

definition ToJson_SessionFile :: "JsonLib \<Rightarrow> SessionFileReadResult \<Rightarrow> string" where
  "ToJson_SessionFile lib file = jl_serialize lib (json_object
     [text_member ''workspacePath'' (fr_workspace_path file),
      text_member ''contentBase64'' (Base64Encode_api (fr_content file)),
      text_member ''contentEncoding'' ''base64'',
      size_member ''sizeBytes'' (fr_size_bytes file),
      bool_member ''truncated'' (fr_truncated file)])"

definition git_json :: "GitSummary \<Rightarrow> json" where
  "git_json git = json_object
     [text_member ''branch'' (gs_branch git),
      size_member ''modifiedCount'' (gs_modified_count git),
      size_member ''stagedCount'' (gs_staged_count git),
      size_member ''untrackedCount'' (gs_untracked_count git),
      (''modifiedFiles'', Some (json_strings (gs_modified_files git))),
      (''stagedFiles'', Some (json_strings (gs_staged_files git))),
      (''untrackedFiles'', Some (json_strings (gs_untracked_files git)))]"

definition terminal_screen_json :: "TerminalScreenSnapshot \<Rightarrow> json" where
  "terminal_screen_json screen = json_object
     [size_member ''ptyCols'' (tss_columns screen),
      size_member ''ptyRows'' (tss_rows screen),
      size_member ''renderRevision'' (tss_render_revision screen),
      size_member ''cursorRow'' (tss_cursor_row screen),
      size_member ''cursorColumn'' (tss_cursor_column screen),
      (''visibleLines'', Some (json_strings (tss_visible_lines screen))),
      (''scrollbackLines'', Some (json_strings (tss_scrollback_lines screen))),
      text_member ''bootstrapAnsi'' (tss_bootstrap_ansi screen)]"

definition signals_json :: "SessionSignals \<Rightarrow> json" where
  "signals_json signals = json_object
     [time_member ''lastOutputAtUnixMs'' (sg_last_output_at_unix_ms signals),
      time_member ''lastRawOutputAtUnixMs'' (sg_last_raw_output_at_unix_ms signals),
      time_member ''lastMeaningfulOutputAtUnixMs'' (sg_last_meaningful_output_at_unix_ms signals),
      time_member ''lastActivityAtUnixMs'' (sg_last_activity_at_unix_ms signals),
      time_member ''lastFileChangeAtUnixMs'' (sg_last_file_change_at_unix_ms signals),
      time_member ''lastGitChangeAtUnixMs'' (sg_last_git_change_at_unix_ms signals),
      time_member ''lastControllerChangeAtUnixMs'' (sg_last_controller_change_at_unix_ms signals),
      time_member ''attentionSinceUnixMs'' (sg_attention_since_unix_ms signals),
      (''ptyCols'', map_option JUint64 (sg_pty_columns signals)),
      (''ptyRows'', map_option JUint64 (sg_pty_rows signals)),
      size_member ''currentSequence'' (sg_current_sequence signals),
      size_member ''recentFileChangeCount'' (sg_recent_file_change_count signals),
      text_member ''supervisionState'' (ToString_SupervisionState (sg_supervision_state signals)),
      text_member ''attentionState'' (ToString_AttentionState (sg_attention_state signals)),
      text_member ''attentionReason'' (ToString_AttentionReason (sg_attention_reason signals)),
      text_member ''interactionKind'' (ToString_SessionInteractionKind (sg_interaction_kind signals)),
      (''terminalSemanticChange'', Some (MakeTerminalSemanticChangeJson (sg_terminal_semantic_change signals))),
      bool_member ''gitDirty'' (sg_git_dirty signals),
      text_member ''gitBranch'' (sg_git_branch signals),
      size_member ''gitModifiedCount'' (sg_git_modified_count signals),
      size_member ''gitStagedCount'' (sg_git_staged_count signals),
      size_member ''gitUntrackedCount'' (sg_git_untracked_count signals),
      (''mode'', Some (MakeSessionModeJson (sg_mode signals))),
      (''attention'', Some (MakeSessionAttentionJson (sg_attention signals)))]"


definition snapshot_head :: "SessionSnapshot \<Rightarrow> (string \<times> json option) list" where
  "snapshot_head snapshot =
     [text_member ''sessionId'' (sid_value (md_id (sn_metadata snapshot))),
      text_member ''provider'' (ToString_ProviderType (md_provider (sn_metadata snapshot))),
      text_member ''workspaceRoot'' (md_workspace_root (sn_metadata snapshot)),
      text_member ''title'' (md_title (sn_metadata snapshot)),
      text_member ''status'' (ToString_SessionStatus (md_status (sn_metadata snapshot))),
      (''conversationId'', map_option JString (md_conversation_id (sn_metadata snapshot))),
      (''groupTags'', Some (json_strings (md_group_tags (sn_metadata snapshot)))),
      size_member ''currentSequence'' (sn_current_sequence snapshot),
      text_member ''recentTerminalTail'' (sn_recent_terminal_tail snapshot),
      text_member ''interactionKind''
        (ToString_SessionInteractionKind (ns_interaction_kind (sn_node_summary snapshot))),
      text_member ''semanticPreview'' (ns_semantic_preview (sn_node_summary snapshot)),
      (''mode'', Some (MakeSessionModeJson (sg_mode (sn_signals snapshot)))),
      (''attention'', Some (MakeSessionAttentionJson (sg_attention (sn_signals snapshot)))),
      (''nodeSummary'', Some (MakeNodeSummaryJson (sn_node_summary snapshot))),
      (''terminalScreen'', map_option terminal_screen_json (sn_terminal_screen snapshot)),
      (''recentFileChanges'', Some (json_strings (sn_recent_file_changes snapshot)))]"

definition ToJson_SessionSnapshot :: "JsonLib \<Rightarrow> SessionSnapshot \<Rightarrow> string" where
  "ToJson_SessionSnapshot lib snapshot = jl_serialize lib (json_object
     (snapshot_head snapshot
      @ [(''signals'', Some (signals_json (sn_signals snapshot))),
         (''git'', Some (git_json (sn_git_summary snapshot)))]))"

text \<open>What \<open>MakeSnapshotResponse\<close> of \<open>src/net/http_shared.cpp\<close> sends: it has its own copy of the code
  above, with the git state before the signals and the viewport of the caller at the end.\<close>

definition viewport_json :: "TerminalViewportSnapshot \<Rightarrow> json" where
  "viewport_json viewport = json_object
     [text_member ''viewId'' (vp_view_id viewport),
      size_member ''cols'' (vp_columns viewport),
      size_member ''rows'' (vp_rows viewport),
      size_member ''renderRevision'' (vp_render_revision viewport),
      size_member ''totalLineCount'' (vp_total_line_count viewport),
      size_member ''viewportTopLine'' (vp_viewport_top_line viewport),
      size_member ''horizontalOffset'' (vp_horizontal_offset viewport),
      (''cursorRow'', map_option JUint64 (vp_cursor_viewport_row viewport)),
      (''cursorColumn'', map_option JUint64 (vp_cursor_viewport_column viewport)),
      (''visibleLines'', Some (json_strings (vp_visible_lines viewport))),
      text_member ''bootstrapAnsi'' (vp_bootstrap_ansi viewport)]"

definition snapshot_response_body :: "JsonLib \<Rightarrow> SessionSnapshot \<Rightarrow> TerminalViewportSnapshot option \<Rightarrow> string" where
  "snapshot_response_body lib snapshot viewport = jl_serialize lib (json_object
     (snapshot_head snapshot
      @ [(''git'', Some (git_json (sn_git_summary snapshot))),
         (''signals'', Some (signals_json (sn_signals snapshot))),
         (''terminalViewport'', map_option viewport_json viewport)]))"

definition slice_members :: "OutputSlice \<Rightarrow> (string \<times> json option) list" where
  "slice_members output_slice =
     [size_member ''seqStart'' (os_seq_start output_slice),
      size_member ''seqEnd'' (os_seq_end output_slice),
      text_member ''dataBase64'' (Base64Encode_api (os_data output_slice)),
      text_member ''dataEncoding'' ''base64'']"

definition ToJson_OutputSlice :: "JsonLib \<Rightarrow> OutputSlice \<Rightarrow> string" where
  "ToJson_OutputSlice lib output_slice = jl_serialize lib (json_object (slice_members output_slice))"

definition ToJson_EvidenceEntry :: "JsonLib \<Rightarrow> EvidenceEntry \<Rightarrow> string" where
  "ToJson_EvidenceEntry lib entry = jl_serialize lib (MakeEvidenceEntryJson entry)"

definition ToJson_EvidenceHighlight :: "JsonLib \<Rightarrow> EvidenceHighlight \<Rightarrow> string" where
  "ToJson_EvidenceHighlight lib highlight = jl_serialize lib (MakeEvidenceHighlightJson highlight)"

definition ToJson_EvidenceResult :: "JsonLib \<Rightarrow> EvidenceResult \<Rightarrow> string" where
  "ToJson_EvidenceResult lib result = jl_serialize lib (MakeEvidenceResultJson result)"

definition ToJson_ObservationEvent :: "JsonLib \<Rightarrow> ObservationEvent \<Rightarrow> string" where
  "ToJson_ObservationEvent lib event = jl_serialize lib (MakeObservationEventJson event)"

definition ToJson_ObservationEvents :: "JsonLib \<Rightarrow> ObservationEvent list \<Rightarrow> string" where
  "ToJson_ObservationEvents lib events = jl_serialize lib (JArray (map MakeObservationEventJson events))"

section \<open>Pairing\<close>

text \<open>The names of device types are those of the stores.\<close>

definition ToJson_PairingRequest :: "JsonLib \<Rightarrow> PairingRequest \<Rightarrow> string" where
  "ToJson_PairingRequest lib request = jl_serialize lib (json_object
     [text_member ''pairingId'' (prq_pairing_id request),
      text_member ''deviceName'' (prq_device_name request),
      text_member ''deviceType'' (ToString_DeviceType (prq_device_type request)),
      text_member ''code'' (prq_code request),
      (''requestedAtUnixMs'', Some (JInt64 (prq_requested_at_unix_ms request))),
      text_member ''status'' ''pending''])"

definition ToJson_PairingRequests :: "JsonLib \<Rightarrow> PairingRequest list \<Rightarrow> string option" where
  "ToJson_PairingRequests lib requests =
     map_option (jl_serialize lib) (reparsed_array lib (ToJson_PairingRequest lib) requests)"

definition ToJson_PairingRecord :: "JsonLib \<Rightarrow> PairingRecord \<Rightarrow> string" where
  "ToJson_PairingRecord lib r = jl_serialize lib (json_object
     [text_member ''deviceId'' (prc_device_id r),
      text_member ''deviceName'' (prc_device_name r),
      text_member ''deviceType'' (ToString_DeviceType (prc_device_type r)),
      text_member ''token'' (prc_bearer_token r),
      text_member ''status'' ''approved'',
      (''approvedAtUnixMs'', Some (JInt64 (prc_approved_at_unix_ms r)))])"

definition ToJson_PairingRecords :: "JsonLib \<Rightarrow> PairingRecord list \<Rightarrow> string option" where
  "ToJson_PairingRecords lib records =
     map_option (jl_serialize lib) (reparsed_array lib (ToJson_PairingRecord lib) records)"

section \<open>Clients and events\<close>

record AttachedClientInfo =
  ac_client_id :: string
  ac_session_id :: string
  ac_session_title :: string
  ac_client_address :: string
  ac_session_status :: SessionStatus
  ac_session_is_recovered :: bool
  ac_claimed_kind :: ControllerKind
  ac_is_local :: bool
  ac_has_control :: bool
  ac_connected_at_unix_ms :: "unix_ms option"

definition ToJson_AttachedClientInfo :: "JsonLib \<Rightarrow> AttachedClientInfo \<Rightarrow> string" where
  "ToJson_AttachedClientInfo lib info = jl_serialize lib (json_object
     [text_member ''clientId'' (ac_client_id info),
      text_member ''sessionId'' (ac_session_id info),
      text_member ''sessionTitle'' (ac_session_title info),
      text_member ''sessionStatus'' (ToString_SessionStatus (ac_session_status info)),
      bool_member ''sessionIsRecovered'' (ac_session_is_recovered info),
      bool_member ''sessionArchivedRecord'' (ac_session_is_recovered info),
      text_member ''clientAddress'' (ac_client_address info),
      text_member ''claimedKind'' (ToString_ControllerKind (ac_claimed_kind info)),
      bool_member ''isLocal'' (ac_is_local info),
      bool_member ''hasControl'' (ac_has_control info),
      time_member ''connectedAtUnixMs'' (ac_connected_at_unix_ms info)])"

definition ToJson_AttachedClientInfos :: "JsonLib \<Rightarrow> AttachedClientInfo list \<Rightarrow> string option" where
  "ToJson_AttachedClientInfos lib infos =
     map_option (jl_serialize lib) (reparsed_array lib (ToJson_AttachedClientInfo lib) infos)"

definition ToJson_TerminalOutputEvent :: "JsonLib \<Rightarrow> string \<Rightarrow> OutputSlice \<Rightarrow> string" where
  "ToJson_TerminalOutputEvent lib session_id output_slice = jl_serialize lib (json_object
     ([text_member ''type'' ''terminal.output'', text_member ''sessionId'' session_id] @ slice_members output_slice))"


text \<open>\<open>session.updated\<close> repeats the summary, without the category, the mode and the attention.\<close>

definition session_updated_members :: "SessionSummary \<Rightarrow> (string \<times> json option) list" where
  "session_updated_members summary =
     [text_member ''type'' ''session.updated'',
      text_member ''sessionId'' (sid_value (su_id summary)),
      text_member ''provider'' (ToString_ProviderType (su_provider summary)),
      text_member ''workspaceRoot'' (su_workspace_root summary),
      text_member ''title'' (su_title summary),
      text_member ''status'' (ToString_SessionStatus (su_status summary)),
      (''conversationId'', map_option JString (su_conversation_id summary)),
      (''groupTags'', Some (json_strings (su_group_tags summary))),
      (''controllerClientId'', map_option JString (su_controller_client_id summary)),
      text_member ''controllerKind'' (ToString_ControllerKind (su_controller_kind summary)),
      bool_member ''isRecovered'' (su_is_recovered summary),
      bool_member ''archivedRecord'' (su_is_recovered summary),
      bool_member ''isActive'' (su_is_active summary),
      text_member ''inventoryState'' (ToInventoryState summary),
      text_member ''activityState'' (ToActivityState summary),
      text_member ''supervisionState'' (ToString_SupervisionState (su_supervision_state summary)),
      text_member ''attentionState'' (ToAttentionState summary),
      text_member ''attentionReason'' (ToAttentionReason summary),
      time_member ''createdAtUnixMs'' (su_created_at_unix_ms summary),
      time_member ''lastStatusAtUnixMs'' (su_last_status_at_unix_ms summary),
      time_member ''lastOutputAtUnixMs'' (su_last_output_at_unix_ms summary),
      time_member ''lastActivityAtUnixMs'' (su_last_activity_at_unix_ms summary),
      time_member ''lastFileChangeAtUnixMs'' (su_last_file_change_at_unix_ms summary),
      time_member ''lastGitChangeAtUnixMs'' (su_last_git_change_at_unix_ms summary),
      time_member ''lastControllerChangeAtUnixMs'' (su_last_controller_change_at_unix_ms summary),
      time_member ''attentionSinceUnixMs'' (su_attention_since_unix_ms summary),
      (''ptyCols'', map_option JUint64 (su_pty_columns summary)),
      (''ptyRows'', map_option JUint64 (su_pty_rows summary)),
      size_member ''currentSequence'' (su_current_sequence summary),
      size_member ''attachedClientCount'' (su_attached_client_count summary),
      size_member ''recentFileChangeCount'' (su_recent_file_change_count summary),
      text_member ''interactionKind'' (ToString_SessionInteractionKind (su_interaction_kind summary)),
      text_member ''semanticPreview'' (su_semantic_preview summary),
      bool_member ''gitDirty'' (su_git_dirty summary),
      text_member ''gitBranch'' (su_git_branch summary),
      size_member ''gitModifiedCount'' (su_git_modified_count summary),
      size_member ''gitStagedCount'' (su_git_staged_count summary),
      size_member ''gitUntrackedCount'' (su_git_untracked_count summary),
      (''nodeSummary'', Some (MakeNodeSummaryJson (su_node_summary summary)))]"

definition session_updated_json :: "SessionSummary \<Rightarrow> json" where
  "session_updated_json summary = json_object (session_updated_members summary)"

definition ToJson_SessionUpdatedEvent :: "JsonLib \<Rightarrow> SessionSummary \<Rightarrow> string" where
  "ToJson_SessionUpdatedEvent lib summary = jl_serialize lib (session_updated_json summary)"

definition ToJson_SessionExitedEvent :: "JsonLib \<Rightarrow> string \<Rightarrow> SessionStatus \<Rightarrow> string" where
  "ToJson_SessionExitedEvent lib session_id status = jl_serialize lib (json_object
     [text_member ''type'' ''session.exited'',
      text_member ''sessionId'' session_id,
      text_member ''status'' (ToString_SessionStatus status)])"

definition session_activity_members :: "SessionSummary \<Rightarrow> (string \<times> json option) list" where
  "session_activity_members summary =
     [text_member ''type'' ''session.activity'',
      text_member ''sessionId'' (sid_value (su_id summary)),
      text_member ''activityState'' (ToActivityState summary),
      (''groupTags'', Some (json_strings (su_group_tags summary))),
      bool_member ''isActive'' (su_is_active summary),
      text_member ''supervisionState'' (ToString_SupervisionState (su_supervision_state summary)),
      text_member ''attentionState'' (ToAttentionState summary),
      text_member ''attentionReason'' (ToAttentionReason summary),
      time_member ''lastOutputAtUnixMs'' (su_last_output_at_unix_ms summary),
      time_member ''lastActivityAtUnixMs'' (su_last_activity_at_unix_ms summary),
      time_member ''lastFileChangeAtUnixMs'' (su_last_file_change_at_unix_ms summary),
      time_member ''lastGitChangeAtUnixMs'' (su_last_git_change_at_unix_ms summary),
      time_member ''lastControllerChangeAtUnixMs'' (su_last_controller_change_at_unix_ms summary),
      time_member ''attentionSinceUnixMs'' (su_attention_since_unix_ms summary),
      (''ptyCols'', map_option JUint64 (su_pty_columns summary)),
      (''ptyRows'', map_option JUint64 (su_pty_rows summary)),
      size_member ''currentSequence'' (su_current_sequence summary),
      size_member ''attachedClientCount'' (su_attached_client_count summary),
      size_member ''recentFileChangeCount'' (su_recent_file_change_count summary),
      text_member ''interactionKind'' (ToString_SessionInteractionKind (su_interaction_kind summary)),
      text_member ''semanticPreview'' (su_semantic_preview summary),
      bool_member ''gitDirty'' (su_git_dirty summary),
      (''nodeSummary'', Some (MakeNodeSummaryJson (su_node_summary summary))),
      text_member ''gitBranch'' (su_git_branch summary),
      size_member ''gitModifiedCount'' (su_git_modified_count summary),
      size_member ''gitStagedCount'' (su_git_staged_count summary),
      size_member ''gitUntrackedCount'' (su_git_untracked_count summary)]"

definition session_activity_json :: "SessionSummary \<Rightarrow> json" where
  "session_activity_json summary = json_object (session_activity_members summary)"

definition ToJson_SessionActivityEvent :: "JsonLib \<Rightarrow> SessionSummary \<Rightarrow> string" where
  "ToJson_SessionActivityEvent lib summary = jl_serialize lib (session_activity_json summary)"

definition ToJson_SessionInventoryEvent :: "JsonLib \<Rightarrow> SessionSummary list \<Rightarrow> string option" where
  "ToJson_SessionInventoryEvent lib sessions =
     map_option (\<lambda>array. jl_serialize lib (json_object
         [text_member ''type'' ''sessions.snapshot'', (''sessions'', Some array)]))
       (reparsed_array lib (ToJson_SessionSummary lib) sessions)"

definition ToJson_ObservationCreatedEvent :: "JsonLib \<Rightarrow> ObservationEvent \<Rightarrow> string" where
  "ToJson_ObservationCreatedEvent lib event = jl_serialize lib (json_object
     [text_member ''type'' ''observation.created'', (''event'', Some (MakeObservationEventJson event))])"

definition ToJson_ErrorEvent :: "JsonLib \<Rightarrow> string \<Rightarrow> string \<Rightarrow> string \<Rightarrow> string" where
  "ToJson_ErrorEvent lib session_id code message = jl_serialize lib (json_object
     [text_member ''type'' ''error'',
      (''sessionId'', if session_id = [] then None else Some (JString session_id)),
      text_member ''code'' code,
      text_member ''message'' message])"

definition ToJson_DiscoveryInfo :: "JsonLib \<Rightarrow> DiscoveryInfo \<Rightarrow> string" where
  "ToJson_DiscoveryInfo lib info = jl_serialize lib (json_object
     [text_member ''hostId'' (di_host_id info),
      text_member ''displayName'' (di_display_name info),
      text_member ''remoteHost'' (di_remote_host info),
      size_member ''remotePort'' (di_remote_port info),
      text_member ''protocolVersion'' (di_protocol_version info),
      bool_member ''tls'' (di_tls info)])"

section \<open>Environments\<close>

definition toupper_byte :: "char \<Rightarrow> char" where
  "toupper_byte c = (if is_lower_char c then char_of (byte c - 32) else c)"

definition ends_with_ci :: "string \<Rightarrow> string \<Rightarrow> bool" where
  "ends_with_ci key end_part \<longleftrightarrow>
     length end_part \<le> length key
     \<and> drop (length key - length end_part) (map toupper_byte key) = end_part"

definition starts_with_ci :: "string \<Rightarrow> string \<Rightarrow> bool" where
  "starts_with_ci key start_part \<longleftrightarrow>
     length start_part \<le> length key \<and> take (length start_part) (map toupper_byte key) = start_part"

definition ShouldRedactEnvKey :: "string \<Rightarrow> bool" where
  "ShouldRedactEnvKey key \<longleftrightarrow>
     ends_with_ci key ''_KEY'' \<or> ends_with_ci key ''_TOKEN'' \<or> ends_with_ci key ''_SECRET''
     \<or> ends_with_ci key ''_PASSWORD''
     \<or> key = ''DATABASE_URL''
     \<or> starts_with_ci key ''AUTH_'' \<or> starts_with_ci key ''AWS_''"

definition env_entry_json :: "bool \<Rightarrow> EnvEntry \<Rightarrow> json" where
  "env_entry_json redact entry =
     (let should_redact = redact \<and> ShouldRedactEnvKey (ee_key entry) in
      json_object
        [text_member ''key'' (ee_key entry),
         text_member ''value'' (if should_redact then ''<redacted>'' else ee_value entry),
         text_member ''source'' (ToString_EnvSource (ee_source entry)),
         (''redacted'', if should_redact then Some (JBool True) else None)])"

definition ToJson_EffectiveEnvironment :: "JsonLib \<Rightarrow> EffectiveEnvironment \<Rightarrow> bool \<Rightarrow> string" where
  "ToJson_EffectiveEnvironment lib env redact = jl_serialize lib (json_object
     [text_member ''mode'' (ToString_EnvMode (ef_mode env)),
      (''bootstrapShellPath'', map_option JString (ef_bootstrap_shell_path env)),
      (''envFilePath'', map_option JString (ef_env_file_path env)),
      (''bootstrapWarning'', map_option JString (ef_bootstrap_warning env)),
      (''entries'', Some (JArray (map (env_entry_json redact) (ef_entries env))))])"

section \<open>Launch records and the host\<close>

definition ToJson_LaunchRecord :: "JsonLib \<Rightarrow> LaunchRecord \<Rightarrow> string" where
  "ToJson_LaunchRecord lib r = jl_serialize lib (json_object
     [text_member ''recordId'' (lr_record_id r),
      text_member ''provider'' (ToString_ProviderType (lr_provider r)),
      text_member ''workspaceRoot'' (lr_workspace_root r),
      text_member ''title'' (lr_title r),
      (''launchedAtUnixMs'', Some (JInt64 (lr_launched_at_unix_ms r))),
      (''conversationId'', map_option JString (lr_conversation_id r)),
      (''groupTags'', Some (json_strings (lr_group_tags r))),
      (''commandArgv'', map_option json_strings (lr_command_argv r)),
      (''commandShell'', map_option JString (lr_command_shell r))])"

definition ToJson_LaunchRecords :: "JsonLib \<Rightarrow> LaunchRecord list \<Rightarrow> string option" where
  "ToJson_LaunchRecords lib records =
     map_option (jl_serialize lib) (reparsed_array lib (ToJson_LaunchRecord lib) records)"

definition append_command :: "ProviderCommandOverride \<Rightarrow> json" where
  "append_command command =
     JArray (if pco_executable command = [] then []
             else JString (pco_executable command) # map JString (pco_args command))"

text \<open>The version is fixed when the program is built.\<close>

definition ToJsonHostInfo :: "JsonLib \<Rightarrow> string \<Rightarrow> HostIdentity option \<Rightarrow> bool \<Rightarrow> string" where
  "ToJsonHostInfo lib sentrits_version host_identity tls_enabled =
     (let resolved_identity = (case host_identity of Some h \<Rightarrow> h | None \<Rightarrow> MakeDefaultHostIdentity) in
      jl_serialize lib (json_object
        [text_member ''hostId'' (hi_host_id resolved_identity),
         text_member ''displayName'' (hi_display_name resolved_identity),
         text_member ''adminHost'' (hi_admin_host resolved_identity),
         size_member ''adminPort'' (hi_admin_port resolved_identity),
         text_member ''remoteHost'' (hi_remote_host resolved_identity),
         size_member ''remotePort'' (hi_remote_port resolved_identity),
         (''providerCommands'', Some (json_object
            [(''codex'', Some (append_command (hi_codex_command resolved_identity))),
             (''claude'', Some (append_command (hi_claude_command resolved_identity)))])),
         size_member ''launchRecordCount'' (length (hi_launch_records resolved_identity)),
         text_member ''version'' sentrits_version,
         (''capabilities'', Some (json_strings [''sessions'', ''rest'', ''websocket'', ''launchRecords''])),
         text_member ''pairingMode'' ''approval'',
         (''tls'', Some (json_object
            [bool_member ''enabled'' tls_enabled,
             text_member ''mode'' (if tls_enabled then ''self-signed-planned'' else ''disabled'')]))]))"


section \<open>Documents that can be read back\<close>

text \<open>A document is read back if its texts are UTF-8, its numbers are in range, its keys distinct and its
  depth bounded. The last three hold of every document built from values of the C++ types.\<close>

fun json_texts_ok :: "json \<Rightarrow> bool" where
  "json_texts_ok (JString s) = valid_utf8 s"
| "json_texts_ok (JArray xs) = list_all json_texts_ok xs"
| "json_texts_ok (JObject kvs) = list_all (\<lambda>kv. valid_utf8 (fst kv) \<and> json_texts_ok (snd kv)) kvs"
| "json_texts_ok v = True"

fun json_numbers_ok :: "json \<Rightarrow> bool" where
  "json_numbers_ok (JInt64 i) = int64_ok i"
| "json_numbers_ok (JUint64 n) = (int n < 2 ^ 64)"
| "json_numbers_ok (JDouble x) = (x \<noteq> ''nan'')"
| "json_numbers_ok (JArray xs) = list_all json_numbers_ok xs"
| "json_numbers_ok (JObject kvs) = list_all (\<lambda>kv. json_numbers_ok (snd kv)) kvs"
| "json_numbers_ok v = True"

fun json_shape_ok :: "nat \<Rightarrow> json \<Rightarrow> bool" where
  "json_shape_ok d (JArray xs) = (0 < d \<and> list_all (json_shape_ok (d - 1)) xs)"
| "json_shape_ok d (JObject kvs) =
     (0 < d \<and> distinct (map fst kvs) \<and> list_all (\<lambda>kv. json_shape_ok (d - 1) (snd kv)) kvs)"
| "json_shape_ok d v = True"

lemma json_ok_parts: "json_ok d v \<longleftrightarrow> json_texts_ok v \<and> json_numbers_ok v \<and> json_shape_ok d v"
proof (induction v arbitrary: d)
  case (JObject kvs)
  have "json_ok e (snd kv) \<longleftrightarrow> json_texts_ok (snd kv) \<and> json_numbers_ok (snd kv) \<and> json_shape_ok e (snd kv)"
    if "kv \<in> set kvs" for kv e
    using JObject.IH [of kv "snd kv" e] that by (cases kv) simp
  then show ?case by (auto simp: list_all_iff)
qed (auto simp: list_all_iff)

text \<open>\<open>boost::json::parse\<close> refuses a document with a text that is not UTF-8; \<open>serialize\<close> writes it anyway.\<close>

definition json_lib_rejects :: "JsonLib \<Rightarrow> bool" where
  "json_lib_rejects lib \<longleftrightarrow> (\<forall>v. \<not> json_texts_ok v \<longrightarrow> jl_parse lib (jl_serialize lib v) = None)"

locale json_lib_strict = json_lib +
  assumes rejects: "json_lib_rejects lib"
begin

lemma parse_iff:
  "json_numbers_ok v \<Longrightarrow> json_shape_ok max_depth v \<Longrightarrow>
   jl_parse lib (jl_serialize lib v) = (if json_texts_ok v then Some (json_reparse v) else None)"
  using parse_serialize [of v] rejects by (auto simp: json_ok_parts json_lib_rejects_def)

lemma reparsed_array_iff:
  assumes "\<And>x. x \<in> set xs \<Longrightarrow> to_json x = jl_serialize lib (f x) \<and> json_numbers_ok (f x) \<and> json_shape_ok max_depth (f x)"
  shows "reparsed_array lib to_json xs =
    (if list_all (\<lambda>x. json_texts_ok (f x)) xs then Some (JArray (map (\<lambda>x. json_reparse (f x)) xs)) else None)"
proof -
  have "map_all (\<lambda>x. jl_parse lib (to_json x)) xs =
    (if list_all (\<lambda>x. json_texts_ok (f x)) xs then Some (map (\<lambda>x. json_reparse (f x)) xs) else None)"
    using assms by (induction xs) (simp_all add: parse_iff)
  then show ?thesis by (simp add: reparsed_array_def)
qed

end

lemma dec_list_concat_inv:
  assumes "\<And>x r y r'. x \<in> set xs \<Longrightarrow> f (g x @ r) = Some (y, r') \<Longrightarrow> y = h x \<and> r' = r"
  shows "dec_list f (length xs) (concat (map g xs) @ r) = Some (ys, r') \<Longrightarrow> ys = map h xs \<and> r' = r"
  using assms
proof (induction xs arbitrary: ys)
  case (Cons x xs)
  from Cons.prems(1) obtain y r1 zs where step: "f (g x @ concat (map g xs) @ r) = Some (y, r1)"
    "dec_list f (length xs) r1 = Some (zs, r')" "ys = y # zs"
    by (auto split: option.splits)
  have "y = h x \<and> r1 = concat (map g xs) @ r" by (rule Cons.prems(2) [OF _ step(1)]) simp
  moreover from this step(2) have "dec_list f (length xs) (concat (map g xs) @ r) = Some (zs, r')" by simp
  then have "zs = map h xs \<and> r' = r" by (rule Cons.IH) (rule Cons.prems(2), simp)
  ultimately show ?case using step(3) by simp
qed simp

lemma json_dec_enc_inv: "json_dec d (json_enc v @ r) = Some (v', r') \<Longrightarrow> v' = json_reparse v \<and> r' = r"
proof (induction v arbitrary: d r v' r')
  case (JArray xs)
  then obtain e where d: "d = Suc e" by (cases d) auto
  with JArray.prems obtain ys where
    ys: "dec_list (json_dec e) (length xs) (concat (map json_enc xs) @ r) = Some (ys, r')" "v' = JArray ys"
    by (auto simp: dec_counted_def)
  have step: "y = json_reparse x \<and> r2 = r1"
    if "x \<in> set xs" "json_dec e (json_enc x @ r1) = Some (y, r2)" for x r1 y r2
    using JArray.IH that by blast
  from dec_list_concat_inv [OF step ys(1)] ys(2) show ?case by simp
next
  case (JObject kvs)
  then obtain e where d: "d = Suc e" by (cases d) auto
  with JObject.prems obtain ys where
    ys: "dec_list (dec_pair (json_dec e)) (length kvs)
       (concat (map (\<lambda>kv. enc_str (fst kv) @ json_enc (snd kv)) kvs) @ r) = Some (ys, r')" "v' = JObject ys"
    by (auto simp: dec_counted_def)
  have step: "y = (fst kv, json_reparse (snd kv)) \<and> r2 = r1"
    if "kv \<in> set kvs" "dec_pair (json_dec e) ((enc_str (fst kv) @ json_enc (snd kv)) @ r1) = Some (y, r2)" for kv r1 y r2
    using JObject.IH [of kv "snd kv" e r1] that by (cases kv) (auto simp: dec_pair_def)
  from dec_list_concat_inv [OF step ys(1)] ys(2) show ?case by (simp add: case_prod_beta)
next
  case (JInt64 i) then show ?case by (cases d) (auto split: if_splits)
next
  case (JUint64 n) then show ?case by (cases d) (auto split: if_splits)
next
  case (JBool b) then show ?case by (cases d) (auto split: if_splits)
next
  case JNull then show ?case by (cases d) auto
next
  case (JDouble x) then show ?case by (cases d) auto
next
  case (JString s) then show ?case by (cases d) auto
qed

lemma json_texts_ok_reparse: "json_texts_ok (json_reparse v) = json_texts_ok v"
proof (induction v)
  case (JObject kvs)
  have "json_texts_ok (json_reparse (snd kv)) = json_texts_ok (snd kv)" if "kv \<in> set kvs" for kv
    using JObject.IH [of kv "snd kv"] that by (cases kv) simp
  then show ?case by (auto simp: list_all_iff)
qed (auto simp: list_all_iff)

interpretation strict_unary_lib: json_lib_strict unary_json
proof unfold_locales
  have "json_texts_ok v" if "json_dec d (json_enc v) = Some (w, [])" "json_ok max_depth w" for d v w
    using json_dec_enc_inv [of d v "[]" w "[]"] that json_texts_ok_reparse [of v] by (simp add: json_ok_parts)
  then show "json_lib_rejects unary_json"
    by (auto simp: json_lib_rejects_def unary_json_def simp del: json_dec.simps json_enc.simps
        split: option.splits list.splits)
qed

section \<open>Members of an object\<close>

lemma present_keys: "fst ` set (present_members members) \<subseteq> fst ` set members"
  by (induction members rule: present_members.induct) auto

lemma distinct_present: "distinct (map fst members) \<Longrightarrow> distinct (map fst (present_members members))"
  using present_keys by (induction members rule: present_members.induct) (auto simp: image_iff dest!: subsetD)

lemma map_of_present:
  "distinct (map fst members) \<Longrightarrow>
   map_of (present_members members) k = (case map_of members k of None \<Rightarrow> None | Some v \<Rightarrow> v)"
proof (induction members rule: present_members.induct)
  case (2 k' members)
  then have "map_of (present_members members) k' = None"
    using present_keys [of members] by (auto simp: map_of_eq_None_iff)
  with 2 show ?case by auto
qed auto

lemma if_contains_object:
  "distinct (map fst members) \<Longrightarrow>
   if_contains (json_object members) k = (case map_of members k of None \<Rightarrow> None | Some v \<Rightarrow> v)"
  by (simp add: json_object_def map_of_present)

lemma if_contains_object_iff:
  "distinct (map fst members) \<Longrightarrow> if_contains (json_object members) k = Some v \<longleftrightarrow> (k, Some v) \<in> set members"
  by (auto simp: if_contains_object map_of_eq_None_iff image_iff dest: eq_key_imp_eq_value split: option.split)

lemma json_shape_object:
  assumes "distinct (map fst members)"
  shows "json_shape_ok (Suc d) (json_object members) \<longleftrightarrow>
    list_all (\<lambda>kv. case snd kv of None \<Rightarrow> True | Some v \<Rightarrow> json_shape_ok d v) members"
proof -
  have "list_all (\<lambda>kv. json_shape_ok d (snd kv)) (present_members members)
    \<longleftrightarrow> list_all (\<lambda>kv. case snd kv of None \<Rightarrow> True | Some v \<Rightarrow> json_shape_ok d v) members"
    by (induction members rule: present_members.induct) auto
  with distinct_present [OF assms] show ?thesis by (simp add: json_object_def)
qed

lemma json_shape_strings [simp]: "json_shape_ok (Suc d) (json_strings xs)"
  by (simp add: json_strings_def list_all_iff)

lemma summary_keys_distinct:
  "distinct (map fst (summary_members s))" "distinct (map fst (session_updated_members s))"
  "distinct (map fst (session_activity_members s))"
  by (code_simp)+

lemma optional_shape [simp]:
  "case t of None \<Rightarrow> True | Some x \<Rightarrow> (json_shape_ok d \<circ> JInt64) x"
  "case n of None \<Rightarrow> True | Some x \<Rightarrow> (json_shape_ok d \<circ> JUint64) x"
  "case s of None \<Rightarrow> True | Some x \<Rightarrow> (json_shape_ok d \<circ> JString) x"
  by (simp_all split: option.split)

lemma json_part_shapes:
  "json_shape_ok (Suc d) (MakeNodeSummaryJson node)" "json_shape_ok (Suc d) (MakeSessionModeJson mode)"
  "json_shape_ok (Suc d) (MakeSessionAttentionJson attention)"
  by (simp_all add: MakeNodeSummaryJson_def MakeSessionModeJson_def MakeSessionAttentionJson_def json_shape_object)

lemma summary_json_shape: "json_shape_ok max_depth (summary_json s)"
proof -
  have "\<exists>d. max_depth = Suc (Suc d)" by (rule exI [of _ 30]) (simp add: max_depth_def)
  then obtain d where d: "max_depth = Suc (Suc d)" ..
  show ?thesis
    unfolding d summary_json_def json_shape_object [OF summary_keys_distinct(1)]
    by (simp add: summary_members_def json_part_shapes)
qed

section \<open>What clients can rely on\<close>

text \<open>Claim C36: the listing of sessions is all or nothing. It holds the document of every session, in order, as the
  parser gives it back; but a single session with a text that is not UTF-8 (a git branch may be named with any
  bytes) makes the whole listing fail with an exception, and the inventory event with it.\<close>

theorem session_listing_all_or_nothing:
  assumes "json_lib_roundtrip lib" "json_lib_accepts_ok lib" "json_lib_rejects lib"
    and "list_all (\<lambda>s. json_numbers_ok (summary_json s)) summaries"
  shows "ToJson_SessionSummaries lib summaries =
      (if list_all (\<lambda>s. json_texts_ok (summary_json s)) summaries
       then Some (jl_serialize lib (JArray (map (\<lambda>s. json_reparse (summary_json s)) summaries))) else None)
    \<and> ((ToJson_SessionInventoryEvent lib summaries = None) = (ToJson_SessionSummaries lib summaries = None))
    \<and> (ToJson_SessionSummaries lib summaries = None \<longleftrightarrow>
         (\<exists>s \<in> set summaries. \<not> json_texts_ok (summary_json s)))"
proof -
  have strict: "json_lib_strict lib" using assms(1-3) by unfold_locales
  have "reparsed_array lib (ToJson_SessionSummary lib) summaries =
    (if list_all (\<lambda>s. json_texts_ok (summary_json s)) summaries
     then Some (JArray (map (\<lambda>s. json_reparse (summary_json s)) summaries)) else None)"
    by (rule json_lib_strict.reparsed_array_iff [OF strict])
      (use assms(4) in \<open>simp add: ToJson_SessionSummary_def summary_json_shape list_all_iff\<close>)
  then show ?thesis
    by (auto simp: ToJson_SessionSummaries_def ToJson_SessionInventoryEvent_def list_all_iff)
qed

definition demo_summary :: SessionSummary where
  "demo_summary = BuildSummary 5
     (new_log_entry \<lparr>md_id = SessionId ''s_1'', md_provider = Codex, md_workspace_root = ''/w'', md_title = ''log'',
         md_status = Running, md_conversation_id = None, md_group_tags = [''a'']\<rparr>
       \<lparr>li_max_bytes = 100, li_max_entries = 10\<rparr> 3 None :: (unit, unit, unit) SessionEntry)"

theorem session_listing_all_or_nothing_witness:
  "ToJson_SessionSummaries unary_json [demo_summary, demo_summary\<lparr>su_git_branch := [char_of (255 :: nat)]\<rparr>] = None"
proof -
  let ?s = "[demo_summary, demo_summary\<lparr>su_git_branch := [char_of (255 :: nat)]\<rparr>]"
  have numbers: "list_all (\<lambda>s. json_numbers_ok (summary_json s)) ?s" by code_simp
  let ?bad = "demo_summary\<lparr>su_git_branch := [char_of (255 :: nat)]\<rparr>"
  have "if_contains (summary_json ?bad) ''gitBranch'' = Some (JString [char_of (255 :: nat)])"
    unfolding summary_json_def if_contains_object_iff [OF summary_keys_distinct(1)] by (simp add: summary_members_def)
  then have "(''gitBranch'', JString [char_of (255 :: nat)]) \<in> set (present_members (summary_members ?bad))"
    by (auto simp: summary_json_def json_object_def dest: map_of_SomeD)
  moreover have "\<not> valid_utf8 [char_of (255 :: nat)]" by code_simp
  ultimately have "\<not> json_texts_ok (summary_json ?bad)"
    by (force simp: summary_json_def json_object_def list_all_iff)
  then have texts: "\<not> list_all (\<lambda>s. json_texts_ok (summary_json s)) ?s" by simp
  from session_listing_all_or_nothing
    [OF unary_lib.roundtrip unary_lib.accepts_ok strict_unary_lib.rejects numbers] texts
  show ?thesis by (simp only: if_False)
qed

lemma ends_with_ci_iff: "ends_with_ci key e \<longleftrightarrow> (\<exists>p t. key = p @ t \<and> map toupper_byte t = e)"
proof
  assume "ends_with_ci key e"
  then have "map toupper_byte (drop (length key - length e) key) = e" by (simp add: ends_with_ci_def drop_map)
  then show "\<exists>p t. key = p @ t \<and> map toupper_byte t = e"
    by (metis append_take_drop_id)
qed (auto simp: ends_with_ci_def)

lemma starts_with_ci_iff: "starts_with_ci key e \<longleftrightarrow> (\<exists>p t. key = t @ p \<and> map toupper_byte t = e)"
proof
  assume "starts_with_ci key e"
  then have "map toupper_byte (take (length e) key) = e" by (simp add: starts_with_ci_def take_map)
  then show "\<exists>p t. key = t @ p \<and> map toupper_byte t = e"
    by (metis append_take_drop_id)
qed (auto simp: starts_with_ci_def)

lemma ShouldRedactEnvKey_iff:
  "ShouldRedactEnvKey key \<longleftrightarrow> key = ''DATABASE_URL''
     \<or> (\<exists>p t. key = p @ t \<and> map toupper_byte t \<in> {''_KEY'', ''_TOKEN'', ''_SECRET'', ''_PASSWORD''})
     \<or> (\<exists>p t. key = t @ p \<and> map toupper_byte t \<in> {''AUTH_'', ''AWS_''})"
proof -
  have swap: "(\<exists>p t. key = f p t \<and> map toupper_byte t \<in> S) \<longleftrightarrow> (\<exists>e \<in> S. \<exists>p t. key = f p t \<and> map toupper_byte t = e)"
    for f :: "string \<Rightarrow> string \<Rightarrow> string" and S
    by blast
  show ?thesis
    unfolding swap [of "(@)"] swap [of "\<lambda>p t. t @ p"] ends_with_ci_iff [symmetric] starts_with_ci_iff [symmetric]
    by (simp only: ShouldRedactEnvKey_def bex_simps disj_assoc HOL.simp_thms disj_left_commute disj_commute)
qed

lemma env_entries_redacted:
  "list_all2 (\<lambda>a b. ee_key a = ee_key b \<and> ee_source a = ee_source b
      \<and> (ShouldRedactEnvKey (ee_key a) \<or> ee_value a = ee_value b)) entries others \<Longrightarrow>
   map (env_entry_json True) entries = map (env_entry_json True) others"
  by (induction rule: list_all2_induct) (auto simp: env_entry_json_def Let_def)

text \<open>Claim C37: whoever may only see the redacted environment learns nothing of a secret: two environments that
  differ in nothing but the values of secret keys are sent as the same text. The secret keys are \<open>DATABASE_URL\<close> and
  those that end in \<open>_KEY\<close>, \<open>_TOKEN\<close>, \<open>_SECRET\<close> or \<open>_PASSWORD\<close> or begin with \<open>AUTH_\<close> or \<open>AWS_\<close>, in any case.\<close>

theorem redacted_environment_hides_secrets:
  assumes "list_all2 (\<lambda>a b. ee_key a = ee_key b \<and> ee_source a = ee_source b
      \<and> (ShouldRedactEnvKey (ee_key a) \<or> ee_value a = ee_value b)) entries others"
  shows "ToJson_EffectiveEnvironment lib (env\<lparr>ef_entries := entries\<rparr>) True =
      ToJson_EffectiveEnvironment lib (env\<lparr>ef_entries := others\<rparr>) True
    \<and> (ShouldRedactEnvKey key \<longleftrightarrow> key = ''DATABASE_URL''
        \<or> (\<exists>p t. key = p @ t \<and> map toupper_byte t \<in> {''_KEY'', ''_TOKEN'', ''_SECRET'', ''_PASSWORD''})
        \<or> (\<exists>p t. key = t @ p \<and> map toupper_byte t \<in> {''AUTH_'', ''AWS_''}))"
  using env_entries_redacted [OF assms] ShouldRedactEnvKey_iff [of key]
  by (simp add: ToJson_EffectiveEnvironment_def)

theorem redacted_environment_hides_secrets_witness:
  "ToJson_EffectiveEnvironment unary_json (EffectiveEnvironment_default
       \<lparr>ef_entries := [\<lparr>ee_key = ''github_token'', ee_value = ''abc'', ee_source = SessionOverride\<rparr>]\<rparr>) True =
   ToJson_EffectiveEnvironment unary_json (EffectiveEnvironment_default
       \<lparr>ef_entries := [\<lparr>ee_key = ''github_token'', ee_value = ''xyz'', ee_source = SessionOverride\<rparr>]\<rparr>) True"
proof -
  have "ShouldRedactEnvKey ''github_token''" by code_simp
  then show ?thesis
    by (intro redacted_environment_hides_secrets [THEN conjunct1]) simp
qed

end
