(* ===== verification/Manager_Invariant.thy ===== *)
theory Manager_Invariant
  imports Session_Manager
begin

text \<open>
  The invariant of the session registry and the state machine of its operations: unique and valid
  ids, a published snapshot for every entry, a holder for every remote controller, normalised tags,
  and recovered sessions that stay ended. It holds in every reachable state, whatever the terminals,
  processes, stores and clocks do.
\<close>

section \<open>Invariant\<close>

definition runtime_facts :: "('p, 'vt) SessionRuntime \<Rightarrow> SessionId \<times> string list" where
  "runtime_facts rt = (md_id (sr_metadata (rt_record rt)), md_group_tags (sr_metadata (rt_record rt)))"

definition snapshot_facts :: "SessionSnapshot \<Rightarrow> SessionId \<times> string list" where
  "snapshot_facts s = (md_id (sn_metadata s), md_group_tags (sn_metadata s))"

definition facts_ok :: "SessionId \<Rightarrow> SessionId \<times> string list \<Rightarrow> bool" where
  "facts_ok session_id f \<longleftrightarrow> fst f = session_id \<and> NormalizeGroupTags (snd f) = snd f"

definition state_ok :: "('p, 'vt, 'l) SessionEntry \<Rightarrow> bool" where
  "state_ok e \<longleftrightarrow>
     (case me_runtime e of
        Some rt \<Rightarrow>
          rt_inv rt \<and> facts_ok (me_id e) (runtime_facts rt) \<and> me_recovered_snapshot e = None
          \<and> me_category e = CategoryPty \<and> \<not> me_is_recovered e
      | None \<Rightarrow>
          (case me_recovered_snapshot e of
             None \<Rightarrow> False
           | Some s \<Rightarrow> facts_ok (me_id e) (snapshot_facts s)
                      \<and> (me_category e = CategoryPty \<longrightarrow> terminal_status (md_status (sn_metadata s)))))"

definition log_ok :: "('p, 'vt, 'l) SessionEntry \<Rightarrow> bool" where
  "log_ok e \<longleftrightarrow>
     (me_log_buffer e \<noteq> None) = (me_category e = CategoryManagedLog)
     \<and> (me_log_process e \<noteq> None \<longrightarrow> me_category e = CategoryManagedLog)"

definition controller_ok :: "('p, 'vt, 'l) SessionEntry \<Rightarrow> bool" where
  "controller_ok e \<longleftrightarrow>
     (me_controller_kind e = ControllerRemote \<longrightarrow> me_controller_client_id e \<noteq> None)
     \<and> (me_controller_client_id e \<noteq> None \<longrightarrow> me_controller_kind e \<noteq> ControllerNone)"

definition entry_ok :: "('p, 'vt, 'l) SessionEntry \<Rightarrow> bool" where
  "entry_ok e \<longleftrightarrow>
     TryCreate (entry_id e) = Some (me_id e) \<and> state_ok e \<and> log_ok e \<and> controller_ok e
     \<and> (me_is_recovered e \<longrightarrow> me_category e = CategoryPty)"

definition manager_inv :: "('p, 'vt, 'l, 's) SessionManager \<Rightarrow> bool" where
  "manager_inv m \<longleftrightarrow> distinct (map entry_id (sm_sessions m)) \<and> list_all entry_ok (sm_sessions m)"

section \<open>Runtimes keep their names\<close>

lemma runtime_facts_record [simp]:
  "runtime_facts (rt\<lparr>rt_pid := x\<rparr>) = runtime_facts rt" "runtime_facts (rt\<lparr>rt_pty := p\<rparr>) = runtime_facts rt"
  "runtime_facts (rt\<lparr>rt_start_error := err\<rparr>) = runtime_facts rt"
  "runtime_facts (rt\<lparr>rt_launch_spec := l\<rparr>) = runtime_facts rt"
  "runtime_facts (rt\<lparr>rt_multiplexer := mx\<rparr>) = runtime_facts rt"
  "runtime_facts (rt\<lparr>rt_output_buffer := b\<rparr>) = runtime_facts rt"
  by (simp_all add: runtime_facts_def)

lemma runtime_facts_transition [simp]: "runtime_facts (snd (rt_transition s rt)) = runtime_facts rt"
  by (simp add: runtime_facts_def rt_transition_def sr_TryTransition_def split: prod.split)

lemma runtime_facts_transition_eq: "rt_transition s rt = (ok, rt') \<Longrightarrow> runtime_facts rt' = runtime_facts rt"
  using runtime_facts_transition [of s rt] by simp

lemma runtime_facts_ops:
  "runtime_facts (snd (rt_Start pty rt)) = runtime_facts rt"
  "runtime_facts (snd (rt_WriteInput pty input rt)) = runtime_facts rt"
  "runtime_facts (snd (rt_ResizeTerminal api pty sz rt)) = runtime_facts rt"
  "runtime_facts (rt_UpdateViewport v sz rt) = runtime_facts rt"
  "runtime_facts (rt_RemoveViewport v rt) = runtime_facts rt"
  "runtime_facts (snd (rt_Shutdown pty rt)) = runtime_facts rt"
  "runtime_facts (snd (rt_HandleExit clean rt)) = runtime_facts rt"
  "runtime_facts (rt_UpdateGitSummary g rt) = runtime_facts rt"
  "runtime_facts (rt_UpdateRecentFileChanges changes rt) = runtime_facts rt"
  "runtime_facts (rt_UpdateGroupTags group_tags rt) = (fst (runtime_facts rt), group_tags)"
  "runtime_facts (rt_absorb api data rt) = runtime_facts rt"
  by (auto simp: rt_ops_defs rt_absorb_def Let_def SetGroupTags_def split: prod.split dest!: runtime_facts_transition_eq)
    (auto simp: runtime_facts_def)

lemma runtime_facts_poll_exit [simp]: "runtime_facts (rt_poll_exit pty rt) = runtime_facts rt"
  by (simp add: rt_poll_exit_def Let_def runtime_facts_ops split: prod.split option.split)

lemma runtime_facts_PollOnce_loop: "PollOnce_loop api pty t rt = Some rt' \<Longrightarrow> runtime_facts rt' = runtime_facts rt"
proof (induction rule: PollOnce_loop_induct)
  case (read f api pty t rt rt')
  obtain res p where rd: "pty_Read pty t (rt_pty rt) = (res, p)" by (cases "pty_Read pty t (rt_pty rt)")
  from read rd show ?case by (fastforce simp: Let_def runtime_facts_ops split: if_splits)
qed

lemma runtime_kept_PollOnce:
  "rt_PollOnce api pty t rt = Some rt' \<Longrightarrow> rt_inv rt \<Longrightarrow> rt_inv rt' \<and> runtime_facts rt' = runtime_facts rt"
  by (auto simp: rt_PollOnce_def dest: rt_inv_PollOnce_loop runtime_facts_PollOnce_loop split: if_splits)

section \<open>Entries keep their invariant\<close>

lemma entry_id_updates [simp]:
  "entry_id (MaybeTraceNodeSummaryTransition t e) = entry_id e"
  "entry_id (ResetControllerState e) = entry_id e"
  "entry_id (end_log_session t s e) = entry_id e"
  "entry_id (observe_status t rt e) = entry_id e"
  "entry_id (observe_output t rt e) = entry_id e"
  "entry_id (take_control clock c k e) = entry_id e"
  by (simp_all add: entry_id_def MaybeTraceNodeSummaryTransition_def ResetControllerState_def
      end_log_session_def observe_status_def observe_output_def take_control_def Let_def)

lemma trace_fields [simp]:
  "me_runtime (MaybeTraceNodeSummaryTransition t e) = me_runtime e"
  "me_recovered_snapshot (MaybeTraceNodeSummaryTransition t e) = me_recovered_snapshot e"
  "me_controller_client_id (MaybeTraceNodeSummaryTransition t e) = me_controller_client_id e"
  "me_controller_kind (MaybeTraceNodeSummaryTransition t e) = me_controller_kind e"
  "me_log_process (MaybeTraceNodeSummaryTransition t e) = me_log_process e"
  "me_category (MaybeTraceNodeSummaryTransition t e) = me_category e"
  "me_is_recovered (MaybeTraceNodeSummaryTransition t e) = me_is_recovered e"
  "me_id (MaybeTraceNodeSummaryTransition t e) = me_id e"
  by (simp_all add: MaybeTraceNodeSummaryTransition_def Let_def)

lemmas entry_defs = entry_ok_def state_ok_def log_ok_def controller_ok_def entry_id_def

lemma entry_ok_frame [simp]:
  "entry_ok (e\<lparr>me_created_at := x\<rparr>) = entry_ok e"
  "entry_ok (e\<lparr>me_last_status_at := x\<rparr>) = entry_ok e"
  "entry_ok (e\<lparr>me_last_raw_output_at := x\<rparr>) = entry_ok e"
  "entry_ok (e\<lparr>me_last_meaningful_output_at := x\<rparr>) = entry_ok e"
  "entry_ok (e\<lparr>me_last_output_at := x\<rparr>) = entry_ok e"
  "entry_ok (e\<lparr>me_last_activity_at := x\<rparr>) = entry_ok e"
  "entry_ok (e\<lparr>me_last_file_change_at := x\<rparr>) = entry_ok e"
  "entry_ok (e\<lparr>me_last_git_change_at := x\<rparr>) = entry_ok e"
  "entry_ok (e\<lparr>me_last_controller_change_at := x\<rparr>) = entry_ok e"
  "entry_ok (e\<lparr>me_current_terminal_size := sz\<rparr>) = entry_ok e"
  "entry_ok (e\<lparr>me_last_observed_status := st\<rparr>) = entry_ok e"
  "entry_ok (e\<lparr>me_last_observed_sequence := n\<rparr>) = entry_ok e"
  "entry_ok (e\<lparr>me_last_traced_key := k\<rparr>) = entry_ok e"
  "entry_ok (e\<lparr>me_effective_environment := env\<rparr>) = entry_ok e"
  by (simp_all add: entry_defs cong: option.case_cong)

lemma entry_ok_observe [simp]:
  "entry_ok (MaybeTraceNodeSummaryTransition t e) = entry_ok e"
  "entry_ok (observe_status t rt e) = entry_ok e"
  "entry_ok (observe_output t rt e) = entry_ok e"
  by (simp_all add: MaybeTraceNodeSummaryTransition_def observe_status_def observe_output_def Let_def)

lemma entry_ok_runtime:
  "entry_ok e \<Longrightarrow> me_runtime e = Some rt \<Longrightarrow> rt_inv rt' \<Longrightarrow> runtime_facts rt' = runtime_facts rt \<Longrightarrow>
   entry_ok (e\<lparr>me_runtime := Some rt'\<rparr>)"
  by (auto simp: entry_defs)

lemma entry_ok_log_process:
  "entry_ok e \<Longrightarrow> me_log_process e \<noteq> None \<Longrightarrow> entry_ok (e\<lparr>me_log_process := Some p\<rparr>)"
  by (auto simp: entry_defs cong: option.case_cong)

lemma entry_ok_controller:
  "entry_ok e \<Longrightarrow> (k = ControllerRemote \<longrightarrow> c \<noteq> None) \<Longrightarrow> (c \<noteq> None \<longrightarrow> k \<noteq> ControllerNone) \<Longrightarrow>
   entry_ok (e\<lparr>me_controller_client_id := c, me_controller_kind := k\<rparr>)"
  by (simp add: entry_defs cong: option.case_cong)

lemma entry_ok_Reset [simp]: "entry_ok e \<Longrightarrow> entry_ok (ResetControllerState e)"
  by (simp add: ResetControllerState_def entry_ok_controller)

lemma entry_ok_take_control [simp]:
  "entry_ok e \<Longrightarrow> k \<noteq> ControllerNone \<Longrightarrow> entry_ok (take_control clock c k e)"
  by (simp add: take_control_def entry_ok_controller)

lemma entry_ok_end_log:
  "entry_ok e \<Longrightarrow> me_log_process e \<noteq> None \<Longrightarrow> entry_ok (end_log_session t s e)"
  by (auto simp: entry_defs end_log_session_def snapshot_facts_def split: option.splits)

lemma entry_ok_snapshot:
  assumes "entry_ok e"
  obtains s where "entry_snapshot e = Some s" "facts_ok (me_id e) (snapshot_facts s)"
  using assms
  by (auto simp: entry_ok_def state_ok_def entry_snapshot_def snapshot_facts_def runtime_facts_def
      sr_snapshot_def split: option.splits)

lemma entry_ok_runtime_inv: "entry_ok e \<Longrightarrow> me_runtime e = Some rt \<Longrightarrow> rt_inv rt"
  by (simp add: entry_ok_def state_ok_def)

lemma entry_ok_log_snapshot:
  "entry_ok e \<Longrightarrow> me_log_process e \<noteq> None \<Longrightarrow> me_runtime e = None \<and> me_recovered_snapshot e \<noteq> None"
  by (auto simp: entry_ok_def state_ok_def log_ok_def split: option.splits)

section \<open>The registry keeps its invariant\<close>

lemma FindEntry_Some:
  "FindEntry session_id m = Some e \<Longrightarrow> e \<in> set (sm_sessions m) \<and> entry_id e = session_id"
  by (auto simp: FindEntry_def find_Some_iff)

lemma FindEntry_None: "FindEntry session_id m = None \<longleftrightarrow> session_id \<notin> entry_id ` set (sm_sessions m)"
  by (auto simp: FindEntry_def find_None_iff)

lemma FindEntry_ok: "FindEntry session_id m = Some e \<Longrightarrow> manager_inv m \<Longrightarrow> entry_ok e \<and> entry_id e = session_id"
  using FindEntry_Some [of session_id m e] by (auto simp: manager_inv_def list_all_iff)

lemma entry_ids_replace [simp]: "map entry_id (replace_entry e xs) = map entry_id xs"
  by (induction xs) auto

lemma set_replace: "set (replace_entry e xs) \<subseteq> insert e (set xs)"
  by (induction xs) auto

lemma manager_inv_set [simp]: "manager_inv m \<Longrightarrow> entry_ok e \<Longrightarrow> manager_inv (set_entry_state e m)"
  using set_replace [of e "sm_sessions m"] by (auto simp: manager_inv_def set_entry_state_def list_all_iff)

lemma manager_inv_frame [simp]:
  "manager_inv (m\<lparr>sm_store := st\<rparr>) = manager_inv m"
  "manager_inv (m\<lparr>sm_env_cache := c\<rparr>) = manager_inv m"
  "manager_inv (m\<lparr>sm_poll_count := n\<rparr>) = manager_inv m"
  "manager_inv (m\<lparr>sm_last_create_error_message := s\<rparr>) = manager_inv m"
  "manager_inv (m\<lparr>sm_last_create_error_session_id := i\<rparr>) = manager_inv m"
  "manager_inv (m\<lparr>sm_last_git_poll_at := a\<rparr>) = manager_inv m"
  "manager_inv (m\<lparr>sm_last_file_poll_at := a\<rparr>) = manager_inv m"
  by (simp_all add: manager_inv_def)

lemma manager_inv_Persist [simp]: "manager_inv (PersistEntry deps e m) = manager_inv m"
  by (simp add: PersistEntry_def)

lemma sessions_Persist [simp]: "sm_sessions (PersistEntry deps e m) = sm_sessions m"
  by (simp add: PersistEntry_def)

text \<open>A registry with a given list of sessions.\<close>

lemma manager_inv_sessions [simp]:
  "manager_inv (m\<lparr>sm_sessions := es\<rparr>) \<longleftrightarrow> distinct (map entry_id es) \<and> list_all entry_ok es"
  by (simp add: manager_inv_def)

lemma manager_inv_ids: "manager_inv m \<Longrightarrow> distinct (map entry_id (sm_sessions m))"
  and manager_inv_entries: "manager_inv m \<Longrightarrow> list_all entry_ok (sm_sessions m)"
  by (simp_all add: manager_inv_def)

lemmas manager_inv_parts = manager_inv_ids manager_inv_entries

lemma TryCreate_value: "TryCreate s = Some i \<Longrightarrow> sid_value i = s \<and> TryCreate (sid_value i) = Some i"
  by (auto simp: TryCreate_def split: if_splits)

lemma make_id_loop_fresh:
  "make_id_loop draws attempt left m = Some i \<Longrightarrow>
   FindEntry (sid_value i) m = None \<and> TryCreate (sid_value i) = Some i"
  by (induction left arbitrary: attempt) (auto simp: Let_def dest: TryCreate_value split: if_splits)

lemma MakeSessionId_fresh:
  "MakeSessionId draws m = Some i \<Longrightarrow>
   sid_value i \<notin> entry_id ` set (sm_sessions m) \<and> TryCreate (sid_value i) = Some i"
  using make_id_loop_fresh [of draws 0 32 m i] by (simp add: MakeSessionId_def FindEntry_None)


lemmas record_entry_defs = new_pty_entry_def new_log_entry_def recovered_entry_def SessionEntry_default_def

lemma facts_ok_new: "facts_ok session_id (session_id, NormalizeGroupTags group_tags)"
  by (simp add: facts_ok_def)

lemma rt_Start_new:
  assumes "md_status md = Created" "rt_Start pty (SessionRuntime_new api (SessionRecord_new md) spec p n) = (started, rt)"
  shows "rt_inv rt \<and> runtime_facts rt = (md_id md, md_group_tags md)"
  using rt_inv_Start [OF rt_inv_new [OF assms(1)], of pty api spec p n]
    runtime_facts_ops(1) [of pty "SessionRuntime_new api (SessionRecord_new md) spec p n"] assms(2)
  by (simp add: runtime_facts_def SessionRuntime_new_def SessionRecord_new_def Let_def)

lemma entry_id_failure:
  "entry_id ((SessionEntry_default i)
      \<lparr>me_recovered_snapshot := x0, me_created_at := x1,
       me_last_status_at := x2, me_last_raw_output_at := x3, me_last_meaningful_output_at := x4,
       me_last_output_at := x5, me_last_activity_at := x6, me_current_terminal_size := x7,
       me_last_observed_status := x8, me_last_observed_sequence := x9, me_effective_environment := x10\<rparr>) = sid_value i"
  by (simp add: entry_id_def SessionEntry_default_def)

lemma entry_id_pty:
  "entry_id ((new_pty_entry i rt0 t env)
      \<lparr>me_runtime := rt, me_last_observed_status := st, me_last_observed_sequence := n\<rparr>) = sid_value i"
  by (simp add: entry_id_def record_entry_defs)

lemma manager_inv_RecordCreateFailure:
  fixes m :: "('p, 'vt, 'l, 's) SessionManager"
  assumes "manager_inv m" "sid_value (md_id md) \<notin> entry_id ` set (sm_sessions m)"
    and "TryCreate (sid_value (md_id md)) = Some (md_id md)" "NormalizeGroupTags (md_group_tags md) = md_group_tags md"
  shows "manager_inv (RecordCreateFailureSession deps clock md env message m)"
proof -
  have "entry_ok ((SessionEntry_default (md_id md) :: ('p, 'vt, 'l) SessionEntry)
      \<lparr>me_recovered_snapshot := Some (failure_snapshot t (md\<lparr>md_status := Error\<rparr>) l), me_created_at := x1,
       me_last_status_at := x2, me_last_raw_output_at := x3, me_last_meaningful_output_at := x4,
       me_last_output_at := x5, me_last_activity_at := x6, me_current_terminal_size := x7,
       me_last_observed_status := x8, me_last_observed_sequence := x9, me_effective_environment := x10\<rparr>)"
    for t l x1 x2 x3 x4 x5 x6 x7 x8 x9 x10
    using assms(3,4)
    by (simp add: entry_defs SessionEntry_default_def failure_snapshot_def Let_def snapshot_facts_def facts_ok_def
        terminal_status_def)
  then show ?thesis
    using assms(1,2) by (simp add: RecordCreateFailureSession_def Let_def entry_id_failure manager_inv_parts)
qed

lemma manager_inv_start_pty:
  fixes m :: "('p, 'vt, 'l, 's) SessionManager"
  assumes "manager_inv m" "sid_value (md_id md) \<notin> entry_id ` set (sm_sessions m)"
    and "TryCreate (sid_value (md_id md)) = Some (md_id md)" "NormalizeGroupTags (md_group_tags md) = md_group_tags md"
    and "md_status md = Created"
  shows "manager_inv (snd (start_pty_session deps inputs clock md spec env process m))"
proof -
  obtain started rt where s: "rt_Start (dp_pty deps) (SessionRuntime_new (dp_vterm deps) (SessionRecord_new md) spec
      process kOutputBufferCapacityBytes) = (started, rt)" by fastforce
  have "entry_ok ((new_pty_entry (md_id md) rt0 t env :: ('p, 'vt, 'l) SessionEntry)
      \<lparr>me_runtime := Some rt, me_last_observed_status := st, me_last_observed_sequence := n\<rparr>)" for rt0 t st n
    using rt_Start_new [OF assms(5) s] assms(3,4)
    by (simp add: entry_defs record_entry_defs facts_ok_def)
  then show ?thesis
    using s assms
    by (cases started)
      (simp_all add: start_pty_session_def Let_def entry_id_pty manager_inv_parts manager_inv_RecordCreateFailure)
qed

lemma manager_inv_CreateSession:
  assumes inv: "manager_inv m"
  shows "manager_inv (snd (CreateSession deps inputs clock request m))"
proof -
  let ?m0 = "m\<lparr>sm_last_create_error_message := [], sm_last_create_error_session_id := None\<rparr>"
  show ?thesis
  proof (cases "MakeSessionId (ci_draws inputs) ?m0")
    case None
    with inv show ?thesis by (simp add: CreateSession_def)
  next
    case (Some i)
    from MakeSessionId_fresh [OF this]
    have fresh: "sid_value i \<notin> entry_id ` set (sm_sessions m)" "TryCreate (sid_value i) = Some i" by simp_all
    with inv Some show ?thesis
      by (auto simp: CreateSession_def Let_def intro!: manager_inv_RecordCreateFailure manager_inv_start_pty
          split: sum.split option.split prod.split)
  qed
qed

lemma entry_ok_new_log:
  "TryCreate (sid_value (md_id md)) = Some (md_id md) \<Longrightarrow>
   NormalizeGroupTags (md_group_tags md) = md_group_tags md \<Longrightarrow> entry_ok (new_log_entry md limits t env)"
  "TryCreate (sid_value (md_id md)) = Some (md_id md) \<Longrightarrow>
   NormalizeGroupTags (md_group_tags md) = md_group_tags md \<Longrightarrow>
   entry_ok ((new_log_entry md limits t env)\<lparr>me_log_process := p\<rparr>)"
  "entry_id (new_log_entry md limits t env) = sid_value (md_id md)"
  "entry_id ((new_log_entry md limits t env)\<lparr>me_log_process := p\<rparr>) = sid_value (md_id md)"
  by (simp_all add: entry_defs record_entry_defs log_snapshot_def snapshot_facts_def facts_ok_def)

lemma manager_inv_CreateLogSession:
  assumes inv: "manager_inv m"
  shows "manager_inv (snd (CreateLogSession deps inputs clock request m))"
proof (cases "MakeSessionId (ci_draws inputs)
    (m\<lparr>sm_last_create_error_message := [], sm_last_create_error_session_id := None\<rparr>)")
  case None
  with inv show ?thesis by (simp add: CreateLogSession_def)
next
  case (Some i)
  from MakeSessionId_fresh [OF this] inv Some show ?thesis
    by (simp add: CreateLogSession_def Let_def manager_inv_parts entry_ok_new_log
        split: sum.split option.split prod.split)
qed

lemma entry_ok_recovered:
  "TryCreate (pr_session_id r) = Some i \<Longrightarrow> entry_ok (recovered_entry i r)"
  "entry_id (recovered_entry i r) = sid_value i"
  by (auto simp: entry_defs recovered_entry_def SessionEntry_default_def recovered_snapshot_of_def Let_def
      snapshot_facts_def facts_ok_def terminal_status_def NormalizeRecoveredStatus_def dest: TryCreate_value)

lemma manager_inv_load_loop:
  "manager_inv m \<Longrightarrow> manager_inv (snd (load_persisted_loop clock n records m))"
proof (induction records arbitrary: n m)
  case (Cons r records)
  show ?case
  proof (cases "FindEntry (pr_session_id r) m \<noteq> None \<or> TryCreate (pr_session_id r) = None")
    case True
    with Cons show ?thesis by (auto split: option.split)
  next
    case False
    then obtain i where i: "TryCreate (pr_session_id r) = Some i" "FindEntry (pr_session_id r) m = None" by auto
    with Cons.prems have "manager_inv (m\<lparr>sm_sessions := sm_sessions m
        @ [MaybeTraceNodeSummaryTransition (clock n) (recovered_entry i r)]\<rparr>)"
      using TryCreate_value [OF i(1)]
      by (simp add: entry_ok_recovered manager_inv_parts FindEntry_None)
    from Cons.IH [OF this] i show ?thesis by simp
  qed
qed simp

lemma manager_inv_LoadPersisted: "manager_inv m \<Longrightarrow> manager_inv (snd (LoadPersistedSessions deps clock m))"
  by (simp add: LoadPersistedSessions_def manager_inv_load_loop split: option.split)

lemma manager_inv_append_log: "manager_inv m \<Longrightarrow> manager_inv (snd (append_log stream i data t m))"
proof -
  assume inv: "manager_inv m"
  have "entry_ok (e\<lparr>me_log_buffer := Some b, me_recovered_snapshot :=
      map_option (\<lambda>s. s\<lparr>sn_current_sequence := n\<rparr>) (me_recovered_snapshot e)\<rparr>)"
    if "entry_ok e" "me_log_buffer e \<noteq> None" for e :: "('a, 'b, 'c) SessionEntry" and b n
    using that by (auto simp: entry_defs snapshot_facts_def split: option.splits)
  with inv show ?thesis
    by (auto simp: append_log_def Let_def dest: FindEntry_ok split: option.split)
qed

lemma entry_ok_SendInput:
  "entry_ok e \<Longrightarrow> me_runtime e = Some rt \<Longrightarrow> entry_ok (e\<lparr>me_runtime := Some (snd (rt_WriteInput pty input rt))\<rparr>)"
  "entry_ok e \<Longrightarrow> me_runtime e = Some rt \<Longrightarrow>
   entry_ok (e\<lparr>me_runtime := Some (snd (rt_ResizeTerminal api pty sz rt))\<rparr>)"
  "entry_ok e \<Longrightarrow> me_runtime e = Some rt \<Longrightarrow> entry_ok (e\<lparr>me_runtime := Some (rt_UpdateViewport v sz rt)\<rparr>)"
  "entry_ok e \<Longrightarrow> me_runtime e = Some rt \<Longrightarrow> entry_ok (e\<lparr>me_runtime := Some (rt_RemoveViewport v rt)\<rparr>)"
  "entry_ok e \<Longrightarrow> me_runtime e = Some rt \<Longrightarrow> entry_ok (e\<lparr>me_runtime := Some (snd (rt_Shutdown pty rt))\<rparr>)"
  "entry_ok e \<Longrightarrow> me_runtime e = Some rt \<Longrightarrow> entry_ok (e\<lparr>me_runtime := Some (rt_UpdateGitSummary g rt)\<rparr>)"
  "entry_ok e \<Longrightarrow> me_runtime e = Some rt \<Longrightarrow>
   entry_ok (e\<lparr>me_runtime := Some (rt_UpdateRecentFileChanges changes rt)\<rparr>)"
  by (auto intro!: entry_ok_runtime rt_inv_WriteInput rt_inv_Resize rt_inv_viewports rt_inv_Shutdown rt_inv_updates
      dest: entry_ok_runtime_inv simp: runtime_facts_ops)

lemmas entry_ok_runtime_ops = entry_ok_SendInput

lemma manager_inv_runtime_ops:
  assumes "manager_inv m"
  shows "manager_inv (snd (SendInput deps i input m))"
    and "manager_inv (snd (ResizeSession deps i sz m))"
    and "manager_inv (snd (UpdateViewport i v sz m))"
    and "manager_inv (RemoveViewport i v m)"
  using assms
  by (auto simp: SendInput_def ResizeSession_def UpdateViewport_def RemoveViewport_def Let_def case_prod_beta
      entry_ok_runtime_ops dest!: FindEntry_ok split: option.split)

lemma manager_inv_UpdateSessionGroupTags:
  assumes "manager_inv m"
  shows "manager_inv (snd (UpdateSessionGroupTags deps clock i mode tags m))"
proof (cases "FindEntry i m")
  case None
  with assms show ?thesis by (simp add: UpdateSessionGroupTags_def)
next
  case (Some e)
  note ok = FindEntry_ok [OF Some assms]
  have tags: "NormalizeGroupTags (ApplyGroupTagMutation ts mode tags) = ApplyGroupTagMutation ts mode tags" for ts
    by (rule group_tag_mutation_normalized)
  show ?thesis
  proof (cases "me_runtime e")
    case (Some rt)
    with ok have "entry_ok (e\<lparr>me_runtime := Some (rt_UpdateGroupTags (ApplyGroupTagMutation ts mode tags) rt)\<rparr>)" for ts
      by (auto simp: entry_defs runtime_facts_ops facts_ok_def tags intro: rt_inv_updates)
    with assms \<open>FindEntry i m = Some e\<close> Some show ?thesis by (simp add: UpdateSessionGroupTags_def Let_def)
  next
    case None
    with ok have "entry_ok (e\<lparr>me_recovered_snapshot := map_option (\<lambda>s. s\<lparr>sn_metadata := (sn_metadata s)
          \<lparr>md_group_tags := ApplyGroupTagMutation (md_group_tags (sn_metadata s)) mode tags\<rparr>\<rparr>) (me_recovered_snapshot e)\<rparr>)"
      by (auto simp: entry_defs snapshot_facts_def facts_ok_def tags split: option.splits)
    with assms \<open>FindEntry i m = Some e\<close> None show ?thesis by (simp add: UpdateSessionGroupTags_def Let_def)
  qed
qed

lemma manager_inv_control:
  assumes "manager_inv m"
  shows "manager_inv (snd (RequestControl clock i c k m))"
    and "manager_inv (snd (ReleaseControl clock i c m))"
  using assms
  by (auto simp: RequestControl_def ReleaseControl_def entry_ok_controller dest!: FindEntry_ok split: option.split)

lemma manager_inv_StopSession:
  assumes "manager_inv m"
  shows "manager_inv (snd (StopSession deps clock i m))"
  using assms
  by (auto simp: StopSession_def Let_def case_prod_beta entry_ok_runtime_ops entry_ok_log_process entry_ok_end_log
      dest!: FindEntry_ok split: option.split)


lemma clear_loop_kept:
  "fst (snd (clear_loop deps clock i es st)) = filter (\<lambda>e. IsInteractiveStatus (md_status (sn_metadata (the (entry_snapshot e))))) es"
  by (induction es arbitrary: i st) (simp_all add: Let_def case_prod_beta BuildSummary_def)

lemma manager_inv_Clear: "manager_inv m \<Longrightarrow> manager_inv (snd (ClearInactiveSessions deps clock m))"
  using clear_loop_kept [of deps clock 0 "sm_sessions m" "sm_store m"]
  by (auto simp: ClearInactiveSessions_def case_prod_beta manager_inv_def distinct_map_filter list_all_iff)

lemma entry_id_log_process [simp]: "entry_id (e\<lparr>me_log_process := p\<rparr>) = entry_id e"
  by (simp add: entry_id_def)

lemma shutdown_log_process_ok:
  "entry_ok e \<Longrightarrow> entry_ok (snd (snd (shutdown_log_process deps t e)))
    \<and> entry_id (snd (snd (shutdown_log_process deps t e))) = entry_id e"
  by (simp add: shutdown_log_process_def case_prod_beta Let_def entry_ok_end_log entry_ok_log_process
      entry_id_log_process split: option.split)

lemma shutdown_controller_ok:
  "entry_ok e \<Longrightarrow> entry_ok (snd (shutdown_controller e)) \<and> entry_id (snd (shutdown_controller e)) = entry_id e"
  by (simp add: shutdown_controller_def)

lemma entry_id_runtime [simp]: "entry_id (e\<lparr>me_runtime := r\<rparr>) = entry_id e"
  by (simp add: entry_id_def)

lemma entry_id_times [simp]:
  "entry_id (e\<lparr>me_last_status_at := x\<rparr>) = entry_id e" "entry_id (e\<lparr>me_last_activity_at := x\<rparr>) = entry_id e"
  "entry_id (e\<lparr>me_last_file_change_at := x\<rparr>) = entry_id e" "entry_id (e\<lparr>me_last_git_change_at := x\<rparr>) = entry_id e"
  by (simp_all add: entry_id_def)

lemma shutdown_rest_ok:
  assumes "entry_ok e"
  shows "entry_ok (fst (snd (shutdown_rest deps t n changed e st)))
    \<and> entry_id (fst (snd (shutdown_rest deps t n changed e st))) = entry_id e"
  using shutdown_log_process_ok [OF assms, of deps t]
    shutdown_controller_ok [of "snd (snd (shutdown_log_process deps t e))"]
  by (simp add: shutdown_rest_def case_prod_beta)

lemma shutdown_entry_ok:
  assumes "entry_ok e"
  shows "entry_ok (fst (snd (shutdown_entry deps clock e st)))
    \<and> entry_id (fst (snd (shutdown_entry deps clock e st))) = entry_id e"
proof (cases "me_runtime e")
  case None
  with shutdown_rest_ok [OF assms] show ?thesis by (simp add: shutdown_entry_def)
next
  case (Some rt)
  let ?e = "e\<lparr>me_runtime := Some (snd (rt_Shutdown (dp_pty deps) rt))\<rparr>"
  have "entry_ok ?e" using assms Some by (rule entry_ok_runtime_ops)
  then show ?thesis
    using shutdown_rest_ok [of ?e deps "clock 1" 0 True st]
      shutdown_rest_ok [of "?e\<lparr>me_last_status_at := Some (clock 0), me_last_activity_at := Some (clock 0)\<rparr>" deps "clock 1" 1 True st] Some
    by (simp add: shutdown_entry_def Let_def case_prod_beta entry_id_def)
qed

lemma shutdown_loop_ok:
  "list_all entry_ok es \<Longrightarrow>
   list_all entry_ok (fst (snd (shutdown_loop deps clock i es st)))
   \<and> map entry_id (fst (snd (shutdown_loop deps clock i es st))) = map entry_id es"
  by (induction es arbitrary: i st) (simp_all add: Let_def case_prod_beta shutdown_entry_ok)

lemma manager_inv_Shutdown: "manager_inv m \<Longrightarrow> manager_inv (snd (ShutdownManager deps clock m))"
  using shutdown_loop_ok [of "sm_sessions m" deps clock 0 "sm_store m"]
  by (simp add: ShutdownManager_def case_prod_beta manager_inv_def)

lemma manager_inv_PollSession:
  assumes "manager_inv m" "PollSession deps clock i t m = Some (polled, m')"
  shows "manager_inv m'"
proof (cases "FindEntry i m")
  case None
  with assms show ?thesis by (simp add: PollSession_def)
next
  case (Some e)
  note ok = conjunct1 [OF FindEntry_ok [OF Some assms(1)]]
  show ?thesis
  proof (cases "me_log_process e")
    case process: (Some p)
    then have "entry_ok (e\<lparr>me_log_process := Some q\<rparr>)"
      "entry_ok (end_log_session now s (e\<lparr>me_log_process := Some q\<rparr>))" for q now s
      using ok by (auto intro!: entry_ok_end_log entry_ok_log_process)
    with assms Some process show ?thesis
      by (auto simp: PollSession_def Let_def case_prod_beta split: option.splits)
  next
    case None
    show ?thesis
    proof (cases "me_runtime e")
      case (Some rt)
      with assms None \<open>FindEntry i m = Some e\<close> show ?thesis
        using runtime_kept_PollOnce [of "dp_vterm deps" "dp_pty deps" t rt] entry_ok_runtime_inv [OF ok Some]
          entry_ok_runtime [OF ok Some]
        by (auto simp: PollSession_def Let_def)
    qed (use assms None Some in \<open>simp add: PollSession_def\<close>)
  qed
qed

lemma entry_ids_set_entry [simp]: "map entry_id (sm_sessions (set_entry_state e m)) = map entry_id (sm_sessions m)"
  by (simp add: set_entry_state_def)

lemma entry_ids_PollSession:
  "PollSession deps clock i t m = Some (polled, m') \<Longrightarrow> map entry_id (sm_sessions m') = map entry_id (sm_sessions m)"
  by (auto simp: PollSession_def Let_def case_prod_beta split: option.splits)

lemma observe_workspace_ok:
  assumes "entry_ok e"
  shows "entry_ok (fst (observe_workspace deps clock g f obs e st))
    \<and> entry_id (fst (observe_workspace deps clock g f obs e st)) = entry_id e"
proof (cases "me_runtime e")
  case None
  with assms show ?thesis by (simp add: observe_workspace_def)
next
  case (Some rt)
  let ?g = "observe_git deps (clock 3) (clock 4) (fst obs) rt e st"
  have git: "entry_ok (fst ?g) \<and> entry_id (fst ?g) = entry_id e \<and> me_runtime (fst ?g) \<noteq> None"
    using assms Some entry_ok_runtime_ops(6) [OF assms Some, of "fst obs"]
    by (auto simp: observe_git_def Let_def)
  have files: "entry_ok (fst (observe_files deps a b ch (the (me_runtime x)) x st'))
      \<and> entry_id (fst (observe_files deps a b ch (the (me_runtime x)) x st')) = entry_id x"
    if "entry_ok x" "me_runtime x \<noteq> None" for x a b ch st'
    using that entry_ok_runtime_ops(7) [OF that(1)]
    by (auto simp: observe_files_def Let_def)
  from git files [of "fst ?g"] files [of e] assms Some show ?thesis
    by (auto simp: observe_workspace_def Let_def case_prod_beta)
qed

lemma manager_inv_poll_all_loop:
  "poll_all_loop deps clock g f obs t i n m = Some m' \<Longrightarrow> manager_inv m \<Longrightarrow> i + n \<le> length (sm_sessions m) \<Longrightarrow>
   manager_inv m' \<and> map entry_id (sm_sessions m') = map entry_id (sm_sessions m)"
proof (induction n arbitrary: i m)
  case (Suc n)
  let ?e = "sm_sessions m ! i"
  show ?case
  proof (cases "skips_poll ?e")
    case True
    with Suc show ?thesis by (simp add: Let_def)
  next
    case False
    with Suc.prems obtain polled m1 where p: "PollSession deps (clock i) (entry_id ?e) t m = Some (polled, m1)"
      by (auto simp: Let_def split: option.splits)
    let ?w = "observe_workspace deps (clock i) g f (obs (entry_id ?e)) (sm_sessions m1 ! i) (sm_store m1)"
    let ?m2 = "m1\<lparr>sm_sessions := (sm_sessions m1)[i := fst ?w], sm_store := snd ?w\<rparr>"
    have inv1: "manager_inv m1" by (rule manager_inv_PollSession [OF Suc.prems(2) p])
    have ids: "map entry_id (sm_sessions m1) = map entry_id (sm_sessions m)" by (rule entry_ids_PollSession [OF p])
    then have len: "length (sm_sessions m1) = length (sm_sessions m)" by (metis length_map)
    have i: "i < length (sm_sessions m1)" using Suc.prems(3) len by simp
    with inv1 have ok: "entry_ok (sm_sessions m1 ! i)" by (simp add: manager_inv_def list_all_length)
    note w = observe_workspace_ok [OF ok, of deps "clock i" g f "obs (entry_id ?e)" "sm_store m1"]
    have ids2: "map entry_id (sm_sessions ?m2) = map entry_id (sm_sessions m1)"
      using w map_update [of entry_id "sm_sessions m1" i "sm_sessions m1 ! i"] by (simp add: map_update)
    have inv2: "manager_inv ?m2"
      using inv1 w i ids2 by (auto simp: manager_inv_def list_all_iff dest!: set_update_subset_insert [THEN subsetD])
    have loop: "poll_all_loop deps clock g f obs t (i + 1) n ?m2 = Some m'"
      using Suc.prems(1) False p by (simp add: Let_def case_prod_beta)
    from Suc.IH [OF loop inv2] Suc.prems(3) len ids ids2 show ?thesis by simp
  qed
qed simp

lemma manager_inv_PollAll:
  "PollAll deps clock now_ms obs t m = Some m' \<Longrightarrow> manager_inv m \<Longrightarrow>
   manager_inv m' \<and> map entry_id (sm_sessions m') = map entry_id (sm_sessions m)"
  by (auto simp: PollAll_def Let_def dest: manager_inv_poll_all_loop)


section \<open>The state machine\<close>

inductive manager_step ::
    "('p, 'vt, 'l, 's) ManagerDeps \<Rightarrow> ('p, 'vt, 'l, 's) SessionManager \<Rightarrow> ('p, 'vt, 'l, 's) SessionManager \<Rightarrow> bool"
  for deps where
  create: "manager_step deps m (snd (CreateSession deps inputs clock request m))"
| create_log: "manager_step deps m (snd (CreateLogSession deps inputs clock log_request m))"
| append_stdout: "manager_step deps m (snd (AppendLogStdout i data t m))"
| append_stderr: "manager_step deps m (snd (AppendLogStderr i data t m))"
| load_persisted: "manager_step deps m (snd (LoadPersistedSessions deps clock m))"
| send_input: "manager_step deps m (snd (SendInput deps i input m))"
| group_tags: "manager_step deps m (snd (UpdateSessionGroupTags deps clock i mode group_tags m))"
| resize: "manager_step deps m (snd (ResizeSession deps i sz m))"
| update_viewport: "manager_step deps m (snd (UpdateViewport i v sz m))"
| remove_viewport: "manager_step deps m (RemoveViewport i v m)"
| stop: "manager_step deps m (snd (StopSession deps clock i m))"
| clear: "manager_step deps m (snd (ClearInactiveSessions deps clock m))"
| request_control: "manager_step deps m (snd (RequestControl clock i c k m))"
| release_control: "manager_step deps m (snd (ReleaseControl clock i c m))"
| shutdown: "manager_step deps m (snd (ShutdownManager deps clocks m))"
| poll_session: "PollSession deps clock i timeout_ms m = Some (polled, m') \<Longrightarrow> manager_step deps m m'"
| poll_all: "PollAll deps clocks steady_now observed timeout_ms m = Some m' \<Longrightarrow> manager_step deps m m'"

lemma manager_inv_new [simp]: "manager_inv (SessionManager_new st g f)"
  by (simp add: manager_inv_def SessionManager_new_def)

lemma manager_inv_step: "manager_step deps m m' \<Longrightarrow> manager_inv m \<Longrightarrow> manager_inv m'"
  by (induction rule: manager_step.induct)
    (auto simp: AppendLogStdout_def AppendLogStderr_def
      intro: manager_inv_CreateSession manager_inv_CreateLogSession manager_inv_append_log
        manager_inv_LoadPersisted manager_inv_runtime_ops manager_inv_UpdateSessionGroupTags manager_inv_StopSession
        manager_inv_Clear manager_inv_control manager_inv_Shutdown manager_inv_PollSession
      dest: manager_inv_PollAll)

lemma manager_inv_reachable: "(manager_step deps)\<^sup>*\<^sup>* (SessionManager_new st g f) m \<Longrightarrow> manager_inv m"
  by (induction rule: rtranclp_induct) (auto intro: manager_inv_step)


end
