(* ===== verification/Manager_Properties.thy ===== *)
theory Manager_Properties
  imports Manager_Invariant
begin

text \<open>
  What the session registry guarantees: a consistent state in every reachable configuration,
  the arbitration of control, the confinement of file reads, the end of all sessions at shutdown,
  the hands-off rule for sessions under a privileged controller, and the agreement of the two
  published views of a session.
\<close>

section \<open>Reachable states\<close>

text \<open>Claim C2: in every state that the registry can reach, whatever terminals, processes, stores and clocks do: ids are
  unique and valid, every session can be published under its own id (no empty optional is dereferenced), its tags
  are normalised, a remote controller has a holder, recovered sessions are ended, and every live runtime satisfies
  its own invariant.\<close>

theorem manager_reachable_consistent:
  assumes "(manager_step deps)\<^sup>*\<^sup>* (SessionManager_new st git_interval file_interval) m"
  shows "distinct (map entry_id (sm_sessions m))
    \<and> (\<forall>e \<in> set (sm_sessions m).
         list_all IsValidSessionIdChar (entry_id e) \<and> entry_snapshot e \<noteq> None
         \<and> su_id (BuildSummary now_ms e) = me_id e
         \<and> NormalizeGroupTags (su_group_tags (BuildSummary now_ms e)) = su_group_tags (BuildSummary now_ms e)
         \<and> (me_controller_kind e = ControllerRemote \<longrightarrow> me_controller_client_id e \<noteq> None)
         \<and> (me_is_recovered e \<longrightarrow> su_status (BuildSummary now_ms e) \<in> {Exited, Error})
         \<and> (\<forall>rt. me_runtime e = Some rt \<longrightarrow> rt_inv rt))"
proof -
  have inv: "manager_inv m" by (rule manager_inv_reachable [OF assms])
  have "list_all IsValidSessionIdChar (entry_id e)" "entry_snapshot e \<noteq> None"
    "su_id (BuildSummary now_ms e) = me_id e"
    "NormalizeGroupTags (su_group_tags (BuildSummary now_ms e)) = su_group_tags (BuildSummary now_ms e)"
    "me_controller_kind e = ControllerRemote \<longrightarrow> me_controller_client_id e \<noteq> None"
    "me_is_recovered e \<longrightarrow> su_status (BuildSummary now_ms e) \<in> {Exited, Error}"
    "\<forall>rt. me_runtime e = Some rt \<longrightarrow> rt_inv rt"
    if "e \<in> set (sm_sessions m)" for e
  proof -
    have ok: "entry_ok e" using that inv by (simp add: manager_inv_def list_all_iff)
    then obtain s where s: "entry_snapshot e = Some s" "facts_ok (me_id e) (snapshot_facts s)"
      by (rule entry_ok_snapshot)
    then show "entry_snapshot e \<noteq> None" "su_id (BuildSummary now_ms e) = me_id e"
      "NormalizeGroupTags (su_group_tags (BuildSummary now_ms e)) = su_group_tags (BuildSummary now_ms e)"
      by (simp_all add: BuildSummary_def Let_def facts_ok_def snapshot_facts_def)
    show "me_is_recovered e \<longrightarrow> su_status (BuildSummary now_ms e) \<in> {Exited, Error}"
      using ok by (auto simp: entry_ok_def state_ok_def BuildSummary_def Let_def entry_snapshot_def terminal_status_def
          split: option.splits)
    show "list_all IsValidSessionIdChar (entry_id e)"
      "me_controller_kind e = ControllerRemote \<longrightarrow> me_controller_client_id e \<noteq> None"
      "\<forall>rt. me_runtime e = Some rt \<longrightarrow> rt_inv rt"
      using ok by (auto simp: entry_ok_def state_ok_def controller_ok_def TryCreate_Some_iff)
  qed
  then show ?thesis using inv by (simp add: manager_inv_def)
qed

definition demo_log_api :: "nat LogProcessApi" where
  "demo_log_api = \<lparr>lp_Start = (\<lambda>spec. (\<lparr>st_started = True, st_pid = 5, st_error_message = []\<rparr>, 0)),
     lp_PollExit = (\<lambda>p. (None, p)), lp_Terminate = (\<lambda>p. (True, p))\<rparr>"

definition demo_deps :: "(string list, unit, nat, unit) ManagerDeps" where
  "demo_deps = \<lparr>dp_vterm = demo_vterm, dp_pty = demo_pty, dp_log = demo_log_api, dp_store = None\<rparr>"

definition demo_inputs :: "string list CreateInputs" where
  "demo_inputs = \<lparr>ci_draws = (\<lambda>n. (1000, n)), ci_host_identity = None, ci_getenv = Map.empty,
     ci_read_file = Map.empty, ci_run_shell = (\<lambda>p. undefined), ci_steady_now = 0,
     ci_process = None, ci_moved_from = (\<lambda>env. env)\<rparr>"

definition demo_log_request :: LogSessionCreateRequest where
  "demo_log_request = \<lparr>lc_workspace_root = ''/w'', lc_title = ''log'', lc_command_argv = None,
     lc_command_shell = None, lc_group_tags = ['' Build ''], lc_env_mode = None, lc_environment_overrides = [],
     lc_env_file_path = None, lc_buffer_limits = \<lparr>li_max_bytes = 100, li_max_entries = 10\<rparr>\<rparr>"

definition demo_manager :: "(string list, unit, nat, unit) SessionManager" where
  "demo_manager = snd (CreateLogSession demo_deps demo_inputs (\<lambda>i. 7) demo_log_request (SessionManager_new () 1 1))"

definition demo_session :: string where
  "demo_session = ''s_1000_0000000000000000''"

lemma demo_manager_ids: "map entry_id (sm_sessions demo_manager) = [demo_session]"
  by code_simp

lemma demo_manager_reachable:
  "(manager_step demo_deps)\<^sup>*\<^sup>* (SessionManager_new () 1 1) demo_manager"
  unfolding demo_manager_def by (rule r_into_rtranclp, rule manager_step.create_log)

theorem manager_reachable_consistent_witness:
  "\<exists>e. sm_sessions demo_manager = [e] \<and> entry_snapshot e \<noteq> None \<and> su_id (BuildSummary 8 e) = SessionId demo_session"
proof -
  obtain e where e: "sm_sessions demo_manager = [e]" "entry_id e = demo_session"
    using demo_manager_ids by auto
  then have "me_id e = SessionId demo_session" by (cases "me_id e") (simp add: entry_id_def)
  with manager_reachable_consistent [OF demo_manager_reachable, of 8] e show ?thesis by simp
qed

section \<open>Control\<close>

lemma FindEntry_set:
  "FindEntry i m = Some e \<Longrightarrow> entry_id e' = i \<Longrightarrow>
   FindEntry j (set_entry_state e' m) = (if j = i then Some e' else FindEntry j m)"
proof -
  have "find (\<lambda>x. entry_id x = i) xs = Some e \<Longrightarrow> entry_id e' = i \<Longrightarrow>
    find (\<lambda>x. entry_id x = j) (replace_entry e' xs) = (if j = i then Some e' else find (\<lambda>x. entry_id x = j) xs)" for xs
    by (induction xs) auto
  then show "FindEntry i m = Some e \<Longrightarrow> entry_id e' = i \<Longrightarrow> ?thesis" by (simp add: FindEntry_def set_entry_state_def)
qed

definition session_interactive :: "string \<Rightarrow> ('p, 'vt, 'l, 's) SessionManager \<Rightarrow> bool" where
  "session_interactive session_id m \<longleftrightarrow>
     (case FindEntry session_id m of
        None \<Rightarrow> False
      | Some e \<Rightarrow> IsInteractiveStatus (md_status (sn_metadata (the (entry_snapshot e)))))"

definition held_remotely_by_other :: "string \<Rightarrow> string \<Rightarrow> ('p, 'vt, 'l, 's) SessionManager \<Rightarrow> bool" where
  "held_remotely_by_other session_id client_id m \<longleftrightarrow>
     (case FindEntry session_id m of
        None \<Rightarrow> False
      | Some e \<Rightarrow> me_controller_kind e = ControllerRemote \<and> me_controller_client_id e \<noteq> Some client_id)"

lemma ReleaseControl_holder:
  assumes "FindEntry i m = Some e" "entry_id e = i" "me_controller_client_id e = Some c" "me_controller_kind e \<noteq> ControllerNone"
  shows "fst (ReleaseControl clock i c m) \<and> (\<forall>d. \<not> HasControl i d (snd (ReleaseControl clock i c m)))"
  using assms by (simp add: ReleaseControl_def HasControl_def FindEntry_set [OF assms(1)] entry_id_def)

lemma RequestControl_taken:
  assumes "FindEntry i m = Some e" "entry_id e = i"
    and "IsInteractiveStatus (md_status (sn_metadata (the (entry_snapshot e))))" "kind \<noteq> ControllerNone"
    and "me_controller_kind e \<noteq> ControllerRemote \<or> kind = ControllerHost"
    and "RequestControl clock i c kind m = (granted, m')"
  shows "granted" "FindEntry j m' = (if j = i then Some (take_control (\<lambda>n. clock (n + 1)) c kind e) else FindEntry j m)"
  using assms
  by (cases "me_controller_kind e"; auto simp: RequestControl_def BuildSummary_def Let_def FindEntry_set [OF assms(1)])+

lemma take_control_fields [simp]:
  "me_controller_client_id (take_control clock c kind e) = Some c"
  "me_controller_kind (take_control clock c kind e) = kind"
  by (simp_all add: take_control_def)

text \<open>Claim C4: control of a session is exclusive and granted by rank. A request is granted exactly when the session is
  interactive, the kind is a real one, and the session is not held remotely by another client, unless a host asks;
  the requester then holds control alone. A refused request changes nothing, other sessions are never affected, and
  a release succeeds for the holder and leaves the session without one.\<close>

theorem control_arbitration:
  assumes "manager_inv m" "RequestControl clock session_id client_id kind m = (granted, m')"
  shows "(granted \<longleftrightarrow> session_interactive session_id m \<and> kind \<noteq> ControllerNone
           \<and> (kind = ControllerHost \<or> \<not> held_remotely_by_other session_id client_id m))
    \<and> (granted \<longrightarrow> (\<forall>c. HasControl session_id c m' \<longleftrightarrow> c = client_id))
    \<and> (\<not> granted \<longrightarrow> m' = m)
    \<and> (\<forall>i c. i \<noteq> session_id \<longrightarrow> HasControl i c m' = HasControl i c m)
    \<and> (granted \<longrightarrow> fst (ReleaseControl clock session_id client_id m')
         \<and> (\<forall>c. \<not> HasControl session_id c (snd (ReleaseControl clock session_id client_id m'))))"
proof (cases "FindEntry session_id m")
  case None
  with assms show ?thesis by (auto simp: RequestControl_def session_interactive_def)
next
  case (Some e)
  have id: "entry_id e = session_id" and c: "controller_ok e"
    using FindEntry_ok [OF Some assms(1)] by (simp_all add: entry_ok_def)
  consider (refused) "\<not> IsInteractiveStatus (md_status (sn_metadata (the (entry_snapshot e)))) \<or> kind = ControllerNone"
    | (taken) "IsInteractiveStatus (md_status (sn_metadata (the (entry_snapshot e))))" "kind \<noteq> ControllerNone"
        "me_controller_kind e \<noteq> ControllerRemote \<or> kind = ControllerHost"
    | (held) "IsInteractiveStatus (md_status (sn_metadata (the (entry_snapshot e))))" "kind = ControllerRemote"
        "me_controller_kind e = ControllerRemote"
    by (cases kind) auto
  then show ?thesis
  proof cases
    case refused
    with assms(2) Some show ?thesis
      by (auto simp: RequestControl_def session_interactive_def BuildSummary_def Let_def)
  next
    case taken
    note out = RequestControl_taken [OF Some id taken assms(2)]
    have "entry_id (take_control (\<lambda>n. clock (n + 1)) client_id kind e) = session_id" using id by simp
    from ReleaseControl_holder [OF _ this, of m' client_id clock] out taken Some show ?thesis
      by (auto simp: HasControl_def session_interactive_def held_remotely_by_other_def)
  next
    case held
    then obtain h where h: "me_controller_client_id e = Some h" using c by (auto simp: controller_ok_def)
    have "granted = (h = client_id)" "m' = m"
      using assms(2) held h Some by (auto simp: RequestControl_def BuildSummary_def Let_def)
    with held Some h ReleaseControl_holder [OF Some id h, of clock] show ?thesis
      by (auto simp: HasControl_def session_interactive_def held_remotely_by_other_def)
  qed
qed

theorem control_arbitration_witness:
  "let m' = snd (RequestControl (\<lambda>i. 9) demo_session ''phone'' ControllerRemote demo_manager)
   in HasControl demo_session ''phone'' m' \<and> \<not> HasControl demo_session ''laptop'' m'"
proof -
  let ?r = "RequestControl (\<lambda>i. 9) demo_session ''phone'' ControllerRemote demo_manager"
  have "fst ?r" by code_simp
  then have r: "?r = (True, snd ?r)" by (simp add: prod_eq_iff)
  show ?thesis
    using control_arbitration [OF manager_inv_reachable [OF demo_manager_reachable] r] by simp
qed

section \<open>Workspace files\<close>

lemma IsPathWithinRoot_prefix: "IsPathWithinRoot root candidate \<longleftrightarrow> prefix root candidate"
  by (induction root candidate rule: IsPathWithinRoot.induct) auto

text \<open>Claim C33: reading a file of a session's workspace stays inside the workspace. Whatever path the client names, when
  the read succeeds the file that was opened is a regular file whose canonical path lies below the canonical
  workspace root of that session, no component of the request is a parent reference, and at most the requested
  number of bytes come back, with the truncation reported exactly when the file is longer.\<close>

theorem session_file_confined:
  assumes "\<forall>p reader n d. fv_open fv p = Some reader \<longrightarrow> reader n = Some d \<longrightarrow> length d \<le> n"
    and "fr_status (ReadSessionFile fv session_id workspace_path max_bytes m) = ReadOk"
  shows "\<exists>e root resolved size. FindEntry session_id m = Some e
    \<and> fv_weakly_canonical fv (fv_absolute fv (su_workspace_root (BuildSummary now_ms e))) = Some root
    \<and> fv_is_directory fv root
    \<and> fv_weakly_canonical fv (root @ path_components workspace_path) = Some resolved
    \<and> prefix root resolved \<and> ''..'' \<notin> set (path_components workspace_path) \<and> fv_is_regular_file fv resolved
    \<and> fv_file_size fv resolved = Some size
    \<and> (let r = ReadSessionFile fv session_id workspace_path max_bytes m in
       length (fr_content r) \<le> max_bytes \<and> fr_truncated r = (max_bytes < size)
       \<and> (\<exists>reader. fv_open fv resolved = Some reader
             \<and> (fr_content r = [] \<or> reader (min size max_bytes) = Some (fr_content r))))"
proof -
  have failure: "fr_status (read_failure st) = ReadOk \<longleftrightarrow> st = ReadOk" for st by (simp add: read_failure_def)
  have read: "\<exists>size reader. fv_is_regular_file fv p \<and> fv_file_size fv p = Some size \<and> fv_open fv p = Some reader
      \<and> fr_truncated (read_resolved fv w p max_bytes) = (max_bytes < size)
      \<and> length (fr_content (read_resolved fv w p max_bytes)) \<le> max_bytes
      \<and> (fr_content (read_resolved fv w p max_bytes) = []
         \<or> reader (min size max_bytes) = Some (fr_content (read_resolved fv w p max_bytes)))"
    if "fr_status (read_resolved fv w p max_bytes) = ReadOk" for w p
    using that assms(1)
    by (fastforce simp: read_resolved_def failure Let_def split: if_splits option.splits)
  from assms(2) obtain e root resolved where
    "FindEntry session_id m = Some e"
    "fv_weakly_canonical fv (fv_absolute fv (su_workspace_root (BuildSummary now_ms e))) = Some root"
    "fv_is_directory fv root"
    "fv_weakly_canonical fv (root @ path_components workspace_path) = Some resolved"
    "prefix root resolved" "''..'' \<notin> set (path_components workspace_path)"
    "ReadSessionFile fv session_id workspace_path max_bytes m = read_resolved fv workspace_path resolved max_bytes"
    by (auto simp: ReadSessionFile_def failure Let_def IsPathWithinRoot_prefix BuildSummary_def
        ContainsParentTraversal_def list_ex_iff split: if_splits option.splits)
  with assms(2) read [of workspace_path resolved] show ?thesis by (auto simp: Let_def)
qed

definition demo_files :: FileView where
  "demo_files = \<lparr>fv_absolute = path_components, fv_weakly_canonical = Some, fv_exists = (\<lambda>p. True),
     fv_is_directory = (\<lambda>p. True), fv_is_regular_file = (\<lambda>p. last p = ''notes''), fv_file_size = (\<lambda>p. Some 5),
     fv_open = (\<lambda>p. Some (\<lambda>n. Some (take n ''hello'')))\<rparr>"

theorem session_file_confined_witness:
  "\<exists>resolved. prefix (path_components ''/w'') resolved \<and> last resolved = ''notes''
     \<and> fr_content (ReadSessionFile demo_files demo_session ''a/notes'' 3 demo_manager) = ''hel''"
proof -
  have ok: "fr_status (ReadSessionFile demo_files demo_session ''a/notes'' 3 demo_manager) = ReadOk"
    "fr_content (ReadSessionFile demo_files demo_session ''a/notes'' 3 demo_manager) = ''hel''"
    "map_option (\<lambda>e. su_workspace_root (BuildSummary 0 e)) (FindEntry demo_session demo_manager) = Some ''/w''"
    by code_simp+
  have law: "\<forall>p reader n d. fv_open demo_files p = Some reader \<longrightarrow> reader n = Some d \<longrightarrow> length d \<le> n"
    by (auto simp: demo_files_def)
  obtain e root resolved where "FindEntry demo_session demo_manager = Some e"
    "fv_weakly_canonical demo_files (fv_absolute demo_files (su_workspace_root (BuildSummary 0 e))) = Some root"
    "prefix root resolved" "fv_is_regular_file demo_files resolved"
    using session_file_confined [OF law ok(1), of 0] by blast
  with ok(2,3) show ?thesis
    by (intro exI [of _ resolved]) (simp add: demo_files_def)
qed

section \<open>Shutdown\<close>

definition entry_ended :: "('p, 'vt, 'l) SessionEntry \<Rightarrow> bool" where
  "entry_ended e \<longleftrightarrow>
     \<not> IsInteractiveStatus (md_status (sn_metadata (the (entry_snapshot e))))
     \<or> me_category e = CategoryManagedLog \<and> me_log_process e = None"

definition entry_uncontrolled :: "('p, 'vt, 'l) SessionEntry \<Rightarrow> bool" where
  "entry_uncontrolled e \<longleftrightarrow> me_controller_client_id e = None \<and> me_controller_kind e = ControllerHost"

lemma shutdown_controller_fields:
  "entry_uncontrolled (snd (shutdown_controller e))" "entry_snapshot (snd (shutdown_controller e)) = entry_snapshot e"
  "me_category (snd (shutdown_controller e)) = me_category e"
  "me_log_process (snd (shutdown_controller e)) = me_log_process e"
  by (simp_all add: shutdown_controller_def ResetControllerState_def entry_uncontrolled_def entry_snapshot_def
      cong: option.case_cong)

lemma shutdown_rest_ended:
  assumes "entry_ok e" "\<forall>p. fst (lp_Terminate (dp_log deps) p)"
    and "me_runtime e \<noteq> None \<longrightarrow> entry_ended e"
  shows "entry_ended (fst (snd (shutdown_rest deps t n changed e st)))
    \<and> entry_uncontrolled (fst (snd (shutdown_rest deps t n changed e st)))"
proof -
  let ?x = "snd (snd (shutdown_log_process deps t e))"
  have "entry_ended ?x"
    using assms
    by (cases "me_category e")
      (auto simp: shutdown_log_process_def end_log_session_def entry_ended_def entry_snapshot_def entry_ok_def
        state_ok_def IsInteractiveStatus_def terminal_status_def case_prod_beta Let_def split: option.splits)
  then show ?thesis
    by (auto simp: shutdown_rest_def case_prod_beta shutdown_controller_fields entry_ended_def)
qed

lemma runtime_shutdown_ends:
  assumes "rt_inv rt" "\<forall>p. fst (pty_Terminate pty p)"
  shows "fst (rt_Shutdown pty rt) \<and> \<not> IsInteractiveStatus (sr_status (rt_record (snd (rt_Shutdown pty rt))))"
  using assms(1)
proof (cases rule: rt_Shutdown_cases [where pty = pty])
  case (stopped p)
  have "sr_inv (rt_record (rt\<lparr>rt_pty := p, rt_pid := None\<rparr>))" using assms(1) by (simp add: rt_inv_def rt_live_def)
  with stopped show ?thesis by (auto simp: rt_transition_eq IsInteractive_simp IsInteractiveStatus_def)
next
  case (stuck p)
  with assms(2) [rule_format, of "rt_pty rt"] show ?thesis by simp
qed (auto simp: IsInteractiveStatus_def terminal_status_def)

lemma shutdown_entry_ended:
  assumes "entry_ok e" "\<forall>p. fst (lp_Terminate (dp_log deps) p)" "\<forall>p. fst (pty_Terminate (dp_pty deps) p)"
  shows "entry_ended (fst (snd (shutdown_entry deps clock e st)))
    \<and> entry_uncontrolled (fst (snd (shutdown_entry deps clock e st)))"
proof (cases "me_runtime e")
  case None
  with shutdown_rest_ended [OF assms(1,2)] show ?thesis by (simp add: shutdown_entry_def)
next
  case (Some rt)
  note inv = entry_ok_runtime_inv [OF assms(1) Some]
  let ?s = "rt_Shutdown (dp_pty deps) rt"
  let ?e = "e\<lparr>me_runtime := Some (snd ?s)\<rparr>"
  have s: "fst ?s \<and> \<not> IsInteractiveStatus (sr_status (rt_record (snd ?s)))"
    by (rule runtime_shutdown_ends [OF inv assms(3)])
  then have ended: "entry_ended ?e" "entry_ended (?e\<lparr>me_last_status_at := a, me_last_activity_at := b\<rparr>)" for a b
    by (simp_all add: entry_ended_def entry_snapshot_def sr_snapshot_def)
  have ok: "entry_ok ?e" using assms(1) Some by (rule entry_ok_runtime_ops)
  then have rest: "entry_ended (fst (snd (shutdown_rest deps t n ch x st))) \<and> entry_uncontrolled (fst (snd (shutdown_rest deps t n ch x st)))"
    if "x = ?e \<or> (\<exists>a b. x = ?e\<lparr>me_last_status_at := a, me_last_activity_at := b\<rparr>)" for x t n ch
    using that ended by (intro shutdown_rest_ended assms(2)) auto
  from s Some show ?thesis
    by (auto simp: shutdown_entry_def Let_def case_prod_beta intro!: rest [THEN conjunct1] rest [THEN conjunct2])
qed

lemma shutdown_loop_ended:
  assumes "\<forall>p. fst (lp_Terminate (dp_log deps) p)" "\<forall>p. fst (pty_Terminate (dp_pty deps) p)"
  shows "list_all entry_ok es \<Longrightarrow>
    list_all (\<lambda>e. entry_ended e \<and> entry_uncontrolled e) (fst (snd (shutdown_loop deps clock i es st)))"
proof (induction es arbitrary: i st)
  case (Cons e es)
  with shutdown_entry_ended [OF _ assms, of e "clock i" st] show ?case
    by (simp add: Let_def case_prod_beta)
qed simp

text \<open>Claim C34: when the processes can be terminated, a shutdown of the registry ends every session that has a process:
  afterwards no terminal session and no log session with a process is interactive, nobody controls a session any
  more, and no session was dropped.\<close>

theorem manager_shutdown_ends_all:
  assumes "manager_inv m" "\<forall>p. fst (pty_Terminate (dp_pty deps) p)" "\<forall>p. fst (lp_Terminate (dp_log deps) p)"
    and "ShutdownManager deps clock m = (ended, m')"
  shows "map entry_id (sm_sessions m') = map entry_id (sm_sessions m)
    \<and> (\<forall>e \<in> set (sm_sessions m').
         (IsInteractiveStatus (su_status (BuildSummary now_ms e)) \<longrightarrow>
            me_category e = CategoryManagedLog \<and> me_log_process e = None)
         \<and> su_controller_client_id (BuildSummary now_ms e) = None
         \<and> su_controller_kind (BuildSummary now_ms e) = ControllerHost)"
proof -
  have m': "sm_sessions m' = fst (snd (shutdown_loop deps clock 0 (sm_sessions m) (sm_store m)))"
    using assms(4) by (auto simp: ShutdownManager_def case_prod_beta)
  have entries: "list_all entry_ok (sm_sessions m)" using assms(1) by (simp add: manager_inv_def)
  show ?thesis
    using shutdown_loop_ok [OF entries, of deps clock 0 "sm_store m"]
      shutdown_loop_ended [OF assms(3,2) entries, of clock 0 "sm_store m"]
    unfolding m' [symmetric]
    by (auto simp: list_all_iff entry_ended_def entry_uncontrolled_def BuildSummary_def Let_def)
qed


definition demo_pty_session :: "(string list, unit, nat, unit) SessionManager" where
  "demo_pty_session = snd (CreateSession demo_deps
     (demo_inputs\<lparr>ci_process := Some [''ab''], ci_draws := (\<lambda>n. (2000, n))\<rparr>) (\<lambda>i. 7)
     \<lparr>cs_provider = Codex, cs_workspace_root = ''/w'', cs_title = ''t'', cs_conversation_id = None,
      cs_command_argv = None, cs_command_shell = None, cs_group_tags = [], cs_env_mode = None,
      cs_environment_overrides = [], cs_env_file_path = None\<rparr> demo_manager)"

theorem manager_shutdown_ends_all_witness:
  "filter (\<lambda>e. me_category e = CategoryPty \<and> IsInteractiveStatus (su_status (BuildSummary 9 e)))
     (sm_sessions (snd (ShutdownManager demo_deps (\<lambda>i j. 9) demo_pty_session))) = []"
proof -
  have inv: "manager_inv demo_pty_session"
    unfolding demo_pty_session_def
    by (intro manager_inv_CreateSession manager_inv_reachable [OF demo_manager_reachable])
  have laws: "\<forall>p. fst (pty_Terminate (dp_pty demo_deps) p)" "\<forall>p. fst (lp_Terminate (dp_log demo_deps) p)"
    by (simp_all add: demo_deps_def demo_pty_def demo_log_api_def)
  obtain n m' where s: "ShutdownManager demo_deps (\<lambda>i j. 9) demo_pty_session = (n, m')" by fastforce
  from manager_shutdown_ends_all [OF inv laws s, of 9] show ?thesis by (auto simp: s filter_empty_conv)
qed

section \<open>Polling leaves controlled sessions alone\<close>

lemma replace_entry_other:
  "i < length xs \<Longrightarrow> entry_id (xs ! i) \<noteq> entry_id e \<Longrightarrow> replace_entry e xs ! i = xs ! i"
  by (induction xs arbitrary: i) (auto simp: nth_Cons split: nat.splits)

lemma PollSession_other:
  assumes "PollSession deps clock j t m = Some (polled, m')" "i < length (sm_sessions m)" "entry_id (sm_sessions m ! i) \<noteq> j"
  shows "sm_sessions m' ! i = sm_sessions m ! i"
proof (cases "FindEntry j m")
  case None
  with assms(1) show ?thesis by (simp add: PollSession_def)
next
  case (Some e)
  then have "entry_id e = j" by (simp add: FindEntry_Some)
  with assms Some show ?thesis
    by (auto simp: PollSession_def Let_def case_prod_beta set_entry_state_def replace_entry_other
        split: option.splits)
qed

lemma poll_all_loop_spares:
  "poll_all_loop deps clock g f obs t i n m = Some m' \<Longrightarrow> manager_inv m \<Longrightarrow> i + n \<le> length (sm_sessions m) \<Longrightarrow>
   k < length (sm_sessions m) \<Longrightarrow> skips_poll (sm_sessions m ! k) \<Longrightarrow> sm_sessions m' ! k = sm_sessions m ! k"
proof (induction n arbitrary: i m)
  case (Suc n)
  let ?e = "sm_sessions m ! i"
  show ?case
  proof (cases "skips_poll ?e")
    case True
    with Suc.prems show ?thesis by (auto simp: Let_def intro!: Suc.IH [of "i + 1"])
  next
    case False
    with Suc.prems obtain polled m1 where p: "PollSession deps (clock i) (entry_id ?e) t m = Some (polled, m1)"
      by (auto simp: Let_def split: option.splits)
    let ?w = "observe_workspace deps (clock i) g f (obs (entry_id ?e)) (sm_sessions m1 ! i) (sm_store m1)"
    let ?m2 = "m1\<lparr>sm_sessions := (sm_sessions m1)[i := fst ?w], sm_store := snd ?w\<rparr>"
    have "k \<noteq> i" using False Suc.prems(5) by auto
    with Suc.prems have other: "entry_id (sm_sessions m ! k) \<noteq> entry_id ?e"
      by (auto simp: manager_inv_def distinct_conv_nth)
    have loop1: "poll_all_loop deps clock g f obs t i 1 m = Some ?m2"
      using False p by (simp add: Let_def case_prod_beta)
    have loop: "poll_all_loop deps clock g f obs t (i + 1) n ?m2 = Some m'"
      using Suc.prems(1) False p by (simp add: Let_def case_prod_beta)
    have "i + 1 \<le> length (sm_sessions m)" using Suc.prems(3) by simp
    note kept = manager_inv_poll_all_loop [OF loop1 Suc.prems(2) this]
    have inv2: "manager_inv ?m2" by (rule conjunct1 [OF kept])
    have ids: "map entry_id (sm_sessions ?m2) = map entry_id (sm_sessions m)" by (rule conjunct2 [OF kept])
    then have len: "length (sm_sessions ?m2) = length (sm_sessions m)" by (metis length_map)
    have here: "sm_sessions ?m2 ! k = sm_sessions m ! k"
      using PollSession_other [OF p Suc.prems(4) other] \<open>k \<noteq> i\<close> by simp
    from Suc.IH [OF loop inv2] len here Suc.prems show ?thesis by simp
  qed
qed simp

lemma PollAll_spares:
  assumes "PollAll deps clock steady_now observed timeout_ms m = Some m'" "manager_inv m"
    and "k < length (sm_sessions m)" "skips_poll (sm_sessions m ! k)"
  shows "sm_sessions m' ! k = sm_sessions m ! k"
proof -
  obtain g f m1 where m1: "poll_all_loop deps clock g f observed timeout_ms 0 (length (sm_sessions m)) m1 = Some m'"
    "sm_sessions m1 = sm_sessions m"
    using assms(1) unfolding PollAll_def Let_def by fastforce
  then have "manager_inv m1" using assms(2) by (simp add: manager_inv_def)
  from poll_all_loop_spares [OF m1(1) this] m1(2) assms(3,4) show ?thesis by simp
qed

text \<open>Polling all sessions never touches a session whose controller reads the terminal itself: an entry held by
  a privileged client, like an entry without a process, is exactly as before, and no session appears or disappears.\<close>

theorem poll_all_spares_controlled:
  assumes "manager_inv m" "PollAll deps clock steady_now observed timeout_ms m = Some m'"
    and "e \<in> set (sm_sessions m)" "me_controller_kind e \<noteq> ControllerNone"
    and "IsPrivilegedControllerClientId (me_controller_client_id e)"
  shows "FindEntry (entry_id e) m' = Some e \<and> map entry_id (sm_sessions m') = map entry_id (sm_sessions m)"
proof -
  obtain k where k: "k < length (sm_sessions m)" "sm_sessions m ! k = e" using assms(3) by (auto simp: in_set_conv_nth)
  have ids: "map entry_id (sm_sessions m') = map entry_id (sm_sessions m)" and inv: "manager_inv m'"
    using manager_inv_PollAll [OF assms(2,1)] by simp_all
  have "skips_poll e" using assms(4,5) by (simp add: skips_poll_def)
  then have "sm_sessions m' ! k = e" using PollAll_spares [OF assms(2,1) k(1)] k(2) by simp
  moreover have "k < length (sm_sessions m')" using ids k by (metis length_map)
  ultimately have "e \<in> set (sm_sessions m')" by (auto simp: in_set_conv_nth)
  moreover have "x = e" if "x \<in> set (sm_sessions m')" "entry_id x = entry_id e" for x
    using that inv \<open>e \<in> set (sm_sessions m')\<close> by (auto simp: manager_inv_def distinct_map inj_on_def)
  moreover obtain x where x: "FindEntry (entry_id e) m' = Some x"
    using FindEntry_None [of "entry_id e" m'] \<open>e \<in> set (sm_sessions m')\<close> by auto
  ultimately have "x = e" using FindEntry_Some [OF x] by blast
  with x ids show ?thesis by simp
qed

lemma poll_all_loop_idle:
  "i + n \<le> length (sm_sessions m) \<Longrightarrow> list_all skips_poll (sm_sessions m) \<Longrightarrow>
   poll_all_loop deps clock g f obs t i n m = Some m"
  by (induction n arbitrary: i) (auto simp: Let_def list_all_length)

lemma PollAll_idle:
  "list_all skips_poll (sm_sessions m) \<Longrightarrow> \<exists>m'. PollAll deps clock steady_now obs t m = Some m'"
  by (simp add: PollAll_def Let_def poll_all_loop_idle)

theorem poll_all_spares_controlled_witness:
  "\<exists>e. FindEntry demo_session
     (the (PollAll demo_deps (\<lambda>i j. 9) 5 (\<lambda>i. undefined) 0
       (snd (RequestControl (\<lambda>i. 9) demo_session ''remote-controller-1'' ControllerRemote demo_manager)))) = Some e
   \<and> me_controller_client_id e = Some ''remote-controller-1''"
proof -
  let ?m = "snd (RequestControl (\<lambda>i. 9) demo_session ''remote-controller-1'' ControllerRemote demo_manager)"
  have inv: "manager_inv ?m" by (intro manager_inv_control manager_inv_reachable [OF demo_manager_reachable])
  have "map_option (\<lambda>e. (entry_id e, me_controller_kind e, me_controller_client_id e, me_runtime e = None, me_log_process e))
      (FindEntry demo_session ?m) =
    Some (demo_session, ControllerRemote, Some ''remote-controller-1'', True, None)"
    by code_simp
  then obtain e where e: "FindEntry demo_session ?m = Some e" "me_controller_kind e = ControllerRemote"
      "me_controller_client_id e = Some ''remote-controller-1''" "entry_id e = demo_session" by auto
  have "list_all skips_poll (sm_sessions ?m)" by code_simp
  from PollAll_idle [OF this] have "\<exists>m'. PollAll demo_deps (\<lambda>i j. 9) 5 (\<lambda>i. undefined) 0 ?m = Some m'" by blast
  then obtain m' where m': "PollAll demo_deps (\<lambda>i j. 9) 5 (\<lambda>i. undefined) 0 ?m = Some m'" by auto
  have "IsPrivilegedControllerClientId (Some ''remote-controller-1'')" by code_simp
  with poll_all_spares_controlled [OF inv m' conjunct1 [OF FindEntry_Some [OF e(1)]]] e m' show ?thesis by simp
qed

section \<open>Two views of a session\<close>

text \<open>The summary and the snapshot of a session, which the code assembles separately, agree on everything they
  share at the same moment: identity, status, sequence, attention, activity, terminal size, controller times, git
  state and the node summary.\<close>

theorem summary_agrees_with_snapshot:
  "rel_option (\<lambda>summary snapshot.
      su_id summary = md_id (sn_metadata snapshot) \<and> su_status summary = md_status (sn_metadata snapshot)
      \<and> su_title summary = md_title (sn_metadata snapshot) \<and> su_group_tags summary = md_group_tags (sn_metadata snapshot)
      \<and> su_current_sequence summary = sg_current_sequence (sn_signals snapshot)
      \<and> su_supervision_state summary = sg_supervision_state (sn_signals snapshot)
      \<and> su_attention_state summary = sg_attention_state (sn_signals snapshot)
      \<and> su_attention_reason summary = sg_attention_reason (sn_signals snapshot)
      \<and> su_attention_since_unix_ms summary = sg_attention_since_unix_ms (sn_signals snapshot)
      \<and> su_interaction_kind summary = sg_interaction_kind (sn_signals snapshot)
      \<and> su_last_activity_at_unix_ms summary = sg_last_activity_at_unix_ms (sn_signals snapshot)
      \<and> su_pty_columns summary = sg_pty_columns (sn_signals snapshot)
      \<and> su_git_dirty summary = sg_git_dirty (sn_signals snapshot)
      \<and> su_mode summary = sg_mode (sn_signals snapshot) \<and> su_attention summary = sg_attention (sn_signals snapshot)
      \<and> su_node_summary summary = sn_node_summary snapshot
      \<and> su_is_active summary = IsInteractiveStatus (ns_lifecycle_status (sn_node_summary snapshot)))
    (GetSession now_ms session_id m) (GetSnapshot now_ms session_id m)"
  by (cases "FindEntry session_id m")
    (simp_all add: GetSession_def GetSnapshot_def BuildSummary_def published_snapshot_def BuildNodeSummary_def Let_def)


section \<open>Who controls a session\<close>

text \<open>Who controls a session, as the manager has it.\<close>

definition controller_of ::
    "string \<Rightarrow> ('p, 'vt, 'l, 's) SessionManager \<Rightarrow> (string option \<times> ControllerKind) option" where
  "controller_of session_id m =
     map_option (\<lambda>e. (me_controller_client_id e, me_controller_kind e)) (FindEntry session_id m)"

lemma HasControl_controller_of:
  "HasControl session_id client_id m \<longleftrightarrow>
     (\<exists>kind. controller_of session_id m = Some (Some client_id, kind) \<and> kind \<noteq> ControllerNone)"
  by (auto simp: HasControl_def controller_of_def split: option.split)

lemma controller_of_set:
  assumes "FindEntry i m = Some e" "entry_id e' = entry_id e"
    and "me_controller_client_id e' = me_controller_client_id e" "me_controller_kind e' = me_controller_kind e"
  shows "controller_of j (set_entry_state e' m) = controller_of j m"
proof -
  have "entry_id e' = i" using assms(1,2) by (simp add: FindEntry_Some)
  with assms show ?thesis by (simp add: controller_of_def FindEntry_set [OF assms(1)])
qed

lemma controller_of_frame [simp]:
  "controller_of j (snd (SendInput deps i input m)) = controller_of j m"
  "controller_of j (snd (ResizeSession deps i terminal_size m)) = controller_of j m"
  "controller_of j (snd (UpdateViewport i view_id viewport_size m)) = controller_of j m"
  "controller_of j (RemoveViewport i view_id m) = controller_of j m"
  by (auto simp: SendInput_def ResizeSession_def UpdateViewport_def RemoveViewport_def Let_def case_prod_beta
      entry_id_def intro!: controller_of_set split: option.split)

lemma trace_controller [simp]:
  "me_controller_client_id (MaybeTraceNodeSummaryTransition t e) = me_controller_client_id e"
  "me_controller_kind (MaybeTraceNodeSummaryTransition t e) = me_controller_kind e"
  by (simp_all add: MaybeTraceNodeSummaryTransition_def Let_def)

lemma observe_fields [simp]:
  "me_controller_client_id (observe_status t rt e) = me_controller_client_id e"
  "me_controller_kind (observe_status t rt e) = me_controller_kind e" "me_id (observe_status t rt e) = me_id e"
  "me_controller_client_id (observe_output t rt e) = me_controller_client_id e"
  "me_controller_kind (observe_output t rt e) = me_controller_kind e" "me_id (observe_output t rt e) = me_id e"
  "me_id (MaybeTraceNodeSummaryTransition t e) = me_id e"
  by (simp_all add: observe_status_def observe_output_def MaybeTraceNodeSummaryTransition_def Let_def)

lemma controller_of_Poll:
  assumes "PollSession deps clock i timeout_ms m = Some (polled, m')"
  shows "controller_of j m' = controller_of j m"
proof (cases "FindEntry i m")
  case None
  with assms show ?thesis by (simp add: PollSession_def)
next
  case (Some e)
  have persist: "FindEntry i (PersistEntry deps e m) = FindEntry i m" "controller_of j (PersistEntry deps e m) = controller_of j m"
    for i j e
    by (simp_all add: FindEntry_def controller_of_def)
  show ?thesis
  proof (cases "me_log_process e")
    case None
    with assms Some persist show ?thesis
      by (auto simp: PollSession_def Let_def entry_id_def intro!: controller_of_set [THEN trans] split: option.splits)
  next
    case (Some process)
    with assms \<open>FindEntry i m = Some e\<close> persist show ?thesis
      by (auto simp: PollSession_def Let_def case_prod_beta end_log_session_def entry_id_def
          intro!: controller_of_set [THEN trans] split: option.splits)
  qed
qed

lemma HasControl_RemoveViewport [simp]:
  "HasControl session_id client_id (RemoveViewport i v m) = HasControl session_id client_id m"
  by (simp add: HasControl_controller_of)

lemma ReleaseControl_stranger:
  "\<not> HasControl session_id client_id m \<Longrightarrow> snd (ReleaseControl clock session_id client_id m) = m"
  by (auto simp: ReleaseControl_def HasControl_def split: option.split)

lemma ReleaseControl_controller_of:
  assumes "HasControl session_id client_id m"
  shows "controller_of session_id (snd (ReleaseControl clock session_id client_id m)) = Some (None, ControllerHost)"
proof -
  obtain e where e: "FindEntry session_id m = Some e" "me_controller_client_id e = Some client_id"
    "me_controller_kind e \<noteq> ControllerNone"
    using assms by (auto simp: HasControl_def split: option.splits)
  then have "sid_value (me_id e) = session_id" using FindEntry_Some [OF e(1)] by (simp add: entry_id_def)
  with e show ?thesis
    by (simp add: ReleaseControl_def controller_of_def FindEntry_set [OF e(1)] entry_id_def)
qed

section \<open>The output of a session\<close>

definition session_output :: "string \<Rightarrow> ('p, 'vt, 'l, 's) SessionManager \<Rightarrow> SessionOutputBuffer option" where
  "session_output session_id m =
     Option.bind (FindEntry session_id m) (\<lambda>e. map_option rt_output_buffer (me_runtime e))"

lemma GetOutputSince_session:
  "session_output session_id m = Some b \<Longrightarrow> GetOutputSince session_id n m = Some (ob_SliceFromSequence n b)"
  by (auto simp: session_output_def GetOutputSince_def entry_slice_def Option.bind_eq_Some_conv)

lemma ob_last_sequence:
  assumes "ob_inv b" "ob_chunks b \<noteq> []"
  shows "oc_seq (last (ob_chunks b)) = ob_next_sequence b - 1"
proof -
  have num: "map oc_seq (ob_chunks b) = [ob_next_sequence b - length (ob_chunks b) ..< ob_next_sequence b]"
    using assms(1) by (simp add: ob_inv_def)
  have "oc_seq (last (ob_chunks b)) = last (map oc_seq (ob_chunks b))" using assms(2) by (simp add: last_map)
  also have "\<dots> = ob_next_sequence b - 1" using num assms by (simp add: ob_inv_def)
  finally show ?thesis .
qed

lemma ob_slice_end:
  assumes "ob_inv b" "os_data (ob_SliceFromSequence n b) \<noteq> []"
  shows "os_seq_end (ob_SliceFromSequence n b) = ob_next_sequence b - 1" "0 < ob_next_sequence b"
  using assms ob_last_sequence [OF assms(1)]
  by (auto simp: ob_SliceFromSequence_def OutputSlice_empty_def Let_def ob_inv_def split: if_splits)

lemma ob_next_sequence_run:
  assumes "ob_inv b" "[] \<notin> set datas" "ob_next_sequence b + length datas < 18446744073709551616"
  shows "ob_inv (fold ob_Append datas b) \<and> ob_next_sequence (fold ob_Append datas b) = ob_next_sequence b + length datas"
  using assms
proof (induction datas arbitrary: b)
  case (Cons d ds)
  then have room: "ob_room d b" by (auto simp: ob_room_def)
  with Cons.prems have "ob_inv (ob_Append d b)" "ob_next_sequence (ob_Append d b) = ob_next_sequence b + 1"
    by (simp_all add: ob_inv_Append ob_Append_fields)
  with Cons show ?case by simp
qed simp

text \<open>A reader that has everything up to now and asks again gets what was printed in between.\<close>

lemma output_since_caught_up:
  assumes "ob_inv b" "[] \<notin> set datas" "ob_next_sequence b + length datas < 18446744073709551616"
    and "\<forall>d \<in> set datas. length d \<le> ob_capacity_bytes b"
    and "ob_size_bytes b + length (concat datas) \<le> ob_capacity_bytes b"
    and "session_output session_id m = Some (fold ob_Append datas b)"
  shows "\<exists>sl. GetOutputSince session_id (ob_next_sequence b) m = Some sl \<and> os_data sl = concat datas
    \<and> (datas \<noteq> [] \<longrightarrow> u64_add (os_seq_end sl) 1 = ob_next_sequence (fold ob_Append datas b))"
proof -
  let ?s = "ob_SliceFromSequence (ob_next_sequence b) (fold ob_Append datas b)"
  have data: "os_data ?s = concat datas"
    using output_buffer_slice_catches_up [OF assms(1-4) refl] assms(5) by simp
  have run: "ob_inv (fold ob_Append datas b)" "ob_next_sequence (fold ob_Append datas b) = ob_next_sequence b + length datas"
    using ob_next_sequence_run [OF assms(1-3)] by simp_all
  have "u64_add (os_seq_end ?s) 1 = ob_next_sequence (fold ob_Append datas b)" if "datas \<noteq> []"
  proof -
    have "concat datas \<noteq> []" using that assms(2) by (cases datas) auto
    then show ?thesis
      using ob_slice_end [OF run(1), of "ob_next_sequence b"] data run(2) assms(3) by (simp add: u64_simps)
  qed
  with data show ?thesis by (simp add: GetOutputSince_session [OF assms(6)])
qed

end
