(* ===== verification/WebSocket_Sessions.thy ===== *)
theory WebSocket_Sessions
  imports Json_Output Manager_Properties Pairing
begin

text \<open>
  The WebSocket sessions of \<open>src/net/http_server.cpp\<close> on the modelled session manager: who is let in (with
  the relay tokens of \<open>src/net/hub_control_channel.cpp\<close>), the observer sessions with their status events and
  output frames, the sessions of remote controllers, and the overview sessions. Accepting, reading and
  writing complete in operations of their own; the sockets and the trace log are left out.
\<close>

section \<open>Relay tokens\<close>

record RelayEntry =
  re_session_id :: string
  re_expires_at :: int

type_synonym RelayTokenStore = "string \<rightharpoonup> RelayEntry"

text \<open>\<open>kTokenTTL\<close> is 30 seconds; the steady clock counts milliseconds. The token itself is drawn at random by
  \<open>GenerateRelayToken\<close>, an input.\<close>

definition kTokenTTL_ms :: int where "kTokenTTL_ms = 30000"

definition Issue :: "string \<Rightarrow> int \<Rightarrow> string \<Rightarrow> RelayTokenStore \<Rightarrow> RelayTokenStore" where
  "Issue token now_ms session_id tokens =
     tokens(token \<mapsto> \<lparr>re_session_id = session_id, re_expires_at = now_ms + kTokenTTL_ms\<rparr>)"

definition ConsumeIfValid :: "string \<Rightarrow> string \<Rightarrow> int \<Rightarrow> RelayTokenStore \<Rightarrow> bool \<times> RelayTokenStore" where
  "ConsumeIfValid token requested_session_id now_ms tokens =
     (case tokens token of
        None \<Rightarrow> (False, tokens)
      | Some entry \<Rightarrow>
          let expired = now_ms > re_expires_at entry;
              session_match = (re_session_id entry = requested_session_id)
          in (\<not> expired \<and> session_match, tokens(token := None)))"

definition PruneExpired :: "int \<Rightarrow> RelayTokenStore \<Rightarrow> RelayTokenStore" where
  "PruneExpired now_ms tokens =
     (\<lambda>token. case tokens token of
        None \<Rightarrow> None | Some entry \<Rightarrow> if now_ms > re_expires_at entry then None else Some entry)"

section \<open>Admission\<close>

text \<open>The parts of an upgrade request that are looked at.\<close>

record UpgradeRequest =
  ur_target :: string
  ur_authorization :: "string option"

definition ExtractBearerToken :: "UpgradeRequest \<Rightarrow> string" where
  "ExtractBearerToken request =
     (case ur_authorization request of
        None \<Rightarrow> ExtractAccessTokenFromWebSocketTarget (ur_target request)
      | Some header \<Rightarrow>
          if \<not> starts_with header ''Bearer '' then ExtractAccessTokenFromWebSocketTarget (ur_target request)
          else drop 7 header)"

datatype ListenerRole = AdminLocal | RemoteClient

definition admitted :: AuthResult where
  "admitted = \<lparr>au_authenticated = True, au_authorized = True, au_device_id = None, au_reason = []\<rparr>"

definition websocket_context :: "UpgradeRequest \<Rightarrow> string \<Rightarrow> bool \<Rightarrow> RequestContext" where
  "websocket_context request client_address is_local_request =
     \<lparr>rc_bearer_token = ExtractBearerToken request, rc_client_address = client_address,
      rc_target = ur_target request, rc_is_websocket = True, rc_is_local_request = is_local_request\<rparr>"

text \<open>The three \<open>Start\<close> functions. The relay token store is there only when the hub is in use.\<close>

definition admit_observer ::
    "'a PairingStore \<Rightarrow> ListenerRole \<Rightarrow> bool \<Rightarrow> string \<Rightarrow> UpgradeRequest \<Rightarrow> int \<Rightarrow> RelayTokenStore option \<Rightarrow> 'a
       \<Rightarrow> AuthResult \<times> RelayTokenStore option" where
  "admit_observer store listener_role is_local_request client_address request now_ms relay_token_store st =
     (let context = websocket_context request client_address is_local_request;
          authorize = Authorize store context ObserveSessions st
      in
      if listener_role = AdminLocal \<and> is_local_request then (admitted, relay_token_store)
      else
        case relay_token_store of
          None \<Rightarrow> (authorize, None)
        | Some tokens \<Rightarrow>
            let candidate = ExtractBearerToken request in
            if \<not> starts_with candidate ''relay_'' then (authorize, Some tokens)
            else
              let (valid, tokens1) =
                    ConsumeIfValid candidate (ExtractSessionIdFromWebSocketTarget (ur_target request)) now_ms tokens
              in (if valid then admitted else authorize, Some tokens1))"

definition admit_controller ::
    "'a PairingStore \<Rightarrow> bool \<Rightarrow> string \<Rightarrow> UpgradeRequest \<Rightarrow> 'a \<Rightarrow> AuthResult" where
  "admit_controller store is_local_request client_address request =
     Authorize store (websocket_context request client_address is_local_request) ControlSession"

definition admit_overview ::
    "'a PairingStore \<Rightarrow> ListenerRole \<Rightarrow> bool \<Rightarrow> string \<Rightarrow> UpgradeRequest \<Rightarrow> 'a \<Rightarrow> AuthResult" where
  "admit_overview store listener_role is_local_request client_address request st =
     (if listener_role = AdminLocal \<and> is_local_request then admitted
      else Authorize store (websocket_context request client_address is_local_request) ObserveSessions st)"

text \<open>The status and the body of a refusal.\<close>

definition MakeWebSocketAuthResponse :: "JsonLib \<Rightarrow> nat \<Rightarrow> string \<Rightarrow> nat \<times> string" where
  "MakeWebSocketAuthResponse lib status message =
     (status, ''{'' @ ch_dquote # ''error'' @ ch_dquote # '':'' @ ch_dquote # JsonEscape_api lib message @ ch_dquote # ''}'')"

definition refusal :: "JsonLib \<Rightarrow> AuthResult \<Rightarrow> nat \<times> string" where
  "refusal lib auth_result =
     MakeWebSocketAuthResponse lib (if au_authenticated auth_result then 403 else 401)
       (if au_reason auth_result = [] then ''request rejected'' else au_reason auth_result)"

section \<open>Observer sessions\<close>

record SocketFrame =
  sf_payload :: string
  sf_next_sequence :: u64
  sf_is_text :: bool

record WebSocketSession =
  ws_target :: string
  ws_session_id :: string
  ws_client_id :: string
  ws_sequence_window :: StreamSequenceWindow
  ws_last_status :: "SessionStatus option"
  ws_last_group_tags :: "string list"
  ws_last_controller_client_id :: "string option"
  ws_last_controller_kind :: ControllerKind
  ws_last_activity_state :: "string option"
  ws_last_attention_state :: "string option"
  ws_last_attention_reason :: "string option"
  ws_last_output_at :: "unix_ms option"
  ws_last_activity_at :: "unix_ms option"
  ws_last_attention_since :: "unix_ms option"
  ws_last_pty_columns :: "u16 option"
  ws_last_pty_rows :: "u16 option"
  ws_last_current_sequence :: u64
  ws_last_recent_file_change_count :: nat
  ws_last_git_dirty :: bool
  ws_last_git_branch :: string
  ws_claimed_kind :: ControllerKind
  ws_initial_events_sent :: bool
  ws_exit_event_sent :: bool
  ws_write_in_progress :: bool
  ws_closed :: bool
  ws_raw_output_mode :: bool
  ws_pending_frames :: "SocketFrame list"
  ws_sent :: "SocketFrame list"

definition WebSocketSession_init :: "string \<Rightarrow> WebSocketSession" where
  "WebSocketSession_init target =
     \<lparr>ws_target = target, ws_session_id = ExtractSessionIdFromWebSocketTarget target, ws_client_id = [],
      ws_sequence_window = StreamSequenceWindow_init, ws_last_status = None, ws_last_group_tags = [],
      ws_last_controller_client_id = None, ws_last_controller_kind = ControllerNone, ws_last_activity_state = None,
      ws_last_attention_state = None, ws_last_attention_reason = None, ws_last_output_at = None,
      ws_last_activity_at = None, ws_last_attention_since = None, ws_last_pty_columns = None,
      ws_last_pty_rows = None, ws_last_current_sequence = 0, ws_last_recent_file_change_count = 0,
      ws_last_git_dirty = False, ws_last_git_branch = [], ws_claimed_kind = ControllerNone,
      ws_initial_events_sent = False, ws_exit_event_sent = False, ws_write_in_progress = False, ws_closed = False,
      ws_raw_output_mode = False, ws_pending_frames = [], ws_sent = []\<rparr>"

type_synonym ('p, 'vt, 'l, 's) ws_state = "WebSocketSession \<times> ('p, 'vt, 'l, 's) SessionManager"

subsection \<open>Writing\<close>

definition ws_DoWrite :: "WebSocketSession \<Rightarrow> WebSocketSession" where
  "ws_DoWrite ws = ws\<lparr>ws_write_in_progress := (ws_pending_frames ws \<noteq> [])\<rparr>"

definition ws_QueueFrame :: "string \<Rightarrow> u64 \<Rightarrow> bool \<Rightarrow> WebSocketSession \<Rightarrow> WebSocketSession" where
  "ws_QueueFrame payload next_sequence is_text ws =
     (let ws1 = ws\<lparr>ws_sequence_window := ReserveThrough next_sequence (ws_sequence_window ws),
                   ws_pending_frames := ws_pending_frames ws
                     @ [\<lparr>sf_payload = payload, sf_next_sequence = next_sequence, sf_is_text = is_text\<rparr>]\<rparr>
      in if \<not> ws_write_in_progress ws1 then ws_DoWrite ws1 else ws1)"

definition ws_QueueEvent :: "string \<Rightarrow> WebSocketSession \<Rightarrow> WebSocketSession" where
  "ws_QueueEvent payload ws = ws_QueueFrame payload (sw_reserved_next (ws_sequence_window ws)) True ws"

definition ws_QueueOutputFrame :: "JsonLib \<Rightarrow> OutputSlice \<Rightarrow> u64 \<Rightarrow> WebSocketSession \<Rightarrow> WebSocketSession" where
  "ws_QueueOutputFrame lib output_slice next_sequence ws =
     (if ws_raw_output_mode ws then
        (if os_data output_slice = [] then ws else ws_QueueFrame (os_data output_slice) next_sequence False ws)
      else ws_QueueFrame (ToJson_TerminalOutputEvent lib (ws_session_id ws) output_slice) next_sequence True ws)"

definition ws_ReleaseControlIfHeld ::
    "(nat \<Rightarrow> unix_ms) \<Rightarrow> ('p, 'vt, 'l, 's) ws_state \<Rightarrow> ('p, 'vt, 'l, 's) ws_state" where
  "ws_ReleaseControlIfHeld clock = (\<lambda>(ws, m).
     if ws_session_id ws = [] \<or> ws_client_id ws = [] then (ws, m)
     else (ws, RemoveViewport (ws_session_id ws) (ws_client_id ws)
                 (snd (ReleaseControl clock (ws_session_id ws) (ws_client_id ws) m))))"

definition ws_ForceClose :: "(nat \<Rightarrow> unix_ms) \<Rightarrow> ('p, 'vt, 'l, 's) ws_state \<Rightarrow> ('p, 'vt, 'l, 's) ws_state" where
  "ws_ForceClose clock = (\<lambda>(ws, m).
     if ws_closed ws then (ws, m) else ws_ReleaseControlIfHeld clock (ws\<lparr>ws_closed := True\<rparr>, m))"

definition ws_write_completed ::
    "(nat \<Rightarrow> unix_ms) \<Rightarrow> bool \<Rightarrow> ('p, 'vt, 'l, 's) ws_state \<Rightarrow> ('p, 'vt, 'l, 's) ws_state" where
  "ws_write_completed clock failed = (\<lambda>(ws, m).
     if failed then ws_ReleaseControlIfHeld clock (ws, m)
     else
       let frame = hd (ws_pending_frames ws) in
       (ws_DoWrite (ws\<lparr>ws_sequence_window := MarkDelivered (sf_next_sequence frame) (ws_sequence_window ws),
                       ws_pending_frames := tl (ws_pending_frames ws), ws_sent := ws_sent ws @ [frame]\<rparr>), m))"

subsection \<open>Events and output\<close>

definition status_changed :: "SessionSummary \<Rightarrow> WebSocketSession \<Rightarrow> bool" where
  "status_changed summary ws \<longleftrightarrow>
     ws_last_status ws \<noteq> Some (su_status summary)
     \<or> ws_last_group_tags ws \<noteq> su_group_tags summary
     \<or> ws_last_controller_client_id ws \<noteq> su_controller_client_id summary
     \<or> ws_last_controller_kind ws \<noteq> su_controller_kind summary"

definition note_status :: "SessionSummary \<Rightarrow> WebSocketSession \<Rightarrow> WebSocketSession" where
  "note_status summary ws =
     ws\<lparr>ws_last_status := Some (su_status summary), ws_last_group_tags := su_group_tags summary,
        ws_last_controller_client_id := su_controller_client_id summary,
        ws_last_controller_kind := su_controller_kind summary\<rparr>"

definition activity_changed :: "SessionSummary \<Rightarrow> WebSocketSession \<Rightarrow> bool" where
  "activity_changed summary ws \<longleftrightarrow>
     ws_last_activity_state ws \<noteq> Some (ToActivityState summary)
     \<or> ws_last_attention_state ws \<noteq> Some (ToAttentionState summary)
     \<or> ws_last_attention_reason ws \<noteq> Some (ToAttentionReason summary)
     \<or> ws_last_output_at ws \<noteq> su_last_output_at_unix_ms summary
     \<or> ws_last_activity_at ws \<noteq> su_last_activity_at_unix_ms summary
     \<or> ws_last_attention_since ws \<noteq> su_attention_since_unix_ms summary
     \<or> ws_last_pty_columns ws \<noteq> su_pty_columns summary
     \<or> ws_last_pty_rows ws \<noteq> su_pty_rows summary
     \<or> ws_last_current_sequence ws \<noteq> su_current_sequence summary
     \<or> ws_last_recent_file_change_count ws \<noteq> su_recent_file_change_count summary
     \<or> ws_last_git_dirty ws \<noteq> su_git_dirty summary
     \<or> ws_last_git_branch ws \<noteq> su_git_branch summary"

definition note_activity :: "SessionSummary \<Rightarrow> WebSocketSession \<Rightarrow> WebSocketSession" where
  "note_activity summary ws =
     ws\<lparr>ws_last_activity_state := Some (ToActivityState summary),
        ws_last_attention_state := Some (ToAttentionState summary),
        ws_last_attention_reason := Some (ToAttentionReason summary),
        ws_last_output_at := su_last_output_at_unix_ms summary,
        ws_last_activity_at := su_last_activity_at_unix_ms summary,
        ws_last_attention_since := su_attention_since_unix_ms summary,
        ws_last_pty_columns := su_pty_columns summary, ws_last_pty_rows := su_pty_rows summary,
        ws_last_current_sequence := su_current_sequence summary,
        ws_last_recent_file_change_count := su_recent_file_change_count summary,
        ws_last_git_dirty := su_git_dirty summary, ws_last_git_branch := su_git_branch summary\<rparr>"

definition ws_QueueStatusEvents :: "JsonLib \<Rightarrow> SessionSummary option \<Rightarrow> WebSocketSession \<Rightarrow> WebSocketSession" where
  "ws_QueueStatusEvents lib summary_option ws =
     (case summary_option of
        None \<Rightarrow> ws
      | Some summary \<Rightarrow>
          let status = status_changed summary ws;
              ws1 = (if status then ws_QueueEvent (ToJson_SessionUpdatedEvent lib summary) (note_status summary ws) else ws);
              activity = activity_changed summary ws1;
              ws2 = (if activity then note_activity summary ws1 else ws1);
              ws3 = (if activity \<and> \<not> status then ws_QueueEvent (ToJson_SessionActivityEvent lib summary) ws2 else ws2)
          in
          if \<not> ws_exit_event_sent ws3 \<and> (su_status summary = Exited \<or> su_status summary = Error)
          then ws_QueueEvent (ToJson_SessionExitedEvent lib (sid_value (su_id summary)) (su_status summary))
                 (ws3\<lparr>ws_exit_event_sent := True\<rparr>)
          else ws3)"

definition ws_QueueInitialEvents ::
    "JsonLib \<Rightarrow> unix_ms \<Rightarrow> ('p, 'vt, 'l, 's) SessionManager \<Rightarrow> WebSocketSession \<Rightarrow> WebSocketSession" where
  "ws_QueueInitialEvents lib now_ms m ws =
     (if ws_initial_events_sent ws then ws
      else
        let ws1 = ws_QueueStatusEvents lib (GetSession now_ms (ws_session_id ws) m) (ws\<lparr>ws_initial_events_sent := True\<rparr>);
            initial_slice = (case GetTail (ws_session_id ws) 65536 m of Some tail \<Rightarrow> tail | None \<Rightarrow> OutputSlice_empty);
            next_sequence = (if os_seq_end initial_slice > 0 then u64_add (os_seq_end initial_slice) 1
                             else sw_delivered_next (ws_sequence_window ws1))
        in ws_QueueOutputFrame lib initial_slice next_sequence ws1)"

definition ws_SendPendingOutput ::
    "JsonLib \<Rightarrow> unix_ms \<Rightarrow> ('p, 'vt, 'l, 's) SessionManager \<Rightarrow> WebSocketSession \<Rightarrow> WebSocketSession" where
  "ws_SendPendingOutput lib now_ms m ws =
     (if ws_session_id ws = [] then ws
      else
        let ws1 = ws_QueueStatusEvents lib (GetSession now_ms (ws_session_id ws) m) ws in
        case GetOutputSince (ws_session_id ws1) (sw_reserved_next (ws_sequence_window ws1)) m of
          None \<Rightarrow> ws1
        | Some output \<Rightarrow>
            if os_data output = [] then ws1
            else ws_QueueOutputFrame lib output (u64_add (os_seq_end output) 1) ws1)"

text \<open>The completion of \<open>async_accept\<close>; the address of the session object is part of the client id.\<close>

definition ws_accept ::
    "JsonLib \<Rightarrow> unix_ms \<Rightarrow> nat \<Rightarrow> ('p, 'vt, 'l, 's) ws_state \<Rightarrow> ('p, 'vt, 'l, 's) ws_state" where
  "ws_accept lib now_ms address = (\<lambda>(ws, m).
     let client_id = ''ws_'' @ ws_session_id ws @ ''_'' @ nat_to_string address;
         ws1 = ws\<lparr>ws_client_id := client_id, ws_raw_output_mode := IsRawTerminalStreamRequested (ws_target ws),
                  ws_sequence_window := StreamSequenceWindow_init\<rparr>;
         m1 = (case GetSession now_ms (ws_session_id ws) m of
             None \<Rightarrow> m
           | Some summary \<Rightarrow> snd (UpdateViewport (ws_session_id ws) client_id
               \<lparr>ts_columns = (case su_pty_columns summary of Some c \<Rightarrow> c | None \<Rightarrow> 120),
                ts_rows = (case su_pty_rows summary of Some r \<Rightarrow> r | None \<Rightarrow> 40)\<rparr> m))
     in (ws_QueueInitialEvents lib now_ms m1 ws1, m1))"

subsection \<open>Commands of the client\<close>

definition ws_reject :: "JsonLib \<Rightarrow> WebSocketSession \<Rightarrow> WebSocketSession" where
  "ws_reject lib ws = ws_QueueEvent (ToJson_ErrorEvent lib (ws_session_id ws) ''command_rejected''
     ''command rejected for current session state'') ws"

definition HandleClientBinary ::
    "('p, 'vt, 'l, 's) ManagerDeps \<Rightarrow> JsonLib \<Rightarrow> string \<Rightarrow> ('p, 'vt, 'l, 's) ws_state \<Rightarrow> ('p, 'vt, 'l, 's) ws_state" where
  "HandleClientBinary deps lib payload = (\<lambda>(ws, m).
     if \<not> ws_raw_output_mode ws then
       (ws_QueueEvent (ToJson_ErrorEvent lib (ws_session_id ws) ''invalid_command''
          ''binary websocket frames are not supported for this session'') ws, m)
     else if \<not> HasControl (ws_session_id ws) (ws_client_id ws) m then (ws_reject lib ws, m)
     else
       let (sent, m1) = SendInput deps (ws_session_id ws) payload m in
       (if sent then ws else ws_reject lib ws, m1))"

text \<open>The visitor of \<open>HandleClientCommand\<close>: whether the command was handled, and what it claims.\<close>

definition run_command ::
    "('p, 'vt, 'l, 's) ManagerDeps \<Rightarrow> (nat \<Rightarrow> unix_ms) \<Rightarrow> WebSocketCommand \<Rightarrow> ('p, 'vt, 'l, 's) ws_state
       \<Rightarrow> bool \<times> ('p, 'vt, 'l, 's) ws_state" where
  "run_command deps clock command = (\<lambda>(ws, m).
     let i = ws_session_id ws; c = ws_client_id ws in
     case command of
       InputCommand data \<Rightarrow>
         (if \<not> HasControl i c m then (False, (ws, m))
          else let (ok, m1) = SendInput deps i data m in (ok, (ws, m1)))
     | ResizeCommand terminal_size \<Rightarrow>
         (let (ok, m1) = (if HasControl i c m then ResizeSession deps i terminal_size m
                          else UpdateViewport i c terminal_size m)
          in (ok, (ws, m1)))
     | StopCommand \<Rightarrow>
         (if \<not> HasControl i c m then (False, (ws, m))
          else let (ok, m1) = StopSession deps clock i m in (ok, (ws, m1)))
     | RequestControlCommand kind \<Rightarrow>
         (let (granted, m1) = RequestControl clock i c kind m
          in (granted, (if granted then ws\<lparr>ws_claimed_kind := kind\<rparr> else ws, m1)))
     | ReleaseControlCommand \<Rightarrow>
         (let (released, m1) = ReleaseControl clock i c m
          in (released, (if released then ws\<lparr>ws_claimed_kind := ControllerNone\<rparr> else ws, m1))))"

definition HandleClientCommand ::
    "('p, 'vt, 'l, 's) ManagerDeps \<Rightarrow> JsonLib \<Rightarrow> (nat \<Rightarrow> unix_ms) \<Rightarrow> string \<Rightarrow> ('p, 'vt, 'l, 's) ws_state
       \<Rightarrow> ('p, 'vt, 'l, 's) ws_state" where
  "HandleClientCommand deps lib clock payload = (\<lambda>(ws, m).
     case ParseWebSocketCommand lib payload of
       None \<Rightarrow> (ws_QueueEvent (ToJson_ErrorEvent lib (ws_session_id ws) ''invalid_command''
                  ''invalid websocket command'') ws, m)
     | Some command \<Rightarrow>
         let (handled, (ws1, m1)) = run_command deps (\<lambda>i. clock (i + 1)) command (ws, m) in
         (if handled then ws_QueueStatusEvents lib (GetSession (clock 0) (ws_session_id ws1) m1) ws1
          else ws_reject lib ws1, m1))"

text \<open>A message that has been read: a command in a text frame, input in a binary one.\<close>

definition ws_message ::
    "('p, 'vt, 'l, 's) ManagerDeps \<Rightarrow> JsonLib \<Rightarrow> (nat \<Rightarrow> unix_ms) \<Rightarrow> bool \<Rightarrow> string \<Rightarrow> ('p, 'vt, 'l, 's) ws_state
       \<Rightarrow> ('p, 'vt, 'l, 's) ws_state" where
  "ws_message deps lib clock got_text payload st =
     (if got_text then HandleClientCommand deps lib clock payload st else HandleClientBinary deps lib payload st)"

section \<open>Remote controllers\<close>

definition MakeControllerReadyEvent :: "JsonLib \<Rightarrow> string \<Rightarrow> string \<Rightarrow> string" where
  "MakeControllerReadyEvent lib session_id controller_client_id = jl_serialize lib (json_object
     [text_member ''type'' ''controller.ready'', text_member ''sessionId'' session_id,
      text_member ''controllerKind'' ''remote'', text_member ''controllerClientId'' controller_client_id])"

definition MakeControllerRejectedEvent :: "JsonLib \<Rightarrow> string \<Rightarrow> string \<Rightarrow> string \<Rightarrow> string" where
  "MakeControllerRejectedEvent lib session_id code reason = jl_serialize lib (json_object
     [text_member ''type'' ''controller.rejected'', text_member ''sessionId'' session_id,
      text_member ''code'' code, text_member ''message'' reason])"

definition MakeControllerReleasedEvent :: "JsonLib \<Rightarrow> string \<Rightarrow> string" where
  "MakeControllerReleasedEvent lib session_id = jl_serialize lib (json_object
     [text_member ''type'' ''controller.released'', text_member ''sessionId'' session_id])"

text \<open>A pending frame is its payload and whether it is text.\<close>

record RemoteController =
  rw_session_id :: string
  rw_client_id :: string
  rw_next_output_sequence :: u64
  rw_has_control :: bool
  rw_write_in_progress :: bool
  rw_close_after_writes :: bool
  rw_exit_event_sent :: bool
  rw_closed :: bool
  rw_pending_frames :: "(string \<times> bool) list"
  rw_sent :: "(string \<times> bool) list"
  rw_pty_readable :: bool

definition RemoteController_init :: "string \<Rightarrow> RemoteController" where
  "RemoteController_init target =
     \<lparr>rw_session_id = ExtractSessionIdFromWebSocketTarget target, rw_client_id = [], rw_next_output_sequence = 1,
      rw_has_control = False, rw_write_in_progress = False, rw_close_after_writes = False, rw_exit_event_sent = False,
      rw_closed = False, rw_pending_frames = [], rw_sent = [], rw_pty_readable = False\<rparr>"

type_synonym ('p, 'vt, 'l, 's) rw_state = "RemoteController \<times> ('p, 'vt, 'l, 's) SessionManager"

definition rw_ReleaseControlIfHeld ::
    "(nat \<Rightarrow> unix_ms) \<Rightarrow> ('p, 'vt, 'l, 's) rw_state \<Rightarrow> ('p, 'vt, 'l, 's) rw_state" where
  "rw_ReleaseControlIfHeld clock = (\<lambda>(rw, m).
     if \<not> rw_has_control rw then (rw, m)
     else (rw\<lparr>rw_has_control := False\<rparr>, snd (ReleaseControl clock (rw_session_id rw) (rw_client_id rw) m)))"

definition rw_ForceClose :: "(nat \<Rightarrow> unix_ms) \<Rightarrow> ('p, 'vt, 'l, 's) rw_state \<Rightarrow> ('p, 'vt, 'l, 's) rw_state" where
  "rw_ForceClose clock = (\<lambda>(rw, m).
     if rw_closed rw then (rw, m)
     else rw_ReleaseControlIfHeld clock (rw\<lparr>rw_closed := True, rw_pty_readable := False\<rparr>, m))"

definition rw_DoWrite :: "(nat \<Rightarrow> unix_ms) \<Rightarrow> ('p, 'vt, 'l, 's) rw_state \<Rightarrow> ('p, 'vt, 'l, 's) rw_state" where
  "rw_DoWrite clock = (\<lambda>(rw, m).
     if rw_pending_frames rw = [] \<or> rw_closed rw then
       (if rw_close_after_writes rw then rw_ForceClose clock (rw\<lparr>rw_write_in_progress := False\<rparr>, m)
        else (rw\<lparr>rw_write_in_progress := False\<rparr>, m))
     else (rw\<lparr>rw_write_in_progress := True\<rparr>, m))"

definition rw_write_completed ::
    "(nat \<Rightarrow> unix_ms) \<Rightarrow> bool \<Rightarrow> ('p, 'vt, 'l, 's) rw_state \<Rightarrow> ('p, 'vt, 'l, 's) rw_state" where
  "rw_write_completed clock failed = (\<lambda>(rw, m).
     if failed then rw_ForceClose clock (rw, m)
     else rw_DoWrite clock (rw\<lparr>rw_pending_frames := tl (rw_pending_frames rw),
                              rw_sent := rw_sent rw @ [hd (rw_pending_frames rw)]\<rparr>, m))"

definition rw_QueueFrame ::
    "(nat \<Rightarrow> unix_ms) \<Rightarrow> string \<Rightarrow> bool \<Rightarrow> ('p, 'vt, 'l, 's) rw_state \<Rightarrow> ('p, 'vt, 'l, 's) rw_state" where
  "rw_QueueFrame clock payload is_text = (\<lambda>(rw, m).
     if payload = [] \<or> rw_closed rw then (rw, m)
     else
       let rw1 = rw\<lparr>rw_pending_frames := rw_pending_frames rw @ [(payload, is_text)]\<rparr> in
       if \<not> rw_write_in_progress rw1 then rw_DoWrite clock (rw1, m) else (rw1, m))"

definition rw_SyncReadableDescriptor :: "bool \<Rightarrow> bool \<Rightarrow> RemoteController \<Rightarrow> RemoteController" where
  "rw_SyncReadableDescriptor has_readable_fd dup_succeeds rw =
     rw\<lparr>rw_pty_readable := (has_readable_fd \<and> (rw_pty_readable rw \<or> dup_succeeds))\<rparr>"

definition rw_accept ::
    "JsonLib \<Rightarrow> (nat \<Rightarrow> unix_ms) \<Rightarrow> nat \<Rightarrow> bool \<Rightarrow> bool \<Rightarrow> bool \<Rightarrow> ('p, 'vt, 'l, 's) rw_state
       \<Rightarrow> ('p, 'vt, 'l, 's) rw_state" where
  "rw_accept lib clock address socket_failed has_readable_fd dup_succeeds = (\<lambda>(rw, m).
     let i = rw_session_id rw;
         client_id = ''remote-controller-'' @ int_to_string (clock 0) @ ''-'' @ nat_to_string address;
         rw1 = rw\<lparr>rw_client_id := client_id\<rparr>;
         reject = (\<lambda>code reason m1.
           let (rw2, m2) = rw_QueueFrame clock (MakeControllerRejectedEvent lib i code reason) True (rw1, m1)
           in (rw2\<lparr>rw_close_after_writes := True\<rparr>, m2))
     in
     if socket_failed then rw_ForceClose clock (rw1, m)
     else
       case GetSession (clock 1) i m of
         None \<Rightarrow> reject ''session_not_found'' ''session not found'' m
       | Some summary \<Rightarrow>
           let (granted, m1) = RequestControl (\<lambda>n. clock (n + 2)) i client_id ControllerRemote m in
           if \<not> granted then reject ''control_unavailable'' ''session already has an active controller'' m1
           else
             let rw2 = rw1\<lparr>rw_has_control := True,
                           rw_next_output_sequence := u64_add (su_current_sequence summary) 1\<rparr>;
                 (rw3, m3) = rw_QueueFrame clock (MakeControllerReadyEvent lib i client_id) True (rw2, m1)
             in (rw_SyncReadableDescriptor has_readable_fd dup_succeeds rw3, m3))"

definition rw_SendPendingOutput ::
    "JsonLib \<Rightarrow> (nat \<Rightarrow> unix_ms) \<Rightarrow> ('p, 'vt, 'l, 's) rw_state \<Rightarrow> ('p, 'vt, 'l, 's) rw_state" where
  "rw_SendPendingOutput lib clock = (\<lambda>(rw, m).
     let i = rw_session_id rw in
     if rw_closed rw \<or> i = [] then (rw, m)
     else
       case GetSession (clock 0) i m of
         None \<Rightarrow>
           let rw1 = rw\<lparr>rw_close_after_writes := True\<rparr> in
           if \<not> rw_write_in_progress rw1 then rw_ForceClose (\<lambda>n. clock (n + 1)) (rw1, m) else (rw1, m)
       | Some summary \<Rightarrow>
           if rw_has_control rw \<and> \<not> HasControl i (rw_client_id rw) m then
             let (rw1, m1) = rw_QueueFrame (\<lambda>n. clock (n + 1)) (MakeControllerReleasedEvent lib i) True
                   (rw\<lparr>rw_has_control := False\<rparr>, m)
             in (rw1\<lparr>rw_close_after_writes := True\<rparr>, m1)
           else if \<not> rw_exit_event_sent rw \<and> (su_status summary = Exited \<or> su_status summary = Error) then
             let (rw1, m1) = rw_QueueFrame (\<lambda>n. clock (n + 1))
                   (ToJson_SessionExitedEvent lib (sid_value (su_id summary)) (su_status summary)) True
                   (rw\<lparr>rw_exit_event_sent := True\<rparr>, m)
             in (rw1\<lparr>rw_close_after_writes := True\<rparr>, m1)
           else (rw, m))"

definition rw_FlushOutput :: "(nat \<Rightarrow> unix_ms) \<Rightarrow> ('p, 'vt, 'l, 's) rw_state \<Rightarrow> ('p, 'vt, 'l, 's) rw_state" where
  "rw_FlushOutput clock = (\<lambda>(rw, m).
     case GetOutputSince (rw_session_id rw) (rw_next_output_sequence rw) m of
       None \<Rightarrow> (rw, m)
     | Some output \<Rightarrow>
         if os_data output = [] then (rw, m)
         else rw_QueueFrame clock (os_data output) False
           (rw\<lparr>rw_next_output_sequence := u64_add (os_seq_end output) 1\<rparr>, m))"

definition HandleBinaryFrame ::
    "('p, 'vt, 'l, 's) ManagerDeps \<Rightarrow> JsonLib \<Rightarrow> (nat \<Rightarrow> unix_ms) \<Rightarrow> string \<Rightarrow> ('p, 'vt, 'l, 's) rw_state
       \<Rightarrow> ('p, 'vt, 'l, 's) rw_state" where
  "HandleBinaryFrame deps lib clock payload = (\<lambda>(rw, m).
     let i = rw_session_id rw in
     if \<not> rw_has_control rw \<or> \<not> HasControl i (rw_client_id rw) m then
       let (rw1, m1) = rw_QueueFrame clock (MakeControllerReleasedEvent lib i) True (rw, m)
       in (rw1\<lparr>rw_close_after_writes := True\<rparr>, m1)
     else
       let (sent, m1) = SendInput deps i payload m in
       (if sent then rw else rw\<lparr>rw_close_after_writes := True\<rparr>, m1))"

definition HandleTextFrame ::
    "('p, 'vt, 'l, 's) ManagerDeps \<Rightarrow> JsonLib \<Rightarrow> (nat \<Rightarrow> unix_ms) \<Rightarrow> string \<Rightarrow> ('p, 'vt, 'l, 's) rw_state
       \<Rightarrow> ('p, 'vt, 'l, 's) rw_state" where
  "HandleTextFrame deps lib clock payload = (\<lambda>(rw, m).
     let i = rw_session_id rw in
     case ParseWebSocketCommand lib payload of
       Some (ResizeCommand terminal_size) \<Rightarrow>
         (let (ok, m1) = ResizeSession deps i terminal_size m
          in if ok then (rw, m1) else rw_ForceClose clock (rw, m1))
     | Some StopCommand \<Rightarrow>
         (let (ok, m1) = StopSession deps clock i m
          in if ok then (rw, m1) else rw_ForceClose clock (rw, m1))
     | Some ReleaseControlCommand \<Rightarrow>
         (let (released, m1) = ReleaseControl clock i (rw_client_id rw) m in
          if \<not> released then rw_ForceClose clock (rw, m1)
          else
            let (rw1, m2) = rw_QueueFrame clock (MakeControllerReleasedEvent lib i) True
                  (rw\<lparr>rw_has_control := False\<rparr>, m1)
            in (rw1\<lparr>rw_close_after_writes := True\<rparr>, m2))
     | _ \<Rightarrow> rw_ForceClose clock (rw, m))"

definition rw_readable ::
    "('p, 'vt, 'l, 's) ManagerDeps \<Rightarrow> JsonLib \<Rightarrow> (nat \<Rightarrow> nat \<Rightarrow> unix_ms) \<Rightarrow> bool \<Rightarrow> bool \<Rightarrow> ('p, 'vt, 'l, 's) rw_state
       \<Rightarrow> ('p, 'vt, 'l, 's) rw_state option" where
  "rw_readable deps lib clocks has_readable_fd dup_succeeds = (\<lambda>(rw, m).
     map_option (\<lambda>(polled, m1).
       let (rw2, m2) = rw_SendPendingOutput lib (clocks 2) (rw_FlushOutput (clocks 1) (rw, m1));
           rw3 = rw_SyncReadableDescriptor has_readable_fd dup_succeeds rw2
       in
       if rw_pty_readable rw3 \<and> \<not> rw_closed rw3 then (rw3, m2)
       else if rw_close_after_writes rw3 \<and> \<not> rw_write_in_progress rw3 \<and> rw_pending_frames rw3 = []
       then rw_ForceClose (clocks 3) (rw3, m2)
       else (rw3, m2))
     (PollSession deps (clocks 0) (rw_session_id rw) 0 m))"

section \<open>Admission with relay tokens\<close>

text \<open>Claim C10: a relay token admits once and only where it belongs. It is accepted exactly when it was stored for the
  session that the request names and has not expired; whether or not it is accepted, it is used up, so it is never
  accepted again for any session; other tokens are untouched; pruning removes no token that would be accepted.\<close>

theorem relay_token_single_use:
  assumes "ConsumeIfValid token session_id now_ms tokens = (accepted, tokens')"
  shows "(accepted \<longleftrightarrow> (\<exists>expires_at. tokens token = Some \<lparr>re_session_id = session_id, re_expires_at = expires_at\<rparr>
            \<and> now_ms \<le> expires_at))
    \<and> \<not> fst (ConsumeIfValid token other_session later_ms tokens')
    \<and> (other_token \<noteq> token \<longrightarrow> tokens' other_token = tokens other_token)
    \<and> fst (ConsumeIfValid token session_id now_ms (PruneExpired now_ms tokens)) = accepted"
proof (cases "tokens token")
  case None
  with assms show ?thesis by (auto simp: ConsumeIfValid_def PruneExpired_def)
next
  case (Some entry)
  with assms show ?thesis
    by (cases entry) (auto simp: ConsumeIfValid_def PruneExpired_def Let_def)
qed

theorem relay_token_single_use_witness:
  "let tokens = Issue ''relay_1'' 1000 ''s_1'' Map.empty in
   fst (ConsumeIfValid ''relay_1'' ''s_1'' 31000 tokens)
   \<and> \<not> fst (ConsumeIfValid ''relay_1'' ''s_1'' 31000 (snd (ConsumeIfValid ''relay_1'' ''s_2'' 2000 tokens)))"
proof -
  let ?tokens = "Issue ''relay_1'' 1000 ''s_1'' Map.empty"
  obtain a t where first: "ConsumeIfValid ''relay_1'' ''s_1'' 31000 ?tokens = (a, t)" by fastforce
  obtain b u where second: "ConsumeIfValid ''relay_1'' ''s_2'' 2000 ?tokens = (b, u)" by fastforce
  from relay_token_single_use [OF first] relay_token_single_use [OF second, of "''s_1''" 31000] first second
  show ?thesis by (simp add: Issue_def kTokenTTL_ms_def)
qed

section \<open>What an observer may do\<close>

lemma ws_frame [simp]:
  "ws_session_id (ws_QueueFrame payload n is_text ws) = ws_session_id ws"
  "ws_client_id (ws_QueueFrame payload n is_text ws) = ws_client_id ws"
  "ws_raw_output_mode (ws_QueueFrame payload n is_text ws) = ws_raw_output_mode ws"
  "ws_exit_event_sent (ws_QueueFrame payload n is_text ws) = ws_exit_event_sent ws"
  "ws_sequence_window (ws_QueueFrame payload n is_text ws) = ReserveThrough n (ws_sequence_window ws)"
  "ws_pending_frames (ws_QueueFrame payload n is_text ws) = ws_pending_frames ws
     @ [\<lparr>sf_payload = payload, sf_next_sequence = n, sf_is_text = is_text\<rparr>]"
  "ws_sent (ws_QueueFrame payload n is_text ws) = ws_sent ws"
  "ws_write_in_progress (ws_QueueFrame payload n is_text ws)"
  by (simp_all add: ws_QueueFrame_def ws_DoWrite_def Let_def)

text \<open>Claim C9: an observer acts on a session only after it has taken control. Whatever a client sends on an observer
  socket, in text or binary, as long as it is no request for control and the manager does not list the client as
  the controller, the manager stays as it is, but for the client's own viewport when it sends a size. Commands that
  need control are answered with an error.\<close>

theorem websocket_client_needs_control:
  assumes "\<not> HasControl (ws_session_id ws) (ws_client_id ws) m"
    and "ws_message deps lib clock got_text payload (ws, m) = (ws', m')"
    and "got_text \<Longrightarrow> \<forall>kind. ParseWebSocketCommand lib payload \<noteq> Some (RequestControlCommand kind)"
  shows "m' = (case ParseWebSocketCommand lib payload of
        Some (ResizeCommand terminal_size) \<Rightarrow>
          if got_text then snd (UpdateViewport (ws_session_id ws) (ws_client_id ws) terminal_size m) else m
      | _ \<Rightarrow> m)
    \<and> controller_of session_id m' = controller_of session_id m
    \<and> ((\<exists>data. got_text \<and> ParseWebSocketCommand lib payload \<in> {Some (InputCommand data), Some StopCommand})
        \<or> (\<not> got_text \<and> ws_raw_output_mode ws) \<longrightarrow> ws' = ws_reject lib ws)"
proof (cases "got_text \<and> ParseWebSocketCommand lib payload \<noteq> None")
  case False
  with assms(1,2) show ?thesis
    by (auto simp: ws_message_def HandleClientBinary_def HandleClientCommand_def
        split: if_splits option.splits WebSocketCommand.splits)
next
  case True
  then obtain command where command: "ParseWebSocketCommand lib payload = Some command" by auto
  have run: "run_command deps (\<lambda>i. clock (i + 1)) command (ws, m) = (handled, (ws1, m1)) \<Longrightarrow>
      m1 = (case command of ResizeCommand terminal_size \<Rightarrow>
          snd (UpdateViewport (ws_session_id ws) (ws_client_id ws) terminal_size m) | _ \<Rightarrow> m)
      \<and> ((\<exists>data. command = InputCommand data) \<or> command = StopCommand \<longrightarrow> \<not> handled \<and> ws1 = ws)"
    for handled ws1 m1
    using assms(1,3) True command ReleaseControl_stranger [OF assms(1), of "\<lambda>i. clock (i + 1)"]
    by (cases command) (auto simp: run_command_def Let_def case_prod_beta)
  obtain handled ws1 m1 where r: "run_command deps (\<lambda>i. clock (i + 1)) command (ws, m) = (handled, (ws1, m1))"
    by (metis surj_pair)
  with assms(2) True command have "m' = m1" "\<not> handled \<Longrightarrow> ws' = ws_reject lib ws1"
    by (auto simp: ws_message_def HandleClientCommand_def)
  with run [OF r] True command show ?thesis by (auto split: WebSocketCommand.split)
qed

lemma RequestControl_granted:
  assumes "manager_inv m" "session_interactive i m" "\<not> held_remotely_by_other i c m" "kind \<noteq> ControllerNone"
    and "RequestControl clock i c kind m = (granted, m')"
  shows "granted \<and> HasControl i c m'"
proof -
  obtain e where e: "FindEntry i m = Some e" "IsInteractiveStatus (md_status (sn_metadata (the (entry_snapshot e))))"
    using assms(2) by (auto simp: session_interactive_def split: option.splits)
  have id: "entry_id e = i" and ok: "controller_ok e" using FindEntry_ok [OF e(1) assms(1)] by (simp_all add: entry_ok_def)
  show ?thesis
  proof (cases "me_controller_kind e \<noteq> ControllerRemote \<or> kind = ControllerHost")
    case True
    from RequestControl_taken [OF e(1) id e(2) assms(4) True assms(5)] assms(4) show ?thesis
      by (simp add: HasControl_def)
  next
    case False
    then have "me_controller_client_id e = Some c" using assms(3) e(1) by (simp add: held_remotely_by_other_def)
    with False e assms(4,5) show ?thesis
      by (auto simp: RequestControl_def BuildSummary_def Let_def HasControl_def)
  qed
qed

text \<open>Claim C29: who may observe may control. A relay token, which is meant for observing only, lets a client in on the
  observer socket whatever devices are paired, even none; and there the client, like any observer, gets control of
  an interactive session that no other remote client holds by asking for it, and its input then reaches the
  session.\<close>

theorem relay_observer_takes_control:
  assumes "starts_with (ExtractBearerToken request) ''relay_''"
    and "tokens (ExtractBearerToken request) = Some \<lparr>re_session_id = ws_session_id ws, re_expires_at = expires_at\<rparr>"
    and "now_ms \<le> expires_at" "ws_session_id ws = ExtractSessionIdFromWebSocketTarget (ur_target request)"
    and "manager_inv m" "session_interactive (ws_session_id ws) m"
    and "\<not> held_remotely_by_other (ws_session_id ws) (ws_client_id ws) m" "ws_raw_output_mode ws"
    and "ParseWebSocketCommand lib payload = Some (RequestControlCommand ControllerRemote)"
    and "ws_message deps lib clock True payload (ws, m) = (ws', m')"
  shows "au_authorized (fst (admit_observer store RemoteClient False client_address request now_ms (Some tokens) st))
    \<and> HasControl (ws_session_id ws) (ws_client_id ws) m'
    \<and> snd (ws_message deps lib clock False input (ws', m')) = snd (SendInput deps (ws_session_id ws) input m')"
proof -
  obtain granted m1 where r: "RequestControl (\<lambda>i. clock (i + 1)) (ws_session_id ws) (ws_client_id ws) ControllerRemote m = (granted, m1)"
    by fastforce
  have g: "granted" "HasControl (ws_session_id ws) (ws_client_id ws) m1"
    using RequestControl_granted [OF assms(5-7) _ r] by simp_all
  let ?ws1 = "ws\<lparr>ws_claimed_kind := ControllerRemote\<rparr>"
  have out: "m' = m1" "ws' = ws_QueueStatusEvents lib (GetSession (clock 0) (ws_session_id ws) m1) ?ws1"
    using assms(9,10) r g(1) by (auto simp: ws_message_def HandleClientCommand_def run_command_def Let_def)
  have same: "ws_session_id ws' = ws_session_id ws \<and> ws_raw_output_mode ws' = ws_raw_output_mode ws \<and> ws_client_id ws' = ws_client_id ws"
    unfolding out(2) by (auto simp: ws_QueueStatusEvents_def Let_def ws_QueueEvent_def note_status_def note_activity_def
        split: option.split)
  have "admit_observer store RemoteClient False client_address request now_ms (Some tokens) st
      = (admitted, Some (tokens(ExtractBearerToken request := None)))"
    using assms(1-4) by (simp add: admit_observer_def ConsumeIfValid_def)
  with g(2) out(1) same assms(8) show ?thesis
    by (simp add: admitted_def ws_message_def HandleClientBinary_def case_prod_beta)
qed

section \<open>Events\<close>

lemma ReserveThrough_reserved [simp]: "ReserveThrough (sw_reserved_next w) w = w"
  by (simp add: ReserveThrough_def)

lemma reserved_Reserve [simp]: "sw_reserved_next (ReserveThrough n w) = max (sw_reserved_next w) n"
  by (simp add: ReserveThrough_def)

lemma ws_QueueEvent_fields [simp]:
  "ws_session_id (ws_QueueEvent payload ws) = ws_session_id ws"
  "ws_client_id (ws_QueueEvent payload ws) = ws_client_id ws"
  "ws_raw_output_mode (ws_QueueEvent payload ws) = ws_raw_output_mode ws"
  "ws_exit_event_sent (ws_QueueEvent payload ws) = ws_exit_event_sent ws"
  "ws_sequence_window (ws_QueueEvent payload ws) = ws_sequence_window ws"
  "ws_pending_frames (ws_QueueEvent payload ws) = ws_pending_frames ws
     @ [\<lparr>sf_payload = payload, sf_next_sequence = sw_reserved_next (ws_sequence_window ws), sf_is_text = True\<rparr>]"
  "status_changed s (ws_QueueEvent payload ws) = status_changed s ws"
  "activity_changed s (ws_QueueEvent payload ws) = activity_changed s ws"
  by (simp_all add: ws_QueueEvent_def, simp_all add: ws_QueueFrame_def ws_DoWrite_def Let_def status_changed_def
      activity_changed_def)

lemma note_fields [simp]:
  "ws_session_id (note_status s ws) = ws_session_id ws" "ws_session_id (note_activity s ws) = ws_session_id ws"
  "ws_client_id (note_status s ws) = ws_client_id ws" "ws_client_id (note_activity s ws) = ws_client_id ws"
  "ws_raw_output_mode (note_status s ws) = ws_raw_output_mode ws"
  "ws_raw_output_mode (note_activity s ws) = ws_raw_output_mode ws"
  "ws_exit_event_sent (note_status s ws) = ws_exit_event_sent ws"
  "ws_exit_event_sent (note_activity s ws) = ws_exit_event_sent ws"
  "ws_sequence_window (note_status s ws) = ws_sequence_window ws"
  "ws_sequence_window (note_activity s ws) = ws_sequence_window ws"
  "ws_pending_frames (note_status s ws) = ws_pending_frames ws"
  "ws_pending_frames (note_activity s ws) = ws_pending_frames ws"
  "\<not> status_changed s (note_status s ws)" "\<not> activity_changed s (note_activity s ws)"
  "status_changed s (note_activity s ws) = status_changed s ws"
  "activity_changed s (note_status s ws) = activity_changed s ws"
  "status_changed s (ws\<lparr>ws_exit_event_sent := b\<rparr>) = status_changed s ws"
  "activity_changed s (ws\<lparr>ws_exit_event_sent := b\<rparr>) = activity_changed s ws"
  by (simp_all add: note_status_def note_activity_def status_changed_def activity_changed_def)

text \<open>What is told of a session: an update or, when only the activity differs, an activity event, and the end once.\<close>

definition status_events :: "JsonLib \<Rightarrow> SessionSummary \<Rightarrow> WebSocketSession \<Rightarrow> string list" where
  "status_events lib s ws =
     (if status_changed s ws then [ToJson_SessionUpdatedEvent lib s]
      else if activity_changed s ws then [ToJson_SessionActivityEvent lib s] else [])
     @ (if \<not> ws_exit_event_sent ws \<and> su_status s \<in> {Exited, Error}
        then [ToJson_SessionExitedEvent lib (sid_value (su_id s)) (su_status s)] else [])"

lemma ws_QueueStatusEvents_frames:
  "ws_pending_frames (ws_QueueStatusEvents lib (Some s) ws) = ws_pending_frames ws
     @ map (\<lambda>payload. \<lparr>sf_payload = payload, sf_next_sequence = sw_reserved_next (ws_sequence_window ws), sf_is_text = True\<rparr>)
         (status_events lib s ws)"
  "ws_sequence_window (ws_QueueStatusEvents lib (Some s) ws) = ws_sequence_window ws"
  "ws_session_id (ws_QueueStatusEvents lib (Some s) ws) = ws_session_id ws"
  "ws_raw_output_mode (ws_QueueStatusEvents lib (Some s) ws) = ws_raw_output_mode ws"
  "\<not> status_changed s (ws_QueueStatusEvents lib (Some s) ws)"
  "\<not> activity_changed s (ws_QueueStatusEvents lib (Some s) ws)"
  "ws_exit_event_sent (ws_QueueStatusEvents lib (Some s) ws) \<longleftrightarrow> ws_exit_event_sent ws \<or> su_status s \<in> {Exited, Error}"
  by (auto simp: ws_QueueStatusEvents_def status_events_def Let_def)

lemma ws_QueueStatusEvents_any:
  "(\<exists>events. list_all sf_is_text events \<and> ws_pending_frames (ws_QueueStatusEvents lib so ws) = ws_pending_frames ws @ events)
   \<and> ws_sequence_window (ws_QueueStatusEvents lib so ws) = ws_sequence_window ws
   \<and> ws_session_id (ws_QueueStatusEvents lib so ws) = ws_session_id ws
   \<and> ws_raw_output_mode (ws_QueueStatusEvents lib so ws) = ws_raw_output_mode ws"
proof (cases so)
  case None
  then show ?thesis by (auto simp: ws_QueueStatusEvents_def intro: exI [of _ "[]"])
next
  case (Some s)
  then show ?thesis by (auto simp: ws_QueueStatusEvents_frames list_all_iff)
qed

text \<open>An observer is told what changes and nothing else. One look at a session queues exactly the events
  that are due - one update if its status, tags or controller differ from what was last told, otherwise one activity
  event if anything else differs, and the end of the session if it was not told before - and a second look at
  the same state queues nothing: the session object is unchanged.\<close>

theorem status_events_once:
  "map sf_payload (drop (length (ws_pending_frames ws)) (ws_pending_frames (ws_QueueStatusEvents lib (Some s) ws)))
     = status_events lib s ws
   \<and> ws_QueueStatusEvents lib (Some s) (ws_QueueStatusEvents lib (Some s) ws) = ws_QueueStatusEvents lib (Some s) ws"
proof
  show "map sf_payload (drop (length (ws_pending_frames ws)) (ws_pending_frames (ws_QueueStatusEvents lib (Some s) ws)))
     = status_events lib s ws"
    by (simp add: ws_QueueStatusEvents_frames comp_def)
  have quiet: "ws_QueueStatusEvents lib (Some s) ws1 = ws1"
    if "\<not> status_changed s ws1" "\<not> activity_changed s ws1" "ws_exit_event_sent ws1 \<or> su_status s \<notin> {Exited, Error}" for ws1
    using that by (auto simp: ws_QueueStatusEvents_def Let_def)
  show "ws_QueueStatusEvents lib (Some s) (ws_QueueStatusEvents lib (Some s) ws) = ws_QueueStatusEvents lib (Some s) ws"
    by (rule quiet) (auto simp: ws_QueueStatusEvents_frames)
qed

section \<open>Output frames\<close>

text \<open>An observer gets the output of the session, all of it, once and in order. When everything up to now is
  reserved for it and the session has printed any number of chunks since, which its buffer still holds beside what
  it held, the next call queues text events and then one frame with exactly these bytes - as they are in the raw
  mode, in an output event otherwise - and everything is reserved again.\<close>

theorem websocket_streams_output:
  assumes "ob_inv b" "[] \<notin> set datas" "ob_next_sequence b + length datas < 18446744073709551616"
    and "\<forall>d \<in> set datas. length d \<le> ob_capacity_bytes b"
    and "ob_size_bytes b + length (concat datas) \<le> ob_capacity_bytes b"
    and "session_output (ws_session_id ws) m = Some (fold ob_Append datas b)"
    and "sw_reserved_next (ws_sequence_window ws) = ob_next_sequence b" "ws_session_id ws \<noteq> []" "datas \<noteq> []"
  shows "\<exists>events sl. list_all sf_is_text events \<and> os_data sl = concat datas
    \<and> ws_pending_frames (ws_SendPendingOutput lib now_ms m ws) = ws_pending_frames ws @ events @
        [\<lparr>sf_payload = (if ws_raw_output_mode ws then concat datas else ToJson_TerminalOutputEvent lib (ws_session_id ws) sl),
          sf_next_sequence = ob_next_sequence (fold ob_Append datas b), sf_is_text = (\<not> ws_raw_output_mode ws)\<rparr>]
    \<and> sw_reserved_next (ws_sequence_window (ws_SendPendingOutput lib now_ms m ws)) = ob_next_sequence (fold ob_Append datas b)"
proof -
  let ?n = "ob_next_sequence (fold ob_Append datas b)"
  obtain sl where sl: "GetOutputSince (ws_session_id ws) (ob_next_sequence b) m = Some sl" "os_data sl = concat datas"
    "u64_add (os_seq_end sl) 1 = ?n"
    using output_since_caught_up [OF assms(1-6)] assms(9) by blast
  have some: "concat datas \<noteq> []" using assms(2,9) by (cases datas) auto
  have grows: "ob_next_sequence b \<le> ?n" using ob_next_sequence_run [OF assms(1-3)] by simp
  define ws1 where "ws1 = ws_QueueStatusEvents lib (GetSession now_ms (ws_session_id ws) m) ws"
  have events: "\<exists>events. list_all sf_is_text events \<and> ws_pending_frames ws1 = ws_pending_frames ws @ events"
    "ws_session_id ws1 = ws_session_id ws" "ws_raw_output_mode ws1 = ws_raw_output_mode ws"
    "sw_reserved_next (ws_sequence_window ws1) = ob_next_sequence b"
    using assms(7) ws_QueueStatusEvents_any [of lib "GetSession now_ms (ws_session_id ws) m" ws]
    unfolding ws1_def by simp_all
  then have "ws_SendPendingOutput lib now_ms m ws = ws_QueueOutputFrame lib sl ?n ws1"
    using sl some assms(8) by (simp add: ws_SendPendingOutput_def ws1_def [symmetric] Let_def del: concat_eq_Nil_conv)
  with events sl(2) some grows show ?thesis
    by (auto simp: ws_QueueOutputFrame_def max_def simp del: concat_eq_Nil_conv)
qed

section \<open>Remote controllers without control\<close>

lemma rw_QueueFrame_manager:
  "payload \<noteq> [] \<or> rw_closed rw \<Longrightarrow> snd (rw_QueueFrame clock payload is_text (rw, m)) = m"
  by (auto simp: rw_QueueFrame_def rw_DoWrite_def Let_def)

text \<open>Claim C31: a remote controller that has lost control is stopped from typing but not from anything else. Its
  binary frames leave the manager unchanged; but its text frames are not checked, so as long as its socket is open
  it resizes and stops the session of whoever is in control now.\<close>

theorem remote_controller_text_unchecked:
  assumes "\<not> HasControl (rw_session_id rw) (rw_client_id rw) m"
    and "ParseWebSocketCommand lib stop = Some StopCommand"
    and "StopSession deps clock (rw_session_id rw) m = (True, m1)"
    and "ParseWebSocketCommand lib resize = Some (ResizeCommand terminal_size)"
    and "MakeControllerReleasedEvent lib (rw_session_id rw) \<noteq> []"
  shows "snd (HandleBinaryFrame deps lib clock keys (rw, m)) = m
    \<and> HandleTextFrame deps lib clock stop (rw, m) = (rw, m1)
    \<and> snd (HandleTextFrame deps lib clock resize (rw, m)) = snd (ResizeSession deps (rw_session_id rw) terminal_size m)"
proof -
  obtain ok m2 where r: "ResizeSession deps (rw_session_id rw) terminal_size m = (ok, m2)" by fastforce
  then have "controller_of (rw_session_id rw) m2 = controller_of (rw_session_id rw) m"
    by (metis controller_of_frame(2) snd_conv)
  then have "\<not> HasControl (rw_session_id rw) (rw_client_id rw) m2" using assms(1) by (simp add: HasControl_controller_of)
  then have "snd (rw_ForceClose clock (rw, m2)) = m2"
    by (simp add: rw_ForceClose_def rw_ReleaseControlIfHeld_def ReleaseControl_stranger)
  with assms r rw_QueueFrame_manager [of "MakeControllerReleasedEvent lib (rw_session_id rw)" rw clock True m]
  show ?thesis by (auto simp: HandleBinaryFrame_def HandleTextFrame_def Let_def case_prod_beta)
qed

section \<open>Sessions in use\<close>

definition demo_socket :: WebSocketSession where
  "demo_socket = (WebSocketSession_init (''/ws/sessions/'' @ demo_session))
     \<lparr>ws_client_id := ''ws_1'', ws_raw_output_mode := True\<rparr>"

definition control_request :: string where
  "control_request = jl_serialize unary_json (json_object
     [text_member ''type'' ''session.control.request'', text_member ''kind'' ''remote''])"

lemma demo_socket_id: "ws_session_id demo_socket = demo_session"
  by code_simp

lemma demo_not_controlled: "controller_of demo_session demo_manager = Some (None, ControllerHost)"
  by code_simp

theorem websocket_client_needs_control_witness:
  "snd (ws_message demo_deps unary_json (\<lambda>i. 9) False ''ls'' (demo_socket, demo_manager)) = demo_manager"
proof -
  obtain ws' m' where r: "ws_message demo_deps unary_json (\<lambda>i. 9) False ''ls'' (demo_socket, demo_manager) = (ws', m')"
    by fastforce
  have "\<not> HasControl (ws_session_id demo_socket) (ws_client_id demo_socket) demo_manager"
    using demo_not_controlled by (simp add: HasControl_controller_of demo_socket_id)
  from websocket_client_needs_control [OF this r] r show ?thesis
    by (auto split: option.splits WebSocketCommand.splits)
qed

theorem relay_observer_takes_control_witness:
  "HasControl demo_session ''ws_1'' (snd (ws_message demo_deps unary_json (\<lambda>i. 9) True control_request (demo_socket, demo_manager)))"
proof -
  let ?request = "\<lparr>ur_target = ''/ws/sessions/'' @ demo_session, ur_authorization = Some ''Bearer relay_1''\<rparr>"
  have token: "ExtractBearerToken ?request = ''relay_1''" by (simp add: ExtractBearerToken_def starts_with_def)
  obtain ws' m' where r: "ws_message demo_deps unary_json (\<lambda>i. 9) True control_request (demo_socket, demo_manager) = (ws', m')"
    by fastforce
  have state: "session_interactive (ws_session_id demo_socket) demo_manager"
    "\<not> held_remotely_by_other (ws_session_id demo_socket) (ws_client_id demo_socket) demo_manager"
    "ws_raw_output_mode demo_socket"
    "ws_session_id demo_socket = ExtractSessionIdFromWebSocketTarget (ur_target ?request)"
    "ParseWebSocketCommand unary_json control_request = Some (RequestControlCommand ControllerRemote)"
    by code_simp+
  have relay: "starts_with (ExtractBearerToken ?request) ''relay_''" unfolding token by (simp add: starts_with_def)
  have stored: "[''relay_1'' \<mapsto> \<lparr>re_session_id = ws_session_id demo_socket, re_expires_at = 5\<rparr>] (ExtractBearerToken ?request)
      = Some \<lparr>re_session_id = ws_session_id demo_socket, re_expires_at = 5\<rparr>"
    unfolding token by simp
  note relay_observer_takes_control [where request = ?request and tokens = "[''relay_1'' \<mapsto> \<lparr>re_session_id = ws_session_id demo_socket,
        re_expires_at = 5\<rparr>]" and now_ms = 5 and ws = demo_socket, OF relay stored order_refl state(4) manager_inv_reachable [OF demo_manager_reachable]
      state(1,2,3,5) r]
  from conjunct1 [OF conjunct2 [OF this]]
  have "HasControl (ws_session_id demo_socket) (ws_client_id demo_socket) m'" .
  with r show ?thesis by (simp add: demo_socket_id) (simp add: demo_socket_def)
qed

definition demo_printing :: "(string list, unit, nat, unit) SessionManager" where
  "demo_printing = (SessionManager_new () 1 1)\<lparr>sm_sessions := [(SessionEntry_default (SessionId demo_session))
     \<lparr>me_runtime := Some (demo_runtime\<lparr>rt_output_buffer := fold ob_Append [''cd'', ''e''] (SessionOutputBuffer_new 16)\<rparr>)\<rparr>]\<rparr>"

theorem websocket_streams_output_witness:
  "\<exists>events. ws_pending_frames (ws_SendPendingOutput unary_json 9 demo_printing demo_socket) = events @
         [\<lparr>sf_payload = ''cde'', sf_next_sequence = 3, sf_is_text = False\<rparr>]"
proof -
  have inv: "ob_inv (SessionOutputBuffer_new 16)" by (simp add: ob_inv_new)
  have out: "session_output (ws_session_id demo_socket) demo_printing =
      Some (fold ob_Append [''cd'', ''e''] (SessionOutputBuffer_new 16))"
    by (simp add: session_output_def demo_socket_id demo_printing_def FindEntry_def entry_id_def SessionEntry_default_def)
  have state: "sw_reserved_next (ws_sequence_window demo_socket) = ob_next_sequence (SessionOutputBuffer_new 16)"
    "ws_session_id demo_socket \<noteq> []"
    by (simp_all add: demo_socket_id demo_session_def)
      (simp add: demo_socket_def WebSocketSession_init_def StreamSequenceWindow_init_def SessionOutputBuffer_new_def)
  have next3: "ob_next_sequence (fold ob_Append [''cd'', ''e''] (SessionOutputBuffer_new 16)) = 3"
    using ob_next_sequence_run [OF inv, of "[''cd'', ''e'']"] by (simp add: SessionOutputBuffer_new_def)
  have raw: "ws_raw_output_mode demo_socket" "ws_pending_frames demo_socket = []"
    by (simp_all add: demo_socket_def WebSocketSession_init_def)
  have small: "\<forall>d \<in> set [''cd'', ''e'']. length d \<le> ob_capacity_bytes (SessionOutputBuffer_new 16)"
    "ob_size_bytes (SessionOutputBuffer_new 16) + length (concat [''cd'', ''e'']) \<le> ob_capacity_bytes (SessionOutputBuffer_new 16)"
    "ob_next_sequence (SessionOutputBuffer_new 16) + length [''cd'', ''e''] < 18446744073709551616"
    by (simp_all add: SessionOutputBuffer_new_def)
  obtain events sl where "os_data sl = concat [''cd'', ''e'']"
    "ws_pending_frames (ws_SendPendingOutput unary_json 9 demo_printing demo_socket) = ws_pending_frames demo_socket @ events @
        [\<lparr>sf_payload = (if ws_raw_output_mode demo_socket then concat [''cd'', ''e'']
              else ToJson_TerminalOutputEvent unary_json (ws_session_id demo_socket) sl),
          sf_next_sequence = ob_next_sequence (fold ob_Append [''cd'', ''e''] (SessionOutputBuffer_new 16)),
          sf_is_text = (\<not> ws_raw_output_mode demo_socket)\<rparr>]"
    using websocket_streams_output [OF inv _ small(3,1,2) out state, of unary_json 9] by auto
  then show ?thesis unfolding next3 using raw by auto
qed

definition demo_logging :: "(string list, unit, nat, unit) SessionManager" where
  "demo_logging = demo_manager\<lparr>sm_sessions := map (\<lambda>e. e\<lparr>me_log_process := Some 0\<rparr>) (sm_sessions demo_manager)\<rparr>"

definition demo_remote :: RemoteController where
  "demo_remote = (RemoteController_init (''/ws/sessions/'' @ demo_session @ ''/controller''))\<lparr>rw_client_id := ''remote-controller-1''\<rparr>"

definition stop_command :: string where
  "stop_command = jl_serialize unary_json (json_object [text_member ''type'' ''session.stop''])"

definition resize_command :: string where
  "resize_command = jl_serialize unary_json (json_object
     [text_member ''type'' ''terminal.resize'', size_member ''cols'' 5, size_member ''rows'' 3])"

theorem remote_controller_text_unchecked_witness:
  "\<not> session_interactive demo_session (snd (HandleTextFrame demo_deps unary_json (\<lambda>i. 9) stop_command (demo_remote, demo_logging)))"
proof -
  obtain ok m1 where stopped: "StopSession demo_deps (\<lambda>i. 9) (rw_session_id demo_remote) demo_logging = (ok, m1)" by fastforce
  have facts: "fst (StopSession demo_deps (\<lambda>i. 9) (rw_session_id demo_remote) demo_logging)"
    "\<not> session_interactive demo_session (snd (StopSession demo_deps (\<lambda>i. 9) (rw_session_id demo_remote) demo_logging))"
    "\<not> HasControl (rw_session_id demo_remote) (rw_client_id demo_remote) demo_logging"
    "ParseWebSocketCommand unary_json stop_command = Some StopCommand"
    "ParseWebSocketCommand unary_json resize_command = Some (ResizeCommand \<lparr>ts_columns = 5, ts_rows = 3\<rparr>)"
    "MakeControllerReleasedEvent unary_json (rw_session_id demo_remote) \<noteq> []"
    by code_simp+
  then have "ok" using stopped by simp
  with remote_controller_text_unchecked [OF facts(3,4) _ facts(5,6), of demo_deps "\<lambda>i. 9" m1] stopped facts(2)
  show ?thesis by simp
qed

end
