(* ===== verification/Document_Stores.thy ===== *)
theory Document_Stores
  imports File_Stores Env_File
begin

text \<open>
  The stores of documents of \<open>src/store/file_stores.cpp\<close>: prompt templates and stored evidence, both
  addressed by identifiers that come from requests. What they write is proved to stay in their own
  directories for every identifier, and stored evidence is proved to be loaded as it was created.
\<close>

section \<open>Paths\<close>

definition TemplatesRoot :: "path \<Rightarrow> path" where
  "TemplatesRoot storage_root = storage_root @ [''template_prompt'']"

definition EvidenceRoot :: "path \<Rightarrow> path" where
  "EvidenceRoot storage_root = storage_root @ [''evidence'', ''sessions'']"

definition MetadataPath :: "path \<Rightarrow> path" where
  "MetadataPath directory = directory @ [''metadata.json'']"

definition IsSafeIdentifier :: "string \<Rightarrow> bool" where
  "IsSafeIdentifier value \<longleftrightarrow>
     \<not> (value = [] \<or> value = ''.'' \<or> value = ''..'')
     \<and> list_all (\<lambda>ch. is_alnum_char ch \<or> ch = CHR ''_'' \<or> ch = CHR ''-'' \<or> ch = CHR ''.'') value"

definition IsSafeTemplateId :: "string \<Rightarrow> bool" where
  "IsSafeTemplateId value \<longleftrightarrow> IsSafeIdentifier value \<and> suffix ''.md'' value"

definition TemplatePath :: "path \<Rightarrow> string \<Rightarrow> path option" where
  "TemplatePath storage_root template_id =
     (if \<not> IsSafeTemplateId template_id then None else Some (TemplatesRoot storage_root @ [template_id]))"

definition EvidenceDirectory :: "path \<Rightarrow> string \<Rightarrow> string \<Rightarrow> path option" where
  "EvidenceDirectory storage_root session_id evidence_id =
     (if \<not> IsSafeIdentifier session_id \<or> \<not> IsSafeIdentifier evidence_id then None
      else Some (EvidenceRoot storage_root @ [session_id, evidence_id]))"

section \<open>Prompt templates\<close>

text \<open>\<open>last_write_time\<close> gives the time of a file in milliseconds since the epoch, if it has one.\<close>

type_synonym file_times = "path \<Rightarrow> unix_ms option"

record PromptTemplateSummary =
  pt_id :: string
  pt_title :: string
  pt_updated_at_unix_ms :: unix_ms
  pt_size_bytes :: nat

record PromptTemplateRecord =
  pt_summary :: PromptTemplateSummary
  pt_content :: string

definition FileUpdatedTimeUnixMs :: "file_times \<Rightarrow> path \<Rightarrow> unix_ms" where
  "FileUpdatedTimeUnixMs last_write_time p = (case last_write_time p of None \<Rightarrow> 0 | Some t \<Rightarrow> t)"

definition FileSize :: "path \<Rightarrow> FileSystem \<Rightarrow> nat" where
  "FileSize p fs = (case file_at p fs of None \<Rightarrow> 0 | Some d \<Rightarrow> length d)"

definition to_upper_char :: "char \<Rightarrow> char" where
  "to_upper_char c = (if is_lower_char c then char_of (byte c - 32) else c)"

definition capitalise :: "string \<Rightarrow> string" where
  "capitalise s = (case s of [] \<Rightarrow> [] | c # cs \<Rightarrow> to_upper_char c # cs)"

definition TemplateTitleFromId :: "string \<Rightarrow> string" where
  "TemplateTitleFromId template_id =
     (let base = (if suffix ''.md'' template_id then take (length template_id - 3) template_id
                  else template_id)
      in capitalise (map (\<lambda>c. if c = CHR ''_'' \<or> c = CHR ''-'' then CHR '' '' else c) base))"

definition TemplateTitleFromContent :: "string \<Rightarrow> string \<Rightarrow> string" where
  "TemplateTitleFromContent template_id content =
     (case find (\<lambda>line. starts_with line ''# '' \<and> length line > 2) (content_lines content) of
        Some line \<Rightarrow> drop 2 line
      | None \<Rightarrow> TemplateTitleFromId template_id)"

definition unlines :: "string list \<Rightarrow> string" where
  "unlines ls = concat (map (\<lambda>l. l @ [ch_nl]) ls)"

definition code_review_template :: string where
  "code_review_template = unlines
     [''# Code Review'', [], ''## Task'', ''{{TASK}}'', [], ''## Evidence'', ''{{EVIDENCE}}'', [],
      ''## Constraints'', ''- Prioritize correctness, regressions, and missing tests.'',
      ''- Keep the review concise and grounded in file references.'', [],
      ''## Verification'', ''{{VERIFICATION}}'']"

definition debugging_template :: string where
  "debugging_template = unlines
     [''# Debugging'', [], ''## Symptom'', ''{{SYMPTOM}}'', [], ''## Evidence'', ''{{EVIDENCE}}'', [],
      ''## Request'', ''Find the root cause, make the smallest fix, and summarize verification.'']"

text \<open>\<open>path::extension() == ".md"\<close>: a name that only has a leading dot has no extension.\<close>

definition has_md_extension :: "path \<Rightarrow> bool" where
  "has_md_extension p \<longleftrightarrow> p \<noteq> [] \<and> suffix ''.md'' (last p) \<and> last p \<noteq> ''.md''"

definition SeedDefaultTemplatesIfEmpty :: "path \<Rightarrow> FileSystem \<Rightarrow> FileSystem" where
  "SeedDefaultTemplatesIfEmpty storage_root fs =
     (let root = TemplatesRoot storage_root in
      if dir_exists root fs
         \<and> list_ex (\<lambda>(q, n). n \<noteq> Dir \<and> has_md_extension q) (directory_entries root fs)
      then fs
      else
        let fs1 = snd (WriteFileAtomically (root @ [''code_review.md'']) code_review_template fs)
        in snd (WriteFileAtomically (root @ [''debugging.md'']) debugging_template fs1))"

definition TemplateSummaryFromFile :: "file_times \<Rightarrow> path \<Rightarrow> FileSystem \<Rightarrow> PromptTemplateSummary option" where
  "TemplateSummaryFromFile last_write_time p fs =
     (let template_id = last p in
      if \<not> IsSafeTemplateId template_id then None
      else
        case ReadFile p fs of
          None \<Rightarrow> None
        | Some content \<Rightarrow>
            Some \<lparr>pt_id = template_id, pt_title = TemplateTitleFromContent template_id content,
                  pt_updated_at_unix_ms = FileUpdatedTimeUnixMs last_write_time p,
                  pt_size_bytes = FileSize p fs\<rparr>)"

definition string_less :: "string \<Rightarrow> string \<Rightarrow> bool" where
  "string_less a b \<longleftrightarrow> ord.lexordp (<) (map byte a) (map byte b)"

fun insert_by :: "('a \<Rightarrow> 'a \<Rightarrow> bool) \<Rightarrow> 'a \<Rightarrow> 'a list \<Rightarrow> 'a list" where
  "insert_by before x [] = [x]"
| "insert_by before x (y # ys) = (if before y x then y # insert_by before x ys else x # y # ys)"

definition sort_by :: "('a \<Rightarrow> 'a \<Rightarrow> bool) \<Rightarrow> 'a list \<Rightarrow> 'a list" where
  "sort_by before xs = foldr (insert_by before) xs []"

definition ListTemplates ::
    "file_times \<Rightarrow> path \<Rightarrow> FileSystem \<Rightarrow> PromptTemplateSummary list \<times> FileSystem" where
  "ListTemplates last_write_time storage_root fs =
     (let fs1 = SeedDefaultTemplatesIfEmpty storage_root fs;
          root = TemplatesRoot storage_root
      in
      if \<not> dir_exists root fs1 then ([], fs1)
      else
        (sort_by (\<lambda>l r. string_less (pt_id l) (pt_id r))
           (List.map_filter (\<lambda>(q, n). if n = Dir then None else TemplateSummaryFromFile last_write_time q fs1)
              (directory_entries root fs1)),
         fs1))"

definition LoadTemplate ::
    "file_times \<Rightarrow> path \<Rightarrow> string \<Rightarrow> FileSystem \<Rightarrow> PromptTemplateRecord option \<times> FileSystem" where
  "LoadTemplate last_write_time storage_root template_id fs =
     (let fs1 = SeedDefaultTemplatesIfEmpty storage_root fs in
      (case TemplatePath storage_root template_id of
         None \<Rightarrow> None
       | Some p \<Rightarrow>
           (case ReadFile p fs1 of
              None \<Rightarrow> None
            | Some content \<Rightarrow>
                map_option (\<lambda>summary. \<lparr>pt_summary = summary, pt_content = content\<rparr>)
                  (TemplateSummaryFromFile last_write_time p fs1)),
       fs1))"

definition UpsertTemplate :: "path \<Rightarrow> string \<Rightarrow> string \<Rightarrow> FileSystem \<Rightarrow> bool \<times> FileSystem" where
  "UpsertTemplate storage_root template_id content fs =
     (case TemplatePath storage_root template_id of
        None \<Rightarrow> (False, fs)
      | Some p \<Rightarrow> if content = [] then (False, fs) else WriteFileAtomically p content fs)"

definition RemoveTemplate :: "path \<Rightarrow> string \<Rightarrow> FileSystem \<Rightarrow> bool \<times> FileSystem" where
  "RemoveTemplate storage_root template_id fs =
     (case TemplatePath storage_root template_id of
        None \<Rightarrow> (False, fs)
      | Some p \<Rightarrow> let ((removed, error), fs1) = remove_path p fs in (removed \<and> \<not> error, fs1))"

section \<open>Stored evidence\<close>

record StoredEvidenceRecord =
  sev_summary :: StoredEvidenceSummary
  sev_markdown_content :: "string option"
  sev_evidence_json :: "string option"

definition LoadStoredEvidenceMetadata :: "JsonLib \<Rightarrow> path \<Rightarrow> FileSystem \<Rightarrow> StoredEvidenceSummary option" where
  "LoadStoredEvidenceMetadata lib directory =
     LoadOptionalFromJsonFile lib (MetadataPath directory) StoredEvidenceSummaryFromJson"

definition WriteStoredEvidenceMetadata ::
    "JsonLib \<Rightarrow> path \<Rightarrow> StoredEvidenceSummary \<Rightarrow> FileSystem \<Rightarrow> bool \<times> FileSystem" where
  "WriteStoredEvidenceMetadata lib directory summary =
     WriteFileAtomically (MetadataPath directory) (jl_serialize lib (StoredEvidenceSummaryToJson summary))"

definition evidence_before :: "StoredEvidenceSummary \<Rightarrow> StoredEvidenceSummary \<Rightarrow> bool" where
  "evidence_before l r \<longleftrightarrow>
     (if se_created_at_unix_ms l \<noteq> se_created_at_unix_ms r
      then se_created_at_unix_ms l > se_created_at_unix_ms r
      else string_less (se_evidence_id l) (se_evidence_id r))"

definition ListEvidence :: "JsonLib \<Rightarrow> path \<Rightarrow> string \<Rightarrow> FileSystem \<Rightarrow> StoredEvidenceSummary list" where
  "ListEvidence lib storage_root session_id fs =
     (let root = EvidenceRoot storage_root @ [session_id] in
      if \<not> IsSafeIdentifier session_id \<or> \<not> dir_exists root fs then []
      else
        sort_by evidence_before
          (List.map_filter (\<lambda>(q, n). if n = Dir then LoadStoredEvidenceMetadata lib q fs else None)
             (directory_entries root fs)))"

definition LoadEvidence ::
    "JsonLib \<Rightarrow> path \<Rightarrow> string \<Rightarrow> string \<Rightarrow> FileSystem \<Rightarrow> StoredEvidenceRecord option" where
  "LoadEvidence lib storage_root session_id evidence_id fs =
     (case EvidenceDirectory storage_root session_id evidence_id of
        None \<Rightarrow> None
      | Some directory \<Rightarrow>
          (case LoadStoredEvidenceMetadata lib directory fs of
             None \<Rightarrow> None
           | Some summary \<Rightarrow>
               let r = \<lparr>sev_summary = summary, sev_markdown_content = None, sev_evidence_json = None\<rparr> in
               if se_kind summary = ''user_markdown'' then
                 (case ReadFile (directory @ [''content.md'']) fs of
                    None \<Rightarrow> None | Some content \<Rightarrow> Some (r\<lparr>sev_markdown_content := Some content\<rparr>))
               else if se_kind summary = ''log_snapshot'' then
                 (case ReadFile (directory @ [''evidence.json'']) fs of
                    None \<Rightarrow> None | Some content \<Rightarrow> Some (r\<lparr>sev_evidence_json := Some content\<rparr>))
               else Some r))"

text \<open>The two \<open>Create\<close> operations differ in the kind, the content type and the name of the file.\<close>

definition create_evidence ::
    "JsonLib \<Rightarrow> string \<Rightarrow> string \<Rightarrow> string \<Rightarrow> path \<Rightarrow> string \<Rightarrow> string \<Rightarrow> string \<Rightarrow> string \<Rightarrow> unix_ms
       \<Rightarrow> FileSystem \<Rightarrow> StoredEvidenceSummary option \<times> FileSystem" where
  "create_evidence lib kind content_type file_name storage_root session_id evidence_id title content created_at fs =
     (case EvidenceDirectory storage_root session_id evidence_id of
        None \<Rightarrow> (None, fs)
      | Some directory \<Rightarrow>
          if title = [] \<or> content = [] then (None, fs)
          else
            let summary = \<lparr>se_evidence_id = evidence_id, se_session_id = session_id, se_kind = kind,
                           se_title = title, se_content_type = content_type,
                           se_created_at_unix_ms = created_at, se_size_bytes = length content\<rparr>;
                (written, fs1) = WriteFileAtomically (directory @ [file_name]) content fs;
                (ok, fs2) = (if written then WriteStoredEvidenceMetadata lib directory summary fs1
                             else (False, fs1))
            in
            if \<not> ok then (None, snd (remove_all directory fs2)) else (Some summary, fs2))"

definition CreateMarkdownEvidence ::
    "JsonLib \<Rightarrow> path \<Rightarrow> string \<Rightarrow> string \<Rightarrow> string \<Rightarrow> string \<Rightarrow> unix_ms \<Rightarrow> FileSystem
       \<Rightarrow> StoredEvidenceSummary option \<times> FileSystem" where
  "CreateMarkdownEvidence lib = create_evidence lib ''user_markdown'' ''text/markdown'' ''content.md''"

definition CreateLogSnapshotEvidence ::
    "JsonLib \<Rightarrow> path \<Rightarrow> string \<Rightarrow> string \<Rightarrow> string \<Rightarrow> string \<Rightarrow> unix_ms \<Rightarrow> FileSystem
       \<Rightarrow> StoredEvidenceSummary option \<times> FileSystem" where
  "CreateLogSnapshotEvidence lib = create_evidence lib ''log_snapshot'' ''application/json'' ''evidence.json''"

definition RemoveEvidence :: "path \<Rightarrow> string \<Rightarrow> string \<Rightarrow> FileSystem \<Rightarrow> bool \<times> FileSystem" where
  "RemoveEvidence storage_root session_id evidence_id fs =
     (case EvidenceDirectory storage_root session_id evidence_id of
        None \<Rightarrow> (False, fs)
      | Some directory \<Rightarrow>
          let ((removed_count, error), fs1) = remove_all directory fs
          in (\<not> error \<and> removed_count > 0, fs1))"

section \<open>Writes stay inside\<close>

lemma safe_identifier_chars:
  "IsSafeIdentifier value \<Longrightarrow> value \<noteq> [] \<and> value \<noteq> ''.'' \<and> value \<noteq> ''..'' \<and> CHR ''/'' \<notin> set value"
  by (auto simp: IsSafeIdentifier_def list_all_iff is_alnum_char_def is_digit_char_def is_upper_char_def
      is_lower_char_def byte_def)

lemma temp_path_snoc [simp]: "temp_path (p @ [x]) = p @ [x @ ''.tmp'']"
  by (simp add: temp_path_def)

lemma WriteFileAtomically_below:
  assumes "\<not> prefix d q"
  shows "file_at q (snd (WriteFileAtomically (d @ [x]) data fs)) = file_at q fs"
proof -
  have "q \<noteq> d @ [x]" "q \<noteq> d @ [x @ ''.tmp'']" using assms by auto
  then show ?thesis
    using WriteFileAtomically_files(1) [of "d @ [x]" data fs _ _ q]
    by (cases "WriteFileAtomically (d @ [x]) data fs") auto
qed

lemma fold_del_below:
  "\<forall>p \<in> set ps. p \<noteq> q \<Longrightarrow> file_at q (fold del_node ps fs) = file_at q fs"
  by (induction ps arbitrary: fs) auto

lemma remove_all_below:
  assumes "\<not> prefix d q"
  shows "file_at q (snd (remove_all d fs)) = file_at q fs"
proof -
  obtain f fs1 where nf: "next_fault fs = (f, fs1)" by fastforce
  let ?doomed = "map fst (filter (\<lambda>(r, n). prefix d r) (fs_nodes fs1))"
  have "\<forall>p \<in> set ?doomed. p \<noteq> q" using assms by auto
  then have "file_at q (fold del_node (take n ?doomed) fs1) = file_at q fs1"
    "file_at q (fold del_node ?doomed fs1) = file_at q fs1" for n
    using fold_del_below [of "take n ?doomed" q fs1] fold_del_below [of ?doomed q fs1]
    by (auto dest!: in_set_takeD simp del: set_map)
  then show ?thesis
    using next_fault_parts(2) [OF nf] nf by (simp add: remove_all_def Let_def split: option.splits)
qed

lemma create_evidence_below:
  assumes "\<not> prefix (EvidenceRoot root @ [s, e]) q"
  shows "file_at q (snd (create_evidence lib kind ct name root s e title content at fs)) = file_at q fs"
proof -
  let ?d = "EvidenceRoot root @ [s, e]"
  have below: "file_at q (snd (WriteFileAtomically (?d @ [x]) data fs)) = file_at q fs" for x data fs
    using WriteFileAtomically_below assms by blast
  show ?thesis
  proof (cases "EvidenceDirectory root s e = None \<or> title = [] \<or> content = []")
    case True
    then show ?thesis by (auto simp: create_evidence_def split: option.splits)
  next
    case False
    then have dir: "EvidenceDirectory root s e = Some ?d" by (auto simp: EvidenceDirectory_def split: if_splits)
    let ?summary = "\<lparr>se_evidence_id = e, se_session_id = s, se_kind = kind, se_title = title,
        se_content_type = ct, se_created_at_unix_ms = at, se_size_bytes = length content\<rparr>"
    let ?fs1 = "snd (WriteFileAtomically (?d @ [name]) content fs)"
    let ?fs2 = "snd (WriteStoredEvidenceMetadata lib ?d ?summary ?fs1)"
    have "snd (create_evidence lib kind ct name root s e title content at fs) \<in>
        {?fs2, snd (remove_all ?d ?fs1), snd (remove_all ?d ?fs2)}"
      using False dir by (auto simp: create_evidence_def Let_def split: prod.splits)
    moreover have "file_at q ?fs1 = file_at q fs" by (rule below)
    moreover have "file_at q ?fs2 = file_at q ?fs1"
      unfolding WriteStoredEvidenceMetadata_def MetadataPath_def by (rule below)
    ultimately show ?thesis using remove_all_below [OF assms] by auto
  qed
qed

text \<open>An operation changes files below a directory only, and only for identifiers without path syntax.\<close>

definition confined :: "path \<Rightarrow> string list \<Rightarrow> FileSystem \<Rightarrow> FileSystem \<Rightarrow> bool" where
  "confined d ids fs fs' \<longleftrightarrow>
     (\<forall>q. file_at q fs' \<noteq> file_at q fs \<longrightarrow>
        prefix d q \<and> (\<forall>x \<in> set ids. x \<noteq> [] \<and> x \<noteq> ''.'' \<and> x \<noteq> ''..'' \<and> CHR ''/'' \<notin> set x))"

lemma confinedI:
  assumes "\<And>q. \<not> prefix d q \<Longrightarrow> file_at q fs' = file_at q fs"
    and "\<not> list_all IsSafeIdentifier ids \<Longrightarrow> fs' = fs"
  shows "confined d ids fs fs'"
  unfolding confined_def using assms safe_identifier_chars by (metis list_all_iff)

lemma create_evidence_confined:
  "confined (EvidenceRoot root @ [s, e]) [s, e] fs (snd (create_evidence lib kind ct name root s e title content at fs))"
  using create_evidence_below
  by (intro confinedI) (auto simp: create_evidence_def EvidenceDirectory_def)

lemma RemoveEvidence_confined:
  "confined (EvidenceRoot root @ [s, e]) [s, e] fs (snd (RemoveEvidence root s e fs))"
proof (rule confinedI)
  show "file_at q (snd (RemoveEvidence root s e fs)) = file_at q fs" if "\<not> prefix (EvidenceRoot root @ [s, e]) q" for q
    using remove_all_below [OF that, of fs]
    by (auto simp: RemoveEvidence_def EvidenceDirectory_def split: prod.splits)
qed (auto simp: RemoveEvidence_def EvidenceDirectory_def)

lemma UpsertTemplate_confined: "confined (TemplatesRoot root) [i] fs (snd (UpsertTemplate root i content fs))"
  using WriteFileAtomically_below
  by (intro confinedI) (auto simp: UpsertTemplate_def TemplatePath_def IsSafeTemplateId_def)

lemma RemoveTemplate_confined: "confined (TemplatesRoot root) [i] fs (snd (RemoveTemplate root i fs))"
proof (rule confinedI)
  show "file_at q (snd (RemoveTemplate root i fs)) = file_at q fs" if "\<not> prefix (TemplatesRoot root) q" for q
  proof -
    have "q \<noteq> TemplatesRoot root @ [i]" using that by auto
    then show ?thesis
      using remove_path_files(2) [of q "TemplatesRoot root @ [i]" fs]
      by (auto simp: RemoveTemplate_def TemplatePath_def split: prod.splits)
  qed
qed (auto simp: RemoveTemplate_def TemplatePath_def IsSafeTemplateId_def)

text \<open>Whatever session, evidence and template ids a request carries, storing or removing a document touches
  files only below that document's own directory, and only when the ids contain no path syntax: no id can be used
  to write or delete anywhere else.\<close>

theorem document_stores_confined:
  "confined (EvidenceRoot root @ [s, e]) [s, e] fs (snd (CreateMarkdownEvidence lib root s e title content at fs))
   \<and> confined (EvidenceRoot root @ [s, e]) [s, e] fs (snd (CreateLogSnapshotEvidence lib root s e title content at fs))
   \<and> confined (EvidenceRoot root @ [s, e]) [s, e] fs (snd (RemoveEvidence root s e fs))
   \<and> confined (TemplatesRoot root) [i] fs (snd (UpsertTemplate root i content fs))
   \<and> confined (TemplatesRoot root) [i] fs (snd (RemoveTemplate root i fs))"
  by (simp add: CreateMarkdownEvidence_def CreateLogSnapshotEvidence_def create_evidence_confined
      RemoveEvidence_confined UpsertTemplate_confined RemoveTemplate_confined)

section \<open>Stored evidence is loaded as it was created\<close>

definition EvidenceSummary_ok :: "StoredEvidenceSummary \<Rightarrow> bool" where
  "EvidenceSummary_ok summary \<longleftrightarrow>
     valid_utf8 (se_title summary) \<and> 0 \<le> se_created_at_unix_ms summary
     \<and> int64_ok (se_created_at_unix_ms summary) \<and> int (se_size_bytes summary) < 2 ^ 64"

lemma EvidenceSummary_roundtrip:
  "EvidenceSummary_ok s \<Longrightarrow> StoredEvidenceSummaryFromJson (json_reparse (StoredEvidenceSummaryToJson s)) = Some s"
  by (simp add: StoredEvidenceSummaryFromJson_def StoredEvidenceSummaryToJson_def json_read_defs EvidenceSummary_ok_def
      int64_ok_def int64_cast_def)

lemma safe_identifier_utf8: "IsSafeIdentifier i \<Longrightarrow> valid_utf8 i"
  by (rule ascii_valid_utf8) (auto simp: IsSafeIdentifier_def list_all_iff is_alnum_char_def is_digit_char_def
      is_upper_char_def is_lower_char_def byte_def)

lemma evidence_key_valid [simp]:
  "valid_utf8 ''evidenceId''" "valid_utf8 ''sessionId''" "valid_utf8 ''kind''" "valid_utf8 ''title''"
  "valid_utf8 ''contentType''" "valid_utf8 ''createdAtUnixMs''" "valid_utf8 ''sizeBytes''"
  "valid_utf8 ''user_markdown''" "valid_utf8 ''text/markdown''" "valid_utf8 ''log_snapshot''"
  "valid_utf8 ''application/json''"
  by (rule ascii_valid_utf8, simp add: byte_def)+

lemma create_evidence_loads:
  assumes lib: "json_lib lib" and rel: "reliable fs"
    and kind: "(kind, ct, name) \<in> {(''user_markdown'', ''text/markdown'', ''content.md''),
                                   (''log_snapshot'', ''application/json'', ''evidence.json'')}"
    and created: "create_evidence lib kind ct name root s e title content at fs = (Some summary, fs')"
    and ok: "EvidenceSummary_ok summary"
  shows "LoadStoredEvidenceMetadata lib (EvidenceRoot root @ [s, e]) fs' = Some summary
    \<and> file_at (EvidenceRoot root @ [s, e, name]) fs' = Some content
    \<and> EvidenceDirectory root s e = Some (EvidenceRoot root @ [s, e]) \<and> se_kind summary = kind"
proof -
  let ?d = "EvidenceRoot root @ [s, e]"
  from created have safe: "IsSafeIdentifier s" "IsSafeIdentifier e"
    and dir: "EvidenceDirectory root s e = Some ?d"
    by (auto simp: create_evidence_def EvidenceDirectory_def split: if_splits)
  obtain fs1 where w1: "WriteFileAtomically (?d @ [name]) content fs = (True, fs1)"
    and w2: "WriteStoredEvidenceMetadata lib ?d summary fs1 = (True, fs')"
    and sum: "summary = \<lparr>se_evidence_id = e, se_session_id = s, se_kind = kind, se_title = title,
        se_content_type = ct, se_created_at_unix_ms = at, se_size_bytes = length content\<rparr>"
    using created dir by (auto simp: create_evidence_def Let_def split: prod.splits if_splits)
  have rel1: "reliable fs1" and c1: "file_at (?d @ [name]) fs1 = Some content"
    using WriteFileAtomically_files(4) [OF _ w1] rel by (auto simp: reliable_def)
  have w: "WriteFileAtomically (?d @ [''metadata.json'']) (jl_serialize lib (StoredEvidenceSummaryToJson summary)) fs1
      = (True, fs')"
    using w2 by (simp add: WriteStoredEvidenceMetadata_def MetadataPath_def)
  have "file_at (?d @ [name]) fs' = file_at (?d @ [name]) fs1"
    using kind by (intro WriteFileAtomically_files(1) [OF _ w]) (auto simp: temp_path_def butlast_append)
  moreover have "json_ok max_depth (StoredEvidenceSummaryToJson summary)"
    using ok kind safe
    by (auto simp: StoredEvidenceSummaryToJson_def EvidenceSummary_ok_def sum max_depth_def safe_identifier_utf8)
  then have "LoadStoredEvidenceMetadata lib ?d fs' = Some summary"
    unfolding LoadStoredEvidenceMetadata_def MetadataPath_def
    using json_lib.LoadFromJsonFile_written(2) [OF lib _ rel1 _ _ w, where loader = StoredEvidenceSummaryFromJson
        and x = summary] EvidenceSummary_roundtrip [OF ok] by simp
  ultimately show ?thesis using c1 dir sum by simp
qed

text \<open>A document that was stored is loaded as it was given, with the metadata that the creation returned,
  for user notes and for log snapshots.\<close>

theorem evidence_create_load:
  assumes "json_lib_roundtrip lib" "json_lib_accepts_ok lib" "reliable fs"
    and "CreateMarkdownEvidence lib root s e title content at fs = (Some summary, fs1)" "EvidenceSummary_ok summary"
    and "CreateLogSnapshotEvidence lib root s' e' title' content' at' fs = (Some summary', fs2)"
      "EvidenceSummary_ok summary'"
  shows "LoadEvidence lib root s e fs1 =
      Some \<lparr>sev_summary = summary, sev_markdown_content = Some content, sev_evidence_json = None\<rparr>
    \<and> LoadEvidence lib root s' e' fs2 =
      Some \<lparr>sev_summary = summary', sev_markdown_content = None, sev_evidence_json = Some content'\<rparr>"
  using create_evidence_loads [OF json_lib.intro [OF assms(1,2)] assms(3) _
      assms(4) [unfolded CreateMarkdownEvidence_def] assms(5)]
    create_evidence_loads [OF json_lib.intro [OF assms(1,2)] assms(3) _
      assms(6) [unfolded CreateLogSnapshotEvidence_def] assms(7)]
  by (simp add: LoadEvidence_def ReadFile_def)

definition demo_evidence :: "string \<Rightarrow> StoredEvidenceSummary" where
  "demo_evidence kind =
     (if kind = ''md'' then the (fst (CreateMarkdownEvidence unary_json [''r''] ''s'' ''e'' ''t'' ''c'' 2 demo_fs))
      else the (fst (CreateLogSnapshotEvidence unary_json [''r''] ''s'' ''e'' ''t'' ''c'' 2 demo_fs)))"

theorem evidence_create_load_witness:
  "LoadEvidence unary_json [''r''] ''s'' ''e'' (snd (CreateMarkdownEvidence unary_json [''r''] ''s'' ''e'' ''t'' ''c'' 2 demo_fs))
   = Some \<lparr>sev_summary = demo_evidence ''md'', sev_markdown_content = Some ''c'', sev_evidence_json = None\<rparr>"
proof -
  let ?m = "CreateMarkdownEvidence unary_json [''r''] ''s'' ''e'' ''t'' ''c'' 2 demo_fs"
  let ?l = "CreateLogSnapshotEvidence unary_json [''r''] ''s'' ''e'' ''t'' ''c'' 2 demo_fs"
  have "fst ?m \<noteq> None" "fst ?l \<noteq> None" by code_simp+
  then have c: "?m = (Some (demo_evidence ''md''), snd ?m)" "?l = (Some (demo_evidence ''log''), snd ?l)"
    by (simp_all add: demo_evidence_def prod_eq_iff)
  have "EvidenceSummary_ok (demo_evidence ''md'')" "EvidenceSummary_ok (demo_evidence ''log'')" by code_simp+
  then show ?thesis using evidence_create_load [OF demo_lib demo_start(1) c(1) _ c(2)] by blast
qed

end
