(* ===== verification/Server_Clients.thy ===== *)
theory Server_Clients
  imports WebSocket_Sessions Document_Stores "HOL-Library.Multiset"
begin

text \<open>
  The clients of the server as \<open>src/net/http_server.cpp\<close> keeps them: the registries of WebSocket sessions, the
  overview sessions with their inventories and broadcasts, \<open>HostAdminService\<close>, which lists and disconnects clients,
  and \<open>SessionPump\<close>, which polls the sessions and passes their output on. A session object is reached by number; a
  \<open>weak_ptr\<close> is the number, expired when no object has it. The registries are lists in the order of iteration.
\<close>

section \<open>Clients and registries\<close>

datatype ClientSocket = ObserverSocket WebSocketSession | ControllerSocket RemoteController

fun socket_session_id :: "ClientSocket \<Rightarrow> string" where
  "socket_session_id (ObserverSocket ws) = ws_session_id ws"
| "socket_session_id (ControllerSocket rw) = rw_session_id rw"

fun socket_client_id :: "ClientSocket \<Rightarrow> string" where
  "socket_client_id (ObserverSocket ws) = ws_client_id ws"
| "socket_client_id (ControllerSocket rw) = rw_client_id rw"

fun socket_claimed_kind :: "ClientSocket \<Rightarrow> ControllerKind" where
  "socket_claimed_kind (ObserverSocket ws) = ws_claimed_kind ws"
| "socket_claimed_kind (ControllerSocket rw) = ControllerRemote"

fun socket_closed :: "ClientSocket \<Rightarrow> bool" where
  "socket_closed (ObserverSocket ws) = ws_closed ws"
| "socket_closed (ControllerSocket rw) = rw_closed rw"

record Client =
  ct_socket :: ClientSocket
  ct_client_address :: string
  ct_is_local_request :: bool
  ct_connected_at_unix_ms :: unix_ms

record OverviewSession =
  ov_client_id :: string
  ov_is_local_request :: bool
  ov_last_inventory_payload :: "string option"
  ov_pending_frames :: "string list"
  ov_posted :: "string list"
  ov_sent :: "string list"
  ov_write_in_progress :: bool
  ov_closed :: bool

record ('p, 'vt, 'l, 's) Server =
  sv_manager :: "('p, 'vt, 'l, 's) SessionManager"
  sv_clients :: "nat \<rightharpoonup> Client"
  sv_registry :: "(string \<times> nat list) list"
  sv_overviews :: "nat \<rightharpoonup> OverviewSession"
  sv_overview_registry :: "nat list"
  sv_readable_watchers :: "string list"

definition live :: "('p, 'vt, 'l, 's) Server \<Rightarrow> nat list \<Rightarrow> nat list" where
  "live sv ids = filter (\<lambda>i. sv_clients sv i \<noteq> None) ids"

definition erase_expired :: "('p, 'vt, 'l, 's) Server \<Rightarrow> (string \<times> nat list) list" where
  "erase_expired sv = map (\<lambda>(session_id, ids). (session_id, live sv ids)) (sv_registry sv)"

definition PruneRegistry :: "('p, 'vt, 'l, 's) Server \<Rightarrow> ('p, 'vt, 'l, 's) Server" where
  "PruneRegistry sv = sv\<lparr>sv_registry := filter (\<lambda>(session_id, ids). ids \<noteq> []) (erase_expired sv)\<rparr>"

definition PruneOverviewRegistry :: "('p, 'vt, 'l, 's) Server \<Rightarrow> ('p, 'vt, 'l, 's) Server" where
  "PruneOverviewRegistry sv =
     sv\<lparr>sv_overview_registry := filter (\<lambda>i. sv_overviews sv i \<noteq> None) (sv_overview_registry sv)\<rparr>"

definition AttachClientCounts :: "('p, 'vt, 'l, 's) Server \<Rightarrow> SessionSummary list \<Rightarrow> SessionSummary list" where
  "AttachClientCounts sv summaries =
     map (\<lambda>summary. summary\<lparr>su_attached_client_count :=
       (case map_of (sv_registry sv) (sid_value (su_id summary)) of
          None \<Rightarrow> 0 | Some ids \<Rightarrow> length (live sv ids))\<rparr>) summaries"

text \<open>\<open>(*websocket_registry_)[session_id].push_back(self)\<close>.\<close>

definition register_client :: "nat \<Rightarrow> Client \<Rightarrow> ('p, 'vt, 'l, 's) Server \<Rightarrow> ('p, 'vt, 'l, 's) Server" where
  "register_client i c sv =
     (let session_id = socket_session_id (ct_socket c);
          ids = (case map_of (sv_registry sv) session_id of None \<Rightarrow> [] | Some ids \<Rightarrow> ids)
      in sv\<lparr>sv_clients := (sv_clients sv)(i \<mapsto> c),
            sv_registry := AList.update session_id (ids @ [i]) (sv_registry sv)\<rparr>)"

text \<open>A call into the object with the number \<open>i\<close>, if it is still there.\<close>

definition step_client ::
    "(ClientSocket \<times> ('p, 'vt, 'l, 's) SessionManager \<Rightarrow> ClientSocket \<times> ('p, 'vt, 'l, 's) SessionManager) \<Rightarrow> nat
       \<Rightarrow> ('p, 'vt, 'l, 's) Server \<Rightarrow> ('p, 'vt, 'l, 's) Server" where
  "step_client f i sv =
     (case sv_clients sv i of
        None \<Rightarrow> sv
      | Some c \<Rightarrow>
          let (socket, m) = f (ct_socket c, sv_manager sv)
          in sv\<lparr>sv_clients := (sv_clients sv)(i \<mapsto> c\<lparr>ct_socket := socket\<rparr>), sv_manager := m\<rparr>)"

fun client_ForceClose ::
    "(nat \<Rightarrow> unix_ms) \<Rightarrow> ClientSocket \<times> ('p, 'vt, 'l, 's) SessionManager
       \<Rightarrow> ClientSocket \<times> ('p, 'vt, 'l, 's) SessionManager" where
  "client_ForceClose clock (ObserverSocket ws, m) =
     (let (ws1, m1) = ws_ForceClose clock (ws, m) in (ObserverSocket ws1, m1))"
| "client_ForceClose clock (ControllerSocket rw, m) =
     (let (rw1, m1) = rw_ForceClose clock (rw, m) in (ControllerSocket rw1, m1))"

fun client_SendPendingOutput ::
    "JsonLib \<Rightarrow> (nat \<Rightarrow> unix_ms) \<Rightarrow> ClientSocket \<times> ('p, 'vt, 'l, 's) SessionManager
       \<Rightarrow> ClientSocket \<times> ('p, 'vt, 'l, 's) SessionManager" where
  "client_SendPendingOutput lib clock (ObserverSocket ws, m) =
     (ObserverSocket (ws_SendPendingOutput lib (clock 0) m ws), m)"
| "client_SendPendingOutput lib clock (ControllerSocket rw, m) =
     (let (rw1, m1) = rw_SendPendingOutput lib clock (rw, m) in (ControllerSocket rw1, m1))"

text \<open>The calls on a list of objects, one after the other, each with clock readings of its own.\<close>

fun for_clients ::
    "((nat \<Rightarrow> unix_ms) \<Rightarrow> ClientSocket \<times> ('p, 'vt, 'l, 's) SessionManager
        \<Rightarrow> ClientSocket \<times> ('p, 'vt, 'l, 's) SessionManager)
       \<Rightarrow> (nat \<Rightarrow> nat \<Rightarrow> unix_ms) \<Rightarrow> nat list \<Rightarrow> ('p, 'vt, 'l, 's) Server \<Rightarrow> ('p, 'vt, 'l, 's) Server" where
  "for_clients f clock [] sv = sv"
| "for_clients f clock (i # ids) sv = for_clients f clock ids (step_client (f (clock i)) i sv)"

text \<open>The completion of \<open>async_accept\<close> of both kinds. A controller that is refused is not registered.\<close>

definition accept_observer ::
    "JsonLib \<Rightarrow> unix_ms \<Rightarrow> nat \<Rightarrow> string \<Rightarrow> string \<Rightarrow> bool \<Rightarrow> ('p, 'vt, 'l, 's) Server \<Rightarrow> ('p, 'vt, 'l, 's) Server" where
  "accept_observer lib now_ms i target client_address is_local_request sv =
     (let (ws, m) = ws_accept lib now_ms i (WebSocketSession_init target, sv_manager sv)
      in register_client i
           \<lparr>ct_socket = ObserverSocket ws, ct_client_address = client_address,
            ct_is_local_request = is_local_request, ct_connected_at_unix_ms = now_ms\<rparr> (sv\<lparr>sv_manager := m\<rparr>))"

definition accept_controller ::
    "JsonLib \<Rightarrow> (nat \<Rightarrow> unix_ms) \<Rightarrow> nat \<Rightarrow> bool \<Rightarrow> bool \<Rightarrow> bool \<Rightarrow> string \<Rightarrow> string \<Rightarrow> bool \<Rightarrow> ('p, 'vt, 'l, 's) Server
       \<Rightarrow> ('p, 'vt, 'l, 's) Server" where
  "accept_controller lib clock i socket_failed has_readable_fd dup_succeeds target client_address is_local_request sv =
     (let (rw, m) = rw_accept lib clock i socket_failed has_readable_fd dup_succeeds
            (RemoteController_init target, sv_manager sv);
          c = \<lparr>ct_socket = ControllerSocket rw, ct_client_address = client_address,
               ct_is_local_request = is_local_request, ct_connected_at_unix_ms = clock 0\<rparr>;
          sv1 = sv\<lparr>sv_manager := m\<rparr>
      in if rw_has_control rw then register_client i c sv1
         else sv1\<lparr>sv_clients := (sv_clients sv1)(i \<mapsto> c)\<rparr>)"

section \<open>Overview sessions\<close>

definition ov_DoWrite :: "OverviewSession \<Rightarrow> OverviewSession" where
  "ov_DoWrite ov = ov\<lparr>ov_write_in_progress := (ov_pending_frames ov \<noteq> [])\<rparr>"

definition ov_push :: "string \<Rightarrow> OverviewSession \<Rightarrow> OverviewSession" where
  "ov_push payload ov =
     (let ov1 = ov\<lparr>ov_pending_frames := ov_pending_frames ov @ [payload]\<rparr>
      in if \<not> ov_write_in_progress ov1 then ov_DoWrite ov1 else ov1)"

definition ov_write_completed :: "bool \<Rightarrow> OverviewSession \<Rightarrow> OverviewSession" where
  "ov_write_completed failed ov =
     (if failed then ov
      else ov_DoWrite (ov\<lparr>ov_pending_frames := tl (ov_pending_frames ov),
                         ov_sent := ov_sent ov @ [hd (ov_pending_frames ov)]\<rparr>))"

text \<open>\<open>SendExternalEvent\<close> posts a handler; the handler runs later.\<close>

definition ov_SendExternalEvent :: "string \<Rightarrow> OverviewSession \<Rightarrow> OverviewSession" where
  "ov_SendExternalEvent payload ov =
     (if payload = [] then ov else ov\<lparr>ov_posted := ov_posted ov @ [payload]\<rparr>)"

definition ov_run_posted :: "OverviewSession \<Rightarrow> OverviewSession" where
  "ov_run_posted ov =
     (case ov_posted ov of
        [] \<Rightarrow> ov
      | payload # rest \<Rightarrow>
          let ov1 = ov\<lparr>ov_posted := rest\<rparr> in if ov_closed ov1 then ov1 else ov_push payload ov1)"

definition ov_ForceClose :: "OverviewSession \<Rightarrow> OverviewSession" where
  "ov_ForceClose ov = ov\<lparr>ov_closed := True\<rparr>"

definition queue_inventory :: "string \<Rightarrow> OverviewSession \<Rightarrow> OverviewSession" where
  "queue_inventory payload ov =
     (if ov_last_inventory_payload ov = Some payload then ov
      else ov_push payload (ov\<lparr>ov_last_inventory_payload := Some payload\<rparr>))"

text \<open>\<open>None\<close>: the listing throws, because a session does not survive being serialised and parsed.\<close>

definition inventory_payload :: "JsonLib \<Rightarrow> unix_ms \<Rightarrow> ('p, 'vt, 'l, 's) Server \<Rightarrow> string option" where
  "inventory_payload lib now_ms sv =
     ToJson_SessionInventoryEvent lib (AttachClientCounts sv (ListSessions now_ms (sv_manager sv)))"

definition QueueInventorySnapshot ::
    "JsonLib \<Rightarrow> unix_ms \<Rightarrow> nat \<Rightarrow> ('p, 'vt, 'l, 's) Server \<Rightarrow> ('p, 'vt, 'l, 's) Server option" where
  "QueueInventorySnapshot lib now_ms i sv =
     (case sv_overviews sv i of
        None \<Rightarrow> Some sv
      | Some ov \<Rightarrow>
          map_option (\<lambda>payload. sv\<lparr>sv_overviews := (sv_overviews sv)(i \<mapsto> queue_inventory payload ov)\<rparr>)
            (inventory_payload lib now_ms sv))"

definition accept_overview ::
    "JsonLib \<Rightarrow> unix_ms \<Rightarrow> nat \<Rightarrow> bool \<Rightarrow> ('p, 'vt, 'l, 's) Server \<Rightarrow> ('p, 'vt, 'l, 's) Server option" where
  "accept_overview lib now_ms i is_local_request sv =
     QueueInventorySnapshot lib now_ms i
       (sv\<lparr>sv_overviews := (sv_overviews sv)(i \<mapsto>
             \<lparr>ov_client_id = ''ws_overview_'' @ nat_to_string i, ov_is_local_request = is_local_request,
              ov_last_inventory_payload = None, ov_pending_frames = [], ov_posted = [], ov_sent = [],
              ov_write_in_progress = False, ov_closed = False\<rparr>),
           sv_overview_registry := sv_overview_registry sv @ [i]\<rparr>)"

definition update_overviews ::
    "(OverviewSession \<Rightarrow> OverviewSession) \<Rightarrow> nat list \<Rightarrow> ('p, 'vt, 'l, 's) Server \<Rightarrow> ('p, 'vt, 'l, 's) Server" where
  "update_overviews f ids sv =
     fold (\<lambda>i sv. sv\<lparr>sv_overviews := (sv_overviews sv)(i := map_option f (sv_overviews sv i))\<rparr>) ids sv"

definition BroadcastObservationCreated ::
    "JsonLib \<Rightarrow> ObservationEvent \<Rightarrow> ('p, 'vt, 'l, 's) Server \<Rightarrow> ('p, 'vt, 'l, 's) Server" where
  "BroadcastObservationCreated lib event sv =
     (let sv1 = PruneOverviewRegistry sv;
          payload = ToJson_ObservationCreatedEvent lib event
      in update_overviews (\<lambda>ov. if \<not> ov_is_local_request ov then ov_SendExternalEvent payload ov else ov)
           (sv_overview_registry sv1) sv1)"

section \<open>Administration\<close>

text \<open>The row of a client, from what the manager says of the session it is registered for.\<close>

definition client_row ::
    "unix_ms \<Rightarrow> ('p, 'vt, 'l, 's) Server \<Rightarrow> string \<Rightarrow> nat \<Rightarrow> AttachedClientInfo" where
  "client_row now_ms sv session_id i =
     (let c = the (sv_clients sv i);
          summary = GetSession now_ms session_id (sv_manager sv);
          controller_client_id = Option.bind summary su_controller_client_id
      in
      \<lparr>ac_client_id = socket_client_id (ct_socket c),
       ac_session_id = socket_session_id (ct_socket c),
       ac_session_title = (case summary of Some s \<Rightarrow> su_title s | None \<Rightarrow> []),
       ac_client_address = ct_client_address c,
       ac_session_status = (case summary of Some s \<Rightarrow> su_status s | None \<Rightarrow> Created),
       ac_session_is_recovered = (case summary of Some s \<Rightarrow> su_is_recovered s | None \<Rightarrow> False),
       ac_claimed_kind = socket_claimed_kind (ct_socket c),
       ac_is_local = ct_is_local_request c,
       ac_has_control = (controller_client_id = Some (socket_client_id (ct_socket c))),
       ac_connected_at_unix_ms = Some (ct_connected_at_unix_ms c)\<rparr>)"

definition client_before :: "AttachedClientInfo \<Rightarrow> AttachedClientInfo \<Rightarrow> bool" where
  "client_before l r \<longleftrightarrow>
     (if ac_session_id l \<noteq> ac_session_id r then string_less (ac_session_id l) (ac_session_id r)
      else string_less (ac_client_id l) (ac_client_id r))"

definition ListAttachedClients ::
    "unix_ms \<Rightarrow> ('p, 'vt, 'l, 's) Server \<Rightarrow> AttachedClientInfo list \<times> ('p, 'vt, 'l, 's) Server" where
  "ListAttachedClients now_ms sv =
     (let sv1 = PruneRegistry sv in
      (sort_by client_before
         (concat (map (\<lambda>(session_id, ids). map (client_row now_ms sv1 session_id) (live sv1 ids)) (sv_registry sv1))),
       sv1))"

definition find_client :: "string \<Rightarrow> ('p, 'vt, 'l, 's) Server \<Rightarrow> nat option" where
  "find_client client_id sv =
     find (\<lambda>i. socket_client_id (ct_socket (the (sv_clients sv i))) = client_id)
       (concat (map (\<lambda>(session_id, ids). live sv ids) (sv_registry sv)))"

definition DisconnectClient ::
    "(nat \<Rightarrow> unix_ms) \<Rightarrow> string \<Rightarrow> ('p, 'vt, 'l, 's) Server \<Rightarrow> bool \<times> ('p, 'vt, 'l, 's) Server" where
  "DisconnectClient clock client_id sv =
     (let sv1 = PruneRegistry sv in
      case find_client client_id sv1 of
        None \<Rightarrow> (False, sv1)
      | Some i \<Rightarrow> (True, step_client (client_ForceClose clock) i sv1))"

definition CloseAllWebSockets ::
    "(nat \<Rightarrow> nat \<Rightarrow> unix_ms) \<Rightarrow> ('p, 'vt, 'l, 's) Server \<Rightarrow> ('p, 'vt, 'l, 's) Server" where
  "CloseAllWebSockets clock sv =
     (let sv1 = PruneRegistry sv
      in for_clients client_ForceClose clock (concat (map snd (sv_registry sv1))) sv1)"

definition CloseAllOverviewWebSockets :: "('p, 'vt, 'l, 's) Server \<Rightarrow> ('p, 'vt, 'l, 's) Server" where
  "CloseAllOverviewWebSockets sv =
     (let sv1 = PruneOverviewRegistry sv in update_overviews ov_ForceClose (sv_overview_registry sv1) sv1)"

section \<open>The session pump\<close>

definition NotifySessionClients ::
    "JsonLib \<Rightarrow> (nat \<Rightarrow> nat \<Rightarrow> unix_ms) \<Rightarrow> string \<Rightarrow> ('p, 'vt, 'l, 's) Server \<Rightarrow> ('p, 'vt, 'l, 's) Server" where
  "NotifySessionClients lib clock session_id sv =
     (case map_of (sv_registry sv) session_id of
        None \<Rightarrow> sv
      | Some ids \<Rightarrow>
          for_clients (client_SendPendingOutput lib) clock (live sv ids)
            (sv\<lparr>sv_registry := AList.update session_id (live sv ids) (sv_registry sv)\<rparr>))"

text \<open>\<open>has_fd\<close> says which sessions have a readable descriptor now, \<open>dup_succeeds\<close> for which \<open>dup\<close> succeeds.\<close>

definition active_session_ids :: "('p, 'vt, 'l, 's) Server \<Rightarrow> string list" where
  "active_session_ids sv =
     filter (\<lambda>session_id. \<not> HasPrivilegedController session_id (sv_manager sv)) (map fst (sv_registry sv))"

definition watch_session :: "(string \<Rightarrow> bool) \<Rightarrow> (string \<Rightarrow> bool) \<Rightarrow> string \<Rightarrow> string list \<Rightarrow> string list" where
  "watch_session has_fd dup_succeeds session_id watchers =
     (if \<not> has_fd session_id then removeAll session_id watchers
      else if session_id \<in> set watchers then watchers
      else if \<not> dup_succeeds session_id then watchers
      else watchers @ [session_id])"

definition SyncReadableWatchers ::
    "(string \<Rightarrow> bool) \<Rightarrow> (string \<Rightarrow> bool) \<Rightarrow> ('p, 'vt, 'l, 's) Server \<Rightarrow> ('p, 'vt, 'l, 's) Server" where
  "SyncReadableWatchers has_fd dup_succeeds sv =
     (let sv1 = PruneRegistry sv;
          active = active_session_ids sv1;
          watchers = fold (watch_session has_fd dup_succeeds) active (sv_readable_watchers sv1)
      in sv1\<lparr>sv_readable_watchers := filter (\<lambda>i. i \<in> set active \<and> has_fd i) watchers\<rparr>)"

text \<open>The completion of a wait for one session; \<open>None\<close> when polling it does not return.\<close>

definition pump_readable ::
    "('p, 'vt, 'l, 's) ManagerDeps \<Rightarrow> JsonLib \<Rightarrow> (nat \<Rightarrow> unix_ms) \<Rightarrow> (nat \<Rightarrow> nat \<Rightarrow> unix_ms) \<Rightarrow> (string \<Rightarrow> bool) \<Rightarrow> string
       \<Rightarrow> bool \<Rightarrow> ('p, 'vt, 'l, 's) Server \<Rightarrow> ('p, 'vt, 'l, 's) Server option" where
  "pump_readable deps lib poll_clock clock has_fd session_id failed sv =
     (if session_id \<notin> set (sv_readable_watchers sv) then Some sv
      else if failed then Some (sv\<lparr>sv_readable_watchers := removeAll session_id (sv_readable_watchers sv)\<rparr>)
      else
        map_option (\<lambda>(polled, m).
          let sv1 = NotifySessionClients lib clock session_id (sv\<lparr>sv_manager := m\<rparr>) in
          if has_fd session_id then sv1
          else sv1\<lparr>sv_readable_watchers := removeAll session_id (sv_readable_watchers sv1)\<rparr>)
        (PollSession deps poll_clock session_id 0 (sv_manager sv)))"

fun for_overviews ::
    "JsonLib \<Rightarrow> unix_ms \<Rightarrow> nat list \<Rightarrow> ('p, 'vt, 'l, 's) Server \<Rightarrow> ('p, 'vt, 'l, 's) Server option" where
  "for_overviews lib now_ms [] sv = Some sv"
| "for_overviews lib now_ms (i # ids) sv =
     Option.bind (QueueInventorySnapshot lib now_ms i sv) (for_overviews lib now_ms ids)"

text \<open>The completion of the poll timer and the next \<open>DoPoll\<close>; \<open>None\<close> when polling does not return or the inventory
  throws.\<close>

definition pump_tick ::
    "('p, 'vt, 'l, 's) ManagerDeps \<Rightarrow> JsonLib \<Rightarrow> (nat \<Rightarrow> nat \<Rightarrow> unix_ms) \<Rightarrow> int \<Rightarrow> (string \<Rightarrow> GitSummary \<times> string list)
       \<Rightarrow> (nat \<Rightarrow> nat \<Rightarrow> unix_ms) \<Rightarrow> unix_ms \<Rightarrow> (string \<Rightarrow> bool) \<Rightarrow> (string \<Rightarrow> bool)
       \<Rightarrow> ('p, 'vt, 'l, 's) Server \<Rightarrow> ('p, 'vt, 'l, 's) Server option" where
  "pump_tick deps lib poll_clock steady_now observe clock now_ms has_fd dup_succeeds sv =
     Option.bind (PollAll deps poll_clock steady_now observe 0 (sv_manager sv)) (\<lambda>m.
       let sv1 = sv\<lparr>sv_manager := m, sv_registry := erase_expired sv\<rparr>;
           sv2 = for_clients (client_SendPendingOutput lib) clock (concat (map snd (sv_registry sv1))) sv1;
           overviews = filter (\<lambda>i. sv_overviews sv2 i \<noteq> None) (sv_overview_registry sv2)
       in map_option (SyncReadableWatchers has_fd dup_succeeds)
            (for_overviews lib now_ms overviews (sv2\<lparr>sv_overview_registry := overviews\<rparr>)))"

section \<open>Registered clients\<close>

text \<open>The live clients in the order of the registry, each with the session it is registered for.\<close>

definition registered :: "('p, 'vt, 'l, 's) Server \<Rightarrow> (string \<times> nat) list" where
  "registered sv = concat (map (\<lambda>(session_id, ids). map (Pair session_id) (live sv ids)) (sv_registry sv))"

lemma live_idem [simp]: "live sv (live sv ids) = live sv ids"
  by (simp add: live_def)

lemma live_frame [simp]:
  "live (sv\<lparr>sv_registry := r\<rparr>) = live sv" "live (sv\<lparr>sv_manager := m\<rparr>) = live sv"
  "live (sv\<lparr>sv_overviews := os\<rparr>) = live sv" "live (sv\<lparr>sv_overview_registry := ids\<rparr>) = live sv"
  "live (sv\<lparr>sv_readable_watchers := ws\<rparr>) = live sv"
  by (simp_all add: live_def fun_eq_iff)

lemma Prune_fields [simp]:
  "sv_clients (PruneRegistry sv) = sv_clients sv" "sv_manager (PruneRegistry sv) = sv_manager sv"
  "live (PruneRegistry sv) = live sv" "sv_readable_watchers (PruneRegistry sv) = sv_readable_watchers sv"
  "sv_overviews (PruneRegistry sv) = sv_overviews sv"
  "sv_overview_registry (PruneRegistry sv) = sv_overview_registry sv"
  by (simp_all add: PruneRegistry_def)

lemma registered_Prune [simp]: "registered (PruneRegistry sv) = registered sv"
proof -
  have "concat (map (\<lambda>(s, ids). map (Pair s) (live sv ids))
      (filter (\<lambda>(s, ids). ids \<noteq> []) (map (\<lambda>(s, ids). (s, live sv ids)) r)))
    = concat (map (\<lambda>(s, ids). map (Pair s) (live sv ids)) r)" for r
    by (induction r) auto
  then show ?thesis
    unfolding registered_def PruneRegistry_def erase_expired_def by simp
qed

lemma registered_ids: "concat (map (\<lambda>(s, ids). live sv ids) (sv_registry sv)) = map snd (registered sv)"
  by (simp add: registered_def map_concat comp_def case_prod_unfold)

lemma registry_Prune_ids: "concat (map snd (sv_registry (PruneRegistry sv))) = map snd (registered sv)"
proof -
  have "concat (map snd (filter (\<lambda>(s, ids). ids \<noteq> []) (map (\<lambda>(s, ids). (s, live sv ids)) r)))
    = concat (map (\<lambda>(s, ids). live sv ids) r)" for r :: "(string \<times> nat list) list"
    by (induction r) auto
  then show ?thesis by (simp add: PruneRegistry_def erase_expired_def registered_ids [symmetric])
qed

lemma erase_expired_ids: "concat (map snd (erase_expired sv)) = map snd (registered sv)"
  by (simp add: erase_expired_def registered_ids [symmetric] comp_def case_prod_unfold)

lemma registered_live: "(s, i) \<in> set (registered sv) \<Longrightarrow> \<exists>c. sv_clients sv i = Some c"
  by (auto simp: registered_def live_def)

section \<open>Sorting\<close>

lemma mset_insert_by [simp]: "mset (insert_by before x xs) = add_mset x (mset xs)"
  by (induction xs) auto

lemma set_insert_by [simp]: "set (insert_by before x xs) = insert x (set xs)"
  by (induction xs) (simp_all add: insert_commute)

lemma mset_sort_by [simp]: "mset (sort_by before xs) = mset xs"
  by (induction xs) (simp_all add: sort_by_def)

lemma sorted_insert_by:
  assumes "\<And>a b. before a b \<Longrightarrow> \<not> before b a" "\<And>a b c. before a c \<Longrightarrow> before a b \<or> before b c"
    and "sorted_wrt (\<lambda>l r. \<not> before r l) xs"
  shows "sorted_wrt (\<lambda>l r. \<not> before r l) (insert_by before x xs)"
  using assms(3)
proof (induction xs)
  case (Cons y ys)
  show ?case
  proof (cases "before y x")
    case True
    with Cons assms(1) show ?thesis by auto
  next
    case False
    have "\<not> before z x" if "z \<in> set ys" for z
      using assms(2) [of z x y] False Cons.prems that by auto
    with False Cons.prems show ?thesis by auto
  qed
qed simp

lemma sorted_sort_by:
  assumes "\<And>a b. before a b \<Longrightarrow> \<not> before b a" "\<And>a b c. before a c \<Longrightarrow> before a b \<or> before b c"
  shows "sorted_wrt (\<lambda>l r. \<not> before r l) (sort_by before xs)"
  by (induction xs) (simp_all add: sort_by_def sorted_insert_by [OF assms])

lemma string_less_simps:
  "string_less [] b \<longleftrightarrow> b \<noteq> []" "\<not> string_less a []"
  "string_less (x # a) (y # b) \<longleftrightarrow> byte x < byte y \<or> x = y \<and> string_less a b"
  unfolding string_less_def by (auto simp: not_less_iff_gr_or_eq)

lemma string_less_irrefl: "\<not> string_less a a"
  by (induction a) (simp_all add: string_less_simps)

lemma string_less_asym: "string_less a b \<Longrightarrow> \<not> string_less b a"
proof (induction a arbitrary: b)
  case (Cons x a)
  then show ?case by (cases b) (auto simp: string_less_simps)
qed (simp add: string_less_simps)

lemma string_less_between: "string_less a c \<Longrightarrow> string_less a b \<or> string_less b c"
proof (induction a arbitrary: b c)
  case Nil
  then show ?case by (cases b) (auto simp: string_less_simps)
next
  case (Cons x a)
  then obtain z c' where c: "c = z # c'" by (cases c) (auto simp: string_less_simps)
  with Cons show ?case
    by (cases b) (auto simp: string_less_simps not_less_iff_gr_or_eq)
qed

lemma string_less_linear: "string_less a b \<or> a = b \<or> string_less b a"
proof (induction a arbitrary: b)
  case (Cons x a)
  then show ?case by (cases b) (auto simp: string_less_simps not_less_iff_gr_or_eq)
qed (simp add: string_less_simps)

lemma client_before_asym: "client_before a b \<Longrightarrow> \<not> client_before b a"
  using string_less_asym by (auto simp: client_before_def split: if_splits)

lemma client_before_between:
  assumes "client_before a c"
  shows "client_before a b \<or> client_before b c"
proof (cases "ac_session_id a = ac_session_id c")
  case True
  with assms string_less_between [of "ac_client_id a" "ac_client_id c" "ac_client_id b"]
    string_less_linear [of "ac_session_id b" "ac_session_id c"]
  show ?thesis by (auto simp: client_before_def)
next
  case False
  with assms string_less_between [of "ac_session_id a" "ac_session_id c" "ac_session_id b"] string_less_irrefl
  show ?thesis by (auto simp: client_before_def)
qed

section \<open>What a reachable server satisfies\<close>

text \<open>The identity of a client: the number of the object is part of its id.\<close>

fun identified :: "nat \<Rightarrow> ClientSocket \<Rightarrow> bool" where
  "identified i (ObserverSocket ws) \<longleftrightarrow> ws_client_id ws = ''ws_'' @ ws_session_id ws @ ''_'' @ nat_to_string i"
| "identified i (ControllerSocket rw) \<longleftrightarrow>
     (\<exists>time. rw_client_id rw = ''remote-controller-'' @ int_to_string time @ ''-'' @ nat_to_string i)"

definition registry_inv :: "('p, 'vt, 'l, 's) Server \<Rightarrow> bool" where
  "registry_inv sv \<longleftrightarrow>
     distinct (map fst (sv_registry sv)) \<and> distinct (concat (map snd (sv_registry sv)))
     \<and> (\<forall>(session_id, ids) \<in> set (sv_registry sv). \<forall>i \<in> set ids. \<forall>c. sv_clients sv i = Some c \<longrightarrow>
          socket_session_id (ct_socket c) = session_id)
     \<and> (\<forall>i c. sv_clients sv i = Some c \<longrightarrow> identified i (ct_socket c))"

definition server_inv :: "('p, 'vt, 'l, 's) Server \<Rightarrow> bool" where
  "server_inv sv \<longleftrightarrow> manager_inv (sv_manager sv) \<and> registry_inv sv"

lemmas server_inv_parts = server_inv_def registry_inv_def

lemma server_inv_registry_inv: "server_inv sv \<Longrightarrow> registry_inv sv"
  by (simp add: server_inv_def)

text \<open>What a client's own handlers do to it and to the manager.\<close>

inductive client_step ::
    "('p, 'vt, 'l, 's) ManagerDeps \<Rightarrow> JsonLib \<Rightarrow> ClientSocket \<times> ('p, 'vt, 'l, 's) SessionManager
       \<Rightarrow> ClientSocket \<times> ('p, 'vt, 'l, 's) SessionManager \<Rightarrow> bool"
  for deps lib where
  message: "ws_message deps lib clock got_text payload (ws, m) = (ws', m') \<Longrightarrow>
    client_step deps lib (ObserverSocket ws, m) (ObserverSocket ws', m')"
| observer_written: "ws_write_completed clock failed (ws, m) = (ws', m') \<Longrightarrow>
    client_step deps lib (ObserverSocket ws, m) (ObserverSocket ws', m')"
| observer_ended: "ws_ReleaseControlIfHeld clock (ws, m) = (ws', m') \<Longrightarrow>
    client_step deps lib (ObserverSocket ws, m) (ObserverSocket ws', m')"
| binary: "HandleBinaryFrame deps lib clock payload (rw, m) = (rw', m') \<Longrightarrow>
    client_step deps lib (ControllerSocket rw, m) (ControllerSocket rw', m')"
| controller_text: "HandleTextFrame deps lib clock payload (rw, m) = (rw', m') \<Longrightarrow>
    client_step deps lib (ControllerSocket rw, m) (ControllerSocket rw', m')"
| controller_written: "rw_write_completed clock failed (rw, m) = (rw', m') \<Longrightarrow>
    client_step deps lib (ControllerSocket rw, m) (ControllerSocket rw', m')"
| controller_readable: "rw_readable deps lib clocks has_readable_fd dup_succeeds (rw, m) = Some (rw', m') \<Longrightarrow>
    client_step deps lib (ControllerSocket rw, m) (ControllerSocket rw', m')"
| closed: "client_ForceClose clock st = st' \<Longrightarrow> client_step deps lib st st'"
| pending: "client_SendPendingOutput lib clock st = st' \<Longrightarrow> client_step deps lib st st'"

definition same_identity :: "ClientSocket \<Rightarrow> ClientSocket \<Rightarrow> bool" where
  "same_identity s s' \<longleftrightarrow>
     socket_session_id s' = socket_session_id s \<and> (\<forall>i. identified i s \<longrightarrow> identified i s')"

lemma ws_status_fields [simp]:
  "ws_client_id (ws_QueueStatusEvents lib so ws) = ws_client_id ws"
  "ws_session_id (ws_QueueStatusEvents lib so ws) = ws_session_id ws"
  by (simp_all add: ws_QueueStatusEvents_def Let_def split: option.split)

lemma ws_output_fields [simp]:
  "ws_client_id (ws_QueueOutputFrame lib sl n ws) = ws_client_id ws"
  "ws_session_id (ws_QueueOutputFrame lib sl n ws) = ws_session_id ws"
  "ws_client_id (ws_SendPendingOutput lib t m ws) = ws_client_id ws"
  "ws_session_id (ws_SendPendingOutput lib t m ws) = ws_session_id ws"
  "ws_client_id (ws_reject lib ws) = ws_client_id ws" "ws_session_id (ws_reject lib ws) = ws_session_id ws"
  "ws_client_id (ws_DoWrite ws) = ws_client_id ws" "ws_session_id (ws_DoWrite ws) = ws_session_id ws"
  by (simp_all add: ws_QueueOutputFrame_def ws_SendPendingOutput_def ws_reject_def ws_DoWrite_def Let_def split: option.split)

lemma run_command_fields:
  "run_command deps clock command (ws, m) = (handled, (ws', m')) \<Longrightarrow>
     ws_client_id ws' = ws_client_id ws \<and> ws_session_id ws' = ws_session_id ws"
  by (cases command) (auto simp: run_command_def Let_def case_prod_beta split: if_splits)

lemma run_command_inv:
  "run_command deps clock command (ws, m) = (handled, (ws', m')) \<Longrightarrow> manager_inv m \<Longrightarrow> manager_inv m'"
  by (cases command) (auto simp: run_command_def Let_def case_prod_beta split: if_splits
      intro: manager_inv_runtime_ops manager_inv_control manager_inv_StopSession)

lemma rw_close_fields:
  "rw_session_id (fst (rw_ForceClose clock (rw, m))) = rw_session_id rw"
  "rw_client_id (fst (rw_ForceClose clock (rw, m))) = rw_client_id rw"
  "manager_inv m \<Longrightarrow> manager_inv (snd (rw_ForceClose clock (rw, m)))"
  by (simp_all add: rw_ForceClose_def rw_ReleaseControlIfHeld_def manager_inv_control)

lemma rw_write_fields:
  "rw_session_id (fst (rw_DoWrite clock (rw, m))) = rw_session_id rw"
  "rw_client_id (fst (rw_DoWrite clock (rw, m))) = rw_client_id rw"
  "manager_inv m \<Longrightarrow> manager_inv (snd (rw_DoWrite clock (rw, m)))"
  by (simp_all add: rw_DoWrite_def rw_close_fields)

lemma rw_queue_fields:
  "rw_session_id (fst (rw_QueueFrame clock payload is_text (rw, m))) = rw_session_id rw"
  "rw_client_id (fst (rw_QueueFrame clock payload is_text (rw, m))) = rw_client_id rw"
  "manager_inv m \<Longrightarrow> manager_inv (snd (rw_QueueFrame clock payload is_text (rw, m)))"
  by (simp_all add: rw_QueueFrame_def rw_write_fields Let_def)

lemmas rw_fields = rw_close_fields rw_write_fields rw_queue_fields

lemma rw_pending_fields:
  "rw_session_id (fst (rw_SendPendingOutput lib clock (rw, m))) = rw_session_id rw"
  "rw_client_id (fst (rw_SendPendingOutput lib clock (rw, m))) = rw_client_id rw"
  "manager_inv m \<Longrightarrow> manager_inv (snd (rw_SendPendingOutput lib clock (rw, m)))"
  by (simp_all add: rw_SendPendingOutput_def Let_def case_prod_beta rw_fields split: option.split)

lemma rw_flush_fields:
  "rw_session_id (fst (rw_FlushOutput clock (rw, m))) = rw_session_id rw"
  "rw_client_id (fst (rw_FlushOutput clock (rw, m))) = rw_client_id rw"
  "manager_inv m \<Longrightarrow> manager_inv (snd (rw_FlushOutput clock (rw, m)))"
  by (simp_all add: rw_FlushOutput_def Let_def case_prod_beta rw_fields split: option.split)

lemma ws_release_fields:
  "ws_session_id (fst (ws_ReleaseControlIfHeld clock (ws, m))) = ws_session_id ws"
  "ws_client_id (fst (ws_ReleaseControlIfHeld clock (ws, m))) = ws_client_id ws"
  "manager_inv m \<Longrightarrow> manager_inv (snd (ws_ReleaseControlIfHeld clock (ws, m)))"
  by (simp_all add: ws_ReleaseControlIfHeld_def manager_inv_control manager_inv_runtime_ops)

lemma close_fields:
  "same_identity (fst st) (fst (client_ForceClose clock st))"
  "manager_inv (snd st) \<Longrightarrow> manager_inv (snd (client_ForceClose clock st))"
  by (cases "(clock, st)" rule: client_ForceClose.cases;
      auto simp: same_identity_def case_prod_beta ws_ForceClose_def ws_release_fields rw_close_fields)+

lemma send_pending_fields:
  "same_identity (fst st) (fst (client_SendPendingOutput lib clock st))"
  "manager_inv (snd st) \<Longrightarrow> manager_inv (snd (client_SendPendingOutput lib clock st))"
  by (cases "(lib, clock, st)" rule: client_SendPendingOutput.cases;
      auto simp: same_identity_def case_prod_beta rw_pending_fields)+

lemma ws_message_fields:
  assumes "ws_message deps lib clock got_text payload (ws, m) = (ws', m')"
  shows "ws_session_id ws' = ws_session_id ws" "ws_client_id ws' = ws_client_id ws" "manager_inv m \<Longrightarrow> manager_inv m'"
proof -
  have "ws_session_id ws' = ws_session_id ws \<and> ws_client_id ws' = ws_client_id ws \<and> (manager_inv m \<longrightarrow> manager_inv m')"
  proof (cases "got_text \<and> ParseWebSocketCommand lib payload \<noteq> None")
    case True
    then obtain command where command: "ParseWebSocketCommand lib payload = Some command" by auto
    obtain handled ws1 m1 where r: "run_command deps (\<lambda>i. clock (i + 1)) command (ws, m) = (handled, (ws1, m1))"
      by (metis surj_pair)
    with assms True command run_command_fields [OF r] run_command_inv [OF r] show ?thesis
      by (auto simp: ws_message_def HandleClientCommand_def split: if_splits)
  next
    case False
    with assms show ?thesis
      by (auto simp: ws_message_def HandleClientCommand_def HandleClientBinary_def case_prod_beta manager_inv_runtime_ops
          split: if_splits)
  qed
  then show "ws_session_id ws' = ws_session_id ws" "ws_client_id ws' = ws_client_id ws" "manager_inv m \<Longrightarrow> manager_inv m'"
    by simp_all
qed

lemma rw_binary_fields:
  "rw_session_id (fst (HandleBinaryFrame deps lib clock payload (rw, m))) = rw_session_id rw"
  "rw_client_id (fst (HandleBinaryFrame deps lib clock payload (rw, m))) = rw_client_id rw"
  "manager_inv m \<Longrightarrow> manager_inv (snd (HandleBinaryFrame deps lib clock payload (rw, m)))"
  by (simp_all add: HandleBinaryFrame_def Let_def case_prod_beta rw_fields manager_inv_runtime_ops)

lemma rw_text_fields:
  "rw_session_id (fst (HandleTextFrame deps lib clock payload (rw, m))) = rw_session_id rw"
  "rw_client_id (fst (HandleTextFrame deps lib clock payload (rw, m))) = rw_client_id rw"
  "manager_inv m \<Longrightarrow> manager_inv (snd (HandleTextFrame deps lib clock payload (rw, m)))"
  by (simp_all add: HandleTextFrame_def Let_def case_prod_beta rw_fields manager_inv_runtime_ops manager_inv_control
      manager_inv_StopSession split: option.split WebSocketCommand.split)

lemma rw_readable_fields:
  assumes "rw_readable deps lib clocks has_readable_fd dup_succeeds (rw, m) = Some (rw', m')"
  shows "rw_session_id rw' = rw_session_id rw" "rw_client_id rw' = rw_client_id rw" "manager_inv m \<Longrightarrow> manager_inv m'"
proof -
  obtain polled m1 where p: "PollSession deps (clocks 0) (rw_session_id rw) 0 m = Some (polled, m1)"
    using assms by (auto simp: rw_readable_def)
  obtain rw1 m2 where f: "rw_FlushOutput (clocks 1) (rw, m1) = (rw1, m2)" by fastforce
  obtain rw2 m3 where s: "rw_SendPendingOutput lib (clocks 2) (rw1, m2) = (rw2, m3)" by fastforce
  note kept = rw_flush_fields [where clock = "clocks 1" and rw = rw and m = m1, unfolded f fst_conv snd_conv]
    rw_pending_fields [where lib = lib and clock = "clocks 2" and rw = rw1 and m = m2, unfolded s fst_conv snd_conv]
  have "rw_session_id rw' = rw_session_id rw \<and> rw_client_id rw' = rw_client_id rw \<and> (manager_inv m3 \<longrightarrow> manager_inv m')"
    using assms p f s kept rw_close_fields [where clock = "clocks 3" and rw = "rw_SyncReadableDescriptor has_readable_fd dup_succeeds rw2" and m = m3]
    by (auto simp: rw_readable_def Let_def rw_SyncReadableDescriptor_def split: if_splits)
  with kept manager_inv_PollSession [OF _ p]
  show "rw_session_id rw' = rw_session_id rw" "rw_client_id rw' = rw_client_id rw" "manager_inv m \<Longrightarrow> manager_inv m'"
    by simp_all
qed

lemma client_step_kept:
  assumes "client_step deps lib st st'"
  shows "same_identity (fst st) (fst st') \<and> (manager_inv (snd st) \<longrightarrow> manager_inv (snd st'))"
  using assms
proof cases
  case message
  then show ?thesis using ws_message_fields [OF message(3)] by (simp add: same_identity_def)
next
  case (observer_written clock failed ws m ws' m')
  then show ?thesis
    using ws_release_fields [where clock = clock and ws = ws and m = m]
    by (auto simp: same_identity_def ws_write_completed_def Let_def split: if_splits)
next
  case (observer_ended clock ws m ws' m')
  then show ?thesis using ws_release_fields [where clock = clock and ws = ws and m = m] by (simp add: same_identity_def)
next
  case (binary clock payload rw m rw' m')
  then show ?thesis using rw_binary_fields [where deps = deps and lib = lib and clock = clock and payload = payload and rw = rw and m = m] by (simp add: same_identity_def)
next
  case (controller_text clock payload rw m rw' m')
  then show ?thesis using rw_text_fields [where deps = deps and lib = lib and clock = clock and payload = payload and rw = rw and m = m] by (simp add: same_identity_def)
next
  case (controller_written clock failed rw m rw' m')
  then show ?thesis
    using rw_close_fields [where clock = clock and rw = rw and m = m]
      rw_write_fields [where clock = clock and m = m and rw = "rw\<lparr>rw_pending_frames := tl (rw_pending_frames rw),
        rw_sent := rw_sent rw @ [hd (rw_pending_frames rw)]\<rparr>"]
    by (auto simp: same_identity_def rw_write_completed_def split: if_splits)
next
  case controller_readable
  then show ?thesis using rw_readable_fields [OF controller_readable(3)] by (simp add: same_identity_def)
next
  case closed
  then show ?thesis using close_fields by blast
next
  case pending
  then show ?thesis using send_pending_fields by blast
qed

section \<open>Steps of the server\<close>

definition fresh :: "nat \<Rightarrow> ('p, 'vt, 'l, 's) Server \<Rightarrow> bool" where
  "fresh i sv \<longleftrightarrow> sv_clients sv i = None \<and> i \<notin> set (concat (map snd (sv_registry sv)))"

text \<open>An object goes away when nothing refers to it any more (\<open>expire\<close>). Its number is not given to another object
  while a registry names it: a \<open>weak_ptr\<close> made from \<open>make_shared\<close> keeps the memory.\<close>

inductive server_step ::
    "('p, 'vt, 'l, 's) ManagerDeps \<Rightarrow> JsonLib \<Rightarrow> ('p, 'vt, 'l, 's) Server \<Rightarrow> ('p, 'vt, 'l, 's) Server \<Rightarrow> bool"
  for deps lib where
  manager: "manager_step deps (sv_manager sv) m \<Longrightarrow> server_step deps lib sv (sv\<lparr>sv_manager := m\<rparr>)"
| observer: "fresh i sv \<Longrightarrow>
    server_step deps lib sv (accept_observer lib now_ms i target client_address is_local_request sv)"
| controller: "fresh i sv \<Longrightarrow>
    server_step deps lib sv (accept_controller lib clock i socket_failed has_readable_fd dup_succeeds target
      client_address is_local_request sv)"
| client: "sv_clients sv i = Some c \<Longrightarrow> client_step deps lib (ct_socket c, sv_manager sv) (socket, m) \<Longrightarrow>
    server_step deps lib sv (sv\<lparr>sv_clients := (sv_clients sv)(i \<mapsto> c\<lparr>ct_socket := socket\<rparr>), sv_manager := m\<rparr>)"
| expire: "server_step deps lib sv (sv\<lparr>sv_clients := (sv_clients sv)(i := None)\<rparr>)"
| overview: "accept_overview lib now_ms i is_local_request sv = Some sv' \<Longrightarrow> server_step deps lib sv sv'"
| overview_event: "server_step deps lib sv (update_overviews f ids sv)"
| broadcast: "server_step deps lib sv (BroadcastObservationCreated lib event sv)"
| list_clients: "server_step deps lib sv (snd (ListAttachedClients now_ms sv))"
| disconnect: "server_step deps lib sv (snd (DisconnectClient clock client_id sv))"
| close_all: "server_step deps lib sv (CloseAllWebSockets clocks sv)"
| close_overviews: "server_step deps lib sv (CloseAllOverviewWebSockets sv)"
| readable: "pump_readable deps lib clock clocks has_fd session_id failed sv = Some sv' \<Longrightarrow> server_step deps lib sv sv'"
| tick: "pump_tick deps lib poll_clocks steady_now observe clocks now_ms has_fd dups sv = Some sv' \<Longrightarrow>
    server_step deps lib sv sv'"

definition Server_new :: "('p, 'vt, 'l, 's) SessionManager \<Rightarrow> ('p, 'vt, 'l, 's) Server" where
  "Server_new m =
     \<lparr>sv_manager = m, sv_clients = Map.empty, sv_registry = [], sv_overviews = Map.empty, sv_overview_registry = [],
      sv_readable_watchers = []\<rparr>"

lemma server_inv_frame [simp]:
  "server_inv (sv\<lparr>sv_overviews := os\<rparr>) = server_inv sv"
  "server_inv (sv\<lparr>sv_overview_registry := ids\<rparr>) = server_inv sv"
  "server_inv (sv\<lparr>sv_readable_watchers := ws\<rparr>) = server_inv sv"
  by (simp_all add: server_inv_parts)

lemma server_inv_manager: "server_inv sv \<Longrightarrow> manager_inv m \<Longrightarrow> server_inv (sv\<lparr>sv_manager := m\<rparr>)"
  by (simp add: server_inv_parts)

lemma server_inv_new [simp]: "server_inv (Server_new m) = manager_inv m"
  by (simp add: server_inv_parts Server_new_def)

lemma server_inv_manager_inv: "server_inv sv \<Longrightarrow> manager_inv (sv_manager sv)"
  by (simp add: server_inv_parts)

lemma server_inv_client:
  assumes "server_inv sv" "sv_clients sv i = Some c" "same_identity (ct_socket c) socket" "manager_inv m"
  shows "server_inv (sv\<lparr>sv_clients := (sv_clients sv)(i \<mapsto> c\<lparr>ct_socket := socket\<rparr>), sv_manager := m\<rparr>)"
  using assms by (fastforce simp: server_inv_parts same_identity_def)

lemma server_inv_step_client:
  assumes "server_inv sv"
    and "\<And>st. same_identity (fst st) (fst (f st))" "\<And>st. manager_inv (snd st) \<Longrightarrow> manager_inv (snd (f st))"
  shows "server_inv (step_client f i sv)"
proof (cases "sv_clients sv i")
  case (Some c)
  obtain socket m where r: "f (ct_socket c, sv_manager sv) = (socket, m)" by fastforce
  with assms(2,3) [of "(ct_socket c, sv_manager sv)"] server_inv_manager_inv [OF assms(1)]
    server_inv_client [OF assms(1) Some, of socket m]
  show ?thesis by (simp add: step_client_def Some)
qed (simp add: step_client_def assms)

lemma server_inv_for_clients:
  assumes "server_inv sv"
    and "\<And>clk st. same_identity (fst st) (fst (f clk st))" "\<And>clk st. manager_inv (snd st) \<Longrightarrow> manager_inv (snd (f clk st))"
  shows "server_inv (for_clients f clock ids sv)"
  using assms(1) by (induction ids arbitrary: sv) (simp_all add: server_inv_step_client assms(2,3))

lemmas server_inv_calls =
  server_inv_step_client [OF _ close_fields] server_inv_for_clients [OF _ close_fields]
  server_inv_for_clients [OF _ send_pending_fields]

definition registry_part :: "(string \<times> nat list) list \<Rightarrow> (string \<times> nat list) list \<Rightarrow> bool" where
  "registry_part r' r \<longleftrightarrow>
     (distinct (map fst r) \<longrightarrow> distinct (map fst r'))
     \<and> (distinct (concat (map snd r)) \<longrightarrow> distinct (concat (map snd r')))
     \<and> (\<forall>session_id ids. (session_id, ids) \<in> set r' \<longrightarrow> (\<exists>ids'. (session_id, ids') \<in> set r \<and> set ids \<subseteq> set ids'))"

lemma server_inv_registry:
  assumes "server_inv sv" "registry_part r' (sv_registry sv)"
  shows "server_inv (sv\<lparr>sv_registry := r'\<rparr>)"
  using assms by (simp add: server_inv_parts registry_part_def) fast

lemma registry_filtered: "registry_part (map (\<lambda>(k, v). (k, filter (P k) v)) r) r"
proof -
  have keys: "map fst (map (\<lambda>(k, v). (k, filter (P k) v)) r) = map fst r" by auto
  have sub: "set (concat (map snd (map (\<lambda>(k, v). (k, filter (P k) v)) r))) \<subseteq> set (concat (map snd r))" for r
    by (induction r) auto
  have ids: "distinct (concat (map snd r)) \<Longrightarrow> distinct (concat (map snd (map (\<lambda>(k, v). (k, filter (P k) v)) r)))"
  proof (induction r)
    case (Cons kv r)
    then show ?case using sub [of r] by (cases kv) (fastforce simp del: set_concat)
  qed simp
  show ?thesis
    unfolding registry_part_def keys by (intro conjI impI, assumption, rule ids, assumption) fastforce
qed

lemma registry_nonempty: "registry_part (filter (\<lambda>(k, v). v \<noteq> []) r) r"
proof -
  have ids: "concat (map snd (filter (\<lambda>(k, v). v \<noteq> []) r)) = concat (map snd r)" by (induction r) auto
  have keys: "distinct (map fst r) \<Longrightarrow> distinct (map fst (filter (\<lambda>(k, v). v \<noteq> []) r))" by (rule distinct_map_filter)
  show ?thesis unfolding registry_part_def ids using keys by auto
qed

lemma registry_part_trans: "registry_part r' r1 \<Longrightarrow> registry_part r1 r \<Longrightarrow> registry_part r' r"
  unfolding registry_part_def by (meson order_trans)

lemma registry_update:
  assumes "distinct (map fst r)" "map_of r k = Some ids"
  shows "AList.update k (filter P ids) r = map (\<lambda>(k', v). (k', filter (\<lambda>i. k' \<noteq> k \<or> P i) v)) r"
  using assms
proof (induction r)
  case (Cons kv r)
  have same: "map (\<lambda>(k', v). (k', filter (\<lambda>i. k' \<noteq> k \<or> P i) v)) r = r" if "k \<notin> fst ` set r"
    using that by (intro map_idI) (force intro!: filter_True)
  show ?case
  proof (cases "fst kv = k")
    case True
    with Cons.prems same show ?thesis by (cases kv) simp
  next
    case False
    with Cons show ?thesis by (cases kv) simp
  qed
qed simp

lemma server_inv_Prune: "server_inv sv \<Longrightarrow> server_inv (PruneRegistry sv)"
  unfolding PruneRegistry_def erase_expired_def live_def
  by (erule server_inv_registry) (rule registry_part_trans [OF registry_nonempty registry_filtered])

lemma server_inv_erase: "server_inv sv \<Longrightarrow> server_inv (sv\<lparr>sv_registry := erase_expired sv\<rparr>)"
  unfolding erase_expired_def live_def by (erule server_inv_registry) (rule registry_filtered)

lemma update_overviews_fields [simp]:
  "sv_clients (update_overviews f ids sv) = sv_clients sv" "sv_manager (update_overviews f ids sv) = sv_manager sv"
  "sv_registry (update_overviews f ids sv) = sv_registry sv"
  by (induction ids arbitrary: sv) (simp_all add: update_overviews_def)

lemma server_inv_same:
  "sv_clients sv' = sv_clients sv \<Longrightarrow> sv_manager sv' = sv_manager sv \<Longrightarrow> sv_registry sv' = sv_registry sv \<Longrightarrow>
   server_inv sv' = server_inv sv"
  by (simp add: server_inv_parts)

lemma server_inv_overviews: "server_inv (update_overviews f ids sv) = server_inv sv"
  by (rule server_inv_same) simp_all

lemma QueueInventorySnapshot_fields:
  "QueueInventorySnapshot lib now_ms i sv = Some sv' \<Longrightarrow>
     sv_clients sv' = sv_clients sv \<and> sv_manager sv' = sv_manager sv \<and> sv_registry sv' = sv_registry sv"
  by (auto simp: QueueInventorySnapshot_def split: option.splits)

lemma for_overviews_fields:
  "for_overviews lib now_ms ids sv = Some sv' \<Longrightarrow>
     sv_clients sv' = sv_clients sv \<and> sv_manager sv' = sv_manager sv \<and> sv_registry sv' = sv_registry sv"
proof (induction ids arbitrary: sv)
  case (Cons i ids)
  then obtain sv1 where "QueueInventorySnapshot lib now_ms i sv = Some sv1" "for_overviews lib now_ms ids sv1 = Some sv'"
    by (auto simp: Option.bind_eq_Some_conv)
  with Cons.IH QueueInventorySnapshot_fields show ?case by metis
qed simp

lemma registry_add:
  assumes "distinct (map fst r)"
  shows "distinct (map fst (AList.update k (ids @ [i]) r))"
    "(case map_of r k of None \<Rightarrow> [] | Some old \<Rightarrow> old) = ids \<Longrightarrow>
       mset (concat (map snd (AList.update k (ids @ [i]) r))) = add_mset i (mset (concat (map snd r)))"
    "(case map_of r k of None \<Rightarrow> [] | Some old \<Rightarrow> old) = ids \<Longrightarrow> (s, js) \<in> set (AList.update k (ids @ [i]) r) \<Longrightarrow> j \<in> set js \<Longrightarrow>
       j = i \<and> s = k \<or> (\<exists>js'. (s, js') \<in> set r \<and> j \<in> set js')"
proof -
  show "distinct (map fst (AList.update k (ids @ [i]) r))" using assms by (simp add: distinct_update)
  show "(case map_of r k of None \<Rightarrow> [] | Some old \<Rightarrow> old) = ids \<Longrightarrow>
       mset (concat (map snd (AList.update k (ids @ [i]) r))) = add_mset i (mset (concat (map snd r)))"
    using assms by (induction r) (auto simp: ac_simps split: if_splits option.splits)
  show "(case map_of r k of None \<Rightarrow> [] | Some old \<Rightarrow> old) = ids \<Longrightarrow> (s, js) \<in> set (AList.update k (ids @ [i]) r) \<Longrightarrow> j \<in> set js \<Longrightarrow>
       j = i \<and> s = k \<or> (\<exists>js'. (s, js') \<in> set r \<and> j \<in> set js')"
    using assms by (induction r) (auto split: if_splits option.splits)
qed

lemma server_inv_register:
  assumes "server_inv sv" "fresh i sv" "identified i (ct_socket c)" "manager_inv m"
  shows "server_inv (register_client i c (sv\<lparr>sv_manager := m\<rparr>))"
proof -
  let ?k = "socket_session_id (ct_socket c)" and ?r = "sv_registry sv"
  let ?ids = "case map_of ?r ?k of None \<Rightarrow> [] | Some ids \<Rightarrow> ids"
  have d: "distinct (map fst ?r)" "distinct (concat (map snd ?r))" "i \<notin> set (concat (map snd ?r))"
    using assms(1,2) by (simp_all add: server_inv_parts fresh_def)
  let ?r' = "AList.update ?k (?ids @ [i]) ?r" and ?clients = "(sv_clients sv)(i \<mapsto> c)"
  have ids: "distinct (concat (map snd ?r'))"
    using registry_add(2) [OF d(1) refl, of ?k i] d(2,3)
    by (metis distinct.simps(2) distinct_count_atmost_1 mset.simps(2) mset_eq_imp_distinct_iff)
  have "socket_session_id (ct_socket c') = s" if "(s, js) \<in> set ?r'" "j \<in> set js" "?clients j = Some c'" for s js j c'
    using registry_add(3) [OF d(1) refl that(1,2)] that(3) assms(1) d(3) by (fastforce simp: server_inv_parts split: if_splits)
  then have sessions: "\<forall>(s, js) \<in> set ?r'. \<forall>j \<in> set js. \<forall>c'. ?clients j = Some c' \<longrightarrow> socket_session_id (ct_socket c') = s"
    by blast
  have named: "\<forall>j c'. ?clients j = Some c' \<longrightarrow> identified j (ct_socket c')"
    using assms(1,3) by (simp add: server_inv_parts)
  have fields: "sv_manager (register_client i c (sv\<lparr>sv_manager := m\<rparr>)) = m"
    "sv_clients (register_client i c (sv\<lparr>sv_manager := m\<rparr>)) = ?clients"
    "sv_registry (register_client i c (sv\<lparr>sv_manager := m\<rparr>)) = ?r'"
    by (simp_all add: register_client_def Let_def)
  show ?thesis
    unfolding server_inv_parts fields by (intro conjI assms(4) registry_add(1) [OF d(1)] ids sessions named)
qed

lemma ws_initial_fields [simp]:
  "ws_session_id (ws_QueueInitialEvents lib t m ws) = ws_session_id ws"
  "ws_client_id (ws_QueueInitialEvents lib t m ws) = ws_client_id ws"
  by (simp_all add: ws_QueueInitialEvents_def Let_def)

lemma server_inv_accept_observer:
  assumes "server_inv sv" "fresh i sv"
  shows "server_inv (accept_observer lib now_ms i target client_address is_local_request sv)"
proof -
  obtain ws m where r: "ws_accept lib now_ms i (WebSocketSession_init target, sv_manager sv) = (ws, m)" by fastforce
  then have "identified i (ObserverSocket ws)" "manager_inv m"
    using server_inv_manager_inv [OF assms(1)]
    by (auto simp: ws_accept_def Let_def manager_inv_runtime_ops split: option.split)
  with assms r show ?thesis by (simp add: accept_observer_def server_inv_register)
qed

lemma rw_close_pair:
  "rw_ForceClose clock (rw, m) = (rw', m') \<Longrightarrow> rw_client_id rw' = rw_client_id rw \<and> (manager_inv m \<longrightarrow> manager_inv m')"
  by (metis fst_conv snd_conv rw_close_fields(2,3))

lemma rw_accept_fields:
  assumes "rw_accept lib clock i socket_failed has_readable_fd dup_succeeds (rw, m) = (rw', m')"
  shows "identified i (ControllerSocket rw')" "manager_inv m \<Longrightarrow> manager_inv m'"
proof -
  have "(\<exists>time. rw_client_id rw' = ''remote-controller-'' @ int_to_string time @ ''-'' @ nat_to_string i)
    \<and> (manager_inv m \<longrightarrow> manager_inv m')"
    using assms
    by (auto simp: rw_accept_def Let_def case_prod_beta rw_fields manager_inv_control rw_SyncReadableDescriptor_def
        dest!: rw_close_pair split: if_splits option.splits)
  then show "identified i (ControllerSocket rw')" "manager_inv m \<Longrightarrow> manager_inv m'" by simp_all
qed

lemma server_inv_accept_controller:
  assumes "server_inv sv" "fresh i sv"
  shows "server_inv (accept_controller lib clock i socket_failed has_readable_fd dup_succeeds target client_address
    is_local_request sv)"
proof -
  obtain rw m where r: "rw_accept lib clock i socket_failed has_readable_fd dup_succeeds
      (RemoteController_init target, sv_manager sv) = (rw, m)"
    by fastforce
  note ok = rw_accept_fields(1) [OF r] rw_accept_fields(2) [OF r server_inv_manager_inv [OF assms(1)]]
  let ?c = "\<lparr>ct_socket = ControllerSocket rw, ct_client_address = client_address,
    ct_is_local_request = is_local_request, ct_connected_at_unix_ms = clock 0\<rparr>"
  have "server_inv (sv\<lparr>sv_manager := m, sv_clients := (sv_clients sv)(i \<mapsto> ?c)\<rparr>)"
    using assms ok by (fastforce simp: server_inv_parts fresh_def)
  with server_inv_register [OF assms, of ?c] ok r show ?thesis by (simp add: accept_controller_def Let_def)
qed

lemma server_inv_expire: "server_inv sv \<Longrightarrow> server_inv (sv\<lparr>sv_clients := (sv_clients sv)(i := None)\<rparr>)"
  by (fastforce simp: server_inv_parts)

lemma server_inv_Notify:
  assumes "server_inv sv"
  shows "server_inv (NotifySessionClients lib clock session_id sv)"
proof (cases "map_of (sv_registry sv) session_id")
  case (Some ids)
  have "distinct (map fst (sv_registry sv))" using assms by (simp add: server_inv_parts)
  from registry_update [OF this Some] registry_filtered
  have "registry_part (AList.update session_id (live sv ids) (sv_registry sv)) (sv_registry sv)"
    unfolding live_def by simp
  from server_inv_registry [OF assms this] Some show ?thesis
    by (simp add: NotifySessionClients_def server_inv_calls)
qed (simp add: NotifySessionClients_def assms)

lemma server_inv_Sync: "server_inv sv \<Longrightarrow> server_inv (SyncReadableWatchers has_fd dups sv)"
  by (simp add: SyncReadableWatchers_def Let_def server_inv_Prune)

lemma server_inv_tick:
  assumes "server_inv sv" "pump_tick deps lib poll_clocks steady_now observe clocks now_ms has_fd dups sv = Some sv'"
  shows "server_inv sv'"
proof -
  obtain m where m: "PollAll deps poll_clocks steady_now observe 0 (sv_manager sv) = Some m"
    using assms(2) by (auto simp: pump_tick_def Option.bind_eq_Some_conv)
  let ?sv1 = "sv\<lparr>sv_manager := m, sv_registry := erase_expired sv\<rparr>"
  let ?sv2 = "for_clients (client_SendPendingOutput lib) clocks (concat (map snd (sv_registry ?sv1))) ?sv1"
  obtain ids sv3 where o: "for_overviews lib now_ms ids (?sv2\<lparr>sv_overview_registry := ids\<rparr>) = Some sv3"
    "sv' = SyncReadableWatchers has_fd dups sv3"
    using assms(2) m by (auto simp: pump_tick_def Let_def)
  have "manager_inv m" using manager_inv_PollAll [OF m] server_inv_manager_inv [OF assms(1)] by simp
  then have "server_inv (sv\<lparr>sv_manager := m\<rparr>)" by (rule server_inv_manager [OF assms(1)])
  from server_inv_erase [OF this] have "server_inv ?sv1" by (simp add: erase_expired_def)
  then have "server_inv ?sv2" by (rule server_inv_calls)
  then have "server_inv sv3"
    using for_overviews_fields [OF o(1)] server_inv_same [of sv3 ?sv2] by simp
  with o(2) show ?thesis by (simp add: server_inv_Sync)
qed

lemma server_inv_step:
  assumes "server_step deps lib sv sv'" "server_inv sv"
  shows "server_inv sv'"
  using assms
proof induction
  case (manager sv m)
  then show ?case using manager_inv_step server_inv_manager server_inv_manager_inv by blast
next
  case (client sv i c socket m)
  with client_step_kept [OF client(2)] server_inv_manager_inv [OF client(3)] show ?case
    by (auto intro: server_inv_client)
next
  case (overview now_ms i is_local_request sv sv')
  then show ?case
    using QueueInventorySnapshot_fields [of lib now_ms i _ sv'] by (fastforce simp: accept_overview_def server_inv_parts)
next
  case (broadcast event sv)
  then show ?case by (simp add: BroadcastObservationCreated_def Let_def server_inv_overviews PruneOverviewRegistry_def)
next
  case (disconnect clock client_id sv)
  then show ?case
    by (simp add: DisconnectClient_def Let_def server_inv_Prune server_inv_calls split: option.split)
next
  case (readable clock clocks has_fd session_id failed sv sv')
  then show ?case
    using manager_inv_PollSession [OF server_inv_manager_inv]
    by (fastforce simp: pump_readable_def Let_def split: if_splits intro: server_inv_Notify server_inv_manager)
next
  case (tick poll_clocks steady_now observe clocks now_ms has_fd dups sv sv')
  then show ?case using server_inv_tick by blast
qed (simp_all add: server_inv_accept_observer server_inv_accept_controller server_inv_expire server_inv_overviews
    ListAttachedClients_def CloseAllWebSockets_def CloseAllOverviewWebSockets_def PruneOverviewRegistry_def
    server_inv_Prune server_inv_calls Let_def)

lemma server_inv_reachable:
  "(server_step deps lib)\<^sup>*\<^sup>* (Server_new (SessionManager_new st g f)) sv \<Longrightarrow> server_inv sv"
  by (induction rule: rtranclp_induct) (simp_all add: server_inv_step)

section \<open>The listing of clients\<close>

lemma digits_after_mark:
  assumes "xs @ c # nat_to_string i = ys @ d # nat_to_string j" "\<not> is_digit_char c" "\<not> is_digit_char d"
  shows "i = j"
proof -
  have tail: "takeWhile is_digit_char (rev (zs @ e # nat_to_string n)) = rev (nat_to_string n)" if "\<not> is_digit_char e" for zs e n
    using that nat_to_string_digits [of n] takeWhile_append2 [of "rev (nat_to_string n)" is_digit_char "e # rev zs"] by simp
  have "rev (nat_to_string i) = rev (nat_to_string j)"
    using tail [OF assms(2), of xs i] tail [OF assms(3), of ys j] assms(1) by simp
  then show ?thesis by simp
qed

lemma identified_unique:
  assumes "identified i s" "identified j s'" "socket_client_id s = socket_client_id s'"
  shows "i = j"
proof (cases s; cases s')
  fix ws ws'
  assume "s = ObserverSocket ws" "s' = ObserverSocket ws'"
  with assms have "(''ws_'' @ ws_session_id ws) @ CHR ''_'' # nat_to_string i = (''ws_'' @ ws_session_id ws') @ CHR ''_'' # nat_to_string j"
    by simp
  then show "i = j" by (rule digits_after_mark) (simp_all add: is_digit_char_def byte_def)
next
  fix rw rw'
  assume c: "s = ControllerSocket rw" "s' = ControllerSocket rw'"
  obtain t where t: "rw_client_id rw = (''remote-controller-'' @ int_to_string t) @ CHR ''-'' # nat_to_string i"
    using assms(1) unfolding c identified.simps by auto
  obtain u where u: "rw_client_id rw' = (''remote-controller-'' @ int_to_string u) @ CHR ''-'' # nat_to_string j"
    using assms(2) unfolding c identified.simps by auto
  have "(''remote-controller-'' @ int_to_string t) @ CHR ''-'' # nat_to_string i
      = (''remote-controller-'' @ int_to_string u) @ CHR ''-'' # nat_to_string j"
    using assms(3) unfolding c socket_client_id.simps t u .
  then show "i = j" by (rule digits_after_mark) (simp_all add: is_digit_char_def byte_def)
qed (use assms in auto)

lemma registered_distinct:
  assumes "registry_inv sv"
  shows "distinct (map snd (registered sv))"
proof -
  have "distinct (concat (map snd (erase_expired sv)))"
    using registry_filtered [of "\<lambda>k i. sv_clients sv i \<noteq> None" "sv_registry sv"] assms
    by (simp add: erase_expired_def live_def registry_part_def server_inv_parts)
  then show ?thesis by (simp add: erase_expired_ids)
qed

lemma registered_socket:
  assumes "registry_inv sv" "(s, i) \<in> set (registered sv)"
  shows "\<exists>c. sv_clients sv i = Some c \<and> socket_session_id (ct_socket c) = s \<and> identified i (ct_socket c)"
proof -
  obtain ids c where "(s, ids) \<in> set (sv_registry sv)" "i \<in> set ids" "sv_clients sv i = Some c"
    using assms(2) by (auto simp: registered_def live_def)
  with assms(1) show ?thesis by (fastforce simp: server_inv_parts)
qed

lemma client_row_ids:
  "ac_client_id (client_row now_ms sv s i) = socket_client_id (ct_socket (the (sv_clients sv i)))"
  "ac_session_id (client_row now_ms sv s i) = socket_session_id (ct_socket (the (sv_clients sv i)))"
  by (simp_all add: client_row_def Let_def)

lemma client_row_control:
  assumes "server_inv sv" "(s, i) \<in> set (registered sv)"
  shows "ac_has_control (client_row now_ms sv s i) \<longleftrightarrow>
    HasControl s (ac_client_id (client_row now_ms sv s i)) (sv_manager sv)"
proof (cases "FindEntry s (sv_manager sv)")
  case None
  then show ?thesis by (simp add: client_row_def Let_def GetSession_def HasControl_def)
next
  case (Some e)
  with FindEntry_ok [OF Some server_inv_manager_inv [OF assms(1)]] show ?thesis
    by (auto simp: client_row_def Let_def GetSession_def HasControl_def BuildSummary_def entry_ok_def controller_ok_def)
qed

lemma rows_mset:
  "mset (fst (ListAttachedClients now_ms sv)) = mset (map (\<lambda>(s, i). client_row now_ms sv s i) (registered sv))"
proof -
  have "client_row now_ms (PruneRegistry sv) = client_row now_ms sv" by (simp add: client_row_def Let_def fun_eq_iff)
  then have "concat (map (\<lambda>(s, ids). map (client_row now_ms (PruneRegistry sv) s) (live (PruneRegistry sv) ids))
      (sv_registry (PruneRegistry sv)))
    = map (\<lambda>(s, i). client_row now_ms sv s i) (registered (PruneRegistry sv))"
    unfolding registered_def by (simp add: map_concat comp_def case_prod_unfold)
  then show ?thesis unfolding ListAttachedClients_def Let_def by simp
qed

lemma registered_count:
  assumes "distinct (map fst (sv_registry sv))"
  shows "length (filter (\<lambda>(s, i). s = k) (registered sv))
    = (case map_of (sv_registry sv) k of None \<Rightarrow> 0 | Some ids \<Rightarrow> length (live sv ids))"
proof -
  have none: "length (filter (\<lambda>(s, i). s = k) (concat (map (\<lambda>(s, ids). map (Pair s) (live sv ids)) r))) = 0"
    if "k \<notin> fst ` set r" for r
    using that by (induction r) (auto simp: filter_map comp_def)
  have "length (filter (\<lambda>(s, i). s = k) (concat (map (\<lambda>(s, ids). map (Pair s) (live sv ids)) r)))
    = (case map_of r k of None \<Rightarrow> 0 | Some ids \<Rightarrow> length (live sv ids))" if "distinct (map fst r)" for r
    using that
  proof (induction r)
    case (Cons kv r)
    then show ?case using none [of r] by (cases kv) (auto simp: filter_map comp_def)
  qed simp
  with assms show ?thesis by (simp add: registered_def)
qed

text \<open>Claim C11: the listing of attached clients is exact. In every reachable server it has one row for each registered
  client that still lives, sorted by session and client; no two rows carry the same client id, so the id by which the
  administrator disconnects a client names one client only; a row says that the client has control exactly when the
  manager would accept its input; and the counts that the overview sessions show are the numbers of rows.\<close>

theorem attached_clients_listing:
  assumes "(server_step deps lib)\<^sup>*\<^sup>* (Server_new (SessionManager_new st git_interval file_interval)) sv"
    and "ListAttachedClients now_ms sv = (rows, sv')"
  shows "mset rows = mset (map (\<lambda>(s, i). client_row now_ms sv s i) (registered sv))
    \<and> sorted_wrt (\<lambda>l r. \<not> client_before r l) rows
    \<and> distinct (map ac_client_id rows)
    \<and> (\<forall>row \<in> set rows. ac_has_control row \<longleftrightarrow> HasControl (ac_session_id row) (ac_client_id row) (sv_manager sv))
    \<and> AttachClientCounts sv summaries = map (\<lambda>summary. summary\<lparr>su_attached_client_count :=
         length (filter (\<lambda>row. ac_session_id row = sid_value (su_id summary)) rows)\<rparr>) summaries"
proof -
  have inv: "server_inv sv" by (rule server_inv_reachable [OF assms(1)])
  note reg = server_inv_registry_inv [OF inv]
  have rows: "mset rows = mset (map (\<lambda>(s, i). client_row now_ms sv s i) (registered sv))"
    using rows_mset [of now_ms sv] assms(2) by simp
  have sorted: "sorted_wrt (\<lambda>l r. \<not> client_before r l) rows"
    using assms(2) sorted_sort_by [of client_before, OF client_before_asym client_before_between]
    by (auto simp: ListAttachedClients_def Let_def)
  have "inj_on (\<lambda>(s, i). ac_client_id (client_row now_ms sv s i)) (set (registered sv))"
  proof (rule inj_onI, clarify)
    fix s i t j
    assume r: "(s, i) \<in> set (registered sv)" "(t, j) \<in> set (registered sv)"
      "ac_client_id (client_row now_ms sv s i) = ac_client_id (client_row now_ms sv t j)"
    from registered_socket [OF reg r(1)] registered_socket [OF reg r(2)] r(3) identified_unique
    have "i = j" by (auto simp: client_row_ids)
    with registered_socket [OF reg r(1)] registered_socket [OF reg r(2)] show "s = t \<and> i = j" by auto
  qed
  then have "distinct (map (\<lambda>(s, i). ac_client_id (client_row now_ms sv s i)) (registered sv))"
    using registered_distinct [OF reg] by (simp add: distinct_map)
  moreover have "mset (map ac_client_id rows) = mset (map (\<lambda>(s, i). ac_client_id (client_row now_ms sv s i)) (registered sv))"
    using arg_cong [OF rows, of "image_mset ac_client_id"] by (simp add: comp_def case_prod_unfold multiset.map_comp)
  ultimately have names: "distinct (map ac_client_id rows)" by (metis mset_eq_imp_distinct_iff)
  have set: "set rows = (\<lambda>(s, i). client_row now_ms sv s i) ` set (registered sv)"
    using mset_eq_setD [OF rows] by simp
  have control: "ac_has_control row \<longleftrightarrow> HasControl (ac_session_id row) (ac_client_id row) (sv_manager sv)"
    if row: "row \<in> set rows" for row
  proof -
    obtain s i where r: "(s, i) \<in> set (registered sv)" "row = client_row now_ms sv s i"
      using row unfolding set by force
    with registered_socket [OF reg r(1)] client_row_control [OF inv r(1), of now_ms] show ?thesis
      by (auto simp: client_row_ids)
  qed
  have count: "length (filter (\<lambda>row. ac_session_id row = k) rows)
      = (case map_of (sv_registry sv) k of None \<Rightarrow> 0 | Some ids \<Rightarrow> length (live sv ids))" for k
  proof -
    have "length (filter (\<lambda>row. ac_session_id row = k) rows)
        = size (filter_mset (\<lambda>row. ac_session_id row = k) (mset (map (\<lambda>(s, i). client_row now_ms sv s i) (registered sv))))"
      unfolding rows [symmetric] by (metis mset_filter size_mset)
    also have "\<dots> = length (filter (\<lambda>(s, i). ac_session_id (client_row now_ms sv s i) = k) (registered sv))"
      by (simp add: filter_mset_image_mset comp_def case_prod_unfold flip: mset_filter)
    also have "filter (\<lambda>(s, i). ac_session_id (client_row now_ms sv s i) = k) (registered sv) = filter (\<lambda>(s, i). s = k) (registered sv)"
      using registered_socket [OF reg] by (intro filter_cong) (fastforce simp: client_row_ids)+
    also have "length (filter (\<lambda>(s, i). s = k) (registered sv)) = (case map_of (sv_registry sv) k of None \<Rightarrow> 0 | Some ids \<Rightarrow> length (live sv ids))"
      using inv by (intro registered_count) (simp add: server_inv_parts)
    finally show ?thesis .
  qed
  from rows sorted names control show ?thesis by (simp add: AttachClientCounts_def count)
qed

section \<open>Disconnecting a client\<close>

text \<open>Whether an object believes that it has control of its session, so that closing it gives control back.\<close>

fun gives_back :: "ClientSocket \<Rightarrow> bool" where
  "gives_back (ObserverSocket ws) \<longleftrightarrow> ws_session_id ws \<noteq> [] \<and> ws_client_id ws \<noteq> []"
| "gives_back (ControllerSocket rw) \<longleftrightarrow> rw_has_control rw"

lemma ReleaseControl_other:
  assumes "s \<noteq> session_id"
  shows "controller_of s (snd (ReleaseControl clock session_id client_id m)) = controller_of s m"
proof (cases "FindEntry session_id m")
  case (Some e)
  then have "entry_id e = session_id" by (simp add: FindEntry_Some)
  with Some assms show ?thesis
    by (auto simp: ReleaseControl_def controller_of_def FindEntry_set [OF Some] entry_id_def split: option.split)
qed (simp add: ReleaseControl_def)

lemma ReleaseControl_released: "\<not> HasControl session_id client_id (snd (ReleaseControl clock session_id client_id m))"
  using ReleaseControl_controller_of ReleaseControl_stranger
  by (metis HasControl_controller_of option.inject prod.inject option.distinct(1))

lemma ReleaseControl_others_client:
  assumes "other \<noteq> client_id" "HasControl session_id other m"
  shows "snd (ReleaseControl clock session_id client_id m) = m"
proof (rule ReleaseControl_stranger)
  show "\<not> HasControl session_id client_id m" using assms by (auto simp: HasControl_controller_of)
qed

lemma client_ForceClose_closes:
  assumes "client_ForceClose clock (socket, m) = (socket', m')"
  shows "socket_closed socket' \<and> socket_client_id socket' = socket_client_id socket"
    and "\<not> socket_closed socket \<Longrightarrow> gives_back socket \<Longrightarrow> \<not> HasControl (socket_session_id socket) (socket_client_id socket) m'"
    and "s \<noteq> socket_session_id socket \<Longrightarrow> controller_of s m' = controller_of s m"
    and "other \<noteq> socket_client_id socket \<Longrightarrow> HasControl s other m \<Longrightarrow> HasControl s other m'"
proof -
  let ?r = "ReleaseControl clock (socket_session_id socket) (socket_client_id socket) m"
  have m': "controller_of s m' = controller_of s (if \<not> socket_closed socket \<and> gives_back socket then snd ?r else m)" for s
    using assms by (cases socket) (auto simp: case_prod_beta ws_ForceClose_def rw_ForceClose_def ws_ReleaseControlIfHeld_def
        rw_ReleaseControlIfHeld_def split: if_splits)
  show "socket_closed socket' \<and> socket_client_id socket' = socket_client_id socket"
    using assms by (cases socket) (auto simp: case_prod_beta ws_ForceClose_def rw_ForceClose_def ws_ReleaseControlIfHeld_def
        rw_ReleaseControlIfHeld_def split: if_splits)
  show "\<not> socket_closed socket \<Longrightarrow> gives_back socket \<Longrightarrow> \<not> HasControl (socket_session_id socket) (socket_client_id socket) m'"
    using ReleaseControl_released by (simp add: HasControl_controller_of m')
  show "s \<noteq> socket_session_id socket \<Longrightarrow> controller_of s m' = controller_of s m"
    by (simp add: m' ReleaseControl_other)
  have held: "HasControl s x m' = HasControl s x (if \<not> socket_closed socket \<and> gives_back socket then snd ?r else m)" for s x
    by (simp only: HasControl_controller_of m')
  show "HasControl s other m'" if other: "other \<noteq> socket_client_id socket" "HasControl s other m"
  proof (cases "s = socket_session_id socket")
    case True
    with other have "snd ?r = m" by (intro ReleaseControl_others_client) simp_all
    with other(2) show ?thesis by (simp add: held)
  next
    case False
    with other(2) show ?thesis by (simp add: HasControl_controller_of m' ReleaseControl_other)
  qed
qed

lemma find_client_Some:
  "find_client client_id sv = Some i \<Longrightarrow> \<exists>s. (s, i) \<in> set (registered sv) \<and> socket_client_id (ct_socket (the (sv_clients sv i))) = client_id"
  unfolding find_client_def registered_ids by (auto simp: find_Some_iff) (metis nth_mem prod.collapse)

lemma find_client_None:
  "find_client client_id sv = None \<longleftrightarrow>
     (\<forall>(s, i) \<in> set (registered sv). socket_client_id (ct_socket (the (sv_clients sv i))) \<noteq> client_id)"
  unfolding find_client_def registered_ids by (fastforce simp: find_None_iff)

lemma find_client_Prune [simp]: "find_client client_id (PruneRegistry sv) = find_client client_id sv"
  unfolding find_client_def registered_ids by simp

text \<open>Claim C15: disconnecting a client hits that client and no other. In a reachable server the administrator's call
  succeeds exactly when some row of the listing carries the id; then the object with that id is closed, and if it was
  open and believed that it had control, the manager no longer gives it control of its session; every other object
  is untouched, every other client keeps the control it has, and the other sessions keep their controllers.\<close>

theorem disconnect_client_exact:
  assumes "(server_step deps lib)\<^sup>*\<^sup>* (Server_new (SessionManager_new st git_interval file_interval)) sv"
    and "DisconnectClient clock client_id sv = (found, sv')"
  shows "(found \<longleftrightarrow> client_id \<in> ac_client_id ` set (fst (ListAttachedClients now_ms sv)))
    \<and> (\<not> found \<longrightarrow> sv_clients sv' = sv_clients sv \<and> sv_manager sv' = sv_manager sv)
    \<and> (found \<longrightarrow> (\<exists>i c c'. sv_clients sv i = Some c \<and> socket_client_id (ct_socket c) = client_id
         \<and> sv_clients sv' = (sv_clients sv)(i \<mapsto> c') \<and> socket_closed (ct_socket c')
         \<and> (\<not> socket_closed (ct_socket c) \<and> gives_back (ct_socket c) \<longrightarrow>
              \<not> HasControl (socket_session_id (ct_socket c)) client_id (sv_manager sv'))
         \<and> (\<forall>s other. other \<noteq> client_id \<and> HasControl s other (sv_manager sv) \<longrightarrow> HasControl s other (sv_manager sv'))
         \<and> (\<forall>s. s \<noteq> socket_session_id (ct_socket c) \<longrightarrow> controller_of s (sv_manager sv') = controller_of s (sv_manager sv))))"
proof -
  have inv: "server_inv sv" by (rule server_inv_reachable [OF assms(1)])
  note reg = server_inv_registry_inv [OF inv]
  have names: "ac_client_id ` set (fst (ListAttachedClients now_ms sv))
      = (\<lambda>(s, i). socket_client_id (ct_socket (the (sv_clients sv i)))) ` set (registered sv)"
    using mset_eq_setD [OF rows_mset [of now_ms sv]] by (simp add: image_image case_prod_unfold client_row_ids)
  show ?thesis
  proof (cases "find_client client_id sv")
    case None
    with assms(2) names show ?thesis by (auto simp: DisconnectClient_def Let_def find_client_None)
  next
    case (Some i)
    then obtain s where r: "(s, i) \<in> set (registered sv)" "socket_client_id (ct_socket (the (sv_clients sv i))) = client_id"
      using find_client_Some by blast
    then obtain c where c: "sv_clients sv i = Some c" "socket_client_id (ct_socket c) = client_id"
      using registered_live by fastforce
    obtain socket' m' where f: "client_ForceClose clock (ct_socket c, sv_manager sv) = (socket', m')" by fastforce
    have out: "found" "sv_manager sv' = m'" "sv_clients sv' = (sv_clients sv)(i \<mapsto> c\<lparr>ct_socket := socket'\<rparr>)"
      using assms(2) Some c(1) f by (auto simp: DisconnectClient_def Let_def step_client_def)
    have "client_id \<in> ac_client_id ` set (fst (ListAttachedClients now_ms sv))"
      unfolding names using r by force
    moreover note closed = client_ForceClose_closes [OF f]
    moreover have "\<exists>i c c'. sv_clients sv i = Some c \<and> socket_client_id (ct_socket c) = client_id
         \<and> sv_clients sv' = (sv_clients sv)(i \<mapsto> c') \<and> socket_closed (ct_socket c')
         \<and> (\<not> socket_closed (ct_socket c) \<and> gives_back (ct_socket c) \<longrightarrow>
              \<not> HasControl (socket_session_id (ct_socket c)) client_id (sv_manager sv'))
         \<and> (\<forall>s other. other \<noteq> client_id \<and> HasControl s other (sv_manager sv) \<longrightarrow> HasControl s other (sv_manager sv'))
         \<and> (\<forall>s. s \<noteq> socket_session_id (ct_socket c) \<longrightarrow> controller_of s (sv_manager sv') = controller_of s (sv_manager sv))"
      by (rule exI [of _ i], rule exI [of _ c], rule exI [of _ "c\<lparr>ct_socket := socket'\<rparr>"])
        (use out c closed in simp)
    ultimately show ?thesis using out(1) by simp
  qed
qed

section \<open>What the pump watches and delivers\<close>

lemma watch_session_fold:
  "set (fold (watch_session has_fd dups) ids ws)
     = {s \<in> set ws. s \<in> set ids \<longrightarrow> has_fd s} \<union> {s \<in> set ids. has_fd s \<and> (s \<in> set ws \<or> dups s)}"
proof (induction ids arbitrary: ws)
  case (Cons s ids)
  have "set (watch_session has_fd dups s ws)
      = {t \<in> set ws. t = s \<longrightarrow> has_fd t} \<union> (if has_fd s \<and> dups s then {s} else {})"
    by (auto simp: watch_session_def)
  with Cons show ?case by auto
qed auto

lemma pruned_sessions: "k \<in> fst ` set (sv_registry (PruneRegistry sv)) \<longleftrightarrow> (\<exists>i. (k, i) \<in> set (registered sv))"
proof -
  have "k \<in> fst ` set (sv_registry (PruneRegistry sv)) \<longleftrightarrow> (\<exists>ids. (k, ids) \<in> set (sv_registry sv) \<and> live sv ids \<noteq> [])"
    by (force simp: PruneRegistry_def erase_expired_def image_iff)
  also have "\<dots> \<longleftrightarrow> (\<exists>ids i. (k, ids) \<in> set (sv_registry sv) \<and> i \<in> set (live sv ids))"
    by (metis hd_in_set empty_iff set_empty2)
  also have "\<dots> \<longleftrightarrow> (\<exists>i. (k, i) \<in> set (registered sv))" by (force simp: registered_def)
  finally show ?thesis .
qed

text \<open>What the pump waits for after a round.\<close>

lemma readable_watchers_exact:
  "set (sv_readable_watchers (SyncReadableWatchers has_fd dup_succeeds sv))
     = {s. (\<exists>i. (s, i) \<in> set (registered sv)) \<and> \<not> HasPrivilegedController s (sv_manager sv) \<and> has_fd s
           \<and> (s \<in> set (sv_readable_watchers sv) \<or> dup_succeeds s)}"
proof -
  have "set (active_session_ids (PruneRegistry sv))
      = {s. (\<exists>i. (s, i) \<in> set (registered sv)) \<and> \<not> HasPrivilegedController s (sv_manager sv)}"
    by (simp add: active_session_ids_def pruned_sessions)
  then show ?thesis
    by (simp add: SyncReadableWatchers_def Let_def watch_session_fold) blast
qed

lemma session_output_set:
  assumes "FindEntry i m = Some e" "entry_id e' = entry_id e" "map_option rt_output_buffer (me_runtime e') = map_option rt_output_buffer (me_runtime e)"
  shows "session_output s (set_entry_state e' m) = session_output s m"
proof -
  have "entry_id e' = i" using assms(1,2) by (simp add: FindEntry_Some)
  with assms show ?thesis by (simp add: session_output_def FindEntry_set [OF assms(1)])
qed

lemma session_output_Release [simp]:
  "session_output s (snd (ReleaseControl clock i c m)) = session_output s m"
  by (auto simp: ReleaseControl_def entry_id_def MaybeTraceNodeSummaryTransition_def Let_def
      intro!: session_output_set split: option.split)

lemma rw_output_kept:
  "session_output s (snd (rw_ForceClose clock (rw, m))) = session_output s m"
  "session_output s (snd (rw_DoWrite clock (rw, m))) = session_output s m"
  "session_output s (snd (rw_QueueFrame clock payload is_text (rw, m))) = session_output s m"
  "session_output s (snd (rw_SendPendingOutput lib clock (rw, m))) = session_output s m"
  by (simp_all add: rw_ForceClose_def rw_ReleaseControlIfHeld_def rw_DoWrite_def rw_QueueFrame_def
      rw_SendPendingOutput_def Let_def case_prod_beta split: option.split)

lemma client_output_kept: "session_output s (snd (client_SendPendingOutput lib clock st)) = session_output s (snd st)"
  by (cases "(lib, clock, st)" rule: client_SendPendingOutput.cases) (simp_all add: case_prod_beta rw_output_kept)

lemma step_client_fields:
  "j \<noteq> i \<Longrightarrow> sv_clients (step_client f i sv) j = sv_clients sv j"
  "sv_clients sv i = Some c \<Longrightarrow>
     sv_clients (step_client f i sv) i = Some (c\<lparr>ct_socket := fst (f (ct_socket c, sv_manager sv))\<rparr>)"
  "(\<And>st. session_output s (snd (f st)) = session_output s (snd st)) \<Longrightarrow>
     session_output s (sv_manager (step_client f i sv)) = session_output s (sv_manager sv)"
proof -
  show "j \<noteq> i \<Longrightarrow> sv_clients (step_client f i sv) j = sv_clients sv j"
    by (simp add: step_client_def case_prod_beta split: option.split)
  show "sv_clients sv i = Some c \<Longrightarrow>
     sv_clients (step_client f i sv) i = Some (c\<lparr>ct_socket := fst (f (ct_socket c, sv_manager sv))\<rparr>)"
    by (simp add: step_client_def case_prod_beta)
  assume kept: "\<And>st. session_output s (snd (f st)) = session_output s (snd st)"
  show "session_output s (sv_manager (step_client f i sv)) = session_output s (sv_manager sv)"
    by (simp add: step_client_def case_prod_beta kept split: option.split)
qed

lemma for_clients_other: "i \<notin> set ids \<Longrightarrow> sv_clients (for_clients f clock ids sv) i = sv_clients sv i"
  by (induction ids arbitrary: sv) (auto simp: step_client_fields(1))

text \<open>One round of calls reaches a client once, with a manager that has the same output.\<close>

lemma for_clients_reaches:
  assumes "distinct ids" "i \<in> set ids" "sv_clients sv i = Some c"
    and "\<And>clk st. session_output s (snd (f clk st)) = session_output s (snd st)"
  shows "\<exists>m. session_output s m = session_output s (sv_manager sv)
    \<and> sv_clients (for_clients f clock ids sv) i = Some (c\<lparr>ct_socket := fst (f (clock i) (ct_socket c, m))\<rparr>)"
  using assms(1-3)
proof (induction ids arbitrary: sv)
  case (Cons j ids)
  show ?case
  proof (cases "i = j")
    case True
    with Cons.prems show ?thesis by (auto simp: for_clients_other step_client_fields(2))
  next
    case False
    with Cons.prems Cons.IH [of "step_client (f (clock j)) j sv"] step_client_fields(3) [of s "f (clock j)" j sv, OF assms(4)]
    show ?thesis by (simp add: step_client_fields(1))
  qed
qed simp

text \<open>Claim C17: every observer gets the output of its session with the next round of the pump. In a server whose
  registry is consistent, as every reachable one is, let an observer that has everything up to now be registered, and let its session print any number of chunks, which its
  buffer still holds when the round has polled the sessions. After the round the observer's queue has grown by text
  events and one frame with exactly these bytes, whatever the other clients are told in the same round.\<close>

theorem pump_round_reaches_observer:
  fixes sv :: "('p, 'vt, 'l, 's) Server"
  assumes "registry_inv sv"
    and "pump_tick deps lib poll_clocks steady_now observe clocks now_ms has_fd dup_succeeds sv = Some sv'"
    and "PollAll deps poll_clocks steady_now observe 0 (sv_manager sv) = Some m"
    and "(s, i) \<in> set (registered sv)" "sv_clients sv i = Some c" "ct_socket c = ObserverSocket ws" "s \<noteq> []"
    and "session_output s m = Some (fold ob_Append datas b)" "ob_inv b" "sw_reserved_next (ws_sequence_window ws) = ob_next_sequence b"
    and "[] \<notin> set datas" "datas \<noteq> []" "ob_next_sequence b + length datas < 18446744073709551616"
    and "\<forall>d \<in> set datas. length d \<le> ob_capacity_bytes b"
    and "ob_size_bytes b + length (concat datas) \<le> ob_capacity_bytes b"
  shows "\<exists>ws' events sl. sv_clients sv' i = Some (c\<lparr>ct_socket := ObserverSocket ws'\<rparr>)
    \<and> list_all sf_is_text events \<and> os_data sl = concat datas
    \<and> ws_pending_frames ws' = ws_pending_frames ws @ events @
        [\<lparr>sf_payload = (if ws_raw_output_mode ws then concat datas else ToJson_TerminalOutputEvent lib s sl),
          sf_next_sequence = ob_next_sequence (fold ob_Append datas b), sf_is_text = (\<not> ws_raw_output_mode ws)\<rparr>]"
proof -
  note reg = assms(1)
  have id: "ws_session_id ws = s" using registered_socket [OF reg assms(4)] assms(5,6) by simp
  let ?sv1 = "sv\<lparr>sv_manager := m, sv_registry := erase_expired sv\<rparr>"
  let ?ids = "concat (map snd (erase_expired sv))"
  let ?sv2 = "for_clients (client_SendPendingOutput lib) clocks ?ids ?sv1"
  obtain overviews sv3 where o: "for_overviews lib now_ms overviews (?sv2\<lparr>sv_overview_registry := overviews\<rparr>) = Some sv3"
    "sv' = SyncReadableWatchers has_fd dup_succeeds sv3"
    using assms(2,3) by (auto simp: pump_tick_def Let_def)
  then have clients: "sv_clients sv' = sv_clients ?sv2"
    using for_overviews_fields [OF o(1)] by (simp add: SyncReadableWatchers_def Let_def)
  have ids: "distinct ?ids" "i \<in> set ?ids"
    using registered_distinct [OF reg] assms(4) unfolding erase_expired_ids by force+
  have kept: "session_output s (snd (client_SendPendingOutput lib clk st)) = session_output s (snd st)" for clk st
    by (rule client_output_kept)
  obtain m1 :: "('p, 'vt, 'l, 's) SessionManager" where m1: "session_output s m1 = session_output s m"
    "sv_clients ?sv2 i = Some (c\<lparr>ct_socket := fst (client_SendPendingOutput lib (clocks i) (ct_socket c, m1))\<rparr>)"
    using for_clients_reaches [where sv = ?sv1 and c = c and s = s and f = "client_SendPendingOutput lib" and clock = clocks,
        OF ids _ kept] assms(5) by fastforce
  from websocket_streams_output [OF assms(9,11,13-15), of ws m1 lib "clocks i 0"] assms(7,8,10,12) m1(1) id
  obtain events sl where "list_all sf_is_text events" "os_data sl = concat datas"
    "ws_pending_frames (ws_SendPendingOutput lib (clocks i 0) m1 ws) = ws_pending_frames ws @ events @
        [\<lparr>sf_payload = (if ws_raw_output_mode ws then concat datas else ToJson_TerminalOutputEvent lib s sl),
          sf_next_sequence = ob_next_sequence (fold ob_Append datas b), sf_is_text = (\<not> ws_raw_output_mode ws)\<rparr>]"
    by auto
  with m1(2) clients assms(6) show ?thesis by (auto intro!: exI)
qed

section \<open>A server in use\<close>

lemma for_clients_fields [simp]:
  "sv_overviews (for_clients f clock ids sv) = sv_overviews sv"
  "sv_overview_registry (for_clients f clock ids sv) = sv_overview_registry sv"
  by (induction ids arbitrary: sv) (simp_all add: step_client_def case_prod_beta split: option.split)

lemma server_manager_steps:
  "(manager_step deps)\<^sup>*\<^sup>* m m' \<Longrightarrow> (server_step deps lib)\<^sup>*\<^sup>* (Server_new m) (Server_new m')"
proof (induction rule: rtranclp_induct)
  case (step m1 m2)
  have "server_step deps lib (Server_new m1) ((Server_new m1)\<lparr>sv_manager := m2\<rparr>)"
    by (rule server_step.manager) (use step.hyps in \<open>simp add: Server_new_def\<close>)
  then have "server_step deps lib (Server_new m1) (Server_new m2)" by (simp add: Server_new_def)
  with step.IH show ?case by (rule rtranclp.rtrancl_into_rtrancl)
qed simp

definition demo_ws_target :: string where
  "demo_ws_target = ''/ws/sessions/'' @ demo_session"

definition demo_server :: "(string list, unit, nat, unit) Server" where
  "demo_server = accept_observer unary_json 9 2 demo_ws_target ''10.0.0.2'' False
     (accept_observer unary_json 8 1 demo_ws_target ''10.0.0.1'' False (Server_new demo_manager))"

lemma accept_observer_fields:
  "sv_registry (accept_observer lib t i target address loc sv) =
     AList.update (ExtractSessionIdFromWebSocketTarget target)
       ((case map_of (sv_registry sv) (ExtractSessionIdFromWebSocketTarget target) of None \<Rightarrow> [] | Some ids \<Rightarrow> ids) @ [i])
       (sv_registry sv)"
  "\<exists>c. sv_clients (accept_observer lib t i target address loc sv) = (sv_clients sv)(i \<mapsto> c)
     \<and> socket_client_id (ct_socket c) = ''ws_'' @ ExtractSessionIdFromWebSocketTarget target @ ''_'' @ nat_to_string i"
  by (simp_all add: accept_observer_def register_client_def Let_def case_prod_beta ws_accept_def WebSocketSession_init_def)
    (intro exI conjI, rule refl, simp)

lemma digit_one: "nat_to_string (Suc 0) = ''1''"
  by code_simp

lemma demo_target: "ExtractSessionIdFromWebSocketTarget demo_ws_target = demo_session"
  by code_simp

lemma demo_server_reachable: "(server_step demo_deps unary_json)\<^sup>*\<^sup>* (Server_new (SessionManager_new () 1 1)) demo_server"
proof -
  let ?one = "accept_observer unary_json 8 1 demo_ws_target ''10.0.0.1'' False (Server_new demo_manager)"
  have "(server_step demo_deps unary_json)\<^sup>*\<^sup>* (Server_new (SessionManager_new () 1 1)) (Server_new demo_manager)"
    by (rule server_manager_steps) (rule demo_manager_reachable)
  moreover have "fresh 1 (Server_new demo_manager)" by (simp add: fresh_def Server_new_def)
  moreover have "fresh 2 ?one"
    using accept_observer_fields(2) [of unary_json 8 1 demo_ws_target "''10.0.0.1''" False "Server_new demo_manager"]
    by (auto simp: fresh_def accept_observer_fields(1) Server_new_def)
  ultimately show ?thesis
    unfolding demo_server_def by (blast intro: rtranclp.rtrancl_into_rtrancl server_step.observer)
qed

lemma demo_server_clients:
  "\<exists>c d. sv_clients demo_server = [1 \<mapsto> c, 2 \<mapsto> d] \<and> socket_client_id (ct_socket c) = ''ws_'' @ demo_session @ ''_1''
     \<and> socket_client_id (ct_socket d) = ''ws_'' @ demo_session @ ''_2''"
proof -
  have digits: "''_'' @ nat_to_string 1 = ''_1''" "''_'' @ nat_to_string 2 = ''_2''" by code_simp+
  note accepted = accept_observer_fields(2) [where lib = unary_json and target = demo_ws_target and loc = False,
      unfolded demo_target]
  from accepted [of 8 1 "''10.0.0.1''" "Server_new demo_manager"] obtain c where c:
    "sv_clients (accept_observer unary_json 8 1 demo_ws_target ''10.0.0.1'' False (Server_new demo_manager)) = [1 \<mapsto> c]"
    "socket_client_id (ct_socket c) = ''ws_'' @ demo_session @ ''_1''"
    unfolding digits by (auto simp: Server_new_def)
  obtain d where d: "sv_clients demo_server = (sv_clients (accept_observer unary_json 8 1 demo_ws_target
        ''10.0.0.1'' False (Server_new demo_manager)))(2 \<mapsto> d)"
    "socket_client_id (ct_socket d) = ''ws_'' @ demo_session @ ''_2''"
    using accepted [of 9 2 "''10.0.0.2''" "accept_observer unary_json 8 1 demo_ws_target ''10.0.0.1'' False
        (Server_new demo_manager)"]
    unfolding demo_server_def digits by (elim exE conjE)
  show ?thesis by (intro exI conjI, unfold d(1) c(1), rule refl, rule c(2), rule d(2))
qed

lemma demo_server_registered: "registered demo_server = [(demo_session, 1), (demo_session, 2)]"
proof -
  have "sv_registry demo_server = [(demo_session, [1, 2])]"
    by (simp add: demo_server_def accept_observer_fields(1) demo_target Server_new_def)
  with demo_server_clients show ?thesis by (auto simp: registered_def live_def)
qed

theorem attached_clients_listing_witness:
  "length (fst (ListAttachedClients 9 demo_server)) = 2 \<and> distinct (map ac_client_id (fst (ListAttachedClients 9 demo_server)))"
proof -
  obtain rows sv' where r: "ListAttachedClients 9 demo_server = (rows, sv')" by fastforce
  from attached_clients_listing [OF demo_server_reachable r, of "[]"]
  have rows: "mset rows = mset (map (\<lambda>(s, i). client_row 9 demo_server s i) (registered demo_server))"
    "distinct (map ac_client_id rows)"
    by simp_all
  have "length (registered demo_server) = 2" by (simp add: demo_server_registered)
  with rows r show ?thesis by (metis fst_conv length_map size_mset)
qed

theorem disconnect_client_exact_witness:
  "fst (DisconnectClient (\<lambda>i. 9) (''ws_'' @ demo_session @ ''_1'') demo_server)"
proof -
  obtain found sv' where r: "DisconnectClient (\<lambda>i. 9) (''ws_'' @ demo_session @ ''_1'') demo_server = (found, sv')" by fastforce
  have "''ws_'' @ demo_session @ ''_1'' \<in> ac_client_id ` set (fst (ListAttachedClients 9 demo_server))"
    using mset_eq_setD [OF rows_mset [of 9 demo_server]] demo_server_clients
    by (auto simp: demo_server_registered client_row_ids)
  with disconnect_client_exact [OF demo_server_reachable r, of 9] r show ?thesis by simp
qed

text \<open>An observer of a session that a local controller reads, which the poll leaves alone.\<close>

definition demo_watching :: "(string list, unit, nat, unit) Server" where
  "demo_watching = (Server_new (demo_printing\<lparr>sm_sessions := map (\<lambda>e. e\<lparr>me_controller_kind := ControllerHost,
       me_controller_client_id := Some ''local-controller-1''\<rparr>) (sm_sessions demo_printing)\<rparr>))
     \<lparr>sv_clients := [1 \<mapsto> \<lparr>ct_socket = ObserverSocket (demo_socket\<lparr>ws_client_id := ''ws_'' @ demo_session @ ''_1''\<rparr>),
          ct_client_address = [], ct_is_local_request = False, ct_connected_at_unix_ms = 5\<rparr>],
      sv_registry := [(demo_session, [1])]\<rparr>"

theorem pump_round_reaches_observer_witness:
  "\<exists>c ws events. sv_clients (the (pump_tick demo_deps unary_json (\<lambda>i j. 9) 5 (\<lambda>i. undefined) (\<lambda>i j. 9) 9 (\<lambda>i. False) (\<lambda>i. False)
       demo_watching)) 1 = Some c \<and> ct_socket c = ObserverSocket ws
     \<and> ws_pending_frames ws = events @ [\<lparr>sf_payload = ''cde'', sf_next_sequence = 3, sf_is_text = False\<rparr>]"
proof -
  let ?m = "sv_manager demo_watching" and ?b = "SessionOutputBuffer_new 16"
  have "list_all skips_poll (sm_sessions ?m)"
    by (simp add: demo_watching_def Server_new_def demo_printing_def skips_poll_def IsPrivilegedControllerClientId_def
        kPrivilegedLocalControllerPrefix_def starts_with_def SessionEntry_default_def)
  then have poll: "PollAll demo_deps (\<lambda>i j. 9) 5 (\<lambda>i. undefined) 0 ?m = Some m'" if "m' = ?m\<lparr>sm_poll_count := sm_poll_count ?m + 1,
      sm_last_git_poll_at := 5, sm_last_file_poll_at := 5\<rparr>" for m'
    unfolding that by (simp add: PollAll_def Let_def poll_all_loop_idle demo_watching_def Server_new_def demo_printing_def SessionManager_new_def)
  obtain m' where m': "PollAll demo_deps (\<lambda>i j. 9) 5 (\<lambda>i. undefined) 0 ?m = Some m'" "session_output demo_session m' = session_output demo_session ?m"
    using poll [OF refl] by (simp add: session_output_def FindEntry_def)
  have out: "session_output demo_session ?m = Some (fold ob_Append [''cd'', ''e''] ?b)"
    by (simp add: demo_watching_def Server_new_def session_output_def demo_printing_def FindEntry_def entry_id_def SessionEntry_default_def)
  have reg: "registry_inv demo_watching" "(demo_session, 1) \<in> set (registered demo_watching)"
    using demo_socket_id
    by (auto simp: demo_watching_def Server_new_def registry_inv_def registered_def live_def digit_one split: if_splits)
  have inv: "ob_inv ?b" by (simp add: ob_inv_new)
  have small: "\<forall>d \<in> set [''cd'', ''e'']. length d \<le> ob_capacity_bytes ?b"
    "ob_size_bytes ?b + length (concat [''cd'', ''e'']) \<le> ob_capacity_bytes ?b"
    "ob_next_sequence ?b + length [''cd'', ''e''] < 18446744073709551616"
    by (simp_all add: SessionOutputBuffer_new_def)
  have next3: "ob_next_sequence (fold ob_Append [''cd'', ''e''] ?b) = 3"
    using ob_next_sequence_run [OF inv, of "[''cd'', ''e'']"] by (simp add: SessionOutputBuffer_new_def)
  obtain sv' where tick: "pump_tick demo_deps unary_json (\<lambda>i j. 9) 5 (\<lambda>i. undefined) (\<lambda>i j. 9) 9 (\<lambda>i. False) (\<lambda>i. False) demo_watching = Some sv'"
    using m'(1) by (auto simp: pump_tick_def Let_def demo_watching_def Server_new_def for_clients_fields)
  let ?ws = "demo_socket\<lparr>ws_client_id := ''ws_'' @ demo_session @ ''_1''\<rparr>"
  have ws: "ws_raw_output_mode ?ws" "ws_pending_frames ?ws = []"
    "sw_reserved_next (ws_sequence_window ?ws) = ob_next_sequence ?b"
    by (simp_all add: demo_socket_def WebSocketSession_init_def StreamSequenceWindow_init_def SessionOutputBuffer_new_def)
  have c: "sv_clients demo_watching 1 = Some \<lparr>ct_socket = ObserverSocket ?ws, ct_client_address = [], ct_is_local_request = False,
      ct_connected_at_unix_ms = 5\<rparr>"
    by (simp add: demo_watching_def)
  have name: "demo_session \<noteq> []" by (simp add: demo_session_def)
  from pump_round_reaches_observer [OF reg(1) tick m'(1) reg(2) c _ name _ inv ws(3) _ _ small(3,1,2)] m'(2) out
  obtain ws' events sl where "sv_clients sv' 1 = Some (\<lparr>ct_socket = ObserverSocket ws', ct_client_address = [],
      ct_is_local_request = False, ct_connected_at_unix_ms = 5\<rparr>)"
    "ws_pending_frames ws' = ws_pending_frames ?ws @ events @
      [\<lparr>sf_payload = (if ws_raw_output_mode ?ws then concat [''cd'', ''e''] else ToJson_TerminalOutputEvent unary_json demo_session sl),
        sf_next_sequence = ob_next_sequence (fold ob_Append [''cd'', ''e''] ?b), sf_is_text = (\<not> ws_raw_output_mode ?ws)\<rparr>]"
    by auto
  with tick ws next3 show ?thesis by auto
qed

end
