(* ===== verification/Observations.thy ===== *)
theory Observations
  imports Evidence Evicting_Queues Base64
begin

text \<open>
  \<open>src/service/observation_store.cpp\<close>, the bounded list of who looked at which evidence, and
  \<open>src/service/evidence_response_assembler.cpp\<close>, which attaches a replay token to a result and builds
  the observation of it. The store is proved to keep the end of a list that is specified without it; replay
  tokens and their JSON strings are proved to be decodable.
\<close>

section \<open>The observation store\<close>

record ObservationStore =
  os_max_events :: nat
  os_events :: "ObservationEvent list"
  os_next_event_sequence :: u64

definition ObservationStore_new :: "nat \<Rightarrow> ObservationStore" where
  "ObservationStore_new max_events =
     \<lparr>os_max_events = max_events, os_events = [], os_next_event_sequence = 1\<rparr>"

definition same_tail_observation :: "ObservationEvent \<Rightarrow> ObservationEvent \<Rightarrow> bool" where
  "same_tail_observation previous event \<longleftrightarrow>
     ov_operation previous = OpTail \<and>
     ov_actor_session_id previous = ov_actor_session_id event \<and>
     es_kind (ov_source previous) = es_kind (ov_source event) \<and>
     es_session_id (ov_source previous) = es_session_id (ov_source event) \<and>
     ov_query previous = ov_query event \<and>
     ov_revision_start previous = ov_revision_start event \<and>
     ov_revision_end previous = ov_revision_end event \<and>
     ov_result_count previous = ov_result_count event \<and>
     ov_truncated previous = ov_truncated event"

definition IsDuplicateTailObservation :: "ObservationEvent \<Rightarrow> ObservationStore \<Rightarrow> bool" where
  "IsDuplicateTailObservation event st \<longleftrightarrow>
     \<not> (os_events st = [] \<or> ov_operation event \<noteq> OpTail)
     \<and> same_tail_observation (last (os_events st)) event"

definition MakeEventId :: "ObservationStore \<Rightarrow> string \<times> ObservationStore" where
  "MakeEventId st =
     (''obs:'' @ nat_to_string (os_next_event_sequence st),
      st\<lparr>os_next_event_sequence := u64_add (os_next_event_sequence st) 1\<rparr>)"

fun pop_events :: "nat \<Rightarrow> ObservationEvent list \<Rightarrow> ObservationEvent list" where
  "pop_events max_events [] = []"
| "pop_events max_events (e # es) =
     (if max_events > 0 \<and> length (e # es) > max_events then pop_events max_events es else e # es)"

definition os_EvictIfNeeded :: "ObservationStore \<Rightarrow> ObservationStore" where
  "os_EvictIfNeeded st = st\<lparr>os_events := pop_events (os_max_events st) (os_events st)\<rparr>"

record ObservationStoreAddResult =
  ar_event :: ObservationEvent
  ar_inserted :: bool

definition AddWithStatus ::
    "ObservationEvent \<Rightarrow> ObservationStore \<Rightarrow> ObservationStoreAddResult \<times> ObservationStore" where
  "AddWithStatus event st =
     (if IsDuplicateTailObservation event st
      then (\<lparr>ar_event = last (os_events st), ar_inserted = False\<rparr>, st)
      else
        let (event1, st1) =
              (if ov_id event = [] then
                 let (new_id, st') = MakeEventId st in (event\<lparr>ov_id := new_id\<rparr>, st')
               else (event, st));
            st2 = os_EvictIfNeeded (st1\<lparr>os_events := os_events st1 @ [event1]\<rparr>)
        in (\<lparr>ar_event = last (os_events st2), ar_inserted = True\<rparr>, st2))"

definition os_Add :: "ObservationEvent \<Rightarrow> ObservationStore \<Rightarrow> ObservationStore" where
  "os_Add event st = snd (AddWithStatus event st)"

definition ListNewestFirst :: "nat \<Rightarrow> ObservationStore \<Rightarrow> ObservationEvent list" where
  "ListNewestFirst limit st =
     (if limit = 0 \<or> os_events st = [] then []
      else map (\<lambda>offset. os_events st ! (length (os_events st) - 1 - offset))
             [0 ..< min limit (length (os_events st))])"

section \<open>What the store should hold\<close>

text \<open>Two tail reads in a row are one observation when they are reads by the same session of the same lines of the same
  session, with the same result. The observations worth keeping are the events without those that repeat the event
  just before them, and their ids are the ones they came with or the running number of the events that came without.\<close>

definition repeats :: "ObservationEvent \<Rightarrow> ObservationEvent \<Rightarrow> bool" where
  "repeats previous event \<longleftrightarrow>
     ov_operation previous = OpTail \<and> ov_operation event = OpTail
     \<and> (ov_actor_session_id previous, ov_source previous, ov_query previous, ov_revision_start previous,
          ov_revision_end previous, ov_result_count previous, ov_truncated previous) =
       (ov_actor_session_id event, ov_source event, ov_query event, ov_revision_start event,
          ov_revision_end event, ov_result_count event, ov_truncated event)"

fun without_repeats :: "ObservationEvent list \<Rightarrow> ObservationEvent list" where
  "without_repeats (e1 # e2 # es) = (if repeats e1 e2 then without_repeats (e1 # es) else e1 # without_repeats (e2 # es))"
| "without_repeats es = es"

fun with_ids :: "nat \<Rightarrow> ObservationEvent list \<Rightarrow> ObservationEvent list" where
  "with_ids n [] = []"
| "with_ids n (e # es) =
     (if ov_id e = [] then e\<lparr>ov_id := ''obs:'' @ nat_to_string (n mod u64_modulus)\<rparr> # with_ids (n + 1) es
      else e # with_ids n es)"

definition expected_observations :: "ObservationEvent list \<Rightarrow> ObservationEvent list" where
  "expected_observations events = with_ids 1 (without_repeats events)"

section \<open>One addition\<close>

lemma pop_events_lastn: "n > 0 \<Longrightarrow> pop_events n es = lastn n es"
  by (induction n es rule: pop_events.induct) (auto simp: lastn_def Suc_diff_le)

lemma pop_events_0 [simp]: "pop_events 0 es = es"
  by (cases es) simp_all

definition numbered_event :: "ObservationEvent \<Rightarrow> ObservationStore \<Rightarrow> ObservationEvent" where
  "numbered_event event st =
     (if ov_id event = [] then event\<lparr>ov_id := fst (MakeEventId st)\<rparr> else event)"

lemma os_Add_eq:
  "os_Add event st =
     (if IsDuplicateTailObservation event st then st
      else st\<lparr>os_next_event_sequence :=
                (if ov_id event = [] then u64_add (os_next_event_sequence st) 1 else os_next_event_sequence st),
              os_events := pop_events (os_max_events st) (os_events st @ [numbered_event event st])\<rparr>)"
  by (cases st) (simp add: os_Add_def AddWithStatus_def MakeEventId_def numbered_event_def os_EvictIfNeeded_def)

lemma os_Add_max [simp]: "os_max_events (os_Add event st) = os_max_events st"
  by (simp add: os_Add_eq)

interpretation observations: evicting_queue os_events os_Add numbered_event
  "\<lambda>event st. \<not> IsDuplicateTailObservation event st"
  "\<lambda>st. os_max_events st > 0 \<and> length (os_events st) \<le> os_max_events st"
proof unfold_locales
  fix st :: ObservationStore and event
  assume a: "os_max_events st > 0 \<and> length (os_events st) \<le> os_max_events st"
    "\<not> IsDuplicateTailObservation event st"
  then show "os_max_events (os_Add event st) > 0
      \<and> length (os_events (os_Add event st)) \<le> os_max_events (os_Add event st)"
    by (simp add: os_Add_eq pop_events_lastn)
  have "os_events (os_Add event st) = lastn (os_max_events st) (os_events st @ [numbered_event event st])"
    using a by (simp add: os_Add_eq pop_events_lastn)
  then show "suffix (os_events (os_Add event st)) (os_events st @ [numbered_event event st])"
    by (simp only: suffix_lastn)
qed

section \<open>The store holds the end of what it should hold\<close>

lemma last_lastn: "n > 0 \<Longrightarrow> xs \<noteq> [] \<Longrightarrow> last (lastn n xs) = last xs"
  by (simp add: lastn_def last_drop)

lemma lastn_eq_Nil: "n > 0 \<Longrightarrow> lastn n xs = [] \<longleftrightarrow> xs = []"
  by (cases xs) (auto simp: lastn_def)

lemma lastn_snoc: "lastn n (lastn n xs @ [x]) = lastn n (xs @ [x])"
  by (cases "length xs \<le> n") (auto simp: lastn_def Suc_diff_le)

lemma repeats_trans: "repeats a b \<Longrightarrow> repeats a c \<longleftrightarrow> repeats b c"
  by (auto simp: repeats_def)

lemma repeats_same_tail:
  "ov_operation event = OpTail \<and> same_tail_observation previous event \<longleftrightarrow> repeats previous event"
  by (cases "ov_source previous"; cases "ov_source event") (auto simp: same_tail_observation_def repeats_def)

lemma without_repeats_Nil [simp]: "without_repeats es = [] \<longleftrightarrow> es = []"
  by (induction es rule: without_repeats.induct) auto

lemma without_repeats_snoc:
  "without_repeats (es @ [e]) =
     without_repeats es @ (if es \<noteq> [] \<and> repeats (last es) e then [] else [e])"
  by (induction es rule: without_repeats.induct) (auto dest: repeats_trans)

lemma without_repeats_last:
  "es \<noteq> [] \<Longrightarrow> repeats (last (without_repeats es)) e \<longleftrightarrow> repeats (last es) e"
  by (induction es arbitrary: e rule: rev_induct) (auto simp: without_repeats_snoc dest: repeats_trans)

lemma with_ids_snoc:
  "with_ids n (es @ [e]) = with_ids n es @ with_ids (n + length (filter (\<lambda>e. ov_id e = []) es)) [e]"
  by (induction es arbitrary: n) auto

lemma with_ids_Nil [simp]: "with_ids n es = [] \<longleftrightarrow> es = []"
  by (cases es) auto

lemma with_ids_last: "es \<noteq> [] \<Longrightarrow> repeats (last (with_ids n es)) e \<longleftrightarrow> repeats (last es) e"
  by (induction es rule: rev_induct) (auto simp: with_ids_snoc repeats_def)

lemma expected_observations_snoc:
  "expected_observations (es @ [e]) = expected_observations es @
     (if es \<noteq> [] \<and> repeats (last es) e then []
      else with_ids (1 + length (filter (\<lambda>e. ov_id e = []) (without_repeats es))) [e])"
  by (simp add: expected_observations_def without_repeats_snoc with_ids_snoc del: with_ids.simps)

lemma expected_observations_last:
  "expected_observations es = [] \<longleftrightarrow> es = []"
  "es \<noteq> [] \<Longrightarrow> repeats (last (expected_observations es)) e \<longleftrightarrow> repeats (last es) e"
  by (simp_all add: expected_observations_def with_ids_last without_repeats_last)

definition holds_end :: "nat \<Rightarrow> ObservationEvent list \<Rightarrow> ObservationStore \<Rightarrow> bool" where
  "holds_end n events st \<longleftrightarrow>
     os_max_events st = n \<and> os_events st = lastn n (expected_observations events)
     \<and> os_next_event_sequence st = (1 + length (filter (\<lambda>e. ov_id e = []) (without_repeats events))) mod u64_modulus"

lemma holds_end_duplicate:
  assumes "holds_end n events st" "n > 0"
  shows "IsDuplicateTailObservation event st \<longleftrightarrow> events \<noteq> [] \<and> repeats (last events) event"
proof (cases "events = []")
  case True
  then have "os_events st = []" using assms by (simp add: holds_end_def expected_observations_def lastn_def)
  with True show ?thesis by (simp add: IsDuplicateTailObservation_def)
next
  case False
  then have "os_events st \<noteq> []" "last (os_events st) = last (expected_observations events)"
    using assms by (simp_all add: holds_end_def lastn_eq_Nil last_lastn expected_observations_last(1))
  with False expected_observations_last(2) [OF False, of event] show ?thesis
    by (auto simp: IsDuplicateTailObservation_def simp flip: repeats_same_tail)
qed

lemma holds_end_Add:
  assumes "holds_end n events st" "n > 0"
  shows "holds_end n (events @ [event]) (os_Add event st)"
proof (cases "IsDuplicateTailObservation event st")
  case True
  with holds_end_duplicate [OF assms] assms(1) show ?thesis
    by (simp add: holds_end_def os_Add_eq expected_observations_snoc without_repeats_snoc)
next
  case False
  then have new: "\<not> (events \<noteq> [] \<and> repeats (last events) event)" using holds_end_duplicate [OF assms] by simp
  have "with_ids (1 + length (filter (\<lambda>e. ov_id e = []) (without_repeats events))) [event] = [numbered_event event st]"
    using assms(1) by (simp add: holds_end_def numbered_event_def MakeEventId_def)
  then have "os_events (os_Add event st) = lastn n (expected_observations (events @ [event]))"
    using False new assms
    by (auto simp: os_Add_eq expected_observations_snoc holds_end_def pop_events_lastn lastn_snoc simp del: with_ids.simps)
  with False new assms show ?thesis
    by (auto simp: holds_end_def os_Add_eq without_repeats_snoc u64_add_def mod_simps)
qed

lemma holds_end_run: "n > 0 \<Longrightarrow> holds_end n events (fold os_Add events (ObservationStore_new n))"
proof (induction events rule: rev_induct)
  case Nil
  then show ?case by (simp add: holds_end_def ObservationStore_new_def expected_observations_def lastn_def)
next
  case (snoc event events)
  then show ?case using holds_end_Add [of n events _ event] by simp
qed

lemma ListNewestFirst_eq: "ListNewestFirst limit st = take limit (rev (os_events st))"
  by (rule nth_equalityI) (auto simp: ListNewestFirst_def rev_nth Suc_diff_le)

section \<open>JSON strings and replay tokens\<close>

definition kHex :: string where
  "kHex = ''0123456789abcdef''"

definition json_escape_char :: "char \<Rightarrow> string" where
  "json_escape_char ch =
     (if ch = ch_dquote then [ch_backslash, ch_dquote]
      else if ch = ch_backslash then [ch_backslash, ch_backslash]
      else if byte ch = 8 then [ch_backslash, CHR ''b'']
      else if byte ch = 12 then [ch_backslash, CHR ''f'']
      else if ch = ch_nl then [ch_backslash, CHR ''n'']
      else if ch = ch_cr then [ch_backslash, CHR ''r'']
      else if ch = ch_tab then [ch_backslash, CHR ''t'']
      else if byte ch < 32 then
        [ch_backslash] @ ''u00'' @ [kHex ! ((byte ch div 16) mod 16), kHex ! (byte ch mod 16)]
      else [ch])"

definition JsonEscape :: "string \<Rightarrow> string" where
  "JsonEscape input = concat (map json_escape_char input)"

text \<open>The reader of RFC 8259: \<^const>\<open>None\<close> for a raw quote, a raw control character or a bad escape; the
  four-digit escapes are read for code points below 128.\<close>

definition hex_value :: "char \<Rightarrow> nat option" where
  "hex_value c =
     (if is_digit_char c then Some (byte c - 48)
      else if 97 \<le> byte c \<and> byte c \<le> 102 then Some (byte c - 87)
      else if 65 \<le> byte c \<and> byte c \<le> 70 then Some (byte c - 55)
      else None)"

definition simple_escape :: "char \<Rightarrow> char option" where
  "simple_escape c =
     map_of [(ch_dquote, ch_dquote), (ch_backslash, ch_backslash), (CHR ''/'', CHR ''/''),
             (CHR ''b'', char_of (8 :: nat)), (CHR ''f'', char_of (12 :: nat)), (CHR ''n'', ch_nl),
             (CHR ''r'', ch_cr), (CHR ''t'', ch_tab)] c"

fun json_unescape :: "string \<Rightarrow> string option" where
  "json_unescape [] = Some []"
| "json_unescape (c # cs) =
     (if c = ch_backslash then
        (case cs of
           [] \<Rightarrow> None
         | e # rest \<Rightarrow>
             if e = CHR ''u'' then
               (case rest of
                  h1 # h2 # h3 # h4 # rest' \<Rightarrow>
                    (case (hex_value h1, hex_value h2, hex_value h3, hex_value h4) of
                       (Some 0, Some 0, Some a, Some b) \<Rightarrow>
                         if 16 * a + b < 128
                         then map_option ((#) (char_of (16 * a + b))) (json_unescape rest')
                         else None
                     | _ \<Rightarrow> None)
                | _ \<Rightarrow> None)
             else
               (case simple_escape e of
                  None \<Rightarrow> None
                | Some ch \<Rightarrow> map_option ((#) ch) (json_unescape rest)))
      else if c = ch_dquote \<or> byte c < 32 then None
      else map_option ((#) c) (json_unescape cs))"

definition MakeReplayToken :: "EvidenceResult \<Rightarrow> string" where
  "MakeReplayToken result =
     Base64UrlEncode
       ([CHR ''{'', ch_dquote] @ ''source_session_id'' @ [ch_dquote, CHR '':'', ch_dquote]
        @ JsonEscape (sid_value (es_session_id (er_source result))) @ [ch_dquote, CHR '','', ch_dquote]
        @ ''operation'' @ [ch_dquote, CHR '':'', ch_dquote]
        @ ToString_EvidenceOperation (er_operation result) @ [ch_dquote, CHR '','', ch_dquote]
        @ ''revision_start'' @ [ch_dquote, CHR '':''] @ nat_to_string (er_revision_start result)
        @ [CHR '','', ch_dquote] @ ''revision_end'' @ [ch_dquote, CHR '':'']
        @ nat_to_string (er_revision_end result) @ [CHR '','', ch_dquote]
        @ ''limit'' @ [ch_dquote, CHR '':''] @ nat_to_string (length (er_entries result))
        @ [CHR '','', ch_dquote] @ ''query'' @ [ch_dquote, CHR '':'', ch_dquote]
        @ JsonEscape (er_query result) @ [ch_dquote, CHR ''}''])"

definition MakeSummary :: "EvidenceResult \<Rightarrow> string \<Rightarrow> string" where
  "MakeSummary result source_title =
     ''read '' @ nat_to_string (length (er_entries result)) @ '' ''
     @ ToString_EvidenceOperation (er_operation result) @ '' result''
     @ (if length (er_entries result) \<noteq> 1 then ''s'' else [])
     @ (if source_title \<noteq> [] then '' from '' @ source_title else [])"

record EvidenceActorContext =
  ac_actor_session_id :: string
  ac_actor_title :: string
  ac_pid :: int
  ac_uid :: nat
  ac_gid :: nat

record EvidenceAssemblyRequest =
  rq_result :: EvidenceResult
  rq_source_title :: string
  rq_actor :: "EvidenceActorContext option"
  rq_timestamp_unix_ms :: unix_ms

record EvidenceAssembly =
  ea_result :: EvidenceResult
  ea_observation :: "ObservationEvent option"

definition Assemble :: "EvidenceAssemblyRequest \<Rightarrow> EvidenceAssembly" where
  "Assemble request =
     (let result = (rq_result request)\<lparr>er_replay_token := MakeReplayToken (rq_result request)\<rparr>;
          observation =
            (case rq_actor request of
               None \<Rightarrow> None
             | Some actor \<Rightarrow>
                 if ac_actor_session_id actor = [] then None
                 else Some
                   \<lparr>ov_id = [], ov_timestamp_unix_ms = rq_timestamp_unix_ms request,
                    ov_actor_session_id = ac_actor_session_id actor,
                    ov_actor_title = ac_actor_title actor, ov_actor_id = ac_actor_session_id actor,
                    ov_pid = ac_pid actor, ov_uid = ac_uid actor, ov_gid = ac_gid actor,
                    ov_operation = er_operation result, ov_source = er_source result,
                    ov_source_title = rq_source_title request, ov_query = er_query result,
                    ov_revision_start = er_revision_start result,
                    ov_revision_end = er_revision_end result,
                    ov_result_count = length (er_entries result), ov_truncated = er_truncated result,
                    ov_summary = MakeSummary result (rq_source_title request),
                    ov_replay_token = er_replay_token result\<rparr>)
      in \<lparr>ea_result = result, ea_observation = observation\<rparr>)"

lemma hex_value_kHex_all: "list_all (\<lambda>i. hex_value (kHex ! i) = Some i) [0 ..< 16]"
  by code_simp

lemma hex_value_kHex [simp]: "i < 16 \<Longrightarrow> hex_value (kHex ! i) = Some i"
  using hex_value_kHex_all by (auto simp: list_all_iff)

lemma hex_value_zero [simp]: "hex_value CHR ''0'' = Some 0"
  by (simp add: hex_value_def is_digit_char_def byte_def)

lemma char_of_eq: "byte c = n \<Longrightarrow> char_of n = c"
  by (auto simp: byte_def)

lemma json_unescape_char: "json_unescape (json_escape_char c @ rest) = map_option ((#) c) (json_unescape rest)"
proof (cases "byte c < 32")
  case True
  then have "byte c div 16 mod 16 = byte c div 16" "byte c mod 16 < 16" "16 * (byte c div 16) + byte c mod 16 = byte c"
    by (auto simp: less_mult_imp_div_less)
  with True show ?thesis
    by (auto simp: json_escape_char_def simple_escape_def char_of_eq)
next
  case False
  then show ?thesis by (auto simp: json_escape_char_def simple_escape_def)
qed

lemma json_unescape_escape: "json_unescape (JsonEscape s) = Some s"
  by (induction s) (simp_all add: JsonEscape_def json_unescape_char del: json_unescape.simps(2))

section \<open>Properties\<close>

text \<open>Claim C25: the observation store holds the end of what should be recorded, and nothing else. After any additions
  it holds the last \<open>max_events\<close> of the events without the repeated tail reads - a read of the same lines of the same
  session by the same session with the same result, right after the first - each with the id it came with or with the
  running number of the events that came without one; listing gives these newest first, cut to the limit. The next
  addition says whether it was recorded, and gives the event as it is recorded.\<close>

theorem observation_store_refines_unbounded:
  assumes "max_events > 0" "st = fold os_Add events (ObservationStore_new max_events)"
  shows "os_events st = lastn max_events (expected_observations events)
    \<and> ListNewestFirst limit st = take limit (rev (lastn max_events (expected_observations events)))
    \<and> fst (AddWithStatus event st) =
        \<lparr>ar_event = last (expected_observations (events @ [event])),
         ar_inserted = (events = [] \<or> \<not> repeats (last events) event)\<rparr>"
proof -
  note now = holds_end_run [OF assms(1), of events, folded assms(2)]
  note later = holds_end_Add [OF now assms(1), of event]
  have result: "fst (AddWithStatus event st) =
      \<lparr>ar_event = last (os_events (os_Add event st)), ar_inserted = (\<not> IsDuplicateTailObservation event st)\<rparr>"
    by (simp add: os_Add_def AddWithStatus_def Let_def case_prod_beta)
  have "last (os_events (os_Add event st)) = last (expected_observations (events @ [event]))"
    using later assms(1) by (simp add: holds_end_def last_lastn expected_observations_last(1))
  with now result show ?thesis
    using holds_end_duplicate [OF now assms(1), of event] by (simp add: holds_end_def ListNewestFirst_eq)
qed

definition demo_event :: "nat \<Rightarrow> ObservationEvent" where
  "demo_event n =
     \<lparr>ov_id = [], ov_timestamp_unix_ms = 0, ov_actor_session_id = ''s_2'', ov_actor_title = [],
      ov_actor_id = ''s_2'', ov_pid = 1, ov_uid = 0, ov_gid = 0, ov_operation = OpTail,
      ov_source = \<lparr>es_kind = ManagedLogSession, es_session_id = SessionId ''s_1''\<rparr>,
      ov_source_title = [], ov_query = [], ov_revision_start = n, ov_revision_end = n,
      ov_result_count = 1, ov_truncated = False, ov_summary = [], ov_replay_token = []\<rparr>"

theorem observation_store_refines_unbounded_witness:
  "map (\<lambda>e. (ov_id e, ov_revision_start e))
     (os_events (fold os_Add (map demo_event [1, 1, 2, 1, 3, 3]) (ObservationStore_new 3))) =
   [(''obs:2'', 2), (''obs:3'', 1), (''obs:4'', 3)]"
proof -
  have numbers: "nat_to_string (Suc (Suc 0)) = ''2''" "nat_to_string 3 = ''3''" "nat_to_string 4 = ''4''" by code_simp+
  have "map (\<lambda>e. (ov_id e, ov_revision_start e)) (lastn 3 (expected_observations (map demo_event [1, 1, 2, 1, 3, 3]))) =
      [(''obs:2'', 2), (''obs:3'', 1), (''obs:4'', 3)]"
    using numbers by (simp add: expected_observations_def repeats_def demo_event_def lastn_def)
  moreover have "(3 :: nat) > 0" by simp
  note observation_store_refines_unbounded [OF this refl, of "map demo_event [1, 1, 2, 1, 3, 3]" 1 "demo_event 3"]
  ultimately show ?thesis by (simp only: simp_thms)
qed

text \<open>What the assembler escapes for JSON is read back unchanged by a JSON reader, for every byte
  string: the escaped text has no raw quote or control character and no bad escape.\<close>

theorem json_escape_roundtrip: "json_unescape (JsonEscape data) = Some data"
  by (rule json_unescape_escape)

end
