(* ===== verification/Http_Support.thy ===== *)
theory Http_Support
  imports Server_Clients Observations
begin

text \<open>
  The ground of the HTTP interface in \<open>src/net/http_shared.cpp\<close>: requests and responses, the context that a
  connection passes with a request, the state that handlers change, query values, the lookup of static files, and
  the checks of authorisation; with \<open>src/net/local_auth.cpp\<close>, which names the files of the daemon and makes the
  services. Framing (\<open>Content-Length\<close>, \<open>Connection\<close>) is the library's. A path of \<open>std::filesystem\<close> is its text
  where only that is used; the stores take its components.
\<close>

section \<open>Requests and responses\<close>

datatype HttpVerb = VerbGet | VerbPost | VerbPut | VerbDelete | VerbOptions | VerbOther

record HttpRequest =
  hq_method :: HttpVerb
  hq_target :: string
  hq_version :: nat
  hq_fields :: "(string \<times> string) list"
  hq_body :: string

record HttpResponse =
  hr_version :: nat
  hr_keep_alive :: bool
  hr_status :: nat
  hr_fields :: "(string \<times> string) list"
  hr_body :: string

text \<open>Field names are compared without regard to case; \<open>find\<close> gives the first, \<open>set\<close> replaces all.\<close>

definition same_field :: "string \<Rightarrow> string \<Rightarrow> bool" where
  "same_field a b \<longleftrightarrow> map to_lower_char a = map to_lower_char b"

definition find_field :: "string \<Rightarrow> HttpRequest \<Rightarrow> string option" where
  "find_field name request = map_option snd (find (\<lambda>(n, v). same_field n name) (hq_fields request))"

definition set_field :: "string \<Rightarrow> string \<Rightarrow> HttpResponse \<Rightarrow> HttpResponse" where
  "set_field name value response =
     response\<lparr>hr_fields := filter (\<lambda>(n, v). \<not> same_field n name) (hr_fields response) @ [(name, value)]\<rparr>"

definition HttpResponse_new :: "HttpRequest \<Rightarrow> nat \<Rightarrow> HttpResponse" where
  "HttpResponse_new request status =
     \<lparr>hr_version = hq_version request, hr_keep_alive = False, hr_status = status, hr_fields = [], hr_body = []\<rparr>"

definition ApplyCorsHeaders :: "HttpResponse \<Rightarrow> HttpResponse" where
  "ApplyCorsHeaders response =
     set_field ''Access-Control-Allow-Headers'' ''content-type, authorization''
       (set_field ''Access-Control-Allow-Methods'' ''GET, POST, OPTIONS''
         (set_field ''Access-Control-Allow-Origin'' ''*'' response))"

definition MakeTextResponse :: "HttpRequest \<Rightarrow> nat \<Rightarrow> string \<Rightarrow> string \<Rightarrow> HttpResponse" where
  "MakeTextResponse request status content_type body =
     (ApplyCorsHeaders (set_field ''Content-Type'' content_type (HttpResponse_new request status)))\<lparr>hr_body := body\<rparr>"

definition MakeJsonResponse :: "HttpRequest \<Rightarrow> nat \<Rightarrow> string \<Rightarrow> HttpResponse" where
  "MakeJsonResponse request status body =
     (ApplyCorsHeaders (set_field ''Content-Type'' ''application/json; charset=utf-8''
        (HttpResponse_new request status)))\<lparr>hr_body := body\<rparr>"

text \<open>The literal bodies \<open>{"error":"..."}\<close> and \<open>{"status":"..."}\<close>.\<close>

definition literal_body :: "string \<Rightarrow> string \<Rightarrow> string" where
  "literal_body key value =
     ''{'' @ ch_dquote # key @ ch_dquote # '':'' @ ch_dquote # value @ ch_dquote # ''}''"

definition error_response :: "HttpRequest \<Rightarrow> nat \<Rightarrow> string \<Rightarrow> HttpResponse" where
  "error_response request status message = MakeJsonResponse request status (literal_body ''error'' message)"

definition status_response :: "HttpRequest \<Rightarrow> nat \<Rightarrow> string \<Rightarrow> HttpResponse" where
  "status_response request status text = MakeJsonResponse request status (literal_body ''status'' text)"

section \<open>Context and state\<close>

text \<open>A pointer of the context is optional. The pairing service is given by the store it works on, the
  administration and the observations by whether they are there: their state is part of the server's.\<close>

record HttpRouteContext =
  hc_authorizer :: "(RequestContext \<Rightarrow> AuthorizationAction \<Rightarrow> FileSystem \<Rightarrow> AuthResult) option"
  hc_pairing_service :: "FileSystem PairingStore option"
  hc_pairing_store :: "FileSystem PairingStore option"
  hc_host_config_store :: "FileSystem HostConfigStore option"
  hc_host_admin :: bool
  hc_observation_store :: bool
  hc_observation_event_sink :: bool
  hc_storage_root :: string
  hc_client_address :: string
  hc_is_local_request :: bool
  hc_remote_tls_enabled :: bool
  hc_remote_listener_host :: string
  hc_remote_listener_port :: u16
  hc_remote_tls_certificate_path :: string
  hc_listener_role :: ListenerRole

text \<open>The disk is the state of the pairing service's store; every store on files works on it.\<close>

record ('p, 'vt, 'l, 's) HttpState =
  hs_server :: "('p, 'vt, 'l, 's) Server"
  hs_pairing :: "FileSystem PairingService"
  hs_observations :: ObservationStore

abbreviation hs_manager :: "('p, 'vt, 'l, 's) HttpState \<Rightarrow> ('p, 'vt, 'l, 's) SessionManager" where
  "hs_manager s \<equiv> sv_manager (hs_server s)"

abbreviation hs_disk :: "('p, 'vt, 'l, 's) HttpState \<Rightarrow> FileSystem" where
  "hs_disk s \<equiv> ps_store (hs_pairing s)"

definition set_manager ::
    "('p, 'vt, 'l, 's) SessionManager \<Rightarrow> ('p, 'vt, 'l, 's) HttpState \<Rightarrow> ('p, 'vt, 'l, 's) HttpState" where
  "set_manager m s = s\<lparr>hs_server := (hs_server s)\<lparr>sv_manager := m\<rparr>\<rparr>"

definition set_disk :: "FileSystem \<Rightarrow> ('p, 'vt, 'l, 's) HttpState \<Rightarrow> ('p, 'vt, 'l, 's) HttpState" where
  "set_disk fs s = s\<lparr>hs_pairing := (hs_pairing s)\<lparr>ps_store := fs\<rparr>\<rparr>"

text \<open>What a request reads from outside: clock readings (one sequence for each operation), random draws, files,
  the environment, the working directory, and what was fixed when the program was built.\<close>

record ('p, 'vt, 'l, 's) HttpEnv =
  he_deps :: "('p, 'vt, 'l, 's) ManagerDeps"
  he_lib :: JsonLib
  he_create :: "'p CreateInputs"
  he_clocks :: "nat \<Rightarrow> nat \<Rightarrow> unix_ms"
  he_random_bytes :: "nat list"
  he_pairing_id :: string
  he_pairing_code :: string
  he_device_id :: string
  he_token :: string
  he_file_view :: FileView
  he_file_times :: file_times
  he_read_file :: "string \<Rightarrow> string option"
  he_getenv :: "string \<Rightarrow> string option"
  he_current_path :: string
  he_packaged_web_root :: string
  he_version :: string

abbreviation he_now :: "('p, 'vt, 'l, 's) HttpEnv \<Rightarrow> nat \<Rightarrow> unix_ms" where
  "he_now env k \<equiv> he_clocks env k 0"

text \<open>The components of a path.\<close>

definition fs_path :: "string \<Rightarrow> path" where
  "fs_path p = filter (\<lambda>w. w \<noteq> []) (split_slash p)"

section \<open>Query values\<close>

text \<open>\<open>std::stoul\<close> and \<open>std::stoull\<close>: white space, a sign, digits, and anything after them. A minus sign negates
  modulo \<open>2 ^ 64\<close>. \<open>None\<close> is an exception.\<close>

definition stoull :: "string \<Rightarrow> nat option" where
  "stoull text =
     (let t = dropWhile is_space_char text;
          negative = starts_with t ''-'';
          digits = takeWhile is_digit_char (if negative \<or> starts_with t ''+'' then tl t else t);
          value = string_to_nat 0 digits
      in if digits = [] \<or> value \<ge> u64_modulus then None
         else Some (if negative then u64_sub 0 value else value))"

definition ParseUnsignedQueryValue :: "string \<Rightarrow> string \<Rightarrow> u16 option" where
  "ParseUnsignedQueryValue target key =
     (let raw_value = ParseQueryValue target key in
      if raw_value = [] then None
      else
        case stoull raw_value of
          None \<Rightarrow> None
        | Some parsed \<Rightarrow> if parsed = 0 \<or> parsed > 65535 then None else Some parsed)"

definition ParseSizeQueryValue :: "string \<Rightarrow> string \<Rightarrow> nat \<Rightarrow> nat option" where
  "ParseSizeQueryValue target key default_value =
     (let raw_value = ParseQueryValue target key in if raw_value = [] then Some default_value else stoull raw_value)"

definition ParseRequiredRevisionQueryValue :: "string \<Rightarrow> string \<Rightarrow> u64 option" where
  "ParseRequiredRevisionQueryValue target key =
     (let raw_value = ParseQueryValue target key in if raw_value = [] then None else stoull raw_value)"

definition ParseBoolQueryValue :: "string \<Rightarrow> string \<Rightarrow> bool \<Rightarrow> bool option" where
  "ParseBoolQueryValue target key default_value =
     (let raw_value = ParseQueryValue target key;
          lowered = map to_lower_char raw_value
      in if raw_value = [] then Some default_value
         else if lowered = ''true'' \<or> lowered = ''1'' then Some True
         else if lowered = ''false'' \<or> lowered = ''0'' then Some False
         else None)"

section \<open>Files of the daemon\<close>

definition DefaultStorageRoot :: "(string \<Rightarrow> string option) \<Rightarrow> string \<Rightarrow> string" where
  "DefaultStorageRoot getenv current_path =
     (case Option.bind (getenv ''HOME'') nonempty_list of
        Some home \<Rightarrow> path_join home ''.sentrits''
      | None \<Rightarrow> path_join current_path ''.sentrits'')"

definition DefaultControllerSocketPath :: "string \<Rightarrow> string" where
  "DefaultControllerSocketPath storage_root = path_join storage_root ''controller.sock''"

definition DefaultLogDirectory :: "string \<Rightarrow> string" where
  "DefaultLogDirectory storage_root = path_join storage_root ''logs''"

definition DefaultServeLogPath :: "string \<Rightarrow> string" where
  "DefaultServeLogPath storage_root = path_join (DefaultLogDirectory storage_root) ''sentrits.log''"

record LocalAuthServices =
  la_authorizer :: "RequestContext \<Rightarrow> AuthorizationAction \<Rightarrow> FileSystem \<Rightarrow> AuthResult"
  la_pairing_service :: "FileSystem PairingStore"
  la_pairing_store :: "FileSystem PairingStore"
  la_host_config_store :: "FileSystem HostConfigStore"

definition CreateLocalAuthServices ::
    "JsonLib \<Rightarrow> nat list \<Rightarrow> string \<Rightarrow> FileSystem \<Rightarrow> LocalAuthServices \<times> FileSystem" where
  "CreateLocalAuthServices lib random_bytes storage_root fs =
     (let pairing_store = FilePairingStore lib (fs_path storage_root);
          host_config_store = FileHostConfigStore lib (fs_path storage_root)
      in (\<lparr>la_authorizer = Authorize pairing_store, la_pairing_service = pairing_store,
           la_pairing_store = pairing_store, la_host_config_store = host_config_store\<rparr>,
          snd (EnsureHostIdentity host_config_store random_bytes fs)))"

definition ServeLogCandidatePaths :: "string \<Rightarrow> string list" where
  "ServeLogCandidatePaths storage_root =
     (let log_path = DefaultServeLogPath storage_root
      in map (\<lambda>index. log_path @ ''.'' @ nat_to_string index) [5, 4, 3, 2, 1] @ [log_path])"

text \<open>\<open>std::getline\<close> until the end: a newline at the end does not begin another line.\<close>

fun getlines :: "string \<Rightarrow> string list" where
  "getlines [] = []"
| "getlines (c # cs) =
     (if c = ch_nl then [] # getlines cs
      else case cs of
             [] \<Rightarrow> [[c]]
           | d # ds \<Rightarrow> if d = ch_nl then [c] # getlines ds
                      else (c # hd (getlines cs)) # tl (getlines cs))"

definition push_line :: "nat \<Rightarrow> string \<Rightarrow> string list \<Rightarrow> string list" where
  "push_line max_lines line tail = (if length tail = max_lines then tl tail else tail) @ [line]"

definition ReadRecentLines :: "(string \<Rightarrow> string option) \<Rightarrow> string list \<Rightarrow> nat \<Rightarrow> string list option" where
  "ReadRecentLines read_file paths max_lines =
     (if list_all (\<lambda>p. read_file p = None) paths then None
      else Some (fold (push_line max_lines)
                   (concat (map (\<lambda>p. case read_file p of None \<Rightarrow> [] | Some d \<Rightarrow> getlines d) paths)) []))"

section \<open>Static files\<close>

text \<open>\<open>lexically_normal\<close>: the names so far, the last one first, and whether the path ends in a separator.\<close>

fun normal_names :: "bool \<Rightarrow> path \<Rightarrow> path \<Rightarrow> path \<times> bool" where
  "normal_names rooted names [] = (names, False)"
| "normal_names rooted names (w # ws) =
     (let names1 =
            (if w = [] \<or> w = ''.'' then names
             else if w = ''..'' then
               (if names \<noteq> [] \<and> hd names \<noteq> ''..'' then tl names else if rooted then [] else w # names)
             else w # names);
          ends = (w = [] \<or> w = ''.'' \<or> w = ''..'')
      in if ws = [] then (names1, ends) else normal_names rooted names1 ws)"

definition join_slash :: "path \<Rightarrow> string" where
  "join_slash ws = concat (map (\<lambda>w. CHR ''/'' # w) ws)"

definition lexically_normal :: "string \<Rightarrow> string" where
  "lexically_normal p =
     (let rooted = \<not> path_is_relative p;
          (names, ends) = normal_names rooted [] (split_slash (dropWhile (\<lambda>c. c = CHR ''/'') p));
          text = join_slash (rev names);
          body = (if rooted then (if names = [] then ''/'' else text) else drop 1 text)
      in if p = [] then []
         else if names = [] then (if rooted then ''/'' else ''.'')
         else if ends \<and> hd names \<noteq> ''..'' then body @ ''/''
         else body)"

definition parent_path :: "string \<Rightarrow> string" where
  "parent_path p =
     (let directory = rev (dropWhile (\<lambda>c. c \<noteq> CHR ''/'') (rev p))
      in if list_all (\<lambda>c. c = CHR ''/'') directory then directory
         else rev (dropWhile (\<lambda>c. c = CHR ''/'') (rev directory)))"

definition path_filename :: "string \<Rightarrow> string" where
  "path_filename p = rev (takeWhile (\<lambda>c. c \<noteq> CHR ''/'') (rev p))"

definition path_extension :: "string \<Rightarrow> string" where
  "path_extension p =
     (let name = path_filename p;
          ending = rev (takeWhile (\<lambda>c. c \<noteq> CHR ''.'') (rev name))
      in if name = ''.'' \<or> name = ''..'' \<or> length ending + 1 \<ge> length name then [] else CHR ''.'' # ending)"

definition EnvPath :: "('p, 'vt, 'l, 's) HttpEnv \<Rightarrow> string \<Rightarrow> string option" where
  "EnvPath env name = (case he_getenv env name of None \<Rightarrow> None | Some v \<Rightarrow> if v = [] then None else Some v)"

definition ResolvePackagedWebRoot :: "('p, 'vt, 'l, 's) HttpEnv \<Rightarrow> string option" where
  "ResolvePackagedWebRoot env =
     (case EnvPath env ''SENTRITS_WEB_ROOT'' of
        Some web_root \<Rightarrow> Some web_root
      | None \<Rightarrow> if he_packaged_web_root env = [] then None else Some (he_packaged_web_root env))"

definition AppendCandidatePath :: "string \<Rightarrow> string list \<times> string list \<Rightarrow> string list \<times> string list" where
  "AppendCandidatePath candidate st =
     (let (candidates, seen_paths) = st; key = lexically_normal candidate
      in if candidate = [] \<or> key \<in> set seen_paths then st else (candidates @ [candidate], seen_paths @ [key]))"

definition BuildAssetCandidates ::
    "string option \<Rightarrow> string option \<Rightarrow> string list \<Rightarrow> string \<Rightarrow> string list" where
  "BuildAssetCandidates explicit_root packaged_subdir development_roots relative_path =
     fst (fold (\<lambda>root. AppendCandidatePath (path_join root relative_path))
            (case_option [] (\<lambda>r. [r]) explicit_root @ case_option [] (\<lambda>r. [r]) packaged_subdir @ development_roots)
            ([], []))"

fun first_file :: "(string \<Rightarrow> string option) \<Rightarrow> string list \<Rightarrow> string option" where
  "first_file read_file [] = None"
| "first_file read_file (p # ps) = (case read_file p of Some d \<Rightarrow> Some d | None \<Rightarrow> first_file read_file ps)"

definition above :: "string \<Rightarrow> string list" where
  "above cwd = [cwd, parent_path cwd, parent_path (parent_path cwd)]"

definition load_asset ::
    "('p, 'vt, 'l, 's) HttpEnv \<Rightarrow> string \<Rightarrow> string \<Rightarrow> string list \<Rightarrow> string \<Rightarrow> string option" where
  "load_asset env root_variable packaged_name development_roots relative_path =
     first_file (he_read_file env)
       (BuildAssetCandidates (EnvPath env root_variable)
          (map_option (\<lambda>root. path_join root packaged_name) (ResolvePackagedWebRoot env))
          development_roots relative_path)"

definition LoadHostUiAsset :: "('p, 'vt, 'l, 's) HttpEnv \<Rightarrow> string \<Rightarrow> string option" where
  "LoadHostUiAsset env =
     load_asset env ''SENTRITS_HOST_UI_ROOT'' ''host-admin''
       (map (\<lambda>d. path_join (path_join (path_join (path_join d ''frontend'') ''dist'') ''host-admin'') ''browser'')
          (above (he_current_path env))
        @ map (\<lambda>d. path_join (path_join (path_join d ''deprecated'') ''web'') ''host_ui'') (above (he_current_path env))
        @ map (\<lambda>d. path_join (path_join d ''web'') ''host_ui'') (above (he_current_path env)))"

definition LoadRemoteUiAsset :: "('p, 'vt, 'l, 's) HttpEnv \<Rightarrow> string \<Rightarrow> string option" where
  "LoadRemoteUiAsset env =
     load_asset env ''SENTRITS_REMOTE_UI_ROOT'' ''remote-client''
       (map (\<lambda>d. path_join (path_join d ''web'') ''remote_client'') (above (he_current_path env)))"

definition LoadVendorAsset :: "('p, 'vt, 'l, 's) HttpEnv \<Rightarrow> string \<Rightarrow> string option" where
  "LoadVendorAsset env =
     load_asset env ''SENTRITS_VENDOR_ROOT'' ''vendor''
       (map (\<lambda>d. path_join (path_join d ''web'') ''vendor'') (above (he_current_path env)))"

definition IsUiStaticAssetPath :: "string \<Rightarrow> bool" where
  "IsUiStaticAssetPath p \<longleftrightarrow> CHR ''.'' \<in> set (path_filename p)"

definition GuessContentType :: "string \<Rightarrow> string" where
  "GuessContentType p =
     (let extension = path_extension p in
      if extension = ''.css'' then ''text/css; charset=utf-8''
      else if extension = ''.js'' \<or> extension = ''.mjs'' then ''application/javascript; charset=utf-8''
      else if extension = ''.html'' then ''text/html; charset=utf-8''
      else if extension = ''.json'' then ''application/json; charset=utf-8''
      else if extension = ''.png'' then ''image/png''
      else if extension = ''.ico'' then ''image/x-icon''
      else if extension = ''.svg'' then ''image/svg+xml''
      else if extension = ''.map'' then ''application/json; charset=utf-8''
      else ''application/octet-stream'')"

definition MakeStaticAssetResponse :: "HttpRequest \<Rightarrow> string \<Rightarrow> string option \<Rightarrow> HttpResponse" where
  "MakeStaticAssetResponse request asset_path asset =
     (case asset of
        None \<Rightarrow> error_response request 503 ''ui asset missing''
      | Some content \<Rightarrow> MakeTextResponse request 200 (GuessContentType asset_path) content)"

section \<open>Authorisation\<close>

definition ExtractBearerToken_http :: "HttpRequest \<Rightarrow> string" where
  "ExtractBearerToken_http request =
     (case find_field ''Authorization'' request of
        None \<Rightarrow> [] | Some header \<Rightarrow> if starts_with header ''Bearer '' then drop 7 header else [])"

definition BuildRequestContext :: "HttpRequest \<Rightarrow> HttpRouteContext \<Rightarrow> RequestContext" where
  "BuildRequestContext request context =
     \<lparr>rc_bearer_token = ExtractBearerToken_http request, rc_client_address = hc_client_address context,
      rc_target = hq_target request, rc_is_websocket = False, rc_is_local_request = hc_is_local_request context\<rparr>"

definition RequireAuthorization ::
    "JsonLib \<Rightarrow> HttpRequest \<Rightarrow> HttpRouteContext \<Rightarrow> AuthorizationAction \<Rightarrow> FileSystem \<Rightarrow> HttpResponse option" where
  "RequireAuthorization lib request context action fs =
     (if hc_listener_role context = AdminLocal \<and> hc_is_local_request context
         \<and> (action = ObserveSessions \<or> action = ControlSession) then None
      else
        case hc_authorizer context of
          None \<Rightarrow> None
        | Some authorize \<Rightarrow>
            let auth_result = authorize (BuildRequestContext request context) action fs in
            if au_authorized auth_result then None
            else Some (error_response request (if au_authenticated auth_result then 403 else 401)
                   (JsonEscape_api lib
                      (if au_reason auth_result = [] then ''request rejected'' else au_reason auth_result))))"

definition RequireLocalAuthorization ::
    "JsonLib \<Rightarrow> HttpRequest \<Rightarrow> HttpRouteContext \<Rightarrow> AuthorizationAction \<Rightarrow> FileSystem \<Rightarrow> HttpResponse option" where
  "RequireLocalAuthorization lib request context action fs =
     (if hc_listener_role context \<noteq> AdminLocal then Some (error_response request 404 ''not found'')
      else if \<not> hc_is_local_request context then Some (error_response request 403 ''local access required'')
      else RequireAuthorization lib request context action fs)"

definition RequireLocalHostAdmin ::
    "JsonLib \<Rightarrow> HttpRequest \<Rightarrow> HttpRouteContext \<Rightarrow> FileSystem \<Rightarrow> HttpResponse option" where
  "RequireLocalHostAdmin lib request context = RequireLocalAuthorization lib request context ConfigureHost"

definition RequireHostRecordsAuthorization ::
    "JsonLib \<Rightarrow> HttpRequest \<Rightarrow> HttpRouteContext \<Rightarrow> FileSystem \<Rightarrow> HttpResponse option" where
  "RequireHostRecordsAuthorization lib request context =
     RequireAuthorization lib request context ManageHostSetups"

text \<open>The early return of a refusal: the rest runs when there is none.\<close>

definition unless_refused ::
    "HttpResponse option \<Rightarrow> 'st \<Rightarrow> (HttpResponse \<times> 'st) option \<Rightarrow> (HttpResponse \<times> 'st) option" where
  "unless_refused auth_response s rest =
     (case auth_response of Some response \<Rightarrow> Some (response, s) | None \<Rightarrow> rest)"

section \<open>Client counts\<close>

definition attached_to :: "AttachedClientInfo list \<Rightarrow> SessionSummary \<Rightarrow> SessionSummary" where
  "attached_to clients summary =
     summary\<lparr>su_attached_client_count :=
       length (filter (\<lambda>client. ac_session_id client = sid_value (su_id summary)) clients)\<rparr>"

definition AttachClientCounts_http ::
    "HttpRouteContext \<Rightarrow> unix_ms \<Rightarrow> SessionSummary list \<Rightarrow> ('p, 'vt, 'l, 's) HttpState
       \<Rightarrow> SessionSummary list \<times> ('p, 'vt, 'l, 's) HttpState" where
  "AttachClientCounts_http context now_ms summaries s =
     (if \<not> hc_host_admin context then (summaries, s)
      else
        let (clients, sv) = ListAttachedClients now_ms (hs_server s)
        in (map (attached_to clients) summaries, s\<lparr>hs_server := sv\<rparr>))"

definition AttachClientCount ::
    "HttpRouteContext \<Rightarrow> unix_ms \<Rightarrow> SessionSummary option \<Rightarrow> ('p, 'vt, 'l, 's) HttpState
       \<Rightarrow> SessionSummary option \<times> ('p, 'vt, 'l, 's) HttpState" where
  "AttachClientCount context now_ms summary s =
     (if summary = None \<or> \<not> hc_host_admin context then (summary, s)
      else
        let (clients, sv) = ListAttachedClients now_ms (hs_server s)
        in (map_option (attached_to clients) summary, s\<lparr>hs_server := sv\<rparr>))"

end
