(* ===== verification/Http_Handlers.thy ===== *)
theory Http_Handlers
  imports Http_Support Requests
begin

text \<open>
  The request handlers of \<open>src/net/http_shared.cpp\<close>: pairing, host configuration, launch records, the local browser
  token, the TLS certificate, the log of the daemon, the creation of sessions, messages, prompt templates, and
  evidence. A handler gives the response and the state after it; \<open>None\<close> is an exception that leaves the handler,
  which nothing between it and \<open>main\<close> catches.
\<close>

section \<open>Pairing\<close>

definition HandlePairingRequest ::
    "('p, 'vt, 'l, 's) HttpEnv \<Rightarrow> HttpRouteContext \<Rightarrow> HttpRequest \<Rightarrow> ('p, 'vt, 'l, 's) HttpState
       \<Rightarrow> (HttpResponse \<times> ('p, 'vt, 'l, 's) HttpState) option" where
  "HandlePairingRequest env context request s =
     (case hc_pairing_service context of
        None \<Rightarrow> Some (error_response request 503 ''pairing service unavailable'', s)
      | Some store \<Rightarrow>
          (case ParsePairingRequest (he_lib env) (hq_body request) of
             None \<Rightarrow> Some (error_response request 400 ''invalid pairing request'', s)
           | Some (device_name, device_type) \<Rightarrow>
               let (pairing_request, svc) = StartPairing store (he_now env 0) (he_pairing_id env) (he_pairing_code env)
                      device_name device_type (hs_pairing s);
                   s1 = s\<lparr>hs_pairing := svc\<rparr>
               in Some (case pairing_request of
                          None \<Rightarrow> error_response request 500 ''failed to start pairing''
                        | Some r \<Rightarrow> MakeJsonResponse request 201 (ToJson_PairingRequest (he_lib env) r), s1)))"

definition HandlePairingApprove ::
    "('p, 'vt, 'l, 's) HttpEnv \<Rightarrow> HttpRouteContext \<Rightarrow> HttpRequest \<Rightarrow> ('p, 'vt, 'l, 's) HttpState
       \<Rightarrow> (HttpResponse \<times> ('p, 'vt, 'l, 's) HttpState) option" where
  "HandlePairingApprove env context request s =
     unless_refused (RequireLocalAuthorization (he_lib env) request context ApprovePairingAction (hs_disk s)) s
       (case hc_pairing_service context of
          None \<Rightarrow> Some (error_response request 503 ''pairing service unavailable'', s)
        | Some store \<Rightarrow>
            (case ParsePairingApprovalRequest (he_lib env) (hq_body request) of
               None \<Rightarrow> Some (error_response request 400 ''invalid pairing approval request'', s)
             | Some (pairing_id, code) \<Rightarrow>
                 let (pairing_record, svc) = ApprovePairing store (he_now env 0) (he_device_id env) (he_token env)
                        (he_now env 1) pairing_id code (hs_pairing s);
                     s1 = s\<lparr>hs_pairing := svc\<rparr>
                 in Some (case pairing_record of
                            None \<Rightarrow> error_response request 400 ''pairing approval rejected''
                          | Some r \<Rightarrow> MakeJsonResponse request 200 (ToJson_PairingRecord (he_lib env) r), s1)))"

definition HandlePairingReject ::
    "('p, 'vt, 'l, 's) HttpEnv \<Rightarrow> HttpRouteContext \<Rightarrow> HttpRequest \<Rightarrow> ('p, 'vt, 'l, 's) HttpState
       \<Rightarrow> (HttpResponse \<times> ('p, 'vt, 'l, 's) HttpState) option" where
  "HandlePairingReject env context request s =
     unless_refused (RequireLocalAuthorization (he_lib env) request context ApprovePairingAction (hs_disk s)) s
       (case hc_pairing_service context of
          None \<Rightarrow> Some (error_response request 503 ''pairing service unavailable'', s)
        | Some store \<Rightarrow>
            (case ParsePairingApprovalRequest (he_lib env) (hq_body request) of
               None \<Rightarrow> Some (error_response request 400 ''invalid pairing decision request'', s)
             | Some (pairing_id, code) \<Rightarrow>
                 let (rejected, svc) = RejectPairing store (he_now env 0) pairing_id (hs_pairing s);
                     s1 = s\<lparr>hs_pairing := svc\<rparr>
                 in Some (if \<not> rejected then error_response request 404 ''pairing request not found''
                          else status_response request 200 ''rejected'', s1)))"

definition HandlePairingClaim ::
    "('p, 'vt, 'l, 's) HttpEnv \<Rightarrow> HttpRouteContext \<Rightarrow> HttpRequest \<Rightarrow> ('p, 'vt, 'l, 's) HttpState
       \<Rightarrow> (HttpResponse \<times> ('p, 'vt, 'l, 's) HttpState) option" where
  "HandlePairingClaim env context request s =
     (case hc_pairing_service context of
        None \<Rightarrow> Some (error_response request 503 ''pairing service unavailable'', s)
      | Some store \<Rightarrow>
          (case ParsePairingClaimRequest (he_lib env) (hq_body request) of
             None \<Rightarrow> Some (error_response request 400 ''invalid pairing claim request'', s)
           | Some (pairing_id, code) \<Rightarrow>
               (case ClaimApprovedPairing pairing_id code (hs_pairing s) of
                  Some r \<Rightarrow> Some (MakeJsonResponse request 200 (ToJson_PairingRecord (he_lib env) r), s)
                | None \<Rightarrow>
                    let claim_status = GetPairingClaimStatus store (he_now env 0) pairing_id code (hs_pairing s)
                    in Some (if claim_status = ClaimRejected then status_response request 200 ''rejected''
                             else if claim_status = ClaimExpired then status_response request 200 ''expired''
                             else status_response request 202 ''pending'', s))))"

section \<open>The host\<close>

definition stored_identity :: "FileSystem HostConfigStore \<Rightarrow> FileSystem \<Rightarrow> HostIdentity" where
  "stored_identity store fs =
     (case LoadHostIdentity store fs of Some identity \<Rightarrow> identity | None \<Rightarrow> MakeDefaultHostIdentity)"

definition configured_command :: "string list option \<Rightarrow> ProviderCommandOverride" where
  "configured_command command =
     (case command of
        None \<Rightarrow> ProviderCommandOverride_default
      | Some argv \<Rightarrow> \<lparr>pco_executable = hd argv, pco_args = tl argv\<rparr>)"

definition configured_identity :: "HostConfigPayload \<Rightarrow> HostIdentity \<Rightarrow> HostIdentity" where
  "configured_identity payload identity =
     identity\<lparr>hi_display_name := hp_display_name payload, hi_admin_host := hp_admin_host payload,
              hi_admin_port := hp_admin_port payload, hi_remote_host := hp_remote_host payload,
              hi_remote_port := hp_remote_port payload,
              hi_codex_command := configured_command (hp_codex_command payload),
              hi_claude_command := configured_command (hp_claude_command payload)\<rparr>"

definition HandleHostConfig ::
    "('p, 'vt, 'l, 's) HttpEnv \<Rightarrow> HttpRouteContext \<Rightarrow> HttpRequest \<Rightarrow> ('p, 'vt, 'l, 's) HttpState
       \<Rightarrow> (HttpResponse \<times> ('p, 'vt, 'l, 's) HttpState) option" where
  "HandleHostConfig env context request s =
     unless_refused (RequireLocalHostAdmin (he_lib env) request context (hs_disk s)) s
       (case hc_host_config_store context of
          None \<Rightarrow> Some (error_response request 503 ''host config unavailable'', s)
        | Some store \<Rightarrow>
            (case ParseHostConfigRequest (he_lib env) (hq_body request) of
               None \<Rightarrow> Some (error_response request 400 ''invalid host config request'', s)
             | Some payload \<Rightarrow>
                 let (saved, fs) = SaveHostIdentity store
                        (configured_identity payload (stored_identity store (hs_disk s))) (hs_disk s)
                 in Some (if \<not> saved then error_response request 500 ''failed to save host config''
                          else MakeJsonResponse request 200
                            (ToJsonHostInfo (he_lib env) (he_version env) (LoadHostIdentity store fs)
                               (hc_remote_tls_enabled context)),
                          set_disk fs s)))"

definition HandleListHostRecords ::
    "('p, 'vt, 'l, 's) HttpEnv \<Rightarrow> HttpRouteContext \<Rightarrow> HttpRequest \<Rightarrow> ('p, 'vt, 'l, 's) HttpState
       \<Rightarrow> (HttpResponse \<times> ('p, 'vt, 'l, 's) HttpState) option" where
  "HandleListHostRecords env context request s =
     unless_refused (RequireHostRecordsAuthorization (he_lib env) request context (hs_disk s)) s
       (case hc_host_config_store context of
          None \<Rightarrow> Some (error_response request 503 ''host config unavailable'', s)
        | Some store \<Rightarrow>
            map_option (\<lambda>body. (MakeJsonResponse request 200 body, s))
              (ToJson_LaunchRecords (he_lib env) (hi_launch_records (stored_identity store (hs_disk s)))))"

definition HandleDeleteHostRecord ::
    "('p, 'vt, 'l, 's) HttpEnv \<Rightarrow> HttpRouteContext \<Rightarrow> HttpRequest \<Rightarrow> string \<Rightarrow> ('p, 'vt, 'l, 's) HttpState
       \<Rightarrow> (HttpResponse \<times> ('p, 'vt, 'l, 's) HttpState) option" where
  "HandleDeleteHostRecord env context request record_id s =
     unless_refused (RequireHostRecordsAuthorization (he_lib env) request context (hs_disk s)) s
       (case hc_host_config_store context of
          None \<Rightarrow> Some (error_response request 503 ''host config unavailable'', s)
        | Some store \<Rightarrow>
            if record_id = [] then Some (error_response request 400 ''invalid record id'', s)
            else
              let identity = stored_identity store (hs_disk s);
                  (removed, records) = RemoveBy (\<lambda>r. lr_record_id r = record_id) (hi_launch_records identity)
              in
              if \<not> removed then Some (error_response request 404 ''record not found'', s)
              else
                let (saved, fs) = SaveHostIdentity store (identity\<lparr>hi_launch_records := records\<rparr>) (hs_disk s)
                in Some (if \<not> saved then error_response request 500 ''failed to delete launch record''
                         else status_response request 200 ''deleted'', set_disk fs s))"

definition local_device_id :: string where
  "local_device_id = ''local_browser_host_ui''"

definition HandleLocalBrowserToken ::
    "('p, 'vt, 'l, 's) HttpEnv \<Rightarrow> HttpRouteContext \<Rightarrow> HttpRequest \<Rightarrow> ('p, 'vt, 'l, 's) HttpState
       \<Rightarrow> (HttpResponse \<times> ('p, 'vt, 'l, 's) HttpState) option" where
  "HandleLocalBrowserToken env context request s =
     unless_refused (RequireLocalHostAdmin (he_lib env) request context (hs_disk s)) s
       (case hc_pairing_store context of
          None \<Rightarrow> Some (error_response request 503 ''pairing store unavailable'', s)
        | Some store \<Rightarrow>
            (case find (\<lambda>r. prc_device_id r = local_device_id) (LoadApprovedPairings store (hs_disk s)) of
               Some r \<Rightarrow> Some (MakeJsonResponse request 200 (ToJson_PairingRecord (he_lib env) r), s)
             | None \<Rightarrow>
                 let r = \<lparr>prc_device_id = local_device_id, prc_device_name = ''Host Browser'',
                          prc_device_type = DevBrowser, prc_bearer_token = RandomHexToken (he_random_bytes env),
                          prc_approved_at_unix_ms = 0\<rparr>;
                     (upserted, fs) = UpsertApprovedPairing store r (hs_disk s)
                 in Some (if \<not> upserted then error_response request 500 ''failed to create local browser token''
                          else MakeJsonResponse request 200 (ToJson_PairingRecord (he_lib env) r), set_disk fs s)))"

definition HandleHostTlsCertificate ::
    "('p, 'vt, 'l, 's) HttpEnv \<Rightarrow> HttpRouteContext \<Rightarrow> HttpRequest \<Rightarrow> ('p, 'vt, 'l, 's) HttpState
       \<Rightarrow> (HttpResponse \<times> ('p, 'vt, 'l, 's) HttpState) option" where
  "HandleHostTlsCertificate env context request s =
     unless_refused (RequireLocalHostAdmin (he_lib env) request context (hs_disk s)) s
       (case hc_host_config_store context of
          None \<Rightarrow> Some (error_response request 503 ''host config unavailable'', s)
        | Some store \<Rightarrow>
            let certificate_path =
                  (if hc_remote_tls_certificate_path context \<noteq> [] then hc_remote_tls_certificate_path context
                   else case LoadHostIdentity store (hs_disk s) of
                          None \<Rightarrow> [] | Some identity \<Rightarrow> hi_certificate_pem_path identity)
            in
            if certificate_path = [] then Some (error_response request 404 ''tls certificate not configured'', s)
            else
              case he_read_file env certificate_path of
                None \<Rightarrow> Some (error_response request 404 ''tls certificate file not found'', s)
              | Some certificate \<Rightarrow>
                  Some ((ApplyCorsHeaders
                     (set_field ''Content-Disposition''
                        (''attachment; filename='' @ ch_dquote # ''vibeeverywhere-remote-cert.pem'' @ [ch_dquote])
                        (set_field ''Content-Type'' ''application/x-pem-file'' (HttpResponse_new request 200))))
                       \<lparr>hr_body := certificate\<rparr>, s))"

definition MakeServeLogResponse ::
    "('p, 'vt, 'l, 's) HttpEnv \<Rightarrow> HttpRouteContext \<Rightarrow> HttpRequest \<Rightarrow> ('p, 'vt, 'l, 's) HttpState
       \<Rightarrow> (HttpResponse \<times> ('p, 'vt, 'l, 's) HttpState) option" where
  "MakeServeLogResponse env context request s =
     unless_refused (RequireLocalHostAdmin (he_lib env) request context (hs_disk s)) s
       (let storage_root = (if hc_storage_root context = [] then DefaultStorageRoot (he_getenv env) (he_current_path env) else hc_storage_root context);
            entries = ReadRecentLines (he_read_file env) (ServeLogCandidatePaths storage_root) 200
        in Some (MakeJsonResponse request 200 (jl_serialize (he_lib env) (json_object
             [text_member ''path'' (DefaultServeLogPath storage_root),
              text_member ''source'' ''serve_log_file'',
              bool_member ''available'' (entries \<noteq> None),
              (''entries'', Some (json_strings (case entries of None \<Rightarrow> [] | Some ls \<Rightarrow> ls))),
              (''message'', if entries \<noteq> None then None else Some (JString
                 ''sentrits serve log file not found yet; restart the daemon on a build with file logging enabled''))])),
           s))"

section \<open>Sessions\<close>

definition create_error_body ::
    "JsonLib \<Rightarrow> string \<Rightarrow> string \<Rightarrow> string option \<Rightarrow> string" where
  "create_error_body lib message detail session_id =
     jl_serialize lib (json_object
       [text_member ''error'' message,
        (''detail'', if detail = [] then None else Some (JString detail)),
        (''sessionId'', map_option JString session_id)])"

definition HandleCreateSessionRequest ::
    "('p, 'vt, 'l, 's) HttpEnv \<Rightarrow> HttpRouteContext \<Rightarrow> HttpRequest \<Rightarrow> ('p, 'vt, 'l, 's) HttpState
       \<Rightarrow> (HttpResponse \<times> ('p, 'vt, 'l, 's) HttpState) option" where
  "HandleCreateSessionRequest env context request s =
     (case ParseCreateSessionRequest (he_lib env) (hq_body request) of
        None \<Rightarrow> Some (error_response request 400 ''invalid create session request'', s)
      | Some payload \<Rightarrow>
          (case ResolveCreateSessionRequest payload
                  (Option.bind (hc_host_config_store context) (\<lambda>store. LoadHostIdentity store (hs_disk s))) of
             Inl error_message \<Rightarrow>
               Some (MakeJsonResponse request 400
                 (create_error_body (he_lib env) ''failed to resolve create session request'' error_message None), s)
           | Inr resolved \<Rightarrow>
               let (created, m) = CreateSession (he_deps env) (he_create env) (he_clocks env 0) resolved (hs_manager s);
                   s1 = set_manager m s
               in
               case created of
                 None \<Rightarrow>
                   Some (MakeJsonResponse request 500
                     (create_error_body (he_lib env) ''failed to create session'' (sm_last_create_error_message m)
                        (sm_last_create_error_session_id m)), s1)
               | Some summary \<Rightarrow>
                   Some (MakeJsonResponse request 201 (ToJson_SessionSummary (he_lib env) summary),
                     case hc_host_config_store context of
                       None \<Rightarrow> s1
                     | Some store \<Rightarrow> set_disk (AutoSaveLaunchRecord store (he_random_bytes env) (he_now env 1) resolved
                                       (hs_disk s1)) s1)))"

definition log_session_request :: "CreateSessionRequestPayload \<Rightarrow> LogBufferLimits \<Rightarrow> LogSessionCreateRequest" where
  "log_session_request payload limits =
     \<lparr>lc_workspace_root = or_default ''.'' (cp_workspace_root payload),
      lc_title = or_default ''log'' (cp_title payload),
      lc_command_argv = cp_command_argv payload, lc_command_shell = cp_command_shell payload,
      lc_group_tags = or_default [] (cp_group_tags payload), lc_env_mode = cp_env_mode payload,
      lc_environment_overrides = cp_environment_overrides payload,
      lc_env_file_path = cp_env_file_path payload, lc_buffer_limits = limits\<rparr>"

definition LogBufferLimits_default :: LogBufferLimits where
  "LogBufferLimits_default = \<lparr>li_max_bytes = 16 * 1024 * 1024, li_max_entries = 50000\<rparr>"

definition HandleCreateLogSessionRequest ::
    "('p, 'vt, 'l, 's) HttpEnv \<Rightarrow> HttpRequest \<Rightarrow> ('p, 'vt, 'l, 's) HttpState
       \<Rightarrow> (HttpResponse \<times> ('p, 'vt, 'l, 's) HttpState) option" where
  "HandleCreateLogSessionRequest env request s =
     (case ParseCreateSessionRequest (he_lib env) (hq_body request) of
        None \<Rightarrow> Some (error_response request 400 ''invalid create log session request'', s)
      | Some payload \<Rightarrow>
          if cp_command_argv payload = None \<and> cp_command_shell payload = None
          then Some (error_response request 400 ''log session command is required'', s)
          else
            let (created, m) = CreateLogSession (he_deps env) (he_create env) (he_clocks env 0)
                   (log_session_request payload LogBufferLimits_default) (hs_manager s);
                s1 = set_manager m s
            in Some (case created of
                       None \<Rightarrow> MakeJsonResponse request 500
                         (create_error_body (he_lib env) ''failed to create log session''
                            (sm_last_create_error_message m) None)
                     | Some summary \<Rightarrow> MakeJsonResponse request 201 (ToJson_SessionSummary (he_lib env) summary), s1))"

definition HandleMessageRequest ::
    "('p, 'vt, 'l, 's) HttpEnv \<Rightarrow> HttpRequest \<Rightarrow> string \<Rightarrow> ('p, 'vt, 'l, 's) HttpState
       \<Rightarrow> (HttpResponse \<times> ('p, 'vt, 'l, 's) HttpState) option" where
  "HandleMessageRequest env request session_id s =
     (case ParseMessageRequest (he_lib env) (hq_body request) of
        None \<Rightarrow> Some (error_response request 400 ''invalid message request'', s)
      | Some payload \<Rightarrow>
          let input = mp_text payload @ (if mp_submit payload then [ch_nl] else []);
              (sent, m) = SendInput (he_deps env) session_id input (hs_manager s)
          in Some (if \<not> sent then error_response request 400 ''unable to send message''
                   else MakeJsonResponse request 200 (jl_serialize (he_lib env) (json_object
                     [text_member ''status'' ''ok'', text_member ''targetSessionId'' session_id,
                      text_member ''kind'' (mp_kind payload), text_member ''payloadKind'' (mp_kind payload),
                      size_member ''payloadSizeBytes'' (length input)])), set_manager m s))"

section \<open>Evidence\<close>

definition ActorContextFromHeader ::
    "unix_ms \<Rightarrow> HttpRequest \<Rightarrow> ('p, 'vt, 'l, 's) SessionManager \<Rightarrow> EvidenceActorContext option" where
  "ActorContextFromHeader now_ms request m =
     (let actor_session_id = or_default [] (find_field ''X-Sentrits-Actor-Session'' request) in
      if actor_session_id = [] then None
      else Some
        \<lparr>ac_actor_session_id = actor_session_id,
         ac_actor_title = (case GetSession now_ms actor_session_id m of None \<Rightarrow> [] | Some summary \<Rightarrow> su_title summary),
         ac_pid = 0, ac_uid = 0, ac_gid = 0\<rparr>)"

definition DefaultStoredEvidenceTitle :: "EvidenceResult \<Rightarrow> string" where
  "DefaultStoredEvidenceTitle result =
     (let operation = ToString_EvidenceOperation (er_operation result) in
      if er_operation result = OpSearch \<and> er_query result \<noteq> [] then operation @ '' evidence: '' @ er_query result
      else operation @ '' evidence'')"

text \<open>The audit: an observation that is new is stored, and sent to the overview sessions.\<close>

definition record_observation ::
    "('p, 'vt, 'l, 's) HttpEnv \<Rightarrow> HttpRouteContext \<Rightarrow> ObservationEvent option \<Rightarrow> ('p, 'vt, 'l, 's) HttpState
       \<Rightarrow> ('p, 'vt, 'l, 's) HttpState" where
  "record_observation env context observation s =
     (case observation of
        None \<Rightarrow> s
      | Some event \<Rightarrow>
          if \<not> hc_observation_store context then s
          else
            let (add_result, observations) = AddWithStatus event (hs_observations s);
                s1 = s\<lparr>hs_observations := observations\<rparr>
            in if ar_inserted add_result \<and> hc_observation_event_sink context
               then s1\<lparr>hs_server := BroadcastObservationCreated (he_lib env) (ar_event add_result) (hs_server s1)\<rparr>
               else s1)"

fun set_member :: "string \<Rightarrow> json \<Rightarrow> (string \<times> json) list \<Rightarrow> (string \<times> json) list" where
  "set_member k v [] = [(k, v)]"
| "set_member k v ((k', v') # members) = (if k' = k then (k, v) # members else (k', v') # set_member k v members)"

definition annotated_body :: "JsonLib \<Rightarrow> string \<Rightarrow> string \<Rightarrow> string option" where
  "annotated_body lib evidence_id body =
     (case jl_parse lib body of
        Some (JObject members) \<Rightarrow>
          Some (jl_serialize lib (JObject (set_member ''storedEvidenceId'' (JString evidence_id) members)))
      | _ \<Rightarrow> None)"

definition new_evidence_id :: "('p, 'vt, 'l, 's) HttpEnv \<Rightarrow> string" where
  "new_evidence_id env = ''ev_'' @ RandomHexToken (he_random_bytes env)"

definition FinalizeEvidenceResponse ::
    "('p, 'vt, 'l, 's) HttpEnv \<Rightarrow> HttpRouteContext \<Rightarrow> HttpRequest \<Rightarrow> EvidenceResult \<Rightarrow> bool \<Rightarrow> string
       \<Rightarrow> ('p, 'vt, 'l, 's) HttpState \<Rightarrow> HttpResponse \<times> ('p, 'vt, 'l, 's) HttpState" where
  "FinalizeEvidenceResponse env context request result persist persisted_title s =
     (let source = sid_value (es_session_id (er_source result));
          source_title = (case GetSession (he_now env 0) source (hs_manager s) of None \<Rightarrow> [] | Some r \<Rightarrow> su_title r);
          assembly = Assemble
            \<lparr>rq_result = result, rq_source_title = source_title,
             rq_actor = ActorContextFromHeader (he_now env 1) request (hs_manager s),
             rq_timestamp_unix_ms = he_now env 2\<rparr>;
          s1 = record_observation env context (ea_observation assembly) s;
          body = ToJson_EvidenceResult (he_lib env) (ea_result assembly)
      in
      if \<not> persist then (MakeJsonResponse request 200 body, s1)
      else if hc_storage_root context = [] then (error_response request 503 ''storage root unavailable'', s1)
      else
        let title = (if persisted_title \<noteq> [] then persisted_title else ''stored evidence'');
            evidence_id = new_evidence_id env;
            (stored, fs) = CreateLogSnapshotEvidence (he_lib env) (fs_path (hc_storage_root context)) source evidence_id
               title body (he_now env 3) (hs_disk s1);
            s2 = set_disk fs s1
        in
        if stored = None then (error_response request 500 ''unable to persist evidence'', s2)
        else
          case annotated_body (he_lib env) evidence_id body of
            None \<Rightarrow> (error_response request 500 ''unable to annotate persisted evidence'', s2)
          | Some body1 \<Rightarrow> (MakeJsonResponse request 200 body1, s2))"

end
