(* ===== verification/Http_Documents.thy ===== *)
theory Http_Documents
  imports Http_Handlers
begin

text \<open>
  The handlers of \<open>src/net/http_shared.cpp\<close> for prompt templates, stored evidence and evidence queries: routes with
  several methods, each with the authorisation it asks for.
\<close>

section \<open>Documents\<close>

definition template_summary_members :: "PromptTemplateSummary \<Rightarrow> (string \<times> json option) list" where
  "template_summary_members summary =
     [text_member ''id'' (pt_id summary), text_member ''title'' (pt_title summary),
      (''updatedAtUnixMs'', Some (JInt64 (pt_updated_at_unix_ms summary))),
      size_member ''sizeBytes'' (pt_size_bytes summary)]"

definition MakeTemplateSummaryJson :: "PromptTemplateSummary \<Rightarrow> json" where
  "MakeTemplateSummaryJson summary = json_object (template_summary_members summary)"

definition MakeTemplateRecordJson :: "PromptTemplateRecord \<Rightarrow> json" where
  "MakeTemplateRecordJson r =
     json_object (template_summary_members (pt_summary r) @ [text_member ''content'' (pt_content r)])"

definition evidence_summary_members :: "StoredEvidenceSummary \<Rightarrow> (string \<times> json option) list" where
  "evidence_summary_members summary =
     [text_member ''evidenceId'' (se_evidence_id summary), text_member ''sessionId'' (se_session_id summary),
      text_member ''kind'' (se_kind summary), text_member ''title'' (se_title summary),
      text_member ''contentType'' (se_content_type summary),
      (''createdAtUnixMs'', Some (JInt64 (se_created_at_unix_ms summary))),
      size_member ''sizeBytes'' (se_size_bytes summary)]"

definition MakeStoredEvidenceSummaryJson :: "StoredEvidenceSummary \<Rightarrow> json" where
  "MakeStoredEvidenceSummaryJson summary = json_object (evidence_summary_members summary)"

definition MakeStoredEvidenceRecordJson :: "JsonLib \<Rightarrow> StoredEvidenceRecord \<Rightarrow> string option" where
  "MakeStoredEvidenceRecordJson lib r =
     (let members = evidence_summary_members (sev_summary r) @ [(''content'', map_option JString (sev_markdown_content r))]
      in
      case sev_evidence_json r of
        None \<Rightarrow> Some (jl_serialize lib (json_object members))
      | Some text \<Rightarrow>
          map_option (\<lambda>evidence. jl_serialize lib (json_object (members @ [(''evidence'', Some evidence)])))
            (jl_parse lib text))"

definition MakeSessionGroupTagsResponse :: "JsonLib \<Rightarrow> SessionSummary \<Rightarrow> string" where
  "MakeSessionGroupTagsResponse lib summary =
     jl_serialize lib (json_object
       [text_member ''sessionId'' (sid_value (su_id summary)),
        (''groupTags'', Some (json_strings (su_group_tags summary)))])"

section \<open>Members of a request body\<close>

definition JsonStringField :: "json \<Rightarrow> string \<Rightarrow> string option" where
  "JsonStringField object field = Option.bind (Option.bind (if_contains object field) as_string) nonempty_list"

definition JsonSizeField :: "json \<Rightarrow> string \<Rightarrow> nat \<Rightarrow> nat option" where
  "JsonSizeField object field default_value =
     (case if_contains object field of
        None \<Rightarrow> Some default_value
      | Some v \<Rightarrow>
          (case as_unsigned v of
             None \<Rightarrow> None
           | Some parsed \<Rightarrow> if parsed = 0 \<or> parsed \<ge> u64_modulus then None else Some parsed))"

definition JsonRevisionField :: "json \<Rightarrow> string \<Rightarrow> u64 option" where
  "JsonRevisionField object field = Option.bind (if_contains object field) as_unsigned"

text \<open>In the results of a capture the outer \<open>None\<close> is the exception that \<open>ContextEvidence\<close> can throw, the inner one
  that there is no evidence.\<close>

definition thrown :: "'a option option \<Rightarrow> 'a option option" where
  "thrown result = (case result of None \<Rightarrow> Some None | Some None \<Rightarrow> None | Some (Some r) \<Rightarrow> Some (Some r))"

definition CaptureEvidenceFromRequest ::
    "json \<Rightarrow> ('p, 'vt, 'l, 's) SessionManager \<Rightarrow> string \<Rightarrow> EvidenceResult option option" where
  "CaptureEvidenceFromRequest object m session_id =
     (case JsonStringField object ''operation'' of
        None \<Rightarrow> Some None
      | Some operation \<Rightarrow>
          if operation = ''tail'' then
            Some (Option.bind (JsonSizeField object ''lines'' 200) (\<lambda>lines. TailEvidence session_id lines m))
          else if operation = ''search'' then
            (case (JsonStringField object ''query'', JsonSizeField object ''limit'' 200) of
               (Some query, Some limit) \<Rightarrow> Some (SearchEvidence session_id query limit m)
             | _ \<Rightarrow> Some None)
          else if operation = ''range'' then
            (case (JsonRevisionField object ''start'', JsonRevisionField object ''end'', JsonSizeField object ''limit'' 200) of
               (Some start, Some end_revision, Some limit) \<Rightarrow> Some (RangeEvidence session_id start end_revision limit m)
             | _ \<Rightarrow> Some None)
          else if operation = ''context'' then
            (case (JsonRevisionField object ''revision'', JsonSizeField object ''before'' 80,
                   JsonSizeField object ''after'' 120) of
               (Some revision, Some before, Some after) \<Rightarrow> thrown (ContextEvidence session_id revision before after m)
             | _ \<Rightarrow> Some None)
          else Some None)"

section \<open>Prompt templates\<close>

definition load_template_response ::
    "('p, 'vt, 'l, 's) HttpEnv \<Rightarrow> HttpRouteContext \<Rightarrow> HttpRequest \<Rightarrow> string \<Rightarrow> nat \<Rightarrow> string
       \<Rightarrow> ('p, 'vt, 'l, 's) HttpState \<Rightarrow> (HttpResponse \<times> ('p, 'vt, 'l, 's) HttpState) option" where
  "load_template_response env context request template_id status message s =
     (let (r, fs) = LoadTemplate (he_file_times env) (fs_path (hc_storage_root context)) template_id (hs_disk s)
      in Some (case r of
                 None \<Rightarrow> error_response request status message
               | Some t \<Rightarrow> MakeJsonResponse request 200 (jl_serialize (he_lib env) (MakeTemplateRecordJson t)),
               set_disk fs s))"

definition save_template ::
    "('p, 'vt, 'l, 's) HttpEnv \<Rightarrow> HttpRouteContext \<Rightarrow> HttpRequest \<Rightarrow> string \<Rightarrow> ('p, 'vt, 'l, 's) HttpState
       \<Rightarrow> (HttpResponse \<times> ('p, 'vt, 'l, 's) HttpState) option" where
  "save_template env context request template_id s =
     (case Option.bind (parse_object (he_lib env) (hq_body request)) (\<lambda>body. JsonStringField body ''content'') of
        None \<Rightarrow> Some (error_response request 400 ''invalid template request'', s)
      | Some content \<Rightarrow>
          let (saved, fs) = UpsertTemplate (fs_path (hc_storage_root context)) template_id content (hs_disk s)
          in if \<not> saved then Some (error_response request 400 ''unable to save template'', set_disk fs s)
             else load_template_response env context request template_id 500 ''unable to load saved template''
                    (set_disk fs s))"

definition HandleTemplatesRequest ::
    "('p, 'vt, 'l, 's) HttpEnv \<Rightarrow> HttpRouteContext \<Rightarrow> HttpRequest \<Rightarrow> string \<Rightarrow> ('p, 'vt, 'l, 's) HttpState
       \<Rightarrow> (HttpResponse \<times> ('p, 'vt, 'l, 's) HttpState) option" where
  "HandleTemplatesRequest env context request request_path s =
     (let root = fs_path (hc_storage_root context);
          authorize = (\<lambda>action. RequireAuthorization (he_lib env) request context action (hs_disk s));
          template_id = drop (length ''/templates/'') request_path
      in
      if hc_storage_root context = [] then Some (error_response request 503 ''storage root unavailable'', s)
      else if request_path = ''/templates'' then
        (if hq_method request \<noteq> VerbGet then Some (error_response request 405 ''method not allowed'', s)
         else unless_refused (authorize ObserveSessions) s
           (let (summaries, fs) = ListTemplates (he_file_times env) root (hs_disk s)
            in Some (MakeJsonResponse request 200 (jl_serialize (he_lib env) (json_object
                 [(''templates'', Some (JArray (map MakeTemplateSummaryJson summaries)))])), set_disk fs s)))
      else if \<not> starts_with request_path ''/templates/'' \<or> template_id = []
      then Some (error_response request 404 ''not found'', s)
      else
        case hq_method request of
          VerbGet \<Rightarrow> unless_refused (authorize ObserveSessions) s
            (load_template_response env context request template_id 404 ''template not found'' s)
        | VerbPut \<Rightarrow> unless_refused (authorize ControlSession) s (save_template env context request template_id s)
        | VerbDelete \<Rightarrow> unless_refused (authorize ControlSession) s
            (let (removed, fs) = RemoveTemplate root template_id (hs_disk s)
             in Some (if \<not> removed then error_response request 404 ''template not found''
                      else status_response request 200 ''ok'', set_disk fs s))
        | _ \<Rightarrow> Some (error_response request 405 ''method not allowed'', s))"

section \<open>Stored evidence\<close>

definition stored_evidence_response ::
    "('p, 'vt, 'l, 's) HttpEnv \<Rightarrow> HttpRequest \<Rightarrow> StoredEvidenceSummary option \<times> FileSystem
       \<Rightarrow> ('p, 'vt, 'l, 's) HttpState \<Rightarrow> HttpResponse \<times> ('p, 'vt, 'l, 's) HttpState" where
  "stored_evidence_response env request created s =
     (case fst created of
        None \<Rightarrow> error_response request 500 ''unable to save evidence''
      | Some summary \<Rightarrow>
          MakeJsonResponse request 201 (jl_serialize (he_lib env) (MakeStoredEvidenceSummaryJson summary)),
      set_disk (snd created) s)"

definition create_stored_evidence ::
    "('p, 'vt, 'l, 's) HttpEnv \<Rightarrow> HttpRouteContext \<Rightarrow> HttpRequest \<Rightarrow> string \<Rightarrow> ('p, 'vt, 'l, 's) HttpState
       \<Rightarrow> (HttpResponse \<times> ('p, 'vt, 'l, 's) HttpState) option" where
  "create_stored_evidence env context request session_id s =
     (let lib = he_lib env; root = fs_path (hc_storage_root context); evidence_id = new_evidence_id env; now = he_now env 0
      in
      case parse_object lib (hq_body request) of
        None \<Rightarrow> Some (error_response request 400 ''invalid evidence request'', s)
      | Some body \<Rightarrow>
          (case (JsonStringField body ''kind'', JsonStringField body ''title'') of
             (Some kind, Some title) \<Rightarrow>
               if kind = ''user_markdown'' then
                 (case JsonStringField body ''content'' of
                    None \<Rightarrow> Some (error_response request 400 ''invalid markdown evidence request'', s)
                  | Some content \<Rightarrow>
                      Some (stored_evidence_response env request
                        (CreateMarkdownEvidence lib root session_id evidence_id title content now (hs_disk s)) s))
               else if kind = ''log_snapshot'' then
                 (case CaptureEvidenceFromRequest body (hs_manager s) session_id of
                    None \<Rightarrow> None
                  | Some None \<Rightarrow> Some (error_response request 400 ''unable to capture log evidence'', s)
                  | Some (Some evidence) \<Rightarrow>
                      Some (stored_evidence_response env request
                        (CreateLogSnapshotEvidence lib root session_id evidence_id title
                           (ToJson_EvidenceResult lib evidence) now (hs_disk s)) s))
               else Some (error_response request 400 ''unsupported evidence kind'', s)
           | _ \<Rightarrow> Some (error_response request 400 ''invalid evidence request'', s)))"

definition HandleStoredEvidenceRequest ::
    "('p, 'vt, 'l, 's) HttpEnv \<Rightarrow> HttpRouteContext \<Rightarrow> HttpRequest \<Rightarrow> string \<Rightarrow> string \<Rightarrow> ('p, 'vt, 'l, 's) HttpState
       \<Rightarrow> (HttpResponse \<times> ('p, 'vt, 'l, 's) HttpState) option" where
  "HandleStoredEvidenceRequest env context request session_id suffix_text s =
     (let lib = he_lib env;
          root = fs_path (hc_storage_root context);
          authorize = (\<lambda>action. RequireAuthorization lib request context action (hs_disk s));
          evidence_id = drop 1 suffix_text
      in
      if hc_storage_root context = [] then Some (error_response request 503 ''storage root unavailable'', s)
      else if suffix_text = [] then
        (case hq_method request of
           VerbGet \<Rightarrow> unless_refused (authorize ObserveSessions) s
             (Some (MakeJsonResponse request 200 (jl_serialize lib (json_object
                [(''evidence'', Some (JArray (map MakeStoredEvidenceSummaryJson
                    (ListEvidence lib root session_id (hs_disk s)))))])), s))
         | VerbPost \<Rightarrow> unless_refused (authorize ControlSession) s
             (create_stored_evidence env context request session_id s)
         | _ \<Rightarrow> Some (error_response request 405 ''method not allowed'', s))
      else if evidence_id = [] \<or> CHR ''/'' \<in> set evidence_id then Some (error_response request 404 ''not found'', s)
      else
        (case hq_method request of
           VerbGet \<Rightarrow> unless_refused (authorize ObserveSessions) s
             (Some (case LoadEvidence lib root session_id evidence_id (hs_disk s) of
                      None \<Rightarrow> error_response request 404 ''evidence not found''
                    | Some r \<Rightarrow>
                        (case MakeStoredEvidenceRecordJson lib r of
                           None \<Rightarrow> error_response request 500 ''invalid stored evidence''
                         | Some body \<Rightarrow> MakeJsonResponse request 200 body), s))
         | VerbDelete \<Rightarrow> unless_refused (authorize ControlSession) s
             (let (removed, fs) = RemoveEvidence root session_id evidence_id (hs_disk s)
              in Some (if \<not> removed then error_response request 404 ''evidence not found''
                       else status_response request 200 ''ok'', set_disk fs s))
         | _ \<Rightarrow> Some (error_response request 405 ''method not allowed'', s)))"

section \<open>Evidence queries\<close>

text \<open>What a query asks for: an error with its message, or the answer of the manager.\<close>

definition query_evidence ::
    "string \<Rightarrow> string \<Rightarrow> string \<Rightarrow> ('p, 'vt, 'l, 's) SessionManager \<Rightarrow> (nat \<times> string) + EvidenceResult option option" where
  "query_evidence operation target session_id m =
     (let size = ParseSizeQueryValue target; revision = ParseRequiredRevisionQueryValue target in
      if operation = ''tail'' then
        (case size ''lines'' 200 of
           None \<Rightarrow> Inl (400, ''invalid line limit'') | Some lines \<Rightarrow> Inr (Some (TailEvidence session_id lines m)))
      else if operation = ''search'' then
        (let raw_query = ParseQueryValue target ''query'' in
         case UrlDecode raw_query of
           None \<Rightarrow> Inl (400, ''missing search query'')
         | Some query \<Rightarrow>
             if raw_query = [] then Inl (400, ''missing search query'')
             else (case size ''limit'' 200 of
                     None \<Rightarrow> Inl (400, ''invalid result limit'')
                   | Some limit \<Rightarrow> Inr (Some (SearchEvidence session_id query limit m))))
      else if operation = ''range'' then
        (case (revision ''start'', revision ''end'') of
           (Some start, Some end_revision) \<Rightarrow>
             (case size ''limit'' 200 of
                None \<Rightarrow> Inl (400, ''invalid result limit'')
              | Some limit \<Rightarrow> Inr (Some (RangeEvidence session_id start end_revision limit m)))
         | _ \<Rightarrow> Inl (400, ''missing revision range''))
      else if operation = ''context'' then
        (case revision ''revision'' of
           None \<Rightarrow> Inl (400, ''missing revision'')
         | Some r \<Rightarrow>
             (case (size ''before'' 80, size ''after'' 120) of
                (Some before, Some after) \<Rightarrow> Inr (thrown (ContextEvidence session_id r before after m))
              | _ \<Rightarrow> Inl (400, ''invalid context limit'')))
      else Inl (404, ''not found''))"

text \<open>The title: absent, or decoded; \<open>None\<close> when it cannot be decoded or is empty after it.\<close>

definition evidence_title :: "string \<Rightarrow> string option option" where
  "evidence_title target =
     (let raw_title = ParseQueryValue target ''title'' in
      if raw_title = [] then Some None
      else map_option Some (Option.bind (UrlDecode raw_title) nonempty_list))"

definition HandleEvidenceRequest ::
    "('p, 'vt, 'l, 's) HttpEnv \<Rightarrow> HttpRouteContext \<Rightarrow> HttpRequest \<Rightarrow> string \<Rightarrow> string \<Rightarrow> string
       \<Rightarrow> ('p, 'vt, 'l, 's) HttpState \<Rightarrow> (HttpResponse \<times> ('p, 'vt, 'l, 's) HttpState) option" where
  "HandleEvidenceRequest env context request session_id operation target s =
     (if hq_method request \<noteq> VerbGet then Some (error_response request 405 ''method not allowed'', s)
      else unless_refused (RequireAuthorization (he_lib env) request context ObserveSessions (hs_disk s)) s
        (case ParseBoolQueryValue target ''persist'' False of
           None \<Rightarrow> Some (error_response request 400 ''invalid persist flag'', s)
         | Some persist \<Rightarrow>
             (case evidence_title target of
                None \<Rightarrow> Some (error_response request 400 ''invalid evidence title'', s)
              | Some title \<Rightarrow>
                  (case query_evidence operation target session_id (hs_manager s) of
                     Inl (status, message) \<Rightarrow> Some (error_response request status message, s)
                   | Inr None \<Rightarrow> None
                   | Inr (Some None) \<Rightarrow> Some (error_response request 404 ''session not found'', s)
                   | Inr (Some (Some evidence)) \<Rightarrow>
                       Some (FinalizeEvidenceResponse env context request evidence persist
                         (or_default (DefaultStoredEvidenceTitle evidence) title) s)))))"

end
