(* ===== verification/Http_Router.thy ===== *)
theory Http_Router
  imports Http_Documents
begin

text \<open>
  \<open>HandleRequest\<close> of \<open>src/net/http_shared.cpp\<close>: the routes, in the order in which the code tries them, each with the
  check that comes before its work; and the dispatch of a request that a connection has read, from
  \<open>HttpSession::DoRead\<close> of \<open>src/net/http_server.cpp\<close>. A group of routes takes the response of the groups after it as
  \<open>rest\<close>.
\<close>

type_synonym ('p, 'vt, 'l, 's) reply = "(HttpResponse \<times> ('p, 'vt, 'l, 's) HttpState) option"

text \<open>A listing that cannot be serialised throws.\<close>

definition listing_reply :: "HttpRequest \<Rightarrow> string option \<Rightarrow> ('p, 'vt, 'l, 's) HttpState \<Rightarrow> ('p, 'vt, 'l, 's) reply" where
  "listing_reply request body s = map_option (\<lambda>b. (MakeJsonResponse request 200 b, s)) body"

section \<open>Static routes\<close>

definition asset_page :: "HttpRequest \<Rightarrow> string \<Rightarrow> string \<Rightarrow> string option \<Rightarrow> HttpResponse" where
  "asset_page request missing content_type asset =
     (case asset of
        None \<Rightarrow> error_response request 503 missing
      | Some content \<Rightarrow> MakeTextResponse request 200 content_type content)"

definition index_page ::
    "('p, 'vt, 'l, 's) HttpEnv \<Rightarrow> HttpRouteContext \<Rightarrow> HttpRequest \<Rightarrow> ('p, 'vt, 'l, 's) HttpState
       \<Rightarrow> ('p, 'vt, 'l, 's) reply" where
  "index_page env context request s =
     (case (if hc_listener_role context = AdminLocal then LoadHostUiAsset env ''index.html''
            else LoadRemoteUiAsset env ''index.html'') of
        None \<Rightarrow> Some (error_response request 503 ''ui asset missing'', s)
      | Some content \<Rightarrow>
          unless_refused
            (if hc_listener_role context = AdminLocal
             then RequireLocalHostAdmin (he_lib env) request context (hs_disk s) else None) s
            (Some (MakeTextResponse request 200 ''text/html; charset=utf-8'' content, s)))"

definition admin_page ::
    "('p, 'vt, 'l, 's) HttpEnv \<Rightarrow> HttpRouteContext \<Rightarrow> HttpRequest \<Rightarrow> string \<Rightarrow> string \<Rightarrow> ('p, 'vt, 'l, 's) HttpState
       \<Rightarrow> ('p, 'vt, 'l, 's) reply" where
  "admin_page env context request content_type name s =
     (if hc_listener_role context \<noteq> AdminLocal then Some (error_response request 404 ''not found'', s)
      else unless_refused (RequireLocalHostAdmin (he_lib env) request context (hs_disk s)) s
        (Some (asset_page request ''host ui asset missing'' content_type (LoadHostUiAsset env name), s)))"

definition remote_page ::
    "('p, 'vt, 'l, 's) HttpEnv \<Rightarrow> HttpRouteContext \<Rightarrow> HttpRequest \<Rightarrow> string \<Rightarrow> string \<Rightarrow> HttpResponse" where
  "remote_page env context request content_type name =
     (if hc_listener_role context \<noteq> RemoteClient then error_response request 404 ''not found''
      else asset_page request ''remote ui asset missing'' content_type (LoadRemoteUiAsset env name))"

definition vendor_page :: "('p, 'vt, 'l, 's) HttpEnv \<Rightarrow> HttpRequest \<Rightarrow> string \<Rightarrow> string \<Rightarrow> HttpResponse" where
  "vendor_page env request content_type name =
     asset_page request ''vendor asset missing'' content_type (LoadVendorAsset env name)"

definition remote_asset :: "('p, 'vt, 'l, 's) HttpEnv \<Rightarrow> HttpRequest \<Rightarrow> string \<Rightarrow> HttpResponse" where
  "remote_asset env request target_path =
     (let relative_path = drop 1 target_path in
      case LoadRemoteUiAsset env relative_path of
        Some asset \<Rightarrow> MakeStaticAssetResponse request relative_path (Some asset)
      | None \<Rightarrow>
          MakeStaticAssetResponse request relative_path (LoadVendorAsset env (drop (length ''/assets/'') target_path)))"

definition admin_asset ::
    "('p, 'vt, 'l, 's) HttpEnv \<Rightarrow> HttpRouteContext \<Rightarrow> HttpRequest \<Rightarrow> string \<Rightarrow> ('p, 'vt, 'l, 's) HttpState
       \<Rightarrow> ('p, 'vt, 'l, 's) reply" where
  "admin_asset env context request target_path s =
     unless_refused (RequireLocalHostAdmin (he_lib env) request context (hs_disk s)) s
       (let relative_path = (if starts_with target_path ''/ui/'' then drop 4 target_path else drop 1 target_path)
        in Some (MakeStaticAssetResponse request relative_path (LoadHostUiAsset env relative_path), s))"

definition static_routes ::
    "('p, 'vt, 'l, 's) HttpEnv \<Rightarrow> HttpRouteContext \<Rightarrow> HttpRequest \<Rightarrow> ('p, 'vt, 'l, 's) HttpState
       \<Rightarrow> ('p, 'vt, 'l, 's) reply \<Rightarrow> ('p, 'vt, 'l, 's) reply" where
  "static_routes env context request s rest =
     (let target_path = StripQueryString (hq_target request);
          role = hc_listener_role context;
          html = ''text/html; charset=utf-8''; css = ''text/css; charset=utf-8'';
          js = ''application/javascript; charset=utf-8''
      in
      if hq_method request \<noteq> VerbGet then rest
      else if target_path = ''/'' then index_page env context request s
      else if target_path = ''/ui'' then admin_page env context request html ''index.html'' s
      else if target_path = ''/client'' \<or> target_path = ''/remote''
      then Some (remote_page env context request html ''index.html'', s)
      else if target_path = ''/remote/app.js'' then Some (remote_page env context request js ''app.js'', s)
      else if target_path = ''/remote/app.css'' then Some (remote_page env context request css ''app.css'', s)
      else if target_path = ''/assets/xterm/xterm.css'' then Some (vendor_page env request css ''xterm/xterm.css'', s)
      else if target_path = ''/assets/xterm/xterm.js'' then Some (vendor_page env request js ''xterm/xterm.js'', s)
      else if target_path = ''/assets/xterm/addon-fit.js''
      then Some (vendor_page env request js ''xterm/addon-fit.js'', s)
      else if role = RemoteClient \<and> starts_with target_path ''/assets/''
      then Some (remote_asset env request target_path, s)
      else if role = AdminLocal \<and> IsUiStaticAssetPath target_path then admin_asset env context request target_path s
      else if target_path = ''/ui/terminal'' \<or> starts_with (hq_target request) ''/ui/terminal?''
      then admin_page env context request html ''terminal.html'' s
      else if target_path = ''/ui/app.js'' then admin_page env context request js ''app.js'' s
      else if target_path = ''/ui/app.css'' then admin_page env context request css ''app.css'' s
      else if target_path = ''/ui/terminal.js'' then admin_page env context request js ''terminal.js'' s
      else rest)"

section \<open>Pairing and host routes\<close>

definition pending_route ::
    "('p, 'vt, 'l, 's) HttpEnv \<Rightarrow> HttpRouteContext \<Rightarrow> HttpRequest \<Rightarrow> ('p, 'vt, 'l, 's) HttpState
       \<Rightarrow> ('p, 'vt, 'l, 's) reply" where
  "pending_route env context request s =
     unless_refused (RequireLocalAuthorization (he_lib env) request context ApprovePairingAction (hs_disk s)) s
       (case hc_pairing_service context of
          None \<Rightarrow> Some (error_response request 503 ''pairing service unavailable'', s)
        | Some store \<Rightarrow>
            listing_reply request
              (ToJson_PairingRequests (he_lib env) (ListPendingPairings store (he_now env 0) (hs_pairing s))) s)"

definition pairing_routes ::
    "('p, 'vt, 'l, 's) HttpEnv \<Rightarrow> HttpRouteContext \<Rightarrow> HttpRequest \<Rightarrow> ('p, 'vt, 'l, 's) HttpState
       \<Rightarrow> ('p, 'vt, 'l, 's) reply \<Rightarrow> ('p, 'vt, 'l, 's) reply" where
  "pairing_routes env context request s rest =
     (let target = hq_target request; method = hq_method request in
      if method = VerbPost \<and> target = ''/pairing/request'' then HandlePairingRequest env context request s
      else if method = VerbGet \<and> target = ''/pairing/pending'' then pending_route env context request s
      else if method = VerbPost \<and> target = ''/pairing/approve'' then HandlePairingApprove env context request s
      else if method = VerbPost \<and> target = ''/pairing/reject'' then HandlePairingReject env context request s
      else if method = VerbPost \<and> target = ''/pairing/claim'' then HandlePairingClaim env context request s
      else if method = VerbPost \<and> target = ''/host/config'' then HandleHostConfig env context request s
      else rest)"

definition context_identity ::
    "HttpRouteContext \<Rightarrow> ('p, 'vt, 'l, 's) HttpState \<Rightarrow> HostIdentity option" where
  "context_identity context s = Option.bind (hc_host_config_store context) (\<lambda>store. LoadHostIdentity store (hs_disk s))"

definition observations_route ::
    "('p, 'vt, 'l, 's) HttpEnv \<Rightarrow> HttpRouteContext \<Rightarrow> HttpRequest \<Rightarrow> ('p, 'vt, 'l, 's) HttpState
       \<Rightarrow> ('p, 'vt, 'l, 's) reply" where
  "observations_route env context request s =
     unless_refused (RequireAuthorization (he_lib env) request context ObserveSessions (hs_disk s)) s
       (if \<not> hc_observation_store context
        then Some (error_response request 503 ''observation store unavailable'', s)
        else
          case ParseSizeQueryValue (hq_target request) ''limit'' 200 of
            None \<Rightarrow> Some (error_response request 400 ''invalid result limit'', s)
          | Some limit \<Rightarrow>
              Some (MakeJsonResponse request 200
                (ToJson_ObservationEvents (he_lib env) (ListNewestFirst limit (hs_observations s))), s))"

definition list_sessions ::
    "('p, 'vt, 'l, 's) HttpEnv \<Rightarrow> HttpRouteContext \<Rightarrow> HttpRequest \<Rightarrow> ('p, 'vt, 'l, 's) HttpState
       \<Rightarrow> ('p, 'vt, 'l, 's) reply" where
  "list_sessions env context request s =
     (let (summaries, s1) = AttachClientCounts_http context (he_now env 1) (ListSessions (he_now env 0) (hs_manager s)) s
      in listing_reply request (ToJson_SessionSummaries (he_lib env) summaries) s1)"

definition clients_route ::
    "('p, 'vt, 'l, 's) HttpEnv \<Rightarrow> HttpRouteContext \<Rightarrow> HttpRequest \<Rightarrow> ('p, 'vt, 'l, 's) HttpState
       \<Rightarrow> ('p, 'vt, 'l, 's) reply" where
  "clients_route env context request s =
     unless_refused (RequireLocalHostAdmin (he_lib env) request context (hs_disk s)) s
       (if \<not> hc_host_admin context then Some (error_response request 503 ''host admin unavailable'', s)
        else
          let (clients, sv) = ListAttachedClients (he_now env 0) (hs_server s)
          in listing_reply request (ToJson_AttachedClientInfos (he_lib env) clients) (s\<lparr>hs_server := sv\<rparr>))"

definition devices_route ::
    "('p, 'vt, 'l, 's) HttpEnv \<Rightarrow> HttpRouteContext \<Rightarrow> HttpRequest \<Rightarrow> ('p, 'vt, 'l, 's) HttpState
       \<Rightarrow> ('p, 'vt, 'l, 's) reply" where
  "devices_route env context request s =
     unless_refused (RequireLocalHostAdmin (he_lib env) request context (hs_disk s)) s
       (case hc_pairing_store context of
          None \<Rightarrow> Some (error_response request 503 ''pairing store unavailable'', s)
        | Some store \<Rightarrow>
            listing_reply request (ToJson_PairingRecords (he_lib env) (LoadApprovedPairings store (hs_disk s))) s)"

definition host_routes ::
    "('p, 'vt, 'l, 's) HttpEnv \<Rightarrow> HttpRouteContext \<Rightarrow> HttpRequest \<Rightarrow> ('p, 'vt, 'l, 's) HttpState
       \<Rightarrow> ('p, 'vt, 'l, 's) reply \<Rightarrow> ('p, 'vt, 'l, 's) reply" where
  "host_routes env context request s rest =
     (let target = hq_target request;
          get = (hq_method request = VerbGet);
          local_admin = RequireLocalHostAdmin (he_lib env) request context (hs_disk s)
      in
      if get \<and> target = ''/host/records'' then HandleListHostRecords env context request s
      else if get \<and> target = ''/host/tls/certificate'' then HandleHostTlsCertificate env context request s
      else if get \<and> target = ''/host/info'' then
        Some (MakeJsonResponse request 200
          (ToJsonHostInfo (he_lib env) (he_version env) (context_identity context s) (hc_remote_tls_enabled context)), s)
      else if get \<and> target = ''/host/logs'' then MakeServeLogResponse env context request s
      else if get \<and> (target = ''/observations'' \<or> starts_with target ''/observations?'')
      then observations_route env context request s
      else if get \<and> target = ''/discovery/info'' then
        Some (MakeJsonResponse request 200
          (ToJson_DiscoveryInfo (he_lib env)
             (ResolveDiscoveryInfo (context_identity context s) (hc_remote_listener_host context)
                (hc_remote_listener_port context) (hc_remote_tls_enabled context))), s)
      else if get \<and> target = ''/host/local-token'' then HandleLocalBrowserToken env context request s
      else if get \<and> target = ''/host/sessions''
      then unless_refused local_admin s (list_sessions env context request s)
      else if hq_method request = VerbPost \<and> target = ''/host/sessions''
      then unless_refused local_admin s (HandleCreateSessionRequest env context request s)
      else if get \<and> target = ''/host/clients'' then clients_route env context request s
      else if get \<and> target = ''/host/trusted-devices'' then devices_route env context request s
      else rest)"

section \<open>Host routes that change something\<close>

text \<open>\<open>substr\<close> between a prefix and a suffix. The count is a \<open>size_t\<close>: where the two overlap it wraps around, and the
  rest of the target is taken.\<close>

definition between :: "string \<Rightarrow> string \<Rightarrow> string \<Rightarrow> string" where
  "between target front back =
     take (u64_sub (u64_sub (length target) (length front)) (length back)) (drop (length front) target)"

definition clear_inactive ::
    "('p, 'vt, 'l, 's) HttpEnv \<Rightarrow> HttpRequest \<Rightarrow> ('p, 'vt, 'l, 's) HttpState \<Rightarrow> ('p, 'vt, 'l, 's) reply" where
  "clear_inactive env request s =
     (let (removed_count, m) = ClearInactiveSessions (he_deps env) (he_clocks env 0) (hs_manager s)
      in Some (MakeJsonResponse request 200
           (''{'' @ ch_dquote # ''removedCount'' @ ch_dquote # '':'' @ nat_to_string removed_count @ ''}''), set_manager m s))"

definition host_stop ::
    "('p, 'vt, 'l, 's) HttpEnv \<Rightarrow> HttpRouteContext \<Rightarrow> HttpRequest \<Rightarrow> string \<Rightarrow> ('p, 'vt, 'l, 's) HttpState
       \<Rightarrow> ('p, 'vt, 'l, 's) reply" where
  "host_stop env context request session_id s =
     (if session_id = [] then Some (error_response request 400 ''invalid session id'', s)
      else
        let (stopped, m) = StopSession (he_deps env) (he_clocks env 0) session_id (hs_manager s);
            s1 = set_manager m s
        in
        if \<not> stopped then Some (error_response request 404 ''session not found'', s1)
        else
          let (summary, s2) = AttachClientCount context (he_now env 2) (GetSession (he_now env 1) session_id m) s1
          in Some (MakeJsonResponse request 200
               (case summary of Some r \<Rightarrow> ToJson_SessionSummary (he_lib env) r | None \<Rightarrow> literal_body ''status'' ''stopped''),
             s2))"

definition host_disconnect ::
    "('p, 'vt, 'l, 's) HttpEnv \<Rightarrow> HttpRouteContext \<Rightarrow> HttpRequest \<Rightarrow> string \<Rightarrow> ('p, 'vt, 'l, 's) HttpState
       \<Rightarrow> ('p, 'vt, 'l, 's) reply" where
  "host_disconnect env context request client_id s =
     (if \<not> hc_host_admin context then Some (error_response request 503 ''host admin unavailable'', s)
      else if client_id = [] then Some (error_response request 400 ''invalid client id'', s)
      else
        let (disconnected, sv) = DisconnectClient (he_clocks env 0) client_id (hs_server s)
        in Some (if \<not> disconnected then error_response request 404 ''client not found''
                 else status_response request 200 ''disconnected'', s\<lparr>hs_server := sv\<rparr>))"

definition host_remove_device ::
    "HttpRouteContext \<Rightarrow> HttpRequest \<Rightarrow> bool \<Rightarrow> string \<Rightarrow> ('p, 'vt, 'l, 's) HttpState \<Rightarrow> ('p, 'vt, 'l, 's) reply" where
  "host_remove_device context request is_expire device_id s =
     (case hc_pairing_store context of
        None \<Rightarrow> Some (error_response request 503 ''pairing store unavailable'', s)
      | Some store \<Rightarrow>
          if device_id = [] then Some (error_response request 400 ''invalid device id'', s)
          else
            let (removed, fs) = RemoveApprovedPairing store device_id (hs_disk s)
            in Some (if \<not> removed then error_response request 404 ''device not found''
                     else status_response request 200 (if is_expire then ''expired'' else ''removed''), set_disk fs s))"

definition host_post_routes ::
    "('p, 'vt, 'l, 's) HttpEnv \<Rightarrow> HttpRouteContext \<Rightarrow> HttpRequest \<Rightarrow> ('p, 'vt, 'l, 's) HttpState
       \<Rightarrow> ('p, 'vt, 'l, 's) reply \<Rightarrow> ('p, 'vt, 'l, 's) reply" where
  "host_post_routes env context request s rest =
     (let target = hq_target request;
          local_admin = RequireLocalHostAdmin (he_lib env) request context (hs_disk s);
          is_expire = suffix ''/expire'' target
      in
      if hq_method request = VerbDelete \<and> starts_with (StripQueryString target) ''/host/records/''
      then HandleDeleteHostRecord env context request (drop (length ''/host/records/'') (StripQueryString target)) s
      else if hq_method request \<noteq> VerbPost then rest
      else if target = ''/host/sessions/clear-inactive'' then unless_refused local_admin s (clear_inactive env request s)
      else if starts_with target ''/host/sessions/'' \<and> suffix ''/stop'' target
      then unless_refused local_admin s
             (host_stop env context request (between target ''/host/sessions/'' ''/stop'') s)
      else if starts_with target ''/host/clients/'' \<and> suffix ''/disconnect'' target
      then unless_refused local_admin s
             (host_disconnect env context request (between target ''/host/clients/'' ''/disconnect'') s)
      else if starts_with target ''/host/trusted-devices/'' \<and> (is_expire \<or> suffix ''/remove'' target)
      then unless_refused local_admin s
             (host_remove_device context request is_expire
                (between target ''/host/trusted-devices/'' (if is_expire then ''/expire'' else ''/remove'')) s)
      else rest)"

section \<open>Session routes\<close>

definition snapshot_route ::
    "('p, 'vt, 'l, 's) HttpEnv \<Rightarrow> HttpRequest \<Rightarrow> string \<Rightarrow> ('p, 'vt, 'l, 's) HttpState \<Rightarrow> ('p, 'vt, 'l, 's) reply" where
  "snapshot_route env request session_id s =
     (case GetSnapshot (he_now env 0) session_id (hs_manager s) of
        None \<Rightarrow> Some (error_response request 404 ''session not found'', s)
      | Some snapshot \<Rightarrow>
          let target = hq_target request;
              view_id = ParseQueryValue target ''viewId'';
              (viewport, m) =
                (case (ParseUnsignedQueryValue target ''cols'', ParseUnsignedQueryValue target ''rows'') of
                   (Some cols, Some rows) \<Rightarrow>
                     if view_id = [] then (None, hs_manager s)
                     else
                       let (updated, m) = UpdateViewport session_id view_id \<lparr>ts_columns = cols, ts_rows = rows\<rparr> (hs_manager s)
                       in (if updated then GetViewportSnapshot (he_deps env) session_id view_id m else None, m)
                 | _ \<Rightarrow> (None, hs_manager s))
          in Some (MakeJsonResponse request 200 (snapshot_response_body (he_lib env) snapshot viewport), set_manager m s))"

definition MakeFileReadErrorResponse :: "HttpRequest \<Rightarrow> FileReadStatus \<Rightarrow> HttpResponse" where
  "MakeFileReadErrorResponse request status =
     (case status of
        ReadSessionNotFound \<Rightarrow> error_response request 404 ''session not found''
      | ReadInvalidPath \<Rightarrow> error_response request 400 ''invalid file path''
      | ReadWorkspaceUnavailable \<Rightarrow> error_response request 400 ''workspace root unavailable''
      | ReadNotFound \<Rightarrow> error_response request 404 ''file not found''
      | ReadNotRegularFile \<Rightarrow> error_response request 400 ''path does not reference a regular file''
      | ReadIoError \<Rightarrow> error_response request 500 ''failed to read file''
      | ReadOk \<Rightarrow> error_response request 500 ''unexpected file read status'')"

definition file_route ::
    "('p, 'vt, 'l, 's) HttpEnv \<Rightarrow> HttpRequest \<Rightarrow> string \<Rightarrow> ('p, 'vt, 'l, 's) HttpState \<Rightarrow> ('p, 'vt, 'l, 's) reply" where
  "file_route env request session_id s =
     (let target = hq_target request; raw_path = ParseQueryValue target ''path'' in
      Some
       (if raw_path = [] then error_response request 400 ''missing file path''
        else
          case UrlDecode raw_path of
            None \<Rightarrow> error_response request 400 ''invalid file path''
          | Some workspace_path \<Rightarrow>
              (case ParseFileBytes target of
                 None \<Rightarrow> error_response request 400 ''invalid byte limit''
               | Some file_bytes \<Rightarrow>
                   let file = ReadSessionFile (he_file_view env) session_id workspace_path file_bytes (hs_manager s)
                   in if fr_status file \<noteq> ReadOk then MakeFileReadErrorResponse request (fr_status file)
                      else MakeJsonResponse request 200 (ToJson_SessionFile (he_lib env) file)), s))"

definition tail_route ::
    "('p, 'vt, 'l, 's) HttpEnv \<Rightarrow> HttpRequest \<Rightarrow> string \<Rightarrow> ('p, 'vt, 'l, 's) HttpState \<Rightarrow> ('p, 'vt, 'l, 's) reply" where
  "tail_route env request session_id s =
     Some (case ParseTailBytes (hq_target request) of
             None \<Rightarrow> error_response request 400 ''invalid byte limit''
           | Some tail_bytes \<Rightarrow>
               (case GetTail session_id tail_bytes (hs_manager s) of
                  None \<Rightarrow> error_response request 404 ''session not found''
                | Some tail \<Rightarrow> MakeJsonResponse request 200 (ToJson_OutputSlice (he_lib env) tail)), s)"

definition input_route ::
    "('p, 'vt, 'l, 's) HttpEnv \<Rightarrow> HttpRequest \<Rightarrow> string \<Rightarrow> ('p, 'vt, 'l, 's) HttpState \<Rightarrow> ('p, 'vt, 'l, 's) reply" where
  "input_route env request session_id s =
     (case ParseInputRequest (he_lib env) (hq_body request) of
        None \<Rightarrow> Some (error_response request 400 ''invalid input request'', s)
      | Some input \<Rightarrow>
          let (sent, m) = SendInput (he_deps env) session_id input (hs_manager s)
          in Some (if \<not> sent then error_response request 400 ''unable to send input''
                   else status_response request 200 ''ok'', set_manager m s))"

definition groups_route ::
    "('p, 'vt, 'l, 's) HttpEnv \<Rightarrow> HttpRequest \<Rightarrow> string \<Rightarrow> ('p, 'vt, 'l, 's) HttpState \<Rightarrow> ('p, 'vt, 'l, 's) reply" where
  "groups_route env request session_id s =
     (case ParseSessionGroupTagsUpdateRequest (he_lib env) (hq_body request) of
        None \<Rightarrow> Some (error_response request 400 ''invalid session group tags request'', s)
      | Some (mode, tags) \<Rightarrow>
          let (updated, m) = UpdateSessionGroupTags (he_deps env) (he_clocks env 0) session_id mode tags (hs_manager s)
          in Some (case updated of
                     None \<Rightarrow> error_response request 404 ''session not found''
                   | Some summary \<Rightarrow>
                       MakeJsonResponse request 200 (MakeSessionGroupTagsResponse (he_lib env) summary), set_manager m s))"

definition stop_route ::
    "('p, 'vt, 'l, 's) HttpEnv \<Rightarrow> HttpRequest \<Rightarrow> string \<Rightarrow> ('p, 'vt, 'l, 's) HttpState \<Rightarrow> ('p, 'vt, 'l, 's) reply" where
  "stop_route env request session_id s =
     (let (stopped, m) = StopSession (he_deps env) (he_clocks env 0) session_id (hs_manager s)
      in Some (if \<not> stopped then error_response request 400 ''unable to stop session''
               else status_response request 200 ''stopped'', set_manager m s))"

definition env_route ::
    "('p, 'vt, 'l, 's) HttpEnv \<Rightarrow> HttpRequest \<Rightarrow> string \<Rightarrow> ('p, 'vt, 'l, 's) HttpState \<Rightarrow> ('p, 'vt, 'l, 's) reply" where
  "env_route env request session_id s =
     Some (case GetSessionEnv session_id (hs_manager s) of
             None \<Rightarrow> error_response request 404 ''session not found''
           | Some e \<Rightarrow> MakeJsonResponse request 200 (ToJson_EffectiveEnvironment (he_lib env) e True), s)"

definition summary_route ::
    "('p, 'vt, 'l, 's) HttpEnv \<Rightarrow> HttpRequest \<Rightarrow> string \<Rightarrow> ('p, 'vt, 'l, 's) HttpState \<Rightarrow> ('p, 'vt, 'l, 's) reply" where
  "summary_route env request session_id s =
     Some (case GetSession (he_now env 0) session_id (hs_manager s) of
             None \<Rightarrow> error_response request 404 ''session not found''
           | Some summary \<Rightarrow> MakeJsonResponse request 200 (ToJson_SessionSummary (he_lib env) summary), s)"

text \<open>The name of a session before a suffix of the path; the suffix must not be all of it.\<close>

definition names_session :: "string \<Rightarrow> string \<Rightarrow> bool" where
  "names_session remainder ending \<longleftrightarrow> length remainder > length ending \<and> suffix ending remainder"

definition session_name :: "string \<Rightarrow> string \<Rightarrow> string" where
  "session_name remainder ending = take (length remainder - length ending) remainder"

definition session_action_routes ::
    "('p, 'vt, 'l, 's) HttpEnv \<Rightarrow> HttpRouteContext \<Rightarrow> HttpRequest \<Rightarrow> string \<Rightarrow> ('p, 'vt, 'l, 's) HttpState
       \<Rightarrow> ('p, 'vt, 'l, 's) reply" where
  "session_action_routes env context request remainder s =
     (let post = (hq_method request = VerbPost);
          observe = unless_refused (RequireAuthorization (he_lib env) request context ObserveSessions (hs_disk s)) s;
          control = unless_refused (RequireAuthorization (he_lib env) request context ControlSession (hs_disk s)) s
      in
      case find_first ''/tail'' remainder of
        Some pos \<Rightarrow> observe (tail_route env request (take pos remainder) s)
      | None \<Rightarrow>
          if post \<and> names_session remainder ''/input''
          then control (input_route env request (session_name remainder ''/input'') s)
          else if post \<and> names_session remainder ''/messages''
          then control (HandleMessageRequest env request (session_name remainder ''/messages'') s)
          else if post \<and> names_session remainder ''/groups''
          then control (groups_route env request (session_name remainder ''/groups'') s)
          else if post \<and> names_session remainder ''/stop''
          then control (stop_route env request (session_name remainder ''/stop'') s)
          else if hq_method request = VerbGet \<and> names_session remainder ''/env''
          then observe (env_route env request (session_name remainder ''/env'') s)
          else observe (summary_route env request remainder s))"

definition session_routes ::
    "('p, 'vt, 'l, 's) HttpEnv \<Rightarrow> HttpRouteContext \<Rightarrow> HttpRequest \<Rightarrow> string \<Rightarrow> ('p, 'vt, 'l, 's) HttpState
       \<Rightarrow> ('p, 'vt, 'l, 's) reply" where
  "session_routes env context request remainder s =
     (let observe = unless_refused (RequireAuthorization (he_lib env) request context ObserveSessions (hs_disk s)) s
      in
      if names_session remainder ''/snapshot''
      then observe (snapshot_route env request (session_name remainder ''/snapshot'') s)
      else if hq_method request = VerbGet \<and> names_session remainder ''/file''
      then observe (file_route env request (session_name remainder ''/file'') s)
      else
        case find_first ''/evidence/'' remainder of
          Some pos \<Rightarrow>
            HandleEvidenceRequest env context request (take pos remainder)
              (drop (pos + length ''/evidence/'') remainder) (hq_target request) s
        | None \<Rightarrow>
            (case find_first ''/stored-evidence/'' remainder of
               Some pos \<Rightarrow>
                 HandleStoredEvidenceRequest env context request (take pos remainder)
                   (CHR ''/'' # drop (pos + length ''/stored-evidence/'') remainder) s
             | None \<Rightarrow>
                 if names_session remainder ''/stored-evidence''
                 then HandleStoredEvidenceRequest env context request (session_name remainder ''/stored-evidence'') [] s
                 else session_action_routes env context request remainder s))"

definition collection_routes ::
    "('p, 'vt, 'l, 's) HttpEnv \<Rightarrow> HttpRouteContext \<Rightarrow> HttpRequest \<Rightarrow> ('p, 'vt, 'l, 's) HttpState
       \<Rightarrow> ('p, 'vt, 'l, 's) reply" where
  "collection_routes env context request s =
     (let target = hq_target request;
          request_path = StripQueryString target;
          post = (hq_method request = VerbPost);
          observe = unless_refused (RequireAuthorization (he_lib env) request context ObserveSessions (hs_disk s)) s;
          control = unless_refused (RequireAuthorization (he_lib env) request context ControlSession (hs_disk s)) s
      in
      if hq_method request = VerbGet \<and> target = ''/sessions'' then observe (list_sessions env context request s)
      else if post \<and> target = ''/sessions'' then control (HandleCreateSessionRequest env context request s)
      else if post \<and> target = ''/log-sessions'' then control (HandleCreateLogSessionRequest env request s)
      else if post \<and> target = ''/sessions/clear-inactive'' then control (clear_inactive env request s)
      else if starts_with request_path ''/sessions/''
      then session_routes env context request (drop (length ''/sessions/'') request_path) s
      else Some (error_response request 404 ''not found'', s))"

section \<open>All routes\<close>

definition HandleRequest ::
    "('p, 'vt, 'l, 's) HttpEnv \<Rightarrow> HttpRouteContext \<Rightarrow> HttpRequest \<Rightarrow> ('p, 'vt, 'l, 's) HttpState
       \<Rightarrow> ('p, 'vt, 'l, 's) reply" where
  "HandleRequest env context request s =
     (let target = hq_target request; target_path = StripQueryString target in
      if hq_method request = VerbOptions
      then Some (MakeTextResponse request 204 ''application/json; charset=utf-8'' [], s)
      else if hq_method request = VerbGet \<and> target = ''/health''
      then Some (MakeTextResponse request 200 ''text/plain; charset=utf-8'' (''ok'' @ [ch_nl]), s)
      else if target_path = ''/templates'' \<or> starts_with target ''/templates/''
      then HandleTemplatesRequest env context request target_path s
      else
        static_routes env context request s
          (pairing_routes env context request s
            (host_routes env context request s
              (host_post_routes env context request s
                (collection_routes env context request s)))))"

text \<open>What a connection does with a request: an upgrade to a WebSocket goes to the session that admits it, with
  the parts of the request that it looks at; anything else to \<open>HandleRequest\<close>.\<close>

datatype Dispatch =
    ControllerUpgrade UpgradeRequest
  | ObserverUpgrade UpgradeRequest
  | OverviewUpgrade UpgradeRequest
  | PlainRequest

definition dispatch :: "bool \<Rightarrow> HttpRequest \<Rightarrow> Dispatch" where
  "dispatch is_upgrade request =
     (let target = hq_target request;
          upgrade = \<lparr>ur_target = target, ur_authorization = find_field ''Authorization'' request\<rparr>
      in
      if is_upgrade \<and> IsControllerWebSocketTarget target then ControllerUpgrade upgrade
      else if is_upgrade \<and> IsSessionWebSocketTarget target then ObserverUpgrade upgrade
      else if is_upgrade \<and> IsOverviewWebSocketTarget target then OverviewUpgrade upgrade
      else PlainRequest)"

text \<open>The members of a connection, and the context that it gives to a plain request.\<close>

record HttpSession =
  hx_services :: LocalAuthServices
  hx_storage_root :: string
  hx_listener_role :: ListenerRole
  hx_remote_address :: string
  hx_is_loopback :: bool
  hx_remote_tls_enabled :: bool
  hx_remote_listener_host :: string
  hx_remote_listener_port :: u16
  hx_remote_tls_certificate_path :: string

definition session_context :: "HttpSession \<Rightarrow> HttpRouteContext" where
  "session_context x =
     \<lparr>hc_authorizer = Some (la_authorizer (hx_services x)),
      hc_pairing_service = Some (la_pairing_service (hx_services x)),
      hc_pairing_store = Some (la_pairing_store (hx_services x)),
      hc_host_config_store = Some (la_host_config_store (hx_services x)),
      hc_host_admin = True, hc_observation_store = True, hc_observation_event_sink = True,
      hc_storage_root = hx_storage_root x, hc_client_address = hx_remote_address x,
      hc_is_local_request = hx_is_loopback x, hc_remote_tls_enabled = hx_remote_tls_enabled x,
      hc_remote_listener_host = hx_remote_listener_host x, hc_remote_listener_port = hx_remote_listener_port x,
      hc_remote_tls_certificate_path = hx_remote_tls_certificate_path x,
      hc_listener_role = hx_listener_role x\<rparr>"

definition plain_request ::
    "('p, 'vt, 'l, 's) HttpEnv \<Rightarrow> HttpSession \<Rightarrow> HttpRequest \<Rightarrow> ('p, 'vt, 'l, 's) HttpState \<Rightarrow> ('p, 'vt, 'l, 's) reply" where
  "plain_request env x request s = HandleRequest env (session_context x) request s"

end
