(* ===== verification/Evidence_Route.thy ===== *)
theory Evidence_Route
  imports Http_Router
begin

text \<open>
  Facts on request targets that several proofs share: a query of plain items is looked up item by item, a printed
  number is read back, and a request for evidence of a session reaches the handler of evidence.
\<close>

section \<open>Queries\<close>

lemma find_char_absent: "c \<notin> set s \<Longrightarrow> find_first [c] s = None"
  by (induction s) (auto simp: starts_with_def)

lemma StripQueryString_absent: "CHR ''?'' \<notin> set target \<Longrightarrow> StripQueryString target = target"
  by (simp add: StripQueryString_def find_char_absent)

definition query_item :: "string \<Rightarrow> string \<Rightarrow> string" where
  "query_item key v = key @ CHR ''='' # v @ ''&''"

lemma query_scan_plain:
  assumes "CHR ''='' \<notin> set k" "CHR ''&'' \<notin> set k" "CHR ''&'' \<notin> set v"
  shows "query_scan key (query_item k v @ rest) = (if k = key then v else query_scan key rest)"
proof -
  have item: "takeWhile (\<lambda>c. c \<noteq> CHR ''&'') (k @ CHR ''='' # v @ CHR ''&'' # rest) = k @ CHR ''='' # v"
  proof -
    have "takeWhile (\<lambda>c. c \<noteq> CHR ''&'') ((k @ CHR ''='' # v) @ CHR ''&'' # rest) = k @ CHR ''='' # v"
      by (rule takeWhile_stop) (use assms in auto)
    then show ?thesis by simp
  qed
  have name: "takeWhile (\<lambda>c. c \<noteq> CHR ''='') (k @ CHR ''='' # v) = k"
    using assms by (intro takeWhile_stop) auto
  show ?thesis
  proof (cases "k = key")
    case True
    have "query_scan k (query_item k v @ rest) = v"
      by (subst query_scan.simps) (simp add: query_item_def Let_def item name)
    with True show ?thesis by simp
  next
    case False
    then show ?thesis by (subst query_scan.simps) (simp add: query_item_def Let_def item name)
  qed
qed

lemma digits_plain: "c \<in> set (nat_to_string n) \<Longrightarrow> c \<noteq> CHR ''&'' \<and> c \<noteq> CHR ''='' \<and> c \<noteq> CHR ''-'' \<and> c \<noteq> CHR ''+'' \<and> \<not> is_space_char c"
  using nat_to_string_digits [of n] by (auto simp: char_class_defs byte_def)

lemma stoull_number: "stoull (nat_to_string n) = (if n < u64_modulus then Some n else None)"
proof -
  obtain c cs where c: "nat_to_string n = c # cs" using nat_to_string_nonempty by (metis list.exhaust)
  have "\<not> is_space_char c" "c \<noteq> CHR ''-''" "c \<noteq> CHR ''+''" using digits_plain [of c n] by (simp_all add: c)
  then have drop: "dropWhile is_space_char (nat_to_string n) = nat_to_string n"
    and sign: "\<not> starts_with (nat_to_string n) ''-''" "\<not> starts_with (nat_to_string n) ''+''"
    by (simp_all add: c starts_with_def)
  have all: "takeWhile is_digit_char (nat_to_string n) = nat_to_string n"
    by (rule takeWhile_eq_all_conv [THEN iffD2]) (rule nat_to_string_digits)
  show ?thesis by (simp add: stoull_def drop sign all Let_def)
qed

lemma stoull_printed: "n < u64_modulus \<Longrightarrow> stoull (nat_to_string n) = Some n"
  by (simp add: stoull_number)

lemma query_scan_empty: "query_scan key [] = []"
  by (subst query_scan.simps) simp

section \<open>The route to the evidence of a session\<close>

definition plain_name :: "string \<Rightarrow> bool" where
  "plain_name w \<longleftrightarrow> CHR ''/'' \<notin> set w \<and> CHR ''?'' \<notin> set w"

lemma find_evidence:
  "CHR ''/'' \<notin> set w \<Longrightarrow> find_first ''/evidence/'' (w @ ''/evidence/'' @ t) = Some (length w)"
  by (induction w) (auto simp: starts_with_def)

definition evidence_path :: "string \<Rightarrow> string \<Rightarrow> string" where
  "evidence_path session_id operation = ''/sessions/'' @ session_id @ ''/evidence/'' @ operation"

definition evidence_operations :: "string list" where
  "evidence_operations = [''tail'', ''search'', ''range'', ''context'']"

lemma evidence_path_facts:
  assumes "plain_name session_id" "operation \<in> set evidence_operations"
  shows "CHR ''?'' \<notin> set (evidence_path session_id operation)"
    and "starts_with (evidence_path session_id operation) ''/sessions/''"
    and "drop (length ''/sessions/'') (evidence_path session_id operation) = session_id @ ''/evidence/'' @ operation"
    and "\<not> IsUiStaticAssetPath (evidence_path session_id operation)"
    and "find_first ''/evidence/'' (session_id @ ''/evidence/'' @ operation) = Some (length session_id)"
    and "\<not> names_session (session_id @ ''/evidence/'' @ operation) ''/snapshot''"
    and "\<not> names_session (session_id @ ''/evidence/'' @ operation) ''/file''"
  using assms find_evidence [of session_id operation]
  by (auto simp: evidence_path_def evidence_operations_def plain_name_def starts_with_def IsUiStaticAssetPath_def
      path_filename_def names_session_def suffix_to_prefix)

lemma StripQueryString_query:
  "CHR ''?'' \<notin> set p \<Longrightarrow> query = [] \<or> (\<exists>q. query = CHR ''?'' # q) \<Longrightarrow> StripQueryString (p @ query) = p"
  by (auto simp: StripQueryString_def find_first_question find_char_absent)

lemma evidence_route:
  assumes "plain_name session_id" "operation \<in> set evidence_operations" "hq_method request = VerbGet"
    and "hq_target request = evidence_path session_id operation @ query" "query = [] \<or> (\<exists>q. query = CHR ''?'' # q)"
  shows "HandleRequest env ctx request s =
    HandleEvidenceRequest env ctx request session_id operation (hq_target request) s"
proof -
  note facts = evidence_path_facts [OF assms(1,2)]
  have strip: "StripQueryString (hq_target request) = evidence_path session_id operation"
    unfolding assms(4) by (rule StripQueryString_query [OF facts(1) assms(5)])
  have static: "static_routes env ctx request s rest = rest" for rest
    unfolding static_routes_def Let_def strip
    by (simp add: facts(4)) (simp add: evidence_path_def assms(4) starts_with_def)
  have host: "pairing_routes env ctx request s rest = rest" "host_routes env ctx request s rest = rest"
    "host_post_routes env ctx request s rest = rest" for rest
    by (simp_all add: pairing_routes_def host_routes_def host_post_routes_def Let_def assms(3,4) evidence_path_def
        starts_with_def)
  have "hq_target request \<noteq> ''/sessions''" by (simp add: assms(4) evidence_path_def)
  then have "collection_routes env ctx request s =
      HandleEvidenceRequest env ctx request session_id operation (hq_target request) s"
    by (simp add: collection_routes_def session_routes_def Let_def assms(3) strip facts(2) facts(3,5-7) [simplified])
  moreover have "HandleRequest env ctx request s = collection_routes env ctx request s"
    unfolding HandleRequest_def Let_def strip static host
    by (simp add: assms(3,4) evidence_path_def starts_with_def)
  ultimately show ?thesis by simp
qed

end
