(* ===== verification/Client_Protocol.thy ===== *)
theory Client_Protocol
  imports Json_Output
begin

text \<open>
  The attach client of \<open>src/cli/daemon_client.cpp\<close>: the binary frames of the local controller socket,
  the filter for the detach and reclaim keys, the decoder of terminal output, the interpretation of
  server messages and the commands the client sends. Sockets, the terminal and the trace log are left
  out; what is written to the terminal is a result.
\<close>

unbundle bit_operations_syntax

section \<open>Addresses\<close>

definition BuildWebSocketTarget :: "string \<Rightarrow> string" where
  "BuildWebSocketTarget session_id = ''/ws/sessions/'' @ session_id @ ''?stream=raw''"

record ParsedWebSocketBaseUrl =
  pu_scheme :: string
  pu_host :: string
  pu_port :: string
  pu_path_prefix :: string

definition url_scheme :: "string \<Rightarrow> (string \<times> string \<times> string) option" where
  "url_scheme url =
     (if starts_with url ''http://'' then Some (''ws'', ''80'', drop 7 url)
      else if starts_with url ''ws://'' then Some (''ws'', ''80'', drop 5 url)
      else if starts_with url ''https://'' then Some (''wss'', ''443'', drop 8 url)
      else if starts_with url ''wss://'' then Some (''wss'', ''443'', drop 6 url)
      else None)"

definition ParseWebSocketBaseUrl :: "string \<Rightarrow> ParsedWebSocketBaseUrl option" where
  "ParseWebSocketBaseUrl url =
     (case url_scheme url of
        None \<Rightarrow> None
      | Some (scheme, default_port, remainder) \<Rightarrow>
          let slash_pos = find_first ''/'' remainder;
              authority = (case slash_pos of None \<Rightarrow> remainder | Some i \<Rightarrow> take i remainder);
              path_prefix = (case slash_pos of None \<Rightarrow> [] | Some i \<Rightarrow> drop i remainder);
              (host, port) = (case find_first '':'' authority of
                  None \<Rightarrow> (authority, default_port)
                | Some i \<Rightarrow> (take i authority, drop (i + 1) authority))
          in
          if host = [] then None
          else Some \<lparr>pu_scheme = scheme, pu_host = host, pu_port = port,
                     pu_path_prefix = (if path_prefix \<noteq> [] \<and> last path_prefix = CHR ''/''
                                       then butlast path_prefix else path_prefix)\<rparr>)"

definition IsLocalEndpointHost :: "string \<Rightarrow> bool" where
  "IsLocalEndpointHost host \<longleftrightarrow> host = ''127.0.0.1'' \<or> host = ''localhost'' \<or> host = ''::1''"

section \<open>Frames of the local controller socket\<close>

definition BuildLocalControllerHandshake :: "JsonLib \<Rightarrow> string \<Rightarrow> TerminalSize \<Rightarrow> string" where
  "BuildLocalControllerHandshake lib session_id terminal_size = jl_serialize lib (json_object
     [text_member ''sessionId'' session_id,
      size_member ''columns'' (ts_columns terminal_size),
      size_member ''rows'' (ts_rows terminal_size)]) @ [ch_nl]"

definition low_byte :: "32 word \<Rightarrow> char" where
  "low_byte w = char_of (unat (w AND 0xFF))"

definition BuildLocalControllerFrame :: "char \<Rightarrow> string \<Rightarrow> string" where
  "BuildLocalControllerFrame frame_type payload =
     (let size = (word_of_nat (length payload) :: 32 word) in
      [frame_type, low_byte (drop_bit 24 size), low_byte (drop_bit 16 size), low_byte (drop_bit 8 size),
       low_byte size] @ payload)"

definition BuildLocalResizePayload :: "TerminalSize \<Rightarrow> string" where
  "BuildLocalResizePayload terminal_size =
     [char_of (drop_bit 8 (ts_columns terminal_size) AND 0xFF), char_of (ts_columns terminal_size AND 0xFF),
      char_of (drop_bit 8 (ts_rows terminal_size) AND 0xFF), char_of (ts_rows terminal_size AND 0xFF)]"

section \<open>Detach and reclaim keys\<close>

record FilteredInput =
  fi_saw_reclaim :: bool
  fi_saw_detach :: bool
  fi_payload :: string

text \<open>The second sequence of each is a view of 8 characters on a literal of 7, so that it ends in the terminating NUL:
  the key as a terminal sends it is not among them.\<close>

definition kReclaimSequences :: "string list" where
  "kReclaimSequences = [[CHR 0x1D], ch_esc # ''[93;5u'' @ [CHR 0x00], ch_esc # ''[27;5;93~'']"

definition kDetachSequences :: "string list" where
  "kDetachSequences = [[CHR 0x1C], ch_esc # ''[92;5u'' @ [CHR 0x00], ch_esc # ''[27;5;92~'']"

text \<open>The erase loop: the search goes on at the place of the erased occurrence, never before it.\<close>

function erase_sequence :: "string \<Rightarrow> string \<Rightarrow> bool \<times> string" where
  "erase_sequence sequence [] = (False, [])"
| "erase_sequence sequence (c # cs) =
     (if sequence \<noteq> [] \<and> starts_with (c # cs) sequence
      then (True, snd (erase_sequence sequence (drop (length sequence) (c # cs))))
      else let (saw, rest) = erase_sequence sequence cs in (saw, c # rest))"
  by pat_completeness auto
termination
  by (relation "measure (\<lambda>(sequence, s). length s)") auto

definition erase_sequences :: "string list \<Rightarrow> string \<Rightarrow> bool \<times> string" where
  "erase_sequences sequences payload =
     fold (\<lambda>sequence (saw, s). let (found, s') = erase_sequence sequence s in (saw \<or> found, s'))
       sequences (False, payload)"

text \<open>The loop for the forms with an event type: digits and a final \<open>u\<close> after the prefix.\<close>

function erase_kitty :: "string \<Rightarrow> string \<Rightarrow> bool \<times> string" where
  "erase_kitty kitty_prefix [] = (False, [])"
| "erase_kitty kitty_prefix (c # cs) =
     (if kitty_prefix \<noteq> [] \<and> starts_with (c # cs) kitty_prefix then
        let rest = drop (length kitty_prefix) (c # cs);
            digits = takeWhile is_digit_char rest;
            after = dropWhile is_digit_char rest
        in
        if digits \<noteq> [] \<and> after \<noteq> [] \<and> hd after = CHR ''u'' then (True, snd (erase_kitty kitty_prefix (tl after)))
        else let (saw, s) = erase_kitty kitty_prefix rest in (saw, kitty_prefix @ s)
      else let (saw, s) = erase_kitty kitty_prefix cs in (saw, c # s))"
  by pat_completeness auto
termination
proof (relation "measure (\<lambda>(kitty_prefix, s). length s)")
  fix kitty_prefix c cs rest digits after
  assume a: "kitty_prefix \<noteq> [] \<and> starts_with (c # cs) kitty_prefix" "rest = drop (length kitty_prefix) (c # cs)"
    "after = dropWhile is_digit_char rest"
  then have "length rest < length (c # cs)" by auto
  moreover have "length after \<le> length rest" using a(3) by (simp add: length_dropWhile_le)
  ultimately show "((kitty_prefix, tl after), (kitty_prefix, c # cs)) \<in> measure (\<lambda>(kitty_prefix, s). length s)"
    by simp
qed auto

definition FilterLocalReclaimInput :: "string \<Rightarrow> FilteredInput" where
  "FilterLocalReclaimInput input =
     (let (saw_reclaim, payload1) = erase_sequences kReclaimSequences input;
          (saw_detach, payload2) = erase_sequences kDetachSequences payload1
      in
      if \<not> saw_reclaim \<and> \<not> saw_detach then
        \<lparr>fi_saw_reclaim = saw_reclaim, fi_saw_detach = saw_detach, fi_payload = payload2\<rparr>
      else
        let (kitty_reclaim, payload3) = erase_kitty (ch_esc # ''[93;5:'') payload2;
            (kitty_detach, payload4) = erase_kitty (ch_esc # ''[92;5:'') payload3
        in
        \<lparr>fi_saw_reclaim = (saw_reclaim \<or> kitty_reclaim), fi_saw_detach = (saw_detach \<or> kitty_detach),
         fi_payload = payload4\<rparr>)"

section \<open>Terminal output\<close>

definition decoding_table :: "char \<Rightarrow> int" where
  "decoding_table ch =
     (if is_upper_char ch then int (byte ch) - 65
      else if is_lower_char ch then 26 + (int (byte ch) - 97)
      else if is_digit_char ch then 52 + (int (byte ch) - 48)
      else if ch = CHR ''+'' then 62
      else if ch = CHR ''/'' then 63
      else -1)"

definition int_char :: "int \<Rightarrow> char" where
  "int_char i = char_of (nat (i mod 256))"

fun DecodeBase64_loop :: "string \<Rightarrow> string option" where
  "DecodeBase64_loop (c0 # c1 # c2 # c3 # rest) =
     (if decoding_table c0 < 0 \<or> decoding_table c1 < 0
         \<or> (c2 \<noteq> CHR ''='' \<and> decoding_table c2 < 0) \<or> (c3 \<noteq> CHR ''='' \<and> decoding_table c3 < 0)
      then None
      else
        let v0 = decoding_table c0;
            v1 = decoding_table c1;
            v2 = (if c2 = CHR ''='' then 0 else decoding_table c2);
            v3 = (if c3 = CHR ''='' then 0 else decoding_table c3)
        in
        map_option (\<lambda>decoded.
            [int_char (push_bit 2 v0 OR drop_bit 4 v1)]
            @ (if c2 \<noteq> CHR ''='' then [int_char (push_bit 4 (v1 AND 0x0F) OR drop_bit 2 v2)] else [])
            @ (if c3 \<noteq> CHR ''='' then [int_char (push_bit 6 (v2 AND 0x03) OR v3)] else [])
            @ decoded)
          (DecodeBase64_loop rest))"
| "DecodeBase64_loop _ = Some []"

definition DecodeBase64 :: "string \<Rightarrow> string option" where
  "DecodeBase64 input = (if length input mod 4 \<noteq> 0 then None else DecodeBase64_loop input)"

section \<open>Server messages\<close>

record SessionStreamState =
  st_has_control :: bool
  st_control_request_pending :: bool
  st_active_controller_kind :: string
  st_active_controller_has_client :: bool

text \<open>What a message does: the client goes on or leaves with an exit code, and may write to the terminal or
  to the error stream.\<close>

record ServerMessageEffect =
  me_continue :: bool
  me_stream_state :: SessionStreamState
  me_exit_code :: int
  me_stdout :: string
  me_stderr :: string

text \<open>\<open>member != nullptr && member->is_string()\<close>.\<close>

definition string_of_member :: "json \<Rightarrow> string \<Rightarrow> string option" where
  "string_of_member object key = required as_string object key"

definition controller_update :: "json \<Rightarrow> ControllerKind \<Rightarrow> SessionStreamState \<Rightarrow> SessionStreamState" where
  "controller_update object controller_kind stream_state =
     (case string_of_member object ''controllerKind'' of
        None \<Rightarrow> stream_state
      | Some active_controller_kind \<Rightarrow>
          let has_client = (string_of_member object ''controllerClientId'' \<noteq> None);
              seen = stream_state\<lparr>st_active_controller_kind := active_controller_kind,
                                  st_active_controller_has_client := has_client\<rparr>
          in
          if controller_kind = ControllerHost then
            if active_controller_kind = ''remote'' then
              seen\<lparr>st_has_control := False, st_control_request_pending := False\<rparr>
            else if active_controller_kind = ''host'' then
              if st_control_request_pending stream_state \<or> has_client then
                seen\<lparr>st_has_control := True, st_control_request_pending := False\<rparr>
              else seen\<lparr>st_has_control := False\<rparr>
            else seen\<lparr>st_has_control := False, st_control_request_pending := False\<rparr>
          else if controller_kind = ControllerRemote then
            let has_control = (active_controller_kind = ''remote'' \<and> has_client) in
            seen\<lparr>st_has_control := has_control,
                 st_control_request_pending := (st_control_request_pending stream_state \<and> \<not> has_control)\<rparr>
          else stream_state)"

definition output_of_message :: "json \<Rightarrow> string" where
  "output_of_message object =
     (case Option.bind (string_of_member object ''dataBase64'') DecodeBase64 of
        None \<Rightarrow> [] | Some decoded \<Rightarrow> decoded)"

definition HandleServerMessage ::
    "JsonLib \<Rightarrow> string \<Rightarrow> ControllerKind \<Rightarrow> SessionStreamState \<Rightarrow> int \<Rightarrow> ServerMessageEffect" where
  "HandleServerMessage lib payload controller_kind stream_state exit_code =
     (let go_on = \<lparr>me_continue = True, me_stream_state = stream_state, me_exit_code = exit_code,
                   me_stdout = [], me_stderr = []\<rparr>
      in
      case parse_object lib payload of
        None \<Rightarrow> go_on
      | Some object \<Rightarrow>
          (case string_of_member object ''type'' of
             None \<Rightarrow> go_on
           | Some message_type \<Rightarrow>
               if message_type = ''terminal.output'' then go_on\<lparr>me_stdout := output_of_message object\<rparr>
               else if message_type = ''session.exited'' then
                 go_on\<lparr>me_continue := False,
                       me_exit_code := (case string_of_member object ''status'' of
                          Some status \<Rightarrow> if status \<noteq> ''Exited'' then 1 else 0 | None \<Rightarrow> 0)\<rparr>
               else if message_type = ''session.updated'' then
                 go_on\<lparr>me_stream_state := controller_update object controller_kind stream_state\<rparr>
               else if message_type = ''error'' then
                 (case string_of_member object ''message'' of
                    None \<Rightarrow> go_on
                  | Some message \<Rightarrow> go_on\<lparr>me_stderr := ''[error] '' @ message @ [ch_nl]\<rparr>)
               else go_on))"

text \<open>A frame in the loop of \<open>ObserveSession\<close>: what is written, and whether the loop ends.\<close>

definition observe_message :: "JsonLib \<Rightarrow> bool \<Rightarrow> string \<Rightarrow> string \<times> bool" where
  "observe_message lib got_text payload =
     (if \<not> got_text then (payload, False)
      else
        case parse_object lib payload of
          None \<Rightarrow> ([], False)
        | Some object \<Rightarrow>
            (case string_of_member object ''type'' of
               None \<Rightarrow> ([], False)
             | Some type_name \<Rightarrow>
                 if type_name = ''terminal.output'' then (output_of_message object, False)
                 else ([], type_name = ''session.exited'')))"

fun observe_loop :: "JsonLib \<Rightarrow> (bool \<times> string) list \<Rightarrow> string" where
  "observe_loop lib [] = []"
| "observe_loop lib ((got_text, payload) # frames) =
     (let (written, finished) = observe_message lib got_text payload in
      written @ (if finished then [] else observe_loop lib frames))"

section \<open>Commands\<close>

definition BuildControlRequestCommand :: "JsonLib \<Rightarrow> ControllerKind \<Rightarrow> string" where
  "BuildControlRequestCommand lib controller_kind = jl_serialize lib (json_object
     [text_member ''type'' ''session.control.request'', text_member ''kind'' (ToString_ControllerKind controller_kind)])"

definition BuildReleaseControlCommand :: "JsonLib \<Rightarrow> string" where
  "BuildReleaseControlCommand lib = jl_serialize lib (json_object [text_member ''type'' ''session.control.release''])"

definition BuildInputCommand :: "JsonLib \<Rightarrow> string \<Rightarrow> string" where
  "BuildInputCommand lib data = jl_serialize lib (json_object
     [text_member ''type'' ''terminal.input'', text_member ''data'' data])"

definition BuildResizeCommand :: "JsonLib \<Rightarrow> TerminalSize \<Rightarrow> string" where
  "BuildResizeCommand lib terminal_size = jl_serialize lib (json_object
     [text_member ''type'' ''terminal.resize'',
      size_member ''cols'' (ts_columns terminal_size), size_member ''rows'' (ts_rows terminal_size)])"

section \<open>Attaching\<close>

text \<open>Reading the answer to the handshake of \<open>AttachSessionLocal\<close> from the chunks that arrive. What follows
  the line in its last chunk is cut off with \<open>resize\<close>; the remaining chunks go to the terminal.\<close>

fun read_handshake_response :: "string \<Rightarrow> string list \<Rightarrow> string + (string \<times> string list)" where
  "read_handshake_response response chunks =
     (if ch_nl \<in> set response then Inr (takeWhile (\<lambda>c. c \<noteq> ch_nl) response, chunks)
      else
        case chunks of
          [] \<Rightarrow> Inl ''local controller handshake failed''
        | chunk # rest \<Rightarrow>
            if length (response @ chunk) > 4096 then Inl ''local controller handshake failed: oversized response''
            else read_handshake_response (response @ chunk) rest)"

declare read_handshake_response.simps [simp del]

definition local_attach_output :: "string list \<Rightarrow> string option" where
  "local_attach_output chunks =
     (case read_handshake_response [] chunks of
        Inl message \<Rightarrow> None
      | Inr (line, rest) \<Rightarrow> if line = ''OK'' then Some (concat rest) else None)"

text \<open>What the loop of \<open>AttachSessionLocal\<close> writes to the socket for one read from the terminal, and
  whether it leaves.\<close>

definition local_attach_input :: "string \<Rightarrow> string list \<times> bool" where
  "local_attach_input input =
     (let filtered = FilterLocalReclaimInput input in
      ((if fi_saw_reclaim filtered then [BuildLocalControllerFrame (CHR ''C'') []] else [])
       @ (if fi_payload filtered \<noteq> [] then [BuildLocalControllerFrame (CHR ''I'') (fi_payload filtered)] else []),
       fi_saw_detach filtered))"

text \<open>One turn of the loop of \<open>AttachSession\<close> before it waits for input: the host asks again for control that
  nobody holds, and a resize is sent once the client has control.\<close>

definition attach_tick ::
    "JsonLib \<Rightarrow> ControllerKind \<Rightarrow> SessionStreamState \<Rightarrow> bool \<Rightarrow> TerminalSize
       \<Rightarrow> string list \<times> SessionStreamState \<times> bool" where
  "attach_tick lib controller_kind stream_state resize_sync_pending terminal_size =
     (let reclaim = (controller_kind = ControllerHost \<and> \<not> st_has_control stream_state
            \<and> \<not> st_control_request_pending stream_state \<and> st_active_controller_kind stream_state = ''host''
            \<and> \<not> st_active_controller_has_client stream_state);
          resize = (st_has_control stream_state \<and> resize_sync_pending)
      in
      ((if reclaim then [BuildControlRequestCommand lib controller_kind] else [])
       @ (if resize then [BuildResizeCommand lib terminal_size] else []),
       (if reclaim then stream_state\<lparr>st_control_request_pending := True\<rparr> else stream_state),
       resize_sync_pending \<and> \<not> resize))"

text \<open>Input of the terminal in \<open>AttachSession\<close>: raw bytes, only while the client has control.\<close>

definition attach_input :: "SessionStreamState \<Rightarrow> string \<Rightarrow> string list" where
  "attach_input stream_state input = (if st_has_control stream_state then [input] else [])"

section \<open>What the client decodes\<close>

lemma decoding_table_value: "Base64Value c = Some v \<Longrightarrow> decoding_table c = int v"
  by (auto simp: Base64Value_def decoding_table_def is_upper_char_def is_lower_char_def is_digit_char_def byte_def
      split: if_splits)

lemma decoding_table_alphabet [simp]: "v < 64 \<Longrightarrow> decoding_table (kBase64Alphabet ! v) = int v"
  by (simp add: decoding_table_value)

lemma int_char_of_nat: "int_char (int n) = char_of (n mod 256)"
  by (simp add: int_char_def nat_mod_distrib)

lemma int_char_octets:
  assumes "v < 64" "w < 64"
  shows "int_char (push_bit 2 (int v) OR drop_bit 4 (int w)) = char_of (octet1 v w)"
    "int_char (push_bit 4 (int v AND 15) OR drop_bit 2 (int w)) = char_of (octet2 v w)"
    "int_char (push_bit 6 (int v AND 3) OR int w) = char_of (octet3 v w)"
proof -
  have "push_bit 2 (int v) OR drop_bit 4 (int w) = int (push_bit 2 v OR drop_bit 4 w)"
    by (simp only: of_nat_or_eq push_bit_of_nat drop_bit_of_nat)
  also have "push_bit 2 v OR drop_bit 4 w = v * 4 + w div 16"
    using or_disjoint_nat [of "w div 16" 2 v] assms by (simp add: push_bit_eq_mult drop_bit_eq_div)
  finally show "int_char (push_bit 2 (int v) OR drop_bit 4 (int w)) = char_of (octet1 v w)"
    by (simp only: int_char_of_nat octet1_def)
  have "push_bit 4 (int v AND 15) OR drop_bit 2 (int w) = int (push_bit 4 (v AND 15) OR drop_bit 2 w)"
    by (simp only: of_nat_or_eq of_nat_and_eq push_bit_of_nat [symmetric] drop_bit_of_nat [symmetric] of_nat_numeral)
  also have "push_bit 4 (v AND 15) OR drop_bit 2 w = (v mod 16) * 16 + w div 4"
    using or_disjoint_nat [of "w div 4" 4 "v mod 16"] assms
    by (simp add: push_bit_eq_mult drop_bit_eq_div mask_nat del: push_bit_and)
  finally show "int_char (push_bit 4 (int v AND 15) OR drop_bit 2 (int w)) = char_of (octet2 v w)"
    by (simp only: int_char_of_nat octet2_def)
  have "push_bit 6 (int v AND 3) OR int w = int (push_bit 6 (v AND 3) OR w)"
    by (simp only: of_nat_or_eq of_nat_and_eq push_bit_of_nat [symmetric] of_nat_numeral)
  also have "push_bit 6 (v AND 3) OR w = (v mod 4) * 64 + w"
    using or_disjoint_nat [of w 6 "v mod 4"] assms by (simp add: push_bit_eq_mult mask_nat del: push_bit_and)
  finally show "int_char (push_bit 6 (int v AND 3) OR int w) = char_of (octet3 v w)"
    by (simp only: int_char_of_nat octet3_def)
qed

lemma DecodeBase64_loop_Encode: "DecodeBase64_loop (Base64Encode s) = Some s"
proof (induction s rule: Base64Encode.induct)
  case (2 x)
  then show ?case
    using int_char_octets(1) [of "sextet1 (byte x)" "sextet2 (byte x) 0"] by (simp add: Let_def)
next
  case (3 x y)
  then show ?case
    using int_char_octets(1) [of "sextet1 (byte x)" "sextet2 (byte x) (byte y)"]
      int_char_octets(2) [of "sextet2 (byte x) (byte y)" "sextet3 (byte y) 0"]
    by (simp add: Let_def)
qed (simp_all add: Let_def int_char_octets del: push_bit_and)

lemma DecodeBase64_Encode: "DecodeBase64 (Base64Encode_api s) = Some s"
  by (simp add: DecodeBase64_def Base64Encode_api_eq length_Base64Encode DecodeBase64_loop_Encode)

text \<open>Looking up members of a document that went through the JSON library.\<close>

lemma required_reparse_string:
  "distinct (map fst members) \<Longrightarrow>
   required as_string (json_reparse (json_object members)) k =
     (case map_of members k of Some (Some v) \<Rightarrow> as_string v | _ \<Rightarrow> None)"
proof -
  have "as_string (json_reparse v) = as_string v" for v by (cases v) auto
  then show "distinct (map fst members) \<Longrightarrow> ?thesis"
    by (simp add: required_def if_contains_object split: option.split)
qed

lemma sent_object:
  assumes "json_lib_roundtrip lib" "distinct (map fst members)"
    and "list_all (\<lambda>(k, m). valid_utf8 k \<and> (\<forall>v. m = Some v \<longrightarrow> json_ok 31 v)) members"
  shows "parse_object lib (jl_serialize lib (json_object members)) = Some (json_reparse (json_object members))"
proof -
  have "json_ok 32 (json_object members) \<longleftrightarrow> json_ok (Suc 31) (json_object members)" by simp
  have "list_all (\<lambda>kv. valid_utf8 (fst kv) \<and> json_ok 31 (snd kv)) (present_members members)"
    using assms(3) by (induction members rule: present_members.induct) auto
  then have "json_ok max_depth (json_object members)"
    using distinct_present [OF assms(2)] by (simp add: json_object_def max_depth_def)
  with assms(1) show ?thesis by (simp add: json_lib_roundtrip_def parse_object_def json_object_def)
qed


lemma base64_letters_valid [simp]: "valid_utf8 (Base64Encode_api s)"
proof -
  have "Base64Value c = Some v \<Longrightarrow> byte c < 128" for c v
    by (auto simp: Base64Value_def is_upper_char_def is_lower_char_def is_digit_char_def byte_def split: if_splits)
  then have letter: "byte (kBase64Alphabet ! v) < 128" if "v < 64" for v
    using that by simp
  have pad: "byte (CHR ''='') < 128" by (simp add: byte_def)
  have "\<forall>c \<in> set (Base64Encode s). byte c < 128"
    by (induction s rule: Base64Encode.induct) (simp_all add: letter pad)
  then show ?thesis by (simp add: Base64Encode_api_eq ascii_valid_utf8)
qed

lemma wire_text_valid [simp]:
  "valid_utf8 ''type''" "valid_utf8 ''sessionId''" "valid_utf8 ''dataBase64''" "valid_utf8 ''dataEncoding''"
  "valid_utf8 ''base64''" "valid_utf8 ''seqStart''" "valid_utf8 ''seqEnd''" "valid_utf8 ''terminal.output''"
  "valid_utf8 ''terminal.input''" "valid_utf8 ''data''" "valid_utf8 ''terminal.resize''" "valid_utf8 ''cols''"
  "valid_utf8 ''rows''" "valid_utf8 ''columns''" "valid_utf8 ''session.control.request''" "valid_utf8 ''kind''"
  "valid_utf8 ''session.control.release''" "valid_utf8 ''none''" "valid_utf8 ''host''" "valid_utf8 ''remote''"
  by (rule ascii_valid_utf8, simp add: byte_def)+

lemma controller_kind_valid [simp]: "valid_utf8 (ToString_ControllerKind k)"
  by (cases k) simp_all

definition output_event_members :: "string \<Rightarrow> OutputSlice \<Rightarrow> (string \<times> json option) list" where
  "output_event_members session_id output_slice =
     [text_member ''type'' ''terminal.output'', text_member ''sessionId'' session_id] @ slice_members output_slice"

lemma output_event_parsed:
  assumes "json_lib_roundtrip lib" "valid_utf8 session_id" "int (os_seq_start sl) < 2 ^ 64" "int (os_seq_end sl) < 2 ^ 64"
  shows "parse_object lib (ToJson_TerminalOutputEvent lib session_id sl) =
    Some (json_reparse (json_object (output_event_members session_id sl)))"
  unfolding ToJson_TerminalOutputEvent_def output_event_members_def
  using assms by (intro sent_object) (simp_all add: slice_members_def)

lemma output_event_keys: "distinct (map fst (output_event_members session_id sl))"
  by (simp add: output_event_members_def slice_members_def)

text \<open>Claim C35: output reaches the terminal unchanged: an attached or observing client that receives the event which
  the daemon sends for a slice writes exactly the bytes of the slice, whatever they are, and nothing else changes.\<close>

theorem terminal_output_reaches_client:
  assumes "json_lib_roundtrip lib" "valid_utf8 session_id" "int (os_seq_start sl) < 2 ^ 64" "int (os_seq_end sl) < 2 ^ 64"
  shows "HandleServerMessage lib (ToJson_TerminalOutputEvent lib session_id sl) controller_kind stream_state exit_code =
      \<lparr>me_continue = True, me_stream_state = stream_state, me_exit_code = exit_code, me_stdout = os_data sl, me_stderr = []\<rparr>
    \<and> observe_message lib True (ToJson_TerminalOutputEvent lib session_id sl) = (os_data sl, False)"
proof -
  let ?event = "json_reparse (json_object (output_event_members session_id sl))"
  have "string_of_member ?event ''type'' = Some ''terminal.output''"
    "string_of_member ?event ''dataBase64'' = Some (Base64Encode_api (os_data sl))"
    unfolding string_of_member_def required_reparse_string [OF output_event_keys]
    by (simp_all add: output_event_members_def slice_members_def)
  then show ?thesis
    by (simp add: HandleServerMessage_def observe_message_def output_event_parsed [OF assms] output_of_message_def
        DecodeBase64_Encode Let_def)
qed

theorem terminal_output_reaches_client_witness:
  "me_stdout (HandleServerMessage unary_json
      (ToJson_TerminalOutputEvent unary_json ''s_1'' \<lparr>os_seq_start = 1, os_seq_end = 2, os_data = [char_of (200 :: nat)]\<rparr>)
      ControllerHost \<lparr>st_has_control = False, st_control_request_pending = True, st_active_controller_kind = ''none'',
        st_active_controller_has_client = False\<rparr> 0) = [char_of (200 :: nat)]"
proof -
  have "valid_utf8 ''s_1''" by (rule ascii_valid_utf8) (simp add: byte_def)
  then show ?thesis
    using terminal_output_reaches_client [OF unary_lib.roundtrip, of "''s_1''"
        "\<lparr>os_seq_start = 1, os_seq_end = 2, os_data = [char_of (200 :: nat)]\<rparr>"] by simp
qed

text \<open>The daemon reads every command as the client means it: input that is UTF-8, a size of at least one
  row and column, a request for control as host or remote, and a release.\<close>

theorem client_commands_understood:
  assumes "json_lib_roundtrip lib" "valid_utf8 data" "kind \<noteq> ControllerNone"
    and "0 < ts_columns terminal_size \<and> ts_columns terminal_size < 65536" "0 < ts_rows terminal_size \<and> ts_rows terminal_size < 65536"
  shows "ParseWebSocketCommand lib (BuildInputCommand lib data) = Some (InputCommand data)
    \<and> ParseWebSocketCommand lib (BuildResizeCommand lib terminal_size) = Some (ResizeCommand terminal_size)
    \<and> ParseWebSocketCommand lib (BuildControlRequestCommand lib kind) = Some (RequestControlCommand kind)
    \<and> ParseWebSocketCommand lib (BuildReleaseControlCommand lib) = Some ReleaseControlCommand"
proof (intro conjI)
  show "ParseWebSocketCommand lib (BuildInputCommand lib data) = Some (InputCommand data)"
    unfolding ParseWebSocketCommand_def BuildInputCommand_def
    by (subst sent_object [OF assms(1)]) (simp_all add: assms required_reparse_string)
  show "ParseWebSocketCommand lib (BuildReleaseControlCommand lib) = Some ReleaseControlCommand"
    unfolding ParseWebSocketCommand_def BuildReleaseControlCommand_def
    by (subst sent_object [OF assms(1)]) (simp_all add: assms required_reparse_string)
  show "ParseWebSocketCommand lib (BuildControlRequestCommand lib kind) = Some (RequestControlCommand kind)"
    unfolding ParseWebSocketCommand_def BuildControlRequestCommand_def
    by (subst sent_object [OF assms(1)], simp, simp)
      (cases kind; simp add: assms(3) required_reparse_string optional_def if_contains_object)
  show "ParseWebSocketCommand lib (BuildResizeCommand lib terminal_size) = Some (ResizeCommand terminal_size)"
    unfolding ParseWebSocketCommand_def BuildResizeCommand_def
    by (subst sent_object [OF assms(1)])
      (use assms(4,5) in \<open>simp_all add: required_reparse_string required_def if_contains_object parse_dimension_def\<close>)
qed

theorem client_commands_understood_witness:
  "ParseWebSocketCommand unary_json (BuildInputCommand unary_json ''ls'') = Some (InputCommand ''ls'')
   \<and> ParseWebSocketCommand unary_json (BuildControlRequestCommand unary_json ControllerHost)
       = Some (RequestControlCommand ControllerHost)"
proof -
  have "valid_utf8 ''ls''" by (rule ascii_valid_utf8) (simp add: byte_def)
  with client_commands_understood [OF unary_lib.roundtrip, of "''ls''" ControllerHost "\<lparr>ts_columns = 80, ts_rows = 24\<rparr>"]
  show ?thesis by simp
qed

section \<open>Who the client thinks is in control\<close>

lemma summary_update_parsed:
  assumes "json_lib_roundtrip lib" "json_texts_ok (session_updated_json s)" "json_numbers_ok (session_updated_json s)"
  shows "parse_object lib (ToJson_SessionUpdatedEvent lib s) = Some (json_reparse (session_updated_json s))"
proof -
  have "\<exists>d. max_depth = Suc (Suc d)" by (rule exI [of _ 30]) (simp add: max_depth_def)
  then obtain d where d: "max_depth = Suc (Suc d)" ..
  have "json_shape_ok max_depth (session_updated_json s)"
    unfolding d session_updated_json_def json_shape_object [OF summary_keys_distinct(2)]
    by (simp add: session_updated_members_def json_part_shapes)
  with assms have "jl_parse lib (jl_serialize lib (session_updated_json s)) = Some (json_reparse (session_updated_json s))"
    by (simp add: json_lib_roundtrip_def json_ok_parts)
  then show ?thesis
    by (simp add: ToJson_SessionUpdatedEvent_def parse_object_def session_updated_json_def json_object_def)
qed

text \<open>What an attached client believes after an update of its session. A remote client takes itself to be in
  control whenever any client controls the session remotely; a host client whenever a host client does, or when
  its own request is pending and no remote controller is there. The identity of the holder is never compared.\<close>

theorem attach_client_belief:
  assumes "json_lib_roundtrip lib" "json_texts_ok (session_updated_json s)" "json_numbers_ok (session_updated_json s)"
    and "stream_state' = me_stream_state (HandleServerMessage lib (ToJson_SessionUpdatedEvent lib s) kind stream_state code)"
  shows "(kind = ControllerRemote \<longrightarrow>
        (st_has_control stream_state' \<longleftrightarrow> su_controller_kind s = ControllerRemote \<and> su_controller_client_id s \<noteq> None))
    \<and> (kind = ControllerHost \<longrightarrow>
        (st_has_control stream_state' \<longleftrightarrow> su_controller_kind s = ControllerHost
           \<and> (st_control_request_pending stream_state \<or> su_controller_client_id s \<noteq> None)))
    \<and> (st_has_control stream_state' \<and> kind \<noteq> ControllerNone \<longrightarrow> \<not> st_control_request_pending stream_state')"
proof -
  have "string_of_member (json_reparse (session_updated_json s)) ''type'' = Some ''session.updated''"
    "string_of_member (json_reparse (session_updated_json s)) ''controllerKind'' =
       Some (ToString_ControllerKind (su_controller_kind s))"
    "string_of_member (json_reparse (session_updated_json s)) ''controllerClientId'' = su_controller_client_id s"
    unfolding string_of_member_def session_updated_json_def required_reparse_string [OF summary_keys_distinct(2)]
    by (simp_all add: session_updated_members_def split: option.split)
  then have "stream_state' = controller_update (json_reparse (session_updated_json s)) kind stream_state"
    by (simp add: assms(4) HandleServerMessage_def summary_update_parsed [OF assms(1-3)] Let_def)
  then show ?thesis
    using \<open>string_of_member _ ''controllerKind'' = _\<close> \<open>string_of_member _ ''controllerClientId'' = _\<close>
    by (cases kind; cases "su_controller_kind s"; simp add: controller_update_def Let_def)
qed

theorem attach_client_belief_witness:
  "st_has_control (me_stream_state (HandleServerMessage unary_json
     (ToJson_SessionUpdatedEvent unary_json
        (demo_summary\<lparr>su_controller_kind := ControllerRemote, su_controller_client_id := Some ''phone''\<rparr>))
     ControllerRemote \<lparr>st_has_control = False, st_control_request_pending = True, st_active_controller_kind = ''none'',
       st_active_controller_has_client = False\<rparr> 0))"
proof -
  let ?s = "demo_summary\<lparr>su_controller_kind := ControllerRemote, su_controller_client_id := Some ''phone''\<rparr>"
  have "json_texts_ok (session_updated_json ?s)" "json_numbers_ok (session_updated_json ?s)" by code_simp+
  from attach_client_belief [OF unary_lib.roundtrip this refl, of ControllerRemote] show ?thesis by simp
qed

section \<open>Keys of the local client\<close>

lemma erase_sequence_absent:
  "sequence \<noteq> [] \<Longrightarrow> hd sequence \<notin> set s \<Longrightarrow> erase_sequence sequence s = (False, s)"
proof (induction sequence s rule: erase_sequence.induct)
  case (2 sequence c cs)
  then have "\<not> starts_with (c # cs) sequence" by (cases sequence) (auto simp: starts_with_def)
  with 2 show ?case by simp
qed simp


lemma erase_character: "x \<notin> set s \<Longrightarrow> erase_sequence [x] (s @ x # t) = (True, s @ snd (erase_sequence [x] t))"
  by (induction s) (auto simp: starts_with_def Let_def case_prod_beta)

lemma erase_sequence_elsewhere:
  assumes "sequence = x # p" "x \<notin> set cs" "\<not> starts_with (x # cs) sequence"
  shows "erase_sequence sequence (x # cs) = (False, x # cs)"
  using assms erase_sequence_absent [of sequence cs] by (simp del: erase_sequence.simps add: erase_sequence.simps(2))

lemma erase_kitty_absent: "p \<noteq> [] \<Longrightarrow> hd p \<notin> set s \<Longrightarrow> erase_kitty p s = (False, s)"
proof (induction p s rule: erase_kitty.induct)
  case (2 p c cs)
  then have "\<not> starts_with (c # cs) p" by (cases p) (auto simp: starts_with_def)
  with 2 show ?case by simp
qed simp

lemmas filter_defs = FilterLocalReclaimInput_def erase_sequences_def kReclaimSequences_def kDetachSequences_def

lemma filter_ordinary:
  assumes "ch_esc \<notin> set s" "CHR 0x1C \<notin> set s" "CHR 0x1D \<notin> set s"
  shows "FilterLocalReclaimInput s = \<lparr>fi_saw_reclaim = False, fi_saw_detach = False, fi_payload = s\<rparr>"
  using assms by (simp add: filter_defs erase_sequence_absent)

lemma filter_detach:
  assumes "ch_esc \<notin> set s \<union> set t" "CHR 0x1C \<notin> set s \<union> set t" "CHR 0x1D \<notin> set s \<union> set t"
  shows "FilterLocalReclaimInput (s @ [CHR 0x1C] @ t) =
    \<lparr>fi_saw_reclaim = False, fi_saw_detach = True, fi_payload = s @ t\<rparr>"
  using assms by (simp add: filter_defs erase_sequence_absent erase_character erase_kitty_absent)

lemma filter_kitty_detach:
  assumes "list_all is_digit_char d"
  shows "FilterLocalReclaimInput (ch_esc # ''[92;5:'' @ d @ ''u'') =
    \<lparr>fi_saw_reclaim = False, fi_saw_detach = False, fi_payload = ch_esc # ''[92;5:'' @ d @ ''u''\<rparr>"
proof -
  have chars: "ch_esc \<notin> set (''[92;5:'' @ d @ ''u'')" "CHR 0x1C \<notin> set (''[92;5:'' @ d @ ''u'')"
    "CHR 0x1D \<notin> set (''[92;5:'' @ d @ ''u'')"
    using assms by (auto simp: list_all_iff is_digit_char_def byte_def)
  have "erase_sequence (ch_esc # p) (ch_esc # ''[92;5:'' @ d @ ''u'') = (False, ch_esc # ''[92;5:'' @ d @ ''u'')"
    if "p \<in> {''[93;5u'' @ [CHR 0x00], ''[27;5;93~'', ''[92;5u'' @ [CHR 0x00], ''[27;5;92~''}" for p
    using that chars(1) by (intro erase_sequence_elsewhere) (auto simp: starts_with_def)
  moreover have "erase_sequence [x] (ch_esc # ''[92;5:'' @ d @ ''u'') = (False, ch_esc # ''[92;5:'' @ d @ ''u'')"
    if "x \<in> {CHR 0x1C, CHR 0x1D}" for x
    using that chars by (intro erase_sequence_absent) auto
  ultimately show ?thesis by (simp add: filter_defs del: erase_sequence.simps append.simps)
qed

lemma filter_csi_u:
  assumes "key \<in> {''[93;5u'', ''[92;5u''}"
  shows "FilterLocalReclaimInput (ch_esc # key) = \<lparr>fi_saw_reclaim = False, fi_saw_detach = False, fi_payload = ch_esc # key\<rparr>"
  using assms by (elim insertE) (simp_all, code_simp+)

text \<open>The filter of the local attach client. Input without an escape and without the two control characters
  goes through as it is. A detach character is found anywhere, and removed. But the keys as terminals send them in the
  CSI-u form (\<open>filter_csi_u\<close>), and a detach key in the form with an event type, which the filter has code for, are
  not seen: the whole sequence goes to the session.\<close>

theorem local_attach_keys:
  assumes "ch_esc \<notin> set s \<union> set t" "CHR 0x1C \<notin> set s \<union> set t" "CHR 0x1D \<notin> set s \<union> set t"
    and "d \<noteq> []" "list_all is_digit_char d"
  shows "FilterLocalReclaimInput s = \<lparr>fi_saw_reclaim = False, fi_saw_detach = False, fi_payload = s\<rparr>
    \<and> local_attach_input (s @ [CHR 0x1C] @ t) =
        ((if s @ t = [] then [] else [BuildLocalControllerFrame (CHR ''I'') (s @ t)]), True)
    \<and> local_attach_input (ch_esc # ''[92;5:'' @ d @ ''u'') =
        ([BuildLocalControllerFrame (CHR ''I'') (ch_esc # ''[92;5:'' @ d @ ''u'')], False)"
  using assms by (simp add: filter_ordinary local_attach_input_def filter_detach [simplified] filter_kitty_detach [simplified] Let_def)

theorem local_attach_keys_witness:
  "local_attach_input (ch_esc # ''[92;5:1u'') = ([BuildLocalControllerFrame (CHR ''I'') (ch_esc # ''[92;5:1u'')], False)
   \<and> snd (local_attach_input (''ls'' @ [CHR 0x1C]))"
proof -
  have "ch_esc \<notin> set ''ls'' \<union> set []" "CHR 0x1C \<notin> set ''ls'' \<union> set []"
    "CHR 0x1D \<notin> set ''ls'' \<union> set []" "list_all is_digit_char ''1''" by code_simp+
  from local_attach_keys [OF this(1-3) _ this(4)] show ?thesis by simp
qed

section \<open>Output lost at the start\<close>

text \<open>The first output can be lost. When the daemon's answer and its first output arrive separately, the
  local client shows all the output; when output arrives in the same read as the end of the answer, that part of
  it is discarded: what is shown depends on how the stream is cut into reads.\<close>

theorem local_attach_drops_coalesced_output:
  assumes "ch_nl \<notin> set a" "a @ b = ''OK''" "length (''OK'' @ [ch_nl] @ early) \<le> 4096" "b \<noteq> []"
  shows "local_attach_output ([''OK'' @ [ch_nl]] @ chunks) = Some (concat chunks)
    \<and> local_attach_output ([''OK'' @ [ch_nl] @ early] @ chunks) = Some (concat chunks)
    \<and> local_attach_output ([a, b @ [ch_nl] @ early] @ chunks) = Some (concat chunks)"
proof -
  have ok: "ch_nl \<notin> set ''OK''" by simp
  then have line: "takeWhile (\<lambda>c. c \<noteq> ch_nl) (''OK'' @ [ch_nl] @ rest) = ''OK''" for rest by simp
  have read: "read_handshake_response response (chunk # chunks') = Inr (''OK'', chunks')"
    if "response @ chunk = ''OK'' @ [ch_nl] @ rest" "ch_nl \<notin> set response" "length rest \<le> 4093" for response chunk rest chunks'
    using that line [of rest]
    by (subst read_handshake_response.simps, simp, subst read_handshake_response.simps, simp)
  have "read_handshake_response [] (a # b' # chunks) = read_handshake_response a (b' # chunks)" for b'
    using assms(1,2) by (subst read_handshake_response.simps) (auto simp: append_eq_Cons_conv)
  moreover have "a @ b @ [ch_nl] @ early = ''OK'' @ [ch_nl] @ early" using assms(2) by (metis append.assoc)
  ultimately show ?thesis
    using read [of "[]" "''OK'' @ [ch_nl]" "[]" chunks] read [of "[]" "''OK'' @ [ch_nl] @ early" early chunks]
      read [of a "b @ [ch_nl] @ early" early chunks] assms
    by (simp add: local_attach_output_def)
qed

theorem local_attach_drops_coalesced_output_witness:
  "local_attach_output [''OK'' @ [ch_nl] @ ''hello '', ''world''] = Some ''world''"
  using local_attach_drops_coalesced_output [of "[]" "''OK''" "''hello ''" "[''world'']"] by simp

end
