(* ===== verification/Daemon_Requests.thy ===== *)
theory Daemon_Requests
  imports Evidence_Route Client_Protocol
begin

text \<open>
  The HTTP side of the command-line client, \<open>src/cli/daemon_client_http.cpp\<close>, with the types of
  \<open>include/vibe/cli/daemon_client.h\<close>: base addresses, the parser of responses, the receive loop, the bodies
  and targets that the client builds, and the readers of the answers. The network is an argument: given a host,
  a port and a request, either nothing (no connection, or the request could not be written) or what each read of
  the connection gives, and a state behind it. The diagnostics on the error stream are left out. The last part composes the client with the daemon's own router.
\<close>

section \<open>Data\<close>

record DaemonEndpoint =
  de_host :: string
  de_port :: u16

definition DaemonEndpoint_default :: DaemonEndpoint where
  "DaemonEndpoint_default = \<lparr>de_host = ''127.0.0.1'', de_port = 18085\<rparr>"

record ListedSession =
  ls_session_id :: string
  ls_title :: string
  ls_activity_state :: string
  ls_status :: string
  ls_interaction_kind :: string
  ls_semantic_preview :: string

record ListedRecord =
  ld_record_id :: string
  ld_provider :: string
  ld_workspace_root :: string
  ld_title :: string
  ld_launched_at_unix_ms :: unix_ms
  ld_conversation_id :: "string option"
  ld_group_tags :: "string list"
  ld_command_argv :: "string list option"
  ld_command_shell :: "string option"

text \<open>The overrides are the pairs of an unordered map, in the order in which it gives them.\<close>

record CliSessionRequest =
  xs_provider :: "ProviderType option"
  xs_workspace_root :: "string option"
  xs_title :: "string option"
  xs_record_id :: "string option"
  xs_command_argv :: "string list option"
  xs_command_shell :: "string option"
  xs_env_mode :: "EnvMode option"
  xs_environment_overrides :: "(string \<times> string) list"
  xs_env_file_path :: "string option"

record CliSessionResult =
  xr_session_id :: "string option"
  xr_error_message :: string

record EvidenceCliRequest =
  eq_session_id :: string
  eq_operation :: string
  eq_lines :: "nat option"
  eq_query :: "string option"
  eq_revision_start :: "u64 option"
  eq_revision_end :: "u64 option"
  eq_revision :: "u64 option"
  eq_before :: "nat option"
  eq_after :: "nat option"
  eq_limit :: "nat option"

record ParsedBaseUrl =
  bu_scheme :: string
  bu_host :: string
  bu_port :: string
  bu_path_prefix :: string

section \<open>Addresses and responses\<close>

definition ParseBaseUrl :: "string \<Rightarrow> ParsedBaseUrl option" where
  "ParseBaseUrl url =
     (case (if starts_with url ''http://'' then Some (''http'', ''80'', drop 7 url)
            else if starts_with url ''https://'' then Some (''https'', ''443'', drop 8 url)
            else None) of
        None \<Rightarrow> None
      | Some (scheme, default_port, remainder) \<Rightarrow>
          let authority = takeWhile (\<lambda>c. c \<noteq> CHR ''/'') remainder;
              path_prefix = drop (length authority) remainder;
              host = takeWhile (\<lambda>c. c \<noteq> CHR '':'') authority
          in
          if host = [] then None
          else Some \<lparr>bu_scheme = scheme, bu_host = host,
                     bu_port = (if length host < length authority then drop (length host + 1) authority else default_port),
                     bu_path_prefix = (if path_prefix \<noteq> [] \<and> last path_prefix = CHR ''/''
                                       then butlast path_prefix else path_prefix)\<rparr>)"

definition pop_cr :: "string \<Rightarrow> string" where
  "pop_cr line = (if line \<noteq> [] \<and> last line = ch_cr then butlast line else line)"

text \<open>\<open>>>\<close> into an \<open>unsigned int\<close>: as \<^const>\<open>stoull\<close>, with 32 bits.\<close>

definition extract_unsigned :: "string \<Rightarrow> nat option" where
  "extract_unsigned text =
     (let t = dropWhile is_space_char text;
          negative = starts_with t ''-'';
          digits = takeWhile is_digit_char (if negative \<or> starts_with t ''+'' then tl t else t);
          value = string_to_nat 0 digits
      in if digits = [] \<or> value \<ge> 2 ^ 32 then None
         else Some (if negative then (2 ^ 32 - value) mod 2 ^ 32 else value))"

definition parse_status_line :: "string \<Rightarrow> (string \<times> nat) option" where
  "parse_status_line line =
     (let text = dropWhile is_space_char line;
          token = takeWhile (\<lambda>c. \<not> is_space_char c) text
      in if token = [] then None
         else map_option (Pair token) (extract_unsigned (drop (length token) text)))"

text \<open>The loop over the header lines: the length that is announced, and the response with its fields.\<close>

fun parse_header_lines :: "string list \<Rightarrow> nat \<Rightarrow> HttpResponse \<Rightarrow> (nat \<times> HttpResponse) option" where
  "parse_header_lines [] content_length response = Some (content_length, response)"
| "parse_header_lines (raw # lines) content_length response =
     (let line = pop_cr raw; name = takeWhile (\<lambda>c. c \<noteq> CHR '':'') line in
      if line = [] then parse_header_lines lines content_length response
      else if length name = length line then None
      else
        let after = drop (length name + 1) line;
            value = (if starts_with after '' '' then tl after else after);
            response1 = set_field name value response
        in
        if name = ''Content-Length'' then
          (case stoull value of
             None \<Rightarrow> None
           | Some n \<Rightarrow> parse_header_lines lines n response1)
        else parse_header_lines lines content_length response1)"

text \<open>The library's \<open>prepare_payload\<close> at the end, which writes the framing fields anew, is not part of the value;
  it throws for a body on a status that has none, which is left out.\<close>

definition ParseHttpResponse :: "string \<Rightarrow> HttpResponse option" where
  "ParseHttpResponse raw_response =
     (case find_first (crlf @ crlf) raw_response of
        None \<Rightarrow> None
      | Some header_end \<Rightarrow>
          let body = drop (header_end + 4) raw_response in
          (case getlines (take header_end raw_response) of
             [] \<Rightarrow> None
           | status_line # lines \<Rightarrow>
               (case parse_status_line (pop_cr status_line) of
                  None \<Rightarrow> None
                | Some (version, status_code) \<Rightarrow>
                    (case parse_header_lines lines (length body)
                            \<lparr>hr_version = (if version = ''HTTP/1.0'' then 10 else 11), hr_keep_alive = False,
                             hr_status = status_code, hr_fields = [], hr_body = []\<rparr> of
                       None \<Rightarrow> None
                     | Some (content_length, response) \<Rightarrow>
                         if length body < content_length then None
                         else Some (response\<lparr>hr_body := take content_length body\<rparr>)))))"

section \<open>Requests\<close>

text \<open>What a wait for the socket and the read after it give. After the last event nothing arrives in time.\<close>

datatype ReadEvent = Received string | EndOfStream | ReadFailed

type_synonym 'st Network = "string \<Rightarrow> string \<Rightarrow> HttpRequest \<Rightarrow> 'st \<Rightarrow> ReadEvent list option \<times> 'st"

fun receive_response :: "string \<Rightarrow> ReadEvent list \<Rightarrow> HttpResponse option" where
  "receive_response response_bytes [] = None"
| "receive_response response_bytes (Received data # events) =
     (let bytes = response_bytes @ data in
      case (if data = [] then None else ParseHttpResponse bytes) of
        Some response \<Rightarrow> Some response
      | None \<Rightarrow> receive_response bytes events)"
| "receive_response response_bytes (EndOfStream # events) = ParseHttpResponse response_bytes"
| "receive_response response_bytes (ReadFailed # events) = None"

definition optional_field :: "string \<Rightarrow> string option \<Rightarrow> (string \<times> string) list" where
  "optional_field name value = (case value of None \<Rightarrow> [] | Some v \<Rightarrow> [(name, v)])"

definition PerformHttpRequest ::
    "'st Network \<Rightarrow> DaemonEndpoint \<Rightarrow> HttpVerb \<Rightarrow> string \<Rightarrow> string \<Rightarrow> string option \<Rightarrow> string option \<Rightarrow> 'st
       \<Rightarrow> HttpResponse option \<times> 'st" where
  "PerformHttpRequest network endpoint method target body content_type actor_session_id st =
     (let request = \<lparr>hq_method = method, hq_target = target, hq_version = 11,
            hq_fields = (''Host'', de_host endpoint) # optional_field ''Content-Type'' content_type
              @ optional_field ''X-Sentrits-Actor-Session'' (Option.bind actor_session_id nonempty_list),
            hq_body = body\<rparr>;
          (events, st1) = network (de_host endpoint) (nat_to_string (de_port endpoint)) request st
      in (Option.bind events (receive_response []), st1))"

definition PerformHttpRequestToBaseUrl ::
    "'st Network \<Rightarrow> string \<Rightarrow> HttpVerb \<Rightarrow> string \<Rightarrow> string \<Rightarrow> string option \<Rightarrow> string option \<Rightarrow> 'st
       \<Rightarrow> HttpResponse option \<times> 'st" where
  "PerformHttpRequestToBaseUrl network base_url method target_suffix body content_type bearer_token st =
     (case ParseBaseUrl base_url of
        None \<Rightarrow> (None, st)
      | Some parsed \<Rightarrow>
          if bu_scheme parsed \<noteq> ''http'' then (None, st)
          else
            let target = bu_path_prefix parsed @ target_suffix;
                request = \<lparr>hq_method = method, hq_target = (if target = [] then ''/'' else target), hq_version = 11,
                  hq_fields = (''Host'', bu_host parsed) # optional_field ''Content-Type'' content_type
                    @ optional_field ''Authorization'' (map_option (\<lambda>t. ''Bearer '' @ t) bearer_token),
                  hq_body = body\<rparr>;
                (events, st1) = network (bu_host parsed) (bu_port parsed) request st
            in (Option.bind events (receive_response []), st1))"

text \<open>The text of an error: the members \<open>error\<close>, \<open>detail\<close> and \<open>sessionId\<close> of an object, or the body.\<close>

definition ExtractErrorMessage :: "JsonLib \<Rightarrow> string \<Rightarrow> string" where
  "ExtractErrorMessage lib body =
     (case parse_object lib body of
        None \<Rightarrow> body
      | Some object \<Rightarrow>
          let message = or_default [] (required as_string object ''error'');
              session_id = required as_string object ''sessionId''
          in
          case required as_string object ''detail'' of
            Some detail \<Rightarrow>
              (if message = [] then detail else message @ '': '' @ detail)
                @ (case session_id of None \<Rightarrow> [] | Some i \<Rightarrow> '' (session '' @ i @ '')'')
          | None \<Rightarrow>
              (case session_id of
                 Some i \<Rightarrow> if message = [] then ''session '' @ i else message @ '' (session '' @ i @ '')''
               | None \<Rightarrow> if message = [] then body else message))"

definition upper_hex_digit :: "nat \<Rightarrow> char" where
  "upper_hex_digit n = ''0123456789ABCDEF'' ! n"

definition is_unreserved :: "char \<Rightarrow> bool" where
  "is_unreserved ch \<longleftrightarrow> is_upper_char ch \<or> is_lower_char ch \<or> is_digit_char ch
     \<or> ch = CHR ''-'' \<or> ch = CHR ''_'' \<or> ch = CHR ''.'' \<or> ch = CHR ''~''"

definition cli_encode_char :: "char \<Rightarrow> string" where
  "cli_encode_char ch =
     (if is_unreserved ch then [ch]
      else [CHR ''%'', upper_hex_digit (byte ch div 16), upper_hex_digit (byte ch mod 16)])"

definition UrlEncode :: "string \<Rightarrow> string" where
  "UrlEncode input = concat (map cli_encode_char input)"

definition ActorSessionIdFromEnvironment :: "(string \<Rightarrow> string option) \<Rightarrow> string option" where
  "ActorSessionIdFromEnvironment getenv = Option.bind (getenv ''SENTRITS_SESSION_ID'') nonempty_list"

section \<open>Bodies and targets\<close>

definition BuildCreateSessionRequestBody :: "JsonLib \<Rightarrow> CliSessionRequest \<Rightarrow> string" where
  "BuildCreateSessionRequestBody lib request =
     (let optional_text = (\<lambda>k v. (k, map_option JString v)) in
      jl_serialize lib (json_object
        [optional_text ''provider'' (map_option ToString_ProviderType (xs_provider request)),
         optional_text ''workspaceRoot'' (xs_workspace_root request),
         optional_text ''title'' (xs_title request),
         optional_text ''recordId'' (xs_record_id request),
         (''commandArgv'', map_option json_strings (xs_command_argv request)),
         optional_text ''commandShell'' (xs_command_shell request),
         optional_text ''envMode'' (map_option ToString_EnvMode (xs_env_mode request)),
         (''environmentOverrides'',
            if xs_environment_overrides request = [] then None
            else Some (JObject (map (\<lambda>(k, v). (k, JString v)) (xs_environment_overrides request)))),
         optional_text ''envFilePath'' (xs_env_file_path request)]))"

fun query_text :: "char \<Rightarrow> (string \<times> string) list \<Rightarrow> string" where
  "query_text separator [] = []"
| "query_text separator ((key, value) # rest) =
     separator # key @ CHR ''='' # UrlEncode value @ query_text (CHR ''&'') rest"

definition number_parameter :: "string \<Rightarrow> nat option \<Rightarrow> (string \<times> string) list" where
  "number_parameter key value = (case value of None \<Rightarrow> [] | Some n \<Rightarrow> [(key, nat_to_string n)])"

definition evidence_parameters :: "EvidenceCliRequest \<Rightarrow> (string \<times> string) list option" where
  "evidence_parameters request =
     (if eq_operation request = ''tail'' then Some (number_parameter ''lines'' (eq_lines request))
      else if eq_operation request = ''search'' then
        (case eq_query request of
           None \<Rightarrow> None
         | Some query \<Rightarrow> Some ((''query'', query) # number_parameter ''limit'' (eq_limit request)))
      else if eq_operation request = ''range'' then
        (if eq_revision_start request = None \<or> eq_revision_end request = None then None
         else Some (number_parameter ''start'' (eq_revision_start request)
                      @ number_parameter ''end'' (eq_revision_end request)
                      @ number_parameter ''limit'' (eq_limit request)))
      else if eq_operation request = ''context'' then
        (if eq_revision request = None then None
         else Some (number_parameter ''revision'' (eq_revision request)
                      @ number_parameter ''before'' (eq_before request)
                      @ number_parameter ''after'' (eq_after request)))
      else None)"

definition BuildEvidenceTarget :: "EvidenceCliRequest \<Rightarrow> string option" where
  "BuildEvidenceTarget request =
     (if eq_session_id request = [] \<or> eq_operation request = [] then None
      else map_option (\<lambda>parameters. ''/sessions/'' @ UrlEncode (eq_session_id request)
             @ ''/evidence/'' @ UrlEncode (eq_operation request) @ query_text (CHR ''?'') parameters)
           (evidence_parameters request))"

definition BuildRelayRequestBody :: "JsonLib \<Rightarrow> string \<Rightarrow> string \<Rightarrow> string" where
  "BuildRelayRequestBody lib host_id session_id =
     jl_serialize lib (JObject [(''host_id'', JString host_id), (''session_id'', JString session_id)])"

section \<open>Answers\<close>

definition ParseCreatedSessionId :: "JsonLib \<Rightarrow> string \<Rightarrow> string option" where
  "ParseCreatedSessionId lib body =
     Option.bind (parse_object lib body) (\<lambda>object. required as_string object ''sessionId'')"

definition ParseRelayChannelId :: "JsonLib \<Rightarrow> string \<Rightarrow> string option" where
  "ParseRelayChannelId lib body =
     Option.bind (parse_object lib body) (\<lambda>object. required as_string object ''channel_id'')"

definition text_or_empty :: "json \<Rightarrow> string \<Rightarrow> string" where
  "text_or_empty object key = or_default [] (required as_string object key)"

definition listed_session :: "json \<Rightarrow> ListedSession option" where
  "listed_session object =
     (case required as_string object ''sessionId'' of
        None \<Rightarrow> None
      | Some session_id \<Rightarrow>
          Some \<lparr>ls_session_id = session_id, ls_title = text_or_empty object ''title'',
                ls_activity_state = text_or_empty object ''activityState'', ls_status = text_or_empty object ''status'',
                ls_interaction_kind = text_or_empty object ''interactionKind'',
                ls_semantic_preview = text_or_empty object ''semanticPreview''\<rparr>)"

definition ParseSessionList :: "JsonLib \<Rightarrow> string \<Rightarrow> ListedSession list" where
  "ParseSessionList lib body =
     (case Option.bind (jl_parse lib body) as_array of
        None \<Rightarrow> []
      | Some values \<Rightarrow> List.map_filter (\<lambda>v. if is_object v then listed_session v else None) values)"

text \<open>The words of \<open>commandArgv\<close>: none when one of them is not a string.\<close>

definition listed_argv :: "json \<Rightarrow> string list option" where
  "listed_argv object =
     Option.bind (required as_array object ''commandArgv'')
       (\<lambda>words. Option.bind (map_all as_string words) nonempty_list)"

definition listed_record :: "json \<Rightarrow> ListedRecord option" where
  "listed_record object = do {
     record_id \<leftarrow> required as_string object ''recordId'';
     provider \<leftarrow> required as_string object ''provider'';
     workspace_root \<leftarrow> required as_string object ''workspaceRoot'';
     title \<leftarrow> required as_string object ''title'';
     Some \<lparr>ld_record_id = record_id, ld_provider = provider, ld_workspace_root = workspace_root, ld_title = title,
           ld_launched_at_unix_ms = or_default 0 (required as_int64 object ''launchedAtUnixMs''),
           ld_conversation_id = required as_string object ''conversationId'',
           ld_group_tags = (case required as_array object ''groupTags'' of
                              None \<Rightarrow> [] | Some tags \<Rightarrow> List.map_filter as_string tags),
           ld_command_argv = listed_argv object,
           ld_command_shell = required as_string object ''commandShell''\<rparr>
   }"

definition ParseRecordList :: "JsonLib \<Rightarrow> string \<Rightarrow> ListedRecord list" where
  "ParseRecordList lib body =
     (case Option.bind (jl_parse lib body) as_array of
        None \<Rightarrow> []
      | Some values \<Rightarrow> List.map_filter (\<lambda>v. if is_object v then listed_record v else None) values)"

section \<open>Calls\<close>

text \<open>The body of an answer with status 200, or nothing.\<close>

definition ok_body :: "HttpResponse option \<times> 'st \<Rightarrow> string option \<times> 'st" where
  "ok_body answer =
     (case answer of
        (None, st) \<Rightarrow> (None, st)
      | (Some response, st) \<Rightarrow> (if hr_status response \<noteq> 200 then None else Some (hr_body response), st))"

definition created_result :: "JsonLib \<Rightarrow> HttpResponse option \<times> 'st \<Rightarrow> CliSessionResult \<times> 'st" where
  "created_result lib answer =
     (case answer of
        (None, st) \<Rightarrow> (\<lparr>xr_session_id = None, xr_error_message = []\<rparr>, st)
      | (Some response, st) \<Rightarrow>
          (if hr_status response \<noteq> 201
           then \<lparr>xr_session_id = None, xr_error_message = ExtractErrorMessage lib (hr_body response)\<rparr>
           else \<lparr>xr_session_id = ParseCreatedSessionId lib (hr_body response), xr_error_message = []\<rparr>, st))"

definition CreateSessionWithDetail ::
    "JsonLib \<Rightarrow> 'st Network \<Rightarrow> DaemonEndpoint \<Rightarrow> CliSessionRequest \<Rightarrow> 'st \<Rightarrow> CliSessionResult \<times> 'st" where
  "CreateSessionWithDetail lib network endpoint request st =
     created_result lib (PerformHttpRequest network endpoint VerbPost ''/sessions''
       (BuildCreateSessionRequestBody lib request) (Some ''application/json'') None st)"

definition CreateSession_client ::
    "JsonLib \<Rightarrow> 'st Network \<Rightarrow> DaemonEndpoint \<Rightarrow> CliSessionRequest \<Rightarrow> 'st \<Rightarrow> string option \<times> 'st" where
  "CreateSession_client lib network endpoint request st =
     map_prod xr_session_id id (CreateSessionWithDetail lib network endpoint request st)"

definition CreateLogSessionWithDetail ::
    "JsonLib \<Rightarrow> 'st Network \<Rightarrow> DaemonEndpoint \<Rightarrow> CliSessionRequest \<Rightarrow> 'st \<Rightarrow> CliSessionResult \<times> 'st" where
  "CreateLogSessionWithDetail lib network endpoint request st =
     created_result lib (PerformHttpRequest network endpoint VerbPost ''/log-sessions''
       (BuildCreateSessionRequestBody lib request) (Some ''application/json'') None st)"

definition simple_call ::
    "'st Network \<Rightarrow> DaemonEndpoint \<Rightarrow> HttpVerb \<Rightarrow> string \<Rightarrow> 'st \<Rightarrow> string option \<times> 'st" where
  "simple_call network endpoint method target st =
     ok_body (PerformHttpRequest network endpoint method target [] None None st)"

definition ListSessions_client ::
    "JsonLib \<Rightarrow> 'st Network \<Rightarrow> DaemonEndpoint \<Rightarrow> 'st \<Rightarrow> ListedSession list option \<times> 'st" where
  "ListSessions_client lib network endpoint st =
     map_prod (map_option (ParseSessionList lib)) id (simple_call network endpoint VerbGet ''/sessions'' st)"

definition GetSessionSnapshot :: "'st Network \<Rightarrow> DaemonEndpoint \<Rightarrow> string \<Rightarrow> 'st \<Rightarrow> string option \<times> 'st" where
  "GetSessionSnapshot network endpoint session_id st =
     simple_call network endpoint VerbGet (''/sessions/'' @ session_id @ ''/snapshot'') st"

definition StopSession_client :: "'st Network \<Rightarrow> DaemonEndpoint \<Rightarrow> string \<Rightarrow> 'st \<Rightarrow> string option \<times> 'st" where
  "StopSession_client network endpoint session_id st =
     simple_call network endpoint VerbPost (''/host/sessions/'' @ session_id @ ''/stop'') st"

definition ClearInactiveSessions_client :: "'st Network \<Rightarrow> DaemonEndpoint \<Rightarrow> 'st \<Rightarrow> string option \<times> 'st" where
  "ClearInactiveSessions_client network endpoint st =
     simple_call network endpoint VerbPost ''/host/sessions/clear-inactive'' st"

definition GetHostInfo :: "'st Network \<Rightarrow> DaemonEndpoint \<Rightarrow> 'st \<Rightarrow> string option \<times> 'st" where
  "GetHostInfo network endpoint st = simple_call network endpoint VerbGet ''/host/info'' st"

definition GetSessionEnv :: "'st Network \<Rightarrow> DaemonEndpoint \<Rightarrow> string \<Rightarrow> 'st \<Rightarrow> string option \<times> 'st" where
  "GetSessionEnv network endpoint session_id st =
     simple_call network endpoint VerbGet (''/sessions/'' @ session_id @ ''/env'') st"

definition GetEvidence ::
    "(string \<Rightarrow> string option) \<Rightarrow> 'st Network \<Rightarrow> DaemonEndpoint \<Rightarrow> EvidenceCliRequest \<Rightarrow> 'st \<Rightarrow> string option \<times> 'st" where
  "GetEvidence getenv network endpoint request st =
     (case BuildEvidenceTarget request of
        None \<Rightarrow> (None, st)
      | Some target \<Rightarrow>
          ok_body (PerformHttpRequest network endpoint VerbGet target [] None (ActorSessionIdFromEnvironment getenv) st))"

definition ListObservations :: "'st Network \<Rightarrow> DaemonEndpoint \<Rightarrow> nat \<Rightarrow> 'st \<Rightarrow> string option \<times> 'st" where
  "ListObservations network endpoint limit st =
     simple_call network endpoint VerbGet (''/observations?limit='' @ nat_to_string limit) st"

definition ListRecords ::
    "JsonLib \<Rightarrow> 'st Network \<Rightarrow> DaemonEndpoint \<Rightarrow> 'st \<Rightarrow> ListedRecord list option \<times> 'st" where
  "ListRecords lib network endpoint st =
     map_prod (map_option (ParseRecordList lib)) id (simple_call network endpoint VerbGet ''/host/records'' st)"

definition PostHostConfig :: "'st Network \<Rightarrow> DaemonEndpoint \<Rightarrow> string \<Rightarrow> 'st \<Rightarrow> string option \<times> 'st" where
  "PostHostConfig network endpoint body st =
     ok_body (PerformHttpRequest network endpoint VerbPost ''/host/config'' body (Some ''application/json'') None st)"

definition RequestHubRelayChannel ::
    "JsonLib \<Rightarrow> 'st Network \<Rightarrow> string \<Rightarrow> string \<Rightarrow> string \<Rightarrow> string \<Rightarrow> 'st \<Rightarrow> string option \<times> 'st" where
  "RequestHubRelayChannel lib network hub_url bearer_token host_id session_id st =
     map_prod (\<lambda>body. Option.bind body (ParseRelayChannelId lib)) id
       (ok_body (PerformHttpRequestToBaseUrl network hub_url VerbPost ''/api/v1/relay/request''
          (BuildRelayRequestBody lib host_id session_id) (Some ''application/json'') (Some bearer_token) st))"

section \<open>A query that the client writes\<close>

lemma upper_hex_all: "list_all (\<lambda>n. url_hex_value (upper_hex_digit n) = Some n \<and>
    upper_hex_digit n \<noteq> CHR ''&'' \<and> upper_hex_digit n \<noteq> CHR ''='' \<and> upper_hex_digit n \<noteq> CHR ''?'' \<and> upper_hex_digit n \<noteq> CHR ''/'') [0..<16]"
  by code_simp

lemma upper_hex:
  assumes "n < 16"
  shows "url_hex_value (upper_hex_digit n) = Some n"
    and "upper_hex_digit n \<noteq> CHR ''&''" "upper_hex_digit n \<noteq> CHR ''=''" "upper_hex_digit n \<noteq> CHR ''?''"
    and "upper_hex_digit n \<noteq> CHR ''/''"
  using bspec [OF upper_hex_all [unfolded list_all_iff set_upt], of n] assms by simp_all

lemma byte_nibbles: "byte c div 16 < 16" "byte c mod 16 < 16" "char_of (byte c div 16 * 16 + byte c mod 16) = c"
  using byte_less [of c] by (simp_all add: less_mult_imp_div_less byte_def)

lemma unreserved_plain: "is_unreserved c \<Longrightarrow> c \<notin> {CHR ''%'', CHR ''+'', CHR ''&'', CHR ''='', CHR ''?'', CHR ''/''}"
  by (auto simp: is_unreserved_def char_class_defs byte_def)

lemma UrlDecode_cli_char: "UrlDecode (cli_encode_char c @ s) = map_option (Cons c) (UrlDecode s)"
  using byte_nibbles [of c] unreserved_plain [of c] by (simp add: cli_encode_char_def upper_hex)

lemma UrlDecode_UrlEncode: "UrlDecode (UrlEncode s) = Some s"
  by (induction s) (simp_all add: UrlEncode_def UrlDecode_cli_char)

lemma UrlEncode_chars: "c \<in> set (UrlEncode s) \<Longrightarrow> c \<notin> {CHR ''&'', CHR ''='', CHR ''?'', CHR ''/''}"
proof -
  assume "c \<in> set (UrlEncode s)"
  then obtain d where "c \<in> set (cli_encode_char d)" by (auto simp: UrlEncode_def)
  then show ?thesis
    using upper_hex(2-5) [OF byte_nibbles(1), of d] upper_hex(2-5) [OF byte_nibbles(2), of d] unreserved_plain [of d]
    by (auto simp: cli_encode_char_def split: if_splits)
qed

lemma UrlEncode_unreserved: "list_all is_unreserved s \<Longrightarrow> UrlEncode s = s"
  by (induction s) (simp_all add: UrlEncode_def cli_encode_char_def)

lemma UrlEncode_nonempty: "UrlEncode s = [] \<longleftrightarrow> s = []"
  by (cases s) (simp_all add: UrlEncode_def cli_encode_char_def)

lemma UrlEncode_number [simp]: "UrlEncode (nat_to_string n) = nat_to_string n"
  using nat_to_string_digits [of n] by (intro UrlEncode_unreserved) (auto simp: list_all_iff is_unreserved_def)

lemma query_text_head: "query_text separator params = [] \<or> (\<exists>q. query_text separator params = separator # q)"
  by (cases params) auto

lemma query_scan_text:
  assumes "\<forall>k \<in> fst ` set params. CHR ''='' \<notin> set k \<and> CHR ''&'' \<notin> set k"
  shows "query_scan key (tl (query_text separator params)) =
    (case map_of params key of None \<Rightarrow> [] | Some v \<Rightarrow> UrlEncode v)"
  using assms
proof (induction params arbitrary: separator)
  case Nil
  then show ?case by (simp add: query_scan_empty)
next
  case (Cons kv params)
  obtain k v where kv: "kv = (k, v)" by fastforce
  have plain: "CHR ''='' \<notin> set k" "CHR ''&'' \<notin> set k" using Cons.prems by (auto simp: kv)
  let ?item = "k @ CHR ''='' # UrlEncode v" and ?rest = "query_text (CHR ''&'') params"
  have inside: "c \<in> set ?item \<Longrightarrow> c \<noteq> CHR ''&''" for c using plain UrlEncode_chars by fastforce
  have item: "takeWhile (\<lambda>c. c \<noteq> CHR ''&'') (?item @ ?rest) = ?item"
    using query_text_head [of "CHR ''&''" params] inside
    by (elim disjE exE) (simp_all only: append_Nil2 takeWhile_eq_all_conv takeWhile_stop, simp_all)
  have name: "takeWhile (\<lambda>c. c \<noteq> CHR ''='') ?item = k" using plain by (intro takeWhile_stop) auto
  have more: "query_scan key (tl ?rest) = (case map_of params key of None \<Rightarrow> [] | Some v \<Rightarrow> UrlEncode v)"
    using Cons.prems by (intro Cons.IH) auto
  have "query_scan key (?item @ ?rest) = (if k = key then UrlEncode v else query_scan key (tl ?rest))"
    using query_text_head [of "CHR ''&''" params] item name
    by (subst query_scan.simps) (auto simp: Let_def query_scan_empty)
  then show ?case using more by (simp add: kv)
qed

lemma ParseQueryValue_text:
  assumes "CHR ''?'' \<notin> set p" "\<forall>k \<in> fst ` set params. CHR ''='' \<notin> set k \<and> CHR ''&'' \<notin> set k"
  shows "ParseQueryValue (p @ query_text (CHR ''?'') params) key =
    (case map_of params key of None \<Rightarrow> [] | Some v \<Rightarrow> UrlEncode v)"
  using query_text_head [of "CHR ''?''" params] query_scan_text [OF assms(2), of key "CHR ''?''"]
  by (elim disjE exE) (simp_all add: ParseQueryValue_def find_char_absent find_first_question assms(1) query_scan_empty)

definition evidence_numbers_ok :: "EvidenceCliRequest \<Rightarrow> bool" where
  "evidence_numbers_ok r \<longleftrightarrow>
     list_all (\<lambda>v. case v of None \<Rightarrow> True | Some n \<Rightarrow> n < u64_modulus)
       [eq_lines r, eq_revision_start r, eq_revision_end r, eq_revision r, eq_before r, eq_after r, eq_limit r]"

text \<open>What a request asks the manager for, with the server's defaults; the outer \<open>None\<close> is an exception.\<close>

definition asked_evidence ::
    "EvidenceCliRequest \<Rightarrow> ('p, 'vt, 'l, 's) SessionManager \<Rightarrow> EvidenceResult option option" where
  "asked_evidence r m =
     (let session_id = eq_session_id r in
      if eq_operation r = ''tail'' then Some (TailEvidence session_id (or_default 200 (eq_lines r)) m)
      else if eq_operation r = ''search''
      then Some (SearchEvidence session_id (or_default [] (eq_query r)) (or_default 200 (eq_limit r)) m)
      else if eq_operation r = ''range''
      then Some (RangeEvidence session_id (or_default 0 (eq_revision_start r)) (or_default 0 (eq_revision_end r))
                   (or_default 200 (eq_limit r)) m)
      else thrown (ContextEvidence session_id (or_default 0 (eq_revision r)) (or_default 80 (eq_before r))
                     (or_default 120 (eq_after r)) m))"

lemma parsed_number:
  assumes "ParseQueryValue target key = (case v of None \<Rightarrow> [] | Some n \<Rightarrow> nat_to_string n)"
    and "case v of None \<Rightarrow> True | Some n \<Rightarrow> n < u64_modulus"
  shows "ParseSizeQueryValue target key d = Some (or_default d v)"
    and "ParseRequiredRevisionQueryValue target key = v"
  using assms nat_to_string_nonempty
  by (cases v; simp add: ParseSizeQueryValue_def ParseRequiredRevisionQueryValue_def stoull_printed or_default_def)+

lemma evidence_target_shape:
  assumes "BuildEvidenceTarget r = Some target" "list_all is_unreserved (eq_session_id r)"
  obtains params where "evidence_parameters r = Some params" "eq_operation r \<in> set evidence_operations"
    and "target = evidence_path (eq_session_id r) (eq_operation r) @ query_text (CHR ''?'') params"
proof -
  obtain params where params: "evidence_parameters r = Some params"
    and target: "target = ''/sessions/'' @ UrlEncode (eq_session_id r) @ ''/evidence/'' @ UrlEncode (eq_operation r)
      @ query_text (CHR ''?'') params"
    using assms(1) by (auto simp: BuildEvidenceTarget_def split: if_splits)
  have op: "eq_operation r \<in> set evidence_operations"
    using params by (auto simp: evidence_parameters_def evidence_operations_def split: if_splits)
  have "list_all is_unreserved w" if "w \<in> set evidence_operations" for w
    using that by (auto simp: evidence_operations_def is_unreserved_def char_class_defs byte_def)
  then have "UrlEncode (eq_operation r) = eq_operation r" using op by (intro UrlEncode_unreserved)
  then show ?thesis
    using that [OF params op] target UrlEncode_unreserved [OF assms(2)] by (simp add: evidence_path_def)
qed

lemma map_of_number_parameter [simp]:
  "map_of (number_parameter k v) key = (if key = k then map_option nat_to_string v else None)"
  "(m ++ map_of (number_parameter k v)) key =
     (if key = k \<and> v \<noteq> None then map_option nat_to_string v else m key)"
  by (auto simp: number_parameter_def map_add_def split: option.splits)

lemma printed_option [simp]:
  "(case v of None \<Rightarrow> [] | Some n \<Rightarrow> (UrlEncode \<circ> nat_to_string) n) = (case v of None \<Rightarrow> [] | Some n \<Rightarrow> nat_to_string n)"
  by (cases v) simp_all

lemma evidence_keys_plain:
  assumes "evidence_parameters r = Some params"
  shows "\<forall>k \<in> fst ` set params. CHR ''='' \<notin> set k \<and> CHR ''&'' \<notin> set k"
  using assms by (auto simp: evidence_parameters_def number_parameter_def split: if_splits option.splits)

lemma query_evidence_asked:
  assumes params: "evidence_parameters r = Some params" and query: "eq_query r \<noteq> Some []"
    and numbers: "evidence_numbers_ok r" and "CHR ''?'' \<notin> set p"
  defines "target \<equiv> p @ query_text (CHR ''?'') params"
  shows "query_evidence (eq_operation r) target (eq_session_id r) m = Inr (asked_evidence r m)"
    and "ParseBoolQueryValue target ''persist'' False = Some False" "evidence_title target = Some None"
proof -
  have scan: "ParseQueryValue target key = (case map_of params key of None \<Rightarrow> [] | Some v \<Rightarrow> UrlEncode v)" for key
    unfolding target_def by (rule ParseQueryValue_text [OF assms(4) evidence_keys_plain [OF params]])
  note shape = params [unfolded evidence_parameters_def]
  have absent: "map_of params ''persist'' = None" "map_of params ''title'' = None"
    using shape by (auto split: if_splits option.splits)
  show "ParseBoolQueryValue target ''persist'' False = Some False" "evidence_title target = Some None"
    by (simp_all add: ParseBoolQueryValue_def evidence_title_def scan absent)
  note ok = numbers [unfolded evidence_numbers_ok_def, simplified]
  consider (tail) "eq_operation r = ''tail''" | (search) "eq_operation r = ''search''"
    | (range) "eq_operation r = ''range''" | (ctx) "eq_operation r = ''context''"
    using shape by (auto split: if_splits)
  then show "query_evidence (eq_operation r) target (eq_session_id r) m = Inr (asked_evidence r m)"
  proof cases
    case tail
    then have "params = number_parameter ''lines'' (eq_lines r)" using shape by simp
    then have "ParseSizeQueryValue target ''lines'' 200 = Some (or_default 200 (eq_lines r))"
      using ok by (intro parsed_number) (simp_all add: scan)
    with tail show ?thesis by (simp add: query_evidence_def asked_evidence_def Let_def)
  next
    case search
    then obtain q where q: "eq_query r = Some q" "params = (''query'', q) # number_parameter ''limit'' (eq_limit r)"
      using shape by (auto split: option.splits)
    then have "ParseSizeQueryValue target ''limit'' 200 = Some (or_default 200 (eq_limit r))"
      using ok by (intro parsed_number) (simp_all add: scan)
    moreover have "ParseQueryValue target ''query'' = UrlEncode q" "q \<noteq> []" using q query by (simp_all add: scan)
    ultimately show ?thesis
      using search q(1) by (simp add: query_evidence_def asked_evidence_def Let_def UrlDecode_UrlEncode UrlEncode_nonempty or_default_def)
  next
    case range
    then obtain a b where ab: "eq_revision_start r = Some a" "eq_revision_end r = Some b"
      and p: "params = number_parameter ''start'' (eq_revision_start r) @ number_parameter ''end'' (eq_revision_end r)
        @ number_parameter ''limit'' (eq_limit r)"
      using shape by (auto split: if_splits)
    have "ParseSizeQueryValue target ''limit'' 200 = Some (or_default 200 (eq_limit r))"
      "ParseRequiredRevisionQueryValue target ''start'' = eq_revision_start r"
      "ParseRequiredRevisionQueryValue target ''end'' = eq_revision_end r"
      using ok ab by (intro parsed_number; simp add: scan p)+
    with range ab show ?thesis by (simp add: query_evidence_def asked_evidence_def Let_def or_default_def)
  next
    case ctx
    then obtain a where a: "eq_revision r = Some a"
      and p: "params = number_parameter ''revision'' (eq_revision r) @ number_parameter ''before'' (eq_before r)
        @ number_parameter ''after'' (eq_after r)"
      using shape by (auto split: if_splits)
    have "ParseSizeQueryValue target ''before'' 80 = Some (or_default 80 (eq_before r))"
      "ParseSizeQueryValue target ''after'' 120 = Some (or_default 120 (eq_after r))"
      "ParseRequiredRevisionQueryValue target ''revision'' = eq_revision r"
      using ok a by (intro parsed_number; simp add: scan p)+
    with ctx a show ?thesis by (simp add: query_evidence_def asked_evidence_def Let_def or_default_def)
  qed
qed

text \<open>Claim C13: a question that the command line asks about the evidence of a session is the question that the manager
  answers: for every operation, the target that the client builds is routed to the evidence of that session, the
  search text comes back from the percent encoding as it was typed whatever characters it has, every number is the one
  given, and what was left out has the server's default; nothing is stored. The session is named in unreserved
  characters, as the daemon names its sessions, the numbers are 64-bit numbers, and a text that is searched for is not
  empty: the client sends an empty one too, and the daemon refuses it.\<close>

theorem evidence_cli_reaches_manager:
  assumes "BuildEvidenceTarget r = Some (hq_target request)" "hq_method request = VerbGet"
    and "list_all is_unreserved (eq_session_id r)" "eq_query r \<noteq> Some []" "evidence_numbers_ok r"
  shows "HandleRequest env ctx request s =
    unless_refused (RequireAuthorization (he_lib env) request ctx ObserveSessions (hs_disk s)) s
      (case asked_evidence r (hs_manager s) of
         None \<Rightarrow> None
       | Some None \<Rightarrow> Some (error_response request 404 ''session not found'', s)
       | Some (Some evidence) \<Rightarrow>
           Some (FinalizeEvidenceResponse env ctx request evidence False (DefaultStoredEvidenceTitle evidence) s))"
proof -
  obtain params where params: "evidence_parameters r = Some params" "eq_operation r \<in> set evidence_operations"
    and target: "hq_target request = evidence_path (eq_session_id r) (eq_operation r) @ query_text (CHR ''?'') params"
    by (rule evidence_target_shape [OF assms(1,3)])
  have plain: "plain_name (eq_session_id r)"
    using assms(3) unreserved_plain by (fastforce simp: plain_name_def list_all_iff)
  note asked = query_evidence_asked [OF params(1) assms(4,5) evidence_path_facts(1) [OF plain params(2)], folded target]
  have "HandleRequest env ctx request s =
      HandleEvidenceRequest env ctx request (eq_session_id r) (eq_operation r) (hq_target request) s"
    using query_text_head by (intro evidence_route [OF plain params(2) assms(2) target])
  then show ?thesis by (simp add: HandleEvidenceRequest_def assms(2) asked or_default_def cong: option.case_cong)
qed

section \<open>A response that arrives in pieces\<close>

text \<open>What the library of the daemon writes for a response: the fields, the length that \<open>prepare_payload\<close> announces
  as the last of them, and the body. The phrase of a status is the library's.\<close>

definition header_text :: "string \<times> string \<Rightarrow> string" where
  "header_text nv = fst nv @ '': '' @ snd nv"

definition header_lines :: "string \<Rightarrow> HttpResponse \<Rightarrow> string list" where
  "header_lines phrase r = (''HTTP/1.1 '' @ nat_to_string (hr_status r) @ '' '' @ phrase) # map header_text (hr_fields r)"

definition length_line :: "HttpResponse \<Rightarrow> string" where
  "length_line r = header_text (''Content-Length'', nat_to_string (length (hr_body r)))"

definition header_block :: "string \<Rightarrow> HttpResponse \<Rightarrow> string" where
  "header_block phrase r = concat (map (\<lambda>l. l @ crlf) (header_lines phrase r)) @ length_line r"

definition response_wire :: "string \<Rightarrow> HttpResponse \<Rightarrow> string" where
  "response_wire phrase r = header_block phrase r @ crlf @ crlf @ hr_body r"

definition one_line :: "string \<Rightarrow> bool" where
  "one_line s \<longleftrightarrow> ch_cr \<notin> set s \<and> ch_nl \<notin> set s"

definition sendable_response :: "string \<Rightarrow> HttpResponse \<Rightarrow> bool" where
  "sendable_response phrase r \<longleftrightarrow> one_line phrase \<and> hr_status r < 2 ^ 32
     \<and> list_all (\<lambda>(n, v). one_line n \<and> one_line v \<and> CHR '':'' \<notin> set n \<and> n \<noteq> ''Content-Length'') (hr_fields r)"

definition writable_response :: "string \<Rightarrow> HttpResponse \<Rightarrow> bool" where
  "writable_response phrase r \<longleftrightarrow> sendable_response phrase r \<and> length (hr_body r) < u64_modulus"

lemma find_first_skip:
  "p = c # cs \<Longrightarrow> c \<notin> set l \<Longrightarrow> find_first p (l @ t) = map_option (\<lambda>i. length l + i) (find_first p t)"
proof (induction l)
  case Nil
  then show ?case by (cases "find_first p t") simp_all
next
  case (Cons d l)
  then have "\<not> starts_with (d # l @ t) p" by (auto simp: starts_with_def)
  then show ?case using Cons by (cases "find_first p t") simp_all
qed

lemma crlf_chars: "crlf @ s = ch_cr # ch_nl # s" "crlf @ crlf = [ch_cr, ch_nl, ch_cr, ch_nl]" "ch_cr \<noteq> ch_nl" "ch_nl \<noteq> ch_cr"
  by (simp_all add: crlf_def)

lemma find_header_end:
  assumes "\<forall>l \<in> set (front @ [l]). l \<noteq> [] \<and> one_line l"
  shows "find_first (crlf @ crlf) (concat (map (\<lambda>l. l @ crlf) front) @ l @ crlf @ crlf @ t) =
    Some (length (concat (map (\<lambda>l. l @ crlf) front) @ l))"
  using assms
proof (induction front)
  case Nil
  have "find_first (crlf @ crlf) (l @ crlf @ crlf @ t) =
      map_option (\<lambda>i. length l + i) (find_first (crlf @ crlf) (crlf @ crlf @ t))"
    using Nil by (intro find_first_skip) (auto simp: crlf_def one_line_def)
  also have "find_first (crlf @ crlf) (crlf @ crlf @ t) = Some 0"
    by (simp add: crlf_def starts_with_def)
  finally show ?case by simp
next
  case (Cons k front)
  let ?rest = "concat (map (\<lambda>l. l @ crlf) front) @ l @ crlf @ crlf @ t"
  obtain c cs where c: "?rest = c # cs" "c \<noteq> ch_cr"
    using Cons.prems by (cases front; cases l; cases "hd front") (auto simp: one_line_def)
  have "find_first (crlf @ crlf) (k @ crlf @ ?rest) = map_option (\<lambda>i. length k + i) (find_first (crlf @ crlf) (crlf @ ?rest))"
    using Cons.prems by (intro find_first_skip) (auto simp: crlf_def one_line_def)
  also have "find_first (crlf @ crlf) (crlf @ ?rest) = map_option (\<lambda>i. 2 + i) (find_first (crlf @ crlf) ?rest)"
    unfolding c(1) using c(2) by (auto simp: crlf_def starts_with_def option.map_comp o_def)
  finally show ?case using Cons by (simp add: crlf_def)
qed

lemma header_block_end:
  assumes "sendable_response phrase r"
  shows "find_first (crlf @ crlf) (response_wire phrase r) = Some (length (header_block phrase r))"
proof -
  have digits: "one_line (nat_to_string n)" for n
    using nat_to_string_digits [of n] by (auto simp: one_line_def list_all_iff char_class_defs byte_def)
  have "\<forall>l \<in> set (header_lines phrase r @ [length_line r]). l \<noteq> [] \<and> one_line l"
    using assms digits by (fastforce simp: header_lines_def length_line_def header_text_def sendable_response_def
        one_line_def list_all_iff)
  then show ?thesis
    using find_header_end [of "header_lines phrase r" "length_line r" "hr_body r"]
    by (simp add: response_wire_def header_block_def)
qed

lemma getlines_char: "c \<noteq> ch_nl \<Longrightarrow> getlines (c # d # ds) =
    (if d = ch_nl then [c] # getlines ds else (c # hd (getlines (d # ds))) # tl (getlines (d # ds)))"
  by (subst getlines.simps) (simp del: getlines.simps)

lemma getlines_cons_line: "ch_nl \<notin> set l \<Longrightarrow> getlines (l @ ch_nl # t) = l # getlines t"
proof (induction l)
  case (Cons c l)
  then show ?case by (cases l) (auto simp: getlines_char simp del: getlines.simps)
qed simp

lemma getlines_last_line: "ch_nl \<notin> set l \<Longrightarrow> l \<noteq> [] \<Longrightarrow> getlines l = [l]"
proof (induction l)
  case (Cons c l)
  show ?case
  proof (cases l)
    case Nil
    with Cons.prems show ?thesis by auto
  next
    case (Cons d ds)
    with Cons.IH Cons.prems show ?thesis by (simp add: getlines_char del: getlines.simps) auto
  qed
qed simp

lemma getlines_crlf_lines:
  assumes "\<forall>l \<in> set front. one_line l" "one_line l" "l \<noteq> []"
  shows "getlines (concat (map (\<lambda>l. l @ crlf) front) @ l) = map (\<lambda>l. l @ [ch_cr]) front @ [l]"
  using assms
proof (induction front)
  case Nil
  then show ?case by (simp add: getlines_last_line one_line_def)
next
  case (Cons k front)
  have "getlines ((k @ [ch_cr]) @ ch_nl # concat (map (\<lambda>l. l @ crlf) front) @ l) =
      (k @ [ch_cr]) # getlines (concat (map (\<lambda>l. l @ crlf) front) @ l)"
    using Cons.prems by (intro getlines_cons_line) (auto simp: one_line_def)
  then show ?case using Cons by (simp add: crlf_def)
qed

lemma pop_cr_simps: "pop_cr (l @ [ch_cr]) = l" "one_line l \<Longrightarrow> pop_cr l = l"
  by (auto simp: pop_cr_def one_line_def dest: last_in_set)

lemma extract_printed: "n < 2 ^ 32 \<Longrightarrow> extract_unsigned ('' '' @ nat_to_string n @ '' '' @ phrase) = Some n"
proof -
  assume small: "n < 2 ^ 32"
  obtain c cs where c: "nat_to_string n = c # cs" using nat_to_string_nonempty by (metis list.exhaust)
  have plain: "\<not> is_space_char c" "c \<noteq> CHR ''-''" "c \<noteq> CHR ''+''" using digits_plain [of c n] by (simp_all add: c)
  have "takeWhile is_digit_char (nat_to_string n @ CHR '' '' # phrase) = nat_to_string n"
    using nat_to_string_digits [of n] by (intro takeWhile_stop) (auto simp: list_all_iff char_class_defs byte_def)
  moreover have "is_space_char (CHR '' '')" by (simp add: char_class_defs byte_def)
  then have "dropWhile is_space_char ('' '' @ nat_to_string n @ '' '' @ phrase) = nat_to_string n @ CHR '' '' # phrase"
    using plain by (simp add: c)
  moreover have "\<not> starts_with (nat_to_string n @ CHR '' '' # phrase) ''-''" "\<not> starts_with (nat_to_string n @ CHR '' '' # phrase) ''+''"
    using plain by (simp_all add: c starts_with_def)
  ultimately show ?thesis
    unfolding extract_unsigned_def Let_def using small nat_to_string_nonempty [of n] by simp
qed

lemma status_line_read:
  "n < 2 ^ 32 \<Longrightarrow> parse_status_line (''HTTP/1.1 '' @ nat_to_string n @ '' '' @ phrase) = Some (''HTTP/1.1'', n)"
  using extract_printed [of n phrase] by (simp add: parse_status_line_def char_class_defs byte_def Let_def)

lemma header_line_read:
  assumes "pop_cr raw = header_text (n, v)" "CHR '':'' \<notin> set n"
  shows "parse_header_lines (raw # raws) len r =
    (if n = ''Content-Length''
     then (case stoull v of None \<Rightarrow> None | Some k \<Rightarrow> parse_header_lines raws k (set_field n v r))
     else parse_header_lines raws len (set_field n v r))"
proof -
  have "takeWhile (\<lambda>c. c \<noteq> CHR '':'') (n @ CHR '':'' # '' '' @ v) = n" using assms(2) by (intro takeWhile_stop) auto
  then show ?thesis by (simp add: assms(1) header_text_def Let_def starts_with_def cong: option.case_cong)
qed

lemma header_lines_read:
  assumes "list_all (\<lambda>(n, v). one_line n \<and> one_line v \<and> CHR '':'' \<notin> set n \<and> n \<noteq> ''Content-Length'') fs"
  shows "parse_header_lines (map (\<lambda>l. l @ [ch_cr]) (map header_text fs) @ raws) len r =
    parse_header_lines raws len (fold (\<lambda>(n, v). set_field n v) fs r)"
  using assms
proof (induction fs arbitrary: r)
  case (Cons nv fs)
  then show ?case
    using header_line_read [of "header_text nv @ [ch_cr]" "fst nv" "snd nv"] by (cases nv) (simp add: pop_cr_simps)
qed simp

definition read_back :: "HttpResponse \<Rightarrow> HttpResponse" where
  "read_back r =
     (fold (\<lambda>(n, v). set_field n v) (hr_fields r @ [(''Content-Length'', nat_to_string (length (hr_body r)))])
        \<lparr>hr_version = 11, hr_keep_alive = False, hr_status = hr_status r, hr_fields = [], hr_body = []\<rparr>)
     \<lparr>hr_body := hr_body r\<rparr>"

lemma header_block_lines:
  assumes "sendable_response phrase r"
  shows "getlines (header_block phrase r) =
    ((''HTTP/1.1 '' @ nat_to_string (hr_status r) @ '' '' @ phrase) @ [ch_cr])
      # map (\<lambda>l. l @ [ch_cr]) (map header_text (hr_fields r)) @ [length_line r]" and "one_line (length_line r)"
proof -
  have digits: "one_line (nat_to_string n)" for n
    using nat_to_string_digits [of n] by (auto simp: one_line_def list_all_iff char_class_defs byte_def)
  have lines: "\<forall>l \<in> set (header_lines phrase r). one_line l" "one_line (length_line r)"
    using assms digits by (fastforce simp: header_lines_def length_line_def header_text_def sendable_response_def
        one_line_def list_all_iff)+
  then show "one_line (length_line r)" by simp
  show "getlines (header_block phrase r) =
    ((''HTTP/1.1 '' @ nat_to_string (hr_status r) @ '' '' @ phrase) @ [ch_cr])
      # map (\<lambda>l. l @ [ch_cr]) (map header_text (hr_fields r)) @ [length_line r]"
    using getlines_crlf_lines [OF lines]
    by (simp add: header_block_def header_lines_def length_line_def header_text_def)
qed

lemma header_fields_read:
  assumes "sendable_response phrase r"
  shows "parse_header_lines (map (\<lambda>l. l @ [ch_cr]) (map header_text (hr_fields r)) @ [length_line r]) len
      \<lparr>hr_version = 11, hr_keep_alive = False, hr_status = hr_status r, hr_fields = [], hr_body = []\<rparr> =
    (if length (hr_body r) < u64_modulus then Some (length (hr_body r), (read_back r)\<lparr>hr_body := []\<rparr>) else None)"
proof -
  have "pop_cr (length_line r) = header_text (''Content-Length'', nat_to_string (length (hr_body r)))"
    using pop_cr_simps(2) [OF header_block_lines(2) [OF assms]] by (simp add: length_line_def)
  from header_line_read [OF this, of "[]"]
  have "parse_header_lines [length_line r] len q =
      (if length (hr_body r) < u64_modulus
       then Some (length (hr_body r), set_field ''Content-Length'' (nat_to_string (length (hr_body r))) q) else None)" for q
    by (simp add: stoull_number del: parse_header_lines.simps(2))
  moreover note header_lines_read [of "hr_fields r" "[length_line r]" len]
  moreover have "(read_back r)\<lparr>hr_body := []\<rparr> =
      fold (\<lambda>(n, v). set_field n v) (hr_fields r @ [(''Content-Length'', nat_to_string (length (hr_body r)))])
        \<lparr>hr_version = 11, hr_keep_alive = False, hr_status = hr_status r, hr_fields = [], hr_body = []\<rparr>"
  proof -
    have kept: "hr_body (fold (\<lambda>(n, v). set_field n v) fs q) = hr_body q" for fs and q :: HttpResponse
      by (induction fs arbitrary: q) (auto simp: set_field_def)
    have same: "q\<lparr>hr_body := b, hr_body := []\<rparr> = q" if "hr_body q = []" for q :: HttpResponse and b
      using that by (cases q) simp
    show ?thesis unfolding read_back_def by (rule same) (simp add: kept del: fold_append)
  qed
  ultimately show ?thesis
    using assms by (simp add: sendable_response_def del: parse_header_lines.simps map_map)
qed

lemma find_first_prefix:
  assumes "find_first p y = Some j" "prefix x y" "find_first p x = Some i"
  shows "i = j"
proof -
  obtain t where y: "y = x @ t" using assms(2) by (auto simp: prefix_def)
  note x_at = find_first_Some [OF assms(3)] and y_at = find_first_Some [OF assms(1)]
  have occurs: "starts_with (drop k y) p \<longleftrightarrow> starts_with (drop k x) p" if "k + length p \<le> length x" for k
    using that by (simp add: y starts_with_def)
  have "j \<le> i" using x_at y_at occurs [of i] by (meson linorder_not_less)
  then have "starts_with (drop j x) p" using x_at y_at occurs [of j] by simp
  then show ?thesis using \<open>j \<le> i\<close> x_at by (metis order_le_less)
qed

lemma ParseHttpResponse_part:
  assumes "sendable_response phrase r" "prefix part (response_wire phrase r)"
  shows "ParseHttpResponse part =
    (if part = response_wire phrase r \<and> length (hr_body r) < u64_modulus then Some (read_back r) else None)"
proof (cases "find_first (crlf @ crlf) part")
  case None
  then have "part \<noteq> response_wire phrase r" using header_block_end [OF assms(1)] by auto
  with None show ?thesis by (simp add: ParseHttpResponse_def)
next
  case (Some i)
  let ?block = "header_block phrase r"
  have i: "i = length ?block" using find_first_prefix [OF header_block_end [OF assms(1)] assms(2) Some] .
  define front where "front = ?block @ crlf @ crlf"
  have front: "length front = length ?block + 4" "response_wire phrase r = front @ hr_body r"
    by (simp_all add: front_def crlf_def response_wire_def)
  have "length front \<le> length part" using find_first_Some [OF Some] by (simp add: i front(1) crlf_def)
  moreover have "take (length part) (response_wire phrase r) = part" using assms(2) by (auto simp: prefix_def)
  ultimately have taken: "part = front @ take (length part - length front) (hr_body r)" by (simp add: front(2))
  define body where "body = take (length part - length front) (hr_body r)"
  have part: "part = ?block @ crlf @ crlf @ body" and body: "prefix body (hr_body r)"
    using taken by (simp_all add: body_def front_def take_is_prefix)
  define status where "status = ''HTTP/1.1 '' @ nat_to_string (hr_status r) @ '' '' @ phrase"
  note lines = header_block_lines(1) [OF assms(1), folded status_def]
  have status: "parse_status_line status = Some (''HTTP/1.1'', hr_status r)"
    using status_line_read [of "hr_status r" phrase] assms(1) by (simp add: status_def sendable_response_def)
  have parts: "take i part = ?block" "drop (i + 4) part = body" by (simp_all add: i part crlf_def)
  have "ParseHttpResponse part =
      (if \<not> length (hr_body r) < u64_modulus \<or> length body < length (hr_body r) then None
       else Some ((read_back r)\<lparr>hr_body := take (length (hr_body r)) body\<rparr>))"
    unfolding ParseHttpResponse_def Some Let_def parts lines option.case list.case pop_cr_simps(1) status prod.case
    by (simp add: header_fields_read [OF assms(1)] read_back_def del: parse_header_lines.simps map_map fold_append)
  moreover have "length body < length (hr_body r) \<longleftrightarrow> body \<noteq> hr_body r"
    using body by (metis prefix_length_less order_less_irrefl prefix_order.le_neq_trans)
  moreover have "part = response_wire phrase r \<longleftrightarrow> body = hr_body r" by (simp add: part response_wire_def)
  moreover have "(read_back r)\<lparr>hr_body := hr_body r\<rparr> = read_back r" by (simp add: read_back_def)
  ultimately show ?thesis by auto
qed

lemma receive_parts:
  assumes "sendable_response phrase r" "prefix (acc @ concat reads) (response_wire phrase r)"
  shows "receive_response acc (map Received reads @ EndOfStream # events) =
    (if acc @ concat reads = response_wire phrase r \<and> length (hr_body r) < u64_modulus then Some (read_back r) else None)"
  using assms(2)
proof (induction reads arbitrary: acc)
  case Nil
  then show ?case by (simp add: ParseHttpResponse_part [OF assms(1)])
next
  case (Cons data reads)
  have more: "prefix ((acc @ data) @ concat reads) (response_wire phrase r)" using Cons.prems by simp
  then have "prefix (acc @ data) (response_wire phrase r)" by (rule append_prefixD)
  note part = ParseHttpResponse_part [OF assms(1) this]
  show ?case
  proof (cases "data \<noteq> [] \<and> acc @ data = response_wire phrase r")
    case True
    then have "concat reads = []" using more by (simp only: same_prefix_nil)
    with True have "acc @ data @ concat reads = response_wire phrase r" by (simp only: append_Nil2)
    with True part Cons.IH [OF more] show ?thesis by (simp add: Let_def)
  next
    case False
    then show ?thesis using Cons.IH [OF more] part by (auto simp: Let_def)
  qed
qed

lemma receive_whole:
  assumes "sendable_response phrase r" "length (hr_body r) < u64_modulus"
    and "acc @ concat reads = response_wire phrase r" "acc \<noteq> response_wire phrase r"
  shows "receive_response acc (map Received reads @ events) = Some (read_back r)"
  using assms(3,4)
proof (induction reads arbitrary: acc)
  case (Cons data reads)
  have more: "(acc @ data) @ concat reads = response_wire phrase r" using Cons.prems(1) by simp
  then have part: "ParseHttpResponse (acc @ data) = (if acc @ data = response_wire phrase r then Some (read_back r) else None)"
    using ParseHttpResponse_part [OF assms(1), of "acc @ data"] assms(2) by (metis prefixI)
  show ?case
  proof (cases "acc @ data = response_wire phrase r")
    case True
    then have "data \<noteq> []" using Cons.prems(2) by auto
    with True part show ?thesis by (simp add: Let_def)
  next
    case False
    with part Cons.IH [OF more] show ?thesis by (cases "data = []") (simp_all add: Let_def)
  qed
qed simp

lemma receive_cut_short:
  assumes "sendable_response phrase r" "strict_prefix (acc @ concat reads) (response_wire phrase r)"
  shows "receive_response acc (map Received reads @ events) = receive_response (acc @ concat reads) events"
  using assms(2)
proof (induction reads arbitrary: acc)
  case (Cons data reads)
  have more: "strict_prefix ((acc @ data) @ concat reads) (response_wire phrase r)" using Cons.prems by simp
  then have "prefix (acc @ data) (response_wire phrase r)" "acc @ data \<noteq> response_wire phrase r"
    by (auto simp: strict_prefix_def prefix_def)
  then have "ParseHttpResponse (acc @ data) = None" using ParseHttpResponse_part [OF assms(1)] by simp
  with Cons.IH [OF more] show ?case by (cases "data = []") (simp_all add: Let_def)
qed simp

lemma read_back_parts [simp]: "hr_status (read_back r) = hr_status r" "hr_body (read_back r) = hr_body r"
proof -
  have "hr_status (fold (\<lambda>(n, v). set_field n v) fs x) = hr_status x" for fs and x :: HttpResponse
    by (induction fs arbitrary: x) (auto simp: set_field_def)
  then show "hr_status (read_back r) = hr_status r" by (simp add: read_back_def del: fold_append)
qed (simp add: read_back_def)

text \<open>Claim C14: however the connection cuts a response into reads, the client gives its caller the status and the body
  that the daemon wrote as soon as all of it is there, whatever the connection does afterwards: it may end, fail, stay
  open without a word or carry more. When the connection ends, fails or falls silent before that, the client gives
  nothing: a part of a response is never taken for an answer.\<close>

theorem response_reassembled:
  assumes "writable_response phrase r" "prefix (concat reads) (response_wire phrase r)"
  shows "if concat reads = response_wire phrase r
    then \<forall>events. map_option (\<lambda>x. (hr_status x, hr_body x)) (receive_response [] (map Received reads @ events)) =
      Some (hr_status r, hr_body r)
    else receive_response [] (map Received reads) = None
      \<and> (\<forall>events. receive_response [] (map Received reads @ EndOfStream # events) = None
        \<and> receive_response [] (map Received reads @ ReadFailed # events) = None)"
proof -
  have ok: "sendable_response phrase r" "length (hr_body r) < u64_modulus"
    using assms(1) by (simp_all add: writable_response_def)
  show ?thesis
  proof (cases "concat reads = response_wire phrase r")
    case True
    then have "[] @ concat reads = response_wire phrase r" "[] \<noteq> response_wire phrase r"
      by (simp_all add: response_wire_def crlf_def)
    note receive_whole [OF ok this]
    with True show ?thesis by simp
  next
    case False
    then have cut: "receive_response [] (map Received reads @ events) = receive_response (concat reads) events" for events
      using receive_cut_short [OF ok(1), of "[]" reads events] assms(2) by (simp add: strict_prefix_def)
    have "ParseHttpResponse (concat reads) = None"
      using ParseHttpResponse_part [OF ok(1) assms(2)] False by simp
    with False cut cut [of "[]"] show ?thesis by simp
  qed
qed

definition demo_response :: HttpResponse where
  "demo_response = \<lparr>hr_version = 11, hr_keep_alive = False, hr_status = 200,
     hr_fields = [(''Content-Type'', ''text/plain'')], hr_body = ''ok'' @ [ch_cr, ch_nl, ch_cr, ch_nl] @ ''!''\<rparr>"

theorem response_reassembled_witness:
  "map_option (\<lambda>x. (hr_status x, hr_body x))
     (receive_response [] (map Received [take 20 (response_wire ''OK'' demo_response), [], drop 20 (response_wire ''OK'' demo_response)]
        @ [Received ''HTTP/1.1 500''])) = Some (200, hr_body demo_response)
   \<and> receive_response [] (map Received [butlast (response_wire ''OK'' demo_response)] @ [EndOfStream]) = None"
proof -
  let ?reads = "[take 20 (response_wire ''OK'' demo_response), [], drop 20 (response_wire ''OK'' demo_response)]"
    and ?cut = "[butlast (response_wire ''OK'' demo_response)]"
  have ok: "writable_response ''OK'' demo_response"
    by (simp add: writable_response_def sendable_response_def demo_response_def one_line_def)
  have "concat ?reads = response_wire ''OK'' demo_response" by simp
  with response_reassembled [OF ok, of ?reads]
  have "map_option (\<lambda>x. (hr_status x, hr_body x)) (receive_response [] (map Received ?reads @ [Received ''HTTP/1.1 500''])) =
      Some (hr_status demo_response, hr_body demo_response)" by (simp only: if_True prefix_order.refl)
  moreover have "response_wire ''OK'' demo_response \<noteq> []" by (simp add: response_wire_def crlf_def)
  then have "concat ?cut \<noteq> response_wire ''OK'' demo_response" "prefix (concat ?cut) (response_wire ''OK'' demo_response)"
    by (cases "response_wire ''OK'' demo_response" rule: rev_cases; simp)+
  with response_reassembled [OF ok, of ?cut]
  have "receive_response [] (map Received ?cut @ [EndOfStream]) = None" by (simp only: if_False)
  ultimately show ?thesis by (simp del: receive_response.simps) (simp add: demo_response_def)
qed

definition demo_question :: EvidenceCliRequest where
  "demo_question = \<lparr>eq_session_id = ''s_1'', eq_operation = ''search'', eq_lines = None, eq_query = Some ''50% + a&b=c?'',
     eq_revision_start = None, eq_revision_end = None, eq_revision = None, eq_before = None, eq_after = None, eq_limit = Some 3\<rparr>"

definition demo_request :: HttpRequest where
  "demo_request = \<lparr>hq_method = VerbGet, hq_target = ''/sessions/s_1/evidence/search?query=50%25%20%2B%20a%26b%3Dc%3F&limit=3'',
     hq_version = 11, hq_fields = [], hq_body = []\<rparr>"

theorem evidence_cli_reaches_manager_witness:
  "\<forall>env ctx s. HandleRequest env ctx demo_request s =
    unless_refused (RequireAuthorization (he_lib env) demo_request ctx ObserveSessions (hs_disk s)) s
      (case Some (SearchEvidence ''s_1'' ''50% + a&b=c?'' 3 (hs_manager s)) of
         None \<Rightarrow> None
       | Some None \<Rightarrow> Some (error_response demo_request 404 ''session not found'', s)
       | Some (Some evidence) \<Rightarrow>
           Some (FinalizeEvidenceResponse env ctx demo_request evidence False (DefaultStoredEvidenceTitle evidence) s))"
proof (intro allI)
  fix env :: "('p, 'vt, 'l, 's) HttpEnv" and ctx s
  have "BuildEvidenceTarget demo_question = Some (hq_target demo_request)" by code_simp
  moreover have "hq_method demo_request = VerbGet" "list_all is_unreserved (eq_session_id demo_question)" by code_simp+
  moreover have "eq_query demo_question \<noteq> Some []" "evidence_numbers_ok demo_question"
    by (simp_all add: demo_question_def evidence_numbers_ok_def)
  moreover have "asked_evidence demo_question m = Some (SearchEvidence ''s_1'' ''50% + a&b=c?'' 3 m)"
    for m :: "('p, 'vt, 'l, 's) SessionManager"
    by (simp add: asked_evidence_def demo_question_def or_default_def)
  ultimately show "HandleRequest env ctx demo_request s =
    unless_refused (RequireAuthorization (he_lib env) demo_request ctx ObserveSessions (hs_disk s)) s
      (case Some (SearchEvidence ''s_1'' ''50% + a&b=c?'' 3 (hs_manager s)) of
         None \<Rightarrow> None
       | Some None \<Rightarrow> Some (error_response demo_request 404 ''session not found'', s)
       | Some (Some evidence) \<Rightarrow>
           Some (FinalizeEvidenceResponse env ctx demo_request evidence False (DefaultStoredEvidenceTitle evidence) s))"
    using evidence_cli_reaches_manager [of demo_question demo_request env ctx s] by simp
qed

end
