(* ===== verification/Serve_Log.thy ===== *)
theory Serve_Log
  imports File_System
begin

text \<open>
  The mirror of the daemon's output in \<open>src/main.cpp\<close>: \<open>RotatingFileStreamBuf\<close>, a stream buffer that writes to a
  file and renames it away when it is full, and \<open>TeeStreamBuf\<close>, which sends every character to the console and to
  it. The bytes that an output stream has accepted are taken to be in its file: the buffer of the stream is not
  modelled, so a failure shows at the write that it hits.
\<close>

section \<open>Files that are appended to\<close>

definition open_append :: "path \<Rightarrow> FileSystem \<Rightarrow> bool \<times> FileSystem" where
  "open_append p fs =
     (let (fault, fs1) = next_fault fs in
      if fault \<noteq> None \<or> node_at p fs1 = Some Dir \<or> node_at (butlast p) fs1 \<noteq> Some Dir then (False, fs1)
      else (True, if node_at p fs1 = None then set_node p (File []) fs1 else fs1))"

definition contents :: "path \<Rightarrow> FileSystem \<Rightarrow> string" where
  "contents p fs = (case file_at p fs of None \<Rightarrow> [] | Some d \<Rightarrow> d)"

definition append_data :: "path \<Rightarrow> string \<Rightarrow> FileSystem \<Rightarrow> bool \<times> FileSystem" where
  "append_data p data fs =
     (case next_fault fs of
        (Some n, fs1) \<Rightarrow> (False, set_node p (File (contents p fs1 @ take n data)) fs1)
      | (None, fs1) \<Rightarrow> (True, set_node p (File (contents p fs1 @ data)) fs1))"

section \<open>The rotating file\<close>

text \<open>The stream \<open>output_\<close> is open or not, and good or not.\<close>

record RotatingFile =
  rf_path :: path
  rf_max_bytes :: nat
  rf_max_files :: nat
  rf_is_open :: bool
  rf_good :: bool
  rf_current_size :: nat

definition RotatedPath :: "path \<Rightarrow> nat \<Rightarrow> path" where
  "RotatedPath p index = butlast p @ [last p @ ''.'' @ nat_to_string index]"

definition rf_Open :: "RotatingFile \<Rightarrow> FileSystem \<Rightarrow> RotatingFile \<times> FileSystem" where
  "rf_Open rf fs =
     (let (error, fs1) = create_directories (butlast (rf_path rf)) fs in
      if error then (rf, fs1)
      else
        let (opened, fs2) = open_append (rf_path rf) fs1 in
        if \<not> opened then (rf\<lparr>rf_is_open := False, rf_good := False\<rparr>, fs2)
        else (rf\<lparr>rf_is_open := True, rf_good := True, rf_current_size := length (contents (rf_path rf) fs2)\<rparr>, fs2))"

definition RotatingFile_new :: "path \<Rightarrow> nat \<Rightarrow> nat \<Rightarrow> FileSystem \<Rightarrow> RotatingFile \<times> FileSystem" where
  "RotatingFile_new p max_bytes max_files fs =
     rf_Open \<lparr>rf_path = p, rf_max_bytes = max_bytes, rf_max_files = max max_files 1, rf_is_open = False,
              rf_good = True, rf_current_size = 0\<rparr> fs"

text \<open>The loop that renames \<open>.1\<close> to \<open>.2\<close> and so on, from the oldest; \<open>False\<close> where a rename fails.\<close>

fun shift_files :: "path \<Rightarrow> nat \<Rightarrow> FileSystem \<Rightarrow> bool \<times> FileSystem" where
  "shift_files p (Suc (Suc k)) fs =
     (if node_at (RotatedPath p (Suc k)) fs = None then shift_files p (Suc k) fs
      else
        let (error, fs1) = rename_file (RotatedPath p (Suc k)) (RotatedPath p (Suc (Suc k))) fs in
        if error then (False, fs1) else shift_files p (Suc k) fs1)"
| "shift_files p k fs = (True, fs)"

definition rf_Rotate :: "RotatingFile \<Rightarrow> FileSystem \<Rightarrow> bool \<times> RotatingFile \<times> FileSystem" where
  "rf_Rotate rf fs =
     (let closed = rf\<lparr>rf_is_open := False\<rparr>;
          p = rf_path rf;
          fs1 = snd (remove_path (RotatedPath p (rf_max_files rf)) fs);
          (shifted, fs2) = shift_files p (rf_max_files rf) fs1
      in
      if \<not> shifted then (False, closed, fs2)
      else
        let (error, fs3) = (if node_at p fs2 = None then (False, fs2) else rename_file p (RotatedPath p 1) fs2) in
        if error then (False, closed, fs3)
        else
          let (rf1, fs4) = rf_Open (closed\<lparr>rf_current_size := 0\<rparr>) fs3
          in (rf_is_open rf1, rf1, fs4))"

text \<open>The loop of \<open>xsputn\<close>: how many bytes it has written.\<close>

function write_loop :: "string \<Rightarrow> RotatingFile \<Rightarrow> FileSystem \<Rightarrow> nat \<times> RotatingFile \<times> FileSystem" where
  "write_loop data rf fs =
     (if data = [] then (0, rf, fs)
      else
        let (ready, rf1, fs1) = (if rf_max_bytes rf \<le> rf_current_size rf then rf_Rotate rf fs else (True, rf, fs)) in
        if \<not> ready then (0, rf1, fs1)
        else
          let chunk = min (length data) (max (rf_max_bytes rf1 - rf_current_size rf1) 1);
              (written, fs2) = (if rf_good rf1 then append_data (rf_path rf1) (take chunk data) fs1 else (False, fs1))
          in
          if \<not> written then (0, rf1\<lparr>rf_good := False\<rparr>, fs2)
          else
            let (count, rf2, fs3) = write_loop (drop chunk data) (rf1\<lparr>rf_current_size := rf_current_size rf1 + chunk\<rparr>) fs2
            in (chunk + count, rf2, fs3))"
  by pat_completeness auto
termination by (relation "measure (\<lambda>(data, rf, fs). length data)") auto

declare write_loop.simps [simp del]

definition rf_EnsureOpen :: "RotatingFile \<Rightarrow> FileSystem \<Rightarrow> RotatingFile \<times> FileSystem" where
  "rf_EnsureOpen rf fs = (if rf_is_open rf then (rf, fs) else rf_Open rf fs)"

definition rf_xsputn :: "string \<Rightarrow> RotatingFile \<Rightarrow> FileSystem \<Rightarrow> nat \<times> RotatingFile \<times> FileSystem" where
  "rf_xsputn data rf fs =
     (let (rf1, fs1) = rf_EnsureOpen rf fs in
      if \<not> rf_is_open rf1 \<or> data = [] then (0, rf1, fs1) else write_loop data rf1 fs1)"

definition rf_overflow :: "char \<Rightarrow> RotatingFile \<Rightarrow> FileSystem \<Rightarrow> bool \<times> RotatingFile \<times> FileSystem" where
  "rf_overflow ch rf fs = (let (count, rf1, fs1) = rf_xsputn [ch] rf fs in (count = 1, rf1, fs1))"

section \<open>The console and its mirror\<close>

text \<open>An output stream over the tee: what the console has shown, the rotating file, and the bad bit, which makes the
  stream drop everything from then on. The console itself takes every character.\<close>

record MirroredStream =
  ms_console :: string
  ms_file :: RotatingFile
  ms_disk :: FileSystem
  ms_bad :: bool

definition tee_overflow :: "char \<Rightarrow> MirroredStream \<Rightarrow> bool \<times> MirroredStream" where
  "tee_overflow ch ms =
     (let (ok, rf, fs) = rf_overflow ch (ms_file ms) (ms_disk ms)
      in (ok, ms\<lparr>ms_console := ms_console ms @ [ch], ms_file := rf, ms_disk := fs\<rparr>))"

fun print_text :: "string \<Rightarrow> MirroredStream \<Rightarrow> MirroredStream" where
  "print_text [] ms = ms"
| "print_text (ch # cs) ms =
     (if ms_bad ms then ms
      else let (ok, ms1) = tee_overflow ch ms in
           if ok then print_text cs ms1 else ms1\<lparr>ms_bad := True\<rparr>)"

definition ScopedServeLogMirror :: "path \<Rightarrow> FileSystem \<Rightarrow> MirroredStream option \<times> FileSystem" where
  "ScopedServeLogMirror log_path fs =
     (let (rf, fs1) = RotatingFile_new log_path (5 * 1024 * 1024) 5 fs
      in (if rf_is_open rf then Some \<lparr>ms_console = [], ms_file = rf, ms_disk = fs1, ms_bad = False\<rparr> else None, fs1))"

section \<open>What the files hold\<close>

lemma RotatedPath_inject [simp]: "RotatedPath p i = RotatedPath p j \<longleftrightarrow> i = j"
  by (simp add: RotatedPath_def nat_to_string_inject)

lemma RotatedPath_neq [simp]: "p \<noteq> [] \<Longrightarrow> RotatedPath p i \<noteq> p" "p \<noteq> [] \<Longrightarrow> p \<noteq> RotatedPath p i"
proof -
  assume p: "p \<noteq> []"
  have "last (RotatedPath p i) \<noteq> last p" by (simp add: RotatedPath_def)
  then show "RotatedPath p i \<noteq> p" "p \<noteq> RotatedPath p i" by metis+
qed

lemma RotatedPath_parent [simp]: "butlast (RotatedPath p i) = butlast p"
  by (simp add: RotatedPath_def)

lemma butlast_neq: "p \<noteq> [] \<Longrightarrow> butlast p \<noteq> p" "p \<noteq> [] \<Longrightarrow> butlast p \<noteq> RotatedPath p i"
proof -
  assume p: "p \<noteq> []"
  then show "butlast p \<noteq> p" by (metis append_butlast_last_id not_Cons_self2 append_self_conv)
  have "length (RotatedPath p i) = length p" using p by (simp add: RotatedPath_def)
  moreover have "length (butlast p) < length p" using p by simp
  ultimately show "butlast p \<noteq> RotatedPath p i" by (metis order_less_irrefl)
qed

text \<open>The disk of a log: the current file, and the rotated ones, the newest first.\<close>

definition nth_option :: "'a list \<Rightarrow> nat \<Rightarrow> 'a option" where
  "nth_option xs i = (if i < length xs then Some (xs ! i) else None)"

lemma nth_option_simps [simp]: "nth_option [] i = None" "nth_option (x # xs) 0 = Some x" "nth_option (x # xs) (Suc i) = nth_option xs i"
  by (simp_all add: nth_option_def)

definition log_disk :: "path \<Rightarrow> nat \<Rightarrow> string list \<Rightarrow> fs_node option \<Rightarrow> FileSystem \<Rightarrow> bool" where
  "log_disk p n blocks current fs \<longleftrightarrow>
     p \<noteq> [] \<and> fs_faults fs = [] \<and> (\<forall>q \<in> set (prefixes (butlast p)). file_at q fs = None)
     \<and> node_at p fs = current
     \<and> (\<forall>i < n. node_at (RotatedPath p (Suc i)) fs = map_option File (nth_option blocks i))"

lemma shift_step:
  assumes "fs_faults fs = []" "node_at (RotatedPath p (Suc (Suc m))) fs = None"
  obtains fs1 where "shift_files p (Suc (Suc m)) fs = shift_files p (Suc m) fs1"
    and "fs_faults fs1 = []" "node_at (RotatedPath p (Suc m)) fs1 = None"
    and "node_at (RotatedPath p (Suc (Suc m))) fs1 = node_at (RotatedPath p (Suc m)) fs"
    and "\<And>q. q \<noteq> RotatedPath p (Suc m) \<Longrightarrow> q \<noteq> RotatedPath p (Suc (Suc m)) \<Longrightarrow> node_at q fs1 = node_at q fs"
proof (cases "node_at (RotatedPath p (Suc m)) fs")
  case None
  with assms show ?thesis by (intro that [of fs]) simp_all
next
  case (Some n)
  with assms show ?thesis
    by (intro that [of "set_node (RotatedPath p (Suc (Suc m))) n (del_node (RotatedPath p (Suc m)) fs)"])
      (simp_all add: rename_file_def next_fault_none)
qed

lemma shift_files_moves:
  assumes "fs_faults fs = []" "node_at (RotatedPath p (Suc m)) fs = None"
  shows "fst (shift_files p (Suc m) fs) \<and> fs_faults (snd (shift_files p (Suc m) fs)) = []
    \<and> node_at (RotatedPath p 1) (snd (shift_files p (Suc m) fs)) = None
    \<and> (\<forall>i < m. node_at (RotatedPath p (Suc (Suc i))) (snd (shift_files p (Suc m) fs)) = node_at (RotatedPath p (Suc i)) fs)
    \<and> (\<forall>q. (\<forall>i \<le> m. q \<noteq> RotatedPath p (Suc i)) \<longrightarrow> node_at q (snd (shift_files p (Suc m) fs)) = node_at q fs)"
  using assms
proof (induction m arbitrary: fs)
  case (Suc m)
  obtain fs1 where step: "shift_files p (Suc (Suc m)) fs = shift_files p (Suc m) fs1"
    and fs1: "fs_faults fs1 = []" "node_at (RotatedPath p (Suc m)) fs1 = None"
    and to: "node_at (RotatedPath p (Suc (Suc m))) fs1 = node_at (RotatedPath p (Suc m)) fs"
    and other: "\<And>q. q \<noteq> RotatedPath p (Suc m) \<Longrightarrow> q \<noteq> RotatedPath p (Suc (Suc m)) \<Longrightarrow> node_at q fs1 = node_at q fs"
    using shift_step [OF Suc.prems] by blast
  define fs2 where "fs2 = snd (shift_files p (Suc m) fs1)"
  have IH: "fst (shift_files p (Suc m) fs1)" "fs_faults fs2 = []" "node_at (RotatedPath p 1) fs2 = None"
    "\<And>i. i < m \<Longrightarrow> node_at (RotatedPath p (Suc (Suc i))) fs2 = node_at (RotatedPath p (Suc i)) fs1"
    "\<And>q. (\<forall>i \<le> m. q \<noteq> RotatedPath p (Suc i)) \<Longrightarrow> node_at q fs2 = node_at q fs1"
    using Suc.IH [OF fs1] by (simp_all add: fs2_def del: shift_files.simps One_nat_def)
  have "node_at (RotatedPath p (Suc (Suc i))) fs2 = node_at (RotatedPath p (Suc i)) fs" if "i < Suc m" for i
  proof (cases "i = m")
    case True
    have "node_at (RotatedPath p (Suc (Suc m))) fs2 = node_at (RotatedPath p (Suc (Suc m))) fs1" by (rule IH(5)) auto
    with True to show ?thesis by simp
  next
    case False
    then show ?thesis using that IH(4) [of i] other [of "RotatedPath p (Suc i)"] by simp
  qed
  moreover have "node_at q fs2 = node_at q fs" if "\<forall>i \<le> Suc m. q \<noteq> RotatedPath p (Suc i)" for q
    using that IH(5) [of q] other [of q] by auto
  ultimately show ?case unfolding step fs2_def [symmetric] using IH(1-3) by simp
qed simp

section \<open>Nothing of the recent output is lost\<close>

lemma not_above: "p \<noteq> [] \<Longrightarrow> p \<notin> set (prefixes (butlast p))" "p \<noteq> [] \<Longrightarrow> RotatedPath p i \<notin> set (prefixes (butlast p))"
proof -
  assume p: "p \<noteq> []"
  have short: "length q < length p" if "q \<in> set (prefixes (butlast p))" for q
  proof -
    have "length q \<le> length p - 1" using prefix_length_le [of q "butlast p"] that by simp
    then show ?thesis using p by (cases p) (simp_all add: less_Suc_eq_le)
  qed
  have "length (RotatedPath p i) = length p" using p by (simp add: RotatedPath_def)
  then show "p \<notin> set (prefixes (butlast p))" "RotatedPath p i \<notin> set (prefixes (butlast p))" using short by fastforce+
qed

definition opened :: "RotatingFile \<Rightarrow> nat \<Rightarrow> RotatingFile" where
  "opened rf k = rf\<lparr>rf_is_open := True, rf_good := True, rf_current_size := k\<rparr>"

lemma rf_Open_disk:
  assumes "log_disk (rf_path rf) n blocks current fs" "current \<in> {None, Some (File d)}" "current = None \<Longrightarrow> d = []"
  obtains fs' where "rf_Open rf fs = (opened rf (length d), fs')" "log_disk (rf_path rf) n blocks (Some (File d)) fs'"
proof -
  let ?p = "rf_path rf"
  note disk = assms(1) [unfolded log_disk_def]
  have p: "?p \<noteq> []" using disk by blast
  define fs1 where "fs1 = fold (\<lambda>q. set_node q Dir) (prefixes (butlast ?p)) fs"
  have create: "create_directories (butlast ?p) fs = (False, fs1)"
    using disk by (auto simp: create_directories_def next_fault_none list_ex_iff fs1_def)
  have at: "node_at q fs1 = (if q \<in> set (prefixes (butlast ?p)) then Some Dir else node_at q fs)" for q
    by (simp add: fs1_def node_at_fold_dirs)
  have faults: "fs_faults fs1 = []" using disk by (simp add: fs1_def)
  define fs' where "fs' = (if current = None then set_node ?p (File []) fs1 else fs1)"
  have here: "node_at ?p fs1 = current" using disk not_above(1) [OF p] by (simp add: at)
  have "open_append ?p fs1 = (True, fs')"
    using faults here assms(2) by (auto simp: open_append_def next_fault_none at fs'_def)
  moreover have here': "node_at ?p fs' = Some (File d)" using here assms(2,3) by (auto simp: fs'_def)
  moreover have "log_disk ?p n blocks (Some (File d)) fs'"
    using disk faults here' not_above(1) [OF p] not_above(2) [OF p]
    by (auto simp: log_disk_def fs'_def file_at_def at)
  ultimately show ?thesis
    using create that by (auto simp: rf_Open_def opened_def contents_def file_at_def)
qed

lemma rf_Rotate_disk:
  assumes "log_disk (rf_path rf) n blocks (Some (File d)) fs" "rf_max_files rf = n" "0 < n" "length blocks \<le> n"
  obtains fs' where "rf_Rotate rf fs = (True, opened rf 0, fs')"
    "log_disk (rf_path rf) n (take n (d # blocks)) (Some (File [])) fs'"
proof -
  let ?p = "rf_path rf"
  obtain m where n: "n = Suc m" using assms(3) by (cases n) auto
  note disk = assms(1) [unfolded log_disk_def]
  have p: "?p \<noteq> []" using disk by blast
  define fs1 where "fs1 = snd (remove_path (RotatedPath ?p n) fs)"
  have fs1: "fs_faults fs1 = []" "node_at q fs1 = (if q = RotatedPath ?p n then None else node_at q fs)" for q
    using disk spec [of _ m] by (auto simp: fs1_def remove_path_def next_fault_none n nth_option_def split: fs_node.split option.split)
  define fs2 where "fs2 = snd (shift_files ?p n fs1)"
  have fs2: "fst (shift_files ?p n fs1)" "fs_faults fs2 = []" "node_at (RotatedPath ?p 1) fs2 = None"
    "i < m \<Longrightarrow> node_at (RotatedPath ?p (Suc (Suc i))) fs2 = node_at (RotatedPath ?p (Suc i)) fs1"
    "(\<forall>i \<le> m. q \<noteq> RotatedPath ?p (Suc i)) \<Longrightarrow> node_at q fs2 = node_at q fs1" for i q
    using shift_files_moves [of fs1 ?p m] fs1 by (simp_all add: fs2_def n)
  define fs3 where "fs3 = set_node (RotatedPath ?p 1) (File d) (del_node ?p fs2)"
  have here: "node_at ?p fs2 = Some (File d)" using fs2(5) [of ?p] fs1(2) [of ?p] disk p by simp
  have rename: "rename_file ?p (RotatedPath ?p 1) fs2 = (False, fs3)"
    using fs2(2,3) here by (simp add: rename_file_def next_fault_none fs3_def)
  have rotated: "node_at (RotatedPath ?p (Suc i)) fs3 = map_option File (nth_option (take n (d # blocks)) i)" if "i < n" for i
  proof (cases i)
    case 0
    then show ?thesis using n by (simp add: fs3_def)
  next
    case (Suc k)
    then have "node_at (RotatedPath ?p (Suc i)) fs3 = node_at (RotatedPath ?p (Suc k)) fs"
      using that n fs2(4) [of k] fs1(2) [of "RotatedPath ?p (Suc k)"] p by (simp add: fs3_def)
    then show ?thesis using disk that n Suc by (simp add: nth_option_def)
  qed
  have above: "file_at q fs3 = None" if "q \<in> set (prefixes (butlast ?p))" for q
  proof -
    have "q \<noteq> RotatedPath ?p i" "q \<noteq> ?p" for i using that not_above [OF p] by auto
    then show ?thesis using fs2(5) [of q] fs1(2) [of q] that disk by (simp add: fs3_def file_at_def)
  qed
  have "log_disk (rf_path (rf\<lparr>rf_is_open := False, rf_current_size := 0\<rparr>)) n (take n (d # blocks)) None fs3"
    using p fs2(2) rotated above by (simp add: log_disk_def) (simp add: fs3_def p)
  from rf_Open_disk [OF this, of "[]"] obtain fs' where "rf_Open (rf\<lparr>rf_is_open := False, rf_current_size := 0\<rparr>) fs3 =
      (opened (rf\<lparr>rf_is_open := False, rf_current_size := 0\<rparr>) (length ([] :: string)), fs')"
    "log_disk ?p n (take n (d # blocks)) (Some (File [])) fs'"
    by auto
  moreover have "shift_files ?p n fs1 = (True, fs2)" using fs2(1) by (simp add: fs2_def prod_eq_iff)
  ultimately show ?thesis
    using that rename assms(2) here
    by (simp add: rf_Rotate_def Let_def fs1_def [symmetric] opened_def)
qed

text \<open>The invariant: the full blocks that were rotated away, and the current file, are the end of what was written.\<close>

definition rf_inv :: "string \<Rightarrow> RotatingFile \<Rightarrow> FileSystem \<Rightarrow> bool" where
  "rf_inv stream rf fs \<longleftrightarrow>
     (\<exists>blocks d lost. log_disk (rf_path rf) (rf_max_files rf) blocks (Some (File d)) fs
       \<and> rf_is_open rf \<and> rf_good rf \<and> 0 < rf_max_bytes rf \<and> 0 < rf_max_files rf
       \<and> rf_current_size rf = length d \<and> length d \<le> rf_max_bytes rf
       \<and> length blocks \<le> rf_max_files rf \<and> (\<forall>b \<in> set blocks. length b = rf_max_bytes rf)
       \<and> stream = lost @ concat (rev blocks) @ d \<and> (lost = [] \<or> length blocks = rf_max_files rf))"

lemma rf_invI:
  assumes "log_disk (rf_path rf) (rf_max_files rf) blocks (Some (File d)) fs"
    and "rf_is_open rf" "rf_good rf" "0 < rf_max_bytes rf" "0 < rf_max_files rf"
    and "rf_current_size rf = length d" "length d \<le> rf_max_bytes rf"
    and "length blocks \<le> rf_max_files rf" "\<forall>b \<in> set blocks. length b = rf_max_bytes rf"
    and "stream = lost @ concat (rev blocks) @ d" "lost = [] \<or> length blocks = rf_max_files rf"
  shows "rf_inv stream rf fs"
  using assms unfolding rf_inv_def by blast

lemma rf_inv_append:
  assumes "rf_inv stream rf fs" "rf_current_size rf + length data \<le> rf_max_bytes rf"
  obtains fs' where "append_data (rf_path rf) data fs = (True, fs')"
    "rf_inv (stream @ data) (rf\<lparr>rf_current_size := rf_current_size rf + length data\<rparr>) fs'"
proof -
  obtain blocks d lost where disk: "log_disk (rf_path rf) (rf_max_files rf) blocks (Some (File d)) fs"
    and inv: "rf_is_open rf" "rf_good rf" "0 < rf_max_bytes rf" "0 < rf_max_files rf" "rf_current_size rf = length d"
      "length blocks \<le> rf_max_files rf" "\<forall>b \<in> set blocks. length b = rf_max_bytes rf"
      "stream = lost @ concat (rev blocks) @ d" "lost = [] \<or> length blocks = rf_max_files rf"
    using assms(1) unfolding rf_inv_def by blast
  define fs' where "fs' = set_node (rf_path rf) (File (d @ data)) fs"
  have "append_data (rf_path rf) data fs = (True, fs')"
    using disk by (simp add: append_data_def log_disk_def next_fault_none contents_def file_at_def fs'_def)
  moreover have "log_disk (rf_path rf) (rf_max_files rf) blocks (Some (File (d @ data))) fs'"
    using disk not_above(1) by (auto simp: log_disk_def fs'_def)
  then have "rf_inv (stream @ data) (rf\<lparr>rf_current_size := rf_current_size rf + length data\<rparr>) fs'"
    using inv assms(2) by (intro rf_invI [of _ blocks "d @ data" _ _ lost]) simp_all
  ultimately show ?thesis by (rule that)
qed

lemma rf_inv_rotate:
  assumes "rf_inv stream rf fs" "rf_max_bytes rf \<le> rf_current_size rf"
  obtains fs' where "rf_Rotate rf fs = (True, opened rf 0, fs')" "rf_inv stream (opened rf 0) fs'"
proof -
  obtain blocks d lost where disk: "log_disk (rf_path rf) (rf_max_files rf) blocks (Some (File d)) fs"
    and inv: "0 < rf_max_bytes rf" "0 < rf_max_files rf" "length d = rf_max_bytes rf"
      "length blocks \<le> rf_max_files rf" "\<forall>b \<in> set blocks. length b = rf_max_bytes rf"
      "stream = lost @ concat (rev blocks) @ d" "lost = [] \<or> length blocks = rf_max_files rf"
    using assms unfolding rf_inv_def by auto
  obtain fs' where rotated: "rf_Rotate rf fs = (True, opened rf 0, fs')"
    and disk': "log_disk (rf_path rf) (rf_max_files rf) (take (rf_max_files rf) (d # blocks)) (Some (File [])) fs'"
    using rf_Rotate_disk [OF disk refl inv(2,4)] by blast
  define blocks' where "blocks' = take (rf_max_files rf) (d # blocks)"
  define gone where "gone = concat (rev (drop (rf_max_files rf) (d # blocks)))"
  have "concat (rev blocks) @ d = concat (rev (d # blocks))" by simp
  also have "\<dots> = gone @ concat (rev blocks')"
    unfolding gone_def blocks'_def by (metis append_take_drop_id rev_append concat_append)
  finally have stream: "stream = (lost @ gone) @ concat (rev blocks')" using inv(6) by simp
  have full: "lost @ gone = [] \<or> length blocks' = rf_max_files rf"
    using inv(4,7) by (auto simp: gone_def blocks'_def)
  have blocks_full: "\<forall>b \<in> set blocks'. length b = rf_max_bytes rf"
    using inv(3,5) set_take_subset [of "rf_max_files rf" "d # blocks"] by (auto simp: blocks'_def)
  have "rf_inv stream (opened rf 0) fs'"
    using disk' inv(1,2) stream full blocks_full
    by (intro rf_invI [of _ blocks' "[]" _ _ "lost @ gone"]) (simp_all add: opened_def blocks'_def [symmetric], simp_all add: blocks'_def)
  with rotated show ?thesis by (rule that)
qed

lemma write_loop_inv:
  "rf_inv stream rf fs \<Longrightarrow>
     \<exists>rf' fs'. write_loop data rf fs = (length data, rf', fs') \<and> rf_inv (stream @ data) rf' fs'
       \<and> rf_path rf' = rf_path rf \<and> rf_max_files rf' = rf_max_files rf \<and> rf_max_bytes rf' = rf_max_bytes rf"
proof (induction "length data" arbitrary: data stream rf fs rule: less_induct)
  case less
  show ?case
  proof (cases "data = []")
    case True
    then show ?thesis using less.prems by (subst write_loop.simps) simp
  next
    case False
    obtain rf1 fs1 where ready: "(if rf_max_bytes rf \<le> rf_current_size rf then rf_Rotate rf fs else (True, rf, fs)) = (True, rf1, fs1)"
      and inv1: "rf_inv stream rf1 fs1" and room: "rf_current_size rf1 < rf_max_bytes rf1"
      and same1: "rf_path rf1 = rf_path rf" "rf_max_files rf1 = rf_max_files rf" "rf_max_bytes rf1 = rf_max_bytes rf"
    proof (cases "rf_max_bytes rf \<le> rf_current_size rf")
      case True
      from rf_inv_rotate [OF less.prems True] obtain fs' where
        "rf_Rotate rf fs = (True, opened rf 0, fs')" "rf_inv stream (opened rf 0) fs'" by blast
      moreover have "0 < rf_max_bytes rf" using less.prems by (auto simp: rf_inv_def)
      ultimately show ?thesis by (intro that [of "opened rf 0" fs']) (use True in \<open>simp_all add: opened_def\<close>)
    next
      case False
      then show ?thesis by (intro that [of rf fs]) (use less.prems in simp_all)
    qed
    define chunk where "chunk = min (length data) (max (rf_max_bytes rf1 - rf_current_size rf1) 1)"
    have chunk: "0 < chunk" "chunk \<le> length data" "rf_current_size rf1 + chunk \<le> rf_max_bytes rf1"
      using False room by (auto simp: chunk_def)
    obtain fs2 where appended: "append_data (rf_path rf1) (take chunk data) fs1 = (True, fs2)"
      and inv2: "rf_inv (stream @ take chunk data) (rf1\<lparr>rf_current_size := rf_current_size rf1 + chunk\<rparr>) fs2"
      using rf_inv_append [OF inv1, of "take chunk data"] chunk by (auto simp: min_absorb2)
    have smaller: "length (drop chunk data) < length data" using chunk by simp
    obtain rf' fs' where rest: "write_loop (drop chunk data) (rf1\<lparr>rf_current_size := rf_current_size rf1 + chunk\<rparr>) fs2 =
        (length (drop chunk data), rf', fs')" "rf_inv ((stream @ take chunk data) @ drop chunk data) rf' fs'"
      "rf_path rf' = rf_path rf" "rf_max_files rf' = rf_max_files rf" "rf_max_bytes rf' = rf_max_bytes rf"
      using less.hyps [OF smaller inv2] same1 by auto
    have good: "rf_good rf1" using inv1 by (auto simp: rf_inv_def)
    have "write_loop data rf fs = (chunk + length (drop chunk data), rf', fs')"
      by (subst write_loop.simps) (simp only: ready Let_def prod.case chunk_def [symmetric] appended rest(1) False good
        not_True_eq_False if_False if_True)
    then show ?thesis using rest chunk(2) by simp
  qed
qed

lemma rf_xsputn_inv:
  assumes "rf_inv stream rf fs"
  obtains rf' fs' where "rf_xsputn data rf fs = (length data, rf', fs')" "rf_inv (stream @ data) rf' fs'"
    "rf_path rf' = rf_path rf" "rf_max_files rf' = rf_max_files rf" "rf_max_bytes rf' = rf_max_bytes rf"
proof -
  have "rf_is_open rf" using assms by (auto simp: rf_inv_def)
  then show ?thesis
    using that write_loop_inv [OF assms, of data] assms
    by (cases "data = []") (auto simp: rf_xsputn_def rf_EnsureOpen_def)
qed

lemma print_text_inv:
  assumes "rf_inv stream (ms_file ms) (ms_disk ms)" "\<not> ms_bad ms"
  shows "rf_inv (stream @ s) (ms_file (print_text s ms)) (ms_disk (print_text s ms))
    \<and> \<not> ms_bad (print_text s ms) \<and> ms_console (print_text s ms) = ms_console ms @ s
    \<and> rf_path (ms_file (print_text s ms)) = rf_path (ms_file ms)
    \<and> rf_max_files (ms_file (print_text s ms)) = rf_max_files (ms_file ms)
    \<and> rf_max_bytes (ms_file (print_text s ms)) = rf_max_bytes (ms_file ms)"
  using assms
proof (induction s arbitrary: stream ms)
  case (Cons c cs)
  obtain rf fs where out: "rf_xsputn [c] (ms_file ms) (ms_disk ms) = (length [c], rf, fs)" "rf_inv (stream @ [c]) rf fs"
    "rf_path rf = rf_path (ms_file ms)" "rf_max_files rf = rf_max_files (ms_file ms)" "rf_max_bytes rf = rf_max_bytes (ms_file ms)"
    by (rule rf_xsputn_inv [OF Cons.prems(1)])
  define ms1 where "ms1 = ms\<lparr>ms_console := ms_console ms @ [c], ms_file := rf, ms_disk := fs\<rparr>"
  have "print_text (c # cs) ms = print_text cs ms1"
    using out(1) Cons.prems(2) by (simp add: tee_overflow_def rf_overflow_def ms1_def)
  then show ?case using Cons.IH [of "stream @ [c]" ms1] out Cons.prems(2) by (simp add: ms1_def)
qed simp

text \<open>The files of a log in the order in which \<open>ServeLogCandidatePaths\<close> names them: the oldest first.\<close>

definition mirrored :: "path \<Rightarrow> nat \<Rightarrow> FileSystem \<Rightarrow> string list" where
  "mirrored p n fs = map (\<lambda>i. contents (RotatedPath p i) fs) (rev [1..<Suc n]) @ [contents p fs]"

lemma mirrored_blocks:
  assumes "log_disk p n blocks (Some (File d)) fs" "length blocks \<le> n"
  shows "concat (mirrored p n fs) = concat (rev blocks) @ d"
    and "x \<in> set (mirrored p n fs) \<Longrightarrow> x = [] \<or> x \<in> set blocks \<or> x = d"
proof -
  have at: "contents (RotatedPath p (Suc i)) fs = (if i < length blocks then blocks ! i else [])" if "i < n" for i
    using assms(1) that by (simp add: log_disk_def contents_def file_at_def nth_option_def)
  have here: "contents p fs = d" using assms(1) by (simp add: log_disk_def contents_def file_at_def)
  have "concat (map (\<lambda>i. contents (RotatedPath p i) fs) (rev [1..<Suc k])) = concat (rev (take k blocks))" if "k \<le> n" for k
    using that
  proof (induction k)
    case (Suc k)
    then show ?case by (cases "k < length blocks") (simp_all add: at take_Suc_conv_app_nth)
  qed simp
  from this [of n] show "concat (mirrored p n fs) = concat (rev blocks) @ d"
    using assms(2) here by (simp add: mirrored_def)
  have "contents (RotatedPath p i) fs = [] \<or> contents (RotatedPath p i) fs \<in> set blocks" if "i \<in> {1..<Suc n}" for i
    using that at [of "i - 1"] by (cases i) auto
  then show "x \<in> set (mirrored p n fs) \<Longrightarrow> x = [] \<or> x \<in> set blocks \<or> x = d"
    unfolding mirrored_def here set_append set_map set_rev set_upt by fastforce
qed

text \<open>Claim C22: on a disk without faults, and in a directory where no log file was before, what the log files hold
  together, from the oldest rotated file to the current one, is the end of everything that the daemon printed: all of it as long as it is not longer than the rotated files
  can hold, and otherwise at least as much as they hold; no file is longer than its limit, and the console shows
  everything and goes on.\<close>

theorem serve_log_keeps_stream_end:
  assumes "RotatingFile_new p max_bytes n fs = (rf, fs1)" "0 < max_bytes" "0 < n"
    and "log_disk p n [] None fs"
  shows "\<exists>ms. fold print_text texts \<lparr>ms_console = [], ms_file = rf, ms_disk = fs1, ms_bad = False\<rparr> = ms
    \<and> suffix (concat (mirrored p n (ms_disk ms))) (concat texts)
    \<and> (length (concat texts) \<le> n * max_bytes \<longrightarrow> concat (mirrored p n (ms_disk ms)) = concat texts)
    \<and> min (length (concat texts)) (n * max_bytes) \<le> length (concat (mirrored p n (ms_disk ms)))
    \<and> (\<forall>d \<in> set (mirrored p n (ms_disk ms)). length d \<le> max_bytes)
    \<and> ms_console ms = concat texts \<and> \<not> ms_bad ms"
proof -
  define rf0 where "rf0 = \<lparr>rf_path = p, rf_max_bytes = max_bytes, rf_max_files = n, rf_is_open = False, rf_good = True, rf_current_size = 0\<rparr>"
  have new: "RotatingFile_new p max_bytes n fs = rf_Open rf0 fs" using assms(3) by (simp add: RotatingFile_new_def rf0_def max_absorb1)
  have "log_disk (rf_path rf0) n [] None fs" using assms(4) by (simp add: rf0_def)
  from rf_Open_disk [OF this, of "[]"] have rf: "rf = opened rf0 0" and disk: "log_disk p n [] (Some (File [])) fs1"
    using assms(1) new by (auto simp: rf0_def)
  have start: "rf_inv [] rf fs1"
    using disk assms(2,3) by (intro rf_invI [of _ "[]" "[]" _ _ "[]"]) (simp_all add: rf opened_def rf0_def)
  have run: "rf_inv (concat texts) (ms_file ms) (ms_disk ms) \<and> \<not> ms_bad ms \<and> ms_console ms = concat texts
      \<and> rf_path (ms_file ms) = p \<and> rf_max_files (ms_file ms) = n \<and> rf_max_bytes (ms_file ms) = max_bytes"
    if "ms = fold print_text texts \<lparr>ms_console = [], ms_file = rf, ms_disk = fs1, ms_bad = False\<rparr>" for ms texts
    using that
  proof (induction texts arbitrary: ms rule: rev_induct)
    case Nil
    then show ?case using start by (simp add: rf opened_def rf0_def)
  next
    case (snoc x xs)
    then show ?case using print_text_inv [of "concat xs" _ x] by simp
  qed
  define ms where "ms = fold print_text texts \<lparr>ms_console = [], ms_file = rf, ms_disk = fs1, ms_bad = False\<rparr>"
  note ran = run [OF ms_def]
  obtain blocks d lost where kept: "log_disk p n blocks (Some (File d)) (ms_disk ms)" "length blocks \<le> n"
    "\<forall>b \<in> set blocks. length b = max_bytes" "length d \<le> max_bytes" "concat texts = lost @ concat (rev blocks) @ d"
    "lost = [] \<or> length blocks = n"
    using ran by (auto simp: rf_inv_def)
  have blocks: "length (concat (rev blocks)) = length blocks * max_bytes"
    using kept(3) by (induction blocks) auto
  note files = mirrored_blocks [OF kept(1,2)]
  have large: "n * max_bytes \<le> length (concat (mirrored p n (ms_disk ms)))" "n * max_bytes < length (concat texts)" if "lost \<noteq> []"
    using that kept(5,6) blocks by (auto simp: files(1))
  have whole: "concat (mirrored p n (ms_disk ms)) = concat texts" if "lost = []" using that kept(5) by (simp add: files(1))
  have "min (length (concat texts)) (n * max_bytes) \<le> length (concat (mirrored p n (ms_disk ms)))"
    using large whole by (cases "lost = []") (simp_all del: length_concat)
  moreover have "length (concat texts) \<le> n * max_bytes \<longrightarrow> concat (mirrored p n (ms_disk ms)) = concat texts"
    using large(2) whole by (cases "lost = []") (simp_all del: length_concat)
  moreover have "\<forall>x \<in> set (mirrored p n (ms_disk ms)). length x \<le> max_bytes" using files(2) kept(3,4) by fastforce
  moreover have "suffix (concat (mirrored p n (ms_disk ms))) (concat texts)" by (auto simp: files(1) kept(5) suffix_def)
  ultimately show ?thesis using ran ms_def by blast
qed

definition demo_log_disk :: FileSystem where
  "demo_log_disk = \<lparr>fs_nodes = [], fs_faults = [], fs_close_faults = []\<rparr>"

definition demo_mirror :: MirroredStream where
  "demo_mirror = \<lparr>ms_console = [], ms_file = fst (RotatingFile_new [''logs'', ''serve.log''] 3 2 demo_log_disk),
     ms_disk = snd (RotatingFile_new [''logs'', ''serve.log''] 3 2 demo_log_disk), ms_bad = False\<rparr>"

theorem serve_log_keeps_stream_end_witness:
  "\<exists>ms. fold print_text [''hello '', ''world''] demo_mirror = ms
    \<and> suffix (concat (mirrored [''logs'', ''serve.log''] 2 (ms_disk ms))) ''hello world''
    \<and> 6 \<le> length (concat (mirrored [''logs'', ''serve.log''] 2 (ms_disk ms))) \<and> ms_console ms = ''hello world''"
proof -
  have disk: "log_disk [''logs'', ''serve.log''] 2 [] None demo_log_disk"
    by (simp add: log_disk_def demo_log_disk_def file_at_def node_at_def)
  obtain ms where ms: "fold print_text [''hello '', ''world''] demo_mirror = ms"
    and kept: "suffix (concat (mirrored [''logs'', ''serve.log''] 2 (ms_disk ms))) (concat [''hello '', ''world''])"
      "min (length (concat [''hello '', ''world''])) (2 * 3) \<le> length (concat (mirrored [''logs'', ''serve.log''] 2 (ms_disk ms)))"
      "ms_console ms = concat [''hello '', ''world'']"
    using serve_log_keeps_stream_end [OF prod.collapse [symmetric] _ _ disk, of 3 "[''hello '', ''world'']"]
    unfolding demo_mirror_def by auto
  show ?thesis by (intro exI [of _ ms]) (use ms kept in simp)
qed

section \<open>A failure of the mirror silences the console\<close>

lemma print_text_bad: "ms_bad ms \<Longrightarrow> fold print_text texts ms = ms"
proof (induction texts)
  case (Cons s texts)
  then have "print_text s ms = ms" by (cases s) simp_all
  with Cons show ?case by simp
qed simp

text \<open>Claim C30: when one write to the log file fails (a full disk, say), the console shows the character that was being
  printed and nothing after it, for as long as the daemon runs, although the console can still be written: the tee
  reports the failure of either side, and a stream that is bad once drops all that follows.\<close>

theorem log_failure_silences_console:
  assumes "rf_is_open (ms_file ms)" "rf_current_size (ms_file ms) < rf_max_bytes (ms_file ms)" "\<not> ms_bad ms"
    and "fs_faults (ms_disk ms) = Some k # faults"
  shows "ms_console (fold print_text texts (print_text (b # bs) ms)) = ms_console ms @ [b]"
proof -
  have "fst (append_data (rf_path (ms_file ms)) [b] (ms_disk ms)) = False"
    using assms(4) by (simp add: append_data_def next_fault_def)
  then obtain fs where failed: "append_data (rf_path (ms_file ms)) [b] (ms_disk ms) = (False, fs)"
    by (metis prod.collapse)
  have "\<not> fst (tee_overflow b ms)"
    using assms(1,2) failed
    by (simp add: tee_overflow_def rf_overflow_def rf_xsputn_def rf_EnsureOpen_def write_loop.simps Let_def split: prod.split)
  moreover have "ms_console (snd (tee_overflow b ms)) = ms_console ms @ [b]"
    by (simp add: tee_overflow_def split: prod.split)
  ultimately have "ms_bad (print_text (b # bs) ms)" "ms_console (print_text (b # bs) ms) = ms_console ms @ [b]"
    using assms(3) by (cases "tee_overflow b ms"; simp)+
  then show ?thesis by (simp only: print_text_bad)
qed

definition demo_full_disk :: MirroredStream where
  "demo_full_disk =
     \<lparr>ms_console = [],
      ms_file = \<lparr>rf_path = [''serve.log''], rf_max_bytes = 3, rf_max_files = 2, rf_is_open = True, rf_good = True,
        rf_current_size = 0\<rparr>,
      ms_disk = demo_log_disk\<lparr>fs_faults := [Some 0]\<rparr>, ms_bad = False\<rparr>"

theorem log_failure_silences_console_witness:
  "ms_console (fold print_text [''ready'', ''listening''] (print_text ''hello'' demo_full_disk)) = ''h''"
proof -
  have "ms_console (fold print_text [''ready'', ''listening''] (print_text (CHR ''h'' # ''ello'') demo_full_disk)) =
      ms_console demo_full_disk @ [CHR ''h'']"
    by (rule log_failure_silences_console [of _ 0 "[]"]) (simp_all add: demo_full_disk_def demo_log_disk_def)
  then show ?thesis by (simp add: demo_full_disk_def del: print_text.simps fold_simps)
qed

end
