(* ===== verification/Command_Line.thy ===== *)
theory Command_Line
  imports Daemon_Requests Serve_Log
begin

text \<open>
  The command line, \<open>src/main.cpp\<close>: the options, the service unit (on Linux), the settings of \<open>serve\<close>, and
  every other command as a function from its arguments and a state (what was printed on either stream, the disk,
  the network) to how the program ends. The commands that run an interactive loop end in the call of that loop.
  \<open>argv\<close> is given without the name of the program. An exception that nothing catches (\<open>std::stoi\<close> on a port that is
  not a number) ends the program.
\<close>

section \<open>Environment and state\<close>

record CliEnv =
  ce_lib :: JsonLib
  ce_getenv :: "string \<Rightarrow> string option"
  ce_current_path :: string
  ce_executable :: "string option"
  ce_exists :: "string \<Rightarrow> bool"
  ce_compiled_web_root :: string
  ce_random_bytes :: "nat list"

record 'st CliState =
  cli_out :: string
  cli_err :: string
  cli_disk :: FileSystem
  cli_net :: 'st

record RelayObserveOptions =
  ro_hub_url :: string
  ro_token :: string
  ro_host_id :: string
  ro_session_id :: string

record ServeSettings =
  ss_storage_root :: string
  ss_admin_host :: string
  ss_admin_port :: u16
  ss_remote_host :: string
  ss_remote_port :: u16
  ss_remote_tls :: "(string \<times> string) option"
  ss_enable_discovery :: bool
  ss_hub_url :: string
  ss_hub_token :: string
  ss_log_mirror :: "MirroredStream option"

datatype CliEnd =
    Exit nat
  | UncaughtException
  | AttachSession DaemonEndpoint string
  | ObserveSession DaemonEndpoint string
  | ObserveHubRelaySession RelayObserveOptions
  | RunServer ServeSettings
  | RunLocalPty "string list"

definition say :: "string \<Rightarrow> 'st CliState \<Rightarrow> 'st CliState" where
  "say s st = st\<lparr>cli_out := cli_out st @ s\<rparr>"

definition complain :: "string \<Rightarrow> 'st CliState \<Rightarrow> 'st CliState" where
  "complain s st = st\<lparr>cli_err := cli_err st @ s\<rparr>"

definition nl_text :: "string \<Rightarrow> string" where
  "nl_text s = s @ [ch_nl]"

definition call_network :: "('st \<Rightarrow> 'a \<times> 'st) \<Rightarrow> 'st CliState \<Rightarrow> 'a \<times> 'st CliState" where
  "call_network f st = (let (r, n) = f (cli_net st) in (r, st\<lparr>cli_net := n\<rparr>))"

section \<open>The service unit\<close>

definition HomeDirectory :: "(string \<Rightarrow> string option) \<Rightarrow> string option" where
  "HomeDirectory getenv = Option.bind (getenv ''HOME'') nonempty_list"

definition ResolveSiblingPackagedWebRoot :: "string \<Rightarrow> string" where
  "ResolveSiblingPackagedWebRoot executable_path =
     fold (\<lambda>part p. path_join p part) [''..'', ''lib'', ''sentrits'', ''www''] (parent_path executable_path)"

definition ResolvePackagedWebRootForServices :: "CliEnv \<Rightarrow> string" where
  "ResolvePackagedWebRootForServices env =
     (case Option.bind (ce_getenv env ''SENTRITS_WEB_ROOT'') nonempty_list of
        Some web_root \<Rightarrow> web_root
      | None \<Rightarrow>
          let sibling_root = map_option (lexically_normal \<circ> ResolveSiblingPackagedWebRoot) (ce_executable env) in
          (case sibling_root of
             Some p \<Rightarrow> if ce_exists env p then p else ce_compiled_web_root env
           | None \<Rightarrow> ce_compiled_web_root env))"

definition BuildSystemdUserUnitContent :: "string \<Rightarrow> string \<Rightarrow> string" where
  "BuildSystemdUserUnitContent executable_path web_root =
     nl_text ''[Unit]'' @ nl_text ''Description=Sentrits user session daemon'' @ nl_text ''After=default.target'' @ [ch_nl]
     @ nl_text ''[Service]'' @ nl_text ''Type=simple''
     @ nl_text (''ExecStart='' @ executable_path @ '' serve --admin-host 127.0.0.1 --remote-host 0.0.0.0'')
     @ nl_text ''Restart=on-failure'' @ nl_text ''RestartSec=2''
     @ (if web_root \<noteq> [] then nl_text (''Environment=SENTRITS_WEB_ROOT='' @ web_root) else [])
     @ [ch_nl] @ nl_text ''[Install]'' @ nl_text ''WantedBy=default.target''"

definition WriteFileWithParents :: "path \<Rightarrow> string \<Rightarrow> FileSystem \<Rightarrow> bool \<times> FileSystem" where
  "WriteFileWithParents p content fs =
     (let (error, fs1) = create_directories (butlast p) fs in
      if error then (False, fs1)
      else
        let (is_open, fs2) = open_truncate p fs1 in
        if \<not> is_open then (False, fs2)
        else let (good, fs3) = write_data p content fs2 in (good, if good then close_stream p content fs3 else fs3))"

definition PrintServiceUsage :: string where
  "PrintServiceUsage = nl_text ''Usage:'' @ nl_text ''  sentrits service install'' @ nl_text ''  sentrits service print''"

definition HandleServiceCommand :: "CliEnv \<Rightarrow> string list \<Rightarrow> 'st CliState \<Rightarrow> CliEnd \<times> 'st CliState" where
  "HandleServiceCommand env args st =
     (case args of
        _ # action # _ \<Rightarrow>
          (case (ce_executable env, HomeDirectory (ce_getenv env)) of
             (None, _) \<Rightarrow> (Exit 1, complain (nl_text ''failed to resolve sentrits executable path'') st)
           | (_, None) \<Rightarrow> (Exit 1, complain (nl_text ''HOME is not set'') st)
           | (Some executable_path, Some home) \<Rightarrow>
               let service_path = fold (\<lambda>part p. path_join p part) [''.config'', ''systemd'', ''user'', ''sentrits.service''] home;
                   content = BuildSystemdUserUnitContent executable_path (ResolvePackagedWebRootForServices env)
               in
               if action = ''print'' then (Exit 0, say (nl_text (''# path: '' @ service_path) @ content) st)
               else if action \<noteq> ''install'' then (Exit 1, say PrintServiceUsage st)
               else
                 let (written, fs) = WriteFileWithParents (fs_path service_path) content (cli_disk st);
                     st1 = st\<lparr>cli_disk := fs\<rparr>
                 in
                 if \<not> written then (Exit 1, complain (nl_text (''failed to write service file: '' @ service_path)) st1)
                 else (Exit 0, say (nl_text (''installed service file: '' @ service_path) @ nl_text ''next:''
                        @ nl_text ''  systemctl --user daemon-reload''
                        @ nl_text ''  systemctl --user enable sentrits.service''
                        @ nl_text ''  systemctl --user start sentrits.service'') st1))
      | _ \<Rightarrow> (Exit 1, say PrintServiceUsage st))"

section \<open>Options\<close>

record ParsedCommandOptions =
  po_endpoint :: DaemonEndpoint
  po_json_output :: bool
  po_attach_after_create :: bool
  po_title :: "string option"
  po_workspace_root :: "string option"
  po_record_id :: "string option"
  po_shell_command :: "string option"
  po_provider :: "ProviderType option"
  po_lines :: "nat option"
  po_limit :: "nat option"
  po_start_revision :: "u64 option"
  po_end_revision :: "u64 option"
  po_revision :: "u64 option"
  po_before :: "nat option"
  po_after :: "nat option"
  po_positionals :: "string list"
  po_env_mode :: "EnvMode option"
  po_environment_overrides :: "(string \<times> string) list"
  po_env_file_path :: "string option"

definition ParsedCommandOptions_new :: "DaemonEndpoint \<Rightarrow> ParsedCommandOptions" where
  "ParsedCommandOptions_new default_endpoint =
     \<lparr>po_endpoint = default_endpoint, po_json_output = False, po_attach_after_create = False, po_title = None,
      po_workspace_root = None, po_record_id = None, po_shell_command = None, po_provider = None, po_lines = None,
      po_limit = None, po_start_revision = None, po_end_revision = None, po_revision = None, po_before = None,
      po_after = None, po_positionals = [], po_env_mode = None, po_environment_overrides = [], po_env_file_path = None\<rparr>"

text \<open>How a parser ends: with its options, by refusing them, or by an exception; \<open>NoOption\<close> passes an argument on.\<close>

datatype 'a Parse = Accepted 'a | Refused | Thrown | NoOption

definition ParseProviderOption :: "string \<Rightarrow> ProviderType option" where
  "ParseProviderOption value =
     (if value = ''codex'' then Some Codex else if value = ''claude'' then Some Claude else None)"

text \<open>\<open>std::stoi\<close>; \<open>None\<close> is an exception. A port is its value modulo \<open>2 ^ 16\<close>.\<close>

definition stoi :: "string \<Rightarrow> int option" where
  "stoi text =
     (let t = dropWhile is_space_char text;
          negative = starts_with t ''-'';
          digits = takeWhile is_digit_char (if negative \<or> starts_with t ''+'' then tl t else t);
          value = (if negative then - int (string_to_nat 0 digits) else int (string_to_nat 0 digits))
      in if digits = [] \<or> value < - (2 ^ 31) \<or> value \<ge> 2 ^ 31 then None else Some value)"

definition stoi_port :: "string \<Rightarrow> u16 option" where
  "stoi_port value = map_option (\<lambda>v. nat (v mod 65536)) (stoi value)"

definition accept_some :: "'b option \<Rightarrow> ('b \<Rightarrow> 'a) \<Rightarrow> 'a Parse" where
  "accept_some parsed f = (case parsed of None \<Rightarrow> Refused | Some v \<Rightarrow> Accepted (f v))"

text \<open>An argument that takes a value, and the one that follows it.\<close>

definition valued_option :: "string \<Rightarrow> string \<Rightarrow> ParsedCommandOptions \<Rightarrow> ParsedCommandOptions Parse" where
  "valued_option argument value options =
     (if argument = ''--host'' then Accepted (options\<lparr>po_endpoint := (po_endpoint options)\<lparr>de_host := value\<rparr>\<rparr>)
      else if argument = ''--port'' then
        (case stoi_port value of
           None \<Rightarrow> Thrown
         | Some port \<Rightarrow> Accepted (options\<lparr>po_endpoint := (po_endpoint options)\<lparr>de_port := port\<rparr>\<rparr>))
      else if argument = ''--title'' then Accepted (options\<lparr>po_title := Some value\<rparr>)
      else if argument = ''--workspace'' then Accepted (options\<lparr>po_workspace_root := Some value\<rparr>)
      else if argument = ''--record'' then Accepted (options\<lparr>po_record_id := Some value\<rparr>)
      else if argument = ''--shell-command'' then Accepted (options\<lparr>po_shell_command := Some value\<rparr>)
      else if argument = ''--provider''
      then accept_some (ParseProviderOption value) (\<lambda>p. options\<lparr>po_provider := Some p\<rparr>)
      else if argument = ''--lines'' then accept_some (stoull value) (\<lambda>n. options\<lparr>po_lines := Some n\<rparr>)
      else if argument = ''--limit'' then accept_some (stoull value) (\<lambda>n. options\<lparr>po_limit := Some n\<rparr>)
      else if argument = ''--start'' then accept_some (stoull value) (\<lambda>n. options\<lparr>po_start_revision := Some n\<rparr>)
      else if argument = ''--end'' then accept_some (stoull value) (\<lambda>n. options\<lparr>po_end_revision := Some n\<rparr>)
      else if argument = ''--revision'' then accept_some (stoull value) (\<lambda>n. options\<lparr>po_revision := Some n\<rparr>)
      else if argument = ''--before'' then accept_some (stoull value) (\<lambda>n. options\<lparr>po_before := Some n\<rparr>)
      else if argument = ''--after'' then accept_some (stoull value) (\<lambda>n. options\<lparr>po_after := Some n\<rparr>)
      else if argument = ''--env-mode'' then accept_some (ParseEnvMode value) (\<lambda>m. options\<lparr>po_env_mode := Some m\<rparr>)
      else if argument = ''-e'' \<or> argument = ''--env'' then
        (let key = takeWhile (\<lambda>c. c \<noteq> CHR ''='') value in
         if CHR ''='' \<notin> set value \<or> key = [] then Refused
         else Accepted (options\<lparr>po_environment_overrides :=
                map_insert key (drop (length key + 1) value) (po_environment_overrides options)\<rparr>))
      else if argument = ''--env-file'' then Accepted (options\<lparr>po_env_file_path := Some value\<rparr>)
      else NoOption)"

function parse_options :: "string list \<Rightarrow> ParsedCommandOptions \<Rightarrow> ParsedCommandOptions Parse" where
  "parse_options [] options = Accepted options"
| "parse_options (argument # rest) options =
     (case (if rest = [] then NoOption else valued_option argument (hd rest) options) of
        Accepted options1 \<Rightarrow> parse_options (tl rest) options1
      | Refused \<Rightarrow> Refused
      | Thrown \<Rightarrow> Thrown
      | NoOption \<Rightarrow>
          if argument = ''--json'' then parse_options rest (options\<lparr>po_json_output := True\<rparr>)
          else if argument = ''--attach'' then parse_options rest (options\<lparr>po_attach_after_create := True\<rparr>)
          else if argument = ''--'' then Accepted (options\<lparr>po_positionals := po_positionals options @ rest\<rparr>)
          else if argument \<noteq> [] \<and> hd argument = CHR ''-'' then Refused
          else parse_options rest (options\<lparr>po_positionals := po_positionals options @ [argument]\<rparr>))"
  by pat_completeness auto
termination by (relation "measure (\<lambda>(args, options). length args)") auto

definition ParseCommandOptions :: "string list \<Rightarrow> DaemonEndpoint \<Rightarrow> ParsedCommandOptions Parse" where
  "ParseCommandOptions args default_endpoint = parse_options args (ParsedCommandOptions_new default_endpoint)"

definition ConsumeImplicitProviderPositional :: "ParsedCommandOptions \<Rightarrow> ParsedCommandOptions" where
  "ConsumeImplicitProviderPositional options =
     (case (po_provider options, po_positionals options) of
        (None, first # rest) \<Rightarrow>
          (case ParseProviderOption first of
             None \<Rightarrow> options
           | Some provider \<Rightarrow> options\<lparr>po_provider := Some provider, po_positionals := rest\<rparr>)
      | _ \<Rightarrow> options)"

fun relay_options :: "string list \<Rightarrow> RelayObserveOptions \<Rightarrow> RelayObserveOptions option" where
  "relay_options [] options = Some options"
| "relay_options [argument] options = None"
| "relay_options (argument # value # rest) options =
     (if argument = ''--hub-url'' then relay_options rest (options\<lparr>ro_hub_url := value\<rparr>)
      else if argument = ''--token'' then relay_options rest (options\<lparr>ro_token := value\<rparr>)
      else if argument = ''--host-id'' then relay_options rest (options\<lparr>ro_host_id := value\<rparr>)
      else if argument = ''--session-id'' then relay_options rest (options\<lparr>ro_session_id := value\<rparr>)
      else None)"

definition ParseRelayObserveOptions :: "string list \<Rightarrow> RelayObserveOptions option" where
  "ParseRelayObserveOptions args =
     (case relay_options args \<lparr>ro_hub_url = [], ro_token = [], ro_host_id = [], ro_session_id = []\<rparr> of
        None \<Rightarrow> None
      | Some options \<Rightarrow>
          if ro_hub_url options = [] \<or> ro_token options = [] \<or> ro_host_id options = [] \<or> ro_session_id options = []
          then None else Some options)"

section \<open>Output\<close>

definition PrintUsage :: string where
  "PrintUsage = concat (map nl_text
     [''Usage:'',
      ''  sentrits serve [--admin-host HOST] [--admin-port PORT] [--remote-host HOST] [--remote-port PORT]''
        @ '' [--remote-cert PATH] [--remote-key PATH] [--datadir PATH] [--no-udp-discovery|--no-discovery]'',
      ''  sentrits service install|print'',
      ''  sentrits local-pty [command [args...]]'',
      ''  sentrits session list [--host HOST] [--port PORT] [--json]'',
      ''  sentrits session show [--host HOST] [--port PORT] [--json] <session-id>'',
      ''  sentrits session start [--host HOST] [--port PORT] [--title TITLE] [--workspace PATH]''
        @ '' [--provider codex|claude] [--record RECORD_ID] [--shell-command COMMAND] [--env-mode MODE]''
        @ '' [-e KEY=VALUE]... [--env-file PATH] [--attach]'',
      ''  sentrits records list [--host HOST] [--port PORT] [--json]'',
      ''  sentrits records show [--host HOST] [--port PORT] [--json] <record-id>'',
      ''  sentrits session attach [--host HOST] [--port PORT] <session-id>'',
      ''  sentrits session observe [--host HOST] [--port PORT] <session-id>'',
      ''  sentrits relay observe --hub-url URL --token TOKEN --host-id HOST_ID --session-id SESSION_ID'',
      ''  sentrits session stop [--host HOST] [--port PORT] [--json] <session-id>'',
      ''  sentrits session clear [--host HOST] [--port PORT] [--json]'',
      ''  sentrits capture start [--host HOST] [--port PORT] [--title TITLE] [--workspace PATH] [--json]''
        @ '' [--shell-command CMD | -- COMMAND ...]'',
      ''  sentrits evidence tail [--host HOST] [--port PORT] [--lines N] <session-id>'',
      ''  sentrits evidence search [--host HOST] [--port PORT] [--limit N] <session-id> <query>'',
      ''  sentrits evidence range [--host HOST] [--port PORT] --start N --end N [--limit N] <session-id>'',
      ''  sentrits evidence context [--host HOST] [--port PORT] --revision N [--before N] [--after N] <session-id>'',
      ''  sentrits observations list [--host HOST] [--port PORT] [--limit N]'',
      ''  sentrits host status [--host HOST] [--port PORT] [--json]'',
      ''  sentrits host set-name [--host HOST] [--port PORT] <display-name>'',
      ''  sentrits host set-hub <hub-url> <hub-token>'',
      ''  sentrits host clear-hub'',
      ''  sentrits host set-provider-command [--host HOST] [--port PORT] --provider codex|claude -- <command> [args...]'',
      ''  sentrits host clear-provider-command [--host HOST] [--port PORT] --provider codex|claude'',
      [], ''Compatibility aliases:'', ''  sentrits list'', ''  sentrits session-start'', ''  sentrits session-attach''])"

definition PrettyPrintJson :: "JsonLib \<Rightarrow> string \<Rightarrow> string" where
  "PrettyPrintJson lib body = (case jl_parse lib body of None \<Rightarrow> body | Some v \<Rightarrow> jl_serialize lib v)"

definition JsonUInt16 :: "json \<Rightarrow> string \<Rightarrow> u16 option" where
  "JsonUInt16 object key = map_option (\<lambda>i. nat (i mod 65536)) (required as_int64 object key)"

definition RecordToJsonValue :: "ListedRecord \<Rightarrow> json" where
  "RecordToJsonValue r = json_object
     [text_member ''recordId'' (ld_record_id r), text_member ''provider'' (ld_provider r),
      text_member ''workspaceRoot'' (ld_workspace_root r), text_member ''title'' (ld_title r),
      (''launchedAtUnixMs'', Some (JInt64 (ld_launched_at_unix_ms r))),
      (''conversationId'', map_option JString (ld_conversation_id r)),
      (''groupTags'', if ld_group_tags r = [] then None else Some (json_strings (ld_group_tags r))),
      (''commandArgv'', map_option json_strings (ld_command_argv r)),
      (''commandShell'', map_option JString (ld_command_shell r))]"

definition CopyNonEmptyProviderCommands :: "json \<Rightarrow> (string \<times> json) list" where
  "CopyNonEmptyProviderCommands source =
     (case if_contains source ''providerCommands'' of
        Some (JObject kvs) \<Rightarrow>
          concat (map (\<lambda>key. case map_of kvs key of
                                Some (JArray words) \<Rightarrow> if words \<noteq> [] then [(key, JArray words)] else []
                              | _ \<Rightarrow> []) [''codex'', ''claude''])
      | _ \<Rightarrow> [])"

definition session_row :: "ListedSession \<Rightarrow> string" where
  "session_row s =
     ls_session_id s @ [ch_tab] @ (if ls_title s = [] then ''(untitled)'' else ls_title s) @ [ch_tab]
     @ (if ls_activity_state s = [] then ls_status s else ls_activity_state s)
     @ (if ls_interaction_kind s \<noteq> [] then ch_tab # ls_interaction_kind s else [])
     @ (if ls_semantic_preview s \<noteq> [] then ch_tab # ls_semantic_preview s else [])"

definition PrintSessionListHuman :: "ListedSession list \<Rightarrow> string" where
  "PrintSessionListHuman sessions = concat (map (nl_text \<circ> session_row) sessions)"

definition RecordLaunchMode :: "ListedRecord \<Rightarrow> string" where
  "RecordLaunchMode r =
     (if ld_command_shell r \<noteq> None then ''shell''
      else if Option.bind (ld_command_argv r) nonempty_list \<noteq> None then ''argv''
      else ''provider_default'')"

definition record_row :: "ListedRecord \<Rightarrow> string" where
  "record_row r =
     ld_record_id r @ [ch_tab] @ RecordLaunchMode r @ [ch_tab] @ ld_provider r @ [ch_tab] @ ld_workspace_root r
     @ [ch_tab] @ ld_title r"

definition PrintRecordListHuman :: "ListedRecord list \<Rightarrow> string" where
  "PrintRecordListHuman records = concat (map (nl_text \<circ> record_row) records)"

definition PrintRecordHuman :: "ListedRecord \<Rightarrow> string" where
  "PrintRecordHuman r =
     nl_text (''Record ID:      '' @ ld_record_id r) @ nl_text (''Provider:       '' @ ld_provider r)
     @ nl_text (''Workspace:      '' @ ld_workspace_root r) @ nl_text (''Title:          '' @ ld_title r)
     @ nl_text (''Launched At:    '' @ int_to_string (ld_launched_at_unix_ms r) @ ''ms'')
     @ nl_text (''Launch Mode:    '' @ RecordLaunchMode r)
     @ (case ld_conversation_id r of None \<Rightarrow> [] | Some c \<Rightarrow> nl_text (''Conversation:   '' @ c))
     @ (if ld_group_tags r \<noteq> [] then nl_text (''Group Tags:     '' @ join_with '', '' (ld_group_tags r)) else [])
     @ (case ld_command_shell r of
          Some command \<Rightarrow> nl_text (''Command Shell:  '' @ command)
        | None \<Rightarrow>
            (case Option.bind (ld_command_argv r) nonempty_list of
               Some argv \<Rightarrow> nl_text (''Command Argv:   '' @ join_with '' '' argv)
             | None \<Rightarrow> []))"

text \<open>The text for a reader; \<open>None\<close> where the body is not the document that is expected.\<close>

definition PrintEvidenceHuman :: "JsonLib \<Rightarrow> string \<Rightarrow> string option" where
  "PrintEvidenceHuman lib body =
     map_option (\<lambda>entries. concat (map (\<lambda>e. if is_object e then nl_text (text_or_empty e ''text'') else []) entries))
       (Option.bind (parse_object lib body) (\<lambda>object. required as_array object ''entries''))"

definition member_object :: "json \<Rightarrow> string \<Rightarrow> json option" where
  "member_object object key = required (\<lambda>v. if is_object v then Some v else None) object key"

definition PrintSessionSnapshotHuman :: "JsonLib \<Rightarrow> string \<Rightarrow> string option" where
  "PrintSessionSnapshotHuman lib body =
     map_option (\<lambda>object.
       concat (map (\<lambda>(label, key). nl_text (label @ text_or_empty object key))
         [(''Session:        '', ''sessionId''), (''Title:          '', ''title''), (''Provider:       '', ''provider''),
          (''Workspace:      '', ''workspaceRoot''), (''Status:         '', ''status''),
          (''Supervision:    '', ''supervisionState''), (''Attention:      '', ''attentionState''),
          (''Reason:         '', ''attentionReason''), (''Interaction:    '', ''interactionKind''),
          (''Summary:        '', ''semanticPreview''), (''Controller:     '', ''controllerKind'')])
       @ (case member_object object ''signals'' of
            None \<Rightarrow> []
          | Some signals \<Rightarrow>
              (case (JsonUInt16 signals ''ptyCols'', JsonUInt16 signals ''ptyRows'') of
                 (Some cols, Some rows) \<Rightarrow> nl_text (''PTY Size:       '' @ nat_to_string cols @ '' x '' @ nat_to_string rows)
               | _ \<Rightarrow> []))
       @ (case member_object object ''git'' of
            None \<Rightarrow> []
          | Some git \<Rightarrow>
              if text_or_empty git ''branch'' = [] then [] else nl_text (''Branch:         '' @ text_or_empty git ''branch'')))
     (parse_object lib body)"

definition PrintHostStatusHuman :: "JsonLib \<Rightarrow> string \<Rightarrow> string option" where
  "PrintHostStatusHuman lib body =
     map_option (\<lambda>object.
       nl_text (''Host ID:        '' @ text_or_empty object ''hostId'')
       @ nl_text (''Display Name:   '' @ text_or_empty object ''displayName'')
       @ nl_text (''Admin Listen:   '' @ text_or_empty object ''adminHost'' @ '':''
                    @ nat_to_string (or_default 0 (JsonUInt16 object ''adminPort'')))
       @ nl_text (''Remote Listen:  '' @ text_or_empty object ''remoteHost'' @ '':''
                    @ nat_to_string (or_default 0 (JsonUInt16 object ''remotePort'')))
       @ nl_text (''Version:        '' @ text_or_empty object ''version'')
       @ (case member_object object ''tls'' of
            None \<Rightarrow> []
          | Some tls \<Rightarrow> nl_text (''TLS:            '' @ text_or_empty tls ''mode'')))
     (parse_object lib body)"

section \<open>The daemon's settings\<close>

definition LoadConfiguredAdminEndpoint :: "CliEnv \<Rightarrow> FileSystem \<Rightarrow> DaemonEndpoint" where
  "LoadConfiguredAdminEndpoint env fs =
     (case LoadHostIdentity (FileHostConfigStore (ce_lib env)
              (fs_path (DefaultStorageRoot (ce_getenv env) (ce_current_path env)))) fs of
        None \<Rightarrow> DaemonEndpoint_default
      | Some identity \<Rightarrow>
          \<lparr>de_host = (if hi_admin_host identity = [] then hi_admin_host MakeDefaultHostIdentity else hi_admin_host identity),
           de_port = hi_admin_port identity\<rparr>)"

text \<open>The options of \<open>serve\<close>; a listener setting is \<open>None\<close> when it was not given explicitly. The two last arguments of
  anything else are taken for the remote host and port, and are not explicit.\<close>

record ServeOptions =
  so_storage_root :: string
  so_admin_host :: "string option"
  so_admin_port :: "u16 option"
  so_remote_host :: "string option"
  so_remote_port :: "u16 option"
  so_positional :: "(string \<times> u16) option"
  so_remote_tls :: "(string \<times> string) option"
  so_enable_discovery :: bool

definition ServeOptions_new :: "string \<Rightarrow> ServeOptions" where
  "ServeOptions_new storage_root =
     \<lparr>so_storage_root = storage_root, so_admin_host = None, so_admin_port = None, so_remote_host = None,
      so_remote_port = None, so_positional = None, so_remote_tls = None, so_enable_discovery = True\<rparr>"

definition accept_port :: "string \<Rightarrow> (u16 \<Rightarrow> 'a) \<Rightarrow> 'a Parse" where
  "accept_port value f = (case stoi_port value of None \<Rightarrow> Thrown | Some port \<Rightarrow> Accepted (f port))"

definition serve_option :: "string \<Rightarrow> string \<Rightarrow> ServeOptions \<Rightarrow> ServeOptions Parse" where
  "serve_option argument value options =
     (let tls = or_default ([], []) (so_remote_tls options) in
      if argument = ''--admin-host'' then Accepted (options\<lparr>so_admin_host := Some value\<rparr>)
      else if argument = ''--admin-port'' then accept_port value (\<lambda>p. options\<lparr>so_admin_port := Some p\<rparr>)
      else if argument = ''--remote-host'' then Accepted (options\<lparr>so_remote_host := Some value\<rparr>)
      else if argument = ''--remote-port'' then accept_port value (\<lambda>p. options\<lparr>so_remote_port := Some p\<rparr>)
      else if argument = ''--remote-cert'' then Accepted (options\<lparr>so_remote_tls := Some (value, snd tls)\<rparr>)
      else if argument = ''--remote-key'' then Accepted (options\<lparr>so_remote_tls := Some (fst tls, value)\<rparr>)
      else if argument = ''--datadir'' then Accepted (options\<lparr>so_storage_root := value\<rparr>)
      else NoOption)"

function parse_serve :: "string list \<Rightarrow> ServeOptions \<Rightarrow> ServeOptions Parse" where
  "parse_serve [] options = Accepted options"
| "parse_serve (argument # rest) options =
     (case (if rest = [] then NoOption else serve_option argument (hd rest) options) of
        Accepted options1 \<Rightarrow> parse_serve (tl rest) options1
      | Refused \<Rightarrow> Refused
      | Thrown \<Rightarrow> Thrown
      | NoOption \<Rightarrow>
          if argument = ''--no-udp-discovery'' \<or> argument = ''--no-discovery''
          then parse_serve rest (options\<lparr>so_enable_discovery := False\<rparr>)
          else if length rest = 1
          then accept_port (hd rest) (\<lambda>port. options\<lparr>so_positional := Some (argument, port)\<rparr>)
          else Refused)"
  by pat_completeness auto
termination by (relation "measure (\<lambda>(args, options). length args)") auto

text \<open>A setting: the explicit one, else the stored one when there is a stored identity, else what the positional
  arguments gave over the default. A positional argument comes after every option, so it overrides an explicit setting
  in the variable, and the flag of the option still protects it from the stored one.\<close>

definition serve_setting :: "'a option \<Rightarrow> 'a option \<Rightarrow> 'a option \<Rightarrow> 'a \<Rightarrow> 'a" where
  "serve_setting explicit positional stored initial =
     (case (explicit, stored) of
        (None, Some v) \<Rightarrow> v
      | _ \<Rightarrow> or_default (or_default initial explicit) positional)"

definition run_serve :: "CliEnv \<Rightarrow> string list \<Rightarrow> 'st CliState \<Rightarrow> CliEnd \<times> 'st CliState" where
  "run_serve env args st =
     (case parse_serve args (ServeOptions_new (DefaultStorageRoot (ce_getenv env) (ce_current_path env))) of
        Accepted options \<Rightarrow>
          let store = FileHostConfigStore (ce_lib env) (fs_path (so_storage_root options));
              stored = LoadHostIdentity store (cli_disk st);
              default = MakeDefaultHostIdentity;
              identity = (or_default default stored)
                \<lparr>hi_admin_host := serve_setting (so_admin_host options) None (map_option hi_admin_host stored) (hi_admin_host default),
                 hi_admin_port := serve_setting (so_admin_port options) None (map_option hi_admin_port stored) (hi_admin_port default),
                 hi_remote_host := serve_setting (so_remote_host options) (map_option fst (so_positional options))
                   (map_option hi_remote_host stored) (hi_remote_host default),
                 hi_remote_port := serve_setting (so_remote_port options) (map_option snd (so_positional options))
                   (map_option hi_remote_port stored) (hi_remote_port default)\<rparr>;
              (saved, fs) = SaveHostIdentity store identity (cli_disk st);
              st1 = st\<lparr>cli_disk := fs\<rparr>
          in
          if \<not> saved then (Exit 1, complain (nl_text (''failed to save host listener config under '' @ so_storage_root options)) st1)
          else
            let (mirror, fs1) = ScopedServeLogMirror (fs_path (DefaultServeLogPath (so_storage_root options))) fs in
            (RunServer
               \<lparr>ss_storage_root = so_storage_root options,
                ss_admin_host = hi_admin_host identity, ss_admin_port = hi_admin_port identity,
                ss_remote_host = hi_remote_host identity, ss_remote_port = hi_remote_port identity,
                ss_remote_tls = so_remote_tls options, ss_enable_discovery = so_enable_discovery options,
                ss_hub_url = or_default [] (Option.bind stored hi_hub_url),
                ss_hub_token = or_default [] (Option.bind stored hi_hub_token),
                ss_log_mirror = mirror\<rparr>, st1\<lparr>cli_disk := fs1\<rparr>)
      | Thrown \<Rightarrow> (UncaughtException, st)
      | _ \<Rightarrow> (Exit 1, say PrintUsage (complain (nl_text ''invalid serve arguments'') st)))"

section \<open>Commands\<close>

definition usage_exit :: "'st CliState \<Rightarrow> CliEnd \<times> 'st CliState" where
  "usage_exit st = (Exit 1, say PrintUsage st)"

definition id_required :: "'st CliState \<Rightarrow> CliEnd \<times> 'st CliState" where
  "id_required st = (Exit 1, complain (nl_text ''session id required'') st)"

definition failed_at :: "string \<Rightarrow> DaemonEndpoint \<Rightarrow> string" where
  "failed_at what endpoint = what @ '' daemon at '' @ de_host endpoint @ '':'' @ nat_to_string (de_port endpoint)"

text \<open>Options, and what the command does when they are refused.\<close>

definition with_options ::
    "CliEnv \<Rightarrow> string list \<Rightarrow> (ParsedCommandOptions \<Rightarrow> bool) \<Rightarrow> ('st CliState \<Rightarrow> CliEnd \<times> 'st CliState)
       \<Rightarrow> (ParsedCommandOptions \<Rightarrow> 'st CliState \<Rightarrow> CliEnd \<times> 'st CliState) \<Rightarrow> 'st CliState \<Rightarrow> CliEnd \<times> 'st CliState" where
  "with_options env args valid refuse_with command st =
     (case ParseCommandOptions args (LoadConfiguredAdminEndpoint env (cli_disk st)) of
        Thrown \<Rightarrow> (UncaughtException, st)
      | Accepted options \<Rightarrow> if valid options then command options st else refuse_with st
      | _ \<Rightarrow> refuse_with st)"

text \<open>An answer of the daemon, or the report that there is none.\<close>

definition with_answer ::
    "string \<Rightarrow> DaemonEndpoint \<Rightarrow> ('st \<Rightarrow> 'a option \<times> 'st) \<Rightarrow> ('a \<Rightarrow> 'st CliState \<Rightarrow> CliEnd \<times> 'st CliState)
       \<Rightarrow> 'st CliState \<Rightarrow> CliEnd \<times> 'st CliState" where
  "with_answer what endpoint call found st =
     (case call_network call st of
        (None, st1) \<Rightarrow> (Exit 1, complain (nl_text (failed_at what endpoint)) st1)
      | (Some answer, st1) \<Rightarrow> found answer st1)"

definition print_exit :: "string \<Rightarrow> 'st CliState \<Rightarrow> CliEnd \<times> 'st CliState" where
  "print_exit s st = (Exit 0, say s st)"

definition any_options :: "ParsedCommandOptions \<Rightarrow> bool" where
  "any_options options \<longleftrightarrow> True"

definition has_positional :: "ParsedCommandOptions \<Rightarrow> bool" where
  "has_positional options \<longleftrightarrow> po_positionals options \<noteq> []"

definition session_list_json :: "JsonLib \<Rightarrow> ListedSession list \<Rightarrow> string" where
  "session_list_json lib sessions = jl_serialize lib (JArray (map (\<lambda>s. json_object
     [text_member ''sessionId'' (ls_session_id s), text_member ''title'' (ls_title s),
      text_member ''activityState'' (ls_activity_state s), text_member ''status'' (ls_status s)]) sessions))"

definition list_command ::
    "CliEnv \<Rightarrow> 'st Network \<Rightarrow> string list \<Rightarrow> 'st CliState \<Rightarrow> CliEnd \<times> 'st CliState" where
  "list_command env network args = with_options env args any_options usage_exit
     (\<lambda>options. with_answer ''failed to list sessions via'' (po_endpoint options)
        (ListSessions_client (ce_lib env) network (po_endpoint options))
        (\<lambda>sessions. print_exit (if po_json_output options then nl_text (session_list_json (ce_lib env) sessions)
                                else PrintSessionListHuman sessions)))"

text \<open>A text for the reader, or the document when it is asked for or not understood.\<close>

definition human_or_json :: "JsonLib \<Rightarrow> bool \<Rightarrow> string option \<Rightarrow> string \<Rightarrow> string" where
  "human_or_json lib json_output human body =
     (case (json_output, human) of (False, Some s) \<Rightarrow> s | _ \<Rightarrow> nl_text (PrettyPrintJson lib body))"

definition evidence_request_of :: "string \<Rightarrow> ParsedCommandOptions \<Rightarrow> EvidenceCliRequest option" where
  "evidence_request_of subcommand options =
     (let base = \<lparr>eq_session_id = hd (po_positionals options), eq_operation = subcommand, eq_lines = po_lines options,
            eq_query = None, eq_revision_start = None, eq_revision_end = None, eq_revision = None, eq_before = None,
            eq_after = None, eq_limit = po_limit options\<rparr>
      in
      if subcommand = ''search'' then
        (case po_positionals options of _ # query # _ \<Rightarrow> Some (base\<lparr>eq_query := Some query\<rparr>) | _ \<Rightarrow> None)
      else if subcommand = ''range''
      then Some (base\<lparr>eq_revision_start := po_start_revision options, eq_revision_end := po_end_revision options\<rparr>)
      else if subcommand = ''context''
      then Some (base\<lparr>eq_revision := po_revision options, eq_before := po_before options, eq_after := po_after options\<rparr>)
      else if subcommand = ''tail'' then Some base
      else None)"

definition evidence_command ::
    "CliEnv \<Rightarrow> 'st Network \<Rightarrow> string \<Rightarrow> string list \<Rightarrow> 'st CliState \<Rightarrow> CliEnd \<times> 'st CliState" where
  "evidence_command env network subcommand args = with_options env args has_positional usage_exit
     (\<lambda>options st.
        case evidence_request_of subcommand options of
          None \<Rightarrow> usage_exit st
        | Some request \<Rightarrow>
            with_answer ''failed to read evidence via'' (po_endpoint options)
              (GetEvidence (ce_getenv env) network (po_endpoint options) request)
              (\<lambda>result. print_exit (human_or_json (ce_lib env) (po_json_output options)
                                     (PrintEvidenceHuman (ce_lib env) result) result)) st)"

definition observations_command ::
    "CliEnv \<Rightarrow> 'st Network \<Rightarrow> string \<Rightarrow> string list \<Rightarrow> 'st CliState \<Rightarrow> CliEnd \<times> 'st CliState" where
  "observations_command env network subcommand args st =
     (if subcommand \<noteq> ''list'' then usage_exit st
      else with_options env args any_options usage_exit
        (\<lambda>options. with_answer ''failed to list observations via'' (po_endpoint options)
           (ListObservations network (po_endpoint options) (or_default 200 (po_limit options)))
           (\<lambda>result. print_exit (nl_text (PrettyPrintJson (ce_lib env) result)))) st)"

definition created_text :: "JsonLib \<Rightarrow> bool \<Rightarrow> string \<Rightarrow> string \<Rightarrow> string \<Rightarrow> string" where
  "created_text lib json_output kind session_id title =
     nl_text (if json_output
              then jl_serialize lib (json_object [text_member ''sessionId'' session_id, text_member ''title'' title])
              else kind @ session_id @ '' created'')"

definition with_created ::
    "string \<Rightarrow> DaemonEndpoint \<Rightarrow> ('st \<Rightarrow> CliSessionResult \<times> 'st) \<Rightarrow> (string \<Rightarrow> 'st CliState \<Rightarrow> CliEnd \<times> 'st CliState)
       \<Rightarrow> 'st CliState \<Rightarrow> CliEnd \<times> 'st CliState" where
  "with_created what endpoint call found st =
     (let (created, st1) = call_network call st in
      case xr_session_id created of
        Some session_id \<Rightarrow> found session_id st1
      | None \<Rightarrow>
          (Exit 1, complain (nl_text (failed_at what endpoint
             @ (if xr_error_message created = [] then [] else '': '' @ xr_error_message created))) st1))"

definition capture_command ::
    "CliEnv \<Rightarrow> 'st Network \<Rightarrow> string \<Rightarrow> string list \<Rightarrow> 'st CliState \<Rightarrow> CliEnd \<times> 'st CliState" where
  "capture_command env network subcommand args st =
     (if subcommand \<noteq> ''start'' then usage_exit st
      else with_options env args any_options usage_exit
        (\<lambda>options st.
           if po_shell_command options \<noteq> None \<and> po_positionals options \<noteq> [] then
             (Exit 1, complain (nl_text ''capture start accepts either --shell-command or command argv, not both'') st)
           else if po_shell_command options = None \<and> po_positionals options = [] then
             (Exit 1, say PrintUsage (complain (nl_text ''capture start requires a command'') st))
           else
             let title = or_default ''log'' (po_title options) in
             with_created ''failed to create log session via'' (po_endpoint options)
               (CreateLogSessionWithDetail (ce_lib env) network (po_endpoint options)
                  \<lparr>xs_provider = None,
                   xs_workspace_root = Some (or_default (ce_current_path env) (po_workspace_root options)),
                   xs_title = Some title, xs_record_id = None,
                   xs_command_argv = (if po_shell_command options \<noteq> None then None else Some (po_positionals options)),
                   xs_command_shell = po_shell_command options, xs_env_mode = po_env_mode options,
                   xs_environment_overrides = po_environment_overrides options,
                   xs_env_file_path = po_env_file_path options\<rparr>)
               (\<lambda>session_id. print_exit (created_text (ce_lib env) (po_json_output options) ''capture session '' session_id title))
               st) st)"

definition start_request :: "CliEnv \<Rightarrow> string \<Rightarrow> ParsedCommandOptions \<Rightarrow> CliSessionRequest" where
  "start_request env default_title options =
     \<lparr>xs_provider = po_provider options,
      xs_workspace_root = Some (or_default (ce_current_path env) (po_workspace_root options)),
      xs_title = Some (or_default default_title (po_title options)), xs_record_id = po_record_id options,
      xs_command_argv = None, xs_command_shell = po_shell_command options, xs_env_mode = po_env_mode options,
      xs_environment_overrides = po_environment_overrides options, xs_env_file_path = po_env_file_path options\<rparr>"

text \<open>\<open>session start\<close>, and \<open>session-start\<close>, which always attaches.\<close>

definition start_command ::
    "CliEnv \<Rightarrow> 'st Network \<Rightarrow> bool \<Rightarrow> string list \<Rightarrow> 'st CliState \<Rightarrow> CliEnd \<times> 'st CliState" where
  "start_command env network is_alias args = with_options env args any_options usage_exit
     (\<lambda>parsed st.
        let options = ConsumeImplicitProviderPositional parsed;
            default_title = (if is_alias then ''host-session'' else ''session'')
        in
        if po_positionals options \<noteq> [] then
          (Exit 1, say PrintUsage (complain
             (nl_text (''unexpected positional arguments for '' @ (if is_alias then ''session-start'' else ''session start''))) st))
        else
          with_created ''failed to create session via'' (po_endpoint options)
            (CreateSessionWithDetail (ce_lib env) network (po_endpoint options) (start_request env default_title options))
            (\<lambda>session_id st1.
               if is_alias
               then (AttachSession (po_endpoint options) session_id,
                     complain (nl_text (''session '' @ session_id @ '' created'')) st1)
               else
                 (if po_attach_after_create options then AttachSession (po_endpoint options) session_id else Exit 0,
                  say (created_text (ce_lib env) (po_json_output options) ''session '' session_id
                         (or_default default_title (po_title options))) st1)) st)"

definition on_session ::
    "CliEnv \<Rightarrow> string list \<Rightarrow> ('st CliState \<Rightarrow> CliEnd \<times> 'st CliState)
       \<Rightarrow> (ParsedCommandOptions \<Rightarrow> string \<Rightarrow> 'st CliState \<Rightarrow> CliEnd \<times> 'st CliState) \<Rightarrow> 'st CliState \<Rightarrow> CliEnd \<times> 'st CliState" where
  "on_session env args refuse_with command =
     with_options env args has_positional refuse_with (\<lambda>options. command options (hd (po_positionals options)))"

text \<open>One call for one session, and what is printed of its answer.\<close>

definition show_command :: "CliEnv \<Rightarrow> 'st Network \<Rightarrow> string list \<Rightarrow> 'st CliState \<Rightarrow> CliEnd \<times> 'st CliState" where
  "show_command env network args = on_session env args usage_exit
     (\<lambda>options session_id. with_answer ''failed to show session via'' (po_endpoint options)
        (GetSessionSnapshot network (po_endpoint options) session_id)
        (\<lambda>snapshot. print_exit (human_or_json (ce_lib env) (po_json_output options)
                                  (PrintSessionSnapshotHuman (ce_lib env) snapshot) snapshot)))"

definition stop_command :: "CliEnv \<Rightarrow> 'st Network \<Rightarrow> string list \<Rightarrow> 'st CliState \<Rightarrow> CliEnd \<times> 'st CliState" where
  "stop_command env network args = on_session env args id_required
     (\<lambda>options session_id. with_answer ''failed to stop session via'' (po_endpoint options)
        (StopSession_client network (po_endpoint options) session_id)
        (\<lambda>result. print_exit (nl_text (if po_json_output options then PrettyPrintJson (ce_lib env) result
                                       else ''session '' @ session_id @ '' stopped''))))"

definition env_command :: "CliEnv \<Rightarrow> 'st Network \<Rightarrow> string list \<Rightarrow> 'st CliState \<Rightarrow> CliEnd \<times> 'st CliState" where
  "env_command env network args = on_session env args id_required
     (\<lambda>options session_id. with_answer ''failed to get session env from'' (po_endpoint options)
        (GetSessionEnv network (po_endpoint options) session_id)
        (\<lambda>result. print_exit (nl_text (PrettyPrintJson (ce_lib env) result))))"

definition clear_command :: "CliEnv \<Rightarrow> 'st Network \<Rightarrow> string list \<Rightarrow> 'st CliState \<Rightarrow> CliEnd \<times> 'st CliState" where
  "clear_command env network args = with_options env args any_options usage_exit
     (\<lambda>options. with_answer ''failed to clear inactive sessions via'' (po_endpoint options)
        (ClearInactiveSessions_client network (po_endpoint options))
        (\<lambda>result. print_exit (nl_text (if po_json_output options then PrettyPrintJson (ce_lib env) result
                                       else ''cleared inactive sessions''))))"

definition attach_command :: "CliEnv \<Rightarrow> string list \<Rightarrow> 'st CliState \<Rightarrow> CliEnd \<times> 'st CliState" where
  "attach_command env args = on_session env args id_required
     (\<lambda>options session_id st. (AttachSession (po_endpoint options) session_id, st))"

definition observe_command :: "CliEnv \<Rightarrow> string list \<Rightarrow> 'st CliState \<Rightarrow> CliEnd \<times> 'st CliState" where
  "observe_command env args = on_session env args id_required
     (\<lambda>options session_id st. (ObserveSession (po_endpoint options) session_id, st))"

text \<open>The commands of \<open>session\<close>, \<open>records\<close> and \<open>host\<close>; \<open>None\<close> where the name is unknown, which goes on to the usage
  at the end of \<open>main\<close>.\<close>

definition session_command ::
    "CliEnv \<Rightarrow> 'st Network \<Rightarrow> string \<Rightarrow> string list \<Rightarrow> 'st CliState \<Rightarrow> (CliEnd \<times> 'st CliState) option" where
  "session_command env network subcommand args st =
     (if subcommand = ''list'' then Some (list_command env network args st)
      else if subcommand = ''show'' then Some (show_command env network args st)
      else if subcommand = ''start'' then Some (start_command env network False args st)
      else if subcommand = ''attach'' then Some (attach_command env args st)
      else if subcommand = ''observe'' then Some (observe_command env args st)
      else if subcommand = ''stop'' then Some (stop_command env network args st)
      else if subcommand = ''env'' then Some (env_command env network args st)
      else if subcommand = ''clear'' then Some (clear_command env network args st)
      else None)"

definition records_command ::
    "CliEnv \<Rightarrow> 'st Network \<Rightarrow> string \<Rightarrow> string list \<Rightarrow> 'st CliState \<Rightarrow> (CliEnd \<times> 'st CliState) option" where
  "records_command env network subcommand args st =
     (let what = ''failed to list launch records via''; lib = ce_lib env in
      if subcommand = ''list'' then
        Some (with_options env args any_options usage_exit
          (\<lambda>options. with_answer what (po_endpoint options) (ListRecords lib network (po_endpoint options))
             (\<lambda>records. print_exit (if po_json_output options
                then nl_text (jl_serialize lib (JArray (map RecordToJsonValue records))) else PrintRecordListHuman records))) st)
      else if subcommand = ''show'' then
        Some (on_session env args usage_exit
          (\<lambda>options record_id. with_answer what (po_endpoint options) (ListRecords lib network (po_endpoint options))
             (\<lambda>records st1. case find (\<lambda>r. ld_record_id r = record_id) records of
                None \<Rightarrow> (Exit 1, complain (nl_text (''record '' @ record_id @ '' not found'')) st1)
              | Some r \<Rightarrow> print_exit (if po_json_output options then nl_text (jl_serialize lib (RecordToJsonValue r))
                                     else PrintRecordHuman r) st1)) st)
      else None)"

section \<open>Host commands\<close>

definition save_hub ::
    "CliEnv \<Rightarrow> string option \<Rightarrow> string option \<Rightarrow> string \<Rightarrow> string \<Rightarrow> 'st CliState \<Rightarrow> CliEnd \<times> 'st CliState" where
  "save_hub env url token failed success st =
     (let store = FileHostConfigStore (ce_lib env) (fs_path (DefaultStorageRoot (ce_getenv env) (ce_current_path env)));
          (identity, fs) = EnsureHostIdentity store (ce_random_bytes env) (cli_disk st);
          st1 = st\<lparr>cli_disk := fs\<rparr>
      in
      case identity of
        None \<Rightarrow> (Exit 1, complain (nl_text ''failed to initialize host identity'') st1)
      | Some identity \<Rightarrow>
          let (saved, fs2) = SaveHostIdentity store (identity\<lparr>hi_hub_url := url, hi_hub_token := token\<rparr>) fs;
              st2 = st1\<lparr>cli_disk := fs2\<rparr>
          in if \<not> saved then (Exit 1, complain (nl_text failed) st2) else (Exit 0, say (nl_text success) st2))"

text \<open>A member of the current information, or a default.\<close>

definition kept_member :: "json \<Rightarrow> string \<Rightarrow> json \<Rightarrow> string \<times> json" where
  "kept_member object key initial = (key, or_default initial (if_contains object key))"

definition config_payload :: "(string \<times> json) \<Rightarrow> json \<Rightarrow> (string \<times> json) list \<Rightarrow> json" where
  "config_payload display_name object provider_commands =
     (let initial = MakeDefaultHostIdentity in
      JObject ([display_name,
        kept_member object ''adminHost'' (JString (hi_admin_host initial)),
        kept_member object ''adminPort'' (JUint64 (hi_admin_port initial)),
        kept_member object ''remoteHost'' (JString (hi_remote_host initial)),
        kept_member object ''remotePort'' (JUint64 (hi_remote_port initial))]
       @ (if provider_commands \<noteq> [] then [(''providerCommands'', JObject provider_commands)] else [])))"

definition post_config ::
    "CliEnv \<Rightarrow> 'st Network \<Rightarrow> DaemonEndpoint \<Rightarrow> json \<Rightarrow> string \<Rightarrow> string \<Rightarrow> 'st CliState \<Rightarrow> CliEnd \<times> 'st CliState" where
  "post_config env network endpoint payload failed success st =
     (case call_network (PostHostConfig network endpoint (jl_serialize (ce_lib env) payload)) st of
        (None, st1) \<Rightarrow> (Exit 1, complain (nl_text failed) st1)
      | (Some result, st1) \<Rightarrow> print_exit (nl_text success) st1)"

definition with_host_info ::
    "CliEnv \<Rightarrow> 'st Network \<Rightarrow> DaemonEndpoint \<Rightarrow> (json \<Rightarrow> 'st CliState \<Rightarrow> CliEnd \<times> 'st CliState) \<Rightarrow> 'st CliState
       \<Rightarrow> CliEnd \<times> 'st CliState" where
  "with_host_info env network endpoint use = with_answer ''failed to fetch host info via'' endpoint
     (GetHostInfo network endpoint)
     (\<lambda>body st1. case parse_object (ce_lib env) body of
        None \<Rightarrow> (Exit 1, complain (nl_text ''failed to parse host info'') st1)
      | Some object \<Rightarrow> use object st1)"

definition set_name_command :: "CliEnv \<Rightarrow> 'st Network \<Rightarrow> string list \<Rightarrow> 'st CliState \<Rightarrow> CliEnd \<times> 'st CliState" where
  "set_name_command env network args = on_session env args usage_exit
     (\<lambda>options new_name st.
        if new_name = [] then (Exit 1, complain (nl_text ''display name must not be empty'') st)
        else with_host_info env network (po_endpoint options)
          (\<lambda>object. post_config env network (po_endpoint options)
             (config_payload (''displayName'', JString new_name) object (CopyNonEmptyProviderCommands object))
             ''failed to update host display name'' (''display name updated to: '' @ new_name)) st)"

definition provider_key :: "ProviderType \<Rightarrow> string" where
  "provider_key provider = (if provider = Codex then ''codex'' else ''claude'')"

definition provider_command_command ::
    "CliEnv \<Rightarrow> 'st Network \<Rightarrow> bool \<Rightarrow> string list \<Rightarrow> 'st CliState \<Rightarrow> CliEnd \<times> 'st CliState" where
  "provider_command_command env network clearing args =
     with_options env args
       (\<lambda>options. po_provider options \<noteq> None \<and> (clearing \<or> po_positionals options \<noteq> [])) usage_exit
       (\<lambda>options. with_host_info env network (po_endpoint options)
          (\<lambda>object.
             let key = provider_key (the (po_provider options));
                 current = CopyNonEmptyProviderCommands object;
                 commands = (if clearing then filter (\<lambda>(k, v). k \<noteq> key) current
                             else set_member key (json_strings (po_positionals options)) current)
             in post_config env network (po_endpoint options)
                  (config_payload (kept_member object ''displayName'' (JString kDefaultDisplayName)) object commands)
                  ''failed to update provider command''
                  ((if clearing then ''provider command cleared for '' else ''provider command updated for '') @ key)))"

definition host_command ::
    "CliEnv \<Rightarrow> 'st Network \<Rightarrow> string \<Rightarrow> string list \<Rightarrow> 'st CliState \<Rightarrow> (CliEnd \<times> 'st CliState) option" where
  "host_command env network subcommand args st =
     (if subcommand = ''set-hub'' then
        Some (case args of
                [url, token] \<Rightarrow> save_hub env (Some url) (Some token) ''failed to save hub configuration''
                                 ''hub configuration saved; restart sentrits serve to apply it'' st
              | _ \<Rightarrow> usage_exit st)
      else if subcommand = ''clear-hub''
      then Some (save_hub env None None ''failed to clear hub configuration'' ''hub configuration cleared'' st)
      else if subcommand = ''status'' then
        Some (with_options env args any_options usage_exit
          (\<lambda>options. with_answer ''failed to fetch host status via'' (po_endpoint options)
             (GetHostInfo network (po_endpoint options))
             (\<lambda>info. print_exit (human_or_json (ce_lib env) (po_json_output options)
                                   (PrintHostStatusHuman (ce_lib env) info) info))) st)
      else if subcommand = ''set-name'' then Some (set_name_command env network args st)
      else if subcommand = ''set-provider-command'' then Some (provider_command_command env network False args st)
      else if subcommand = ''clear-provider-command'' then Some (provider_command_command env network True args st)
      else None)"

section \<open>The program\<close>

definition relay_command :: "string \<Rightarrow> string list \<Rightarrow> 'st CliState \<Rightarrow> (CliEnd \<times> 'st CliState) option" where
  "relay_command subcommand args st =
     (if subcommand \<noteq> ''observe'' then None
      else Some (case ParseRelayObserveOptions args of
                   None \<Rightarrow> usage_exit st
                 | Some options \<Rightarrow> (ObserveHubRelaySession options, st)))"

text \<open>A command with a subcommand and its arguments.\<close>

definition subcommand_of ::
    "CliEnv \<Rightarrow> 'st Network \<Rightarrow> string \<Rightarrow> string \<Rightarrow> string list \<Rightarrow> 'st CliState \<Rightarrow> (CliEnd \<times> 'st CliState) option" where
  "subcommand_of env network command subcommand args st =
     (if command = ''evidence'' then Some (evidence_command env network subcommand args st)
      else if command = ''observations'' then Some (observations_command env network subcommand args st)
      else if command = ''capture'' then Some (capture_command env network subcommand args st)
      else if command = ''relay'' then relay_command subcommand args st
      else if command = ''session'' then session_command env network subcommand args st
      else if command = ''records'' then records_command env network subcommand args st
      else if command = ''host'' then host_command env network subcommand args st
      else None)"

definition sentrits_main :: "CliEnv \<Rightarrow> 'st Network \<Rightarrow> string list \<Rightarrow> 'st CliState \<Rightarrow> CliEnd \<times> 'st CliState" where
  "sentrits_main env network argv st =
     (case argv of
        [] \<Rightarrow> (Exit 0, say PrintUsage st)
      | command # args \<Rightarrow>
          if command = ''service'' then HandleServiceCommand env argv st
          else if command = ''serve'' then run_serve env args st
          else if command = ''local-pty'' then (RunLocalPty (if args = [] then [''/bin/sh''] else args), st)
          else if command = ''list'' then list_command env network args st
          else if command = ''session-start'' then start_command env network True args st
          else if command = ''session-attach'' then attach_command env args st
          else
            case (case args of [] \<Rightarrow> None | subcommand # rest \<Rightarrow> subcommand_of env network command subcommand rest st) of
              Some r \<Rightarrow> r
            | None \<Rightarrow> (Exit 0, say PrintUsage st))"

end
