(* ===== verification/Http_Properties.thy ===== *)
theory Http_Properties
  imports Evidence_Route
begin

text \<open>
  What the HTTP interface guarantees, and what it does not: a request without a valid token changes nothing but the
  pending pairing requests and always has an answer; a request at the remote listener approves and rejects no
  pairing; only a POST with the authority to control changes a session; the remote listener serves files from
  outside its directories; a query for evidence can end the daemon.
\<close>

section \<open>Requests without authorisation\<close>

definition unchanged :: "('p, 'vt, 'l, 's) HttpState \<Rightarrow> ('p, 'vt, 'l, 's) reply \<Rightarrow> bool" where
  "unchanged s reply \<longleftrightarrow> (\<exists>response. reply = Some (response, s))"

lemma unchanged_Some [simp]: "unchanged s (Some (response, s))"
  by (simp add: unchanged_def)

lemma unchanged_refused [simp]: "unchanged s (unless_refused (Some response) s rest)"
  by (simp add: unless_refused_def)

lemma unchanged_unless: "unchanged s rest \<Longrightarrow> unchanged s (unless_refused auth_response s rest)"
  by (cases auth_response) (simp_all add: unless_refused_def)

text \<open>A request that the authoriser refuses for everything that it is asked about, and that does not come to the
  administration listener from the host itself.\<close>

definition denied :: "JsonLib \<Rightarrow> HttpRouteContext \<Rightarrow> HttpRequest \<Rightarrow> FileSystem \<Rightarrow> bool" where
  "denied lib ctx request fs \<longleftrightarrow>
     \<not> (hc_listener_role ctx = AdminLocal \<and> hc_is_local_request ctx)
     \<and> (\<forall>action \<in> {ObserveSessions, ControlSession, ManageHostSetups}.
          RequireAuthorization lib request ctx action fs \<noteq> None)"

lemma denied_refusals:
  assumes "denied lib ctx request fs"
  shows "\<exists>r. RequireAuthorization lib request ctx ObserveSessions fs = Some r"
    and "\<exists>r. RequireAuthorization lib request ctx ControlSession fs = Some r"
    and "\<exists>r. RequireAuthorization lib request ctx ManageHostSetups fs = Some r"
    and "\<exists>r. RequireLocalAuthorization lib request ctx action fs = Some r"
  using assms by (auto simp: denied_def RequireLocalAuthorization_def)

lemmas refusal_defs = RequireLocalHostAdmin_def RequireHostRecordsAuthorization_def

lemma denied_unless:
  assumes "denied lib ctx request fs"
  shows "unchanged s (unless_refused (RequireAuthorization lib request ctx ObserveSessions fs) s rest)"
    and "unchanged s (unless_refused (RequireAuthorization lib request ctx ControlSession fs) s rest)"
    and "unchanged s (unless_refused (RequireAuthorization lib request ctx ManageHostSetups fs) s rest)"
    and "unchanged s (unless_refused (RequireLocalAuthorization lib request ctx action fs) s rest)"
    and "unchanged s (unless_refused (RequireLocalHostAdmin lib request ctx fs) s rest)"
    and "unchanged s (unless_refused (RequireHostRecordsAuthorization lib request ctx fs) s rest)"
  using denied_refusals [OF assms] by (metis unchanged_refused refusal_defs)+

lemma denied_documents:
  assumes "denied (he_lib env) ctx request (hs_disk s)"
  shows "unchanged s (HandleTemplatesRequest env ctx request p s)"
    and "unchanged s (HandleStoredEvidenceRequest env ctx request session_id suffix_text s)"
    and "unchanged s (HandleEvidenceRequest env ctx request session_id operation target s)"
  by (simp_all add: HandleTemplatesRequest_def HandleStoredEvidenceRequest_def HandleEvidenceRequest_def Let_def
      denied_unless [OF assms] split: HttpVerb.split)

lemma denied_static:
  assumes "denied (he_lib env) ctx request (hs_disk s)" "unchanged s rest"
  shows "unchanged s (static_routes env ctx request s rest)"
  using assms(2) by (simp add: static_routes_def Let_def index_page_def admin_page_def admin_asset_def denied_unless [OF assms(1)]
      unless_refused_def [of None] split: option.split)

lemma denied_host:
  assumes "denied (he_lib env) ctx request (hs_disk s)" "unchanged s rest"
  shows "unchanged s (host_routes env ctx request s rest)"
    and "unchanged s (host_post_routes env ctx request s rest)"
  using assms(2)
  by (simp_all add: host_routes_def host_post_routes_def Let_def HandleListHostRecords_def HandleHostTlsCertificate_def
      MakeServeLogResponse_def observations_route_def HandleLocalBrowserToken_def clients_route_def devices_route_def
      HandleDeleteHostRecord_def denied_unless [OF assms(1)])

lemma denied_collections:
  assumes "denied (he_lib env) ctx request (hs_disk s)"
  shows "unchanged s (collection_routes env ctx request s)"
  by (simp add: collection_routes_def session_routes_def session_action_routes_def Let_def denied_unless [OF assms]
      denied_documents [OF assms] split: option.split)

definition only_pairing ::
    "HttpRequest \<Rightarrow> ('p, 'vt, 'l, 's) HttpState \<Rightarrow> ('p, 'vt, 'l, 's) HttpState \<Rightarrow> bool" where
  "only_pairing request s s' \<longleftrightarrow>
     s' = (if hq_method request = VerbPost \<and> hq_target request = ''/pairing/request''
           then s\<lparr>hs_pairing := hs_pairing s'\<rparr> else s)"

lemma pairing_request_reply:
  "\<exists>response svc. HandlePairingRequest env ctx request s = Some (response, s\<lparr>hs_pairing := svc\<rparr>)"
proof -
  have "\<exists>svc. s = s\<lparr>hs_pairing := svc\<rparr>" by (rule exI [of _ "hs_pairing s"]) simp
  then show ?thesis
    unfolding HandlePairingRequest_def by (auto simp: Let_def case_prod_beta split: option.split)
qed

lemma denied_pairing:
  assumes "denied (he_lib env) ctx request (hs_disk s)" "unchanged s rest"
  shows "\<exists>response s'. pairing_routes env ctx request s rest = Some (response, s') \<and> only_pairing request s s'"
proof (cases "hq_method request = VerbPost \<and> hq_target request = ''/pairing/request''")
  case True
  with pairing_request_reply [of env ctx request s] show ?thesis
    by (auto simp: pairing_routes_def only_pairing_def)
next
  case False
  have "unchanged s (HandlePairingClaim env ctx request s)"
    by (simp add: HandlePairingClaim_def Let_def split: option.split)
  then have "unchanged s (pairing_routes env ctx request s rest)"
    using False assms(2) by (auto simp: pairing_routes_def Let_def pending_route_def HandlePairingApprove_def HandlePairingReject_def
        HandleHostConfig_def denied_unless [OF assms(1)])
  with False show ?thesis by (auto simp: unchanged_def only_pairing_def)
qed

lemma unchanged_only_pairing:
  assumes "unchanged s reply" "\<not> (hq_method request = VerbPost \<and> hq_target request = ''/pairing/request'')"
  shows "\<exists>response s'. reply = Some (response, s') \<and> only_pairing request s s'"
  using assms by (auto simp: unchanged_def only_pairing_def)

lemma denied_request:
  assumes "denied (he_lib env) ctx request (hs_disk s)"
  shows "\<exists>response s'. HandleRequest env ctx request s = Some (response, s') \<and> only_pairing request s s'"
proof -
  let ?rest = "host_routes env ctx request s (host_post_routes env ctx request s (collection_routes env ctx request s))"
  have rest: "unchanged s ?rest" by (intro denied_host [OF assms] denied_collections [OF assms])
  have static: "\<exists>response s'. static_routes env ctx request s (pairing_routes env ctx request s ?rest) = Some (response, s')
      \<and> only_pairing request s s'"
  proof (cases "hq_method request = VerbGet")
    case True
    then have "unchanged s (pairing_routes env ctx request s ?rest)"
      using denied_pairing [OF assms rest] by (auto simp: unchanged_def only_pairing_def)
    from denied_static [OF assms this] True show ?thesis by (intro unchanged_only_pairing) simp_all
  next
    case False
    then show ?thesis using denied_pairing [OF assms rest] by (simp add: static_routes_def Let_def)
  qed
  have early: "hq_method request = VerbOptions \<or> hq_method request = VerbGet \<and> hq_target request = ''/health''
      \<or> StripQueryString (hq_target request) = ''/templates'' \<or> starts_with (hq_target request) ''/templates/'' \<Longrightarrow>
    unchanged s (HandleRequest env ctx request s)"
    by (auto simp: HandleRequest_def Let_def denied_documents [OF assms])
  show ?thesis
  proof (cases "hq_method request = VerbOptions \<or> hq_method request = VerbGet \<and> hq_target request = ''/health''
      \<or> StripQueryString (hq_target request) = ''/templates'' \<or> starts_with (hq_target request) ''/templates/''")
    case True
    have "\<not> (hq_method request = VerbPost \<and> hq_target request = ''/pairing/request'')"
      using True by (auto simp: StripQueryString_def starts_with_def)
    with early [OF True] show ?thesis by (rule unchanged_only_pairing)
  next
    case False
    with static show ?thesis by (auto simp: HandleRequest_def Let_def)
  qed
qed

text \<open>With the services that the daemon makes, a token that no approved pairing has authorises nothing.\<close>

lemma find_token_denied:
  "\<forall>r \<in> set rs. prc_bearer_token r \<noteq> token \<Longrightarrow> \<not> au_authorized (find_token token rs)"
  by (induction rs) simp_all

lemma authenticate_denied:
  assumes "\<forall>r \<in> set (LoadApprovedPairings store st). prc_bearer_token r \<noteq> token"
  shows "\<not> au_authorized (AuthenticateBearerToken store token st)"
  using find_token_denied [OF assms] by (simp add: AuthenticateBearerToken_def)

lemma token_denied:
  assumes "hx_services x = fst (CreateLocalAuthServices lib random_bytes root fs)"
    and "\<not> (hx_listener_role x = AdminLocal \<and> hx_is_loopback x)"
    and "\<forall>r \<in> set (LoadApprovedPairings (FilePairingStore lib (fs_path root)) disk).
           prc_bearer_token r \<noteq> ExtractBearerToken_http request"
  shows "denied lib' (session_context x) request disk"
  using assms authenticate_denied [OF assms(3)]
  by (auto simp: denied_def session_context_def RequireAuthorization_def CreateLocalAuthServices_def Let_def
      Authorize_def BuildRequestContext_def)

text \<open>Claim C7: a request whose bearer token belongs to no approved pairing, and that is not made from the host itself at
  the administration listener, always gets an answer and changes nothing: not the sessions, not the clients, not the
  observations, not the files. The one exception is a pairing request, which may change the state of the pairing
  service.\<close>

theorem request_without_token_harmless:
  assumes "hx_services x = fst (CreateLocalAuthServices lib random_bytes root fs)"
    and "\<not> (hx_listener_role x = AdminLocal \<and> hx_is_loopback x)"
    and "\<forall>r \<in> set (LoadApprovedPairings (FilePairingStore lib (fs_path root)) (hs_disk s)).
           prc_bearer_token r \<noteq> ExtractBearerToken_http request"
  shows "\<exists>response s'. plain_request env x request s = Some (response, s')
    \<and> s' = (if hq_method request = VerbPost \<and> hq_target request = ''/pairing/request''
            then s\<lparr>hs_pairing := hs_pairing s'\<rparr> else s)"
  using denied_request [OF token_denied [OF assms]] by (simp add: plain_request_def only_pairing_def)

section \<open>What a request needs for a change of the sessions\<close>

lemma server_of_disk [simp]: "hs_server (set_disk fs s) = hs_server s" "hs_observations (set_disk fs s) = hs_observations s"
  by (simp_all add: set_disk_def)

lemma disk_of_disk [simp]: "hs_disk (set_disk fs s) = fs"
  by (simp add: set_disk_def)

lemma server_of_manager [simp]: "hs_server (set_manager m s) = (hs_server s)\<lparr>sv_manager := m\<rparr>"
  "hs_pairing (set_manager m s) = hs_pairing s" "hs_observations (set_manager m s) = hs_observations s"
  by (simp_all add: set_manager_def)

text \<open>The sessions and the clients that are attached to them are as they were.\<close>

definition same_sessions :: "('p, 'vt, 'l, 's) HttpState \<Rightarrow> ('p, 'vt, 'l, 's) HttpState \<Rightarrow> bool" where
  "same_sessions s s' \<longleftrightarrow> hs_manager s' = hs_manager s \<and> sv_clients (hs_server s') = sv_clients (hs_server s)"

text \<open>A snapshot has been asked for with the size of a view, and the size is now the one of that view.\<close>

definition viewed ::
    "HttpRequest \<Rightarrow> ('p, 'vt, 'l, 's) SessionManager \<Rightarrow> ('p, 'vt, 'l, 's) SessionManager \<Rightarrow> bool" where
  "viewed request m m' \<longleftrightarrow>
     (\<exists>session_id cols rows.
        StripQueryString (hq_target request) = ''/sessions/'' @ session_id @ ''/snapshot''
        \<and> ParseUnsignedQueryValue (hq_target request) ''cols'' = Some cols
        \<and> ParseUnsignedQueryValue (hq_target request) ''rows'' = Some rows
        \<and> ParseQueryValue (hq_target request) ''viewId'' \<noteq> []
        \<and> m' = snd (UpdateViewport session_id (ParseQueryValue (hq_target request) ''viewId'')
                  \<lparr>ts_columns = cols, ts_rows = rows\<rparr> m))"

definition may_change_sessions ::
    "('p, 'vt, 'l, 's) HttpEnv \<Rightarrow> HttpRouteContext \<Rightarrow> HttpRequest \<Rightarrow> ('p, 'vt, 'l, 's) HttpState \<Rightarrow> bool" where
  "may_change_sessions env ctx request s \<longleftrightarrow>
     hq_method request = VerbPost
     \<and> (if starts_with (hq_target request) ''/host/''
        then RequireLocalHostAdmin (he_lib env) request ctx (hs_disk s) = None
        else RequireAuthorization (he_lib env) request ctx ControlSession (hs_disk s) = None)"

definition guarded ::
    "('p, 'vt, 'l, 's) HttpEnv \<Rightarrow> HttpRouteContext \<Rightarrow> HttpRequest \<Rightarrow> ('p, 'vt, 'l, 's) HttpState
       \<Rightarrow> ('p, 'vt, 'l, 's) reply \<Rightarrow> bool" where
  "guarded env ctx request s reply \<longleftrightarrow>
     (\<forall>response s'. reply = Some (response, s') \<longrightarrow>
        same_sessions s s' \<or> may_change_sessions env ctx request s
        \<or> RequireAuthorization (he_lib env) request ctx ObserveSessions (hs_disk s) = None
          \<and> sv_clients (hs_server s') = sv_clients (hs_server s) \<and> viewed request (hs_manager s) (hs_manager s'))"

definition quiet :: "('p, 'vt, 'l, 's) HttpState \<Rightarrow> ('p, 'vt, 'l, 's) reply \<Rightarrow> bool" where
  "quiet s reply \<longleftrightarrow> (\<forall>response s'. reply = Some (response, s') \<longrightarrow> same_sessions s s')"

lemma same_sessions_frame [simp]:
  "same_sessions s s" "same_sessions s (set_disk fs s') = same_sessions s s'"
  "same_sessions s (s'\<lparr>hs_pairing := svc\<rparr>) = same_sessions s s'"
  "same_sessions s (s'\<lparr>hs_observations := os\<rparr>) = same_sessions s s'"
  by (simp_all add: same_sessions_def)

lemma quiet_simps [simp]:
  "quiet s None" "quiet s (Some (response, s')) = same_sessions s s'"
  "quiet s (unless_refused refused s rest) \<longleftrightarrow> refused \<noteq> None \<or> quiet s rest"
  "quiet s (listing_reply request body s') \<longleftrightarrow> body = None \<or> same_sessions s s'"
  by (cases refused; cases body; simp add: quiet_def unless_refused_def listing_reply_def)+

lemma guarded_quiet: "quiet s reply \<Longrightarrow> guarded env ctx request s reply"
  by (auto simp: guarded_def quiet_def)

lemma guarded_refused: "guarded env ctx request s rest \<Longrightarrow> guarded env ctx request s (unless_refused refused s rest)"
  by (cases refused) (simp_all add: guarded_def unless_refused_def)

lemma guarded_control:
  "hq_method request = VerbPost \<Longrightarrow> \<not> starts_with (hq_target request) ''/host/'' \<Longrightarrow>
     guarded env ctx request s
       (unless_refused (RequireAuthorization (he_lib env) request ctx ControlSession (hs_disk s)) s rest)"
  by (auto simp: guarded_def may_change_sessions_def unless_refused_def split: option.splits)

lemma guarded_admin:
  "hq_method request = VerbPost \<Longrightarrow> starts_with (hq_target request) ''/host/'' \<Longrightarrow>
     guarded env ctx request s (unless_refused (RequireLocalHostAdmin (he_lib env) request ctx (hs_disk s)) s rest)"
  by (auto simp: guarded_def may_change_sessions_def unless_refused_def split: option.splits)

lemma quiet_counts [simp]:
  "same_sessions s (snd (AttachClientCounts_http ctx now_ms summaries s))"
  "same_sessions s (s\<lparr>hs_server := snd (ListAttachedClients now_ms (hs_server s))\<rparr>)"
  by (simp_all add: AttachClientCounts_http_def ListAttachedClients_def case_prod_beta same_sessions_def Let_def)

lemma quiet_finalize: "same_sessions s (snd (FinalizeEvidenceResponse env ctx request result persist title s))"
proof -
  have "same_sessions s (record_observation env ctx observation s)" for observation
    by (simp add: record_observation_def case_prod_beta Let_def same_sessions_def BroadcastObservationCreated_def
        PruneOverviewRegistry_def split: option.split)
  then show ?thesis by (simp add: FinalizeEvidenceResponse_def Let_def case_prod_beta split: option.split)
qed

lemma quiet_documents:
  "quiet s (HandleTemplatesRequest env ctx request p s)"
  "quiet s (HandleStoredEvidenceRequest env ctx request session_id suffix_text s)"
  "quiet s (HandleEvidenceRequest env ctx request session_id operation target s)"
proof -
  show "quiet s (HandleTemplatesRequest env ctx request p s)"
    by (simp add: HandleTemplatesRequest_def Let_def case_prod_beta load_template_response_def save_template_def
        split: HttpVerb.split option.split)
  have "quiet s (create_stored_evidence env ctx request session_id s)"
    by (simp add: create_stored_evidence_def Let_def stored_evidence_response_def split: option.split)
  then show "quiet s (HandleStoredEvidenceRequest env ctx request session_id suffix_text s)"
    by (simp add: HandleStoredEvidenceRequest_def Let_def case_prod_beta split: HttpVerb.split)
  have "quiet s (Some (FinalizeEvidenceResponse env ctx request result persist title s))" for result persist title
    using quiet_finalize [of s env ctx request result persist title]
    by (cases "FinalizeEvidenceResponse env ctx request result persist title s") simp
  then show "quiet s (HandleEvidenceRequest env ctx request session_id operation target s)"
    by (simp add: HandleEvidenceRequest_def split: option.split sum.split)
qed

lemma quiet_pairing:
  "quiet s (HandlePairingRequest env ctx request s)" "quiet s (HandlePairingApprove env ctx request s)"
  "quiet s (HandlePairingReject env ctx request s)" "quiet s (HandlePairingClaim env ctx request s)"
  "quiet s (HandleHostConfig env ctx request s)" "quiet s (pending_route env ctx request s)"
  by (simp_all add: HandlePairingRequest_def HandlePairingApprove_def HandlePairingReject_def HandlePairingClaim_def
      HandleHostConfig_def pending_route_def Let_def case_prod_beta split: option.split)

lemma quiet_records:
  "quiet s (HandleListHostRecords env ctx request s)" "quiet s (HandleDeleteHostRecord env ctx request record_id s)"
  "quiet s (HandleLocalBrowserToken env ctx request s)" "quiet s (HandleHostTlsCertificate env ctx request s)"
  "quiet s (MakeServeLogResponse env ctx request s)" "quiet s (list_sessions env ctx request s)"
  "quiet s (observations_route env ctx request s)" "quiet s (clients_route env ctx request s)"
  "quiet s (devices_route env ctx request s)"
proof -
  show "quiet s (HandleListHostRecords env ctx request s)"
    by (auto simp: HandleListHostRecords_def quiet_def unless_refused_def split: option.splits)
qed (simp_all add: HandleDeleteHostRecord_def HandleLocalBrowserToken_def HandleHostTlsCertificate_def MakeServeLogResponse_def
      list_sessions_def observations_route_def clients_route_def devices_route_def Let_def case_prod_beta split: option.split)

lemma quiet_session_reads:
  "quiet s (file_route env request session_id s)" "quiet s (tail_route env request session_id s)"
  "quiet s (env_route env request session_id s)" "quiet s (summary_route env request session_id s)"
  by (simp_all add: file_route_def tail_route_def env_route_def summary_route_def Let_def)

lemma guarded_snapshot:
  assumes "StripQueryString (hq_target request) = ''/sessions/'' @ session_id @ ''/snapshot''"
  shows "guarded env ctx request s
    (unless_refused (RequireAuthorization (he_lib env) request ctx ObserveSessions (hs_disk s)) s
      (snapshot_route env request session_id s))"
  using assms
  by (auto simp: guarded_def unless_refused_def snapshot_route_def viewed_def same_sessions_def Let_def case_prod_beta
      split: option.splits if_splits)

lemma stripped_prefix: "starts_with (StripQueryString target) p \<Longrightarrow> starts_with target p"
  by (auto simp: starts_with_def StripQueryString_def min_def split: option.splits if_splits dest: arg_cong [where f = length])

lemma session_name_before: "names_session remainder ending \<Longrightarrow> session_name remainder ending @ ending = remainder"
  by (auto simp: names_session_def session_name_def suffix_def)

lemma guarded_snapshot_route:
  assumes "starts_with (StripQueryString (hq_target request)) ''/sessions/''"
    and "names_session (drop (length ''/sessions/'') (StripQueryString (hq_target request))) ''/snapshot''"
  shows "guarded env ctx request s
    (unless_refused (RequireAuthorization (he_lib env) request ctx ObserveSessions (hs_disk s)) s
      (snapshot_route env request (session_name (drop (length ''/sessions/'') (StripQueryString (hq_target request))) ''/snapshot'') s))"
  using session_name_before [OF assms(2)] assms(1) append_take_drop_id [of "length ''/sessions/''" "StripQueryString (hq_target request)"]
  by (intro guarded_snapshot) (simp only: starts_with_def)

lemma guarded_collections: "guarded env ctx request s (collection_routes env ctx request s)"
proof -
  have host: "\<not> starts_with target ''/host/''" if "starts_with (StripQueryString target) ''/sessions/''" for target
    using stripped_prefix [OF that] by (cases "take 10 target = ''/sessions/''") (auto simp: starts_with_def dest: arg_cong [where f = "take 6"])
  note quiets = guarded_quiet [OF quiet_records(6)] quiet_session_reads [THEN guarded_quiet] quiet_documents [THEN guarded_quiet]
  have actions: "guarded env ctx request s (session_action_routes env ctx request remainder s)"
    if "starts_with (StripQueryString (hq_target request)) ''/sessions/''" for remainder
    using host [OF that] unfolding session_action_routes_def Let_def
    by (simp add: quiets guarded_refused guarded_control split: option.split)
  have routes: "guarded env ctx request s (session_routes env ctx request remainder s)"
    if "starts_with (StripQueryString (hq_target request)) ''/sessions/''"
      and snapshot: "names_session remainder ''/snapshot'' \<Longrightarrow> guarded env ctx request s
        (unless_refused (RequireAuthorization (he_lib env) request ctx ObserveSessions (hs_disk s)) s
          (snapshot_route env request (session_name remainder ''/snapshot'') s))" for remainder
    unfolding session_routes_def Let_def by (simp add: quiets guarded_refused actions [OF that(1)] snapshot split: option.split)
  note named = routes [OF _ guarded_snapshot_route]
  have fixed: "\<not> starts_with t ''/host/''" if "t \<in> {''/sessions'', ''/log-sessions'', ''/sessions/clear-inactive''}" for t
    using that by (auto simp: starts_with_def)
  show ?thesis
    using named fixed unfolding collection_routes_def Let_def
    by (simp add: quiets guarded_refused guarded_control guarded_quiet del: list.size)
qed

lemma guarded_request: "guarded env ctx request s (HandleRequest env ctx request s)"
proof -
  note quiets = quiet_records [THEN guarded_quiet] quiet_pairing [THEN guarded_quiet] quiet_documents [THEN guarded_quiet]
  have below: "starts_with ''/host/sessions/clear-inactive'' ''/host/''" "starts_with ''/host/sessions'' ''/host/''"
    by code_simp+
  have longer: "starts_with (hq_target request) ''/host/''" if "starts_with (hq_target request) (''/host/'' @ rest)" for rest
    using arg_cong [OF that [unfolded starts_with_def], of "take 6"] by (simp add: starts_with_def)
  note longer = longer [of "''sessions/''"] longer [of "''clients/''"] longer [of "''trusted-devices/''"]
  have post: "guarded env ctx request s (host_post_routes env ctx request s rest)" if "guarded env ctx request s rest" for rest
    using that longer unfolding host_post_routes_def Let_def by (simp add: guarded_admin below quiets)
  have host: "guarded env ctx request s (host_routes env ctx request s rest)" if "guarded env ctx request s rest" for rest
    using that unfolding host_routes_def Let_def by (simp add: guarded_admin below quiets guarded_refused guarded_quiet)
  have static: "guarded env ctx request s (static_routes env ctx request s rest)" if "guarded env ctx request s rest" for rest
  proof -
    have "quiet s (index_page env ctx request s)" "quiet s (admin_page env ctx request content_type name s)"
      "quiet s (admin_asset env ctx request p s)" for content_type name p
      by (simp_all add: index_page_def admin_page_def admin_asset_def Let_def split: option.split)
    with that show ?thesis unfolding static_routes_def Let_def by (simp add: guarded_quiet)
  qed
  have pairing: "guarded env ctx request s (pairing_routes env ctx request s rest)" if "guarded env ctx request s rest" for rest
    using that unfolding pairing_routes_def Let_def by (simp add: quiets)
  show ?thesis
    unfolding HandleRequest_def Let_def
    by (simp add: guarded_quiet quiets static pairing host post guarded_collections)
qed

text \<open>Claim C12: what a request that is answered needs for changing a session or the clients attached to one, on every route
  and whatever it carries: it is a POST, and it is authorised to control sessions - or, for a path below \<open>/host/\<close>, to administer the
  host. A request that is authorised only to observe can set the size of a view, by asking for a snapshot of the session
  for that view; this changes nobody's control. Every other request leaves the sessions and their clients as they
  are.\<close>

theorem session_change_needs_control:
  assumes "HandleRequest env ctx request s = Some (response, s')"
    and "hs_manager s' \<noteq> hs_manager s \<or> sv_clients (hs_server s') \<noteq> sv_clients (hs_server s)"
  shows "hq_method request = VerbPost
      \<and> (if starts_with (hq_target request) ''/host/''
         then RequireLocalHostAdmin (he_lib env) request ctx (hs_disk s) = None
         else RequireAuthorization (he_lib env) request ctx ControlSession (hs_disk s) = None)
    \<or> RequireAuthorization (he_lib env) request ctx ObserveSessions (hs_disk s) = None
      \<and> viewed request (hs_manager s) (hs_manager s')
      \<and> controller_of session_id (hs_manager s') = controller_of session_id (hs_manager s)
      \<and> sv_clients (hs_server s') = sv_clients (hs_server s)"
  using guarded_request [of env ctx request s] assms
  by (auto simp: guarded_def same_sessions_def may_change_sessions_def viewed_def)

section \<open>The remote listener adds no devices\<close>

text \<open>A reply whose state has the file \<open>q\<close> as before.\<close>

definition keeps_file :: "path \<Rightarrow> ('p, 'vt, 'l, 's) HttpState \<Rightarrow> ('p, 'vt, 'l, 's) reply \<Rightarrow> bool" where
  "keeps_file q s reply \<longleftrightarrow>
     (\<forall>response s'. reply = Some (response, s') \<longrightarrow> file_at q (hs_disk s') = file_at q (hs_disk s))"

lemma keeps_None [simp]: "keeps_file q s None"
  by (simp add: keeps_file_def)

lemma keeps_Some [simp]: "keeps_file q s (Some (response, s')) \<longleftrightarrow> file_at q (hs_disk s') = file_at q (hs_disk s)"
  by (simp add: keeps_file_def)

lemma keeps_refused: "keeps_file q s rest \<Longrightarrow> keeps_file q s (unless_refused auth_response s rest)"
  by (cases auth_response) (simp_all add: unless_refused_def)

lemma keeps_listing: "file_at q (hs_disk s') = file_at q (hs_disk s) \<Longrightarrow> keeps_file q s (listing_reply request body s')"
  by (cases body) (simp_all add: listing_reply_def)

lemma confined_elsewhere: "confined d ids fs fs' \<Longrightarrow> \<not> prefix d q \<Longrightarrow> file_at q fs' = file_at q fs"
  by (auto simp: confined_def)

lemma pairings_elsewhere:
  "\<not> prefix (TemplatesRoot root) (PairingsPath root)"
  "\<not> prefix (EvidenceRoot root @ [s, e]) (PairingsPath root)"
  "PairingsPath root \<noteq> HostIdentityPath root" "PairingsPath root \<noteq> temp_path (HostIdentityPath root)"
  by (auto simp: TemplatesRoot_def EvidenceRoot_def PairingsPath_def HostIdentityPath_def temp_path_def prefix_def)

lemma seed_templates_below:
  assumes "\<not> prefix (TemplatesRoot root) q"
  shows "file_at q (SeedDefaultTemplatesIfEmpty root fs) = file_at q fs"
  using assms WriteFileAtomically_below [OF assms]
  by (auto simp: SeedDefaultTemplatesIfEmpty_def Let_def case_prod_beta)

lemma host_identity_below:
  "file_at (PairingsPath root) (snd (SaveHostIdentity (FileHostConfigStore lib root) identity fs))
     = file_at (PairingsPath root) fs"
proof -
  let ?w = "WriteFileAtomically (HostIdentityPath root) (jl_serialize lib (HostIdentityToJson identity)) fs"
  have "file_at (PairingsPath root) (snd ?w) = file_at (PairingsPath root) fs"
    by (rule WriteFileAtomically_files(1) [OF _ surjective_pairing pairings_elsewhere(3,4)])
      (simp add: HostIdentityPath_def)
  then show ?thesis by (simp add: FileHostConfigStore_def)
qed

lemma autosave_below:
  "file_at (PairingsPath root) (AutoSaveLaunchRecord (FileHostConfigStore lib root) random_bytes now request fs)
     = file_at (PairingsPath root) fs"
  by (simp add: AutoSaveLaunchRecord_def Let_def host_identity_below)

lemma document_writes_below:
  "file_at (PairingsPath root) (snd (UpsertTemplate root i content fs)) = file_at (PairingsPath root) fs"
  "file_at (PairingsPath root) (snd (RemoveTemplate root i fs)) = file_at (PairingsPath root) fs"
  "file_at (PairingsPath root) (snd (LoadTemplate ft root i fs)) = file_at (PairingsPath root) fs"
  "file_at (PairingsPath root) (snd (ListTemplates ft root fs)) = file_at (PairingsPath root) fs"
  "file_at (PairingsPath root) (snd (CreateMarkdownEvidence lib root sid i title content now fs)) = file_at (PairingsPath root) fs"
  "file_at (PairingsPath root) (snd (CreateLogSnapshotEvidence lib root sid i title content now fs)) = file_at (PairingsPath root) fs"
  "file_at (PairingsPath root) (snd (RemoveEvidence root sid i fs)) = file_at (PairingsPath root) fs"
  using confined_elsewhere [OF UpsertTemplate_confined pairings_elsewhere(1)]
    confined_elsewhere [OF RemoveTemplate_confined pairings_elsewhere(1)]
    confined_elsewhere [OF create_evidence_confined pairings_elsewhere(2)]
    confined_elsewhere [OF RemoveEvidence_confined pairings_elsewhere(2)]
    seed_templates_below [OF pairings_elsewhere(1)]
  by (simp_all add: LoadTemplate_def ListTemplates_def Let_def CreateMarkdownEvidence_def CreateLogSnapshotEvidence_def)

text \<open>The context of a connection at the remote listener, as far as it matters here.\<close>

definition remote_context :: "JsonLib \<Rightarrow> string \<Rightarrow> HttpRouteContext \<Rightarrow> bool" where
  "remote_context lib root ctx \<longleftrightarrow>
     hc_listener_role ctx = RemoteClient \<and> hc_storage_root ctx = root
     \<and> hc_host_config_store ctx = Some (FileHostConfigStore lib (fs_path root))"

lemma remote_refuses:
  assumes "remote_context lib root ctx"
  shows "unless_refused (RequireLocalAuthorization lib' request ctx action fs) s rest =
      Some (error_response request 404 ''not found'', s)"
    and "unless_refused (RequireLocalHostAdmin lib' request ctx fs) s rest = Some (error_response request 404 ''not found'', s)"
  using assms by (simp_all add: remote_context_def RequireLocalHostAdmin_def RequireLocalAuthorization_def unless_refused_def)

lemma keeps_observation [simp]: "hs_pairing (record_observation env ctx observation s) = hs_pairing s"
  by (simp add: record_observation_def case_prod_beta Let_def split: option.split)

lemma keeps_counts [simp]:
  "hs_pairing (snd (AttachClientCounts_http ctx now_ms summaries s)) = hs_pairing s"
  "hs_pairing (snd (AttachClientCount ctx now_ms summary s)) = hs_pairing s"
  by (simp_all add: AttachClientCounts_http_def AttachClientCount_def case_prod_beta)

lemma keeps_finalize:
  assumes "remote_context lib root ctx"
  shows "file_at (PairingsPath (fs_path root)) (hs_disk (snd (FinalizeEvidenceResponse env ctx request result persist title s)))
     = file_at (PairingsPath (fs_path root)) (hs_disk s)"
  using assms by (simp add: FinalizeEvidenceResponse_def Let_def case_prod_beta remote_context_def document_writes_below
      split: option.split)

lemma keeps_documents:
  assumes "remote_context lib root ctx"
  shows "keeps_file (PairingsPath (fs_path root)) s (HandleTemplatesRequest env ctx request p s)"
    and "keeps_file (PairingsPath (fs_path root)) s (HandleStoredEvidenceRequest env ctx request session_id suffix_text s)"
    and "keeps_file (PairingsPath (fs_path root)) s (HandleEvidenceRequest env ctx request session_id operation target s)"
proof -
  note root = assms [unfolded remote_context_def]
  show "keeps_file (PairingsPath (fs_path root)) s (HandleTemplatesRequest env ctx request p s)"
    by (simp add: HandleTemplatesRequest_def Let_def case_prod_beta load_template_response_def save_template_def root
        document_writes_below keeps_refused split: HttpVerb.split option.split)
  have "keeps_file (PairingsPath (fs_path root)) s (create_stored_evidence env ctx request session_id s)"
    by (simp add: create_stored_evidence_def Let_def stored_evidence_response_def root document_writes_below split: option.split)
  then show "keeps_file (PairingsPath (fs_path root)) s (HandleStoredEvidenceRequest env ctx request session_id suffix_text s)"
    by (simp add: HandleStoredEvidenceRequest_def Let_def case_prod_beta root document_writes_below keeps_refused
        split: HttpVerb.split)
  have "keeps_file (PairingsPath (fs_path root)) s (Some (FinalizeEvidenceResponse env ctx request result persist title s))"
    for result persist title
    using keeps_finalize [OF assms, where env = env and s = s and request = request and result = result
        and persist = persist and title = title]
    by (cases "FinalizeEvidenceResponse env ctx request result persist title s") simp
  then show "keeps_file (PairingsPath (fs_path root)) s (HandleEvidenceRequest env ctx request session_id operation target s)"
    by (simp add: HandleEvidenceRequest_def keeps_refused split: option.split sum.split)
qed

lemma keeps_create:
  assumes "remote_context lib root ctx"
  shows "keeps_file (PairingsPath (fs_path root)) s (HandleCreateSessionRequest env ctx request s)"
    and "keeps_file (PairingsPath (fs_path root)) s (HandleCreateLogSessionRequest env request s)"
    and "keeps_file (PairingsPath (fs_path root)) s (HandleMessageRequest env request session_id s)"
    and "keeps_file (PairingsPath (fs_path root)) s (HandleDeleteHostRecord env ctx request record_id s)"
    and "keeps_file (PairingsPath (fs_path root)) s (HandleListHostRecords env ctx request s)"
    and "keeps_file (PairingsPath (fs_path root)) s (list_sessions env ctx request s)"
proof -
  note store = assms [unfolded remote_context_def]
  show "keeps_file (PairingsPath (fs_path root)) s (HandleCreateSessionRequest env ctx request s)"
    by (simp add: HandleCreateSessionRequest_def Let_def case_prod_beta store autosave_below split: option.split sum.split)
  show "keeps_file (PairingsPath (fs_path root)) s (HandleCreateLogSessionRequest env request s)"
    by (simp add: HandleCreateLogSessionRequest_def Let_def case_prod_beta split: option.split)
  show "keeps_file (PairingsPath (fs_path root)) s (HandleMessageRequest env request session_id s)"
    by (simp add: HandleMessageRequest_def Let_def case_prod_beta split: option.split)
  show "keeps_file (PairingsPath (fs_path root)) s (HandleDeleteHostRecord env ctx request record_id s)"
    by (simp add: HandleDeleteHostRecord_def Let_def case_prod_beta store host_identity_below keeps_refused)
  show "keeps_file (PairingsPath (fs_path root)) s (HandleListHostRecords env ctx request s)"
    by (auto simp: HandleListHostRecords_def keeps_file_def unless_refused_def split: option.split)
  show "keeps_file (PairingsPath (fs_path root)) s (list_sessions env ctx request s)"
    by (simp add: list_sessions_def case_prod_beta keeps_listing)
qed

lemma keeps_actions:
  "keeps_file q s (snapshot_route env request session_id s)" "keeps_file q s (file_route env request session_id s)"
  "keeps_file q s (tail_route env request session_id s)" "keeps_file q s (input_route env request session_id s)"
  "keeps_file q s (groups_route env request session_id s)" "keeps_file q s (stop_route env request session_id s)"
  "keeps_file q s (env_route env request session_id s)" "keeps_file q s (summary_route env request session_id s)"
  "keeps_file q s (clear_inactive env request s)"
  by (simp_all add: snapshot_route_def file_route_def tail_route_def input_route_def groups_route_def stop_route_def
      env_route_def summary_route_def clear_inactive_def Let_def case_prod_beta split: option.split)

lemma keeps_collections:
  assumes "remote_context lib root ctx"
  shows "keeps_file (PairingsPath (fs_path root)) s (collection_routes env ctx request s)"
  by (simp add: collection_routes_def session_routes_def session_action_routes_def Let_def keeps_refused keeps_actions
      keeps_documents [OF assms] keeps_create [OF assms] split: option.split)

lemma keeps_host:
  assumes "remote_context lib root ctx" "keeps_file (PairingsPath (fs_path root)) s rest"
  shows "keeps_file (PairingsPath (fs_path root)) s (host_routes env ctx request s rest)"
    and "keeps_file (PairingsPath (fs_path root)) s (host_post_routes env ctx request s rest)"
  using assms(2)
  by (simp_all add: host_routes_def host_post_routes_def Let_def HandleHostTlsCertificate_def MakeServeLogResponse_def
      HandleLocalBrowserToken_def clients_route_def devices_route_def observations_route_def
      remote_refuses [OF assms(1)] keeps_create [OF assms(1)] keeps_refused split: option.split)

lemma keeps_static:
  assumes "remote_context lib root ctx" "keeps_file (PairingsPath (fs_path root)) s rest"
  shows "keeps_file (PairingsPath (fs_path root)) s (static_routes env ctx request s rest)"
  using assms(2)
  by (simp add: static_routes_def Let_def index_page_def admin_page_def admin_asset_def keeps_refused split: option.split)

lemma keeps_pairing:
  assumes "remote_context lib root ctx" "keeps_file (PairingsPath (fs_path root)) s rest"
    and "\<not> (hq_method request = VerbPost \<and> hq_target request = ''/pairing/request'')"
  shows "keeps_file (PairingsPath (fs_path root)) s (pairing_routes env ctx request s rest)"
proof -
  have "keeps_file (PairingsPath (fs_path root)) s (HandlePairingClaim env ctx request s)"
    by (simp add: HandlePairingClaim_def Let_def split: option.split)
  then show ?thesis
    using assms(2,3)
    by (auto simp: pairing_routes_def Let_def pending_route_def HandlePairingApprove_def HandlePairingReject_def
        HandleHostConfig_def remote_refuses [OF assms(1)])
qed

lemma keeps_request:
  assumes "remote_context lib root ctx"
    and "\<not> (hq_method request = VerbPost \<and> hq_target request = ''/pairing/request'')"
  shows "keeps_file (PairingsPath (fs_path root)) s (HandleRequest env ctx request s)"
  by (simp add: HandleRequest_def Let_def keeps_documents [OF assms(1)] keeps_static [OF assms(1)]
      keeps_pairing [OF assms(1) _ assms(2)] keeps_host [OF assms(1)] keeps_collections [OF assms(1)])

lemma pairing_request_route:
  assumes "hq_method request = VerbPost" "hq_target request = ''/pairing/request''"
  shows "HandleRequest env ctx request s = HandlePairingRequest env ctx request s"
proof -
  have "StripQueryString ''/pairing/request'' \<noteq> ''/templates''" "\<not> starts_with ''/pairing/request'' ''/templates/''"
    by code_simp+
  with assms show ?thesis by (simp add: HandleRequest_def Let_def static_routes_def pairing_routes_def)
qed

lemma same_file_same_devices:
  "file_at (PairingsPath root) fs' = file_at (PairingsPath root) fs \<Longrightarrow>
     LoadApprovedPairings (FilePairingStore lib root) fs' = LoadApprovedPairings (FilePairingStore lib root) fs"
  by (simp add: LoadPairingSnapshot_def LoadFromJsonFile_def ReadFile_def)

lemma parsed_device_name:
  assumes "json_lib lib" "ParsePairingRequest lib body = Some (name, kind)"
  shows "valid_utf8 name"
proof -
  obtain v where v: "parse_object lib body = Some v" "required as_string v ''deviceName'' = Some name"
    using assms(2) by (auto simp: ParsePairingRequest_def Option.bind_eq_Some_conv)
  then have "jl_parse lib body = Some v" by (auto simp: parse_object_def split: option.splits if_splits)
  from json_lib.parse_ok [OF assms(1) this] v(2) show ?thesis by (rule json_ok_required_string)
qed

text \<open>Claim C16: no request at the remote listener makes a device trusted, whoever sends it and whatever token it carries:
  the approved pairings after it are among those before it. Only the administration listener can approve one. This is
  for a disk that loses no flush when a file is closed, and for a daemon that draws its ids and codes in UTF-8.\<close>

theorem remote_request_adds_no_device:
  assumes "json_lib_roundtrip (he_lib env)" "json_lib_accepts_ok (he_lib env)"
    and "hx_services x = fst (CreateLocalAuthServices (he_lib env) random_bytes (hx_storage_root x) fs)"
    and "hx_listener_role x = RemoteClient" "reliable (hs_disk s)"
    and "valid_utf8 (he_pairing_id env)" "valid_utf8 (he_pairing_code env)" "int64_ok (he_now env 0)"
    and "plain_request env x request s = Some (response, s')"
  shows "set (LoadApprovedPairings (FilePairingStore (he_lib env) (fs_path (hx_storage_root x))) (hs_disk s'))
    \<subseteq> set (LoadApprovedPairings (FilePairingStore (he_lib env) (fs_path (hx_storage_root x))) (hs_disk s))"
proof -
  let ?root = "hx_storage_root x" and ?store = "FilePairingStore (he_lib env) (fs_path (hx_storage_root x))"
  have lib: "json_lib (he_lib env)" by (intro json_lib.intro assms)
  have ctx: "remote_context (he_lib env) ?root (session_context x)"
    and service: "hc_pairing_service (session_context x) = Some ?store"
    using assms(3,4) by (simp_all add: remote_context_def session_context_def CreateLocalAuthServices_def Let_def)
  have reply: "HandleRequest env (session_context x) request s = Some (response, s')"
    using assms(9) by (simp add: plain_request_def)
  show ?thesis
  proof (cases "hq_method request = VerbPost \<and> hq_target request = ''/pairing/request''")
    case False
    then have "keeps_file (PairingsPath (fs_path ?root)) s (HandleRequest env (session_context x) request s)"
      using keeps_request [OF ctx] by blast
    with reply have "file_at (PairingsPath (fs_path ?root)) (hs_disk s') = file_at (PairingsPath (fs_path ?root)) (hs_disk s)"
      by simp
    from same_file_same_devices [OF this] show ?thesis by simp
  next
    case True
    then have r: "HandlePairingRequest env (session_context x) request s = Some (response, s')"
      using reply pairing_request_route by metis
    have "s' = s \<or> (\<exists>name kind. valid_utf8 name \<and> hs_pairing s' =
        snd (StartPairing ?store (he_now env 0) (he_pairing_id env) (he_pairing_code env) name kind (hs_pairing s)))"
      using r parsed_device_name [OF lib]
      by (fastforce simp: HandlePairingRequest_def service Let_def case_prod_beta split: option.splits)
    then show ?thesis
    proof (elim disjE exE conjE)
      fix name kind
      assume "valid_utf8 name" and p: "hs_pairing s' =
        snd (StartPairing ?store (he_now env 0) (he_pairing_id env) (he_pairing_code env) name kind (hs_pairing s))"
      then show ?thesis
        using pairing_store.StartPairing_adds [OF pairing_store_file [OF lib], of "hs_pairing s", OF assms(5-7) _ assms(8)]
        by (auto simp: pairing_store.adds_def [OF pairing_store_file [OF lib]])
    qed simp
  qed
qed

section \<open>Files outside the directories of the user interface\<close>

lemma AppendCandidate_absolute:
  "fold (\<lambda>root. AppendCandidatePath (path_join root p)) roots ([p], [lexically_normal p]) = ([p], [lexically_normal p])"
  if "\<not> path_is_relative p" for roots
  using that by (induction roots) (simp_all add: path_join_def AppendCandidatePath_def)

lemma candidates_absolute:
  assumes "\<not> path_is_relative p" "roots \<noteq> []"
  shows "BuildAssetCandidates explicit_root packaged roots p = [p]"
proof -
  have p: "p \<noteq> []" using assms(1) by (auto simp: path_is_relative_def starts_with_def)
  obtain r rs where "case_option [] (\<lambda>r. [r]) explicit_root @ case_option [] (\<lambda>r. [r]) packaged @ roots = r # rs"
    using assms(2) by (cases explicit_root; cases packaged; cases roots) auto
  then show ?thesis
    using assms(1) p AppendCandidate_absolute [OF assms(1)]
    by (simp add: BuildAssetCandidates_def path_join_def AppendCandidatePath_def)
qed

text \<open>Claim C18: at the remote listener a request for \<open>/assets/\<close> followed by an absolute path is answered with the file at
  that path, without any check of authorisation, if there is no file of that name below the directory of the remote
  client: the path replaces the directory that it is joined to.\<close>

theorem remote_assets_serve_any_file:
  assumes "hq_method request = VerbGet" "hq_target request = ''/assets/'' @ p"
    and "\<not> path_is_relative p" "CHR ''?'' \<notin> set p"
    and "hc_listener_role ctx = RemoteClient"
    and "LoadRemoteUiAsset env (''assets/'' @ p) = None" "he_read_file env p = Some content"
  shows "HandleRequest env ctx request s =
    Some (MakeTextResponse request 200 (GuessContentType (''assets/'' @ p)) content, s)"
proof -
  obtain c where p: "p = CHR ''/'' # c"
    using assms(3) by (cases p) (auto simp: path_is_relative_def starts_with_def)
  have target: "StripQueryString (''/assets/'' @ p) = ''/assets/'' @ p"
    by (rule StripQueryString_absent) (use assms(4) in simp)
  have vendor: "LoadVendorAsset env p = Some content"
    using assms(3,7) candidates_absolute [OF assms(3)] by (simp add: LoadVendorAsset_def load_asset_def above_def)
  have "remote_asset env request (''/assets/'' @ p) =
      MakeTextResponse request 200 (GuessContentType (''assets/'' @ p)) content"
    using assms(6) vendor by (simp add: remote_asset_def Let_def MakeStaticAssetResponse_def)
  then show ?thesis
    using assms(1,2,5) target
    by (simp add: HandleRequest_def Let_def static_routes_def p starts_with_def)
qed

section \<open>A query that ends the daemon\<close>

text \<open>\<open>after=-2\<close> is read as \<open>2 ^ 64 - 2\<close>.\<close>

definition context_query :: "nat \<Rightarrow> string" where
  "context_query r = query_item ''revision'' (nat_to_string r) @ query_item ''before'' ''0'' @ query_item ''after'' ''-2''"

lemma context_query_values:
  assumes "CHR ''?'' \<notin> set p" "r < u64_modulus"
  shows "ParseRequiredRevisionQueryValue (p @ CHR ''?'' # context_query r) ''revision'' = Some r"
    and "ParseSizeQueryValue (p @ CHR ''?'' # context_query r) ''before'' 80 = Some 0"
    and "ParseSizeQueryValue (p @ CHR ''?'' # context_query r) ''after'' 120 = Some (u64_modulus - 2)"
    and "ParseBoolQueryValue (p @ CHR ''?'' # context_query r) ''persist'' False = Some False"
    and "evidence_title (p @ CHR ''?'' # context_query r) = Some None"
proof -
  have scan: "ParseQueryValue (p @ CHR ''?'' # context_query r) key =
      (if key = ''revision'' then nat_to_string r else if key = ''before'' then ''0'' else if key = ''after'' then ''-2'' else [])" for key
  proof -
    have last: "query_scan key (query_item ''after'' ''-2'') = (if ''after'' = key then ''-2'' else [])"
      using query_scan_plain [of "''after''" "''-2''" key "[]"] by (simp add: query_scan_empty)
    have "query_scan key (context_query r) =
        (if ''revision'' = key then nat_to_string r else if ''before'' = key then ''0'' else if ''after'' = key then ''-2'' else [])"
    proof -
      have "CHR ''&'' \<notin> set (nat_to_string r)" using digits_plain by blast
      then have revision: "query_scan key (query_item ''revision'' (nat_to_string r) @ rest) =
          (if ''revision'' = key then nat_to_string r else query_scan key rest)" for rest
        by (intro query_scan_plain) simp_all
      have before: "query_scan key (query_item ''before'' ''0'' @ rest) = (if ''before'' = key then ''0'' else query_scan key rest)"
        for rest by (rule query_scan_plain) simp_all
      show ?thesis unfolding context_query_def revision before last by (rule refl)
    qed
    then show ?thesis by (auto simp: ParseQueryValue_def find_first_question [OF assms(1)])
  qed
  have numbers: "stoull ''0'' = Some 0" "stoull ''-2'' = Some (u64_modulus - 2)"
    by (simp_all add: stoull_def starts_with_def char_class_defs byte_def u64_sub_def)
  show "ParseRequiredRevisionQueryValue (p @ CHR ''?'' # context_query r) ''revision'' = Some r"
    "ParseSizeQueryValue (p @ CHR ''?'' # context_query r) ''before'' 80 = Some 0"
    "ParseSizeQueryValue (p @ CHR ''?'' # context_query r) ''after'' 120 = Some (u64_modulus - 2)"
    "ParseBoolQueryValue (p @ CHR ''?'' # context_query r) ''persist'' False = Some False"
    "evidence_title (p @ CHR ''?'' # context_query r) = Some None"
    by (simp_all add: ParseRequiredRevisionQueryValue_def ParseSizeQueryValue_def ParseBoolQueryValue_def evidence_title_def
        scan stoull_printed [OF assms(2)] numbers Let_def)
qed

lemma context_wraps:
  assumes "lb_inv b" "ContainsRevision r b" "en_revision (hd (lb_entries b)) < r"
  shows "lb_Context r 0 (u64_modulus - 2) b = None" "r < u64_modulus"
proof -
  let ?n = "length (lb_entries b)" and ?N = "lb_next_revision b"
  have ne: "lb_entries b \<noteq> []" using assms(2) by (simp add: ContainsRevision_def)
  have ends: "en_revision (hd (lb_entries b)) = ?N - ?n" "en_revision (last (lb_entries b)) = ?N - 1"
    using ne by (simp_all add: logq.number_hd [OF assms(1)] logq.number_last [OF assms(1)])
  have N: "?n < ?N" "?N < u64_modulus" using assms(1) by (auto simp: lb_inv_def)
  define a where "a = r - (?N - ?n)"
  have r: "?N - ?n < r" "r \<le> ?N - 1" using assms(2,3) ends by (simp_all add: ContainsRevision_def)
  then show small: "r < u64_modulus" using N by simp
  have a: "0 < a" "a < ?n" "a < u64_modulus" "u64_sub r (?N - ?n) = a" using r N by (simp_all add: a_def u64_sub_exact)
  have "u64_add (u64_add a (u64_modulus - 2)) 1 = a - 1"
  proof (cases "a = 1")
    case False
    then have "a + (u64_modulus - 2) = a - 2 + u64_modulus" using a by simp
    then have "u64_add a (u64_modulus - 2) = (a - 2 + u64_modulus) mod u64_modulus" by (simp only: u64_add_def)
    also have "\<dots> = a - 2" using a by (simp only: mod_add_self2) simp
    finally have "u64_add a (u64_modulus - 2) = a - 2" .
    then show ?thesis using a False by (simp add: u64_add_def)
  qed (simp add: u64_add_def)
  then show "lb_Context r 0 (u64_modulus - 2) b = None"
    using a assms(2) ne by (simp add: lb_Context_def Let_def ends)
qed

lemma context_operation: "''context'' \<in> set evidence_operations"
  by (simp add: evidence_operations_def)

lemma context_question: "CHR ''?'' # q = [] \<or> (\<exists>q'. CHR ''?'' # q = CHR ''?'' # q')"
  by simp

text \<open>Claim C19: one request for evidence ends the daemon. When a log session retains a line and a line before it, a request
  that may observe sessions and asks for the context of the later one with \<open>before=0\<close> and \<open>after=-2\<close> makes the handler throw:
  the minus sign is accepted, the sum wraps around, and \<open>reserve\<close> gets a negative difference. Nothing catches the
  exception.\<close>

theorem context_query_ends_daemon:
  assumes "find_log session_id (hs_manager s) = Some (e, b)" "lb_inv b"
    and "ContainsRevision r b" "en_revision (hd (lb_entries b)) < r"
    and "RequireAuthorization (he_lib env) request ctx ObserveSessions (hs_disk s) = None"
    and "plain_name session_id" "hq_method request = VerbGet"
    and "hq_target request = evidence_path session_id ''context'' @ CHR ''?'' # context_query r"
  shows "HandleRequest env ctx request s = None"
proof -
  note wrap = context_wraps [OF assms(2-4)]
  note parsed = context_query_values [OF evidence_path_facts(1) [OF assms(6) context_operation] wrap(2), folded assms(8)]
  have "query_evidence ''context'' (hq_target request) session_id (hs_manager s) = Inr None"
    using assms(1,3) parsed(1-3) wrap(1) by (simp add: query_evidence_def Let_def ContextEvidence_def thrown_def)
  then show ?thesis
    unfolding evidence_route [OF assms(6) context_operation assms(7,8) context_question] HandleEvidenceRequest_def
    by (simp add: assms(5,7) parsed(4,5) unless_refused_def)
qed

section \<open>A daemon in use\<close>

definition demo_http_env :: "(string list, unit, nat, unit) HttpEnv" where
  "demo_http_env =
     \<lparr>he_deps = demo_deps, he_lib = unary_json, he_create = demo_inputs, he_clocks = (\<lambda>i j. 9),
      he_random_bytes = [1, 2], he_pairing_id = ''p1'', he_pairing_code = ''123456'', he_device_id = ''d1'',
      he_token = ''t1'', he_file_view = demo_files, he_file_times = (\<lambda>p. None),
      he_read_file = (\<lambda>p. if p = ''/h/pairings.json'' then Some ''the tokens'' else None),
      he_getenv = (\<lambda>n. None), he_current_path = ''/d'', he_packaged_web_root = [], he_version = ''1''\<rparr>"

definition demo_connection :: "ListenerRole \<Rightarrow> bool \<Rightarrow> HttpSession" where
  "demo_connection role is_loopback =
     \<lparr>hx_services = fst (CreateLocalAuthServices unary_json [7] ''/r'' demo_fs), hx_storage_root = ''/r'',
      hx_listener_role = role, hx_remote_address = ''10.0.0.9'', hx_is_loopback = is_loopback,
      hx_remote_tls_enabled = True, hx_remote_listener_host = ''h'', hx_remote_listener_port = 1,
      hx_remote_tls_certificate_path = []\<rparr>"

definition demo_get :: "string \<Rightarrow> HttpRequest" where
  "demo_get target =
     \<lparr>hq_method = VerbGet, hq_target = target, hq_version = 11, hq_fields = [], hq_body = []\<rparr>"

definition demo_post :: "string \<Rightarrow> json \<Rightarrow> HttpRequest" where
  "demo_post target body =
     \<lparr>hq_method = VerbPost, hq_target = target, hq_version = 11, hq_fields = [], hq_body = jl_serialize unary_json body\<rparr>"

definition demo_logged :: "(string list, unit, nat, unit) SessionManager" where
  "demo_logged = snd (AppendLogStdout demo_session (''a'' @ [ch_nl] @ ''b'' @ [ch_nl]) 8 demo_manager)"

definition demo_state :: "(string list, unit, nat, unit) SessionManager \<Rightarrow> (string list, unit, nat, unit) HttpState" where
  "demo_state m =
     \<lparr>hs_server = Server_new m, hs_pairing = new_pairing_service demo_fs 60000, hs_observations = ObservationStore_new 10\<rparr>"

lemma demo_state_fields [simp]:
  "hs_disk (demo_state m) = demo_fs" "hs_manager (demo_state m) = m"
  by (simp_all add: demo_state_def new_pairing_service_def Server_new_def)

lemma demo_no_devices:
  "LoadApprovedPairings (FilePairingStore lib root) demo_fs = []"
  using LoadPairingSnapshot_absent [of root demo_fs lib]
  by (simp add: demo_fs_def file_at_def node_at_def PairingSnapshot_empty_def)

theorem request_without_token_harmless_witness:
  "\<exists>response. plain_request demo_http_env (demo_connection RemoteClient False) (demo_get ''/sessions'') (demo_state demo_manager)
     = Some (response, demo_state demo_manager)"
proof -
  let ?x = "demo_connection RemoteClient False" and ?request = "demo_get ''/sessions''"
  have x: "hx_services ?x = fst (CreateLocalAuthServices unary_json [7] ''/r'' demo_fs)"
    "\<not> (hx_listener_role ?x = AdminLocal \<and> hx_is_loopback ?x)" by (simp_all add: demo_connection_def)
  have "\<exists>response s'. plain_request demo_http_env ?x ?request (demo_state demo_manager) = Some (response, s')
      \<and> s' = (if hq_method ?request = VerbPost \<and> hq_target ?request = ''/pairing/request''
             then (demo_state demo_manager)\<lparr>hs_pairing := hs_pairing s'\<rparr> else demo_state demo_manager)"
    by (rule request_without_token_harmless [OF x]) (simp add: demo_no_devices del: FilePairingStore_sel)
  moreover have "hq_method ?request = VerbGet" by (simp add: demo_get_def)
  ultimately show ?thesis by auto
qed

definition demo_device :: json where
  "demo_device = JObject [(''deviceName'', JString ''phone''), (''deviceType'', JString ''mobile'')]"

theorem remote_request_adds_no_device_witness:
  "\<exists>response s'. plain_request demo_http_env (demo_connection RemoteClient False) (demo_post ''/pairing/request'' demo_device)
       (demo_state demo_manager) = Some (response, s')
     \<and> LoadApprovedPairings (FilePairingStore unary_json [''r'']) (hs_disk s') = []"
proof -
  let ?request = "demo_post ''/pairing/request'' demo_device" and ?x = "demo_connection RemoteClient False"
  have "HandleRequest demo_http_env (session_context ?x) ?request (demo_state demo_manager)
      = HandlePairingRequest demo_http_env (session_context ?x) ?request (demo_state demo_manager)"
    by (rule pairing_request_route) (simp_all add: demo_post_def)
  with pairing_request_reply [of demo_http_env "session_context ?x" ?request "demo_state demo_manager"]
  obtain response svc where r: "plain_request demo_http_env ?x ?request (demo_state demo_manager)
      = Some (response, (demo_state demo_manager)\<lparr>hs_pairing := svc\<rparr>)"
    by (auto simp: plain_request_def)
  have lib: "json_lib_roundtrip (he_lib demo_http_env)" "json_lib_accepts_ok (he_lib demo_http_env)"
    using unary_lib.roundtrip unary_lib.accepts_ok by (simp_all add: demo_http_env_def)
  have "set (LoadApprovedPairings (FilePairingStore (he_lib demo_http_env) (fs_path (hx_storage_root ?x)))
        (hs_disk ((demo_state demo_manager)\<lparr>hs_pairing := svc\<rparr>)))
      \<subseteq> set (LoadApprovedPairings (FilePairingStore (he_lib demo_http_env) (fs_path (hx_storage_root ?x)))
        (hs_disk (demo_state demo_manager)))"
    by (rule remote_request_adds_no_device [OF lib _ _ _ _ _ _ r, where random_bytes = "[7]" and fs = demo_fs])
      (simp_all add: demo_connection_def demo_http_env_def reliable_def demo_fs_def int64_ok_def,
       code_simp+)
  moreover have "fs_path (hx_storage_root ?x) = [''r'']" "he_lib demo_http_env = unary_json"
    by (simp_all add: demo_connection_def demo_http_env_def fs_path_def)
  ultimately show ?thesis using r demo_no_devices [of unary_json "[''r'']"] by auto
qed

definition demo_ended :: "(string list, unit, nat, unit) SessionManager" where
  "demo_ended = demo_manager\<lparr>sm_sessions := map (end_log_session 9 Exited) (sm_sessions demo_manager)\<rparr>"

theorem session_change_needs_control_witness:
  "let request = demo_post ''/sessions/clear-inactive'' JNull; ctx = session_context (demo_connection AdminLocal True);
       m = demo_ended
   in (\<exists>response s'. HandleRequest demo_http_env ctx request (demo_state m) = Some (response, s') \<and> hs_manager s' \<noteq> m)
    \<and> RequireAuthorization unary_json request ctx ControlSession demo_fs = None"
proof -
  let ?ctx = "session_context (demo_connection AdminLocal True)" and ?request = "demo_post ''/sessions/clear-inactive'' JNull"
  let ?m = demo_ended
  let ?cleared = "snd (ClearInactiveSessions demo_deps (\<lambda>i. 9) ?m)"
  have strip: "StripQueryString ''/sessions/clear-inactive'' = ''/sessions/clear-inactive''"
    by (rule StripQueryString_absent) simp
  have "HandleRequest demo_http_env ?ctx ?request (demo_state ?m) = clear_inactive demo_http_env ?request (demo_state ?m)"
    by (simp add: HandleRequest_def static_routes_def pairing_routes_def host_routes_def host_post_routes_def
        collection_routes_def demo_post_def strip starts_with_def RequireAuthorization_def session_context_def
        demo_connection_def unless_refused_def)
  then obtain response s' where r: "HandleRequest demo_http_env ?ctx ?request (demo_state ?m) = Some (response, s')"
    and m: "hs_manager s' = ?cleared"
    by (auto simp: clear_inactive_def case_prod_beta demo_http_env_def)
  have "map entry_id (sm_sessions ?cleared) = []" "map entry_id (sm_sessions ?m) = [demo_session]" by code_simp+
  then have changed: "hs_manager s' \<noteq> hs_manager (demo_state ?m)" using m by auto
  have target: "hq_target ?request = ''/sessions/clear-inactive''" "he_lib demo_http_env = unary_json"
    by (simp_all add: demo_post_def demo_http_env_def)
  have "\<not> viewed ?request m1 m2" for m1 m2 :: "(string list, unit, nat, unit) SessionManager"
    by (auto simp: viewed_def target strip dest: arg_cong [where f = last])
  moreover have "\<not> starts_with ''/sessions/clear-inactive'' ''/host/''" by code_simp
  ultimately have "RequireAuthorization unary_json ?request ?ctx ControlSession demo_fs = None"
    using session_change_needs_control [OF r disjI1 [OF changed], of demo_session] by (simp add: target)
  with r changed show ?thesis by auto
qed

theorem remote_assets_serve_any_file_witness:
  "map_option (hr_body \<circ> fst) (HandleRequest demo_http_env (session_context (demo_connection RemoteClient False))
     (demo_get ''/assets//h/pairings.json'') (demo_state demo_manager)) = Some ''the tokens''"
proof -
  have "LoadRemoteUiAsset demo_http_env (''assets/'' @ ''/h/pairings.json'') = None" by code_simp
  moreover have "\<not> path_is_relative ''/h/pairings.json''" by code_simp
  moreover have "he_read_file demo_http_env ''/h/pairings.json'' = Some ''the tokens''" by (simp add: demo_http_env_def)
  ultimately show ?thesis
    using remote_assets_serve_any_file [where request = "demo_get ''/assets//h/pairings.json''" and p = "''/h/pairings.json''"
        and ctx = "session_context (demo_connection RemoteClient False)" and env = demo_http_env and s = "demo_state demo_manager"]
    by (simp add: demo_get_def session_context_def demo_connection_def MakeTextResponse_def)
qed

lemma find_log_append:
  assumes "find_log i m = Some (e, b)"
  shows "\<exists>e'. find_log i (snd (append_log stream i data t m)) = Some (e', lb_Append stream data t b)"
proof -
  have e: "FindEntry i m = Some e" "me_log_buffer e = Some b"
    using assms by (auto simp: find_log_def split: option.splits)
  then have "entry_id e = i" by (auto simp: FindEntry_def find_Some_iff)
  then have kept: "FindEntry i (set_entry_state e' m) = Some e'" if "entry_id e' = i" for e'
    using FindEntry_set [OF e(1) that] by simp
  show ?thesis by (auto simp: append_log_def find_log_def Let_def e kept \<open>entry_id e = i\<close> [unfolded entry_id_def] entry_id_def)
qed

lemma demo_logged_log:
  "\<exists>e b. find_log demo_session demo_logged = Some (e, b) \<and> lb_inv b \<and> ContainsRevision 2 b
     \<and> en_revision (hd (lb_entries b)) < 2"
proof -
  let ?new = "LogBuffer_new \<lparr>es_kind = ManagedLogSession, es_session_id = SessionId demo_session\<rparr>
    \<lparr>li_max_bytes = 100, li_max_entries = 10\<rparr>"
  let ?text = "''a'' @ [ch_nl] @ ''b'' @ [ch_nl]"
  have "map_option snd (find_log demo_session demo_manager) = Some ?new" by code_simp
  then obtain e where "find_log demo_session demo_manager = Some (e, ?new)" by auto
  from find_log_append [OF this, of Stdout ?text 8]
  obtain e' where found: "find_log demo_session demo_logged = Some (e', lb_Append Stdout ?text 8 ?new)"
    by (auto simp: demo_logged_def AppendLogStdout_def)
  have "lb_advances (read_bytes [(Stdout, ?text, 8)]) ?new (lb_run [(Stdout, ?text, 8)] ?new)"
    by (intro lb_run_advances lb_inv_new) (simp add: LogBuffer_new_def read_bytes_def)
  then have inv: "lb_inv (lb_Append Stdout ?text 8 ?new)" by (simp add: lb_advances_def lb_run_def lb_read_def)
  have "map en_revision (lb_entries (lb_Append Stdout ?text 8 ?new)) = [1, 2]"
    by (simp add: lb_Append_def LogBuffer_new_def lb_char_def lb_complete_def CompleteLine_def lb_EvictIfNeeded_def
        strip_cr_def completed_entry_def lb_clear_partial_def u64_add_def Let_def)
  then have "ContainsRevision 2 (lb_Append Stdout ?text 8 ?new)" "en_revision (hd (lb_entries (lb_Append Stdout ?text 8 ?new))) < 2"
    by (auto simp: ContainsRevision_def map_eq_Cons_conv)
  with found inv show ?thesis by blast
qed

theorem context_query_ends_daemon_witness:
  "plain_request demo_http_env (demo_connection AdminLocal True)
     (demo_get (evidence_path demo_session ''context'' @ CHR ''?'' # context_query 2)) (demo_state demo_logged) = None"
proof -
  obtain e b where log: "find_log demo_session (hs_manager (demo_state demo_logged)) = Some (e, b)" "lb_inv b" "ContainsRevision 2 b"
      "en_revision (hd (lb_entries b)) < 2"
    using demo_logged_log by auto
  have allowed: "RequireAuthorization (he_lib demo_http_env)
      (demo_get (evidence_path demo_session ''context'' @ CHR ''?'' # context_query 2)) (session_context (demo_connection AdminLocal True))
      ObserveSessions (hs_disk (demo_state demo_logged)) = None"
    by (simp add: RequireAuthorization_def session_context_def demo_connection_def)
  have "plain_name demo_session" by code_simp
  then show ?thesis
    unfolding plain_request_def by (intro context_query_ends_daemon [OF log allowed]) (simp_all add: demo_get_def)
qed

end
