(* ===== verification/Command_Properties.thy ===== *)
theory Command_Properties
  imports Command_Line Http_Properties
begin

text \<open>
  The command line against the daemon that it talks to: the network delivers a request to the router of
  \<open>src/net/http_shared.cpp\<close> and gives back what the daemon writes, cut into any reads.
\<close>

section \<open>The daemon as the network\<close>

definition daemon_network ::
    "('p, 'vt, 'l, 's) HttpEnv \<Rightarrow> HttpSession \<Rightarrow> (nat \<Rightarrow> string) \<Rightarrow> (string \<Rightarrow> string list)
       \<Rightarrow> ('p, 'vt, 'l, 's) HttpState Network" where
  "daemon_network env x phrase pieces host port request s =
     (case plain_request env x request s of
        None \<Rightarrow> (Some [EndOfStream], s)
      | Some (response, s') \<Rightarrow>
          (Some (map Received (pieces (response_wire (phrase (hr_status response)) response)) @ [EndOfStream]), s'))"

definition faithful_link :: "(nat \<Rightarrow> string) \<Rightarrow> (string \<Rightarrow> string list) \<Rightarrow> bool" where
  "faithful_link phrase pieces \<longleftrightarrow> (\<forall>status. one_line (phrase status)) \<and> (\<forall>w. concat (pieces w) = w)"

definition client_request ::
    "DaemonEndpoint \<Rightarrow> HttpVerb \<Rightarrow> string \<Rightarrow> string \<Rightarrow> string option \<Rightarrow> HttpRequest" where
  "client_request endpoint method target body content_type =
     \<lparr>hq_method = method, hq_target = target, hq_version = 11,
      hq_fields = (''Host'', de_host endpoint) # optional_field ''Content-Type'' content_type, hq_body = body\<rparr>"

lemma optional_field_None [simp]: "optional_field name None = []"
  by (simp add: optional_field_def)

lemma daemon_answer:
  assumes "faithful_link phrase pieces"
    and "plain_request env x (client_request endpoint method target body content_type) s = Some (response, s')"
    and "sendable_response (phrase (hr_status response)) response"
  shows "PerformHttpRequest (daemon_network env x phrase pieces) endpoint method target body content_type None s =
    (if length (hr_body response) < u64_modulus then Some (read_back response) else None, s')"
proof -
  let ?reads = "pieces (response_wire (phrase (hr_status response)) response)"
  have "concat ?reads = response_wire (phrase (hr_status response)) response" using assms(1) by (simp add: faithful_link_def)
  then have "receive_response [] (map Received ?reads @ EndOfStream # []) =
      (if length (hr_body response) < u64_modulus then Some (read_back response) else None)"
    using receive_parts [OF assms(3), of "[]" ?reads "[]"] by simp
  then show ?thesis
    using assms(2) by (simp add: PerformHttpRequest_def daemon_network_def client_request_def)
qed

lemma json_response_sendable:
  "faithful_link phrase pieces \<Longrightarrow> status < 2 ^ 32 \<Longrightarrow> sendable_response (phrase status) (MakeJsonResponse request status body)"
  by (simp add: sendable_response_def MakeJsonResponse_def ApplyCorsHeaders_def set_field_def HttpResponse_new_def
      faithful_link_def one_line_def same_field_def)

lemma json_response_parts [simp]:
  "hr_status (MakeJsonResponse request status body) = status" "hr_body (MakeJsonResponse request status body) = body"
  by (simp_all add: MakeJsonResponse_def ApplyCorsHeaders_def set_field_def HttpResponse_new_def)

lemma no_bearer: "ExtractBearerToken_http (client_request endpoint method target body content_type) = []"
  by (simp add: ExtractBearerToken_http_def client_request_def find_field_def same_field_def optional_field_def
      split: option.split)

section \<open>The launch records\<close>

lemma records_request:
  assumes "hx_services x = fst (CreateLocalAuthServices lib random_bytes root fs)"
    and "request = client_request endpoint VerbGet ''/host/records'' [] None"
  shows "plain_request env x request s =
    Some (error_response request 401 (JsonEscape_api (he_lib env) ''missing bearer token''), s)"
proof -
  have strip: "StripQueryString ''/host/records'' = ''/host/records''" by (rule StripQueryString_absent) simp
  have "\<not> IsUiStaticAssetPath ''/host/records''" by code_simp
  then have "plain_request env x request s = HandleListHostRecords env (session_context x) request s"
    by (simp add: plain_request_def HandleRequest_def static_routes_def pairing_routes_def host_routes_def strip
        assms(2) client_request_def starts_with_def)
  moreover have "RequireHostRecordsAuthorization (he_lib env) request (session_context x) (hs_disk s) =
      Some (error_response request 401 (JsonEscape_api (he_lib env) ''missing bearer token''))"
    using assms(1) no_bearer
    by (simp add: RequireHostRecordsAuthorization_def RequireAuthorization_def session_context_def
        CreateLocalAuthServices_def Authorize_def AuthenticateBearerToken_def BuildRequestContext_def assms(2) Let_def)
  ultimately show ?thesis by (simp add: HandleListHostRecords_def unless_refused_def)
qed

lemma ListRecords_refused:
  assumes "faithful_link phrase pieces" "hx_services x = fst (CreateLocalAuthServices lib random_bytes root fs)"
  shows "ListRecords lib' (daemon_network env x phrase pieces) endpoint s = (None, s)"
proof -
  have "plain_request env x (client_request endpoint VerbGet ''/host/records'' [] None) s =
      Some (error_response (client_request endpoint VerbGet ''/host/records'' [] None) 401
        (JsonEscape_api (he_lib env) ''missing bearer token''), s)"
    by (rule records_request [OF assms(2) refl])
  from daemon_answer [OF assms(1) this] show ?thesis
    using json_response_sendable [OF assms(1)] by (simp add: ListRecords_def simple_call_def ok_body_def error_response_def)
qed

text \<open>Claim C20: \<open>sentrits records list\<close> and \<open>sentrits records show\<close> never succeed against the daemon that this
  repository builds, whatever the arguments, the listener, and the devices that are paired: the daemon asks for the token
  of a paired device, also of a request from the host itself, and the client has no way to send one.\<close>

theorem records_commands_refused:
  assumes "faithful_link phrase pieces" "hx_services x = fst (CreateLocalAuthServices lib random_bytes root fs)"
    and "subcommand \<in> {''list'', ''show''}"
  shows "fst (sentrits_main cli (daemon_network env x phrase pieces) (''records'' # subcommand # args)
    (st :: ('p, 'vt, 'l, 's) HttpState CliState)) \<noteq> Exit 0"
proof -
  have refused: "with_answer what endpoint (ListRecords lib' (daemon_network env x phrase pieces) endpoint) found st' =
      (Exit 1, complain (nl_text (failed_at what endpoint)) st')" for lib' endpoint what found and st' :: "('p, 'vt, 'l, 's) HttpState CliState"
    using ListRecords_refused [OF assms(1,2), of lib' env endpoint "cli_net st'"] by (simp add: with_answer_def call_network_def)
  have options: "fst (with_options cli args valid usage_exit command st) \<noteq> Exit 0"
    if "\<And>options. fst (command options st) \<noteq> Exit 0" for valid and command :: "_ \<Rightarrow> ('p, 'vt, 'l, 's) HttpState CliState \<Rightarrow> _"
    using that by (simp add: with_options_def usage_exit_def split: Parse.split)
  show ?thesis
    using assms(3) by (auto simp: sentrits_main_def subcommand_of_def records_command_def on_session_def Let_def refused intro!: options)
qed


definition demo_cli :: CliEnv where
  "demo_cli =
     \<lparr>ce_lib = unary_json, ce_getenv = (\<lambda>name. None), ce_current_path = ''/r'', ce_executable = None,
      ce_exists = (\<lambda>p. False), ce_compiled_web_root = [], ce_random_bytes = [7]\<rparr>"

lemma records_commands_refused_witness:
  "fst (sentrits_main demo_cli
     (daemon_network demo_http_env (demo_connection AdminLocal True) (\<lambda>status. ''Answer'') (\<lambda>w. [w]))
     [''records'', ''list'']
     \<lparr>cli_out = [], cli_err = [], cli_disk = demo_fs, cli_net = demo_state demo_manager\<rparr>) \<noteq> Exit 0"
proof -
  have "faithful_link (\<lambda>status. ''Answer'') (\<lambda>w. [w])" by (simp add: faithful_link_def one_line_def)
  moreover have "hx_services (demo_connection AdminLocal True) = fst (CreateLocalAuthServices unary_json [7] ''/r'' demo_fs)"
    by (simp add: demo_connection_def)
  ultimately show ?thesis by (rule records_commands_refused) simp
qed


section \<open>The name of the host\<close>

definition info_members :: "string \<Rightarrow> HostIdentity \<Rightarrow> bool \<Rightarrow> (string \<times> json option) list" where
  "info_members version h tls_enabled =
     [text_member ''hostId'' (hi_host_id h), text_member ''displayName'' (hi_display_name h),
      text_member ''adminHost'' (hi_admin_host h), size_member ''adminPort'' (hi_admin_port h),
      text_member ''remoteHost'' (hi_remote_host h), size_member ''remotePort'' (hi_remote_port h),
      (''providerCommands'', Some (json_object
         [(''codex'', Some (append_command (hi_codex_command h))), (''claude'', Some (append_command (hi_claude_command h)))])),
      size_member ''launchRecordCount'' (length (hi_launch_records h)), text_member ''version'' version,
      (''capabilities'', Some (json_strings [''sessions'', ''rest'', ''websocket'', ''launchRecords''])),
      text_member ''pairingMode'' ''approval'',
      (''tls'', Some (json_object
         [bool_member ''enabled'' tls_enabled,
          text_member ''mode'' (if tls_enabled then ''self-signed-planned'' else ''disabled'')]))]"

lemma host_info_members:
  "ToJsonHostInfo lib version (Some h) tls_enabled = jl_serialize lib (json_object (info_members version h tls_enabled))"
  "ToJsonHostInfo lib version None tls_enabled =
     jl_serialize lib (json_object (info_members version MakeDefaultHostIdentity tls_enabled))"
  by (simp_all add: ToJsonHostInfo_def info_members_def Let_def)

lemma info_members_distinct: "distinct (map fst (info_members version h tls_enabled))"
  by (simp add: info_members_def)

definition command_words :: "ProviderCommandOverride \<Rightarrow> string list" where
  "command_words c = (if pco_executable c = [] then [] else pco_executable c # pco_args c)"

lemma append_command_words: "append_command c = json_strings (command_words c)"
  by (simp add: append_command_def command_words_def json_strings_def)

text \<open>An identity that the host has stored, and whose commands have no empty argument.\<close>

definition renamable :: "HostIdentity \<Rightarrow> bool" where
  "renamable h \<longleftrightarrow> HostIdentity_storable h \<and> int (length (hi_launch_records h)) < 2 ^ 63
     \<and> [] \<notin> set (pco_args (hi_codex_command h)) \<and> [] \<notin> set (pco_args (hi_claude_command h))"

lemma stored_command_texts: "json_ok (Suc d) (command_json c) \<Longrightarrow> list_all valid_utf8 (command_words c)"
  by (cases "pco_executable c = []") (simp_all add: command_json_def command_words_def list_all_iff)

lemma stored_texts:
  assumes "HostIdentity_storable h"
  shows "valid_utf8 (hi_host_id h)" "valid_utf8 (hi_display_name h)" "valid_utf8 (hi_admin_host h)"
    "valid_utf8 (hi_remote_host h)" "list_all valid_utf8 (command_words (hi_codex_command h))"
    "list_all valid_utf8 (command_words (hi_claude_command h))"
proof -
  have "\<exists>d. max_depth = Suc (Suc (Suc d))" by (rule exI [of _ 29]) (simp add: max_depth_def)
  then obtain d where "max_depth = Suc (Suc (Suc d))" ..
  with assms have "json_ok (Suc (Suc (Suc d))) (HostIdentityToJson h)" by (simp add: HostIdentity_storable_def)
  then have parts: "valid_utf8 (hi_host_id h)" "valid_utf8 (hi_display_name h)" "valid_utf8 (hi_admin_host h)"
    "valid_utf8 (hi_remote_host h)" "json_ok (Suc d) (command_json (hi_codex_command h))"
    "json_ok (Suc d) (command_json (hi_claude_command h))"
    by (simp_all add: HostIdentityToJson_def)
  then show "valid_utf8 (hi_host_id h)" "valid_utf8 (hi_display_name h)" "valid_utf8 (hi_admin_host h)"
    "valid_utf8 (hi_remote_host h)" by blast+
  from parts show "list_all valid_utf8 (command_words (hi_codex_command h))"
    "list_all valid_utf8 (command_words (hi_claude_command h))" by (blast intro: stored_command_texts)+
qed

lemma info_read_back:
  assumes "json_lib_roundtrip lib" "renamable h" "valid_utf8 version"
  shows "parse_object lib (jl_serialize lib (json_object (info_members version h tls_enabled))) =
    Some (json_reparse (json_object (info_members version h tls_enabled)))"
proof (rule sent_object [OF assms(1) info_members_distinct])
  have strings: "0 < d \<Longrightarrow> json_ok d (json_strings ws) \<longleftrightarrow> list_all valid_utf8 ws" for d ws
    by (cases d) (simp_all add: json_strings_def list_all_iff)
  show "list_all (\<lambda>(k, m). valid_utf8 k \<and> (\<forall>v. m = Some v \<longrightarrow> json_ok 31 v)) (info_members version h tls_enabled)"
    using stored_texts [of h] assms(2,3)
    by (auto simp: info_members_def renamable_def HostIdentity_storable_def append_command_words strings json_object_def
        ascii_valid_utf8 byte_def)
qed


definition command_members :: "HostIdentity \<Rightarrow> (string \<times> json) list" where
  "command_members h =
     present_members
       [(''codex'', if command_words (hi_codex_command h) = [] then None else Some (json_strings (command_words (hi_codex_command h)))),
        (''claude'', if command_words (hi_claude_command h) = [] then None else Some (json_strings (command_words (hi_claude_command h))))]"

definition rename_members :: "string \<Rightarrow> HostIdentity \<Rightarrow> (string \<times> json option) list" where
  "rename_members name h =
     [(''displayName'', Some (JString name)),
      (''adminHost'', Some (JString (hi_admin_host h))), (''adminPort'', Some (JInt64 (int (hi_admin_port h)))),
      (''remoteHost'', Some (JString (hi_remote_host h))), (''remotePort'', Some (JInt64 (int (hi_remote_port h)))),
      (''providerCommands'', if command_members h = [] then None else Some (JObject (command_members h)))]"

lemma json_strings_reparse [simp]: "json_reparse (json_strings ws) = json_strings ws"
  by (simp add: json_strings_def)

lemma info_member:
  "(k, Some v) \<in> set (info_members version h tls_enabled) \<Longrightarrow>
   if_contains (json_reparse (json_object (info_members version h tls_enabled))) k = Some (json_reparse v)"
  using if_contains_object_iff [OF info_members_distinct] by auto

lemma payload_of_info:
  assumes "HostIdentity_storable h"
  shows "config_payload (''displayName'', JString name) (json_reparse (json_object (info_members version h tls_enabled)))
      (CopyNonEmptyProviderCommands (json_reparse (json_object (info_members version h tls_enabled)))) =
    json_object (rename_members name h)"
proof -
  let ?o = "json_reparse (json_object (info_members version h tls_enabled))"
  have ports: "int (hi_admin_port h) < 2 ^ 63" "int (hi_remote_port h) < 2 ^ 63"
    using assms by (simp_all add: HostIdentity_storable_def)
  have "if_contains ?o ''adminHost'' = Some (json_reparse (JString (hi_admin_host h)))"
    "if_contains ?o ''adminPort'' = Some (json_reparse (JUint64 (hi_admin_port h)))"
    "if_contains ?o ''remoteHost'' = Some (json_reparse (JString (hi_remote_host h)))"
    "if_contains ?o ''remotePort'' = Some (json_reparse (JUint64 (hi_remote_port h)))"
    "if_contains ?o ''providerCommands'' = Some (json_reparse (json_object
       [(''codex'', Some (append_command (hi_codex_command h))), (''claude'', Some (append_command (hi_claude_command h)))]))"
    by (rule info_member, simp add: info_members_def)+
  with ports have "kept_member ?o ''adminHost'' i = (''adminHost'', JString (hi_admin_host h))"
    "kept_member ?o ''adminPort'' i = (''adminPort'', JInt64 (int (hi_admin_port h)))"
    "kept_member ?o ''remoteHost'' i = (''remoteHost'', JString (hi_remote_host h))"
    "kept_member ?o ''remotePort'' i = (''remotePort'', JInt64 (int (hi_remote_port h)))"
    "CopyNonEmptyProviderCommands ?o = command_members h" for i
    by (simp_all add: kept_member_def or_default_def CopyNonEmptyProviderCommands_def command_members_def json_object_def
        append_command_words) (auto simp: json_strings_def)
  then show ?thesis
    by (simp add: config_payload_def rename_members_def json_object_def Let_def)
qed

lemma rename_distinct: "distinct (map fst (rename_members name h))"
  by (simp add: rename_members_def)

lemma rename_read_back:
  assumes "json_lib_roundtrip lib" "renamable h" "valid_utf8 name"
  shows "parse_object lib (jl_serialize lib (json_object (rename_members name h))) =
    Some (json_reparse (json_object (rename_members name h)))"
proof (rule sent_object [OF assms(1) rename_distinct])
  have strings: "0 < d \<Longrightarrow> json_ok d (json_strings ws) \<longleftrightarrow> list_all valid_utf8 ws" for d ws
    by (cases d) (simp_all add: json_strings_def list_all_iff)
  show "list_all (\<lambda>(k, m). valid_utf8 k \<and> (\<forall>v. m = Some v \<longrightarrow> json_ok 31 v)) (rename_members name h)"
    using stored_texts [of h] assms(2,3)
    by (auto simp: rename_members_def renamable_def HostIdentity_storable_def command_members_def strings int64_ok_def
        ascii_valid_utf8 byte_def)
qed


lemma rename_member:
  "(k, Some v) \<in> set (rename_members name h) \<Longrightarrow>
   if_contains (json_reparse (json_object (rename_members name h))) k = Some (json_reparse v)"
  using if_contains_object_iff [OF rename_distinct] by auto

lemma argv_of_words:
  "ws \<noteq> [] \<Longrightarrow> [] \<notin> set ws \<Longrightarrow> ParseCommandArgvValue (json_strings ws) = Some ws"
proof -
  assume "ws \<noteq> []" "[] \<notin> set ws"
  moreover from this(2) have "map_all nonempty_string (map JString ws) = Some ws"
    by (induction ws) (auto simp: nonempty_string_def)
  ultimately show ?thesis by (simp add: ParseCommandArgvValue_def json_strings_def nonempty_list_def)
qed

lemma configured_words:
  "command_storable c \<Longrightarrow> configured_command (nonempty_list (command_words c)) = c"
  by (cases c) (simp add: command_storable_def configured_command_def command_words_def nonempty_list_def
      ProviderCommandOverride_default_def)

lemma parsed_commands:
  assumes "renamable h"
  shows "parse_command_member (JObject (command_members h)) ''codex'' = Some (nonempty_list (command_words (hi_codex_command h)))"
    and "parse_command_member (JObject (command_members h)) ''claude'' = Some (nonempty_list (command_words (hi_claude_command h)))"
proof -
  have words: "[] \<notin> set (command_words (hi_codex_command h))" "[] \<notin> set (command_words (hi_claude_command h))"
    using assms by (auto simp: command_words_def renamable_def)
  show "parse_command_member (JObject (command_members h)) ''codex'' = Some (nonempty_list (command_words (hi_codex_command h)))"
    "parse_command_member (JObject (command_members h)) ''claude'' = Some (nonempty_list (command_words (hi_claude_command h)))"
    using argv_of_words [OF _ words(1)] argv_of_words [OF _ words(2)]
    by (auto simp: parse_command_member_def optional_def command_members_def nonempty_list_def)
qed

lemma rename_parsed:
  assumes "json_lib_roundtrip lib" "renamable h" "valid_utf8 name"
  obtains payload where "ParseHostConfigRequest lib (jl_serialize lib (json_object (rename_members name h))) = Some payload"
    and "configured_identity payload h = h\<lparr>hi_display_name := name\<rparr>"
proof -
  let ?o = "json_reparse (json_object (rename_members name h))"
  have h: "HostIdentity_storable h" using assms(2) by (simp add: renamable_def)
  have "if_contains ?o ''displayName'' = Some (json_reparse (JString name))"
    "if_contains ?o ''adminHost'' = Some (json_reparse (JString (hi_admin_host h)))"
    "if_contains ?o ''adminPort'' = Some (json_reparse (JInt64 (int (hi_admin_port h))))"
    "if_contains ?o ''remoteHost'' = Some (json_reparse (JString (hi_remote_host h)))"
    "if_contains ?o ''remotePort'' = Some (json_reparse (JInt64 (int (hi_remote_port h))))"
    by (rule rename_member, simp add: rename_members_def)+
  then have texts: "required as_string ?o ''displayName'' = Some name"
    "required nonempty_string ?o ''adminHost'' = Some (hi_admin_host h)"
    "required parse_port ?o ''adminPort'' = Some (hi_admin_port h)"
    "required nonempty_string ?o ''remoteHost'' = Some (hi_remote_host h)"
    "required parse_port ?o ''remotePort'' = Some (hi_remote_port h)"
    using h by (simp_all add: required_def nonempty_string_def parse_port_def HostIdentity_storable_def del: if_contains_reparse)
  let ?commands = "(nonempty_list (command_words (hi_codex_command h)), nonempty_list (command_words (hi_claude_command h)))"
  have none: "?commands = (None, None)" if "command_members h = []"
    using that by (simp add: command_members_def nonempty_list_def split: if_splits)
  have reparse: "json_reparse (JObject (command_members h)) = JObject (command_members h)"
    by (simp add: command_members_def)
  have commands: "\<exists>commands. optional
       (\<lambda>v. if \<not> is_object v then None
            else Option.bind (parse_command_member v ''codex'')
              (\<lambda>codex. Option.bind (parse_command_member v ''claude'') (\<lambda>claude. Some (codex, claude))))
       ?o ''providerCommands'' = Some commands
     \<and> (Option.bind commands fst, Option.bind commands snd) = ?commands"
  proof (cases "command_members h = []")
    case True
    then have "if_contains ?o ''providerCommands'' = None"
      by (simp add: if_contains_object [OF rename_distinct]) (simp add: rename_members_def)
    then show ?thesis using none [OF True] by (intro exI [of _ None]) (simp add: optional_def)
  next
    case False
    then have "if_contains ?o ''providerCommands'' = Some (json_reparse (JObject (command_members h)))"
      by (intro rename_member) (simp add: rename_members_def)
    then show ?thesis using parsed_commands [OF assms(2)] reparse
      by (intro exI [of _ "Some ?commands"]) (simp add: optional_def del: if_contains_reparse)
  qed
  then obtain commands where c: "ParseHostConfigRequest lib (jl_serialize lib (json_object (rename_members name h))) =
      Some \<lparr>hp_display_name = name, hp_admin_host = hi_admin_host h, hp_admin_port = hi_admin_port h,
           hp_remote_host = hi_remote_host h, hp_remote_port = hi_remote_port h,
           hp_codex_command = Option.bind commands fst, hp_claude_command = Option.bind commands snd\<rparr>"
    and eq: "(Option.bind commands fst, Option.bind commands snd) = ?commands"
    using texts rename_read_back [OF assms] by (auto simp: ParseHostConfigRequest_def)
  moreover have "configured_command (Option.bind commands fst) = hi_codex_command h"
    "configured_command (Option.bind commands snd) = hi_claude_command h"
    using eq h by (simp_all add: configured_words HostIdentity_storable_def)
  ultimately show ?thesis by (intro that [OF c]) (simp add: configured_identity_def)
qed


lemma storable_renamed:
  "HostIdentity_storable h \<Longrightarrow> valid_utf8 name \<Longrightarrow> HostIdentity_storable (h\<lparr>hi_display_name := name\<rparr>)"
proof -
  assume h: "HostIdentity_storable h" "valid_utf8 name"
  have "\<exists>d. max_depth = Suc d" by (rule exI [of _ 31]) (simp add: max_depth_def)
  then obtain d where "max_depth = Suc d" ..
  with h show ?thesis by (simp add: HostIdentity_storable_def HostIdentityToJson_def)
qed

lemma info_request:
  assumes "hx_services x = fst (CreateLocalAuthServices lib random_bytes root fs)"
    and "request = client_request endpoint VerbGet ''/host/info'' [] None"
  shows "plain_request env x request s = Some (MakeJsonResponse request 200 (ToJsonHostInfo (he_lib env) (he_version env)
    (LoadHostIdentity (FileHostConfigStore lib (fs_path root)) (hs_disk s)) (hx_remote_tls_enabled x)), s)"
proof -
  have strip: "StripQueryString ''/host/info'' = ''/host/info''" by (rule StripQueryString_absent) simp
  have "\<not> IsUiStaticAssetPath ''/host/info''" by code_simp
  then show ?thesis using assms(1)
    by (simp add: plain_request_def HandleRequest_def static_routes_def pairing_routes_def host_routes_def strip
        assms(2) client_request_def starts_with_def context_identity_def session_context_def CreateLocalAuthServices_def Let_def)
qed

lemma config_request:
  assumes "hx_services x = fst (CreateLocalAuthServices lib random_bytes root fs)"
    and "hx_listener_role x = AdminLocal" "hx_is_loopback x"
    and "request = client_request endpoint VerbPost ''/host/config'' body content_type"
    and "ParseHostConfigRequest (he_lib env) body = Some payload"
    and "SaveHostIdentity (FileHostConfigStore lib (fs_path root))
      (configured_identity payload (stored_identity (FileHostConfigStore lib (fs_path root)) (hs_disk s))) (hs_disk s) = (saved, fs')"
  shows "plain_request env x request s = Some
    (if \<not> saved then error_response request 500 ''failed to save host config''
     else MakeJsonResponse request 200 (ToJsonHostInfo (he_lib env) (he_version env)
       (LoadHostIdentity (FileHostConfigStore lib (fs_path root)) fs') (hx_remote_tls_enabled x)), set_disk fs' s)"
proof -
  have strip: "StripQueryString ''/host/config'' = ''/host/config''" by (rule StripQueryString_absent) simp
  have "plain_request env x request s = HandleHostConfig env (session_context x) request s"
    by (simp add: plain_request_def HandleRequest_def static_routes_def pairing_routes_def host_routes_def host_post_routes_def
        strip assms(4) client_request_def starts_with_def)
  moreover have "RequireLocalHostAdmin (he_lib env) request (session_context x) (hs_disk s) = None"
    using assms(1-3)
    by (simp add: RequireLocalHostAdmin_def RequireLocalAuthorization_def RequireAuthorization_def session_context_def
        CreateLocalAuthServices_def Authorize_def BuildRequestContext_def Let_def)
  ultimately show ?thesis using assms(1,4-6)
    by (simp add: HandleHostConfig_def unless_refused_def session_context_def CreateLocalAuthServices_def Let_def
        client_request_def)
qed


lemma host_info_answer:
  assumes "faithful_link phrase pieces" "hx_services x = fst (CreateLocalAuthServices lib random_bytes root fs)"
    and "body = ToJsonHostInfo (he_lib env) (he_version env)
      (LoadHostIdentity (FileHostConfigStore lib (fs_path root)) (hs_disk s)) (hx_remote_tls_enabled x)"
    and "length body < u64_modulus"
  shows "GetHostInfo (daemon_network env x phrase pieces) endpoint s = (Some body, s)"
  using daemon_answer [OF assms(1) info_request [OF assms(2) refl, of env endpoint s]] json_response_sendable [OF assms(1)] assms(3,4)
  by (simp add: GetHostInfo_def simple_call_def ok_body_def)

lemma config_answer:
  assumes "faithful_link phrase pieces" "hx_services x = fst (CreateLocalAuthServices lib random_bytes root fs)"
    and "hx_listener_role x = AdminLocal" "hx_is_loopback x" "ParseHostConfigRequest (he_lib env) body = Some payload"
    and "SaveHostIdentity (FileHostConfigStore lib (fs_path root))
      (configured_identity payload (stored_identity (FileHostConfigStore lib (fs_path root)) (hs_disk s))) (hs_disk s) = (saved, fs')"
    and "saved \<Longrightarrow> length (ToJsonHostInfo (he_lib env) (he_version env)
      (LoadHostIdentity (FileHostConfigStore lib (fs_path root)) fs') (hx_remote_tls_enabled x)) < u64_modulus"
  shows "\<exists>answer. PostHostConfig (daemon_network env x phrase pieces) endpoint body s = (answer, set_disk fs' s)
    \<and> (answer = None \<longleftrightarrow> \<not> saved)"
  using daemon_answer [OF assms(1) config_request [OF assms(2-4) refl assms(5,6)], of endpoint "Some ''application/json''"]
    json_response_sendable [OF assms(1)] assms(7)
  by (cases saved) (simp_all add: PostHostConfig_def ok_body_def error_response_def)

lemma one_positional:
  assumes "name \<noteq> []" "hd name \<noteq> CHR ''-''"
  shows "on_session cli [name] refuse_with command st =
    command (ParsedCommandOptions_new (LoadConfiguredAdminEndpoint cli (cli_disk st))\<lparr>po_positionals := [name]\<rparr>) name st"
  using assms
  by (auto simp: on_session_def with_options_def ParseCommandOptions_def ParsedCommandOptions_new_def has_positional_def)

text \<open>Claim C8: \<open>sentrits host set-name NAME\<close> changes the display name and nothing else: the command reads what the
  daemon says about its host, sends back what it understood of it with the new name, and the daemon's handler replaces
  the commands and addresses by what it was sent. What is stored afterwards is the identity that the daemon had with
  the new name, the command reports success exactly if the daemon could write the file, and the rest of the daemon's
  state is as it was. This is for a name in UTF-8 that does not begin with a dash, for an identity that can be written
  and read again and whose commands have no empty argument (an empty argument does not survive the way to the client
  and back), for a disk that loses no flush when a file is closed, and for a connection to the administration listener
  from the host itself that delivers what is written, in whatever pieces. The identity that the daemon had is the one in
  its file, or the default one where the file is absent or cannot be read: such a file is replaced by the defaults with
  the new name.\<close>

theorem set_name_changes_only_name:
  assumes "faithful_link phrase pieces" "json_lib_roundtrip (he_lib env)" "json_lib_accepts_ok (he_lib env)"
    and "hx_services x = fst (CreateLocalAuthServices (he_lib env) random_bytes root fs)"
    and "hx_listener_role x = AdminLocal" "hx_is_loopback x" "ce_lib cli = he_lib env" "valid_utf8 (he_version env)"
    and "store = FileHostConfigStore (he_lib env) (fs_path root)" "cli_net st = s" "reliable (hs_disk s)"
    and "stored_identity store (hs_disk s) = h" "renamable h"
    and "valid_utf8 name" "name \<noteq> []" "hd name \<noteq> CHR ''-''"
    and "SaveHostIdentity store (h\<lparr>hi_display_name := name\<rparr>) (hs_disk s) = (saved, fs')"
    and "\<forall>shown \<in> {h, h\<lparr>hi_display_name := name\<rparr>}.
      length (ToJsonHostInfo (he_lib env) (he_version env) (Some shown) (hx_remote_tls_enabled x)) < u64_modulus"
  shows "\<exists>st'. sentrits_main cli (daemon_network env x phrase pieces) [''host'', ''set-name'', name] st =
      (Exit (if saved then 0 else 1), st')
    \<and> cli_net st' = set_disk fs' s
    \<and> (saved \<longrightarrow> LoadHostIdentity store fs' = Some (h\<lparr>hi_display_name := name\<rparr>))"
proof -
  let ?new = "h\<lparr>hi_display_name := name\<rparr>" and ?lib = "he_lib env" and ?network = "daemon_network env x phrase pieces"
  let ?info = "info_members (he_version env) h (hx_remote_tls_enabled x)"
  let ?payload = "jl_serialize ?lib (json_object (rename_members name h))"
  have h: "HostIdentity_storable h" using assms(13) by (simp add: renamable_def)
  have loaded: "LoadHostIdentity store fs' = Some ?new" if saved
    using host_identity_persists [OF assms(2,3,11) storable_renamed [OF h assms(14)], of "fs_path root" fs'] assms(9,17) that by simp
  have body: "ToJsonHostInfo ?lib (he_version env) (LoadHostIdentity store (hs_disk s)) (hx_remote_tls_enabled x) =
      jl_serialize ?lib (json_object ?info)"
    using assms(12) by (auto simp: stored_identity_def host_info_members split: option.splits)
  have info: "GetHostInfo ?network endpoint s = (Some (jl_serialize ?lib (json_object ?info)), s)" for endpoint
    using host_info_answer [OF assms(1,4) refl, of env s endpoint] body assms(9,18) by (simp add: host_info_members)
  obtain payload where parsed: "ParseHostConfigRequest ?lib ?payload = Some payload" "configured_identity payload h = ?new"
    by (rule rename_parsed [OF assms(2,13,14)])
  have config: "\<exists>answer. PostHostConfig ?network endpoint ?payload s = (answer, set_disk fs' s) \<and> (answer = None \<longleftrightarrow> \<not> saved)" for endpoint
    by (rule config_answer [OF assms(1,4,5,6) parsed(1)]) (use assms(9,12,17,18) parsed(2) loaded in simp_all)
  have set_name: "sentrits_main cli ?network [''host'', ''set-name'', name] st = set_name_command cli ?network [name] st"
    by (simp add: sentrits_main_def subcommand_of_def host_command_def)
  obtain answer where answer: "PostHostConfig ?network (LoadConfiguredAdminEndpoint cli (cli_disk st)) ?payload s =
      (answer, set_disk fs' s)" "answer = None \<longleftrightarrow> \<not> saved" using config by blast
  show ?thesis
    unfolding set_name set_name_command_def one_positional [OF assms(15,16)]
    using info info_read_back [OF assms(2,13,8)] payload_of_info [OF h] answer assms(7,10,15) loaded
    by (cases answer) (simp_all add: with_host_info_def with_answer_def call_network_def post_config_def print_exit_def say_def
        complain_def ParsedCommandOptions_new_def)
qed


definition demo_identity :: HostIdentity where
  "demo_identity = MakeDefaultHostIdentity\<lparr>hi_admin_port := 2, hi_remote_port := 3, hi_hub_url := Some ''hub'',
     hi_codex_command := \<lparr>pco_executable = ''codex'', pco_args = [''-x'']\<rparr>\<rparr>"

definition demo_host_disk :: FileSystem where
  "demo_host_disk =
     \<lparr>fs_nodes = [([], Dir), ([''r''], Dir),
        (HostIdentityPath [''r''], File (jl_serialize unary_json (HostIdentityToJson demo_identity)))],
      fs_faults = [], fs_close_faults = []\<rparr>"

lemma demo_renamable: "renamable demo_identity"
  by (simp add: renamable_def demo_identity_def HostIdentity_storable_def MakeDefaultHostIdentity_def
      ProviderCommandOverride_default_def kDefaultDisplayName_def command_storable_def HostIdentityToJson_def command_json_def
      string_member_def max_depth_def int64_cast_def int64_ok_def ascii_valid_utf8 byte_def)

lemma demo_host_stored: "LoadHostIdentity (FileHostConfigStore unary_json [''r'']) demo_host_disk = Some demo_identity"
proof -
  have "HostIdentity_storable demo_identity" using demo_renamable by (simp add: renamable_def)
  then show ?thesis
    using HostIdentity_roundtrip unary_lib.parse_serialize [of "HostIdentityToJson demo_identity"]
    by (simp add: FileHostConfigStore_def LoadOptionalFromJsonFile_def ReadFile_def demo_host_disk_def file_at_def node_at_def
        HostIdentityPath_def HostIdentity_storable_def)
qed

lemma demo_host_writable:
  "fst (SaveHostIdentity (FileHostConfigStore unary_json [''r'']) identity demo_host_disk)" "reliable demo_host_disk"
  using WriteFileAtomically_succeeds [of demo_host_disk "HostIdentityPath [''r'']"]
  by (simp_all add: FileHostConfigStore_def demo_host_disk_def file_at_def node_at_def HostIdentityPath_def temp_path_def
      reliable_def)

definition demo_cli_state :: "(string list, unit, nat, unit) HttpState CliState" where
  "demo_cli_state =
     \<lparr>cli_out = [], cli_err = [], cli_disk = demo_host_disk, cli_net = set_disk demo_host_disk (demo_state demo_manager)\<rparr>"

theorem set_name_changes_only_name_witness:
  "\<exists>st'. sentrits_main demo_cli
      (daemon_network demo_http_env (demo_connection AdminLocal True) (\<lambda>status. ''Answer'') (\<lambda>w. [take 9 w, drop 9 w]))
      [''host'', ''set-name'', ''box''] demo_cli_state = (Exit 0, st')
    \<and> LoadHostIdentity (FileHostConfigStore unary_json [''r'']) (hs_disk (cli_net st')) =
        Some (demo_identity\<lparr>hi_display_name := ''box''\<rparr>)"
proof -
  let ?store = "FileHostConfigStore unary_json [''r'']" and ?new = "demo_identity\<lparr>hi_display_name := ''box''\<rparr>"
  let ?x = "demo_connection AdminLocal True"
  have link: "faithful_link (\<lambda>status. ''Answer'') (\<lambda>w. [take 9 w, drop 9 w])" by (simp add: faithful_link_def one_line_def)
  have services: "hx_services ?x = fst (CreateLocalAuthServices (he_lib demo_http_env) [7] ''/r'' demo_fs)"
    "hx_listener_role ?x = AdminLocal" "hx_is_loopback ?x" by (simp_all add: demo_connection_def demo_http_env_def)
  have env: "he_lib demo_http_env = unary_json" "ce_lib demo_cli = he_lib demo_http_env" "valid_utf8 (he_version demo_http_env)"
    "fs_path ''/r'' = [''r'']"
    by (simp_all add: demo_http_env_def demo_cli_def fs_path_def ascii_valid_utf8 byte_def)
  have "length (ToJsonHostInfo unary_json ''1'' (Some demo_identity) True) < u64_modulus"
    "length (ToJsonHostInfo unary_json ''1'' (Some ?new) True) < u64_modulus"
    by (simp_all add: ToJsonHostInfo_def demo_identity_def MakeDefaultHostIdentity_def ProviderCommandOverride_default_def
        kDefaultDisplayName_def append_command_def json_object_def json_strings_def unary_json_def enc_str_def enc_nat_def)
  then have fits: "\<forall>shown \<in> {demo_identity, ?new}.
      length (ToJsonHostInfo (he_lib demo_http_env) (he_version demo_http_env) (Some shown) (hx_remote_tls_enabled ?x)) < u64_modulus"
    by (simp add: demo_http_env_def demo_connection_def del: ToJsonHostInfo_def)
  have stored: "stored_identity ?store (hs_disk (cli_net demo_cli_state)) = demo_identity"
    "cli_net demo_cli_state = set_disk demo_host_disk (demo_state demo_manager)"
    "reliable (hs_disk (cli_net demo_cli_state))"
    using demo_host_stored demo_host_writable(2) by (simp_all add: stored_identity_def demo_cli_state_def)
  have saved: "SaveHostIdentity ?store ?new (hs_disk (cli_net demo_cli_state)) =
      (True, snd (SaveHostIdentity ?store ?new (hs_disk (cli_net demo_cli_state))))"
    using demo_host_writable(1) by (simp add: prod_eq_iff demo_cli_state_def)
  from set_name_changes_only_name [OF link _ _ services env(2,3) _ refl stored(3,1) demo_renamable _ _ _ saved fits]
  show ?thesis using env unary_lib.roundtrip unary_lib.accepts_ok by (auto simp: ascii_valid_utf8 byte_def)
qed

end
