(* ===== verification/Local_Controller.thy ===== *)
theory Local_Controller
  imports Client_Protocol Manager_Properties
begin

text \<open>
  \<open>LocalControllerSession\<close> of \<open>src/net/http_server.cpp\<close>: the daemon's end of the local controller
  socket, on the modelled session manager. A session is a pair of its own fields and the manager; each
  asynchronous handler is one operation, and the asynchronous read, write or wait it starts is a later
  operation. The sockets, \<open>dup\<close> and the readable descriptor of the process are inputs; \<open>cl_sent\<close>
  records what reached the socket.
\<close>

unbundle bit_operations_syntax

section \<open>State\<close>

record LocalController =
  cl_session_id :: string
  cl_client_id :: string
  cl_initial_tail :: string
  cl_initial_terminal_size :: TerminalSize
  cl_current_terminal_size :: TerminalSize
  cl_next_output_sequence :: u64
  cl_last_observer_render_revision :: u64
  cl_has_control :: bool
  cl_write_in_progress :: bool
  cl_close_after_writes :: bool
  cl_closed :: bool
  cl_pending_output :: "string list"
  cl_pty_readable :: bool
  cl_wait_armed :: bool
  cl_sent :: string

definition LocalController_init :: LocalController where
  "LocalController_init = \<lparr>cl_session_id = [], cl_client_id = [], cl_initial_tail = [],
     cl_initial_terminal_size = TerminalSize_default, cl_current_terminal_size = TerminalSize_default,
     cl_next_output_sequence = 1, cl_last_observer_render_revision = 0, cl_has_control = False,
     cl_write_in_progress = False, cl_close_after_writes = False, cl_closed = False, cl_pending_output = [],
     cl_pty_readable = False, cl_wait_armed = False, cl_sent = []\<rparr>"

type_synonym ('p, 'vt, 'l, 's) cl_state = "LocalController \<times> ('p, 'vt, 'l, 's) SessionManager"

section \<open>Closing and writing\<close>

definition ReleaseControlIfHeld ::
    "(nat \<Rightarrow> unix_ms) \<Rightarrow> ('p, 'vt, 'l, 's) cl_state \<Rightarrow> ('p, 'vt, 'l, 's) cl_state" where
  "ReleaseControlIfHeld clock = (\<lambda>(lc, m).
     if \<not> cl_has_control lc then (lc, m)
     else (lc\<lparr>cl_has_control := False\<rparr>, snd (ReleaseControl clock (cl_session_id lc) (cl_client_id lc) m)))"

definition ForceClose :: "(nat \<Rightarrow> unix_ms) \<Rightarrow> ('p, 'vt, 'l, 's) cl_state \<Rightarrow> ('p, 'vt, 'l, 's) cl_state" where
  "ForceClose clock = (\<lambda>(lc, m).
     if cl_closed lc then (lc, m)
     else ReleaseControlIfHeld clock
       (lc\<lparr>cl_closed := True, cl_pty_readable := False\<rparr>,
        if cl_session_id lc \<noteq> [] \<and> cl_client_id lc \<noteq> []
        then RemoveViewport (cl_session_id lc) (cl_client_id lc) m else m))"

definition DoWrite :: "(nat \<Rightarrow> unix_ms) \<Rightarrow> ('p, 'vt, 'l, 's) cl_state \<Rightarrow> ('p, 'vt, 'l, 's) cl_state" where
  "DoWrite clock = (\<lambda>(lc, m).
     if cl_pending_output lc = [] \<or> cl_closed lc then
       (if cl_close_after_writes lc then ForceClose clock (lc\<lparr>cl_write_in_progress := False\<rparr>, m)
        else (lc\<lparr>cl_write_in_progress := False\<rparr>, m))
     else (lc\<lparr>cl_write_in_progress := True\<rparr>, m))"

text \<open>The completion of the write that \<open>DoWrite\<close> started.\<close>

definition write_completed ::
    "(nat \<Rightarrow> unix_ms) \<Rightarrow> bool \<Rightarrow> ('p, 'vt, 'l, 's) cl_state \<Rightarrow> ('p, 'vt, 'l, 's) cl_state" where
  "write_completed clock failed = (\<lambda>(lc, m).
     if failed then ForceClose clock (lc, m)
     else DoWrite clock (lc\<lparr>cl_pending_output := tl (cl_pending_output lc),
                           cl_sent := cl_sent lc @ hd (cl_pending_output lc)\<rparr>, m))"

definition QueueOutput ::
    "(nat \<Rightarrow> unix_ms) \<Rightarrow> string \<Rightarrow> ('p, 'vt, 'l, 's) cl_state \<Rightarrow> ('p, 'vt, 'l, 's) cl_state" where
  "QueueOutput clock payload = (\<lambda>(lc, m).
     if payload = [] \<or> cl_closed lc then (lc, m)
     else
       let lc1 = lc\<lparr>cl_pending_output := cl_pending_output lc @ [payload]\<rparr> in
       if \<not> cl_write_in_progress lc1 then DoWrite clock (lc1, m) else (lc1, m))"

section \<open>Handshake\<close>

definition handshake_dimension :: "json \<Rightarrow> string \<Rightarrow> int \<Rightarrow> u16" where
  "handshake_dimension object key fallback =
     nat ((case required as_int64 object key of Some i \<Rightarrow> i | None \<Rightarrow> fallback) mod 65536)"

definition clear_screen :: string where
  "clear_screen = ch_esc # ''[0m'' @ ch_esc # ''[H'' @ ch_esc # ''[2J''"

definition local_client_id :: "unix_ms \<Rightarrow> int \<Rightarrow> string" where
  "local_client_id now_ms native_handle =
     ''local-controller-'' @ int_to_string now_ms @ ''-'' @ int_to_string native_handle"

text \<open>What follows once the client controls a session of its size: the first screen and where output starts.\<close>

definition bootstrap_client ::
    "('p, 'vt, 'l, 's) ManagerDeps \<Rightarrow> SessionSummary \<Rightarrow> ('p, 'vt, 'l, 's) cl_state \<Rightarrow> ('p, 'vt, 'l, 's) cl_state" where
  "bootstrap_client deps summary = (\<lambda>(lc, m).
     let (updated, m1) = UpdateViewport (cl_session_id lc) (cl_client_id lc) (cl_initial_terminal_size lc) m;
         viewport = (if updated then GetViewportSnapshot deps (cl_session_id lc) (cl_client_id lc) m1 else None);
         initial_tail = (case viewport of
            Some v \<Rightarrow> if vp_bootstrap_ansi v \<noteq> [] then vp_bootstrap_ansi v else cl_initial_tail lc
          | None \<Rightarrow> cl_initial_tail lc);
         next_sequence = (case GetTail (cl_session_id lc) 65536 m1 of
            Some tail \<Rightarrow> if os_seq_end tail > 0 then u64_add (os_seq_end tail) 1 else 1
          | None \<Rightarrow> u64_add (su_current_sequence summary) 1)
     in (lc\<lparr>cl_initial_tail := (if initial_tail = [] then clear_screen else initial_tail),
            cl_next_output_sequence := next_sequence\<rparr>, m1))"

text \<open>The result is the line of the response, which says success or failure, and the state.\<close>

definition HandleHandshake ::
    "('p, 'vt, 'l, 's) ManagerDeps \<Rightarrow> JsonLib \<Rightarrow> (nat \<Rightarrow> unix_ms) \<Rightarrow> int \<Rightarrow> string
       \<Rightarrow> ('p, 'vt, 'l, 's) cl_state \<Rightarrow> (string \<times> bool) \<times> ('p, 'vt, 'l, 's) cl_state" where
  "HandleHandshake deps lib clock native_handle line = (\<lambda>(lc, m).
     case parse_object lib line of
       None \<Rightarrow> ((''ERROR invalid local controller handshake'', False), (lc, m))
     | Some object \<Rightarrow>
         (case required as_string object ''sessionId'' of
            None \<Rightarrow> ((''ERROR missing sessionId'', False), (lc, m))
          | Some session_id \<Rightarrow>
              let terminal_size = \<lparr>ts_columns = handshake_dimension object ''columns'' 120,
                                   ts_rows = handshake_dimension object ''rows'' 40\<rparr>;
                  client_id = local_client_id (clock 0) native_handle;
                  lc1 = lc\<lparr>cl_session_id := session_id, cl_initial_terminal_size := terminal_size,
                           cl_current_terminal_size := terminal_size, cl_client_id := client_id\<rparr>
              in
              (case GetSession (clock 1) session_id m of
                 None \<Rightarrow> ((''ERROR session not found'', False), (lc1, m))
               | Some summary \<Rightarrow>
                   let (granted, m1) = RequestControl (\<lambda>i. clock (i + 2)) session_id client_id ControllerHost m in
                   if \<not> granted then ((''ERROR failed to claim control'', False), (lc1, m1))
                   else
                     let lc2 = lc1\<lparr>cl_has_control := True\<rparr>;
                         (resized, m2) = ResizeSession deps session_id terminal_size m1
                     in
                     if \<not> resized then ((''ERROR failed to resize session'', False), (lc2, m2))
                     else ((''OK'', True), bootstrap_client deps summary (lc2, m2)))))"

definition SyncReadableDescriptor :: "bool \<Rightarrow> bool \<Rightarrow> LocalController \<Rightarrow> LocalController" where
  "SyncReadableDescriptor has_readable_fd dup_succeeds lc =
     lc\<lparr>cl_pty_readable := (has_readable_fd \<and> (cl_pty_readable lc \<or> dup_succeeds))\<rparr>"

definition ArmReadableWait :: "LocalController \<Rightarrow> LocalController" where
  "ArmReadableWait lc = (if \<not> cl_pty_readable lc \<or> cl_closed lc then lc else lc\<lparr>cl_wait_armed := True\<rparr>)"

definition response_written ::
    "(nat \<Rightarrow> unix_ms) \<Rightarrow> string \<times> bool \<Rightarrow> bool \<Rightarrow> bool \<Rightarrow> bool \<Rightarrow> ('p, 'vt, 'l, 's) cl_state
       \<Rightarrow> ('p, 'vt, 'l, 's) cl_state" where
  "response_written clock response failed has_readable_fd dup_succeeds = (\<lambda>(lc, m).
     if failed \<or> \<not> snd response then ForceClose clock (lc, m)
     else
       let lc1 = lc\<lparr>cl_sent := cl_sent lc @ fst response @ [ch_nl], cl_initial_tail := []\<rparr>;
           (lc2, m2) = QueueOutput clock (cl_initial_tail lc) (lc1, m)
       in (ArmReadableWait (SyncReadableDescriptor has_readable_fd dup_succeeds lc2), m2))"

section \<open>Frames\<close>

definition frame_size :: "char \<Rightarrow> char \<Rightarrow> char \<Rightarrow> char \<Rightarrow> 32 word" where
  "frame_size h1 h2 h3 h4 =
     push_bit 24 (word_of_nat (byte h1)) OR push_bit 16 (word_of_nat (byte h2))
     OR push_bit 8 (word_of_nat (byte h3)) OR word_of_nat (byte h4)"

datatype FrameRead = FrameIncomplete | FrameTooLarge | Frame char string string

text \<open>\<open>ReadFrameHeader\<close> and \<open>ReadFramePayload\<close> on the bytes that have arrived.\<close>

fun read_frame :: "string \<Rightarrow> FrameRead" where
  "read_frame (frame_type # h1 # h2 # h3 # h4 # bytes) =
     (let size = frame_size h1 h2 h3 h4 in
      if size > 1024 * 1024 then FrameTooLarge
      else if length bytes < unat size then FrameIncomplete
      else Frame frame_type (take (unat size) bytes) (drop (unat size) bytes))"
| "read_frame bytes = FrameIncomplete"

definition DecodeTerminalSize :: "string \<Rightarrow> TerminalSize" where
  "DecodeTerminalSize payload =
     \<lparr>ts_columns = push_bit 8 (byte (payload ! 0)) OR byte (payload ! 1),
      ts_rows = push_bit 8 (byte (payload ! 2)) OR byte (payload ! 3)\<rparr>"

definition EnsureControlForInput ::
    "('p, 'vt, 'l, 's) ManagerDeps \<Rightarrow> (nat \<Rightarrow> unix_ms) \<Rightarrow> ('p, 'vt, 'l, 's) cl_state
       \<Rightarrow> bool \<times> ('p, 'vt, 'l, 's) cl_state" where
  "EnsureControlForInput deps clock = (\<lambda>(lc, m).
     if cl_has_control lc \<and> HasControl (cl_session_id lc) (cl_client_id lc) m then (True, (lc, m))
     else
       let (granted, m1) = RequestControl clock (cl_session_id lc) (cl_client_id lc) ControllerHost m in
       if \<not> granted then (False, (lc\<lparr>cl_has_control := False\<rparr>, m1))
       else
         let (resized, m2) = ResizeSession deps (cl_session_id lc) (cl_current_terminal_size lc) m1
         in (resized, (lc\<lparr>cl_has_control := resized\<rparr>, m2)))"

definition HandleFrame ::
    "('p, 'vt, 'l, 's) ManagerDeps \<Rightarrow> (nat \<Rightarrow> unix_ms) \<Rightarrow> char \<Rightarrow> string \<Rightarrow> ('p, 'vt, 'l, 's) cl_state
       \<Rightarrow> ('p, 'vt, 'l, 's) cl_state" where
  "HandleFrame deps clock frame_type payload = (\<lambda>(lc, m).
     let in_control = (cl_has_control lc \<and> HasControl (cl_session_id lc) (cl_client_id lc) m) in
     if frame_type = CHR ''C'' then snd (EnsureControlForInput deps clock (lc, m))
     else if frame_type = CHR ''I'' then
       (if \<not> in_control then (lc\<lparr>cl_has_control := False\<rparr>, m)
        else
          let (sent, m1) = SendInput deps (cl_session_id lc) payload m in
          if sent then (lc, m1) else ForceClose clock (lc, m1))
     else if frame_type = CHR ''R'' then
       (if length payload \<noteq> 4 then ForceClose clock (lc, m)
        else
          let lc1 = lc\<lparr>cl_current_terminal_size := DecodeTerminalSize payload\<rparr> in
          if \<not> in_control then (lc1\<lparr>cl_has_control := False\<rparr>, m)
          else
            let (resized, m1) = ResizeSession deps (cl_session_id lc) (cl_current_terminal_size lc1) m in
            if resized then (lc1, m1) else ForceClose clock (lc1, m1))
     else ForceClose clock (lc, m))"

lemma read_frame_shorter: "read_frame bytes = Frame frame_type payload rest \<Longrightarrow> length rest < length bytes"
  by (cases bytes rule: read_frame.cases) (auto simp: Let_def split: if_splits)

text \<open>The frames in the bytes that have arrived, one after the other, until more bytes are needed or a frame leaves the
  session closed, since the next read fails on a closed socket; the remaining bytes stay in the socket. The handlers of the reads
  do not look whether the session is closed: a frame whose read was complete before the session was closed is handled.\<close>

function handle_frames ::
    "('p, 'vt, 'l, 's) ManagerDeps \<Rightarrow> (nat \<Rightarrow> nat \<Rightarrow> unix_ms) \<Rightarrow> nat \<Rightarrow> string \<Rightarrow> ('p, 'vt, 'l, 's) cl_state
       \<Rightarrow> string \<times> ('p, 'vt, 'l, 's) cl_state" where
  "handle_frames deps clocks n bytes st =
     (case read_frame bytes of
        FrameIncomplete \<Rightarrow> (bytes, st)
      | FrameTooLarge \<Rightarrow> (bytes, ForceClose (clocks n) st)
      | Frame frame_type payload rest \<Rightarrow>
          let st1 = HandleFrame deps (clocks n) frame_type payload st in
          if cl_closed (fst st1) then (rest, st1) else handle_frames deps clocks (n + 1) rest st1)"
  by pat_completeness auto
termination
  by (relation "measure (\<lambda>(_, _, _, bytes, _). length bytes)") (auto dest: read_frame_shorter)

declare handle_frames.simps [simp del]


section \<open>Output of the session\<close>

definition FlushOutput ::
    "(nat \<Rightarrow> unix_ms) \<Rightarrow> ('p, 'vt, 'l, 's) cl_state \<Rightarrow> ('p, 'vt, 'l, 's) cl_state" where
  "FlushOutput clock = (\<lambda>(lc, m).
     case GetOutputSince (cl_session_id lc) (cl_next_output_sequence lc) m of
       None \<Rightarrow> (lc, m)
     | Some output_slice \<Rightarrow>
         if os_data output_slice = [] then (lc, m)
         else QueueOutput clock (os_data output_slice)
           (lc\<lparr>cl_next_output_sequence := u64_add (os_seq_end output_slice) 1\<rparr>, m))"

definition FlushViewportSnapshot ::
    "('p, 'vt, 'l, 's) ManagerDeps \<Rightarrow> (nat \<Rightarrow> unix_ms) \<Rightarrow> SessionSummary option \<Rightarrow> ('p, 'vt, 'l, 's) cl_state
       \<Rightarrow> ('p, 'vt, 'l, 's) cl_state" where
  "FlushViewportSnapshot deps clock summary = (\<lambda>(lc, m).
     let lc1 = (case summary of
           Some s \<Rightarrow> lc\<lparr>cl_next_output_sequence := u64_add (su_current_sequence s) 1\<rparr>
         | None \<Rightarrow> lc)
     in
     case GetViewportSnapshot deps (cl_session_id lc) (cl_client_id lc) m of
       None \<Rightarrow> (lc1, m)
     | Some viewport \<Rightarrow>
         if vp_bootstrap_ansi viewport = [] then (lc1, m)
         else if vp_render_revision viewport = cl_last_observer_render_revision lc1 then (lc1, m)
         else QueueOutput clock (vp_bootstrap_ansi viewport)
           (lc1\<lparr>cl_last_observer_render_revision := vp_render_revision viewport\<rparr>, m))"

text \<open>The first half of the handler of \<open>ArmReadableWait\<close>: who is in control, and whether the session has ended.\<close>

definition review_control ::
    "('p, 'vt, 'l, 's) ManagerDeps \<Rightarrow> (nat \<Rightarrow> unix_ms) \<Rightarrow> ('p, 'vt, 'l, 's) cl_state
       \<Rightarrow> SessionSummary option \<times> ('p, 'vt, 'l, 's) cl_state" where
  "review_control deps clock = (\<lambda>(lc, m).
     let lc1 = (if cl_has_control lc \<and> \<not> HasControl (cl_session_id lc) (cl_client_id lc) m
                then lc\<lparr>cl_has_control := False\<rparr> else lc);
         summary = GetSession (clock 0) (cl_session_id lc) m
     in
     (summary,
      case summary of
        None \<Rightarrow> (lc1\<lparr>cl_close_after_writes := True\<rparr>, m)
      | Some s \<Rightarrow>
          if su_status s = Exited \<or> su_status s = Error then (lc1\<lparr>cl_close_after_writes := True\<rparr>, m)
          else if \<not> cl_has_control lc1 \<and> su_controller_kind s = ControllerHost \<and> su_controller_client_id s = None then
            let (granted, m1) = RequestControl (\<lambda>i. clock (i + 1)) (cl_session_id lc) (cl_client_id lc) ControllerHost m in
            if \<not> granted then (lc1, m1)
            else (lc1\<lparr>cl_has_control := True\<rparr>,
                  snd (ResizeSession deps (cl_session_id lc) (cl_current_terminal_size lc)
                    (RemoveViewport (cl_session_id lc) (cl_client_id lc) m1)))
          else (lc1, m)))"

definition flush_to_client ::
    "('p, 'vt, 'l, 's) ManagerDeps \<Rightarrow> (nat \<Rightarrow> unix_ms) \<Rightarrow> bool \<Rightarrow> SessionSummary option
       \<Rightarrow> ('p, 'vt, 'l, 's) cl_state \<Rightarrow> ('p, 'vt, 'l, 's) cl_state" where
  "flush_to_client deps clock had_control summary = (\<lambda>(lc, m).
     if cl_has_control lc then FlushOutput clock (lc, m)
     else if had_control then
       let m1 = snd (UpdateViewport (cl_session_id lc) (cl_client_id lc) (cl_current_terminal_size lc) m);
           (lc2, m2) = QueueOutput clock clear_screen (lc, m1)
       in FlushViewportSnapshot deps clock summary (lc2\<lparr>cl_last_observer_render_revision := 0\<rparr>, m2)
     else FlushViewportSnapshot deps clock summary (lc, m))"

text \<open>The handler of the wait when it does not fail; \<open>None\<close>: the poll does not return. An aborted wait does
  nothing. The handler does not look at \<open>closed_\<close> before its end, and closing cancels only waits that have not
  completed yet.\<close>

definition readable ::
    "('p, 'vt, 'l, 's) ManagerDeps \<Rightarrow> (nat \<Rightarrow> nat \<Rightarrow> unix_ms) \<Rightarrow> bool \<Rightarrow> bool \<Rightarrow> ('p, 'vt, 'l, 's) cl_state
       \<Rightarrow> ('p, 'vt, 'l, 's) cl_state option" where
  "readable deps clocks has_readable_fd dup_succeeds = (\<lambda>(lc, m).
     map_option (\<lambda>(polled, m1).
       let had_control = cl_has_control lc;
           (summary, st2) = review_control deps (clocks 1) (lc\<lparr>cl_wait_armed := False\<rparr>, m1);
           (lc3, m3) = flush_to_client deps (clocks 2) had_control summary st2;
           lc4 = SyncReadableDescriptor has_readable_fd dup_succeeds lc3
       in
       if cl_pty_readable lc4 \<and> \<not> cl_closed lc4 then (ArmReadableWait lc4, m3)
       else if cl_close_after_writes lc4 \<and> \<not> cl_write_in_progress lc4 \<and> cl_pending_output lc4 = []
       then ForceClose (clocks 3) (lc4, m3)
       else (lc4, m3))
     (PollSession deps (clocks 0) (cl_session_id lc) 0 m))"

section \<open>What arrives is what was sent\<close>

lemma byte_mask: "n AND 255 = n mod 256" for n :: nat
  using take_bit_eq_mask [of 8 n] by (simp add: take_bit_eq_mod mask_eq_exp_minus_1)

lemma word_of_low_byte [simp]: "word_of_nat (byte (low_byte w)) = w AND 0xFF"
proof -
  have "unat (w AND 0xFF) = unat w mod 256"
    by (simp add: unsigned_and_eq byte_mask)
  then have "unat (w AND 0xFF) < 256" by simp
  then show ?thesis by (simp add: low_byte_def byte_def)
qed

lemma frame_size_bytes:
  "frame_size (low_byte (drop_bit 24 w)) (low_byte (drop_bit 16 w)) (low_byte (drop_bit 8 w)) (low_byte w) = w"
proof (rule bit_word_eqI)
  have mask: "(0xFF :: 32 word) = mask 8" by (simp add: mask_eq_exp_minus_1)
  show "bit (frame_size (low_byte (drop_bit 24 w)) (low_byte (drop_bit 16 w)) (low_byte (drop_bit 8 w)) (low_byte w)) n
      = bit w n" if "n < LENGTH(32)" for n
    using that by (cases "n < 8"; cases "n < 16"; cases "n < 24") (auto simp: frame_size_def mask bit_simps)
qed

lemma read_frame_built:
  assumes "length payload \<le> 1024 * 1024"
  shows "read_frame (BuildLocalControllerFrame frame_type payload @ rest) = Frame frame_type payload rest"
proof -
  have "unat (word_of_nat (length payload) :: 32 word) = length payload"
    using assms by (simp add: unat_of_nat)
  moreover from this have "\<not> (word_of_nat (length payload) :: 32 word) > 1024 * 1024"
    using assms by (simp add: word_less_nat_alt)
  ultimately show ?thesis
    by (simp add: BuildLocalControllerFrame_def Let_def frame_size_bytes)
qed

lemma DecodeTerminalSize_built:
  assumes "ts_columns terminal_size < 65536" "ts_rows terminal_size < 65536"
  shows "DecodeTerminalSize (BuildLocalResizePayload terminal_size) = terminal_size"
    "length (BuildLocalResizePayload terminal_size) = 4"
proof -
  have "push_bit 8 (n div 256) OR n mod 256 = n" for n :: nat
    using or_disjoint_nat [of "n mod 256" 8 "n div 256"] by (simp add: push_bit_eq_mult)
  then show "DecodeTerminalSize (BuildLocalResizePayload terminal_size) = terminal_size"
    using assms
    by (simp add: DecodeTerminalSize_def BuildLocalResizePayload_def byte_def drop_bit_eq_div byte_mask del: push_bit_and)
qed (simp add: BuildLocalResizePayload_def)

fun deliver_frames ::
    "('p, 'vt, 'l, 's) ManagerDeps \<Rightarrow> (nat \<Rightarrow> nat \<Rightarrow> unix_ms) \<Rightarrow> nat \<Rightarrow> (char \<times> string) list \<Rightarrow> ('p, 'vt, 'l, 's) cl_state
       \<Rightarrow> ('p, 'vt, 'l, 's) cl_state" where
  "deliver_frames deps clocks n [] st = st"
| "deliver_frames deps clocks n ((frame_type, payload) # frames) st =
     (let st1 = HandleFrame deps (clocks n) frame_type payload st in
      if cl_closed (fst st1) then st1 else deliver_frames deps clocks (n + 1) frames st1)"

definition sent_frames :: "(char \<times> string) list \<Rightarrow> string" where
  "sent_frames frames = concat (map (\<lambda>(frame_type, payload). BuildLocalControllerFrame frame_type payload) frames)"

lemma sent_frames_simps [simp]:
  "sent_frames [] = []"
  "sent_frames ((frame_type, payload) # frames) = BuildLocalControllerFrame frame_type payload @ sent_frames frames"
  by (simp_all add: sent_frames_def)

lemma handle_frames_sent:
  assumes "list_all (\<lambda>f. length (snd f) \<le> 1024 * 1024) frames" "read_frame rest = FrameIncomplete"
  shows "snd (handle_frames deps clocks n (sent_frames frames @ rest) st) = deliver_frames deps clocks n frames st"
  using assms(1)
proof (induction frames arbitrary: n st)
  case Nil
  with assms(2) show ?case by (subst handle_frames.simps) simp
next
  case (Cons f fs)
  then show ?case by (cases f) (subst handle_frames.simps, simp add: read_frame_built Let_def)
qed

text \<open>Claim C39: the frames that the local client writes are the frames that the daemon handles: in order, with their
  types and payloads, however many arrive in one read and whatever incomplete frame follows them, until one of them
  closes the session. A terminal size survives its encoding.\<close>

theorem local_frames_delivered:
  assumes "list_all (\<lambda>f. length (snd f) \<le> 1024 * 1024) frames" "read_frame rest = FrameIncomplete"
    and "ts_columns terminal_size < 65536" "ts_rows terminal_size < 65536"
  shows "snd (handle_frames deps clocks n (sent_frames frames @ rest) st) = deliver_frames deps clocks n frames st
    \<and> length (BuildLocalResizePayload terminal_size) = 4
    \<and> DecodeTerminalSize (BuildLocalResizePayload terminal_size) = terminal_size"
  using handle_frames_sent [OF assms(1,2)] DecodeTerminalSize_built [OF assms(3,4)] by simp

section \<open>What a client can do\<close>

text \<open>The input of a run of reads, one call each, as long as the session takes it.\<close>

fun send_inputs ::
    "('p, 'vt, 'l, 's) ManagerDeps \<Rightarrow> string \<Rightarrow> string list \<Rightarrow> ('p, 'vt, 'l, 's) SessionManager
       \<Rightarrow> ('p, 'vt, 'l, 's) SessionManager option" where
  "send_inputs deps session_id [] m = Some m"
| "send_inputs deps session_id (input # inputs) m =
     (let (sent, m1) = SendInput deps session_id input m in
      if sent then send_inputs deps session_id inputs m1 else None)"

definition ordinary_read :: "string \<Rightarrow> bool" where
  "ordinary_read s \<longleftrightarrow> s \<noteq> [] \<and> length s \<le> 1024
     \<and> ch_esc \<notin> set s \<and> CHR 0x1C \<notin> set s \<and> CHR 0x1D \<notin> set s"

lemma HasControl_SendInput:
  "SendInput deps i input m = (sent, m') \<Longrightarrow> HasControl session_id client_id m' = HasControl session_id client_id m"
  using controller_of_frame(1) [of session_id deps i input m] by (simp add: HasControl_controller_of)

lemma handle_input_frames:
  assumes "list_all (\<lambda>s. length s \<le> 1024) inputs" "cl_has_control lc" "\<not> cl_closed lc"
    and "HasControl (cl_session_id lc) (cl_client_id lc) m" "send_inputs deps (cl_session_id lc) inputs m = Some m'"
  shows "handle_frames deps clocks n (concat (map (BuildLocalControllerFrame (CHR ''I'')) inputs)) (lc, m) = ([], (lc, m'))"
  using assms
proof (induction inputs arbitrary: n m)
  case Nil
  then show ?case by (subst handle_frames.simps) simp
next
  case (Cons s inputs)
  from Cons.prems(5) obtain m1 where sent: "SendInput deps (cl_session_id lc) s m = (True, m1)"
    and rest: "send_inputs deps (cl_session_id lc) inputs m1 = Some m'"
    by (auto split: prod.splits if_splits)
  have "HandleFrame deps (clocks n) (CHR ''I'') s (lc, m) = (lc, m1)"
    using Cons.prems sent by (simp add: HandleFrame_def)
  with Cons rest HasControl_SendInput [OF sent] show ?case
    by (subst handle_frames.simps) (simp add: read_frame_built Let_def)
qed

text \<open>Claim C26: what the user types reaches the session. Ordinary text that a local client in control reads from its
  terminal, one read after the other, travels as frames and is handed to the session in the same order and with
  the same bytes, each read by one call; nothing is left in the socket and the client stays as it was.\<close>

theorem local_keys_reach_session:
  assumes "list_all ordinary_read reads" "cl_has_control lc" "\<not> cl_closed lc"
    and "HasControl (cl_session_id lc) (cl_client_id lc) m"
    and "send_inputs deps (cl_session_id lc) reads m = Some m'"
  shows "handle_frames deps clocks n (concat (map (concat \<circ> fst \<circ> local_attach_input) reads)) (lc, m) = ([], (lc, m'))"
proof -
  have "(concat \<circ> fst \<circ> local_attach_input) s = BuildLocalControllerFrame (CHR ''I'') s" if "ordinary_read s" for s
    using that by (simp add: local_attach_input_def filter_ordinary ordinary_read_def)
  then have "map (concat \<circ> fst \<circ> local_attach_input) reads = map (BuildLocalControllerFrame (CHR ''I'')) reads"
    using assms(1) by (simp add: list_all_iff)
  moreover have "list_all (\<lambda>s. length s \<le> 1024) reads"
    using assms(1) by (auto simp: list_all_iff ordinary_read_def)
  ultimately show ?thesis using handle_input_frames [OF _ assms(2-5)] by (simp only:)
qed

function frame_types :: "string \<Rightarrow> char list" where
  "frame_types bytes =
     (case read_frame bytes of Frame frame_type payload rest \<Rightarrow> frame_type # frame_types rest | _ \<Rightarrow> [])"
  by pat_completeness auto
termination by (relation "measure length") (auto dest: read_frame_shorter)

declare frame_types.simps [simp del]

text \<open>The manager after the client with this id has closed or not, and has done nothing else.\<close>

definition closed_only ::
    "LocalController \<Rightarrow> LocalController \<Rightarrow> ('p, 'vt, 'l, 's) SessionManager \<Rightarrow> ('p, 'vt, 'l, 's) SessionManager" where
  "closed_only lc lc' m =
     (if \<not> cl_closed lc \<and> cl_closed lc' \<and> cl_session_id lc \<noteq> [] \<and> cl_client_id lc \<noteq> []
      then RemoveViewport (cl_session_id lc) (cl_client_id lc) m else m)"

lemma ForceClose_stranger:
  assumes "\<not> HasControl (cl_session_id lc) (cl_client_id lc) m" "ForceClose clock (lc, m) = (lc', m')"
  shows "m' = closed_only lc lc' m \<and> cl_session_id lc' = cl_session_id lc \<and> cl_client_id lc' = cl_client_id lc
    \<and> cl_closed lc'"
  using assms
  by (auto simp: ForceClose_def ReleaseControlIfHeld_def closed_only_def ReleaseControl_stranger split: if_splits)

lemma HandleFrame_stranger:
  assumes "\<not> HasControl (cl_session_id lc) (cl_client_id lc) m" "frame_type \<noteq> CHR ''C''"
    and "HandleFrame deps clock frame_type payload (lc, m) = (lc', m')"
  shows "m' = closed_only lc lc' m \<and> cl_session_id lc' = cl_session_id lc \<and> cl_client_id lc' = cl_client_id lc"
  using assms ForceClose_stranger [of _ m clock lc' m']
  by (fastforce simp: HandleFrame_def Let_def closed_only_def split: if_splits)

lemma HandleFrame_open:
  "HandleFrame deps clock frame_type payload (lc, m) = (lc', m') \<Longrightarrow> \<not> cl_closed lc' \<Longrightarrow> \<not> cl_closed lc"
  by (auto simp: HandleFrame_def EnsureControlForInput_def Let_def ForceClose_def split: if_splits prod.splits)

text \<open>Claim C6: a local client acts on a session only while it is in control. Whatever bytes a client sends that the
  manager does not list as the controller - keys, sizes, malformed or oversized frames - unless one of the frames
  asks for control, the manager is not changed at all, but for the view of the client itself when it is closed;
  in particular nobody's control changes.\<close>

theorem local_client_needs_control:
  assumes "\<not> HasControl (cl_session_id lc) (cl_client_id lc) m" "CHR ''C'' \<notin> set (frame_types bytes)"
    and "handle_frames deps clocks n bytes (lc, m) = (rest, (lc', m'))"
  shows "m' = (if \<not> cl_closed lc \<and> cl_closed lc' \<and> cl_session_id lc \<noteq> [] \<and> cl_client_id lc \<noteq> []
               then RemoveViewport (cl_session_id lc) (cl_client_id lc) m else m)
    \<and> controller_of session_id m' = controller_of session_id m"
proof -
  have "m' = closed_only lc lc' m"
    using assms
  proof (induction "length bytes" arbitrary: n bytes lc m rule: less_induct)
    case less
    show ?case
    proof (cases "read_frame bytes")
      case FrameIncomplete
      with less.prems show ?thesis by (subst (asm) handle_frames.simps) (auto simp: closed_only_def)
    next
      case FrameTooLarge
      with less.prems(3) have "ForceClose (clocks n) (lc, m) = (lc', m')"
        by (subst (asm) handle_frames.simps) simp
      with ForceClose_stranger [OF less.prems(1)] show ?thesis by blast
    next
      case (Frame frame_type payload rest1)
      obtain lc1 m1 where one: "HandleFrame deps (clocks n) frame_type payload (lc, m) = (lc1, m1)" by fastforce
      have "frame_types bytes = frame_type # frame_types rest1"
        using Frame by (subst frame_types.simps) simp
      with less.prems(2) have types: "frame_type \<noteq> CHR ''C''" "CHR ''C'' \<notin> set (frame_types rest1)" by auto
      have stranger: "m1 = closed_only lc lc1 m" "cl_session_id lc1 = cl_session_id lc" "cl_client_id lc1 = cl_client_id lc"
        using HandleFrame_stranger [OF less.prems(1) types(1) one] by simp_all
      show ?thesis
      proof (cases "cl_closed lc1")
        case True
        with less.prems(3) Frame one stranger show ?thesis by (subst (asm) handle_frames.simps) auto
      next
        case False
        then have more: "handle_frames deps clocks (n + 1) rest1 (lc1, m1) = (rest, (lc', m'))"
          using less.prems(3) Frame one by (subst (asm) handle_frames.simps) simp
        have m1: "m1 = m" using stranger False by (simp add: closed_only_def)
        then have "\<not> HasControl (cl_session_id lc1) (cl_client_id lc1) m1" using less.prems(1) stranger by simp
        from less.hyps [OF read_frame_shorter [OF Frame] this types(2) more] stranger m1 False
        show ?thesis using HandleFrame_open [OF one] by (auto simp: closed_only_def)
      qed
    qed
  qed
  then show ?thesis by (simp add: closed_only_def)
qed

section \<open>Closing\<close>

lemma closed_frame [simp]:
  "cl_closed lc \<Longrightarrow> ForceClose clock (lc, m) = (lc, m)"
  "cl_closed lc \<Longrightarrow> QueueOutput clock payload (lc, m) = (lc, m)"
  by (simp_all add: ForceClose_def QueueOutput_def)

lemma closed_FlushOutput:
  assumes "cl_closed lc" "FlushOutput clock (lc, m) = (lc', m')"
  shows "m' = m \<and> cl_closed lc' \<and> cl_has_control lc' = cl_has_control lc"
  using assms by (auto simp: FlushOutput_def split: option.splits if_splits)

lemma ForceClose_holder:
  assumes "\<not> cl_closed lc" "cl_has_control lc" "HasControl (cl_session_id lc) (cl_client_id lc) m"
    and "ForceClose clock (lc, m) = (lc', m')"
  shows "cl_closed lc' \<and> \<not> cl_has_control lc' \<and> cl_session_id lc' = cl_session_id lc \<and> cl_client_id lc' = cl_client_id lc
    \<and> controller_of (cl_session_id lc) m' = Some (None, ControllerHost)"
  using assms by (auto simp: ForceClose_def ReleaseControlIfHeld_def ReleaseControl_controller_of split: if_splits)

lemma review_control_retakes:
  assumes "session_interactive (cl_session_id lc) m" "controller_of (cl_session_id lc) m = Some (None, ControllerHost)"
    and "\<not> cl_has_control lc" "review_control deps clock (lc, m) = (summary, (lc', m'))"
  shows "lc' = lc\<lparr>cl_has_control := True\<rparr>"
    "controller_of (cl_session_id lc) m' = Some (Some (cl_client_id lc), ControllerHost)"
proof -
  obtain e where e: "FindEntry (cl_session_id lc) m = Some e" "me_controller_client_id e = None"
    "me_controller_kind e = ControllerHost" "IsInteractiveStatus (md_status (sn_metadata (the (entry_snapshot e))))"
    using assms(1,2) by (auto simp: session_interactive_def controller_of_def split: option.splits)
  obtain granted m1 where r: "RequestControl (\<lambda>i. clock (i + 1)) (cl_session_id lc) (cl_client_id lc) ControllerHost m = (granted, m1)"
    by fastforce
  have taken: "granted" "FindEntry (cl_session_id lc) m1 = Some (take_control (\<lambda>n. clock (n + 1 + 1)) (cl_client_id lc) ControllerHost e)"
    using RequestControl_taken [OF e(1) conjunct2 [OF FindEntry_Some [OF e(1)]] e(4) _ _ r] by simp_all
  have s: "GetSession (clock 0) (cl_session_id lc) m = Some (BuildSummary (clock 0) e)" using e(1) by (simp add: GetSession_def)
  have "su_status (BuildSummary (clock 0) e) \<noteq> Exited" "su_status (BuildSummary (clock 0) e) \<noteq> Error"
    "su_controller_kind (BuildSummary (clock 0) e) = ControllerHost" "su_controller_client_id (BuildSummary (clock 0) e) = None"
    using e by (auto simp: BuildSummary_def Let_def IsInteractiveStatus_def)
  with assms(3,4) s r taken
  show "lc' = lc\<lparr>cl_has_control := True\<rparr>"
    "controller_of (cl_session_id lc) m' = Some (Some (cl_client_id lc), ControllerHost)"
    by (auto simp: review_control_def controller_of_def [of _ m1])
qed

lemma local_client_privileged [simp]: "IsPrivilegedControllerClientId (Some (local_client_id t h))"
  by (simp add: IsPrivilegedControllerClientId_def local_client_id_def kPrivilegedLocalControllerPrefix_def starts_with_def)

text \<open>Claim C27: closing releases the control that the client holds, but a readable event that was already queued
  undoes that: its handler does not look whether the session is closed, finds a session of the host without a
  client, and takes control again for a client that is gone. Closing once more changes nothing, and from then on
  polling skips the session.\<close>

theorem local_controller_close_then_retake:
  assumes "\<not> cl_closed lc" "cl_has_control lc" "HasControl (cl_session_id lc) (cl_client_id lc) m"
    and "cl_client_id lc = local_client_id t h" "ForceClose clock (lc, m) = (lc1, m1)"
    and "PollSession deps (clocks 0) (cl_session_id lc) 0 m1 = Some (polled, mp)"
    and "session_interactive (cl_session_id lc) mp"
  shows "cl_closed lc1 \<and> \<not> cl_has_control lc1 \<and> controller_of (cl_session_id lc) m1 = Some (None, ControllerHost)
    \<and> (\<exists>lc2 m2 e. readable deps clocks has_fd dup_ok (lc1, m1) = Some (lc2, m2) \<and> cl_closed lc2
         \<and> FindEntry (cl_session_id lc) m2 = Some e \<and> me_controller_client_id e = Some (cl_client_id lc)
         \<and> skips_poll e \<and> ForceClose clock' (lc2, m2) = (lc2, m2))"
proof -
  note closed = ForceClose_holder [OF assms(1,2,3,5)]
  let ?lc = "lc1\<lparr>cl_wait_armed := False\<rparr>"
  have ctl: "controller_of (cl_session_id ?lc) mp = Some (None, ControllerHost)"
    using closed controller_of_Poll [OF assms(6)] by simp
  obtain summary lc3 m3 where review: "review_control deps (clocks 1) (?lc, mp) = (summary, (lc3, m3))"
    by (metis surj_pair)
  have taken: "lc3 = ?lc\<lparr>cl_has_control := True\<rparr>"
    "controller_of (cl_session_id lc) m3 = Some (Some (cl_client_id lc), ControllerHost)"
    using review_control_retakes [OF _ ctl _ review] closed assms(7) by simp_all
  obtain lc4 m4 where flush: "flush_to_client deps (clocks 2) False summary (lc3, m3) = (lc4, m4)" by fastforce
  have kept: "m4 = m3" "cl_closed lc4"
    using closed_FlushOutput [of lc3 "clocks 2" m3 lc4 m4] flush closed taken(1) by (simp_all add: flush_to_client_def)
  let ?lc5 = "SyncReadableDescriptor has_fd dup_ok lc4"
  have "readable deps clocks has_fd dup_ok (lc1, m1) = Some (?lc5, m3)" "cl_closed ?lc5"
    using closed assms(6) review flush kept by (simp_all add: readable_def SyncReadableDescriptor_def Let_def)
  moreover obtain e where "FindEntry (cl_session_id lc) m3 = Some e" "me_controller_client_id e = Some (cl_client_id lc)"
    "me_controller_kind e = ControllerHost"
    using taken(2) by (auto simp: controller_of_def)
  ultimately show ?thesis using closed assms(4) by (simp add: skips_poll_def)
qed

section \<open>All the events of a session\<close>

datatype LocalPhase =
    Handshaking
  | Responding "string \<times> bool"
  | Streaming "string option"

text \<open>One event: a handler of the session, or a step of the rest of the daemon on the manager. The bytes that have
  arrived and belong to no complete frame are part of the phase, as long as the session is reading. A read that was complete when
  the session was closed is still handled; a read that starts on the closed socket fails, so no other follows
  (\<open>Streaming None\<close>).\<close>

inductive local_step ::
    "('p, 'vt, 'l, 's) ManagerDeps \<Rightarrow> JsonLib \<Rightarrow> LocalPhase \<times> ('p, 'vt, 'l, 's) cl_state
       \<Rightarrow> LocalPhase \<times> ('p, 'vt, 'l, 's) cl_state \<Rightarrow> bool"
  for deps lib where
  handshake: "HandleHandshake deps lib clock native_handle line st = (response, st') \<Longrightarrow>
     local_step deps lib (Handshaking, st) (Responding response, st')"
| responded: "local_step deps lib (Responding response, st)
     (let st' = response_written clock response failed has_readable_fd dup_succeeds st
      in (Streaming (if cl_closed (fst st') then None else Some []), st'))"
| received: "handle_frames deps clocks n (bytes @ arrived) st = (rest, st') \<Longrightarrow>
     local_step deps lib (Streaming (Some bytes), st) (Streaming (if cl_closed (fst st') then None else Some rest), st')"
| became_readable: "cl_wait_armed (fst st) \<Longrightarrow> readable deps clocks has_readable_fd dup_succeeds st = Some st' \<Longrightarrow>
     local_step deps lib (Streaming bytes, st) (Streaming bytes, st')"
| wait_aborted: "cl_closed lc \<Longrightarrow>
     local_step deps lib (Streaming bytes, (lc, m)) (Streaming bytes, (lc\<lparr>cl_wait_armed := False\<rparr>, m))"
| written: "cl_write_in_progress (fst st) \<Longrightarrow>
     local_step deps lib (Streaming bytes, st) (Streaming bytes, write_completed clock failed st)"
| closed: "local_step deps lib (ph, st) (ph, ForceClose clock st)"
| elsewhere: "manager_step deps m m' \<Longrightarrow> local_step deps lib (ph, (lc, m)) (ph, (lc, m'))"

text \<open>A write is in progress exactly as long as output is waiting, so the front that the write refers to is there
  and no output is forgotten; and a client in control has the id of a local controller.\<close>

definition write_ok :: "LocalController \<Rightarrow> bool" where
  "write_ok lc \<longleftrightarrow> (cl_write_in_progress lc \<longrightarrow> cl_pending_output lc \<noteq> [])
     \<and> (cl_pending_output lc \<noteq> [] \<longrightarrow> cl_write_in_progress lc \<or> cl_closed lc)"

definition client_ok :: "LocalController \<Rightarrow> bool" where
  "client_ok lc \<longleftrightarrow> (cl_client_id lc \<noteq> [] \<longrightarrow> IsPrivilegedControllerClientId (Some (cl_client_id lc)))
     \<and> (cl_has_control lc \<longrightarrow> cl_client_id lc \<noteq> [])"

definition local_ok :: "('p, 'vt, 'l, 's) cl_state \<Rightarrow> bool" where
  "local_ok = (\<lambda>(lc, m). manager_inv m \<and> write_ok lc \<and> client_ok lc)"

definition cl_stream :: "('p, 'vt, 'l, 's) cl_state \<Rightarrow> string" where
  "cl_stream = (\<lambda>(lc, m). cl_sent lc @ concat (cl_pending_output lc))"

lemma write_ok_frame [simp]:
  "write_ok (lc\<lparr>cl_session_id := a\<rparr>) = write_ok lc" "write_ok (lc\<lparr>cl_client_id := a\<rparr>) = write_ok lc"
  "write_ok (lc\<lparr>cl_initial_tail := a\<rparr>) = write_ok lc" "write_ok (lc\<lparr>cl_initial_terminal_size := sz\<rparr>) = write_ok lc"
  "write_ok (lc\<lparr>cl_current_terminal_size := sz\<rparr>) = write_ok lc" "write_ok (lc\<lparr>cl_next_output_sequence := n\<rparr>) = write_ok lc"
  "write_ok (lc\<lparr>cl_last_observer_render_revision := n\<rparr>) = write_ok lc" "write_ok (lc\<lparr>cl_has_control := b\<rparr>) = write_ok lc"
  "write_ok (lc\<lparr>cl_close_after_writes := b\<rparr>) = write_ok lc" "write_ok (lc\<lparr>cl_pty_readable := b\<rparr>) = write_ok lc"
  "write_ok (lc\<lparr>cl_wait_armed := b\<rparr>) = write_ok lc" "write_ok (lc\<lparr>cl_sent := a\<rparr>) = write_ok lc"
  by (simp_all add: write_ok_def)

lemma client_ok_frame [simp]:
  "client_ok (lc\<lparr>cl_initial_tail := a\<rparr>) = client_ok lc" "client_ok (lc\<lparr>cl_initial_terminal_size := sz\<rparr>) = client_ok lc"
  "client_ok (lc\<lparr>cl_current_terminal_size := sz\<rparr>) = client_ok lc" "client_ok (lc\<lparr>cl_next_output_sequence := n\<rparr>) = client_ok lc"
  "client_ok (lc\<lparr>cl_last_observer_render_revision := n\<rparr>) = client_ok lc" "client_ok (lc\<lparr>cl_closed := b\<rparr>) = client_ok lc"
  "client_ok (lc\<lparr>cl_close_after_writes := b\<rparr>) = client_ok lc" "client_ok (lc\<lparr>cl_pty_readable := b\<rparr>) = client_ok lc"
  "client_ok (lc\<lparr>cl_wait_armed := b\<rparr>) = client_ok lc" "client_ok (lc\<lparr>cl_sent := a\<rparr>) = client_ok lc"
  "client_ok (lc\<lparr>cl_pending_output := p\<rparr>) = client_ok lc" "client_ok (lc\<lparr>cl_write_in_progress := b\<rparr>) = client_ok lc"
  "client_ok (lc\<lparr>cl_session_id := a\<rparr>) = client_ok lc"
  by (simp_all add: client_ok_def)

lemma local_ok_ForceClose [simp]:
  "local_ok st \<Longrightarrow> local_ok (ForceClose clock st)" "cl_stream (ForceClose clock st) = cl_stream st"
  "cl_pending_output (fst (ForceClose clock st)) = cl_pending_output (fst st)"
  by (cases st; auto simp: local_ok_def ForceClose_def ReleaseControlIfHeld_def write_ok_def cl_stream_def
      client_ok_def manager_inv_control manager_inv_runtime_ops)+

lemma local_ok_pair: "local_ok (lc, m) \<longleftrightarrow> manager_inv m \<and> write_ok lc \<and> client_ok lc"
  by (simp add: local_ok_def)

lemma local_ok_DoWrite:
  assumes "manager_inv m" "client_ok lc"
  shows "local_ok (DoWrite clock (lc, m))" "cl_stream (DoWrite clock (lc, m)) = cl_stream (lc, m)"
proof -
  have idle: "local_ok (lc\<lparr>cl_write_in_progress := False\<rparr>, m)" if "cl_pending_output lc = [] \<or> cl_closed lc"
    using assms that by (auto simp: local_ok_pair write_ok_def)
  show "local_ok (DoWrite clock (lc, m))"
  proof (cases "cl_pending_output lc = [] \<or> cl_closed lc")
    case True
    with idle show ?thesis by (simp add: DoWrite_def)
  next
    case False
    with assms show ?thesis by (simp add: DoWrite_def local_ok_pair write_ok_def)
  qed
  show "cl_stream (DoWrite clock (lc, m)) = cl_stream (lc, m)" by (simp add: DoWrite_def) (simp add: cl_stream_def)
qed

lemma local_ok_QueueOutput:
  assumes "local_ok st"
  shows "local_ok (QueueOutput clock payload st)"
    "cl_stream (QueueOutput clock payload st) = cl_stream st @ (if cl_closed (fst st) then [] else payload)"
proof -
  obtain lc m where st: "st = (lc, m)" by fastforce
  let ?lc = "lc\<lparr>cl_pending_output := cl_pending_output lc @ [payload]\<rparr>"
  have "local_ok (?lc, m)" if "cl_write_in_progress lc" using assms that by (simp add: st local_ok_pair write_ok_def)
  moreover have "local_ok (DoWrite clock (?lc, m))"
    using assms by (intro local_ok_DoWrite) (simp_all add: st local_ok_pair)
  ultimately show "local_ok (QueueOutput clock payload st)"
    using assms by (simp add: st QueueOutput_def Let_def)
  have "cl_stream (DoWrite clock (?lc, m)) = cl_stream (?lc, m)"
    using assms by (intro local_ok_DoWrite) (simp_all add: st local_ok_pair)
  then show "cl_stream (QueueOutput clock payload st) = cl_stream st @ (if cl_closed (fst st) then [] else payload)"
    by (simp add: st QueueOutput_def Let_def) (simp add: cl_stream_def)
qed

lemma local_ok_write_completed:
  assumes "local_ok st" "cl_write_in_progress (fst st)"
  shows "local_ok (write_completed clock failed st)" "cl_stream (write_completed clock failed st) = cl_stream st"
proof -
  obtain lc m where st: "st = (lc, m)" by fastforce
  let ?lc = "lc\<lparr>cl_pending_output := tl (cl_pending_output lc), cl_sent := cl_sent lc @ hd (cl_pending_output lc)\<rparr>"
  have finished: "local_ok (DoWrite clock (?lc, m))" "cl_stream (DoWrite clock (?lc, m)) = cl_stream (?lc, m)"
    using assms(1) by (intro local_ok_DoWrite; simp add: st local_ok_pair)+
  have "cl_pending_output lc \<noteq> []" using assms by (simp add: st local_ok_pair write_ok_def)
  then have "cl_stream (?lc, m) = cl_stream (lc, m)" by (cases "cl_pending_output lc") (simp_all add: cl_stream_def)
  with assms finished show "local_ok (write_completed clock failed st)"
    "cl_stream (write_completed clock failed st) = cl_stream st"
    by (simp_all add: st write_completed_def)
qed

lemma local_ok_manager:
  "local_ok (lc, m) \<Longrightarrow> local_ok (lc, snd (SendInput deps i input m))"
  "local_ok (lc, m) \<Longrightarrow> local_ok (lc, snd (ResizeSession deps i terminal_size m))"
  "local_ok (lc, m) \<Longrightarrow> local_ok (lc, snd (UpdateViewport i v terminal_size m))"
  "local_ok (lc, m) \<Longrightarrow> local_ok (lc, RemoveViewport i v m)"
  "local_ok (lc, m) \<Longrightarrow> local_ok (lc, snd (RequestControl clk i c k m))"
  by (simp_all add: local_ok_def manager_inv_runtime_ops manager_inv_control)

lemma local_client_id_nonempty [simp]: "local_client_id t h \<noteq> []"
  by (simp add: local_client_id_def)

text \<open>An operation keeps the invariant and only adds to what has been sent or waits to be sent.\<close>

definition goes_on :: "('p, 'vt, 'l, 's) cl_state \<Rightarrow> ('p, 'vt, 'l, 's) cl_state \<Rightarrow> bool" where
  "goes_on st st' \<longleftrightarrow> (local_ok st \<longrightarrow> local_ok st') \<and> prefix (cl_stream st) (cl_stream st')
     \<and> (cl_closed (fst st) \<longrightarrow> cl_closed (fst st')) \<and> (cl_client_id (fst st) \<noteq> [] \<longrightarrow> cl_client_id (fst st') \<noteq> [])
     \<and> (cl_closed (fst st) \<and> \<not> cl_wait_armed (fst st) \<longrightarrow> \<not> cl_wait_armed (fst st'))"

lemma goes_on_refl [simp]: "goes_on st st" by (simp add: goes_on_def)
lemma goes_on_trans [trans]: "goes_on st st1 \<Longrightarrow> goes_on st1 st2 \<Longrightarrow> goes_on st st2"
  by (auto simp: goes_on_def)

lemma stream_frame [simp]: "cl_stream (lc, m) = cl_stream (lc, m') \<longleftrightarrow> True" by (simp add: cl_stream_def)

lemma write_frame [simp]:
  "cl_closed (fst (ForceClose clock st)) = True" "cl_client_id (fst (ForceClose clock st)) = cl_client_id (fst st)"
  "cl_closed (fst st) \<Longrightarrow> cl_closed (fst (DoWrite clock st))" "cl_client_id (fst (DoWrite clock st)) = cl_client_id (fst st)"
  "cl_client_id (fst (QueueOutput clock payload st)) = cl_client_id (fst st)"
  "cl_wait_armed (fst (ForceClose clock st)) = cl_wait_armed (fst st)"
  "cl_wait_armed (fst (DoWrite clock st)) = cl_wait_armed (fst st)"
  "cl_wait_armed (fst (QueueOutput clock payload st)) = cl_wait_armed (fst st)"
  by (cases st; auto simp: ForceClose_def ReleaseControlIfHeld_def DoWrite_def QueueOutput_def Let_def)+

lemma goes_on_ForceClose [simp]: "goes_on st (ForceClose clock st)" by (simp add: goes_on_def)

lemma goes_on_QueueOutput: "local_ok st \<Longrightarrow> goes_on st (QueueOutput clock payload st)"
  by (cases st) (simp add: goes_on_def local_ok_QueueOutput)

lemma goes_on_written:
  "local_ok st \<Longrightarrow> cl_write_in_progress (fst st) \<Longrightarrow> goes_on st (write_completed clock failed st)"
  by (cases st) (auto simp: goes_on_def local_ok_write_completed, auto simp: write_completed_def split: if_splits)

text \<open>Changes of the fields that neither the invariant nor the output depends on, and of the manager.\<close>

definition same_client :: "LocalController \<Rightarrow> LocalController \<Rightarrow> bool" where
  "same_client lc lc' \<longleftrightarrow> cl_pending_output lc' = cl_pending_output lc \<and> cl_sent lc' = cl_sent lc
     \<and> cl_write_in_progress lc' = cl_write_in_progress lc \<and> cl_closed lc' = cl_closed lc
     \<and> (client_ok lc \<longrightarrow> client_ok lc') \<and> (cl_client_id lc \<noteq> [] \<longrightarrow> cl_client_id lc' \<noteq> [])
     \<and> (cl_wait_armed lc' \<longrightarrow> cl_wait_armed lc \<or> \<not> cl_closed lc)"

lemma goes_on_same:
  assumes "same_client lc lc'" "manager_inv m \<Longrightarrow> manager_inv m'"
  shows "goes_on (lc, m) (lc', m')"
  using assms by (auto simp: goes_on_def local_ok_pair same_client_def write_ok_def cl_stream_def)

lemma manager_inv_ops:
  "manager_inv m \<Longrightarrow> SendInput deps i input m = (ok, m') \<Longrightarrow> manager_inv m'"
  "manager_inv m \<Longrightarrow> ResizeSession deps i terminal_size m = (ok, m') \<Longrightarrow> manager_inv m'"
  "manager_inv m \<Longrightarrow> UpdateViewport i v terminal_size m = (ok, m') \<Longrightarrow> manager_inv m'"
  "manager_inv m \<Longrightarrow> RequestControl clk i c k m = (ok, m') \<Longrightarrow> manager_inv m'"
  by (metis snd_conv manager_inv_runtime_ops manager_inv_control(1))+

lemma goes_on_bootstrap: "goes_on (lc, m) (bootstrap_client deps summary (lc, m))"
  unfolding bootstrap_client_def Let_def case_prod_beta prod.case
  by (rule goes_on_same) (simp_all add: same_client_def manager_inv_runtime_ops)

lemma goes_on_handshake:
  assumes "HandleHandshake deps lib clock native_handle line st = (response, st')"
  shows "goes_on st st'"
proof -
  obtain lc m where st: "st = (lc, m)" by fastforce
  have new: "same_client lc (lc\<lparr>cl_session_id := i, cl_initial_terminal_size := sz, cl_current_terminal_size := sz,
      cl_client_id := local_client_id t h, cl_has_control := b\<rparr>)" for i sz t h b
    by (auto simp: same_client_def client_ok_def)
  have new': "same_client lc (lc\<lparr>cl_session_id := i, cl_initial_terminal_size := sz, cl_current_terminal_size := sz,
      cl_client_id := local_client_id t h\<rparr>)" for i sz t h
    by (auto simp: same_client_def client_ok_def)
  show ?thesis
    using assms
    by (auto simp: st HandleHandshake_def Let_def case_prod_beta split: option.splits if_splits
        intro!: goes_on_same new new' goes_on_trans [OF goes_on_same goes_on_bootstrap]
          manager_inv_runtime_ops manager_inv_control)
qed

lemma goes_on_closing:
  "same_client lc lc' \<Longrightarrow> (manager_inv m \<Longrightarrow> manager_inv m') \<Longrightarrow> goes_on (lc, m) (ForceClose clock (lc', m'))"
  by (rule goes_on_trans [OF goes_on_same goes_on_ForceClose])

lemma same_client_updates [simp]:
  "same_client lc lc" "same_client lc (lc\<lparr>cl_current_terminal_size := sz\<rparr>)"
  "same_client lc (lc\<lparr>cl_has_control := False\<rparr>)"
  "same_client lc (lc\<lparr>cl_current_terminal_size := sz, cl_has_control := False\<rparr>)"
  by (auto simp: same_client_def client_ok_def)

lemma goes_on_EnsureControl:
  assumes "cl_client_id lc \<noteq> []"
  shows "goes_on (lc, m) (snd (EnsureControlForInput deps clock (lc, m)))"
proof -
  have "same_client lc (lc\<lparr>cl_has_control := b\<rparr>)" for b
    using assms by (auto simp: same_client_def client_ok_def)
  then show ?thesis
    unfolding EnsureControlForInput_def Let_def case_prod_beta prod.case
    by (simp add: goes_on_same manager_inv_runtime_ops manager_inv_control)
qed

lemma goes_on_HandleFrame:
  assumes "cl_client_id (fst st) \<noteq> []"
  shows "goes_on st (HandleFrame deps clock frame_type payload st)"
proof -
  obtain lc m where st: "st = (lc, m)" by fastforce
  show ?thesis
    unfolding st HandleFrame_def Let_def case_prod_beta prod.case
    using assms by (simp add: st goes_on_EnsureControl goes_on_same goes_on_closing manager_inv_runtime_ops)
qed

lemma goes_on_handle_frames:
  assumes "handle_frames deps clocks n bytes st = (rest, st')" "cl_client_id (fst st) \<noteq> []"
  shows "goes_on st st'"
  using assms
proof (induction "length bytes" arbitrary: n bytes st rule: less_induct)
  case less
  show ?case
  proof (cases "read_frame bytes")
    case (Frame frame_type payload rest1)
    let ?st1 = "HandleFrame deps (clocks n) frame_type payload st"
    have one: "goes_on st ?st1" by (rule goes_on_HandleFrame [OF less.prems(2)])
    then have known: "cl_client_id (fst ?st1) \<noteq> []" using less.prems(2) by (simp add: goes_on_def)
    show ?thesis
    proof (cases "cl_closed (fst ?st1)")
      case True
      with less.prems(1) Frame one show ?thesis by (subst (asm) handle_frames.simps) simp
    next
      case False
      then have more: "handle_frames deps clocks (n + 1) rest1 ?st1 = (rest, st')"
        using less.prems(1) Frame by (subst (asm) handle_frames.simps) simp
      from goes_on_trans [OF one less.hyps [OF read_frame_shorter [OF Frame] more known]] show ?thesis .
    qed
  qed (use less.prems(1) in \<open>(subst (asm) handle_frames.simps, auto)+\<close>)
qed

lemma goes_on_queue_after:
  assumes "local_ok (lc, m)" "same_client lc lc'"
  shows "goes_on (lc, m) (QueueOutput clock payload (lc', m))"
proof -
  have "goes_on (lc, m) (lc', m)" by (rule goes_on_same [OF assms(2)])
  with assms(1) show ?thesis by (blast intro: goes_on_trans goes_on_QueueOutput dest: goes_on_def [THEN iffD1])
qed

lemma goes_on_FlushOutput: "local_ok st \<Longrightarrow> goes_on st (FlushOutput clock st)"
proof (cases st)
  case (Pair lc m)
  have "same_client lc (lc\<lparr>cl_next_output_sequence := n\<rparr>)" for n by (simp add: same_client_def)
  with Pair show "local_ok st \<Longrightarrow> ?thesis"
    by (auto simp: FlushOutput_def intro: goes_on_queue_after split: option.split)
qed

lemma goes_on_FlushViewport: "local_ok st \<Longrightarrow> goes_on st (FlushViewportSnapshot deps clock summary st)"
proof (cases st)
  case (Pair lc m)
  define lc1 where "lc1 = (case summary of
      Some s \<Rightarrow> lc\<lparr>cl_next_output_sequence := u64_add (su_current_sequence s) 1\<rparr> | None \<Rightarrow> lc)"
  have same: "same_client lc lc1" "same_client lc (lc1\<lparr>cl_last_observer_render_revision := n\<rparr>)" for n
    by (auto simp: lc1_def same_client_def split: option.split)
  show "local_ok st \<Longrightarrow> ?thesis"
    unfolding Pair FlushViewportSnapshot_def prod.case Let_def lc1_def [symmetric]
    by (auto intro: goes_on_queue_after goes_on_same same split: option.split)
qed

lemma goes_on_review:
  assumes "review_control deps clock (lc, m) = (summary, st')" "cl_client_id lc \<noteq> []"
  shows "goes_on (lc, m) st'"
proof -
  have same: "same_client lc (lc\<lparr>cl_has_control := b\<rparr>)" "same_client lc (lc\<lparr>cl_close_after_writes := b\<rparr>)"
    "same_client lc (lc\<lparr>cl_has_control := b, cl_close_after_writes := c\<rparr>)" for b c
    using assms(2) by (auto simp: same_client_def client_ok_def)
  show ?thesis
    using assms(1) unfolding review_control_def prod.case Let_def case_prod_beta
    by (auto intro!: goes_on_same same manager_inv_control manager_inv_runtime_ops split: option.splits if_splits)
qed

lemma goes_on_flush:
  assumes "local_ok st"
  shows "goes_on st (flush_to_client deps clock had_control summary st)"
proof -
  obtain lc m where st: "st = (lc, m)" by fastforce
  let ?m1 = "snd (UpdateViewport (cl_session_id lc) (cl_client_id lc) (cl_current_terminal_size lc) m)"
  obtain lc2 m2 where q: "QueueOutput clock clear_screen (lc, ?m1) = (lc2, m2)" by fastforce
  have "goes_on (lc, m) (lc, ?m1)" by (rule goes_on_same) (simp_all add: manager_inv_runtime_ops)
  also have "goes_on (lc, ?m1) (lc2, m2)"
    using goes_on_QueueOutput [of "(lc, ?m1)" clock clear_screen] assms q
    by (simp add: st local_ok_pair manager_inv_runtime_ops)
  also have "goes_on (lc2, m2) (lc2\<lparr>cl_last_observer_render_revision := 0\<rparr>, m2)"
    by (rule goes_on_same) (simp_all add: same_client_def)
  finally have lost: "goes_on (lc, m) (lc2\<lparr>cl_last_observer_render_revision := 0\<rparr>, m2)" .
  then have "local_ok (lc2\<lparr>cl_last_observer_render_revision := 0\<rparr>, m2)" using assms by (simp add: st goes_on_def)
  with assms q goes_on_trans [OF lost goes_on_FlushViewport] show ?thesis
    by (simp add: st flush_to_client_def Let_def goes_on_FlushOutput goes_on_FlushViewport)
qed

lemma goes_on_readable:
  assumes "readable deps clocks has_readable_fd dup_succeeds st = Some st'" "local_ok st" "cl_client_id (fst st) \<noteq> []"
  shows "goes_on st st'"
proof -
  obtain lc m where st: "st = (lc, m)" by fastforce
  obtain polled m1 where p: "PollSession deps (clocks 0) (cl_session_id lc) 0 m = Some (polled, m1)"
    using assms(1) by (auto simp: st readable_def)
  let ?lc1 = "lc\<lparr>cl_wait_armed := False\<rparr>"
  obtain summary st2 where review: "review_control deps (clocks 1) (?lc1, m1) = (summary, st2)" by (metis surj_pair)
  obtain lc3 m3 where flush: "flush_to_client deps (clocks 2) (cl_has_control lc) summary st2 = (lc3, m3)" by fastforce
  let ?lc4 = "SyncReadableDescriptor has_readable_fd dup_succeeds lc3"
  have "goes_on (lc, m) (?lc1, m1)"
    by (rule goes_on_same) (auto simp: same_client_def intro: manager_inv_PollSession [OF _ p])
  also have "goes_on (?lc1, m1) st2" using goes_on_review [OF review] assms(3) by (simp add: st)
  finally have "goes_on (lc, m) st2" .
  moreover from this have "goes_on st2 (lc3, m3)"
    using goes_on_flush [of st2 deps "clocks 2" "cl_has_control lc" summary] flush assms(2) by (simp add: st goes_on_def)
  ultimately have "goes_on (lc, m) (lc3, m3)" by (rule goes_on_trans)
  also have "goes_on (lc3, m3) st'"
    using assms(1) p review flush
    by (auto simp: st readable_def Let_def ArmReadableWait_def SyncReadableDescriptor_def same_client_def
        intro!: goes_on_same goes_on_closing split: if_splits)
  finally show ?thesis by (simp add: st)
qed

lemma handshake_fields:
  assumes "HandleHandshake deps lib clock native_handle line st = (response, st')"
  shows "cl_pending_output (fst st') = cl_pending_output (fst st) \<and> cl_wait_armed (fst st') = cl_wait_armed (fst st)
    \<and> (snd response \<longrightarrow> cl_client_id (fst st') \<noteq> [])"
proof -
  obtain lc m where st: "st = (lc, m)" by fastforce
  have boot: "cl_pending_output (fst (bootstrap_client deps summary (lc', m'))) = cl_pending_output lc'"
    "cl_wait_armed (fst (bootstrap_client deps summary (lc', m'))) = cl_wait_armed lc'"
    "cl_client_id (fst (bootstrap_client deps summary (lc', m'))) = cl_client_id lc'" for summary lc' m'
    by (simp_all add: bootstrap_client_def Let_def case_prod_beta)
  show ?thesis
    using assms unfolding st HandleHandshake_def Let_def case_prod_beta prod.case
    by (auto simp: boot split: option.splits if_splits)
qed

lemma goes_on_response:
  assumes "local_ok st" "cl_pending_output (fst st) = []" "snd response \<Longrightarrow> cl_client_id (fst st) \<noteq> []"
    and "\<not> cl_wait_armed (fst st)"
  shows "goes_on st (response_written clock response failed has_readable_fd dup_succeeds st)"
    "let st' = response_written clock response failed has_readable_fd dup_succeeds st
     in cl_closed (fst st') \<and> \<not> cl_wait_armed (fst st') \<or> cl_client_id (fst st') \<noteq> []"
proof -
  obtain lc m where st: "st = (lc, m)" by fastforce
  let ?lc1 = "lc\<lparr>cl_sent := cl_sent lc @ fst response @ [ch_nl], cl_initial_tail := []\<rparr>"
  obtain lc2 m2 where q: "QueueOutput clock (cl_initial_tail lc) (?lc1, m) = (lc2, m2)" by fastforce
  have "goes_on (lc, m) (?lc1, m)"
    using assms(2) by (simp add: goes_on_def local_ok_pair cl_stream_def st)
  also have "goes_on (?lc1, m) (lc2, m2)"
    using goes_on_QueueOutput [of "(?lc1, m)" clock "cl_initial_tail lc"] q assms(1) by (simp add: st local_ok_pair)
  also have "goes_on (lc2, m2) (ArmReadableWait (SyncReadableDescriptor has_readable_fd dup_succeeds lc2), m2)"
    by (rule goes_on_same) (simp_all add: same_client_def ArmReadableWait_def SyncReadableDescriptor_def)
  finally have sent: "goes_on st (ArmReadableWait (SyncReadableDescriptor has_readable_fd dup_succeeds lc2), m2)"
    by (simp add: st)
  then show "goes_on st (response_written clock response failed has_readable_fd dup_succeeds st)"
    using q by (simp add: st response_written_def)
  show "let st' = response_written clock response failed has_readable_fd dup_succeeds st
     in cl_closed (fst st') \<and> \<not> cl_wait_armed (fst st') \<or> cl_client_id (fst st') \<noteq> []"
    using sent q assms(3,4) by (auto simp: st response_written_def goes_on_def)
qed

definition phase_ok :: "LocalPhase \<Rightarrow> ('p, 'vt, 'l, 's) cl_state \<Rightarrow> bool" where
  "phase_ok ph st \<longleftrightarrow>
     (case ph of
        Handshaking \<Rightarrow> cl_pending_output (fst st) = [] \<and> \<not> cl_wait_armed (fst st)
      | Responding response \<Rightarrow> cl_pending_output (fst st) = [] \<and> \<not> cl_wait_armed (fst st) \<and> (snd response \<longrightarrow> cl_client_id (fst st) \<noteq> [])
      | Streaming None \<Rightarrow> cl_closed (fst st) \<and> \<not> cl_wait_armed (fst st) \<or> cl_client_id (fst st) \<noteq> []
      | Streaming (Some bytes) \<Rightarrow> cl_client_id (fst st) \<noteq> [])"

lemma phase_ok_goes_on: "goes_on st st' \<Longrightarrow> phase_ok (Streaming bytes) st \<Longrightarrow> phase_ok (Streaming bytes) st'"
  by (auto simp: phase_ok_def goes_on_def split: option.splits)

text \<open>A wait is only armed once there is a client.\<close>

lemma local_step_goes_on:
  assumes "local_step deps lib (ph, st) (ph', st')" "local_ok st" "phase_ok ph st"
  shows "goes_on st st' \<and> phase_ok ph' st'"
  using assms
proof (induction "(ph, st)" "(ph', st')" arbitrary: ph st ph' st' rule: local_step.induct)
  case (handshake clock native_handle line st response st')
  then show ?case
    using goes_on_handshake [OF handshake(1)] handshake_fields [OF handshake(1)] by (auto simp: phase_ok_def)
next
  case (responded response st clock failed has_readable_fd dup_succeeds)
  then show ?case
    using goes_on_response [of st response clock failed has_readable_fd dup_succeeds]
    by (auto simp: phase_ok_def Let_def)
next
  case (received clocks n bytes arrived st rest st')
  then have "goes_on st st'" "cl_client_id (fst st) \<noteq> []"
    using goes_on_handle_frames [OF received(1)] by (simp_all add: phase_ok_def)
  then show ?case by (simp add: phase_ok_def goes_on_def)
next
  case (became_readable st clocks has_readable_fd dup_succeeds st' bytes)
  then have "goes_on st st'" by (intro goes_on_readable) (auto simp: phase_ok_def split: option.splits)
  with became_readable show ?case by (auto intro: phase_ok_goes_on)
next
  case (wait_aborted lc bytes m)
  have "goes_on (lc, m) (lc\<lparr>cl_wait_armed := False\<rparr>, m)" by (rule goes_on_same) (auto simp: same_client_def)
  with wait_aborted show ?case by (auto intro: phase_ok_goes_on)
next
  case (written st bytes clock failed)
  then have "goes_on st (write_completed clock failed st)" by (intro goes_on_written)
  with written show ?case by (auto intro: phase_ok_goes_on)
next
  case (closed ph st clock)
  then show ?case by (auto simp: phase_ok_def split: LocalPhase.split option.split)
next
  case (elsewhere m m' ph lc)
  have "goes_on (lc, m) (lc, m')" by (rule goes_on_same) (auto intro: manager_inv_step [OF elsewhere(1)])
  with elsewhere show ?case by (auto simp: phase_ok_def split: LocalPhase.split option.split)
qed

lemma local_reachable:
  assumes "(local_step deps lib)\<^sup>*\<^sup>* (Handshaking, (LocalController_init, m0)) (ph, st)" "manager_inv m0"
  shows "local_ok st \<and> phase_ok ph st"
  using assms(1)
proof (induction "(ph, st)" arbitrary: ph st rule: rtranclp_induct)
  case base
  with assms(2) show ?case
    by (auto simp: local_ok_pair phase_ok_def LocalController_init_def write_ok_def client_ok_def)
next
  case (step y)
  obtain ph1 st1 where y: "y = (ph1, st1)" by (metis surj_pair)
  with step.hyps(3) have "local_ok st1 \<and> phase_ok ph1 st1" by simp
  with local_step_goes_on [of deps lib ph1 st1 ph st] step.hyps(2) y show ?case by (auto simp: goes_on_def)
qed

text \<open>Claim C5: whatever happens to a local controller session, in any order - its own events, steps of the rest of
  the daemon, errors - the session manager stays consistent; a write is running exactly while output waits, so the
  buffer that the write refers to exists and no output waits for ever; a session that believes to be in control
  goes by the id of a local controller; and no event takes back or reorders output that was accepted.\<close>

theorem local_controller_reachable:
  assumes "(local_step deps lib)\<^sup>*\<^sup>* (Handshaking, (LocalController_init, m0)) (ph, (lc, m))" "manager_inv m0"
  shows "manager_inv m
    \<and> (cl_write_in_progress lc \<longrightarrow> cl_pending_output lc \<noteq> [])
    \<and> (cl_pending_output lc \<noteq> [] \<longrightarrow> cl_write_in_progress lc \<or> cl_closed lc)
    \<and> (cl_has_control lc \<longrightarrow> IsPrivilegedControllerClientId (Some (cl_client_id lc)))
    \<and> (\<forall>ph' lc' m'. local_step deps lib (ph, (lc, m)) (ph', (lc', m')) \<longrightarrow>
         prefix (cl_sent lc @ concat (cl_pending_output lc)) (cl_sent lc' @ concat (cl_pending_output lc'))
         \<and> (cl_closed lc \<longrightarrow> cl_closed lc'))"
proof -
  have ok: "local_ok (lc, m)" "phase_ok ph (lc, m)" using local_reachable [OF assms] by simp_all
  have "prefix (cl_stream (lc, m)) (cl_stream (lc', m')) \<and> (cl_closed lc \<longrightarrow> cl_closed lc')"
    if "local_step deps lib (ph, (lc, m)) (ph', (lc', m'))" for ph' lc' m'
    using local_step_goes_on [OF that ok] by (simp add: goes_on_def)
  with ok(1) show ?thesis by (auto simp: local_ok_pair write_ok_def client_ok_def cl_stream_def)
qed

section \<open>The output of a client in control\<close>

lemma QueueOutput_open:
  "\<not> cl_closed lc \<Longrightarrow> \<exists>w. QueueOutput clock payload (lc, m) =
     (lc\<lparr>cl_pending_output := cl_pending_output lc @ (if payload = [] then [] else [payload]),
         cl_write_in_progress := w\<rparr>, m)"
  by (auto simp: QueueOutput_def DoWrite_def Let_def intro: exI [of _ "cl_write_in_progress lc"] exI [of _ True])

text \<open>Claim C38: a client in control gets the output of the session, all of it, once and in order. When the client is
  up to date and the session has printed any number of chunks since, which its buffer still holds beside what it
  held, the next flush queues exactly these bytes and the client is up to date again; nothing else changes.\<close>

theorem local_controller_streams_output:
  assumes "ob_inv b" "[] \<notin> set datas" "ob_next_sequence b + length datas < 18446744073709551616"
    and "\<forall>d \<in> set datas. length d \<le> ob_capacity_bytes b"
    and "ob_size_bytes b + length (concat datas) \<le> ob_capacity_bytes b"
    and "session_output (cl_session_id lc) m = Some (fold ob_Append datas b)"
    and "cl_next_output_sequence lc = ob_next_sequence b" "\<not> cl_closed lc"
    and "FlushOutput clock (lc, m) = (lc', m')"
  shows "cl_sent lc' @ concat (cl_pending_output lc') = cl_sent lc @ concat (cl_pending_output lc) @ concat datas
    \<and> cl_next_output_sequence lc' = ob_next_sequence (fold ob_Append datas b)
    \<and> cl_session_id lc' = cl_session_id lc \<and> \<not> cl_closed lc' \<and> m' = m"
proof -
  let ?b = "fold ob_Append datas b"
  obtain sl where sl: "GetOutputSince (cl_session_id lc) (ob_next_sequence b) m = Some sl" "os_data sl = concat datas"
    "datas \<noteq> [] \<Longrightarrow> u64_add (os_seq_end sl) 1 = ob_next_sequence ?b"
    using output_since_caught_up [OF assms(1-6)] by blast
  show ?thesis
  proof (cases "datas = []")
    case True
    with assms sl show ?thesis by (simp add: FlushOutput_def)
  next
    case False
    then have some: "concat datas \<noteq> []" using assms(2) by (cases datas) auto
    let ?lc = "lc\<lparr>cl_next_output_sequence := ob_next_sequence ?b\<rparr>"
    have "FlushOutput clock (lc, m) = QueueOutput clock (concat datas) (?lc, m)"
      using sl(1,2) sl(3) [OF False] assms(7) some by (simp add: FlushOutput_def del: concat_eq_Nil_conv)
    moreover obtain w where "QueueOutput clock (concat datas) (?lc, m) =
        (?lc\<lparr>cl_pending_output := cl_pending_output lc @ [concat datas], cl_write_in_progress := w\<rparr>, m)"
      using QueueOutput_open [of ?lc clock "concat datas" m] assms(8) some by (auto simp del: concat_eq_Nil_conv)
    ultimately show ?thesis using assms(8,9) by auto
  qed
qed

section \<open>A session in use\<close>

definition demo_client :: LocalController where
  "demo_client = LocalController_init\<lparr>cl_session_id := demo_session, cl_client_id := local_client_id 5 3,
     cl_has_control := True, cl_wait_armed := True\<rparr>"

theorem local_frames_delivered_witness:
  "snd (handle_frames demo_deps (\<lambda>i j. 9) 0 (sent_frames [(CHR ''I'', ''ls''), (CHR ''C'', [])] @ ''I'') (demo_client, demo_manager))
     = deliver_frames demo_deps (\<lambda>i j. 9) 0 [(CHR ''I'', ''ls''), (CHR ''C'', [])] (demo_client, demo_manager)
   \<and> DecodeTerminalSize (BuildLocalResizePayload \<lparr>ts_columns = 300, ts_rows = 40\<rparr>) = \<lparr>ts_columns = 300, ts_rows = 40\<rparr>"
  using local_frames_delivered [of "[(CHR ''I'', ''ls''), (CHR ''C'', [])]" "''I''" "\<lparr>ts_columns = 300, ts_rows = 40\<rparr>"
      demo_deps "\<lambda>i j. 9" 0 "(demo_client, demo_manager)"]
  by simp

theorem local_client_needs_control_witness:
  "controller_of demo_session (snd (snd (handle_frames demo_deps (\<lambda>i j. 9) 0
     (BuildLocalControllerFrame (CHR ''I'') ''ls'') (demo_client, demo_manager)))) = Some (None, ControllerHost)"
proof -
  obtain rest lc' m' where r: "handle_frames demo_deps (\<lambda>i j. 9) 0
     (BuildLocalControllerFrame (CHR ''I'') ''ls'') (demo_client, demo_manager) = (rest, (lc', m'))"
    by (metis surj_pair)
  have control: "controller_of demo_session demo_manager = Some (None, ControllerHost)" by code_simp
  then have stranger: "\<not> HasControl (cl_session_id demo_client) (cl_client_id demo_client) demo_manager"
    by (simp add: HasControl_controller_of demo_client_def)
  have types: "CHR ''C'' \<notin> set (frame_types (BuildLocalControllerFrame (CHR ''I'') ''ls''))"
    by code_simp
  from local_client_needs_control [OF stranger types r, of demo_session] control r show ?thesis by simp
qed

theorem local_controller_close_then_retake_witness:
  "let m = snd (RequestControl (\<lambda>i. 8) demo_session (local_client_id 5 3) ControllerHost demo_manager);
       (lc1, m1) = ForceClose (\<lambda>i. 9) (demo_client, m);
       (lc2, m2) = the (readable demo_deps (\<lambda>i j. 9) False False (lc1, m1))
   in cl_closed lc2 \<and> (\<exists>e. FindEntry demo_session m2 = Some e
        \<and> me_controller_client_id e = Some (local_client_id 5 3) \<and> skips_poll e)"
proof -
  let ?m = "snd (RequestControl (\<lambda>i. 8) demo_session (local_client_id 5 3) ControllerHost demo_manager)"
  obtain lc1 m1 where c: "ForceClose (\<lambda>i. 9) (demo_client, ?m) = (lc1, m1)" by fastforce
  have "HasControl demo_session (local_client_id 5 3) ?m" by code_simp
  then have held: "HasControl (cl_session_id demo_client) (cl_client_id demo_client) ?m"
    by (simp add: demo_client_def)
  have "map_option (\<lambda>x. session_interactive demo_session (snd x))
      (PollSession demo_deps (\<lambda>i. 9) demo_session 0 (snd (ForceClose (\<lambda>i. 9) (demo_client, ?m)))) = Some True"
    by code_simp
  then obtain polled mp where poll: "PollSession demo_deps (\<lambda>i. 9) (cl_session_id demo_client) 0 m1 = Some (polled, mp)"
    and live: "session_interactive (cl_session_id demo_client) mp"
    using c by (auto simp: demo_client_def)
  have basic: "\<not> cl_closed demo_client" "cl_has_control demo_client" "cl_client_id demo_client = local_client_id 5 3"
    by (simp_all add: demo_client_def LocalController_init_def)
  from local_controller_close_then_retake [where clocks = "\<lambda>i j. 9" and clock' = "\<lambda>i. 9" and has_fd = False and dup_ok = False,
      OF basic(1,2) held basic(3) c poll live]
  show ?thesis using c by (auto simp: Let_def demo_client_def)
qed

theorem local_controller_reachable_witness:
  "let st = snd (HandleHandshake demo_deps unary_json (\<lambda>i. 9) 3
         (butlast (BuildLocalControllerHandshake unary_json demo_session \<lparr>ts_columns = 5, ts_rows = 3\<rparr>))
         (LocalController_init, demo_manager))
   in cl_has_control (fst st) \<and> IsPrivilegedControllerClientId (Some (cl_client_id (fst st)))"
proof -
  let ?r = "HandleHandshake demo_deps unary_json (\<lambda>i. 9) 3
         (butlast (BuildLocalControllerHandshake unary_json demo_session \<lparr>ts_columns = 5, ts_rows = 3\<rparr>))
         (LocalController_init, demo_manager)"
  obtain response lc m where r: "?r = (response, (lc, m))" by (metis surj_pair)
  have "cl_has_control (fst (snd ?r))" by code_simp
  moreover have "(local_step demo_deps unary_json)\<^sup>*\<^sup>* (Handshaking, (LocalController_init, demo_manager))
      (Responding response, (lc, m))"
    by (rule r_into_rtranclp, rule local_step.handshake [OF r])
  note local_controller_reachable [OF this manager_inv_reachable [OF demo_manager_reachable]]
  ultimately show ?thesis using r by (simp add: Let_def)
qed


definition demo_entry :: "(string list, unit, nat) SessionEntry" where
  "demo_entry = (SessionEntry_default (SessionId demo_session))
     \<lparr>me_runtime := Some ((snd (rt_Start demo_pty demo_runtime))
        \<lparr>rt_output_buffer := fold ob_Append [''cd'', ''e''] (SessionOutputBuffer_new 16)\<rparr>),
      me_controller_client_id := Some (local_client_id 5 3), me_controller_kind := ControllerHost\<rparr>"

definition demo_terminal :: "(string list, unit, nat, unit) SessionManager" where
  "demo_terminal = (SessionManager_new () 1 1)\<lparr>sm_sessions := [demo_entry]\<rparr>"

lemma demo_terminal_entry: "FindEntry demo_session demo_terminal = Some demo_entry"
  by (simp add: FindEntry_def demo_terminal_def demo_entry_def entry_id_def SessionEntry_default_def)

lemma demo_SendInput:
  assumes "fst (FilterTerminalColorReports input) = input" "input \<noteq> []"
  shows "SendInput demo_deps demo_session input demo_terminal = (True, demo_terminal)"
proof -
  obtain rt where rt: "me_runtime demo_entry = Some rt" "sr_status (rt_record rt) = Running"
    using demo_started(4) by (auto simp: demo_entry_def)
  then have "rt_WriteInput (dp_pty demo_deps) input rt = (True, rt)"
    by (simp add: rt_WriteInput_def IsInteractiveState_def demo_deps_def demo_pty_def)
  moreover have "set_entry_state (demo_entry\<lparr>me_runtime := Some rt\<rparr>) demo_terminal = demo_terminal"
    using rt(1) [symmetric] by (simp add: set_entry_state_def demo_terminal_def)
  ultimately show ?thesis using assms rt by (simp add: SendInput_def demo_terminal_entry)
qed

theorem local_keys_reach_session_witness:
  "\<exists>m'. handle_frames demo_deps (\<lambda>i j. 9) 0 (concat (map (concat \<circ> fst \<circ> local_attach_input) [''ls'', ''x'']))
     (demo_client, demo_terminal) = ([], (demo_client, m'))"
proof -
  have "fst (FilterTerminalColorReports ''ls'') = ''ls''" "fst (FilterTerminalColorReports ''x'') = ''x''"
    by code_simp+
  then have m': "send_inputs demo_deps (cl_session_id demo_client) [''ls'', ''x''] demo_terminal = Some demo_terminal"
    by (simp add: demo_SendInput demo_client_def)
  have reads: "list_all ordinary_read [''ls'', ''x'']" by code_simp
  have state: "cl_has_control demo_client" "\<not> cl_closed demo_client"
    by (simp_all add: demo_client_def LocalController_init_def)
  have control: "HasControl (cl_session_id demo_client) (cl_client_id demo_client) demo_terminal"
    by (simp add: HasControl_def demo_client_def demo_terminal_entry) (simp add: demo_entry_def)
  from local_keys_reach_session [OF reads state control m'] show ?thesis by blast
qed

theorem local_controller_streams_output_witness:
  "let lc' = fst (FlushOutput (\<lambda>i. 9) (demo_client, demo_terminal))
   in cl_sent lc' @ concat (cl_pending_output lc') = ''cde''"
proof -
  obtain lc' m' where f: "FlushOutput (\<lambda>i. 9) (demo_client, demo_terminal) = (lc', m')" by fastforce
  have inv: "ob_inv (SessionOutputBuffer_new 16)" by (simp add: ob_inv_new)
  have out: "session_output (cl_session_id demo_client) demo_terminal =
      Some (fold ob_Append [''cd'', ''e''] (SessionOutputBuffer_new 16))"
    by (simp add: session_output_def demo_client_def demo_terminal_entry) (simp add: demo_entry_def)
  have state: "cl_next_output_sequence demo_client = ob_next_sequence (SessionOutputBuffer_new 16)" "\<not> cl_closed demo_client"
    by (simp_all add: demo_client_def LocalController_init_def SessionOutputBuffer_new_def)
  from local_controller_streams_output [OF inv _ _ _ _ out state f]
  have "cl_sent lc' @ concat (cl_pending_output lc') = ''cde''"
    by (simp add: SessionOutputBuffer_new_def demo_client_def LocalController_init_def)
  then show ?thesis using f by simp
qed

end
