(* ===== verification/Spec2Isabelle.thy ===== *)
theory Spec2Isabelle
  imports Command_Properties Command_Line Daemon_Requests Serve_Log Evidence_Route Http_Properties Http_Router Http_Documents Http_Handlers Http_Support Server_Clients WebSocket_Sessions Local_Controller Client_Protocol Manager_Properties Observations Document_Stores Targets
begin

text \<open>
  A verification development of Sentrits-Core, the daemon that runs coding-agent sessions in
  pseudo-terminals, records their output, and serves them to paired devices. Paths below are
  under \<open>src/\<close> of the repository; headers are under \<open>include/vibe/\<close>.

  \<^bold>\<open>The program.\<close> A \<^emph>\<open>session\<close> is a process in a pseudo-terminal
  (\<open>session/session_runtime\<close>) whose output goes to a bounded buffer of numbered chunks
  (\<open>session/session_output_buffer\<close>) and to a terminal emulator
  (\<open>session/terminal_multiplexer\<close>); or a log process, whose output is cut into lines
  (\<open>service/log_buffer\<close>). The \<^emph>\<open>session manager\<close> (\<open>service/session_manager\<close>) keeps the registry of
  sessions: it creates them with an environment that the resolver has put together
  (\<open>session/env_resolver\<close>), polls them, arbitrates which client controls a session, answers
  evidence queries, and writes every session to the session store
  (\<open>store/file_stores\<close>). Clients reach the manager through the \<^emph>\<open>server\<close> (\<open>net/http_server\<close>,
  \<open>net/http_shared\<close>): by HTTP, by WebSocket (observers, remote controllers, overview sessions), and
  by the local controller socket, whose other end is the attach client
  (\<open>cli/daemon_client\<close>). Devices are paired and their tokens checked by \<open>auth/\<close>.

  \<^bold>\<open>Theories, from the bottom up.\<close>
  \<^item> \<open>Prelude\<close>: bytes, C-locale character classes, unsigned 64-bit arithmetic with its wrap-around,
    substring search, decimal printing, paths, lemmas on lists, and the rewrite collection that the
    other theories extend. \<open>Evicting_Queues\<close>: the locales of the bounded buffers.
  \<^item> \<open>Session_Types\<close>, \<open>Lifecycle\<close>, \<open>Session_Record\<close>: \<open>session/session_types\<close>,
    \<open>session/session_lifecycle\<close>, \<open>session/session_record\<close>. The lifecycle is a table and a step
    relation; the published status of a record is the state of its lifecycle.
  \<^item> \<open>Output_Buffer\<close>: \<open>session/session_output_buffer\<close>; \<open>Log_Buffer\<close>: \<open>service/log_buffer\<close>;
    \<open>Observations\<close>: \<open>service/observation_store\<close> and \<open>service/evidence_response_assembler\<close>;
    \<open>Evidence\<close>: \<open>service/evidence.h\<close>.
  \<^item> \<open>Utf8\<close>, \<open>Terminal_Screen\<close>, \<open>Terminal_Multiplexer\<close>: \<open>session/terminal_multiplexer\<close>. The
    encoder works on 32-bit words; the emulator (libvterm) is a record of functions.
  \<^item> \<open>Env_File\<close>, \<open>Environment\<close>: \<open>session/env_file_parser\<close>, \<open>env_config\<close>, \<open>env_resolver\<close>,
    \<open>provider_config\<close>, \<open>launch_spec\<close>, \<open>bootstrapped_env_cache\<close>.
  \<^item> \<open>Session_Runtime\<close>: \<open>session/session_runtime\<close>, over a record of functions for the PTY
    (\<open>session/pty_process.h\<close>).
  \<^item> \<open>Host_Config\<close>, \<open>Base64\<close>, \<open>Json_Value\<close>, \<open>Store_Json\<close>, \<open>File_System\<close>, \<open>File_Stores\<close>,
    \<open>Document_Stores\<close>: \<open>store/\<close>. \<open>File_System\<close> models the calls of \<open>std::filesystem\<close> and of the
    streams, each of which can fail; the stores are functions on its state.
  \<^item> \<open>Pairing\<close>: \<open>auth/\<close>.
  \<^item> \<open>Targets\<close>, \<open>Requests\<close>: \<open>net/request_parsing\<close>, \<open>net/websocket_shared\<close>, \<open>net/discovery\<close>,
    \<open>service/git_inspector\<close>, and the resolution of launch requests in \<open>net/http_shared\<close>.
  \<^item> \<open>Session_Assessment\<close> (the pure helpers), \<open>Session_Manager\<close> (state and operations),
    \<open>Manager_Invariant\<close>, \<open>Manager_Properties\<close>: \<open>service/session_manager\<close>.
  \<^item> \<open>Json_Output\<close>: \<open>net/json\<close>, the documents the daemon sends.
  \<^item> \<open>Client_Protocol\<close>: \<open>cli/daemon_client\<close>, the attach client.
  \<^item> \<open>Local_Controller\<close>, \<open>WebSocket_Sessions\<close>, \<open>Server_Clients\<close>: \<open>net/http_server\<close> and the relay
    tokens of \<open>net/hub_control_channel\<close>: one theory for the local controller socket, one for the
    WebSocket sessions, one for the registries, the administration and the pump that connect them.
  \<^item> \<open>Http_Support\<close>, \<open>Http_Handlers\<close>, \<open>Http_Documents\<close>, \<open>Http_Router\<close>: \<open>net/http_shared\<close> and
    \<open>net/local_auth\<close>: the checks of a request and its responses; the handlers of pairing, host,
    sessions, files and static files; the documents that they send; and \<open>HandleRequest\<close>, the chain of
    routes, on the state of the server. \<open>Evidence_Route\<close> holds the lemmas on its query parameters,
    \<open>Http_Properties\<close> proves what a request can do.
  \<^item> \<open>Daemon_Requests\<close>: \<open>cli/daemon_client_http\<close>, the HTTP client of the command line: the targets and
    bodies that it writes, the parser of responses, the receive loop over the reads of a connection.
  \<^item> \<open>Serve_Log\<close>: the mirror of the daemon's output in \<open>main.cpp\<close>, a tee of the console and a file that
    is rotated, on the disk of \<open>File_System\<close>.
  \<^item> \<open>Command_Line\<close>: the rest of \<open>main.cpp\<close>: options, settings of \<open>serve\<close>, the service unit, and every
    command from its arguments to what it prints and how it ends. \<open>Command_Properties\<close> runs it with the
    router as its network.

  \<^bold>\<open>State.\<close> A class is a record with the members of the class; a method takes the record and returns
  the changed one. Objects that the code shares by pointer are kept once, in the object that owns
  them: the manager holds the entries of sessions, the server holds the manager. A \<open>weak_ptr\<close> to a
  client is a number, expired when no object has it. Interleaving is explicit: \<open>manager_step\<close>,
  \<open>local_step\<close>, \<open>client_step\<close> and \<open>server_step\<close> have one rule per operation or completion handler, so
  that an invariant of the reachable states holds for every order of events. The server runs on one
  thread; handlers do not interleave below that level.

  \<^bold>\<open>Errors.\<close> \<open>std::optional\<close> is \<open>option\<close>; an operation with an error text returns a sum. An exception
  that leaves the function is \<open>None\<close> where the code lets it escape. In the HTTP theories a handler
  returns the state with the reply, and the reply \<open>None\<close> is an exception that leaves \<open>HandleRequest\<close>. Unsigned sums that the code lets
  wrap are written with the wrap-around (\<open>u64_add\<close>).

  \<^bold>\<open>Interfaces.\<close> \<open>evicting_queue\<close> and its extension \<open>numbered_queue\<close> state what a bounded buffer promises;
  they are interpreted on the output buffer, the log buffer, the observation store and the
  scrollback. \<open>pairing_store\<close> is the contract that the pairing service relies on, interpreted on the
  file store. \<open>json_lib\<close> and \<open>json_lib_strict\<close> state what the code relies on of \<open>boost::json\<close>
  (serialise, then parse; only UTF-8 is parsed); they are interpreted on an executable library,
  \<open>unary_json\<close>, which shows that the hypotheses can hold and lets the witnesses compute.

  \<^bold>\<open>What the lemmas show.\<close>
  \<^item> Buffers: what is retained is the end of the stream; chunks and lines are numbered without gaps; the
    observation store holds the end of a list that is specified without it; the lines of a log do not depend on how the stream was cut into reads.
  \<^item> Sessions: every reachable runtime and every reachable manager is consistent; a poll returns
    exactly when the terminal pauses; shutdown ends every session.
  \<^item> Control: a client that does not hold control cannot send input by a socket; the manager gives
    control to one client at a time; polling leaves a session alone while a privileged controller drives it.
  \<^item> Stores: readers undo writers; the session store refines a finite map; a write by the temporary
    file leaves the old content, the new content or no file under the failures of single calls, as long as no flush
    is lost when a file is closed (which the program does not notice; the theorems on the stores assume it, as
    \<open>reliable\<close>); names of files stay inside their directory.
  \<^item> Pairing: every token that is accepted came from an approval with the right code, and a relay
    token is accepted once.
  \<^item> Clients: what the daemon frames, the client reads; the listing of clients shows the registered
    ones in their order; disconnecting a client removes that client and no other; a round of the pump
    brings every observer the output that the session produced.
  \<^item> HTTP: a request without a token can only ask for a pairing; only a POST that is authorised to control sessions
    (or to administer the host) changes a session, but for the size of a view; no
    request to the remote listener adds a device; the asset route reads files outside its directory.
  \<^item> Command line: a question about evidence reaches the manager as it was asked; a response is put
    together again from any reads; renaming the host changes its name and nothing else, from the
    arguments of the command to the file of the daemon; the log files hold the end of what was printed.
  \<^item> Errors: the documents that cannot be produced, the races of the local controller, and the
    checks of control that are missing, the commands that never succeed, and the console that falls silent with its log, each as
    a theorem with a concrete run.

  \<^bold>\<open>Bounds and loops.\<close> The poll loop of a runtime can run for ever when the process never pauses; it is
  a partial function, and \<open>poll_once_returns_iff_burst_ends\<close> says when it returns. \<open>MakeSessionId\<close>
  and the other searches for free names have the bound that the code has. The output buffer of a
  session holds the capacity it is created with (8 MiB in the manager), the scrollback, the log buffer and
  the observation store the bounds of their constructors; the theorems hold for every bound, and the witnesses
  take small ones.

  \<^bold>\<open>Parameters.\<close> The terminal emulator, the PTY, the log process, \<open>boost::json\<close>, the clocks, the random
  bits, the shell that prints its environment, \<open>git\<close>, the directory watcher, the path of the running
  program, and the network between the command line and the daemon are arguments of the definitions that
  use them.

  \<^bold>\<open>Not modelled.\<close> The sockets and TLS streams of Boost.Asio and Beast (a handler is an operation; when it
  runs is the order of steps), with the listeners and the run loop of \<open>net/http_server\<close>. \<open>session/posix_pty_process\<close>, \<open>session/pty_process_factory\<close>,
  \<open>service/managed_log_process\<close> and \<open>service/workspace_file_watcher\<close> are system calls behind interfaces
  that the model takes as parameters. \<open>net/hub_client\<close>, \<open>net/discovery_broadcaster\<close> and the
  socket part of \<open>net/hub_control_channel\<close> are outgoing connections. Of \<open>main.cpp\<close>, the loop of
  \<open>local-pty\<close>, the terminal modes, the signals and the macOS service file are left out, and so are the
  diagnostics that the HTTP client prints; a command that attaches, observes or serves ends, in the model,
  in the call of that loop. The terminal handling of the attach client is glue; \<open>session/terminal_debug_artifact\<close>,
  \<open>base/debug_trace.h\<close> and \<open>tools/supervision_probe\<close> are diagnostics.
\<close>

end
